(* ===== verification/Prelude.thy ===== *)
theory Prelude
  imports Main "HOL-Library.Word" "HOL-Library.State_Monad" "HOL-Library.Multiset"
begin

text \<open>
  Shared vocabulary of the development: the C integer types, the kernel's error
  numbers, the bit and mask macros, and the generic lemmas on lists and words that
  the component theories use.
\<close>

unbundle bit_operations_syntax

section \<open>Integer types and error numbers\<close>

type_synonym u8 = "8 word"
type_synonym u16 = "16 word"
type_synonym u32 = "32 word"

text \<open>
  An \<open>int\<close> return code is a HOL \<open>int\<close>: 0 for success, minus an error number for a
  failure, as in the sources. The numbers are those of the Linux generic ABI.
\<close>

abbreviation ENOENT :: int where "ENOENT \<equiv> 2"
abbreviation EIO :: int where "EIO \<equiv> 5"
abbreviation EAGAIN :: int where "EAGAIN \<equiv> 11"
abbreviation ENOMEM :: int where "ENOMEM \<equiv> 12"
abbreviation EBUSY :: int where "EBUSY \<equiv> 16"
abbreviation ENODEV :: int where "ENODEV \<equiv> 19"
abbreviation EINVAL :: int where "EINVAL \<equiv> 22"
abbreviation ENOSPC :: int where "ENOSPC \<equiv> 28"
abbreviation EPIPE :: int where "EPIPE \<equiv> 32"
abbreviation ETIME :: int where "ETIME \<equiv> 62"
abbreviation ECOMM :: int where "ECOMM \<equiv> 70"
abbreviation EPROTO :: int where "EPROTO \<equiv> 71"
abbreviation EOVERFLOW :: int where "EOVERFLOW \<equiv> 75"
abbreviation EILSEQ :: int where "EILSEQ \<equiv> 84"
abbreviation ESHUTDOWN :: int where "ESHUTDOWN \<equiv> 108"
abbreviation ETIMEDOUT :: int where "ETIMEDOUT \<equiv> 110"
abbreviation EOPNOTSUPP :: int where "EOPNOTSUPP \<equiv> 95"
abbreviation EALREADY :: int where "EALREADY \<equiv> 114"
abbreviation EINPROGRESS :: int where "EINPROGRESS \<equiv> 115"

section \<open>Interface types of cfg80211\<close>

datatype nl80211_iftype =
    NL80211_IFTYPE_UNSPECIFIED | NL80211_IFTYPE_ADHOC | NL80211_IFTYPE_STATION
  | NL80211_IFTYPE_AP | NL80211_IFTYPE_AP_VLAN | NL80211_IFTYPE_WDS | NL80211_IFTYPE_MONITOR
  | NL80211_IFTYPE_MESH_POINT | NL80211_IFTYPE_P2P_CLIENT | NL80211_IFTYPE_P2P_GO
  | NL80211_IFTYPE_P2P_DEVICE | NL80211_IFTYPE_OCB | NL80211_IFTYPE_NAN

section \<open>Bits and masks\<close>

definition BIT :: "nat \<Rightarrow> 'a::len word" where
  "BIT n = push_bit n 1"

definition GENMASK :: "nat \<Rightarrow> nat \<Rightarrow> 'a::len word" where
  "GENMASK h l = push_bit l (mask (Suc h - l))"

lemma bit_BIT_iff [bit_simps]:
  "bit (BIT n :: 'a::len word) k \<longleftrightarrow> k = n \<and> k < LENGTH('a)"
  by (auto simp: BIT_def bit_simps)

lemma bit_GENMASK_iff [bit_simps]:
  "bit (GENMASK h l :: 'a::len word) k \<longleftrightarrow> l \<le> k \<and> k \<le> h \<and> k < LENGTH('a)"
  by (auto simp: GENMASK_def bit_simps)

text \<open>C truth of a masked value: \<open>if (x & m)\<close>.\<close>

definition test_mask :: "'a::len word \<Rightarrow> 'a word \<Rightarrow> bool" where
  "test_mask x m \<longleftrightarrow> x AND m \<noteq> 0"

definition of_bool_w :: "bool \<Rightarrow> 'a::len word" where
  "of_bool_w b = (if b then 1 else 0)"

text \<open>\<open>ALIGN(x, 8)\<close> and \<open>round_up(x, 8)\<close> on an unsigned size.\<close>

definition align8 :: "nat \<Rightarrow> nat" where
  "align8 n = (n + 7) div 8 * 8"

lemma align8_ge: "n \<le> align8 n"
  unfolding align8_def by linarith

lemma align8_less: "align8 n < n + 8"
  unfolding align8_def by linarith

lemma align8_dvd: "8 dvd align8 n"
  by (simp add: align8_def)

lemma align8_pad: "align8 n - n < 8"
  using align8_less [of n] by linarith

section \<open>Little-endian bytes\<close>

fun le_word :: "u8 list \<Rightarrow> 'a::len word" where
  "le_word [] = 0"
| "le_word (b # bs) = ucast b OR push_bit 8 (le_word bs)"

definition le_bytes :: "nat \<Rightarrow> 'a::len word \<Rightarrow> u8 list" where
  "le_bytes n v = map (\<lambda>i. ucast (drop_bit (8 * i) v)) [0..<n]"

lemma length_le_bytes [simp]: "length (le_bytes n v) = n"
  by (simp add: le_bytes_def)

lemma le_bytes_0 [simp]: "le_bytes 0 v = []"
  by (simp add: le_bytes_def)

lemma le_bytes_Suc: "le_bytes (Suc n) v = ucast v # le_bytes n (drop_bit 8 v)"
  by (simp add: le_bytes_def upt_conv_Cons map_Suc_upt [symmetric] add.commute
      del: upt_Suc map_Suc_upt)

lemma bit_u8_less [simp]: "bit (b :: u8) k \<Longrightarrow> k < 8"
  using bit_imp_le_length [of b k] by simp

lemma le_word_le_bytes [simp]: "le_word (le_bytes n (v :: 'a::len word)) = take_bit (8 * n) v"
proof (induction n arbitrary: v)
  case 0
  then show ?case by simp
next
  case (Suc n)
  have "le_word (le_bytes (Suc n) v) = ucast (ucast v :: u8) OR push_bit 8 (take_bit (8 * n) (drop_bit 8 v))"
    by (simp add: le_bytes_Suc Suc.IH)
  also have "\<dots> = take_bit (8 * Suc n) v"
    by (rule bit_word_eqI) (auto simp: bit_simps)
  finally show ?case .
qed

lemma le_word_zeros [simp]: "le_word (bs @ replicate n 0) = le_word bs"
proof (induction bs)
  case Nil
  show ?case by (induction n) simp_all
next
  case (Cons b bs)
  then show ?case by simp
qed

lemma bit_le_word: "bit (le_word bs :: 'a::len word) k \<Longrightarrow> k < 8 * length bs"
proof (induction bs arbitrary: k)
  case Nil
  then show ?case by simp
next
  case (Cons b bs)
  from Cons.prems have "bit b k \<or> 8 \<le> k \<and> bit (le_word bs :: 'a word) (k - 8)"
    by (auto simp: bit_simps)
  then show ?case
  proof
    assume "bit b k"
    then have "k < 8" by simp
    then show ?thesis by simp
  next
    assume "8 \<le> k \<and> bit (le_word bs :: 'a word) (k - 8)"
    with Cons.IH [of "k - 8"] show ?thesis by auto
  qed
qed

lemma le_bytes_le_word:
  assumes "length bs \<le> n" and "8 * n \<le> LENGTH('a)"
  shows "le_bytes n (le_word bs :: 'a::len word) = bs @ replicate (n - length bs) 0"
  using assms
proof (induction n arbitrary: bs)
  case 0
  then show ?case by simp
next
  case (Suc n)
  show ?case
  proof (cases bs)
    case Nil
    have "le_bytes (Suc n) (0 :: 'a word) = replicate (Suc n) 0"
      by (simp add: le_bytes_def map_replicate_const del: upt_Suc)
    with Nil show ?thesis by simp
  next
    case (Cons b cs)
    have len: "8 \<le> LENGTH('a)"
      using Suc.prems by simp
    have "(ucast (le_word bs :: 'a word) :: u8) = b"
    proof (rule bit_word_eqI)
      fix k
      assume "k < LENGTH(8)"
      then have "k < 8" by simp
      with len show "bit (ucast (le_word bs :: 'a word) :: u8) k = bit b k"
        by (simp add: Cons bit_simps)
    qed
    moreover have "drop_bit 8 (le_word bs :: 'a word) = le_word cs"
    proof (rule bit_word_eqI)
      fix k
      have b: "\<not> bit b (8 + k)"
        using bit_imp_le_length [of b "8 + k"] by auto
      have "bit (le_word cs :: 'a word) k \<Longrightarrow> 8 + k < LENGTH('a)"
        using bit_le_word [of cs k, where ?'a = 'a] Suc.prems by (simp add: Cons)
      with b show "bit (drop_bit 8 (le_word bs :: 'a word)) k = bit (le_word cs :: 'a word) k"
        by (auto simp: Cons bit_simps)
    qed
    ultimately show ?thesis
      using Suc by (simp add: le_bytes_Suc Cons)
  qed
qed

lemma ucast16_ucast32: "ucast (ucast (a :: u32) :: u16) = take_bit 16 a"
  by (rule bit_word_eqI) (auto simp: bit_simps)

lemma ucast8_ucast32: "ucast (ucast (a :: u32) :: u8) = take_bit 8 a"
  by (rule bit_word_eqI) (auto simp: bit_simps)

lemma ucast_u8_u32_u8 [simp]: "(ucast (ucast (x :: u8) :: u32) :: u8) = x"
  by (rule bit_word_eqI) (auto simp: bit_simps)

lemma ucast_u8_u32_inject: "(ucast (x :: u8) :: u32) = ucast y \<longleftrightarrow> x = y"
proof
  assume "(ucast x :: u32) = ucast y"
  then have "(ucast (ucast x :: u32) :: u8) = ucast (ucast y :: u32)"
    by (rule arg_cong)
  then show "x = y"
    by (simp only: ucast_u8_u32_u8)
qed (rule arg_cong)

lemma take_bit_16_self: "a < 0x10000 \<Longrightarrow> take_bit 16 (a :: u32) = a"
  by (simp add: take_bit_word_eq_self word_less_nat_alt word_unat_eq_iff unsigned_take_bit_eq
      take_bit_nat_eq_self)

section \<open>Lists\<close>

lemma nth_list_update_iff:
  "j < length xs \<Longrightarrow> (xs[i := x]) ! j = (if i = j then x else xs ! j)"
  by simp

lemma mset_concat_update:
  assumes "i < length qs"
  shows "mset (concat (qs[i := q])) + mset (qs ! i) = mset (concat qs) + mset q"
  using assms
proof (induction qs arbitrary: i)
  case Nil
  then show ?case by simp
next
  case (Cons p ps)
  then show ?case
    by (cases i) (auto simp: ac_simps)
qed

lemma mset_concat_nth_subset: "i < length qs \<Longrightarrow> mset (qs ! i) \<subseteq># mset (concat qs)"
  by (induction qs arbitrary: i) (auto simp: less_Suc_eq_0_disj subset_mset.add_increasing2
      subset_mset.add_increasing)

lemma distinct_if_count_le_1: "(\<And>x. count (mset xs) x \<le> 1) \<Longrightarrow> distinct xs"
proof (induction xs)
  case Nil
  then show ?case by simp
next
  case (Cons a xs)
  from Cons.prems [of a] have "a \<notin> set xs"
    by (auto simp: count_eq_zero_iff [symmetric])
  moreover have "distinct xs"
  proof (rule Cons.IH)
    fix x
    have "count (mset xs) x \<le> count (mset (a # xs)) x" by simp
    also have "\<dots> \<le> 1" by (rule Cons.prems)
    finally show "count (mset xs) x \<le> 1" .
  qed
  ultimately show ?case by simp
qed

text \<open>A statement about all indices below a bound, as a list predicate: the form of the concrete instances.\<close>

lemma list_all_upt: "list_all P [0..<n] \<longleftrightarrow> (\<forall>i < n. P i)"
  by (auto simp: list_all_iff)

section \<open>State transformers\<close>

lemma state_eqI: "(\<And>s. run_state m s = run_state m' s) \<Longrightarrow> m = m'"
  by (cases m; cases m') (auto simp: fun_eq_iff)

section \<open>Bits of numerals\<close>

lemma and_BIT_eq_0_iff: "w AND BIT i = 0 \<longleftrightarrow> \<not> bit w i" for w :: "'a::len word"
proof -
  have "bit w i \<Longrightarrow> bit (w AND BIT i) i"
    by (auto simp: bit_simps dest: bit_imp_le_length)
  moreover have "\<not> bit w i \<Longrightarrow> w AND BIT i = 0"
    by (rule bit_word_eqI) (auto simp: bit_simps)
  ultimately show ?thesis
    by auto
qed

lemma bit_low_masks [bit_simps]:
  "bit (0xf :: int) n \<longleftrightarrow> n < 4" "bit (0xf0 :: int) n \<longleftrightarrow> 4 \<le> n \<and> n < 8" "bit (0x1f :: int) n \<longleftrightarrow> n < 5"
  "bit (7 :: int) n \<longleftrightarrow> n < 3" "bit (0xff :: int) n \<longleftrightarrow> n < 8"
    "bit (0x78 :: int) n \<longleftrightarrow> 3 \<le> n \<and> n < 7"
proof -
  have e: "(0xf :: int) = mask 4" "(0xf0 :: int) = push_bit 4 (mask 4)" "(0x1f :: int) = mask 5"
      "(7 :: int) = mask 3" "(0xff :: int) = mask 8" "(0x78 :: int) = push_bit 3 (mask 4)"
    by (simp_all add: mask_eq_exp_minus_1)
  show "bit (0xf :: int) n \<longleftrightarrow> n < 4" "bit (0xf0 :: int) n \<longleftrightarrow> 4 \<le> n \<and> n < 8" "bit (0x1f :: int) n \<longleftrightarrow> n < 5"
    "bit (7 :: int) n \<longleftrightarrow> n < 3" "bit (0xff :: int) n \<longleftrightarrow> n < 8"
    "bit (0x78 :: int) n \<longleftrightarrow> 3 \<le> n \<and> n < 7"
    unfolding e by (auto simp: bit_simps)
qed

lemma drop_bit_eq_0_bit: "drop_bit k (w :: 'a::len word) = 0 \<Longrightarrow> k \<le> n \<Longrightarrow> \<not> bit w n"
  using bit_drop_bit_eq [of k w] by (metis bit_0_eq bot_apply bot_bool_def comp_apply le_Suc_ex)

end
