(* ===== verification/Bitfield.thy ===== *)
theory Bitfield
  imports Prelude
begin

text \<open>
  The typed bit-field accessors of \<open>bitfield.h\<close>: \<open>field_multiplier\<close>, \<open>field_mask\<close> and
  the \<open>*_encode_bits\<close>, \<open>*_replace_bits\<close>, \<open>*_get_bits\<close> family, for any word width
  (the little-endian variants read and write the same value on the CPU side). The
  lemmas give each accessor its meaning on a contiguous \<open>GENMASK(h, l)\<close> field.
\<close>

definition field_multiplier :: "'a::len word \<Rightarrow> 'a word" where
  "field_multiplier field = field AND (- field)"

definition field_mask :: "'a::len word \<Rightarrow> 'a word" where
  "field_mask field = field div field_multiplier field"

definition encode_bits :: "'a::len word \<Rightarrow> 'a word \<Rightarrow> 'a word" where
  "encode_bits v field = (v AND field_mask field) * field_multiplier field"

definition replace_bits :: "'a::len word \<Rightarrow> 'a word \<Rightarrow> 'a word \<Rightarrow> 'a word" where
  "replace_bits old v field = (old AND NOT field) OR encode_bits v field"

definition get_bits :: "'a::len word \<Rightarrow> 'a word \<Rightarrow> 'a word" where
  "get_bits v field = (v AND field) div field_multiplier field"

section \<open>Meaning on a contiguous field\<close>

lemma mask_and_uminus:
  assumes "0 < w"
  shows "mask w AND (- mask w) = (1 :: 'a::len word)"
proof -
  have odd: "bit (mask w :: 'a word) 0"
    using assms by (simp add: bit_simps)
  have "(mask w AND 1) + (mask w AND NOT 1) = (mask w :: 'a word)"
    by (subst disjunctive_add_eq_or) (auto intro!: bit_word_eqI simp: bit_simps)
  moreover have "mask w AND 1 = (1 :: 'a word)"
    using odd by (auto intro!: bit_word_eqI simp: bit_simps)
  ultimately have "(mask w :: 'a word) - 1 = mask w AND NOT 1"
    by (metis add_diff_cancel_left')
  then have "- (mask w :: 'a word) = NOT (mask w AND NOT 1)"
    by (simp only: minus_eq_not_minus_1)
  then have "mask w AND (- mask w) = mask w AND NOT (mask w AND NOT (1 :: 'a word))"
    by (simp only:)
  also have "\<dots> = 1"
    by (rule bit_word_eqI) (use assms in \<open>auto simp: bit_simps bit_1_iff\<close>)
  finally show ?thesis .
qed

lemma field_multiplier_GENMASK:
  assumes "l \<le> h"
  shows "field_multiplier (GENMASK h l :: 'a::len word) = 2 ^ l"
proof -
  have "- (GENMASK h l :: 'a word) = push_bit l (- mask (Suc h - l))"
    by (simp add: GENMASK_def push_bit_minus)
  then have "field_multiplier (GENMASK h l :: 'a word)
      = push_bit l (mask (Suc h - l) AND (- mask (Suc h - l)))"
    by (simp add: field_multiplier_def GENMASK_def push_bit_and)
  with assms show ?thesis
    by (simp add: mask_and_uminus push_bit_eq_mult)
qed

lemma field_mask_GENMASK:
  assumes "l \<le> h" and "h < LENGTH('a)"
  shows "field_mask (GENMASK h l :: 'a::len word) = mask (Suc h - l)"
proof -
  have "field_mask (GENMASK h l :: 'a word) = drop_bit l (GENMASK h l)"
    using assms by (simp add: field_mask_def field_multiplier_GENMASK drop_bit_eq_div [symmetric])
  also have "\<dots> = mask (Suc h - l)"
    using assms by (auto intro!: bit_word_eqI simp: bit_simps)
  finally show ?thesis .
qed

lemma get_bits_GENMASK:
  assumes "l \<le> h" and "h < LENGTH('a)"
  shows "get_bits (v :: 'a::len word) (GENMASK h l) = take_bit (Suc h - l) (drop_bit l v)"
  using assms
  by (auto simp: get_bits_def field_multiplier_GENMASK drop_bit_eq_div [symmetric] bit_eq_iff bit_simps)

lemma encode_bits_GENMASK:
  assumes "l \<le> h" and "h < LENGTH('a)"
  shows "encode_bits (v :: 'a::len word) (GENMASK h l) = push_bit l (take_bit (Suc h - l) v)"
proof -
  have "encode_bits v (GENMASK h l) = (v AND mask (Suc h - l)) * 2 ^ l"
    using assms by (simp add: encode_bits_def field_multiplier_GENMASK field_mask_GENMASK)
  also have "\<dots> = push_bit l (take_bit (Suc h - l) v)"
    by (simp add: push_bit_eq_mult take_bit_eq_mask mult.commute)
  finally show ?thesis .
qed

lemma BIT_eq_GENMASK: "(BIT n :: 'a::len word) = GENMASK n n"
  by (rule bit_word_eqI) (auto simp: bit_simps)

text \<open>Bit-level reading of the accessors, for the solver.\<close>

named_theorems field_bits \<open>bit-level meaning of the field accessors\<close>

lemma bit_get_bits [field_bits]:
  assumes "l \<le> h" and "h < LENGTH('a)"
  shows "bit (get_bits (v :: 'a::len word) (GENMASK h l)) k \<longleftrightarrow> k \<le> h - l \<and> bit v (l + k)"
  using assms by (auto simp: get_bits_GENMASK bit_simps)

lemma bit_encode_bits [field_bits]:
  assumes "l \<le> h" and "h < LENGTH('a)"
  shows "bit (encode_bits (v :: 'a::len word) (GENMASK h l)) k
    \<longleftrightarrow> l \<le> k \<and> k \<le> h \<and> bit v (k - l)"
  using assms by (auto simp: encode_bits_GENMASK bit_simps)

section \<open>Round trips\<close>

lemma get_encode_bits:
  assumes "l \<le> h" and "h < LENGTH('a)"
  shows "get_bits (encode_bits (v :: 'a::len word) (GENMASK h l)) (GENMASK h l)
    = take_bit (Suc h - l) v"
  using assms by (auto intro!: bit_word_eqI simp: bit_simps field_bits)

lemma get_or_disjoint:
  assumes "l \<le> h" and "h < LENGTH('a)" and "y AND GENMASK h l = 0"
  shows "get_bits ((x :: 'a::len word) OR y) (GENMASK h l) = get_bits x (GENMASK h l)"
proof -
  have "(x OR y) AND GENMASK h l = x AND GENMASK h l"
    using assms(3) by (simp add: bit.conj_disj_distrib2)
  then show ?thesis
    by (simp add: get_bits_def)
qed

lemma encode_and_disjoint:
  assumes "l \<le> h" and "h < LENGTH('a)" and "h' < l \<or> h < l'"
    and "l' \<le> h'" and "h' < LENGTH('a)"
  shows "encode_bits (v :: 'a::len word) (GENMASK h' l') AND GENMASK h l = 0"
  using assms by (auto intro!: bit_word_eqI simp: bit_simps field_bits)

lemma replace_bits_other:
  assumes "l \<le> h" and "h < LENGTH('a)" and "h' < l \<or> h < l'"
    and "l' \<le> h'" and "h' < LENGTH('a)"
  shows "get_bits (replace_bits (old :: 'a::len word) v (GENMASK h' l')) (GENMASK h l)
    = get_bits old (GENMASK h l)"
  using assms by (auto intro!: bit_word_eqI simp: bit_simps field_bits replace_bits_def)

lemma replace_bits_same:
  assumes "l \<le> h" and "h < LENGTH('a)"
  shows "get_bits (replace_bits (old :: 'a::len word) v (GENMASK h l)) (GENMASK h l)
    = take_bit (Suc h - l) v"
  using assms by (auto intro!: bit_word_eqI simp: bit_simps field_bits replace_bits_def)

text \<open>
  Rules that evaluate a field of a word built by \<open>|\<close> from encoded fields: the simplifier
  compares the bounds of the fields and never looks at single bits.
\<close>

named_theorems field_rules \<open>reading a field of an assembled word\<close>

lemma get_bits_or [field_rules]:
  assumes "l \<le> h" and "h < LENGTH('a)"
  shows "get_bits ((x :: 'a::len word) OR y) (GENMASK h l)
    = get_bits x (GENMASK h l) OR get_bits y (GENMASK h l)"
  using assms by (auto intro!: bit_word_eqI simp: bit_simps field_bits)

lemma get_bits_zero [field_rules]: "get_bits 0 field = 0"
  by (simp add: get_bits_def)

lemma get_encode_bits_same [field_rules]:
  assumes "l \<le> h" and "h < LENGTH('a)"
  shows "get_bits (encode_bits (v :: 'a::len word) (GENMASK h l)) (GENMASK h l)
    = take_bit (Suc h - l) v"
  using assms by (rule get_encode_bits)

lemma get_encode_bits_other [field_rules]:
  assumes "l \<le> h" and "h < LENGTH('a)" and "l' \<le> h'" and "h' < LENGTH('a)"
    and "h' < l \<or> h < l'"
  shows "get_bits (encode_bits (v :: 'a::len word) (GENMASK h' l')) (GENMASK h l) = 0"
  using assms by (auto intro!: bit_word_eqI simp: bit_simps field_bits)

lemmas [field_rules] = BIT_eq_GENMASK replace_bits_same replace_bits_other

end
