(* ===== verification/Regio.thy ===== *)
theory Regio
  imports Bitfield
begin

text \<open>
  Register access as the core modules see it (\<open>hci.h\<close>). The adapter is a parameter:
  a function from the history of accesses to the answer of the next read. Every access
  is recorded, so a routine's effect on the hardware is the list of accesses it adds.
  A routine is a state transformer over any record that extends \<open>hw\<close>.

  The locale \<open>reg_bus\<close> states what the core relies on from a host interface: each read
  and each write is one access of the right width, address and value. It is interpreted
  here on the recording bus, and in \<open>UsbCtrl\<close> on the USB control transfers.
\<close>

datatype io =
    Rd nat u32 u32   \<comment> \<open>width in bytes, address, value returned\<close>
  | Wr nat u32 u32   \<comment> \<open>width in bytes, address, value written\<close>
  | Delay int        \<comment> \<open>a delay in microseconds\<close>

record hw =
  io_log :: "io list"
  dev_read :: "io list \<Rightarrow> nat \<Rightarrow> u32 \<Rightarrow> u32"

section \<open>Single accesses\<close>

definition hci_read :: "nat \<Rightarrow> u32 \<Rightarrow> 'x hw_scheme \<Rightarrow> u32 \<times> 'x hw_scheme" where
  "hci_read w a s =
     (let v = take_bit (8 * w) (dev_read s (io_log s) w a)
      in (v, s\<lparr>io_log := io_log s @ [Rd w a v]\<rparr>))"

definition hci_write :: "nat \<Rightarrow> u32 \<Rightarrow> u32 \<Rightarrow> 'x hw_scheme \<Rightarrow> 'x hw_scheme" where
  "hci_write w a v s = s\<lparr>io_log := io_log s @ [Wr w a (take_bit (8 * w) v)]\<rparr>"

definition rtw_read8 :: "u32 \<Rightarrow> ('x hw_scheme, u8) state" where
  "rtw_read8 a = State (\<lambda>s. case hci_read 1 a s of (v, s') \<Rightarrow> (ucast v, s'))"

definition rtw_read16 :: "u32 \<Rightarrow> ('x hw_scheme, u16) state" where
  "rtw_read16 a = State (\<lambda>s. case hci_read 2 a s of (v, s') \<Rightarrow> (ucast v, s'))"

definition rtw_read32 :: "u32 \<Rightarrow> ('x hw_scheme, u32) state" where
  "rtw_read32 a = State (hci_read 4 a)"

definition rtw_write8 :: "u32 \<Rightarrow> u8 \<Rightarrow> ('x hw_scheme, unit) state" where
  "rtw_write8 a v = State (\<lambda>s. ((), hci_write 1 a (ucast v) s))"

definition rtw_write16 :: "u32 \<Rightarrow> u16 \<Rightarrow> ('x hw_scheme, unit) state" where
  "rtw_write16 a v = State (\<lambda>s. ((), hci_write 2 a (ucast v) s))"

definition rtw_write32 :: "u32 \<Rightarrow> u32 \<Rightarrow> ('x hw_scheme, unit) state" where
  "rtw_write32 a v = State (\<lambda>s. ((), hci_write 4 a v s))"

text \<open>The kernel's delays (\<open>udelay\<close>, \<open>mdelay\<close>, \<open>msleep\<close>, \<open>usleep_range\<close>) touch no register.\<close>

definition delay_us :: "int \<Rightarrow> ('x hw_scheme, unit) state" where
  "delay_us n = State (\<lambda>s. ((), s\<lparr>io_log := io_log s @ [Delay n]\<rparr>))"

section \<open>Read-modify-write helpers of hci.h\<close>

definition rtw_write8_set :: "u32 \<Rightarrow> u8 \<Rightarrow> ('x hw_scheme, unit) state" where
  "rtw_write8_set addr b = do { val \<leftarrow> rtw_read8 addr; rtw_write8 addr (val OR b) }"

definition rtw_write16_set :: "u32 \<Rightarrow> u16 \<Rightarrow> ('x hw_scheme, unit) state" where
  "rtw_write16_set addr b = do { val \<leftarrow> rtw_read16 addr; rtw_write16 addr (val OR b) }"

definition rtw_write32_set :: "u32 \<Rightarrow> u32 \<Rightarrow> ('x hw_scheme, unit) state" where
  "rtw_write32_set addr b = do { val \<leftarrow> rtw_read32 addr; rtw_write32 addr (val OR b) }"

definition rtw_write8_clr :: "u32 \<Rightarrow> u8 \<Rightarrow> ('x hw_scheme, unit) state" where
  "rtw_write8_clr addr b = do { val \<leftarrow> rtw_read8 addr; rtw_write8 addr (val AND NOT b) }"

definition rtw_write16_clr :: "u32 \<Rightarrow> u16 \<Rightarrow> ('x hw_scheme, unit) state" where
  "rtw_write16_clr addr b = do { val \<leftarrow> rtw_read16 addr; rtw_write16 addr (val AND NOT b) }"

definition rtw_write32_clr :: "u32 \<Rightarrow> u32 \<Rightarrow> ('x hw_scheme, unit) state" where
  "rtw_write32_clr addr b = do { val \<leftarrow> rtw_read32 addr; rtw_write32 addr (val AND NOT b) }"

text \<open>\<open>__ffs\<close>: the index of the lowest set bit (of no use on 0, as in the kernel).\<close>

definition ffs :: "'a::len word \<Rightarrow> nat" where
  "ffs m = length (takeWhile (\<lambda>i. \<not> bit m i) [0..<LENGTH('a)])"

definition rtw_read32_mask :: "u32 \<Rightarrow> u32 \<Rightarrow> ('x hw_scheme, u32) state" where
  "rtw_read32_mask addr mask' =
     do { orig \<leftarrow> rtw_read32 addr;
          State_Monad.return (drop_bit (ffs mask') (orig AND mask')) }"

definition rtw_read16_mask :: "u32 \<Rightarrow> u32 \<Rightarrow> ('x hw_scheme, u16) state" where
  "rtw_read16_mask addr mask' =
     do { orig \<leftarrow> rtw_read16 addr;
          State_Monad.return (ucast (drop_bit (ffs mask') ((ucast orig :: u32) AND mask'))) }"

definition rtw_read8_mask :: "u32 \<Rightarrow> u32 \<Rightarrow> ('x hw_scheme, u8) state" where
  "rtw_read8_mask addr mask' =
     do { orig \<leftarrow> rtw_read8 addr;
          State_Monad.return (ucast (drop_bit (ffs mask') ((ucast orig :: u32) AND mask'))) }"

definition mask_merge :: "u32 \<Rightarrow> u32 \<Rightarrow> u32 \<Rightarrow> u32" where
  "mask_merge orig mask' data =
     (orig AND NOT mask') OR (push_bit (ffs mask') data AND mask')"

definition rtw_write32_mask :: "u32 \<Rightarrow> u32 \<Rightarrow> u32 \<Rightarrow> ('x hw_scheme, unit) state" where
  "rtw_write32_mask addr mask' data =
     do { orig \<leftarrow> rtw_read32 addr;
          rtw_write32 addr (mask_merge orig mask' data) }"

definition rtw_write8_mask :: "u32 \<Rightarrow> u32 \<Rightarrow> u8 \<Rightarrow> ('x hw_scheme, unit) state" where
  "rtw_write8_mask addr mask0 data =
     (let mask' = mask0 AND 0xff
      in do { orig \<leftarrow> rtw_read8 addr;
              rtw_write8 addr (ucast (mask_merge (ucast orig) mask' (ucast data))) })"

section \<open>Running the accesses\<close>

lemmas hci_simps = hci_read_def hci_write_def Let_def

lemma take_bit_ucast8 [simp]: "take_bit 8 (ucast (v :: u8) :: u32) = ucast v"
  using bit_imp_le_length [of v] by (auto intro!: bit_word_eqI simp: bit_simps)

lemma take_bit_ucast16 [simp]: "take_bit 16 (ucast (v :: u16) :: u32) = ucast v"
  using bit_imp_le_length [of v] by (auto intro!: bit_word_eqI simp: bit_simps)

lemma ucast_take_bit8 [simp]: "(ucast (take_bit 8 (v :: u32)) :: u8) = ucast v"
  by (auto intro!: bit_word_eqI simp: bit_simps)

lemma ucast_take_bit16 [simp]: "(ucast (take_bit 16 (v :: u32)) :: u16) = ucast v"
  by (auto intro!: bit_word_eqI simp: bit_simps)

lemma run_rtw_read8 [simp]:
  "run_state (rtw_read8 a) s =
     (ucast (dev_read s (io_log s) 1 a),
      s\<lparr>io_log := io_log s @ [Rd 1 a (take_bit 8 (dev_read s (io_log s) 1 a))]\<rparr>)"
  by (simp add: rtw_read8_def hci_simps)

lemma run_rtw_read16 [simp]:
  "run_state (rtw_read16 a) s =
     (ucast (dev_read s (io_log s) 2 a),
      s\<lparr>io_log := io_log s @ [Rd 2 a (take_bit 16 (dev_read s (io_log s) 2 a))]\<rparr>)"
  by (simp add: rtw_read16_def hci_simps)

lemma run_rtw_read32 [simp]:
  "run_state (rtw_read32 a) s =
     (dev_read s (io_log s) 4 a,
      s\<lparr>io_log := io_log s @ [Rd 4 a (dev_read s (io_log s) 4 a)]\<rparr>)"
  by (simp add: rtw_read32_def hci_simps take_bit_word_eq_self)

lemma run_rtw_write8 [simp]:
  "run_state (rtw_write8 a v) s = ((), s\<lparr>io_log := io_log s @ [Wr 1 a (ucast v)]\<rparr>)"
  by (simp add: rtw_write8_def hci_simps)

lemma run_rtw_write16 [simp]:
  "run_state (rtw_write16 a v) s = ((), s\<lparr>io_log := io_log s @ [Wr 2 a (ucast v)]\<rparr>)"
  by (simp add: rtw_write16_def hci_simps)

lemma run_rtw_write32 [simp]:
  "run_state (rtw_write32 a v) s = ((), s\<lparr>io_log := io_log s @ [Wr 4 a v]\<rparr>)"
  by (simp add: rtw_write32_def hci_simps take_bit_word_eq_self)

lemma run_delay_us [simp]:
  "run_state (delay_us n) s = ((), s\<lparr>io_log := io_log s @ [Delay n]\<rparr>)"
  by (simp add: delay_us_def)

section \<open>Masked fields\<close>

lemma ffs_GENMASK:
  assumes "l \<le> h" and "h < LENGTH('a)"
  shows "ffs (GENMASK h l :: 'a::len word) = l"
proof -
  have split: "[0..<LENGTH('a)] = [0..<l] @ l # [Suc l..<LENGTH('a)]"
    using assms upt_add_eq_append [of 0 l "LENGTH('a) - l"] by (simp add: upt_conv_Cons)
  have "takeWhile (\<lambda>i. \<not> bit (GENMASK h l :: 'a word) i) [0..<LENGTH('a)] = [0..<l]"
    unfolding split using assms
    by (subst takeWhile_append2) (auto simp: bit_simps)
  then show ?thesis
    by (simp add: ffs_def)
qed

text \<open>
  A masked write keeps the bits outside the mask and puts the low bits of the data
  into the field, which the masked read then returns.
\<close>

lemma mask_merge_outside: "mask_merge orig m d AND NOT m = orig AND NOT m"
  by (auto intro!: bit_word_eqI simp: mask_merge_def bit_simps)

lemma mask_merge_field:
  assumes "l \<le> h" and "h < 32"
  shows "drop_bit l (mask_merge orig (GENMASK h l) d AND GENMASK h l) = take_bit (Suc h - l) d"
  using assms
  by (auto intro!: bit_word_eqI simp: mask_merge_def bit_simps ffs_GENMASK)

section \<open>What a routine may do to the hardware\<close>

text \<open>
  A frame is a relation between the states before and after a routine that is kept by doing
  nothing and by composition. The locale proves once how a frame follows the structure of a
  routine; its two interpretations are the frames the development uses.
\<close>

locale step_frame =
  fixes R :: "'s \<Rightarrow> 's \<Rightarrow> bool"
  assumes refl: "R s s"
    and trans: "R s s' \<Longrightarrow> R s' s'' \<Longrightarrow> R s s''"
begin

definition keeps :: "('s, 'a) state \<Rightarrow> bool" where
  "keeps m \<longleftrightarrow> (\<forall>s. R s (snd (run_state m s)))"

lemma keepsD: "keeps m \<Longrightarrow> run_state m s = (r, s') \<Longrightarrow> R s s'"
  unfolding keeps_def by (metis snd_conv)

lemma keeps_return: "keeps (State_Monad.return x)"
  by (simp add: keeps_def refl)

lemma keeps_bind:
  assumes "keeps m" and "\<And>x. keeps (f x)"
  shows "keeps (State_Monad.bind m f)"
  unfolding keeps_def
proof
  fix s
  obtain r s' where m: "run_state m s = (r, s')"
    by (cases "run_state m s")
  obtain r' s'' where f: "run_state (f r) s' = (r', s'')"
    by (cases "run_state (f r) s'")
  from trans [OF keepsD [OF assms(1) m] keepsD [OF assms(2) f]] m f
  show "R s (snd (run_state (State_Monad.bind m f) s))"
    by simp
qed

lemma keeps_if: "(b \<Longrightarrow> keeps m) \<Longrightarrow> (\<not> b \<Longrightarrow> keeps m') \<Longrightarrow> keeps (if b then m else m')"
  by simp

lemma keeps_option:
  "(x = None \<Longrightarrow> keeps m) \<Longrightarrow> (\<And>y. x = Some y \<Longrightarrow> keeps (f y)) \<Longrightarrow>
   keeps (case x of None \<Rightarrow> m | Some y \<Rightarrow> f y)"
  by (cases x) simp_all

lemma keeps_prod: "(\<And>y z. x = (y, z) \<Longrightarrow> keeps (f y z)) \<Longrightarrow> keeps (case x of (y, z) \<Rightarrow> f y z)"
  by (cases x) simp

lemma keeps_let: "(\<And>y. y = x \<Longrightarrow> keeps (f y)) \<Longrightarrow> keeps (let y = x in f y)"
  by simp

lemmas keeps_struct = keeps_return keeps_bind keeps_if keeps_option keeps_prod keeps_let

end

text \<open>
  \<open>acts P m\<close>: the accesses \<open>m\<close> appends to the log satisfy \<open>P\<close>, whatever the adapter
  answers. \<open>quiet m\<close>: \<open>m\<close> appends to the log and changes nothing else.
\<close>

definition acts_rel :: "(io \<Rightarrow> bool) \<Rightarrow> 'x hw_scheme \<Rightarrow> 'x hw_scheme \<Rightarrow> bool" where
  "acts_rel P s s' \<longleftrightarrow> dev_read s' = dev_read s \<and> (\<exists>l. io_log s' = io_log s @ l \<and> list_all P l)"

definition acts :: "(io \<Rightarrow> bool) \<Rightarrow> ('x hw_scheme, 'a) state \<Rightarrow> bool" where
  "acts P m \<longleftrightarrow> (\<forall>s. acts_rel P s (snd (run_state m s)))"

definition quiet_rel :: "'x hw_scheme \<Rightarrow> 'x hw_scheme \<Rightarrow> bool" where
  "quiet_rel s s' \<longleftrightarrow> (\<exists>l. s' = s\<lparr>io_log := io_log s @ l\<rparr>)"

definition quiet :: "('x hw_scheme, 'a) state \<Rightarrow> bool" where
  "quiet m \<longleftrightarrow> (\<forall>s. quiet_rel s (snd (run_state m s)))"

lemma acts_frame: "step_frame (acts_rel P)"
proof
  show "acts_rel P s s" for s :: "'x hw_scheme"
    by (simp add: acts_rel_def)
  show "acts_rel P s s''" if "acts_rel P s s'" and "acts_rel P s' s''" for s s' s'' :: "'x hw_scheme"
  proof -
    from that obtain l l' where "io_log s' = io_log s @ l" "list_all P l"
      "io_log s'' = io_log s' @ l'" "list_all P l'"
      by (auto simp: acts_rel_def)
    with that show ?thesis
      by (auto simp: acts_rel_def intro!: exI [of _ "l @ l'"])
  qed
qed

lemma quiet_frame: "step_frame (quiet_rel :: 'x hw_scheme \<Rightarrow> _)"
proof
  show "quiet_rel s s" for s :: "'x hw_scheme"
    by (auto simp: quiet_rel_def intro: exI [of _ "[]"])
  show "quiet_rel s s''" if "quiet_rel s s'" and "quiet_rel s' s''" for s s' s'' :: "'x hw_scheme"
    using that by (auto simp: quiet_rel_def)
qed

interpretation acts: step_frame "acts_rel P"
  rewrites "step_frame.keeps (acts_rel P) = acts P" for P
  by (rule acts_frame) (simp add: fun_eq_iff acts_def step_frame.keeps_def [OF acts_frame])

interpretation quiet: step_frame "quiet_rel :: 'x hw_scheme \<Rightarrow> _"
  rewrites "step_frame.keeps quiet_rel = quiet"
  by (rule quiet_frame) (simp add: fun_eq_iff quiet_def step_frame.keeps_def [OF quiet_frame])

named_theorems acts_rules
named_theorems quiet_rules

lemmas acts_struct [acts_rules] = acts.keeps_struct
lemmas quiet_struct [quiet_rules] = quiet.keeps_struct

lemma actsE:
  assumes "acts P m" and "run_state m s = (r, s')"
  obtains l where "io_log s' = io_log s @ l" and "dev_read s' = dev_read s" and "list_all P l"
  using acts.keepsD [OF assms] by (auto simp: acts_rel_def)

lemma quietE:
  assumes "quiet m" and "run_state m s = (r, s')"
  obtains l where "s' = s\<lparr>io_log := io_log s @ l\<rparr>"
  using quiet.keepsD [OF assms] by (auto simp: quiet_rel_def)

lemma acts_mono: "acts P m \<Longrightarrow> (\<And>e. P e \<Longrightarrow> Q e) \<Longrightarrow> acts Q m"
  unfolding acts_def acts_rel_def by (metis list.pred_mono_strong)

lemma acts_read [acts_rules]:
  "(\<And>v. P (Rd 1 a v)) \<Longrightarrow> acts P (rtw_read8 a)"
  "(\<And>v. P (Rd 2 a v)) \<Longrightarrow> acts P (rtw_read16 a)"
  "(\<And>v. P (Rd 4 a v)) \<Longrightarrow> acts P (rtw_read32 a)"
  by (simp_all add: acts_def acts_rel_def)

lemma acts_write [acts_rules]:
  "P (Wr 1 a (ucast v)) \<Longrightarrow> acts P (rtw_write8 a v)"
  "P (Wr 2 a (ucast w)) \<Longrightarrow> acts P (rtw_write16 a w)"
  "P (Wr 4 a u) \<Longrightarrow> acts P (rtw_write32 a u)"
  by (simp_all add: acts_def acts_rel_def)

lemma acts_delay [acts_rules]: "P (Delay n) \<Longrightarrow> acts P (delay_us n)"
  by (simp add: acts_def acts_rel_def)

lemma quiet_access [quiet_rules]:
  "quiet (rtw_read8 a)" "quiet (rtw_read16 a)" "quiet (rtw_read32 a)"
  "quiet (rtw_write8 a v)" "quiet (rtw_write16 a w)" "quiet (rtw_write32 a u)" "quiet (delay_us n)"
  by (auto simp: quiet_def quiet_rel_def)

lemmas rmw_defs = rtw_write8_set_def rtw_write16_set_def rtw_write32_set_def
  rtw_write8_clr_def rtw_write16_clr_def rtw_write32_clr_def rtw_write32_mask_def rtw_write8_mask_def

lemmas masked_read_defs = rtw_read32_mask_def rtw_read16_mask_def rtw_read8_mask_def

lemma quiet_rmw [quiet_rules]:
  "quiet (rtw_write8_set a b)" "quiet (rtw_write16_set a b')" "quiet (rtw_write32_set a b'')"
  "quiet (rtw_write8_clr a b)" "quiet (rtw_write16_clr a b')" "quiet (rtw_write32_clr a b'')"
  "quiet (rtw_write32_mask a m d)" "quiet (rtw_write8_mask a m e)"
  unfolding rmw_defs by (intro quiet_rules)+

lemma quiet_masked_read [quiet_rules]:
  "quiet (rtw_read32_mask a m)" "quiet (rtw_read16_mask a m)" "quiet (rtw_read8_mask a m)"
  unfolding masked_read_defs by (intro quiet_rules)+

section \<open>The interface the core relies on\<close>

locale reg_bus =
  fixes rd :: "nat \<Rightarrow> u32 \<Rightarrow> 's \<Rightarrow> u32 \<times> 's"
    and wr :: "nat \<Rightarrow> u32 \<Rightarrow> u32 \<Rightarrow> 's \<Rightarrow> 's"
    and log :: "'s \<Rightarrow> io list"
    and ok :: "'s \<Rightarrow> bool"
    and valid :: "u32 \<Rightarrow> bool"
  assumes rd_log: "ok s \<Longrightarrow> w \<in> {1, 2, 4} \<Longrightarrow> valid a \<Longrightarrow> rd w a s = (v, s')
      \<Longrightarrow> log s' = log s @ [Rd w a v]"
    and rd_ok: "ok s \<Longrightarrow> w \<in> {1, 2, 4} \<Longrightarrow> valid a \<Longrightarrow> rd w a s = (v, s') \<Longrightarrow> ok s'"
    and wr_log: "ok s \<Longrightarrow> w \<in> {1, 2, 4} \<Longrightarrow> valid a
      \<Longrightarrow> log (wr w a v s) = log s @ [Wr w a (take_bit (8 * w) v)]"
    and wr_ok: "ok s \<Longrightarrow> w \<in> {1, 2, 4} \<Longrightarrow> valid a \<Longrightarrow> ok (wr w a v s)"
begin

text \<open>A read-modify-write, whatever it computes, is one read and one write.\<close>

definition rmw :: "nat \<Rightarrow> u32 \<Rightarrow> (u32 \<Rightarrow> u32) \<Rightarrow> 's \<Rightarrow> 's" where
  "rmw w a f s = (case rd w a s of (v, s') \<Rightarrow> wr w a (f v) s')"

lemma rmw_log:
  assumes "ok s" and "w \<in> {1, 2, 4}" and "valid a"
  shows "log (rmw w a f s) = log s @ [Rd w a (fst (rd w a s)), Wr w a (take_bit (8 * w) (f (fst (rd w a s))))]"
proof -
  obtain v s' where r: "rd w a s = (v, s')"
    by (cases "rd w a s")
  with assms have "ok s'" and "log s' = log s @ [Rd w a v]"
    using rd_ok rd_log by blast+
  with r assms(2,3) show ?thesis
    by (simp add: rmw_def wr_log)
qed

lemma rmw_ok: "ok s \<Longrightarrow> w \<in> {1, 2, 4} \<Longrightarrow> valid a \<Longrightarrow> ok (rmw w a f s)"
  using rd_ok [of s w a] wr_ok [of _ w a] by (cases "rd w a s") (simp add: rmw_def)

text \<open>A list of register writes, such as a table, appears in order.\<close>

definition wr_list :: "nat \<Rightarrow> (u32 \<times> u32) list \<Rightarrow> 's \<Rightarrow> 's" where
  "wr_list w avs s = fold (\<lambda>(a, v). wr w a v) avs s"

lemma wr_list_log:
  assumes "ok s" and "w \<in> {1, 2, 4}" and "\<forall>(a, v) \<in> set avs. valid a"
  shows "log (wr_list w avs s) = log s @ map (\<lambda>(a, v). Wr w a (take_bit (8 * w) v)) avs"
  using assms(1,3)
proof (induction avs arbitrary: s)
  case Nil
  then show ?case by (simp add: wr_list_def)
next
  case (Cons av avs)
  obtain a v where av: "av = (a, v)"
    by (cases av)
  have "ok (wr w a v s)" and "\<forall>(a, v) \<in> set avs. valid a"
    using Cons.prems assms(2) by (auto simp: av intro: wr_ok)
  from Cons.IH [OF this] show ?case
    using Cons.prems assms(2) by (simp add: wr_list_def av wr_log)
qed

end

interpretation rec_bus: reg_bus hci_read hci_write io_log "\<lambda>_. True" "\<lambda>_. True"
proof
  fix w a v and s s' :: "'a hw_scheme"
  assume "hci_read w a s = (v, s')"
  then show "io_log s' = io_log s @ [Rd w a v]"
    by (auto simp: hci_read_def Let_def)
next
  fix w a v and s :: "'a hw_scheme"
  show "io_log (hci_write w a v s) = io_log s @ [Wr w a (take_bit (8 * w) v)]"
    by (simp add: hci_write_def)
qed simp_all

end
