(* ===== verification/UsbCtrl.thy ===== *)
theory UsbCtrl
  imports Regio
begin

text \<open>
  Synchronous USB control transfers (\<open>usb.c\<close>): register reads with bounded retries,
  register writes, the register-section write some chips need, and the chunked write of
  a firmware page. The state is the part of \<open>struct rtw_usb\<close> these operations use. The
  USB core's \<open>usb_control_msg\<close> is a parameter: a function from the history of transfers
  to the status and the bytes of the next one.
\<close>

datatype chip_type =
    RTW_CHIP_TYPE_8822B | RTW_CHIP_TYPE_8822C | RTW_CHIP_TYPE_8723D | RTW_CHIP_TYPE_8821C
  | RTW_CHIP_TYPE_8703B | RTW_CHIP_TYPE_8821A | RTW_CHIP_TYPE_8812A | RTW_CHIP_TYPE_8814A

text \<open>A transfer: its 16-bit \<open>wValue\<close> (the register address) and its length or payload.\<close>

datatype ctrl_req = CtrlIn u16 nat | CtrlOut u16 "u8 list"

record ctrl_xfer =
  xfer_req :: ctrl_req
  xfer_status :: int
  xfer_bytes :: "u8 list"   \<comment> \<open>what the transfer stored in the buffer\<close>

record rtw_usb_ctrl =
  chip_id :: chip_type
  usb_data :: u32
  ctrl_error_count :: u32
  ctrl_retry_count :: u32
  ctrl_log :: "ctrl_xfer list"
  usb_dev :: "ctrl_xfer list \<Rightarrow> ctrl_req \<Rightarrow> int \<times> u8 list"

definition RTW_USB_CTRL_READ_MAX_ATTEMPTS :: nat where
  "RTW_USB_CTRL_READ_MAX_ATTEMPTS = 3"

text \<open>
  \<open>usb_control_msg\<close>: an IN transfer overwrites as many leading bytes of the buffer as it
  delivers, at most the requested length; an OUT transfer leaves the buffer alone.
\<close>

definition buf_store :: "u8 list \<Rightarrow> u32 \<Rightarrow> u32" where
  "buf_store bs old = le_word (bs @ drop (length bs) (le_bytes 4 old))"

definition usb_control_in :: "u32 \<Rightarrow> nat \<Rightarrow> rtw_usb_ctrl \<Rightarrow> int \<times> rtw_usb_ctrl" where
  "usb_control_in addr len s =
     (let req = CtrlIn (ucast addr) len;
          (status, bytes) = usb_dev s (ctrl_log s) req;
          got = take len bytes
      in (status,
          s\<lparr>usb_data := buf_store got (usb_data s),
            ctrl_log := ctrl_log s @ [\<lparr>xfer_req = req, xfer_status = status, xfer_bytes = got\<rparr>]\<rparr>))"

definition usb_control_out :: "u32 \<Rightarrow> u8 list \<Rightarrow> rtw_usb_ctrl \<Rightarrow> int \<times> rtw_usb_ctrl" where
  "usb_control_out addr payload s =
     (let req = CtrlOut (ucast addr) payload;
          status = fst (usb_dev s (ctrl_log s) req)
      in (status,
          s\<lparr>ctrl_log := ctrl_log s @ [\<lparr>xfer_req = req, xfer_status = status, xfer_bytes = []\<rparr>]\<rparr>))"

section \<open>Error classes\<close>

definition rtw_usb_ctrl_error_retryable :: "int \<Rightarrow> bool" where
  "rtw_usb_ctrl_error_retryable error \<longleftrightarrow>
     error = - EPROTO \<or> error = - EILSEQ \<or> error = - ETIME \<or> error = - ETIMEDOUT \<or> error = - ECOMM"

definition rtw_usb_ctrl_expected_disconnect :: "int \<Rightarrow> bool" where
  "rtw_usb_ctrl_expected_disconnect error \<longleftrightarrow>
     error = - EPROTO \<or> error = - ENODEV \<or> error = - ESHUTDOWN"

section \<open>The register-section write\<close>

definition reg_on_section :: "u32 \<Rightarrow> bool" where
  "reg_on_section addr \<longleftrightarrow> addr \<le> 0xff \<or> (addr \<ge> 0x1000 \<and> addr \<le> 0x10ff)"

definition rtw_usb_reg_sec :: "u32 \<Rightarrow> rtw_usb_ctrl \<Rightarrow> rtw_usb_ctrl" where
  "rtw_usb_reg_sec addr s =
     (if \<not> reg_on_section addr then s
      else snd (usb_control_out 0x4e0 (le_bytes 1 (usb_data s)) s))"

definition needs_reg_sec :: "chip_type \<Rightarrow> bool" where
  "needs_reg_sec c \<longleftrightarrow>
     c = RTW_CHIP_TYPE_8822C \<or> c = RTW_CHIP_TYPE_8822B \<or> c = RTW_CHIP_TYPE_8821C"

section \<open>Register reads\<close>

text \<open>
  The retry loop: \<open>attempt\<close> counts from 1. It leaves with the last return code (a short
  transfer counts as \<open>-EIO\<close>).
\<close>

function rtw_usb_read_loop :: "u32 \<Rightarrow> nat \<Rightarrow> nat \<Rightarrow> int \<Rightarrow> rtw_usb_ctrl \<Rightarrow> int \<times> rtw_usb_ctrl" where
  "rtw_usb_read_loop addr len attempt ret s =
     (if attempt \<le> RTW_USB_CTRL_READ_MAX_ATTEMPTS
      then (case usb_control_in addr len (s\<lparr>usb_data := 0\<rparr>) of
              (ret, s) \<Rightarrow>
                if ret = int len then (ret, s)
                else let ret = (if ret \<ge> 0 then - EIO else ret)
                     in if \<not> rtw_usb_ctrl_error_retryable ret
                           \<or> attempt = RTW_USB_CTRL_READ_MAX_ATTEMPTS
                        then (ret, s)
                        else rtw_usb_read_loop addr len (Suc attempt) ret
                               (s\<lparr>ctrl_retry_count := ctrl_retry_count s + 1\<rparr>))
      else (ret, s))"
  by pat_completeness auto
termination
  by (relation "measure (\<lambda>(addr, len, attempt, ret, s). Suc RTW_USB_CTRL_READ_MAX_ATTEMPTS - attempt)")
    auto

declare rtw_usb_read_loop.simps [simp del]

definition rtw_usb_read :: "u32 \<Rightarrow> nat \<Rightarrow> rtw_usb_ctrl \<Rightarrow> u32 \<times> rtw_usb_ctrl" where
  "rtw_usb_read addr len s =
     (case rtw_usb_read_loop addr len 1 0 s of
        (ret, s) \<Rightarrow>
          let s = (if ret \<noteq> int len then s\<lparr>ctrl_error_count := ctrl_error_count s + 1\<rparr> else s);
              s = (if ret = int len \<and> needs_reg_sec (chip_id s) then rtw_usb_reg_sec addr s else s)
          in (usb_data s, s))"

definition rtw_usb_read8 :: "u32 \<Rightarrow> rtw_usb_ctrl \<Rightarrow> u8 \<times> rtw_usb_ctrl" where
  "rtw_usb_read8 addr s = (case rtw_usb_read addr 1 s of (v, s) \<Rightarrow> (ucast v, s))"

definition rtw_usb_read16 :: "u32 \<Rightarrow> rtw_usb_ctrl \<Rightarrow> u16 \<times> rtw_usb_ctrl" where
  "rtw_usb_read16 addr s = (case rtw_usb_read addr 2 s of (v, s) \<Rightarrow> (ucast v, s))"

definition rtw_usb_read32 :: "u32 \<Rightarrow> rtw_usb_ctrl \<Rightarrow> u32 \<times> rtw_usb_ctrl" where
  "rtw_usb_read32 addr s = rtw_usb_read addr 4 s"

section \<open>Register writes\<close>

definition rtw_usb_write :: "u32 \<Rightarrow> u32 \<Rightarrow> nat \<Rightarrow> bool \<Rightarrow> rtw_usb_ctrl \<Rightarrow> rtw_usb_ctrl" where
  "rtw_usb_write addr val len disconnect_expected s0 =
     (let s1 = s0\<lparr>usb_data := val\<rparr>;
          (ret0, s2) = usb_control_out addr (le_bytes len val) s1;
          ret = (if ret0 \<ge> 0 \<and> ret0 \<noteq> int len then - EIO else ret0);
          s3 = (if ret \<noteq> int len
                    \<and> \<not> (disconnect_expected \<and> rtw_usb_ctrl_expected_disconnect ret)
                then s2\<lparr>ctrl_error_count := ctrl_error_count s2 + 1\<rparr> else s2)
      in if ret = int len \<and> needs_reg_sec (chip_id s3) then rtw_usb_reg_sec addr s3 else s3)"

definition rtw_usb_write8 :: "u32 \<Rightarrow> u8 \<Rightarrow> rtw_usb_ctrl \<Rightarrow> rtw_usb_ctrl" where
  "rtw_usb_write8 addr val = rtw_usb_write addr (ucast val) 1 False"

definition rtw_usb_write16 :: "u32 \<Rightarrow> u16 \<Rightarrow> rtw_usb_ctrl \<Rightarrow> rtw_usb_ctrl" where
  "rtw_usb_write16 addr val = rtw_usb_write addr (ucast val) 2 False"

definition rtw_usb_write32 :: "u32 \<Rightarrow> u32 \<Rightarrow> rtw_usb_ctrl \<Rightarrow> rtw_usb_ctrl" where
  "rtw_usb_write32 addr val = rtw_usb_write addr val 4 False"

section \<open>Writing a firmware page\<close>

definition FW_START_ADDR_LEGACY :: u32 where "FW_START_ADDR_LEGACY = 0x1000"
definition REG_MCUFW_CTRL :: u32 where "REG_MCUFW_CTRL = 0x0080"
definition BIT_ROM_PGE :: u32 where "BIT_ROM_PGE = GENMASK 18 16"

definition fw_block_size :: "chip_type \<Rightarrow> nat" where
  "fw_block_size c = (if c = RTW_CHIP_TYPE_8723D then 254 else 196)"

definition fw_chunk :: "nat \<Rightarrow> nat \<Rightarrow> nat" where
  "fw_chunk block_size sz =
     (if sz \<ge> block_size then block_size else if sz \<ge> 8 then 8 else 1)"

function fw_page_loop :: "nat \<Rightarrow> u32 \<Rightarrow> u8 list \<Rightarrow> rtw_usb_ctrl \<Rightarrow> rtw_usb_ctrl" where
  "fw_page_loop block_size addr buf s =
     (if buf = [] \<or> block_size = 0 then s
      else let n = fw_chunk block_size (length buf)
           in case usb_control_out addr (take n buf) s of
                (ret, s) \<Rightarrow>
                  if ret \<noteq> int n then s
                  else fw_page_loop block_size (addr + of_nat n) (drop n buf) s)"
  by pat_completeness auto
termination
  by (relation "measure (\<lambda>(bs, a, buf, s). length buf)") (auto simp: fw_chunk_def)

declare fw_page_loop.simps [simp del]

text \<open>\<open>kmemdup_ok\<close> says whether the copy of the page could be allocated.\<close>

definition rtw_usb_write_firmware_page ::
    "bool \<Rightarrow> u32 \<Rightarrow> u8 list \<Rightarrow> rtw_usb_ctrl \<Rightarrow> rtw_usb_ctrl" where
  "rtw_usb_write_firmware_page kmemdup_ok page data s =
     (if \<not> kmemdup_ok then s
      else case rtw_usb_read32 REG_MCUFW_CTRL s of
             (orig, s) \<Rightarrow>
               fw_page_loop (fw_block_size (chip_id s)) FW_START_ADDR_LEGACY data
                 (rtw_usb_write32 REG_MCUFW_CTRL (mask_merge orig BIT_ROM_PGE page) s))"

section \<open>What a read does\<close>

lemma le_bytes_zero: "le_bytes n (0 :: 'a::len word) = replicate n 0"
  by (simp add: le_bytes_def map_replicate_const)

lemma buf_store_zero [simp]: "buf_store bs 0 = le_word bs"
  by (simp add: buf_store_def le_bytes_zero drop_replicate)

text \<open>
  The transfers \<open>xs\<close> of one read: all with the same request, every one but the last a
  retryable failure, the buffer left with exactly what the last one delivered, and the
  retry counter advanced once per repetition.
\<close>

definition read_outcome ::
    "u32 \<Rightarrow> nat \<Rightarrow> rtw_usb_ctrl \<Rightarrow> int \<Rightarrow> rtw_usb_ctrl \<Rightarrow> ctrl_xfer list \<Rightarrow> bool" where
  "read_outcome addr len s ret s' xs \<longleftrightarrow>
     xs \<noteq> [] \<and> (\<forall>x \<in> set xs. xfer_req x = CtrlIn (ucast addr) len)
     \<and> (\<forall>x \<in> set (butlast xs). rtw_usb_ctrl_error_retryable (xfer_status x))
     \<and> (ret = int len \<longleftrightarrow> xfer_status (last xs) = int len)
     \<and> s' = s\<lparr>usb_data := le_word (xfer_bytes (last xs)), ctrl_log := ctrl_log s @ xs,
             ctrl_retry_count := ctrl_retry_count s + of_nat (length xs - 1)\<rparr>"

lemma not_retryable_EIO [simp]: "\<not> rtw_usb_ctrl_error_retryable (- EIO)"
  by (simp add: rtw_usb_ctrl_error_retryable_def)

lemma retryable_negative: "rtw_usb_ctrl_error_retryable e \<Longrightarrow> e < 0"
  by (auto simp: rtw_usb_ctrl_error_retryable_def)

lemma usb_control_in_zeroed:
  assumes "usb_control_in addr len (s\<lparr>usb_data := 0\<rparr>) = (r, t)"
  obtains x where "xfer_req x = CtrlIn (ucast addr) len" and "xfer_status x = r"
    and "t = s\<lparr>usb_data := le_word (xfer_bytes x), ctrl_log := ctrl_log s @ [x]\<rparr>"
proof
  let ?x = "\<lparr>xfer_req = CtrlIn (ucast addr) len, xfer_status = r,
    xfer_bytes = take len (snd (usb_dev s (ctrl_log s) (CtrlIn (ucast addr) len)))\<rparr>"
  show "xfer_req ?x = CtrlIn (ucast addr) len" and "xfer_status ?x = r"
    by simp_all
  show "t = s\<lparr>usb_data := le_word (xfer_bytes ?x), ctrl_log := ctrl_log s @ [?x]\<rparr>"
    using assms by (auto simp: usb_control_in_def Let_def split: prod.splits)
qed

lemma read_outcome_stop:
  assumes "usb_control_in addr len (s\<lparr>usb_data := 0\<rparr>) = (r, t)"
    and "ret = int len \<longleftrightarrow> r = int len"
  shows "\<exists>x. read_outcome addr len s ret t [x]"
  using assms(1)
proof (rule usb_control_in_zeroed)
  fix x
  assume "xfer_req x = CtrlIn (ucast addr) len" "xfer_status x = r"
    "t = s\<lparr>usb_data := le_word (xfer_bytes x), ctrl_log := ctrl_log s @ [x]\<rparr>"
  with assms(2) show ?thesis
    by (intro exI [of _ x]) (simp add: read_outcome_def)
qed

lemma read_outcome_again:
  assumes "usb_control_in addr len (s\<lparr>usb_data := 0\<rparr>) = (r, t)"
    and "rtw_usb_ctrl_error_retryable r"
    and "read_outcome addr len (t\<lparr>ctrl_retry_count := ctrl_retry_count t + 1\<rparr>) ret s' xs"
  shows "\<exists>x. read_outcome addr len s ret s' (x # xs)"
  using assms(1)
proof (rule usb_control_in_zeroed)
  fix x
  assume x: "xfer_req x = CtrlIn (ucast addr) len" "xfer_status x = r"
    "t = s\<lparr>usb_data := le_word (xfer_bytes x), ctrl_log := ctrl_log s @ [x]\<rparr>"
  from assms(3) have "xs \<noteq> []"
    by (simp add: read_outcome_def)
  then have "of_nat (length (x # xs) - 1) = (1 + of_nat (length xs - 1) :: u32)"
    by (cases xs) simp_all
  with assms x show ?thesis
    by (intro exI [of _ x]) (simp add: read_outcome_def add.assoc)
qed

lemma rtw_usb_read_loop_spec:
  assumes "rtw_usb_read_loop addr len attempt ret s = (ret', s')"
    and "attempt \<le> RTW_USB_CTRL_READ_MAX_ATTEMPTS"
  shows "\<exists>xs. read_outcome addr len s ret' s' xs
    \<and> length xs \<le> Suc RTW_USB_CTRL_READ_MAX_ATTEMPTS - attempt"
  using assms
proof (induction addr len attempt ret s rule: rtw_usb_read_loop.induct)
  case (1 addr len attempt ret s)
  obtain r t where rt: "usb_control_in addr len (s\<lparr>usb_data := 0\<rparr>) = (r, t)"
    by fastforce
  let ?e = "if r \<ge> 0 then - EIO else r"
  note unfold = rtw_usb_read_loop.simps [of addr len attempt ret s]
  consider (stop) "ret' = int len \<longleftrightarrow> r = int len" "s' = t"
    | (again) "r \<noteq> int len" "\<not> (\<not> rtw_usb_ctrl_error_retryable ?e \<or> attempt = RTW_USB_CTRL_READ_MAX_ATTEMPTS)"
        "rtw_usb_read_loop addr len (Suc attempt) ?e
           (t\<lparr>ctrl_retry_count := ctrl_retry_count t + 1\<rparr>) = (ret', s')"
    using "1.prems" rt by (auto simp: unfold Let_def split: if_splits)
  then show ?case
  proof cases
    case stop
    with rt "1.prems"(2) show ?thesis
      using read_outcome_stop [OF rt, of ret'] by force
  next
    case again
    then have le: "Suc attempt \<le> RTW_USB_CTRL_READ_MAX_ATTEMPTS" and "rtw_usb_ctrl_error_retryable r"
      using "1.prems"(2) by (auto split: if_splits)
    with "1.IH" [OF "1.prems"(2) rt [symmetric] again(1) refl again(2,3) le] show ?thesis
      using read_outcome_again [OF rt] by fastforce
  qed
qed

section \<open>Reads never expose stale data and stop after three attempts\<close>

lemma read_loop_ignores_buffer:
  "rtw_usb_read_loop addr len 1 ret (s\<lparr>usb_data := d\<rparr>) = rtw_usb_read_loop addr len 1 ret s"
  by (subst (1 2) rtw_usb_read_loop.simps) (simp add: RTW_USB_CTRL_READ_MAX_ATTEMPTS_def)

lemma rtw_usb_read_outcome:
  "\<exists>xs ret t. read_outcome addr len s ret t xs
      \<and> length xs \<le> RTW_USB_CTRL_READ_MAX_ATTEMPTS
      \<and> fst (rtw_usb_read addr len s) = le_word (xfer_bytes (last xs))
      \<and> snd (rtw_usb_read addr len s) =
          (if ret \<noteq> int len then t\<lparr>ctrl_error_count := ctrl_error_count t + 1\<rparr>
           else if needs_reg_sec (chip_id s) then rtw_usb_reg_sec addr t else t)"
proof -
  obtain ret t where loop: "rtw_usb_read_loop addr len 1 0 s = (ret, t)"
    by fastforce
  then obtain xs where xs: "read_outcome addr len s ret t xs"
      "length xs \<le> RTW_USB_CTRL_READ_MAX_ATTEMPTS"
    using rtw_usb_read_loop_spec [OF loop] by (auto simp: RTW_USB_CTRL_READ_MAX_ATTEMPTS_def)
  have "chip_id t = chip_id s" and "usb_data t = le_word (xfer_bytes (last xs))"
    using xs(1) by (simp_all add: read_outcome_def)
  with loop xs show ?thesis
    by (intro exI [of _ xs] exI [of _ ret] exI [of _ t])
      (auto simp: rtw_usb_read_def Let_def rtw_usb_reg_sec_def usb_control_out_def)
qed

text \<open>
  The transfers of one read, written without the driver's buffer: ask the adapter, ask
  again after a retryable error, at most \<open>k\<close> times.
\<close>

fun read_attempts ::
    "nat \<Rightarrow> (ctrl_xfer list \<Rightarrow> ctrl_req \<Rightarrow> int \<times> u8 list) \<Rightarrow> ctrl_xfer list \<Rightarrow> u16 \<Rightarrow> nat \<Rightarrow> ctrl_xfer list" where
  "read_attempts 0 d h a n = []"
| "read_attempts (Suc k) d h a n =
     (case d h (CtrlIn a n) of (st, bs) \<Rightarrow>
        let x = \<lparr>xfer_req = CtrlIn a n, xfer_status = st, xfer_bytes = take n bs\<rparr>
        in x # (if rtw_usb_ctrl_error_retryable st then read_attempts k d (h @ [x]) a n else []))"

lemma read_attempts_empty [simp]: "read_attempts k d h a n = [] \<longleftrightarrow> k = 0"
  by (cases k) (auto simp: Let_def split: prod.splits)

lemma read_attempts_length: "length (read_attempts k d h a n) \<le> k"
  by (induction k arbitrary: h) (auto simp: Let_def split: prod.splits)

lemma read_attempts_req: "list_all (\<lambda>x. xfer_req x = CtrlIn a n) (read_attempts k d h a n)"
  by (induction k arbitrary: h) (auto simp: Let_def split: prod.splits)

definition read_xfers :: "u32 \<Rightarrow> nat \<Rightarrow> rtw_usb_ctrl \<Rightarrow> ctrl_xfer list" where
  "read_xfers addr len s = read_attempts 3 (usb_dev s) (ctrl_log s) (ucast addr) len"

text \<open>The state a read leaves before the section write, given its transfers.\<close>

definition read_done :: "ctrl_xfer list \<Rightarrow> rtw_usb_ctrl \<Rightarrow> rtw_usb_ctrl" where
  "read_done xs s =
     s\<lparr>usb_data := le_word (xfer_bytes (last xs)), ctrl_log := ctrl_log s @ xs,
       ctrl_retry_count := ctrl_retry_count s + of_nat (length xs - 1)\<rparr>"

lemma read_done_Cons:
  "xs \<noteq> [] \<Longrightarrow>
   read_done xs (s\<lparr>usb_data := d, ctrl_log := ctrl_log s @ [x],
      ctrl_retry_count := ctrl_retry_count s + 1\<rparr>) = read_done (x # xs) s"
  by (cases xs) (simp_all add: read_done_def add.assoc)

lemma rtw_usb_read_loop_attempts:
  assumes "attempt + k = Suc RTW_USB_CTRL_READ_MAX_ATTEMPTS" and "0 < k"
    and "xs = read_attempts k (usb_dev s) (ctrl_log s) (ucast addr) len"
  shows "snd (rtw_usb_read_loop addr len attempt ret s) = read_done xs s
    \<and> (fst (rtw_usb_read_loop addr len attempt ret s) = int len \<longleftrightarrow> xfer_status (last xs) = int len)"
  using assms
proof (induction k arbitrary: attempt ret s xs)
  case 0
  then show ?case by simp
next
  case (Suc k)
  note unfold = rtw_usb_read_loop.simps [of addr len attempt ret s]
  obtain st bs where dev: "usb_dev s (ctrl_log s) (CtrlIn (ucast addr) len) = (st, bs)"
    by fastforce
  let ?x = "\<lparr>xfer_req = CtrlIn (ucast addr) len, xfer_status = st, xfer_bytes = take len bs\<rparr>"
  let ?t = "s\<lparr>usb_data := le_word (take len bs), ctrl_log := ctrl_log s @ [?x]\<rparr>"
  have "in": "usb_control_in addr len (s\<lparr>usb_data := 0\<rparr>) = (st, ?t)"
    by (simp add: usb_control_in_def dev Let_def)
  have att: "attempt \<le> RTW_USB_CTRL_READ_MAX_ATTEMPTS"
    using Suc.prems(1) by simp
  have last: "attempt = RTW_USB_CTRL_READ_MAX_ATTEMPTS \<longleftrightarrow> k = 0"
    using Suc.prems(1) by auto
  show ?case
  proof (cases "rtw_usb_ctrl_error_retryable st \<and> k \<noteq> 0")
    case False
    then have "xs = [?x]"
      using Suc.prems(3) dev by (auto simp: Let_def)
    then show ?thesis
      using False att last
      by (auto simp: unfold "in" Let_def read_done_def)
  next
    case True
    then have neg: "st < 0"
      using retryable_negative by blast
    let ?u = "?t\<lparr>ctrl_retry_count := ctrl_retry_count ?t + 1\<rparr>"
    have eq: "rtw_usb_read_loop addr len attempt ret s = rtw_usb_read_loop addr len (Suc attempt) st ?u"
      using True neg att last by (simp add: unfold "in" Let_def)
    let ?ys = "read_attempts k (usb_dev ?u) (ctrl_log ?u) (ucast addr) len"
    have xs: "xs = ?x # ?ys" and ne: "?ys \<noteq> []"
      using Suc.prems(3) dev True by (simp_all add: Let_def)
    have "snd (rtw_usb_read_loop addr len (Suc attempt) st ?u) = read_done ?ys ?u
      \<and> (fst (rtw_usb_read_loop addr len (Suc attempt) st ?u) = int len \<longleftrightarrow> xfer_status (last ?ys) = int len)"
      using Suc.prems(1) True by (intro Suc.IH) simp_all
    then show ?thesis
      unfolding eq xs using ne by (simp add: read_done_Cons)
  qed
qed

section \<open>Writes are issued exactly once\<close>

lemma usb_control_out_eq:
  "usb_control_out addr bs s =
     (fst (usb_dev s (ctrl_log s) (CtrlOut (ucast addr) bs)),
      s\<lparr>ctrl_log := ctrl_log s @
         [\<lparr>xfer_req = CtrlOut (ucast addr) bs,
           xfer_status = fst (usb_dev s (ctrl_log s) (CtrlOut (ucast addr) bs)),
           xfer_bytes = []\<rparr>]\<rparr>)"
  by (simp add: usb_control_out_def Let_def)

definition usb_written :: "u32 \<Rightarrow> u32 \<Rightarrow> nat \<Rightarrow> bool \<Rightarrow> int \<Rightarrow> rtw_usb_ctrl \<Rightarrow> rtw_usb_ctrl" where
  "usb_written addr val len ex st s =
     s\<lparr>usb_data := val,
       ctrl_log := ctrl_log s @ [\<lparr>xfer_req = CtrlOut (ucast addr) (le_bytes len val),
                                xfer_status = st, xfer_bytes = []\<rparr>],
       ctrl_error_count := ctrl_error_count s
         + (if st = int len \<or> ex \<and> rtw_usb_ctrl_expected_disconnect st then 0 else 1)\<rparr>"

lemma rtw_usb_write_full:
  assumes "st = fst (usb_dev s (ctrl_log s) (CtrlOut (ucast addr) (le_bytes len val)))"
  shows "rtw_usb_write addr val len ex s =
     (if st = int len \<and> needs_reg_sec (chip_id s)
      then rtw_usb_reg_sec addr (usb_written addr val len ex st s)
      else usb_written addr val len ex st s)"
proof -
  have "\<not> rtw_usb_ctrl_expected_disconnect (- EIO)"
    and "rtw_usb_ctrl_expected_disconnect e \<Longrightarrow> e < 0" for e
    by (auto simp: rtw_usb_ctrl_expected_disconnect_def)
  then show ?thesis
    unfolding rtw_usb_write_def Let_def usb_control_out_eq assms [symmetric]
    by (cases "st \<ge> 0"; cases "st = int len") (force simp: usb_written_def assms [symmetric])+
qed

lemma rtw_usb_write_eq:
  assumes "\<not> needs_reg_sec (chip_id s)"
    and "st = fst (usb_dev s (ctrl_log s) (CtrlOut (ucast addr) (le_bytes len val)))"
  shows "rtw_usb_write addr val len ex s = usb_written addr val len ex st s"
  using assms(1) by (simp add: rtw_usb_write_full [OF assms(2)])

lemma rtw_usb_reg_sec_log:
  "\<exists>ys. ctrl_log (rtw_usb_reg_sec addr t) = ctrl_log t @ ys \<and> length ys \<le> 1
     \<and> list_all (\<lambda>y. xfer_req y = CtrlOut 0x4e0 (le_bytes 1 (usb_data t))) ys
     \<and> ctrl_retry_count (rtw_usb_reg_sec addr t) = ctrl_retry_count t
     \<and> ctrl_error_count (rtw_usb_reg_sec addr t) = ctrl_error_count t"
proof (cases "reg_on_section addr")
  case True
  let ?y = "\<lparr>xfer_req = CtrlOut 0x4e0 (le_bytes 1 (usb_data t)),
    xfer_status = fst (usb_dev t (ctrl_log t) (CtrlOut 0x4e0 (le_bytes 1 (usb_data t)))),
    xfer_bytes = []\<rparr>"
  from True show ?thesis
    by (intro exI [of _ "[?y]"]) (simp add: rtw_usb_reg_sec_def usb_control_out_eq)
next
  case False
  then show ?thesis
    by (intro exI [of _ "[]"]) (simp add: rtw_usb_reg_sec_def)
qed

section \<open>The firmware page\<close>

text \<open>
  The transfers a page write adds: consecutive addresses, each payload as long as its
  chunk, and every transfer but possibly the last complete.
\<close>

fun page_xfers :: "u32 \<Rightarrow> ctrl_xfer list \<Rightarrow> bool" where
  "page_xfers addr [] \<longleftrightarrow> True"
| "page_xfers addr (x # xs) \<longleftrightarrow>
     (\<exists>p. xfer_req x = CtrlOut (ucast addr) p \<and> p \<noteq> []
        \<and> (xs \<noteq> [] \<longrightarrow> xfer_status x = int (length p))
        \<and> page_xfers (addr + of_nat (length p)) xs)"

definition xfer_payload :: "ctrl_xfer \<Rightarrow> u8 list" where
  "xfer_payload x = (case xfer_req x of CtrlIn _ _ \<Rightarrow> [] | CtrlOut _ p \<Rightarrow> p)"

definition xfer_complete :: "ctrl_xfer \<Rightarrow> bool" where
  "xfer_complete x \<longleftrightarrow> (case xfer_req x of CtrlIn _ n \<Rightarrow> xfer_status x = int n
     | CtrlOut _ p \<Rightarrow> xfer_status x = int (length p))"

lemma fw_chunk_pos: "0 < block_size \<Longrightarrow> 0 < fw_chunk block_size n"
  by (simp add: fw_chunk_def)

lemma fw_chunk_le: "0 < n \<Longrightarrow> fw_chunk block_size n \<le> n"
  by (simp add: fw_chunk_def)

definition page_outcome ::
    "u32 \<Rightarrow> u8 list \<Rightarrow> rtw_usb_ctrl \<Rightarrow> rtw_usb_ctrl \<Rightarrow> ctrl_xfer list \<Rightarrow> u8 list \<Rightarrow> bool" where
  "page_outcome addr buf s s' xs rest \<longleftrightarrow>
     s' = s\<lparr>ctrl_log := ctrl_log s @ xs\<rparr> \<and> page_xfers addr xs
     \<and> buf = concat (map xfer_payload xs) @ rest
     \<and> (list_all xfer_complete xs \<longrightarrow> rest = [])"

lemma page_outcome_Cons:
  assumes "page_outcome (addr + of_nat n) (drop n buf) (s\<lparr>ctrl_log := ctrl_log s @ [x]\<rparr>) s' xs rest"
    and "xfer_req x = CtrlOut (ucast addr) (take n buf)" and "xfer_status x = int n"
    and "0 < n" and "n \<le> length buf"
  shows "page_outcome addr buf s s' (x # xs) rest"
proof -
  from assms(1) have "buf = take n buf @ concat (map xfer_payload xs) @ rest"
    unfolding page_outcome_def by (metis append_take_drop_id)
  with assms show ?thesis
    by (auto simp: page_outcome_def xfer_payload_def xfer_complete_def)
qed

lemma page_outcome_stop:
  assumes "xfer_req x = CtrlOut (ucast addr) (take n buf)" and "xfer_status x \<noteq> int n"
    and "0 < n" and "n \<le> length buf"
  shows "page_outcome addr buf s (s\<lparr>ctrl_log := ctrl_log s @ [x]\<rparr>) [x] (drop n buf)"
  using assms by (auto simp: page_outcome_def xfer_payload_def xfer_complete_def)

lemma fw_page_loop_spec:
  assumes "0 < block_size"
  shows "\<exists>xs rest. page_outcome addr buf s (fw_page_loop block_size addr buf s) xs rest"
  using assms
proof (induction block_size addr buf s rule: fw_page_loop.induct)
  case (1 block_size addr buf s)
  let ?n = "fw_chunk block_size (length buf)"
  note unfold = fw_page_loop.simps [of block_size addr buf s]
  show ?case
  proof (cases "buf = []")
    case True
    then have "page_outcome addr buf s (fw_page_loop block_size addr buf s) [] []"
      using unfold by (simp add: page_outcome_def)
    then show ?thesis by blast
  next
    case False
    then have n: "0 < ?n" "?n \<le> length buf"
      using fw_chunk_le fw_chunk_pos [OF "1.prems"] by auto
    let ?st = "fst (usb_dev s (ctrl_log s) (CtrlOut (ucast addr) (take ?n buf)))"
    let ?x = "\<lparr>xfer_req = CtrlOut (ucast addr) (take ?n buf), xfer_status = ?st, xfer_bytes = []\<rparr>"
    let ?t = "s\<lparr>ctrl_log := ctrl_log s @ [?x]\<rparr>"
    show ?thesis
    proof (cases "?st = int ?n")
      case False
      then have "fw_page_loop block_size addr buf s = ?t"
        using \<open>buf \<noteq> []\<close> "1.prems" by (simp add: unfold usb_control_out_eq Let_def)
      with page_outcome_stop [of ?x addr ?n buf s] False n show ?thesis
        by auto
    next
      case True
      then have eq: "fw_page_loop block_size addr buf s
          = fw_page_loop block_size (addr + of_nat ?n) (drop ?n buf) ?t"
        using \<open>buf \<noteq> []\<close> "1.prems" by (simp add: unfold usb_control_out_eq Let_def)
      from "1.IH" [OF _ refl usb_control_out_eq [symmetric]] False "1.prems" True
      obtain xs rest where "page_outcome (addr + of_nat ?n) (drop ?n buf) ?t
          (fw_page_loop block_size (addr + of_nat ?n) (drop ?n buf) ?t) xs rest"
        by auto
      from page_outcome_Cons [OF this _ _ n] True show ?thesis
        unfolding eq by fastforce
    qed
  qed
qed

section \<open>Control transfers implement the register interface\<close>

text \<open>
  The register accesses a history of transfers amounts to: failed attempts vanish, a
  completed transfer is one access.
\<close>

definition reg_access :: "ctrl_xfer \<Rightarrow> io list" where
  "reg_access x =
     (if \<not> xfer_complete x then []
      else case xfer_req x of
             CtrlIn a n \<Rightarrow> [Rd n (ucast a) (le_word (xfer_bytes x))]
           | CtrlOut a p \<Rightarrow> [Wr (length p) (ucast a) (le_word p)])"

definition reg_log :: "rtw_usb_ctrl \<Rightarrow> io list" where
  "reg_log s = concat (map reg_access (ctrl_log s))"

text \<open>
  A responsive adapter: every write completes, and every read completes within three
  attempts, with only retryable errors before that.
\<close>

fun reads_within ::
    "nat \<Rightarrow> (ctrl_xfer list \<Rightarrow> ctrl_req \<Rightarrow> int \<times> u8 list) \<Rightarrow> ctrl_xfer list \<Rightarrow> u16 \<Rightarrow> nat \<Rightarrow> bool" where
  "reads_within 0 d h a n \<longleftrightarrow> False"
| "reads_within (Suc k) d h a n \<longleftrightarrow>
     (case d h (CtrlIn a n) of (st, bs) \<Rightarrow>
        st = int n \<or> rtw_usb_ctrl_error_retryable st
          \<and> reads_within k d (h @ [\<lparr>xfer_req = CtrlIn a n, xfer_status = st, xfer_bytes = take n bs\<rparr>]) a n)"

definition responsive :: "(ctrl_xfer list \<Rightarrow> ctrl_req \<Rightarrow> int \<times> u8 list) \<Rightarrow> bool" where
  "responsive d \<longleftrightarrow> (\<forall>h a n. reads_within RTW_USB_CTRL_READ_MAX_ATTEMPTS d h a n)
     \<and> (\<forall>h a p. fst (d h (CtrlOut a p)) = int (length p))"

definition usb_bus_ok :: "rtw_usb_ctrl \<Rightarrow> bool" where
  "usb_bus_ok s \<longleftrightarrow> responsive (usb_dev s) \<and> \<not> needs_reg_sec (chip_id s)"

lemma read_loop_completes:
  assumes "rtw_usb_read_loop addr len attempt ret s = (ret', s')"
    and "attempt \<le> RTW_USB_CTRL_READ_MAX_ATTEMPTS"
    and "reads_within (Suc RTW_USB_CTRL_READ_MAX_ATTEMPTS - attempt) (usb_dev s) (ctrl_log s) (ucast addr) len"
  shows "ret' = int len"
  using assms
proof (induction addr len attempt ret s rule: rtw_usb_read_loop.induct)
  case (1 addr len attempt ret s)
  obtain r t where rt: "usb_control_in addr len (s\<lparr>usb_data := 0\<rparr>) = (r, t)"
    by fastforce
  obtain bs where bs: "usb_dev s (ctrl_log s) (CtrlIn (ucast addr) len) = (r, bs)"
    using rt by (auto simp: usb_control_in_def Let_def split: prod.splits)
  note unfold = rtw_usb_read_loop.simps [of addr len attempt ret s]
  have k: "Suc RTW_USB_CTRL_READ_MAX_ATTEMPTS - attempt = Suc (RTW_USB_CTRL_READ_MAX_ATTEMPTS - attempt)"
    using "1.prems"(2) by simp
  show ?case
  proof (cases "r = int len")
    case True
    with "1.prems"(1,2) rt show ?thesis
      by (simp add: unfold)
  next
    case False
    with "1.prems"(3) k bs have retry: "rtw_usb_ctrl_error_retryable r"
      and rest: "reads_within (RTW_USB_CTRL_READ_MAX_ATTEMPTS - attempt) (usb_dev t) (ctrl_log t) (ucast addr) len"
      using rt by (auto simp: usb_control_in_def Let_def)
    let ?e = "if r \<ge> 0 then - EIO else r"
    from rest have "attempt < RTW_USB_CTRL_READ_MAX_ATTEMPTS"
      by (cases "RTW_USB_CTRL_READ_MAX_ATTEMPTS - attempt") auto
    with retry have again: "\<not> (\<not> rtw_usb_ctrl_error_retryable ?e \<or> attempt = RTW_USB_CTRL_READ_MAX_ATTEMPTS)"
      using retryable_negative [of r] by simp
    with "1.prems" rt False \<open>attempt < _\<close> show ?thesis
      using "1.IH" [OF "1.prems"(2) rt [symmetric] False refl again] rest
      by (simp add: unfold Let_def)
  qed
qed

lemma ucast_ucast_addr: "a < 0x10000 \<Longrightarrow> ucast (ucast (a :: u32) :: u16) = a"
  by (simp add: ucast16_ucast32 take_bit_16_self)

lemma reg_access_failed: "xfer_status x < 0 \<Longrightarrow> reg_access x = []"
  by (auto simp: reg_access_def xfer_complete_def split: ctrl_req.splits)

lemma concat_map_reg_access_retries:
  "\<forall>x \<in> set xs. rtw_usb_ctrl_error_retryable (xfer_status x) \<Longrightarrow> concat (map reg_access xs) = []"
  by (induction xs) (auto simp: reg_access_failed retryable_negative)

lemma rtw_usb_read_reg_log:
  assumes "usb_bus_ok s" and "a < 0x10000" and "rtw_usb_read a n s = (v, s')"
  shows "reg_log s' = reg_log s @ [Rd n a v]" and "usb_bus_ok s'"
proof -
  obtain ret t where loop: "rtw_usb_read_loop a n 1 0 s = (ret, t)"
    by fastforce
  have ret: "ret = int n"
    using read_loop_completes [OF loop] assms(1)
    by (auto simp: usb_bus_ok_def responsive_def RTW_USB_CTRL_READ_MAX_ATTEMPTS_def)
  obtain xs where xs: "read_outcome a n s ret t xs"
    using rtw_usb_read_loop_spec [OF loop] by (auto simp: RTW_USB_CTRL_READ_MAX_ATTEMPTS_def)
  then have ne: "xs \<noteq> []" and retries: "\<forall>x \<in> set (butlast xs). rtw_usb_ctrl_error_retryable (xfer_status x)"
    and last: "xfer_status (last xs) = int n" "xfer_req (last xs) = CtrlIn (ucast a) n"
    using ret by (simp_all add: read_outcome_def)
  have "chip_id t = chip_id s" and "usb_data t = le_word (xfer_bytes (last xs))"
    using xs by (simp_all add: read_outcome_def)
  then have s': "s' = t" and v: "v = le_word (xfer_bytes (last xs))"
    using assms(1,3) loop ret by (simp_all add: rtw_usb_read_def usb_bus_ok_def)
  have "concat (map reg_access xs) = concat (map reg_access (butlast xs)) @ reg_access (last xs)"
    using ne by (cases xs rule: rev_cases) simp_all
  also have "\<dots> = [Rd n a v]"
    using retries last v assms(2)
    by (simp add: concat_map_reg_access_retries reg_access_def xfer_complete_def ucast_ucast_addr)
  finally show "reg_log s' = reg_log s @ [Rd n a v]"
    using xs s' by (simp add: reg_log_def read_outcome_def)
  show "usb_bus_ok s'"
    using xs s' assms(1) by (simp add: usb_bus_ok_def read_outcome_def)
qed

lemma rtw_usb_write_reg_log:
  assumes "usb_bus_ok s" and "a < 0x10000"
  shows "reg_log (rtw_usb_write a v n ex s) = reg_log s @ [Wr n a (take_bit (8 * n) v)]"
    and "usb_bus_ok (rtw_usb_write a v n ex s)"
  using assms
  by (simp_all add: usb_bus_ok_def responsive_def rtw_usb_write_eq usb_written_def reg_log_def reg_access_def
      xfer_complete_def ucast_ucast_addr)

interpretation usb_bus: reg_bus
  "\<lambda>w a s. rtw_usb_read a w s" "\<lambda>w a v s. rtw_usb_write a v w False s"
  reg_log usb_bus_ok "\<lambda>a. a < 0x10000"
  by unfold_locales (simp_all add: rtw_usb_read_reg_log rtw_usb_write_reg_log)

text \<open>\<open>rtw_write32_mask\<close> of \<open>hci.h\<close> over the USB operations.\<close>

definition rtw_usb_write32_mask :: "u32 \<Rightarrow> u32 \<Rightarrow> u32 \<Rightarrow> rtw_usb_ctrl \<Rightarrow> rtw_usb_ctrl" where
  "rtw_usb_write32_mask addr mask' data s =
     (case rtw_usb_read32 addr s of
        (orig, s) \<Rightarrow> rtw_usb_write32 addr (mask_merge orig mask' data) s)"

lemma rtw_usb_write32_mask_rmw:
  "rtw_usb_write32_mask addr m data s = usb_bus.rmw 4 addr (\<lambda>orig. mask_merge orig m data) s"
  by (simp add: rtw_usb_write32_mask_def usb_bus.rmw_def rtw_usb_read32_def rtw_usb_write32_def)

lemma fw_page_all_complete:
  assumes "responsive (usb_dev s)" and "0 < block_size"
  shows "\<exists>xs. page_outcome addr buf s (fw_page_loop block_size addr buf s) xs []
    \<and> list_all xfer_complete xs"
  using assms
proof (induction block_size addr buf s rule: fw_page_loop.induct)
  case (1 block_size addr buf s)
  let ?n = "fw_chunk block_size (length buf)"
  note unfold = fw_page_loop.simps [of block_size addr buf s]
  show ?case
  proof (cases "buf = []")
    case True
    then have "page_outcome addr buf s (fw_page_loop block_size addr buf s) [] []"
      using unfold by (simp add: page_outcome_def)
    then show ?thesis by fastforce
  next
    case False
    then have n: "0 < ?n" "?n \<le> length buf"
      using fw_chunk_le fw_chunk_pos [OF "1.prems"(2)] by auto
    let ?x = "\<lparr>xfer_req = CtrlOut (ucast addr) (take ?n buf), xfer_status = int ?n, xfer_bytes = []\<rparr>"
    let ?t = "s\<lparr>ctrl_log := ctrl_log s @ [?x]\<rparr>"
    have st: "fst (usb_dev s (ctrl_log s) (CtrlOut (ucast addr) (take ?n buf))) = int ?n"
      using "1.prems"(1) n by (simp add: responsive_def)
    then have eq: "fw_page_loop block_size addr buf s
        = fw_page_loop block_size (addr + of_nat ?n) (drop ?n buf) ?t"
      using False "1.prems" by (simp add: unfold usb_control_out_eq Let_def)
    from "1.IH" [OF _ refl usb_control_out_eq [symmetric]] False "1.prems" st
    obtain xs where xs: "page_outcome (addr + of_nat ?n) (drop ?n buf) ?t
        (fw_page_loop block_size (addr + of_nat ?n) (drop ?n buf) ?t) xs []"
        "list_all xfer_complete xs"
      by auto
    have "xfer_complete ?x"
      using n by (simp add: xfer_complete_def)
    with page_outcome_Cons [OF xs(1) _ _ n] xs(2) show ?thesis
      unfolding eq by (intro exI [of _ "?x # xs"]) simp
  qed
qed

section \<open>Properties\<close>

text \<open>
  Property C7. A register read returns exactly what the adapter delivered in its last
  transfer, zero-extended, and nothing an earlier transfer left in the shared buffer: not
  a read before it, and not an attempt of the same read that failed after storing some
  bytes. The transfers are those of \<open>read_attempts\<close>, which asks the adapter between one
  and three times and repeats only after a retryable error; each repetition is counted,
  an error is counted iff the last transfer did not complete, only a completed read on an
  affected chip is followed by the section write, and the whole outcome is the same
  whatever the buffer held before.
\<close>

theorem rtw_usb_read_no_stale:
  "1 \<le> length (read_xfers addr len s) \<and> length (read_xfers addr len s) \<le> 3
    \<and> list_all (\<lambda>x. xfer_req x = CtrlIn (ucast addr) len) (read_xfers addr len s)
    \<and> fst (rtw_usb_read addr len s) = le_word (xfer_bytes (last (read_xfers addr len s)))
    \<and> snd (rtw_usb_read addr len s) =
        (if xfer_status (last (read_xfers addr len s)) = int len
         then (if needs_reg_sec (chip_id s) then rtw_usb_reg_sec addr (read_done (read_xfers addr len s) s)
               else read_done (read_xfers addr len s) s)
         else (read_done (read_xfers addr len s) s)\<lparr>ctrl_error_count := ctrl_error_count s + 1\<rparr>)
    \<and> rtw_usb_read addr len (s\<lparr>usb_data := d\<rparr>) = rtw_usb_read addr len s"
proof -
  define xs where "xs = read_xfers addr len s"
  obtain ret t where loop: "rtw_usb_read_loop addr len 1 0 s = (ret, t)"
    by fastforce
  have ne: "xs \<noteq> []"
    by (simp add: xs_def read_xfers_def)
  have "t = read_done xs s" and "ret = int len \<longleftrightarrow> xfer_status (last xs) = int len"
    using rtw_usb_read_loop_attempts [of 1 3 xs s addr len 0] loop
    by (simp_all add: RTW_USB_CTRL_READ_MAX_ATTEMPTS_def xs_def read_xfers_def)
  then have "fst (rtw_usb_read addr len s) = le_word (xfer_bytes (last xs))
    \<and> snd (rtw_usb_read addr len s) =
        (if xfer_status (last xs) = int len
         then (if needs_reg_sec (chip_id s) then rtw_usb_reg_sec addr (read_done xs s)
               else read_done xs s)
         else (read_done xs s)\<lparr>ctrl_error_count := ctrl_error_count s + 1\<rparr>)"
    using loop by (auto simp: rtw_usb_read_def Let_def read_done_def rtw_usb_reg_sec_def usb_control_out_def)
  moreover have "rtw_usb_read addr len (s\<lparr>usb_data := d\<rparr>) = rtw_usb_read addr len s"
    by (simp only: rtw_usb_read_def read_loop_ignores_buffer)
  ultimately show ?thesis
    using ne read_attempts_length [of 3] read_attempts_req
    by (simp add: xs_def [symmetric]) (simp add: xs_def read_xfers_def Suc_le_eq)
qed

text \<open>
  A register read issues between one and three identical IN transfers,
  repeats only after a retryable error, returns exactly what the last transfer
  delivered, counts each repetition, and counts one error iff the last transfer did not
  complete; only a completed read on an affected chip is followed by the section write.
\<close>

theorem rtw_usb_read_bounded:
  "\<exists>xs ret t. read_outcome addr len s ret t xs
      \<and> 1 \<le> length xs \<and> length xs \<le> 3
      \<and> fst (rtw_usb_read addr len s) = le_word (xfer_bytes (last xs))
      \<and> snd (rtw_usb_read addr len s) =
          (if ret \<noteq> int len then t\<lparr>ctrl_error_count := ctrl_error_count t + 1\<rparr>
           else if needs_reg_sec (chip_id s) then rtw_usb_reg_sec addr t else t)"
proof -
  have "1 \<le> length xs" if "read_outcome addr len s ret t xs" for xs ret t
    using that by (cases xs) (auto simp: read_outcome_def)
  with rtw_usb_read_outcome [of addr len s, unfolded RTW_USB_CTRL_READ_MAX_ATTEMPTS_def]
  show ?thesis
    by blast
qed

text \<open>
  A register write is sent exactly once, whatever its status: the history
  grows by the write itself and at most the one-byte section write of the affected
  chips, no retry is counted, and the error counter moves iff the transfer did not
  complete and its error is not an expected disconnect.
\<close>

theorem rtw_usb_write_once:
  "\<exists>x ys. ctrl_log (rtw_usb_write addr val len ex s) = ctrl_log s @ x # ys
      \<and> xfer_req x = CtrlOut (ucast addr) (le_bytes len val)
      \<and> length ys \<le> 1 \<and> list_all (\<lambda>y. xfer_req y = CtrlOut 0x4e0 (le_bytes 1 val)) ys
      \<and> ctrl_retry_count (rtw_usb_write addr val len ex s) = ctrl_retry_count s
      \<and> ctrl_error_count (rtw_usb_write addr val len ex s) = ctrl_error_count s
          + (if xfer_status x = int len
                \<or> ex \<and> rtw_usb_ctrl_expected_disconnect (xfer_status x) then 0 else 1)"
proof -
  let ?st = "fst (usb_dev s (ctrl_log s) (CtrlOut (ucast addr) (le_bytes len val)))"
  let ?t = "usb_written addr val len ex ?st s"
  have log: "ctrl_log ?t = ctrl_log s @ [\<lparr>xfer_req = CtrlOut (ucast addr) (le_bytes len val),
      xfer_status = ?st, xfer_bytes = []\<rparr>]" and data: "usb_data ?t = val"
    by (simp_all add: usb_written_def)
  obtain ys where "ctrl_log (rtw_usb_write addr val len ex s) = ctrl_log ?t @ ys" "length ys \<le> 1"
    "list_all (\<lambda>y. xfer_req y = CtrlOut 0x4e0 (le_bytes 1 val)) ys"
    "ctrl_retry_count (rtw_usb_write addr val len ex s) = ctrl_retry_count ?t"
    "ctrl_error_count (rtw_usb_write addr val len ex s) = ctrl_error_count ?t"
    using rtw_usb_reg_sec_log [of addr ?t] unfolding rtw_usb_write_full [OF refl] data
    by (cases "?st = int len \<and> needs_reg_sec (chip_id s)") auto
  then show ?thesis
    unfolding log by (intro exI conjI) (auto simp: usb_written_def)
qed

text \<open>An adapter whose reads time out on every other attempt.\<close>

definition flaky_dev :: "ctrl_xfer list \<Rightarrow> ctrl_req \<Rightarrow> int \<times> u8 list" where
  "flaky_dev h req = (case req of
     CtrlIn a n \<Rightarrow> if odd (length h) then (int n, replicate n 0x5a) else (- ETIMEDOUT, [0xee])
   | CtrlOut a p \<Rightarrow> (int (length p), []))"

definition flaky_usb :: rtw_usb_ctrl where
  "flaky_usb = \<lparr>chip_id = RTW_CHIP_TYPE_8812A, usb_data = 0xdeadbeef, ctrl_error_count = 0,
     ctrl_retry_count = 0, ctrl_log = [], usb_dev = flaky_dev\<rparr>"

lemma flaky_usb_ok: "usb_bus_ok flaky_usb"
  by (simp add: usb_bus_ok_def flaky_usb_def responsive_def flaky_dev_def needs_reg_sec_def
      RTW_USB_CTRL_READ_MAX_ATTEMPTS_def rtw_usb_ctrl_error_retryable_def numeral_3_eq_3)

text \<open>
  Property C4. The USB transport implements the register interface of \<open>hci.h\<close>: on a
  responsive adapter a masked register write appears, whatever retries it took, as one
  four-byte read followed by one four-byte write whose value keeps the bits outside the
  mask.
\<close>

theorem usb_masked_write_refines:
  assumes "usb_bus_ok s" and "a < 0x10000"
  shows "\<exists>orig. reg_log (rtw_usb_write32_mask a m data s)
      = reg_log s @ [Rd 4 a orig, Wr 4 a (mask_merge orig m data)]
      \<and> mask_merge orig m data AND NOT m = orig AND NOT m"
  using usb_bus.rmw_log [of s 4 a "\<lambda>orig. mask_merge orig m data"] assms
  by (simp add: rtw_usb_write32_mask_rmw mask_merge_outside take_bit_word_eq_self)

theorem usb_masked_write_refines_witness:
  "\<exists>orig. reg_log (rtw_usb_write32_mask 0x80 0xff00 3 flaky_usb)
      = reg_log flaky_usb @ [Rd 4 0x80 orig, Wr 4 0x80 (mask_merge orig 0xff00 3)]
      \<and> mask_merge orig 0xff00 3 AND NOT 0xff00 = orig AND NOT 0xff00"
  by (rule usb_masked_write_refines [OF flaky_usb_ok]) simp

text \<open>
  On a responsive adapter a firmware page is written completely: after the
  page selection the payloads of the added transfers, at consecutive addresses from
  \<open>0x1000\<close>, concatenate to exactly the page.
\<close>

theorem rtw_usb_write_firmware_page_complete:
  assumes "usb_bus_ok s"
  shows "\<exists>xs t. t = rtw_usb_write32_mask REG_MCUFW_CTRL BIT_ROM_PGE page s
      \<and> rtw_usb_write_firmware_page True page data s = t\<lparr>ctrl_log := ctrl_log t @ xs\<rparr>
      \<and> page_xfers FW_START_ADDR_LEGACY xs
      \<and> concat (map xfer_payload xs) = data"
proof -
  let ?t = "rtw_usb_write32_mask REG_MCUFW_CTRL BIT_ROM_PGE page s"
  have "usb_bus_ok ?t"
    unfolding rtw_usb_write32_mask_rmw
    by (rule usb_bus.rmw_ok) (use assms in \<open>simp_all add: REG_MCUFW_CTRL_def\<close>)
  then have "responsive (usb_dev ?t)"
    by (simp add: usb_bus_ok_def)
  moreover have "0 < fw_block_size c" for c
    by (simp add: fw_block_size_def)
  moreover obtain orig u where "rtw_usb_read32 REG_MCUFW_CTRL s = (orig, u)"
    by fastforce
  then have "rtw_usb_write_firmware_page True page data s
      = fw_page_loop (fw_block_size (chip_id u)) FW_START_ADDR_LEGACY data ?t"
    by (simp add: rtw_usb_write_firmware_page_def rtw_usb_write32_mask_def)
  ultimately show ?thesis
    using fw_page_all_complete [of ?t "fw_block_size (chip_id u)" FW_START_ADDR_LEGACY data]
    by (auto simp: page_outcome_def)
qed

theorem rtw_usb_write_firmware_page_complete_witness:
  "\<exists>xs t. t = rtw_usb_write32_mask REG_MCUFW_CTRL BIT_ROM_PGE 2 flaky_usb
      \<and> rtw_usb_write_firmware_page True 2 (replicate 205 7) flaky_usb = t\<lparr>ctrl_log := ctrl_log t @ xs\<rparr>
      \<and> page_xfers FW_START_ADDR_LEGACY xs
      \<and> concat (map xfer_payload xs) = replicate 205 7"
  by (rule rtw_usb_write_firmware_page_complete [OF flaky_usb_ok])

end
