(* ===== verification/TxDesc.thy ===== *)
theory TxDesc
  imports UsbCtrl
begin

text \<open>
  The transmit descriptor (\<open>tx.h\<close>, \<open>tx.c\<close>): its bit fields, how
  \<open>rtw_tx_fill_tx_desc\<close> packs a packet's parameters into its words, and the checksum
  over its leading half-words that the hardware verifies.
\<close>

section \<open>Packet parameters and descriptor words\<close>

record rtw_tx_pkt_info =
  tx_pkt_size :: u32
  offset :: u8
  pkt_offset :: u8
  tim_offset :: u8
  mac_id :: u8
  rate_id :: u8
  rate :: u8
  qsel :: u8
  bw :: u8
  sec_type :: u8
  sn :: u8
  ampdu_en :: bool
  ampdu_factor :: u8
  ampdu_density :: u8
  seq :: u16
  stbc :: bool
  ldpc :: bool
  dis_rate_fallback :: bool
  bmc :: bool
  use_rate :: bool
  ls :: bool
  fs :: bool
  short_gi :: bool
  report :: bool
  rts :: bool
  dis_qselseq :: bool
  en_hwseq :: bool
  hw_ssn_sel :: u8
  nav_use_hdr :: bool
  bt_null :: bool

text \<open>\<open>struct rtw_tx_pkt_info pkt_info = {0}\<close>.\<close>

definition pkt_info_zero :: rtw_tx_pkt_info where
  "pkt_info_zero = \<lparr>tx_pkt_size = 0, offset = 0, pkt_offset = 0, tim_offset = 0, mac_id = 0,
     rate_id = 0, rate = 0, qsel = 0, bw = 0, sec_type = 0, sn = 0, ampdu_en = False,
     ampdu_factor = 0, ampdu_density = 0, seq = 0, stbc = False, ldpc = False,
     dis_rate_fallback = False, bmc = False, use_rate = False, ls = False, fs = False,
     short_gi = False, report = False, rts = False, dis_qselseq = False, en_hwseq = False,
     hw_ssn_sel = 0, nav_use_hdr = False, bt_null = False\<rparr>"

record rtw_tx_desc =
  w0 :: u32
  w1 :: u32
  w2 :: u32
  w3 :: u32
  w4 :: u32
  w5 :: u32
  w6 :: u32
  w7 :: u32
  w8 :: u32
  w9 :: u32

definition tx_desc_zero :: rtw_tx_desc where
  "tx_desc_zero = \<lparr>w0 = 0, w1 = 0, w2 = 0, w3 = 0, w4 = 0, w5 = 0, w6 = 0, w7 = 0, w8 = 0, w9 = 0\<rparr>"

section \<open>Bit fields of the descriptor\<close>

abbreviation RTW_TX_DESC_W0_TXPKTSIZE :: u32 where "RTW_TX_DESC_W0_TXPKTSIZE \<equiv> GENMASK 15 0"
abbreviation RTW_TX_DESC_W0_OFFSET :: u32 where "RTW_TX_DESC_W0_OFFSET \<equiv> GENMASK 23 16"
abbreviation RTW_TX_DESC_W0_BMC :: u32 where "RTW_TX_DESC_W0_BMC \<equiv> BIT 24"
abbreviation RTW_TX_DESC_W0_LS :: u32 where "RTW_TX_DESC_W0_LS \<equiv> BIT 26"
abbreviation RTW_TX_DESC_W0_FS :: u32 where "RTW_TX_DESC_W0_FS \<equiv> BIT 27"
abbreviation RTW_TX_DESC_W0_DISQSELSEQ :: u32 where "RTW_TX_DESC_W0_DISQSELSEQ \<equiv> BIT 31"
abbreviation RTW_TX_DESC_W0_OWN :: u32 where "RTW_TX_DESC_W0_OWN \<equiv> BIT 31"
abbreviation RTW_TX_DESC_W1_MACID :: u32 where "RTW_TX_DESC_W1_MACID \<equiv> GENMASK 7 0"
abbreviation RTW_TX_DESC_W1_QSEL :: u32 where "RTW_TX_DESC_W1_QSEL \<equiv> GENMASK 12 8"
abbreviation RTW_TX_DESC_W1_RATE_ID :: u32 where "RTW_TX_DESC_W1_RATE_ID \<equiv> GENMASK 20 16"
abbreviation RTW_TX_DESC_W1_SEC_TYPE :: u32 where "RTW_TX_DESC_W1_SEC_TYPE \<equiv> GENMASK 23 22"
abbreviation RTW_TX_DESC_W1_PKT_OFFSET :: u32 where "RTW_TX_DESC_W1_PKT_OFFSET \<equiv> GENMASK 28 24"
abbreviation RTW_TX_DESC_W1_MORE_DATA :: u32 where "RTW_TX_DESC_W1_MORE_DATA \<equiv> BIT 29"
abbreviation RTW_TX_DESC_W2_AGG_EN :: u32 where "RTW_TX_DESC_W2_AGG_EN \<equiv> BIT 12"
abbreviation RTW_TX_DESC_W2_SPE_RPT :: u32 where "RTW_TX_DESC_W2_SPE_RPT \<equiv> BIT 19"
abbreviation RTW_TX_DESC_W2_AMPDU_DEN :: u32 where "RTW_TX_DESC_W2_AMPDU_DEN \<equiv> GENMASK 22 20"
abbreviation RTW_TX_DESC_W2_BT_NULL :: u32 where "RTW_TX_DESC_W2_BT_NULL \<equiv> BIT 23"
abbreviation RTW_TX_DESC_W3_HW_SSN_SEL :: u32 where "RTW_TX_DESC_W3_HW_SSN_SEL \<equiv> GENMASK 7 6"
abbreviation RTW_TX_DESC_W3_USE_RATE :: u32 where "RTW_TX_DESC_W3_USE_RATE \<equiv> BIT 8"
abbreviation RTW_TX_DESC_W3_DISDATAFB :: u32 where "RTW_TX_DESC_W3_DISDATAFB \<equiv> BIT 10"
abbreviation RTW_TX_DESC_W3_USE_RTS :: u32 where "RTW_TX_DESC_W3_USE_RTS \<equiv> BIT 12"
abbreviation RTW_TX_DESC_W3_NAVUSEHDR :: u32 where "RTW_TX_DESC_W3_NAVUSEHDR \<equiv> BIT 15"
abbreviation RTW_TX_DESC_W3_MAX_AGG_NUM :: u32 where "RTW_TX_DESC_W3_MAX_AGG_NUM \<equiv> GENMASK 21 17"
abbreviation RTW_TX_DESC_W4_DATARATE :: u32 where "RTW_TX_DESC_W4_DATARATE \<equiv> GENMASK 6 0"
abbreviation RTW_TX_DESC_W4_DATARATE_FB_LIMIT :: u32 where "RTW_TX_DESC_W4_DATARATE_FB_LIMIT \<equiv> GENMASK 12 8"
abbreviation RTW_TX_DESC_W4_RTSRATE :: u32 where "RTW_TX_DESC_W4_RTSRATE \<equiv> GENMASK 28 24"
abbreviation RTW_TX_DESC_W5_DATA_SHORT :: u32 where "RTW_TX_DESC_W5_DATA_SHORT \<equiv> BIT 4"
abbreviation RTW_TX_DESC_W5_DATA_BW :: u32 where "RTW_TX_DESC_W5_DATA_BW \<equiv> GENMASK 6 5"
abbreviation RTW_TX_DESC_W5_DATA_LDPC :: u32 where "RTW_TX_DESC_W5_DATA_LDPC \<equiv> BIT 7"
abbreviation RTW_TX_DESC_W5_DATA_STBC :: u32 where "RTW_TX_DESC_W5_DATA_STBC \<equiv> GENMASK 9 8"
abbreviation RTW_TX_DESC_W5_DATA_RTS_SHORT :: u32 where "RTW_TX_DESC_W5_DATA_RTS_SHORT \<equiv> BIT 12"
abbreviation RTW_TX_DESC_W6_SW_DEFINE :: u32 where "RTW_TX_DESC_W6_SW_DEFINE \<equiv> GENMASK 11 0"
abbreviation RTW_TX_DESC_W7_TXDESC_CHECKSUM :: u32 where "RTW_TX_DESC_W7_TXDESC_CHECKSUM \<equiv> GENMASK 15 0"
abbreviation RTW_TX_DESC_W7_TX_BUFFER_SIZE :: u32 where "RTW_TX_DESC_W7_TX_BUFFER_SIZE \<equiv> GENMASK 15 0"
abbreviation RTW_TX_DESC_W7_DMA_TXAGG_NUM :: u32 where "RTW_TX_DESC_W7_DMA_TXAGG_NUM \<equiv> GENMASK 31 24"
abbreviation RTW_TX_DESC_W8_EN_HWSEQ :: u32 where "RTW_TX_DESC_W8_EN_HWSEQ \<equiv> BIT 15"
abbreviation RTW_TX_DESC_W9_SW_SEQ :: u32 where "RTW_TX_DESC_W9_SW_SEQ \<equiv> GENMASK 23 12"
abbreviation RTW_TX_DESC_W9_TIM_EN :: u32 where "RTW_TX_DESC_W9_TIM_EN \<equiv> BIT 7"
abbreviation RTW_TX_DESC_W9_TIM_OFFSET :: u32 where "RTW_TX_DESC_W9_TIM_OFFSET \<equiv> GENMASK 6 0"

definition le8 :: "u8 \<Rightarrow> u32 \<Rightarrow> u32" where
  "le8 v field = encode_bits (ucast v) field"

definition le16 :: "u16 \<Rightarrow> u32 \<Rightarrow> u32" where
  "le16 v field = encode_bits (ucast v) field"

definition leb :: "bool \<Rightarrow> u32 \<Rightarrow> u32" where
  "leb v field = encode_bits (of_bool_w v) field"

abbreviation (input) TX_DESC_QSEL_TID0 :: nat where "TX_DESC_QSEL_TID0 \<equiv> 0"
abbreviation (input) TX_DESC_QSEL_TID7 :: nat where "TX_DESC_QSEL_TID7 \<equiv> 7"
abbreviation (input) TX_DESC_QSEL_TID15 :: nat where "TX_DESC_QSEL_TID15 \<equiv> 15"
abbreviation (input) TX_DESC_QSEL_BEACON :: u8 where "TX_DESC_QSEL_BEACON \<equiv> 16"
abbreviation (input) TX_DESC_QSEL_HIGH :: u8 where "TX_DESC_QSEL_HIGH \<equiv> 17"
abbreviation (input) TX_DESC_QSEL_MGMT :: u8 where "TX_DESC_QSEL_MGMT \<equiv> 18"
abbreviation (input) TX_DESC_QSEL_H2C :: u8 where "TX_DESC_QSEL_H2C \<equiv> 19"

abbreviation (input) DESC_RATE24M :: u8 where "DESC_RATE24M \<equiv> 0x08"

section \<open>Filling the descriptor\<close>

definition rtw_tx_fill_tx_desc :: "bool \<Rightarrow> rtw_tx_pkt_info \<Rightarrow> rtw_tx_desc \<Rightarrow> rtw_tx_desc" where
  "rtw_tx_fill_tx_desc old_datarate_fb_limit pkt d =
     (let more_data = (qsel pkt = TX_DESC_QSEL_HIGH);
          v0 = encode_bits (tx_pkt_size pkt) RTW_TX_DESC_W0_TXPKTSIZE
               OR le8 (offset pkt) RTW_TX_DESC_W0_OFFSET
               OR leb (bmc pkt) RTW_TX_DESC_W0_BMC
               OR leb (ls pkt) RTW_TX_DESC_W0_LS
               OR leb (dis_qselseq pkt) RTW_TX_DESC_W0_DISQSELSEQ;
          v1 = le8 (mac_id pkt) RTW_TX_DESC_W1_MACID
               OR le8 (qsel pkt) RTW_TX_DESC_W1_QSEL
               OR le8 (rate_id pkt) RTW_TX_DESC_W1_RATE_ID
               OR le8 (sec_type pkt) RTW_TX_DESC_W1_SEC_TYPE
               OR le8 (pkt_offset pkt) RTW_TX_DESC_W1_PKT_OFFSET
               OR leb more_data RTW_TX_DESC_W1_MORE_DATA;
          v2 = leb (ampdu_en pkt) RTW_TX_DESC_W2_AGG_EN
               OR leb (report pkt) RTW_TX_DESC_W2_SPE_RPT
               OR le8 (ampdu_density pkt) RTW_TX_DESC_W2_AMPDU_DEN
               OR leb (bt_null pkt) RTW_TX_DESC_W2_BT_NULL;
          v3 = le8 (hw_ssn_sel pkt) RTW_TX_DESC_W3_HW_SSN_SEL
               OR leb (use_rate pkt) RTW_TX_DESC_W3_USE_RATE
               OR leb (dis_rate_fallback pkt) RTW_TX_DESC_W3_DISDATAFB
               OR leb (rts pkt) RTW_TX_DESC_W3_USE_RTS
               OR leb (nav_use_hdr pkt) RTW_TX_DESC_W3_NAVUSEHDR
               OR le8 (ampdu_factor pkt) RTW_TX_DESC_W3_MAX_AGG_NUM;
          v4a = le8 (rate pkt) RTW_TX_DESC_W4_DATARATE;
          v4b = (if old_datarate_fb_limit
                 then v4a OR encode_bits 0x1f RTW_TX_DESC_W4_DATARATE_FB_LIMIT else v4a);
          v5a = leb (short_gi pkt) RTW_TX_DESC_W5_DATA_SHORT
               OR le8 (bw pkt) RTW_TX_DESC_W5_DATA_BW
               OR leb (ldpc pkt) RTW_TX_DESC_W5_DATA_LDPC
               OR leb (stbc pkt) RTW_TX_DESC_W5_DATA_STBC;
          v6 = le8 (sn pkt) RTW_TX_DESC_W6_SW_DEFINE;
          v8 = leb (en_hwseq pkt) RTW_TX_DESC_W8_EN_HWSEQ;
          v9a = le16 (seq pkt) RTW_TX_DESC_W9_SW_SEQ;
          v4 = (if rts pkt then v4b OR le8 DESC_RATE24M RTW_TX_DESC_W4_RTSRATE else v4b);
          v5 = (if rts pkt then v5a OR encode_bits 1 RTW_TX_DESC_W5_DATA_RTS_SHORT else v5a);
          v9 = (if tim_offset pkt \<noteq> 0
                then v9a OR (encode_bits 1 RTW_TX_DESC_W9_TIM_EN
                             OR le8 (tim_offset pkt) RTW_TX_DESC_W9_TIM_OFFSET)
                else v9a)
      in d\<lparr>w0 := v0, w1 := v1, w2 := v2, w3 := v3, w4 := v4, w5 := v5, w6 := v6,
           w8 := v8, w9 := v9\<rparr>)"

section \<open>The descriptor checksum\<close>

text \<open>The descriptor as the little-endian half-words the checksum runs over.\<close>

definition halfwords :: "u32 list \<Rightarrow> u16 list" where
  "halfwords ws = concat (map (\<lambda>w. [ucast w, ucast (drop_bit 16 w)]) ws)"

definition desc_words :: "rtw_tx_desc \<Rightarrow> u32 list" where
  "desc_words d = [w0 d, w1 d, w2 d, w3 d, w4 d, w5 d, w6 d, w7 d, w8 d, w9 d]"

definition xor_fold :: "u16 list \<Rightarrow> u16" where
  "xor_fold xs = fold (\<lambda>x c. c XOR x) xs 0"

definition fill_txdesc_checksum_common :: "nat \<Rightarrow> rtw_tx_desc \<Rightarrow> rtw_tx_desc" where
  "fill_txdesc_checksum_common words d =
     (let d0 = d\<lparr>w7 := replace_bits (w7 d) 0 RTW_TX_DESC_W7_TXDESC_CHECKSUM\<rparr>;
          chksum = xor_fold (take words (halfwords (desc_words d0)))
      in d0\<lparr>w7 := replace_bits (w7 d0) (ucast chksum) RTW_TX_DESC_W7_TXDESC_CHECKSUM\<rparr>)"

text \<open>The RTL8812A covers the first 16 half-words.\<close>

definition rtw8812a_fill_txdesc_checksum :: "rtw_tx_desc \<Rightarrow> rtw_tx_desc" where
  "rtw8812a_fill_txdesc_checksum d = fill_txdesc_checksum_common 16 d"

text \<open>\<open>rtw_usb_fill_tx_checksum\<close>: the aggregate's packet count goes into the first descriptor.\<close>

definition rtw_usb_fill_tx_checksum :: "rtw_tx_desc \<Rightarrow> nat \<Rightarrow> rtw_tx_desc" where
  "rtw_usb_fill_tx_checksum d agg_num =
     rtw8812a_fill_txdesc_checksum
       (d\<lparr>w7 := replace_bits (w7 d) (of_nat agg_num) RTW_TX_DESC_W7_DMA_TXAGG_NUM\<rparr>)"

section \<open>Reading the fields back\<close>

lemmas tx_desc_unfold = rtw_tx_fill_tx_desc_def Let_def le8_def le16_def leb_def

lemma take_bit_ucast_u8 [simp]: "8 \<le> n \<Longrightarrow> take_bit n (ucast (v :: u8) :: u32) = ucast v"
  by (rule bit_word_eqI) (auto simp: bit_simps dest: bit_u8_less)

lemma take_bit_of_bool_w [simp]: "0 < n \<Longrightarrow> take_bit n (of_bool_w b :: 'a::len word) = of_bool_w b"
  by (rule bit_word_eqI) (auto simp: bit_simps of_bool_w_def)

lemma of_bool_w_mod_2 [simp]: "of_bool_w b mod 2 = (of_bool_w b :: 'a::len word)"
  by (simp add: of_bool_w_def mod_2_eq_odd)

lemma w1_qsel:
  "get_bits (w1 (rtw_tx_fill_tx_desc f pkt d)) RTW_TX_DESC_W1_QSEL = take_bit 5 (ucast (qsel pkt))"
  by (simp add: tx_desc_unfold field_rules)

section \<open>The checksum cancels\<close>

abbreviation lo16 :: "u32 \<Rightarrow> u16" where "lo16 w \<equiv> ucast w"
abbreviation hi16 :: "u32 \<Rightarrow> u16" where "hi16 w \<equiv> ucast (drop_bit 16 w)"

lemma lo16_replace: "lo16 (replace_bits w v (GENMASK 15 0)) = ucast v"
  by (rule bit_word_eqI) (auto simp: bit_simps field_bits replace_bits_def)

lemma hi16_replace: "hi16 (replace_bits w v (GENMASK 15 0)) = hi16 w"
  by (rule bit_word_eqI) (auto simp: bit_simps field_bits replace_bits_def)

lemma fold_xor_acc: "fold (\<lambda>x c. c XOR x) xs (a :: u16) = a XOR fold (\<lambda>x c. c XOR x) xs 0"
proof (induction xs arbitrary: a)
  case Nil
  then show ?case by simp
next
  case (Cons x xs)
  have "fold (\<lambda>x c. c XOR x) (x # xs) a = (a XOR x) XOR fold (\<lambda>x c. c XOR x) xs 0"
    using Cons.IH [of "a XOR x"] by simp
  also have "\<dots> = a XOR fold (\<lambda>x c. c XOR x) (x # xs) 0"
    using Cons.IH [of x] by (simp add: xor.assoc)
  finally show ?case .
qed

lemma xor_fold_append: "xor_fold (xs @ ys) = xor_fold xs XOR xor_fold ys"
  by (simp add: xor_fold_def fold_xor_acc [of ys "fold (\<lambda>x c. c XOR x) xs 0"])

lemma xor_fold_Cons: "xor_fold (x # xs) = x XOR xor_fold xs"
  by (simp add: xor_fold_def fold_xor_acc [of xs x])

lemma lo16_ucast [simp]: "lo16 (ucast (c :: u16)) = c"
  by (rule bit_word_eqI) (auto simp: bit_simps)

lemma xor_fold_Nil [simp]: "xor_fold [] = 0"
  by (simp add: xor_fold_def)

lemma take_16_halfwords:
  "take 16 (halfwords (desc_words d)) =
     halfwords [w0 d, w1 d, w2 d, w3 d, w4 d, w5 d, w6 d] @ [lo16 (w7 d), hi16 (w7 d)]"
  by (simp add: halfwords_def desc_words_def)

lemma checksum_valid:
  "xor_fold (take 16 (halfwords (desc_words (fill_txdesc_checksum_common 16 d)))) = 0"
proof -
  let ?d = "fill_txdesc_checksum_common 16 d"
  let ?c = "xor_fold (halfwords [w0 d, w1 d, w2 d, w3 d, w4 d, w5 d, w6 d]) XOR hi16 (w7 d)"
  have "w7 (fill_txdesc_checksum_common 16 d)
      = replace_bits (replace_bits (w7 d) 0 (GENMASK 15 0)) (ucast ?c) (GENMASK 15 0)"
    by (simp add: fill_txdesc_checksum_common_def Let_def take_16_halfwords xor_fold_append
        xor_fold_Cons lo16_replace hi16_replace)
  moreover have "w0 ?d = w0 d" "w1 ?d = w1 d" "w2 ?d = w2 d" "w3 ?d = w3 d" "w4 ?d = w4 d"
      "w5 ?d = w5 d" "w6 ?d = w6 d"
    by (simp_all add: fill_txdesc_checksum_common_def Let_def)
  ultimately show ?thesis
    by (simp add: take_16_halfwords xor_fold_append xor_fold_Cons lo16_replace hi16_replace
        ac_simps)
qed

section \<open>Properties\<close>

text \<open>
  Property C11. Every parameter \<open>rtw_tx_fill_tx_desc\<close> packs can be read back from the
  descriptor, truncated to its field's width, and the derived bits (more data for the
  high queue, RTS rate and preamble, TIM enable, the old chips' fallback limit) are as
  the code sets them; the checksum word is untouched.
\<close>

theorem tx_desc_roundtrip:
  defines "r \<equiv> \<lambda>f pkt d. rtw_tx_fill_tx_desc f pkt d"
  shows
    "get_bits (w0 (r f pkt d)) RTW_TX_DESC_W0_TXPKTSIZE = take_bit 16 (tx_pkt_size pkt)
   \<and> get_bits (w0 (r f pkt d)) RTW_TX_DESC_W0_OFFSET = ucast (offset pkt)
   \<and> get_bits (w0 (r f pkt d)) RTW_TX_DESC_W0_BMC = of_bool_w (bmc pkt)
   \<and> get_bits (w0 (r f pkt d)) RTW_TX_DESC_W0_LS = of_bool_w (ls pkt)
   \<and> get_bits (w0 (r f pkt d)) RTW_TX_DESC_W0_DISQSELSEQ = of_bool_w (dis_qselseq pkt)
   \<and> get_bits (w1 (r f pkt d)) RTW_TX_DESC_W1_MACID = ucast (mac_id pkt)
   \<and> get_bits (w1 (r f pkt d)) RTW_TX_DESC_W1_QSEL = take_bit 5 (ucast (qsel pkt))
   \<and> get_bits (w1 (r f pkt d)) RTW_TX_DESC_W1_RATE_ID = take_bit 5 (ucast (rate_id pkt))
   \<and> get_bits (w1 (r f pkt d)) RTW_TX_DESC_W1_SEC_TYPE = take_bit 2 (ucast (sec_type pkt))
   \<and> get_bits (w1 (r f pkt d)) RTW_TX_DESC_W1_PKT_OFFSET = take_bit 5 (ucast (pkt_offset pkt))
   \<and> get_bits (w1 (r f pkt d)) RTW_TX_DESC_W1_MORE_DATA = of_bool_w (qsel pkt = TX_DESC_QSEL_HIGH)
   \<and> get_bits (w2 (r f pkt d)) RTW_TX_DESC_W2_AGG_EN = of_bool_w (ampdu_en pkt)
   \<and> get_bits (w2 (r f pkt d)) RTW_TX_DESC_W2_SPE_RPT = of_bool_w (report pkt)
   \<and> get_bits (w2 (r f pkt d)) RTW_TX_DESC_W2_AMPDU_DEN = take_bit 3 (ucast (ampdu_density pkt))
   \<and> get_bits (w2 (r f pkt d)) RTW_TX_DESC_W2_BT_NULL = of_bool_w (bt_null pkt)
   \<and> get_bits (w3 (r f pkt d)) RTW_TX_DESC_W3_HW_SSN_SEL = take_bit 2 (ucast (hw_ssn_sel pkt))
   \<and> get_bits (w3 (r f pkt d)) RTW_TX_DESC_W3_USE_RATE = of_bool_w (use_rate pkt)
   \<and> get_bits (w3 (r f pkt d)) RTW_TX_DESC_W3_DISDATAFB = of_bool_w (dis_rate_fallback pkt)
   \<and> get_bits (w3 (r f pkt d)) RTW_TX_DESC_W3_USE_RTS = of_bool_w (rts pkt)
   \<and> get_bits (w3 (r f pkt d)) RTW_TX_DESC_W3_NAVUSEHDR = of_bool_w (nav_use_hdr pkt)
   \<and> get_bits (w3 (r f pkt d)) RTW_TX_DESC_W3_MAX_AGG_NUM = take_bit 5 (ucast (ampdu_factor pkt))
   \<and> get_bits (w4 (r f pkt d)) RTW_TX_DESC_W4_DATARATE = take_bit 7 (ucast (rate pkt))
   \<and> get_bits (w4 (r f pkt d)) RTW_TX_DESC_W4_DATARATE_FB_LIMIT = (if f then 0x1f else 0)
   \<and> get_bits (w4 (r f pkt d)) RTW_TX_DESC_W4_RTSRATE = (if rts pkt then ucast DESC_RATE24M else 0)
   \<and> get_bits (w5 (r f pkt d)) RTW_TX_DESC_W5_DATA_SHORT = of_bool_w (short_gi pkt)
   \<and> get_bits (w5 (r f pkt d)) RTW_TX_DESC_W5_DATA_BW = take_bit 2 (ucast (bw pkt))
   \<and> get_bits (w5 (r f pkt d)) RTW_TX_DESC_W5_DATA_LDPC = of_bool_w (ldpc pkt)
   \<and> get_bits (w5 (r f pkt d)) RTW_TX_DESC_W5_DATA_STBC = of_bool_w (stbc pkt)
   \<and> get_bits (w5 (r f pkt d)) RTW_TX_DESC_W5_DATA_RTS_SHORT = of_bool_w (rts pkt)
   \<and> get_bits (w6 (r f pkt d)) RTW_TX_DESC_W6_SW_DEFINE = ucast (sn pkt)
   \<and> get_bits (w8 (r f pkt d)) RTW_TX_DESC_W8_EN_HWSEQ = of_bool_w (en_hwseq pkt)
   \<and> get_bits (w9 (r f pkt d)) RTW_TX_DESC_W9_SW_SEQ = take_bit 12 (ucast (seq pkt))
   \<and> get_bits (w9 (r f pkt d)) RTW_TX_DESC_W9_TIM_EN = of_bool_w (tim_offset pkt \<noteq> 0)
   \<and> get_bits (w9 (r f pkt d)) RTW_TX_DESC_W9_TIM_OFFSET = take_bit 7 (ucast (tim_offset pkt))
   \<and> w7 (r f pkt d) = w7 d"
  by (intro conjI) (simp_all add: r_def tx_desc_unfold field_rules of_bool_w_def)

text \<open>
  After \<open>rtw_usb_fill_tx_checksum\<close> the 16 half-words the hardware checks
  exclusive-or to zero, the aggregation count is the low byte of \<open>agg_num\<close>, and no other
  word of the descriptor changes.
\<close>

theorem tx_checksum_valid:
  "xor_fold (take 16 (halfwords (desc_words (rtw_usb_fill_tx_checksum d n)))) = 0
   \<and> get_bits (w7 (rtw_usb_fill_tx_checksum d n)) RTW_TX_DESC_W7_DMA_TXAGG_NUM
       = take_bit 8 (of_nat n)
   \<and> rtw_usb_fill_tx_checksum d n = d\<lparr>w7 := w7 (rtw_usb_fill_tx_checksum d n)\<rparr>"
proof (intro conjI)
  show "xor_fold (take 16 (halfwords (desc_words (rtw_usb_fill_tx_checksum d n)))) = 0"
    by (simp only: rtw_usb_fill_tx_checksum_def rtw8812a_fill_txdesc_checksum_def checksum_valid)
qed (simp_all add: rtw_usb_fill_tx_checksum_def rtw8812a_fill_txdesc_checksum_def
    fill_txdesc_checksum_common_def Let_def field_rules)

end
