(* ===== verification/Frames.thy ===== *)
theory Frames
  imports Prelude
begin

text \<open>
  The parts of an 802.11 frame the driver looks at: the frame control field, the three
  addresses of the header, and words of a buffer. The predicates are those of
  \<open>linux/ieee80211.h\<close>, with the frame types and flags of the standard; \<open>get_hdr_bssid\<close>
  is from \<open>util.h\<close>.
\<close>

text \<open>The \<open>i\<close>th little-endian 32-bit word of a buffer.\<close>

definition word_at :: "nat \<Rightarrow> u8 list \<Rightarrow> u32" where
  "word_at i bs = le_word (take 4 (drop (4 * i) bs))"

definition frame_control :: "u8 list \<Rightarrow> u16" where
  "frame_control bs = le_word (take 2 bs)"

definition ieee80211_is_mgmt :: "u16 \<Rightarrow> bool" where
  "ieee80211_is_mgmt fc \<longleftrightarrow> fc AND 0x000c = 0x0000"

definition ieee80211_is_ctl :: "u16 \<Rightarrow> bool" where
  "ieee80211_is_ctl fc \<longleftrightarrow> fc AND 0x000c = 0x0004"

definition ieee80211_is_data :: "u16 \<Rightarrow> bool" where
  "ieee80211_is_data fc \<longleftrightarrow> fc AND 0x000c = 0x0008"

definition ieee80211_is_beacon :: "u16 \<Rightarrow> bool" where
  "ieee80211_is_beacon fc \<longleftrightarrow> fc AND 0x00fc = 0x0080"

definition ieee80211_is_probe_resp :: "u16 \<Rightarrow> bool" where
  "ieee80211_is_probe_resp fc \<longleftrightarrow> fc AND 0x00fc = 0x0050"

definition ieee80211_is_nullfunc :: "u16 \<Rightarrow> bool" where
  "ieee80211_is_nullfunc fc \<longleftrightarrow> fc AND 0x00fc = 0x0048"

definition ieee80211_has_tods :: "u16 \<Rightarrow> bool" where
  "ieee80211_has_tods fc \<longleftrightarrow> fc AND 0x0100 \<noteq> 0"

definition ieee80211_has_fromds :: "u16 \<Rightarrow> bool" where
  "ieee80211_has_fromds fc \<longleftrightarrow> fc AND 0x0200 \<noteq> 0"

definition hdr_addr1 :: "u8 list \<Rightarrow> u8 list" where "hdr_addr1 bs = take 6 (drop 4 bs)"
definition hdr_addr2 :: "u8 list \<Rightarrow> u8 list" where "hdr_addr2 bs = take 6 (drop 10 bs)"
definition hdr_addr3 :: "u8 list \<Rightarrow> u8 list" where "hdr_addr3 bs = take 6 (drop 16 bs)"

text \<open>The group bit of the first address, which a broadcast address has too.\<close>

definition addr1_is_group :: "u8 list \<Rightarrow> bool" where
  "addr1_is_group bs \<longleftrightarrow> test_mask (bs ! 4) 1"

definition get_hdr_bssid :: "u8 list \<Rightarrow> u8 list" where
  "get_hdr_bssid bs =
     (let fc = frame_control bs
      in if ieee80211_has_tods fc then hdr_addr1 bs
         else if ieee80211_has_fromds fc then hdr_addr2 bs
         else hdr_addr3 bs)"

datatype nl80211_band = NL80211_BAND_2GHZ | NL80211_BAND_5GHZ

section \<open>Channels\<close>

definition IS_CH_2G_BAND :: "nat \<Rightarrow> bool" where
  "IS_CH_2G_BAND channel \<longleftrightarrow> channel \<le> 14"

definition IS_CH_5G_BAND_1 :: "nat \<Rightarrow> bool" where
  "IS_CH_5G_BAND_1 channel \<longleftrightarrow> channel \<ge> 36 \<and> channel \<le> 48"

definition IS_CH_5G_BAND_2 :: "nat \<Rightarrow> bool" where
  "IS_CH_5G_BAND_2 channel \<longleftrightarrow> channel \<ge> 52 \<and> channel \<le> 64"

definition IS_CH_5G_BAND_3 :: "nat \<Rightarrow> bool" where
  "IS_CH_5G_BAND_3 channel \<longleftrightarrow> channel \<ge> 100 \<and> channel \<le> 144"

definition IS_CH_5G_BAND_4 :: "nat \<Rightarrow> bool" where
  "IS_CH_5G_BAND_4 channel \<longleftrightarrow> channel \<ge> 149 \<and> channel \<le> 177"

definition IS_CH_5G_BAND :: "nat \<Rightarrow> bool" where
  "IS_CH_5G_BAND channel \<longleftrightarrow> IS_CH_5G_BAND_1 channel \<or> IS_CH_5G_BAND_2 channel
     \<or> IS_CH_5G_BAND_3 channel \<or> IS_CH_5G_BAND_4 channel"

end
