(* ===== verification/UsbTx.thy ===== *)
theory UsbTx
  imports TxDesc Frames
begin

text \<open>
  Bulk transmission (\<open>usb.c\<close>): the endpoints found at probe, the map from a descriptor's
  queue selector to an endpoint, the four transmit queues, their aggregation into URBs,
  the completion that hands each frame's fate to mac80211, and the writes of reserved
  pages and H2C packets. What the kernel decides (an allocation's success, what
  \<open>usb_submit_urb\<close> returns, stale heap bytes) comes from \<open>tx_env\<close>, one outcome per call;
  a completion is an event with the URB's status.
\<close>

section \<open>Endpoints\<close>

datatype rtw_dma_mapping =
    RTW_DMA_MAPPING_EXTRA | RTW_DMA_MAPPING_LOW | RTW_DMA_MAPPING_NORMAL | RTW_DMA_MAPPING_HIGH

record rtw_rqpn =
  dma_map_vo :: rtw_dma_mapping
  dma_map_vi :: rtw_dma_mapping
  dma_map_be :: rtw_dma_mapping
  dma_map_bk :: rtw_dma_mapping
  dma_map_mg :: rtw_dma_mapping
  dma_map_hi :: rtw_dma_mapping

definition rqpn_table_8812a :: "rtw_rqpn list" where
  "rqpn_table_8812a =
    [\<lparr>dma_map_vo = RTW_DMA_MAPPING_NORMAL, dma_map_vi = RTW_DMA_MAPPING_NORMAL,
      dma_map_be = RTW_DMA_MAPPING_LOW, dma_map_bk = RTW_DMA_MAPPING_LOW,
      dma_map_mg = RTW_DMA_MAPPING_EXTRA, dma_map_hi = RTW_DMA_MAPPING_HIGH\<rparr>,
     \<lparr>dma_map_vo = RTW_DMA_MAPPING_HIGH, dma_map_vi = RTW_DMA_MAPPING_NORMAL,
      dma_map_be = RTW_DMA_MAPPING_LOW, dma_map_bk = RTW_DMA_MAPPING_LOW,
      dma_map_mg = RTW_DMA_MAPPING_HIGH, dma_map_hi = RTW_DMA_MAPPING_HIGH\<rparr>,
     \<lparr>dma_map_vo = RTW_DMA_MAPPING_HIGH, dma_map_vi = RTW_DMA_MAPPING_HIGH,
      dma_map_be = RTW_DMA_MAPPING_NORMAL, dma_map_bk = RTW_DMA_MAPPING_NORMAL,
      dma_map_mg = RTW_DMA_MAPPING_HIGH, dma_map_hi = RTW_DMA_MAPPING_HIGH\<rparr>,
     \<lparr>dma_map_vo = RTW_DMA_MAPPING_HIGH, dma_map_vi = RTW_DMA_MAPPING_NORMAL,
      dma_map_be = RTW_DMA_MAPPING_LOW, dma_map_bk = RTW_DMA_MAPPING_LOW,
      dma_map_mg = RTW_DMA_MAPPING_HIGH, dma_map_hi = RTW_DMA_MAPPING_HIGH\<rparr>,
     \<lparr>dma_map_vo = RTW_DMA_MAPPING_NORMAL, dma_map_vi = RTW_DMA_MAPPING_NORMAL,
      dma_map_be = RTW_DMA_MAPPING_LOW, dma_map_bk = RTW_DMA_MAPPING_LOW,
      dma_map_mg = RTW_DMA_MAPPING_EXTRA, dma_map_hi = RTW_DMA_MAPPING_HIGH\<rparr>]"

datatype usb_xfer_type = XferControl | XferIsoc | XferBulk | XferInt

record usb_endpoint =
  ep_num :: u8
  ep_dir_in :: bool
  ep_xfer :: usb_xfer_type

record rtw_usb_ep =
  pipe_interrupt :: u8
  pipe_in :: u8
  out_ep :: "u8 list"          \<comment> \<open>\<open>RTW_USB_EP_MAX\<close> entries\<close>
  ep_of_qsel :: "int list"     \<comment> \<open>\<open>qsel_to_ep\<close>, \<open>TX_DESC_QSEL_MAX\<close> entries\<close>
  bulkout_num :: nat

definition RTW_USB_EP_MAX :: nat where "RTW_USB_EP_MAX = 4"
definition TX_DESC_QSEL_MAX :: nat where "TX_DESC_QSEL_MAX = 20"

fun dma_mapping_to_ep :: "rtw_dma_mapping \<Rightarrow> int" where
  "dma_mapping_to_ep RTW_DMA_MAPPING_HIGH = 0"
| "dma_mapping_to_ep RTW_DMA_MAPPING_NORMAL = 1"
| "dma_mapping_to_ep RTW_DMA_MAPPING_LOW = 2"
| "dma_mapping_to_ep RTW_DMA_MAPPING_EXTRA = 3"

text \<open>
  One round of the endpoint loop and the loop. The result is the error code (0 to go
  on), the number of bulk OUT pipes so far, and the state as the error left it.
\<close>

definition parse_endpoint ::
    "usb_endpoint \<Rightarrow> nat \<Rightarrow> 'x rtw_usb_ep_scheme \<Rightarrow> int \<times> nat \<times> 'x rtw_usb_ep_scheme" where
  "parse_endpoint ep n s =
     (if ep_dir_in ep \<and> ep_xfer ep = XferBulk
      then (if pipe_in s \<noteq> 0 then (- EINVAL, n, s) else (0, n, s\<lparr>pipe_in := ep_num ep\<rparr>))
      else if ep_dir_in ep \<and> ep_xfer ep = XferInt
      then (if pipe_interrupt s \<noteq> 0 then (- EINVAL, n, s)
            else (0, n, s\<lparr>pipe_interrupt := ep_num ep\<rparr>))
      else if \<not> ep_dir_in ep \<and> ep_xfer ep = XferBulk
      then (if n \<ge> RTW_USB_EP_MAX then (- EINVAL, n, s)
            else (0, Suc n, s\<lparr>out_ep := (out_ep s)[n := ep_num ep]\<rparr>))
      else (0, n, s))"

fun parse_endpoints ::
    "usb_endpoint list \<Rightarrow> nat \<Rightarrow> 'x rtw_usb_ep_scheme \<Rightarrow> int \<times> nat \<times> 'x rtw_usb_ep_scheme" where
  "parse_endpoints [] n s = (0, n, s)"
| "parse_endpoints (ep # eps) n s =
     (case parse_endpoint ep n s of
        (err, n, s) \<Rightarrow> if err \<noteq> 0 then (err, n, s) else parse_endpoints eps n s)"

definition qsel_table :: "rtw_rqpn \<Rightarrow> int list" where
  "qsel_table rqpn =
     [dma_mapping_to_ep (dma_map_be rqpn), dma_mapping_to_ep (dma_map_bk rqpn),
      dma_mapping_to_ep (dma_map_bk rqpn), dma_mapping_to_ep (dma_map_be rqpn),
      dma_mapping_to_ep (dma_map_vi rqpn), dma_mapping_to_ep (dma_map_vi rqpn),
      dma_mapping_to_ep (dma_map_vo rqpn), dma_mapping_to_ep (dma_map_vo rqpn),
      - EINVAL, - EINVAL, - EINVAL, - EINVAL, - EINVAL, - EINVAL, - EINVAL, - EINVAL,
      dma_mapping_to_ep (dma_map_hi rqpn), dma_mapping_to_ep (dma_map_hi rqpn),
      dma_mapping_to_ep (dma_map_mg rqpn), dma_mapping_to_ep (dma_map_hi rqpn)]"

definition rtw_usb_parse ::
    "rtw_rqpn list \<Rightarrow> usb_endpoint list \<Rightarrow> 'x rtw_usb_ep_scheme \<Rightarrow> int \<times> 'x rtw_usb_ep_scheme" where
  "rtw_usb_parse rqpn_table eps s =
     (case parse_endpoints eps 0 s of
        (err, n, s) \<Rightarrow>
          if err \<noteq> 0 then (err, s)
          else let s = s\<lparr>bulkout_num := n\<rparr>
               in if n < 1 \<or> n > 4 then (- EINVAL, s)
                  else (0, s\<lparr>ep_of_qsel := qsel_table (rqpn_table ! n)\<rparr>))"

definition qsel_to_ep :: "'x rtw_usb_ep_scheme \<Rightarrow> nat \<Rightarrow> int" where
  "qsel_to_ep s q = (if q \<ge> TX_DESC_QSEL_MAX then - EINVAL else ep_of_qsel s ! q)"

section \<open>Frames, URBs and the transmit state\<close>

record tx_skb =
  skb_id :: nat                         \<comment> \<open>identity of the \<open>sk_buff\<close>\<close>
  skb_data :: "u8 list"
  skb_priority :: u32
  skb_queue_mapping :: nat
  skb_vif :: "nl80211_iftype option"    \<comment> \<open>\<open>info->control.vif\<close>'s type\<close>
  skb_req_status :: bool                \<comment> \<open>\<open>IEEE80211_TX_CTL_REQ_TX_STATUS\<close>\<close>
  skb_no_ack :: bool                    \<comment> \<open>\<open>IEEE80211_TX_CTL_NO_ACK\<close>\<close>
  skb_sn :: u8                          \<comment> \<open>\<open>struct rtw_usb_tx_data\<close>\<close>

record rtw_usb_txcb =
  tx_ack_queue :: "tx_skb list"
  agg_skb :: "u8 list option"

datatype urb_context = TxCb rtw_usb_txcb | TxBuf

record tx_urb =
  urb_pipe :: u8
  urb_buf :: "u8 list"
  urb_context :: urb_context

datatype tx_stat = StatNone | StatAck | StatNoackTransmitted

text \<open>Where a frame leaves the driver's transmit queues to.\<close>

datatype tx_fate =
    TxStatus tx_skb tx_stat   \<comment> \<open>\<open>ieee80211_tx_status_irqsafe\<close>\<close>
  | TxReport tx_skb u8        \<comment> \<open>\<open>rtw_tx_report_enqueue\<close>\<close>
  | TxFreed tx_skb            \<comment> \<open>\<open>ieee80211_free_txskb\<close>\<close>

record tx_outcome =
  txcb_ok :: bool       \<comment> \<open>\<open>kmalloc\<close> of the callback data\<close>
  agg_ok :: bool        \<comment> \<open>\<open>dev_alloc_skb\<close>\<close>
  urb_ok :: bool        \<comment> \<open>\<open>usb_alloc_urb\<close>\<close>
  submit_ret :: int     \<comment> \<open>\<open>usb_submit_urb\<close>\<close>
  stale_byte :: u8      \<comment> \<open>what \<open>skb_put\<close> leaves in the padding\<close>

record rtw_usb_tx = rtw_usb_ep +
  tx_pkt_desc_sz :: nat
  old_datarate_fb_limit :: bool
  usb_tx_agg_desc_num :: nat
  tx_queue :: "tx_skb list list"        \<comment> \<open>\<open>RTW_USB_EP_MAX\<close> queues\<close>
  tx_anchor :: "tx_urb list"            \<comment> \<open>URBs in flight\<close>
  tx_urb_error_count :: u32
  tx_fates :: "tx_fate list"
  tx_work_queued :: bool
  tx_env :: "nat \<Rightarrow> tx_outcome"
  tx_calls :: nat

definition RTW_USB_MAX_XMITBUF_SZ :: nat where "RTW_USB_MAX_XMITBUF_SZ = 1024 * 20"

section \<open>Descriptors as bytes\<close>

definition desc_bytes :: "rtw_tx_desc \<Rightarrow> u8 list" where
  "desc_bytes d = concat (map (le_bytes 4) (desc_words d))"

definition desc_at :: "u8 list \<Rightarrow> rtw_tx_desc" where
  "desc_at bs = \<lparr>w0 = word_at 0 bs, w1 = word_at 1 bs, w2 = word_at 2 bs, w3 = word_at 3 bs,
     w4 = word_at 4 bs, w5 = word_at 5 bs, w6 = word_at 6 bs, w7 = word_at 7 bs,
     w8 = word_at 8 bs, w9 = word_at 9 bs\<rparr>"

text \<open>\<open>skb_push\<close> and \<open>memset\<close>: a descriptor of \<open>sz\<close> bytes in front of the data.\<close>

definition push_desc :: "nat \<Rightarrow> rtw_tx_desc \<Rightarrow> u8 list \<Rightarrow> u8 list" where
  "push_desc sz d data = desc_bytes d @ replicate (sz - 40) 0 @ data"

section \<open>Completion of a transmission\<close>

definition rtw_usb_record_tx_error :: "int \<Rightarrow> 'x rtw_usb_tx_scheme \<Rightarrow> 'x rtw_usb_tx_scheme" where
  "rtw_usb_record_tx_error status s =
     (if status \<noteq> 0 \<and> status \<noteq> - ENOENT \<and> status \<noteq> - ENODEV \<and> status \<noteq> - ESHUTDOWN
      then s\<lparr>tx_urb_error_count := tx_urb_error_count s + 1\<rparr> else s)"

definition skb_pull :: "nat \<Rightarrow> tx_skb \<Rightarrow> tx_skb" where
  "skb_pull n skb = skb\<lparr>skb_data := drop n (skb_data skb)\<rparr>"

definition tx_fate_of :: "nat \<Rightarrow> int \<Rightarrow> tx_skb \<Rightarrow> tx_fate" where
  "tx_fate_of desc_sz status skb0 =
     (let skb = skb_pull desc_sz skb0
      in if status \<noteq> 0 then TxStatus skb StatNone
         else if skb_req_status skb then TxReport skb (skb_sn skb)
         else if skb_no_ack skb then TxStatus skb StatNoackTransmitted
         else TxStatus skb StatAck)"

definition rtw_usb_write_port_tx_status ::
    "rtw_usb_txcb \<Rightarrow> int \<Rightarrow> 'x rtw_usb_tx_scheme \<Rightarrow> 'x rtw_usb_tx_scheme" where
  "rtw_usb_write_port_tx_status txcb status s0 =
     (let s = rtw_usb_record_tx_error status s0
      in s\<lparr>tx_fates := tx_fates s @ map (tx_fate_of (tx_pkt_desc_sz s) status) (tx_ack_queue txcb)\<rparr>)"

text \<open>
  The completion of the \<open>k\<close>th URB in flight: it leaves the anchor and its callback runs,
  \<open>rtw_usb_write_port_tx_complete\<close> or \<open>rtw_usb_write_port_complete\<close> (which only frees).
\<close>

definition urb_complete :: "nat \<Rightarrow> int \<Rightarrow> 'x rtw_usb_tx_scheme \<Rightarrow> 'x rtw_usb_tx_scheme" where
  "urb_complete k status s0 =
     (let urb = tx_anchor s0 ! k;
          s = s0\<lparr>tx_anchor := take k (tx_anchor s0) @ drop (Suc k) (tx_anchor s0)\<rparr>
      in case urb_context urb of
           TxCb txcb \<Rightarrow> rtw_usb_write_port_tx_status txcb status s
         | TxBuf \<Rightarrow> s)"

section \<open>Submitting to a port\<close>

definition rtw_usb_write_port ::
    "tx_outcome \<Rightarrow> u8 \<Rightarrow> u8 list \<Rightarrow> urb_context \<Rightarrow> 'x rtw_usb_tx_scheme
       \<Rightarrow> int \<times> 'x rtw_usb_tx_scheme" where
  "rtw_usb_write_port oc q buf ctx s =
     (let ep = qsel_to_ep s (unat q)
      in if ep < 0 then (ep, s)
         else if \<not> urb_ok oc then (- ENOMEM, s)
         else let urb = \<lparr>urb_pipe = out_ep s ! nat ep, urb_buf = buf, urb_context = ctx\<rparr>
              in if submit_ret oc \<noteq> 0 then (submit_ret oc, s)
                 else (0, s\<lparr>tx_anchor := tx_anchor s @ [urb]\<rparr>))"

section \<open>Aggregation\<close>

text \<open>
  The aggregation loop. The frame in hand goes into the buffer after the padding of the
  one before; the next frame of the queue follows if it still fits and the chip takes
  another descriptor. Results: the buffer, the number of frames, the frames, the rest of
  the queue.
\<close>

fun agg_loop ::
    "nat \<Rightarrow> u8 \<Rightarrow> tx_skb \<Rightarrow> tx_skb list \<Rightarrow> u8 list \<Rightarrow> nat \<Rightarrow> nat \<Rightarrow> tx_skb list
       \<Rightarrow> u8 list \<times> nat \<times> tx_skb list \<times> tx_skb list" where
  "agg_loop agg_max junk skb queue head align_next agg_num acks =
     (let head = head @ replicate align_next junk @ skb_data skb;
          align_next = align8 (length (skb_data skb)) - length (skb_data skb);
          agg_num = Suc agg_num;
          acks = acks @ [skb]
      in case queue of
           [] \<Rightarrow> (head, agg_num, acks, [])
         | nxt # queue' \<Rightarrow>
             if length (skb_data nxt) + length head \<le> RTW_USB_MAX_XMITBUF_SZ \<and> agg_num < agg_max
             then agg_loop agg_max junk nxt queue' head align_next agg_num acks
             else (head, agg_num, acks, queue))"

definition patch_agg :: "u8 list \<Rightarrow> nat \<Rightarrow> u8 list" where
  "patch_agg head agg_num =
     (if agg_num > 1
      then desc_bytes (rtw_usb_fill_tx_checksum (desc_at head) agg_num) @ drop 40 head
      else head)"

text \<open>The buffer, callback data and remaining queue of one call.\<close>

definition agg_build ::
    "nat \<Rightarrow> tx_outcome \<Rightarrow> tx_skb \<Rightarrow> tx_skb list \<Rightarrow> u8 list \<times> rtw_usb_txcb \<times> tx_skb list" where
  "agg_build agg_max oc skb queue =
     (if queue = [] \<or> \<not> agg_ok oc
      then (skb_data skb, \<lparr>tx_ack_queue = [skb], agg_skb = None\<rparr>, queue)
      else case agg_loop agg_max (stale_byte oc) skb queue [] 0 0 [] of
             (head, agg_num, acks, rest) \<Rightarrow>
               let head = patch_agg head agg_num
               in (head, \<lparr>tx_ack_queue = acks, agg_skb = Some head\<rparr>, rest))"

definition rtw_usb_tx_agg_skb :: "nat \<Rightarrow> 'x rtw_usb_tx_scheme \<Rightarrow> bool \<times> 'x rtw_usb_tx_scheme" where
  "rtw_usb_tx_agg_skb i s0 =
     (let oc = tx_env s0 (tx_calls s0); s = s0\<lparr>tx_calls := Suc (tx_calls s0)\<rparr>
      in case tx_queue s ! i of
           [] \<Rightarrow> (False, s0)
         | skb # queue \<Rightarrow>
             if \<not> txcb_ok oc then (False, s)
             else case agg_build (usb_tx_agg_desc_num s) oc skb queue of
                    (head, txcb, rest) \<Rightarrow>
                      let q = ucast (get_bits (w1 (desc_at head)) RTW_TX_DESC_W1_QSEL);
                          s = s\<lparr>tx_queue := (tx_queue s)[i := rest]\<rparr>
                      in case rtw_usb_write_port oc q head (TxCb txcb) s of
                           (ret, s) \<Rightarrow>
                             (True,
                              if ret \<noteq> 0
                              then let s = rtw_usb_record_tx_error ret s
                                   in s\<lparr>tx_fates := tx_fates s @ map TxFreed (tx_ack_queue txcb)\<rparr>
                              else s))"

section \<open>The transmit work\<close>

fun tx_drain :: "nat \<Rightarrow> nat \<Rightarrow> 'x rtw_usb_tx_scheme \<Rightarrow> 'x rtw_usb_tx_scheme" where
  "tx_drain 0 i s = s"
| "tx_drain (Suc limit) i s =
     (case rtw_usb_tx_agg_skb i s of (again, s) \<Rightarrow> if again then tx_drain limit i s else s)"

definition rtw_usb_tx_handler :: "'x rtw_usb_tx_scheme \<Rightarrow> 'x rtw_usb_tx_scheme" where
  "rtw_usb_tx_handler s = fold (tx_drain 200) (rev [0..<RTW_USB_EP_MAX]) (s\<lparr>tx_work_queued := False\<rparr>)"

definition rtw_usb_tx_queue_purge :: "'x rtw_usb_tx_scheme \<Rightarrow> 'x rtw_usb_tx_scheme" where
  "rtw_usb_tx_queue_purge s =
     s\<lparr>tx_fates := tx_fates s @ map TxFreed (concat (tx_queue s)),
       tx_queue := map (\<lambda>_. []) (tx_queue s)\<rparr>"

section \<open>Reserved pages and H2C packets\<close>

definition rtw_usb_write_data ::
    "rtw_tx_pkt_info \<Rightarrow> u8 list \<Rightarrow> 'x rtw_usb_tx_scheme \<Rightarrow> int \<times> 'x rtw_usb_tx_scheme" where
  "rtw_usb_write_data pkt buf s0 =
     (let oc = tx_env s0 (tx_calls s0); s = s0\<lparr>tx_calls := Suc (tx_calls s0)\<rparr>
      in if \<not> agg_ok oc then (- ENOMEM, s)
         else let d = rtw8812a_fill_txdesc_checksum
                        (rtw_tx_fill_tx_desc (old_datarate_fb_limit s) pkt tx_desc_zero);
                  frame = push_desc (tx_pkt_desc_sz s) d (take (unat (tx_pkt_size pkt)) buf)
              in case rtw_usb_write_port oc (qsel pkt) frame TxBuf s of
                   (ret, s) \<Rightarrow> (ret, if ret \<noteq> 0 then rtw_usb_record_tx_error ret s else s))"

definition rtw_usb_write_data_rsvd_page ::
    "u8 list \<Rightarrow> u32 \<Rightarrow> 'x rtw_usb_tx_scheme \<Rightarrow> int \<times> 'x rtw_usb_tx_scheme" where
  "rtw_usb_write_data_rsvd_page buf sz s =
     rtw_usb_write_data
       (pkt_info_zero\<lparr>tx_pkt_size := sz, qsel := TX_DESC_QSEL_BEACON,
          offset := of_nat (tx_pkt_desc_sz s), ls := True\<rparr>) buf s"

definition rtw_usb_write_data_h2c ::
    "u8 list \<Rightarrow> u32 \<Rightarrow> 'x rtw_usb_tx_scheme \<Rightarrow> int \<times> 'x rtw_usb_tx_scheme" where
  "rtw_usb_write_data_h2c buf sz s =
     rtw_usb_write_data (pkt_info_zero\<lparr>tx_pkt_size := sz, qsel := TX_DESC_QSEL_H2C\<rparr>) buf s"

section \<open>Frames from mac80211\<close>

definition rtw_usb_tx_queue_mapping_to_qsel :: "tx_skb \<Rightarrow> u8" where
  "rtw_usb_tx_queue_mapping_to_qsel skb =
     (let fc = frame_control (skb_data skb)
      in if ieee80211_is_mgmt fc \<or> ieee80211_is_ctl fc then TX_DESC_QSEL_MGMT
         else if addr1_is_group (skb_data skb)
         then (if skb_vif skb = Some NL80211_IFTYPE_MESH_POINT
               then ucast (skb_priority skb) else TX_DESC_QSEL_HIGH)
         else if skb_queue_mapping skb \<le> 3 then ucast (skb_priority skb)
         else TX_DESC_QSEL_BEACON)"

text \<open>None is the out-of-bounds access \<open>tx_queue[ep]\<close> of a negative \<open>ep\<close>.\<close>

definition rtw_usb_tx_write ::
    "rtw_tx_pkt_info \<Rightarrow> tx_skb \<Rightarrow> 'x rtw_usb_tx_scheme \<Rightarrow> 'x rtw_usb_tx_scheme option" where
  "rtw_usb_tx_write pkt0 skb0 s =
     (let pkt = pkt0\<lparr>qsel := rtw_usb_tx_queue_mapping_to_qsel skb0\<rparr>;
          ep = qsel_to_ep s (unat (qsel pkt));
          d = rtw8812a_fill_txdesc_checksum
                (rtw_tx_fill_tx_desc (old_datarate_fb_limit s) pkt tx_desc_zero);
          skb = skb0\<lparr>skb_data := push_desc (tx_pkt_desc_sz s) d (skb_data skb0), skb_sn := sn pkt\<rparr>
      in if ep < 0 \<or> nat ep \<ge> length (tx_queue s) then None
         else Some (s\<lparr>tx_queue := (tx_queue s)[nat ep := tx_queue s ! nat ep @ [skb]]\<rparr>))"

definition rtw_usb_tx_kick_off :: "'x rtw_usb_tx_scheme \<Rightarrow> 'x rtw_usb_tx_scheme" where
  "rtw_usb_tx_kick_off s = s\<lparr>tx_work_queued := True\<rparr>"

section \<open>Events\<close>

text \<open>
  What can happen to the transmit side: a frame from mac80211, the work, one aggregation
  of a queue, a completion of any URB in flight with any status, the purge at
  disconnect, the two firmware writes.
\<close>

datatype tx_event =
    EvWrite rtw_tx_pkt_info tx_skb
  | EvKick
  | EvWork
  | EvAgg nat
  | EvComplete nat int
  | EvPurge
  | EvRsvd "u8 list" u32
  | EvH2c "u8 list" u32

fun tx_apply :: "tx_event \<Rightarrow> 'x rtw_usb_tx_scheme \<Rightarrow> 'x rtw_usb_tx_scheme option" where
  "tx_apply (EvWrite pkt skb) s = rtw_usb_tx_write pkt skb s"
| "tx_apply EvKick s = Some (rtw_usb_tx_kick_off s)"
| "tx_apply EvWork s = Some (rtw_usb_tx_handler s)"
| "tx_apply (EvAgg i) s = (if i < length (tx_queue s) then Some (snd (rtw_usb_tx_agg_skb i s)) else None)"
| "tx_apply (EvComplete k st) s = (if k < length (tx_anchor s) then Some (urb_complete k st s) else None)"
| "tx_apply EvPurge s = Some (rtw_usb_tx_queue_purge s)"
| "tx_apply (EvRsvd buf sz) s = Some (snd (rtw_usb_write_data_rsvd_page buf sz s))"
| "tx_apply (EvH2c buf sz) s = Some (snd (rtw_usb_write_data_h2c buf sz s))"

fun tx_exec :: "tx_event list \<Rightarrow> 'x rtw_usb_tx_scheme \<Rightarrow> 'x rtw_usb_tx_scheme option" where
  "tx_exec [] s = Some s"
| "tx_exec (e # es) s = (case tx_apply e s of None \<Rightarrow> None | Some s \<Rightarrow> tx_exec es s)"

text \<open>An invariant that every event keeps holds after every run.\<close>

lemma tx_exec_invariant:
  assumes "tx_exec es s = Some s'" and "I s"
    and "\<And>e s s'. e \<in> set es \<Longrightarrow> I s \<Longrightarrow> tx_apply e s = Some s' \<Longrightarrow> I s'"
  shows "I s'"
  using assms
proof (induction es arbitrary: s)
  case Nil
  then show ?case by simp
next
  case (Cons e es)
  then obtain t where t: "tx_apply e s = Some t" "tx_exec es t = Some s'"
    by (auto split: option.splits)
  have "I t"
    using Cons.prems(2,3) t(1) by (meson list.set_intros(1))
  with t(2) show ?case
    using Cons.IH Cons.prems(3) by (meson list.set_intros(2))
qed

text \<open>The parts of the state no operation of this theory changes.\<close>

definition tx_same_conf :: "'x rtw_usb_tx_scheme \<Rightarrow> 'x rtw_usb_tx_scheme \<Rightarrow> bool" where
  "tx_same_conf s t \<longleftrightarrow> tx_pkt_desc_sz t = tx_pkt_desc_sz s \<and> out_ep t = out_ep s
     \<and> ep_of_qsel t = ep_of_qsel s \<and> length (tx_queue t) = length (tx_queue s)
     \<and> tx_env t = tx_env s"

lemma qsel_to_ep_cong: "ep_of_qsel t = ep_of_qsel s \<Longrightarrow> qsel_to_ep t q = qsel_to_ep s q"
  by (simp add: qsel_to_ep_def)

lemma qsel_to_ep_update [simp]:
  "qsel_to_ep (s\<lparr>tx_calls := n, tx_queue := qs\<rparr>) q = qsel_to_ep s q"
  by (rule qsel_to_ep_cong) simp

lemma record_tx_error_simps [simp]:
  "tx_queue (rtw_usb_record_tx_error st s) = tx_queue s"
  "tx_anchor (rtw_usb_record_tx_error st s) = tx_anchor s"
  "tx_fates (rtw_usb_record_tx_error st s) = tx_fates s"
  "tx_pkt_desc_sz (rtw_usb_record_tx_error st s) = tx_pkt_desc_sz s"
  "out_ep (rtw_usb_record_tx_error st s) = out_ep s"
  "ep_of_qsel (rtw_usb_record_tx_error st s) = ep_of_qsel s"
  "tx_env (rtw_usb_record_tx_error st s) = tx_env s"
  by (simp_all add: rtw_usb_record_tx_error_def)

text \<open>Submission either fails and changes nothing, or adds one URB on the selector's pipe.\<close>

lemma rtw_usb_write_port_cases:
  obtains (fail) ret where "rtw_usb_write_port oc q buf ctx s = (ret, s)" "ret \<noteq> 0"
  | (ok) "rtw_usb_write_port oc q buf ctx s =
       (0, s\<lparr>tx_anchor := tx_anchor s @
          [\<lparr>urb_pipe = out_ep s ! nat (qsel_to_ep s (unat q)), urb_buf = buf, urb_context = ctx\<rparr>]\<rparr>)"
     "qsel_to_ep s (unat q) \<ge> 0"
  unfolding rtw_usb_write_port_def Let_def
  by (cases "qsel_to_ep s (unat q) < 0"; cases "urb_ok oc"; cases "submit_ret oc = 0") force+

text \<open>The loop by its queue, and what it consumes: a prefix, in order.\<close>

lemma agg_loop_Nil:
  "agg_loop m junk skb [] head al n acks =
     (head @ replicate al junk @ skb_data skb, Suc n, acks @ [skb], [])"
  by (simp add: Let_def)

lemma agg_loop_Cons:
  "agg_loop m junk skb (nxt # queue) head al n acks =
     (if length (skb_data nxt) + length (head @ replicate al junk @ skb_data skb) \<le> RTW_USB_MAX_XMITBUF_SZ
         \<and> Suc n < m
      then agg_loop m junk nxt queue (head @ replicate al junk @ skb_data skb)
             (align8 (length (skb_data skb)) - length (skb_data skb)) (Suc n) (acks @ [skb])
      else (head @ replicate al junk @ skb_data skb, Suc n, acks @ [skb], nxt # queue))"
  by (subst agg_loop.simps) (simp add: Let_def del: agg_loop.simps)

declare agg_loop.simps [simp del]

lemma agg_loop_Cons_cases:
  assumes "agg_loop m junk skb (nxt # queue) head al n acks = r"
  obtains (stop) "r = (head @ replicate al junk @ skb_data skb, Suc n, acks @ [skb], nxt # queue)"
  | (again) "agg_loop m junk nxt queue (head @ replicate al junk @ skb_data skb)
       (align8 (length (skb_data skb)) - length (skb_data skb)) (Suc n) (acks @ [skb]) = r"
      "length (skb_data nxt) + length (head @ replicate al junk @ skb_data skb) \<le> RTW_USB_MAX_XMITBUF_SZ"
      "Suc n < m"
  using assms unfolding agg_loop_Cons by (metis (lifting))

lemma agg_loop_frames:
  "agg_loop m junk skb queue head al n acks = (head', n', acks', rest)
   \<Longrightarrow> acks @ skb # queue = acks' @ rest \<and> acks' \<noteq> [] \<and> hd acks' = hd (acks @ [skb])"
proof (induction queue arbitrary: skb head al n acks)
  case Nil
  then show ?case by (auto simp: agg_loop_Nil)
next
  case (Cons nxt queue)
  from Cons.prems show ?case
  proof (cases rule: agg_loop_Cons_cases)
    case stop
    then show ?thesis by auto
  next
    case again
    from Cons.IH [OF again(1)] show ?thesis
      by (simp add: hd_append)
  qed
qed

lemma agg_build_frames:
  assumes "agg_build m oc skb queue = (head, txcb, rest)"
  shows "skb # queue = tx_ack_queue txcb @ rest \<and> tx_ack_queue txcb \<noteq> []
    \<and> hd (tx_ack_queue txcb) = skb"
proof (cases "queue = [] \<or> \<not> agg_ok oc")
  case True
  with assms show ?thesis
    by (auto simp: agg_build_def)
next
  case False
  obtain h n acks r where l: "agg_loop m (stale_byte oc) skb queue [] 0 0 [] = (h, n, acks, r)"
    by (metis prod_cases4)
  with False assms have "txcb = \<lparr>tx_ack_queue = acks, agg_skb = Some (patch_agg h n)\<rparr>" "rest = r"
    by (auto simp: agg_build_def Let_def)
  with agg_loop_frames [OF l] show ?thesis
    by simp
qed

text \<open>One aggregation: nothing, or the frames of a prefix go in flight or are freed.\<close>

definition agg_step_ok :: "nat \<Rightarrow> 'x rtw_usb_tx_scheme \<Rightarrow> 'x rtw_usb_tx_scheme \<Rightarrow> bool \<Rightarrow> tx_skb list
    \<Rightarrow> tx_skb list \<Rightarrow> u8 list \<Rightarrow> bool" where
  "agg_step_ok i s s' sent acks rest head \<longleftrightarrow>
     tx_queue s ! i = acks @ rest \<and> acks \<noteq> [] \<and> tx_queue s' = (tx_queue s)[i := rest]
     \<and> (let q = ucast (get_bits (w1 (desc_at head)) RTW_TX_DESC_W1_QSEL) :: u8
        in if sent
           then tx_fates s' = tx_fates s \<and> qsel_to_ep s (unat q) \<ge> 0
             \<and> (\<exists>ag. tx_anchor s' = tx_anchor s @
                  [\<lparr>urb_pipe = out_ep s ! nat (qsel_to_ep s (unat q)), urb_buf = head,
                    urb_context = TxCb \<lparr>tx_ack_queue = acks, agg_skb = ag\<rparr>\<rparr>])
           else tx_anchor s' = tx_anchor s \<and> tx_fates s' = tx_fates s @ map TxFreed acks)"

lemma rtw_usb_tx_agg_skb_cases:
  obtains (none) "fst (rtw_usb_tx_agg_skb i s) = False"
      "tx_queue s ! i = [] \<or> \<not> txcb_ok (tx_env s (tx_calls s))"
      "tx_queue (snd (rtw_usb_tx_agg_skb i s)) = tx_queue s"
      "tx_anchor (snd (rtw_usb_tx_agg_skb i s)) = tx_anchor s"
      "tx_fates (snd (rtw_usb_tx_agg_skb i s)) = tx_fates s"
      "tx_same_conf s (snd (rtw_usb_tx_agg_skb i s))"
  | (step) sent acks rest head oc skb queue ag where "fst (rtw_usb_tx_agg_skb i s) = True"
      "agg_step_ok i s (snd (rtw_usb_tx_agg_skb i s)) sent acks rest head"
      "agg_build (usb_tx_agg_desc_num s) oc skb queue = (head, \<lparr>tx_ack_queue = acks, agg_skb = ag\<rparr>, rest)"
      "tx_queue s ! i = skb # queue"
      "tx_same_conf s (snd (rtw_usb_tx_agg_skb i s))"
proof (cases "tx_queue s ! i = [] \<or> \<not> txcb_ok (tx_env s (tx_calls s))")
  case True
  then have "rtw_usb_tx_agg_skb i s = (False, s) \<or>
      rtw_usb_tx_agg_skb i s = (False, s\<lparr>tx_calls := Suc (tx_calls s)\<rparr>)"
    by (auto simp: rtw_usb_tx_agg_skb_def Let_def split: list.splits)
  with True show ?thesis
    by (intro none) (auto simp: tx_same_conf_def)
next
  case False
  then obtain skb queue where q: "tx_queue s ! i = skb # queue"
    by (cases "tx_queue s ! i") auto
  define oc where "oc = tx_env s (tx_calls s)"
  obtain head txcb rest where b: "agg_build (usb_tx_agg_desc_num s) oc skb queue = (head, txcb, rest)"
    by (metis prod_cases3)
  obtain acks ag where t: "txcb = \<lparr>tx_ack_queue = acks, agg_skb = ag\<rparr>"
    by (cases txcb) auto
  note fr = agg_build_frames [OF b]
  let ?q = "ucast (get_bits (w1 (desc_at head)) RTW_TX_DESC_W1_QSEL) :: u8"
  let ?s = "s\<lparr>tx_calls := Suc (tx_calls s), tx_queue := (tx_queue s)[i := rest]\<rparr>"
  have eq: "rtw_usb_tx_agg_skb i s = (case rtw_usb_write_port oc ?q head (TxCb txcb) ?s of
      (ret, s) \<Rightarrow> (True, if ret \<noteq> 0
         then (let s = rtw_usb_record_tx_error ret s
               in s\<lparr>tx_fates := tx_fates s @ map TxFreed (tx_ack_queue txcb)\<rparr>) else s))"
    using False q b by (simp add: rtw_usb_tx_agg_skb_def Let_def oc_def)
  show ?thesis
  proof (cases rule: rtw_usb_write_port_cases [of oc ?q head "TxCb txcb" ?s])
    case (fail ret)
    have "agg_step_ok i s (snd (rtw_usb_tx_agg_skb i s)) False acks rest head"
      using fail fr q by (simp add: eq agg_step_ok_def t Let_def)
    then show ?thesis
      using fail b q by (intro step) (auto simp: eq t tx_same_conf_def Let_def)
  next
    case ok
    have "agg_step_ok i s (snd (rtw_usb_tx_agg_skb i s)) True acks rest head"
      using ok fr q by (simp add: eq agg_step_ok_def t Let_def)
    then show ?thesis
      using ok b q by (intro step) (auto simp: eq t tx_same_conf_def)
  qed
qed

text \<open>A write puts one frame, with its descriptor, at the tail of its selector's queue.\<close>

definition tx_prepared :: "rtw_tx_pkt_info \<Rightarrow> tx_skb \<Rightarrow> 'x rtw_usb_tx_scheme \<Rightarrow> tx_skb" where
  "tx_prepared pkt skb s =
     skb\<lparr>skb_data := push_desc (tx_pkt_desc_sz s)
            (rtw8812a_fill_txdesc_checksum
              (rtw_tx_fill_tx_desc (old_datarate_fb_limit s)
                (pkt\<lparr>qsel := rtw_usb_tx_queue_mapping_to_qsel skb\<rparr>) tx_desc_zero))
            (skb_data skb),
          skb_sn := sn pkt\<rparr>"

lemma rtw_usb_tx_write_eq:
  "rtw_usb_tx_write pkt skb s =
     (let ep = qsel_to_ep s (unat (rtw_usb_tx_queue_mapping_to_qsel skb))
      in if ep < 0 \<or> nat ep \<ge> length (tx_queue s) then None
         else Some (s\<lparr>tx_queue := (tx_queue s)[nat ep := tx_queue s ! nat ep @ [tx_prepared pkt skb s]]\<rparr>))"
  by (simp add: rtw_usb_tx_write_def Let_def tx_prepared_def)

end
