(* ===== verification/UsbTxProps.thy ===== *)
theory UsbTxProps
  imports UsbTx
begin

text \<open>
  What the transmit side guarantees over every sequence of events: no frame is lost,
  duplicated or altered; a failed transfer is never reported as a transmission; a frame
  travels on the pipe its descriptor's queue selector names; the work empties the queues;
  and the bounds of endpoints and of the aggregation buffer.
\<close>

section \<open>Accounting for frames\<close>

text \<open>A frame is known by its identity and the bytes mac80211 handed over.\<close>

type_synonym frame = "nat \<times> u8 list"

definition frame_of :: "nat \<Rightarrow> tx_skb \<Rightarrow> frame" where
  "frame_of sz skb = (skb_id skb, drop sz (skb_data skb))"

fun fate_frame :: "nat \<Rightarrow> tx_fate \<Rightarrow> frame" where
  "fate_frame sz (TxStatus skb st) = (skb_id skb, skb_data skb)"
| "fate_frame sz (TxReport skb n) = (skb_id skb, skb_data skb)"
| "fate_frame sz (TxFreed skb) = frame_of sz skb"

fun urb_skbs :: "urb_context \<Rightarrow> tx_skb list" where
  "urb_skbs (TxCb txcb) = tx_ack_queue txcb"
| "urb_skbs TxBuf = []"

definition queued_frames :: "'x rtw_usb_tx_scheme \<Rightarrow> frame multiset" where
  "queued_frames s = image_mset (frame_of (tx_pkt_desc_sz s)) (mset (concat (tx_queue s)))"

definition flying_frames :: "'x rtw_usb_tx_scheme \<Rightarrow> frame multiset" where
  "flying_frames s =
     image_mset (frame_of (tx_pkt_desc_sz s))
       (mset (concat (map (\<lambda>u. urb_skbs (urb_context u)) (tx_anchor s))))"

definition settled_frames :: "'x rtw_usb_tx_scheme \<Rightarrow> frame multiset" where
  "settled_frames s = image_mset (fate_frame (tx_pkt_desc_sz s)) (mset (tx_fates s))"

definition all_frames :: "'x rtw_usb_tx_scheme \<Rightarrow> frame multiset" where
  "all_frames s = queued_frames s + flying_frames s + settled_frames s"

fun written_frames :: "tx_event list \<Rightarrow> frame multiset" where
  "written_frames [] = {#}"
| "written_frames (EvWrite pkt skb # es) = add_mset (skb_id skb, skb_data skb) (written_frames es)"
| "written_frames (e # es) = written_frames es"

lemma fate_frame_tx_fate_of [simp]: "fate_frame sz (tx_fate_of sz st skb) = frame_of sz skb"
  by (simp add: tx_fate_of_def Let_def frame_of_def skb_pull_def)

lemma length_desc_bytes [simp]: "length (desc_bytes d) = 40"
  by (simp add: desc_bytes_def desc_words_def)

lemma drop_push_desc: "40 \<le> sz \<Longrightarrow> drop sz (push_desc sz d data) = data"
  by (simp add: push_desc_def)

lemma agg_frames_conserved:
  assumes "i < length (tx_queue s)"
  shows "all_frames (snd (rtw_usb_tx_agg_skb i s)) = all_frames s"
proof (cases rule: rtw_usb_tx_agg_skb_cases [of i s])
  case none
  then show ?thesis
    by (simp add: all_frames_def queued_frames_def flying_frames_def settled_frames_def
        tx_same_conf_def)
next
  case (step sent acks rest head)
  let ?t = "snd (rtw_usb_tx_agg_skb i s)"
  let ?f = "frame_of (tx_pkt_desc_sz s)"
  from step(5) have sz: "tx_pkt_desc_sz ?t = tx_pkt_desc_sz s"
    by (simp add: tx_same_conf_def)
  from step(2) have q: "tx_queue s ! i = acks @ rest" "tx_queue ?t = (tx_queue s)[i := rest]"
    by (simp_all add: agg_step_ok_def)
  from mset_concat_update [OF assms, of rest] q(1)
  have "mset (concat (tx_queue ?t)) + mset acks = mset (concat (tx_queue s))"
    by (simp add: q(2))
  then have queued: "queued_frames ?t + image_mset ?f (mset acks) = queued_frames s"
    by (simp add: queued_frames_def sz flip: image_mset_union)
  show ?thesis
  proof (cases sent)
    case True
    with step(2) have "flying_frames ?t = flying_frames s + image_mset ?f (mset acks)"
        "settled_frames ?t = settled_frames s"
      by (auto simp: agg_step_ok_def Let_def flying_frames_def settled_frames_def sz)
    with queued show ?thesis
      by (simp add: all_frames_def ac_simps flip: queued)
  next
    case False
    have "image_mset (fate_frame (tx_pkt_desc_sz s)) (mset (map TxFreed acks)) = image_mset ?f (mset acks)"
      by (simp add: multiset.map_comp comp_def)
    with False step(2) have "flying_frames ?t = flying_frames s"
        "settled_frames ?t = settled_frames s + image_mset ?f (mset acks)"
      by (auto simp: agg_step_ok_def Let_def flying_frames_def settled_frames_def sz)
    with queued show ?thesis
      by (simp add: all_frames_def ac_simps flip: queued)
  qed
qed

lemma agg_same_conf: "tx_same_conf s (snd (rtw_usb_tx_agg_skb i s))"
  by (cases rule: rtw_usb_tx_agg_skb_cases [of i s]) simp_all

lemma tx_same_conf_refl [simp]: "tx_same_conf s s"
  by (simp add: tx_same_conf_def)

lemma tx_same_conf_trans: "tx_same_conf s t \<Longrightarrow> tx_same_conf t u \<Longrightarrow> tx_same_conf s u"
  by (simp add: tx_same_conf_def)

text \<open>The work is a sequence of aggregations, so what they keep the work keeps.\<close>

lemma tx_drain_invariant:
  assumes "I s" and "\<And>s. I s \<Longrightarrow> I (snd (rtw_usb_tx_agg_skb i s))"
  shows "I (tx_drain limit i s)"
  using assms(1)
proof (induction limit arbitrary: s)
  case 0
  then show ?case by simp
next
  case (Suc limit)
  then show ?case
    using assms(2) [of s] by (auto split: prod.splits)
qed

lemma fold_invariant:
  "P s \<Longrightarrow> (\<And>x s. x \<in> set xs \<Longrightarrow> P s \<Longrightarrow> P (f x s)) \<Longrightarrow> P (fold f xs s)"
  by (induction xs arbitrary: s) auto

lemma tx_handler_invariant:
  assumes "I (s\<lparr>tx_work_queued := False\<rparr>)"
    and "\<And>i s. i < RTW_USB_EP_MAX \<Longrightarrow> I s \<Longrightarrow> I (snd (rtw_usb_tx_agg_skb i s))"
  shows "I (rtw_usb_tx_handler s)"
  unfolding rtw_usb_tx_handler_def
  by (rule fold_invariant [where P = I, OF assms(1)]) (auto intro!: tx_drain_invariant assms(2))

text \<open>A well-formed transmit state, and a descriptor size that holds a descriptor.\<close>

definition tx_wf :: "'x rtw_usb_tx_scheme \<Rightarrow> bool" where
  "tx_wf s \<longleftrightarrow> length (tx_queue s) = RTW_USB_EP_MAX \<and> 40 \<le> tx_pkt_desc_sz s"

lemma tx_wf_same_conf: "tx_same_conf s t \<Longrightarrow> tx_wf s \<Longrightarrow> tx_wf t"
  by (simp add: tx_same_conf_def tx_wf_def)

lemma handler_frames:
  assumes "tx_wf s"
  shows "all_frames (rtw_usb_tx_handler s) = all_frames s \<and> tx_same_conf s (rtw_usb_tx_handler s)"
proof (rule tx_handler_invariant [where I = "\<lambda>t. all_frames t = all_frames s \<and> tx_same_conf s t"])
  show "all_frames (s\<lparr>tx_work_queued := False\<rparr>) = all_frames s \<and> tx_same_conf s (s\<lparr>tx_work_queued := False\<rparr>)"
    by (simp add: all_frames_def queued_frames_def flying_frames_def settled_frames_def
        tx_same_conf_def)
next
  fix i t
  assume "i < RTW_USB_EP_MAX" and t: "all_frames t = all_frames s \<and> tx_same_conf s t"
  then have "i < length (tx_queue t)"
    using assms by (simp add: tx_same_conf_def tx_wf_def)
  then show "all_frames (snd (rtw_usb_tx_agg_skb i t)) = all_frames s
      \<and> tx_same_conf s (snd (rtw_usb_tx_agg_skb i t))"
    using t agg_frames_conserved agg_same_conf tx_same_conf_trans by metis
qed

lemma urb_complete_frames:
  assumes "k < length (tx_anchor s)"
  shows "all_frames (urb_complete k st s) = all_frames s \<and> tx_same_conf s (urb_complete k st s)"
proof -
  let ?u = "tx_anchor s ! k"
  let ?g = "\<lambda>u. urb_skbs (urb_context u)"
  let ?l = "take k (tx_anchor s)" and ?r = "drop (Suc k) (tx_anchor s)"
  have "tx_anchor s = ?l @ ?u # ?r"
    using assms by (rule id_take_nth_drop)
  then have "mset (concat (map ?g (tx_anchor s))) = mset (concat (map ?g (?l @ ?u # ?r)))"
    by (rule arg_cong)
  then have anchor: "mset (concat (map ?g (tx_anchor s)))
      = mset (concat (map ?g (?l @ ?r))) + mset (?g ?u)"
    by simp
  have fates: "image_mset (fate_frame sz) (mset (map (tx_fate_of sz st) xs))
      = image_mset (frame_of sz) (mset xs)" for sz xs
    by (simp add: multiset.map_comp comp_def)
  show ?thesis
    using anchor fates
    by (cases "urb_context ?u")
      (simp_all add: urb_complete_def Let_def rtw_usb_write_port_tx_status_def all_frames_def
        queued_frames_def flying_frames_def settled_frames_def tx_same_conf_def)
qed

lemma write_data_frames:
  "all_frames (snd (rtw_usb_write_data pkt buf s)) = all_frames s
   \<and> tx_same_conf s (snd (rtw_usb_write_data pkt buf s))"
proof -
  let ?s = "s\<lparr>tx_calls := Suc (tx_calls s)\<rparr>"
  let ?oc = "tx_env s (tx_calls s)"
  define frame where "frame = push_desc (tx_pkt_desc_sz s)
    (rtw8812a_fill_txdesc_checksum (rtw_tx_fill_tx_desc (old_datarate_fb_limit s) pkt tx_desc_zero))
    (take (unat (tx_pkt_size pkt)) buf)"
  have eq: "rtw_usb_write_data pkt buf s =
     (if \<not> agg_ok ?oc then (- ENOMEM, ?s)
      else case rtw_usb_write_port ?oc (qsel pkt) frame TxBuf ?s of
             (ret, s) \<Rightarrow> (ret, if ret \<noteq> 0 then rtw_usb_record_tx_error ret s else s))"
    by (simp add: rtw_usb_write_data_def Let_def frame_def)
  show ?thesis
    by (cases rule: rtw_usb_write_port_cases [of ?oc "qsel pkt" frame TxBuf ?s])
      (simp_all add: eq all_frames_def queued_frames_def flying_frames_def settled_frames_def
        tx_same_conf_def)
qed

lemma purge_frames:
  "all_frames (rtw_usb_tx_queue_purge s) = all_frames s \<and> tx_same_conf s (rtw_usb_tx_queue_purge s)"
proof -
  have "mset (concat (map (\<lambda>_. []) (tx_queue s))) = {#}"
    by simp
  then show ?thesis
    by (simp add: rtw_usb_tx_queue_purge_def all_frames_def queued_frames_def flying_frames_def
        settled_frames_def tx_same_conf_def multiset.map_comp comp_def)
qed

lemma tx_write_frames:
  assumes "rtw_usb_tx_write pkt skb s = Some t" and "40 \<le> tx_pkt_desc_sz s"
  shows "all_frames t = add_mset (skb_id skb, skb_data skb) (all_frames s) \<and> tx_same_conf s t"
proof -
  define i where "i = nat (qsel_to_ep s (unat (rtw_usb_tx_queue_mapping_to_qsel skb)))"
  define skb' where "skb' = tx_prepared pkt skb s"
  have i: "i < length (tx_queue s)"
    and t: "t = s\<lparr>tx_queue := (tx_queue s)[i := tx_queue s ! i @ [skb']]\<rparr>"
    using assms(1) by (auto simp: rtw_usb_tx_write_eq Let_def i_def skb'_def split: if_splits)
  have f: "frame_of (tx_pkt_desc_sz s) skb' = (skb_id skb, skb_data skb)"
    using assms(2) by (simp add: skb'_def tx_prepared_def frame_of_def drop_push_desc)
  from mset_concat_update [OF i, of "tx_queue s ! i @ [skb']"]
  have "mset (concat (tx_queue t)) = add_mset skb' (mset (concat (tx_queue s)))"
    by (simp add: t)
  then show ?thesis
    using f by (simp add: t all_frames_def queued_frames_def flying_frames_def settled_frames_def
        tx_same_conf_def)
qed

lemma kick_frames:
  "all_frames (rtw_usb_tx_kick_off s) = all_frames s \<and> tx_same_conf s (rtw_usb_tx_kick_off s)"
  by (simp add: rtw_usb_tx_kick_off_def all_frames_def queued_frames_def flying_frames_def
      settled_frames_def tx_same_conf_def)

lemma tx_apply_frames:
  assumes "tx_apply e s = Some t" and "tx_wf s"
  shows "all_frames t = written_frames [e] + all_frames s \<and> tx_same_conf s t"
proof (cases e)
  case (EvWrite pkt skb)
  with assms tx_write_frames [of pkt skb s t] show ?thesis
    by (simp add: tx_wf_def)
next
  case EvWork
  with assms handler_frames [of s] show ?thesis by auto
next
  case (EvAgg i)
  with assms(1) agg_frames_conserved [of i s] agg_same_conf [of s i] show ?thesis
    by (simp split: if_splits)
next
  case (EvComplete k st)
  with assms(1) urb_complete_frames [of k s st] show ?thesis
    by (simp split: if_splits)
qed (use assms(1) in \<open>auto simp: kick_frames purge_frames write_data_frames
    rtw_usb_write_data_rsvd_page_def rtw_usb_write_data_h2c_def\<close>)

lemma tx_exec_frames:
  assumes "tx_exec es s = Some t" and "tx_wf s"
  shows "all_frames t = written_frames es + all_frames s \<and> tx_same_conf s t"
  using assms
proof (induction es arbitrary: s)
  case Nil
  then show ?case by simp
next
  case (Cons e es)
  then obtain u where u: "tx_apply e s = Some u" "tx_exec es u = Some t"
    by (auto split: option.splits)
  note step = tx_apply_frames [OF u(1) Cons.prems(2)]
  have "all_frames t = written_frames es + all_frames u \<and> tx_same_conf u t"
    using Cons.IH [OF u(2)] step Cons.prems(2) tx_wf_same_conf by blast
  moreover have "written_frames (e # es) = written_frames [e] + written_frames es"
    by (cases e) simp_all
  ultimately show ?case
    using step tx_same_conf_trans by (auto simp: ac_simps)
qed

section \<open>Only successful transfers count as transmitted\<close>

fun fate_undelivered :: "tx_fate \<Rightarrow> bool" where
  "fate_undelivered (TxStatus skb st) \<longleftrightarrow> st = StatNone"
| "fate_undelivered (TxReport skb n) \<longleftrightarrow> False"
| "fate_undelivered (TxFreed skb) \<longleftrightarrow> True"

fun failing_event :: "tx_event \<Rightarrow> bool" where
  "failing_event (EvComplete k st) \<longleftrightarrow> st \<noteq> 0"
| "failing_event e \<longleftrightarrow> True"

lemma rsvd_h2c_fates [simp]:
  "tx_fates (snd (rtw_usb_write_data pkt buf s)) = tx_fates s"
proof -
  let ?s = "s\<lparr>tx_calls := Suc (tx_calls s)\<rparr>"
  let ?oc = "tx_env s (tx_calls s)"
  define frame where "frame = push_desc (tx_pkt_desc_sz s)
    (rtw8812a_fill_txdesc_checksum (rtw_tx_fill_tx_desc (old_datarate_fb_limit s) pkt tx_desc_zero))
    (take (unat (tx_pkt_size pkt)) buf)"
  show ?thesis
    by (cases rule: rtw_usb_write_port_cases [of ?oc "qsel pkt" frame TxBuf ?s])
      (simp_all add: rtw_usb_write_data_def Let_def flip: frame_def)
qed

lemma agg_undelivered:
  "list_all fate_undelivered (tx_fates s)
   \<Longrightarrow> list_all fate_undelivered (tx_fates (snd (rtw_usb_tx_agg_skb i s)))"
  by (cases rule: rtw_usb_tx_agg_skb_cases [of i s])
    (auto simp: agg_step_ok_def Let_def list_all_iff split: if_splits)

lemma tx_apply_undelivered:
  assumes "failing_event e" and "list_all fate_undelivered (tx_fates s)" and "tx_apply e s = Some t"
  shows "list_all fate_undelivered (tx_fates t)"
proof (cases e)
  case EvWork
  have "list_all fate_undelivered (tx_fates (rtw_usb_tx_handler s))"
    by (rule tx_handler_invariant) (use assms(2) in \<open>auto intro: agg_undelivered\<close>)
  with EvWork assms(3) show ?thesis by simp
next
  case (EvAgg i)
  with assms show ?thesis by (auto intro: agg_undelivered split: if_splits)
next
  case (EvComplete k st)
  with assms show ?thesis
    by (auto simp: urb_complete_def Let_def rtw_usb_write_port_tx_status_def tx_fate_of_def
        list_all_iff split: if_splits urb_context.splits)
qed (use assms in \<open>auto simp: rtw_usb_tx_write_eq rtw_usb_tx_kick_off_def rtw_usb_tx_queue_purge_def
    rtw_usb_write_data_rsvd_page_def rtw_usb_write_data_h2c_def Let_def list_all_iff split: if_splits\<close>)

section \<open>Frames travel on their selector's pipe\<close>

definition skb_ep :: "'x rtw_usb_tx_scheme \<Rightarrow> u8 list \<Rightarrow> int" where
  "skb_ep s bs = qsel_to_ep s (unat (ucast (get_bits (w1 (desc_at bs)) RTW_TX_DESC_W1_QSEL) :: u8))"

definition tx_routed :: "'x rtw_usb_tx_scheme \<Rightarrow> bool" where
  "tx_routed s \<longleftrightarrow>
     (\<forall>i < length (tx_queue s). \<forall>skb \<in> set (tx_queue s ! i).
        40 \<le> length (skb_data skb) \<and> skb_ep s (skb_data skb) = int i)
   \<and> (\<forall>u \<in> set (tx_anchor s). \<forall>skb \<in> set (urb_skbs (urb_context u)).
        skb_ep s (skb_data skb) \<ge> 0 \<and> urb_pipe u = out_ep s ! nat (skb_ep s (skb_data skb)))"

lemma word_at_desc_bytes:
  "word_at 0 (desc_bytes d @ xs) = w0 d" "word_at 1 (desc_bytes d @ xs) = w1 d"
  "word_at 2 (desc_bytes d @ xs) = w2 d" "word_at 3 (desc_bytes d @ xs) = w3 d"
  "word_at 4 (desc_bytes d @ xs) = w4 d" "word_at 5 (desc_bytes d @ xs) = w5 d"
  "word_at 6 (desc_bytes d @ xs) = w6 d" "word_at 7 (desc_bytes d @ xs) = w7 d"
  "word_at 8 (desc_bytes d @ xs) = w8 d" "word_at 9 (desc_bytes d @ xs) = w9 d"
  by (simp_all add: word_at_def desc_bytes_def desc_words_def take_bit_word_eq_self)

lemma desc_at_desc_bytes: "desc_at (desc_bytes d @ xs) = d"
  by (simp add: desc_at_def word_at_desc_bytes del: One_nat_def)

lemma desc_at_append: "40 \<le> length bs \<Longrightarrow> desc_at (bs @ xs) = desc_at bs"
  by (simp add: desc_at_def word_at_def)

lemma skb_ep_cong: "ep_of_qsel t = ep_of_qsel s \<Longrightarrow> skb_ep t bs = skb_ep s bs"
  by (simp add: skb_ep_def qsel_to_ep_def)

lemma skb_ep_same_conf: "tx_same_conf s t \<Longrightarrow> skb_ep t bs = skb_ep s bs"
  by (rule skb_ep_cong) (simp add: tx_same_conf_def)

lemma agg_loop_head:
  "agg_loop m junk skb queue head al n acks = (head', n', acks', rest)
   \<Longrightarrow> \<exists>ys. head' = head @ replicate al junk @ skb_data skb @ ys"
proof (induction queue arbitrary: skb head al n acks)
  case Nil
  then show ?case by (auto simp: agg_loop_Nil)
next
  case (Cons nxt queue)
  from Cons.prems show ?case
  proof (cases rule: agg_loop_Cons_cases)
    case stop
    then show ?thesis by auto
  next
    case again
    from Cons.IH [OF again(1)] show ?thesis by auto
  qed
qed

lemma w1_fill_checksum [simp]:
  "w1 (rtw8812a_fill_txdesc_checksum d) = w1 d"
  "w1 (rtw_usb_fill_tx_checksum d n) = w1 d"
  by (simp_all add: rtw_usb_fill_tx_checksum_def rtw8812a_fill_txdesc_checksum_def
      fill_txdesc_checksum_common_def Let_def)

lemma agg_build_w1:
  assumes "agg_build m oc skb queue = (head, txcb, rest)" and "40 \<le> length (skb_data skb)"
  shows "w1 (desc_at head) = w1 (desc_at (skb_data skb))"
proof (cases "queue = [] \<or> \<not> agg_ok oc")
  case True
  with assms show ?thesis by (auto simp: agg_build_def)
next
  case False
  obtain h n acks r where l: "agg_loop m (stale_byte oc) skb queue [] 0 0 [] = (h, n, acks, r)"
    by (metis prod_cases4)
  with False assms(1) have "head = patch_agg h n"
    by (auto simp: agg_build_def Let_def)
  moreover obtain ys where "h = skb_data skb @ ys"
    using agg_loop_head [OF l] by auto
  ultimately show ?thesis
    using assms(2) by (simp add: patch_agg_def desc_at_desc_bytes desc_at_append)
qed

lemma agg_routed:
  assumes "tx_routed s" and "i < length (tx_queue s)"
  shows "tx_routed (snd (rtw_usb_tx_agg_skb i s))"
proof (cases rule: rtw_usb_tx_agg_skb_cases [of i s])
  case none
  then show ?thesis
    using assms(1) by (simp add: tx_routed_def skb_ep_same_conf [OF none(6)])
      (metis none(6) tx_same_conf_def)
next
  case (step sent acks rest head oc skb queue ag)
  let ?t = "snd (rtw_usb_tx_agg_skb i s)"
  from assms have qi: "\<forall>skb \<in> set (tx_queue s ! i). 40 \<le> length (skb_data skb) \<and> skb_ep s (skb_data skb) = int i"
    by (simp add: tx_routed_def)
  have q: "tx_queue s ! i = acks @ rest" "tx_queue ?t = (tx_queue s)[i := rest]"
    using step(2) by (simp_all add: agg_step_ok_def)
  have "skb_ep s head = int i"
    using agg_build_w1 [OF step(3)] qi step(4) by (simp add: skb_ep_def)
  then have anchor: "set (tx_anchor ?t) \<subseteq> set (tx_anchor s) \<union>
      {u. urb_pipe u = out_ep s ! i \<and> urb_skbs (urb_context u) = acks}"
    using step(2) by (cases sent) (auto simp: agg_step_ok_def Let_def skb_ep_def)
  have conf: "out_ep ?t = out_ep s" "length (tx_queue ?t) = length (tx_queue s)"
    using step(5) by (simp_all add: tx_same_conf_def)
  have "\<forall>u \<in> set (tx_anchor ?t). \<forall>skb \<in> set (urb_skbs (urb_context u)).
      skb_ep s (skb_data skb) \<ge> 0 \<and> urb_pipe u = out_ep s ! nat (skb_ep s (skb_data skb))"
  proof (intro ballI)
    fix u k
    assume u: "u \<in> set (tx_anchor ?t)" and k: "k \<in> set (urb_skbs (urb_context u))"
    from anchor u consider "u \<in> set (tx_anchor s)"
      | "urb_pipe u = out_ep s ! i" "urb_skbs (urb_context u) = acks" by auto
    then show "skb_ep s (skb_data k) \<ge> 0 \<and> urb_pipe u = out_ep s ! nat (skb_ep s (skb_data k))"
      using assms(1) k qi q(1) by cases (auto simp: tx_routed_def)
  qed
  moreover have "\<forall>j < length (tx_queue ?t). \<forall>k \<in> set (tx_queue ?t ! j).
      40 \<le> length (skb_data k) \<and> skb_ep s (skb_data k) = int j"
    using assms(1) qi by (auto simp: tx_routed_def q nth_list_update_iff split: if_splits)
  ultimately show ?thesis
    by (simp add: tx_routed_def skb_ep_same_conf [OF step(5)] conf)
qed

lemma qsel_field_roundtrip: "unat q < 20 \<Longrightarrow> ucast (take_bit 5 (ucast (q :: u8) :: u32)) = q"
proof -
  assume "unat q < 20"
  then have "take_bit 5 q = q"
    by (simp add: word_unat_eq_iff unsigned_take_bit_eq take_bit_nat_eq_self)
  moreover have "ucast (take_bit 5 (ucast q :: u32)) = (take_bit 5 q :: u8)"
    by (rule bit_word_eqI) (auto simp: bit_simps)
  ultimately show ?thesis by simp
qed

lemma tx_write_routed:
  assumes "rtw_usb_tx_write pkt skb s = Some t" and "tx_routed s"
  shows "tx_routed t"
proof -
  let ?q = "rtw_usb_tx_queue_mapping_to_qsel skb"
  define i where "i = nat (qsel_to_ep s (unat ?q))"
  define skb' where "skb' = tx_prepared pkt skb s"
  have i: "i < length (tx_queue s)" "qsel_to_ep s (unat ?q) = int i"
    and t: "t = s\<lparr>tx_queue := (tx_queue s)[i := tx_queue s ! i @ [skb']]\<rparr>"
    using assms(1) by (auto simp: rtw_usb_tx_write_eq Let_def i_def skb'_def split: if_splits)
  then have "unat ?q < 20"
    by (auto simp: qsel_to_ep_def TX_DESC_QSEL_MAX_def split: if_splits)
  then have "skb_ep s (skb_data skb') = int i"
    by (simp add: skb_ep_def skb'_def tx_prepared_def push_desc_def desc_at_desc_bytes w1_qsel
        qsel_field_roundtrip i(2))
  moreover have "40 \<le> length (skb_data skb')"
    by (simp add: skb'_def tx_prepared_def push_desc_def)
  moreover have "skb_ep t bs = skb_ep s bs" for bs
    by (rule skb_ep_cong) (simp add: t)
  ultimately show ?thesis
    using assms(2) i(1) by (auto simp: tx_routed_def t nth_list_update)
qed

lemma tx_routed_no_frames:
  assumes "tx_routed s" and "tx_queue t = tx_queue s" and "tx_same_conf s t"
    and "\<And>u. u \<in> set (tx_anchor t) \<Longrightarrow> u \<in> set (tx_anchor s) \<or> urb_skbs (urb_context u) = []"
  shows "tx_routed t"
  unfolding tx_routed_def skb_ep_same_conf [OF assms(3)]
proof (intro conjI allI impI ballI)
  fix u k
  assume u: "u \<in> set (tx_anchor t)" and k: "k \<in> set (urb_skbs (urb_context u))"
  from k have "urb_skbs (urb_context u) \<noteq> []" by auto
  with assms(4) [OF u] have "u \<in> set (tx_anchor s)" by blast
  then show "0 \<le> skb_ep s (skb_data k)" "urb_pipe u = out_ep t ! nat (skb_ep s (skb_data k))"
    using assms(1,3) k by (auto simp: tx_routed_def tx_same_conf_def)
qed (use assms(1,2) in \<open>auto simp: tx_routed_def\<close>)

lemma write_data_anchor:
  "tx_queue (snd (rtw_usb_write_data pkt buf s)) = tx_queue s
   \<and> (\<forall>u \<in> set (tx_anchor (snd (rtw_usb_write_data pkt buf s))).
        u \<in> set (tx_anchor s) \<or> urb_skbs (urb_context u) = [])"
proof -
  let ?s = "s\<lparr>tx_calls := Suc (tx_calls s)\<rparr>"
  let ?oc = "tx_env s (tx_calls s)"
  define frame where "frame = push_desc (tx_pkt_desc_sz s)
    (rtw8812a_fill_txdesc_checksum (rtw_tx_fill_tx_desc (old_datarate_fb_limit s) pkt tx_desc_zero))
    (take (unat (tx_pkt_size pkt)) buf)"
  show ?thesis
    by (cases rule: rtw_usb_write_port_cases [of ?oc "qsel pkt" frame TxBuf ?s])
      (simp_all add: rtw_usb_write_data_def Let_def flip: frame_def)
qed

lemma write_data_routed: "tx_routed s \<Longrightarrow> tx_routed (snd (rtw_usb_write_data pkt buf s))"
  by (erule tx_routed_no_frames) (simp_all add: write_data_anchor write_data_frames)

lemma urb_complete_routed: "tx_routed s \<Longrightarrow> k < length (tx_anchor s) \<Longrightarrow> tx_routed (urb_complete k st s)"
proof (erule tx_routed_no_frames)
  show "tx_queue (urb_complete k st s) = tx_queue s"
    by (simp add: urb_complete_def Let_def rtw_usb_write_port_tx_status_def split: urb_context.splits)
next
  assume "k < length (tx_anchor s)"
  then show "tx_same_conf s (urb_complete k st s)"
    using urb_complete_frames by blast
next
  fix u
  assume "u \<in> set (tx_anchor (urb_complete k st s))"
  then show "u \<in> set (tx_anchor s) \<or> urb_skbs (urb_context u) = []"
    by (auto simp: urb_complete_def Let_def rtw_usb_write_port_tx_status_def
        split: urb_context.splits dest: in_set_takeD in_set_dropD)
qed

lemma tx_apply_routed:
  assumes "tx_apply e s = Some t" and "tx_routed s" and "tx_wf s"
  shows "tx_routed t"
proof (cases e)
  case (EvWrite pkt skb)
  with assms tx_write_routed show ?thesis by auto
next
  case EvKick
  with assms show ?thesis
    by (auto simp: rtw_usb_tx_kick_off_def tx_same_conf_def intro!: tx_routed_no_frames [OF assms(2)])
next
  case EvWork
  have "tx_routed (rtw_usb_tx_handler s) \<and> tx_wf (rtw_usb_tx_handler s)"
  proof (rule tx_handler_invariant [where I = "\<lambda>s. tx_routed s \<and> tx_wf s"])
    show "tx_routed (s\<lparr>tx_work_queued := False\<rparr>) \<and> tx_wf (s\<lparr>tx_work_queued := False\<rparr>)"
      using assms(3) by (auto simp: tx_same_conf_def tx_wf_def intro!: tx_routed_no_frames [OF assms(2)])
  next
    fix i u
    assume "i < RTW_USB_EP_MAX" "tx_routed u \<and> tx_wf u"
    then show "tx_routed (snd (rtw_usb_tx_agg_skb i u)) \<and> tx_wf (snd (rtw_usb_tx_agg_skb i u))"
      using agg_routed [of u i] tx_wf_same_conf [OF agg_same_conf [of u i]]
      by (auto simp: tx_wf_def)
  qed
  with EvWork assms(1) show ?thesis by auto
next
  case (EvAgg i)
  with assms agg_routed show ?thesis by (auto split: if_splits)
next
  case (EvComplete k st)
  with assms urb_complete_routed show ?thesis by (auto split: if_splits)
next
  case EvPurge
  with assms(1) have t: "t = rtw_usb_tx_queue_purge s" by simp
  have "skb_ep t bs = skb_ep s bs" for bs
    by (rule skb_ep_cong) (simp add: t rtw_usb_tx_queue_purge_def)
  with assms(2) show ?thesis
    by (auto simp: tx_routed_def t rtw_usb_tx_queue_purge_def)
next
  case (EvRsvd buf sz)
  with assms(1,2) show ?thesis
    by (auto simp: rtw_usb_write_data_rsvd_page_def intro: write_data_routed)
next
  case (EvH2c buf sz)
  with assms(1,2) show ?thesis
    by (auto simp: rtw_usb_write_data_h2c_def intro: write_data_routed)
qed

section \<open>Bounds\<close>

lemma agg_loop_bound:
  assumes "agg_loop m junk skb queue head al n acks = (head', n', acks', rest)"
    and "length head + al + length (skb_data skb) \<le> RTW_USB_MAX_XMITBUF_SZ + 7"
  shows "length head' \<le> RTW_USB_MAX_XMITBUF_SZ + 7"
  using assms
proof (induction queue arbitrary: skb head al n acks)
  case Nil
  then show ?case by (auto simp: agg_loop_Nil)
next
  case (Cons nxt queue)
  from Cons.prems(1) show ?case
  proof (cases rule: agg_loop_Cons_cases)
    case stop
    with Cons.prems(2) show ?thesis by simp
  next
    case again
    from again(2) align8_pad [of "length (skb_data skb)"]
    show ?thesis by (intro Cons.IH [OF again(1)]) simp
  qed
qed

lemma agg_loop_single:
  "m \<le> Suc n \<Longrightarrow> fst (agg_loop m junk skb queue head al n acks) = head @ replicate al junk @ skb_data skb"
  by (cases queue) (simp_all add: agg_loop_Nil agg_loop_Cons)

lemma length_patch_agg: "40 \<le> length head \<Longrightarrow> length (patch_agg head n) = length head"
  by (simp add: patch_agg_def)

section \<open>The work empties the queues\<close>

definition tx_can_send :: "'x rtw_usb_tx_scheme \<Rightarrow> bool" where
  "tx_can_send s \<longleftrightarrow> (\<forall>n. txcb_ok (tx_env s n))"

lemma agg_takes_one:
  assumes "tx_can_send s" and "i < length (tx_queue s)"
  shows "(tx_queue (snd (rtw_usb_tx_agg_skb i s)) ! i = [] \<and> \<not> fst (rtw_usb_tx_agg_skb i s)
          \<or> fst (rtw_usb_tx_agg_skb i s)
            \<and> length (tx_queue (snd (rtw_usb_tx_agg_skb i s)) ! i) < length (tx_queue s ! i))
     \<and> (\<forall>j. j \<noteq> i \<longrightarrow> tx_queue (snd (rtw_usb_tx_agg_skb i s)) ! j = tx_queue s ! j)
     \<and> tx_can_send (snd (rtw_usb_tx_agg_skb i s))
     \<and> length (tx_queue (snd (rtw_usb_tx_agg_skb i s))) = length (tx_queue s)"
proof (cases rule: rtw_usb_tx_agg_skb_cases [of i s])
  case none
  with assms show ?thesis
    by (simp add: tx_can_send_def tx_same_conf_def)
next
  case (step sent acks rest head oc skb queue ag)
  then have "tx_queue s ! i = acks @ rest" "acks \<noteq> []"
      "tx_queue (snd (rtw_usb_tx_agg_skb i s)) = (tx_queue s)[i := rest]"
    by (simp_all add: agg_step_ok_def)
  with step(1,5) assms show ?thesis
    by (simp add: tx_can_send_def tx_same_conf_def)
qed

lemma tx_drain_empties:
  assumes "tx_can_send s" and "i < length (tx_queue s)" and "length (tx_queue s ! i) \<le> limit"
  shows "tx_queue (tx_drain limit i s) ! i = []
     \<and> (\<forall>j. j \<noteq> i \<longrightarrow> tx_queue (tx_drain limit i s) ! j = tx_queue s ! j)
     \<and> tx_can_send (tx_drain limit i s)
     \<and> length (tx_queue (tx_drain limit i s)) = length (tx_queue s)"
  using assms
proof (induction limit arbitrary: s)
  case 0
  then show ?case by simp
next
  case (Suc limit)
  obtain again t where a: "rtw_usb_tx_agg_skb i s = (again, t)"
    by fastforce
  note one = agg_takes_one [OF Suc.prems(1,2), unfolded a fst_conv snd_conv]
  show ?case
  proof (cases again)
    case True
    then show ?thesis
      using one Suc.prems Suc.IH [of t] by (simp add: a)
  next
    case False
    then show ?thesis
      using one by (simp add: a)
  qed
qed

lemma tx_drain_all:
  assumes "tx_can_send s" and "\<forall>i < n. length (tx_queue s ! i) \<le> limit" and "n \<le> length (tx_queue s)"
  shows "(\<forall>i < n. tx_queue (fold (tx_drain limit) (rev [0..<n]) s) ! i = [])
    \<and> (\<forall>j \<ge> n. tx_queue (fold (tx_drain limit) (rev [0..<n]) s) ! j = tx_queue s ! j)"
  using assms
proof (induction n arbitrary: s)
  case 0
  then show ?case by simp
next
  case (Suc n)
  let ?t = "tx_drain limit n s"
  have d: "tx_queue ?t ! n = [] \<and> (\<forall>j. j \<noteq> n \<longrightarrow> tx_queue ?t ! j = tx_queue s ! j)
      \<and> tx_can_send ?t \<and> length (tx_queue ?t) = length (tx_queue s)"
    using Suc.prems by (intro tx_drain_empties) auto
  then have "(\<forall>i < n. tx_queue (fold (tx_drain limit) (rev [0..<n]) ?t) ! i = [])
      \<and> (\<forall>j \<ge> n. tx_queue (fold (tx_drain limit) (rev [0..<n]) ?t) ! j = tx_queue ?t ! j)"
    using Suc.prems by (intro Suc.IH) auto
  with d show ?case
    by (auto simp: less_Suc_eq)
qed

section \<open>Endpoints\<close>

definition is_bulk_out :: "usb_endpoint \<Rightarrow> bool" where
  "is_bulk_out ep \<longleftrightarrow> \<not> ep_dir_in ep \<and> ep_xfer ep = XferBulk"

lemma parse_endpoints_out:
  assumes "parse_endpoints eps n s = (0, m, t)" and "n \<le> RTW_USB_EP_MAX"
    and "length (out_ep s) = RTW_USB_EP_MAX"
  shows "m = n + length (filter is_bulk_out eps) \<and> m \<le> RTW_USB_EP_MAX
    \<and> take m (out_ep t) = take n (out_ep s) @ map ep_num (filter is_bulk_out eps)
    \<and> length (out_ep t) = RTW_USB_EP_MAX"
  using assms
proof (induction eps arbitrary: n s)
  case Nil
  then show ?case by simp
next
  case (Cons ep eps)
  show ?case
  proof (cases "is_bulk_out ep")
    case False
    then have "\<exists>err s'. parse_endpoint ep n s = (err, n, s') \<and> out_ep s' = out_ep s"
      by (auto simp: parse_endpoint_def is_bulk_out_def)
    with False Cons show ?thesis
      by (fastforce split: if_splits)
  next
    case True
    with Cons.prems have n: "n < RTW_USB_EP_MAX"
      and rest: "parse_endpoints eps (Suc n) (s\<lparr>out_ep := (out_ep s)[n := ep_num ep]\<rparr>) = (0, m, t)"
      by (auto simp: parse_endpoint_def is_bulk_out_def split: if_splits)
    have "take (Suc n) ((out_ep s)[n := ep_num ep]) = take n (out_ep s) @ [ep_num ep]"
      using n Cons.prems(3) by (simp add: take_Suc_conv_app_nth)
    with True n Cons.prems(3) Cons.IH [OF rest] show ?thesis
      by auto
  qed
qed

lemma rtw_usb_parse_ok:
  assumes "rtw_usb_parse rqpns eps s = (0, t)" and "length (out_ep s) = RTW_USB_EP_MAX"
  shows "bulkout_num t = length (filter is_bulk_out eps) \<and> 1 \<le> bulkout_num t \<and> bulkout_num t \<le> 4
    \<and> take (bulkout_num t) (out_ep t) = map ep_num (filter is_bulk_out eps)
    \<and> ep_of_qsel t = qsel_table (rqpns ! bulkout_num t)"
proof -
  obtain err m u where p: "parse_endpoints eps 0 s = (err, m, u)"
    by (metis prod_cases3)
  with assms(1) have "err = 0" and m: "1 \<le> m" "m \<le> 4"
    and t: "t = u\<lparr>bulkout_num := m, ep_of_qsel := qsel_table (rqpns ! m)\<rparr>"
    by (auto simp: rtw_usb_parse_def Let_def split: if_splits)
  with parse_endpoints_out [of eps 0 s m u] p assms(2) show ?thesis
    by auto
qed

text \<open>The selectors the driver uses, and the endpoints the RTL8812A's table gives them.\<close>

definition qsel_used :: "nat \<Rightarrow> bool" where
  "qsel_used q \<longleftrightarrow> q \<le> 7 \<or> 16 \<le> q \<and> q \<le> 19"

lemma qsel_used_cases:
  "qsel_used q \<Longrightarrow> q \<in> {0, 1, 2, 3, 4, 5, 6, 7, 16, 17, 18, 19}"
  unfolding qsel_used_def by simp presburger

lemma qsel_table_8812a:
  assumes "qsel_used q" and "2 \<le> n" and "n \<le> 4"
  shows "0 \<le> qsel_table (rqpn_table_8812a ! n) ! q \<and> qsel_table (rqpn_table_8812a ! n) ! q < int n"
proof -
  from assms(2,3) have "n \<in> {2, 3, 4}" by auto
  with qsel_used_cases [OF assms(1)] show ?thesis
    by (auto simp: qsel_table_def rqpn_table_8812a_def)
qed

lemma parse_8812a_ep:
  assumes "rtw_usb_parse rqpn_table_8812a eps s = (0, t)" and "length (out_ep s) = RTW_USB_EP_MAX"
    and "2 \<le> bulkout_num t" and "qsel_used q"
  shows "0 \<le> qsel_to_ep t q \<and> qsel_to_ep t q < int (bulkout_num t)"
  using rtw_usb_parse_ok [OF assms(1,2)] qsel_table_8812a [OF assms(4,3)] assms(4)
  by (auto simp: qsel_to_ep_def qsel_used_def TX_DESC_QSEL_MAX_def)

section \<open>Properties\<close>

text \<open>
  Property C1. No frame is lost, duplicated or altered: whatever happens (writes,
  aggregations with any allocation or submission failure, completions in any order with
  any status, the purge, firmware writes), the frames in the queues, in flight and
  settled are those there were plus those written, each with the bytes mac80211 handed
  over.
\<close>

theorem tx_frames_conserved:
  assumes "tx_exec es s = Some t" and "length (tx_queue s) = RTW_USB_EP_MAX"
    and "40 \<le> tx_pkt_desc_sz s"
  shows "queued_frames t + flying_frames t + settled_frames t =
    written_frames es + (queued_frames s + flying_frames s + settled_frames s)"
  using tx_exec_frames [OF assms(1)] assms(2,3) by (simp add: tx_wf_def all_frames_def)

text \<open>
  Property C5. A frame is reported as transmitted, or handed to the transmit-report
  queue, only after an URB completed with status 0: if every completion of a run fails,
  every frame settled is either freed or reported without an acknowledgement.
\<close>

theorem tx_no_false_ack:
  assumes "tx_exec es s = Some t" and "list_all failing_event es"
    and "tx_fates s = []"
  shows "list_all fate_undelivered (tx_fates t)"
proof (rule tx_exec_invariant [OF assms(1), where I = "\<lambda>s. list_all fate_undelivered (tx_fates s)"])
  show "list_all fate_undelivered (tx_fates s)"
    by (simp add: assms(3))
next
  fix e u v
  assume "e \<in> set es" "list_all fate_undelivered (tx_fates u)" "tx_apply e u = Some v"
  then show "list_all fate_undelivered (tx_fates v)"
    using assms(2) tx_apply_undelivered [of e u v] by (simp add: list_all_iff)
qed

text \<open>
  Property C6. Frames go to the endpoint of their descriptor's queue selector: a frame
  waits in the queue of that endpoint, and the URB that carries it, alone or aggregated,
  is on that endpoint's pipe.
\<close>

theorem tx_frames_routed:
  assumes "tx_exec es s = Some t" and "tx_wf s" and "tx_routed s"
  shows "tx_routed t"
proof -
  have "tx_routed t \<and> tx_wf t"
    by (rule tx_exec_invariant [OF assms(1), where I = "\<lambda>s. tx_routed s \<and> tx_wf s"])
      (use assms(2,3) tx_apply_routed tx_apply_frames tx_wf_same_conf in blast)+
  then show ?thesis ..
qed

text \<open>
  Property C12. If the callback data can be allocated and no queue holds more than 200
  frames, one run of the work empties every queue.
\<close>

theorem tx_handler_drains:
  assumes "length (tx_queue s) = RTW_USB_EP_MAX"
    and "\<forall>n. txcb_ok (tx_env s n)" and "\<forall>q \<in> set (tx_queue s). length q \<le> 200"
  shows "\<forall>i < RTW_USB_EP_MAX. tx_queue (rtw_usb_tx_handler s) ! i = []"
  using tx_drain_all [of "s\<lparr>tx_work_queued := False\<rparr>" RTW_USB_EP_MAX 200] assms
  by (simp add: rtw_usb_tx_handler_def tx_can_send_def)

text \<open>
  The aggregation buffer receives at most 7 bytes more than
  \<open>RTW_USB_MAX_XMITBUF_SZ\<close>, since the fit test leaves out the padding before the next
  frame; with one descriptor per transfer, as on the RTL8812A, it holds exactly the first
  frame.
\<close>

theorem tx_agg_bound:
  assumes "agg_build m oc skb queue = (head, txcb, rest)"
    and "40 \<le> length (skb_data skb)" and "length (skb_data skb) \<le> RTW_USB_MAX_XMITBUF_SZ"
  shows "length head \<le> RTW_USB_MAX_XMITBUF_SZ + 7
    \<and> (m \<le> 1 \<longrightarrow> length head = length (skb_data skb))"
proof (cases "queue = [] \<or> \<not> agg_ok oc")
  case True
  with assms show ?thesis by (auto simp: agg_build_def)
next
  case False
  obtain h n acks r where l: "agg_loop m (stale_byte oc) skb queue [] 0 0 [] = (h, n, acks, r)"
    by (metis prod_cases4)
  with False assms(1) have head: "head = patch_agg h n"
    by (auto simp: agg_build_def Let_def)
  obtain ys where "h = skb_data skb @ ys"
    using agg_loop_head [OF l] by auto
  with assms(2) have "40 \<le> length h" by simp
  moreover have "length h \<le> RTW_USB_MAX_XMITBUF_SZ + 7"
    using agg_loop_bound [OF l] assms(3) by simp
  moreover have "m \<le> 1 \<longrightarrow> h = skb_data skb"
    using agg_loop_single [of m 0 "stale_byte oc" skb queue "[]" 0 "[]"] l by simp
  ultimately show ?thesis
    unfolding head using length_patch_agg [of h n] by auto
qed

text \<open>
  The fit test of the aggregation does not protect the buffer: with a chip
  that aggregates, two frames that pass it overrun the buffer by 7 bytes.
\<close>

theorem tx_agg_pad_overrun:
  "\<exists>a b. length (skb_data a) \<le> RTW_USB_MAX_XMITBUF_SZ \<and> length (skb_data b) \<le> RTW_USB_MAX_XMITBUF_SZ
     \<and> length (fst (agg_loop 2 junk a [b] [] 0 0 [])) = RTW_USB_MAX_XMITBUF_SZ + 7"
proof -
  fix r :: tx_skb
  let ?a = "r\<lparr>skb_data := replicate 12281 0\<rparr>" and ?b = "r\<lparr>skb_data := replicate 8199 0\<rparr>"
  have "length (skb_data ?a) \<le> RTW_USB_MAX_XMITBUF_SZ \<and> length (skb_data ?b) \<le> RTW_USB_MAX_XMITBUF_SZ
     \<and> length (fst (agg_loop 2 junk ?a [?b] [] 0 0 [])) = RTW_USB_MAX_XMITBUF_SZ + 7"
    by (simp add: agg_loop_Cons agg_loop_Nil RTW_USB_MAX_XMITBUF_SZ_def align8_def)
  then show ?thesis by blast
qed

text \<open>
  After a successful probe of an RTL8812A with two to four bulk OUT
  endpoints, the first \<open>bulkout_num\<close> entries of \<open>out_ep\<close> are the endpoint numbers in
  the order of the descriptors, and every selector the driver uses names one of them.
\<close>

theorem rtw_usb_parse_endpoints:
  assumes "rtw_usb_parse rqpn_table_8812a eps s = (0, t)"
    and "length (out_ep s) = RTW_USB_EP_MAX" and "length (filter is_bulk_out eps) \<noteq> 1"
  shows "2 \<le> bulkout_num t \<and> bulkout_num t \<le> 4
    \<and> take (bulkout_num t) (out_ep t) = map ep_num (filter is_bulk_out eps)
    \<and> (\<forall>q. qsel_used q \<longrightarrow> 0 \<le> qsel_to_ep t q \<and> qsel_to_ep t q < int (bulkout_num t))"
proof -
  have p: "bulkout_num t = length (filter is_bulk_out eps)" "1 \<le> bulkout_num t" "bulkout_num t \<le> 4"
      "take (bulkout_num t) (out_ep t) = map ep_num (filter is_bulk_out eps)"
    using rtw_usb_parse_ok [OF assms(1,2)] by auto
  with assms(3) have "2 \<le> bulkout_num t" by simp
  with p parse_8812a_ep [OF assms(1,2)] show ?thesis by blast
qed

text \<open>
  \<open>rtw_usb_tx_write\<close> never indexes the transmit queues out of bounds on an
  RTL8812A with two to four bulk OUT endpoints, for frames of the eight priorities.
\<close>

theorem rtw_usb_tx_write_in_bounds:
  assumes "rtw_usb_parse rqpn_table_8812a eps s = (0, t)"
    and "length (out_ep s) = RTW_USB_EP_MAX" and "length (tx_queue s) = RTW_USB_EP_MAX"
    and "length (filter is_bulk_out eps) \<noteq> 1" and "skb_priority skb < 8"
  shows "rtw_usb_tx_write pkt skb (t\<lparr>tx_queue := tx_queue s\<rparr>) \<noteq> None"
proof -
  have p: "2 \<le> bulkout_num t" "bulkout_num t \<le> 4"
    using rtw_usb_parse_ok [OF assms(1,2)] assms(4) by auto
  let ?q = "unat (rtw_usb_tx_queue_mapping_to_qsel skb)"
  have "unat (ucast (skb_priority skb) :: u8) \<le> 7"
    using assms(5) by (simp add: unsigned_ucast_eq word_less_nat_alt unsigned_take_bit_eq
        take_bit_nat_eq_self)
  then have "qsel_used ?q"
    by (auto simp: rtw_usb_tx_queue_mapping_to_qsel_def qsel_used_def Let_def)
  with parse_8812a_ep [OF assms(1,2) p(1)] p(2)
  have "0 \<le> qsel_to_ep t ?q \<and> nat (qsel_to_ep t ?q) < 4"
    by fastforce
  moreover have "qsel_to_ep (t\<lparr>tx_queue := tx_queue s\<rparr>) ?q = qsel_to_ep t ?q"
    by (rule qsel_to_ep_cong) simp
  ultimately show ?thesis
    using assms(3) by (simp add: rtw_usb_tx_write_eq Let_def RTW_USB_EP_MAX_def)
qed

section \<open>A run\<close>

text \<open>
  A data frame of priority 5 to a peer, on an adapter with three bulk OUT endpoints: it
  is written, sent, and its URB fails with \<open>-EPROTO\<close>.
\<close>

definition demo_eps :: "usb_endpoint list" where
  "demo_eps =
     [\<lparr>ep_num = 1, ep_dir_in = True, ep_xfer = XferBulk\<rparr>,
      \<lparr>ep_num = 2, ep_dir_in = False, ep_xfer = XferBulk\<rparr>,
      \<lparr>ep_num = 3, ep_dir_in = False, ep_xfer = XferBulk\<rparr>,
      \<lparr>ep_num = 4, ep_dir_in = False, ep_xfer = XferBulk\<rparr>]"

definition demo_outcome :: tx_outcome where
  "demo_outcome = \<lparr>txcb_ok = True, agg_ok = True, urb_ok = True, submit_ret = 0, stale_byte = 0\<rparr>"

definition demo_start :: rtw_usb_tx where
  "demo_start = \<lparr>pipe_interrupt = 0, pipe_in = 0, out_ep = [0, 0, 0, 0],
     ep_of_qsel = replicate 20 0, bulkout_num = 0, tx_pkt_desc_sz = 40,
     old_datarate_fb_limit = True, usb_tx_agg_desc_num = 1, tx_queue = [[], [], [], []],
     tx_anchor = [], tx_urb_error_count = 0, tx_fates = [], tx_work_queued = False,
     tx_env = (\<lambda>_. demo_outcome), tx_calls = 0\<rparr>"

definition demo_tx :: rtw_usb_tx where
  "demo_tx = snd (rtw_usb_parse rqpn_table_8812a demo_eps demo_start)"

definition demo_skb :: tx_skb where
  "demo_skb = \<lparr>skb_id = 7, skb_data = [8, 1, 0, 0, 2, 0, 0, 0, 0, 1], skb_priority = 5,
     skb_queue_mapping = 1, skb_vif = Some NL80211_IFTYPE_MESH_POINT, skb_req_status = False,
     skb_no_ack = False, skb_sn = 0\<rparr>"

definition demo_urb :: tx_urb where
  "demo_urb = \<lparr>urb_pipe = 3, urb_buf = replicate 40 0 @ skb_data demo_skb,
     urb_context = TxCb \<lparr>tx_ack_queue = [skb_pull 0 demo_skb\<lparr>skb_data := replicate 40 0 @ skb_data demo_skb\<rparr>],
                         agg_skb = None\<rparr>\<rparr>"

definition demo_events :: "tx_event list" where
  "demo_events = [EvWrite pkt_info_zero demo_skb, EvComplete 0 (- 71), EvWork]"

lemma demo_tx_simps:
  "tx_queue demo_tx = [[], [], [], []]" "tx_anchor demo_tx = []" "tx_fates demo_tx = []"
  "tx_pkt_desc_sz demo_tx = 40" "out_ep demo_tx = [2, 3, 4, 0]" "tx_env demo_tx = (\<lambda>_. demo_outcome)"
  "bulkout_num demo_tx = 3"
  by (simp_all add: rtw_usb_parse_def demo_tx_def demo_eps_def demo_start_def parse_endpoint_def
      RTW_USB_EP_MAX_def)

lemma demo_parse: "rtw_usb_parse rqpn_table_8812a demo_eps demo_start = (0, demo_tx)"
  by (simp add: rtw_usb_parse_def demo_tx_def demo_eps_def demo_start_def parse_endpoint_def
      RTW_USB_EP_MAX_def)

lemma demo_qsel: "rtw_usb_tx_queue_mapping_to_qsel demo_skb = 5"
  by (simp add: rtw_usb_tx_queue_mapping_to_qsel_def demo_skb_def frame_control_def
      ieee80211_is_mgmt_def ieee80211_is_ctl_def addr1_is_group_def test_mask_def)

lemma demo_ep: "qsel_to_ep (demo_tx\<lparr>tx_anchor := us\<rparr>) 5 = 1"
  by (simp add: qsel_to_ep_def TX_DESC_QSEL_MAX_def demo_tx_def rtw_usb_parse_def demo_eps_def
      demo_start_def parse_endpoint_def RTW_USB_EP_MAX_def qsel_table_def rqpn_table_8812a_def)

lemma demo_run: "\<exists>t. tx_exec demo_events (demo_tx\<lparr>tx_anchor := [demo_urb]\<rparr>) = Some t"
  by (simp add: demo_events_def rtw_usb_tx_write_eq demo_qsel demo_ep demo_tx_simps)

theorem tx_frames_conserved_witness:
  "\<exists>t. tx_exec demo_events (demo_tx\<lparr>tx_anchor := [demo_urb]\<rparr>) = Some t
     \<and> queued_frames t + flying_frames t + settled_frames t = {#(7, skb_data demo_skb), (7, skb_data demo_skb)#}"
proof -
  obtain t where t: "tx_exec demo_events (demo_tx\<lparr>tx_anchor := [demo_urb]\<rparr>) = Some t"
    using demo_run by blast
  from tx_frames_conserved [OF t] have "queued_frames t + flying_frames t + settled_frames t =
      {#(7, skb_data demo_skb), (7, skb_data demo_skb)#}"
    by (simp add: demo_events_def demo_tx_simps RTW_USB_EP_MAX_def queued_frames_def
        flying_frames_def settled_frames_def demo_urb_def frame_of_def demo_skb_def skb_pull_def)
  with t show ?thesis by blast
qed

theorem tx_no_false_ack_witness:
  "\<exists>t. tx_exec demo_events (demo_tx\<lparr>tx_anchor := [demo_urb]\<rparr>) = Some t
     \<and> list_all fate_undelivered (tx_fates t)"
proof -
  obtain t where t: "tx_exec demo_events (demo_tx\<lparr>tx_anchor := [demo_urb]\<rparr>) = Some t"
    using demo_run by blast
  from tx_no_false_ack [OF t] have "list_all fate_undelivered (tx_fates t)"
    by (simp add: demo_events_def demo_tx_simps)
  with t show ?thesis by blast
qed

theorem tx_frames_routed_witness:
  "\<exists>t. tx_exec demo_events (demo_tx\<lparr>tx_anchor := [\<lparr>urb_pipe = 2, urb_buf = [], urb_context = TxBuf\<rparr>]\<rparr>) = Some t
     \<and> tx_routed t"
proof -
  let ?s = "demo_tx\<lparr>tx_anchor := [\<lparr>urb_pipe = 2, urb_buf = [], urb_context = TxBuf\<rparr>]\<rparr>"
  have "\<exists>t. tx_exec demo_events ?s = Some t"
    by (simp add: demo_events_def rtw_usb_tx_write_eq demo_qsel demo_ep demo_tx_simps)
  then obtain t where t: "tx_exec demo_events ?s = Some t" ..
  have "tx_routed ?s"
    by (auto simp: tx_routed_def demo_tx_simps less_Suc_eq numeral_eq_Suc)
  moreover have "tx_wf ?s"
    by (simp add: tx_wf_def demo_tx_simps RTW_USB_EP_MAX_def)
  ultimately show ?thesis
    using t tx_frames_routed [OF t] by blast
qed

theorem tx_handler_drains_witness:
  "list_all (\<lambda>i. tx_queue (rtw_usb_tx_handler
      (demo_tx\<lparr>tx_queue := [[demo_skb], [], [demo_skb, demo_skb], []]\<rparr>)) ! i = []) [0..<RTW_USB_EP_MAX]"
  unfolding list_all_upt by (rule tx_handler_drains) (simp_all add: demo_tx_simps demo_outcome_def RTW_USB_EP_MAX_def)

theorem tx_agg_bound_witness:
  "length (fst (agg_build 1 demo_outcome (demo_skb\<lparr>skb_data := replicate 50 0\<rparr>) [demo_skb])) = 50"
proof -
  let ?k = "demo_skb\<lparr>skb_data := replicate 50 0\<rparr>"
  obtain head txcb rest where b: "agg_build 1 demo_outcome ?k [demo_skb] = (head, txcb, rest)"
    by (metis prod_cases3)
  from tx_agg_bound [OF b] show ?thesis
    by (simp add: b [unfolded One_nat_def] RTW_USB_MAX_XMITBUF_SZ_def)
qed

theorem rtw_usb_parse_endpoints_witness:
  "bulkout_num demo_tx = 3 \<and> take 3 (out_ep demo_tx) = [2, 3, 4] \<and> qsel_to_ep demo_tx 18 < 3"
proof -
  have "length (out_ep demo_start) = RTW_USB_EP_MAX" "length (filter is_bulk_out demo_eps) \<noteq> 1"
    by (simp_all add: demo_start_def RTW_USB_EP_MAX_def demo_eps_def is_bulk_out_def)
  from rtw_usb_parse_endpoints [OF demo_parse this] show ?thesis
    by (simp add: demo_tx_simps qsel_used_def)
qed

theorem rtw_usb_tx_write_in_bounds_witness:
  "rtw_usb_tx_write pkt_info_zero demo_skb (demo_tx\<lparr>tx_queue := tx_queue demo_start\<rparr>) \<noteq> None"
  by (rule rtw_usb_tx_write_in_bounds [OF demo_parse])
    (simp_all add: demo_start_def RTW_USB_EP_MAX_def demo_eps_def is_bulk_out_def demo_skb_def)

end
