(* ===== verification/Rssi.thy ===== *)
theory Rssi
  imports Prelude
begin

text \<open>
  From received power to an RSSI (\<open>phy.c\<close>): the table of powers, decibels to a linear
  fixed-point power and back, and the average over the receive paths. Powers are \<open>s8\<close>
  values in dBm; linear powers are \<open>u64\<close>, kept as integers with the wrap-around of the
  unsigned subtractions written out.
\<close>

definition FRAC_BITS :: nat where "FRAC_BITS = 3"

definition db_invert_table :: "int list list" where
  "db_invert_table =
    [[10, 13, 16, 20, 25, 32, 40, 50],
     [64, 80, 101, 128, 160, 201, 256, 318],
     [401, 505, 635, 800, 1007, 1268, 1596, 2010],
     [316, 398, 501, 631, 794, 1000, 1259, 1585],
     [1995, 2512, 3162, 3981, 5012, 6310, 7943, 10000],
     [12589, 15849, 19953, 25119, 31623, 39811, 50119, 63098],
     [79433, 100000, 125893, 158489, 199526, 251189, 316228, 398107],
     [501187, 630957, 794328, 1000000, 1258925, 1584893, 1995262, 2511886],
     [3162278, 3981072, 5011872, 6309573, 7943282, 1000000, 12589254, 15848932],
     [19952623, 25118864, 31622777, 39810717, 50118723, 63095734, 79432823, 100000000],
     [125892541, 158489319, 199526232, 251188643, 316227766, 398107171, 501187234, 630957345],
     [794328235, 1000000000, 1258925412, 1584893192, 1995262315, 2511886432, 3162277660, 3981071706]]"

definition db_cell :: "nat \<Rightarrow> nat \<Rightarrow> int" where
  "db_cell i j = db_invert_table ! i ! j"

definition u64_sub :: "int \<Rightarrow> int \<Rightarrow> int" where
  "u64_sub a b = (a - b) mod 18446744073709551616"

definition rtw_phy_power_2_db :: "int \<Rightarrow> int" where
  "rtw_phy_power_2_db pwr =
     (if pwr \<le> -100 \<or> pwr \<ge> 20 then 0
      else if pwr \<ge> 0 then 100
      else 100 + pwr)"

definition rtw_phy_db_2_linear :: "int \<Rightarrow> int" where
  "rtw_phy_db_2_linear power_db0 =
     (if power_db0 \<le> 96 \<and> power_db0 < 1 then 1
      else let power_db = (if power_db0 > 96 then 96 else power_db0);
               i = nat ((power_db - 1) div 8);
               j = nat ((power_db - 1) - int i * 8);
               linear = db_cell i j
           in if i > 2 then linear * 2 ^ FRAC_BITS else linear)"

text \<open>The nested loops in their order: the first cell the power does not exceed.\<close>

definition db_hit :: "int \<Rightarrow> nat \<times> nat \<Rightarrow> bool" where
  "db_hit linear p =
     (case p of (i, j) \<Rightarrow>
        if i \<le> 2 then linear * 2 ^ FRAC_BITS \<le> db_cell i j else linear \<le> db_cell i j)"

definition db_cells :: "(nat \<times> nat) list" where
  "db_cells = concat (map (\<lambda>i. map (\<lambda>j. (i, j)) [0..<8]) [0..<12])"

definition rtw_phy_linear_2_db :: "int \<Rightarrow> int" where
  "rtw_phy_linear_2_db linear =
     (case find (db_hit linear) db_cells of
        None \<Rightarrow> 96
      | Some (i, j) \<Rightarrow>
          let (i, j) =
            (if j = 0 \<and> i = 0 then (i, j)
             else if j = 0
             then (if i \<noteq> 3
                   then (if u64_sub (db_cell i 0) linear > u64_sub linear (db_cell (i - 1) 7)
                         then (i - 1, 7) else (i, j))
                   else (if u64_sub (db_cell 3 0) linear > u64_sub linear (db_cell 2 7)
                         then (2, 7) else (i, j)))
             else (if u64_sub (db_cell i j) linear > u64_sub linear (db_cell i (j - 1))
                   then (i, j - 1) else (i, j)))
          in int i * 8 + int j + 1)"

definition rtw_phy_rf_power_2_rssi :: "int list \<Rightarrow> nat \<Rightarrow> int" where
  "rtw_phy_rf_power_2_rssi rf_power path_num =
     (let sum = sum_list (map (\<lambda>p. rtw_phy_db_2_linear (rtw_phy_power_2_db p)) (take path_num rf_power));
          sum = (sum + 2 ^ (FRAC_BITS - 1)) div 2 ^ FRAC_BITS;
          sum = (if path_num = 2 then sum div 2
                 else if path_num = 3 then (sum + sum * 2 + sum * 8) div 32
                 else if path_num = 4 then sum div 4
                 else sum)
      in rtw_phy_linear_2_db sum mod 256)"

section \<open>Every RSSI is between 1 and 96\<close>

lemma db_cells_range: "(i, j) \<in> set db_cells \<Longrightarrow> i < 12 \<and> j < 8"
  by (auto simp: db_cells_def)

lemma rtw_phy_linear_2_db_range: "1 \<le> rtw_phy_linear_2_db l \<and> rtw_phy_linear_2_db l \<le> 96"
proof (cases "find (db_hit l) db_cells")
  case None
  then show ?thesis by (simp add: rtw_phy_linear_2_db_def)
next
  case (Some p)
  obtain i j where p: "p = (i, j)" by fastforce
  with Some have "(i, j) \<in> set db_cells"
    by (auto simp: find_Some_iff)
  then have "i < 12" "j < 8"
    using db_cells_range by auto
  with Some p show ?thesis
    by (auto simp: rtw_phy_linear_2_db_def Let_def)
qed

text \<open>
  Whatever the powers and the number of paths, the RSSI is a value from 1 to
  96, so it always fits the \<open>u8\<close> it is stored in.
\<close>

theorem rtw_phy_rf_power_2_rssi_range:
  "1 \<le> rtw_phy_rf_power_2_rssi rf n \<and> rtw_phy_rf_power_2_rssi rf n \<le> 96"
proof -
  let ?db = "rtw_phy_linear_2_db"
  have "1 \<le> ?db l mod 256 \<and> ?db l mod 256 \<le> 96" for l
    using rtw_phy_linear_2_db_range [of l] by simp
  then show ?thesis
    unfolding rtw_phy_rf_power_2_rssi_def Let_def by blast
qed

section \<open>One receive path\<close>

lemma rssi_table:
  "\<forall>p \<in> set [-99..-4]. let r = rtw_phy_rf_power_2_rssi [p] 1 in
     p \<noteq> -30 \<longrightarrow> r = 100 + p \<or> r = 101 + p"
  by code_simp

text \<open>
  For one receive path between -99 and -4 dBm, the conversion to a linear
  power and back is faithful: the RSSI is the power above -100 dBm, or one more. The one
  exception is -30 dBm.
\<close>

theorem rssi_single_path:
  assumes "-99 \<le> p" and "p \<le> -4" and "p \<noteq> -30"
  shows "rtw_phy_rf_power_2_rssi [p] 1 = 100 + p \<or> rtw_phy_rf_power_2_rssi [p] 1 = 101 + p"
  using rssi_table assms by (simp only: set_upto atLeastAtMost_iff Ball_def Let_def) blast

theorem rssi_single_path_witness: "rtw_phy_rf_power_2_rssi [-42] 1 = 58 \<or> rtw_phy_rf_power_2_rssi [-42] 1 = 59"
  using rssi_single_path [of "-42"] by simp

text \<open>
  At -30 dBm the RSSI is 60, below that of -31 dBm: the table's entry for
  70 dB is 1000000 where its row needs 10000000.
\<close>

theorem rssi_drops_at_minus_30:
  "rtw_phy_rf_power_2_rssi [-30] 1 = 60 \<and> rtw_phy_rf_power_2_rssi [-31] 1 = 69
     \<and> rtw_phy_rf_power_2_rssi [-29] 1 = 71 \<and> db_cell 8 4 > db_cell 8 5"
  by code_simp

end
