(* ===== verification/RxDesc.thy ===== *)
theory RxDesc
  imports Rssi Bitfield Frames
begin

text \<open>
  Receive descriptors and receive statistics (\<open>rx.c\<close>, with \<open>rtw_desc_to_mcsrate\<close> of
  \<open>util.c\<close>, \<open>rtw_set_rx_freq_band\<close> of \<open>main.c\<close> and the RTL8812A's physical status of
  \<open>rtw88xxa.c\<close> and \<open>rtw8812a.c\<close>). The kernel's moving averages (\<open>linux/average.h\<close>)
  are kept as the list of the samples added; the conversion of a channel to a frequency and
  the channel element of a frame are parameters.
\<close>

type_synonym 'v ewma = "'v list"

definition ewma_add :: "'v ewma \<Rightarrow> 'v \<Rightarrow> 'v ewma" where
  "ewma_add e v = e @ [v]"

section \<open>Rates\<close>

abbreviation (input) DESC_RATE1M :: nat where "DESC_RATE1M \<equiv> 0x00"
abbreviation (input) DESC_RATE11M :: nat where "DESC_RATE11M \<equiv> 0x03"
abbreviation (input) DESC_RATE6M :: nat where "DESC_RATE6M \<equiv> 0x04"
abbreviation (input) DESC_RATE54M :: nat where "DESC_RATE54M \<equiv> 0x0b"
abbreviation (input) DESC_RATEMCS0 :: nat where "DESC_RATEMCS0 \<equiv> 0x0c"
abbreviation (input) DESC_RATEMCS7 :: nat where "DESC_RATEMCS7 \<equiv> 0x13"
abbreviation (input) DESC_RATEMCS8 :: nat where "DESC_RATEMCS8 \<equiv> 0x14"
abbreviation (input) DESC_RATEMCS15 :: nat where "DESC_RATEMCS15 \<equiv> 0x1b"
abbreviation (input) DESC_RATEMCS16 :: nat where "DESC_RATEMCS16 \<equiv> 0x1c"
abbreviation (input) DESC_RATEMCS23 :: nat where "DESC_RATEMCS23 \<equiv> 0x23"
abbreviation (input) DESC_RATEMCS31 :: nat where "DESC_RATEMCS31 \<equiv> 0x2b"
abbreviation (input) DESC_RATEVHT1SS_MCS0 :: nat where "DESC_RATEVHT1SS_MCS0 \<equiv> 0x2c"
abbreviation (input) DESC_RATEVHT1SS_MCS9 :: nat where "DESC_RATEVHT1SS_MCS9 \<equiv> 0x35"
abbreviation (input) DESC_RATEVHT2SS_MCS0 :: nat where "DESC_RATEVHT2SS_MCS0 \<equiv> 0x36"
abbreviation (input) DESC_RATEVHT2SS_MCS9 :: nat where "DESC_RATEVHT2SS_MCS9 \<equiv> 0x3f"
abbreviation (input) DESC_RATEVHT3SS_MCS0 :: nat where "DESC_RATEVHT3SS_MCS0 \<equiv> 0x40"
abbreviation (input) DESC_RATEVHT3SS_MCS9 :: nat where "DESC_RATEVHT3SS_MCS9 \<equiv> 0x49"
abbreviation (input) DESC_RATEVHT4SS_MCS0 :: nat where "DESC_RATEVHT4SS_MCS0 \<equiv> 0x4a"
abbreviation (input) DESC_RATEVHT4SS_MCS9 :: nat where "DESC_RATEVHT4SS_MCS9 \<equiv> 0x53"
abbreviation (input) DESC_RATE_MAX :: nat where "DESC_RATE_MAX \<equiv> 0x54"

text \<open>The new \<open>mcs\<close> and \<open>nss\<close>, given the ones the pointers refer to.\<close>

definition rtw_desc_to_mcsrate :: "nat \<Rightarrow> nat \<times> nat \<Rightarrow> nat \<times> nat" where
  "rtw_desc_to_mcsrate r old =
     (if r \<le> DESC_RATE54M then old
      else if r \<ge> DESC_RATEVHT1SS_MCS0 \<and> r \<le> DESC_RATEVHT1SS_MCS9 then (r - DESC_RATEVHT1SS_MCS0, 1)
      else if r \<ge> DESC_RATEVHT2SS_MCS0 \<and> r \<le> DESC_RATEVHT2SS_MCS9 then (r - DESC_RATEVHT2SS_MCS0, 2)
      else if r \<ge> DESC_RATEVHT3SS_MCS0 \<and> r \<le> DESC_RATEVHT3SS_MCS9 then (r - DESC_RATEVHT3SS_MCS0, 3)
      else if r \<ge> DESC_RATEVHT4SS_MCS0 \<and> r \<le> DESC_RATEVHT4SS_MCS9 then (r - DESC_RATEVHT4SS_MCS0, 4)
      else if r \<ge> DESC_RATEMCS0 \<and> r \<le> DESC_RATEMCS31 then (r - DESC_RATEMCS0, 0)
      else old)"

section \<open>Packet and receive status\<close>

abbreviation (input) RTW_CHANNEL_WIDTH_20 :: nat where "RTW_CHANNEL_WIDTH_20 \<equiv> 0"
abbreviation (input) RTW_CHANNEL_WIDTH_40 :: nat where "RTW_CHANNEL_WIDTH_40 \<equiv> 1"
abbreviation (input) RTW_CHANNEL_WIDTH_80 :: nat where "RTW_CHANNEL_WIDTH_80 \<equiv> 2"

definition RTW_RF_PATH_MAX :: nat where "RTW_RF_PATH_MAX = 4"

record rtw_rx_pkt_stat =
  st_phy_status :: bool
  st_icv_err :: bool
  st_crc_err :: bool
  st_decrypted :: bool
  st_is_c2h :: bool
  st_channel_invalid :: bool
  st_signal_power :: int
  st_pkt_len :: nat
  st_bw :: nat
  st_drv_info_sz :: nat
  st_shift :: nat
  st_rate :: nat
  st_cam_id :: nat
  st_ppdu_cnt :: nat
  st_tsf_low :: u32
  st_rx_power :: "int list"
  st_rssi :: nat
  st_freq :: nat
  st_band :: nl80211_band
  st_vif :: "nat option"
  st_hdr :: "u8 list option"

definition pkt_stat_zero :: rtw_rx_pkt_stat where
  "pkt_stat_zero = \<lparr>st_phy_status = False, st_icv_err = False, st_crc_err = False,
     st_decrypted = False, st_is_c2h = False, st_channel_invalid = False, st_signal_power = 0,
     st_pkt_len = 0, st_bw = 0, st_drv_info_sz = 0, st_shift = 0, st_rate = 0, st_cam_id = 0,
     st_ppdu_cnt = 0, st_tsf_low = 0, st_rx_power = [0, 0, 0, 0], st_rssi = 0, st_freq = 0,
     st_band = NL80211_BAND_2GHZ, st_vif = None, st_hdr = None\<rparr>"

datatype rx_flag =
    RX_FLAG_FAILED_FCS_CRC | RX_FLAG_DECRYPTED | RX_FLAG_MACTIME_START | RX_FLAG_NO_SIGNAL_VAL
  | RX_FLAG_NO_PSDU

datatype rx_enc = RX_ENC_LEGACY | RX_ENC_HT | RX_ENC_VHT
datatype rate_info_bw = RATE_INFO_BW_20 | RATE_INFO_BW_40 | RATE_INFO_BW_80

record ieee80211_rx_status =
  rxs_freq :: nat
  rxs_band :: nl80211_band
  rxs_flag :: "rx_flag set"
  rxs_encoding :: rx_enc
  rxs_rate_idx :: nat
  rxs_nss :: nat
  rxs_mactime :: u32
  rxs_bw :: rate_info_bw
  rxs_signal :: int
  rxs_chains :: u8
  rxs_chain_signal :: "int list"

definition rx_status_zero :: ieee80211_rx_status where
  "rx_status_zero = \<lparr>rxs_freq = 0, rxs_band = NL80211_BAND_2GHZ, rxs_flag = {},
     rxs_encoding = RX_ENC_LEGACY, rxs_rate_idx = 0, rxs_nss = 0, rxs_mactime = 0,
     rxs_bw = RATE_INFO_BW_20, rxs_signal = 0, rxs_chains = 0, rxs_chain_signal = [0, 0, 0, 0]\<rparr>"

section \<open>The device's receive state\<close>

record rx_vif =
  vif_bssid :: "u8 list"
  vif_addr :: "u8 list"
  vif_rx_unicast :: "64 word"
  vif_rx_cnt :: "64 word"
  vif_stas :: "(u8 list \<times> nat ewma) list"   \<comment> \<open>stations by address, with their \<open>avg_rssi\<close>\<close>

record rtw_rx =
  rf_path_num :: nat
  current_channel :: nat
  cck_high_power :: bool
  rx_is_8703b :: bool
  hw_chan_freq :: nat                    \<comment> \<open>\<open>hw->conf.chandef.chan\<close>\<close>
  hw_chan_band :: nl80211_band
  flag_scanning :: bool
  fw_scan_offload :: bool
  stat_rx_unicast :: "64 word"
  stat_rx_cnt :: "64 word"
  curr_rx_rate :: nat
  num_bcn_pkt :: u16
  num_qry_pkt :: "u16 list"              \<comment> \<open>\<open>DESC_RATE_MAX\<close> entries\<close>
  ewma_evm :: "nat ewma list"            \<comment> \<open>\<open>RTW_EVM_NUM\<close> = 7 entries\<close>
  ewma_snr :: "int ewma list"            \<comment> \<open>\<open>RTW_SNR_NUM\<close> = 16 entries\<close>
  dm_rx_evm_dbm :: "nat list"
  dm_rx_snr :: "int list"
  dm_rssi :: "nat list"
  rx_vifs :: "rx_vif list"               \<comment> \<open>the active interfaces\<close>
  channel_freq :: "nat \<Rightarrow> nl80211_band \<Rightarrow> nat"   \<comment> \<open>\<open>ieee80211_channel_to_frequency\<close>\<close>
  ies_channel :: "u8 list \<Rightarrow> int"        \<comment> \<open>\<open>cfg80211_get_ies_channel_number\<close>\<close>

section \<open>Statistics\<close>

definition rtw_rx_stats :: "nat option \<Rightarrow> u8 list \<Rightarrow> 'x rtw_rx_scheme \<Rightarrow> 'x rtw_rx_scheme" where
  "rtw_rx_stats vif frame s =
     (if \<not> ieee80211_is_data (frame_control frame) then s
      else if addr1_is_group frame then s
      else let n = of_nat (length frame);
               s = s\<lparr>stat_rx_unicast := stat_rx_unicast s + n, stat_rx_cnt := stat_rx_cnt s + 1\<rparr>
           in case vif of None \<Rightarrow> s
              | Some k \<Rightarrow> s\<lparr>rx_vifs := (rx_vifs s)[k := (rx_vifs s ! k)
                     \<lparr>vif_rx_unicast := vif_rx_unicast (rx_vifs s ! k) + n,
                      vif_rx_cnt := vif_rx_cnt (rx_vifs s ! k) + 1\<rparr>]\<rparr>)"

text \<open>The rate classes of \<open>rtw_rx_phy_stat\<close>: SNR group, number of EVM values, first EVM index.\<close>

datatype rate_class = CckClass | EvmClass nat nat nat | UnknownClass

definition rate_class :: "nat \<Rightarrow> rate_class" where
  "rate_class r =
     (if r \<le> DESC_RATE11M then CckClass
      else if DESC_RATE6M \<le> r \<and> r \<le> DESC_RATE54M then EvmClass 0 1 0
      else if (DESC_RATEMCS0 \<le> r \<and> r \<le> DESC_RATEMCS7)
           \<or> (DESC_RATEVHT1SS_MCS0 \<le> r \<and> r \<le> DESC_RATEVHT1SS_MCS9) then EvmClass 1 1 1
      else if (DESC_RATEMCS8 \<le> r \<and> r \<le> DESC_RATEMCS15)
           \<or> (DESC_RATEVHT2SS_MCS0 \<le> r \<and> r \<le> DESC_RATEVHT2SS_MCS9) then EvmClass 2 2 2
      else if (DESC_RATEMCS16 \<le> r \<and> r \<le> DESC_RATEMCS23)
           \<or> (DESC_RATEVHT3SS_MCS0 \<le> r \<and> r \<le> DESC_RATEVHT3SS_MCS9) then EvmClass 3 3 4
      else UnknownClass)"

definition evm_add :: "nat \<Rightarrow> nat \<Rightarrow> 'x rtw_rx_scheme \<Rightarrow> 'x rtw_rx_scheme" where
  "evm_add evm_id i s =
     s\<lparr>ewma_evm := (ewma_evm s)[evm_id + i := ewma_add (ewma_evm s ! (evm_id + i)) (dm_rx_evm_dbm s ! i)]\<rparr>"

definition snr_add :: "nat \<Rightarrow> nat \<Rightarrow> 'x rtw_rx_scheme \<Rightarrow> 'x rtw_rx_scheme" where
  "snr_add rate_ss i s =
     s\<lparr>ewma_snr := (ewma_snr s)[4 * rate_ss + i := ewma_add (ewma_snr s ! (4 * rate_ss + i)) (dm_rx_snr s ! i)]\<rparr>"

definition count_qry_pkt :: "nat \<Rightarrow> 'x rtw_rx_scheme \<Rightarrow> 'x rtw_rx_scheme" where
  "count_qry_pkt r s = s\<lparr>num_qry_pkt := (num_qry_pkt s)[r := num_qry_pkt s ! r + 1]\<rparr>"

definition rtw_rx_phy_stat :: "rtw_rx_pkt_stat \<Rightarrow> u8 list \<Rightarrow> 'x rtw_rx_scheme \<Rightarrow> 'x rtw_rx_scheme" where
  "rtw_rx_phy_stat st hdr s0 =
     (let s1 = s0\<lparr>curr_rx_rate := st_rate st\<rparr>;
          s2 = (if ieee80211_is_beacon (frame_control hdr)
                then s1\<lparr>num_bcn_pkt := num_bcn_pkt s1 + 1\<rparr> else s1)
      in case rate_class (st_rate st) of
           CckClass \<Rightarrow> count_qry_pkt (st_rate st) s2
         | UnknownClass \<Rightarrow> s2
         | EvmClass rate_ss rate_ss_evm evm_id \<Rightarrow>
             let s3 = fold (evm_add evm_id) [0..<rate_ss_evm] s2;
                 s4 = fold (snr_add rate_ss) [0..<rf_path_num s3] s3
             in count_qry_pkt (st_rate st) s4)"

text \<open>\<open>ieee80211_find_sta_by_ifaddr\<close> and the station's average.\<close>

definition sta_rssi_add :: "u8 list \<Rightarrow> nat \<Rightarrow> rx_vif \<Rightarrow> rx_vif" where
  "sta_rssi_add addr v vif =
     vif\<lparr>vif_stas := map (\<lambda>(a, e). if a = addr then (a, ewma_add e v) else (a, e)) (vif_stas vif)\<rparr>"

definition rtw_rx_addr_match_iter ::
    "rtw_rx_pkt_stat \<Rightarrow> u8 list \<Rightarrow> u8 list \<Rightarrow> nat \<Rightarrow> 'x rtw_rx_scheme \<Rightarrow> 'x rtw_rx_scheme" where
  "rtw_rx_addr_match_iter st hdr bssid k s =
     (let vif = rx_vifs s ! k
      in if vif_bssid vif \<noteq> bssid then s
         else if \<not> (vif_addr vif = hdr_addr1 hdr \<or> ieee80211_is_beacon (frame_control hdr)) then s
         else let s = rtw_rx_phy_stat st hdr s
              in s\<lparr>rx_vifs := (rx_vifs s)[k := sta_rssi_add (hdr_addr2 hdr) (st_rssi st) vif]\<rparr>)"

definition rtw_rx_addr_match :: "rtw_rx_pkt_stat \<Rightarrow> u8 list \<Rightarrow> 'x rtw_rx_scheme \<Rightarrow> 'x rtw_rx_scheme" where
  "rtw_rx_addr_match st hdr s =
     (if st_crc_err st \<or> st_icv_err st \<or> \<not> st_phy_status st
         \<or> ieee80211_is_ctl (frame_control hdr) then s
      else fold (rtw_rx_addr_match_iter st hdr (get_hdr_bssid hdr)) [0..<length (rx_vifs s)] s)"

section \<open>Frequencies\<close>

definition rtw_set_rx_freq_by_pktstat ::
    "rtw_rx_pkt_stat \<Rightarrow> ieee80211_rx_status \<Rightarrow> ieee80211_rx_status" where
  "rtw_set_rx_freq_by_pktstat st rxs = rxs\<lparr>rxs_freq := st_freq st, rxs_band := st_band st\<rparr>"

definition rtw_set_rx_freq_band ::
    "'x rtw_rx_scheme \<Rightarrow> nat \<Rightarrow> rtw_rx_pkt_stat \<Rightarrow> rtw_rx_pkt_stat" where
  "rtw_set_rx_freq_band s channel st =
     (if IS_CH_2G_BAND channel
      then st\<lparr>st_band := NL80211_BAND_2GHZ, st_freq := channel_freq s channel NL80211_BAND_2GHZ\<rparr>
      else if IS_CH_5G_BAND channel
      then st\<lparr>st_band := NL80211_BAND_5GHZ, st_freq := channel_freq s channel NL80211_BAND_5GHZ\<rparr>
      else st)"

text \<open>The fixed part of a beacon and of a probe response: 24 bytes of header, 12 of body.\<close>

definition rtw_update_rx_freq_from_ie ::
    "'x rtw_rx_scheme \<Rightarrow> u8 list \<Rightarrow> rtw_rx_pkt_stat \<Rightarrow> ieee80211_rx_status
       \<Rightarrow> rtw_rx_pkt_stat \<times> ieee80211_rx_status" where
  "rtw_update_rx_freq_from_ie s frame st rxs =
     (let fc = frame_control frame;
          hdr_len = 36;
          channel_number =
            (if flag_scanning s \<and> (ieee80211_is_beacon fc \<or> ieee80211_is_probe_resp fc)
                \<and> length frame > hdr_len
             then ies_channel s (drop hdr_len frame) else -1);
          channel = (if channel_number \<noteq> -1 then nat (channel_number mod 256)
                     else current_channel s);
          st = rtw_set_rx_freq_band s channel st
      in (st, rtw_set_rx_freq_by_pktstat st rxs))"

definition rtw_update_rx_freq_for_invalid ::
    "'x rtw_rx_scheme \<Rightarrow> u8 list \<Rightarrow> rtw_rx_pkt_stat \<Rightarrow> ieee80211_rx_status
       \<Rightarrow> rtw_rx_pkt_stat \<times> ieee80211_rx_status" where
  "rtw_update_rx_freq_for_invalid s frame st rxs =
     (if st_channel_invalid st then rtw_update_rx_freq_from_ie s frame st rxs else (st, rxs))"

section \<open>The receive status\<close>

definition rx_encoding_of :: "nat \<Rightarrow> rx_enc" where
  "rx_encoding_of r =
     (if r \<ge> DESC_RATEVHT1SS_MCS0 then RX_ENC_VHT
      else if r \<ge> DESC_RATEMCS0 then RX_ENC_HT else RX_ENC_LEGACY)"

definition rx_rate_idx_of :: "nl80211_band \<Rightarrow> nat \<Rightarrow> nat \<times> nat \<Rightarrow> nat \<times> nat" where
  "rx_rate_idx_of band r old =
     (if band = NL80211_BAND_5GHZ \<and> r \<ge> DESC_RATE6M \<and> r \<le> DESC_RATE54M
      then (r - DESC_RATE6M, snd old)
      else if band = NL80211_BAND_2GHZ \<and> r \<ge> DESC_RATE1M \<and> r \<le> DESC_RATE54M
      then (r - DESC_RATE1M, snd old)
      else if r \<ge> DESC_RATEMCS0 then rtw_desc_to_mcsrate r old
      else old)"

definition flag_if :: "bool \<Rightarrow> rx_flag \<Rightarrow> ieee80211_rx_status \<Rightarrow> ieee80211_rx_status" where
  "flag_if b f rxs = (if b then rxs\<lparr>rxs_flag := insert f (rxs_flag rxs)\<rparr> else rxs)"

definition chain_power :: "int list \<Rightarrow> nat \<Rightarrow> ieee80211_rx_status \<Rightarrow> ieee80211_rx_status" where
  "chain_power rx_power path rxs =
     rxs\<lparr>rxs_chains := rxs_chains rxs OR BIT path,
         rxs_chain_signal := (rxs_chain_signal rxs)[path := rx_power ! path]\<rparr>"

definition rtw_rx_fill_rx_status ::
    "rtw_rx_pkt_stat \<Rightarrow> u8 list \<Rightarrow> 'x rtw_rx_scheme \<Rightarrow> ieee80211_rx_status \<times> 'x rtw_rx_scheme" where
  "rtw_rx_fill_rx_status st hdr s =
     (let rxs = rx_status_zero\<lparr>rxs_freq := hw_chan_freq s, rxs_band := hw_chan_band s\<rparr>;
          rxs = (if fw_scan_offload s \<and> flag_scanning s then rtw_set_rx_freq_by_pktstat st rxs else rxs);
          rxs = flag_if (st_crc_err st) RX_FLAG_FAILED_FCS_CRC rxs;
          rxs = flag_if (st_decrypted st) RX_FLAG_DECRYPTED rxs;
          rxs = rxs\<lparr>rxs_encoding := rx_encoding_of (st_rate st)\<rparr>;
          idx = rx_rate_idx_of (rxs_band rxs) (st_rate st) (rxs_rate_idx rxs, rxs_nss rxs);
          rxs = rxs\<lparr>rxs_rate_idx := fst idx, rxs_nss := snd idx\<rparr>;
          rxs = (flag_if True RX_FLAG_MACTIME_START rxs)\<lparr>rxs_mactime := st_tsf_low st\<rparr>;
          rxs = rxs\<lparr>rxs_bw := (if st_bw st = RTW_CHANNEL_WIDTH_80 then RATE_INFO_BW_80
                              else if st_bw st = RTW_CHANNEL_WIDTH_40 then RATE_INFO_BW_40
                              else RATE_INFO_BW_20)\<rparr>;
          rxs = (if st_phy_status st
                 then fold (chain_power (st_rx_power st)) [0..<rf_path_num s]
                        (rxs\<lparr>rxs_signal := st_signal_power st\<rparr>)
                 else flag_if True RX_FLAG_NO_SIGNAL_VAL rxs);
          s = rtw_rx_addr_match st hdr s
      in (flag_if (rx_is_8703b s \<and> st_pkt_len st = 0) RX_FLAG_NO_PSDU rxs, s))"

section \<open>The RTL8812A's physical status\<close>

definition s8 :: "int \<Rightarrow> int" where
  "s8 x = (x + 128) mod 256 - 128"

abbreviation RTW_JGRPHY_W0_GAIN_A :: u32 where "RTW_JGRPHY_W0_GAIN_A \<equiv> GENMASK 6 0"
abbreviation RTW_JGRPHY_W0_GAIN_B :: u32 where "RTW_JGRPHY_W0_GAIN_B \<equiv> GENMASK 14 8"
abbreviation RTW_JGRPHY_W1_AGC_RPT_VGA_IDX :: u32 where "RTW_JGRPHY_W1_AGC_RPT_VGA_IDX \<equiv> GENMASK 12 8"
abbreviation RTW_JGRPHY_W1_AGC_RPT_LNA_IDX :: u32 where "RTW_JGRPHY_W1_AGC_RPT_LNA_IDX \<equiv> GENMASK 15 13"

definition rtw8812a_cck_rx_pwr :: "nat \<Rightarrow> nat \<Rightarrow> int" where
  "rtw8812a_cck_rx_pwr lna_idx vga_idx =
     (let vga = int vga_idx
      in s8 (if lna_idx = 7 then (if vga \<le> 27 then -94 + 2 * (27 - vga) else -94)
             else if lna_idx = 6 then -42 + 2 * (2 - vga)
             else if lna_idx = 5 then -36 + 2 * (7 - vga)
             else if lna_idx = 4 then -30 + 2 * (7 - vga)
             else if lna_idx = 3 then -18 + 2 * (7 - vga)
             else if lna_idx = 2 then 2 * (5 - vga)
             else if lna_idx = 1 then 14 - 2 * vga
             else if lna_idx = 0 then 20 - 2 * vga
             else 0))"

definition phy_gain :: "u32 \<Rightarrow> nat \<Rightarrow> nat" where
  "phy_gain v i = (if i = 0 then unat (get_bits v RTW_JGRPHY_W0_GAIN_A)
                   else unat (get_bits v RTW_JGRPHY_W0_GAIN_B))"

text \<open>One path of an OFDM frame. Only the gains of paths A and B are read from the report.\<close>

definition ofdm_path ::
    "u32 \<Rightarrow> nat \<Rightarrow> rtw_rx_pkt_stat \<times> 'x rtw_rx_scheme \<Rightarrow> rtw_rx_pkt_stat \<times> 'x rtw_rx_scheme" where
  "ofdm_path v i p =
     (case p of (st, s) \<Rightarrow>
        let pwr = s8 (int (phy_gain v i) - 110)
        in (st\<lparr>st_rx_power := (st_rx_power st)[i := pwr]\<rparr>,
            s\<lparr>dm_rssi := (dm_rssi s)[i := nat (rtw_phy_rf_power_2_rssi [pwr] 1)]\<rparr>))"

definition rtw88xxa_query_phy_status ::
    "u8 list \<Rightarrow> (nat \<Rightarrow> nat \<Rightarrow> int) \<Rightarrow> rtw_rx_pkt_stat \<Rightarrow> 'x rtw_rx_scheme
       \<Rightarrow> rtw_rx_pkt_stat \<times> 'x rtw_rx_scheme" where
  "rtw88xxa_query_phy_status rpt cck_rx_pwr st s =
     (if st_rate st \<le> DESC_RATE11M
      then let lna_idx = unat (get_bits (word_at 1 rpt) RTW_JGRPHY_W1_AGC_RPT_LNA_IDX);
               vga_idx = unat (get_bits (word_at 1 rpt) RTW_JGRPHY_W1_AGC_RPT_VGA_IDX);
               rx_pwr_db = cck_rx_pwr lna_idx vga_idx;
               st = st\<lparr>st_rx_power := (st_rx_power st)[0 := rx_pwr_db]\<rparr>;
               rssi = nat (rtw_phy_rf_power_2_rssi (st_rx_power st) 1)
           in (st\<lparr>st_rssi := rssi, st_bw := RTW_CHANNEL_WIDTH_20, st_signal_power := rx_pwr_db\<rparr>,
               s\<lparr>dm_rssi := (dm_rssi s)[0 := rssi]\<rparr>)
      else case fold (ofdm_path (word_at 0 rpt)) [0..<rf_path_num s] (st, s) of
             (st, s) \<Rightarrow>
               let rssi = nat (rtw_phy_rf_power_2_rssi (st_rx_power st) (rf_path_num s));
                   power_a = st_rx_power st ! 0;
                   power_b = (if rf_path_num s = 1 then power_a else st_rx_power st ! 1)
               in (st\<lparr>st_rssi := rssi, st_signal_power := max (max power_a power_b) (- 120)\<rparr>, s))"

definition rtw8812a_query_phy_status ::
    "u8 list \<Rightarrow> rtw_rx_pkt_stat \<Rightarrow> 'x rtw_rx_scheme \<Rightarrow> rtw_rx_pkt_stat \<times> 'x rtw_rx_scheme" where
  "rtw8812a_query_phy_status rpt st0 s0 =
     (case rtw88xxa_query_phy_status rpt rtw8812a_cck_rx_pwr st0 s0 of
        (st, s) \<Rightarrow>
          if st_rate st \<ge> DESC_RATE6M then (st, s)
          else if cck_high_power s then (st, s)
          else if st_rssi st \<ge> 80
          then (st\<lparr>st_rssi := ((st_rssi st - 80) * 2 + (st_rssi st - 80) div 2 + 80) mod 256\<rparr>, s)
          else if st_rssi st \<le> 78 \<and> st_rssi st \<ge> 20
          then (st\<lparr>st_rssi := (st_rssi st + 3) mod 256\<rparr>, s)
          else (st, s))"

section \<open>The receive descriptor\<close>

abbreviation RTW_RX_DESC_W0_PKT_LEN :: u32 where "RTW_RX_DESC_W0_PKT_LEN \<equiv> GENMASK 13 0"
abbreviation RTW_RX_DESC_W0_CRC32 :: u32 where "RTW_RX_DESC_W0_CRC32 \<equiv> BIT 14"
abbreviation RTW_RX_DESC_W0_ICV_ERR :: u32 where "RTW_RX_DESC_W0_ICV_ERR \<equiv> BIT 15"
abbreviation RTW_RX_DESC_W0_DRV_INFO_SIZE :: u32 where "RTW_RX_DESC_W0_DRV_INFO_SIZE \<equiv> GENMASK 19 16"
abbreviation RTW_RX_DESC_W0_ENC_TYPE :: u32 where "RTW_RX_DESC_W0_ENC_TYPE \<equiv> GENMASK 22 20"
abbreviation RTW_RX_DESC_W0_SHIFT :: u32 where "RTW_RX_DESC_W0_SHIFT \<equiv> GENMASK 25 24"
abbreviation RTW_RX_DESC_W0_PHYST :: u32 where "RTW_RX_DESC_W0_PHYST \<equiv> BIT 26"
abbreviation RTW_RX_DESC_W0_SWDEC :: u32 where "RTW_RX_DESC_W0_SWDEC \<equiv> BIT 27"
abbreviation RTW_RX_DESC_W1_MACID :: u32 where "RTW_RX_DESC_W1_MACID \<equiv> GENMASK 6 0"
abbreviation RTW_RX_DESC_W2_C2H :: u32 where "RTW_RX_DESC_W2_C2H \<equiv> BIT 28"
abbreviation RTW_RX_DESC_W2_PPDU_CNT :: u32 where "RTW_RX_DESC_W2_PPDU_CNT \<equiv> GENMASK 30 29"
abbreviation RTW_RX_DESC_W3_RX_RATE :: u32 where "RTW_RX_DESC_W3_RX_RATE \<equiv> GENMASK 6 0"
abbreviation RTW_RX_DESC_W4_BW :: u32 where "RTW_RX_DESC_W4_BW \<equiv> GENMASK 5 4"
abbreviation RTW_RX_DESC_W5_TSFL :: u32 where "RTW_RX_DESC_W5_TSFL \<equiv> GENMASK 31 0"

abbreviation (input) RX_DESC_ENC_NONE :: nat where "RX_DESC_ENC_NONE \<equiv> 0"

text \<open>The fields of the descriptor at the front of \<open>desc\<close>.\<close>

definition rx_desc_fields :: "u8 list \<Rightarrow> rtw_rx_pkt_stat" where
  "rx_desc_fields desc =
     (let v0 = word_at 0 desc; v1 = word_at 1 desc; v2 = word_at 2 desc;
          v3 = word_at 3 desc; v4 = word_at 4 desc; v5 = word_at 5 desc;
          enc_type = unat (get_bits v0 RTW_RX_DESC_W0_ENC_TYPE);
          swdec = (get_bits v0 RTW_RX_DESC_W0_SWDEC \<noteq> 0);
          st = pkt_stat_zero
            \<lparr>st_pkt_len := unat (get_bits v0 RTW_RX_DESC_W0_PKT_LEN),
             st_crc_err := get_bits v0 RTW_RX_DESC_W0_CRC32 \<noteq> 0,
             st_icv_err := get_bits v0 RTW_RX_DESC_W0_ICV_ERR \<noteq> 0,
             st_drv_info_sz := unat (get_bits v0 RTW_RX_DESC_W0_DRV_INFO_SIZE),
             st_shift := unat (get_bits v0 RTW_RX_DESC_W0_SHIFT),
             st_phy_status := get_bits v0 RTW_RX_DESC_W0_PHYST \<noteq> 0,
             st_decrypted := \<not> swdec \<and> enc_type \<noteq> RX_DESC_ENC_NONE,
             st_cam_id := unat (get_bits v1 RTW_RX_DESC_W1_MACID),
             st_is_c2h := get_bits v2 RTW_RX_DESC_W2_C2H \<noteq> 0,
             st_ppdu_cnt := unat (get_bits v2 RTW_RX_DESC_W2_PPDU_CNT),
             st_rate := unat (get_bits v3 RTW_RX_DESC_W3_RX_RATE),
             st_bw := unat (get_bits v4 RTW_RX_DESC_W4_BW),
             st_tsf_low := get_bits v5 RTW_RX_DESC_W5_TSFL\<rparr>;
          st = (if st_rate st \<ge> DESC_RATE_MAX
                then st\<lparr>st_rate := DESC_RATE1M, st_bw := RTW_CHANNEL_WIDTH_20\<rparr> else st)
      in st\<lparr>st_drv_info_sz := (st_drv_info_sz st * 8) mod 256\<rparr>)"

text \<open>
  \<open>desc\<close> is the memory from the descriptor on, and \<open>rx_buf\<close> from the bytes after it. The
  physical status parser is the chip's (\<open>rtw8812a_query_phy_status\<close> for the RTL8812A).
\<close>

definition rtw_rx_query_rx_desc ::
    "(u8 list \<Rightarrow> rtw_rx_pkt_stat \<Rightarrow> 'x rtw_rx_scheme \<Rightarrow> rtw_rx_pkt_stat \<times> 'x rtw_rx_scheme)
       \<Rightarrow> u8 list \<Rightarrow> u8 list \<Rightarrow> ieee80211_rx_status \<Rightarrow> 'x rtw_rx_scheme
       \<Rightarrow> rtw_rx_pkt_stat \<times> ieee80211_rx_status \<times> 'x rtw_rx_scheme" where
  "rtw_rx_query_rx_desc query_phy_status desc rx_buf rxs s =
     (let st = rx_desc_fields desc
      in if st_is_c2h st then (st, rxs, s)
         else let phy_status = drop (st_shift st) rx_buf;
                  hdr = drop (st_drv_info_sz st) phy_status;
                  st = st\<lparr>st_hdr := Some hdr\<rparr>;
                  (st, s) = (if st_phy_status st then query_phy_status phy_status st s else (st, s));
                  (rxs, s) = rtw_rx_fill_rx_status st hdr s
              in (st, rxs, s))"

section \<open>What the descriptor can say\<close>

lemma get_bits_range:
  assumes "l \<le> h" and "h < 32"
  shows "unat (get_bits (v :: u32) (GENMASK h l)) < 2 ^ (Suc h - l)"
proof -
  have "get_bits v (GENMASK h l) = take_bit (Suc h - l) (get_bits v (GENMASK h l))"
    using assms by (intro bit_word_eqI) (auto simp: bit_simps field_bits)
  then have "unat (get_bits v (GENMASK h l)) = take_bit (Suc h - l) (unat (get_bits v (GENMASK h l)))"
    by (metis unsigned_take_bit_eq)
  then show ?thesis
    by (metis take_bit_nat_less_exp)
qed

lemma rx_desc_fields_range:
  "st_pkt_len (rx_desc_fields d) < 16384 \<and> st_drv_info_sz (rx_desc_fields d) \<le> 120
   \<and> st_shift (rx_desc_fields d) \<le> 3 \<and> st_rate (rx_desc_fields d) < DESC_RATE_MAX
   \<and> st_bw (rx_desc_fields d) \<le> 3"
proof -
  have "unat (get_bits (word_at 0 d) RTW_RX_DESC_W0_PKT_LEN) < 16384"
      "unat (get_bits (word_at 0 d) RTW_RX_DESC_W0_DRV_INFO_SIZE) < 16"
      "unat (get_bits (word_at 0 d) RTW_RX_DESC_W0_SHIFT) < 4"
      "unat (get_bits (word_at 4 d) RTW_RX_DESC_W4_BW) < 4"
    using get_bits_range [of 0 13 "word_at 0 d"] get_bits_range [of 16 19 "word_at 0 d"]
      get_bits_range [of 24 25 "word_at 0 d"] get_bits_range [of 4 5 "word_at 4 d"] by simp_all
  then show ?thesis
    by (auto simp: rx_desc_fields_def Let_def)
qed

lemma query_phy_status_vif [simp]: "st_vif (fst (rtw8812a_query_phy_status rpt st s)) = st_vif st"
proof -
  have ofdm: "st_vif (fst (fold (ofdm_path v) is p)) = st_vif (fst p)"
    for v "is" and p :: "rtw_rx_pkt_stat \<times> 'a rtw_rx_scheme"
    by (induction "is" arbitrary: p) (auto simp: ofdm_path_def Let_def split: prod.splits)
  have "st_vif (fst (rtw88xxa_query_phy_status rpt f st s)) = st_vif st" for f
  proof (cases "st_rate st \<le> DESC_RATE11M")
    case True
    then show ?thesis by (simp add: rtw88xxa_query_phy_status_def Let_def)
  next
    case False
    with ofdm [of "word_at 0 rpt" "[0..<rf_path_num s]" "(st, s)"] show ?thesis
      by (auto simp: rtw88xxa_query_phy_status_def Let_def split: prod.splits)
  qed
  from this [of rtw8812a_cck_rx_pwr] show ?thesis
    by (auto simp: rtw8812a_query_phy_status_def split: prod.splits)
qed

lemma query_phy_status_vif_eq: "rtw8812a_query_phy_status rpt st s = (st', s') \<Longrightarrow> st_vif st' = st_vif st"
  using query_phy_status_vif [of rpt st s] by simp

lemma rx_desc_fields_vif [simp]: "st_vif (rx_desc_fields d) = None"
  by (simp add: rx_desc_fields_def Let_def pkt_stat_zero_def)

lemma query_rx_desc_vif:
  "st_vif (fst (rtw_rx_query_rx_desc rtw8812a_query_phy_status d b rxs s)) = None"
  unfolding rtw_rx_query_rx_desc_def Let_def
  by (auto simp del: drop_drop split: prod.splits if_splits dest: query_phy_status_vif_eq)

section \<open>The parser touches only the receive state\<close>

lemma fold_more:
  assumes "\<And>x s. rtw_rx.more (f x s) = rtw_rx.more s"
  shows "rtw_rx.more (fold f xs s) = rtw_rx.more s"
  by (induction xs arbitrary: s) (simp_all add: assms)

lemma rx_stats_more [simp]: "rtw_rx.more (rtw_rx_stats v f s) = rtw_rx.more s"
  by (simp add: rtw_rx_stats_def Let_def split: option.splits)

lemma phy_stat_more [simp]: "rtw_rx.more (rtw_rx_phy_stat st hdr s) = rtw_rx.more s"
  by (auto simp: rtw_rx_phy_stat_def Let_def count_qry_pkt_def evm_add_def snr_add_def fold_more
      split: rate_class.splits)

lemma addr_match_more [simp]: "rtw_rx.more (rtw_rx_addr_match st hdr s) = rtw_rx.more s"
  by (simp add: rtw_rx_addr_match_def rtw_rx_addr_match_iter_def Let_def fold_more)

lemma fill_rx_status_more [simp]:
  "rtw_rx.more (snd (rtw_rx_fill_rx_status st hdr s)) = rtw_rx.more s"
  by (simp add: rtw_rx_fill_rx_status_def Let_def)

lemma query_phy_status_more:
  assumes "rtw8812a_query_phy_status rpt st s = (st', s')"
  shows "rtw_rx.more s' = rtw_rx.more s"
proof -
  have ofdm: "rtw_rx.more (snd (fold (ofdm_path v) is p)) = rtw_rx.more (snd p)"
    for v "is" and p :: "rtw_rx_pkt_stat \<times> 'a rtw_rx_scheme"
    by (induction "is" arbitrary: p) (auto simp: ofdm_path_def Let_def split: prod.splits)
  have "rtw_rx.more (snd (rtw88xxa_query_phy_status rpt f st s)) = rtw_rx.more s" for f
  proof (cases "st_rate st \<le> DESC_RATE11M")
    case True
    then show ?thesis by (simp add: rtw88xxa_query_phy_status_def Let_def)
  next
    case False
    with ofdm [of "word_at 0 rpt" "[0..<rf_path_num s]" "(st, s)"] show ?thesis
      by (auto simp: rtw88xxa_query_phy_status_def Let_def split: prod.splits)
  qed
  from this [of rtw8812a_cck_rx_pwr] assms show ?thesis
    by (auto simp: rtw8812a_query_phy_status_def split: prod.splits if_splits)
qed

lemma fill_rx_status_more_eq:
  "rtw_rx_fill_rx_status st hdr s = (rxs, s') \<Longrightarrow> rtw_rx.more s' = rtw_rx.more s"
  using fill_rx_status_more [of st hdr s] by simp

lemma query_rx_desc_more:
  assumes "rtw_rx_query_rx_desc rtw8812a_query_phy_status d b rxs s = (st, rxs', s')"
  shows "rtw_rx.more s' = rtw_rx.more s"
  using assms unfolding rtw_rx_query_rx_desc_def Let_def
  by (auto simp del: drop_drop split: prod.splits if_splits;
      metis query_phy_status_more fill_rx_status_more_eq)

section \<open>The rate in the receive status\<close>

text \<open>The hardware rate a receive status stands for.\<close>

definition rate_of_status :: "ieee80211_rx_status \<Rightarrow> nat" where
  "rate_of_status rxs =
     (case rxs_encoding rxs of
        RX_ENC_VHT \<Rightarrow> DESC_RATEVHT1SS_MCS0 + 10 * (rxs_nss rxs - 1) + rxs_rate_idx rxs
      | RX_ENC_HT \<Rightarrow> DESC_RATEMCS0 + rxs_rate_idx rxs
      | RX_ENC_LEGACY \<Rightarrow> (if rxs_band rxs = NL80211_BAND_5GHZ then DESC_RATE6M + rxs_rate_idx rxs
                         else rxs_rate_idx rxs))"

lemma flag_if_fields [simp]:
  "rxs_encoding (flag_if c f r) = rxs_encoding r" "rxs_rate_idx (flag_if c f r) = rxs_rate_idx r"
  "rxs_nss (flag_if c f r) = rxs_nss r" "rxs_band (flag_if c f r) = rxs_band r"
  by (simp_all add: flag_if_def)

lemma fold_chains_fields [simp]:
  "rxs_encoding (fold (chain_power p) is r) = rxs_encoding r"
  "rxs_rate_idx (fold (chain_power p) is r) = rxs_rate_idx r"
  "rxs_nss (fold (chain_power p) is r) = rxs_nss r"
  "rxs_band (fold (chain_power p) is r) = rxs_band r"
  by (induction "is" arbitrary: r) (auto simp: chain_power_def)

lemma fill_rx_status_rate:
  "rxs_encoding (fst (rtw_rx_fill_rx_status st hdr s)) = rx_encoding_of (st_rate st)
   \<and> (rxs_rate_idx (fst (rtw_rx_fill_rx_status st hdr s)), rxs_nss (fst (rtw_rx_fill_rx_status st hdr s)))
       = rx_rate_idx_of (rxs_band (fst (rtw_rx_fill_rx_status st hdr s))) (st_rate st) (0, 0)"
  by (cases "st_phy_status st"; cases "fw_scan_offload s"; cases "flag_scanning s")
    (simp_all add: rtw_rx_fill_rx_status_def Let_def rx_status_zero_def rtw_set_rx_freq_by_pktstat_def)

section \<open>Properties\<close>

text \<open>
  Property C13. The receive status carries the rate of the descriptor: encoding, rate index
  and number of streams determine the hardware rate again, for every rate below
  \<open>DESC_RATE_MAX\<close> except the CCK rates on the 5 GHz band, which do not exist there; HT
  and VHT indices and stream counts are in range.
\<close>

theorem rx_status_rate_roundtrip:
  assumes "st_rate st < DESC_RATE_MAX"
    and "rtw_rx_fill_rx_status st hdr s = (rxs, t)"
    and "rxs_band rxs = NL80211_BAND_5GHZ \<longrightarrow> st_rate st \<ge> DESC_RATE6M"
  shows "rate_of_status rxs = st_rate st
    \<and> (rxs_encoding rxs = RX_ENC_VHT \<longrightarrow> 1 \<le> rxs_nss rxs \<and> rxs_nss rxs \<le> 4 \<and> rxs_rate_idx rxs \<le> 9)
    \<and> (rxs_encoding rxs = RX_ENC_HT \<longrightarrow> rxs_rate_idx rxs \<le> 31)"
proof -
  let ?r = "st_rate st"
  have e: "rxs_encoding rxs = rx_encoding_of ?r"
    and i: "rx_rate_idx_of (rxs_band rxs) ?r (0, 0) = (rxs_rate_idx rxs, rxs_nss rxs)"
    using fill_rx_status_rate [of st hdr s] assms(2) by simp_all
  consider "?r \<le> 11" | "12 \<le> ?r" "?r \<le> 43" | "44 \<le> ?r" "?r \<le> 53" | "54 \<le> ?r" "?r \<le> 63"
    | "64 \<le> ?r" "?r \<le> 73" | "74 \<le> ?r" "?r \<le> 83"
    using assms(1) by linarith
  then show ?thesis
  proof cases
    case 1
    with e i assms(3) show ?thesis
      by (cases "rxs_band rxs")
        (auto simp: rx_encoding_of_def rx_rate_idx_of_def rate_of_status_def split: if_splits)
  qed (use e i in \<open>simp_all add: rx_encoding_of_def rx_rate_idx_of_def rtw_desc_to_mcsrate_def
      rate_of_status_def eq_commute [of _ "rxs_nss rxs"] eq_commute [of _ "rxs_rate_idx rxs"]\<close>)
qed

theorem rx_status_rate_roundtrip_witness:
  "\<forall>s :: rtw_rx. rate_of_status (fst (rtw_rx_fill_rx_status (pkt_stat_zero\<lparr>st_rate := 0x38\<rparr>) [] s)) = 0x38"
proof
  fix s :: rtw_rx
  obtain rxs t where "rtw_rx_fill_rx_status (pkt_stat_zero\<lparr>st_rate := 0x38\<rparr>) [] s = (rxs, t)"
    by fastforce
  with rx_status_rate_roundtrip [OF _ this]
  show "rate_of_status (fst (rtw_rx_fill_rx_status (pkt_stat_zero\<lparr>st_rate := 0x38\<rparr>) [] s)) = 0x38"
    by simp
qed

text \<open>
  Every index the receive statistics use is inside its array: the averages of
  the EVM (7) and, with at most four paths, of the SNR (16), and the packet counters, for
  any descriptor.
\<close>

theorem rx_phy_stat_in_bounds:
  "st_rate (rx_desc_fields d) < 84
   \<and> (case rate_class r of EvmClass rate_ss n evm_id \<Rightarrow> evm_id + n \<le> 7 \<and> 4 * rate_ss + 4 \<le> 16 \<and> 1 \<le> n
      | _ \<Rightarrow> True)
   \<and> (rate_class r = UnknownClass \<longleftrightarrow> 0x24 \<le> r \<and> r \<le> 0x2b \<or> 0x4a \<le> r)"
proof (intro conjI)
  show "st_rate (rx_desc_fields d) < 84"
    using rx_desc_fields_range [of d] by simp
  show "case rate_class r of EvmClass rate_ss n evm_id \<Rightarrow> evm_id + n \<le> 7 \<and> 4 * rate_ss + 4 \<le> 16 \<and> 1 \<le> n
      | _ \<Rightarrow> True"
    by (simp add: rate_class_def)
  consider "r \<le> 35" | "36 \<le> r" "r \<le> 43" | "44 \<le> r" "r \<le> 53" | "54 \<le> r" "r \<le> 63"
    | "64 \<le> r" "r \<le> 73" | "74 \<le> r" by linarith
  then show "rate_class r = UnknownClass \<longleftrightarrow> 0x24 \<le> r \<and> r \<le> 0x2b \<or> 0x4a \<le> r"
    by cases (simp_all add: rate_class_def)
qed

text \<open>
  No received frame is counted for its interface: the descriptor parser leaves
  the interface of the packet status empty, so the receive counters of the interfaces never
  change.
\<close>

theorem rx_vif_stats_never_counted:
  "rx_vifs (rtw_rx_stats
     (st_vif (fst (rtw_rx_query_rx_desc rtw8812a_query_phy_status d b rxs s))) frame t) = rx_vifs t"
  by (simp add: query_rx_desc_vif rtw_rx_stats_def Let_def)

end
