(* ===== verification/UsbRx.thy ===== *)
theory UsbRx
  imports RxDesc
begin

text \<open>
  Bulk reception (\<open>usb.c\<close>): the parser that splits a received buffer into packets, the
  completion of a receive URB, its resubmission, the retry work, setup and teardown. A
  buffer has an identity, its memory and its length; the kernel's decisions (allocations,
  what \<open>usb_submit_urb\<close> returns) come from \<open>rx_env\<close>, one outcome per call.
\<close>

section \<open>State\<close>

definition RTW_USB_RXCB_NUM :: nat where "RTW_USB_RXCB_NUM = 4"
definition RTW_USB_RX_SKB_NUM :: nat where "RTW_USB_RX_SKB_NUM = 8"
definition RTW_USB_MAX_RECVBUF_SZ :: nat where "RTW_USB_MAX_RECVBUF_SZ = 32768"
definition RTW_USB_MAX_RXQ_LEN :: nat where "RTW_USB_MAX_RXQ_LEN = 512"
definition PHY_STATUS_SIZE :: nat where "PHY_STATUS_SIZE = 4"
definition FCS_LEN :: nat where "FCS_LEN = 4"
definition IEEE80211_MAX_MPDU_LEN_VHT_11454 :: nat where "IEEE80211_MAX_MPDU_LEN_VHT_11454 = 11454"

text \<open>\<open>rx_pkt_desc_sz\<close> of the RTL8812A.\<close>

definition rx_pkt_desc_sz :: nat where "rx_pkt_desc_sz = 24"

record rx_skb =
  rb_id :: nat
  rb_mem :: "u8 list"
  rb_len :: nat

text \<open>
  A receive control block. While the URB is active, its buffer is \<open>cb_skb\<close>; afterwards
  the pointer may be stale, as in the code.
\<close>

record rx_usb_ctrl_block =
  cb_skb :: "rx_skb option"
  cb_active :: bool

datatype rx_out =
    RxC2h nat "u8 list"                       \<comment> \<open>\<open>rtw_fw_c2h_cmd_rx_irqsafe\<close>\<close>
  | RxFrame ieee80211_rx_status "u8 list"     \<comment> \<open>\<open>ieee80211_rx_irqsafe\<close>\<close>

record rx_outcome =
  rx_alloc_ok :: bool
  rx_submit_ret :: int

record rtw_usb_rx = rtw_rx +
  rx_queue :: "rx_skb list"
  rx_free_queue :: "rx_skb list"
  rx_cb :: "rx_usb_ctrl_block list"
  rx_work_queued :: bool
  rx_retry_pending :: bool         \<comment> \<open>\<open>rx_urb_work\<close> is scheduled\<close>
  rx_worker :: "nat option"        \<comment> \<open>\<open>rx_urb_work\<close> runs, at this control block\<close>
  rx_urb_error_count :: u32
  rx_out_log :: "rx_out list"
  rx_next_id :: nat
  rx_env :: "nat \<Rightarrow> rx_outcome"
  rx_calls :: nat

definition rx_take_outcome :: "'x rtw_usb_rx_scheme \<Rightarrow> rx_outcome \<times> 'x rtw_usb_rx_scheme" where
  "rx_take_outcome s = (rx_env s (rx_calls s), s\<lparr>rx_calls := Suc (rx_calls s)\<rparr>)"

section \<open>Splitting a buffer into packets\<close>

definition rx_max_skb_len :: nat where
  "rx_max_skb_len = rx_pkt_desc_sz + PHY_STATUS_SIZE * 8 + IEEE80211_MAX_MPDU_LEN_VHT_11454"

text \<open>
  One packet at \<open>off\<close>. The result is \<open>skb_len\<close>, the receive status left for the next
  round, and the state. \<open>mem\<close> is the memory from the buffer's start on.
\<close>

definition rx_packet ::
    "u8 list \<Rightarrow> nat \<Rightarrow> ieee80211_rx_status \<Rightarrow> 'x rtw_usb_rx_scheme
       \<Rightarrow> nat \<times> ieee80211_rx_status \<times> 'x rtw_usb_rx_scheme" where
  "rx_packet mem off rxs s =
     (let desc = drop off mem
      in case rtw_rx_query_rx_desc rtw8812a_query_phy_status desc (drop rx_pkt_desc_sz desc) rxs s of
           (st, rxs, s) \<Rightarrow>
             let pkt_offset = rx_pkt_desc_sz + st_drv_info_sz st + st_shift st;
                 skb_len = st_pkt_len st + pkt_offset
             in if skb_len > rx_max_skb_len then (skb_len, rxs, s)
                else if st_pkt_len st \<le> FCS_LEN \<and> \<not> st_is_c2h st then (skb_len, rxs, s)
                else case rx_take_outcome s of
                       (oc, s) \<Rightarrow>
                         if \<not> rx_alloc_ok oc then (skb_len, rxs, s)
                         else let skb = take skb_len desc
                              in if st_is_c2h st
                                 then (skb_len, rxs, s\<lparr>rx_out_log := rx_out_log s @ [RxC2h pkt_offset skb]\<rparr>)
                                 else let frame = drop pkt_offset skb
                                      in case rtw_update_rx_freq_for_invalid s frame st rxs of
                                           (st, rxs) \<Rightarrow>
                                             let s = rtw_rx_stats (st_vif st) frame s
                                             in (skb_len, rxs,
                                                 s\<lparr>rx_out_log := rx_out_log s @ [RxFrame rxs frame]\<rparr>))"

text \<open>The descriptor survives the parser, so every packet is at least a descriptor long.\<close>

definition rx_skb_len_at :: "u8 list \<Rightarrow> nat" where
  "rx_skb_len_at desc =
     st_pkt_len (rx_desc_fields desc) + rx_pkt_desc_sz + st_drv_info_sz (rx_desc_fields desc)
       + st_shift (rx_desc_fields desc)"

lemma query_phy_status_sizes:
  assumes "rtw8812a_query_phy_status rpt st s = (st', s')"
  shows "st_pkt_len st' = st_pkt_len st \<and> st_drv_info_sz st' = st_drv_info_sz st
    \<and> st_shift st' = st_shift st \<and> st_is_c2h st' = st_is_c2h st \<and> st_rate st' = st_rate st"
proof -
  let ?k = "\<lambda>st. (st_pkt_len st, st_drv_info_sz st, st_shift st, st_is_c2h st, st_rate st)"
  have ofdm: "?k (fst (fold (ofdm_path v) is p)) = ?k (fst p)"
    for v "is" and p :: "rtw_rx_pkt_stat \<times> 'a rtw_rx_scheme"
    by (induction "is" arbitrary: p) (auto simp: ofdm_path_def Let_def split: prod.splits)
  have "?k (fst (rtw88xxa_query_phy_status rpt f st s)) = ?k st" for f
  proof (cases "st_rate st \<le> 0x03")
    case True
    then show ?thesis by (simp add: rtw88xxa_query_phy_status_def Let_def)
  next
    case False
    with ofdm [of "word_at 0 rpt" "[0..<rf_path_num s]" "(st, s)"] show ?thesis
      by (auto simp: rtw88xxa_query_phy_status_def Let_def split: prod.splits)
  qed
  from this [of rtw8812a_cck_rx_pwr] assms show ?thesis
    by (auto simp: rtw8812a_query_phy_status_def split: prod.splits if_splits)
qed

lemma query_rx_desc_sizes:
  assumes "rtw_rx_query_rx_desc rtw8812a_query_phy_status d b rxs s = (st, rxs', s')"
  shows "st_pkt_len st = st_pkt_len (rx_desc_fields d)
    \<and> st_drv_info_sz st = st_drv_info_sz (rx_desc_fields d)
    \<and> st_shift st = st_shift (rx_desc_fields d) \<and> st_is_c2h st = st_is_c2h (rx_desc_fields d)
    \<and> st_rate st = st_rate (rx_desc_fields d)"
  using assms unfolding rtw_rx_query_rx_desc_def Let_def
  by (auto simp del: drop_drop split: prod.splits if_splits dest: query_phy_status_sizes)

lemma rx_packet_len:
  "fst (rx_packet mem off rxs s) = rx_skb_len_at (drop off mem)"
proof -
  obtain st rxs' s' where q: "rtw_rx_query_rx_desc rtw8812a_query_phy_status (drop off mem)
      (drop rx_pkt_desc_sz (drop off mem)) rxs s = (st, rxs', s')"
    by (metis prod_cases3)
  from query_rx_desc_sizes [OF q] show ?thesis
    unfolding rx_packet_def Let_def q
    by (simp add: rx_skb_len_at_def ac_simps split: prod.splits)
qed

lemma rx_skb_len_at_ge: "24 \<le> rx_skb_len_at d"
  by (simp add: rx_skb_len_at_def rx_pkt_desc_sz_def)

text \<open>The \<open>do ... while\<close> loop over the packets of a buffer of \<open>len\<close> received bytes.\<close>

function rx_parse ::
    "u8 list \<Rightarrow> nat \<Rightarrow> nat \<Rightarrow> ieee80211_rx_status \<Rightarrow> 'x rtw_usb_rx_scheme \<Rightarrow> 'x rtw_usb_rx_scheme" where
  "rx_parse mem len off rxs s =
     (case rx_packet mem off rxs s of
        (skb_len, rxs, s) \<Rightarrow>
          let off = off + align8 skb_len
          in if off + rx_pkt_desc_sz < len then rx_parse mem len off rxs s else s)"
  by pat_completeness auto
termination
proof (relation "measure (\<lambda>(mem, len, off, rxs, s). len - off)", goal_cases)
  case 1
  then show ?case by simp
next
  case (2 mem len off rxs s skb_len q rxs' s' off')
  then have "skb_len = rx_skb_len_at (drop off mem)"
    using rx_packet_len [of mem off rxs s] by (metis fst_conv)
  then have "24 \<le> align8 skb_len"
    using rx_skb_len_at_ge align8_ge le_trans by metis
  with 2 show ?case by simp
qed

declare rx_parse.simps [simp del]

section \<open>The receive work\<close>

definition rx_recycle :: "rx_skb \<Rightarrow> 'x rtw_usb_rx_scheme \<Rightarrow> 'x rtw_usb_rx_scheme" where
  "rx_recycle skb s =
     (if length (rx_free_queue s) \<ge> RTW_USB_RX_SKB_NUM then s
      else s\<lparr>rx_free_queue := rx_free_queue s @ [skb]\<rparr>)"

fun rx_handler_loop :: "nat \<Rightarrow> 'x rtw_usb_rx_scheme \<Rightarrow> 'x rtw_usb_rx_scheme" where
  "rx_handler_loop 0 s = s"
| "rx_handler_loop (Suc limit) s =
     (case rx_queue s of
        [] \<Rightarrow> s
      | skb # queue \<Rightarrow>
          let s = s\<lparr>rx_queue := queue\<rparr>
          in if length (rx_queue s) \<ge> RTW_USB_MAX_RXQ_LEN then rx_handler_loop limit s
             else rx_handler_loop limit
                    (rx_recycle skb (rx_parse (rb_mem skb) (rb_len skb) 0 rx_status_zero s)))"

definition rtw_usb_rx_handler :: "'x rtw_usb_rx_scheme \<Rightarrow> 'x rtw_usb_rx_scheme" where
  "rtw_usb_rx_handler s = rx_handler_loop 200 (s\<lparr>rx_work_queued := False\<rparr>)"

section \<open>Resubmission\<close>

definition rtw_usb_rx_submit_error_retryable :: "int \<Rightarrow> bool" where
  "rtw_usb_rx_submit_error_retryable error \<longleftrightarrow>
     error = - ENOMEM \<or> error = - ENOSPC \<or> error = - EAGAIN \<or> error = - EPROTO
     \<or> error = - EILSEQ \<or> error = - ETIME \<or> error = - ECOMM"

definition rtw_usb_rx_retry_later :: "'x rtw_usb_rx_scheme \<Rightarrow> 'x rtw_usb_rx_scheme" where
  "rtw_usb_rx_retry_later s = s\<lparr>rx_retry_pending := True\<rparr>"

definition set_cb :: "nat \<Rightarrow> rx_usb_ctrl_block \<Rightarrow> 'x rtw_usb_rx_scheme \<Rightarrow> 'x rtw_usb_rx_scheme" where
  "set_cb i c s = s\<lparr>rx_cb := (rx_cb s)[i := c]\<rparr>"

text \<open>A buffer from the free queue or a fresh one.\<close>

definition rx_get_buf :: "'x rtw_usb_rx_scheme \<Rightarrow> rx_skb option \<times> 'x rtw_usb_rx_scheme" where
  "rx_get_buf s =
     (case rx_free_queue s of
        b # q \<Rightarrow> (Some b, s\<lparr>rx_free_queue := q\<rparr>)
      | [] \<Rightarrow> (case rx_take_outcome s of
                (oc, s) \<Rightarrow>
                  if rx_alloc_ok oc
                  then (Some \<lparr>rb_id = rx_next_id s, rb_mem = replicate RTW_USB_MAX_RECVBUF_SZ 0, rb_len = 0\<rparr>,
                        s\<lparr>rx_next_id := Suc (rx_next_id s)\<rparr>)
                  else (None, s)))"

definition rtw_usb_rx_resubmit :: "nat \<Rightarrow> 'x rtw_usb_rx_scheme \<Rightarrow> 'x rtw_usb_rx_scheme" where
  "rtw_usb_rx_resubmit i s =
     (case rx_get_buf s of
        (None, s) \<Rightarrow> rtw_usb_rx_retry_later (set_cb i \<lparr>cb_skb = None, cb_active = False\<rparr> s)
      | (Some b, s) \<Rightarrow>
          (case rx_take_outcome s of
             (oc, s) \<Rightarrow>
               let b = b\<lparr>rb_len := 0\<rparr>; error = rx_submit_ret oc
               in if error = 0 then set_cb i \<lparr>cb_skb = Some b, cb_active = True\<rparr> s
                  else let s = set_cb i \<lparr>cb_skb = None, cb_active = False\<rparr>
                                 (s\<lparr>rx_free_queue := rx_free_queue s @ [b]\<rparr>)
                       in if rtw_usb_rx_submit_error_retryable error
                          then rtw_usb_rx_retry_later s else s))"

text \<open>One round of the retry work, and the whole work.\<close>

definition rx_resubmit_iter :: "nat \<Rightarrow> 'x rtw_usb_rx_scheme \<Rightarrow> 'x rtw_usb_rx_scheme" where
  "rx_resubmit_iter i s =
     (if cb_skb (rx_cb s ! i) = None then rtw_usb_rx_resubmit i s else s)"

definition rtw_usb_rx_resubmit_work :: "'x rtw_usb_rx_scheme \<Rightarrow> 'x rtw_usb_rx_scheme" where
  "rtw_usb_rx_resubmit_work s = fold rx_resubmit_iter [0..<RTW_USB_RXCB_NUM] s"

section \<open>Completion of a receive URB\<close>

definition rx_status_recoverable :: "int \<Rightarrow> bool" where
  "rx_status_recoverable status \<longleftrightarrow>
     status = - EPROTO \<or> status = - EILSEQ \<or> status = - ETIME \<or> status = - ECOMM
     \<or> status = - EOVERFLOW"

text \<open>
  URB \<open>i\<close> completes with \<open>status\<close>; the transfer stored \<open>actual_length\<close> bytes, leaving the
  buffer's memory as \<open>mem\<close>.
\<close>

definition rtw_usb_read_port_complete ::
    "nat \<Rightarrow> int \<Rightarrow> nat \<Rightarrow> u8 list \<Rightarrow> 'x rtw_usb_rx_scheme \<Rightarrow> 'x rtw_usb_rx_scheme" where
  "rtw_usb_read_port_complete i status actual_length mem s0 =
     (case cb_skb (rx_cb s0 ! i) of
        None \<Rightarrow> s0
      | Some skb0 \<Rightarrow>
          let skb = skb0\<lparr>rb_mem := mem\<rparr>;
              s = set_cb i \<lparr>cb_skb = Some skb, cb_active = False\<rparr> s0
          in if status = 0
             then let s = (if actual_length \<ge> RTW_USB_MAX_RECVBUF_SZ \<or> actual_length < 24
                           then s\<lparr>rx_free_queue := rx_free_queue s @ [skb]\<rparr>
                           else s\<lparr>rx_queue := rx_queue s @ [skb\<lparr>rb_len := actual_length\<rparr>],
                                  rx_work_queued := True\<rparr>)
                  in rtw_usb_rx_resubmit i s
             else let s = s\<lparr>rx_free_queue := rx_free_queue s @ [skb]\<rparr>
                  in if rx_status_recoverable status
                     then rtw_usb_rx_resubmit i (s\<lparr>rx_urb_error_count := rx_urb_error_count s + 1\<rparr>)
                     else s)"

section \<open>Setup and teardown\<close>

definition rx_fresh_bufs :: "nat \<Rightarrow> rx_skb list" where
  "rx_fresh_bufs n = map (\<lambda>k. \<lparr>rb_id = k, rb_mem = replicate RTW_USB_MAX_RECVBUF_SZ 0, rb_len = 0\<rparr>) [0..<n]"

text \<open>\<open>n\<close> of the \<open>RTW_USB_RX_SKB_NUM\<close> allocations succeed.\<close>

definition rtw_usb_init_rx :: "bool \<Rightarrow> nat \<Rightarrow> 'x rtw_usb_rx_scheme \<Rightarrow> int \<times> 'x rtw_usb_rx_scheme" where
  "rtw_usb_init_rx wq_ok n s =
     (if \<not> wq_ok then (- ENOMEM, s)
      else (0, s\<lparr>rx_queue := [], rx_free_queue := rx_fresh_bufs (min n RTW_USB_RX_SKB_NUM),
                 rx_next_id := min n RTW_USB_RX_SKB_NUM, rx_work_queued := False,
                 rx_retry_pending := False, rx_worker := None\<rparr>))"

definition rtw_usb_setup_rx :: "'x rtw_usb_rx_scheme \<Rightarrow> 'x rtw_usb_rx_scheme" where
  "rtw_usb_setup_rx s = fold rtw_usb_rx_resubmit [0..<RTW_USB_RXCB_NUM] s"

text \<open>\<open>usb_kill_urb\<close>: an active URB completes with \<open>-ENOENT\<close>.\<close>

definition usb_kill_urb :: "nat \<Rightarrow> 'x rtw_usb_rx_scheme \<Rightarrow> 'x rtw_usb_rx_scheme" where
  "usb_kill_urb i s =
     (if cb_active (rx_cb s ! i)
      then rtw_usb_read_port_complete i (- ENOENT) 0 (case cb_skb (rx_cb s ! i) of Some b \<Rightarrow> rb_mem b | None \<Rightarrow> []) s
      else s)"

definition cancel_rx_urb_work :: "'x rtw_usb_rx_scheme \<Rightarrow> 'x rtw_usb_rx_scheme" where
  "cancel_rx_urb_work s = s\<lparr>rx_retry_pending := False\<rparr>"

definition rtw_usb_cancel_rx_bufs :: "'x rtw_usb_rx_scheme \<Rightarrow> 'x rtw_usb_rx_scheme" where
  "rtw_usb_cancel_rx_bufs s =
     cancel_rx_urb_work (fold usb_kill_urb [0..<RTW_USB_RXCB_NUM] (cancel_rx_urb_work s))"

definition rtw_usb_deinit_rx :: "'x rtw_usb_rx_scheme \<Rightarrow> 'x rtw_usb_rx_scheme" where
  "rtw_usb_deinit_rx s =
     (let s = s\<lparr>rx_queue := []\<rparr>; s = cancel_rx_urb_work s; s = s\<lparr>rx_work_queued := False\<rparr>
      in s\<lparr>rx_free_queue := []\<rparr>)"

definition rtw_usb_free_rx_bufs :: "'x rtw_usb_rx_scheme \<Rightarrow> 'x rtw_usb_rx_scheme" where
  "rtw_usb_free_rx_bufs s = fold usb_kill_urb [0..<RTW_USB_RXCB_NUM] s"

end
