(* ===== verification/UsbRxProps.thy ===== *)
theory UsbRxProps
  imports UsbRx
begin

text \<open>
  The receive side as a state machine: completions of URBs with any status and data, the
  receive work, the retry work one control block at a time, and the steps of the teardown,
  in any interleaving. Shown here: a buffer has one owner at a time and the free queue is
  bounded; recoverable failures never lose receive capacity; the retry work brings every
  URB back; and what the teardown reaches.
\<close>

section \<open>Steps\<close>

datatype rx_label =
    LComplete nat int
  | LHandler
  | LWorkStart
  | LWorkIter
  | LWorkEnd
  | LCancel
  | LKill nat

text \<open>
  \<open>cancel_delayed_work_sync\<close> waits for a running work, so \<open>LCancel\<close> needs none;
  \<open>usb_kill_urb\<close> waits for the completion, so \<open>LKill\<close> is one step.
\<close>

inductive rx_step :: "'x rtw_usb_rx_scheme \<Rightarrow> rx_label \<Rightarrow> 'x rtw_usb_rx_scheme \<Rightarrow> bool" where
  complete: "i < length (rx_cb s) \<Longrightarrow> cb_active (rx_cb s ! i)
    \<Longrightarrow> rx_step s (LComplete i st) (rtw_usb_read_port_complete i st n mem s)"
| handler: "rx_step s LHandler (rtw_usb_rx_handler s)"
| work_start: "rx_retry_pending s \<Longrightarrow> rx_worker s = None
    \<Longrightarrow> rx_step s LWorkStart (s\<lparr>rx_retry_pending := False, rx_worker := Some 0\<rparr>)"
| work_iter: "rx_worker s = Some k \<Longrightarrow> k < RTW_USB_RXCB_NUM
    \<Longrightarrow> rx_step s LWorkIter ((rx_resubmit_iter k s)\<lparr>rx_worker := Some (Suc k)\<rparr>)"
| work_end: "rx_worker s = Some RTW_USB_RXCB_NUM \<Longrightarrow> rx_step s LWorkEnd (s\<lparr>rx_worker := None\<rparr>)"
| cancel: "rx_worker s = None \<Longrightarrow> rx_step s LCancel (cancel_rx_urb_work s)"
| kill: "i < length (rx_cb s) \<Longrightarrow> rx_step s (LKill i) (usb_kill_urb i s)"

inductive_cases rx_step_cases: "rx_step s l t"

inductive rx_run :: "(rx_label \<Rightarrow> bool) \<Rightarrow> 'x rtw_usb_rx_scheme \<Rightarrow> 'x rtw_usb_rx_scheme \<Rightarrow> bool"
  for P :: "rx_label \<Rightarrow> bool" where
  run_refl: "rx_run P s s"
| run_step: "rx_run P s t \<Longrightarrow> rx_step t l u \<Longrightarrow> P l \<Longrightarrow> rx_run P s u"

lemma rx_run_invariant:
  assumes "rx_run P s t" and "I s" and "\<And>s l t. I s \<Longrightarrow> rx_step s l t \<Longrightarrow> P l \<Longrightarrow> I t"
  shows "I t"
  using assms by (induction rule: rx_run.induct) auto

section \<open>Who owns a buffer\<close>

definition cb_own :: "rx_usb_ctrl_block \<Rightarrow> nat list" where
  "cb_own c = (if cb_active c then (case cb_skb c of Some b \<Rightarrow> [rb_id b] | None \<Rightarrow> []) else [])"

definition cb_ids :: "'x rtw_usb_rx_scheme \<Rightarrow> nat multiset" where
  "cb_ids s = mset (concat (map cb_own (rx_cb s)))"

definition owned_ids :: "'x rtw_usb_rx_scheme \<Rightarrow> nat multiset" where
  "owned_ids s = mset (map rb_id (rx_queue s)) + mset (map rb_id (rx_free_queue s)) + cb_ids s"

text \<open>
  With the buffers \<open>M\<close> in hand: every identity is owned at most once and was handed out,
  and the free queue with the active URBs holds at most 12 buffers.
\<close>

definition rx_ok :: "nat multiset \<Rightarrow> 'x rtw_usb_rx_scheme \<Rightarrow> bool" where
  "rx_ok M s \<longleftrightarrow> (\<forall>x. count (owned_ids s + M) x \<le> of_bool (x < rx_next_id s))"

definition rx_room :: "'x rtw_usb_rx_scheme \<Rightarrow> bool" where
  "rx_room s \<longleftrightarrow> length (rx_free_queue s) + size (cb_ids s) \<le> RTW_USB_RX_SKB_NUM + RTW_USB_RXCB_NUM"

definition rx_wf :: "'x rtw_usb_rx_scheme \<Rightarrow> bool" where
  "rx_wf s \<longleftrightarrow> length (rx_cb s) = RTW_USB_RXCB_NUM
     \<and> (\<forall>c \<in> set (rx_cb s). cb_active c \<longrightarrow> cb_skb c \<noteq> None)"

lemma rx_ok_mono: "rx_ok M s \<Longrightarrow> owned_ids t + N \<subseteq># owned_ids s + M \<Longrightarrow> rx_next_id s \<le> rx_next_id t \<Longrightarrow> rx_ok N t"
proof -
  assume a: "rx_ok M s" "owned_ids t + N \<subseteq># owned_ids s + M" "rx_next_id s \<le> rx_next_id t"
  show "rx_ok N t"
    unfolding rx_ok_def
  proof
    fix x
    have "count (owned_ids t + N) x \<le> count (owned_ids s + M) x"
      using a(2) by (rule mset_subset_eq_count)
    also have "\<dots> \<le> of_bool (x < rx_next_id s)"
      using a(1) by (simp add: rx_ok_def)
    also have "\<dots> \<le> of_bool (x < rx_next_id t)"
      using a(3) by simp
    finally show "count (owned_ids t + N) x \<le> of_bool (x < rx_next_id t)" .
  qed
qed

lemma cb_ids_set_cb:
  assumes "i < length (rx_cb s)"
  shows "cb_ids (set_cb i c s) + mset (cb_own (rx_cb s ! i)) = cb_ids s + mset (cb_own c)"
  using mset_concat_update [of i "map cb_own (rx_cb s)" "cb_own c"] assms
  by (simp add: cb_ids_def set_cb_def map_update)

lemma set_cb_simps [simp]:
  "rx_queue (set_cb i c s) = rx_queue s" "rx_free_queue (set_cb i c s) = rx_free_queue s"
  "rx_next_id (set_cb i c s) = rx_next_id s" "rx_retry_pending (set_cb i c s) = rx_retry_pending s"
  "rx_worker (set_cb i c s) = rx_worker s" "rx_env (set_cb i c s) = rx_env s"
  "rx_calls (set_cb i c s) = rx_calls s" "length (rx_cb (set_cb i c s)) = length (rx_cb s)"
  by (simp_all add: set_cb_def)

lemma cb_ids_cong: "rx_cb t = rx_cb s \<Longrightarrow> cb_ids t = cb_ids s"
  by (simp add: cb_ids_def)

lemma size_cb_ids: "size (cb_ids s) \<le> length (rx_cb s)"
proof -
  have "length (concat (map cb_own cs)) \<le> length cs" for cs
    by (induction cs) (auto simp: cb_own_def split: option.splits)
  from this [of "rx_cb s"] show ?thesis
    by (simp add: cb_ids_def)
qed

section \<open>Resubmission keeps the ownership\<close>

text \<open>Taking a buffer moves it from the free queue into the hand, or makes a new one.\<close>

lemma rx_get_buf_cases:
  obtains (free) b q where "rx_get_buf s = (Some b, s\<lparr>rx_free_queue := q\<rparr>)" "rx_free_queue s = b # q"
  | (new) b where "rx_get_buf s = (Some b, s\<lparr>rx_calls := Suc (rx_calls s), rx_next_id := Suc (rx_next_id s)\<rparr>)"
      "rb_id b = rx_next_id s" "rx_free_queue s = []"
  | (none) "rx_get_buf s = (None, s\<lparr>rx_calls := Suc (rx_calls s)\<rparr>)" "rx_free_queue s = []"
      "\<not> rx_alloc_ok (rx_env s (rx_calls s))"
proof (cases "rx_free_queue s")
  case (Cons b q)
  then show ?thesis by (intro free) (auto simp: rx_get_buf_def)
next
  case Nil
  show ?thesis
  proof (cases "rx_alloc_ok (rx_env s (rx_calls s))")
    case True
    with Nil show ?thesis by (intro new) (auto simp: rx_get_buf_def rx_take_outcome_def)
  next
    case False
    with Nil show ?thesis by (intro none) (auto simp: rx_get_buf_def rx_take_outcome_def)
  qed
qed

text \<open>
  One resubmission of control block \<open>i\<close>: the block ends active with one buffer, or empty;
  nothing else changes but the free queue, the retry flag and the counters.
\<close>

definition resubmit_ok :: "nat \<Rightarrow> 'x rtw_usb_rx_scheme \<Rightarrow> 'x rtw_usb_rx_scheme \<Rightarrow> bool" where
  "resubmit_ok i s t \<longleftrightarrow>
     rx_queue t = rx_queue s \<and> rx_worker t = rx_worker s \<and> rx_env t = rx_env s
   \<and> length (rx_cb t) = length (rx_cb s) \<and> (\<forall>j. j \<noteq> i \<longrightarrow> rx_cb t ! j = rx_cb s ! j)
   \<and> (rx_retry_pending s \<longrightarrow> rx_retry_pending t)
   \<and> (cb_active (rx_cb t ! i) \<longrightarrow> cb_skb (rx_cb t ! i) \<noteq> None)
   \<and> (\<not> cb_active (rx_cb t ! i) \<longrightarrow> cb_skb (rx_cb t ! i) = None)"

lemma resubmit_cases:
  assumes "i < length (rx_cb s)"
  obtains (none) t where "rx_get_buf s = (None, t)"
      "rtw_usb_rx_resubmit i s = rtw_usb_rx_retry_later (set_cb i \<lparr>cb_skb = None, cb_active = False\<rparr> t)"
  | (active) b t where "rx_get_buf s = (Some b, t)" "rx_submit_ret (rx_env t (rx_calls t)) = 0"
      "rtw_usb_rx_resubmit i s = set_cb i \<lparr>cb_skb = Some (b\<lparr>rb_len := 0\<rparr>), cb_active = True\<rparr>
         (t\<lparr>rx_calls := Suc (rx_calls t)\<rparr>)"
  | (failed) b t where "rx_get_buf s = (Some b, t)" "rx_submit_ret (rx_env t (rx_calls t)) \<noteq> 0"
      "rtw_usb_rx_resubmit i s =
         (if rtw_usb_rx_submit_error_retryable (rx_submit_ret (rx_env t (rx_calls t)))
          then rtw_usb_rx_retry_later else id)
         (set_cb i \<lparr>cb_skb = None, cb_active = False\<rparr>
            (t\<lparr>rx_calls := Suc (rx_calls t), rx_free_queue := rx_free_queue t @ [b\<lparr>rb_len := 0\<rparr>]\<rparr>))"
proof (cases "rx_get_buf s")
  case (Pair ob t)
  show ?thesis
  proof (cases ob)
    case None
    with Pair show ?thesis by (intro none) (auto simp: rtw_usb_rx_resubmit_def)
  next
    case (Some b)
    show ?thesis
    proof (cases "rx_submit_ret (rx_env t (rx_calls t)) = 0")
      case True
      with Pair Some show ?thesis
        by (intro active) (auto simp: rtw_usb_rx_resubmit_def rx_take_outcome_def Let_def)
    next
      case False
      with Pair Some show ?thesis
        by (intro failed) (auto simp: rtw_usb_rx_resubmit_def rx_take_outcome_def Let_def)
    qed
  qed
qed

lemma retry_later_simps [simp]:
  "rx_queue (rtw_usb_rx_retry_later s) = rx_queue s"
  "rx_free_queue (rtw_usb_rx_retry_later s) = rx_free_queue s"
  "rx_cb (rtw_usb_rx_retry_later s) = rx_cb s" "rx_next_id (rtw_usb_rx_retry_later s) = rx_next_id s"
  "rx_worker (rtw_usb_rx_retry_later s) = rx_worker s" "rx_env (rtw_usb_rx_retry_later s) = rx_env s"
  "rx_retry_pending (rtw_usb_rx_retry_later s)"
  by (simp_all add: rtw_usb_rx_retry_later_def)

text \<open>What taking a buffer leaves alone.\<close>

lemma rx_get_buf_frame:
  assumes "rx_get_buf s = (ob, t)"
  shows "rx_queue t = rx_queue s \<and> rx_cb t = rx_cb s \<and> rx_worker t = rx_worker s \<and> rx_env t = rx_env s
    \<and> rx_retry_pending t = rx_retry_pending s"
  using assms by (cases rule: rx_get_buf_cases [of s]) auto

lemma rx_cb_set_cb: "i < length (rx_cb s) \<Longrightarrow> rx_cb (set_cb i c s) ! j = (if j = i then c else rx_cb s ! j)"
  by (simp add: set_cb_def nth_list_update)

lemma resubmit_frame:
  assumes "i < length (rx_cb s)"
  shows "resubmit_ok i s (rtw_usb_rx_resubmit i s)"
  using assms
proof (cases rule: resubmit_cases)
  case (none t)
  with rx_get_buf_frame [OF none(1)] assms show ?thesis
    by (simp add: resubmit_ok_def rx_cb_set_cb)
next
  case (active b t)
  with rx_get_buf_frame [OF active(1)] assms show ?thesis
    by (simp add: resubmit_ok_def rx_cb_set_cb)
next
  case (failed b t)
  with rx_get_buf_frame [OF failed(1)] assms show ?thesis
    by (simp add: resubmit_ok_def rx_cb_set_cb)
qed

lemma owned_ids_retry [simp]: "owned_ids (rtw_usb_rx_retry_later s) = owned_ids s"
  by (simp add: owned_ids_def cb_ids_def)

lemma owned_ids_set_cb:
  assumes "i < length (rx_cb s)" and "\<not> cb_active (rx_cb s ! i)"
  shows "cb_ids (set_cb i c s) = cb_ids s + mset (cb_own c)"
  using cb_ids_set_cb [OF assms(1), of c] assms(2) by (simp add: cb_own_def)

text \<open>The owners after a resubmission: a fresh identity at most.\<close>

lemma resubmit_owned:
  assumes "i < length (rx_cb s)" and "\<not> cb_active (rx_cb s ! i)"
  shows "(owned_ids (rtw_usb_rx_resubmit i s) = owned_ids s
            \<and> rx_next_id (rtw_usb_rx_resubmit i s) = rx_next_id s
          \<or> owned_ids (rtw_usb_rx_resubmit i s) = add_mset (rx_next_id s) (owned_ids s)
            \<and> rx_next_id (rtw_usb_rx_resubmit i s) = Suc (rx_next_id s))
    \<and> (rx_room s \<and> length (rx_cb s) = RTW_USB_RXCB_NUM \<longrightarrow> rx_room (rtw_usb_rx_resubmit i s))"
proof -
  let ?t = "rtw_usb_rx_resubmit i s"
  have cb0: "cb_ids (set_cb i \<lparr>cb_skb = None, cb_active = False\<rparr> u) = cb_ids s"
      "cb_ids (set_cb i \<lparr>cb_skb = Some b, cb_active = True\<rparr> u) = add_mset (rb_id b) (cb_ids s)"
    if "rx_cb u = rx_cb s" for b and u :: "'a rtw_usb_rx_scheme"
    using owned_ids_set_cb [of i u] assms that cb_ids_cong [OF that] by (simp_all add: cb_own_def)
  have retry: "owned_ids ((if p then rtw_usb_rx_retry_later else id) u) = owned_ids u"
      "rx_next_id ((if p then rtw_usb_rx_retry_later else id) u) = rx_next_id u"
      "cb_ids ((if p then rtw_usb_rx_retry_later else id) u) = cb_ids u"
      "rx_free_queue ((if p then rtw_usb_rx_retry_later else id) u) = rx_free_queue u"
    for p and u :: "'a rtw_usb_rx_scheme"
    by (simp_all add: cb_ids_def)
  have size: "length (rx_cb s) = RTW_USB_RXCB_NUM \<Longrightarrow> size (cb_ids s) \<le> 4"
    using size_cb_ids [of s] by (simp add: RTW_USB_RXCB_NUM_def)
  have lt: "length (rx_cb s) = RTW_USB_RXCB_NUM \<Longrightarrow> size (cb_ids s) < 4"
  proof -
    assume "length (rx_cb s) = RTW_USB_RXCB_NUM"
    moreover have "size (cb_ids (set_cb i \<lparr>cb_skb = Some undefined, cb_active = True\<rparr> s)) \<le> length (rx_cb s)"
      using size_cb_ids [of "set_cb i \<lparr>cb_skb = Some undefined, cb_active = True\<rparr> s"] by simp
    ultimately show ?thesis
      by (simp add: cb0 RTW_USB_RXCB_NUM_def)
  qed
  from assms(1) show ?thesis
  proof (cases rule: resubmit_cases)
    case (none t)
    then show ?thesis
      by (cases rule: rx_get_buf_cases [of s])
        (auto simp: owned_ids_def cb0 rx_room_def cb_ids_cong [where t = "rtw_usb_rx_retry_later _"])
  next
    case (active b t)
    show ?thesis
    proof (cases rule: rx_get_buf_cases [of s])
      case (free b' q)
      with active show ?thesis
        by (auto simp: owned_ids_def cb0 rx_room_def)
    next
      case (new b')
      with active lt show ?thesis
        by (auto simp: owned_ids_def cb0 rx_room_def RTW_USB_RX_SKB_NUM_def RTW_USB_RXCB_NUM_def)
    next
      case none
      with active show ?thesis by simp
    qed
  next
    case (failed b t)
    show ?thesis
    proof (cases rule: rx_get_buf_cases [of s])
      case (free b' q)
      with failed show ?thesis
        unfolding failed(3) rx_room_def retry
        by (auto simp: owned_ids_def cb0 rx_room_def)
    next
      case (new b')
      with failed size show ?thesis
        unfolding failed(3) rx_room_def retry
        by (auto simp: owned_ids_def cb0 RTW_USB_RX_SKB_NUM_def RTW_USB_RXCB_NUM_def)
    next
      case none
      with failed show ?thesis by simp
    qed
  qed
qed

lemma resubmit_rx_ok:
  assumes "i < length (rx_cb s)" and "\<not> cb_active (rx_cb s ! i)" and "rx_ok {#} s"
  shows "rx_ok {#} (rtw_usb_rx_resubmit i s)"
proof -
  have fresh: "count (owned_ids s) (rx_next_id s) = 0"
    using assms(3) by (auto simp: rx_ok_def dest: spec [of _ "rx_next_id s"])
  from resubmit_owned [OF assms(1,2)] consider
    "owned_ids (rtw_usb_rx_resubmit i s) = owned_ids s" "rx_next_id (rtw_usb_rx_resubmit i s) = rx_next_id s"
    | "owned_ids (rtw_usb_rx_resubmit i s) = add_mset (rx_next_id s) (owned_ids s)"
      "rx_next_id (rtw_usb_rx_resubmit i s) = Suc (rx_next_id s)" by blast
  then show ?thesis
  proof cases
    case 1
    with assms(3) show ?thesis by (simp add: rx_ok_def)
  next
    case 2
    with assms(3) fresh show ?thesis
      by (auto simp: rx_ok_def less_Suc_eq)
  qed
qed

section \<open>The parser leaves the queues alone\<close>

definition rx_same_queues :: "'x rtw_usb_rx_scheme \<Rightarrow> 'x rtw_usb_rx_scheme \<Rightarrow> bool" where
  "rx_same_queues s t \<longleftrightarrow> rx_queue t = rx_queue s \<and> rx_free_queue t = rx_free_queue s
     \<and> rx_cb t = rx_cb s \<and> rx_next_id t = rx_next_id s \<and> rx_worker t = rx_worker s
     \<and> rx_retry_pending t = rx_retry_pending s \<and> rx_env t = rx_env s"

lemma rx_same_queues_refl [simp]: "rx_same_queues s s"
  by (simp add: rx_same_queues_def)

lemma rx_same_queues_trans: "rx_same_queues s t \<Longrightarrow> rx_same_queues t u \<Longrightarrow> rx_same_queues s u"
  by (simp add: rx_same_queues_def)

lemma rx_same_queues_more: "rtw_rx.more t = rtw_rx.more s \<Longrightarrow> rx_same_queues s t"
  by (cases s; cases t) (simp add: rx_same_queues_def)

lemma rx_packet_queues: "rx_packet mem off rxs s = (n, rxs', t) \<Longrightarrow> rx_same_queues s t"
proof -
  assume p: "rx_packet mem off rxs s = (n, rxs', t)"
  obtain st rxs1 s1 where q: "rtw_rx_query_rx_desc rtw8812a_query_phy_status (drop off mem)
      (drop rx_pkt_desc_sz (drop off mem)) rxs s = (st, rxs1, s1)"
    by (metis prod_cases3)
  have 1: "rx_same_queues s s1"
    by (rule rx_same_queues_more [OF query_rx_desc_more [OF q]])
  have stats: "rx_same_queues u (rtw_rx_stats v f u)" for v f and u :: "'a rtw_usb_rx_scheme"
    by (rule rx_same_queues_more) simp
  have "rx_same_queues s1 t"
    using p stats unfolding rx_packet_def Let_def q
    by (auto simp: rx_take_outcome_def rx_same_queues_def split: if_splits prod.splits)
  with 1 show ?thesis by (rule rx_same_queues_trans)
qed

lemma rx_parse_queues: "rx_same_queues s (rx_parse mem len off rxs s)"
proof (induction mem len off rxs s rule: rx_parse.induct)
  case (1 mem len off rxs s)
  obtain n rxs' t where p: "rx_packet mem off rxs s = (n, rxs', t)"
    by (metis prod_cases3)
  from rx_packet_queues [OF p] 1 [OF p [symmetric] refl refl] show ?case
    by (subst rx_parse.simps) (auto simp: p Let_def intro: rx_same_queues_trans)
qed

section \<open>The invariant\<close>

definition rx_inv :: "'x rtw_usb_rx_scheme \<Rightarrow> bool" where
  "rx_inv s \<longleftrightarrow> rx_wf s \<and> rx_ok {#} s \<and> rx_room s"

lemma owned_same_queues:
  "rx_same_queues s t \<Longrightarrow> owned_ids t = owned_ids s \<and> cb_ids t = cb_ids s"
  by (simp add: rx_same_queues_def owned_ids_def cb_ids_def)

lemma rx_inv_same_queues: "rx_same_queues s t \<Longrightarrow> rx_inv s \<Longrightarrow> rx_inv t"
  using owned_same_queues [of s t]
  by (simp add: rx_inv_def rx_wf_def rx_ok_def rx_room_def rx_same_queues_def)

lemma rx_wf_resubmit:
  assumes "rx_wf s" and "i < length (rx_cb s)"
  shows "rx_wf (rtw_usb_rx_resubmit i s)"
proof -
  note f = resubmit_frame [OF assms(2), unfolded resubmit_ok_def]
  have "cb_skb c \<noteq> None" if "c \<in> set (rx_cb (rtw_usb_rx_resubmit i s))" "cb_active c" for c
  proof -
    from that(1) obtain j where j: "j < length (rx_cb s)" "c = rx_cb (rtw_usb_rx_resubmit i s) ! j"
      using f by (auto simp: in_set_conv_nth)
    show ?thesis
    proof (cases "j = i")
      case True
      with f that(2) j show ?thesis by auto
    next
      case False
      with f j have "c = rx_cb s ! j" by auto
      moreover have "rx_cb s ! j \<in> set (rx_cb s)"
        using j(1) by (rule nth_mem)
      ultimately show ?thesis
        using that(2) assms(1) by (simp only: rx_wf_def) blast
    qed
  qed
  with f assms(1) show ?thesis by (auto simp: rx_wf_def)
qed

lemma rx_inv_resubmit:
  assumes "rx_inv s" and "i < length (rx_cb s)" and "\<not> cb_active (rx_cb s ! i)"
  shows "rx_inv (rtw_usb_rx_resubmit i s)"
  using assms resubmit_rx_ok [OF assms(2,3)] resubmit_owned [OF assms(2,3)] rx_wf_resubmit [OF _ assms(2)]
  by (simp add: rx_inv_def rx_wf_def)

lemma rx_inv_iter:
  assumes "rx_inv s" and "i < length (rx_cb s)"
  shows "rx_inv (rx_resubmit_iter i s)"
proof (cases "cb_skb (rx_cb s ! i) = None")
  case True
  with assms have "\<not> cb_active (rx_cb s ! i)"
    by (auto simp: rx_inv_def rx_wf_def)
  with assms True rx_inv_resubmit show ?thesis
    by (simp add: rx_resubmit_iter_def)
next
  case False
  with assms(1) show ?thesis by (auto simp: rx_resubmit_iter_def)
qed

text \<open>
  When an URB completes, its buffer moves to one of the queues; the state just before the
  resubmission.
\<close>

definition rx_landed :: "nat \<Rightarrow> rx_skb \<Rightarrow> bool \<Rightarrow> 'x rtw_usb_rx_scheme \<Rightarrow> 'x rtw_usb_rx_scheme \<Rightarrow> bool" where
  "rx_landed i b up s t \<longleftrightarrow>
     rx_cb t = (rx_cb s)[i := \<lparr>cb_skb = Some b, cb_active = False\<rparr>]
   \<and> rx_next_id t = rx_next_id s \<and> rx_worker t = rx_worker s \<and> rx_env t = rx_env s
   \<and> rx_retry_pending t = rx_retry_pending s
   \<and> (if up then (\<exists>n. rx_queue t = rx_queue s @ [b\<lparr>rb_len := n\<rparr>]) \<and> rx_free_queue t = rx_free_queue s
      else rx_queue t = rx_queue s \<and> rx_free_queue t = rx_free_queue s @ [b])"

lemma complete_cases:
  assumes "rx_wf s" and "i < length (rx_cb s)" and "cb_active (rx_cb s ! i)"
  obtains (again) b b0 up t where "cb_skb (rx_cb s ! i) = Some b0" "rb_id b = rb_id b0" "rx_landed i b up s t"
      "rtw_usb_read_port_complete i st n mem s = rtw_usb_rx_resubmit i t"
      "st = 0 \<or> rx_status_recoverable st"
  | (stop) b b0 t where "cb_skb (rx_cb s ! i) = Some b0" "rb_id b = rb_id b0" "rx_landed i b False s t"
      "rtw_usb_read_port_complete i st n mem s = t" "\<not> (st = 0 \<or> rx_status_recoverable st)"
proof -
  from assms obtain b0 where b0: "cb_skb (rx_cb s ! i) = Some b0"
    by (auto simp: rx_wf_def)
  let ?b = "b0\<lparr>rb_mem := mem\<rparr>"
  let ?s = "set_cb i \<lparr>cb_skb = Some ?b, cb_active = False\<rparr> s"
  let ?f = "?s\<lparr>rx_free_queue := rx_free_queue ?s @ [?b]\<rparr>"
  let ?q = "?s\<lparr>rx_queue := rx_queue ?s @ [?b\<lparr>rb_len := n\<rparr>], rx_work_queued := True\<rparr>"
  have landed: "rx_landed i ?b False s ?f" "rx_landed i ?b True s ?q"
    by (auto simp: rx_landed_def set_cb_def)
  show ?thesis
  proof (cases "st = 0")
    case True
    show ?thesis
    proof (cases "n \<ge> RTW_USB_MAX_RECVBUF_SZ \<or> n < 24")
      case bad: True
      show ?thesis
        by (rule again [OF b0 _ landed(1)])
          (use True bad b0 in \<open>auto simp: rtw_usb_read_port_complete_def Let_def\<close>)
    next
      case False
      show ?thesis
        by (rule again [OF b0 _ landed(2)])
          (use True False b0 in \<open>auto simp: rtw_usb_read_port_complete_def Let_def\<close>)
    qed
  next
    case False
    let ?e = "?f\<lparr>rx_urb_error_count := rx_urb_error_count ?f + 1\<rparr>"
    have "rx_landed i ?b False s ?e"
      using landed(1) by (simp add: rx_landed_def)
    show ?thesis
    proof (cases "rx_status_recoverable st")
      case True
      show ?thesis
        by (rule again [OF b0 _ \<open>rx_landed i ?b False s ?e\<close>])
          (use True False b0 in \<open>auto simp: rtw_usb_read_port_complete_def Let_def\<close>)
    next
      case no: False
      show ?thesis
        by (rule stop [OF b0 _ landed(1)])
          (use no False b0 in \<open>auto simp: rtw_usb_read_port_complete_def Let_def\<close>)
    qed
  qed
qed

lemma landed_inv:
  assumes "rx_inv s" and "i < length (rx_cb s)" and "cb_active (rx_cb s ! i)"
    and "cb_skb (rx_cb s ! i) = Some b0" and "rb_id b = rb_id b0" and "rx_landed i b up s t"
  shows "rx_inv t" and "\<not> cb_active (rx_cb t ! i)" and "length (rx_cb t) = length (rx_cb s)"
proof -
  have cb: "rx_cb t = rx_cb (set_cb i \<lparr>cb_skb = Some b, cb_active = False\<rparr> s)"
    using assms(6) by (simp add: rx_landed_def set_cb_def)
  have ids: "cb_ids s = add_mset (rb_id b) (cb_ids t)"
    using cb_ids_set_cb [OF assms(2), of "\<lparr>cb_skb = Some b, cb_active = False\<rparr>"] assms(3,4,5)
    by (simp add: cb_ids_cong [OF cb] cb_own_def)
  have owned: "owned_ids t = owned_ids s"
    using assms(6) ids by (cases up) (auto simp: owned_ids_def rx_landed_def)
  have "rx_room t"
    using assms(1,6) ids by (cases up) (auto simp: rx_inv_def rx_room_def rx_landed_def)
  moreover have "rx_ok {#} t"
    using assms(1,6) owned by (simp add: rx_inv_def rx_ok_def rx_landed_def)
  moreover have "rx_wf t"
    using assms(1,6) set_update_subset_insert [of "rx_cb s" i "\<lparr>cb_skb = Some b, cb_active = False\<rparr>"]
    by (auto simp: rx_inv_def rx_wf_def rx_landed_def)
  ultimately show "rx_inv t" by (simp add: rx_inv_def)
  show "\<not> cb_active (rx_cb t ! i)" "length (rx_cb t) = length (rx_cb s)"
    using assms(2,6) by (simp_all add: rx_landed_def)
qed

lemma rx_inv_complete:
  assumes "rx_inv s" and "i < length (rx_cb s)" and "cb_active (rx_cb s ! i)"
  shows "rx_inv (rtw_usb_read_port_complete i st n mem s)"
proof -
  have "rx_wf s" using assms(1) by (simp add: rx_inv_def)
  from this assms(2,3) show ?thesis
  proof (cases rule: complete_cases [where st = st and n = n and mem = mem])
    case (again b b0 up t)
    from landed_inv [OF assms again(1-3)] rx_inv_resubmit [of t i] assms(2) again(4)
    show ?thesis by simp
  next
    case (stop b b0 t)
    from landed_inv [OF assms stop(1-3)] stop(4) show ?thesis by simp
  qed
qed

lemma rx_inv_kill: "rx_inv s \<Longrightarrow> i < length (rx_cb s) \<Longrightarrow> rx_inv (usb_kill_urb i s)"
  by (simp add: usb_kill_urb_def rx_inv_complete)

lemma rx_inv_drop_queue:
  assumes "rx_inv s" and "rx_queue s = skb # queue"
  shows "rx_inv (s\<lparr>rx_queue := queue\<rparr>)" and "rx_ok {#rb_id skb#} (s\<lparr>rx_queue := queue\<rparr>)"
proof -
  let ?t = "s\<lparr>rx_queue := queue\<rparr>"
  have eq: "owned_ids s = add_mset (rb_id skb) (owned_ids ?t)" "cb_ids ?t = cb_ids s"
    using assms(2) by (simp_all add: owned_ids_def cb_ids_def)
  then show "rx_ok {#rb_id skb#} ?t"
    using assms(1) by (simp add: rx_inv_def rx_ok_def)
  have "rx_ok {#} s" using assms(1) by (simp add: rx_inv_def)
  then have "rx_ok {#} ?t"
    by (rule rx_ok_mono) (simp_all add: eq(1))
  with assms(1) eq(2) show "rx_inv ?t"
    by (simp add: rx_inv_def rx_wf_def rx_room_def)
qed

lemma rx_inv_recycle:
  assumes "rx_inv s" and "rx_ok {#rb_id skb#} s"
  shows "rx_inv (rx_recycle skb s)"
proof (cases "length (rx_free_queue s) \<ge> RTW_USB_RX_SKB_NUM")
  case True
  with assms show ?thesis by (simp add: rx_recycle_def)
next
  case False
  let ?t = "s\<lparr>rx_free_queue := rx_free_queue s @ [skb]\<rparr>"
  have eq: "owned_ids ?t = add_mset (rb_id skb) (owned_ids s)" "cb_ids ?t = cb_ids s"
    by (simp_all add: owned_ids_def cb_ids_def)
  have "size (cb_ids s) \<le> RTW_USB_RXCB_NUM"
    using size_cb_ids [of s] assms(1) by (simp add: rx_inv_def rx_wf_def)
  with False eq assms have "rx_inv ?t"
    by (simp add: rx_inv_def rx_wf_def rx_ok_def rx_room_def)
  with False show ?thesis by (simp add: rx_recycle_def)
qed

lemma rx_inv_handler_loop: "rx_inv s \<Longrightarrow> rx_inv (rx_handler_loop limit s)"
proof (induction limit arbitrary: s)
  case 0
  then show ?case by simp
next
  case (Suc limit)
  show ?case
  proof (cases "rx_queue s")
    case Nil
    with Suc.prems show ?thesis by simp
  next
    case (Cons skb queue)
    let ?s = "s\<lparr>rx_queue := queue\<rparr>"
    let ?t = "rx_parse (rb_mem skb) (rb_len skb) 0 rx_status_zero ?s"
    note drop = rx_inv_drop_queue [OF Suc.prems Cons]
    note same = rx_parse_queues [of ?s "rb_mem skb" "rb_len skb" 0 rx_status_zero]
    have "rx_next_id ?t = rx_next_id ?s"
      using same unfolding rx_same_queues_def by blast
    with drop(2) have "rx_ok {#rb_id skb#} ?t"
      unfolding rx_ok_def owned_same_queues [OF same, THEN conjunct1] by (simp only: simp_thms)
    from rx_inv_recycle [OF rx_inv_same_queues [OF same drop(1)] this]
    have "rx_inv (rx_recycle skb ?t)" .
    then have "rx_inv (rx_handler_loop limit (rx_recycle skb ?t))" and "rx_inv (rx_handler_loop limit ?s)"
      by (auto intro: Suc.IH drop(1))
    then show ?thesis
      unfolding rx_handler_loop.simps Cons list.case Let_def
      by (cases "RTW_USB_MAX_RXQ_LEN \<le> length (rx_queue ?s)") (simp_all only: if_True if_False)
  qed
qed

lemma rx_inv_cong:
  "rx_inv s \<Longrightarrow> rx_queue t = rx_queue s \<Longrightarrow> rx_free_queue t = rx_free_queue s \<Longrightarrow> rx_cb t = rx_cb s
   \<Longrightarrow> rx_next_id t = rx_next_id s \<Longrightarrow> rx_inv t"
  by (simp add: rx_inv_def rx_wf_def rx_ok_def rx_room_def owned_ids_def cb_ids_def)

lemma rx_inv_step: "rx_inv s \<Longrightarrow> rx_step s l t \<Longrightarrow> rx_inv t"
proof (erule rx_step_cases, goal_cases)
  case (1 i st n mem)
  then show ?case by (simp add: rx_inv_complete)
next
  case 2
  have "rx_inv (s\<lparr>rx_work_queued := False\<rparr>)"
    by (rule rx_inv_cong [OF 2(1)]) simp_all
  with 2 show ?case by (simp add: rtw_usb_rx_handler_def rx_inv_handler_loop)
next
  case 3
  then show ?case by (auto intro: rx_inv_cong)
next
  case (4 k)
  then have "rx_inv (rx_resubmit_iter k s)"
    by (intro rx_inv_iter) (simp_all add: rx_inv_def rx_wf_def)
  with 4 show ?case by (auto intro: rx_inv_cong)
next
  case 5
  then show ?case by (auto intro: rx_inv_cong)
next
  case 6
  then show ?case by (auto simp: cancel_rx_urb_work_def intro: rx_inv_cong)
next
  case (7 i)
  then show ?case by (simp add: rx_inv_kill)
qed

section \<open>Setup establishes the invariant\<close>

text \<open>The control blocks as \<open>ieee80211_alloc_hw\<close> zeroed them.\<close>

definition rx_cbs_zero :: "rx_usb_ctrl_block list" where
  "rx_cbs_zero = replicate RTW_USB_RXCB_NUM \<lparr>cb_skb = None, cb_active = False\<rparr>"

lemma init_rx_inv:
  assumes "rx_cb s = rx_cbs_zero"
  shows "rx_inv (snd (rtw_usb_init_rx True n s))"
proof -
  let ?t = "snd (rtw_usb_init_rx True n s)"
  let ?m = "min n RTW_USB_RX_SKB_NUM"
  have cb: "rx_cb ?t = rx_cbs_zero" "cb_ids ?t = {#}"
    using assms by (simp_all add: rtw_usb_init_rx_def cb_ids_def rx_cbs_zero_def cb_own_def
        RTW_USB_RXCB_NUM_def numeral_eq_Suc)
  have "owned_ids ?t = mset_set {0..<?m}"
    unfolding owned_ids_def cb(2)
    by (simp add: rtw_usb_init_rx_def rx_fresh_bufs_def multiset.map_comp comp_def)
  moreover have "rx_next_id ?t = ?m"
    by (simp add: rtw_usb_init_rx_def)
  ultimately have "rx_ok {#} ?t"
    by (simp add: rx_ok_def count_mset_set')
  moreover have "rx_wf ?t"
    using cb(1) by (simp add: rx_wf_def rx_cbs_zero_def)
  moreover have "rx_room ?t"
    using cb(2) by (simp add: rx_room_def) (simp add: rtw_usb_init_rx_def rx_fresh_bufs_def)
  ultimately show ?thesis by (simp add: rx_inv_def)
qed

text \<open>Setup submits the blocks in order; those not reached yet are still empty.\<close>

lemma setup_rx_inv:
  assumes "rx_inv s" and "\<forall>i < RTW_USB_RXCB_NUM. \<not> cb_active (rx_cb s ! i)"
  shows "n \<le> RTW_USB_RXCB_NUM \<Longrightarrow> rx_inv (fold rtw_usb_rx_resubmit [0..<n] s)
    \<and> (\<forall>i < RTW_USB_RXCB_NUM. n \<le> i \<longrightarrow> rx_cb (fold rtw_usb_rx_resubmit [0..<n] s) ! i = rx_cb s ! i)"
proof (induction n)
  case 0
  with assms show ?case by simp
next
  case (Suc n)
  let ?t = "fold rtw_usb_rx_resubmit [0..<n] s"
  have t: "rx_inv ?t" "\<forall>i < RTW_USB_RXCB_NUM. n \<le> i \<longrightarrow> rx_cb ?t ! i = rx_cb s ! i"
    using Suc by auto
  have len: "n < length (rx_cb ?t)"
    using t(1) Suc.prems by (simp add: rx_inv_def rx_wf_def)
  moreover have "\<not> cb_active (rx_cb ?t ! n)"
    using t(2) assms(2) Suc.prems by simp
  ultimately have "rx_inv (rtw_usb_rx_resubmit n ?t)"
    using rx_inv_resubmit [OF t(1)] by blast
  with t(2) resubmit_frame [OF len] show ?case
    by (auto simp: resubmit_ok_def)
qed

section \<open>Receive capacity\<close>

definition rx_env_recoverable :: "'x rtw_usb_rx_scheme \<Rightarrow> bool" where
  "rx_env_recoverable s \<longleftrightarrow>
     (\<forall>n. rx_submit_ret (rx_env s n) = 0 \<or> rtw_usb_rx_submit_error_retryable (rx_submit_ret (rx_env s n)))"

text \<open>A control block is at work, or the retry work will visit it.\<close>

definition cb_served :: "'x rtw_usb_rx_scheme \<Rightarrow> nat \<Rightarrow> bool" where
  "cb_served s i \<longleftrightarrow> cb_active (rx_cb s ! i)
     \<or> cb_skb (rx_cb s ! i) = None
       \<and> (rx_retry_pending s \<or> (\<exists>k. rx_worker s = Some k \<and> k \<le> i))"

definition rx_served :: "'x rtw_usb_rx_scheme \<Rightarrow> bool" where
  "rx_served s \<longleftrightarrow> rx_wf s \<and> rx_env_recoverable s \<and> (\<forall>i < RTW_USB_RXCB_NUM. cb_served s i)"

fun recoverable_label :: "rx_label \<Rightarrow> bool" where
  "recoverable_label (LComplete i st) \<longleftrightarrow> st = 0 \<or> rx_status_recoverable st"
| "recoverable_label (LKill i) \<longleftrightarrow> False"
| "recoverable_label LCancel \<longleftrightarrow> False"
| "recoverable_label l \<longleftrightarrow> True"

lemma resubmit_serves:
  assumes "rx_env_recoverable s" and "i < length (rx_cb s)"
  shows "cb_active (rx_cb (rtw_usb_rx_resubmit i s) ! i)
    \<or> cb_skb (rx_cb (rtw_usb_rx_resubmit i s) ! i) = None \<and> rx_retry_pending (rtw_usb_rx_resubmit i s)"
  using assms(2)
proof (cases rule: resubmit_cases)
  case (none t)
  with rx_get_buf_frame [OF none(1)] assms(2) show ?thesis
    by (simp add: rx_cb_set_cb)
next
  case (active b t)
  with rx_get_buf_frame [OF active(1)] assms(2) show ?thesis
    by (simp add: rx_cb_set_cb)
next
  case (failed b t)
  with rx_get_buf_frame [OF failed(1)] assms show ?thesis
    by (auto simp: rx_cb_set_cb rx_env_recoverable_def)
qed

lemma rx_served_resubmit:
  assumes "rx_wf s" and "rx_env_recoverable s" and "i < RTW_USB_RXCB_NUM"
    and "\<forall>j < RTW_USB_RXCB_NUM. j \<noteq> i \<longrightarrow> cb_served s j"
  shows "rx_served (rtw_usb_rx_resubmit i s)"
proof -
  have i: "i < length (rx_cb s)"
    using assms(1,3) by (simp add: rx_wf_def)
  note f = resubmit_frame [OF i, unfolded resubmit_ok_def]
  have "cb_served (rtw_usb_rx_resubmit i s) j" if "j < RTW_USB_RXCB_NUM" for j
    using resubmit_serves [OF assms(2) i] f assms(4) that
    by (cases "j = i") (auto simp: cb_served_def)
  then show ?thesis
    using rx_wf_resubmit [OF assms(1) i] assms(2) f
    by (simp add: rx_served_def rx_env_recoverable_def)
qed

lemma served_step:
  assumes "rx_served s" and "rx_step s l t" and "recoverable_label l"
  shows "rx_served t"
proof (rule rx_step_cases [OF assms(2)], goal_cases)
  case (1 i st n mem)
  have wf: "rx_wf s" and len: "i < RTW_USB_RXCB_NUM"
    using assms(1) 1(3) by (auto simp: rx_served_def rx_wf_def)
  from wf 1(3,4) show ?thesis
  proof (cases rule: complete_cases [where st = st and n = n and mem = mem])
    case (again b b0 up u)
    have u: "rx_wf u" "rx_env_recoverable u" "\<forall>j < RTW_USB_RXCB_NUM. j \<noteq> i \<longrightarrow> cb_served u j"
      using assms(1) again(3) set_update_subset_insert [of "rx_cb s" i "\<lparr>cb_skb = Some b, cb_active = False\<rparr>"]
      by (auto simp: rx_served_def rx_wf_def rx_landed_def rx_env_recoverable_def cb_served_def)
    show ?thesis
      using rx_served_resubmit [OF u(1,2) len u(3)] again(4) 1(2) by simp
  next
    case (stop b b0 u)
    with assms(3) 1(1) show ?thesis by simp
  qed
next
  case 2
  have same: "rx_same_queues u (rx_recycle b u) \<or> rx_free_queue (rx_recycle b u) = rx_free_queue u @ [b]
      \<and> rx_cb (rx_recycle b u) = rx_cb u \<and> rx_worker (rx_recycle b u) = rx_worker u
      \<and> rx_retry_pending (rx_recycle b u) = rx_retry_pending u \<and> rx_env (rx_recycle b u) = rx_env u"
    for b and u :: "'a rtw_usb_rx_scheme"
    by (simp add: rx_recycle_def)
  define K where "K \<equiv> \<lambda>u :: 'a rtw_usb_rx_scheme. (rx_cb u, rx_worker u, rx_retry_pending u, rx_env u)"
  have K: "K (rx_recycle b u) = K u" "K (rx_parse m n k r u) = K u" "K (u\<lparr>rx_queue := q\<rparr>) = K u"
    for b m n k r q u
    using same [of u b] rx_parse_queues [of u m n k r] by (auto simp: K_def rx_same_queues_def)
  have "K (rx_handler_loop limit u) = K u" for limit u
    by (induction limit arbitrary: u) (simp_all add: K Let_def split: list.split)
  then have "K t = K s"
    using 2(2) by (simp add: rtw_usb_rx_handler_def) (simp add: K_def)
  with assms(1) show ?thesis
    by (simp add: K_def rx_served_def rx_wf_def rx_env_recoverable_def cb_served_def)
next
  case 3
  with assms(1) show ?thesis
    by (simp add: rx_served_def rx_wf_def rx_env_recoverable_def cb_served_def)
next
  case (4 k)
  have wf: "rx_wf s" "rx_env_recoverable s"
    using assms(1) by (auto simp: rx_served_def)
  have "rx_served (rx_resubmit_iter k s)
      \<and> (cb_active (rx_cb (rx_resubmit_iter k s) ! k) \<or> rx_retry_pending (rx_resubmit_iter k s))
      \<and> rx_worker (rx_resubmit_iter k s) = Some k"
  proof (cases "cb_skb (rx_cb s ! k) = None")
    case True
    have len: "k < length (rx_cb s)"
      using wf(1) 4(4) by (simp add: rx_wf_def)
    have "rx_served (rtw_usb_rx_resubmit k s)"
      using assms(1) by (intro rx_served_resubmit [OF wf 4(4)]) (simp add: rx_served_def)
    with resubmit_serves [OF wf(2) len] resubmit_frame [OF len] True 4(3) show ?thesis
      by (auto simp: rx_resubmit_iter_def resubmit_ok_def)
  next
    case False
    with assms(1) 4(3,4) show ?thesis
      by (auto simp: rx_resubmit_iter_def rx_served_def cb_served_def)
  qed
  then have "rx_served ((rx_resubmit_iter k s)\<lparr>rx_worker := Some (Suc k)\<rparr>)"
    by (auto simp: rx_served_def rx_wf_def rx_env_recoverable_def cb_served_def less_Suc_eq_le
        le_less)
  with 4(2) show ?thesis by simp
next
  case 5
  with assms(1) show ?thesis
    by (auto simp: rx_served_def rx_wf_def rx_env_recoverable_def cb_served_def)
qed (use assms(3) in simp_all)

section \<open>The retry work\<close>

text \<open>The next \<open>m\<close> calls into the kernel succeed; earlier ones may have failed.\<close>

definition rx_env_good :: "nat \<Rightarrow> 'x rtw_usb_rx_scheme \<Rightarrow> bool" where
  "rx_env_good m s \<longleftrightarrow> (\<forall>n. rx_calls s \<le> n \<and> n < rx_calls s + m
     \<longrightarrow> rx_alloc_ok (rx_env s n) \<and> rx_submit_ret (rx_env s n) = 0)"

lemma rx_get_buf_calls:
  "rx_get_buf s = (ob, t) \<Longrightarrow> rx_calls s \<le> rx_calls t \<and> rx_calls t \<le> Suc (rx_calls s)"
  by (cases rule: rx_get_buf_cases [of s]) auto

lemma resubmit_calls:
  assumes "i < length (rx_cb s)"
  shows "rx_calls s \<le> rx_calls (rtw_usb_rx_resubmit i s)
    \<and> rx_calls (rtw_usb_rx_resubmit i s) \<le> rx_calls s + 2"
  using assms
  by (cases rule: resubmit_cases) (auto simp: rtw_usb_rx_retry_later_def dest!: rx_get_buf_calls)

lemma rx_env_good_after:
  assumes "rx_env_good (m + 2) s" and "rx_env t = rx_env s"
    and "rx_calls s \<le> rx_calls t \<and> rx_calls t \<le> rx_calls s + 2"
  shows "rx_env_good m t"
  using assms by (auto simp: rx_env_good_def)

lemma rx_env_good_now:
  assumes "rx_env_good (m + 2) s" and "rx_calls s \<le> n" and "n \<le> Suc (rx_calls s)"
  shows "rx_alloc_ok (rx_env s n)" and "rx_submit_ret (rx_env s n) = 0"
  using assms by (simp_all add: rx_env_good_def)

lemma iter_activates:
  assumes "rx_wf s" and "rx_env_good (m + 2) s" and "i < length (rx_cb s)"
    and "cb_active (rx_cb s ! i) \<or> cb_skb (rx_cb s ! i) = None"
  shows "rx_wf (rx_resubmit_iter i s) \<and> rx_env_good m (rx_resubmit_iter i s)
    \<and> cb_active (rx_cb (rx_resubmit_iter i s) ! i)
    \<and> (\<forall>j. j \<noteq> i \<longrightarrow> rx_cb (rx_resubmit_iter i s) ! j = rx_cb s ! j)
    \<and> length (rx_cb (rx_resubmit_iter i s)) = length (rx_cb s)"
proof (cases "cb_skb (rx_cb s ! i) = None")
  case False
  with assms rx_env_good_after [OF assms(2), of s] show ?thesis
    by (auto simp: rx_resubmit_iter_def)
next
  case True
  note f = resubmit_frame [OF assms(3), unfolded resubmit_ok_def]
  have "cb_active (rx_cb (rtw_usb_rx_resubmit i s) ! i)"
    using assms(3)
  proof (cases rule: resubmit_cases)
    case (none t)
    then show ?thesis
      using rx_env_good_now(1) [OF assms(2)] by (cases rule: rx_get_buf_cases [of s]) auto
  next
    case (active b t)
    with rx_get_buf_frame [OF active(1)] assms(3) show ?thesis
      by (simp add: rx_cb_set_cb)
  next
    case (failed b t)
    with rx_get_buf_frame [OF failed(1)] rx_get_buf_calls [OF failed(1)]
      rx_env_good_now(2) [OF assms(2), of "rx_calls t"] show ?thesis
      by simp
  qed
  with f rx_wf_resubmit [OF assms(1,3)] rx_env_good_after [OF assms(2) _ resubmit_calls [OF assms(3)]] True
  show ?thesis
    by (simp add: rx_resubmit_iter_def)
qed

lemma work_activates:
  assumes "rx_wf s" and "rx_env_good (2 * RTW_USB_RXCB_NUM) s"
    and "\<forall>i < RTW_USB_RXCB_NUM. cb_active (rx_cb s ! i) \<or> cb_skb (rx_cb s ! i) = None"
  shows "n \<le> RTW_USB_RXCB_NUM \<Longrightarrow>
      rx_wf (fold rx_resubmit_iter [0..<n] s)
    \<and> rx_env_good (2 * (RTW_USB_RXCB_NUM - n)) (fold rx_resubmit_iter [0..<n] s)
    \<and> (\<forall>i < n. cb_active (rx_cb (fold rx_resubmit_iter [0..<n] s) ! i))
    \<and> (\<forall>i. n \<le> i \<longrightarrow> rx_cb (fold rx_resubmit_iter [0..<n] s) ! i = rx_cb s ! i)"
proof (induction n)
  case 0
  with assms show ?case by simp
next
  case (Suc n)
  let ?t = "fold rx_resubmit_iter [0..<n] s"
  have "2 * (RTW_USB_RXCB_NUM - n) = 2 * (RTW_USB_RXCB_NUM - Suc n) + 2"
    using Suc.prems by simp
  with Suc have t: "rx_wf ?t" "rx_env_good (2 * (RTW_USB_RXCB_NUM - Suc n) + 2) ?t"
      "\<forall>i < n. cb_active (rx_cb ?t ! i)" "\<forall>i. n \<le> i \<longrightarrow> rx_cb ?t ! i = rx_cb s ! i"
    by simp_all
  have "n < length (rx_cb ?t)" "cb_active (rx_cb ?t ! n) \<or> cb_skb (rx_cb ?t ! n) = None"
    using t Suc.prems assms(3) by (auto simp: rx_wf_def)
  from iter_activates [OF t(1,2) this] t(3,4) show ?case
    by (auto simp: less_Suc_eq)
qed

section \<open>Teardown\<close>

lemma kill_cb:
  assumes "rx_wf s" and "i < length (rx_cb s)"
  shows "rx_wf (usb_kill_urb i s) \<and> \<not> cb_active (rx_cb (usb_kill_urb i s) ! i)
    \<and> (\<forall>j. j \<noteq> i \<longrightarrow> rx_cb (usb_kill_urb i s) ! j = rx_cb s ! j)
    \<and> length (rx_cb (usb_kill_urb i s)) = length (rx_cb s)
    \<and> rx_retry_pending (usb_kill_urb i s) = rx_retry_pending s"
proof (cases "cb_active (rx_cb s ! i)")
  case False
  with assms show ?thesis by (simp add: usb_kill_urb_def)
next
  case True
  have no: "\<not> (- ENOENT = 0 \<or> rx_status_recoverable (- ENOENT))"
    by (simp add: rx_status_recoverable_def)
  from assms True show ?thesis
  proof (cases rule: complete_cases [where st = "- ENOENT" and n = 0
        and mem = "case cb_skb (rx_cb s ! i) of Some b \<Rightarrow> rb_mem b | None \<Rightarrow> []"])
    case (again b b0 up t)
    with no show ?thesis by blast
  next
    case (stop b b0 t)
    have "rx_wf t"
      using assms(1) stop(3) set_update_subset_insert [of "rx_cb s" i "\<lparr>cb_skb = Some b, cb_active = False\<rparr>"]
      by (auto simp: rx_wf_def rx_landed_def)
    with stop(3,4) True assms(2) show ?thesis
      by (simp add: usb_kill_urb_def rx_landed_def)
  qed
qed

lemma kill_all:
  assumes "rx_wf s"
  shows "n \<le> RTW_USB_RXCB_NUM \<Longrightarrow> rx_wf (fold usb_kill_urb [0..<n] s)
    \<and> (\<forall>i < n. \<not> cb_active (rx_cb (fold usb_kill_urb [0..<n] s) ! i))"
proof (induction n)
  case 0
  with assms show ?case by simp
next
  case (Suc n)
  let ?t = "fold usb_kill_urb [0..<n] s"
  have t: "rx_wf ?t" "\<forall>i < n. \<not> cb_active (rx_cb ?t ! i)"
    using Suc by auto
  then have "n < length (rx_cb ?t)"
    using Suc.prems by (simp add: rx_wf_def)
  from kill_cb [OF t(1) this] t(2) show ?case
    by (auto simp: less_Suc_eq)
qed

section \<open>Properties\<close>

text \<open>
  Property C2. From the initialisation on, through any interleaving of completions (any
  status, any length), receive work, retry work, cancellations and kills, no receive buffer
  is ever in two places: the receive queue, the free queue and the buffers of active URBs
  are disjoint; and the free queue never holds more than 12 buffers.
\<close>

theorem rx_buffers_single_owner:
  assumes "rx_cb s = rx_cbs_zero" and "rtw_usb_init_rx True n s = (0, s1)"
    and "rx_run (\<lambda>l. True) (rtw_usb_setup_rx s1) t"
  shows "distinct (map rb_id (rx_queue t) @ map rb_id (rx_free_queue t) @ concat (map cb_own (rx_cb t)))
    \<and> length (rx_free_queue t) \<le> 12"
proof -
  have s1: "rx_inv s1" "rx_cb s1 = rx_cbs_zero"
    using init_rx_inv [OF assms(1), of n] assms(1,2) by (auto simp: rtw_usb_init_rx_def)
  then have "\<forall>i < RTW_USB_RXCB_NUM. \<not> cb_active (rx_cb s1 ! i)"
    by (simp add: rx_cbs_zero_def)
  with setup_rx_inv [OF s1(1) this, of RTW_USB_RXCB_NUM] have "rx_inv (rtw_usb_setup_rx s1)"
    by (simp add: rtw_usb_setup_rx_def)
  with assms(3) have inv: "rx_inv t"
    by (rule rx_run_invariant) (rule rx_inv_step)
  let ?l = "map rb_id (rx_queue t) @ map rb_id (rx_free_queue t) @ concat (map cb_own (rx_cb t))"
  have "count (mset ?l) x \<le> 1" for x
  proof -
    have "mset ?l = owned_ids t"
      by (simp add: owned_ids_def cb_ids_def)
    with inv have "count (mset ?l) x \<le> of_bool (x < rx_next_id t)"
      by (simp only: rx_inv_def rx_ok_def add_0_right)
    then show ?thesis
      by (simp only: of_bool_def split: if_splits)
  qed
  then have "distinct ?l"
    by (rule distinct_if_count_le_1)
  with inv show ?thesis
    by (simp add: rx_inv_def rx_room_def RTW_USB_RX_SKB_NUM_def RTW_USB_RXCB_NUM_def)
qed

text \<open>
  Property C3. Recoverable failures never lose receive capacity: while URBs complete with
  status 0 or a recoverable error and submissions fail only with retryable errors or for
  want of memory, every control block is active or waits for the retry work, in every
  interleaving.
\<close>

theorem rx_capacity_retained:
  assumes "rx_served s" and "rx_run recoverable_label s t"
  shows "\<forall>i < RTW_USB_RXCB_NUM. cb_active (rx_cb t ! i)
    \<or> cb_skb (rx_cb t ! i) = None \<and> (rx_retry_pending t \<or> (\<exists>k. rx_worker t = Some k \<and> k \<le> i))"
proof -
  have "rx_served t"
    using assms(2,1) by (rule rx_run_invariant) (rule served_step)
  then show ?thesis by (simp add: rx_served_def cb_served_def)
qed

text \<open>
  Property C8. The retry work recovers: from any state reached through completions with
  recoverable errors, failed allocations and failed submissions, one run of it whose own
  calls succeed (it makes at most eight: an allocation and a submission per control block)
  leaves all four URBs active.
\<close>

theorem rx_retry_restores:
  assumes "rx_served s" and "rx_run recoverable_label s t"
    and "rx_env_good (2 * RTW_USB_RXCB_NUM) t"
  shows "\<forall>i < RTW_USB_RXCB_NUM. cb_active (rx_cb (rtw_usb_rx_resubmit_work t) ! i)"
proof -
  have t: "rx_served t"
    using assms(2,1) by (rule rx_run_invariant) (rule served_step)
  then have "rx_wf t" "\<forall>i < RTW_USB_RXCB_NUM. cb_active (rx_cb t ! i) \<or> cb_skb (rx_cb t ! i) = None"
    by (auto simp: rx_served_def cb_served_def)
  from work_activates [OF this(1) assms(3) this(2), of RTW_USB_RXCB_NUM] show ?thesis
    by (simp add: rtw_usb_rx_resubmit_work_def)
qed

text \<open>
  Property C9. Cancelling the receive buffers without interference leaves no URB active and
  no retry scheduled.
\<close>

theorem rx_cancel_quiesces:
  assumes "length (rx_cb s) = RTW_USB_RXCB_NUM"
    and "\<forall>c \<in> set (rx_cb s). cb_active c \<longrightarrow> cb_skb c \<noteq> None"
  shows "\<not> rx_retry_pending (rtw_usb_cancel_rx_bufs s)
    \<and> (\<forall>i < RTW_USB_RXCB_NUM. \<not> cb_active (rx_cb (rtw_usb_cancel_rx_bufs s) ! i))"
proof -
  have "rx_wf (cancel_rx_urb_work s)"
    using assms by (simp add: cancel_rx_urb_work_def rx_wf_def)
  from kill_all [OF this, of RTW_USB_RXCB_NUM] show ?thesis
    by (simp add: rtw_usb_cancel_rx_bufs_def) (simp add: cancel_rx_urb_work_def)
qed

section \<open>Interleaved teardown\<close>

inductive rx_trace :: "'x rtw_usb_rx_scheme \<Rightarrow> rx_label list \<Rightarrow> 'x rtw_usb_rx_scheme \<Rightarrow> bool" where
  trace_nil: "rx_trace s [] s"
| trace_cons: "rx_step s l t \<Longrightarrow> rx_trace t ls u \<Longrightarrow> rx_trace s (l # ls) u"

fun teardown_label :: "rx_label \<Rightarrow> bool" where
  "teardown_label LCancel \<longleftrightarrow> True"
| "teardown_label (LKill i) \<longleftrightarrow> True"
| "teardown_label l \<longleftrightarrow> False"

text \<open>The calls of \<open>rtw_usb_cancel_rx_bufs\<close>, in order.\<close>

definition cancel_rx_labels :: "rx_label list" where
  "cancel_rx_labels = [LCancel, LKill 0, LKill 1, LKill 2, LKill 3, LCancel]"

text \<open>A receiver with all URBs active, whose next submission fails once with \<open>-EPROTO\<close>.\<close>

definition demo_buf :: "nat \<Rightarrow> rx_skb" where
  "demo_buf k = \<lparr>rb_id = k, rb_mem = [], rb_len = 0\<rparr>"

definition demo_rx :: rtw_usb_rx where
  "demo_rx = \<lparr>rf_path_num = 2, current_channel = 1, cck_high_power = False, rx_is_8703b = False,
     hw_chan_freq = 2412, hw_chan_band = NL80211_BAND_2GHZ, flag_scanning = False,
     fw_scan_offload = False, stat_rx_unicast = 0, stat_rx_cnt = 0, curr_rx_rate = 0,
     num_bcn_pkt = 0, num_qry_pkt = [], ewma_evm = [], ewma_snr = [], dm_rx_evm_dbm = [],
     dm_rx_snr = [], dm_rssi = [], rx_vifs = [], channel_freq = (\<lambda>c b. 0), ies_channel = (\<lambda>i. -1),
     rx_queue = [], rx_free_queue = [],
     rx_cb = map (\<lambda>k. \<lparr>cb_skb = Some (demo_buf k), cb_active = True\<rparr>) [0, 1, 2, 3],
     rx_work_queued = False, rx_retry_pending = False, rx_worker = None, rx_urb_error_count = 0,
     rx_out_log = [], rx_next_id = 4,
     rx_env = (\<lambda>n. if n = 0 then \<lparr>rx_alloc_ok = True, rx_submit_ret = - EPROTO\<rparr>
                    else \<lparr>rx_alloc_ok = True, rx_submit_ret = 0\<rparr>),
     rx_calls = 0\<rparr>"

definition race_kill3 :: rtw_usb_rx where
  "race_kill3 = usb_kill_urb 3 (rtw_usb_read_port_complete 3 (- EPROTO) 0 []
     (usb_kill_urb 2 (usb_kill_urb 1 (usb_kill_urb 0 (cancel_rx_urb_work demo_rx)))))"

lemmas rx_eval = cancel_rx_urb_work_def usb_kill_urb_def rtw_usb_read_port_complete_def
  rtw_usb_rx_resubmit_def rx_get_buf_def rx_take_outcome_def set_cb_def rx_resubmit_iter_def
  rtw_usb_rx_retry_later_def rx_status_recoverable_def rtw_usb_rx_submit_error_retryable_def
  demo_rx_def demo_buf_def RTW_USB_RXCB_NUM_def Let_def

text \<open>Where the kills leave the receiver: block 3 waits for the retry work, which is scheduled.\<close>

lemma race_kill3_facts:
  "rx_retry_pending race_kill3" "rx_worker race_kill3 = None" "rx_calls race_kill3 = 1"
  "rx_cb race_kill3 = map (\<lambda>k. \<lparr>cb_skb = (if k = 3 then None else Some (demo_buf k)), cb_active = False\<rparr>) [0, 1, 2, 3]"
  "rx_free_queue race_kill3 = map demo_buf [1, 2, 3, 0]"
  "rx_env race_kill3 = rx_env demo_rx"
  by (simp_all add: race_kill3_def rx_eval)

lemma rx_trace_snoc: "rx_trace s ls t \<Longrightarrow> rx_step t l u \<Longrightarrow> rx_trace s (ls @ [l]) u"
  by (induction rule: rx_trace.induct) (auto intro: rx_trace.intros)

lemma race_first_half:
  "rx_trace demo_rx [LCancel, LKill 0, LKill 1, LKill 2, LComplete 3 (- EPROTO), LKill 3] race_kill3"
proof -
  let ?a = "cancel_rx_urb_work demo_rx"
  let ?b = "usb_kill_urb 0 ?a"
  let ?c = "usb_kill_urb 1 ?b"
  let ?d = "usb_kill_urb 2 ?c"
  let ?e = "rtw_usb_read_port_complete 3 (- EPROTO) 0 [] ?d"
  have len: "length (rx_cb ?a) = 4" "length (rx_cb ?b) = 4" "length (rx_cb ?c) = 4"
      "length (rx_cb ?d) = 4" "length (rx_cb ?e) = 4"
    and act: "cb_active (rx_cb ?d ! 3)" and w: "rx_worker demo_rx = None"
    by (simp_all add: rx_eval)
  have "rx_step demo_rx LCancel ?a"
    by (rule rx_step.cancel [OF w])
  moreover have "rx_step ?a (LKill 0) ?b" "rx_step ?b (LKill 1) ?c" "rx_step ?c (LKill 2) ?d"
      "rx_step ?e (LKill 3) (usb_kill_urb 3 ?e)"
    by (rule rx_step.kill; unfold len; simp)+
  moreover have "rx_step ?d (LComplete 3 (- EPROTO)) ?e"
    by (rule rx_step.complete; (unfold len)?; use act in simp)
  ultimately show ?thesis
    unfolding race_kill3_def by - (rule trace_nil | (rule trace_cons, assumption))+
qed

lemma race_second_half:
  assumes "rx_retry_pending s" and "rx_worker s = None"
    and "rx_cb s = map (\<lambda>k. \<lparr>cb_skb = (if k = 3 then None else Some (demo_buf k)), cb_active = False\<rparr>) [0, 1, 2, 3]"
    and "rx_free_queue s = b # q" and "rx_submit_ret (rx_env s (rx_calls s)) = 0"
  shows "\<exists>t. rx_trace s [LWorkStart, LWorkIter, LWorkIter, LWorkIter, LWorkIter, LWorkEnd, LCancel] t
     \<and> cb_active (rx_cb t ! 3) \<and> \<not> rx_retry_pending t \<and> rx_worker t = None"
proof -
  define w where "w = (\<lambda>k. s\<lparr>rx_retry_pending := False, rx_worker := Some k\<rparr>)"
  have iter: "rx_step (w k) LWorkIter (w (Suc k))" if "k < 3" for k
  proof -
    from that assms(3) have "cb_skb (rx_cb (w k) ! k) \<noteq> None"
      by (auto simp: w_def less_Suc_eq numeral_eq_Suc)
    then have "(rx_resubmit_iter k (w k))\<lparr>rx_worker := Some (Suc k)\<rparr> = w (Suc k)"
      by (auto simp: rx_resubmit_iter_def w_def)
    with rx_step.work_iter [of "w k" k] that show ?thesis
      by (simp add: w_def RTW_USB_RXCB_NUM_def)
  qed
  let ?t = "(rx_resubmit_iter 3 (w 3))\<lparr>rx_worker := Some 4\<rparr>"
  have last: "rx_step (w 3) LWorkIter ?t"
    using rx_step.work_iter [of "w 3" 3] by (simp add: w_def RTW_USB_RXCB_NUM_def)
  have t: "cb_active (rx_cb ?t ! 3)" "\<not> rx_retry_pending ?t"
    using assms(3-5) by (simp_all add: w_def rx_resubmit_iter_def rtw_usb_rx_resubmit_def
        rx_get_buf_def rx_take_outcome_def Let_def set_cb_def)
  have start: "rx_step s LWorkStart (w 0)"
    using rx_step.work_start [OF assms(1,2)] by (simp add: w_def)
  have iters: "rx_step (w 0) LWorkIter (w 1)" "rx_step (w 1) LWorkIter (w 2)" "rx_step (w 2) LWorkIter (w 3)"
    using iter [of 0] iter [of 1] iter [of 2] by (simp_all add: numeral_eq_Suc)
  have stop: "rx_step ?t LWorkEnd (?t\<lparr>rx_worker := None\<rparr>)"
    by (rule rx_step.work_end) (simp add: RTW_USB_RXCB_NUM_def)
  have cancel: "rx_step (?t\<lparr>rx_worker := None\<rparr>) LCancel (cancel_rx_urb_work (?t\<lparr>rx_worker := None\<rparr>))"
    by (rule rx_step.cancel) simp
  have "rx_trace s [LWorkStart, LWorkIter, LWorkIter, LWorkIter, LWorkIter, LWorkEnd, LCancel]
      (cancel_rx_urb_work (?t\<lparr>rx_worker := None\<rparr>))"
    by (rule trace_cons [OF start] trace_cons [OF iters(1)] trace_cons [OF iters(2)]
        trace_cons [OF iters(3)] trace_cons [OF last] trace_cons [OF stop] trace_cons [OF cancel]
        trace_nil)+
  with t show ?thesis
    by (intro exI [of _ "cancel_rx_urb_work (?t\<lparr>rx_worker := None\<rparr>)"]) (simp add: cancel_rx_urb_work_def)
qed

lemma rx_trace_append: "rx_trace s ls t \<Longrightarrow> rx_trace t ms u \<Longrightarrow> rx_trace s (ls @ ms) u"
  by (induction rule: rx_trace.induct) (auto intro: rx_trace.intros)

text \<open>
  Cancelling twice does not close the window: if the last URB completes with a
  recoverable error after the first cancellation and its retry runs between its kill and the
  second cancellation, an URB is active when \<open>rtw_usb_cancel_rx_bufs\<close> has done all its
  calls.
\<close>

theorem rx_cancel_race:
  "\<exists>(s :: rtw_usb_rx) ls t. rx_inv s \<and> rx_trace s ls t
     \<and> filter teardown_label ls = cancel_rx_labels
     \<and> cb_active (rx_cb t ! 3) \<and> \<not> rx_retry_pending t \<and> rx_worker t = None"
proof -
  let ?first = "[LCancel, LKill 0, LKill 1, LKill 2, LComplete 3 (- EPROTO), LKill 3]"
  let ?second = "[LWorkStart, LWorkIter, LWorkIter, LWorkIter, LWorkIter, LWorkEnd, LCancel]"
  have "rx_inv demo_rx"
    by (auto simp: rx_inv_def rx_wf_def rx_ok_def rx_room_def owned_ids_def cb_ids_def cb_own_def
        demo_rx_def demo_buf_def RTW_USB_RXCB_NUM_def RTW_USB_RX_SKB_NUM_def)
  moreover obtain t where t: "rx_trace race_kill3 ?second t" "cb_active (rx_cb t ! 3)"
      "\<not> rx_retry_pending t" "rx_worker t = None"
    using race_second_half [of race_kill3 "demo_buf 1" "map demo_buf [2, 3, 0]"]
    by (auto simp: race_kill3_facts) (auto simp: demo_rx_def)
  moreover have "rx_trace demo_rx (?first @ ?second) t"
    using race_first_half t(1) by (rule rx_trace_append)
  moreover have "filter teardown_label (?first @ ?second) = cancel_rx_labels"
    by (simp add: cancel_rx_labels_def)
  ultimately show ?thesis by blast
qed

section \<open>The packet length is not checked against the transfer\<close>

lemma word_at_take: "4 * i + 4 \<le> n \<Longrightarrow> word_at i (take n bs) = word_at i bs"
  by (simp add: word_at_def drop_take)

lemma rx_desc_fields_take: "rx_desc_fields (take 24 bs) = rx_desc_fields bs"
  by (simp add: rx_desc_fields_def word_at_take del: One_nat_def)

text \<open>The 24 bytes of a C2H descriptor that announces 1000 bytes.\<close>

definition c2h_desc_1000 :: "u8 list" where
  "c2h_desc_1000 = [0xe8, 3, 0, 0, 0, 0, 0, 0, 0, 0, 0, 16, 0, 0, 0, 0, 0, 0, 0, 0, 0, 0, 0, 0]"

lemma c2h_desc_fields:
  "st_is_c2h (rx_desc_fields c2h_desc_1000) \<and> st_pkt_len (rx_desc_fields c2h_desc_1000) = 1000
   \<and> st_drv_info_sz (rx_desc_fields c2h_desc_1000) = 0 \<and> st_shift (rx_desc_fields c2h_desc_1000) = 0"
  by code_simp

text \<open>
  The parser trusts the length in the descriptor: from a transfer of 24 bytes
  it hands up a packet of 1024, the last 1000 of which were not received but lay in the
  buffer from earlier transfers.
\<close>

theorem rx_stale_bytes_delivered:
  assumes "take 24 mem = c2h_desc_1000" and "rx_alloc_ok (rx_env s (rx_calls s))"
  shows "rx_out_log (rx_parse mem 24 0 rxs s) = rx_out_log s @ [RxC2h 24 (take 1024 mem)]"
proof -
  let ?st = "rx_desc_fields mem"
  have "?st = rx_desc_fields c2h_desc_1000"
    using rx_desc_fields_take [of mem] assms(1) by simp
  with c2h_desc_fields have st: "st_is_c2h ?st" "st_pkt_len ?st = 1000" "st_drv_info_sz ?st = 0"
      "st_shift ?st = 0" by simp_all
  have q: "rtw_rx_query_rx_desc rtw8812a_query_phy_status mem b rxs s = (?st, rxs, s)" for b
    using st by (simp add: rtw_rx_query_rx_desc_def Let_def)
  have "rx_packet mem 0 rxs s = (1024, rxs, s\<lparr>rx_calls := Suc (rx_calls s),
      rx_out_log := rx_out_log s @ [RxC2h 24 (take 1024 mem)]\<rparr>)"
    using st assms(2) by (simp add: rx_packet_def q Let_def rx_take_outcome_def rx_pkt_desc_sz_def
        rx_max_skb_len_def PHY_STATUS_SIZE_def IEEE80211_MAX_MPDU_LEN_VHT_11454_def)
  then show ?thesis
    by (subst rx_parse.simps) (simp add: rx_pkt_desc_sz_def)
qed

section \<open>Instances\<close>

lemma demo_rx_served: "rx_served demo_rx"
  by (auto simp: rx_served_def rx_wf_def rx_env_recoverable_def cb_served_def demo_rx_def
      RTW_USB_RXCB_NUM_def rtw_usb_rx_submit_error_retryable_def less_Suc_eq numeral_eq_Suc)

definition demo_rx_failed :: rtw_usb_rx where
  "demo_rx_failed = rtw_usb_read_port_complete 0 (- EPROTO) 0 [] demo_rx"

lemma demo_rx_run: "rx_run recoverable_label demo_rx demo_rx_failed"
proof -
  have "rx_step demo_rx (LComplete 0 (- EPROTO)) demo_rx_failed"
    unfolding demo_rx_failed_def by (rule rx_step.complete) (simp_all add: demo_rx_def)
  then show ?thesis
    by (rule run_step [OF run_refl]) (simp add: rx_status_recoverable_def)
qed

theorem rx_buffers_single_owner_witness:
  "distinct (map rb_id (rx_queue (rtw_usb_setup_rx (snd (rtw_usb_init_rx True 8 (demo_rx\<lparr>rx_cb := rx_cbs_zero\<rparr>)))))
      @ map rb_id (rx_free_queue (rtw_usb_setup_rx (snd (rtw_usb_init_rx True 8 (demo_rx\<lparr>rx_cb := rx_cbs_zero\<rparr>)))))
      @ concat (map cb_own (rx_cb (rtw_usb_setup_rx (snd (rtw_usb_init_rx True 8 (demo_rx\<lparr>rx_cb := rx_cbs_zero\<rparr>)))))))"
  using rx_buffers_single_owner [of "demo_rx\<lparr>rx_cb := rx_cbs_zero\<rparr>" 8, OF _ _ run_refl]
  by (simp add: rtw_usb_init_rx_def)

theorem rx_capacity_retained_witness:
  "list_all (\<lambda>i. cb_active (rx_cb demo_rx_failed ! i)
    \<or> cb_skb (rx_cb demo_rx_failed ! i) = None
      \<and> (rx_retry_pending demo_rx_failed \<or> (\<exists>k. rx_worker demo_rx_failed = Some k \<and> k \<le> i)))
    [0..<RTW_USB_RXCB_NUM]"
  unfolding list_all_upt by (rule rx_capacity_retained [OF demo_rx_served demo_rx_run])

text \<open>
  \<open>demo_rx_failed\<close> is reached by a completion with \<open>-EPROTO\<close> whose resubmission failed:
  its first control block is empty and the retry is scheduled.
\<close>

theorem rx_retry_restores_witness:
  "\<not> cb_active (rx_cb demo_rx_failed ! 0) \<and> rx_retry_pending demo_rx_failed
    \<and> list_all (\<lambda>i. cb_active (rx_cb (rtw_usb_rx_resubmit_work demo_rx_failed) ! i)) [0..<RTW_USB_RXCB_NUM]"
proof -
  have failed: "\<not> cb_active (rx_cb demo_rx_failed ! 0) \<and> rx_retry_pending demo_rx_failed
      \<and> rx_calls demo_rx_failed = 1 \<and> rx_env demo_rx_failed = rx_env demo_rx"
    by (simp add: demo_rx_failed_def demo_rx_def demo_buf_def rtw_usb_read_port_complete_def set_cb_def
        rx_status_recoverable_def rtw_usb_rx_resubmit_def rx_get_buf_def rx_take_outcome_def
        rtw_usb_rx_submit_error_retryable_def rtw_usb_rx_retry_later_def Let_def)
  then have "rx_env_good (2 * RTW_USB_RXCB_NUM) demo_rx_failed"
    by (simp add: rx_env_good_def demo_rx_def)
  from failed rx_retry_restores [OF demo_rx_served demo_rx_run this] show ?thesis
    unfolding list_all_upt by blast
qed

theorem rx_cancel_quiesces_witness:
  "\<not> rx_retry_pending (rtw_usb_cancel_rx_bufs demo_rx)
    \<and> list_all (\<lambda>i. \<not> cb_active (rx_cb (rtw_usb_cancel_rx_bufs demo_rx) ! i)) [0..<RTW_USB_RXCB_NUM]"
  unfolding list_all_upt by (rule rx_cancel_quiesces) (auto simp: demo_rx_def RTW_USB_RXCB_NUM_def)

theorem rx_stale_bytes_delivered_witness:
  "rx_out_log (rx_parse (c2h_desc_1000 @ replicate 1000 0xff) 24 0 rx_status_zero demo_rx)
     = [RxC2h 24 (c2h_desc_1000 @ replicate 1000 0xff)]"
proof -
  have "take 24 (c2h_desc_1000 @ replicate 1000 0xff) = c2h_desc_1000"
    by (simp add: c2h_desc_1000_def)
  from rx_stale_bytes_delivered [OF this, of demo_rx rx_status_zero] show ?thesis
    by (simp add: demo_rx_def c2h_desc_1000_def)
qed

end
