(* ===== verification/Regs.thy ===== *)
theory Regs
  imports Regio
begin

text \<open>
  Register addresses (\<open>reg.h\<close>, \<open>sdio.h\<close>) and the bits, masks and sizes the register
  sequences use, as input abbreviations: a bit or mask takes the width of its context.
\<close>

section \<open>Addresses\<close>

abbreviation (input) REG_SYS_FUNC_EN :: u32 where "REG_SYS_FUNC_EN \<equiv> 0x0002"
abbreviation (input) REG_APS_FSMCO :: u32 where "REG_APS_FSMCO \<equiv> 0x0004"
abbreviation (input) REG_SYS_PW_CTRL :: u32 where "REG_SYS_PW_CTRL \<equiv> 0x0004"
abbreviation (input) REG_SYS_CLKR :: u32 where "REG_SYS_CLKR \<equiv> 0x0008"
abbreviation (input) REG_SYS_CLK_CTRL :: u32 where "REG_SYS_CLK_CTRL \<equiv> 0x0008"
abbreviation (input) REG_RSV_CTRL :: u32 where "REG_RSV_CTRL \<equiv> 0x001C"
abbreviation (input) REG_RF_CTRL :: u32 where "REG_RF_CTRL \<equiv> 0x001F"
abbreviation (input) REG_AFE_CTRL1 :: u32 where "REG_AFE_CTRL1 \<equiv> 0x0024"
abbreviation (input) REG_AFE_CTRL3 :: u32 where "REG_AFE_CTRL3 \<equiv> 0x002C"
abbreviation (input) REG_EFUSE_CTRL :: u32 where "REG_EFUSE_CTRL \<equiv> 0x0030"
abbreviation (input) REG_LDO_EFUSE_CTRL :: u32 where "REG_LDO_EFUSE_CTRL \<equiv> 0x0034"
abbreviation (input) REG_ACLK_MON :: u32 where "REG_ACLK_MON \<equiv> 0x003E"
abbreviation (input) REG_GPIO_MUXCFG :: u32 where "REG_GPIO_MUXCFG \<equiv> 0x0040"
abbreviation (input) REG_LED_CFG :: u32 where "REG_LED_CFG \<equiv> 0x004C"
abbreviation (input) REG_PAD_CTRL1 :: u32 where "REG_PAD_CTRL1 \<equiv> 0x0064"
abbreviation (input) REG_WL_BT_PWR_CTRL :: u32 where "REG_WL_BT_PWR_CTRL \<equiv> 0x0068"
abbreviation (input) REG_SYS_SDIO_CTRL :: u32 where "REG_SYS_SDIO_CTRL \<equiv> 0x0070"
abbreviation (input) REG_HCI_OPT_CTRL :: u32 where "REG_HCI_OPT_CTRL \<equiv> 0x0074"
abbreviation (input) REG_RF_B_CTRL :: u32 where "REG_RF_B_CTRL \<equiv> 0x0076"
abbreviation (input) REG_LDO_SWR_CTRL :: u32 where "REG_LDO_SWR_CTRL \<equiv> 0x007C"
abbreviation (input) REG_MCU_TST_CFG :: u32 where "REG_MCU_TST_CFG \<equiv> 0x0084"
abbreviation (input) REG_HIMR0 :: u32 where "REG_HIMR0 \<equiv> 0x00B0"
abbreviation (input) REG_HISR0 :: u32 where "REG_HISR0 \<equiv> 0x00B4"
abbreviation (input) REG_HIMR1 :: u32 where "REG_HIMR1 \<equiv> 0x00B8"
abbreviation (input) REG_HISR1 :: u32 where "REG_HISR1 \<equiv> 0x00BC"
abbreviation (input) REG_PAD_CTRL2 :: u32 where "REG_PAD_CTRL2 \<equiv> 0x00C4"
abbreviation (input) REG_EFUSE_ACCESS :: u32 where "REG_EFUSE_ACCESS \<equiv> 0x00CF"
abbreviation (input) REG_WLRF1 :: u32 where "REG_WLRF1 \<equiv> 0x00EC"
abbreviation (input) REG_SYS_CFG1 :: u32 where "REG_SYS_CFG1 \<equiv> 0x00F0"
abbreviation (input) REG_SYS_STATUS1 :: u32 where "REG_SYS_STATUS1 \<equiv> 0x00F4"
abbreviation (input) REG_SYS_CFG2 :: u32 where "REG_SYS_CFG2 \<equiv> 0x00FC"
abbreviation (input) REG_CR :: u32 where "REG_CR \<equiv> 0x0100"
abbreviation (input) REG_PBP :: u32 where "REG_PBP \<equiv> 0x0104"
abbreviation (input) REG_TXDMA_PQ_MAP :: u32 where "REG_TXDMA_PQ_MAP \<equiv> 0x010C"
abbreviation (input) REG_TRXFF_BNDY :: u32 where "REG_TRXFF_BNDY \<equiv> 0x0114"
abbreviation (input) REG_RXFF_BNDY :: u32 where "REG_RXFF_BNDY \<equiv> 0x011C"
abbreviation (input) REG_CPWM :: u32 where "REG_CPWM \<equiv> 0x012C"
abbreviation (input) REG_FWIMR :: u32 where "REG_FWIMR \<equiv> 0x0130"
abbreviation (input) REG_FWISR :: u32 where "REG_FWISR \<equiv> 0x0134"
abbreviation (input) REG_PKTBUF_DBG_CTRL :: u32 where "REG_PKTBUF_DBG_CTRL \<equiv> 0x0140"
abbreviation (input) REG_HMETFR :: u32 where "REG_HMETFR \<equiv> 0x01CC"
abbreviation (input) REG_HMEBOX0 :: u32 where "REG_HMEBOX0 \<equiv> 0x01D0"
abbreviation (input) REG_HMEBOX1 :: u32 where "REG_HMEBOX1 \<equiv> 0x01D4"
abbreviation (input) REG_HMEBOX2 :: u32 where "REG_HMEBOX2 \<equiv> 0x01D8"
abbreviation (input) REG_HMEBOX3 :: u32 where "REG_HMEBOX3 \<equiv> 0x01DC"
abbreviation (input) REG_LLT_INIT :: u32 where "REG_LLT_INIT \<equiv> 0x01E0"
abbreviation (input) REG_HMEBOX0_EX :: u32 where "REG_HMEBOX0_EX \<equiv> 0x01F0"
abbreviation (input) REG_HMEBOX1_EX :: u32 where "REG_HMEBOX1_EX \<equiv> 0x01F4"
abbreviation (input) REG_HMEBOX2_EX :: u32 where "REG_HMEBOX2_EX \<equiv> 0x01F8"
abbreviation (input) REG_HMEBOX3_EX :: u32 where "REG_HMEBOX3_EX \<equiv> 0x01FC"
abbreviation (input) REG_RQPN :: u32 where "REG_RQPN \<equiv> 0x0200"
abbreviation (input) REG_FIFOPAGE_CTRL_2 :: u32 where "REG_FIFOPAGE_CTRL_2 \<equiv> 0x0204"
abbreviation (input) REG_AUTO_LLT_V1 :: u32 where "REG_AUTO_LLT_V1 \<equiv> 0x0208"
abbreviation (input) REG_DWBCN0_CTRL :: u32 where "REG_DWBCN0_CTRL \<equiv> 0x0208"
abbreviation (input) REG_TXDMA_OFFSET_CHK :: u32 where "REG_TXDMA_OFFSET_CHK \<equiv> 0x020C"
abbreviation (input) REG_TXDMA_STATUS :: u32 where "REG_TXDMA_STATUS \<equiv> 0x0210"
abbreviation (input) REG_RQPN_NPQ :: u32 where "REG_RQPN_NPQ \<equiv> 0x0214"
abbreviation (input) REG_AUTO_LLT :: u32 where "REG_AUTO_LLT \<equiv> 0x0224"
abbreviation (input) REG_DWBCN1_CTRL :: u32 where "REG_DWBCN1_CTRL \<equiv> 0x0228"
abbreviation (input) REG_RQPN_CTRL_2 :: u32 where "REG_RQPN_CTRL_2 \<equiv> 0x022C"
abbreviation (input) REG_FIFOPAGE_INFO_1 :: u32 where "REG_FIFOPAGE_INFO_1 \<equiv> 0x0230"
abbreviation (input) REG_FIFOPAGE_INFO_2 :: u32 where "REG_FIFOPAGE_INFO_2 \<equiv> 0x0234"
abbreviation (input) REG_FIFOPAGE_INFO_3 :: u32 where "REG_FIFOPAGE_INFO_3 \<equiv> 0x0238"
abbreviation (input) REG_FIFOPAGE_INFO_4 :: u32 where "REG_FIFOPAGE_INFO_4 \<equiv> 0x023C"
abbreviation (input) REG_FIFOPAGE_INFO_5 :: u32 where "REG_FIFOPAGE_INFO_5 \<equiv> 0x0240"
abbreviation (input) REG_H2C_HEAD :: u32 where "REG_H2C_HEAD \<equiv> 0x0244"
abbreviation (input) REG_H2C_TAIL :: u32 where "REG_H2C_TAIL \<equiv> 0x0248"
abbreviation (input) REG_H2C_READ_ADDR :: u32 where "REG_H2C_READ_ADDR \<equiv> 0x024C"
abbreviation (input) REG_H2C_INFO :: u32 where "REG_H2C_INFO \<equiv> 0x0254"
abbreviation (input) REG_RXDMA_AGG_PG_TH :: u32 where "REG_RXDMA_AGG_PG_TH \<equiv> 0x0280"
abbreviation (input) REG_RXDMA_STATUS :: u32 where "REG_RXDMA_STATUS \<equiv> 0x0288"
abbreviation (input) REG_RXDMA_MODE :: u32 where "REG_RXDMA_MODE \<equiv> 0x0290"
abbreviation (input) REG_EARLY_MODE_CONTROL :: u32 where "REG_EARLY_MODE_CONTROL \<equiv> 0x02BC"
abbreviation (input) REG_TXPKT_EMPTY :: u32 where "REG_TXPKT_EMPTY \<equiv> 0x041A"
abbreviation (input) REG_FWHW_TXQ_CTRL :: u32 where "REG_FWHW_TXQ_CTRL \<equiv> 0x0420"
abbreviation (input) REG_HWSEQ_CTRL :: u32 where "REG_HWSEQ_CTRL \<equiv> 0x0423"
abbreviation (input) REG_BCNQ_BDNY :: u32 where "REG_BCNQ_BDNY \<equiv> 0x0424"
abbreviation (input) REG_BCNQ_BDNY_V1 :: u32 where "REG_BCNQ_BDNY_V1 \<equiv> 0x0424"
abbreviation (input) REG_MGQ_BDNY :: u32 where "REG_MGQ_BDNY \<equiv> 0x0425"
abbreviation (input) REG_SPEC_SIFS :: u32 where "REG_SPEC_SIFS \<equiv> 0x0428"
abbreviation (input) REG_RETRY_LIMIT :: u32 where "REG_RETRY_LIMIT \<equiv> 0x042A"
abbreviation (input) REG_RRSR :: u32 where "REG_RRSR \<equiv> 0x0440"
abbreviation (input) REG_ARFR0 :: u32 where "REG_ARFR0 \<equiv> 0x0444"
abbreviation (input) REG_ARFRH0 :: u32 where "REG_ARFRH0 \<equiv> 0x0448"
abbreviation (input) REG_ARFR1_V1 :: u32 where "REG_ARFR1_V1 \<equiv> 0x044C"
abbreviation (input) REG_ARFRH1_V1 :: u32 where "REG_ARFRH1_V1 \<equiv> 0x0450"
abbreviation (input) REG_CCK_CHECK :: u32 where "REG_CCK_CHECK \<equiv> 0x0454"
abbreviation (input) REG_AMPDU_MAX_TIME :: u32 where "REG_AMPDU_MAX_TIME \<equiv> 0x0456"
abbreviation (input) REG_BCNQ1_BDNY_V1 :: u32 where "REG_BCNQ1_BDNY_V1 \<equiv> 0x0456"
abbreviation (input) REG_AMPDU_MAX_LENGTH :: u32 where "REG_AMPDU_MAX_LENGTH \<equiv> 0x0458"
abbreviation (input) REG_WMAC_LBK_BF_HD :: u32 where "REG_WMAC_LBK_BF_HD \<equiv> 0x045D"
abbreviation (input) REG_FAST_EDCA_CTRL :: u32 where "REG_FAST_EDCA_CTRL \<equiv> 0x0460"
abbreviation (input) REG_DATA_SC :: u32 where "REG_DATA_SC \<equiv> 0x0483"
abbreviation (input) REG_ARFR2_V1 :: u32 where "REG_ARFR2_V1 \<equiv> 0x048C"
abbreviation (input) REG_ARFRH2_V1 :: u32 where "REG_ARFRH2_V1 \<equiv> 0x0490"
abbreviation (input) REG_ARFR3_V1 :: u32 where "REG_ARFR3_V1 \<equiv> 0x0494"
abbreviation (input) REG_ARFRH3_V1 :: u32 where "REG_ARFRH3_V1 \<equiv> 0x0498"
abbreviation (input) REG_ARFR4 :: u32 where "REG_ARFR4 \<equiv> 0x049C"
abbreviation (input) REG_ARFRH4 :: u32 where "REG_ARFRH4 \<equiv> 0x04A0"
abbreviation (input) REG_QUEUE_CTRL :: u32 where "REG_QUEUE_CTRL \<equiv> 0x04C6"
abbreviation (input) REG_SINGLE_AMPDU_CTRL :: u32 where "REG_SINGLE_AMPDU_CTRL \<equiv> 0x04C7"
abbreviation (input) REG_MAX_AGGR_NUM :: u32 where "REG_MAX_AGGR_NUM \<equiv> 0x04CA"
abbreviation (input) REG_BAR_MODE_CTRL :: u32 where "REG_BAR_MODE_CTRL \<equiv> 0x04CC"
abbreviation (input) REG_TX_RPT_CTRL :: u32 where "REG_TX_RPT_CTRL \<equiv> 0x04EC"
abbreviation (input) REG_TX_RPT_TIME :: u32 where "REG_TX_RPT_TIME \<equiv> 0x04F0"
abbreviation (input) REG_EDCA_VO_PARAM :: u32 where "REG_EDCA_VO_PARAM \<equiv> 0x0500"
abbreviation (input) REG_EDCA_VI_PARAM :: u32 where "REG_EDCA_VI_PARAM \<equiv> 0x0504"
abbreviation (input) REG_EDCA_BE_PARAM :: u32 where "REG_EDCA_BE_PARAM \<equiv> 0x0508"
abbreviation (input) REG_EDCA_BK_PARAM :: u32 where "REG_EDCA_BK_PARAM \<equiv> 0x050C"
abbreviation (input) REG_BCNTCFG :: u32 where "REG_BCNTCFG \<equiv> 0x0510"
abbreviation (input) REG_PIFS :: u32 where "REG_PIFS \<equiv> 0x0512"
abbreviation (input) REG_SIFS :: u32 where "REG_SIFS \<equiv> 0x0514"
abbreviation (input) REG_TXPAUSE :: u32 where "REG_TXPAUSE \<equiv> 0x0522"
abbreviation (input) REG_TBTT_PROHIBIT :: u32 where "REG_TBTT_PROHIBIT \<equiv> 0x0540"
abbreviation (input) REG_BCN_CTRL :: u32 where "REG_BCN_CTRL \<equiv> 0x0550"
abbreviation (input) REG_DRVERLYINT :: u32 where "REG_DRVERLYINT \<equiv> 0x0558"
abbreviation (input) REG_BCNDMATIM :: u32 where "REG_BCNDMATIM \<equiv> 0x0559"
abbreviation (input) REG_USTIME_TSF :: u32 where "REG_USTIME_TSF \<equiv> 0x055C"
abbreviation (input) REG_BCN_MAX_ERR :: u32 where "REG_BCN_MAX_ERR \<equiv> 0x055D"
abbreviation (input) REG_HIQ_NO_LMT_EN :: u32 where "REG_HIQ_NO_LMT_EN \<equiv> 0x05A7"
abbreviation (input) REG_DTIM_COUNTER_ROOT :: u32 where "REG_DTIM_COUNTER_ROOT \<equiv> 0x05A8"
abbreviation (input) REG_TCR :: u32 where "REG_TCR \<equiv> 0x0604"
abbreviation (input) REG_RCR :: u32 where "REG_RCR \<equiv> 0x0608"
abbreviation (input) REG_RX_PKT_LIMIT :: u32 where "REG_RX_PKT_LIMIT \<equiv> 0x060C"
abbreviation (input) REG_RX_DRVINFO_SZ :: u32 where "REG_RX_DRVINFO_SZ \<equiv> 0x060F"
abbreviation (input) REG_MAR :: u32 where "REG_MAR \<equiv> 0x0620"
abbreviation (input) REG_USTIME_EDCA :: u32 where "REG_USTIME_EDCA \<equiv> 0x0638"
abbreviation (input) REG_MAC_SPEC_SIFS :: u32 where "REG_MAC_SPEC_SIFS \<equiv> 0x063A"
abbreviation (input) REG_ACKTO :: u32 where "REG_ACKTO \<equiv> 0x0640"
abbreviation (input) REG_NAV_CTRL :: u32 where "REG_NAV_CTRL \<equiv> 0x0650"
abbreviation (input) REG_WMAC_TRXPTCL_CTL :: u32 where "REG_WMAC_TRXPTCL_CTL \<equiv> 0x0668"
abbreviation (input) RTW_SEC_CMD_REG :: u32 where "RTW_SEC_CMD_REG \<equiv> 0x0670"
abbreviation (input) REG_RXFLTMAP0 :: u32 where "REG_RXFLTMAP0 \<equiv> 0x06A0"
abbreviation (input) REG_RXFLTMAP1 :: u32 where "REG_RXFLTMAP1 \<equiv> 0x06A2"
abbreviation (input) REG_RXFLTMAP2 :: u32 where "REG_RXFLTMAP2 \<equiv> 0x06A4"
abbreviation (input) REG_WMAC_OPTION_FUNCTION :: u32 where "REG_WMAC_OPTION_FUNCTION \<equiv> 0x07D0"
abbreviation (input) REG_CCK_RPT_FORMAT :: u32 where "REG_CCK_RPT_FORMAT \<equiv> 0x0804"
abbreviation (input) REG_RXPSEL :: u32 where "REG_RXPSEL \<equiv> 0x0808"
abbreviation (input) REG_TXPSEL :: u32 where "REG_TXPSEL \<equiv> 0x080C"
abbreviation (input) REG_CCASEL :: u32 where "REG_CCASEL \<equiv> 0x082C"
abbreviation (input) REG_PDMFTH :: u32 where "REG_PDMFTH \<equiv> 0x0830"
abbreviation (input) REG_BWINDICATION :: u32 where "REG_BWINDICATION \<equiv> 0x0834"
abbreviation (input) REG_CCA2ND :: u32 where "REG_CCA2ND \<equiv> 0x0838"
abbreviation (input) REG_L1PKTH :: u32 where "REG_L1PKTH \<equiv> 0x0848"
abbreviation (input) REG_CLKTRK :: u32 where "REG_CLKTRK \<equiv> 0x0860"
abbreviation (input) REG_ADCCLK :: u32 where "REG_ADCCLK \<equiv> 0x08AC"
abbreviation (input) REG_HSSI_READ :: u32 where "REG_HSSI_READ \<equiv> 0x08B0"
abbreviation (input) REG_FPGA0_XCD_RF_PARA :: u32 where "REG_FPGA0_XCD_RF_PARA \<equiv> 0x08B4"
abbreviation (input) REG_RX_MCS_LIMIT :: u32 where "REG_RX_MCS_LIMIT \<equiv> 0x08BC"
abbreviation (input) REG_ADC160 :: u32 where "REG_ADC160 \<equiv> 0x08C4"
abbreviation (input) REG_ANTSEL_SW :: u32 where "REG_ANTSEL_SW \<equiv> 0x0900"
abbreviation (input) REG_DAC_RSTB :: u32 where "REG_DAC_RSTB \<equiv> 0x090C"
abbreviation (input) REG_SINGLE_TONE_CONT_TX :: u32 where "REG_SINGLE_TONE_CONT_TX \<equiv> 0x0914"
abbreviation (input) REG_IQK_COM00 :: u32 where "REG_IQK_COM00 \<equiv> 0x0978"
abbreviation (input) REG_IQK_COM32 :: u32 where "REG_IQK_COM32 \<equiv> 0x097C"
abbreviation (input) REG_IQK_COM64 :: u32 where "REG_IQK_COM64 \<equiv> 0x0980"
abbreviation (input) REG_IQK_COM96 :: u32 where "REG_IQK_COM96 \<equiv> 0x0984"
abbreviation (input) REG_FAS :: u32 where "REG_FAS \<equiv> 0x09A4"
abbreviation (input) REG_RXSB :: u32 where "REG_RXSB \<equiv> 0x0A00"
abbreviation (input) REG_CCK_RX :: u32 where "REG_CCK_RX \<equiv> 0x0A04"
abbreviation (input) REG_CCK_PD_TH :: u32 where "REG_CCK_PD_TH \<equiv> 0x0A0A"
abbreviation (input) REG_CCK0_FAREPORT :: u32 where "REG_CCK0_FAREPORT \<equiv> 0x0A2C"
abbreviation (input) REG_FA_CCK :: u32 where "REG_FA_CCK \<equiv> 0x0A5C"
abbreviation (input) REG_CNTRST :: u32 where "REG_CNTRST \<equiv> 0x0B58"
abbreviation (input) REG_3WIRE_SWA :: u32 where "REG_3WIRE_SWA \<equiv> 0x0C00"
abbreviation (input) REG_RX_IQC_AB_A :: u32 where "REG_RX_IQC_AB_A \<equiv> 0x0C10"
abbreviation (input) REG_TXSCALE_A :: u32 where "REG_TXSCALE_A \<equiv> 0x0C1C"
abbreviation (input) REG_TX_AGC_A_CCK_11_CCK_1 :: u32 where "REG_TX_AGC_A_CCK_11_CCK_1 \<equiv> 0x0C20"
abbreviation (input) REG_TX_PWR_TRAINING_A :: u32 where "REG_TX_PWR_TRAINING_A \<equiv> 0x0C54"
abbreviation (input) REG_CK_MONHA :: u32 where "REG_CK_MONHA \<equiv> 0x0C5C"
abbreviation (input) REG_AFE_PWR1_A :: u32 where "REG_AFE_PWR1_A \<equiv> 0x0C60"
abbreviation (input) REG_AFE_PWR2_A :: u32 where "REG_AFE_PWR2_A \<equiv> 0x0C64"
abbreviation (input) REG_RX_WAIT_CCA_TX_CCK_RFON_A :: u32 where "REG_RX_WAIT_CCA_TX_CCK_RFON_A \<equiv> 0x0C68"
abbreviation (input) REG_OFDM0_XA_TX_IQ_IMBALANCE :: u32 where "REG_OFDM0_XA_TX_IQ_IMBALANCE \<equiv> 0x0C80"
abbreviation (input) REG_OFDM0_A_TX_AFE :: u32 where "REG_OFDM0_A_TX_AFE \<equiv> 0x0C84"
abbreviation (input) REG_OFDM0_XB_TX_IQ_IMBALANCE :: u32 where "REG_OFDM0_XB_TX_IQ_IMBALANCE \<equiv> 0x0C88"
abbreviation (input) REG_TSSI_TRK_SW :: u32 where "REG_TSSI_TRK_SW \<equiv> 0x0C8C"
abbreviation (input) REG_LSSI_WRITE_A :: u32 where "REG_LSSI_WRITE_A \<equiv> 0x0C90"
abbreviation (input) REG_PREDISTA :: u32 where "REG_PREDISTA \<equiv> 0x0C90"
abbreviation (input) REG_TXAGCIDX :: u32 where "REG_TXAGCIDX \<equiv> 0x0C94"
abbreviation (input) REG_RFE_PINMUX_A :: u32 where "REG_RFE_PINMUX_A \<equiv> 0x0CB0"
abbreviation (input) REG_RFE_INV_A :: u32 where "REG_RFE_INV_A \<equiv> 0x0CB4"
abbreviation (input) REG_RFECTL_A :: u32 where "REG_RFECTL_A \<equiv> 0x0CB8"
abbreviation (input) REG_IQK_DPD_CFG :: u32 where "REG_IQK_DPD_CFG \<equiv> 0x0CC4"
abbreviation (input) REG_CFG_PMPD :: u32 where "REG_CFG_PMPD \<equiv> 0x0CC8"
abbreviation (input) REG_IQC_Y :: u32 where "REG_IQC_Y \<equiv> 0x0CCC"
abbreviation (input) REG_IQC_X :: u32 where "REG_IQC_X \<equiv> 0x0CD4"
abbreviation (input) REG_INTPO_SETA :: u32 where "REG_INTPO_SETA \<equiv> 0x0CE8"
abbreviation (input) REG_IQKA_END :: u32 where "REG_IQKA_END \<equiv> 0x0D00"
abbreviation (input) REG_PI_READ_A :: u32 where "REG_PI_READ_A \<equiv> 0x0D04"
abbreviation (input) REG_SI_READ_A :: u32 where "REG_SI_READ_A \<equiv> 0x0D08"
abbreviation (input) REG_IQKB_END :: u32 where "REG_IQKB_END \<equiv> 0x0D40"
abbreviation (input) REG_PI_READ_B :: u32 where "REG_PI_READ_B \<equiv> 0x0D44"
abbreviation (input) REG_SI_READ_B :: u32 where "REG_SI_READ_B \<equiv> 0x0D48"
abbreviation (input) REG_3WIRE_SWB :: u32 where "REG_3WIRE_SWB \<equiv> 0x0E00"
abbreviation (input) REG_RX_IQC_AB_B :: u32 where "REG_RX_IQC_AB_B \<equiv> 0x0E10"
abbreviation (input) REG_TXSCALE_B :: u32 where "REG_TXSCALE_B \<equiv> 0x0E1C"
abbreviation (input) REG_TX_AGC_B_CCK_11_CCK_1 :: u32 where "REG_TX_AGC_B_CCK_11_CCK_1 \<equiv> 0x0E20"
abbreviation (input) REG_TX_PWR_TRAINING_B :: u32 where "REG_TX_PWR_TRAINING_B \<equiv> 0x0E54"
abbreviation (input) REG_CK_MONHB :: u32 where "REG_CK_MONHB \<equiv> 0x0E5C"
abbreviation (input) REG_AFE_PWR1_B :: u32 where "REG_AFE_PWR1_B \<equiv> 0x0E60"
abbreviation (input) REG_AFE_PWR2_B :: u32 where "REG_AFE_PWR2_B \<equiv> 0x0E64"
abbreviation (input) REG_RX_WAIT_CCA_TX_CCK_RFON_B :: u32 where "REG_RX_WAIT_CCA_TX_CCK_RFON_B \<equiv> 0x0E68"
abbreviation (input) REG_TXTONEB :: u32 where "REG_TXTONEB \<equiv> 0x0E80"
abbreviation (input) REG_RXTONEB :: u32 where "REG_RXTONEB \<equiv> 0x0E84"
abbreviation (input) REG_TXPITMB :: u32 where "REG_TXPITMB \<equiv> 0x0E88"
abbreviation (input) REG_RXPITMB :: u32 where "REG_RXPITMB \<equiv> 0x0E8C"
abbreviation (input) REG_LSSI_WRITE_B :: u32 where "REG_LSSI_WRITE_B \<equiv> 0x0E90"
abbreviation (input) REG_PREDISTB :: u32 where "REG_PREDISTB \<equiv> 0x0E90"
abbreviation (input) REG_INIDLYB :: u32 where "REG_INIDLYB \<equiv> 0x0E94"
abbreviation (input) REG_RFE_PINMUX_B :: u32 where "REG_RFE_PINMUX_B \<equiv> 0x0EB0"
abbreviation (input) REG_RFE_INV_B :: u32 where "REG_RFE_INV_B \<equiv> 0x0EB4"
abbreviation (input) REG_RFECTL_B :: u32 where "REG_RFECTL_B \<equiv> 0x0EB8"
abbreviation (input) REG_BPBDB :: u32 where "REG_BPBDB \<equiv> 0x0EC4"
abbreviation (input) REG_PHYTXONB :: u32 where "REG_PHYTXONB \<equiv> 0x0EC8"
abbreviation (input) REG_IQKYB :: u32 where "REG_IQKYB \<equiv> 0x0ECC"
abbreviation (input) REG_IQKXB :: u32 where "REG_IQKXB \<equiv> 0x0ED4"
abbreviation (input) REG_INTPO_SETB :: u32 where "REG_INTPO_SETB \<equiv> 0x0EE8"
abbreviation (input) REG_CRC_CCK :: u32 where "REG_CRC_CCK \<equiv> 0x0F04"
abbreviation (input) REG_CCA_OFDM :: u32 where "REG_CCA_OFDM \<equiv> 0x0F08"
abbreviation (input) REG_CRC_VHT :: u32 where "REG_CRC_VHT \<equiv> 0x0F0C"
abbreviation (input) REG_CRC_HT :: u32 where "REG_CRC_HT \<equiv> 0x0F10"
abbreviation (input) REG_CRC_OFDM :: u32 where "REG_CRC_OFDM \<equiv> 0x0F14"
abbreviation (input) REG_FA_OFDM :: u32 where "REG_FA_OFDM \<equiv> 0x0F48"
abbreviation (input) REG_CCA_CCK :: u32 where "REG_CCA_CCK \<equiv> 0x0FCC"
abbreviation (input) REG_CPU_DMEM_CON :: u32 where "REG_CPU_DMEM_CON \<equiv> 0x1080"
abbreviation (input) REG_SW_MDIO :: u32 where "REG_SW_MDIO \<equiv> 0x10C0"
abbreviation (input) REG_H2C_PKT_READADDR :: u32 where "REG_H2C_PKT_READADDR \<equiv> 0x10D0"
abbreviation (input) REG_H2C_PKT_WRITEADDR :: u32 where "REG_H2C_PKT_WRITEADDR \<equiv> 0x10D4"
abbreviation (input) REG_FW_DBG6 :: u32 where "REG_FW_DBG6 \<equiv> 0x10F8"
abbreviation (input) REG_FW_DBG7 :: u32 where "REG_FW_DBG7 \<equiv> 0x10FC"
abbreviation (input) REG_CR_EXT :: u32 where "REG_CR_EXT \<equiv> 0x1100"
abbreviation (input) REG_FT1IMR :: u32 where "REG_FT1IMR \<equiv> 0x1138"
abbreviation (input) REG_FT1ISR :: u32 where "REG_FT1ISR \<equiv> 0x113C"
abbreviation (input) REG_DDMA_CH0SA :: u32 where "REG_DDMA_CH0SA \<equiv> 0x1200"
abbreviation (input) REG_DDMA_CH0DA :: u32 where "REG_DDMA_CH0DA \<equiv> 0x1204"
abbreviation (input) REG_DDMA_CH0CTRL :: u32 where "REG_DDMA_CH0CTRL \<equiv> 0x1208"
abbreviation (input) REG_H2CQ_CSR :: u32 where "REG_H2CQ_CSR \<equiv> 0x1330"
abbreviation (input) REG_EDCCA_REPORT :: u32 where "REG_EDCCA_REPORT \<equiv> 0x2D38"
abbreviation (input) REG_USB_MOD :: u32 where "REG_USB_MOD \<equiv> 0xF008"
abbreviation (input) REG_USB3_RXITV :: u32 where "REG_USB3_RXITV \<equiv> 0xF050"
abbreviation (input) REG_USB2_PHY_ADR :: u32 where "REG_USB2_PHY_ADR \<equiv> 0xFE40"
abbreviation (input) REG_USB2_PHY_DAT :: u32 where "REG_USB2_PHY_DAT \<equiv> 0xFE41"
abbreviation (input) REG_USB2_PHY_CMD :: u32 where "REG_USB2_PHY_CMD \<equiv> 0xFE42"
abbreviation (input) REG_USB_HRPWM :: u32 where "REG_USB_HRPWM \<equiv> 0xFE58"
abbreviation (input) REG_USB3_PHY_ADR :: u32 where "REG_USB3_PHY_ADR \<equiv> 0xFF0C"
abbreviation (input) REG_USB3_PHY_DAT_L :: u32 where "REG_USB3_PHY_DAT_L \<equiv> 0xFF0D"
abbreviation (input) REG_USB3_PHY_DAT_H :: u32 where "REG_USB3_PHY_DAT_H \<equiv> 0xFF0E"
abbreviation (input) REG_SDIO_TX_CTRL :: u32 where "REG_SDIO_TX_CTRL \<equiv> 0x10250000"
abbreviation (input) REG_SDIO_HIMR :: u32 where "REG_SDIO_HIMR \<equiv> 0x10250014"
abbreviation (input) REG_SDIO_FREE_TXPG :: u32 where "REG_SDIO_FREE_TXPG \<equiv> 0x10250020"
abbreviation (input) REG_SDIO_HSUS_CTRL :: u32 where "REG_SDIO_HSUS_CTRL \<equiv> 0x10250086"

section \<open>Bits, masks and sizes\<close>

abbreviation (input) APS_FSMCO_HW_POWERDOWN :: "'a::len word" where "APS_FSMCO_HW_POWERDOWN \<equiv> 0x8000"
abbreviation (input) APS_FSMCO_MAC_ENABLE :: "'a::len word" where "APS_FSMCO_MAC_ENABLE \<equiv> 0x100"
abbreviation (input) APS_FSMCO_MAC_OFF :: "'a::len word" where "APS_FSMCO_MAC_OFF \<equiv> 0x200"
abbreviation (input) BB_SWING_MASK :: "'a::len word" where "BB_SWING_MASK \<equiv> 0xFFE00000"
abbreviation (input) BCN_FILTER_CONNECTED :: "'a::len word" where "BCN_FILTER_CONNECTED \<equiv> 0x2"
abbreviation (input) BCN_FILTER_CONNECTION_LOSS :: "'a::len word" where "BCN_FILTER_CONNECTION_LOSS \<equiv> 0x1"
abbreviation (input) BCN_FILTER_NOTIFY_BEACON_LOSS :: "'a::len word" where "BCN_FILTER_NOTIFY_BEACON_LOSS \<equiv> 0x3"
abbreviation (input) BCN_FILTER_NOTIFY_SIGNAL_CHANGE :: "'a::len word" where "BCN_FILTER_NOTIFY_SIGNAL_CHANGE \<equiv> 0x0"
abbreviation (input) BCN_LOSS_CNT :: "'a::len word" where "BCN_LOSS_CNT \<equiv> 0xA"
abbreviation (input) BITS_EF_ADDR :: "'a::len word" where "BITS_EF_ADDR \<equiv> 0x3FF00"
abbreviation (input) BIT_32K_CAL_TMR_EN :: "'a::len word" where "BIT_32K_CAL_TMR_EN \<equiv> 0x400"
abbreviation (input) BIT_AAP :: "'a::len word" where "BIT_AAP \<equiv> 0x1"
abbreviation (input) BIT_ACRC32 :: "'a::len word" where "BIT_ACRC32 \<equiv> 0x100"
abbreviation (input) BIT_AM :: "'a::len word" where "BIT_AM \<equiv> 0x4"
abbreviation (input) BIT_ANA8M :: "'a::len word" where "BIT_ANA8M \<equiv> 0x2"
abbreviation (input) BIT_APP_PHYSTS :: "'a::len word" where "BIT_APP_PHYSTS \<equiv> 0x10000000"
abbreviation (input) BIT_AUTO_INIT_LLT :: "'a::len word" where "BIT_AUTO_INIT_LLT \<equiv> 0x10000"
abbreviation (input) BIT_AUTO_INIT_LLT_V1 :: "'a::len word" where "BIT_AUTO_INIT_LLT_V1 \<equiv> 0x1"
abbreviation (input) BIT_BCN_VALID :: "'a::len word" where "BIT_BCN_VALID \<equiv> 0x10000"
abbreviation (input) BIT_BCN_VALID_V1 :: "'a::len word" where "BIT_BCN_VALID_V1 \<equiv> 0x8000"
abbreviation (input) BIT_BOOT_FSPI_EN :: "'a::len word" where "BIT_BOOT_FSPI_EN \<equiv> 0x100000"
abbreviation (input) BIT_BT_FUNC_EN :: "'a::len word" where "BIT_BT_FUNC_EN \<equiv> 0x40000"
abbreviation (input) BIT_BT_PTA_EN :: "'a::len word" where "BIT_BT_PTA_EN \<equiv> 0x20"
abbreviation (input) BIT_CBSSID_BCN :: "'a::len word" where "BIT_CBSSID_BCN \<equiv> 0x80"
abbreviation (input) BIT_CBSSID_DATA :: "'a::len word" where "BIT_CBSSID_DATA \<equiv> 0x40"
abbreviation (input) BIT_CCK_RPT_FORMAT :: "'a::len word" where "BIT_CCK_RPT_FORMAT \<equiv> 0x10000"
abbreviation (input) BIT_CHECK_CCK_EN :: "'a::len word" where "BIT_CHECK_CCK_EN \<equiv> 0x80"
abbreviation (input) BIT_CHECK_SUM_OK :: "'a::len word" where "BIT_CHECK_SUM_OK \<equiv> 0x50"
abbreviation (input) BIT_CPU_CLK_EN :: "'a::len word" where "BIT_CPU_CLK_EN \<equiv> 0x4000"
abbreviation (input) BIT_DDMACH0_CHKSUM_CONT :: "'a::len word" where "BIT_DDMACH0_CHKSUM_CONT \<equiv> 0x1000000"
abbreviation (input) BIT_DDMACH0_CHKSUM_EN :: "'a::len word" where "BIT_DDMACH0_CHKSUM_EN \<equiv> 0x20000000"
abbreviation (input) BIT_DDMACH0_CHKSUM_STS :: "'a::len word" where "BIT_DDMACH0_CHKSUM_STS \<equiv> 0x8000000"
abbreviation (input) BIT_DDMACH0_DDMA_MODE :: "'a::len word" where "BIT_DDMACH0_DDMA_MODE \<equiv> 0x4000000"
abbreviation (input) BIT_DDMACH0_OWN :: "'a::len word" where "BIT_DDMACH0_OWN \<equiv> 0x80000000"
abbreviation (input) BIT_DDMACH0_RESET_CHKSUM_STS :: "'a::len word" where "BIT_DDMACH0_RESET_CHKSUM_STS \<equiv> 0x2000000"
abbreviation (input) BIT_DDMA_EN :: "'a::len word" where "BIT_DDMA_EN \<equiv> 0x100"
abbreviation (input) BIT_DISGCLK :: "'a::len word" where "BIT_DISGCLK \<equiv> 0x80000"
abbreviation (input) BIT_DIS_TSF_UDT :: "'a::len word" where "BIT_DIS_TSF_UDT \<equiv> 0x10"
abbreviation (input) BIT_DMEM_CHKSUM_OK :: "'a::len word" where "BIT_DMEM_CHKSUM_OK \<equiv> 0x40"
abbreviation (input) BIT_DMEM_DW_OK :: "'a::len word" where "BIT_DMEM_DW_OK \<equiv> 0x20"
abbreviation (input) BIT_DPDT_SEL_EN :: "'a::len word" where "BIT_DPDT_SEL_EN \<equiv> 0x800000"
abbreviation (input) BIT_DPDT_WL_SEL :: "'a::len word" where "BIT_DPDT_WL_SEL \<equiv> 0x1000000"
abbreviation (input) BIT_DROP_DATA_EN :: "'a::len word" where "BIT_DROP_DATA_EN \<equiv> 0x200"
abbreviation (input) BIT_EDCCA_FLAG :: "'a::len word" where "BIT_EDCCA_FLAG \<equiv> 0x1000000"
abbreviation (input) BIT_EF_FLAG :: "'a::len word" where "BIT_EF_FLAG \<equiv> 0x80000000"
abbreviation (input) BIT_ENSWBCN :: "'a::len word" where "BIT_ENSWBCN \<equiv> 0x100"
abbreviation (input) BIT_EN_BCNQ_DL :: "'a::len word" where "BIT_EN_BCNQ_DL \<equiv> 0x400000"
abbreviation (input) BIT_EN_BCN_FUNCTION :: "'a::len word" where "BIT_EN_BCN_FUNCTION \<equiv> 0x8"
abbreviation (input) BIT_EN_SIC :: "'a::len word" where "BIT_EN_SIC \<equiv> 0x1000"
abbreviation (input) BIT_EN_SINGLE_APMDU :: "'a::len word" where "BIT_EN_SINGLE_APMDU \<equiv> 0x80"
abbreviation (input) BIT_EN_WR_FREE_TAIL :: "'a::len word" where "BIT_EN_WR_FREE_TAIL \<equiv> 0x100000"
abbreviation (input) BIT_EXC_CODE :: "'a::len word" where "BIT_EXC_CODE \<equiv> 0x7C"
abbreviation (input) BIT_FEN_BB_GLB_RST :: "'a::len word" where "BIT_FEN_BB_GLB_RST \<equiv> 0x2"
abbreviation (input) BIT_FEN_BB_RSTB :: "'a::len word" where "BIT_FEN_BB_RSTB \<equiv> 0x1"
abbreviation (input) BIT_FEN_CPUEN :: "'a::len word" where "BIT_FEN_CPUEN \<equiv> 0x4"
abbreviation (input) BIT_FEN_ELDR :: "'a::len word" where "BIT_FEN_ELDR \<equiv> 0x1000"
abbreviation (input) BIT_FEN_PCIEA :: "'a::len word" where "BIT_FEN_PCIEA \<equiv> 0x40"
abbreviation (input) BIT_FEN_USBA :: "'a::len word" where "BIT_FEN_USBA \<equiv> 0x4"
abbreviation (input) BIT_FSPI_EN :: "'a::len word" where "BIT_FSPI_EN \<equiv> 0x80000"
abbreviation (input) BIT_FS_H2CCMD_INT :: "'a::len word" where "BIT_FS_H2CCMD_INT \<equiv> 0x10"
abbreviation (input) BIT_FS_H2CCMD_INT_EN :: "'a::len word" where "BIT_FS_H2CCMD_INT_EN \<equiv> 0x10"
abbreviation (input) BIT_FS_H2C_CMD_OK_INT :: "'a::len word" where "BIT_FS_H2C_CMD_OK_INT \<equiv> 0x2000000"
abbreviation (input) BIT_FS_H2C_CMD_OK_INT_EN :: "'a::len word" where "BIT_FS_H2C_CMD_OK_INT_EN \<equiv> 0x2000000"
abbreviation (input) BIT_FS_HRCV_INT :: "'a::len word" where "BIT_FS_HRCV_INT \<equiv> 0x20"
abbreviation (input) BIT_FS_HRCV_INT_EN :: "'a::len word" where "BIT_FS_HRCV_INT_EN \<equiv> 0x20"
abbreviation (input) BIT_FWDL_CHK_RPT :: "'a::len word" where "BIT_FWDL_CHK_RPT \<equiv> 0x4"
abbreviation (input) BIT_FW_DW_RDY :: "'a::len word" where "BIT_FW_DW_RDY \<equiv> 0x4000"
abbreviation (input) BIT_H2CQ_FULL :: "'a::len word" where "BIT_H2CQ_FULL \<equiv> 0x80000000"
abbreviation (input) BIT_HCI_RESUME_RDY :: "'a::len word" where "BIT_HCI_RESUME_RDY \<equiv> 0x2"
abbreviation (input) BIT_HCI_RXDMA_EN :: "'a::len word" where "BIT_HCI_RXDMA_EN \<equiv> 0x2"
abbreviation (input) BIT_HCI_SUS_REQ :: "'a::len word" where "BIT_HCI_SUS_REQ \<equiv> 0x1"
abbreviation (input) BIT_HCI_TXDMA_EN :: "'a::len word" where "BIT_HCI_TXDMA_EN \<equiv> 0x1"
abbreviation (input) BIT_HIGH_QUEUE :: "'a::len word" where "BIT_HIGH_QUEUE \<equiv> 0x20"
abbreviation (input) BIT_IMEM_CHKSUM_OK :: "'a::len word" where "BIT_IMEM_CHKSUM_OK \<equiv> 0x10"
abbreviation (input) BIT_IMEM_DW_OK :: "'a::len word" where "BIT_IMEM_DW_OK \<equiv> 0x8"
abbreviation (input) BIT_INT_BOX_ALL :: "'a::len word" where "BIT_INT_BOX_ALL \<equiv> 0xF"
abbreviation (input) BIT_LDO :: "'a::len word" where "BIT_LDO \<equiv> 0x1000000"
abbreviation (input) BIT_LD_RQPN :: "'a::len word" where "BIT_LD_RQPN \<equiv> 0x80000000"
abbreviation (input) BIT_LLT_WRITE_ACCESS :: "'a::len word" where "BIT_LLT_WRITE_ACCESS \<equiv> 0x40000000"
abbreviation (input) BIT_LNAON_SEL_EN :: "'a::len word" where "BIT_LNAON_SEL_EN \<equiv> 0x4000000"
abbreviation (input) BIT_LNAON_WLBT_SEL :: "'a::len word" where "BIT_LNAON_WLBT_SEL \<equiv> 0x10000000"
abbreviation (input) BIT_LOADER_CLK_EN :: "'a::len word" where "BIT_LOADER_CLK_EN \<equiv> 0x20"
abbreviation (input) BIT_MACRXEN :: "'a::len word" where "BIT_MACRXEN \<equiv> 0x80"
abbreviation (input) BIT_MACTXEN :: "'a::len word" where "BIT_MACTXEN \<equiv> 0x40"
abbreviation (input) BIT_MAC_CLK_SEL :: "'a::len word" where "BIT_MAC_CLK_SEL \<equiv> 0x300000"
abbreviation (input) BIT_MAC_SEC_EN :: "'a::len word" where "BIT_MAC_SEC_EN \<equiv> 0x200"
abbreviation (input) BIT_MASK_AIFS :: "'a::len word" where "BIT_MASK_AIFS \<equiv> 0xFF"
abbreviation (input) BIT_MASK_BCN_HEAD_1_V1 :: "'a::len word" where "BIT_MASK_BCN_HEAD_1_V1 \<equiv> 0xFFF"
abbreviation (input) BIT_MASK_BLK_DESC_NUM :: "'a::len word" where "BIT_MASK_BLK_DESC_NUM \<equiv> 0xF0"
abbreviation (input) BIT_MASK_CWMAX :: "'a::len word" where "BIT_MASK_CWMAX \<equiv> 0xF000"
abbreviation (input) BIT_MASK_CWMIN :: "'a::len word" where "BIT_MASK_CWMIN \<equiv> 0xF00"
abbreviation (input) BIT_MASK_DDMACH0_DLEN :: "'a::len word" where "BIT_MASK_DDMACH0_DLEN \<equiv> 0x3FFFF"
abbreviation (input) BIT_MASK_EFUSE_BANK_SEL :: "'a::len word" where "BIT_MASK_EFUSE_BANK_SEL \<equiv> 0x300"
abbreviation (input) BIT_MASK_EF_ADDR :: "'a::len word" where "BIT_MASK_EF_ADDR \<equiv> 0x3FF"
abbreviation (input) BIT_MASK_EF_DATA :: "'a::len word" where "BIT_MASK_EF_DATA \<equiv> 0xFF"
abbreviation (input) BIT_MASK_TXOP_LMT :: "'a::len word" where "BIT_MASK_TXOP_LMT \<equiv> 0x7FF0000"
abbreviation (input) BIT_MCUFWDL_EN :: "'a::len word" where "BIT_MCUFWDL_EN \<equiv> 0x1"
abbreviation (input) BIT_MCUFWDL_RDY :: "'a::len word" where "BIT_MCUFWDL_RDY \<equiv> 0x2"
abbreviation (input) BIT_PAPE_SEL_EN :: "'a::len word" where "BIT_PAPE_SEL_EN \<equiv> 0x2000000"
abbreviation (input) BIT_PAPE_WLBT_SEL :: "'a::len word" where "BIT_PAPE_WLBT_SEL \<equiv> 0x20000000"
abbreviation (input) BIT_PFM_WOWL :: "'a::len word" where "BIT_PFM_WOWL \<equiv> 0x8"
abbreviation (input) BIT_PROTOCOL_EN :: "'a::len word" where "BIT_PROTOCOL_EN \<equiv> 0x10"
abbreviation (input) BIT_PWRMGT_HWDATA_EN :: "'a::len word" where "BIT_PWRMGT_HWDATA_EN \<equiv> 0x80"
abbreviation (input) BIT_RAM_DL_SEL :: "'a::len word" where "BIT_RAM_DL_SEL \<equiv> 0x80"
abbreviation (input) BIT_RFMOD :: "'a::len word" where "BIT_RFMOD \<equiv> 0x180"
abbreviation (input) BIT_RFMOD_40M :: "'a::len word" where "BIT_RFMOD_40M \<equiv> 0x80"
abbreviation (input) BIT_RFMOD_80M :: "'a::len word" where "BIT_RFMOD_80M \<equiv> 0x100"
abbreviation (input) BIT_RF_EN :: "'a::len word" where "BIT_RF_EN \<equiv> 0x1"
abbreviation (input) BIT_RF_RSTB :: "'a::len word" where "BIT_RF_RSTB \<equiv> 0x2"
abbreviation (input) BIT_RF_SDM_RSTB :: "'a::len word" where "BIT_RF_SDM_RSTB \<equiv> 0x4"
abbreviation (input) BIT_ROM_DLEN :: "'a::len word" where "BIT_ROM_DLEN \<equiv> 0x80000"
abbreviation (input) BIT_RPWM_TOGGLE :: "'a::len word" where "BIT_RPWM_TOGGLE \<equiv> 0x80"
abbreviation (input) BIT_RXDMA_ARBBW_EN :: "'a::len word" where "BIT_RXDMA_ARBBW_EN \<equiv> 0x1"
abbreviation (input) BIT_RXDMA_EN :: "'a::len word" where "BIT_RXDMA_EN \<equiv> 0x8"
abbreviation (input) BIT_RX_PSEL_RST :: "'a::len word" where "BIT_RX_PSEL_RST \<equiv> 0x30000000"
abbreviation (input) BIT_SCHEDULE_EN :: "'a::len word" where "BIT_SCHEDULE_EN \<equiv> 0x20"
abbreviation (input) BIT_SDIO_PAD_E5 :: "'a::len word" where "BIT_SDIO_PAD_E5 \<equiv> 0x40000"
abbreviation (input) BIT_TCR_UPDATE_HGQMD :: "'a::len word" where "BIT_TCR_UPDATE_HGQMD \<equiv> 0x10"
abbreviation (input) BIT_TCR_UPDATE_TIMIE :: "'a::len word" where "BIT_TCR_UPDATE_TIMIE \<equiv> 0x20"
abbreviation (input) BIT_TXDMA_EN :: "'a::len word" where "BIT_TXDMA_EN \<equiv> 0x4"
abbreviation (input) BIT_USB_SUS_DIS :: "'a::len word" where "BIT_USB_SUS_DIS \<equiv> 0x100"
abbreviation (input) BIT_WAKEPAD_EN :: "'a::len word" where "BIT_WAKEPAD_EN \<equiv> 0x8"
abbreviation (input) BIT_WINTINI_RDY :: "'a::len word" where "BIT_WINTINI_RDY \<equiv> 0x40"
abbreviation (input) BIT_WLMCU_IOIF :: "'a::len word" where "BIT_WLMCU_IOIF \<equiv> 0x1"
abbreviation (input) BIT_WLRF1_BBRF_EN :: "'a::len word" where "BIT_WLRF1_BBRF_EN \<equiv> 0x7000000"
abbreviation (input) BIT_WLRFE_4_5_EN :: "'a::len word" where "BIT_WLRFE_4_5_EN \<equiv> 0x4"
abbreviation (input) BIT_WL_PLATFORM_RST :: "'a::len word" where "BIT_WL_PLATFORM_RST \<equiv> 0x10000"
abbreviation (input) BTI_PAGE_OVF :: "'a::len word" where "BTI_PAGE_OVF \<equiv> 0x4"
abbreviation (input) C2H_PKT_BUF :: "'a::len word" where "C2H_PKT_BUF \<equiv> 0x100"
abbreviation (input) CCK_FA_AVG_RESET :: "'a::len word" where "CCK_FA_AVG_RESET \<equiv> 0xFFFFFFFF"
abbreviation (input) DLFW_BLK_SIZE_LEGACY :: "'a::len word" where "DLFW_BLK_SIZE_LEGACY \<equiv> 0x4"
abbreviation (input) EFUSE_ACCESS_OFF :: "'a::len word" where "EFUSE_ACCESS_OFF \<equiv> 0x0"
abbreviation (input) EFUSE_ACCESS_ON :: "'a::len word" where "EFUSE_ACCESS_ON \<equiv> 0x69"
abbreviation (input) FW_HDR_CHKSUM_SIZE :: "'a::len word" where "FW_HDR_CHKSUM_SIZE \<equiv> 0x8"
abbreviation (input) FW_HDR_SIZE :: "'a::len word" where "FW_HDR_SIZE \<equiv> 0x40"
abbreviation (input) FW_READY :: "'a::len word" where "FW_READY \<equiv> 0xC078"
abbreviation (input) FW_READY_LEGACY :: "'a::len word" where "FW_READY_LEGACY \<equiv> 0xC6"
abbreviation (input) FW_READY_MASK :: "'a::len word" where "FW_READY_MASK \<equiv> 0xCFFF"
abbreviation (input) H2C_CMD_ADAPTIVITY :: "'a::len word" where "H2C_CMD_ADAPTIVITY \<equiv> 0x5A"
abbreviation (input) H2C_CMD_AOAC_GLOBAL_INFO :: "'a::len word" where "H2C_CMD_AOAC_GLOBAL_INFO \<equiv> 0x82"
abbreviation (input) H2C_CMD_BCN_FILTER_OFFLOAD_P0 :: "'a::len word" where "H2C_CMD_BCN_FILTER_OFFLOAD_P0 \<equiv> 0x56"
abbreviation (input) H2C_CMD_BCN_FILTER_OFFLOAD_P1 :: "'a::len word" where "H2C_CMD_BCN_FILTER_OFFLOAD_P1 \<equiv> 0x57"
abbreviation (input) H2C_CMD_BT_WIFI_CONTROL :: "'a::len word" where "H2C_CMD_BT_WIFI_CONTROL \<equiv> 0x69"
abbreviation (input) H2C_CMD_COEX_TDMA_TYPE :: "'a::len word" where "H2C_CMD_COEX_TDMA_TYPE \<equiv> 0x60"
abbreviation (input) H2C_CMD_DEFAULT_PORT :: "'a::len word" where "H2C_CMD_DEFAULT_PORT \<equiv> 0x2C"
abbreviation (input) H2C_CMD_DISCONNECT_DECISION :: "'a::len word" where "H2C_CMD_DISCONNECT_DECISION \<equiv> 0x4"
abbreviation (input) H2C_CMD_FORCE_BT_TX_POWER :: "'a::len word" where "H2C_CMD_FORCE_BT_TX_POWER \<equiv> 0x62"
abbreviation (input) H2C_CMD_IGNORE_WLAN_ACTION :: "'a::len word" where "H2C_CMD_IGNORE_WLAN_ACTION \<equiv> 0x63"
abbreviation (input) H2C_CMD_KEEP_ALIVE :: "'a::len word" where "H2C_CMD_KEEP_ALIVE \<equiv> 0x3"
abbreviation (input) H2C_CMD_LPS_PG_INFO :: "'a::len word" where "H2C_CMD_LPS_PG_INFO \<equiv> 0x2B"
abbreviation (input) H2C_CMD_MEDIA_STATUS_RPT :: "'a::len word" where "H2C_CMD_MEDIA_STATUS_RPT \<equiv> 0x1"
abbreviation (input) H2C_CMD_NLO_INFO :: "'a::len word" where "H2C_CMD_NLO_INFO \<equiv> 0x8C"
abbreviation (input) H2C_CMD_QUERY_BT_HID_INFO :: "'a::len word" where "H2C_CMD_QUERY_BT_HID_INFO \<equiv> 0x73"
abbreviation (input) H2C_CMD_QUERY_BT_INFO :: "'a::len word" where "H2C_CMD_QUERY_BT_INFO \<equiv> 0x61"
abbreviation (input) H2C_CMD_QUERY_BT_MP_INFO :: "'a::len word" where "H2C_CMD_QUERY_BT_MP_INFO \<equiv> 0x67"
abbreviation (input) H2C_CMD_RA_INFO :: "'a::len word" where "H2C_CMD_RA_INFO \<equiv> 0x40"
abbreviation (input) H2C_CMD_RA_INFO_HI :: "'a::len word" where "H2C_CMD_RA_INFO_HI \<equiv> 0x46"
abbreviation (input) H2C_CMD_RECOVER_BT_DEV :: "'a::len word" where "H2C_CMD_RECOVER_BT_DEV \<equiv> 0xD1"
abbreviation (input) H2C_CMD_REMOTE_WAKE_CTRL :: "'a::len word" where "H2C_CMD_REMOTE_WAKE_CTRL \<equiv> 0x81"
abbreviation (input) H2C_CMD_RSSI_MONITOR :: "'a::len word" where "H2C_CMD_RSSI_MONITOR \<equiv> 0x42"
abbreviation (input) H2C_CMD_RSVD_PAGE :: "'a::len word" where "H2C_CMD_RSVD_PAGE \<equiv> 0x0"
abbreviation (input) H2C_CMD_SCAN :: "'a::len word" where "H2C_CMD_SCAN \<equiv> 0x59"
abbreviation (input) H2C_CMD_SET_PWR_MODE :: "'a::len word" where "H2C_CMD_SET_PWR_MODE \<equiv> 0x20"
abbreviation (input) H2C_CMD_WIFI_CALIBRATION :: "'a::len word" where "H2C_CMD_WIFI_CALIBRATION \<equiv> 0x6D"
abbreviation (input) H2C_CMD_WL_CH_INFO :: "'a::len word" where "H2C_CMD_WL_CH_INFO \<equiv> 0x66"
abbreviation (input) H2C_CMD_WL_PHY_INFO :: "'a::len word" where "H2C_CMD_WL_PHY_INFO \<equiv> 0x58"
abbreviation (input) H2C_CMD_WOWLAN :: "'a::len word" where "H2C_CMD_WOWLAN \<equiv> 0x80"
abbreviation (input) H2C_PKT_CH_SWITCH :: "'a::len word" where "H2C_PKT_CH_SWITCH \<equiv> 0x2"
abbreviation (input) H2C_PKT_CH_SWITCH_LEN :: "'a::len word" where "H2C_PKT_CH_SWITCH_LEN \<equiv> 0x20"
abbreviation (input) H2C_PKT_GENERAL_INFO :: "'a::len word" where "H2C_PKT_GENERAL_INFO \<equiv> 0xD"
abbreviation (input) H2C_PKT_IQK :: "'a::len word" where "H2C_PKT_IQK \<equiv> 0xE"
abbreviation (input) H2C_PKT_PHYDM_INFO :: "'a::len word" where "H2C_PKT_PHYDM_INFO \<equiv> 0x11"
abbreviation (input) H2C_PKT_UPDATE_PKT :: "'a::len word" where "H2C_PKT_UPDATE_PKT \<equiv> 0xC"
abbreviation (input) INV_RF_DATA :: "'a::len word" where "INV_RF_DATA \<equiv> 0xFFFFFFFF"
abbreviation (input) LDO_SEL :: "'a::len word" where "LDO_SEL \<equiv> 0xC3"
abbreviation (input) LTECOEX_READY :: "'a::len word" where "LTECOEX_READY \<equiv> 0x20000000"
abbreviation (input) MAC_CLK_HW_DEF_80M :: "'a::len word" where "MAC_CLK_HW_DEF_80M \<equiv> 0x0"
abbreviation (input) MAC_CLK_SPEED :: "'a::len word" where "MAC_CLK_SPEED \<equiv> 0x50"
abbreviation (input) MAC_TRX_ENABLE :: "'a::len word" where "MAC_TRX_ENABLE \<equiv> 0xFF"
abbreviation (input) MASKBYTE0 :: "'a::len word" where "MASKBYTE0 \<equiv> 0xFF"
abbreviation (input) MASKDWORD :: "'a::len word" where "MASKDWORD \<equiv> 0xFFFFFFFF"
abbreviation (input) MASKLWORD :: "'a::len word" where "MASKLWORD \<equiv> 0xFFFF"
abbreviation (input) OCPBASE_DMEM_88XX :: "'a::len word" where "OCPBASE_DMEM_88XX \<equiv> 0x200000"
abbreviation (input) OCPBASE_RXBUF_FW_88XX :: "'a::len word" where "OCPBASE_RXBUF_FW_88XX \<equiv> 0x18680000"
abbreviation (input) OCPBASE_TXBUF_88XX :: "'a::len word" where "OCPBASE_TXBUF_88XX \<equiv> 0x18780000"
abbreviation (input) PBP_512 :: "'a::len word" where "PBP_512 \<equiv> 0x3"
abbreviation (input) PBP_64 :: "'a::len word" where "PBP_64 \<equiv> 0x0"
abbreviation (input) PBP_RX_MASK :: "'a::len word" where "PBP_RX_MASK \<equiv> 0xF"
abbreviation (input) PBP_TX_MASK :: "'a::len word" where "PBP_TX_MASK \<equiv> 0xF0"
abbreviation (input) REPORT_BUF :: "'a::len word" where "REPORT_BUF \<equiv> 0x80"
abbreviation (input) RF18_BAND_MASK :: "'a::len word" where "RF18_BAND_MASK \<equiv> 0x10300"
abbreviation (input) RF18_BW_MASK :: "'a::len word" where "RF18_BW_MASK \<equiv> 0xC00"
abbreviation (input) RF18_CHANNEL_MASK :: "'a::len word" where "RF18_CHANNEL_MASK \<equiv> 0xFF"
abbreviation (input) RF18_RFSI_MASK :: "'a::len word" where "RF18_RFSI_MASK \<equiv> 0x60000"
abbreviation (input) RFE_INV_MASK :: "'a::len word" where "RFE_INV_MASK \<equiv> 0x3FF00000"
abbreviation (input) RFREG_MASK :: "'a::len word" where "RFREG_MASK \<equiv> 0xFFFFF"
abbreviation (input) RF_CFGCH :: "'a::len word" where "RF_CFGCH \<equiv> 0x18"
abbreviation (input) RF_DTXLOK :: "'a::len word" where "RF_DTXLOK \<equiv> 0x8"
abbreviation (input) RF_LCK :: "'a::len word" where "RF_LCK \<equiv> 0xB4"
abbreviation (input) RF_LUTWE :: "'a::len word" where "RF_LUTWE \<equiv> 0xEF"
abbreviation (input) RF_MODE_TABLE_ADDR :: "'a::len word" where "RF_MODE_TABLE_ADDR \<equiv> 0x30"
abbreviation (input) RF_MODE_TABLE_DATA0 :: "'a::len word" where "RF_MODE_TABLE_DATA0 \<equiv> 0x31"
abbreviation (input) RF_MODE_TABLE_DATA1 :: "'a::len word" where "RF_MODE_TABLE_DATA1 \<equiv> 0x32"
abbreviation (input) RF_RXBB2 :: "'a::len word" where "RF_RXBB2 \<equiv> 0x8F"
abbreviation (input) RF_TXA_PREPAD :: "'a::len word" where "RF_TXA_PREPAD \<equiv> 0x65"
abbreviation (input) RF_TXMOD :: "'a::len word" where "RF_TXMOD \<equiv> 0x58"
abbreviation (input) RF_T_METER :: "'a::len word" where "RF_T_METER \<equiv> 0x42"
abbreviation (input) RSVD_PG_CPU_INSTRUCTION_NUM :: "'a::len word" where "RSVD_PG_CPU_INSTRUCTION_NUM \<equiv> 0x0"
abbreviation (input) RSVD_PG_FW_TXBUF_NUM :: "'a::len word" where "RSVD_PG_FW_TXBUF_NUM \<equiv> 0x4"
abbreviation (input) RSVD_PG_H2CQ_NUM :: "'a::len word" where "RSVD_PG_H2CQ_NUM \<equiv> 0x8"
abbreviation (input) RSVD_PG_H2C_EXTRAINFO_NUM :: "'a::len word" where "RSVD_PG_H2C_EXTRAINFO_NUM \<equiv> 0x18"
abbreviation (input) RSVD_PG_H2C_STATICINFO_NUM :: "'a::len word" where "RSVD_PG_H2C_STATICINFO_NUM \<equiv> 0x8"
abbreviation (input) RTW_CHANNEL_WIDTH_MAX :: "'a::len word" where "RTW_CHANNEL_WIDTH_MAX \<equiv> 0x3"
abbreviation (input) RTW_DEFAULT_CQM_HYST :: "'a::len word" where "RTW_DEFAULT_CQM_HYST \<equiv> 0x4"
abbreviation (input) RTW_MAX_CHANNEL_NUM_2G :: "'a::len word" where "RTW_MAX_CHANNEL_NUM_2G \<equiv> 0xE"
abbreviation (input) RTW_MAX_CHANNEL_NUM_5G :: "'a::len word" where "RTW_MAX_CHANNEL_NUM_5G \<equiv> 0x31"
abbreviation (input) RTW_MAX_MAC_ID_NUM :: "'a::len word" where "RTW_MAX_MAC_ID_NUM \<equiv> 0x20"
abbreviation (input) RTW_PWR_ADDR_MAC :: "'a::len word" where "RTW_PWR_ADDR_MAC \<equiv> 0x0"
abbreviation (input) RTW_PWR_ADDR_SDIO :: "'a::len word" where "RTW_PWR_ADDR_SDIO \<equiv> 0x3"
abbreviation (input) RTW_PWR_CMD_DELAY :: "'a::len word" where "RTW_PWR_CMD_DELAY \<equiv> 0x3"
abbreviation (input) RTW_PWR_CMD_END :: "'a::len word" where "RTW_PWR_CMD_END \<equiv> 0x4"
abbreviation (input) RTW_PWR_CMD_POLLING :: "'a::len word" where "RTW_PWR_CMD_POLLING \<equiv> 0x2"
abbreviation (input) RTW_PWR_CMD_READ :: "'a::len word" where "RTW_PWR_CMD_READ \<equiv> 0x0"
abbreviation (input) RTW_PWR_CMD_WRITE :: "'a::len word" where "RTW_PWR_CMD_WRITE \<equiv> 0x1"
abbreviation (input) RTW_PWR_CUT_ALL_MSK :: "'a::len word" where "RTW_PWR_CUT_ALL_MSK \<equiv> 0xFF"
abbreviation (input) RTW_PWR_INTF_ALL_MSK :: "'a::len word" where "RTW_PWR_INTF_ALL_MSK \<equiv> 0xF"
abbreviation (input) RTW_PWR_INTF_PCI_MSK :: "'a::len word" where "RTW_PWR_INTF_PCI_MSK \<equiv> 0x4"
abbreviation (input) RTW_PWR_INTF_SDIO_MSK :: "'a::len word" where "RTW_PWR_INTF_SDIO_MSK \<equiv> 0x1"
abbreviation (input) RTW_PWR_INTF_USB_MSK :: "'a::len word" where "RTW_PWR_INTF_USB_MSK \<equiv> 0x2"
abbreviation (input) RTW_SEC_CMD_POLLING :: "'a::len word" where "RTW_SEC_CMD_POLLING \<equiv> 0x80000000"
abbreviation (input) RTW_SEC_CMD_WRITE_ENABLE :: "'a::len word" where "RTW_SEC_CMD_WRITE_ENABLE \<equiv> 0x10000"
abbreviation (input) RTW_SEC_CONFIG :: "'a::len word" where "RTW_SEC_CONFIG \<equiv> 0x680"
abbreviation (input) RTW_SEC_DEFAULT_KEY_NUM :: "'a::len word" where "RTW_SEC_DEFAULT_KEY_NUM \<equiv> 0x4"
abbreviation (input) RTW_SEC_ENGINE_EN :: "'a::len word" where "RTW_SEC_ENGINE_EN \<equiv> 0x200"
abbreviation (input) RTW_SEC_RX_BC_USE_DK :: "'a::len word" where "RTW_SEC_RX_BC_USE_DK \<equiv> 0x80"
abbreviation (input) RTW_SEC_RX_DEC_EN :: "'a::len word" where "RTW_SEC_RX_DEC_EN \<equiv> 0x8"
abbreviation (input) RTW_SEC_RX_UNI_USE_DK :: "'a::len word" where "RTW_SEC_RX_UNI_USE_DK \<equiv> 0x2"
abbreviation (input) RTW_SEC_TX_BC_USE_DK :: "'a::len word" where "RTW_SEC_TX_BC_USE_DK \<equiv> 0x40"
abbreviation (input) RTW_SEC_TX_DEC_EN :: "'a::len word" where "RTW_SEC_TX_DEC_EN \<equiv> 0x4"
abbreviation (input) RTW_SEC_TX_UNI_USE_DK :: "'a::len word" where "RTW_SEC_TX_UNI_USE_DK \<equiv> 0x1"
abbreviation (input) RTW_SEC_WRITE_REG :: "'a::len word" where "RTW_SEC_WRITE_REG \<equiv> 0x674"
abbreviation (input) SDIO_LOCAL_OFFSET :: "'a::len word" where "SDIO_LOCAL_OFFSET \<equiv> 0x10250000"
abbreviation (input) SPS_SEL :: "'a::len word" where "SPS_SEL \<equiv> 0x83"
abbreviation (input) WLAN_BCN_DMA_TIME :: "'a::len word" where "WLAN_BCN_DMA_TIME \<equiv> 0x2"
abbreviation (input) WLAN_TBTT_TIME :: "'a::len word" where "WLAN_TBTT_TIME \<equiv> 0x6404"

end
