(* ===== verification/UsbLifecycle.thy ===== *)
theory UsbLifecycle
  imports UsbCtrl Regs
begin

text \<open>
  Bringing an adapter up and down (\<open>usb.c\<close>): burst and aggregation settings, the switch to
  USB 3, the PHY parameter tables, and the resources probe and disconnect acquire and
  release. Register routines are state transformers over any record extending \<open>hw\<close>.
\<close>

datatype usb_device_speed = USB_SPEED_SUPER | USB_SPEED_HIGH | USB_SPEED_FULL

section \<open>Register fields\<close>

abbreviation (input) BIT_DMA_BURST_CNT :: u8 where "BIT_DMA_BURST_CNT \<equiv> GENMASK 3 2"
abbreviation (input) BIT_DMA_MODE :: u8 where "BIT_DMA_MODE \<equiv> BIT 1"
abbreviation (input) BIT_DMA_BURST_SIZE :: u8 where "BIT_DMA_BURST_SIZE \<equiv> GENMASK 5 4"
abbreviation (input) BIT_DMA_BURST_SIZE_1024 :: u8 where "BIT_DMA_BURST_SIZE_1024 \<equiv> 0"
abbreviation (input) BIT_DMA_BURST_SIZE_512 :: u8 where "BIT_DMA_BURST_SIZE_512 \<equiv> 1"
abbreviation (input) BIT_DMA_BURST_SIZE_64 :: u8 where "BIT_DMA_BURST_SIZE_64 \<equiv> 2"
abbreviation (input) BIT_DROP_DATA_EN :: u16 where "BIT_DROP_DATA_EN \<equiv> BIT 9"
abbreviation (input) BIT_RXDMA_AGG_EN :: u8 where "BIT_RXDMA_AGG_EN \<equiv> BIT 2"
abbreviation (input) BIT_RXDMA_AGG_PG_TH :: u16 where "BIT_RXDMA_AGG_PG_TH \<equiv> GENMASK 7 0"
abbreviation (input) BIT_DMA_AGG_TO_V1 :: u16 where "BIT_DMA_AGG_TO_V1 \<equiv> GENMASK 15 8"
abbreviation (input) BIT_MASK_USB23_SW_MODE_V1 :: u32 where "BIT_MASK_USB23_SW_MODE_V1 \<equiv> GENMASK 19 18"
abbreviation (input) BIT_USB3_USB2_TRANSITION :: u32 where "BIT_USB3_USB2_TRANSITION \<equiv> BIT 20"
abbreviation (input) BIT_USB_MODE_U3 :: u32 where "BIT_USB_MODE_U3 \<equiv> 2"
abbreviation (input) BIT_RSM_EN_V1 :: u32 where "BIT_RSM_EN_V1 \<equiv> BIT 16"
abbreviation (input) BIT_APFM_OFFMAC :: u16 where "BIT_APFM_OFFMAC \<equiv> BIT 9"
abbreviation (input) BIT_NO_PDN_CHIPOFF_V1 :: u32 where "BIT_NO_PDN_CHIPOFF_V1 \<equiv> BIT 17"
abbreviation (input) BIT_USB3_PHY_ADR_WR :: u8 where "BIT_USB3_PHY_ADR_WR \<equiv> BIT 7"
abbreviation (input) BIT_USB2_PHY_CMD_TRG :: u8 where "BIT_USB2_PHY_CMD_TRG \<equiv> 0x81"

section \<open>Burst length and receive aggregation\<close>

definition rtw_usb_init_burst_pkt_len :: "usb_device_speed \<Rightarrow> ('x hw_scheme, unit) state" where
  "rtw_usb_init_burst_pkt_len speed =
     (let rxdma = BIT_DMA_BURST_CNT OR BIT_DMA_MODE;
          burst_size = (if speed = USB_SPEED_SUPER then BIT_DMA_BURST_SIZE_1024
                        else if speed = USB_SPEED_HIGH then BIT_DMA_BURST_SIZE_512
                        else BIT_DMA_BURST_SIZE_64);
          rxdma = replace_bits rxdma burst_size BIT_DMA_BURST_SIZE
      in do { rtw_write8 REG_RXDMA_MODE rxdma;
              rtw_write16_set REG_TXDMA_OFFSET_CHK BIT_DROP_DATA_EN })"

definition rtw_usb_interface_cfg :: "usb_device_speed \<Rightarrow> ('x hw_scheme, unit) state" where
  "rtw_usb_interface_cfg speed = rtw_usb_init_burst_pkt_len speed"

definition rx_agg_val :: "u16 \<Rightarrow> u16 \<Rightarrow> u16" where
  "rx_agg_val size' timeout = encode_bits size' BIT_RXDMA_AGG_PG_TH OR encode_bits timeout BIT_DMA_AGG_TO_V1"

definition rtw_usb_dynamic_rx_agg_v1 :: "bool \<Rightarrow> ('x hw_scheme, unit) state" where
  "rtw_usb_dynamic_rx_agg_v1 enable =
     do { rtw_write8_set REG_TXDMA_PQ_MAP BIT_RXDMA_AGG_EN;
          rtw_write8_clr (REG_RXDMA_AGG_PG_TH + 3) (BIT 7);
          rtw_write16 REG_RXDMA_AGG_PG_TH
            (if enable then rx_agg_val 0x5 0x20 else rx_agg_val 0x0 0x1) }"

definition rtw_usb_dynamic_rx_agg_v2 :: "usb_device_speed \<Rightarrow> bool \<Rightarrow> ('x hw_scheme, unit) state" where
  "rtw_usb_dynamic_rx_agg_v2 speed enable =
     do { rtw_write16 REG_RXDMA_AGG_PG_TH
            (if \<not> enable then rx_agg_val 0x0 0x1
             else if speed = USB_SPEED_SUPER then rx_agg_val 0x6 0x1a
             else rx_agg_val 0x5 0x20);
          rtw_write8_set REG_TXDMA_PQ_MAP BIT_RXDMA_AGG_EN }"

fun rtw_usb_dynamic_rx_agg ::
    "chip_type \<Rightarrow> usb_device_speed \<Rightarrow> bool \<Rightarrow> ('x hw_scheme, unit) state" where
  "rtw_usb_dynamic_rx_agg RTW_CHIP_TYPE_8822C speed enable = rtw_usb_dynamic_rx_agg_v1 enable"
| "rtw_usb_dynamic_rx_agg RTW_CHIP_TYPE_8822B speed enable = rtw_usb_dynamic_rx_agg_v1 enable"
| "rtw_usb_dynamic_rx_agg RTW_CHIP_TYPE_8821C speed enable = rtw_usb_dynamic_rx_agg_v1 enable"
| "rtw_usb_dynamic_rx_agg RTW_CHIP_TYPE_8814A speed enable = rtw_usb_dynamic_rx_agg_v1 enable"
| "rtw_usb_dynamic_rx_agg RTW_CHIP_TYPE_8821A speed enable = rtw_usb_dynamic_rx_agg_v2 speed enable"
| "rtw_usb_dynamic_rx_agg RTW_CHIP_TYPE_8812A speed enable = rtw_usb_dynamic_rx_agg_v2 speed enable"
| "rtw_usb_dynamic_rx_agg RTW_CHIP_TYPE_8723D speed enable = State_Monad.return ()"
| "rtw_usb_dynamic_rx_agg RTW_CHIP_TYPE_8703B speed enable = State_Monad.return ()"

section \<open>Switching to USB 3\<close>

definition rtw_usb_switch_mode_old :: "usb_device_speed \<Rightarrow> ('x hw_scheme, int) state" where
  "rtw_usb_switch_mode_old cur_speed =
     (if cur_speed = USB_SPEED_HIGH
      then do { hci_opt \<leftarrow> rtw_read8 REG_HCI_OPT_CTRL;
                if hci_opt AND (BIT 2 OR BIT 3) \<noteq> BIT 3
                then do { rtw_write8 REG_HCI_OPT_CTRL 0x8;
                          rtw_write8 REG_SYS_SDIO_CTRL 0x2;
                          rtw_write8 REG_ACLK_MON 0x1;
                          rtw_write8 0x3d 0x3;
                          rtw_write8 (REG_SYS_PW_CTRL + 1) 0x80;
                          State_Monad.return 1 }
                else State_Monad.return 0 }
      else if cur_speed = USB_SPEED_SUPER
      then do { rtw_write8_clr REG_SYS_SDIO_CTRL (BIT 1);
                rtw_write8_clr REG_ACLK_MON (BIT 0);
                State_Monad.return 0 }
      else State_Monad.return 0)"

text \<open>The part of \<open>rtw_usb_switch_mode_new\<close> that performs the switch.\<close>

definition usb3_switch :: "chip_type \<Rightarrow> u32 \<Rightarrow> ('x hw_scheme, int) state" where
  "usb3_switch chip pad_ctrl2 =
     do { (if chip = RTW_CHIP_TYPE_8822B \<or> chip = RTW_CHIP_TYPE_8821C
           then rtw_write8_clr (REG_SW_MDIO + 3) (BIT 0) else State_Monad.return ());
          rtw_write32 REG_PAD_CTRL2
            (replace_bits pad_ctrl2 BIT_USB_MODE_U3 BIT_MASK_USB23_SW_MODE_V1 OR BIT_RSM_EN_V1);
          rtw_write8 (REG_PAD_CTRL2 + 1) 4;
          rtw_write16_set REG_SYS_PW_CTRL BIT_APFM_OFFMAC;
          delay_us 1000;
          rtw_write32_set REG_PAD_CTRL2 BIT_NO_PDN_CHIPOFF_V1;
          State_Monad.return 1 }"

definition rtw_usb_switch_mode_new :: "chip_type \<Rightarrow> ('x hw_scheme, int) state" where
  "rtw_usb_switch_mode_new chip =
     do { cfg2 \<leftarrow> rtw_read8 (REG_SYS_CFG2 + 3);
          if cfg2 = 0x20 then State_Monad.return 0
          else do { pad_ctrl2 \<leftarrow> rtw_read32 REG_PAD_CTRL2;
                    if pad_ctrl2 AND (BIT_MASK_USB23_SW_MODE_V1 OR BIT_USB3_USB2_TRANSITION) = 0
                    then State_Monad.return 0
                    else if get_bits pad_ctrl2 BIT_MASK_USB23_SW_MODE_V1 = BIT_USB_MODE_U3
                    then State_Monad.return 0
                    else usb3_switch chip pad_ctrl2 } }"

definition rtw_usb3_chip_old :: "chip_type \<Rightarrow> bool" where
  "rtw_usb3_chip_old chip \<longleftrightarrow> chip = RTW_CHIP_TYPE_8812A \<or> chip = RTW_CHIP_TYPE_8814A"

definition rtw_usb3_chip_new :: "chip_type \<Rightarrow> bool" where
  "rtw_usb3_chip_new chip \<longleftrightarrow> chip = RTW_CHIP_TYPE_8822C \<or> chip = RTW_CHIP_TYPE_8822B"

text \<open>\<open>param\<close> is the module parameter, \<open>efuse_ok\<close> is \<open>efuse.usb_mode_switch\<close>.\<close>

definition rtw_usb_switch_mode ::
    "chip_type \<Rightarrow> usb_device_speed \<Rightarrow> bool \<Rightarrow> bool \<Rightarrow> ('x hw_scheme, int) state" where
  "rtw_usb_switch_mode chip speed efuse_ok param =
     (if \<not> rtw_usb3_chip_new chip \<and> \<not> rtw_usb3_chip_old chip then State_Monad.return 0
      else if \<not> efuse_ok then State_Monad.return 0
      else if \<not> param then State_Monad.return 0
      else if rtw_usb3_chip_old chip then rtw_usb_switch_mode_old speed
      else rtw_usb_switch_mode_new chip)"

section \<open>PHY parameters\<close>

definition USB_REG_PAGE :: u8 where "USB_REG_PAGE = 0xf4"
definition USB_PHY_PAGE0 :: u8 where "USB_PHY_PAGE0 = 0x9b"
definition USB_PHY_PAGE1 :: u8 where "USB_PHY_PAGE1 = 0xbb"
definition RTW_IP_SEL_MAC :: u16 where "RTW_IP_SEL_MAC = 1"

record rtw_intf_phy_para =
  para_offset :: u16
  para_value :: u16
  para_ip_sel :: u16
  para_cut_mask :: u16

record rtw_intf_phy_para_table =
  usb2_para :: "rtw_intf_phy_para list option"
  usb3_para :: "rtw_intf_phy_para list option"

definition rtw_usb_phy_write :: "u8 \<Rightarrow> u16 \<Rightarrow> usb_device_speed \<Rightarrow> ('x hw_scheme, unit) state" where
  "rtw_usb_phy_write addr data speed =
     (if speed = USB_SPEED_SUPER
      then do { rtw_write8 REG_USB3_PHY_DAT_L (ucast (data AND 0xff));
                rtw_write8 REG_USB3_PHY_DAT_H (ucast (drop_bit 8 data));
                rtw_write8 REG_USB3_PHY_ADR (addr OR BIT_USB3_PHY_ADR_WR) }
      else if speed = USB_SPEED_HIGH
      then do { rtw_write8 REG_USB2_PHY_DAT (ucast data);
                rtw_write8 REG_USB2_PHY_ADR addr;
                rtw_write8 REG_USB2_PHY_CMD BIT_USB2_PHY_CMD_TRG }
      else State_Monad.return ())"

definition rtw_usb_page_switch :: "usb_device_speed \<Rightarrow> u8 \<Rightarrow> ('x hw_scheme, unit) state" where
  "rtw_usb_page_switch speed page =
     (if speed = USB_SPEED_SUPER then State_Monad.return ()
      else rtw_usb_phy_write USB_REG_PAGE (ucast page) speed)"

text \<open>The loop ends at the entry with offset \<open>0xffff\<close>; a table without one ends with the list.\<close>

fun rtw_usb_phy_cfg_loop ::
    "rtw_intf_phy_para list \<Rightarrow> nat \<Rightarrow> usb_device_speed \<Rightarrow> ('x hw_scheme, unit) state" where
  "rtw_usb_phy_cfg_loop [] cut_version speed = State_Monad.return ()"
| "rtw_usb_phy_cfg_loop (para # paras) cut_version speed =
     (if para_offset para = 0xffff then State_Monad.return ()
      else if \<not> test_mask (para_cut_mask para) (BIT cut_version)
      then rtw_usb_phy_cfg_loop paras cut_version speed
      else do { (if para_ip_sel para = RTW_IP_SEL_MAC
                then rtw_write8 (ucast (para_offset para)) (ucast (para_value para))
                else do { (if para_offset para > 0x100
                           then rtw_usb_page_switch speed USB_PHY_PAGE1
                           else rtw_usb_page_switch speed USB_PHY_PAGE0);
                          rtw_usb_phy_write (ucast (para_offset para AND 0xff)) (para_value para) speed });
                rtw_usb_phy_cfg_loop paras cut_version speed })"

definition rtw_usb_phy_cfg ::
    "rtw_intf_phy_para_table option \<Rightarrow> nat \<Rightarrow> usb_device_speed \<Rightarrow> ('x hw_scheme, unit) state" where
  "rtw_usb_phy_cfg intf_table cut_version speed =
     (case intf_table of
        None \<Rightarrow> State_Monad.return ()
      | Some t \<Rightarrow>
          (case (if speed = USB_SPEED_SUPER then usb3_para t
                 else if speed = USB_SPEED_HIGH then usb2_para t else None) of
             None \<Rightarrow> State_Monad.return ()
           | Some paras \<Rightarrow> rtw_usb_phy_cfg_loop paras cut_version speed))"

section \<open>Probe and disconnect\<close>

text \<open>
  What probe acquires. The state is the list of the resources held, the newest first, and
  a log of the releases; releasing what is not held is recorded as an error.
\<close>

datatype usb_res = ResHw | ResRxUrbs | ResCore | ResUsbData | ResTxWq | ResRxWq | ResHwRegistered

record usb_life =
  res_held :: "usb_res list"
  res_released :: "usb_res list"
  res_errors :: nat
  intfdata :: bool
  rx_started :: bool

definition life_start :: usb_life where
  "life_start = \<lparr>res_held = [], res_released = [], res_errors = 0, intfdata = False, rx_started = False\<rparr>"

definition acquire :: "usb_res \<Rightarrow> usb_life \<Rightarrow> usb_life" where
  "acquire r s = s\<lparr>res_held := r # res_held s\<rparr>"

definition release :: "usb_res \<Rightarrow> usb_life \<Rightarrow> usb_life" where
  "release r s =
     (if r \<in> set (res_held s)
      then s\<lparr>res_held := remove1 r (res_held s), res_released := res_released s @ [r]\<rparr>
      else s\<lparr>res_errors := Suc (res_errors s)\<rparr>)"

text \<open>The outcome of every call probe makes, 0 for success.\<close>

record probe_env =
  env_alloc_hw :: bool
  env_rx_urbs :: "bool list"        \<comment> \<open>\<open>usb_alloc_urb\<close>, one per control block\<close>
  env_core_init :: int
  env_parse :: int
  env_usb_data :: bool
  env_txwq :: bool
  env_rxwq :: bool
  env_chip_info :: int
  env_switch :: int                 \<comment> \<open>\<open>rtw_usb_switch_mode\<close>\<close>
  env_register :: int

definition rtw_usb_alloc_rx_bufs :: "probe_env \<Rightarrow> usb_life \<Rightarrow> int \<times> usb_life" where
  "rtw_usb_alloc_rx_bufs e s =
     (let s = acquire ResRxUrbs s
      in if list_all id (env_rx_urbs e) then (0, s) else (- ENOMEM, release ResRxUrbs s))"

definition rtw_usb_intf_init :: "probe_env \<Rightarrow> usb_life \<Rightarrow> int \<times> usb_life" where
  "rtw_usb_intf_init e s =
     (if env_parse e \<noteq> 0 then (env_parse e, s)
      else if \<not> env_usb_data e then (- ENOMEM, s)
      else (0, (acquire ResUsbData s)\<lparr>intfdata := True\<rparr>))"

definition rtw_usb_intf_deinit :: "usb_life \<Rightarrow> usb_life" where
  "rtw_usb_intf_deinit s = (release ResUsbData s)\<lparr>intfdata := False\<rparr>"

definition life_init_tx :: "probe_env \<Rightarrow> usb_life \<Rightarrow> int \<times> usb_life" where
  "life_init_tx e s = (if env_txwq e then (0, acquire ResTxWq s) else (- ENOMEM, s))"

definition life_init_rx :: "probe_env \<Rightarrow> usb_life \<Rightarrow> int \<times> usb_life" where
  "life_init_rx e s = (if env_rxwq e then (0, acquire ResRxWq s) else (- ENOMEM, s))"

text \<open>The error labels of \<open>rtw_usb_probe\<close>, each falling through to the next.\<close>

definition err_release_hw :: "usb_life \<Rightarrow> usb_life" where
  "err_release_hw s = release ResHw s"

definition err_free_rx_bufs :: "usb_life \<Rightarrow> usb_life" where
  "err_free_rx_bufs s = err_release_hw (release ResRxUrbs s)"

definition err_deinit_core :: "usb_life \<Rightarrow> usb_life" where
  "err_deinit_core s = err_free_rx_bufs (release ResCore s)"

definition err_destroy_usb :: "usb_life \<Rightarrow> usb_life" where
  "err_destroy_usb s = err_deinit_core (rtw_usb_intf_deinit s)"

definition err_destroy_txwq :: "usb_life \<Rightarrow> usb_life" where
  "err_destroy_txwq s = err_destroy_usb (release ResTxWq s)"

definition err_destroy_rxwq :: "usb_life \<Rightarrow> usb_life" where
  "err_destroy_rxwq s = err_destroy_txwq (release ResRxWq s)"

definition rtw_usb_probe :: "probe_env \<Rightarrow> usb_life \<Rightarrow> int \<times> usb_life" where
  "rtw_usb_probe e s =
     (if \<not> env_alloc_hw e then (- ENOMEM, s)
      else let s = acquire ResHw s; (ret, s) = rtw_usb_alloc_rx_bufs e s
      in if ret \<noteq> 0 then (ret, err_release_hw s)
      else if env_core_init e \<noteq> 0 then (env_core_init e, err_free_rx_bufs s)
      else let s = acquire ResCore s; (ret, s) = rtw_usb_intf_init e s
      in if ret \<noteq> 0 then (ret, err_deinit_core s)
      else let (ret, s) = life_init_tx e s
      in if ret \<noteq> 0 then (ret, err_destroy_usb s)
      else let (ret, s) = life_init_rx e s
      in if ret \<noteq> 0 then (ret, err_destroy_txwq s)
      else if env_chip_info e \<noteq> 0 then (env_chip_info e, err_destroy_rxwq s)
      else if env_switch e \<noteq> 0 then (0, err_destroy_rxwq s)
      else if env_register e \<noteq> 0 then (env_register e, err_destroy_rxwq s)
      else (0, (acquire ResHwRegistered s)\<lparr>rx_started := True\<rparr>))"

definition rtw_usb_disconnect :: "usb_life \<Rightarrow> usb_life" where
  "rtw_usb_disconnect s =
     (if \<not> intfdata s then s
      else let s = s\<lparr>rx_started := False\<rparr>;
               s = release ResHwRegistered s;
               s = release ResTxWq s;
               s = release ResRxWq s;
               s = release ResRxUrbs s;
               s = rtw_usb_intf_deinit s;
               s = release ResCore s
           in release ResHw s)"

lemma acquire_fields [simp]:
  "res_held (acquire r s) = r # res_held s" "res_released (acquire r s) = res_released s"
  "res_errors (acquire r s) = res_errors s" "intfdata (acquire r s) = intfdata s"
  "rx_started (acquire r s) = rx_started s"
  by (simp_all add: acquire_def)

lemma release_fields [simp]:
  "res_held (release r s) = remove1 r (res_held s)"
  "res_released (release r s) = (if r \<in> set (res_held s) then res_released s @ [r] else res_released s)"
  "res_errors (release r s) = (if r \<in> set (res_held s) then res_errors s else Suc (res_errors s))"
  "intfdata (release r s) = intfdata s" "rx_started (release r s) = rx_started s"
  by (simp_all add: release_def remove1_idem)

lemma life_start_fields [simp]:
  "res_held life_start = []" "res_released life_start = []" "res_errors life_start = 0"
  "\<not> intfdata life_start" "\<not> rx_started life_start"
  by (simp_all add: life_start_def)

section \<open>Properties\<close>

text \<open>
  Property C10. Probe unwinds: whatever fails, every resource acquired is released exactly
  once, in the reverse order, and nothing else is released; if the adapter is switching to
  USB 3, probe reports success with everything released. Otherwise everything is held and
  reception has started. A later disconnect, in every case, leaves nothing held and releases
  nothing twice.
\<close>

theorem usb_probe_disconnect_balanced:
  "case rtw_usb_probe e life_start of (ret, s) \<Rightarrow>
     res_errors s = 0
   \<and> (ret \<noteq> 0 \<or> env_switch e \<noteq> 0 \<longrightarrow>
        res_held s = [] \<and> \<not> intfdata s \<and> \<not> rx_started s
        \<and> res_released s = drop (7 - length (res_released s))
            [ResHwRegistered, ResRxWq, ResTxWq, ResUsbData, ResCore, ResRxUrbs, ResHw]
        \<and> rtw_usb_disconnect s = s)
   \<and> (ret = 0 \<and> env_switch e = 0 \<longrightarrow>
        res_held s = [ResHwRegistered, ResRxWq, ResTxWq, ResUsbData, ResCore, ResRxUrbs, ResHw]
        \<and> intfdata s \<and> rx_started s
        \<and> res_held (rtw_usb_disconnect s) = [] \<and> res_errors (rtw_usb_disconnect s) = 0
        \<and> \<not> intfdata (rtw_usb_disconnect s)
        \<and> mset (res_released (rtw_usb_disconnect s)) = mset (res_held s))"
proof -
  have neg: "- ENOMEM \<noteq> (0 :: int)" by simp
  note probe_simps = rtw_usb_probe_def rtw_usb_disconnect_def rtw_usb_alloc_rx_bufs_def
      rtw_usb_intf_init_def life_init_tx_def life_init_rx_def
      err_release_hw_def err_free_rx_bufs_def err_deinit_core_def err_destroy_usb_def
      err_destroy_txwq_def err_destroy_rxwq_def rtw_usb_intf_deinit_def Let_def
  consider (hw) "\<not> env_alloc_hw e"
    | (urbs) "env_alloc_hw e" "\<not> list_all id (env_rx_urbs e)"
    | (core) "env_alloc_hw e" "list_all id (env_rx_urbs e)" "env_core_init e \<noteq> 0"
    | (parse) "env_alloc_hw e" "list_all id (env_rx_urbs e)" "env_core_init e = 0" "env_parse e \<noteq> 0"
    | (buf) "env_alloc_hw e" "list_all id (env_rx_urbs e)" "env_core_init e = 0" "env_parse e = 0"
        "\<not> env_usb_data e"
    | (txwq) "env_alloc_hw e" "list_all id (env_rx_urbs e)" "env_core_init e = 0" "env_parse e = 0"
        "env_usb_data e" "\<not> env_txwq e"
    | (rxwq) "env_alloc_hw e" "list_all id (env_rx_urbs e)" "env_core_init e = 0" "env_parse e = 0"
        "env_usb_data e" "env_txwq e" "\<not> env_rxwq e"
    | (late) "env_alloc_hw e" "list_all id (env_rx_urbs e)" "env_core_init e = 0" "env_parse e = 0"
        "env_usb_data e" "env_txwq e" "env_rxwq e"
    by blast
  then show ?thesis
  proof cases
    case late
    consider "env_chip_info e \<noteq> 0" | "env_chip_info e = 0" "env_switch e \<noteq> 0"
      | "env_chip_info e = 0" "env_switch e = 0" "env_register e \<noteq> 0"
      | "env_chip_info e = 0" "env_switch e = 0" "env_register e = 0" by blast
    then show ?thesis
      by cases (use late in \<open>simp_all add: probe_simps\<close>)
  qed (simp_all add: probe_simps)
qed

definition demo_probe_env :: probe_env where
  "demo_probe_env = \<lparr>env_alloc_hw = True, env_rx_urbs = [True, True, True, True], env_core_init = 0,
     env_parse = 0, env_usb_data = True, env_txwq = True, env_rxwq = True, env_chip_info = 0,
     env_switch = 1, env_register = 0\<rparr>"

theorem usb_probe_disconnect_balanced_witness:
  "fst (rtw_usb_probe demo_probe_env life_start) = 0
   \<and> res_held (snd (rtw_usb_probe demo_probe_env life_start)) = []
   \<and> res_held (snd (rtw_usb_probe (demo_probe_env\<lparr>env_switch := 0\<rparr>) life_start)) =
      [ResHwRegistered, ResRxWq, ResTxWq, ResUsbData, ResCore, ResRxUrbs, ResHw]"
proof -
  have ret: "fst (rtw_usb_probe demo_probe_env life_start) = 0"
      "fst (rtw_usb_probe (demo_probe_env\<lparr>env_switch := 0\<rparr>) life_start) = 0"
    by (simp_all add: rtw_usb_probe_def rtw_usb_alloc_rx_bufs_def rtw_usb_intf_init_def
        life_init_tx_def life_init_rx_def demo_probe_env_def Let_def)
  with usb_probe_disconnect_balanced [of demo_probe_env]
    usb_probe_disconnect_balanced [of "demo_probe_env\<lparr>env_switch := 0\<rparr>"]
  show ?thesis
    by (simp add: case_prod_beta demo_probe_env_def)
qed

lemma usb3_mode_kept:
  "get_bits (replace_bits v BIT_USB_MODE_U3 BIT_MASK_USB23_SW_MODE_V1 OR BIT_RSM_EN_V1 OR b)
     BIT_MASK_USB23_SW_MODE_V1 = BIT_USB_MODE_U3"
  if "b = 0 \<or> b = BIT_NO_PDN_CHIPOFF_V1"
  using that
proof -
  have "get_bits (x OR (BIT 16 OR b)) (GENMASK 19 18) = get_bits (x :: u32) (GENMASK 19 18)" for x
    using that by (auto intro!: bit_word_eqI simp: field_bits bit_simps)
  moreover have "get_bits (replace_bits v BIT_USB_MODE_U3 (GENMASK 19 18)) (GENMASK 19 18) = (2 :: u32)"
    by (simp add: field_rules)
  ultimately show ?thesis
    by (simp add: or.assoc)
qed

text \<open>
  The switch to USB 3 is tried once: when the newer chips' switch runs, the
  value it leaves in \<open>REG_PAD_CTRL2\<close>, also after the last bit it sets there, has the
  USB 3 mode; and with such a value a probe decides against a switch without writing any
  register. So an adapter in a USB 2 port does not re-enumerate forever.
\<close>

theorem usb3_switch_once:
  assumes "run_state (rtw_usb_switch_mode_new chip) s = (1, s')"
  shows "\<exists>v. Wr 4 REG_PAD_CTRL2 v \<in> set (io_log s')
    \<and> (\<forall>t chip'. (dev_read t (io_log t @ [Rd 1 (REG_SYS_CFG2 + 3) (take_bit 8 (dev_read t (io_log t) 1 (REG_SYS_CFG2 + 3)))]) 4 REG_PAD_CTRL2
              \<in> {v, v OR BIT_NO_PDN_CHIPOFF_V1})
          \<longrightarrow> fst (run_state (rtw_usb_switch_mode_new chip') t) = 0
            \<and> (\<exists>ls. io_log (snd (run_state (rtw_usb_switch_mode_new chip') t)) = io_log t @ ls
                  \<and> (\<forall>l \<in> set ls. \<exists>w a x. l = Rd w a x)))"
proof -
  define pad where "pad = dev_read s (io_log s @ [Rd 1 (REG_SYS_CFG2 + 3)
    (take_bit 8 (dev_read s (io_log s) 1 (REG_SYS_CFG2 + 3)))]) 4 REG_PAD_CTRL2"
  define v where "v = replace_bits pad BIT_USB_MODE_U3 BIT_MASK_USB23_SW_MODE_V1 OR BIT_RSM_EN_V1"
  have "Wr 4 REG_PAD_CTRL2 v \<in> set (io_log s')"
    using assms
    by (auto simp: rtw_usb_switch_mode_new_def usb3_switch_def v_def pad_def rtw_write16_set_def
        rtw_write32_set_def rtw_write8_clr_def split: if_splits)
  moreover have "get_bits x BIT_MASK_USB23_SW_MODE_V1 = BIT_USB_MODE_U3"
    if "x \<in> {v, v OR BIT_NO_PDN_CHIPOFF_V1}" for x
    using that usb3_mode_kept [of 0 pad] usb3_mode_kept [of BIT_NO_PDN_CHIPOFF_V1 pad]
    by (auto simp: v_def or.assoc)
  ultimately show ?thesis
    by (intro exI [of _ v]) (auto simp: rtw_usb_switch_mode_new_def)
qed

definition demo_usb2_hw :: hw where
  "demo_usb2_hw = \<lparr>io_log = [], dev_read = (\<lambda>l w a. if a = REG_PAD_CTRL2 then BIT 20 else 0)\<rparr>"

theorem usb3_switch_once_witness:
  "\<exists>v. Wr 4 REG_PAD_CTRL2 v \<in> set (io_log (snd (run_state (rtw_usb_switch_mode_new RTW_CHIP_TYPE_8822B) demo_usb2_hw)))"
proof -
  have "get_bits (BIT 20 :: u32) (GENMASK 19 18) \<noteq> 2"
    by code_simp
  moreover have "(BIT 20 :: u32) AND (GENMASK 19 18 OR BIT 20) \<noteq> 0"
    by code_simp
  ultimately have "fst (run_state (rtw_usb_switch_mode_new RTW_CHIP_TYPE_8822B) demo_usb2_hw) = 1"
    by (simp add: rtw_usb_switch_mode_new_def usb3_switch_def demo_usb2_hw_def rtw_write16_set_def
        rtw_write32_set_def rtw_write8_clr_def)
  then obtain s' where "run_state (rtw_usb_switch_mode_new RTW_CHIP_TYPE_8822B) demo_usb2_hw = (1, s')"
    by (metis prod.collapse)
  from usb3_switch_once [OF this] this show ?thesis by auto
qed

end
