(* ===== verification/Mac.thy ===== *)
theory Mac
  imports Regs UsbTx
begin

text \<open>
  What the MAC layer (\<open>mac.c\<close>, \<open>util.c\<close>) works on: the parts of \<open>struct rtw_chip_info\<close>,
  \<open>struct rtw_hci\<close> and \<open>struct rtw_fifo_conf\<close> it reads and writes, as a record that extends
  the register bus, and the polling helpers every sequence uses.
\<close>

section \<open>Chip and device\<close>

datatype rtw_hci_type =
    RTW_HCI_TYPE_PCIE | RTW_HCI_TYPE_USB | RTW_HCI_TYPE_SDIO | RTW_HCI_TYPE_UNDEFINE

datatype rtw_wlan_cpu = RTW_WCPU_8051 | RTW_WCPU_3081

record rtw_pwr_seq_cmd =
  cmd_offset :: u16
  cmd_cut_mask :: u8
  cmd_intf_mask :: u8
  cmd_base :: u8      \<comment> \<open>four bits\<close>
  cmd_cmd :: u8       \<comment> \<open>four bits\<close>
  cmd_mask :: u8
  cmd_value :: u8

record rtw_prioq_addr =
  pq_rsvd :: u32
  pq_avail :: u32

record rtw_page_table =
  hq_num :: u16
  nq_num :: u16
  lq_num :: u16
  exq_num :: u16
  gapq_num :: u16

record rtw_ltecoex_addr =
  lte_ctrl :: u32
  lte_wdata :: u32
  lte_rdata :: u32

record rtw_chip_info =
  ci_id :: chip_type
  ci_wlan_cpu :: rtw_wlan_cpu
  ci_pwr_on_seq :: "rtw_pwr_seq_cmd list list"
  ci_pwr_off_seq :: "rtw_pwr_seq_cmd list list"
  ci_rqpn_table :: "rtw_rqpn list"
  ci_page_table :: "rtw_page_table list"
  ci_prioq :: "rtw_prioq_addr list"
  ci_prioq_wsize :: bool
  ci_sys_func_en :: u8
  ci_tx_pkt_desc_sz :: u32
  ci_ltecoex_addr :: "rtw_ltecoex_addr option"
  ci_txff_size :: u32
  ci_rxff_size :: u32
  ci_page_size :: u16
  ci_rsvd_drv_pg_num :: u16
  ci_csi_buf_pg_num :: u8
  ci_usb_tx_agg_desc_num :: u8

record rtw_fifo_conf =
  rsvd_boundary :: u16
  rsvd_pg_num :: u16
  rsvd_drv_pg_num :: u16
  txff_pg_num :: u16
  acq_pg_num :: u16
  rsvd_drv_addr :: u16
  rsvd_h2c_info_addr :: u16
  rsvd_h2c_sta_info_addr :: u16
  rsvd_h2cq_addr :: u16
  rsvd_cpu_instr_addr :: u16
  rsvd_fw_txbuf_addr :: u16
  rsvd_csibuf_addr :: u16
  fifo_rqpn :: "rtw_rqpn option"

text \<open>
  \<open>poll_max\<close> is the clock as \<open>read_poll_timeout_atomic\<close> sees it: how many unsuccessful polls
  fit into a timeout of so many microseconds. \<open>kmem_ok\<close> says, for the history so far, whether an allocation succeeds.
\<close>

record rtw_dev = hw +
  chip :: rtw_chip_info
  hci_type :: rtw_hci_type
  hci_bulkout_num :: u8
  rpwm_addr :: u32
  sdio3_bus_mode :: bool
  cut_version :: u8
  hw_queues :: nat
  flag_poweron :: bool
  flag_fw_running :: bool
  fifo :: rtw_fifo_conf
  h2c_last_box_num :: u8
  h2c_seq :: u8
  poll_max :: "int \<Rightarrow> nat"
  kmem_ok :: "io list \<Rightarrow> bool"

type_synonym ('x, 'a) dev = "('x rtw_dev_scheme, 'a) state"

definition dev_get :: "('x rtw_dev_scheme \<Rightarrow> 'a) \<Rightarrow> ('x, 'a) dev" where
  "dev_get f = State (\<lambda>s. (f s, s))"

definition dev_upd :: "('x rtw_dev_scheme \<Rightarrow> 'x rtw_dev_scheme) \<Rightarrow> ('x, unit) dev" where
  "dev_upd f = State (\<lambda>s. ((), f s))"

lemma run_dev_get [simp]: "run_state (dev_get f) s = (f s, s)"
  by (simp add: dev_get_def)

lemma run_dev_upd [simp]: "run_state (dev_upd f) s = ((), f s)"
  by (simp add: dev_upd_def)

definition skip :: "('s, unit) state" where
  "skip = State_Monad.return ()"

definition when_do :: "bool \<Rightarrow> ('s, unit) state \<Rightarrow> ('s, unit) state" where
  "when_do b m = (if b then m else skip)"

lemma run_skip [simp]: "run_state skip s = ((), s)"
  by (simp add: skip_def)

lemma run_when_do [simp]: "run_state (when_do b m) s = (if b then run_state m s else ((), s))"
  by (simp add: when_do_def)

text \<open>\<open>if (ret) return ret;\<close> between the steps of a routine.\<close>

definition then_do :: "('s, int) state \<Rightarrow> ('s, int) state \<Rightarrow> ('s, int) state" where
  "then_do m k = do { ret \<leftarrow> m; if ret \<noteq> 0 then State_Monad.return ret else k }"

lemma run_then_do:
  "run_state (then_do m k) s =
     (case run_state m s of (ret, s') \<Rightarrow> if ret \<noteq> 0 then (ret, s') else run_state k s')"
  by (simp add: then_do_def split: prod.split)

abbreviation rtw_chip_wcpu_8051 :: "'x rtw_dev_scheme \<Rightarrow> bool" where
  "rtw_chip_wcpu_8051 s \<equiv> ci_wlan_cpu (chip s) = RTW_WCPU_8051"

abbreviation rtw_chip_wcpu_3081 :: "'x rtw_dev_scheme \<Rightarrow> bool" where
  "rtw_chip_wcpu_3081 s \<equiv> ci_wlan_cpu (chip s) = RTW_WCPU_3081"

section \<open>Polling\<close>

fun check_hw_ready_loop :: "nat \<Rightarrow> u32 \<Rightarrow> u32 \<Rightarrow> u32 \<Rightarrow> ('x hw_scheme, bool) state" where
  "check_hw_ready_loop 0 addr mask' target = State_Monad.return False"
| "check_hw_ready_loop (Suc n) addr mask' target =
     do { v \<leftarrow> rtw_read32_mask addr mask';
          if v = target then State_Monad.return True
          else do { delay_us 10; check_hw_ready_loop n addr mask' target } }"

definition check_hw_ready :: "u32 \<Rightarrow> u32 \<Rightarrow> u32 \<Rightarrow> ('x hw_scheme, bool) state" where
  "check_hw_ready addr mask' target = check_hw_ready_loop 1000 addr mask' target"

text \<open>
  \<open>read_poll_timeout_atomic\<close> on a byte: the last value read, and whether it met the
  condition. After the timeout the register is read once more.
\<close>

fun read_poll8 :: "nat \<Rightarrow> int \<Rightarrow> u32 \<Rightarrow> (u8 \<Rightarrow> bool) \<Rightarrow> ('x hw_scheme, u8 \<times> bool) state" where
  "read_poll8 0 us addr c = do { v \<leftarrow> rtw_read8 addr; State_Monad.return (v, c v) }"
| "read_poll8 (Suc n) us addr c =
     do { v \<leftarrow> rtw_read8 addr;
          if c v then State_Monad.return (v, True)
          else do { delay_us us; read_poll8 n us addr c } }"

section \<open>LTE coexistence registers\<close>

definition ltecoex_read_reg :: "rtw_ltecoex_addr \<Rightarrow> u16 \<Rightarrow> ('x hw_scheme, u32 option) state" where
  "ltecoex_read_reg ltecoex off =
     do { ready \<leftarrow> check_hw_ready (lte_ctrl ltecoex) LTECOEX_READY 1;
          if \<not> ready then State_Monad.return None
          else do { rtw_write32 (lte_ctrl ltecoex) (0x800F0000 OR ucast off);
                    v \<leftarrow> rtw_read32 (lte_rdata ltecoex);
                    State_Monad.return (Some v) } }"

definition ltecoex_reg_write :: "rtw_ltecoex_addr \<Rightarrow> u16 \<Rightarrow> u32 \<Rightarrow> ('x hw_scheme, bool) state" where
  "ltecoex_reg_write ltecoex off val =
     do { ready \<leftarrow> check_hw_ready (lte_ctrl ltecoex) LTECOEX_READY 1;
          if \<not> ready then State_Monad.return False
          else do { rtw_write32 (lte_wdata ltecoex) val;
                    rtw_write32 (lte_ctrl ltecoex) (0xC00F0000 OR ucast off);
                    State_Monad.return True } }"

section \<open>Restoring registers\<close>

record rtw_backup_info =
  bk_len :: u8
  bk_reg :: u32
  bk_val :: u32

fun rtw_restore_reg :: "rtw_backup_info list \<Rightarrow> ('x hw_scheme, unit) state" where
  "rtw_restore_reg [] = skip"
| "rtw_restore_reg (b # bs) =
     do { (if bk_len b = 1 then rtw_write8 (bk_reg b) (ucast (bk_val b))
           else if bk_len b = 2 then rtw_write16 (bk_reg b) (ucast (bk_val b))
           else if bk_len b = 4 then rtw_write32 (bk_reg b) (bk_val b)
           else skip);
          rtw_restore_reg bs }"

section \<open>Lemmas\<close>

lemma acts_dev_get [acts_rules]: "acts P (dev_get f)"
  by (simp add: acts_def acts.refl)

lemma acts_dev_upd [acts_rules]:
  "(\<And>s. io_log (f s) = io_log s) \<Longrightarrow> (\<And>s. dev_read (f s) = dev_read s) \<Longrightarrow> acts P (dev_upd f)"
  by (simp add: acts_def acts_rel_def)

lemma acts_skip [acts_rules]: "acts P skip"
  by (simp add: acts_def acts.refl)

lemma acts_when_do [acts_rules]: "(b \<Longrightarrow> acts P m) \<Longrightarrow> acts P (when_do b m)"
  by (simp add: when_do_def acts_skip)

lemma acts_then_do [acts_rules]: "acts P m \<Longrightarrow> acts P k \<Longrightarrow> acts P (then_do m k)"
  unfolding then_do_def by (intro acts_rules)

lemma acts_check_hw_ready [acts_rules]:
  assumes "\<And>v. P (Rd 4 a v)" and "P (Delay 10)"
  shows "acts P (check_hw_ready a m t)"
proof -
  have "acts P (check_hw_ready_loop n a m t)" for n
    by (induction n) (auto intro!: acts_rules assms simp: masked_read_defs)
  then show ?thesis
    by (simp add: check_hw_ready_def)
qed

lemma acts_read_poll8 [acts_rules]:
  assumes "\<And>v. P (Rd 1 a v)" and "P (Delay us)"
  shows "acts P (read_poll8 n us a c)"
  by (induction n) (auto intro!: acts_rules assms)

lemma run_read32_mask [simp]:
  "run_state (rtw_read32_mask a m) s =
     (drop_bit (ffs m) (dev_read s (io_log s) 4 a AND m),
      s\<lparr>io_log := io_log s @ [Rd 4 a (dev_read s (io_log s) 4 a)]\<rparr>)"
  by (simp add: rtw_read32_mask_def)

lemma quiet_dev [quiet_rules]: "quiet (dev_get f)" "quiet skip"
  by (simp_all add: quiet_def quiet.refl)

lemma quiet_when_do [quiet_rules]: "(b \<Longrightarrow> quiet m) \<Longrightarrow> quiet (when_do b m)"
  by (simp add: when_do_def quiet_dev)

lemma quiet_then_do [quiet_rules]: "quiet m \<Longrightarrow> quiet k \<Longrightarrow> quiet (then_do m k)"
  unfolding then_do_def by (intro quiet_rules)

lemma quiet_check_hw_ready [quiet_rules]: "quiet (check_hw_ready a m t)"
proof -
  have "quiet (check_hw_ready_loop n a m t)" for n
    by (induction n) (auto intro!: quiet_rules)
  then show ?thesis
    by (simp add: check_hw_ready_def)
qed

lemma quiet_read_poll8 [quiet_rules]: "quiet (read_poll8 n us a c)"
  by (induction n) (auto intro!: quiet_rules)

text \<open>A poll adds reads of its register and delays to the log, and changes nothing else.\<close>

lemma check_hw_ready_loop_log:
  "run_state (check_hw_ready_loop n addr m t) s = (r, s') \<Longrightarrow>
     \<exists>l. s' = s\<lparr>io_log := io_log s @ l\<rparr> \<and> length l \<le> 2 * n \<and>
         (\<forall>e \<in> set l. (\<exists>v. e = Rd 4 addr v) \<or> (\<exists>k. e = Delay k))"
proof (induction n arbitrary: s)
  case 0
  then show ?case by (auto intro: exI [of _ "[]"])
next
  case (Suc n)
  let ?v = "dev_read s (io_log s) 4 addr"
  show ?case
  proof (cases "drop_bit (ffs m) (?v AND m) = t")
    case True
    with Suc.prems show ?thesis
      by (auto intro!: exI [of _ "[Rd 4 addr ?v]"])
  next
    case False
    let ?s = "s\<lparr>io_log := io_log s @ [Rd 4 addr ?v] @ [Delay 10]\<rparr>"
    from Suc.prems False have "run_state (check_hw_ready_loop n addr m t) ?s = (r, s')"
      by simp
    from Suc.IH [OF this] obtain l where
      l: "s' = ?s\<lparr>io_log := io_log ?s @ l\<rparr>" "length l \<le> 2 * n"
        "\<forall>e \<in> set l. (\<exists>v. e = Rd 4 addr v) \<or> (\<exists>k. e = Delay k)"
      by blast
    then show ?thesis
      by (intro exI [of _ "Rd 4 addr ?v # Delay 10 # l"]) auto
  qed
qed

lemma read_poll8_log:
  "run_state (read_poll8 n us addr c) s = (r, s') \<Longrightarrow>
     \<exists>l v. s' = s\<lparr>io_log := io_log s @ l @ [Rd 1 addr (ucast v)]\<rparr> \<and> length l \<le> 2 * n \<and>
         r = (v, c v) \<and> (\<forall>e \<in> set l. (\<exists>v. \<not> c v \<and> e = Rd 1 addr (ucast v)) \<or> e = Delay us)"
proof (induction n arbitrary: s)
  case 0
  then show ?case
    by (auto intro!: exI [of _ "[]"] simp: ucast8_ucast32)
next
  case (Suc n)
  let ?v = "dev_read s (io_log s) 1 addr"
  show ?case
  proof (cases "c (ucast ?v)")
    case True
    with Suc.prems show ?thesis
      by (intro exI [of _ "[]"] exI [of _ "ucast ?v"]) (auto simp: ucast8_ucast32)
  next
    case False
    let ?s = "s\<lparr>io_log := io_log s @ [Rd 1 addr (take_bit 8 ?v)] @ [Delay us]\<rparr>"
    from Suc.prems False have "run_state (read_poll8 n us addr c) ?s = (r, s')"
      by simp
    from Suc.IH [OF this] obtain l v where
      "s' = ?s\<lparr>io_log := io_log ?s @ l @ [Rd 1 addr (ucast v)]\<rparr>" "length l \<le> 2 * n"
      "r = (v, c v)" "\<forall>e \<in> set l. (\<exists>v. \<not> c v \<and> e = Rd 1 addr (ucast v)) \<or> e = Delay us"
      by blast
    moreover have "Rd 1 addr (take_bit 8 ?v) = Rd 1 addr (ucast (ucast ?v :: u8))"
      by (simp add: ucast8_ucast32)
    ultimately show ?thesis using False
      by (intro exI [of _ "Rd 1 addr (take_bit 8 ?v) # Delay us # l"] exI [of _ v]) auto
  qed
qed

end
