(* ===== verification/MacPower.thy ===== *)
theory MacPower
  imports Mac
begin

text \<open>
  Powering the chip (\<open>mac.c\<close>): the interpreter of the power sequences, the sequences of the
  RTL8812A (\<open>rtw8812a_table.c\<close>), the generic power switch around them, and the register
  set-up before and after it.
\<close>

abbreviation (input) RTW_PWR_DELAY_US :: u8 where "RTW_PWR_DELAY_US \<equiv> 0"
abbreviation (input) RTW_PWR_DELAY_MS :: u8 where "RTW_PWR_DELAY_MS \<equiv> 1"

section \<open>The interpreter of power sequences\<close>

definition cut_version_to_mask :: "u8 \<Rightarrow> u8" where
  "cut_version_to_mask ver = push_bit (unat ver + 1) 1"

definition do_pwr_poll_cmd :: "u32 \<Rightarrow> u32 \<Rightarrow> u32 \<Rightarrow> ('x, bool) dev" where
  "do_pwr_poll_cmd addr mask' target0 =
     (let target = target0 AND mask'
      in do { n \<leftarrow> dev_get (\<lambda>s. poll_max s (50 * 20000));
              (v, ok) \<leftarrow> read_poll8 n 50 addr (\<lambda>v. ucast v AND mask' = target);
              State_Monad.return ok })"

definition pwr_cmd_addr :: "rtw_pwr_seq_cmd \<Rightarrow> u32" where
  "pwr_cmd_addr cmd = (if cmd_base cmd = RTW_PWR_ADDR_SDIO
     then ucast (cmd_offset cmd) OR SDIO_LOCAL_OFFSET else ucast (cmd_offset cmd))"

definition rtw_pwr_cmd_polling :: "rtw_pwr_seq_cmd \<Rightarrow> ('x, int) dev" where
  "rtw_pwr_cmd_polling cmd =
     do { ok \<leftarrow> do_pwr_poll_cmd (pwr_cmd_addr cmd) (ucast (cmd_mask cmd)) (ucast (cmd_value cmd));
          pcie \<leftarrow> dev_get (\<lambda>s. hci_type s = RTW_HCI_TYPE_PCIE);
          if ok then State_Monad.return 0
          else if \<not> pcie then State_Monad.return (- EBUSY)
          else do { v \<leftarrow> rtw_read8 REG_SYS_PW_CTRL;
                    id \<leftarrow> dev_get (\<lambda>s. ci_id (chip s));
                    when_do (id = RTW_CHIP_TYPE_8723D)
                      (rtw_write8 REG_SYS_PW_CTRL (v AND NOT BIT_PFM_WOWL));
                    rtw_write8 REG_SYS_PW_CTRL (v OR BIT_PFM_WOWL);
                    rtw_write8 REG_SYS_PW_CTRL (v AND NOT BIT_PFM_WOWL);
                    when_do (id = RTW_CHIP_TYPE_8723D)
                      (rtw_write8 REG_SYS_PW_CTRL (v OR BIT_PFM_WOWL));
                    ok \<leftarrow> do_pwr_poll_cmd (pwr_cmd_addr cmd) (ucast (cmd_mask cmd)) (ucast (cmd_value cmd));
                    State_Monad.return (if ok then 0 else - EBUSY) } }"

text \<open>One command that matches the interface and the cut.\<close>

definition pwr_seq_cmd :: "rtw_pwr_seq_cmd \<Rightarrow> ('x, int) dev" where
  "pwr_seq_cmd cmd =
     (if cmd_cmd cmd = RTW_PWR_CMD_WRITE
      then do { v \<leftarrow> rtw_read8 (pwr_cmd_addr cmd);
                rtw_write8 (pwr_cmd_addr cmd)
                  ((v AND NOT (cmd_mask cmd)) OR (cmd_value cmd AND cmd_mask cmd));
                State_Monad.return 0 }
      else if cmd_cmd cmd = RTW_PWR_CMD_POLLING
      then do { ret \<leftarrow> rtw_pwr_cmd_polling cmd;
                State_Monad.return (if ret \<noteq> 0 then - EBUSY else 0) }
      else if cmd_cmd cmd = RTW_PWR_CMD_DELAY
      then do { delay_us (if cmd_value cmd = RTW_PWR_DELAY_US
                          then uint (cmd_offset cmd) else 1000 * uint (cmd_offset cmd));
                State_Monad.return 0 }
      else if cmd_cmd cmd = RTW_PWR_CMD_READ then State_Monad.return 0
      else State_Monad.return (- EINVAL))"

definition pwr_cmd_matches :: "u8 \<Rightarrow> u8 \<Rightarrow> rtw_pwr_seq_cmd \<Rightarrow> bool" where
  "pwr_cmd_matches intf_mask cut_mask cmd \<longleftrightarrow>
     cmd_intf_mask cmd AND intf_mask \<noteq> 0 \<and> cmd_cut_mask cmd AND cut_mask \<noteq> 0"

text \<open>A table ends with its first \<open>RTW_PWR_CMD_END\<close>.\<close>

fun rtw_sub_pwr_seq_parser :: "u8 \<Rightarrow> u8 \<Rightarrow> rtw_pwr_seq_cmd list \<Rightarrow> ('x, int) dev" where
  "rtw_sub_pwr_seq_parser intf_mask cut_mask [] = State_Monad.return 0"
| "rtw_sub_pwr_seq_parser intf_mask cut_mask (cmd # cmds) =
     (if cmd_cmd cmd = RTW_PWR_CMD_END then State_Monad.return 0
      else if \<not> pwr_cmd_matches intf_mask cut_mask cmd
      then rtw_sub_pwr_seq_parser intf_mask cut_mask cmds
      else then_do (pwr_seq_cmd cmd) (rtw_sub_pwr_seq_parser intf_mask cut_mask cmds))"

fun pwr_intf_mask :: "rtw_hci_type \<Rightarrow> u8 option" where
  "pwr_intf_mask RTW_HCI_TYPE_PCIE = Some RTW_PWR_INTF_PCI_MSK"
| "pwr_intf_mask RTW_HCI_TYPE_USB = Some RTW_PWR_INTF_USB_MSK"
| "pwr_intf_mask RTW_HCI_TYPE_SDIO = Some RTW_PWR_INTF_SDIO_MSK"
| "pwr_intf_mask RTW_HCI_TYPE_UNDEFINE = None"

fun pwr_seq_tables :: "u8 \<Rightarrow> u8 \<Rightarrow> rtw_pwr_seq_cmd list list \<Rightarrow> ('x, int) dev" where
  "pwr_seq_tables intf_mask cut_mask [] = State_Monad.return 0"
| "pwr_seq_tables intf_mask cut_mask (cmd # cmd_seq) =
     then_do (rtw_sub_pwr_seq_parser intf_mask cut_mask cmd)
       (pwr_seq_tables intf_mask cut_mask cmd_seq)"

definition rtw_pwr_seq_parser :: "rtw_pwr_seq_cmd list list \<Rightarrow> ('x, int) dev" where
  "rtw_pwr_seq_parser cmd_seq =
     do { cut_mask \<leftarrow> dev_get (\<lambda>s. cut_version_to_mask (cut_version s));
          intf \<leftarrow> dev_get (\<lambda>s. pwr_intf_mask (hci_type s));
          case intf of
            None \<Rightarrow> State_Monad.return (- EINVAL)
          | Some intf_mask \<Rightarrow> pwr_seq_tables intf_mask cut_mask cmd_seq }"

section \<open>The sequences of the RTL8812A\<close>

definition pwr_cmd :: "u16 \<Rightarrow> u8 \<Rightarrow> u8 \<Rightarrow> u8 \<Rightarrow> u8 \<Rightarrow> u8 \<Rightarrow> u8 \<Rightarrow> rtw_pwr_seq_cmd" where
  "pwr_cmd off cutm intf base cmd mask' v =
     \<lparr>cmd_offset = off, cmd_cut_mask = cutm, cmd_intf_mask = intf, cmd_base = base,
      cmd_cmd = cmd, cmd_mask = mask', cmd_value = v\<rparr>"

definition trans_carddis_to_cardemu_8812a :: "rtw_pwr_seq_cmd list" where
  "trans_carddis_to_cardemu_8812a =
    [pwr_cmd 0x0012 RTW_PWR_CUT_ALL_MSK RTW_PWR_INTF_ALL_MSK RTW_PWR_ADDR_MAC RTW_PWR_CMD_WRITE (BIT 0) (BIT 0),
     pwr_cmd 0x0014 RTW_PWR_CUT_ALL_MSK RTW_PWR_INTF_ALL_MSK RTW_PWR_ADDR_MAC RTW_PWR_CMD_WRITE 0x80 0,
     pwr_cmd 0x0015 RTW_PWR_CUT_ALL_MSK RTW_PWR_INTF_ALL_MSK RTW_PWR_ADDR_MAC RTW_PWR_CMD_WRITE 0x01 0,
     pwr_cmd 0x0023 RTW_PWR_CUT_ALL_MSK RTW_PWR_INTF_ALL_MSK RTW_PWR_ADDR_MAC RTW_PWR_CMD_WRITE 0x10 0,
     pwr_cmd 0x0046 RTW_PWR_CUT_ALL_MSK RTW_PWR_INTF_ALL_MSK RTW_PWR_ADDR_MAC RTW_PWR_CMD_WRITE 0xFF 0x00,
     pwr_cmd 0x0043 RTW_PWR_CUT_ALL_MSK RTW_PWR_INTF_ALL_MSK RTW_PWR_ADDR_MAC RTW_PWR_CMD_WRITE 0xFF 0x00,
     pwr_cmd 0x0005 RTW_PWR_CUT_ALL_MSK RTW_PWR_INTF_PCI_MSK RTW_PWR_ADDR_MAC RTW_PWR_CMD_WRITE (BIT 2) 0,
     pwr_cmd 0x0005 RTW_PWR_CUT_ALL_MSK RTW_PWR_INTF_ALL_MSK RTW_PWR_ADDR_MAC RTW_PWR_CMD_WRITE (BIT 3) 0,
     pwr_cmd 0x0003 RTW_PWR_CUT_ALL_MSK RTW_PWR_INTF_ALL_MSK RTW_PWR_ADDR_MAC RTW_PWR_CMD_WRITE (BIT 2) (BIT 2),
     pwr_cmd 0x0301 RTW_PWR_CUT_ALL_MSK RTW_PWR_INTF_PCI_MSK RTW_PWR_ADDR_MAC RTW_PWR_CMD_WRITE 0xFF 0,
     pwr_cmd 0x0024 RTW_PWR_CUT_ALL_MSK RTW_PWR_INTF_USB_MSK RTW_PWR_ADDR_MAC RTW_PWR_CMD_WRITE (BIT 1) (BIT 1),
     pwr_cmd 0x0028 RTW_PWR_CUT_ALL_MSK RTW_PWR_INTF_USB_MSK RTW_PWR_ADDR_MAC RTW_PWR_CMD_WRITE (BIT 3) (BIT 3),
     pwr_cmd 0xFFFF RTW_PWR_CUT_ALL_MSK RTW_PWR_INTF_ALL_MSK 0 RTW_PWR_CMD_END 0 0]"

definition trans_cardemu_to_act_8812a :: "rtw_pwr_seq_cmd list" where
  "trans_cardemu_to_act_8812a =
    [pwr_cmd 0x0005 RTW_PWR_CUT_ALL_MSK RTW_PWR_INTF_ALL_MSK RTW_PWR_ADDR_MAC RTW_PWR_CMD_WRITE (BIT 2) 0,
     pwr_cmd 0x0006 RTW_PWR_CUT_ALL_MSK RTW_PWR_INTF_ALL_MSK RTW_PWR_ADDR_MAC RTW_PWR_CMD_POLLING (BIT 1) (BIT 1),
     pwr_cmd 0x0005 RTW_PWR_CUT_ALL_MSK RTW_PWR_INTF_PCI_MSK RTW_PWR_ADDR_MAC RTW_PWR_CMD_WRITE (BIT 7) 0,
     pwr_cmd 0x0005 RTW_PWR_CUT_ALL_MSK RTW_PWR_INTF_ALL_MSK RTW_PWR_ADDR_MAC RTW_PWR_CMD_WRITE (BIT 3) 0,
     pwr_cmd 0x0005 RTW_PWR_CUT_ALL_MSK RTW_PWR_INTF_ALL_MSK RTW_PWR_ADDR_MAC RTW_PWR_CMD_WRITE (BIT 0) (BIT 0),
     pwr_cmd 0x0005 RTW_PWR_CUT_ALL_MSK RTW_PWR_INTF_ALL_MSK RTW_PWR_ADDR_MAC RTW_PWR_CMD_POLLING (BIT 0) 0,
     pwr_cmd 0x0024 RTW_PWR_CUT_ALL_MSK RTW_PWR_INTF_USB_MSK RTW_PWR_ADDR_MAC RTW_PWR_CMD_WRITE (BIT 1) 0,
     pwr_cmd 0x0028 RTW_PWR_CUT_ALL_MSK RTW_PWR_INTF_USB_MSK RTW_PWR_ADDR_MAC RTW_PWR_CMD_WRITE (BIT 3) 0,
     pwr_cmd 0xFFFF RTW_PWR_CUT_ALL_MSK RTW_PWR_INTF_ALL_MSK 0 RTW_PWR_CMD_END 0 0]"

definition trans_act_to_lps_8812a :: "rtw_pwr_seq_cmd list" where
  "trans_act_to_lps_8812a =
    [pwr_cmd 0x0301 RTW_PWR_CUT_ALL_MSK RTW_PWR_INTF_PCI_MSK RTW_PWR_ADDR_MAC RTW_PWR_CMD_WRITE 0xFF 0xFF,
     pwr_cmd 0x0522 RTW_PWR_CUT_ALL_MSK RTW_PWR_INTF_ALL_MSK RTW_PWR_ADDR_MAC RTW_PWR_CMD_WRITE 0xFF 0x7F,
     pwr_cmd 0x05F8 RTW_PWR_CUT_ALL_MSK RTW_PWR_INTF_ALL_MSK RTW_PWR_ADDR_MAC RTW_PWR_CMD_POLLING 0xFF 0,
     pwr_cmd 0x05F9 RTW_PWR_CUT_ALL_MSK RTW_PWR_INTF_ALL_MSK RTW_PWR_ADDR_MAC RTW_PWR_CMD_POLLING 0xFF 0,
     pwr_cmd 0x05FA RTW_PWR_CUT_ALL_MSK RTW_PWR_INTF_ALL_MSK RTW_PWR_ADDR_MAC RTW_PWR_CMD_POLLING 0xFF 0,
     pwr_cmd 0x05FB RTW_PWR_CUT_ALL_MSK RTW_PWR_INTF_ALL_MSK RTW_PWR_ADDR_MAC RTW_PWR_CMD_POLLING 0xFF 0,
     pwr_cmd 0x0C00 RTW_PWR_CUT_ALL_MSK RTW_PWR_INTF_ALL_MSK RTW_PWR_ADDR_MAC RTW_PWR_CMD_WRITE 0xFF 0x04,
     pwr_cmd 0x0E00 RTW_PWR_CUT_ALL_MSK RTW_PWR_INTF_ALL_MSK RTW_PWR_ADDR_MAC RTW_PWR_CMD_WRITE 0xFF 0x04,
     pwr_cmd 0x0002 RTW_PWR_CUT_ALL_MSK RTW_PWR_INTF_ALL_MSK RTW_PWR_ADDR_MAC RTW_PWR_CMD_WRITE (BIT 0) 0,
     pwr_cmd 0x0002 RTW_PWR_CUT_ALL_MSK RTW_PWR_INTF_ALL_MSK RTW_PWR_ADDR_MAC RTW_PWR_CMD_DELAY 0 RTW_PWR_DELAY_US,
     pwr_cmd 0x0002 RTW_PWR_CUT_ALL_MSK RTW_PWR_INTF_USB_MSK RTW_PWR_ADDR_MAC RTW_PWR_CMD_WRITE (BIT 1) 0,
     pwr_cmd 0x0100 RTW_PWR_CUT_ALL_MSK RTW_PWR_INTF_ALL_MSK RTW_PWR_ADDR_MAC RTW_PWR_CMD_WRITE 0xFF 0x03,
     pwr_cmd 0x0101 RTW_PWR_CUT_ALL_MSK RTW_PWR_INTF_ALL_MSK RTW_PWR_ADDR_MAC RTW_PWR_CMD_WRITE (BIT 1) 0,
     pwr_cmd 0x0553 RTW_PWR_CUT_ALL_MSK RTW_PWR_INTF_ALL_MSK RTW_PWR_ADDR_MAC RTW_PWR_CMD_WRITE (BIT 5) (BIT 5),
     pwr_cmd 0xFFFF RTW_PWR_CUT_ALL_MSK RTW_PWR_INTF_ALL_MSK 0 RTW_PWR_CMD_END 0 0]"

definition trans_act_to_cardemu_8812a :: "rtw_pwr_seq_cmd list" where
  "trans_act_to_cardemu_8812a =
    [pwr_cmd 0x0C00 RTW_PWR_CUT_ALL_MSK RTW_PWR_INTF_ALL_MSK RTW_PWR_ADDR_MAC RTW_PWR_CMD_WRITE 0xFF 0x04,
     pwr_cmd 0x0E00 RTW_PWR_CUT_ALL_MSK RTW_PWR_INTF_ALL_MSK RTW_PWR_ADDR_MAC RTW_PWR_CMD_WRITE 0xFF 0x04,
     pwr_cmd 0x0002 RTW_PWR_CUT_ALL_MSK RTW_PWR_INTF_ALL_MSK RTW_PWR_ADDR_MAC RTW_PWR_CMD_WRITE (BIT 0) 0,
     pwr_cmd 0x0002 RTW_PWR_CUT_ALL_MSK RTW_PWR_INTF_ALL_MSK RTW_PWR_ADDR_MAC RTW_PWR_CMD_DELAY 0 RTW_PWR_DELAY_US,
     pwr_cmd 0x0002 RTW_PWR_CUT_ALL_MSK RTW_PWR_INTF_PCI_MSK RTW_PWR_ADDR_MAC RTW_PWR_CMD_WRITE (BIT 1) 0,
     pwr_cmd 0x0007 RTW_PWR_CUT_ALL_MSK RTW_PWR_INTF_ALL_MSK RTW_PWR_ADDR_MAC RTW_PWR_CMD_WRITE 0xFF 0x2A,
     pwr_cmd 0x0008 RTW_PWR_CUT_ALL_MSK RTW_PWR_INTF_USB_MSK RTW_PWR_ADDR_MAC RTW_PWR_CMD_WRITE 0x02 0,
     pwr_cmd 0x0005 RTW_PWR_CUT_ALL_MSK RTW_PWR_INTF_ALL_MSK RTW_PWR_ADDR_MAC RTW_PWR_CMD_WRITE (BIT 1) (BIT 1),
     pwr_cmd 0x0005 RTW_PWR_CUT_ALL_MSK RTW_PWR_INTF_ALL_MSK RTW_PWR_ADDR_MAC RTW_PWR_CMD_POLLING (BIT 1) 0,
     pwr_cmd 0xFFFF RTW_PWR_CUT_ALL_MSK RTW_PWR_INTF_ALL_MSK 0 RTW_PWR_CMD_END 0 0]"

definition trans_cardemu_to_carddis_8812a :: "rtw_pwr_seq_cmd list" where
  "trans_cardemu_to_carddis_8812a =
    [pwr_cmd 0x0003 RTW_PWR_CUT_ALL_MSK RTW_PWR_INTF_ALL_MSK RTW_PWR_ADDR_MAC RTW_PWR_CMD_WRITE (BIT 2) 0,
     pwr_cmd 0x0080 RTW_PWR_CUT_ALL_MSK RTW_PWR_INTF_ALL_MSK RTW_PWR_ADDR_MAC RTW_PWR_CMD_WRITE 0xFF 0x05,
     pwr_cmd 0x0042 RTW_PWR_CUT_ALL_MSK RTW_PWR_INTF_USB_MSK RTW_PWR_ADDR_MAC RTW_PWR_CMD_WRITE 0xF0 0xCC,
     pwr_cmd 0x0042 RTW_PWR_CUT_ALL_MSK RTW_PWR_INTF_PCI_MSK RTW_PWR_ADDR_MAC RTW_PWR_CMD_WRITE 0xF0 0xEC,
     pwr_cmd 0x0043 RTW_PWR_CUT_ALL_MSK RTW_PWR_INTF_ALL_MSK RTW_PWR_ADDR_MAC RTW_PWR_CMD_WRITE 0xFF 0x07,
     pwr_cmd 0x0045 RTW_PWR_CUT_ALL_MSK RTW_PWR_INTF_ALL_MSK RTW_PWR_ADDR_MAC RTW_PWR_CMD_WRITE 0xFF 0x00,
     pwr_cmd 0x0046 RTW_PWR_CUT_ALL_MSK RTW_PWR_INTF_ALL_MSK RTW_PWR_ADDR_MAC RTW_PWR_CMD_WRITE 0xFF 0xFF,
     pwr_cmd 0x0047 RTW_PWR_CUT_ALL_MSK RTW_PWR_INTF_ALL_MSK RTW_PWR_ADDR_MAC RTW_PWR_CMD_WRITE 0xFF 0,
     pwr_cmd 0x0014 RTW_PWR_CUT_ALL_MSK RTW_PWR_INTF_ALL_MSK RTW_PWR_ADDR_MAC RTW_PWR_CMD_WRITE 0x80 (BIT 7),
     pwr_cmd 0x0015 RTW_PWR_CUT_ALL_MSK RTW_PWR_INTF_ALL_MSK RTW_PWR_ADDR_MAC RTW_PWR_CMD_WRITE 0x01 (BIT 0),
     pwr_cmd 0x0012 RTW_PWR_CUT_ALL_MSK RTW_PWR_INTF_ALL_MSK RTW_PWR_ADDR_MAC RTW_PWR_CMD_WRITE 0x01 0,
     pwr_cmd 0x0023 RTW_PWR_CUT_ALL_MSK RTW_PWR_INTF_ALL_MSK RTW_PWR_ADDR_MAC RTW_PWR_CMD_WRITE 0x10 (BIT 4),
     pwr_cmd 0x0008 RTW_PWR_CUT_ALL_MSK RTW_PWR_INTF_USB_MSK RTW_PWR_ADDR_MAC RTW_PWR_CMD_WRITE 0x02 0,
     pwr_cmd 0x0007 RTW_PWR_CUT_ALL_MSK RTW_PWR_INTF_USB_MSK RTW_PWR_ADDR_MAC RTW_PWR_CMD_WRITE 0xFF 0x20,
     pwr_cmd 0x001F RTW_PWR_CUT_ALL_MSK RTW_PWR_INTF_USB_MSK RTW_PWR_ADDR_MAC RTW_PWR_CMD_WRITE (BIT 1) 0,
     pwr_cmd 0x0076 RTW_PWR_CUT_ALL_MSK RTW_PWR_INTF_USB_MSK RTW_PWR_ADDR_MAC RTW_PWR_CMD_WRITE (BIT 1) 0,
     pwr_cmd 0x0005 RTW_PWR_CUT_ALL_MSK RTW_PWR_INTF_ALL_MSK RTW_PWR_ADDR_MAC RTW_PWR_CMD_WRITE (BIT 3) (BIT 3),
     pwr_cmd 0xFFFF RTW_PWR_CUT_ALL_MSK RTW_PWR_INTF_ALL_MSK 0 RTW_PWR_CMD_END 0 0]"

definition card_enable_flow_8812a :: "rtw_pwr_seq_cmd list list" where
  "card_enable_flow_8812a = [trans_carddis_to_cardemu_8812a, trans_cardemu_to_act_8812a]"

definition enter_lps_flow_8812a :: "rtw_pwr_seq_cmd list list" where
  "enter_lps_flow_8812a = [trans_act_to_lps_8812a]"

definition card_disable_flow_8812a :: "rtw_pwr_seq_cmd list list" where
  "card_disable_flow_8812a = [trans_act_to_cardemu_8812a, trans_cardemu_to_carddis_8812a]"

section \<open>The channel registers of the MAC\<close>

abbreviation (input) RTW_CHANNEL_WIDTH_20 :: u8 where "RTW_CHANNEL_WIDTH_20 \<equiv> 0"
abbreviation (input) RTW_CHANNEL_WIDTH_40 :: u8 where "RTW_CHANNEL_WIDTH_40 \<equiv> 1"
abbreviation (input) RTW_CHANNEL_WIDTH_80 :: u8 where "RTW_CHANNEL_WIDTH_80 \<equiv> 2"
abbreviation (input) RTW_SC_20_UPPER :: u8 where "RTW_SC_20_UPPER \<equiv> 1"
abbreviation (input) RTW_SC_20_UPMOST :: u8 where "RTW_SC_20_UPMOST \<equiv> 3"
abbreviation (input) RTW_SC_40_UPPER :: u8 where "RTW_SC_40_UPPER \<equiv> 9"
abbreviation (input) RTW_SC_40_LOWER :: u8 where "RTW_SC_40_LOWER \<equiv> 10"

definition txsc40_of :: "u8 \<Rightarrow> u8 \<Rightarrow> u8" where
  "txsc40_of ch_bw txsc20 =
     (if ch_bw = RTW_CHANNEL_WIDTH_80
      then (if txsc20 = RTW_SC_20_UPPER \<or> txsc20 = RTW_SC_20_UPMOST
            then RTW_SC_40_UPPER else RTW_SC_40_LOWER)
      else 0)"

definition rfmod_of :: "u8 \<Rightarrow> u32 \<Rightarrow> u32" where
  "rfmod_of ch_bw value32 =
     (let value32 = value32 AND NOT BIT_RFMOD
      in if ch_bw = RTW_CHANNEL_WIDTH_80 then value32 OR BIT_RFMOD_80M
         else if ch_bw = RTW_CHANNEL_WIDTH_40 then value32 OR BIT_RFMOD_40M
         else value32)"

definition rtw_set_channel_mac :: "u8 \<Rightarrow> u8 \<Rightarrow> u8 \<Rightarrow> ('x, unit) dev" where
  "rtw_set_channel_mac channel ch_bw primary_ch_idx =
     do { rtw_write8 REG_DATA_SC ((primary_ch_idx AND 0xf) OR
            push_bit 4 (txsc40_of ch_bw primary_ch_idx AND 0xf));
          value32 \<leftarrow> rtw_read32 REG_WMAC_TRXPTCL_CTL;
          rtw_write32 REG_WMAC_TRXPTCL_CTL (rfmod_of ch_bw value32);
          legacy \<leftarrow> dev_get rtw_chip_wcpu_8051;
          if legacy then skip
          else do { value32 \<leftarrow> rtw_read32 REG_AFE_CTRL1;
                    rtw_write32 REG_AFE_CTRL1 ((value32 AND NOT BIT_MAC_CLK_SEL) OR
                      push_bit 20 MAC_CLK_HW_DEF_80M);
                    rtw_write8 REG_USTIME_TSF MAC_CLK_SPEED;
                    rtw_write8 REG_USTIME_EDCA MAC_CLK_SPEED;
                    value8 \<leftarrow> rtw_read8 REG_CCK_CHECK;
                    rtw_write8 REG_CCK_CHECK
                      ((value8 AND NOT BIT_CHECK_CCK_EN) OR
                       (if IS_CH_5G_BAND (unat channel) then BIT_CHECK_CCK_EN else 0)) } }"

section \<open>System configuration before and after power on\<close>

fun sdio_resume_poll :: "nat \<Rightarrow> ('x, bool) dev" where
  "sdio_resume_poll 0 = State_Monad.return False"
| "sdio_resume_poll (Suc n) =
     do { v \<leftarrow> rtw_read8 REG_SDIO_HSUS_CTRL;
          if v AND BIT_HCI_RESUME_RDY \<noteq> 0 then State_Monad.return True
          else do { delay_us 10; sdio_resume_poll n } }"

definition mac_pre_hci_cfg :: "rtw_hci_type \<Rightarrow> ('x, int) dev" where
  "mac_pre_hci_cfg t =
     (case t of
        RTW_HCI_TYPE_PCIE \<Rightarrow>
          do { rtw_write32_set REG_HCI_OPT_CTRL BIT_USB_SUS_DIS; State_Monad.return 0 }
      | RTW_HCI_TYPE_SDIO \<Rightarrow>
          do { rtw_write8_clr REG_SDIO_HSUS_CTRL BIT_HCI_SUS_REQ;
               ready \<leftarrow> sdio_resume_poll 20000;
               if \<not> ready then State_Monad.return (- ETIMEDOUT)
               else do { sdio3 \<leftarrow> dev_get sdio3_bus_mode;
                         (if sdio3
                          then rtw_write8_set (REG_HCI_OPT_CTRL + 2) (ucast (drop_bit 16 (BIT_SDIO_PAD_E5 :: u32)))
                          else rtw_write8_clr (REG_HCI_OPT_CTRL + 2) (ucast (drop_bit 16 (BIT_SDIO_PAD_E5 :: u32))));
                         State_Monad.return 0 } }
      | RTW_HCI_TYPE_USB \<Rightarrow> State_Monad.return 0
      | RTW_HCI_TYPE_UNDEFINE \<Rightarrow> State_Monad.return (- EINVAL))"

definition mac_pre_pin_cfg :: "('x, int) dev" where
  "mac_pre_pin_cfg =
     do { value32 \<leftarrow> rtw_read32 REG_PAD_CTRL1;
          rtw_write32 REG_PAD_CTRL1 (value32 OR (BIT_PAPE_WLBT_SEL OR BIT_LNAON_WLBT_SEL));
          value32 \<leftarrow> rtw_read32 REG_LED_CFG;
          rtw_write32 REG_LED_CFG (value32 AND NOT (BIT_PAPE_SEL_EN OR BIT_LNAON_SEL_EN));
          value32 \<leftarrow> rtw_read32 REG_GPIO_MUXCFG;
          rtw_write32 REG_GPIO_MUXCFG (value32 OR BIT_WLRFE_4_5_EN);
          value8 \<leftarrow> rtw_read8 REG_SYS_FUNC_EN;
          rtw_write8 REG_SYS_FUNC_EN (value8 AND NOT (BIT_FEN_BB_RSTB OR BIT_FEN_BB_GLB_RST));
          value8 \<leftarrow> rtw_read8 REG_RF_CTRL;
          rtw_write8 REG_RF_CTRL (value8 AND NOT (BIT_RF_SDM_RSTB OR BIT_RF_RSTB OR BIT_RF_EN));
          value32 \<leftarrow> rtw_read32 REG_WLRF1;
          rtw_write32 REG_WLRF1 (value32 AND NOT BIT_WLRF1_BBRF_EN);
          State_Monad.return 0 }"

definition rtw_mac_pre_system_cfg :: "('x, int) dev" where
  "rtw_mac_pre_system_cfg =
     do { rtw_write8 REG_RSV_CTRL 0;
          legacy \<leftarrow> dev_get rtw_chip_wcpu_8051;
          if legacy
          then do { cfg1 \<leftarrow> rtw_read32 REG_SYS_CFG1;
                    rtw_write8 REG_LDO_SWR_CTRL (if cfg1 AND BIT_LDO \<noteq> 0 then LDO_SEL else SPS_SEL);
                    State_Monad.return 0 }
          else do { t \<leftarrow> dev_get hci_type;
                    then_do (mac_pre_hci_cfg t) mac_pre_pin_cfg } }"

definition rtw_mac_init_system_cfg_3081 :: "('x, int) dev" where
  "rtw_mac_init_system_cfg_3081 =
     do { sys_func_en \<leftarrow> dev_get (\<lambda>s. ci_sys_func_en (chip s));
          v \<leftarrow> rtw_read32 REG_CPU_DMEM_CON;
          rtw_write32 REG_CPU_DMEM_CON (v OR (BIT_WL_PLATFORM_RST OR BIT_DDMA_EN));
          rtw_write8_set (REG_SYS_FUNC_EN + 1) sys_func_en;
          value8 \<leftarrow> rtw_read8 (REG_CR_EXT + 3);
          rtw_write8 (REG_CR_EXT + 3) ((value8 AND 0xF0) OR 0x0C);
          tmp \<leftarrow> rtw_read32 REG_MCUFW_CTRL;
          (if tmp AND BIT_BOOT_FSPI_EN \<noteq> 0
           then do { rtw_write32 REG_MCUFW_CTRL (tmp AND NOT BIT_BOOT_FSPI_EN);
                     v \<leftarrow> rtw_read32 REG_GPIO_MUXCFG;
                     rtw_write32 REG_GPIO_MUXCFG (v AND NOT BIT_FSPI_EN) }
           else skip);
          State_Monad.return 0 }"

definition rtw_mac_init_system_cfg_legacy :: "('x, int) dev" where
  "rtw_mac_init_system_cfg_legacy =
     do { rtw_write8 REG_CR 0xff;
          delay_us 2000;
          rtw_write8 REG_HWSEQ_CTRL 0x7f;
          delay_us 2000;
          rtw_write8_set REG_SYS_CLKR BIT_WAKEPAD_EN;
          rtw_write16_clr REG_GPIO_MUXCFG BIT_EN_SIC;
          rtw_write16 REG_CR 0x2ff;
          State_Monad.return 0 }"

definition rtw_mac_init_system_cfg :: "('x, int) dev" where
  "rtw_mac_init_system_cfg =
     do { legacy \<leftarrow> dev_get rtw_chip_wcpu_8051;
          if legacy then rtw_mac_init_system_cfg_legacy else rtw_mac_init_system_cfg_3081 }"

section \<open>The power switch\<close>

text \<open>Whether the chip is powered, as its registers tell.\<close>

definition mac_cur_pwr :: "('x, bool) dev" where
  "mac_cur_pwr =
     do { cr \<leftarrow> rtw_read8 REG_CR;
          usb \<leftarrow> dev_get (\<lambda>s. hci_type s = RTW_HCI_TYPE_USB \<and> ci_id (chip s) \<noteq> RTW_CHIP_TYPE_8814A);
          if cr = 0xea then State_Monad.return False
          else if usb then do { st \<leftarrow> rtw_read8 (REG_SYS_STATUS1 + 1);
                                State_Monad.return (st AND 1 = 0) }
          else State_Monad.return True }"

definition rtw_mac_power_switch :: "bool \<Rightarrow> ('x, int) dev" where
  "rtw_mac_power_switch pwr_on =
     do { wcpu3081 \<leftarrow> dev_get rtw_chip_wcpu_3081;
          rpwm_reg \<leftarrow> dev_get rpwm_addr;
          (if wcpu3081
           then do { rpwm \<leftarrow> rtw_read8 rpwm_reg;
                     fw \<leftarrow> rtw_read16 REG_MCUFW_CTRL;
                     when_do (fw = 0xC078)
                       (rtw_write8 rpwm_reg ((rpwm XOR BIT_RPWM_TOGGLE) AND BIT_RPWM_TOGGLE)) }
           else skip);
          cur_pwr \<leftarrow> mac_cur_pwr;
          if pwr_on = cur_pwr then State_Monad.return (- EALREADY)
          else do { sdio \<leftarrow> dev_get (\<lambda>s. hci_type s = RTW_HCI_TYPE_SDIO);
                    imr \<leftarrow> (if sdio then do { imr \<leftarrow> rtw_read32 REG_SDIO_HIMR;
                                              rtw_write32 REG_SDIO_HIMR 0;
                                              State_Monad.return imr }
                            else State_Monad.return 0);
                    when_do (\<not> pwr_on) (dev_upd (\<lambda>s. s\<lparr>flag_poweron := False\<rparr>));
                    pwr_seq \<leftarrow> dev_get (\<lambda>s. if pwr_on then ci_pwr_on_seq (chip s) else ci_pwr_off_seq (chip s));
                    ret \<leftarrow> rtw_pwr_seq_parser pwr_seq;
                    usb \<leftarrow> dev_get (\<lambda>s. hci_type s = RTW_HCI_TYPE_USB);
                    id \<leftarrow> dev_get (\<lambda>s. ci_id (chip s));
                    when_do (pwr_on \<and> usb \<and> (id = RTW_CHIP_TYPE_8822C \<or>
                        id = RTW_CHIP_TYPE_8822B \<or> id = RTW_CHIP_TYPE_8821C))
                      (rtw_write8_clr (REG_SYS_STATUS1 + 1) 1);
                    when_do sdio (rtw_write32 REG_SDIO_HIMR imr);
                    when_do (ret = 0 \<and> pwr_on) (dev_upd (\<lambda>s. s\<lparr>flag_poweron := True\<rparr>));
                    State_Monad.return ret } }"

definition rtw_mac_power_on :: "('x, int) dev" where
  "rtw_mac_power_on =
     then_do rtw_mac_pre_system_cfg
       (do { ret \<leftarrow> rtw_mac_power_switch True;
             if ret = - EALREADY
             then do { _ \<leftarrow> rtw_mac_power_switch False;
                       then_do rtw_mac_pre_system_cfg
                         (then_do (rtw_mac_power_switch True) rtw_mac_init_system_cfg) }
             else if ret \<noteq> 0 then State_Monad.return ret
             else rtw_mac_init_system_cfg })"

definition rtw_mac_power_off :: "('x, unit) dev" where
  "rtw_mac_power_off = do { _ \<leftarrow> rtw_mac_power_switch False; skip }"

section \<open>What a power sequence does\<close>

text \<open>
  The specification of a run on the commands that apply: one clause per kind of command.
  A write changes the bits of its mask and no others; a poll reads its register until the
  masked value is the wanted one, and fails the run when its last read still is not.
\<close>

definition pwr_polled :: "rtw_pwr_seq_cmd \<Rightarrow> u8 \<Rightarrow> bool" where
  "pwr_polled c v \<longleftrightarrow> v AND cmd_mask c = cmd_value c AND cmd_mask c"

definition pwr_idle_poll :: "rtw_pwr_seq_cmd \<Rightarrow> io \<Rightarrow> bool" where
  "pwr_idle_poll c e \<longleftrightarrow>
     (\<exists>v. \<not> pwr_polled c v \<and> e = Rd 1 (pwr_cmd_addr c) (ucast v)) \<or> e = Delay 50"

inductive pwr_trace :: "rtw_pwr_seq_cmd list \<Rightarrow> io list \<Rightarrow> int \<Rightarrow> bool" where
  pwr_done: "pwr_trace [] [] 0"
| pwr_write: "cmd_cmd c = RTW_PWR_CMD_WRITE \<Longrightarrow> pwr_trace cs l ret \<Longrightarrow>
    w = (v AND NOT (cmd_mask c)) OR (cmd_value c AND cmd_mask c) \<Longrightarrow>
    pwr_trace (c # cs) (Rd 1 (pwr_cmd_addr c) (ucast (v :: u8)) # Wr 1 (pwr_cmd_addr c) (ucast w) # l) ret"
| pwr_poll: "cmd_cmd c = RTW_PWR_CMD_POLLING \<Longrightarrow> list_all (pwr_idle_poll c) p \<Longrightarrow> pwr_polled c v \<Longrightarrow>
    pwr_trace cs l ret \<Longrightarrow> pwr_trace (c # cs) (p @ Rd 1 (pwr_cmd_addr c) (ucast v) # l) ret"
| pwr_poll_fail: "cmd_cmd c = RTW_PWR_CMD_POLLING \<Longrightarrow> list_all (pwr_idle_poll c) p \<Longrightarrow> \<not> pwr_polled c v \<Longrightarrow>
    pwr_trace (c # cs) (p @ [Rd 1 (pwr_cmd_addr c) (ucast v)]) (- EBUSY)"
| pwr_delay: "cmd_cmd c = RTW_PWR_CMD_DELAY \<Longrightarrow> pwr_trace cs l ret \<Longrightarrow>
    n = (if cmd_value c = RTW_PWR_DELAY_US then uint (cmd_offset c) else 1000 * uint (cmd_offset c)) \<Longrightarrow>
    pwr_trace (c # cs) (Delay n # l) ret"
| pwr_read: "cmd_cmd c = RTW_PWR_CMD_READ \<Longrightarrow> pwr_trace cs l ret \<Longrightarrow> pwr_trace (c # cs) l ret"
| pwr_bad: "cmd_cmd c \<notin> {RTW_PWR_CMD_WRITE, RTW_PWR_CMD_POLLING, RTW_PWR_CMD_DELAY, RTW_PWR_CMD_READ} \<Longrightarrow>
    pwr_trace (c # cs) [] (- EINVAL)"

inductive_cases pwr_trace_NilE: "pwr_trace [] l ret"
inductive_simps pwr_trace_Nil [simp]: "pwr_trace [] l ret"

lemma ucast_and_u8: "(ucast (x :: u8) :: u32) AND ucast y = ucast (x AND y)"
  by (rule bit_word_eqI) (auto simp: bit_simps)

lemma ucast_and_eq: "(ucast (v :: u8) :: u32) AND ucast m = ucast b AND ucast m \<longleftrightarrow> v AND m = b AND m"
  unfolding ucast_and_u8 by (rule ucast_u8_u32_inject)

text \<open>The commands of a table that are run: those before its end that match.\<close>

definition pwr_applied :: "u8 \<Rightarrow> u8 \<Rightarrow> rtw_pwr_seq_cmd list \<Rightarrow> rtw_pwr_seq_cmd list" where
  "pwr_applied intf cutm cmds =
     filter (pwr_cmd_matches intf cutm) (takeWhile (\<lambda>c. cmd_cmd c \<noteq> RTW_PWR_CMD_END) cmds)"

text \<open>\<open>log_only s s' l\<close>: the only change from \<open>s\<close> to \<open>s'\<close> is that \<open>l\<close> was logged.\<close>

definition log_only :: "'x rtw_dev_scheme \<Rightarrow> 'x rtw_dev_scheme \<Rightarrow> io list \<Rightarrow> bool" where
  "log_only s s' l \<longleftrightarrow> s' = s\<lparr>io_log := io_log s @ l\<rparr>"

lemma log_only_refl: "log_only s s []"
  by (simp add: log_only_def)

lemma log_only_trans: "log_only s s' l \<Longrightarrow> log_only s' s'' l' \<Longrightarrow> log_only s s'' (l @ l')"
  by (simp add: log_only_def)

lemma log_only_fields:
  assumes "log_only s s' l"
  shows "hci_type s' = hci_type s" and "poll_max s' = poll_max s" and "chip s' = chip s"
    and "cut_version s' = cut_version s" and "dev_read s' = dev_read s" and "flag_poweron s' = flag_poweron s"
    and "fifo s' = fifo s"
  using assms by (simp_all add: log_only_def)

lemma pwr_poll_run:
  assumes "run_state (do_pwr_poll_cmd (pwr_cmd_addr c) (ucast (cmd_mask c)) (ucast (cmd_value c))) s = (ok, s')"
  obtains p v where "log_only s s' (p @ [Rd 1 (pwr_cmd_addr c) (ucast v)])"
    and "ok = pwr_polled c v" and "list_all (pwr_idle_poll c) p"
proof -
  let ?c = "\<lambda>v :: u8. (ucast v :: u32) AND ucast (cmd_mask c) = ucast (cmd_value c) AND ucast (cmd_mask c)"
  have c: "?c = pwr_polled c"
    by (intro ext) (simp only: ucast_and_eq pwr_polled_def)
  obtain r where run: "run_state (read_poll8 (poll_max s (50 * 20000)) 50 (pwr_cmd_addr c) ?c) s = (r, s')"
    and ok: "ok = snd r"
    using assms by (auto simp: do_pwr_poll_cmd_def Let_def split: prod.splits)
  from read_poll8_log [OF run] obtain l v where
    l: "s' = s\<lparr>io_log := io_log s @ l @ [Rd 1 (pwr_cmd_addr c) (ucast v)]\<rparr>" "r = (v, ?c v)"
      "\<forall>e \<in> set l. (\<exists>v. \<not> ?c v \<and> e = Rd 1 (pwr_cmd_addr c) (ucast v)) \<or> e = Delay 50"
    by blast
  show ?thesis
  proof (rule that [of l v])
    show "log_only s s' (l @ [Rd 1 (pwr_cmd_addr c) (ucast v)])"
      using l(1) by (simp add: log_only_def)
    show "ok = pwr_polled c v"
      using l(2) ok c by (simp add: fun_eq_iff)
    show "list_all (pwr_idle_poll c) l"
      using l(3) c by (simp add: list_all_iff pwr_idle_poll_def fun_eq_iff)
  qed
qed

text \<open>One command: its accesses in front of what follows, or a failure that ends the run.\<close>

lemma pwr_seq_cmd_run:
  assumes run: "run_state (pwr_seq_cmd c) s = (ret, s')" and hci: "hci_type s \<noteq> RTW_HCI_TYPE_PCIE"
  shows "\<exists>l. log_only s s' l \<and>
     (\<forall>cs l' r. ret = 0 \<longrightarrow> pwr_trace cs l' r \<longrightarrow> pwr_trace (c # cs) (l @ l') r) \<and>
     (\<forall>cs. ret \<noteq> 0 \<longrightarrow> pwr_trace (c # cs) l ret)"
proof -
  consider (w) "cmd_cmd c = RTW_PWR_CMD_WRITE" | (p) "cmd_cmd c = RTW_PWR_CMD_POLLING"
    | (d) "cmd_cmd c = RTW_PWR_CMD_DELAY" | (r) "cmd_cmd c = RTW_PWR_CMD_READ"
    | (b) "cmd_cmd c \<notin> {RTW_PWR_CMD_WRITE, RTW_PWR_CMD_POLLING, RTW_PWR_CMD_DELAY, RTW_PWR_CMD_READ}"
    by blast
  then show ?thesis
  proof cases
    case w
    define v :: u8 where "v = ucast (dev_read s (io_log s) 1 (pwr_cmd_addr c))"
    define l where "l = [Rd 1 (pwr_cmd_addr c) (ucast v),
      Wr 1 (pwr_cmd_addr c) (ucast ((v AND NOT (cmd_mask c)) OR (cmd_value c AND cmd_mask c)))]"
    have "log_only s s' l" and "ret = 0"
      using run w by (auto simp: pwr_seq_cmd_def log_only_def l_def v_def ucast8_ucast32)
    then show ?thesis
      using w by (intro exI [of _ l]) (auto simp: l_def intro: pwr_write simp del: One_nat_def)
  next
    case p
    obtain ok s1 where poll: "run_state (do_pwr_poll_cmd (pwr_cmd_addr c) (ucast (cmd_mask c))
        (ucast (cmd_value c))) s = (ok, s1)"
      by (cases "run_state (do_pwr_poll_cmd (pwr_cmd_addr c) (ucast (cmd_mask c)) (ucast (cmd_value c))) s")
    from pwr_poll_run [OF poll] obtain q v where
      q: "log_only s s1 (q @ [Rd 1 (pwr_cmd_addr c) (ucast v)])" "ok = pwr_polled c v"
        "list_all (pwr_idle_poll c) q" .
    have "ret = (if ok then 0 else - EBUSY)" and "s' = s1"
      using run p poll hci log_only_fields(1) [OF q(1)]
      by (auto simp: pwr_seq_cmd_def rtw_pwr_cmd_polling_def split: if_splits)
    then show ?thesis
      using q p by (intro exI [of _ "q @ [Rd 1 (pwr_cmd_addr c) (ucast v)]"])
        (auto intro: pwr_poll pwr_poll_fail split: if_splits simp del: One_nat_def)
  next
    case d
    let ?n = "if cmd_value c = RTW_PWR_DELAY_US then uint (cmd_offset c) else 1000 * uint (cmd_offset c)"
    have "log_only s s' [Delay ?n]" and "ret = 0"
      using run d by (auto simp: pwr_seq_cmd_def log_only_def)
    then show ?thesis
      using d by (intro exI [of _ "[Delay ?n]"]) (auto intro: pwr_delay)
  next
    case r
    have "log_only s s' []" and "ret = 0"
      using run r by (auto simp: pwr_seq_cmd_def log_only_def)
    then show ?thesis
      using r by (intro exI [of _ "[]"]) (auto intro: pwr_read)
  next
    case b
    have "log_only s s' []" and "ret = - EINVAL"
      using run b by (auto simp: pwr_seq_cmd_def log_only_def)
    then show ?thesis
      using b by (intro exI [of _ "[]"]) (auto intro: pwr_bad)
  qed
qed

lemma sub_parser_run:
  assumes "run_state (rtw_sub_pwr_seq_parser intf cutm cmds) s = (ret, s')"
    and "hci_type s \<noteq> RTW_HCI_TYPE_PCIE"
  shows "\<exists>l. log_only s s' l \<and>
     (\<forall>cs l' r. ret = 0 \<longrightarrow> pwr_trace cs l' r \<longrightarrow>
        pwr_trace (pwr_applied intf cutm cmds @ cs) (l @ l') r) \<and>
     (\<forall>cs. ret \<noteq> 0 \<longrightarrow> pwr_trace (pwr_applied intf cutm cmds @ cs) l ret)"
  using assms
proof (induction intf cutm cmds arbitrary: s rule: rtw_sub_pwr_seq_parser.induct)
  case (1 intf cutm)
  then show ?case
    by (intro exI [of _ "[]"]) (auto simp: log_only_refl pwr_applied_def)
next
  case (2 intf cutm cmd cmds)
  consider (e) "cmd_cmd cmd = RTW_PWR_CMD_END"
    | (n) "cmd_cmd cmd \<noteq> RTW_PWR_CMD_END" "\<not> pwr_cmd_matches intf cutm cmd"
    | (m) "cmd_cmd cmd \<noteq> RTW_PWR_CMD_END" "pwr_cmd_matches intf cutm cmd" by blast
  then show ?case
  proof cases
    case e
    with 2(3) show ?thesis
      by (intro exI [of _ "[]"]) (auto simp: log_only_refl pwr_applied_def)
  next
    case n
    then have ap: "pwr_applied intf cutm (cmd # cmds) = pwr_applied intf cutm cmds"
      by (simp add: pwr_applied_def)
    from n 2(3) have "run_state (rtw_sub_pwr_seq_parser intf cutm cmds) s = (ret, s')"
      by simp
    from 2(1) [OF n this 2(4)] show ?thesis
      unfolding ap .
  next
    case m
    then have ap: "pwr_applied intf cutm (cmd # cmds) = cmd # pwr_applied intf cutm cmds"
      by (simp add: pwr_applied_def)
    obtain ret1 s1 where c: "run_state (pwr_seq_cmd cmd) s = (ret1, s1)"
      by (cases "run_state (pwr_seq_cmd cmd) s")
    from pwr_seq_cmd_run [OF c 2(4)] obtain l1 where l1: "log_only s s1 l1"
      "\<forall>cs l' r. ret1 = 0 \<longrightarrow> pwr_trace cs l' r \<longrightarrow> pwr_trace (cmd # cs) (l1 @ l') r"
      "\<forall>cs. ret1 \<noteq> 0 \<longrightarrow> pwr_trace (cmd # cs) l1 ret1" by blast
    show ?thesis
    proof (cases "ret1 = 0")
      case False
      with m c 2(3) have "ret = ret1" "s' = s1"
        by (simp_all add: run_then_do)
      with l1 False show ?thesis
        by (intro exI [of _ l1]) (simp add: ap)
    next
      case True
      with m c 2(3) have "run_state (rtw_sub_pwr_seq_parser intf cutm cmds) s1 = (ret, s')"
        by (simp add: run_then_do)
      from 2(2) [OF m(1) _ this] m 2(4) log_only_fields(1) [OF l1(1)]
      obtain l where "log_only s1 s' l"
        "\<forall>cs l' r. ret = 0 \<longrightarrow> pwr_trace cs l' r \<longrightarrow> pwr_trace (pwr_applied intf cutm cmds @ cs) (l @ l') r"
        "\<forall>cs. ret \<noteq> 0 \<longrightarrow> pwr_trace (pwr_applied intf cutm cmds @ cs) l ret"
        by auto
      with l1 True log_only_trans show ?thesis
        by (intro exI [of _ "l1 @ l"]) (simp add: ap, blast)
    qed
  qed
qed

lemma seq_tables_run:
  assumes "run_state (pwr_seq_tables intf cutm tabs) s = (ret, s')"
    and "hci_type s \<noteq> RTW_HCI_TYPE_PCIE"
  shows "\<exists>l. log_only s s' l \<and> pwr_trace (concat (map (pwr_applied intf cutm) tabs)) l ret"
  using assms
proof (induction intf cutm tabs arbitrary: s rule: pwr_seq_tables.induct)
  case (1 intf cutm)
  then show ?case
    by (intro exI [of _ "[]"]) (simp add: log_only_refl)
next
  case (2 intf cutm cmd tabs)
  obtain ret1 s1 where c: "run_state (rtw_sub_pwr_seq_parser intf cutm cmd) s = (ret1, s1)"
    by (cases "run_state (rtw_sub_pwr_seq_parser intf cutm cmd) s")
  from sub_parser_run [OF c 2(3)] obtain l1 where l1: "log_only s s1 l1"
    "\<forall>cs l' r. ret1 = 0 \<longrightarrow> pwr_trace cs l' r \<longrightarrow> pwr_trace (pwr_applied intf cutm cmd @ cs) (l1 @ l') r"
    "\<forall>cs. ret1 \<noteq> 0 \<longrightarrow> pwr_trace (pwr_applied intf cutm cmd @ cs) l1 ret1" by blast
  show ?case
  proof (cases "ret1 = 0")
    case False
    with c 2(2) have "ret = ret1" "s' = s1"
      by (simp_all add: run_then_do)
    with l1 False show ?thesis by auto
  next
    case True
    with c 2(2) have "run_state (pwr_seq_tables intf cutm tabs) s1 = (ret, s')"
      by (simp add: run_then_do)
    from 2(1) [OF this] 2(3) log_only_fields(1) [OF l1(1)] obtain l where
      "log_only s1 s' l" "pwr_trace (concat (map (pwr_applied intf cutm) tabs)) l ret" by auto
    with l1 True log_only_trans show ?thesis
      by (intro exI [of _ "l1 @ l"]) (simp, blast)
  qed
qed

text \<open>
  Property C26. A power sequence refines its specification: on USB and SDIO the parser only
  accesses registers, and the accesses are those of the matching commands in table order,
  each write confined to its mask, each successful poll ended by a read of the wanted value;
  it returns 0 exactly when all commands ran, and -EBUSY at the first poll that timed out.
\<close>
theorem rtw_pwr_seq_parser_refines:
  assumes "run_state (rtw_pwr_seq_parser tabs) s = (ret, s')"
    and "pwr_intf_mask (hci_type s) = Some intf" and "hci_type s \<noteq> RTW_HCI_TYPE_PCIE"
  shows "\<exists>l. s' = s\<lparr>io_log := io_log s @ l\<rparr> \<and>
     pwr_trace (concat (map (pwr_applied intf (cut_version_to_mask (cut_version s))) tabs)) l ret"
proof -
  from assms(1,2) have "run_state (pwr_seq_tables intf (cut_version_to_mask (cut_version s)) tabs) s = (ret, s')"
    by (simp add: rtw_pwr_seq_parser_def)
  from seq_tables_run [OF this assms(3)] show ?thesis
    by (simp add: log_only_def)
qed

end
