(* ===== verification/Chip8812a.thy ===== *)
theory Chip8812a
  imports MacPower
begin

text \<open>
  The RTL8812A as the MAC layer sees it (\<open>rtw8812a.c\<close>): its page and queue tables and its
  \<open>rtw_chip_info\<close>, and a device just bound to the driver, on which the witnesses run.
\<close>

definition page_row :: "u16 \<Rightarrow> u16 \<Rightarrow> u16 \<Rightarrow> u16 \<Rightarrow> u16 \<Rightarrow> rtw_page_table" where
  "page_row hq nq lq exq gapq =
     \<lparr>hq_num = hq, nq_num = nq, lq_num = lq, exq_num = exq, gapq_num = gapq\<rparr>"

definition page_table_8812a :: "rtw_page_table list" where
  "page_table_8812a =
     [page_row 0 0 0 0 0, page_row 16 0 16 0 1, page_row 16 0 0 0 1,
      page_row 16 0 16 0 1, page_row 16 0 16 0 1]"

text \<open>Indexed by \<open>rtw_dma_mapping\<close>: extra, low, normal, high.\<close>

definition prioq_addrs_8812a :: "rtw_prioq_addr list" where
  "prioq_addrs_8812a =
     [\<lparr>pq_rsvd = REG_RQPN_NPQ + 2, pq_avail = REG_RQPN_NPQ + 3\<rparr>,
      \<lparr>pq_rsvd = REG_RQPN + 1, pq_avail = REG_FIFOPAGE_CTRL_2 + 1\<rparr>,
      \<lparr>pq_rsvd = REG_RQPN_NPQ, pq_avail = REG_RQPN_NPQ + 1\<rparr>,
      \<lparr>pq_rsvd = REG_RQPN, pq_avail = REG_FIFOPAGE_CTRL_2\<rparr>]"

definition rtw8812a_hw_spec :: rtw_chip_info where
  "rtw8812a_hw_spec =
     \<lparr>ci_id = RTW_CHIP_TYPE_8812A, ci_wlan_cpu = RTW_WCPU_8051,
      ci_pwr_on_seq = card_enable_flow_8812a, ci_pwr_off_seq = card_disable_flow_8812a,
      ci_rqpn_table = rqpn_table_8812a, ci_page_table = page_table_8812a,
      ci_prioq = prioq_addrs_8812a, ci_prioq_wsize = False, ci_sys_func_en = 0xFD,
      ci_tx_pkt_desc_sz = 40, ci_ltecoex_addr = None, ci_txff_size = 131072,
      ci_rxff_size = 16128, ci_page_size = 512, ci_rsvd_drv_pg_num = 9,
      ci_csi_buf_pg_num = 0, ci_usb_tx_agg_desc_num = 1\<rparr>"

definition fifo_zero :: rtw_fifo_conf where
  "fifo_zero =
     \<lparr>rsvd_boundary = 0, rsvd_pg_num = 0, rsvd_drv_pg_num = 0, txff_pg_num = 0, acq_pg_num = 0,
      rsvd_drv_addr = 0, rsvd_h2c_info_addr = 0, rsvd_h2c_sta_info_addr = 0, rsvd_h2cq_addr = 0,
      rsvd_cpu_instr_addr = 0, rsvd_fw_txbuf_addr = 0, rsvd_csibuf_addr = 0, fifo_rqpn = None\<rparr>"

text \<open>A device with \<open>n\<close> bulk OUT endpoints whose registers read as \<open>regs\<close> says.\<close>

definition usb_8812a :: "u8 \<Rightarrow> (io list \<Rightarrow> nat \<Rightarrow> u32 \<Rightarrow> u32) \<Rightarrow> rtw_dev" where
  "usb_8812a n regs =
     \<lparr>io_log = [], dev_read = regs, chip = rtw8812a_hw_spec, hci_type = RTW_HCI_TYPE_USB,
      hci_bulkout_num = n, rpwm_addr = 0xfe58, sdio3_bus_mode = False, cut_version = 0,
      hw_queues = 4, flag_poweron = False, flag_fw_running = False, fifo = fifo_zero,
      h2c_last_box_num = 0, h2c_seq = 0, poll_max = (\<lambda>us. 2), kmem_ok = (\<lambda>_. True)\<rparr>"

text \<open>Registers of a chip that is ready to be switched on, and one that never gets ready.\<close>

definition ready_regs :: "io list \<Rightarrow> nat \<Rightarrow> u32 \<Rightarrow> u32" where
  "ready_regs l w a = (if a = 6 then 2 else 0)"

text \<open>The witness: switching on a ready chip with the driver's own tables.\<close>

lemma rtw_pwr_seq_parser_refines_witness:
  "\<exists>l. snd (run_state (rtw_pwr_seq_parser card_enable_flow_8812a) (usb_8812a 3 ready_regs))
        = (usb_8812a 3 ready_regs)\<lparr>io_log := l\<rparr> \<and>
     pwr_trace (concat (map (pwr_applied RTW_PWR_INTF_USB_MSK (cut_version_to_mask 0)) card_enable_flow_8812a)) l
       (fst (run_state (rtw_pwr_seq_parser card_enable_flow_8812a) (usb_8812a 3 ready_regs)))"
  using rtw_pwr_seq_parser_refines [of card_enable_flow_8812a "usb_8812a 3 ready_regs" _ _ RTW_PWR_INTF_USB_MSK, OF prod.collapse [symmetric]]
  by (simp add: usb_8812a_def)

end
