(* ===== verification/MacFifo.thy ===== *)
theory MacFifo
  imports Chip8812a
begin

text \<open>
  The transmit and receive buffers of the chip (\<open>mac.c\<close>): how its pages are divided, the map
  from queues to DMA channels, the H2C queue, and flushing the queues. The chip's own
  \<open>mac_init\<close> and the host interface's configuration are parameters (function pointers).
\<close>

section \<open>Flushing the priority queues\<close>

fun dma_mapping_num :: "rtw_dma_mapping \<Rightarrow> nat" where
  "dma_mapping_num RTW_DMA_MAPPING_EXTRA = 0"
| "dma_mapping_num RTW_DMA_MAPPING_LOW = 1"
| "dma_mapping_num RTW_DMA_MAPPING_NORMAL = 2"
| "dma_mapping_num RTW_DMA_MAPPING_HIGH = 3"

abbreviation (input) RTW_DMA_MAPPING_MAX :: nat where "RTW_DMA_MAPPING_MAX \<equiv> 4"
abbreviation (input) IEEE80211_AC_VO :: nat where "IEEE80211_AC_VO \<equiv> 0"
abbreviation (input) IEEE80211_AC_VI :: nat where "IEEE80211_AC_VI \<equiv> 1"
abbreviation (input) IEEE80211_AC_BE :: nat where "IEEE80211_AC_BE \<equiv> 2"
abbreviation (input) IEEE80211_AC_BK :: nat where "IEEE80211_AC_BK \<equiv> 3"

definition get_priority_queues :: "rtw_rqpn \<Rightarrow> u32 \<Rightarrow> u32" where
  "get_priority_queues rqpn queues =
     (if queues AND BIT IEEE80211_AC_VO \<noteq> 0 then BIT (dma_mapping_num (dma_map_vo rqpn)) else 0) OR
     (if queues AND BIT IEEE80211_AC_VI \<noteq> 0 then BIT (dma_mapping_num (dma_map_vi rqpn)) else 0) OR
     (if queues AND BIT IEEE80211_AC_BE \<noteq> 0 then BIT (dma_mapping_num (dma_map_be rqpn)) else 0) OR
     (if queues AND BIT IEEE80211_AC_BK \<noteq> 0 then BIT (dma_mapping_num (dma_map_bk rqpn)) else 0)"

definition read_pages :: "bool \<Rightarrow> u32 \<Rightarrow> ('x, u16) dev" where
  "read_pages wsize a =
     (if wsize then rtw_read16 a else do { v \<leftarrow> rtw_read8 a; State_Monad.return (ucast v) })"

fun flush_wait :: "nat \<Rightarrow> bool \<Rightarrow> rtw_prioq_addr \<Rightarrow> ('x, unit) dev" where
  "flush_wait 0 wsize addr = skip"
| "flush_wait (Suc n) wsize addr =
     do { rsvd_page \<leftarrow> read_pages wsize (pq_rsvd addr);
          avail_page \<leftarrow> read_pages wsize (pq_avail addr);
          if rsvd_page = avail_page then skip
          else do { delay_us 20000; flush_wait n wsize addr } }"

definition rtw_mac_flush_prio_queue :: "nat \<Rightarrow> ('x, unit) dev" where
  "rtw_mac_flush_prio_queue prio_queue =
     (if prio_queue \<ge> RTW_DMA_MAPPING_MAX then skip
      else do { addr \<leftarrow> dev_get (\<lambda>s. ci_prioq (chip s) ! prio_queue);
                wsize \<leftarrow> dev_get (\<lambda>s. ci_prioq_wsize (chip s));
                flush_wait 5 wsize addr })"

fun flush_queues_from :: "nat list \<Rightarrow> u32 \<Rightarrow> ('x, unit) dev" where
  "flush_queues_from [] prio_queues = skip"
| "flush_queues_from (q # qs) prio_queues =
     do { when_do (prio_queues AND BIT q \<noteq> 0) (rtw_mac_flush_prio_queue q);
          flush_queues_from qs prio_queues }"

definition rtw_mac_flush_prio_queues :: "u32 \<Rightarrow> ('x, unit) dev" where
  "rtw_mac_flush_prio_queues prio_queues = flush_queues_from [0..<RTW_DMA_MAPPING_MAX] prio_queues"

definition rtw_mac_flush_queues :: "u32 \<Rightarrow> ('x, unit) dev" where
  "rtw_mac_flush_queues queues =
     do { all \<leftarrow> dev_get (\<lambda>s. BIT (hw_queues s) - 1);
          rqpn \<leftarrow> dev_get (\<lambda>s. fifo_rqpn (fifo s));
          rtw_mac_flush_prio_queues
            (case rqpn of None \<Rightarrow> BIT RTW_DMA_MAPPING_MAX - 1
             | Some r \<Rightarrow> if queues = all then BIT RTW_DMA_MAPPING_MAX - 1
                         else get_priority_queues r queues) }"

section \<open>Mapping the queues to DMA channels\<close>

text \<open>The row of the chip's per-interface tables that applies, if any.\<close>

fun hci_table_row :: "rtw_hci_type \<Rightarrow> u8 \<Rightarrow> nat option" where
  "hci_table_row RTW_HCI_TYPE_PCIE bulkout = Some 1"
| "hci_table_row RTW_HCI_TYPE_USB bulkout =
     (if bulkout = 2 then Some 2 else if bulkout = 3 then Some 3
      else if bulkout = 4 then Some 4 else None)"
| "hci_table_row RTW_HCI_TYPE_SDIO bulkout = Some 0"
| "hci_table_row RTW_HCI_TYPE_UNDEFINE bulkout = None"

definition txdma_map :: "nat \<Rightarrow> rtw_dma_mapping \<Rightarrow> u16" where
  "txdma_map sh m = push_bit sh (of_nat (dma_mapping_num m) AND 3)"

definition txdma_pq_map_of :: "rtw_rqpn \<Rightarrow> u16" where
  "txdma_pq_map_of rqpn =
     txdma_map 14 (dma_map_hi rqpn) OR txdma_map 12 (dma_map_mg rqpn) OR
     txdma_map 10 (dma_map_bk rqpn) OR txdma_map 8 (dma_map_be rqpn) OR
     txdma_map 6 (dma_map_vi rqpn) OR txdma_map 4 (dma_map_vo rqpn)"

definition txdma_queue_mapping :: "('x, int) dev" where
  "txdma_queue_mapping =
     do { row \<leftarrow> dev_get (\<lambda>s. hci_table_row (hci_type s) (hci_bulkout_num s));
          case row of None \<Rightarrow> State_Monad.return (- EINVAL)
          | Some i \<Rightarrow>
            do { rqpn \<leftarrow> dev_get (\<lambda>s. ci_rqpn_table (chip s) ! i);
                 dev_upd (\<lambda>s. s\<lparr>fifo := (fifo s)\<lparr>fifo_rqpn := Some rqpn\<rparr>\<rparr>);
                 rtw_write16 REG_TXDMA_PQ_MAP (txdma_pq_map_of rqpn);
                 rtw_write8 REG_CR 0;
                 rtw_write8 REG_CR MAC_TRX_ENABLE;
                 wcpu3081 \<leftarrow> dev_get rtw_chip_wcpu_3081;
                 when_do wcpu3081 (rtw_write32 REG_H2CQ_CSR BIT_H2CQ_FULL);
                 t \<leftarrow> dev_get hci_type;
                 (if t = RTW_HCI_TYPE_SDIO
                  then do { _ \<leftarrow> rtw_read32 REG_SDIO_FREE_TXPG; rtw_write32 REG_SDIO_TX_CTRL 0 }
                  else if t = RTW_HCI_TYPE_USB
                  then rtw_write8_set REG_TXDMA_PQ_MAP BIT_RXDMA_ARBBW_EN
                  else skip);
                 State_Monad.return 0 } }"

section \<open>Dividing the pages of the transmit FIFO\<close>

definition fifo_rsvd_total :: "rtw_chip_info \<Rightarrow> u16" where
  "fifo_rsvd_total c =
     (if ci_wlan_cpu c = RTW_WCPU_8051 then ci_rsvd_drv_pg_num c
      else ci_rsvd_drv_pg_num c + RSVD_PG_H2C_EXTRAINFO_NUM + RSVD_PG_H2C_STATICINFO_NUM +
           RSVD_PG_H2CQ_NUM + RSVD_PG_CPU_INSTRUCTION_NUM + RSVD_PG_FW_TXBUF_NUM +
           ucast (ci_csi_buf_pg_num c))"

text \<open>The addresses, from the end of the buffer downwards.\<close>

definition fifo_rsvd_addrs :: "rtw_chip_info \<Rightarrow> rtw_fifo_conf \<Rightarrow> rtw_fifo_conf" where
  "fifo_rsvd_addrs c f =
     (let cur = txff_pg_num f
      in if ci_wlan_cpu c = RTW_WCPU_3081
         then let cur = cur - ucast (ci_csi_buf_pg_num c); f = f\<lparr>rsvd_csibuf_addr := cur\<rparr>;
                  cur = cur - RSVD_PG_FW_TXBUF_NUM; f = f\<lparr>rsvd_fw_txbuf_addr := cur\<rparr>;
                  cur = cur - RSVD_PG_CPU_INSTRUCTION_NUM; f = f\<lparr>rsvd_cpu_instr_addr := cur\<rparr>;
                  cur = cur - RSVD_PG_H2CQ_NUM; f = f\<lparr>rsvd_h2cq_addr := cur\<rparr>;
                  cur = cur - RSVD_PG_H2C_STATICINFO_NUM; f = f\<lparr>rsvd_h2c_sta_info_addr := cur\<rparr>;
                  cur = cur - RSVD_PG_H2C_EXTRAINFO_NUM; f = f\<lparr>rsvd_h2c_info_addr := cur\<rparr>;
                  cur = cur - rsvd_drv_pg_num f
              in f\<lparr>rsvd_drv_addr := cur\<rparr>
         else f\<lparr>rsvd_drv_addr := cur - rsvd_drv_pg_num f\<rparr>)"

definition fifo_info :: "rtw_chip_info \<Rightarrow> rtw_fifo_conf \<Rightarrow> int \<times> rtw_fifo_conf" where
  "fifo_info c f =
     (let f = f\<lparr>rsvd_drv_pg_num := ci_rsvd_drv_pg_num c,
                txff_pg_num := ucast (ci_txff_size c div ucast (ci_page_size c)),
                rsvd_pg_num := fifo_rsvd_total c\<rparr>
      in if rsvd_pg_num f > txff_pg_num f then (- ENOMEM, f)
         else let f = f\<lparr>acq_pg_num := txff_pg_num f - rsvd_pg_num f,
                        rsvd_boundary := txff_pg_num f - rsvd_pg_num f\<rparr>;
                  f = fifo_rsvd_addrs c f
              in (if rsvd_boundary f \<noteq> rsvd_drv_addr f then - EINVAL else 0, f))"

definition rtw_set_trx_fifo_info :: "('x, int) dev" where
  "rtw_set_trx_fifo_info =
     do { (ret, f) \<leftarrow> dev_get (\<lambda>s. fifo_info (chip s) (fifo s));
          dev_upd (\<lambda>s. s\<lparr>fifo := f\<rparr>);
          State_Monad.return ret }"

definition BIT_RQPN_NE :: "u16 \<Rightarrow> u16 \<Rightarrow> u32" where
  "BIT_RQPN_NE n e = (ucast n AND 0xff) OR push_bit 16 (ucast e AND 0xff)"

definition BIT_RQPN_HLP :: "u16 \<Rightarrow> u16 \<Rightarrow> u16 \<Rightarrow> u32" where
  "BIT_RQPN_HLP h l p =
     BIT_LD_RQPN OR (ucast h AND 0xff) OR push_bit 8 (ucast l AND 0xff) OR push_bit 16 (ucast p AND 0xff)"

definition pubq_num_of :: "rtw_page_table \<Rightarrow> u16 \<Rightarrow> u16" where
  "pubq_num_of pg acq = acq - hq_num pg - lq_num pg - nq_num pg - exq_num pg - gapq_num pg"

definition priority_queue_cfg_3081 :: "rtw_page_table \<Rightarrow> u16 \<Rightarrow> ('x, int) dev" where
  "priority_queue_cfg_3081 pg_tbl pubq_num =
     do { rtw_write16 REG_FIFOPAGE_INFO_1 (hq_num pg_tbl);
          rtw_write16 REG_FIFOPAGE_INFO_2 (lq_num pg_tbl);
          rtw_write16 REG_FIFOPAGE_INFO_3 (nq_num pg_tbl);
          rtw_write16 REG_FIFOPAGE_INFO_4 (exq_num pg_tbl);
          rtw_write16 REG_FIFOPAGE_INFO_5 pubq_num;
          rtw_write32_set REG_RQPN_CTRL_2 BIT_LD_RQPN;
          boundary \<leftarrow> dev_get (\<lambda>s. rsvd_boundary (fifo s));
          rtw_write16 REG_FIFOPAGE_CTRL_2 boundary;
          rtw_write8_set (REG_FWHW_TXQ_CTRL + 2) (ucast (drop_bit 16 (BIT_EN_WR_FREE_TAIL :: u32)));
          rtw_write16 REG_BCNQ_BDNY_V1 boundary;
          rtw_write16 (REG_FIFOPAGE_CTRL_2 + 2) boundary;
          rtw_write16 REG_BCNQ1_BDNY_V1 boundary;
          rxff \<leftarrow> dev_get (\<lambda>s. ci_rxff_size (chip s));
          rtw_write32 REG_RXFF_BNDY (rxff - C2H_PKT_BUF - 1);
          usb \<leftarrow> dev_get (\<lambda>s. hci_type s = RTW_HCI_TYPE_USB);
          agg \<leftarrow> dev_get (\<lambda>s. ci_usb_tx_agg_desc_num (chip s));
          (if usb
           then do { rtw_write8_mask REG_AUTO_LLT_V1 BIT_MASK_BLK_DESC_NUM agg;
                     rtw_write8 (REG_AUTO_LLT_V1 + 3) agg;
                     rtw_write8_set (REG_TXDMA_OFFSET_CHK + 1) (BIT 1) }
           else skip);
          rtw_write8_set REG_AUTO_LLT_V1 BIT_AUTO_INIT_LLT_V1;
          ready \<leftarrow> check_hw_ready REG_AUTO_LLT_V1 BIT_AUTO_INIT_LLT_V1 0;
          if \<not> ready then State_Monad.return (- EBUSY)
          else do { rtw_write8 (REG_CR + 3) 0; State_Monad.return 0 } }"

definition priority_queue_cfg_legacy :: "rtw_page_table \<Rightarrow> u16 \<Rightarrow> ('x, int) dev" where
  "priority_queue_cfg_legacy pg_tbl pubq_num =
     do { rtw_write32 REG_RQPN_NPQ (BIT_RQPN_NE (nq_num pg_tbl) (exq_num pg_tbl));
          rtw_write32 REG_RQPN (BIT_RQPN_HLP (hq_num pg_tbl) (lq_num pg_tbl) pubq_num);
          boundary \<leftarrow> dev_get (\<lambda>s. rsvd_boundary (fifo s));
          rxff \<leftarrow> dev_get (\<lambda>s. ci_rxff_size (chip s));
          rtw_write8 REG_TRXFF_BNDY (ucast boundary);
          rtw_write16 (REG_TRXFF_BNDY + 2) (ucast (rxff - REPORT_BUF - 1));
          rtw_write8 (REG_DWBCN0_CTRL + 1) (ucast boundary);
          rtw_write8 REG_BCNQ_BDNY (ucast boundary);
          rtw_write8 REG_MGQ_BDNY (ucast boundary);
          rtw_write8 REG_WMAC_LBK_BF_HD (ucast boundary);
          rtw_write32_set REG_AUTO_LLT BIT_AUTO_INIT_LLT;
          ready \<leftarrow> check_hw_ready REG_AUTO_LLT BIT_AUTO_INIT_LLT 0;
          State_Monad.return (if \<not> ready then - EBUSY else 0) }"

definition priority_queue_cfg :: "('x, int) dev" where
  "priority_queue_cfg =
     then_do rtw_set_trx_fifo_info
       (do { row \<leftarrow> dev_get (\<lambda>s. hci_table_row (hci_type s) (hci_bulkout_num s));
             case row of None \<Rightarrow> State_Monad.return (- EINVAL)
             | Some i \<Rightarrow>
               do { pg_tbl \<leftarrow> dev_get (\<lambda>s. ci_page_table (chip s) ! i);
                    pubq_num \<leftarrow> dev_get (\<lambda>s. pubq_num_of pg_tbl (acq_pg_num (fifo s)));
                    legacy \<leftarrow> dev_get rtw_chip_wcpu_8051;
                    if legacy then priority_queue_cfg_legacy pg_tbl pubq_num
                    else priority_queue_cfg_3081 pg_tbl pubq_num } })"

section \<open>The H2C queue\<close>

definition init_h2c :: "('x, int) dev" where
  "init_h2c =
     do { legacy \<leftarrow> dev_get rtw_chip_wcpu_8051;
          h2cq_addr \<leftarrow> dev_get (\<lambda>s. push_bit 7 (ucast (rsvd_h2cq_addr (fifo s)) :: u32));
          let h2cq_size = push_bit 7 (RSVD_PG_H2CQ_NUM :: u32);
          if legacy then State_Monad.return 0
          else do {
            value32 \<leftarrow> rtw_read32 REG_H2C_HEAD;
            rtw_write32 REG_H2C_HEAD ((value32 AND 0xFFFC0000) OR h2cq_addr);
            value32 \<leftarrow> rtw_read32 REG_H2C_READ_ADDR;
            rtw_write32 REG_H2C_READ_ADDR ((value32 AND 0xFFFC0000) OR h2cq_addr);
            value32 \<leftarrow> rtw_read32 REG_H2C_TAIL;
            rtw_write32 REG_H2C_TAIL ((value32 AND 0xFFFC0000) OR (h2cq_addr + h2cq_size));
            value8 \<leftarrow> rtw_read8 REG_H2C_INFO;
            rtw_write8 REG_H2C_INFO ((value8 AND 0xFC) OR 0x01);
            value8 \<leftarrow> rtw_read8 REG_H2C_INFO;
            rtw_write8 REG_H2C_INFO ((value8 AND 0xFB) OR 0x04);
            value8 \<leftarrow> rtw_read8 (REG_TXDMA_OFFSET_CHK + 1);
            rtw_write8 (REG_TXDMA_OFFSET_CHK + 1) ((value8 AND 0x7f) OR 0x80);
            wp0 \<leftarrow> rtw_read32 REG_H2C_PKT_WRITEADDR;
            rp0 \<leftarrow> rtw_read32 REG_H2C_PKT_READADDR;
            let wp = wp0 AND 0x3FFFF;
            let rp = rp0 AND 0x3FFFF;
            let h2cq_free = (if wp \<ge> rp then h2cq_size - (wp - rp) else rp - wp);
            State_Monad.return (if h2cq_size \<noteq> h2cq_free then - EINVAL else 0) } }"

section \<open>MAC initialisation\<close>

definition rtw_init_trx_cfg :: "('x, int) dev" where
  "rtw_init_trx_cfg = then_do txdma_queue_mapping (then_do priority_queue_cfg init_h2c)"

abbreviation (input) PHY_STATUS_SIZE :: u8 where "PHY_STATUS_SIZE \<equiv> 4"

definition rtw_drv_info_cfg :: "('x, int) dev" where
  "rtw_drv_info_cfg =
     do { rtw_write8 REG_RX_DRVINFO_SZ PHY_STATUS_SIZE;
          wcpu3081 \<leftarrow> dev_get rtw_chip_wcpu_3081;
          (if wcpu3081
           then do { value8 \<leftarrow> rtw_read8 (REG_TRXFF_BNDY + 1);
                     rtw_write8 (REG_TRXFF_BNDY + 1) ((value8 AND 0xF0) OR 0xF) }
           else skip);
          rtw_write32_set REG_RCR BIT_APP_PHYSTS;
          rtw_write32_clr (REG_WMAC_OPTION_FUNCTION + 4) (BIT 8 OR BIT 9);
          State_Monad.return 0 }"

definition rtw_mac_init :: "('x, int) dev \<Rightarrow> ('x, unit) dev \<Rightarrow> ('x, int) dev" where
  "rtw_mac_init chip_mac_init hci_interface_cfg =
     then_do rtw_init_trx_cfg (then_do chip_mac_init (then_do rtw_drv_info_cfg
       (do { hci_interface_cfg; State_Monad.return 0 })))"

definition rtw_mac_postinit :: "('x, int) dev option \<Rightarrow> ('x, int) dev" where
  "rtw_mac_postinit mac_postinit =
     (case mac_postinit of None \<Rightarrow> State_Monad.return 0 | Some f \<Rightarrow> f)"

end
