(* ===== verification/MacFw.thy ===== *)
theory MacFw
  imports MacFifo
begin

text \<open>
  Downloading the firmware (\<open>mac.c\<close>, and \<open>rtw_fw_write_data_rsvd_page\<close> of \<open>fw.c\<close>): the
  DMA download of the 3081 chips and the paged download of the 8051 chips. The firmware is
  the memory from the start of the blob, so that a read past its end is a read at an index
  of at least \<open>fw_size\<close>. The host interface's operations are parameters (function pointers).
\<close>

record rtw_firmware =
  fw_mem :: "nat \<Rightarrow> u8"
  fw_size :: u32

definition fw_slice :: "rtw_firmware \<Rightarrow> nat \<Rightarrow> nat \<Rightarrow> u8 list" where
  "fw_slice fw off n = map (fw_mem fw) [off..<off + n]"

definition fw_le32 :: "rtw_firmware \<Rightarrow> nat \<Rightarrow> u32" where
  "fw_le32 fw off = le_word (fw_slice fw off 4)"

lemma length_fw_slice [simp]: "length (fw_slice fw off n) = n"
  by (simp add: fw_slice_def)

section \<open>The header\<close>

text \<open>Offsets in \<open>struct rtw_fw_hdr\<close>.\<close>

definition fw_hdr_dmem_size :: "rtw_firmware \<Rightarrow> u32" where "fw_hdr_dmem_size fw = fw_le32 fw 0x24"
definition fw_hdr_dmem_addr :: "rtw_firmware \<Rightarrow> u32" where "fw_hdr_dmem_addr fw = fw_le32 fw 0x20"
definition fw_hdr_imem_size :: "rtw_firmware \<Rightarrow> u32" where "fw_hdr_imem_size fw = fw_le32 fw 0x30"
definition fw_hdr_emem_size :: "rtw_firmware \<Rightarrow> u32" where "fw_hdr_emem_size fw = fw_le32 fw 0x34"
definition fw_hdr_emem_addr :: "rtw_firmware \<Rightarrow> u32" where "fw_hdr_emem_addr fw = fw_le32 fw 0x38"
definition fw_hdr_imem_addr :: "rtw_firmware \<Rightarrow> u32" where "fw_hdr_imem_addr fw = fw_le32 fw 0x3C"
definition fw_hdr_mem_usage :: "rtw_firmware \<Rightarrow> u8" where "fw_hdr_mem_usage fw = fw_mem fw 0x18"

text \<open>The section sizes with their checksums, as both users of the header compute them.\<close>

definition fw_dmem_total :: "rtw_firmware \<Rightarrow> u32" where
  "fw_dmem_total fw = fw_hdr_dmem_size fw + FW_HDR_CHKSUM_SIZE"

definition fw_imem_total :: "rtw_firmware \<Rightarrow> u32" where
  "fw_imem_total fw = fw_hdr_imem_size fw + FW_HDR_CHKSUM_SIZE"

definition fw_emem_total :: "rtw_firmware \<Rightarrow> u32" where
  "fw_emem_total fw =
     (let emem_size = (if fw_hdr_mem_usage fw AND BIT 4 \<noteq> 0 then fw_hdr_emem_size fw else 0)
      in emem_size + (if emem_size \<noteq> 0 then FW_HDR_CHKSUM_SIZE else 0))"

definition check_firmware_size :: "rtw_firmware \<Rightarrow> bool" where
  "check_firmware_size fw \<longleftrightarrow>
     FW_HDR_SIZE + fw_dmem_total fw + fw_imem_total fw + fw_emem_total fw = fw_size fw"

section \<open>The embedded CPU\<close>

definition wlan_cpu_enable :: "bool \<Rightarrow> ('x, unit) dev" where
  "wlan_cpu_enable enable =
     (if enable
      then do { rtw_write8_set (REG_RSV_CTRL + 1) BIT_WLMCU_IOIF;
                rtw_write8_set (REG_SYS_FUNC_EN + 1) BIT_FEN_CPUEN }
      else do { rtw_write8_clr (REG_SYS_FUNC_EN + 1) BIT_FEN_CPUEN;
                rtw_write8_clr (REG_RSV_CTRL + 1) BIT_WLMCU_IOIF })"

section \<open>Registers saved around the DMA download\<close>

definition bckp_entry :: "u8 \<Rightarrow> u32 \<Rightarrow> u32 \<Rightarrow> rtw_backup_info" where
  "bckp_entry len' reg v = \<lparr>bk_len = len', bk_reg = reg, bk_val = v\<rparr>"

definition download_firmware_reg_backup :: "('x, rtw_backup_info list) dev" where
  "download_firmware_reg_backup =
     do { pq \<leftarrow> rtw_read8 (REG_TXDMA_PQ_MAP + 1);
          rtw_write8 (REG_TXDMA_PQ_MAP + 1) (push_bit 6 3);
          cr \<leftarrow> rtw_read8 REG_CR;
          rtw_write8 REG_CR (BIT_HCI_TXDMA_EN OR BIT_TXDMA_EN);
          rtw_write32 REG_H2CQ_CSR BIT_H2CQ_FULL;
          info1 \<leftarrow> rtw_read16 REG_FIFOPAGE_INFO_1;
          rqpn0 \<leftarrow> rtw_read32 REG_RQPN_CTRL_2;
          let rqpn = rqpn0 OR BIT_LD_RQPN;
          rtw_write16 REG_FIFOPAGE_INFO_1 0x200;
          rtw_write32 REG_RQPN_CTRL_2 rqpn;
          sdio \<leftarrow> dev_get (\<lambda>s. hci_type s = RTW_HCI_TYPE_SDIO);
          when_do sdio (do { _ \<leftarrow> rtw_read32 REG_SDIO_FREE_TXPG; skip });
          tmp \<leftarrow> rtw_read8 REG_BCN_CTRL;
          rtw_write8 REG_BCN_CTRL ((tmp AND NOT BIT_EN_BCN_FUNCTION) OR BIT_DIS_TSF_UDT);
          State_Monad.return
            [bckp_entry 1 (REG_TXDMA_PQ_MAP + 1) (ucast pq),
             bckp_entry 1 REG_CR (ucast cr),
             bckp_entry 4 REG_H2CQ_CSR BIT_H2CQ_FULL,
             bckp_entry 2 REG_FIFOPAGE_INFO_1 (ucast info1),
             bckp_entry 4 REG_RQPN_CTRL_2 rqpn,
             bckp_entry 1 REG_BCN_CTRL (ucast tmp)] }"

definition download_firmware_reset_platform :: "('x, unit) dev" where
  "download_firmware_reset_platform =
     do { rtw_write8_clr (REG_CPU_DMEM_CON + 2) (ucast (drop_bit 16 (BIT_WL_PLATFORM_RST :: u32)));
          rtw_write8_clr (REG_SYS_CLK_CTRL + 1) (ucast (drop_bit 8 (BIT_CPU_CLK_EN :: u32)));
          rtw_write8_set (REG_CPU_DMEM_CON + 2) (ucast (drop_bit 16 (BIT_WL_PLATFORM_RST :: u32)));
          rtw_write8_set (REG_SYS_CLK_CTRL + 1) (ucast (drop_bit 8 (BIT_CPU_CLK_EN :: u32))) }"

definition download_firmware_reg_restore :: "rtw_backup_info list \<Rightarrow> ('x, unit) dev" where
  "download_firmware_reg_restore bckp = rtw_restore_reg bckp"

section \<open>Writing to the reserved page\<close>

text \<open>
  \<open>rtw_fw_write_data_rsvd_page\<close>: the beacon queue is opened, the data handed to the host
  interface, and the beacon registers restored on every path.
\<close>

definition rtw_fw_write_data_rsvd_page ::
    "(u8 list \<Rightarrow> ('x, int) dev) \<Rightarrow> u16 \<Rightarrow> u8 list \<Rightarrow> ('x, int) dev" where
  "rtw_fw_write_data_rsvd_page hci_wr pg_addr0 buf =
     (if length buf = 0 then State_Monad.return (- EINVAL)
      else do {
        bckp2 \<leftarrow> rtw_read8 REG_BCN_CTRL;
        legacy \<leftarrow> dev_get rtw_chip_wcpu_8051;
        (if legacy then rtw_write32_set REG_DWBCN0_CTRL BIT_BCN_VALID
         else rtw_write16 REG_FIFOPAGE_CTRL_2 ((pg_addr0 AND BIT_MASK_BCN_HEAD_1_V1) OR BIT_BCN_VALID_V1));
        bckp0 \<leftarrow> rtw_read8 (REG_CR + 1);
        rtw_write8 (REG_CR + 1) (bckp0 OR ucast (drop_bit 8 (BIT_ENSWBCN :: u32)));
        rtw_write8 REG_BCN_CTRL ((bckp2 AND NOT BIT_EN_BCN_FUNCTION) OR BIT_DIS_TSF_UDT);
        pcie \<leftarrow> dev_get (\<lambda>s. hci_type s = RTW_HCI_TYPE_PCIE);
        bckp1 \<leftarrow> (if pcie
                  then do { v \<leftarrow> rtw_read8 (REG_FWHW_TXQ_CTRL + 2);
                            rtw_write8 (REG_FWHW_TXQ_CTRL + 2)
                              (v AND NOT (ucast (drop_bit 16 (BIT_EN_BCNQ_DL :: u32))));
                            State_Monad.return v }
                  else State_Monad.return 0);
        ret0 \<leftarrow> hci_wr buf;
        ret \<leftarrow> (if ret0 \<noteq> 0 then State_Monad.return ret0
                else do { ready \<leftarrow> (if legacy then check_hw_ready REG_DWBCN0_CTRL BIT_BCN_VALID 1
                                    else check_hw_ready REG_FIFOPAGE_CTRL_2 BIT_BCN_VALID_V1 1);
                          State_Monad.return (if \<not> ready then - EBUSY else ret0) });
        head \<leftarrow> dev_get (\<lambda>s. rsvd_boundary (fifo s));
        rtw_write16 REG_FIFOPAGE_CTRL_2 (head OR BIT_BCN_VALID_V1);
        rtw_write8 REG_BCN_CTRL bckp2;
        when_do pcie (rtw_write8 (REG_FWHW_TXQ_CTRL + 2) bckp1);
        rtw_write8 (REG_CR + 1) bckp0;
        State_Monad.return ret })"

text \<open>\<open>kmem_ok\<close> says, for the history so far, whether \<open>kmemdup\<close> finds memory.\<close>

definition send_firmware_pkt_rsvd_page ::
    "(u8 list \<Rightarrow> ('x, int) dev) \<Rightarrow> u16 \<Rightarrow> rtw_firmware \<Rightarrow> nat \<Rightarrow> u32 \<Rightarrow> ('x, int) dev" where
  "send_firmware_pkt_rsvd_page hci_wr pg_addr fw off sz =
     do { ok \<leftarrow> dev_get (\<lambda>s. kmem_ok s (io_log s));
          if \<not> ok then State_Monad.return (- ENOMEM)
          else rtw_fw_write_data_rsvd_page hci_wr pg_addr (fw_slice fw off (unat sz)) }"

abbreviation (input) TX_DESC_SIZE :: u32 where "TX_DESC_SIZE \<equiv> 48"

definition send_firmware_pkt ::
    "(u8 list \<Rightarrow> ('x, int) dev) \<Rightarrow> u16 \<Rightarrow> rtw_firmware \<Rightarrow> nat \<Rightarrow> u32 \<Rightarrow> ('x, int) dev" where
  "send_firmware_pkt hci_wr pg_addr fw off sz =
     do { usb \<leftarrow> dev_get (\<lambda>s. hci_type s = RTW_HCI_TYPE_USB);
          send_firmware_pkt_rsvd_page hci_wr pg_addr fw off
            (if usb \<and> (sz + TX_DESC_SIZE) AND (512 - 1) = 0 then sz + 1 else sz) }"

section \<open>DMA download\<close>

definition iddma_enable :: "u32 \<Rightarrow> u32 \<Rightarrow> u32 \<Rightarrow> ('x, int) dev" where
  "iddma_enable src dst ctrl =
     do { rtw_write32 REG_DDMA_CH0SA src;
          rtw_write32 REG_DDMA_CH0DA dst;
          rtw_write32 REG_DDMA_CH0CTRL ctrl;
          ready \<leftarrow> check_hw_ready REG_DDMA_CH0CTRL BIT_DDMACH0_OWN 0;
          State_Monad.return (if \<not> ready then - EBUSY else 0) }"

definition iddma_download_firmware :: "u32 \<Rightarrow> u32 \<Rightarrow> u32 \<Rightarrow> bool \<Rightarrow> ('x, int) dev" where
  "iddma_download_firmware src dst len' first =
     do { ready \<leftarrow> check_hw_ready REG_DDMA_CH0CTRL BIT_DDMACH0_OWN 0;
          if \<not> ready then State_Monad.return (- EBUSY)
          else do { ret \<leftarrow> iddma_enable src dst
                      ((BIT_DDMACH0_CHKSUM_EN OR BIT_DDMACH0_OWN) OR (len' AND BIT_MASK_DDMACH0_DLEN) OR
                       (if first then 0 else BIT_DDMACH0_CHKSUM_CONT));
                    State_Monad.return (if ret \<noteq> 0 then - EBUSY else 0) } }"

definition rtw_ddma_to_fw_fifo :: "u32 \<Rightarrow> u32 \<Rightarrow> ('x, int) dev" where
  "rtw_ddma_to_fw_fifo ocp_src sz =
     do { ready \<leftarrow> check_hw_ready REG_DDMA_CH0CTRL BIT_DDMACH0_OWN 0;
          if \<not> ready then State_Monad.return (- EBUSY)
          else do { ret \<leftarrow> iddma_enable ocp_src OCPBASE_RXBUF_FW_88XX
                      ((BIT_DDMACH0_OWN OR BIT_DDMACH0_DDMA_MODE) OR (sz AND BIT_MASK_DDMACH0_DLEN));
                    State_Monad.return (if ret \<noteq> 0 then - EBUSY else 0) } }"

definition check_fw_checksum :: "u32 \<Rightarrow> ('x, bool) dev" where
  "check_fw_checksum addr =
     do { fw_ctrl \<leftarrow> rtw_read8 REG_MCUFW_CTRL;
          st \<leftarrow> rtw_read32 REG_DDMA_CH0CTRL;
          if st AND BIT_DDMACH0_CHKSUM_STS \<noteq> 0
          then do { (if addr < OCPBASE_DMEM_88XX
                     then rtw_write8 REG_MCUFW_CTRL ((fw_ctrl OR BIT_IMEM_DW_OK) AND NOT BIT_IMEM_CHKSUM_OK)
                     else rtw_write8 REG_MCUFW_CTRL ((fw_ctrl OR BIT_DMEM_DW_OK) AND NOT BIT_DMEM_CHKSUM_OK));
                    State_Monad.return False }
          else do { (if addr < OCPBASE_DMEM_88XX
                     then rtw_write8 REG_MCUFW_CTRL (fw_ctrl OR (BIT_IMEM_DW_OK OR BIT_IMEM_CHKSUM_OK))
                     else rtw_write8 REG_MCUFW_CTRL (fw_ctrl OR (BIT_DMEM_DW_OK OR BIT_DMEM_CHKSUM_OK)));
                    State_Monad.return True } }"

text \<open>The loop over the packets of one section: \<open>off\<close> is the section's place in the blob.\<close>

function fw_to_mem_loop ::
    "(u8 list \<Rightarrow> ('x, int) dev) \<Rightarrow> u32 \<Rightarrow> rtw_firmware \<Rightarrow> nat \<Rightarrow> u32 \<Rightarrow> u32 \<Rightarrow> u32 \<Rightarrow> u32 \<Rightarrow> bool
     \<Rightarrow> ('x, int) dev" where
  "fw_to_mem_loop hci_wr desc_size fw off src dst mem_offset residue first =
     (if residue = 0 then State_Monad.return 0
      else let pkt_size = (if residue \<ge> 0x1000 then 0x1000 else residue)
           in then_do (send_firmware_pkt hci_wr (ucast (drop_bit 7 src)) fw (off + unat mem_offset) pkt_size)
               (then_do (iddma_download_firmware (OCPBASE_TXBUF_88XX + src + desc_size)
                          (dst + mem_offset) pkt_size first)
                 (fw_to_mem_loop hci_wr desc_size fw off src dst (mem_offset + pkt_size)
                    (residue - pkt_size) False)))"
  by pat_completeness auto
termination
  by (relation "measure (\<lambda>(_, _, _, _, _, _, _, residue, _). unat residue)")
    (auto simp: word_less_nat_alt [symmetric] unat_sub word_le_nat_alt unat_gt_0)

definition download_firmware_to_mem ::
    "(u8 list \<Rightarrow> ('x, int) dev) \<Rightarrow> rtw_firmware \<Rightarrow> nat \<Rightarrow> u32 \<Rightarrow> u32 \<Rightarrow> u32 \<Rightarrow> ('x, int) dev" where
  "download_firmware_to_mem hci_wr fw off src dst sz =
     do { desc_size \<leftarrow> dev_get (\<lambda>s. ci_tx_pkt_desc_sz (chip s));
          v \<leftarrow> rtw_read32 REG_DDMA_CH0CTRL;
          rtw_write32 REG_DDMA_CH0CTRL (v OR BIT_DDMACH0_RESET_CHKSUM_STS);
          then_do (fw_to_mem_loop hci_wr desc_size fw off src dst 0 sz True)
            (do { ok \<leftarrow> check_fw_checksum dst;
                  State_Monad.return (if \<not> ok then - EINVAL else 0) }) }"

definition start_download_firmware :: "(u8 list \<Rightarrow> ('x, int) dev) \<Rightarrow> rtw_firmware \<Rightarrow> ('x, int) dev" where
  "start_download_firmware hci_wr fw =
     do { ctrl \<leftarrow> rtw_read16 REG_MCUFW_CTRL;
          rtw_write16 REG_MCUFW_CTRL ((ctrl AND 0x3800) OR BIT_MCUFWDL_EN);
          then_do (download_firmware_to_mem hci_wr fw 64 0
                     (fw_hdr_dmem_addr fw AND NOT (BIT 31)) (fw_dmem_total fw))
            (then_do (download_firmware_to_mem hci_wr fw (64 + unat (fw_dmem_total fw)) 0
                        (fw_hdr_imem_addr fw AND NOT (BIT 31)) (fw_imem_total fw))
              (if fw_emem_total fw \<noteq> 0
               then download_firmware_to_mem hci_wr fw
                      (64 + unat (fw_dmem_total fw) + unat (fw_imem_total fw)) 0
                      (fw_hdr_emem_addr fw AND NOT (BIT 31)) (fw_emem_total fw)
               else State_Monad.return 0)) }"

definition download_firmware_validate :: "('x, int) dev" where
  "download_firmware_validate =
     do { ready \<leftarrow> check_hw_ready REG_MCUFW_CTRL FW_READY_MASK FW_READY;
          if \<not> ready
          then do { _ \<leftarrow> rtw_read32 REG_FW_DBG7; State_Monad.return (- EINVAL) }
          else State_Monad.return 0 }"

definition download_firmware_end_flow :: "('x, unit) dev" where
  "download_firmware_end_flow =
     do { rtw_write32 REG_TXDMA_STATUS BTI_PAGE_OVF;
          fw_ctrl \<leftarrow> rtw_read16 REG_MCUFW_CTRL;
          if fw_ctrl AND BIT_CHECK_SUM_OK \<noteq> BIT_CHECK_SUM_OK then skip
          else rtw_write16 REG_MCUFW_CTRL ((fw_ctrl OR BIT_FW_DW_RDY) AND NOT BIT_MCUFWDL_EN) }"

text \<open>After the firmware runs: descriptor indices and the H2C state start afresh.\<close>

definition fw_started :: "('x, int) dev \<Rightarrow> ('x, int) dev" where
  "fw_started hci_setup =
     do { _ \<leftarrow> hci_setup;
          dev_upd (\<lambda>s. s\<lparr>h2c_last_box_num := 0, h2c_seq := 0, flag_fw_running := True\<rparr>);
          State_Monad.return 0 }"

definition dlfw_fail :: "int \<Rightarrow> ('x, int) dev" where
  "dlfw_fail ret =
     do { rtw_write8_clr REG_MCUFW_CTRL BIT_MCUFWDL_EN;
          rtw_write8_set (REG_SYS_FUNC_EN + 1) BIT_FEN_CPUEN;
          State_Monad.return ret }"

definition dlfw_restart :: "('x, int) dev \<Rightarrow> u32 option \<Rightarrow> rtw_backup_info list \<Rightarrow> ('x, int) dev" where
  "dlfw_restart hci_setup ltecoex_bckp bckp =
     do { download_firmware_reg_restore bckp;
          download_firmware_end_flow;
          wlan_cpu_enable True;
          lte \<leftarrow> dev_get (\<lambda>s. ci_ltecoex_addr (chip s));
          ok \<leftarrow> (case (lte, ltecoex_bckp) of
                  (Some l, Some v) \<Rightarrow> ltecoex_reg_write l 0x38 v
                | _ \<Rightarrow> State_Monad.return True);
          if \<not> ok then dlfw_fail (- EBUSY)
          else do { ret \<leftarrow> download_firmware_validate;
                    if ret \<noteq> 0 then dlfw_fail ret else fw_started hci_setup } }"

definition rtw_download_firmware_3081 ::
    "(u8 list \<Rightarrow> ('x, int) dev) \<Rightarrow> ('x, int) dev \<Rightarrow> rtw_firmware \<Rightarrow> ('x, int) dev" where
  "rtw_download_firmware_3081 hci_wr hci_setup fw =
     (if \<not> check_firmware_size fw then State_Monad.return (- EINVAL)
      else do {
        lte \<leftarrow> dev_get (\<lambda>s. ci_ltecoex_addr (chip s));
        ltecoex_bckp \<leftarrow> (case lte of None \<Rightarrow> State_Monad.return None | Some l \<Rightarrow> ltecoex_read_reg l 0x38);
        if lte \<noteq> None \<and> ltecoex_bckp = None then State_Monad.return (- EBUSY)
        else do { wlan_cpu_enable False;
                  bckp \<leftarrow> download_firmware_reg_backup;
                  download_firmware_reset_platform;
                  ret \<leftarrow> start_download_firmware hci_wr fw;
                  if ret \<noteq> 0 then dlfw_fail ret
                  else dlfw_restart hci_setup ltecoex_bckp bckp } })"

section \<open>Paged download of the 8051 chips\<close>

fun fwdl_enable_loop :: "nat \<Rightarrow> ('x, unit) dev" where
  "fwdl_enable_loop 0 = skip"
| "fwdl_enable_loop (Suc n) =
     do { v \<leftarrow> rtw_read8 REG_MCUFW_CTRL;
          if v AND BIT_MCUFWDL_EN \<noteq> 0 then skip
          else do { rtw_write8_set REG_MCUFW_CTRL BIT_MCUFWDL_EN;
                    delay_us 20000;
                    fwdl_enable_loop n } }"

definition en_download_firmware_legacy :: "bool \<Rightarrow> ('x, unit) dev" where
  "en_download_firmware_legacy en =
     (if en
      then do { wlan_cpu_enable False;
                wlan_cpu_enable True;
                rtw_write8_set REG_MCUFW_CTRL BIT_MCUFWDL_EN;
                fwdl_enable_loop 10;
                rtw_write32_clr REG_MCUFW_CTRL BIT_ROM_DLEN }
      else rtw_write8_clr REG_MCUFW_CTRL BIT_MCUFWDL_EN)"

text \<open>The blocks of one page: a remainder of fewer than four bytes is padded with zeros.\<close>

function fw_blocks :: "u32 \<Rightarrow> u8 list \<Rightarrow> ('x, unit) dev" where
  "fw_blocks write_addr data =
     (if data = [] then skip
      else do { rtw_write32 write_addr (le_word (take 4 data));
                fw_blocks (write_addr + DLFW_BLK_SIZE_LEGACY) (drop 4 data) })"
  by pat_completeness auto
termination
  by (relation "measure (\<lambda>(_, data). length data)") auto

declare fw_blocks.simps [simp del]

definition rtw_write_firmware_page :: "u32 \<Rightarrow> u8 list \<Rightarrow> ('x, unit) dev" where
  "rtw_write_firmware_page page data =
     do { val32 \<leftarrow> rtw_read32 REG_MCUFW_CTRL;
          rtw_write32 REG_MCUFW_CTRL
            ((val32 AND NOT BIT_ROM_PGE) OR (push_bit 16 page AND BIT_ROM_PGE));
          fw_blocks FW_START_ADDR_LEGACY data }"

text \<open>All pages of one attempt; \<open>wp\<close> is the host interface's page write.\<close>

fun fw_full_pages :: "(u32 \<Rightarrow> u8 list \<Rightarrow> ('s, unit) state) \<Rightarrow> rtw_firmware \<Rightarrow> nat \<Rightarrow> nat \<Rightarrow> nat \<Rightarrow> ('s, unit) state" where
  "fw_full_pages wp fw off page 0 = skip"
| "fw_full_pages wp fw off page (Suc n) =
     do { wp (of_nat page) (fw_slice fw off 0x1000);
          fw_full_pages wp fw (off + 0x1000) (Suc page) n }"

definition fw_write_pages :: "(u32 \<Rightarrow> u8 list \<Rightarrow> ('s, unit) state) \<Rightarrow> rtw_firmware \<Rightarrow> nat \<Rightarrow> u32 \<Rightarrow> ('s, unit) state" where
  "fw_write_pages wp fw off sz =
     (let total_page = unat (drop_bit 12 sz); last_page_size = sz AND (0x1000 - 1)
      in do { fw_full_pages wp fw off 0 total_page;
              when_do (last_page_size \<noteq> 0)
                (wp (of_nat total_page) (fw_slice fw (off + 0x1000 * total_page) (unat last_page_size))) })"

abbreviation (input) FW_HDR_LEGACY_SIZE :: nat where "FW_HDR_LEGACY_SIZE \<equiv> 32"

fun fw_legacy_tries ::
    "nat \<Rightarrow> (u32 \<Rightarrow> u8 list \<Rightarrow> ('x, unit) dev) \<Rightarrow> rtw_firmware \<Rightarrow> u32 \<Rightarrow> ('x, int) dev" where
  "fw_legacy_tries 0 wp fw sz = State_Monad.return (- EINVAL)"
| "fw_legacy_tries (Suc n) wp fw sz =
     do { rtw_write8_set REG_MCUFW_CTRL BIT_FWDL_CHK_RPT;
          fw_write_pages wp fw FW_HDR_LEGACY_SIZE sz;
          ready \<leftarrow> check_hw_ready REG_MCUFW_CTRL BIT_FWDL_CHK_RPT 1;
          if ready then State_Monad.return 0 else fw_legacy_tries n wp fw sz }"

definition download_firmware_legacy ::
    "(u32 \<Rightarrow> u8 list \<Rightarrow> ('x, unit) dev) \<Rightarrow> rtw_firmware \<Rightarrow> ('x, int) dev" where
  "download_firmware_legacy wp fw = fw_legacy_tries 5 wp fw (fw_size fw - of_nat FW_HDR_LEGACY_SIZE)"

fun fw_validate_loop :: "nat \<Rightarrow> ('x, int) dev" where
  "fw_validate_loop 0 = State_Monad.return (- EINVAL)"
| "fw_validate_loop (Suc n) =
     do { val32 \<leftarrow> rtw_read32 REG_MCUFW_CTRL;
          if val32 AND FW_READY_LEGACY = FW_READY_LEGACY then State_Monad.return 0
          else do { delay_us 20000; fw_validate_loop n } }"

definition download_firmware_validate_legacy :: "('x, int) dev" where
  "download_firmware_validate_legacy =
     do { val32 \<leftarrow> rtw_read32 REG_MCUFW_CTRL;
          rtw_write32 REG_MCUFW_CTRL ((val32 OR BIT_MCUFWDL_RDY) AND NOT BIT_WINTINI_RDY);
          wlan_cpu_enable False;
          wlan_cpu_enable True;
          fw_validate_loop 10 }"

definition rtw_download_firmware_legacy ::
    "(u32 \<Rightarrow> u8 list \<Rightarrow> ('x, unit) dev) \<Rightarrow> ('x, int) dev \<Rightarrow> rtw_firmware \<Rightarrow> ('x, int) dev" where
  "rtw_download_firmware_legacy wp hci_setup fw =
     do { id \<leftarrow> dev_get (\<lambda>s. ci_id (chip s));
          (if id = RTW_CHIP_TYPE_8703B
           then do { sel \<leftarrow> rtw_read8_mask REG_MCUFW_CTRL BIT_RAM_DL_SEL;
                     when_do (sel \<noteq> 0) (rtw_write8 REG_MCUFW_CTRL 0x00) }
           else skip);
          en_download_firmware_legacy True;
          ret \<leftarrow> download_firmware_legacy wp fw;
          en_download_firmware_legacy False;
          if ret \<noteq> 0 then State_Monad.return ret
          else then_do download_firmware_validate_legacy (fw_started hci_setup) }"

definition rtw_download_firmware ::
    "(u8 list \<Rightarrow> ('x, int) dev) \<Rightarrow> (u32 \<Rightarrow> u8 list \<Rightarrow> ('x, unit) dev) \<Rightarrow> ('x, int) dev \<Rightarrow>
     ('x, unit) dev \<Rightarrow> rtw_firmware \<Rightarrow> ('x, int) dev" where
  "rtw_download_firmware hci_wr wp hci_setup recover_bt fw =
     do { legacy \<leftarrow> dev_get rtw_chip_wcpu_8051;
          ret \<leftarrow> (if legacy then rtw_download_firmware_legacy wp hci_setup fw
                 else rtw_download_firmware_3081 hci_wr hci_setup fw);
          if ret \<noteq> 0 then State_Monad.return ret
          else do { bt \<leftarrow> dev_get (\<lambda>s. hci_type s = RTW_HCI_TYPE_PCIE \<and> ci_id (chip s) = RTW_CHIP_TYPE_8821C);
                    when_do bt recover_bt;
                    State_Monad.return 0 } }"

end
