(* ===== verification/FwImage.thy ===== *)
theory FwImage
  imports MacFw
begin

text \<open>
  What ends up in the chip's memory. The chip shows one 4 KB page of its firmware memory at
  \<open>FW_START_ADDR_LEGACY\<close>, chosen by a field of \<open>REG_MCUFW_CTRL\<close>; this is the abstract machine
  the writes of either host interface are replayed on. The locale states what the page loop
  relies on from a page write, and is interpreted on the register-by-register write of
  \<open>mac.c\<close> and on the chunked write of \<open>usb.c\<close>.
\<close>

section \<open>The memory behind the download window\<close>

record fw_ram =
  ram_page :: nat
  ram_mem :: "nat \<Rightarrow> u8"

definition ram_put :: "nat \<Rightarrow> u8 list \<Rightarrow> (nat \<Rightarrow> u8) \<Rightarrow> nat \<Rightarrow> u8" where
  "ram_put base bs m x = (if base \<le> x \<and> x < base + length bs then bs ! (x - base) else m x)"

definition ram_store :: "u32 \<Rightarrow> u8 list \<Rightarrow> fw_ram \<Rightarrow> fw_ram" where
  "ram_store a bs r =
     (if a = REG_MCUFW_CTRL \<and> length bs = 4
      then r\<lparr>ram_page := unat (drop_bit 16 (le_word bs :: u32) AND 7)\<rparr>
      else if 0x1000 \<le> unat a \<and> unat a + length bs \<le> 0x2000
      then r\<lparr>ram_mem := ram_put (ram_page r * 0x1000 + (unat a - 0x1000)) bs (ram_mem r)\<rparr>
      else r)"

lemma ram_store_window:
  assumes "k + length bs \<le> 0x1000" and "k < 0x1000"
  shows "ram_store (0x1000 + of_nat k) bs r = r\<lparr>ram_mem := ram_put (ram_page r * 0x1000 + k) bs (ram_mem r)\<rparr>"
proof -
  have "unat (0x1000 + of_nat k :: u32) = 0x1000 + k"
    using assms(2) by (simp add: unat_word_ariths unat_of_nat take_bit_nat_eq_self)
  moreover from this have "0x1000 + of_nat k \<noteq> REG_MCUFW_CTRL"
    unfolding REG_MCUFW_CTRL_def by (auto simp: word_unat_eq_iff)
  ultimately show ?thesis
    using assms(1) by (simp add: ram_store_def)
qed

lemma ram_put_at: "i < length bs \<Longrightarrow> ram_put b bs m (b + i) = bs ! i"
  by (simp add: ram_put_def)

lemma ram_put_below: "x < b \<Longrightarrow> ram_put b bs m x = m x"
  by (simp add: ram_put_def)

text \<open>
  \<open>ram_wrote r r' base bs\<close>: \<open>bs\<close> was stored from \<open>base\<close> on, and nothing below \<open>base\<close> changed.
\<close>

definition ram_wrote :: "fw_ram \<Rightarrow> fw_ram \<Rightarrow> nat \<Rightarrow> u8 list \<Rightarrow> bool" where
  "ram_wrote r r' base bs \<longleftrightarrow>
     (\<forall>i < length bs. ram_mem r' (base + i) = bs ! i) \<and>
     (\<forall>x < base. ram_mem r' x = ram_mem r x)"

lemma ram_wrote_Nil: "ram_wrote r r base []"
  by (simp add: ram_wrote_def)

lemma ram_wrote_append:
  assumes "ram_wrote r r1 base bs" and "ram_wrote r1 r2 (base + length bs) cs"
  shows "ram_wrote r r2 base (bs @ cs)"
  unfolding ram_wrote_def
proof (intro conjI allI impI)
  fix i
  assume "i < length (bs @ cs)"
  then show "ram_mem r2 (base + i) = (bs @ cs) ! i"
    using assms by (cases "i < length bs")
      (auto simp: ram_wrote_def nth_append dest!: spec [of _ "i - length bs"])
next
  fix x
  assume "x < base"
  then show "ram_mem r2 x = ram_mem r x"
    using assms by (simp add: ram_wrote_def)
qed

lemma fw_slice_append: "fw_slice fw off (m + n) = fw_slice fw off m @ fw_slice fw (off + m) n"
proof -
  have "[off..<off + (m + n)] = [off..<off + m] @ [off + m..<off + m + n]"
    using upt_add_eq_append [of off "off + m" n] by (simp only: add.assoc le_add1)
  then show ?thesis
    by (simp add: fw_slice_def)
qed

lemma unat_and_fff: "unat (sz AND 0xfff :: u32) = unat sz mod 0x1000"
proof -
  have "sz AND 0xfff = take_bit 12 sz"
    by (simp add: take_bit_eq_mask mask_eq_exp_minus_1)
  then have "unat (sz AND 0xfff) = unat (take_bit 12 sz)"
    by (rule arg_cong)
  also have "\<dots> = take_bit 12 (unat sz)"
    by (rule unsigned_take_bit_eq)
  also have "\<dots> = unat sz mod 0x1000"
    by (simp add: take_bit_eq_mod)
  finally show ?thesis .
qed

lemma unat_drop_12: "unat (drop_bit 12 sz :: u32) = unat sz div 0x1000"
proof -
  have "unat (drop_bit 12 sz) = drop_bit 12 (unat sz)"
    by (rule unat_drop_bit_eq)
  also have "\<dots> = unat sz div 0x1000"
    by (simp add: drop_bit_eq_div)
  finally show ?thesis .
qed

section \<open>What the page loop relies on\<close>

locale fw_page_writer =
  fixes wp :: "u32 \<Rightarrow> u8 list \<Rightarrow> ('s, unit) state"
    and ram :: "'s \<Rightarrow> fw_ram"
    and ok :: "'s \<Rightarrow> bool"
  assumes wp_ok: "ok s \<Longrightarrow> run_state (wp p d) s = (u, s') \<Longrightarrow> ok s'"
    and wp_wrote: "ok s \<Longrightarrow> unat p < 8 \<Longrightarrow> length d \<le> 0x1000 \<Longrightarrow> run_state (wp p d) s = (u, s')
      \<Longrightarrow> ram_wrote (ram s) (ram s') (unat p * 0x1000) d"
begin

lemma full_pages:
  assumes "ok s" and "page + n \<le> 8" and "run_state (fw_full_pages wp fw off page n) s = (u, s')"
  shows "ok s' \<and> ram_wrote (ram s) (ram s') (page * 0x1000) (fw_slice fw off (0x1000 * n))"
  using assms
proof (induction n arbitrary: page off s)
  case 0
  then show ?case
    by (simp add: fw_slice_def ram_wrote_Nil)
next
  case (Suc n)
  obtain u1 s1 where w: "run_state (wp (of_nat page) (fw_slice fw off 0x1000)) s = (u1, s1)"
    by (cases "run_state (wp (of_nat page) (fw_slice fw off 0x1000)) s")
  have page: "unat (of_nat page :: u32) = page" and lt: "page < 8"
    using Suc.prems(2) by (simp_all add: unat_of_nat take_bit_nat_eq_self)
  from w Suc.prems(1) have ok1: "ok s1"
    by (rule wp_ok [rotated])
  have w1: "ram_wrote (ram s) (ram s1) (page * 0x1000) (fw_slice fw off 0x1000)"
    using wp_wrote [OF Suc.prems(1) _ _ w] page lt by simp
  have "run_state (fw_full_pages wp fw (off + 0x1000) (Suc page) n) s1 = (u, s')"
    using Suc.prems(3) w by simp
  from Suc.IH [OF ok1 _ this] Suc.prems(2)
  have ok': "ok s'" and w2: "ram_wrote (ram s1) (ram s') (Suc page * 0x1000) (fw_slice fw (off + 0x1000) (0x1000 * n))"
    by auto
  have "fw_slice fw off (0x1000 * Suc n) = fw_slice fw off 0x1000 @ fw_slice fw (off + 0x1000) (0x1000 * n)"
    by (simp add: fw_slice_append [symmetric])
  with ram_wrote_append [OF w1] w2 ok' show ?case
    by (simp add: add.commute)
qed

text \<open>One attempt of the download stores the whole image, if it fits the eight pages.\<close>

lemma write_pages:
  assumes "ok s" and "unat sz \<le> 0x8000" and "run_state (fw_write_pages wp fw off sz) s = (u, s')"
  shows "ok s' \<and> ram_wrote (ram s) (ram s') 0 (fw_slice fw off (unat sz))"
proof -
  define n where "n = unat (drop_bit 12 sz)"
  define l where "l = unat (sz AND 0xfff)"
  have n: "n = unat sz div 0x1000"
    by (simp only: n_def unat_drop_12)
  have l: "l = unat sz mod 0x1000"
    by (simp only: l_def unat_and_fff)
  have nl: "unat sz = 0x1000 * n + l"
    using n l by simp
  obtain u1 s1 where w: "run_state (fw_full_pages wp fw off 0 n) s = (u1, s1)"
    by (cases "run_state (fw_full_pages wp fw off 0 n) s")
  have "n \<le> 8"
    using assms(2) n by simp
  from full_pages [OF assms(1) _ w] this
  have ok1: "ok s1" and w1: "ram_wrote (ram s) (ram s1) 0 (fw_slice fw off (0x1000 * n))"
    by auto
  show ?thesis
  proof (cases "l = 0")
    case True
    with assms(3) w have "s' = s1"
      by (simp add: fw_write_pages_def Let_def n_def l_def unat_eq_zero)
    with ok1 w1 nl True show ?thesis by simp
  next
    case False
    then have r: "run_state (wp (of_nat n) (fw_slice fw (off + 0x1000 * n) l)) s1 = (u, s')"
      using assms(3) w by (simp add: fw_write_pages_def Let_def n_def l_def unat_eq_zero)
    have n8: "n < 8" "unat (of_nat n :: u32) = n"
      using False nl assms(2) \<open>n \<le> 8\<close> by (auto simp: unat_of_nat take_bit_nat_eq_self)
    have "l \<le> 0x1000"
      using l by (simp add: less_imp_le)
    with n8 wp_wrote [OF ok1 _ _ r]
    have "ram_wrote (ram s1) (ram s') (n * 0x1000) (fw_slice fw (off + 0x1000 * n) l)"
      by simp
    with ram_wrote_append [OF w1, of "ram s'"] wp_ok [OF ok1 r] show ?thesis
      by (simp only: nl fw_slice_append length_fw_slice add_0 mult.commute)
  qed
qed

end

section \<open>The page write of mac.c\<close>

definition io_ram :: "io \<Rightarrow> fw_ram \<Rightarrow> fw_ram" where
  "io_ram e r = (case e of Wr w a v \<Rightarrow> ram_store a (le_bytes w v) r | _ \<Rightarrow> r)"

definition ram_of :: "fw_ram \<Rightarrow> io list \<Rightarrow> fw_ram" where
  "ram_of r0 log = fold io_ram log r0"

lemma ram_of_append [simp]: "ram_of r0 (xs @ ys) = fold io_ram ys (ram_of r0 xs)"
  by (simp add: ram_of_def)

lemma io_ram_simps [simp]:
  "io_ram (Rd w a v) r = r" "io_ram (Delay n) r = r" "io_ram (Wr w a v) r = ram_store a (le_bytes w v) r"
  by (simp_all add: io_ram_def)

lemma ram_wrote_block:
  assumes "k + length bs \<le> 0x1000" and "4 dvd k" and "k < 0x1000" and "length bs \<le> 4"
  shows "ram_wrote r (io_ram (Wr 4 (0x1000 + of_nat k) (le_word bs)) r) (ram_page r * 0x1000 + k) bs"
    and "ram_page (io_ram (Wr 4 (0x1000 + of_nat k) (le_word bs)) r) = ram_page r"
proof -
  have "k + 4 \<le> 0x1000"
    using assms(2,3) by (auto elim!: dvdE)
  with assms(3) ram_store_window [of k "le_bytes 4 (le_word bs :: u32)" r]
  have st: "io_ram (Wr 4 (0x1000 + of_nat k) (le_word bs)) r
      = r\<lparr>ram_mem := ram_put (ram_page r * 0x1000 + k) (le_bytes 4 (le_word bs :: u32)) (ram_mem r)\<rparr>"
    by simp
  have b: "le_bytes 4 (le_word bs :: u32) = bs @ replicate (4 - length bs) 0"
    using assms(4) by (intro le_bytes_le_word) simp_all
  show "ram_wrote r (io_ram (Wr 4 (0x1000 + of_nat k) (le_word bs)) r) (ram_page r * 0x1000 + k) bs"
    unfolding st ram_wrote_def b
    by (auto simp: ram_put_at ram_put_below nth_append)
  show "ram_page (io_ram (Wr 4 (0x1000 + of_nat k) (le_word bs)) r) = ram_page r"
    unfolding st by simp
qed

lemma fw_blocks_wrote:
  assumes "run_state (fw_blocks (0x1000 + of_nat k) d) s = (u, s')"
    and "k + length d \<le> 0x1000" and "4 dvd k"
  shows "ram_wrote (ram_of r0 (io_log s)) (ram_of r0 (io_log s'))
      (ram_page (ram_of r0 (io_log s)) * 0x1000 + k) d"
  using assms
proof (induction "length d" arbitrary: d k s rule: less_induct)
  case less
  note run = less.prems(1) [unfolded fw_blocks.simps [of _ d]]
  show ?case
  proof (cases "d = []")
    case True
    with run show ?thesis by (simp add: ram_wrote_Nil)
  next
    case False
    let ?a = "0x1000 + of_nat k :: u32"
    let ?s1 = "s\<lparr>io_log := io_log s @ [Wr 4 ?a (le_word (take 4 d))]\<rparr>"
    let ?r = "ram_of r0 (io_log s)" and ?r1 = "ram_of r0 (io_log ?s1)"
    have kl: "k + length (take 4 d) \<le> 0x1000" "k < 0x1000"
      using less.prems(2) False by (cases d; simp)+
    have w1: "ram_wrote ?r ?r1 (ram_page ?r * 0x1000 + k) (take 4 d)" and pg: "ram_page ?r1 = ram_page ?r"
      using ram_wrote_block [OF kl(1) less.prems(3) kl(2), of ?r] by simp_all
    have run1: "run_state (fw_blocks (0x1000 + of_nat (k + 4)) (drop 4 d)) ?s1 = (u, s')"
      using run False by (simp add: add.assoc add.commute [of 4])
    have "4 dvd k + 4"
      using less.prems(3) by simp
    show ?thesis
    proof (cases "length d \<le> 4")
      case True
      with run1 have "s' = ?s1"
        by (simp add: fw_blocks.simps [of _ "[]"])
      with w1 True show ?thesis by simp
    next
      case big: False
      with less.prems(2) have "k + 4 + length (drop 4 d) \<le> 0x1000" and "length (drop 4 d) < length d"
        by simp_all
      from less.hyps [OF this(2) run1 this(1) \<open>4 dvd k + 4\<close>] pg
      have "ram_wrote ?r1 (ram_of r0 (io_log s')) (ram_page ?r * 0x1000 + k + length (take 4 d)) (drop 4 d)"
        using big by (simp add: add.assoc)
      from ram_wrote_append [OF w1 this] show ?thesis
        by simp
    qed
  qed
qed

lemma rom_pge_field:
  assumes "unat (p :: u32) < 8"
  shows "unat (drop_bit 16 ((v AND NOT BIT_ROM_PGE) OR (push_bit 16 p AND BIT_ROM_PGE)) AND 7) = unat p"
proof -
  have p: "p = take_bit 3 p"
    using assms by (simp add: word_unat_eq_iff unsigned_take_bit_eq take_bit_nat_eq_self)
  have seven: "x AND 7 = take_bit 3 x" for x :: u32
    by (simp add: take_bit_eq_mask mask_eq_exp_minus_1)
  have "drop_bit 16 ((v AND NOT BIT_ROM_PGE) OR (push_bit 16 p AND BIT_ROM_PGE)) AND 7 = take_bit 3 p"
    unfolding seven by (rule bit_word_eqI) (auto simp: BIT_ROM_PGE_def bit_simps)
  with p show ?thesis by simp
qed

lemma mac_page_wrote:
  assumes "run_state (rtw_write_firmware_page p d) s = (u, s')" and "unat p < 8" and "length d \<le> 0x1000"
  shows "ram_wrote (ram_of r0 (io_log s)) (ram_of r0 (io_log s')) (unat p * 0x1000) d"
proof -
  define v where "v = dev_read s (io_log s) 4 REG_MCUFW_CTRL"
  define w where "w = (v AND NOT BIT_ROM_PGE) OR (push_bit 16 p AND BIT_ROM_PGE)"
  define s1 where "s1 = s\<lparr>io_log := io_log s @ [Rd 4 REG_MCUFW_CTRL v, Wr 4 REG_MCUFW_CTRL w]\<rparr>"
  have run: "run_state (fw_blocks (0x1000 + of_nat 0) d) s1 = (u, s')"
    using assms(1) by (simp add: rtw_write_firmware_page_def v_def w_def s1_def FW_START_ADDR_LEGACY_def)
  have "unat (drop_bit 16 w AND 7) = unat p"
    unfolding w_def by (rule rom_pge_field [OF assms(2)])
  moreover have "le_word (le_bytes 4 w) = w"
    by (simp add: take_bit_word_eq_self)
  ultimately have "ram_of r0 (io_log s1) = (ram_of r0 (io_log s))\<lparr>ram_page := unat p\<rparr>"
    by (simp add: s1_def ram_store_def del: le_word_le_bytes)
  with fw_blocks_wrote [OF run, of r0] assms(3) show ?thesis
    by (simp add: ram_wrote_def)
qed

interpretation mac_fw: fw_page_writer rtw_write_firmware_page "\<lambda>s. ram_of r0 (io_log s)" "\<lambda>_. True" for r0
  by unfold_locales (auto intro: mac_page_wrote)

section \<open>The page write of usb.c\<close>

definition xfer_ram :: "ctrl_xfer \<Rightarrow> fw_ram \<Rightarrow> fw_ram" where
  "xfer_ram x r = (case xfer_req x of CtrlIn _ _ \<Rightarrow> r
     | CtrlOut a p \<Rightarrow> if xfer_status x = int (length p) then ram_store (ucast a) p r else r)"

definition usb_ram :: "fw_ram \<Rightarrow> rtw_usb_ctrl \<Rightarrow> fw_ram" where
  "usb_ram r0 s = fold xfer_ram (ctrl_log s) r0"

lemma xfer_ram_in: "\<forall>x \<in> set xs. xfer_req x = CtrlIn a n \<Longrightarrow> fold xfer_ram xs r = r"
  by (induction xs arbitrary: r) (auto simp: xfer_ram_def)

lemma page_xfers_wrote:
  assumes "page_xfers (0x1000 + of_nat k) xs" and "list_all xfer_complete xs"
    and "k + length (concat (map xfer_payload xs)) \<le> 0x1000"
  shows "ram_wrote r (fold xfer_ram xs r) (ram_page r * 0x1000 + k) (concat (map xfer_payload xs))"
  using assms
proof (induction xs arbitrary: k r)
  case Nil
  then show ?case by (simp add: ram_wrote_Nil)
next
  case (Cons x xs)
  let ?a = "0x1000 + of_nat k :: u32"
  from Cons.prems(1) obtain p where p: "xfer_req x = CtrlOut (ucast ?a) p" "p \<noteq> []"
    and rest: "page_xfers (?a + of_nat (length p)) xs" by auto
  have pay: "xfer_payload x = p" and st: "xfer_status x = int (length p)"
    using p Cons.prems(2) by (simp_all add: xfer_payload_def xfer_complete_def)
  have k: "k < 0x1000" "k + length p \<le> 0x1000" "k + length p + length (concat (map xfer_payload xs)) \<le> 0x1000"
    using Cons.prems(3) p(2) pay by (cases p; simp)+
  have "?a < 0x10000"
    using k(1) by (simp add: word_less_nat_alt unat_word_ariths unat_of_nat take_bit_nat_eq_self)
  then have x: "xfer_ram x r = ram_store ?a p r"
    using p(1) st by (simp add: xfer_ram_def ucast_ucast_addr)
  then have r1: "xfer_ram x r = r\<lparr>ram_mem := ram_put (ram_page r * 0x1000 + k) p (ram_mem r)\<rparr>"
    using ram_store_window [OF k(2) k(1)] by simp
  then have w1: "ram_wrote r (xfer_ram x r) (ram_page r * 0x1000 + k) p" and pg: "ram_page (xfer_ram x r) = ram_page r"
    by (auto simp: ram_wrote_def ram_put_at ram_put_below)
  have "page_xfers (0x1000 + of_nat (k + length p)) xs"
    using rest by (simp add: add.assoc)
  from Cons.IH [OF this _ k(3), of "xfer_ram x r"] Cons.prems(2) pg
  have "ram_wrote (xfer_ram x r) (fold xfer_ram xs (xfer_ram x r)) (ram_page r * 0x1000 + k + length p)
      (concat (map xfer_payload xs))"
    by (simp add: add.assoc)
  from ram_wrote_append [OF w1 this] show ?case
    by (simp add: pay)
qed

lemma usb_page_select:
  assumes "usb_bus_ok s"
    and "rtw_usb_read32 REG_MCUFW_CTRL s = (orig, s1)"
    and "t = rtw_usb_write32 REG_MCUFW_CTRL (mask_merge orig BIT_ROM_PGE p) s1"
  shows "unat p < 8 \<Longrightarrow> usb_ram r0 t = (usb_ram r0 s)\<lparr>ram_page := unat p\<rparr>"
    and "usb_bus_ok t" and "usb_bus_ok s1"
proof -
  have a: "REG_MCUFW_CTRL < 0x10000" "(4::nat) \<in> {1, 2, 4}"
    by (simp_all add: REG_MCUFW_CTRL_def)
  have rd: "rtw_usb_read REG_MCUFW_CTRL 4 s = (orig, s1)"
    using assms(2) by (simp add: rtw_usb_read32_def)
  show ok1: "usb_bus_ok s1"
    by (rule usb_bus.rd_ok [OF assms(1) a(2) a(1) rd])
  show "usb_bus_ok t"
    unfolding assms(3) rtw_usb_write32_def by (rule usb_bus.wr_ok [OF ok1 a(2) a(1)])
  obtain ret u where loop: "rtw_usb_read_loop REG_MCUFW_CTRL 4 1 0 s = (ret, u)"
    by fastforce
  obtain xs where xs: "read_outcome REG_MCUFW_CTRL 4 s ret u xs"
    using rtw_usb_read_loop_spec [OF loop] by (auto simp: RTW_USB_CTRL_READ_MAX_ATTEMPTS_def)
  have "ctrl_log s1 = ctrl_log s @ xs"
    using rd loop xs assms(1) by (auto simp: rtw_usb_read_def usb_bus_ok_def read_outcome_def Let_def split: if_splits)
  moreover have "fold xfer_ram xs r = r" for r
    using xs by (intro xfer_ram_in [of xs "ucast REG_MCUFW_CTRL" 4]) (simp add: read_outcome_def)
  ultimately have ram1: "usb_ram r0 s1 = usb_ram r0 s"
    by (simp add: usb_ram_def)
  define w where "w = mask_merge orig BIT_ROM_PGE p"
  assume p8: "unat p < 8"
  have w: "unat (drop_bit 16 w AND 7) = unat p"
    unfolding w_def mask_merge_def
    using rom_pge_field [OF p8, of orig] by (simp add: BIT_ROM_PGE_def ffs_GENMASK)
  have lw: "le_word (le_bytes 4 w) = w"
    by (simp add: take_bit_word_eq_self)
  have "usb_ram r0 t = ram_store (ucast (ucast REG_MCUFW_CTRL :: u16)) (le_bytes 4 w) (usb_ram r0 s1)"
    using ok1 unfolding assms(3) w_def [symmetric]
    by (simp add: usb_bus_ok_def responsive_def rtw_usb_write32_def rtw_usb_write_eq usb_written_def
        usb_ram_def xfer_ram_def)
  then show "usb_ram r0 t = (usb_ram r0 s)\<lparr>ram_page := unat p\<rparr>"
    using w lw a(1) by (simp add: ram1 ram_store_def ucast_ucast_addr del: le_word_le_bytes)
qed

definition usb_page_write :: "u32 \<Rightarrow> u8 list \<Rightarrow> (rtw_usb_ctrl, unit) state" where
  "usb_page_write p d = State (\<lambda>s. ((), rtw_usb_write_firmware_page True p d s))"

lemma usb_page_write_wrote:
  assumes "usb_bus_ok s" and "run_state (usb_page_write p d) s = (u, s')"
  shows "usb_bus_ok s'"
    and "unat p < 8 \<Longrightarrow> length d \<le> 0x1000 \<Longrightarrow> ram_wrote (usb_ram r0 s) (usb_ram r0 s') (unat p * 0x1000) d"
proof -
  obtain orig s1 where rd: "rtw_usb_read32 REG_MCUFW_CTRL s = (orig, s1)"
    by fastforce
  define t where "t = rtw_usb_write32 REG_MCUFW_CTRL (mask_merge orig BIT_ROM_PGE p) s1"
  note sel = usb_page_select [OF assms(1) rd t_def]
  have s': "s' = fw_page_loop (fw_block_size (chip_id s1)) (0x1000 + of_nat 0) d t"
    using assms(2) rd by (simp add: usb_page_write_def rtw_usb_write_firmware_page_def t_def
        FW_START_ADDR_LEGACY_def)
  have "responsive (usb_dev t)" and "0 < fw_block_size (chip_id s1)"
    using sel(2) by (simp_all add: usb_bus_ok_def fw_block_size_def)
  from fw_page_all_complete [OF this, of "0x1000 + of_nat 0" d]
  obtain xs where xs: "page_outcome (0x1000 + of_nat 0) d t s' xs []" "list_all xfer_complete xs"
    unfolding s' by blast
  then have log: "s' = t\<lparr>ctrl_log := ctrl_log t @ xs\<rparr>" and px: "page_xfers (0x1000 + of_nat 0) xs"
    and d: "d = concat (map xfer_payload xs)"
    by (simp_all add: page_outcome_def)
  show "usb_bus_ok s'"
    using sel(2) by (simp add: log usb_bus_ok_def)
  assume p8: "unat p < 8" and "length d \<le> 0x1000"
  then have "0 + length (concat (map xfer_payload xs)) \<le> 0x1000"
    by (simp add: d)
  from page_xfers_wrote [OF px xs(2) this, of "usb_ram r0 t"] sel(1) [OF p8, of r0]
  show "ram_wrote (usb_ram r0 s) (usb_ram r0 s') (unat p * 0x1000) d"
    by (simp add: log d usb_ram_def ram_wrote_def)
qed

interpretation usb_fw: fw_page_writer usb_page_write "usb_ram r0" usb_bus_ok for r0
  by unfold_locales (auto intro: usb_page_write_wrote)

section \<open>The whole paged download\<close>

lemma fold_ram_reads:
  "\<forall>e \<in> set l. (\<exists>v. e = Rd w a v) \<or> (\<exists>k. e = Delay k) \<Longrightarrow> fold io_ram l r = r"
  by (induction l arbitrary: r) auto

lemma check_hw_ready_True:
  assumes "run_state (check_hw_ready a m t) s = (True, s')"
  obtains v where "last (io_log s') = Rd 4 a v" and "drop_bit (ffs m) (v AND m) = t"
proof -
  have "run_state (check_hw_ready_loop n a m t) s = (True, s') \<Longrightarrow>
      \<exists>v. last (io_log s') = Rd 4 a v \<and> drop_bit (ffs m) (v AND m) = t" for n
    by (induction n arbitrary: s) (auto split: if_splits)
  with assms that show ?thesis
    by (auto simp: check_hw_ready_def)
qed

lemma legacy_tries_image:
  assumes "run_state (fw_legacy_tries n rtw_write_firmware_page fw sz) s = (ret, s')" and "unat sz \<le> 0x8000"
  shows "ret = 0 \<and> (\<forall>i < unat sz. ram_mem (ram_of r0 (io_log s')) i = fw_mem fw (32 + i)) \<and>
           (\<exists>v. last (io_log s') = Rd 4 REG_MCUFW_CTRL v \<and> v AND BIT_FWDL_CHK_RPT \<noteq> 0)
         \<or> ret = - EINVAL"
  using assms
proof (induction n arbitrary: s)
  case 0
  then show ?case by simp
next
  case (Suc n)
  define s1 where "s1 = snd (run_state (rtw_write8_set REG_MCUFW_CTRL BIT_FWDL_CHK_RPT) s)"
  obtain u s2 where pages: "run_state (fw_write_pages rtw_write_firmware_page fw 32 sz) s1 = (u, s2)"
    by (cases "run_state (fw_write_pages rtw_write_firmware_page fw 32 sz) s1")
  obtain ready s3 where poll: "run_state (check_hw_ready REG_MCUFW_CTRL BIT_FWDL_CHK_RPT 1) s2 = (ready, s3)"
    by (cases "run_state (check_hw_ready REG_MCUFW_CTRL BIT_FWDL_CHK_RPT 1) s2")
  have s1: "run_state (rtw_write8_set REG_MCUFW_CTRL BIT_FWDL_CHK_RPT) s = ((), s1)"
    by (simp add: s1_def rtw_write8_set_def)
  have w: "ram_wrote (ram_of r0 (io_log s1)) (ram_of r0 (io_log s2)) 0 (fw_slice fw 32 (unat sz))"
    using mac_fw.write_pages [OF TrueI Suc.prems(2) pages] by simp
  from check_hw_ready_loop_log [OF poll [unfolded check_hw_ready_def]] obtain l where
    l: "s3 = s2\<lparr>io_log := io_log s2 @ l\<rparr>"
      "\<forall>e \<in> set l. (\<exists>v. e = Rd 4 REG_MCUFW_CTRL v) \<or> (\<exists>k. e = Delay k)"
    by auto
  then have r3: "ram_of r0 (io_log s3) = ram_of r0 (io_log s2)"
    by (simp add: fold_ram_reads)
  show ?case
  proof (cases ready)
    case True
    then have res: "ret = 0" "s' = s3"
      using Suc.prems(1) s1 pages poll by simp_all
    have "run_state (check_hw_ready REG_MCUFW_CTRL BIT_FWDL_CHK_RPT 1) s2 = (True, s3)"
      using poll True by simp
    then obtain v where v: "last (io_log s3) = Rd 4 REG_MCUFW_CTRL v"
        "drop_bit (ffs (BIT_FWDL_CHK_RPT :: u32)) (v AND BIT_FWDL_CHK_RPT) = 1"
      by (rule check_hw_ready_True)
    from v(2) have "v AND BIT_FWDL_CHK_RPT \<noteq> 0"
      by (metis drop_bit_of_0 zero_neq_one)
    moreover have "ram_mem (ram_of r0 (io_log s3)) i = fw_mem fw (32 + i)" if "i < unat sz" for i
      using w that by (simp add: r3 ram_wrote_def fw_slice_def)
    ultimately show ?thesis
      using res v(1) by auto
  next
    case False
    then have "run_state (fw_legacy_tries n rtw_write_firmware_page fw sz) s3 = (ret, s')"
      using Suc.prems(1) s1 pages poll by simp
    from Suc.IH [OF this Suc.prems(2)] show ?thesis .
  qed
qed

text \<open>
  Property C27. If the paged download returns 0 through the page write of \<open>mac.c\<close>, the
  chip's firmware memory holds the blob without its header, from address 0 and byte for
  byte, however many attempts were needed, and the last register read confirmed the checksum.
  Otherwise it returns -EINVAL.
\<close>
theorem download_firmware_legacy_image:
  assumes "run_state (download_firmware_legacy rtw_write_firmware_page fw) s = (ret, s')"
    and "32 \<le> fw_size fw" and "fw_size fw \<le> 32 + 0x8000"
  shows "ret = 0 \<and> (\<forall>i < unat (fw_size fw) - 32. ram_mem (ram_of r0 (io_log s')) i = fw_mem fw (32 + i)) \<and>
           (\<exists>v. last (io_log s') = Rd 4 REG_MCUFW_CTRL v \<and> v AND BIT_FWDL_CHK_RPT \<noteq> 0)
         \<or> ret = - EINVAL"
proof -
  have "unat (fw_size fw - 32) = unat (fw_size fw) - 32"
    using assms(2) by (simp add: unat_sub)
  moreover from this have "unat (fw_size fw - 32) \<le> 0x8000"
    using assms(3) by (simp add: word_le_nat_alt)
  ultimately show ?thesis
    using legacy_tries_image [of 5 fw "fw_size fw - 32" s ret s' r0] assms(1)
    by (simp add: download_firmware_legacy_def)
qed

text \<open>A chip that always reports a good checksum takes the image at the first attempt.\<close>

lemma check_hw_ready_first:
  assumes "drop_bit (ffs m) (dev_read s (io_log s) 4 a AND m) = t"
  shows "fst (run_state (check_hw_ready a m t) s)"
proof -
  have first: "check_hw_ready a m t = check_hw_ready_loop (Suc 999) a m t"
    by (simp add: check_hw_ready_def)
  show ?thesis
    unfolding first check_hw_ready_loop.simps using assms by simp
qed

lemma quiet_fw_blocks [quiet_rules]: "quiet (fw_blocks a d)"
proof (induction a d rule: fw_blocks.induct)
  case (1 a d)
  show ?case
    unfolding fw_blocks.simps [of a d] by (intro quiet_rules 1)
qed

lemma quiet_mac_page [quiet_rules]: "quiet (rtw_write_firmware_page p d)"
  unfolding rtw_write_firmware_page_def by (intro quiet_rules)

lemma quiet_full_pages [quiet_rules]: "quiet (fw_full_pages rtw_write_firmware_page fw off page n)"
proof (induction n arbitrary: off page)
  case 0
  show ?case by (simp add: quiet_dev)
next
  case (Suc n)
  show ?case
    unfolding fw_full_pages.simps by (intro quiet_rules Suc)
qed

lemma quiet_write_pages [quiet_rules]: "quiet (fw_write_pages rtw_write_firmware_page fw off sz)"
  unfolding fw_write_pages_def by (intro quiet_rules)

lemma download_legacy_first_try:
  assumes "\<And>l. drop_bit (ffs (BIT_FWDL_CHK_RPT :: u32)) (dev_read s l 4 REG_MCUFW_CTRL AND BIT_FWDL_CHK_RPT) = 1"
  shows "fst (run_state (download_firmware_legacy rtw_write_firmware_page fw) s) = 0"
proof -
  define s1 where "s1 = snd (run_state (rtw_write8_set REG_MCUFW_CTRL BIT_FWDL_CHK_RPT) s)"
  then have s1: "run_state (rtw_write8_set REG_MCUFW_CTRL BIT_FWDL_CHK_RPT) s = ((), s1)"
    by (simp add: rtw_write8_set_def)
  obtain u s2 where s2: "run_state (fw_write_pages rtw_write_firmware_page fw 32 (fw_size fw - 32)) s1 = (u, s2)"
    by (rule prod.exhaust)
  have "dev_read s1 = dev_read s"
    using s1 by (auto simp: rtw_write8_set_def)
  moreover have "dev_read s2 = dev_read s1"
    by (rule quietE [OF quiet_write_pages s2]) simp
  ultimately have "fst (run_state (check_hw_ready REG_MCUFW_CTRL BIT_FWDL_CHK_RPT 1) s2)"
    using assms by (intro check_hw_ready_first) simp
  then obtain s3 where "run_state (check_hw_ready REG_MCUFW_CTRL BIT_FWDL_CHK_RPT 1) s2 = (True, s3)"
    by (cases "run_state (check_hw_ready REG_MCUFW_CTRL BIT_FWDL_CHK_RPT 1) s2") auto
  with s1 s2 show ?thesis
    by (simp add: download_firmware_legacy_def eval_nat_numeral)
qed

definition blob40 :: rtw_firmware where
  "blob40 = \<lparr>fw_mem = (\<lambda>i. of_nat i), fw_size = 40\<rparr>"

lemma download_firmware_legacy_image_witness:
  "\<exists>s'. run_state (download_firmware_legacy rtw_write_firmware_page blob40) (usb_8812a 3 (\<lambda>_ _ _. 4)) = (0, s') \<and>
     (\<forall>i < 8. ram_mem (ram_of \<lparr>ram_page = 0, ram_mem = (\<lambda>_. 0)\<rparr> (io_log s')) i = of_nat (32 + i))"
proof -
  let ?s = "usb_8812a 3 (\<lambda>_ _ _. 4)"
  obtain ret s' where run: "run_state (download_firmware_legacy rtw_write_firmware_page blob40) ?s = (ret, s')"
    by fastforce
  have "drop_bit (ffs (4 :: u32)) ((4 :: u32) AND 4) = 1"
    by code_simp
  then have "ret = 0"
    using download_legacy_first_try [of ?s blob40] run by (simp add: usb_8812a_def)
  with run download_firmware_legacy_image [OF run, of "\<lparr>ram_page = 0, ram_mem = (\<lambda>_. 0)\<rparr>"] show ?thesis
    by (intro exI [of _ s']) (simp add: blob40_def)
qed

text \<open>
  Property C28. The same over USB: one attempt of the download through the chunked page write
  of \<open>usb.c\<close>, on a responsive adapter, leaves the blob without its header in the chip's
  firmware memory, byte for byte.
\<close>
theorem usb_firmware_image_stored:
  assumes "run_state (fw_write_pages usb_page_write fw 32 (fw_size fw - 32)) s = (u, s')"
    and "usb_bus_ok s" and "32 \<le> fw_size fw" and "fw_size fw \<le> 32 + 0x8000" and "i < unat (fw_size fw) - 32"
  shows "ram_mem (usb_ram r0 s') i = fw_mem fw (32 + i)"
proof -
  have sz: "unat (fw_size fw - 32) = unat (fw_size fw) - 32"
    using assms(3) by (simp add: unat_sub)
  moreover from this have "unat (fw_size fw - 32) \<le> 0x8000"
    using assms(4) by (simp add: word_le_nat_alt)
  ultimately show ?thesis
    using usb_fw.write_pages [OF assms(2) _ assms(1), of r0] assms(5)
    by (simp add: ram_wrote_def fw_slice_def)
qed

lemma usb_firmware_image_stored_witness:
  "ram_mem (usb_ram \<lparr>ram_page = 0, ram_mem = (\<lambda>_. 0)\<rparr> (snd (run_state (fw_write_pages usb_page_write blob40 32 8) flaky_usb))) 7 = 39"
proof -
  obtain u s' where run: "run_state (fw_write_pages usb_page_write blob40 32 (fw_size blob40 - 32)) flaky_usb = (u, s')"
    by (rule prod.exhaust)
  from usb_firmware_image_stored [OF run flaky_usb_ok, of 7 "\<lparr>ram_page = 0, ram_mem = (\<lambda>_. 0)\<rparr>"] run show ?thesis
    by (simp add: blob40_def)
qed

end
