(* ===== verification/Hal.thy ===== *)
theory Hal
  imports MacFw Frames
begin

text \<open>
  What the PHY code (\<open>phy.c\<close>, \<open>efuse.c\<close>, \<open>rtw88xxa.c\<close>, \<open>rtw8812a.c\<close>) works on: the parts of
  \<open>struct rtw_efuse\<close>, \<open>struct rtw_hal\<close>, \<open>struct rtw_dm_info\<close> and of \<open>struct rtw_chip_info\<close>
  it reads and writes, as a record that extends the MAC layer's device. An array indexed
  by RF path is a function of the path; every loop over the paths stops at \<open>rf_path_num\<close>,
  which is at most 2 on these chips while the arrays have \<open>RTW_RF_PATH_MAX\<close> = 4 entries.
  An \<open>s8\<close> is kept as the \<open>u8\<close> with the same bits and read with \<open>sint\<close> where its sign matters.
\<close>

type_synonym s8 = "8 word"

abbreviation (input) RF_PATH_A :: nat where "RF_PATH_A \<equiv> 0"
abbreviation (input) RF_PATH_B :: nat where "RF_PATH_B \<equiv> 1"

abbreviation (input) RF_1T1R :: u8 where "RF_1T1R \<equiv> 0"
abbreviation (input) RF_2T2R :: u8 where "RF_2T2R \<equiv> 2"

abbreviation (input) BB_PATH_A :: u32 where "BB_PATH_A \<equiv> 1"
abbreviation (input) BB_PATH_B :: u32 where "BB_PATH_B \<equiv> 2"
abbreviation (input) BB_PATH_AB :: u32 where "BB_PATH_AB \<equiv> 3"

abbreviation (input) RTW_BAND_2G :: u8 where "RTW_BAND_2G \<equiv> 1"
abbreviation (input) RTW_BAND_5G :: u8 where "RTW_BAND_5G \<equiv> 2"

abbreviation (input) RTW_CHANNEL_WIDTH_20 :: u8 where "RTW_CHANNEL_WIDTH_20 \<equiv> 0"
abbreviation (input) RTW_CHANNEL_WIDTH_40 :: u8 where "RTW_CHANNEL_WIDTH_40 \<equiv> 1"
abbreviation (input) RTW_CHANNEL_WIDTH_80 :: u8 where "RTW_CHANNEL_WIDTH_80 \<equiv> 2"

abbreviation (input) RTW_CHIP_VER_CUT_C :: u8 where "RTW_CHIP_VER_CUT_C \<equiv> 2"

section \<open>Results of C functions that may read or write out of bounds\<close>

datatype 'a cres = CRet 'a | CErr int | COob

section \<open>The records\<close>

record rtw_efuse =
  ef_physical_size :: u32
  ef_logical_size :: u32
  ef_protect_size :: u32
  ef_addr :: "u8 list"
  ef_channel_plan :: u8
  ef_country_code :: "u8 list"
  ef_rf_board_option :: u8
  ef_rfe_option :: u8
  ef_rfe_option_full :: u8
  ef_thermal_meter :: "nat \<Rightarrow> u8"
  ef_thermal_meter_k :: u8
  ef_crystal_cap :: u8
  ef_ant_div_cfg :: u8
  ef_ant_div_type :: u8
  ef_regd :: u8
  ef_lna_type_2g :: u8
  ef_lna_type_5g :: u8
  ef_glna_type :: u8
  ef_alna_type :: u8
  ef_ext_lna_2g :: bool
  ef_ext_lna_5g :: bool
  ef_pa_type_2g :: u8
  ef_pa_type_5g :: u8
  ef_gpa_type :: u8
  ef_apa_type :: u8
  ef_ext_pa_2g :: bool
  ef_ext_pa_5g :: bool
  ef_tx_bb_swing_setting_2g :: u8
  ef_tx_bb_swing_setting_5g :: u8
  ef_btcoex :: bool
  ef_share_ant :: bool
  ef_bt_setting :: u8
  ef_usb_mode_switch :: u8
  ef_hw_cap_bw :: u8
  ef_hw_cap_ptcl :: u8
  ef_hw_cap_nss :: u8
  ef_txpwr_idx_table :: "u8 list list"   \<comment> \<open>the four packed \<open>rtw_txpwr_idx\<close>\<close>

text \<open>The bit fields of \<open>struct rtw_phy_cond\<close> and the bytes of \<open>struct rtw_phy_cond2\<close>.\<close>

record rtw_phy_cond =
  pc_rfe :: u8
  pc_intf :: u8     \<comment> \<open>four bits\<close>
  pc_pkg :: u8      \<comment> \<open>four bits\<close>
  pc_plat :: u8     \<comment> \<open>four bits\<close>
  pc_cut :: u8      \<comment> \<open>four bits\<close>
  pc_branch :: u8   \<comment> \<open>two bits\<close>
  pc_neg :: bool
  pc_pos :: bool

record rtw_phy_cond2 =
  pc_glna :: u8
  pc_gpa :: u8
  pc_alna :: u8
  pc_apa :: u8

record rtw_hal =
  hal_rxfltmap1 :: u16
  hal_phy_cond :: rtw_phy_cond
  hal_phy_cond2 :: rtw_phy_cond2
  hal_current_channel :: u8
  hal_current_band_width :: u8
  hal_current_band_type :: u8
  hal_rf_type :: u8
  hal_rf_path_num :: u8
  hal_rf_phy_num :: u8
  hal_antenna_tx :: u32
  hal_antenna_rx :: u32
  hal_cck_high_power :: bool
  hal_tx_pwr_tbl :: "nat \<Rightarrow> nat \<Rightarrow> s8"

record 'e rtw_dm_info =
  dm_cck_fa_cnt :: u32
  dm_ofdm_fa_cnt :: u32
  dm_total_fa_cnt :: u32
  dm_cck_cca_cnt :: u32
  dm_ofdm_cca_cnt :: u32
  dm_total_cca_cnt :: u32
  dm_cck_ok_cnt :: u32
  dm_cck_err_cnt :: u32
  dm_ofdm_ok_cnt :: u32
  dm_ofdm_err_cnt :: u32
  dm_ht_ok_cnt :: u32
  dm_ht_err_cnt :: u32
  dm_vht_ok_cnt :: u32
  dm_vht_err_cnt :: u32
  dm_min_rssi :: u8
  dm_pre_min_rssi :: u8
  dm_fa_history :: "u16 list"    \<comment> \<open>four entries\<close>
  dm_igi_history :: "u8 list"    \<comment> \<open>four entries\<close>
  dm_igi_bitmap :: u8
  dm_damping :: bool
  dm_damping_cnt :: u8
  dm_damping_rssi :: u8
  dm_tx_rate :: u8
  dm_rrsr_val_init :: u32
  dm_rrsr_mask_min :: u32
  dm_thermal_avg :: "nat \<Rightarrow> u8"
  dm_thermal_meter_k :: u8
  dm_thermal_meter_lck :: u8
  dm_delta_power_index :: "nat \<Rightarrow> s8"
  dm_delta_power_index_last :: "nat \<Rightarrow> s8"
  dm_default_ofdm_index :: u8
  dm_default_cck_index :: u8
  dm_pwr_trk_triggered :: bool
  dm_pwr_trk_init_trigger :: bool
  dm_avg_thermal :: "nat \<Rightarrow> 'e"
  dm_txagc_remnant_cck :: s8
  dm_txagc_remnant_ofdm :: "nat \<Rightarrow> s8"
  dm_cck_pd_lv :: "nat \<Rightarrow> nat \<Rightarrow> u8"    \<comment> \<open>bandwidth, path\<close>
  dm_cck_fa_avg :: u32
  dm_iqk_done :: bool
  dm_l2h_th_ini :: s8
  dm_edcca_adaptivity :: bool

datatype table_cfg = CfgMac | CfgAgc | CfgBb | CfgRf

record rtw_table =
  tbl_data :: "u32 list"
  tbl_do_cfg :: table_cfg
  tbl_rf_path :: nat

record rtw_swing_table =
  swing_p :: "nat \<Rightarrow> (nat \<Rightarrow> u8) option"
  swing_n :: "nat \<Rightarrow> (nat \<Rightarrow> u8) option"

text \<open>
  The chip description beyond what the MAC layer uses.
\<close>

record rtw_chip_phy =
  cp_mac_tbl :: rtw_table
  cp_bb_tbl :: rtw_table
  cp_agc_tbl :: rtw_table
  cp_rf_tbl :: "rtw_table list"
  cp_rf_sipi_addr :: "u32 list"
  cp_dig :: "(u32 \<times> u32) list"          \<comment> \<open>address and mask\<close>
  cp_dig_min :: u8
  cp_lck_threshold :: u8
  cp_iqk_threshold :: u8

text \<open>
  \<open>thermal_init\<close>, \<open>thermal_add\<close> and \<open>thermal_read\<close> are the kernel's \<open>ewma_thermal\<close>
  (\<open>linux/average.h\<close>), \<open>fw_wait_ret\<close> the result of waiting for the firmware file.
\<close>

record 'e rtw_phy = rtw_dev +
  efuse :: rtw_efuse
  hal :: rtw_hal
  dm_info :: "'e rtw_dm_info"
  chip_phy :: rtw_chip_phy
  usb_super_speed :: bool
  flag_scanning :: bool
  flag_dig_disable :: bool
  sta_cnt :: nat
  beacon_loss :: bool
  is_assoc :: bool
  thermal_init :: 'e
  thermal_add :: "'e \<Rightarrow> u8 \<Rightarrow> 'e"
  thermal_read :: "'e \<Rightarrow> u8"
  fw_wait_ret :: int
  fw_blob :: rtw_firmware

text \<open>The operations of the host interface and of the coexistence code: function pointers of the code.\<close>

record 's rtw_hci_ops =
  op_setup :: "('s, int) state"
  op_start :: "('s, int) state"
  op_stop :: "('s, unit) state"
  op_interface_cfg :: "('s, unit) state"
  op_write_data_rsvd_page :: "u8 list \<Rightarrow> ('s, int) state"
  op_write_firmware_page :: "u32 \<Rightarrow> u8 list \<Rightarrow> ('s, unit) state"
  op_recover_bt :: "('s, unit) state"
  op_coex_power_on :: "('s, unit) state"
  op_coex_power_off :: "('s, unit) state"

type_synonym ('e, 'x, 'a) phy = "(('e, 'x) rtw_phy_scheme, 'a) state"

definition efuse_upd :: "(rtw_efuse \<Rightarrow> rtw_efuse) \<Rightarrow> ('e, 'x, unit) phy" where
  "efuse_upd f = dev_upd (\<lambda>s. s\<lparr>efuse := f (efuse s)\<rparr>)"

definition hal_upd :: "(rtw_hal \<Rightarrow> rtw_hal) \<Rightarrow> ('e, 'x, unit) phy" where
  "hal_upd f = dev_upd (\<lambda>s. s\<lparr>hal := f (hal s)\<rparr>)"

definition dm_upd :: "('e rtw_dm_info \<Rightarrow> 'e rtw_dm_info) \<Rightarrow> ('e, 'x, unit) phy" where
  "dm_upd f = dev_upd (\<lambda>s. s\<lparr>dm_info := f (dm_info s)\<rparr>)"

section \<open>Loops and polls\<close>

text \<open>The loop over the elements of a list, and the one over the RF paths.\<close>

fun for_each :: "'b list \<Rightarrow> ('b \<Rightarrow> ('s, unit) state) \<Rightarrow> ('s, unit) state" where
  "for_each [] f = skip"
| "for_each (x # xs) f = do { f x; for_each xs f }"

definition for_paths :: "(nat \<Rightarrow> ('e, 'x, unit) phy) \<Rightarrow> ('e, 'x, unit) phy" where
  "for_paths f = do { n \<leftarrow> dev_get (\<lambda>s. unat (hal_rf_path_num (hal s))); for_each [0..<n] f }"

text \<open>\<open>read_poll_timeout\<close> on a 16 or 32 bit register, as \<open>read_poll8\<close>.\<close>

fun read_poll16 :: "nat \<Rightarrow> int \<Rightarrow> u32 \<Rightarrow> (u16 \<Rightarrow> bool) \<Rightarrow> ('x hw_scheme, u16 \<times> bool) state" where
  "read_poll16 0 us addr c = do { v \<leftarrow> rtw_read16 addr; State_Monad.return (v, c v) }"
| "read_poll16 (Suc n) us addr c =
     do { v \<leftarrow> rtw_read16 addr;
          if c v then State_Monad.return (v, True)
          else do { delay_us us; read_poll16 n us addr c } }"

fun read_poll32 :: "nat \<Rightarrow> int \<Rightarrow> u32 \<Rightarrow> (u32 \<Rightarrow> bool) \<Rightarrow> ('x hw_scheme, u32 \<times> bool) state" where
  "read_poll32 0 us addr c = do { v \<leftarrow> rtw_read32 addr; State_Monad.return (v, c v) }"
| "read_poll32 (Suc n) us addr c =
     do { v \<leftarrow> rtw_read32 addr;
          if c v then State_Monad.return (v, True)
          else do { delay_us us; read_poll32 n us addr c } }"

section \<open>Lemmas\<close>

lemma run_for_each_append [simp]:
  "run_state (for_each (xs @ ys) f) s = run_state (for_each ys f) (snd (run_state (for_each xs f) s))"
  by (induction xs arbitrary: s) (simp_all add: split: prod.split)

lemma acts_for_each [acts_rules]: "(\<And>x. x \<in> set xs \<Longrightarrow> acts P (f x)) \<Longrightarrow> acts P (for_each xs f)"
  by (induction xs) (auto intro!: acts_rules)

lemma quiet_for_each [quiet_rules]: "(\<And>x. x \<in> set xs \<Longrightarrow> quiet (f x)) \<Longrightarrow> quiet (for_each xs f)"
  by (induction xs) (auto intro!: quiet_rules)

lemma acts_upds [acts_rules]: "acts P (efuse_upd f)" "acts P (hal_upd g)" "acts P (dm_upd h)"
  by (simp_all add: efuse_upd_def hal_upd_def dm_upd_def acts_dev_upd)

lemma acts_for_paths [acts_rules]: "(\<And>p. acts P (f p)) \<Longrightarrow> acts P (for_paths f)"
  unfolding for_paths_def by (intro acts_rules)

lemma quiet_for_paths [quiet_rules]: "(\<And>p. quiet (f p)) \<Longrightarrow> quiet (for_paths f)"
  unfolding for_paths_def by (intro quiet_rules)

lemma run_upds [simp]:
  "run_state (efuse_upd f) s = ((), s\<lparr>efuse := f (efuse s)\<rparr>)"
  "run_state (hal_upd g) s = ((), s\<lparr>hal := g (hal s)\<rparr>)"
  "run_state (dm_upd h) s = ((), s\<lparr>dm_info := h (dm_info s)\<rparr>)"
  by (simp_all add: efuse_upd_def hal_upd_def dm_upd_def)

lemma quiet_polls [quiet_rules]: "quiet (read_poll16 n us a c)" "quiet (read_poll32 n us a c')"
proof -
  show "quiet (read_poll16 n us a c)"
    by (induction n) (auto intro!: quiet_rules)
  show "quiet (read_poll32 n us a c')"
    by (induction n) (auto intro!: quiet_rules)
qed

lemma acts_polls [acts_rules]:
  "(\<And>v. P (Rd 2 a v)) \<Longrightarrow> P (Delay us) \<Longrightarrow> acts P (read_poll16 n us a c)"
  "(\<And>v. P (Rd 4 a v)) \<Longrightarrow> P (Delay us) \<Longrightarrow> acts P (read_poll32 n us a c')"
proof -
  show "acts P (read_poll16 n us a c)" if "\<And>v. P (Rd 2 a v)" "P (Delay us)"
    using that by (induction n) (auto intro!: acts_rules)
  show "acts P (read_poll32 n us a c')" if "\<And>v. P (Rd 4 a v)" "P (Delay us)"
    using that by (induction n) (auto intro!: acts_rules)
qed

end
