(* ===== verification/Efuse.thy ===== *)
theory Efuse
  imports Hal
begin

text \<open>
  The efuse (\<open>efuse.c\<close>, and \<open>rtw88xxa_read_efuse\<close> of \<open>rtw88xxa.c\<close>): reading the physical
  cells, unpacking the sections written to them into the logical map, and taking the
  adapter's parameters from the map. A read or write outside a buffer is the result \<open>COob\<close>.
\<close>

section \<open>The logical map\<close>

definition invalid_efuse_header :: "u8 \<Rightarrow> u8 \<Rightarrow> bool" where
  "invalid_efuse_header hdr1 hdr2 \<longleftrightarrow> hdr1 = 0xff \<or> hdr1 AND 0x1f = 0xf \<and> hdr2 = 0xff"

definition invalid_efuse_content :: "u8 \<Rightarrow> nat \<Rightarrow> bool" where
  "invalid_efuse_content word_en i \<longleftrightarrow> word_en AND BIT i \<noteq> 0"

definition get_efuse_blk_idx_2_byte :: "u8 \<Rightarrow> u8 \<Rightarrow> u8" where
  "get_efuse_blk_idx_2_byte hdr1 hdr2 = drop_bit 1 (hdr2 AND 0xf0) OR (drop_bit 5 hdr1 AND 0x07)"

definition get_efuse_blk_idx_1_byte :: "u8 \<Rightarrow> u8" where
  "get_efuse_blk_idx_1_byte hdr1 = drop_bit 4 (hdr1 AND 0xf0)"

definition block_idx_to_logical_idx :: "u8 \<Rightarrow> nat \<Rightarrow> nat" where
  "block_idx_to_logical_idx blk_idx i = unat blk_idx * 8 + i * 2"

text \<open>The words of one section: the inner loop.\<close>

fun efuse_words ::
    "u8 list \<Rightarrow> nat \<Rightarrow> nat \<Rightarrow> u8 \<Rightarrow> u8 \<Rightarrow> nat list \<Rightarrow> nat \<Rightarrow> u8 list \<Rightarrow> (nat \<times> u8 list) cres" where
  "efuse_words phy lim logical blk_idx word_en [] phy_idx log_map = CRet (phy_idx, log_map)"
| "efuse_words phy lim logical blk_idx word_en (i # is) phy_idx log_map =
     (if invalid_efuse_content word_en i
      then efuse_words phy lim logical blk_idx word_en is phy_idx log_map
      else let log_idx = block_idx_to_logical_idx blk_idx i
           in if phy_idx + 1 > lim \<or> log_idx + 1 > logical then CErr (- EINVAL)
              else if length phy \<le> phy_idx + 1 \<or> length log_map \<le> log_idx + 1 then COob
              else efuse_words phy lim logical blk_idx word_en is (phy_idx + 2)
                     (log_map[log_idx := phy ! phy_idx, log_idx + 1 := phy ! (phy_idx + 1)]))"

definition efuse_header :: "u8 \<Rightarrow> u8 \<Rightarrow> u8 \<times> u8 \<times> nat" where
  "efuse_header hdr1 hdr2 =
     (if hdr1 AND 0x1f = 0xf
      then (get_efuse_blk_idx_2_byte hdr1 hdr2, hdr2 AND 0xf, 2)
      else (get_efuse_blk_idx_1_byte hdr1, hdr1 AND 0xf, 1))"

lemma efuse_words_ge:
  "efuse_words phy lim logical b w is idx lm = CRet (idx', lm') \<Longrightarrow> idx \<le> idx'"
  by (induction phy lim logical b w "is" idx lm rule: efuse_words.induct)
    (auto simp: Let_def split: if_splits)

text \<open>The outer loop. It ends because every section has at least its header byte.\<close>

function dump_logical_loop ::
    "u8 list \<Rightarrow> nat \<Rightarrow> nat \<Rightarrow> nat \<Rightarrow> u8 list \<Rightarrow> (u8 list) cres" where
  "dump_logical_loop phy lim logical phy_idx log_map =
     (if lim \<le> phy_idx then CRet log_map
      else if length phy \<le> phy_idx + 1 then COob
      else if invalid_efuse_header (phy ! phy_idx) (phy ! (phy_idx + 1)) then CRet log_map
      else case efuse_header (phy ! phy_idx) (phy ! (phy_idx + 1)) of (blk_idx, word_en, n) \<Rightarrow>
             (case efuse_words phy lim logical blk_idx word_en [0, 1, 2, 3] (phy_idx + n) log_map of
                CRet (phy_idx', log_map') \<Rightarrow> dump_logical_loop phy lim logical phy_idx' log_map'
              | CErr e \<Rightarrow> CErr e
              | COob \<Rightarrow> COob))"
  by pat_completeness auto
termination
proof (relation "measure (\<lambda>(phy, lim, logical, idx, lm). lim - idx)")
  show "wf (measure (\<lambda>(phy, lim, logical, idx, lm). lim - idx))"
    by simp
qed (auto simp: efuse_header_def simp del: efuse_words.simps dest!: efuse_words_ge split: if_splits)

declare dump_logical_loop.simps [simp del]

definition rtw_dump_logical_efuse_map :: "rtw_efuse \<Rightarrow> u8 list \<Rightarrow> u8 list \<Rightarrow> (u8 list) cres" where
  "rtw_dump_logical_efuse_map e phy_map log_map =
     dump_logical_loop phy_map (unat (ef_physical_size e - ef_protect_size e))
       (unat (ef_logical_size e)) 0 log_map"

section \<open>The physical cells\<close>

definition RTW_EFUSE_BANK_WIFI :: u32 where "RTW_EFUSE_BANK_WIFI = 0"

definition switch_efuse_bank :: "('x hw_scheme, unit) state" where
  "switch_efuse_bank = rtw_write32_mask REG_LDO_EFUSE_CTRL BIT_MASK_EFUSE_BANK_SEL RTW_EFUSE_BANK_WIFI"

definition rtw88xxa_efuse_grant :: "bool \<Rightarrow> ('x hw_scheme, unit) state" where
  "rtw88xxa_efuse_grant on =
     (if on
      then do { rtw_write8 REG_EFUSE_ACCESS EFUSE_ACCESS_ON;
                rtw_write16_set REG_SYS_FUNC_EN BIT_FEN_ELDR;
                rtw_write16_set REG_SYS_CLKR (BIT_LOADER_CLK_EN OR BIT_ANA8M) }
      else rtw_write8 REG_EFUSE_ACCESS EFUSE_ACCESS_OFF)"

text \<open>
  Waiting for one cell: the counter is decremented, and ends the wait, also when the value
  just read has the flag. The wait starts with \<open>cnt\<close> = 1000000.
\<close>

fun efuse_wait :: "nat \<Rightarrow> ('x hw_scheme, u32 option) state" where
  "efuse_wait 0 = State_Monad.return None"
| "efuse_wait (Suc cnt) =
     do { delay_us 1;
          efuse_ctl \<leftarrow> rtw_read32 REG_EFUSE_CTRL;
          if cnt = 0 then State_Monad.return None
          else if efuse_ctl AND BIT_EF_FLAG \<noteq> 0 then State_Monad.return (Some efuse_ctl)
          else efuse_wait cnt }"

definition efuse_ctl_for :: "u32 \<Rightarrow> nat \<Rightarrow> u32" where
  "efuse_ctl_for efuse_ctl addr =
     (efuse_ctl AND NOT (BIT_MASK_EF_DATA OR BITS_EF_ADDR))
       OR push_bit 8 (of_nat addr AND BIT_MASK_EF_ADDR)"

fun dump_physical_loop :: "nat \<Rightarrow> nat list \<Rightarrow> u32 \<Rightarrow> u8 list \<Rightarrow> ('x hw_scheme, (u8 list) option) state" where
  "dump_physical_loop cnt [] efuse_ctl map' = State_Monad.return (Some map')"
| "dump_physical_loop cnt (addr # addrs) efuse_ctl map' =
     do { rtw_write32 REG_EFUSE_CTRL (efuse_ctl_for efuse_ctl addr AND NOT BIT_EF_FLAG);
          v \<leftarrow> efuse_wait cnt;
          case v of None \<Rightarrow> State_Monad.return None
          | Some efuse_ctl' \<Rightarrow>
              dump_physical_loop cnt addrs efuse_ctl' (map' @ [ucast (efuse_ctl' AND BIT_MASK_EF_DATA)]) }"

definition rtw_dump_physical_efuse_map ::
    "nat \<Rightarrow> ('x hw_scheme, unit) state \<Rightarrow> u32 \<Rightarrow> ('x hw_scheme, (u8 list) option) state" where
  "rtw_dump_physical_efuse_map cnt cfg_ldo25_off size' =
     do { rtw88xxa_efuse_grant True;
          switch_efuse_bank;
          cfg_ldo25_off;
          efuse_ctl \<leftarrow> rtw_read32 REG_EFUSE_CTRL;
          m \<leftarrow> dump_physical_loop cnt [0..<unat size'] efuse_ctl [];
          case m of None \<Rightarrow> State_Monad.return None
          | Some map' \<Rightarrow> do { rtw88xxa_efuse_grant False; State_Monad.return (Some map') } }"

definition EFUSE_READ_FAIL :: u8 where "EFUSE_READ_FAIL = 0xff"

definition rtw_read8_physical_efuse :: "u16 \<Rightarrow> ('x, int \<times> u8) dev" where
  "rtw_read8_physical_efuse addr =
     do { rtw_write32_mask REG_EFUSE_CTRL 0x3ff00 (ucast addr);
          rtw_write32_clr REG_EFUSE_CTRL BIT_EF_FLAG;
          n \<leftarrow> dev_get (\<lambda>s. poll_max s 100000);
          (_, ok) \<leftarrow> read_poll32 n 1000 REG_EFUSE_CTRL (\<lambda>v. v AND BIT_EF_FLAG \<noteq> 0);
          if \<not> ok then State_Monad.return (- ETIMEDOUT, EFUSE_READ_FAIL)
          else do { v \<leftarrow> rtw_read8 REG_EFUSE_CTRL; State_Monad.return (0, v) } }"

section \<open>The parameters of an 8812A or 8821A\<close>

text \<open>\<open>(b << 2) | a\<close> of the types of the two paths, each a field of \<open>t\<close>.\<close>

definition ext_type :: "u8 \<Rightarrow> u8 \<Rightarrow> u8 \<Rightarrow> u8" where
  "ext_type t field_b field_a = push_bit 2 (get_bits t field_b) OR get_bits t field_a"

definition rtw8812a_read_amplifier_type :: "rtw_efuse \<Rightarrow> rtw_efuse" where
  "rtw8812a_read_amplifier_type e =
     (let e = e\<lparr>ef_ext_pa_2g := ef_pa_type_2g e AND BIT 5 \<noteq> 0 \<and> ef_pa_type_2g e AND BIT 4 \<noteq> 0,
                ef_ext_lna_2g := ef_lna_type_2g e AND BIT 7 \<noteq> 0 \<and> ef_lna_type_2g e AND BIT 3 \<noteq> 0,
                ef_ext_pa_5g := ef_pa_type_5g e AND BIT 1 \<noteq> 0 \<and> ef_pa_type_5g e AND BIT 0 \<noteq> 0,
                ef_ext_lna_5g := ef_lna_type_5g e AND BIT 7 \<noteq> 0 \<and> ef_lna_type_5g e AND BIT 3 \<noteq> 0\<rparr>;
          e = (if ef_ext_pa_2g e then e\<lparr>ef_gpa_type := ext_type (ef_lna_type_2g e) (BIT 6) (BIT 2)\<rparr> else e);
          e = (if ef_ext_pa_5g e then e\<lparr>ef_apa_type := ext_type (ef_lna_type_5g e) (BIT 6) (BIT 2)\<rparr> else e);
          e = (if ef_ext_lna_2g e
               then e\<lparr>ef_glna_type := ext_type (ef_lna_type_2g e) (BIT 5 OR BIT 4) (BIT 1 OR BIT 0)\<rparr> else e)
      in if ef_ext_lna_5g e
         then e\<lparr>ef_alna_type := ext_type (ef_lna_type_5g e) (BIT 5 OR BIT 4) (BIT 1 OR BIT 0)\<rparr> else e)"

definition rtw8812a_read_rfe_type :: "rtw_hci_type \<Rightarrow> u8 \<Rightarrow> rtw_efuse \<Rightarrow> rtw_efuse" where
  "rtw8812a_read_rfe_type hci map_rfe_option e =
     (if map_rfe_option = 0xff
      then e\<lparr>ef_rfe_option := (if hci = RTW_HCI_TYPE_USB then 0 else if hci = RTW_HCI_TYPE_PCIE then 2 else 4)\<rparr>
      else if map_rfe_option AND BIT 7 \<noteq> 0
      then e\<lparr>ef_rfe_option :=
               (if ef_ext_lna_5g e
                then if ef_ext_pa_5g e
                     then if ef_ext_lna_2g e \<and> ef_ext_pa_2g e then 3 else 0
                     else 2
                else 4)\<rparr>
      else let e = e\<lparr>ef_rfe_option := map_rfe_option AND 0x3f\<rparr>
           in if ef_rfe_option e = 4 \<and>
                 (ef_ext_pa_5g e \<or> ef_ext_pa_2g e \<or> ef_ext_lna_5g e \<or> ef_ext_lna_2g e)
              then if hci = RTW_HCI_TYPE_USB then e\<lparr>ef_rfe_option := 0\<rparr>
                   else if hci = RTW_HCI_TYPE_PCIE then e\<lparr>ef_rfe_option := 2\<rparr>
                   else e
              else e)"

text \<open>The two loops that look for the antenna and the wireless mode in fixed cells.\<close>

fun usb_type_antenna :: "u16 list \<Rightarrow> u8 \<Rightarrow> ('x, u8) dev" where
  "usb_type_antenna [] antenna = State_Monad.return antenna"
| "usb_type_antenna (addr # addrs) _ =
     do { (_, val8) \<leftarrow> rtw_read8_physical_efuse addr;
          if get_bits val8 (GENMASK 7 5) \<noteq> 0 then State_Monad.return (get_bits val8 (GENMASK 7 5))
          else if get_bits val8 (GENMASK 3 1) \<noteq> 0 then State_Monad.return (get_bits val8 (GENMASK 3 1))
          else usb_type_antenna addrs 0 }"

fun usb_type_wmode :: "u16 list \<Rightarrow> u8 \<Rightarrow> ('x, u8) dev" where
  "usb_type_wmode [] wmode = State_Monad.return wmode"
| "usb_type_wmode (addr # addrs) _ =
     do { (_, val8) \<leftarrow> rtw_read8_physical_efuse addr;
          if get_bits val8 (GENMASK 3 2) \<noteq> 0 then State_Monad.return (get_bits val8 (GENMASK 3 2))
          else usb_type_wmode addrs 0 }"

definition set_1t1r :: "rtw_hal \<Rightarrow> rtw_hal" where
  "set_1t1r h = h\<lparr>hal_rf_type := RF_1T1R, hal_rf_path_num := 1, hal_rf_phy_num := 1,
     hal_antenna_tx := BB_PATH_A, hal_antenna_rx := BB_PATH_A\<rparr>"

definition set_2t2r :: "rtw_hal \<Rightarrow> rtw_hal" where
  "set_2t2r h = h\<lparr>hal_rf_type := RF_2T2R, hal_rf_path_num := 2, hal_rf_phy_num := 2,
     hal_antenna_tx := BB_PATH_AB, hal_antenna_rx := BB_PATH_AB\<rparr>"

definition rtw8812a_read_usb_type :: "('e, 'x, unit) phy" where
  "rtw8812a_read_usb_type =
     do { antenna \<leftarrow> usb_type_antenna [1019, 1018] 0;
          wmode \<leftarrow> usb_type_wmode [1021, 1020] 0;
          if antenna = 1
          then do { efuse_upd (\<lambda>e. e\<lparr>ef_hw_cap_nss := 1\<rparr>); hal_upd set_1t1r }
          else if antenna = 2 \<and> wmode = 2
          then efuse_upd (\<lambda>e. e\<lparr>ef_hw_cap_ptcl := 1,
                 ef_hw_cap_bw := ef_hw_cap_bw e AND NOT (BIT (unat RTW_CHANNEL_WIDTH_80))\<rparr>)
          else skip }"

definition rtw88xxa_fill_hw_cap :: "('e, 'x, unit) phy" where
  "rtw88xxa_fill_hw_cap =
     do { c \<leftarrow> dev_get (\<lambda>s. ci_id (chip s));
          t \<leftarrow> dev_get hci_type;
          efuse_upd (\<lambda>e. e\<lparr>ef_hw_cap_bw := BIT 0 OR BIT 1 OR BIT 2, ef_hw_cap_ptcl := 3,
            ef_hw_cap_nss := (if c = RTW_CHIP_TYPE_8821A then 1 else 2)\<rparr>);
          when_do (c = RTW_CHIP_TYPE_8812A \<and> t = RTW_HCI_TYPE_USB) rtw8812a_read_usb_type }"

text \<open>The fields of \<open>struct rtw88xxa_efuse\<close>, by their offset in the logical map.\<close>

definition efuse_from_map :: "u8 list \<Rightarrow> rtw_efuse \<Rightarrow> rtw_efuse" where
  "efuse_from_map map' e = e\<lparr>
     ef_rf_board_option := map' ! 0xc1,
     ef_crystal_cap := (if map' ! 0xb9 = 0xff then 0x20 else map' ! 0xb9),
     ef_pa_type_2g := map' ! 0xbc, ef_pa_type_5g := map' ! 0xbc,
     ef_lna_type_2g := map' ! 0xbd, ef_lna_type_5g := map' ! 0xbf\<rparr>"

definition efuse_from_map_rest :: "u8 list \<Rightarrow> rtw_efuse \<Rightarrow> rtw_efuse" where
  "efuse_from_map_rest map' e = e\<lparr>
     ef_channel_plan := map' ! 0xb8,
     ef_country_code := [map' ! 0xcb, map' ! 0xcc],
     ef_bt_setting := map' ! 0xc3,
     ef_regd := map' ! 0xc1 AND 0x7,
     ef_thermal_meter := (ef_thermal_meter e)(0 := map' ! 0xba, 1 := map' ! 0xba),
     ef_thermal_meter_k := map' ! 0xba,
     ef_tx_bb_swing_setting_2g := map' ! 0xc6,
     ef_tx_bb_swing_setting_5g := map' ! 0xc7\<rparr>"

definition efuse_mac_offset :: "rtw_hci_type \<Rightarrow> chip_type \<Rightarrow> nat option" where
  "efuse_mac_offset t c =
     (case t of RTW_HCI_TYPE_USB \<Rightarrow> Some (if c = RTW_CHIP_TYPE_8821A then 0x107 else 0xd7)
      | RTW_HCI_TYPE_PCIE \<Rightarrow> Some 0xd0
      | _ \<Rightarrow> None)"

definition rtw88xxa_read_efuse :: "u8 list \<Rightarrow> ('e, 'x, int) phy" where
  "rtw88xxa_read_efuse map' =
     do { c \<leftarrow> dev_get (\<lambda>s. ci_id (chip s));
          t \<leftarrow> dev_get hci_type;
          when_do (c = RTW_CHIP_TYPE_8812A)
            (do { dev_upd (\<lambda>s. s\<lparr>cut_version := cut_version s + 1\<rparr>); hal_upd set_2t2r });
          efuse_upd (efuse_from_map map');
          when_do (c = RTW_CHIP_TYPE_8812A)
            (do { efuse_upd rtw8812a_read_amplifier_type;
                  efuse_upd (rtw8812a_read_rfe_type t (map' ! 0xca));
                  efuse_upd (\<lambda>e. e\<lparr>ef_usb_mode_switch := get_bits (map' ! 0x08) (BIT 1)\<rparr>) });
          efuse_upd (efuse_from_map_rest map');
          rtw88xxa_fill_hw_cap;
          btcoex \<leftarrow> (if c = RTW_CHIP_TYPE_8821A
                     then do { v \<leftarrow> rtw_read32_mask REG_WL_BT_PWR_CTRL BIT_BT_FUNC_EN;
                               State_Monad.return (v \<noteq> 0) }
                     else State_Monad.return (map' ! 0xc1 AND 0xe0 = 0x20));
          efuse_upd (\<lambda>e. e\<lparr>ef_btcoex := btcoex, ef_share_ant := (ef_bt_setting e AND BIT 0 \<noteq> 0),
            ef_ant_div_cfg := 0,
            ef_ant_div_type := (if map' ! 0xc9 = 0xff then 3 else map' ! 0xc9),
            ef_txpwr_idx_table := map (\<lambda>i. take 42 (drop (0x10 + 42 * i) map')) [0..<4]\<rparr>);
          (case efuse_mac_offset t c of None \<Rightarrow> State_Monad.return (- EOPNOTSUPP)
           | Some off \<Rightarrow>
               do { efuse_upd (\<lambda>e. e\<lparr>ef_addr := take 6 (drop off map')\<rparr>); State_Monad.return 0 }) }"

text \<open>
  The whole parse. A failed allocation or dump ends it; the result \<open>None\<close> is an access outside the maps.
\<close>

definition rtw_parse_efuse_map :: "nat \<Rightarrow> ('e, 'x, int option) phy" where
  "rtw_parse_efuse_map cnt =
     do { ok \<leftarrow> dev_get (\<lambda>s. kmem_ok s (io_log s));
          e \<leftarrow> dev_get efuse;
          if \<not> ok then State_Monad.return (Some (- ENOMEM))
          else do { phy_map \<leftarrow> rtw_dump_physical_efuse_map cnt skip (ef_physical_size e);
                    case phy_map of None \<Rightarrow> State_Monad.return (Some (- EBUSY))
                    | Some pm \<Rightarrow>
                        (case rtw_dump_logical_efuse_map e pm (replicate (unat (ef_logical_size e)) 0xff) of
                           COob \<Rightarrow> State_Monad.return None
                         | CErr ret \<Rightarrow> State_Monad.return (Some ret)
                         | CRet log_map \<Rightarrow>
                             do { ret \<leftarrow> rtw88xxa_read_efuse log_map; State_Monad.return (Some ret) }) } }"

end
