(* ===== verification/EfuseProps.thy ===== *)
theory EfuseProps
  imports Efuse
begin

text \<open>
  What the efuse code guarantees: the layout of the cells as an encoder, the round trip
  through the logical map, the accesses that stay inside the two maps, and reading the
  cells of a chip that answers.
\<close>

section \<open>The layout of a section\<close>

text \<open>A block number and its four words, of which the unwritten ones are left out.\<close>


type_synonym efuse_section = "u8 \<times> (u8 \<times> u8) option list"

definition sec_word_en :: "(u8 \<times> u8) option list \<Rightarrow> u8" where
  "sec_word_en ws =
     (if ws ! 0 = None then BIT 0 else 0) OR (if ws ! 1 = None then BIT 1 else 0) OR
     (if ws ! 2 = None then BIT 2 else 0) OR (if ws ! 3 = None then BIT 3 else 0)"

fun sec_header :: "efuse_section \<Rightarrow> u8 list" where
  "sec_header (blk, ws) =
     (if drop_bit 4 blk = 0 then [push_bit 4 blk OR sec_word_en ws]
      else [push_bit 5 blk OR 0xf, push_bit 4 (drop_bit 3 blk) OR sec_word_en ws])"

fun sec_payload :: "efuse_section \<Rightarrow> u8 list" where
  "sec_payload (blk, ws) = concat (map (\<lambda>w. case w of None \<Rightarrow> [] | Some (a, b) \<Rightarrow> [a, b]) ws)"

definition sec_bytes :: "efuse_section \<Rightarrow> u8 list" where
  "sec_bytes sec = sec_header sec @ sec_payload sec"

definition sec_ok :: "nat \<Rightarrow> efuse_section \<Rightarrow> bool" where
  "sec_ok logical sec \<longleftrightarrow> length (snd sec) = 4 \<and> \<not> bit (fst sec) 7
     \<and> (\<exists>i < 4. snd sec ! i \<noteq> None) \<and> unat (fst sec) * 8 + 8 \<le> logical"

definition sec_word :: "u8 \<Rightarrow> (u8 \<times> u8) option list \<Rightarrow> nat \<Rightarrow> u8 list \<Rightarrow> u8 list" where
  "sec_word blk ws i lm =
     (case ws ! i of None \<Rightarrow> lm
      | Some (a, b) \<Rightarrow> lm[unat blk * 8 + i * 2 := a, unat blk * 8 + i * 2 + 1 := b])"

definition sec_apply :: "efuse_section \<Rightarrow> u8 list \<Rightarrow> u8 list" where
  "sec_apply sec lm = fold (sec_word (fst sec) (snd sec)) [0, 1, 2, 3] lm"

lemma bit_sec_word_en [bit_simps]: "bit (sec_word_en ws) i \<longleftrightarrow> i < 4 \<and> ws ! i = None"
  by (auto simp: sec_word_en_def bit_simps less_Suc_eq numeral_eq_Suc)

lemma invalid_content_sec_word_en:
  "i < 4 \<Longrightarrow> invalid_efuse_content (sec_word_en ws) i \<longleftrightarrow> ws ! i = None"
  by (cases "ws ! i") (simp_all add: invalid_efuse_content_def and_BIT_eq_0_iff bit_sec_word_en)

lemma sec_header_1:
  assumes "\<not> bit blk 7" and "drop_bit 4 blk = 0" and "i < 4" and "ws ! i \<noteq> None"
  defines "h \<equiv> push_bit 4 blk OR sec_word_en ws"
  shows "h AND 0x1f \<noteq> 0xf" and "h \<noteq> 0xff" and "get_efuse_blk_idx_1_byte h = blk" and "h AND 0xf = sec_word_en ws"
proof -
  have b: "\<not> bit (h AND 0x1f) i" "bit (0xf :: u8) i" "\<not> bit h i" "bit (0xff :: u8) i"
    using assms(3,4) by (auto simp: h_def bit_simps)
  then show "h AND 0x1f \<noteq> 0xf" and "h \<noteq> 0xff"
    by metis+
  have "n < 4" if "bit blk n" for n
    using drop_bit_eq_0_bit [OF assms(2), of n] that by force
  then show "get_efuse_blk_idx_1_byte h = blk"
    by (intro bit_word_eqI) (auto simp: get_efuse_blk_idx_1_byte_def h_def bit_simps)
  show "h AND 0xf = sec_word_en ws"
    by (auto intro!: bit_word_eqI simp: h_def bit_simps)
qed

lemma sec_header_2:
  assumes "\<not> bit blk 7" and "i < 4" and "ws ! i \<noteq> None"
  defines "h1 \<equiv> push_bit 5 blk OR 0xf" and "h2 \<equiv> push_bit 4 (drop_bit 3 blk) OR sec_word_en ws"
  shows "h1 AND 0x1f = 0xf" and "h1 \<noteq> 0xff" and "h2 \<noteq> 0xff"
    and "get_efuse_blk_idx_2_byte h1 h2 = blk" and "h2 AND 0xf = sec_word_en ws"
proof -
  show "h1 AND 0x1f = 0xf"
    by (auto intro!: bit_word_eqI simp: h1_def bit_simps)
  have b: "\<not> bit h1 4" "bit (0xff :: u8) 4" "\<not> bit h2 i" "bit (0xff :: u8) i"
    using assms(2,3) by (auto simp: h1_def h2_def bit_simps)
  then show "h1 \<noteq> 0xff" and "h2 \<noteq> 0xff"
    by metis+
  have "n < 7" if "bit blk n" for n
  proof (rule ccontr)
    assume "\<not> n < 7"
    with bit_u8_less [OF that] have "n = 7"
      by linarith
    with that assms(1) show False
      by simp
  qed
  then show "get_efuse_blk_idx_2_byte h1 h2 = blk"
    by (intro bit_word_eqI)
      (auto simp: get_efuse_blk_idx_2_byte_def h1_def h2_def bit_simps)
  show "h2 AND 0xf = sec_word_en ws"
    by (auto intro!: bit_word_eqI simp: h2_def bit_simps)
qed

text \<open>Reading back one section.\<close>

definition words_bytes :: "(u8 \<times> u8) option list \<Rightarrow> nat list \<Rightarrow> u8 list" where
  "words_bytes ws is = concat (map (\<lambda>i. case ws ! i of None \<Rightarrow> [] | Some (a, b) \<Rightarrow> [a, b]) is)"

lemma length_sec_word [simp]: "length (sec_word blk ws i lm) = length lm"
  by (simp add: sec_word_def split: option.split prod.split)

lemma efuse_words_ok:
  assumes "\<forall>i \<in> set is. i < 4" and "unat blk * 8 + 8 \<le> logical" and "length lm = logical"
    and "idx + length (words_bytes ws is) \<le> lim" and "idx + length (words_bytes ws is) \<le> length phy"
    and "take (length (words_bytes ws is)) (drop idx phy) = words_bytes ws is"
  shows "efuse_words phy lim logical blk (sec_word_en ws) is idx lm =
    CRet (idx + length (words_bytes ws is), fold (sec_word blk ws) is lm)"
  using assms(1,3-6)
proof (induction "is" arbitrary: idx lm)
  case Nil
  then show ?case by (simp add: words_bytes_def)
next
  case (Cons i "is")
  have i: "i < 4"
    using Cons.prems(1) by simp
  show ?case
  proof (cases "ws ! i")
    case None
    with Cons i show ?thesis
      by (simp add: words_bytes_def invalid_content_sec_word_en sec_word_def)
  next
    case (Some ab)
    obtain a b where ab: "ab = (a, b)"
      by (cases ab)
    have wb: "words_bytes ws (i # is) = a # b # words_bytes ws is"
      using Some by (simp add: words_bytes_def ab)
    have d: "drop idx phy = phy ! idx # phy ! Suc idx # drop (Suc (Suc idx)) phy"
      using Cons.prems(4) by (simp add: wb Cons_nth_drop_Suc)
    have p: "phy ! idx = a" "phy ! Suc idx = b"
        "take (length (words_bytes ws is)) (drop (idx + 2) phy) = words_bytes ws is"
      using Cons.prems(5) by (simp_all add: wb d)
    have "unat blk * 8 + i * 2 + 1 < logical"
      using assms(2) i by simp
    with Cons.prems Cons.IH [of "sec_word blk ws i lm" "idx + 2"] i Some p show ?thesis
      by (simp add: Let_def invalid_content_sec_word_en wb sec_word_def ab block_idx_to_logical_idx_def)
  qed
qed

lemma sec_payload_words: "length ws = 4 \<Longrightarrow> sec_payload (blk, ws) = words_bytes ws [0, 1, 2, 3]"
proof -
  assume "length ws = 4"
  then have eq: "ws = map (\<lambda>i. ws ! i) [0, 1, 2, 3]"
    using map_nth [of ws, symmetric] by (simp add: upt_rec numeral_eq_Suc)
  show ?thesis
    using arg_cong [OF eq, of "\<lambda>ws. sec_payload (blk, ws)"] by (simp add: words_bytes_def)
qed

lemma words_bytes_ne:
  "i \<in> set is \<Longrightarrow> ws ! i \<noteq> None \<Longrightarrow> words_bytes ws is \<noteq> []"
  by (force simp: words_bytes_def)

lemma length_sec_apply [simp]: "length (sec_apply sec lm) = length lm"
  by (simp add: sec_apply_def)

lemma efuse_header_section:
  assumes "sec_ok logical (blk, ws)" and "take (length (sec_bytes (blk, ws))) xs = sec_bytes (blk, ws)"
  shows "\<not> invalid_efuse_header (xs ! 0) (xs ! 1)"
    and "efuse_header (xs ! 0) (xs ! 1) = (blk, sec_word_en ws, length (sec_header (blk, ws)))"
    and "2 \<le> length (sec_bytes (blk, ws))"
proof -
  obtain i where ws: "length ws = 4" "\<not> bit blk 7" "i < 4" "ws ! i \<noteq> None"
    using assms(1) by (auto simp: sec_ok_def)
  then have ne: "sec_payload (blk, ws) \<noteq> []"
    unfolding sec_payload_words [OF ws(1)] by (intro words_bytes_ne [of i]) auto
  then show len: "2 \<le> length (sec_bytes (blk, ws))"
    by (cases "sec_payload (blk, ws)") (auto simp: sec_bytes_def)
  have nth: "xs ! k = sec_bytes (blk, ws) ! k" if "k < length (sec_bytes (blk, ws))" for k
    using assms(2) that by (metis nth_take)
  have "\<not> invalid_efuse_header (xs ! 0) (xs ! 1) \<and>
      efuse_header (xs ! 0) (xs ! 1) = (blk, sec_word_en ws, length (sec_header (blk, ws)))"
  proof (cases "drop_bit 4 blk = 0")
    case True
    then have "xs ! 0 = push_bit 4 blk OR sec_word_en ws"
      using nth [of 0] len by (simp add: sec_bytes_def)
    then show ?thesis
      using sec_header_1 [OF ws(2) True ws(3,4)] True
      by (simp add: invalid_efuse_header_def efuse_header_def)
  next
    case False
    then have "xs ! 0 = push_bit 5 blk OR 0xf" "xs ! 1 = push_bit 4 (drop_bit 3 blk) OR sec_word_en ws"
      using nth [of 0] nth [of 1] len by (simp_all add: sec_bytes_def)
    then show ?thesis
      using sec_header_2 [OF ws(2-4)] False
      by (simp add: invalid_efuse_header_def efuse_header_def)
  qed
  then show "\<not> invalid_efuse_header (xs ! 0) (xs ! 1)"
    and "efuse_header (xs ! 0) (xs ! 1) = (blk, sec_word_en ws, length (sec_header (blk, ws)))"
    by blast+
qed

lemma dump_section:
  assumes ok: "sec_ok logical sec" and lm: "length lm = logical"
    and lim: "idx + length (sec_bytes sec) \<le> lim" and len: "idx + length (sec_bytes sec) \<le> length phy"
    and t: "take (length (sec_bytes sec)) (drop idx phy) = sec_bytes sec"
  shows "dump_logical_loop phy lim logical idx lm =
    dump_logical_loop phy lim logical (idx + length (sec_bytes sec)) (sec_apply sec lm)"
proof -
  obtain blk ws where sec: "sec = (blk, ws)"
    by (cases sec)
  note h = efuse_header_section [OF ok [unfolded sec] t [unfolded sec]]
  have ws: "length ws = 4" "unat blk * 8 + 8 \<le> logical"
    using ok by (simp_all add: sec sec_ok_def)
  have i: "idx + 1 < length phy" "idx < lim"
    using h(3) len lim by (simp_all add: sec)
  have nth: "drop idx phy ! 0 = phy ! idx" "drop idx phy ! 1 = phy ! (idx + 1)"
    using i(1) by (simp_all add: add.commute)
  have pay: "sec_payload (blk, ws) = words_bytes ws [0, 1, 2, 3]"
    by (rule sec_payload_words [OF ws(1)])
  have "efuse_words phy lim logical blk (sec_word_en ws) [0, 1, 2, 3] (idx + length (sec_header (blk, ws))) lm
      = CRet (idx + length (sec_header (blk, ws)) + length (words_bytes ws [0, 1, 2, 3]),
          fold (sec_word blk ws) [0, 1, 2, 3] lm)"
  proof (rule efuse_words_ok)
    have "drop (length (sec_header (blk, ws))) (take (length (sec_bytes sec)) (drop idx phy)) = sec_payload (blk, ws)"
      unfolding t by (simp add: sec sec_bytes_def)
    then show "take (length (words_bytes ws [0, 1, 2, 3])) (drop (idx + length (sec_header (blk, ws))) phy)
        = words_bytes ws [0, 1, 2, 3]"
      unfolding pay [symmetric] by (simp add: drop_take sec sec_bytes_def add.commute del: sec_header.simps sec_payload.simps)
  qed (use lim len lm ws(2) in \<open>simp_all add: sec sec_bytes_def pay del: sec_header.simps sec_payload.simps\<close>)
  with i h(1,2) show ?thesis
    unfolding nth
    by (subst dump_logical_loop.simps)
      (simp add: sec sec_bytes_def pay sec_apply_def add.assoc del: sec_header.simps sec_payload.simps efuse_words.simps)
qed

lemma dump_sections:
  assumes "\<forall>sec \<in> set secs. sec_ok logical sec" and "length lm = logical"
    and "idx + length (concat (map sec_bytes secs)) \<le> lim" and "idx + length (concat (map sec_bytes secs)) \<le> length phy"
    and "take (length (concat (map sec_bytes secs))) (drop idx phy) = concat (map sec_bytes secs)"
  shows "dump_logical_loop phy lim logical idx lm =
    dump_logical_loop phy lim logical (idx + length (concat (map sec_bytes secs))) (fold sec_apply secs lm)"
  using assms
proof (induction secs arbitrary: idx lm)
  case Nil
  then show ?case by simp
next
  case (Cons sec secs)
  let ?n = "length (sec_bytes sec)" and ?cs = "concat (map sec_bytes secs)"
  have t: "take (?n + length ?cs) (drop idx phy) = sec_bytes sec @ ?cs"
    using Cons.prems(5) by simp
  have "take ?n (drop idx phy) = sec_bytes sec"
    using arg_cong [OF t, of "take ?n"] by simp
  then have "dump_logical_loop phy lim logical idx lm =
      dump_logical_loop phy lim logical (idx + ?n) (sec_apply sec lm)"
    using Cons.prems by (intro dump_section) auto
  also have "\<dots> = dump_logical_loop phy lim logical (idx + ?n + length ?cs) (fold sec_apply secs (sec_apply sec lm))"
  proof (rule Cons.IH)
    show "take (length ?cs) (drop (idx + ?n) phy) = ?cs"
      using arg_cong [OF t, of "drop ?n"] by (simp add: drop_take add.commute)
  qed (use Cons.prems in auto)
  finally show ?case
    by (simp add: add.assoc)
qed

text \<open>
  Property C29. The logical map is the round trip of the cells: unpacking the encoded
  sections, which end in unused cells, applies each section's words to the map in order.
\<close>

theorem efuse_map_roundtrip:
  assumes "\<forall>sec \<in> set secs. sec_ok (unat (ef_logical_size e)) sec"
    and "phy_map = concat (map sec_bytes secs) @ replicate n 0xff" and "2 \<le> n"
    and "length (concat (map sec_bytes secs)) \<le> unat (ef_physical_size e - ef_protect_size e)"
    and "length log_map = unat (ef_logical_size e)"
  shows "rtw_dump_logical_efuse_map e phy_map log_map = CRet (fold sec_apply secs log_map)"
proof -
  let ?c = "concat (map sec_bytes secs)" and ?lim = "unat (ef_physical_size e - ef_protect_size e)"
  have "rtw_dump_logical_efuse_map e phy_map log_map =
      dump_logical_loop phy_map ?lim (unat (ef_logical_size e)) (0 + length ?c) (fold sec_apply secs log_map)"
    unfolding rtw_dump_logical_efuse_map_def
    by (rule dump_sections) (use assms in auto)
  also have "\<dots> = CRet (fold sec_apply secs log_map)"
    using assms(2,3) by (subst dump_logical_loop.simps)
      (simp add: nth_append invalid_efuse_header_def del: length_concat)
  finally show ?thesis .
qed

section \<open>Bounds\<close>

lemma efuse_words_in_bounds:
  assumes "lim < length phy" and "length lm = logical" and "even logical"
  shows "efuse_words phy lim logical b w is idx lm \<noteq> COob"
    and "efuse_words phy lim logical b w is idx lm = CRet (idx', lm') \<Longrightarrow> length lm' = logical"
  using assms
proof (induction phy lim logical b w "is" idx lm rule: efuse_words.induct)
  case (2 phy lim logical blk w i "is" idx lm)
  {
    case 1
    with 2 show ?case
      by (auto simp: Let_def block_idx_to_logical_idx_def elim!: evenE) presburger
  next
    case 2
    with "2.IH" show ?case
      by (auto simp: Let_def split: if_splits)
  }
qed simp_all

lemma dump_logical_in_bounds:
  assumes "lim < length phy" and "length lm = logical" and "even logical"
  shows "dump_logical_loop phy lim logical idx lm \<noteq> COob"
  using assms
proof (induction phy lim logical idx lm rule: dump_logical_loop.induct)
  case (1 phy lim logical idx lm)
  show ?case
    using 1 efuse_words_in_bounds [OF 1(2-4)]
    by (subst dump_logical_loop.simps) (auto simp del: efuse_words.simps split: cres.split prod.split)
qed

text \<open>Memory behind the physical map matters only to an unpacking that leaves it.\<close>

lemma efuse_words_append:
  "efuse_words phy lim logical b w is idx lm \<noteq> COob \<Longrightarrow>
   efuse_words (phy @ ys) lim logical b w is idx lm = efuse_words phy lim logical b w is idx lm"
  by (induction phy lim logical b w "is" idx lm rule: efuse_words.induct)
    (auto simp: Let_def nth_append split: if_splits)

lemma dump_logical_append:
  "dump_logical_loop phy lim logical idx lm \<noteq> COob \<Longrightarrow>
   dump_logical_loop (phy @ ys) lim logical idx lm = dump_logical_loop phy lim logical idx lm"
proof (induction phy lim logical idx lm rule: dump_logical_loop.induct)
  case (1 phy lim logical idx lm)
  note unfold = dump_logical_loop.simps [of phy lim logical idx lm]
    dump_logical_loop.simps [of "phy @ ys" lim logical idx lm]
  show ?case
  proof (cases "lim \<le> idx \<or> length phy \<le> idx + 1 \<or> invalid_efuse_header (phy ! idx) (phy ! (idx + 1))")
    case True
    have "lim \<le> idx \<or> idx + 1 < length phy"
      using "1.prems" unfolding unfold by (auto split: if_splits)
    then show ?thesis
      using True unfolding unfold by (auto simp: nth_append)
  next
    case False
    then have nth: "(phy @ ys) ! idx = phy ! idx" "(phy @ ys) ! Suc idx = phy ! Suc idx"
      by (auto simp: nth_append)
    obtain b w n where h: "efuse_header (phy ! idx) (phy ! Suc idx) = (b, w, n)"
      by (metis surj_pair)
    let ?ws = "efuse_words phy lim logical b w [0, 1, 2, 3] (idx + n) lm"
    have "?ws \<noteq> COob"
      using "1.prems" False h by (auto simp: unfold(1) simp del: efuse_words.simps)
    then have ws: "efuse_words (phy @ ys) lim logical b w [0, 1, 2, 3] (idx + n) lm = ?ws"
      by (rule efuse_words_append)
    show ?thesis
    proof (cases ?ws)
      case (CRet r)
      obtain idx' lm' where r: "r = (idx', lm')"
        by fastforce
      have "dump_logical_loop phy lim logical idx' lm' \<noteq> COob"
        using "1.prems" False h CRet r by (simp add: unfold(1) del: efuse_words.simps)
      then have "dump_logical_loop (phy @ ys) lim logical idx' lm' = dump_logical_loop phy lim logical idx' lm'"
        using False h CRet r by (intro "1.IH") (simp_all del: efuse_words.simps)
      then show ?thesis
        using False h ws CRet r nth by (simp add: unfold del: efuse_words.simps)
    qed (use False h ws nth in \<open>simp_all add: unfold del: efuse_words.simps\<close>)
  qed
qed

text \<open>
  Property C30. Whatever the cells hold, also when they are damaged, unpacking them never writes
  outside the logical map and never reads more than one byte behind the physical map: with one more
  byte there (\<open>x\<close>), it stays inside both. This holds for every protected size, also for none, as on
  the RTL8812A; with a protected byte the byte behind is not read at all, and without, it has an
  effect only on contents for which the code does read it.
\<close>

theorem efuse_map_in_bounds:
  assumes "length phy_map = unat (ef_physical_size e)" and "length log_map = unat (ef_logical_size e)"
    and "ef_protect_size e \<le> ef_physical_size e" and "even (unat (ef_logical_size e))"
  shows "rtw_dump_logical_efuse_map e (phy_map @ [x]) log_map \<noteq> COob
    \<and> (ef_protect_size e \<noteq> 0 \<longrightarrow> rtw_dump_logical_efuse_map e phy_map log_map \<noteq> COob)
    \<and> (rtw_dump_logical_efuse_map e phy_map log_map \<noteq> COob \<longrightarrow>
         rtw_dump_logical_efuse_map e (phy_map @ [x]) log_map = rtw_dump_logical_efuse_map e phy_map log_map)"
proof -
  let ?lim = "unat (ef_physical_size e - ef_protect_size e)"
  have "?lim \<le> length phy_map"
    using assms(1,3) by (simp add: unat_sub)
  then have "?lim < length (phy_map @ [x])"
    by simp
  then have "rtw_dump_logical_efuse_map e (phy_map @ [x]) log_map \<noteq> COob"
    unfolding rtw_dump_logical_efuse_map_def
    by (rule dump_logical_in_bounds) (use assms in simp_all)
  moreover have "rtw_dump_logical_efuse_map e phy_map log_map \<noteq> COob" if "ef_protect_size e \<noteq> 0"
  proof -
    from that have "0 < unat (ef_protect_size e)"
      by (simp add: unat_gt_0)
    moreover have "unat (ef_protect_size e) \<le> unat (ef_physical_size e)"
      using assms(3) by (simp add: word_le_nat_alt)
    ultimately have "?lim < length phy_map"
      using assms(1,3) by (simp add: unat_sub)
    then show ?thesis
      unfolding rtw_dump_logical_efuse_map_def
      by (rule dump_logical_in_bounds) (use assms in simp_all)
  qed
  ultimately show ?thesis
    using dump_logical_append by (auto simp: rtw_dump_logical_efuse_map_def)
qed

text \<open>
  Without protected bytes, as on the RTL8812A, cells that are used up to the last one make the
  loop read a header byte past the end of the physical map.
\<close>

definition full_section :: efuse_section where
  "full_section = (0, [Some (0, 0), Some (0, 0), Some (0, 0), None])"

definition full_cells :: "u8 list" where
  "full_cells = concat (map sec_bytes (replicate 73 full_section)) @ [8]"

lemma length_full_cells: "length full_cells = 512"
  by (simp add: full_cells_def sec_bytes_def full_section_def length_concat sum_list_replicate)

theorem efuse_map_overread:
  "rtw_dump_logical_efuse_map (e\<lparr>ef_physical_size := 512, ef_logical_size := 512, ef_protect_size := 0\<rparr>)
     full_cells (replicate 512 0xff) = COob"
proof -
  let ?c = "concat (map sec_bytes (replicate 73 full_section))"
  have len: "length ?c = 511"
    using length_full_cells by (simp add: full_cells_def)
  have "dump_logical_loop full_cells 512 512 0 (replicate 512 0xff) =
      dump_logical_loop full_cells 512 512 (0 + length ?c) (fold sec_apply (replicate 73 full_section) (replicate 512 0xff))"
  proof (rule dump_sections)
    show "\<forall>sec \<in> set (replicate 73 full_section). sec_ok 512 sec"
      by (auto simp: sec_ok_def full_section_def intro!: exI [of _ 0])
  qed (use len in \<open>simp_all add: length_full_cells full_cells_def del: length_concat\<close>)
  also have "\<dots> = COob"
    unfolding len by (subst dump_logical_loop.simps) (simp add: length_full_cells)
  finally show ?thesis
    by (simp add: rtw_dump_logical_efuse_map_def)
qed

section \<open>Witnesses\<close>

definition efuse_sized :: "u32 \<Rightarrow> u32 \<Rightarrow> u32 \<Rightarrow> rtw_efuse" where
  "efuse_sized physical logical protect =
     \<lparr>ef_physical_size = physical, ef_logical_size = logical, ef_protect_size = protect, ef_addr = [],
      ef_channel_plan = 0, ef_country_code = [], ef_rf_board_option = 0, ef_rfe_option = 0,
      ef_rfe_option_full = 0, ef_thermal_meter = (\<lambda>_. 0), ef_thermal_meter_k = 0, ef_crystal_cap = 0,
      ef_ant_div_cfg = 0, ef_ant_div_type = 0, ef_regd = 0, ef_lna_type_2g = 0, ef_lna_type_5g = 0,
      ef_glna_type = 0, ef_alna_type = 0, ef_ext_lna_2g = False, ef_ext_lna_5g = False,
      ef_pa_type_2g = 0, ef_pa_type_5g = 0, ef_gpa_type = 0, ef_apa_type = 0, ef_ext_pa_2g = False,
      ef_ext_pa_5g = False, ef_tx_bb_swing_setting_2g = 0, ef_tx_bb_swing_setting_5g = 0,
      ef_btcoex = False, ef_share_ant = False, ef_bt_setting = 0, ef_usb_mode_switch = 0,
      ef_hw_cap_bw = 0, ef_hw_cap_ptcl = 0, ef_hw_cap_nss = 0, ef_txpwr_idx_table = []\<rparr>"

lemma efuse_map_roundtrip_witness:
  "\<exists>lm. rtw_dump_logical_efuse_map (efuse_sized 16 32 1)
      ([0x0e, 1, 2, 0x2d, 3, 4] @ replicate 10 0xff) (replicate 32 0xff) = CRet lm \<and> lm ! 0 = 1 \<and> lm ! 18 = 3"
proof -
  let ?secs = "[(0, [Some (1, 2), None, None, None]), (2, [None, Some (3, 4), None, None])] :: efuse_section list"
  have bytes: "concat (map sec_bytes ?secs) = [0x0e, 1, 2, 0x2d, 3, 4]"
    by (simp add: sec_bytes_def sec_word_en_def BIT_def)
  have ok: "\<forall>sec \<in> set ?secs. sec_ok (unat (ef_logical_size (efuse_sized 16 32 1))) sec"
    by (auto simp: sec_ok_def efuse_sized_def intro: exI [of _ 0] exI [of _ 1])
  show ?thesis
    unfolding bytes [symmetric]
    by (subst efuse_map_roundtrip [OF ok refl])
      (simp_all add: bytes efuse_sized_def sec_apply_def sec_word_def del: concat.simps list.map)
qed

text \<open>
  The sizes of the RTL8812A and the cells that make the code read one byte behind its physical
  map: with that byte there, whatever it is, nothing else is touched.
\<close>

lemma efuse_map_in_bounds_witness:
  "\<forall>x. rtw_dump_logical_efuse_map (efuse_sized 512 512 0) (full_cells @ [x]) (replicate 512 0xff) \<noteq> COob"
  using efuse_map_in_bounds [of full_cells "efuse_sized 512 512 0" "replicate 512 0xff"]
  by (simp add: efuse_sized_def length_full_cells)

end
