(* ===== verification/Phy.thy ===== *)
theory Phy
  imports Hal
begin

text \<open>
  RF register access and the register tables (\<open>phy.c\<close>, and \<open>rtw88xxa_phy_read_rf\<close> of
  \<open>rtw88xxa.c\<close>). The chip operations \<open>read_rf\<close> and \<open>write_rf\<close> are those of the
  RTL8812A: \<open>rtw88xxa_phy_read_rf\<close> and \<open>rtw_phy_write_rf_reg_sipi\<close>.
\<close>

section \<open>RF registers\<close>

definition pi_addr :: "nat \<Rightarrow> u32" where
  "pi_addr path = [REG_3WIRE_SWA, REG_3WIRE_SWB] ! path"

definition rf_read_addr :: "bool \<Rightarrow> nat \<Rightarrow> u32" where
  "rf_read_addr pi_mode path =
     (if pi_mode then [REG_PI_READ_A, REG_PI_READ_B] else [REG_SI_READ_A, REG_SI_READ_B]) ! path"

definition rtw88xxa_phy_read_rf :: "nat \<Rightarrow> u32 \<Rightarrow> u32 \<Rightarrow> ('e, 'x, u32) phy" where
  "rtw88xxa_phy_read_rf rf_path addr mask' =
     do { n \<leftarrow> dev_get (\<lambda>s. unat (hal_rf_phy_num (hal s)));
          c \<leftarrow> dev_get (\<lambda>s. ci_id (chip s));
          cut' \<leftarrow> dev_get cut_version;
          if n \<le> rf_path then State_Monad.return INV_RF_DATA
          else do {
            let set_cca = (addr \<noteq> 0 \<and> c = RTW_CHIP_TYPE_8812A \<and> cut' \<noteq> RTW_CHIP_VER_CUT_C);
            when_do set_cca (rtw_write32_set REG_CCA2ND (BIT 3));
            pi_mode \<leftarrow> rtw_read32_mask (pi_addr rf_path) 0x4;
            rtw_write32_mask REG_HSSI_READ MASKBYTE0 (addr AND 0xff);
            when_do (c = RTW_CHIP_TYPE_8821A \<or> cut' = RTW_CHIP_VER_CUT_C) (delay_us 20);
            val \<leftarrow> rtw_read32_mask (rf_read_addr (pi_mode \<noteq> 0) rf_path) mask';
            when_do set_cca (rtw_write32_clr REG_CCA2ND (BIT 3));
            State_Monad.return val } }"

definition rf_data_and_addr :: "u32 \<Rightarrow> u32 \<Rightarrow> u32" where
  "rf_data_and_addr addr dat = (push_bit 20 addr OR (dat AND 0x000fffff)) AND 0x0fffffff"

definition rtw_phy_write_rf_reg_sipi :: "nat \<Rightarrow> u32 \<Rightarrow> u32 \<Rightarrow> u32 \<Rightarrow> ('e, 'x, bool) phy" where
  "rtw_phy_write_rf_reg_sipi rf_path addr0 mask0 dat0 =
     do { n \<leftarrow> dev_get (\<lambda>s. unat (hal_rf_phy_num (hal s)));
          sipi \<leftarrow> dev_get (\<lambda>s. cp_rf_sipi_addr (chip_phy s) ! rf_path);
          if n \<le> rf_path then State_Monad.return False
          else do {
            let addr = addr0 AND 0xff;
            let mask' = mask0 AND RFREG_MASK;
            dat \<leftarrow> (if mask' \<noteq> RFREG_MASK
                    then do { old_data \<leftarrow> rtw88xxa_phy_read_rf rf_path addr RFREG_MASK;
                              State_Monad.return
                                (if old_data = INV_RF_DATA then None
                                 else Some ((old_data AND NOT mask') OR push_bit (ffs mask') dat0)) }
                    else State_Monad.return (Some dat0));
            case dat of None \<Rightarrow> State_Monad.return False
            | Some d \<Rightarrow>
                do { rtw_write32 sipi (rf_data_and_addr addr d);
                     delay_us 13;
                     State_Monad.return True } } }"

definition rtw_read_rf :: "nat \<Rightarrow> u32 \<Rightarrow> u32 \<Rightarrow> ('e, 'x, u32) phy" where
  "rtw_read_rf path addr mask' = rtw88xxa_phy_read_rf path addr mask'"

definition rtw_write_rf :: "nat \<Rightarrow> u32 \<Rightarrow> u32 \<Rightarrow> u32 \<Rightarrow> ('e, 'x, unit) phy" where
  "rtw_write_rf path addr mask' dat =
     do { _ \<leftarrow> rtw_phy_write_rf_reg_sipi path addr mask' dat; skip }"

section \<open>The condition of a table entry\<close>

definition cond_field :: "u32 \<Rightarrow> nat \<Rightarrow> nat \<Rightarrow> u8" where
  "cond_field w lo n = ucast (take_bit n (drop_bit lo w))"

definition phy_cond_of :: "u32 \<Rightarrow> rtw_phy_cond" where
  "phy_cond_of w =
     \<lparr>pc_rfe = cond_field w 0 8, pc_intf = cond_field w 8 4, pc_pkg = cond_field w 12 4,
      pc_plat = cond_field w 16 4, pc_cut = cond_field w 24 4, pc_branch = cond_field w 28 2,
      pc_neg = bit w 30, pc_pos = bit w 31\<rparr>"

definition phy_cond2_of :: "u32 \<Rightarrow> rtw_phy_cond2" where
  "phy_cond2_of w =
     \<lparr>pc_glna = cond_field w 0 8, pc_gpa = cond_field w 8 8,
      pc_alna = cond_field w 16 8, pc_apa = cond_field w 24 8\<rparr>"

definition BRANCH_IF :: u8 where "BRANCH_IF = 0"
definition BRANCH_ELIF :: u8 where "BRANCH_ELIF = 1"
definition BRANCH_ELSE :: u8 where "BRANCH_ELSE = 2"
definition BRANCH_ENDIF :: u8 where "BRANCH_ENDIF = 3"

definition INTF_PCIE :: u8 where "INTF_PCIE = BIT 0"
definition INTF_USB :: u8 where "INTF_USB = BIT 1"
definition INTF_SDIO :: u8 where "INTF_SDIO = BIT 2"

definition rfe_8812a :: "rtw_efuse \<Rightarrow> u8" where
  "rfe_8812a e =
     of_bool_w (ef_ext_lna_2g e) OR push_bit 1 (of_bool_w (ef_ext_pa_2g e)) OR
     push_bit 2 (of_bool_w (ef_ext_lna_5g e)) OR push_bit 3 (of_bool_w (ef_ext_pa_5g e)) OR
     push_bit 4 (of_bool_w (ef_btcoex e))"

definition is_8812a_8821a :: "chip_type \<Rightarrow> bool" where
  "is_8812a_8821a c \<longleftrightarrow> c = RTW_CHIP_TYPE_8812A \<or> c = RTW_CHIP_TYPE_8821A"

definition rtw_phy_setup_phy_cond :: "u32 \<Rightarrow> ('e, 'x, unit) phy" where
  "rtw_phy_setup_phy_cond pkg =
     do { cut' \<leftarrow> dev_get cut_version;
          e \<leftarrow> dev_get efuse;
          t \<leftarrow> dev_get hci_type;
          c \<leftarrow> dev_get (\<lambda>s. ci_id (chip s));
          hal_upd (\<lambda>h. h\<lparr>
            hal_phy_cond :=
              \<lparr>pc_rfe = (if is_8812a_8821a c then rfe_8812a e
                         else if c = RTW_CHIP_TYPE_8821C then drop_bit 3 (ef_rfe_option_full e)
                         else ef_rfe_option e),
               pc_intf = (case t of RTW_HCI_TYPE_USB \<Rightarrow> INTF_USB | RTW_HCI_TYPE_SDIO \<Rightarrow> INTF_SDIO | _ \<Rightarrow> INTF_PCIE),
               pc_pkg = take_bit 4 (if pkg \<noteq> 0 then ucast pkg else 15),
               pc_plat = 0x04,
               pc_cut = take_bit 4 (if cut' \<noteq> 0 then cut' else 15),
               pc_branch = 0, pc_neg = False, pc_pos = False\<rparr>,
            hal_phy_cond2 :=
              (if is_8812a_8821a c
               then \<lparr>pc_glna = ef_glna_type e, pc_gpa = ef_gpa_type e,
                     pc_alna = ef_alna_type e, pc_apa = ef_apa_type e\<rparr>
               else \<lparr>pc_glna = 0, pc_gpa = 0, pc_alna = 0, pc_apa = 0\<rparr>)\<rparr>) }"

text \<open>The chip, and its own conditions from \<open>rtw_hal\<close>, decide whether an entry's condition holds.\<close>

fun check_positive :: "chip_type \<times> rtw_phy_cond \<times> rtw_phy_cond2 \<Rightarrow> rtw_phy_cond \<times> rtw_phy_cond2 \<Rightarrow> bool" where
  "check_positive (c, drv_cond, drv_cond2) (cond', cond2) =
     (if pc_cut cond' \<noteq> 0 \<and> pc_cut cond' \<noteq> pc_cut drv_cond then False
      else if pc_pkg cond' \<noteq> 0 \<and> pc_pkg cond' \<noteq> pc_pkg drv_cond then False
      else if pc_intf cond' \<noteq> 0 \<and> pc_intf cond' \<noteq> pc_intf drv_cond then False
      else if is_8812a_8821a c
      then if pc_rfe cond' AND 0x0f = 0 then True
           else if pc_rfe cond' AND pc_rfe drv_cond \<noteq> pc_rfe cond' then False
           else if pc_rfe cond' AND BIT 0 \<noteq> 0 \<and> pc_glna cond2 \<noteq> pc_glna drv_cond2 then False
           else if pc_rfe cond' AND BIT 1 \<noteq> 0 \<and> pc_gpa cond2 \<noteq> pc_gpa drv_cond2 then False
           else if pc_rfe cond' AND BIT 2 \<noteq> 0 \<and> pc_alna cond2 \<noteq> pc_alna drv_cond2 then False
           else if pc_rfe cond' AND BIT 3 \<noteq> 0 \<and> pc_apa cond2 \<noteq> pc_apa drv_cond2 then False
           else True
      else pc_rfe cond' = pc_rfe drv_cond)"

section \<open>The table parser\<close>

text \<open>\<open>union phy_table_tile\<close>: a pair of words that is a condition or an address with its data.\<close>

type_synonym phy_tile = "u32 \<times> u32"

fun tiles_of :: "u32 list \<Rightarrow> phy_tile list" where
  "tiles_of (a # b # ws) = (a, b) # tiles_of ws"
| "tiles_of ws = []"

record parse_state =
  pos_cond :: "rtw_phy_cond \<times> rtw_phy_cond2"
  is_matched :: bool
  is_skipped :: bool

definition parse_start :: parse_state where
  "parse_start = \<lparr>pos_cond = (phy_cond_of 0, phy_cond2_of 0), is_matched = True, is_skipped = False\<rparr>"

fun parse_tiles ::
    "(rtw_phy_cond \<times> rtw_phy_cond2 \<Rightarrow> bool) \<Rightarrow> (u32 \<Rightarrow> u32 \<Rightarrow> ('s, unit) state) \<Rightarrow>
     phy_tile list \<Rightarrow> parse_state \<Rightarrow> ('s, unit) state" where
  "parse_tiles check do_cfg [] st = skip"
| "parse_tiles check do_cfg ((w, v) # ps) st =
     (let c = phy_cond_of w
      in if pc_pos c
         then parse_tiles check do_cfg ps
                (if pc_branch c = BRANCH_ENDIF then st\<lparr>is_matched := True, is_skipped := False\<rparr>
                 else if pc_branch c = BRANCH_ELSE then st\<lparr>is_matched := \<not> is_skipped st\<rparr>
                 else st\<lparr>pos_cond := (c, phy_cond2_of v)\<rparr>)
         else if pc_neg c
         then parse_tiles check do_cfg ps
                (if \<not> is_skipped st
                 then if check (pos_cond st) then st\<lparr>is_matched := True, is_skipped := True\<rparr>
                      else st\<lparr>is_matched := False, is_skipped := False\<rparr>
                 else st\<lparr>is_matched := False\<rparr>)
         else if is_matched st then do { do_cfg w v; parse_tiles check do_cfg ps st }
         else parse_tiles check do_cfg ps st)"

definition rtw_phy_cfg_mac :: "u32 \<Rightarrow> u32 \<Rightarrow> ('x hw_scheme, unit) state" where
  "rtw_phy_cfg_mac addr dat = rtw_write8 addr (ucast dat)"

definition rtw_phy_cfg_agc :: "u32 \<Rightarrow> u32 \<Rightarrow> ('x hw_scheme, unit) state" where
  "rtw_phy_cfg_agc addr dat = rtw_write32 addr dat"

definition rtw_phy_cfg_bb :: "u32 \<Rightarrow> u32 \<Rightarrow> ('x hw_scheme, unit) state" where
  "rtw_phy_cfg_bb addr dat =
     (if addr = 0xfe then delay_us 50000
      else if addr = 0xfd then delay_us 5000
      else if addr = 0xfc then delay_us 1000
      else if addr = 0xfb then delay_us 50
      else if addr = 0xfa then delay_us 5
      else if addr = 0xf9 then delay_us 1
      else rtw_write32 addr dat)"

definition rtw_phy_cfg_rf :: "nat \<Rightarrow> u32 \<Rightarrow> u32 \<Rightarrow> ('e, 'x, unit) phy" where
  "rtw_phy_cfg_rf path addr dat =
     (if addr = 0xffe then delay_us 50000
      else if addr = 0xfe then delay_us 100
      else do { rtw_write_rf path addr RFREG_MASK dat; delay_us 1 })"

definition table_do_cfg :: "rtw_table \<Rightarrow> u32 \<Rightarrow> u32 \<Rightarrow> ('e, 'x, unit) phy" where
  "table_do_cfg tbl =
     (case tbl_do_cfg tbl of CfgMac \<Rightarrow> rtw_phy_cfg_mac | CfgAgc \<Rightarrow> rtw_phy_cfg_agc
      | CfgBb \<Rightarrow> rtw_phy_cfg_bb | CfgRf \<Rightarrow> rtw_phy_cfg_rf (tbl_rf_path tbl))"

text \<open>
  The conditions of the driver are read once: none of the configuration functions changes them.
\<close>

definition rtw_parse_tbl_phy_cond :: "rtw_table \<Rightarrow> ('e, 'x, unit) phy" where
  "rtw_parse_tbl_phy_cond tbl =
     do { drv \<leftarrow> dev_get (\<lambda>s. (ci_id (chip s), hal_phy_cond (hal s), hal_phy_cond2 (hal s)));
          parse_tiles (check_positive drv) (table_do_cfg tbl) (tiles_of (tbl_data tbl)) parse_start }"

definition rtw_load_table :: "rtw_table \<Rightarrow> ('e, 'x, unit) phy" where
  "rtw_load_table tbl = rtw_parse_tbl_phy_cond tbl"

end
