(* ===== verification/Tables8812a.thy ===== *)
theory Tables8812a
  imports Phy
begin

text \<open>
  The register tables of the RTL8812A (\<open>rtw8812a_table.c\<close>), word by word as the driver has
  them, each with the function that applies its entries.
\<close>

definition rtw8812a_mac :: "u32 list" where
  "rtw8812a_mac =
   [
    0x10, 0xC, 0x80000200, 0x0, 0x40000000, 0x0, 0x11, 0x66, 0xA0000000, 0x0, 0x11, 0x5A,
    0xB0000000, 0x0, 0x25, 0xF, 0x72, 0x0, 0x420, 0x80, 0x428, 0xA, 0x429, 0x10, 0x430, 0x0,
    0x431, 0x0, 0x432, 0x0, 0x433, 0x1, 0x434, 0x2, 0x435, 0x3, 0x436, 0x5, 0x437, 0x7,
    0x438, 0x0, 0x439, 0x0, 0x43A, 0x0, 0x43B, 0x1, 0x43C, 0x2, 0x43D, 0x3, 0x43E, 0x5,
    0x43F, 0x7, 0x440, 0x5D, 0x441, 0x1, 0x442, 0x0, 0x444, 0x10, 0x445, 0x0, 0x446, 0x0,
    0x447, 0x0, 0x448, 0x0, 0x449, 0xF0, 0x44A, 0xF, 0x44B, 0x3E, 0x44C, 0x10, 0x44D, 0x0,
    0x44E, 0x0, 0x44F, 0x0, 0x450, 0x0, 0x451, 0xF0, 0x452, 0xF, 0x453, 0x0, 0x45B, 0x80,
    0x460, 0x66, 0x461, 0x66, 0x4C8, 0xFF, 0x4C9, 0x8, 0x4CC, 0xFF, 0x4CD, 0xFF, 0x4CE, 0x1,
    0x500, 0x26, 0x501, 0xA2, 0x502, 0x2F, 0x503, 0x0, 0x504, 0x28, 0x505, 0xA3, 0x506, 0x5E,
    0x507, 0x0, 0x508, 0x2B, 0x509, 0xA4, 0x50A, 0x5E, 0x50B, 0x0, 0x50C, 0x4F, 0x50D, 0xA4,
    0x50E, 0x0, 0x50F, 0x0, 0x512, 0x1C, 0x514, 0xA, 0x516, 0xA, 0x525, 0x4F, 0x550, 0x10,
    0x551, 0x10, 0x559, 0x2, 0x55C, 0x50, 0x55D, 0xFF, 0x604, 0x9, 0x605, 0x30, 0x607, 0x3,
    0x608, 0xE, 0x609, 0x2A, 0x620, 0xFF, 0x621, 0xFF, 0x622, 0xFF, 0x623, 0xFF, 0x624, 0xFF,
    0x625, 0xFF, 0x626, 0xFF, 0x627, 0xFF, 0x638, 0x50, 0x63C, 0xA, 0x63D, 0xA, 0x63E, 0xE,
    0x63F, 0xE, 0x640, 0x80, 0x642, 0x40, 0x643, 0x0, 0x652, 0xC8, 0x66E, 0x5, 0x700, 0x21,
    0x701, 0x43, 0x702, 0x65, 0x703, 0x87, 0x708, 0x21, 0x709, 0x43, 0x70A, 0x65, 0x70B, 0x87,
    0x718, 0x40]"

definition rtw8812a_agc :: "u32 list" where
  "rtw8812a_agc =
   [
    0x80000001, 0x0, 0x40000000, 0x0, 0x81C, 0xFC000001, 0x81C, 0xFB020001, 0x81C, 0xFA040001,
    0x81C, 0xF9060001, 0x81C, 0xF8080001, 0x81C, 0xF70A0001, 0x81C, 0xF60C0001,
    0x81C, 0xF50E0001, 0x81C, 0xF4100001, 0x81C, 0xF3120001, 0x81C, 0xF2140001,
    0x81C, 0xF1160001, 0x81C, 0xF0180001, 0x81C, 0xEF1A0001, 0x81C, 0xEE1C0001,
    0x81C, 0xED1E0001, 0x81C, 0xEC200001, 0x81C, 0xEB220001, 0x81C, 0xEA240001,
    0x81C, 0xCD260001, 0x81C, 0xCC280001, 0x81C, 0xCB2A0001, 0x81C, 0xCA2C0001,
    0x81C, 0xC92E0001, 0x81C, 0xC8300001, 0x81C, 0xA6320001, 0x81C, 0xA5340001,
    0x81C, 0xA4360001, 0x81C, 0xA3380001, 0x81C, 0xA23A0001, 0x81C, 0x883C0001,
    0x81C, 0x873E0001, 0x81C, 0x86400001, 0x81C, 0x85420001, 0x81C, 0x84440001,
    0x81C, 0x83460001, 0x81C, 0x82480001, 0x81C, 0x814A0001, 0x81C, 0x484C0001,
    0x81C, 0x474E0001, 0x81C, 0x46500001, 0x81C, 0x45520001, 0x81C, 0x44540001,
    0x81C, 0x43560001, 0x81C, 0x42580001, 0x81C, 0x415A0001, 0x81C, 0x255C0001,
    0x81C, 0x245E0001, 0x81C, 0x23600001, 0x81C, 0x22620001, 0x81C, 0x21640001,
    0x81C, 0x21660001, 0x81C, 0x21680001, 0x81C, 0x216A0001, 0x81C, 0x216C0001,
    0x81C, 0x216E0001, 0x81C, 0x21700001, 0x81C, 0x21720001, 0x81C, 0x21740001,
    0x81C, 0x21760001, 0x81C, 0x21780001, 0x81C, 0x217A0001, 0x81C, 0x217C0001,
    0x81C, 0x217E0001, 0x90000001, 0x5, 0x40000000, 0x0, 0x81C, 0xF9000001, 0x81C, 0xF8020001,
    0x81C, 0xF7040001, 0x81C, 0xF6060001, 0x81C, 0xF5080001, 0x81C, 0xF40A0001,
    0x81C, 0xF30C0001, 0x81C, 0xF20E0001, 0x81C, 0xF1100001, 0x81C, 0xF0120001,
    0x81C, 0xEF140001, 0x81C, 0xEE160001, 0x81C, 0xED180001, 0x81C, 0xEC1A0001,
    0x81C, 0xEB1C0001, 0x81C, 0xEA1E0001, 0x81C, 0xCD200001, 0x81C, 0xCC220001,
    0x81C, 0xCB240001, 0x81C, 0xCA260001, 0x81C, 0xC9280001, 0x81C, 0xC82A0001,
    0x81C, 0xC72C0001, 0x81C, 0xC62E0001, 0x81C, 0xA5300001, 0x81C, 0xA4320001,
    0x81C, 0xA3340001, 0x81C, 0xA2360001, 0x81C, 0x88380001, 0x81C, 0x873A0001,
    0x81C, 0x863C0001, 0x81C, 0x853E0001, 0x81C, 0x84400001, 0x81C, 0x83420001,
    0x81C, 0x82440001, 0x81C, 0x81460001, 0x81C, 0x48480001, 0x81C, 0x474A0001,
    0x81C, 0x464C0001, 0x81C, 0x454E0001, 0x81C, 0x44500001, 0x81C, 0x43520001,
    0x81C, 0x42540001, 0x81C, 0x41560001, 0x81C, 0x25580001, 0x81C, 0x245A0001,
    0x81C, 0x235C0001, 0x81C, 0x225E0001, 0x81C, 0x21600001, 0x81C, 0x21620001,
    0x81C, 0x21640001, 0x81C, 0x21660001, 0x81C, 0x21680001, 0x81C, 0x216A0001,
    0x81C, 0x236C0001, 0x81C, 0x226E0001, 0x81C, 0x21700001, 0x81C, 0x21720001,
    0x81C, 0x21740001, 0x81C, 0x21760001, 0x81C, 0x21780001, 0x81C, 0x217A0001,
    0x81C, 0x217C0001, 0x81C, 0x217E0001, 0xA0000000, 0x0, 0x81C, 0xFF000001, 0x81C, 0xFF020001,
    0x81C, 0xFF040001, 0x81C, 0xFF060001, 0x81C, 0xFF080001, 0x81C, 0xFE0A0001,
    0x81C, 0xFD0C0001, 0x81C, 0xFC0E0001, 0x81C, 0xFB100001, 0x81C, 0xFA120001,
    0x81C, 0xF9140001, 0x81C, 0xF8160001, 0x81C, 0xF7180001, 0x81C, 0xF61A0001,
    0x81C, 0xF51C0001, 0x81C, 0xF41E0001, 0x81C, 0xF3200001, 0x81C, 0xF2220001,
    0x81C, 0xF1240001, 0x81C, 0xF0260001, 0x81C, 0xEF280001, 0x81C, 0xEE2A0001,
    0x81C, 0xED2C0001, 0x81C, 0xEC2E0001, 0x81C, 0xEB300001, 0x81C, 0xEA320001,
    0x81C, 0xE9340001, 0x81C, 0xE8360001, 0x81C, 0xE7380001, 0x81C, 0xE63A0001,
    0x81C, 0xE53C0001, 0x81C, 0xC73E0001, 0x81C, 0xC6400001, 0x81C, 0xC5420001,
    0x81C, 0xC4440001, 0x81C, 0xC3460001, 0x81C, 0xC2480001, 0x81C, 0xC14A0001,
    0x81C, 0xA74C0001, 0x81C, 0xA64E0001, 0x81C, 0xA5500001, 0x81C, 0xA4520001,
    0x81C, 0xA3540001, 0x81C, 0xA2560001, 0x81C, 0xA1580001, 0x81C, 0x675A0001,
    0x81C, 0x665C0001, 0x81C, 0x655E0001, 0x81C, 0x64600001, 0x81C, 0x63620001,
    0x81C, 0x48640001, 0x81C, 0x47660001, 0x81C, 0x46680001, 0x81C, 0x456A0001,
    0x81C, 0x446C0001, 0x81C, 0x436E0001, 0x81C, 0x42700001, 0x81C, 0x41720001,
    0x81C, 0x41740001, 0x81C, 0x41760001, 0x81C, 0x41780001, 0x81C, 0x417A0001,
    0x81C, 0x417C0001, 0x81C, 0x417E0001, 0xB0000000, 0x0, 0x80000004, 0x0, 0x40000000, 0x0,
    0x81C, 0xFC800001, 0x81C, 0xFB820001, 0x81C, 0xFA840001, 0x81C, 0xF9860001,
    0x81C, 0xF8880001, 0x81C, 0xF78A0001, 0x81C, 0xF68C0001, 0x81C, 0xF58E0001,
    0x81C, 0xF4900001, 0x81C, 0xF3920001, 0x81C, 0xF2940001, 0x81C, 0xF1960001,
    0x81C, 0xF0980001, 0x81C, 0xEF9A0001, 0x81C, 0xEE9C0001, 0x81C, 0xED9E0001,
    0x81C, 0xECA00001, 0x81C, 0xEBA20001, 0x81C, 0xEAA40001, 0x81C, 0xE9A60001,
    0x81C, 0xE8A80001, 0x81C, 0xE7AA0001, 0x81C, 0xE6AC0001, 0x81C, 0xE5AE0001,
    0x81C, 0xE4B00001, 0x81C, 0xE3B20001, 0x81C, 0xA8B40001, 0x81C, 0xA7B60001,
    0x81C, 0xA6B80001, 0x81C, 0xA5BA0001, 0x81C, 0xA4BC0001, 0x81C, 0xA3BE0001,
    0x81C, 0xA2C00001, 0x81C, 0xA1C20001, 0x81C, 0x68C40001, 0x81C, 0x67C60001,
    0x81C, 0x66C80001, 0x81C, 0x65CA0001, 0x81C, 0x64CC0001, 0x81C, 0x47CE0001,
    0x81C, 0x46D00001, 0x81C, 0x45D20001, 0x81C, 0x44D40001, 0x81C, 0x43D60001,
    0x81C, 0x42D80001, 0x81C, 0x8DA0001, 0x81C, 0x7DC0001, 0x81C, 0x6DE0001, 0x81C, 0x5E00001,
    0x81C, 0x4E20001, 0x81C, 0x3E40001, 0x81C, 0x2E60001, 0x81C, 0x1E80001, 0x81C, 0x1EA0001,
    0x81C, 0x1EC0001, 0x81C, 0x1EE0001, 0x81C, 0x1F00001, 0x81C, 0x1F20001, 0x81C, 0x1F40001,
    0x81C, 0x1F60001, 0x81C, 0x1F80001, 0x81C, 0x1FA0001, 0x81C, 0x1FC0001, 0x81C, 0x1FE0001,
    0xA0000000, 0x0, 0x81C, 0xFF800001, 0x81C, 0xFF820001, 0x81C, 0xFF840001, 0x81C, 0xFE860001,
    0x81C, 0xFD880001, 0x81C, 0xFC8A0001, 0x81C, 0xFB8C0001, 0x81C, 0xFA8E0001,
    0x81C, 0xF9900001, 0x81C, 0xF8920001, 0x81C, 0xF7940001, 0x81C, 0xF6960001,
    0x81C, 0xF5980001, 0x81C, 0xF49A0001, 0x81C, 0xF39C0001, 0x81C, 0xF29E0001,
    0x81C, 0xF1A00001, 0x81C, 0xF0A20001, 0x81C, 0xEFA40001, 0x81C, 0xEEA60001,
    0x81C, 0xEDA80001, 0x81C, 0xECAA0001, 0x81C, 0xEBAC0001, 0x81C, 0xEAAE0001,
    0x81C, 0xE9B00001, 0x81C, 0xE8B20001, 0x81C, 0xE7B40001, 0x81C, 0xE6B60001,
    0x81C, 0xE5B80001, 0x81C, 0xE4BA0001, 0x81C, 0xE3BC0001, 0x81C, 0xA8BE0001,
    0x81C, 0xA7C00001, 0x81C, 0xA6C20001, 0x81C, 0xA5C40001, 0x81C, 0xA4C60001,
    0x81C, 0xA3C80001, 0x81C, 0xA2CA0001, 0x81C, 0xA1CC0001, 0x81C, 0x68CE0001,
    0x81C, 0x67D00001, 0x81C, 0x66D20001, 0x81C, 0x65D40001, 0x81C, 0x64D60001,
    0x81C, 0x47D80001, 0x81C, 0x46DA0001, 0x81C, 0x45DC0001, 0x81C, 0x44DE0001,
    0x81C, 0x43E00001, 0x81C, 0x42E20001, 0x81C, 0x8E40001, 0x81C, 0x7E60001, 0x81C, 0x6E80001,
    0x81C, 0x5EA0001, 0x81C, 0x4EC0001, 0x81C, 0x3EE0001, 0x81C, 0x2F00001, 0x81C, 0x1F20001,
    0x81C, 0x1F40001, 0x81C, 0x1F60001, 0x81C, 0x1F80001, 0x81C, 0x1FA0001, 0x81C, 0x1FC0001,
    0x81C, 0x1FE0001, 0xB0000000, 0x0, 0xC50, 0x22, 0xC50, 0x20, 0xE50, 0x22, 0xE50, 0x20]"

definition rtw8812a_agc_diff_lb :: "u32 list" where
  "rtw8812a_agc_diff_lb =
   [
    0x80000004, 0x0, 0x40000000, 0x0, 0x81C, 0x47CE0001, 0x81C, 0x46D00001, 0x81C, 0x45D20001,
    0x81C, 0x44D40001, 0x81C, 0x43D60001, 0x81C, 0x42D80001, 0x81C, 0x8DA0001, 0x81C, 0x7DC0001,
    0x81C, 0x6DE0001, 0x81C, 0x5E00001, 0x81C, 0x4E20001, 0x81C, 0x3E40001, 0x81C, 0x2E60001,
    0xA0000000, 0x0, 0x81C, 0x47D80001, 0x81C, 0x46DA0001, 0x81C, 0x45DC0001, 0x81C, 0x44DE0001,
    0x81C, 0x43E00001, 0x81C, 0x42E20001, 0x81C, 0x8E40001, 0x81C, 0x7E60001, 0x81C, 0x6E80001,
    0x81C, 0x5EA0001, 0x81C, 0x4EC0001, 0x81C, 0x3EE0001, 0x81C, 0x2F00001, 0xB0000000, 0x0]"

definition rtw8812a_agc_diff_hb :: "u32 list" where
  "rtw8812a_agc_diff_hb =
   [
    0x80000004, 0x0, 0x40000000, 0x0, 0x81C, 0x45CE0001, 0x81C, 0x44D00001, 0x81C, 0x43D20001,
    0x81C, 0x42D40001, 0x81C, 0x8D60001, 0x81C, 0x7D80001, 0x81C, 0x6DA0001, 0x81C, 0x5DC0001,
    0x81C, 0x4DE0001, 0x81C, 0x3E00001, 0x81C, 0x2E20001, 0x81C, 0x1E40001, 0x81C, 0x1E60001,
    0xA0000000, 0x0, 0x81C, 0x45D80001, 0x81C, 0x44DA0001, 0x81C, 0x43DC0001, 0x81C, 0x42DE0001,
    0x81C, 0x8E00001, 0x81C, 0x7E20001, 0x81C, 0x6E40001, 0x81C, 0x5E60001, 0x81C, 0x4E80001,
    0x81C, 0x3EA0001, 0x81C, 0x2EC0001, 0x81C, 0x1EE0001, 0x81C, 0x1F00001, 0xB0000000, 0x0]"

definition rtw8812a_bb :: "u32 list" where
  "rtw8812a_bb =
   [
    0x800, 0x8020D010, 0x804, 0x80112E0, 0x808, 0xE028233, 0x80C, 0x12131113, 0x810, 0x20101263,
    0x814, 0x20C3D10, 0x818, 0x3A00385, 0x820, 0x0, 0x824, 0x30FE0, 0x828, 0x0, 0x82C, 0x2083DD,
    0x830, 0x2EAAEEB8, 0x834, 0x37A706, 0x838, 0x6C89B44, 0x83C, 0x95B, 0x840, 0xC0000001,
    0x844, 0x40003CDE, 0x848, 0x6210FF8B, 0x84C, 0x6CFDFFB8, 0x850, 0x28874706, 0x854, 0x1520C,
    0x858, 0x8060E000, 0x85C, 0x74210168, 0x860, 0x6929C321, 0x864, 0x79727432,
    0x868, 0x8CA7A314, 0x86C, 0x338C2878, 0x870, 0x3333333, 0x874, 0x31602C2E, 0x878, 0x3152,
    0x87C, 0xFC000, 0x8A0, 0x13, 0x8A4, 0x7F7F7F7F, 0x8A8, 0xA202033E, 0x8AC, 0xFF0FA0A,
    0x8B0, 0x600, 0x8B4, 0xFC080, 0x8B8, 0x6C10D7FF, 0x8BC, 0x4CA520A3, 0x8C0, 0x27F00020,
    0x8C4, 0x0, 0x8C8, 0x12D69, 0x8CC, 0x8248492, 0x8D0, 0xB800, 0x8DC, 0x0, 0x8D4, 0x940008A0,
    0x8D8, 0x290B5612, 0x8F8, 0x400002C0, 0x8FC, 0x0, 0x900, 0x701, 0x90C, 0x0, 0x910, 0xFC00,
    0x914, 0x404, 0x918, 0x1C1028C0, 0x91C, 0x64B11A1C, 0x920, 0xE0767233, 0x924, 0x55AA500,
    0x928, 0x4, 0x92C, 0xFFFE0000, 0x930, 0xFFFFFFFE, 0x934, 0x1FFFFF, 0x960, 0x0, 0x964, 0x0,
    0x968, 0x0, 0x96C, 0x0, 0x970, 0x801FFFFF, 0x978, 0x0, 0x97C, 0x0, 0x980, 0x0, 0x984, 0x0,
    0x988, 0x0, 0x990, 0x27100000, 0x994, 0xFFFF0100, 0x998, 0xFFFFFF5C, 0x99C, 0xFFFFFFFF,
    0x9A0, 0xFF, 0x9A4, 0x80080, 0x9A8, 0x0, 0x9AC, 0x0, 0x9B0, 0x81081008, 0x9B4, 0x0,
    0x9B8, 0x1081008, 0x9BC, 0x1081008, 0x9D0, 0x0, 0x9D4, 0x0, 0x9D8, 0x0, 0x9DC, 0x0,
    0x9E4, 0x3, 0x9E8, 0x2D5, 0xA00, 0xD047C8, 0xA04, 0x1FF000C, 0xA08, 0x8C838300,
    0xA0C, 0x2E7F000F, 0xA10, 0x9500BB78, 0xA14, 0x11144028, 0xA18, 0x881117, 0xA1C, 0x89140F00,
    0xA20, 0x1A1B0000, 0xA24, 0x90E1217, 0xA28, 0x305, 0xA2C, 0x900000, 0xA70, 0x101FFF00,
    0xA74, 0x8, 0xA78, 0x900, 0xA7C, 0x225B0606, 0xA80, 0x218075B2, 0xA84, 0x1F8C80,
    0xB00, 0x3100000, 0xB04, 0xB000, 0xB08, 0xAE0201EB, 0xB0C, 0x1003207, 0xB10, 0x9807,
    0xB14, 0x1000000, 0xB18, 0x2, 0xB1C, 0x2, 0xB20, 0x1F, 0xB24, 0x3020100, 0xB28, 0x7060504,
    0xB2C, 0xB0A0908, 0xB30, 0xF0E0D0C, 0xB34, 0x13121110, 0xB38, 0x17161514, 0xB3C, 0x3A,
    0xB40, 0x0, 0xB44, 0x0, 0xB48, 0x13000032, 0xB4C, 0x48080000, 0xB50, 0x0, 0xB54, 0x0,
    0xB58, 0x0, 0xB5C, 0x0, 0xC00, 0x7, 0xC04, 0x42020, 0xC08, 0x80410231, 0xC0C, 0x0,
    0xC10, 0x100, 0xC14, 0x1000000, 0xC1C, 0x40000003, 0xC20, 0x12121212, 0xC24, 0x12121212,
    0xC28, 0x12121212, 0xC2C, 0x12121212, 0xC30, 0x12121212, 0xC34, 0x12121212,
    0xC38, 0x12121212, 0xC3C, 0x12121212, 0xC40, 0x12121212, 0xC44, 0x12121212,
    0xC48, 0x12121212, 0xC4C, 0x12121212, 0xC50, 0x20, 0xC54, 0x8121C, 0xC58, 0x30000C1C,
    0xC5C, 0x58, 0xC60, 0x34344443, 0xC64, 0x7003333, 0x80000008, 0x0, 0x40000000, 0x0,
    0xC68, 0x59791979, 0x90000008, 0x5000000, 0x40000000, 0x0, 0xC68, 0x59791979,
    0x90000002, 0x0, 0x40000000, 0x0, 0xC68, 0x59791979, 0x90000004, 0x0, 0x40000000, 0x0,
    0xC68, 0x59791979, 0x90000001, 0x0, 0x40000000, 0x0, 0xC68, 0x59791979, 0x90000001, 0x5,
    0x40000000, 0x0, 0xC68, 0x59791979, 0xA0000000, 0x0, 0xC68, 0x59799979, 0xB0000000, 0x0,
    0xC6C, 0x59795979, 0xC70, 0x19795979, 0xC74, 0x19795979, 0xC78, 0x19791979,
    0xC7C, 0x19791979, 0xC80, 0x19791979, 0xC84, 0x19791979, 0xC94, 0x100005C, 0xC98, 0x0,
    0xC9C, 0x0, 0xCA0, 0x29, 0xCA4, 0x8040201, 0xCA8, 0x80402010, 0xCB0, 0x77547777, 0xCB4, 0x77,
    0xCB8, 0x508242, 0xE00, 0x7, 0xE04, 0x42020, 0xE08, 0x80410231, 0xE0C, 0x0, 0xE10, 0x100,
    0xE14, 0x1000000, 0xE1C, 0x40000003, 0xE20, 0x12121212, 0xE24, 0x12121212, 0xE28, 0x12121212,
    0xE2C, 0x12121212, 0xE30, 0x12121212, 0xE34, 0x12121212, 0xE38, 0x12121212,
    0xE3C, 0x12121212, 0xE40, 0x12121212, 0xE44, 0x12121212, 0xE48, 0x12121212,
    0xE4C, 0x12121212, 0xE50, 0x20, 0xE54, 0x8121C, 0xE58, 0x30000C1C, 0xE5C, 0x58,
    0xE60, 0x34344443, 0xE64, 0x7003333, 0xE68, 0x59791979, 0xE6C, 0x59795979, 0xE70, 0x19795979,
    0xE74, 0x19795979, 0xE78, 0x19791979, 0xE7C, 0x19791979, 0xE80, 0x19791979,
    0xE84, 0x19791979, 0xE94, 0x100005C, 0xE98, 0x0, 0xE9C, 0x0, 0xEA0, 0x29, 0xEA4, 0x8040201,
    0xEA8, 0x80402010, 0xEB0, 0x77547777, 0xEB4, 0x77, 0xEB8, 0x508242]"

definition rtw8812a_rf_a :: "u32 list" where
  "rtw8812a_rf_a =
   [
    0x0, 0x10000, 0x18, 0x1712A, 0x56, 0x51CF2, 0x66, 0x40000, 0x1E, 0x80000, 0x89, 0x80,
    0x80000001, 0x0, 0x40000000, 0x0, 0x86, 0x14B3A, 0x90000001, 0x5, 0x40000000, 0x0,
    0x86, 0x14B3A, 0xA0000000, 0x0, 0x86, 0x14B38, 0xB0000000, 0x0, 0x80000004, 0x0,
    0x40000000, 0x0, 0x8B, 0x80180, 0xA0000000, 0x0, 0x8B, 0x87180, 0xB0000000, 0x0,
    0xB1, 0x1FC1A, 0xB3, 0xF0810, 0xB4, 0x1A78D, 0xBA, 0x86180, 0x18, 0x6, 0xEF, 0x2000,
    0x80000001, 0x0, 0x40000000, 0x0, 0x3B, 0x3F218, 0x3B, 0x30A58, 0x3B, 0x2FA58, 0x3B, 0x22590,
    0x3B, 0x1FA50, 0x3B, 0x10248, 0x3B, 0x8240, 0x90000001, 0x5, 0x40000000, 0x0, 0x3B, 0x3F218,
    0x3B, 0x30A58, 0x3B, 0x2FA58, 0x3B, 0x22590, 0x3B, 0x1FA50, 0x3B, 0x10248, 0x3B, 0x8240,
    0xA0000000, 0x0, 0x3B, 0x38A58, 0x3B, 0x37A58, 0x3B, 0x2A590, 0x3B, 0x27A50, 0x3B, 0x18248,
    0x3B, 0x10240, 0x3B, 0x8240, 0xB0000000, 0x0, 0xEF, 0x100, 0x80000002, 0x0, 0x40000000, 0x0,
    0x34, 0xA4EE, 0x34, 0x9076, 0x34, 0x8073, 0x34, 0x7070, 0x34, 0x606D, 0x34, 0x506A,
    0x34, 0x4049, 0x34, 0x3046, 0x34, 0x2028, 0x34, 0x1025, 0x34, 0x22, 0xA0000000, 0x0,
    0x34, 0xADF4, 0x34, 0x9DF1, 0x34, 0x8DEE, 0x34, 0x7DEB, 0x34, 0x6DE8, 0x34, 0x5DE5,
    0x34, 0x4DE2, 0x34, 0x3CE6, 0x34, 0x24E7, 0x34, 0x14E4, 0x34, 0x4E1, 0xB0000000, 0x0,
    0xEF, 0x0, 0xEF, 0x20A2, 0xDF, 0x80, 0x35, 0x192, 0x35, 0x8192, 0x35, 0x10192, 0x36, 0x24,
    0x36, 0x8024, 0x36, 0x10024, 0x36, 0x18024, 0xEF, 0x0, 0x51, 0xC21, 0x52, 0x6D9,
    0x53, 0xFC649, 0x54, 0x17E, 0xEF, 0x2, 0x8, 0x8400, 0x18, 0x1712A, 0xEF, 0x1000, 0x3A, 0x80,
    0x3B, 0x3A02C, 0x3C, 0x4000, 0x3A, 0x400, 0x3B, 0x3202C, 0x3C, 0x10000, 0x3A, 0xA0,
    0x3B, 0x2B064, 0x3C, 0x4000, 0x3A, 0xD8, 0x3B, 0x23070, 0x3C, 0x4000, 0x3A, 0x468,
    0x3B, 0x1B870, 0x3C, 0x10000, 0x3A, 0x98, 0x3B, 0x12085, 0x3C, 0xE4000, 0x3A, 0x418,
    0x3B, 0xA080, 0x3C, 0xF0000, 0x3A, 0x418, 0x3B, 0x2080, 0x3C, 0x10000, 0x3A, 0x80,
    0x3B, 0x7A02C, 0x3C, 0x4000, 0x3A, 0x400, 0x3B, 0x7202C, 0x3C, 0x10000, 0x3A, 0xA0,
    0x3B, 0x6B064, 0x3C, 0x4000, 0x3A, 0xD8, 0x3B, 0x63070, 0x3C, 0x4000, 0x3A, 0x468,
    0x3B, 0x5B870, 0x3C, 0x10000, 0x3A, 0x98, 0x3B, 0x52085, 0x3C, 0xE4000, 0x3A, 0x418,
    0x3B, 0x4A080, 0x3C, 0xF0000, 0x3A, 0x418, 0x3B, 0x42080, 0x3C, 0x10000, 0x3A, 0x80,
    0x3B, 0xBA02C, 0x3C, 0x4000, 0x3A, 0x400, 0x3B, 0xB202C, 0x3C, 0x10000, 0x3A, 0xA0,
    0x3B, 0xAB064, 0x3C, 0x4000, 0x3A, 0xD8, 0x3B, 0xA3070, 0x3C, 0x4000, 0x3A, 0x468,
    0x3B, 0x9B870, 0x3C, 0x10000, 0x3A, 0x98, 0x3B, 0x92085, 0x3C, 0xE4000, 0x3A, 0x418,
    0x3B, 0x8A080, 0x3C, 0xF0000, 0x3A, 0x418, 0x3B, 0x82080, 0x3C, 0x10000, 0xEF, 0x1100,
    0x80000008, 0x0, 0x40000000, 0x0, 0x34, 0x4A0B2, 0x34, 0x490AF, 0x34, 0x48070, 0x34, 0x4706D,
    0x34, 0x46050, 0x34, 0x4504D, 0x34, 0x4404A, 0x34, 0x43047, 0x34, 0x4200A, 0x34, 0x41007,
    0x34, 0x40004, 0x90000008, 0x5000000, 0x40000000, 0x0, 0x34, 0x4A0B2, 0x34, 0x490AF,
    0x34, 0x48070, 0x34, 0x4706D, 0x34, 0x4604D, 0x34, 0x4504A, 0x34, 0x44047, 0x34, 0x43044,
    0x34, 0x42007, 0x34, 0x41004, 0x34, 0x40001, 0xA0000000, 0x0, 0x34, 0x4ADF5, 0x34, 0x49DF2,
    0x34, 0x48DEF, 0x34, 0x47DEC, 0x34, 0x46DE9, 0x34, 0x45DE6, 0x34, 0x44DE3, 0x34, 0x438C8,
    0x34, 0x428C5, 0x34, 0x418C2, 0x34, 0x408C0, 0xB0000000, 0x0, 0x80000008, 0x0,
    0x40000000, 0x0, 0x34, 0x2A0B2, 0x34, 0x290AF, 0x34, 0x28070, 0x34, 0x2706D, 0x34, 0x26050,
    0x34, 0x2504D, 0x34, 0x2404A, 0x34, 0x23047, 0x34, 0x2200A, 0x34, 0x21007, 0x34, 0x20004,
    0x90000008, 0x5000000, 0x40000000, 0x0, 0x34, 0x2A0B4, 0x34, 0x290B1, 0x34, 0x28072,
    0x34, 0x2706F, 0x34, 0x2604F, 0x34, 0x2504C, 0x34, 0x24049, 0x34, 0x23046, 0x34, 0x22009,
    0x34, 0x21006, 0x34, 0x20003, 0xA0000000, 0x0, 0x34, 0x2ADF5, 0x34, 0x29DF2, 0x34, 0x28DEF,
    0x34, 0x27DEC, 0x34, 0x26DE9, 0x34, 0x25DE6, 0x34, 0x24DE3, 0x34, 0x238C8, 0x34, 0x228C5,
    0x34, 0x218C2, 0x34, 0x208C0, 0xB0000000, 0x0, 0x80000008, 0x0, 0x40000000, 0x0,
    0x34, 0xA0B2, 0x34, 0x90AF, 0x34, 0x8070, 0x34, 0x706D, 0x34, 0x6050, 0x34, 0x504D,
    0x34, 0x404A, 0x34, 0x3047, 0x34, 0x200A, 0x34, 0x1007, 0x34, 0x4, 0x90000008, 0x5000000,
    0x40000000, 0x0, 0x34, 0xA0B2, 0x34, 0x90AF, 0x34, 0x8070, 0x34, 0x706D, 0x34, 0x604D,
    0x34, 0x504A, 0x34, 0x4047, 0x34, 0x3044, 0x34, 0x2007, 0x34, 0x1004, 0x34, 0x1,
    0xA0000000, 0x0, 0x34, 0xAFF7, 0x34, 0x9DF7, 0x34, 0x8DF4, 0x34, 0x7DF1, 0x34, 0x6DEE,
    0x34, 0x5DEB, 0x34, 0x4DE8, 0x34, 0x38CC, 0x34, 0x28C9, 0x34, 0x18C6, 0x34, 0x8C3,
    0xB0000000, 0x0, 0xEF, 0x0, 0x80000008, 0x0, 0x40000000, 0x0, 0x18, 0x1712A, 0xEF, 0x40,
    0x35, 0x1D4, 0x35, 0x81D4, 0x35, 0x101D4, 0x35, 0x201B4, 0x35, 0x281B4, 0x35, 0x301B4,
    0x35, 0x401B4, 0x35, 0x481B4, 0x35, 0x501B4, 0x90000008, 0x5000000, 0x40000000, 0x0,
    0x18, 0x1712A, 0xEF, 0x40, 0x35, 0x1D4, 0x35, 0x81D4, 0x35, 0x101D4, 0x35, 0x201B4,
    0x35, 0x281B4, 0x35, 0x301B4, 0x35, 0x401B4, 0x35, 0x481B4, 0x35, 0x501B4, 0xA0000000, 0x0,
    0x18, 0x1712A, 0xEF, 0x40, 0x35, 0x188, 0x35, 0x8147, 0x35, 0x10147, 0x35, 0x201D7,
    0x35, 0x281D7, 0x35, 0x301D7, 0x35, 0x401D8, 0x35, 0x481D8, 0x35, 0x501D8, 0xB0000000, 0x0,
    0xEF, 0x0, 0x80000008, 0x0, 0x40000000, 0x0, 0x18, 0x1712A, 0xEF, 0x10, 0x36, 0x4BFB,
    0x36, 0xCBFB, 0x36, 0x14BFB, 0x36, 0x1CBFB, 0x36, 0x24F4B, 0x36, 0x2CF4B, 0x36, 0x34F4B,
    0x36, 0x3CF4B, 0x36, 0x44F4B, 0x36, 0x4CF4B, 0x36, 0x54F4B, 0x36, 0x5CF4B,
    0x90000008, 0x5000000, 0x40000000, 0x0, 0x18, 0x1712A, 0xEF, 0x10, 0x36, 0x4BFB,
    0x36, 0xCBFB, 0x36, 0x14BFB, 0x36, 0x1CBFB, 0x36, 0x24F4B, 0x36, 0x2CF4B, 0x36, 0x34F4B,
    0x36, 0x3CF4B, 0x36, 0x44F4B, 0x36, 0x4CF4B, 0x36, 0x54F4B, 0x36, 0x5CF4B, 0xA0000000, 0x0,
    0x18, 0x1712A, 0xEF, 0x10, 0x36, 0x84EB4, 0x36, 0x8CC35, 0x36, 0x94C35, 0x36, 0x9CC35,
    0x36, 0xA4C35, 0x36, 0xACC35, 0x36, 0xB4C35, 0x36, 0xBCC35, 0x36, 0xC4C34, 0x36, 0xCCC35,
    0x36, 0xD4C35, 0x36, 0xDCC35, 0xB0000000, 0x0, 0xEF, 0x0, 0xEF, 0x8, 0x80000008, 0x0,
    0x40000000, 0x0, 0x3C, 0x2CC, 0x3C, 0x522, 0x3C, 0x902, 0x90000008, 0x5000000,
    0x40000000, 0x0, 0x3C, 0x2CC, 0x3C, 0x522, 0x3C, 0x902, 0xA0000000, 0x0, 0x3C, 0x2A8,
    0x3C, 0x5A2, 0x3C, 0x880, 0xB0000000, 0x0, 0xEF, 0x0, 0x18, 0x1712A, 0xEF, 0x2, 0xDF, 0x80,
    0x1F, 0x64, 0x80000008, 0x0, 0x40000000, 0x0, 0x61, 0xFDD43, 0x62, 0x38F4B, 0x63, 0x32117,
    0x64, 0x194AC, 0x65, 0x931D1, 0x90000008, 0x5000000, 0x40000000, 0x0, 0x61, 0xFDD43,
    0x62, 0x38F4B, 0x63, 0x32117, 0x64, 0x194AC, 0x65, 0x931D2, 0xA0000000, 0x0, 0x61, 0xE5D53,
    0x62, 0x38FCD, 0x63, 0x114EB, 0x64, 0x196AC, 0x65, 0x911D7, 0xB0000000, 0x0, 0x8, 0x8400,
    0x1C, 0x739D2, 0xB4, 0x1E78D, 0x18, 0x1F12A, 0xFFE, 0x0, 0xFFE, 0x0, 0xFFE, 0x0, 0xFFE, 0x0,
    0xB4, 0x1A78D, 0x18, 0x1712A]"

definition rtw8812a_rf_b :: "u32 list" where
  "rtw8812a_rf_b =
   [
    0x56, 0x51CF2, 0x66, 0x40000, 0x89, 0x80, 0x80000001, 0x0, 0x40000000, 0x0, 0x86, 0x14B3A,
    0x90000001, 0x5, 0x40000000, 0x0, 0x86, 0x14B3A, 0xA0000000, 0x0, 0x86, 0x14B38,
    0xB0000000, 0x0, 0x80000004, 0x0, 0x40000000, 0x0, 0x8B, 0x80180, 0xA0000000, 0x0,
    0x8B, 0x87180, 0xB0000000, 0x0, 0x18, 0x6, 0xEF, 0x2000, 0x80000001, 0x0, 0x40000000, 0x0,
    0x3B, 0x3F218, 0x3B, 0x30A58, 0x3B, 0x2FA58, 0x3B, 0x22590, 0x3B, 0x1FA50, 0x3B, 0x10248,
    0x3B, 0x8240, 0x90000001, 0x5, 0x40000000, 0x0, 0x3B, 0x3F218, 0x3B, 0x30A58, 0x3B, 0x2FA58,
    0x3B, 0x22590, 0x3B, 0x1FA50, 0x3B, 0x10248, 0x3B, 0x8240, 0xA0000000, 0x0, 0x3B, 0x38A58,
    0x3B, 0x37A58, 0x3B, 0x2A590, 0x3B, 0x27A50, 0x3B, 0x18248, 0x3B, 0x10240, 0x3B, 0x8240,
    0xB0000000, 0x0, 0xEF, 0x100, 0x80000002, 0x0, 0x40000000, 0x0, 0x34, 0xA4EE, 0x34, 0x9076,
    0x34, 0x8073, 0x34, 0x7070, 0x34, 0x606D, 0x34, 0x506A, 0x34, 0x4049, 0x34, 0x3046,
    0x34, 0x2028, 0x34, 0x1025, 0x34, 0x22, 0xA0000000, 0x0, 0x34, 0xADF4, 0x34, 0x9DF1,
    0x34, 0x8DEE, 0x34, 0x7DEB, 0x34, 0x6DE8, 0x34, 0x5DE5, 0x34, 0x4DE2, 0x34, 0x3CE6,
    0x34, 0x24E7, 0x34, 0x14E4, 0x34, 0x4E1, 0xB0000000, 0x0, 0xEF, 0x0, 0xEF, 0x20A2,
    0xDF, 0x80, 0x35, 0x192, 0x35, 0x8192, 0x35, 0x10192, 0x36, 0x24, 0x36, 0x8024,
    0x36, 0x10024, 0x36, 0x18024, 0xEF, 0x0, 0x51, 0xC21, 0x52, 0x6D9, 0x53, 0xFC649,
    0x54, 0x17E, 0xEF, 0x2, 0x8, 0x8400, 0x18, 0x1712A, 0xEF, 0x1000, 0x3A, 0x80, 0x3B, 0x3A02C,
    0x3C, 0x4000, 0x3A, 0x400, 0x3B, 0x3202C, 0x3C, 0x10000, 0x3A, 0xA0, 0x3B, 0x2B064,
    0x3C, 0x4000, 0x3A, 0xD8, 0x3B, 0x23070, 0x3C, 0x4000, 0x3A, 0x468, 0x3B, 0x1B870,
    0x3C, 0x10000, 0x3A, 0x98, 0x3B, 0x12085, 0x3C, 0xE4000, 0x3A, 0x418, 0x3B, 0xA080,
    0x3C, 0xF0000, 0x3A, 0x418, 0x3B, 0x2080, 0x3C, 0x10000, 0x3A, 0x80, 0x3B, 0x7A02C,
    0x3C, 0x4000, 0x3A, 0x400, 0x3B, 0x7202C, 0x3C, 0x10000, 0x3A, 0xA0, 0x3B, 0x6B064,
    0x3C, 0x4000, 0x3A, 0xD8, 0x3B, 0x63070, 0x3C, 0x4000, 0x3A, 0x468, 0x3B, 0x5B870,
    0x3C, 0x10000, 0x3A, 0x98, 0x3B, 0x52085, 0x3C, 0xE4000, 0x3A, 0x418, 0x3B, 0x4A080,
    0x3C, 0xF0000, 0x3A, 0x418, 0x3B, 0x42080, 0x3C, 0x10000, 0x3A, 0x80, 0x3B, 0xBA02C,
    0x3C, 0x4000, 0x3A, 0x400, 0x3B, 0xB202C, 0x3C, 0x10000, 0x3A, 0xA0, 0x3B, 0xAB064,
    0x3C, 0x4000, 0x3A, 0xD8, 0x3B, 0xA3070, 0x3C, 0x4000, 0x3A, 0x468, 0x3B, 0x9B870,
    0x3C, 0x10000, 0x3A, 0x98, 0x3B, 0x92085, 0x3C, 0xE4000, 0x3A, 0x418, 0x3B, 0x8A080,
    0x3C, 0xF0000, 0x3A, 0x418, 0x3B, 0x82080, 0x3C, 0x10000, 0xEF, 0x1100, 0x80000008, 0x0,
    0x40000000, 0x0, 0x34, 0x4A0B2, 0x34, 0x490AF, 0x34, 0x48070, 0x34, 0x4706D, 0x34, 0x46050,
    0x34, 0x4504D, 0x34, 0x4404A, 0x34, 0x43047, 0x34, 0x4200A, 0x34, 0x41007, 0x34, 0x40004,
    0x90000008, 0x5000000, 0x40000000, 0x0, 0x34, 0x4A0B1, 0x34, 0x490AE, 0x34, 0x4806F,
    0x34, 0x4706C, 0x34, 0x4604C, 0x34, 0x45049, 0x34, 0x44046, 0x34, 0x43043, 0x34, 0x42006,
    0x34, 0x41003, 0x34, 0x40000, 0xA0000000, 0x0, 0x34, 0x4ADF5, 0x34, 0x49DF2, 0x34, 0x48DEF,
    0x34, 0x47DEC, 0x34, 0x46DE9, 0x34, 0x45DE6, 0x34, 0x44DE3, 0x34, 0x438C8, 0x34, 0x428C5,
    0x34, 0x418C2, 0x34, 0x408C0, 0xB0000000, 0x0, 0x80000008, 0x0, 0x40000000, 0x0,
    0x34, 0x2A0B2, 0x34, 0x290AF, 0x34, 0x28070, 0x34, 0x2706D, 0x34, 0x26050, 0x34, 0x2504D,
    0x34, 0x2404A, 0x34, 0x23047, 0x34, 0x2200A, 0x34, 0x21007, 0x34, 0x20004,
    0x90000008, 0x5000000, 0x40000000, 0x0, 0x34, 0x2A0B3, 0x34, 0x290B0, 0x34, 0x28071,
    0x34, 0x2706E, 0x34, 0x2604E, 0x34, 0x2504B, 0x34, 0x24048, 0x34, 0x23045, 0x34, 0x22008,
    0x34, 0x21005, 0x34, 0x20002, 0xA0000000, 0x0, 0x34, 0x2ADF5, 0x34, 0x29DF2, 0x34, 0x28DEF,
    0x34, 0x27DEC, 0x34, 0x26DE9, 0x34, 0x25DE6, 0x34, 0x24DE3, 0x34, 0x238C8, 0x34, 0x228C5,
    0x34, 0x218C2, 0x34, 0x208C0, 0xB0000000, 0x0, 0x80000008, 0x0, 0x40000000, 0x0,
    0x34, 0xA0B2, 0x34, 0x90AF, 0x34, 0x8070, 0x34, 0x706D, 0x34, 0x6050, 0x34, 0x504D,
    0x34, 0x404A, 0x34, 0x3047, 0x34, 0x200A, 0x34, 0x1007, 0x34, 0x4, 0x90000008, 0x5000000,
    0x40000000, 0x0, 0x34, 0xA0B3, 0x34, 0x90B0, 0x34, 0x8070, 0x34, 0x706D, 0x34, 0x604D,
    0x34, 0x504A, 0x34, 0x4047, 0x34, 0x3044, 0x34, 0x2007, 0x34, 0x1004, 0x34, 0x1,
    0xA0000000, 0x0, 0x34, 0xAFF7, 0x34, 0x9DF7, 0x34, 0x8DF4, 0x34, 0x7DF1, 0x34, 0x6DEE,
    0x34, 0x5DEB, 0x34, 0x4DE8, 0x34, 0x38CC, 0x34, 0x28C9, 0x34, 0x18C6, 0x34, 0x8C3,
    0xB0000000, 0x0, 0xEF, 0x0, 0x80000008, 0x0, 0x40000000, 0x0, 0x18, 0x1712A, 0xEF, 0x40,
    0x35, 0x1C5, 0x35, 0x81C5, 0x35, 0x101C5, 0x35, 0x20174, 0x35, 0x28174, 0x35, 0x30174,
    0x35, 0x40185, 0x35, 0x48185, 0x35, 0x50185, 0xEF, 0x0, 0x90000008, 0x5000000,
    0x40000000, 0x0, 0x18, 0x1712A, 0xEF, 0x40, 0x35, 0x1C5, 0x35, 0x81C5, 0x35, 0x101C5,
    0x35, 0x20174, 0x35, 0x28174, 0x35, 0x30174, 0x35, 0x40185, 0x35, 0x48185, 0x35, 0x50185,
    0xEF, 0x0, 0xA0000000, 0x0, 0x18, 0x1712A, 0xEF, 0x40, 0x35, 0x188, 0x35, 0x8147,
    0x35, 0x10147, 0x35, 0x201D7, 0x35, 0x281D7, 0x35, 0x301D7, 0x35, 0x401D8, 0x35, 0x481D8,
    0x35, 0x501D8, 0xEF, 0x0, 0xB0000000, 0x0, 0x80000008, 0x0, 0x40000000, 0x0, 0x18, 0x1712A,
    0xEF, 0x10, 0x36, 0x5B8B, 0x36, 0xDB8B, 0x36, 0x15B8B, 0x36, 0x1DB8B, 0x36, 0x262DB,
    0x36, 0x2E2DB, 0x36, 0x362DB, 0x36, 0x3E2DB, 0x36, 0x4553B, 0x36, 0x4D53B, 0x36, 0x5553B,
    0x36, 0x5D53B, 0x90000008, 0x5000000, 0x40000000, 0x0, 0x18, 0x1712A, 0xEF, 0x10,
    0x36, 0x5B8B, 0x36, 0xDB8B, 0x36, 0x15B8B, 0x36, 0x1DB8B, 0x36, 0x262DB, 0x36, 0x2E2DB,
    0x36, 0x362DB, 0x36, 0x3E2DB, 0x36, 0x4553B, 0x36, 0x4D53B, 0x36, 0x5553B, 0x36, 0x5D53B,
    0xA0000000, 0x0, 0x18, 0x1712A, 0xEF, 0x10, 0x36, 0x84EB4, 0x36, 0x8CC35, 0x36, 0x94C35,
    0x36, 0x9CC35, 0x36, 0xA4C35, 0x36, 0xACC35, 0x36, 0xB4C35, 0x36, 0xBCC35, 0x36, 0xC4C34,
    0x36, 0xCCC35, 0x36, 0xD4C35, 0x36, 0xDCC35, 0xB0000000, 0x0, 0xEF, 0x0, 0xEF, 0x8,
    0x80000008, 0x0, 0x40000000, 0x0, 0x3C, 0x2DC, 0x3C, 0x524, 0x3C, 0x902,
    0x90000008, 0x5000000, 0x40000000, 0x0, 0x3C, 0x2DC, 0x3C, 0x524, 0x3C, 0x902,
    0xA0000000, 0x0, 0x3C, 0x2A8, 0x3C, 0x5A2, 0x3C, 0x880, 0xB0000000, 0x0, 0xEF, 0x0,
    0x18, 0x1712A, 0xEF, 0x2, 0xDF, 0x80, 0x80000008, 0x0, 0x40000000, 0x0, 0x61, 0xEAC43,
    0x62, 0x38F47, 0x63, 0x31157, 0x64, 0x1C4AC, 0x65, 0x931D1, 0x90000008, 0x5000000,
    0x40000000, 0x0, 0x61, 0xEAC43, 0x62, 0x38F47, 0x63, 0x31157, 0x64, 0x1C4AC, 0x65, 0x931D2,
    0x90000002, 0x0, 0x40000000, 0x0, 0x61, 0xEAC43, 0x62, 0x38F47, 0x63, 0x31157, 0x64, 0x1C4AC,
    0x65, 0x931D1, 0xA0000000, 0x0, 0x61, 0xE5D53, 0x62, 0x38FCD, 0x63, 0x114EB, 0x64, 0x196AC,
    0x65, 0x911D7, 0xB0000000, 0x0, 0x8, 0x8400]"

definition rtw8812a_mac_tbl :: rtw_table where
  "rtw8812a_mac_tbl = \<lparr>tbl_data = rtw8812a_mac, tbl_do_cfg = CfgMac, tbl_rf_path = 0\<rparr>"

definition rtw8812a_agc_tbl :: rtw_table where
  "rtw8812a_agc_tbl = \<lparr>tbl_data = rtw8812a_agc, tbl_do_cfg = CfgAgc, tbl_rf_path = 0\<rparr>"

definition rtw8812a_agc_diff_lb_tbl :: rtw_table where
  "rtw8812a_agc_diff_lb_tbl = \<lparr>tbl_data = rtw8812a_agc_diff_lb, tbl_do_cfg = CfgAgc, tbl_rf_path = 0\<rparr>"

definition rtw8812a_agc_diff_hb_tbl :: rtw_table where
  "rtw8812a_agc_diff_hb_tbl = \<lparr>tbl_data = rtw8812a_agc_diff_hb, tbl_do_cfg = CfgAgc, tbl_rf_path = 0\<rparr>"

definition rtw8812a_bb_tbl :: rtw_table where
  "rtw8812a_bb_tbl = \<lparr>tbl_data = rtw8812a_bb, tbl_do_cfg = CfgBb, tbl_rf_path = 0\<rparr>"

definition rtw8812a_rf_a_tbl :: rtw_table where
  "rtw8812a_rf_a_tbl = \<lparr>tbl_data = rtw8812a_rf_a, tbl_do_cfg = CfgRf, tbl_rf_path = 0\<rparr>"

definition rtw8812a_rf_b_tbl :: rtw_table where
  "rtw8812a_rf_b_tbl = \<lparr>tbl_data = rtw8812a_rf_b, tbl_do_cfg = CfgRf, tbl_rf_path = 1\<rparr>"

end
