(* ===== verification/PhyTable.thy ===== *)
theory PhyTable
  imports Phy Tables8812a
begin

text \<open>
  The table format of \<open>rtw_parse_tbl_phy_cond\<close> as structured choices. The parser walks a flat
  list with two flags; here a table is a list of plain entries and if/elif/else choices, and
  the parser is shown to apply exactly the entries of the arms whose condition holds.
\<close>

section \<open>Structured tables\<close>


lemma for_each_append: "for_each (xs @ ys) f = State_Monad.bind (for_each xs f) (\<lambda>_. for_each ys f)"
  by (induction xs) (simp_all add: skip_def)

datatype tbl_item =
    Plain phy_tile
  | Choose "phy_tile \<times> phy_tile list" "(phy_tile \<times> phy_tile list) list" "phy_tile list option"

definition cond_of :: "phy_tile \<Rightarrow> rtw_phy_cond \<times> rtw_phy_cond2" where
  "cond_of w = (phy_cond_of (fst w), phy_cond2_of (snd w))"

definition arm_tiles :: "phy_tile \<times> phy_tile list \<Rightarrow> phy_tile list" where
  "arm_tiles arm = fst arm # (0x40000000, 0) # snd arm"

fun encode_item :: "tbl_item \<Rightarrow> phy_tile list" where
  "encode_item (Plain w) = [w]"
| "encode_item (Choose arm arms els) =
     concat (map arm_tiles (arm # arms)) @
     (case els of None \<Rightarrow> [] | Some body \<Rightarrow> (0xA0000000, 0) # body) @ [(0xB0000000, 0)]"

fun select_item :: "(rtw_phy_cond \<times> rtw_phy_cond2 \<Rightarrow> bool) \<Rightarrow> tbl_item \<Rightarrow> phy_tile list" where
  "select_item check (Plain w) = [w]"
| "select_item check (Choose arm arms els) =
     (case find (\<lambda>a. check (cond_of (fst a))) (arm # arms) of
        Some a \<Rightarrow> snd a
      | None \<Rightarrow> (case els of None \<Rightarrow> [] | Some body \<Rightarrow> body))"

definition plain_tile :: "phy_tile \<Rightarrow> bool" where
  "plain_tile w \<longleftrightarrow> \<not> bit (fst w) 31 \<and> \<not> bit (fst w) 30"

definition arm_ok :: "phy_tile \<times> phy_tile list \<Rightarrow> bool" where
  "arm_ok arm \<longleftrightarrow> bit (fst (fst arm)) 31 \<and> pc_branch (phy_cond_of (fst (fst arm))) \<in> {BRANCH_IF, BRANCH_ELIF}
     \<and> list_all plain_tile (snd arm)"

fun item_ok :: "tbl_item \<Rightarrow> bool" where
  "item_ok (Plain w) \<longleftrightarrow> plain_tile w"
| "item_ok (Choose arm arms els) \<longleftrightarrow> arm_ok arm \<and> list_all arm_ok arms \<and> list_all plain_tile (case els of None \<Rightarrow> [] | Some b \<Rightarrow> b)"

lemma pc_simps [simp]:
  "pc_pos (phy_cond_of w) = bit w 31" "pc_neg (phy_cond_of w) = bit w 30"
  by (simp_all add: phy_cond_of_def)

lemma branch_simps [simp]:
  "pc_branch (phy_cond_of 0xA0000000) = BRANCH_ELSE" "pc_branch (phy_cond_of 0xB0000000) = BRANCH_ENDIF"
  "BRANCH_ELSE \<noteq> BRANCH_ENDIF" "BRANCH_IF \<noteq> BRANCH_ENDIF" "BRANCH_IF \<noteq> BRANCH_ELSE"
  "BRANCH_ELIF \<noteq> BRANCH_ENDIF" "BRANCH_ELIF \<noteq> BRANCH_ELSE"
  by (simp_all add: phy_cond_of_def cond_field_def BRANCH_ELSE_def BRANCH_ENDIF_def BRANCH_IF_def BRANCH_ELIF_def)

section \<open>The parser on structured tables\<close>

lemma parse_plain:
  assumes "list_all plain_tile body"
  shows "parse_tiles check do_cfg (body @ ps) st =
    (if is_matched st then State_Monad.bind (for_each body (\<lambda>(a, d). do_cfg a d)) (\<lambda>_. parse_tiles check do_cfg ps st)
     else parse_tiles check do_cfg ps st)"
  using assms by (induction body) (auto simp: plain_tile_def skip_def)

lemma parse_arm:
  assumes "arm_ok arm"
  shows "parse_tiles check do_cfg (arm_tiles arm @ ps) st =
    (if is_skipped st then parse_tiles check do_cfg ps (st\<lparr>pos_cond := cond_of (fst arm), is_matched := False\<rparr>)
     else if check (cond_of (fst arm))
     then State_Monad.bind (for_each (snd arm) (\<lambda>(a, d). do_cfg a d))
            (\<lambda>_. parse_tiles check do_cfg ps (st\<lparr>pos_cond := cond_of (fst arm), is_matched := True, is_skipped := True\<rparr>))
     else parse_tiles check do_cfg ps (st\<lparr>pos_cond := cond_of (fst arm), is_matched := False, is_skipped := False\<rparr>))"
proof -
  obtain w v body where arm: "arm = ((w, v), body)"
    by (cases arm) auto
  from assms have ok: "bit w 31" "pc_branch (phy_cond_of w) \<noteq> BRANCH_ENDIF" "pc_branch (phy_cond_of w) \<noteq> BRANCH_ELSE"
      "list_all plain_tile body"
    by (auto simp: arm_ok_def arm)
  show ?thesis
    using ok(1-3)
    by (simp add: arm arm_tiles_def cond_of_def Let_def parse_plain [OF ok(4)])
qed

lemma parse_arms_skipped:
  assumes "list_all arm_ok arms" and "is_skipped st" and "\<not> is_matched st \<or> arms \<noteq> []"
  shows "\<exists>c. parse_tiles check do_cfg (concat (map arm_tiles arms) @ ps) st =
    parse_tiles check do_cfg ps (st\<lparr>pos_cond := c, is_matched := False\<rparr>)"
  using assms
proof (induction arms arbitrary: st)
  case Nil
  then have "st = st\<lparr>pos_cond := pos_cond st, is_matched := False\<rparr>"
    by (cases st) simp
  then show ?case by (metis append_Nil concat.simps(1) list.simps(8))
next
  case (Cons arm arms)
  then show ?case
    using Cons.IH [of "st\<lparr>pos_cond := cond_of (fst arm), is_matched := False\<rparr>"]
    by (simp add: parse_arm)
qed

text \<open>The arms of one choice, entered while no arm has been taken yet.\<close>

lemma parse_arms:
  assumes "list_all arm_ok arms" and "\<not> is_skipped st" and "arms \<noteq> []"
  shows "case find (\<lambda>a. check (cond_of (fst a))) arms of
      Some a \<Rightarrow> \<exists>c b. parse_tiles check do_cfg (concat (map arm_tiles arms) @ ps) st =
        State_Monad.bind (for_each (snd a) (\<lambda>(a, d). do_cfg a d))
          (\<lambda>_. parse_tiles check do_cfg ps (st\<lparr>pos_cond := c, is_matched := b, is_skipped := True\<rparr>))
    | None \<Rightarrow> \<exists>c. parse_tiles check do_cfg (concat (map arm_tiles arms) @ ps) st =
        parse_tiles check do_cfg ps (st\<lparr>pos_cond := c, is_matched := False, is_skipped := False\<rparr>)"
  using assms
proof (induction arms arbitrary: st)
  case (Cons arm arms)
  have ok: "arm_ok arm" "list_all arm_ok arms"
    using Cons.prems(1) by simp_all
  show ?case
  proof (cases "check (cond_of (fst arm))")
    case True
    let ?st = "st\<lparr>pos_cond := cond_of (fst arm), is_matched := True, is_skipped := True\<rparr>"
    obtain c b where "parse_tiles check do_cfg (concat (map arm_tiles arms) @ ps) ?st =
        parse_tiles check do_cfg ps (st\<lparr>pos_cond := c, is_matched := b, is_skipped := True\<rparr>)"
    proof (cases "arms = []")
      case True
      then show ?thesis by (intro that [where c = "cond_of (fst arm)" and b = True]) simp
    next
      case False
      then obtain c where "parse_tiles check do_cfg (concat (map arm_tiles arms) @ ps) ?st =
          parse_tiles check do_cfg ps (?st\<lparr>pos_cond := c, is_matched := False\<rparr>)"
        using parse_arms_skipped [OF ok(2), of ?st check do_cfg ps] by auto
      then show ?thesis
        by (intro that [where c = c and b = False]) (cases st, simp)
    qed
    with True Cons.prems(2) show ?thesis
      by (simp add: parse_arm [OF ok(1)] del: split_paired_Ex) (intro exI [of _ c] exI [of _ b] refl)
  next
    case False
    let ?st = "st\<lparr>pos_cond := cond_of (fst arm), is_matched := False, is_skipped := False\<rparr>"
    show ?thesis
    proof (cases "arms = []")
      case True
      with False Cons.prems(2) show ?thesis
        by (simp add: parse_arm [OF ok(1)] del: split_paired_Ex) (intro exI [of _ "cond_of (fst arm)"] refl)
    next
      case ne: False
      have "parse_tiles check do_cfg (concat (map arm_tiles (arm # arms)) @ ps) st =
          parse_tiles check do_cfg (concat (map arm_tiles arms) @ ps) ?st"
        using False Cons.prems(2) by (simp add: parse_arm [OF ok(1)])
      moreover note Cons.IH [OF ok(2) _ ne, of ?st]
      ultimately show ?thesis
        using False by (simp del: split_paired_Ex split_paired_All split: option.splits)
    qed
  qed
qed simp

lemma parse_item:
  assumes "item_ok item" and "is_matched st" and "\<not> is_skipped st"
  shows "\<exists>c. parse_tiles check do_cfg (encode_item item @ ps) st =
    State_Monad.bind (for_each (select_item check item) (\<lambda>(a, d). do_cfg a d))
      (\<lambda>_. parse_tiles check do_cfg ps (st\<lparr>pos_cond := c, is_matched := True, is_skipped := False\<rparr>))"
proof (cases item)
  case (Plain w)
  with assms show ?thesis
    by (intro exI [of _ "pos_cond st"], cases w, cases st) (auto simp: plain_tile_def skip_def)
next
  case (Choose arm arms els)
  let ?body = "case els of None \<Rightarrow> [] | Some body \<Rightarrow> (0xA0000000, 0) # body"
  have ok: "list_all arm_ok (arm # arms)" "list_all plain_tile (case els of None \<Rightarrow> [] | Some b \<Rightarrow> b)"
    using assms(1) by (simp_all add: Choose)
  note arms = parse_arms [OF ok(1) assms(3), of check do_cfg "?body @ (0xB0000000, 0) # ps"]
  have enc: "encode_item item @ ps = concat (map arm_tiles (arm # arms)) @ ?body @ (0xB0000000, 0) # ps"
    by (simp add: Choose)
  have tail: "\<exists>c'. parse_tiles check do_cfg (?body @ (0xB0000000, 0) # ps)
      (st\<lparr>pos_cond := c, is_matched := b, is_skipped := sk\<rparr>) =
      State_Monad.bind (for_each (if sk \<or> els = None then [] else the els) (\<lambda>(a, d). do_cfg a d))
        (\<lambda>_. parse_tiles check do_cfg ps (st\<lparr>pos_cond := c', is_matched := True, is_skipped := False\<rparr>))"
    for c b sk
  proof (cases els)
    case None
    then show ?thesis
      by (intro exI [of _ c]) (simp add: skip_def)
  next
    case (Some body)
    then show ?thesis
      using parse_plain [OF ok(2), of check do_cfg "(0xB0000000, 0) # ps"]
      by (intro exI [of _ c]) (auto simp: skip_def)
  qed
  show ?thesis
  proof (cases "find (\<lambda>a. check (cond_of (fst a))) (arm # arms)")
    case None
    with arms obtain c where "parse_tiles check do_cfg (encode_item item @ ps) st =
        parse_tiles check do_cfg (?body @ (0xB0000000, 0) # ps) (st\<lparr>pos_cond := c, is_matched := False, is_skipped := False\<rparr>)"
      unfolding enc by auto
    moreover obtain c' where "parse_tiles check do_cfg (?body @ (0xB0000000, 0) # ps)
        (st\<lparr>pos_cond := c, is_matched := False, is_skipped := False\<rparr>) =
      State_Monad.bind (for_each (if els = None then [] else the els) (\<lambda>(a, d). do_cfg a d))
        (\<lambda>_. parse_tiles check do_cfg ps (st\<lparr>pos_cond := c', is_matched := True, is_skipped := False\<rparr>))"
      using tail [where c = c and b = False and sk = False] by (auto simp del: split_paired_Ex)
    moreover have "select_item check item = (if els = None then [] else the els)"
      using None by (cases els) (simp_all add: Choose del: find.simps)
    ultimately show ?thesis
      by (intro exI [of _ c']) simp
  next
    case (Some a)
    with arms obtain c b where "parse_tiles check do_cfg (encode_item item @ ps) st =
        State_Monad.bind (for_each (snd a) (\<lambda>(a, d). do_cfg a d))
          (\<lambda>_. parse_tiles check do_cfg (?body @ (0xB0000000, 0) # ps) (st\<lparr>pos_cond := c, is_matched := b, is_skipped := True\<rparr>))"
      unfolding enc by auto
    moreover obtain c' where "parse_tiles check do_cfg (?body @ (0xB0000000, 0) # ps)
        (st\<lparr>pos_cond := c, is_matched := b, is_skipped := True\<rparr>) =
        parse_tiles check do_cfg ps (st\<lparr>pos_cond := c', is_matched := True, is_skipped := False\<rparr>)"
      using tail [where c = c and b = b and sk = True] by (auto simp: skip_def simp del: split_paired_Ex)
    moreover have "select_item check item = snd a"
      using Some by (simp add: Choose del: find.simps)
    ultimately show ?thesis
      by (intro exI [of _ c']) simp
  qed
qed

lemma parse_tiles_items:
  assumes "list_all item_ok items"
  shows "parse_tiles check do_cfg (concat (map encode_item items)) parse_start =
    for_each (concat (map (select_item check) items)) (\<lambda>(a, d). do_cfg a d)"
proof -
  have "parse_tiles check do_cfg (concat (map encode_item items)) st =
      for_each (concat (map (select_item check) items)) (\<lambda>(a, d). do_cfg a d)"
    if "is_matched st" "\<not> is_skipped st" for st
    using assms that
  proof (induction items arbitrary: st)
    case (Cons item items)
    obtain c where c: "parse_tiles check do_cfg (encode_item item @ concat (map encode_item items)) st =
        State_Monad.bind (for_each (select_item check item) (\<lambda>(a, d). do_cfg a d))
          (\<lambda>_. parse_tiles check do_cfg (concat (map encode_item items))
             (st\<lparr>pos_cond := c, is_matched := True, is_skipped := False\<rparr>))"
      using parse_item [of item st check do_cfg "concat (map encode_item items)"] Cons.prems by auto
    show ?case
      using c Cons.IH Cons.prems(1) by (simp add: for_each_append)
  qed simp
  then show ?thesis
    by (simp add: parse_start_def)
qed
section \<open>Recognising structured tables\<close>

datatype table_part = TopPart | NegPart | ArmPart | ElsePart

definition arm_tile :: "phy_tile \<Rightarrow> bool" where
  "arm_tile w \<longleftrightarrow> bit (fst w) 31 \<and> pc_branch (phy_cond_of (fst w)) \<in> {BRANCH_IF, BRANCH_ELIF}"

fun table_part_ok :: "table_part \<Rightarrow> phy_tile list \<Rightarrow> bool" where
  "table_part_ok p [] \<longleftrightarrow> p = TopPart"
| "table_part_ok TopPart (w # ws) \<longleftrightarrow>
     (if plain_tile w then table_part_ok TopPart ws else arm_tile w \<and> table_part_ok NegPart ws)"
| "table_part_ok NegPart (w # ws) \<longleftrightarrow> w = (0x40000000, 0) \<and> table_part_ok ArmPart ws"
| "table_part_ok ArmPart (w # ws) \<longleftrightarrow>
     (if plain_tile w then table_part_ok ArmPart ws
      else if w = (0xA0000000, 0) then table_part_ok ElsePart ws
      else if w = (0xB0000000, 0) then table_part_ok TopPart ws
      else arm_tile w \<and> table_part_ok NegPart ws)"
| "table_part_ok ElsePart (w # ws) \<longleftrightarrow>
     (if plain_tile w then table_part_ok ElsePart ws
      else w = (0xB0000000, 0) \<and> table_part_ok TopPart ws)"

definition table_ok :: "u32 list \<Rightarrow> bool" where
  "table_ok ws \<longleftrightarrow> table_part_ok TopPart (tiles_of ws)"

text \<open>What remains of a table in the middle of an arm, and in an else arm.\<close>

definition items_tiles :: "tbl_item list \<Rightarrow> phy_tile list \<Rightarrow> bool" where
  "items_tiles items ws \<longleftrightarrow> list_all item_ok items \<and> ws = concat (map encode_item items)"

definition else_tiles :: "phy_tile list \<Rightarrow> bool" where
  "else_tiles ws \<longleftrightarrow> (\<exists>body items rest. list_all plain_tile body \<and> items_tiles items rest
     \<and> ws = body @ (0xB0000000, 0) # rest)"

definition arms_tiles :: "phy_tile list \<Rightarrow> bool" where
  "arms_tiles ws \<longleftrightarrow> (\<exists>body arms els items rest. list_all plain_tile body \<and> list_all arm_ok arms
     \<and> list_all plain_tile (case els of None \<Rightarrow> [] | Some b \<Rightarrow> b) \<and> items_tiles items rest
     \<and> ws = body @ concat (map arm_tiles arms) @ (case els of None \<Rightarrow> [] | Some b \<Rightarrow> (0xA0000000, 0) # b)
            @ (0xB0000000, 0) # rest)"

lemma arms_tiles_arm:
  assumes "arm_tile w" and "arms_tiles ws"
  shows "\<exists>arm arms els items rest. fst arm = w \<and> arm_ok arm \<and> list_all arm_ok arms
     \<and> list_all plain_tile (case els of None \<Rightarrow> [] | Some b \<Rightarrow> b) \<and> items_tiles items rest
     \<and> w # (0x40000000, 0) # ws = concat (map arm_tiles (arm # arms))
         @ (case els of None \<Rightarrow> [] | Some b \<Rightarrow> (0xA0000000, 0) # b) @ (0xB0000000, 0) # rest"
proof -
  from assms(2) obtain body arms els items rest where
    *: "list_all plain_tile body" "list_all arm_ok arms"
      "list_all plain_tile (case els of None \<Rightarrow> [] | Some b \<Rightarrow> b)" "items_tiles items rest"
      "ws = body @ concat (map arm_tiles arms) @ (case els of None \<Rightarrow> [] | Some b \<Rightarrow> (0xA0000000, 0) # b)
            @ (0xB0000000, 0) # rest"
    unfolding arms_tiles_def by blast
  show ?thesis
    by (intro exI [of _ "(w, body)"] exI [of _ arms] exI [of _ els] exI [of _ items] exI [of _ rest])
      (use * assms(1) in \<open>simp add: arm_ok_def arm_tile_def arm_tiles_def\<close>)
qed

lemma table_part_ok_sound:
  "table_part_ok p ws \<Longrightarrow>
     (case p of TopPart \<Rightarrow> \<exists>items. items_tiles items ws
      | NegPart \<Rightarrow> \<exists>ws'. ws = (0x40000000, 0) # ws' \<and> arms_tiles ws'
      | ArmPart \<Rightarrow> arms_tiles ws
      | ElsePart \<Rightarrow> else_tiles ws)"
proof (induction p ws rule: table_part_ok.induct)
  case (1 p)
  then show ?case by (auto simp: items_tiles_def intro: exI [of _ "[]"])
next
  case (2 w ws)
  show ?case
  proof (cases "plain_tile w")
    case True
    with 2 obtain items where "items_tiles items ws"
      by auto
    with True show ?thesis
      by (auto simp: items_tiles_def intro: exI [of _ "Plain w # items"])
  next
    case False
    with 2 obtain ws' where ws': "ws = (0x40000000, 0) # ws'" "arms_tiles ws'" "arm_tile w"
      by auto
    from arms_tiles_arm [OF ws'(3,2)] obtain arm arms els items rest where
      *: "fst arm = w" "arm_ok arm" "list_all arm_ok arms"
        "list_all plain_tile (case els of None \<Rightarrow> [] | Some b \<Rightarrow> b)" "items_tiles items rest"
        "w # ws = concat (map arm_tiles (arm # arms))
         @ (case els of None \<Rightarrow> [] | Some b \<Rightarrow> (0xA0000000, 0) # b) @ (0xB0000000, 0) # rest"
      unfolding ws'(1) by blast
    then show ?thesis
      by (auto simp: items_tiles_def intro!: exI [of _ "Choose arm arms els # items"])
  qed
next
  case (3 w ws)
  then show ?case by auto
next
  case (4 w ws)
  consider "plain_tile w" "arms_tiles ws" | "w = (0xA0000000, 0)" "else_tiles ws"
    | "w = (0xB0000000, 0)" "\<exists>items. items_tiles items ws"
    | "arm_tile w" "\<exists>ws'. ws = (0x40000000, 0) # ws' \<and> arms_tiles ws'"
    using 4 by (auto split: if_splits)
  then show ?case
  proof cases
    case 1
    from 1(2) obtain body arms els items rest where
      "list_all plain_tile body" "list_all arm_ok arms"
      "list_all plain_tile (case els of None \<Rightarrow> [] | Some b \<Rightarrow> b)" "items_tiles items rest"
      "ws = body @ concat (map arm_tiles arms) @ (case els of None \<Rightarrow> [] | Some b \<Rightarrow> (0xA0000000, 0) # b)
            @ (0xB0000000, 0) # rest"
      unfolding arms_tiles_def by blast
    with 1(1) show ?thesis
      unfolding arms_tiles_def table_part.case
      by (intro exI [of _ "w # body"] exI [of _ arms] exI [of _ els] exI [of _ items] exI [of _ rest]) simp
  next
    case 2
    from 2(2) obtain body items rest where
      "list_all plain_tile body" "items_tiles items rest" "ws = body @ (0xB0000000, 0) # rest"
      unfolding else_tiles_def by blast
    with 2(1) show ?thesis
      unfolding arms_tiles_def table_part.case
      by (intro exI [of _ "[]"] exI [of _ "Some body"] exI [of _ items] exI [of _ rest]) simp
  next
    case 3
    then obtain items where "items_tiles items ws"
      by blast
    with 3(1) show ?thesis
      unfolding arms_tiles_def table_part.case
      by (intro exI [of _ "[]"] exI [of _ None] exI [of _ items] exI [of _ ws]) simp
  next
    case 4
    then obtain ws' where ws': "ws = (0x40000000, 0) # ws'" "arms_tiles ws'"
      by blast
    from arms_tiles_arm [OF 4(1) ws'(2)] obtain arm arms els items rest where
      "arm_ok arm" "list_all arm_ok arms"
        "list_all plain_tile (case els of None \<Rightarrow> [] | Some b \<Rightarrow> b)" "items_tiles items rest"
        "w # ws = concat (map arm_tiles (arm # arms))
         @ (case els of None \<Rightarrow> [] | Some b \<Rightarrow> (0xA0000000, 0) # b) @ (0xB0000000, 0) # rest"
      unfolding ws'(1) by blast
    then show ?thesis
      unfolding arms_tiles_def table_part.case
      by (intro exI [of _ "[]"] exI [of _ "arm # arms"] exI [of _ els] exI [of _ items] exI [of _ rest]) simp
  qed
next
  case (5 w ws)
  show ?case
  proof (cases "plain_tile w")
    case True
    with 5 obtain body items rest where
      "list_all plain_tile body" "items_tiles items rest" "ws = body @ (0xB0000000, 0) # rest"
      by (auto simp: else_tiles_def)
    with True show ?thesis
      unfolding else_tiles_def table_part.case
      by (intro exI [of _ "w # body"] exI [of _ items] exI [of _ rest]) simp
  next
    case False
    with 5 obtain items where "w = (0xB0000000, 0)" "items_tiles items ws"
      by auto
    then show ?thesis
      unfolding else_tiles_def table_part.case
      by (intro exI [of _ "[]"] exI [of _ items] exI [of _ ws]) simp
  qed
qed

text \<open>
  Property C31. Loading a well-formed table is the same as applying, in order, the entries of
  its structured form: every plain entry, and of every choice the first arm whose condition
  holds, or else its else arm.
\<close>

theorem rtw_load_table_equivalence:
  assumes "table_ok (tbl_data tbl)"
  shows "\<exists>items. list_all item_ok items \<and> tiles_of (tbl_data tbl) = concat (map encode_item items)
    \<and> (\<forall>s. run_state (rtw_load_table tbl) s =
         run_state (for_each (concat (map (select_item
             (check_positive (ci_id (chip s), hal_phy_cond (hal s), hal_phy_cond2 (hal s)))) items))
           (\<lambda>(a, d). table_do_cfg tbl a d)) s)"
proof -
  obtain items where "list_all item_ok items" "tiles_of (tbl_data tbl) = concat (map encode_item items)"
    using assms table_part_ok_sound [of TopPart] by (auto simp: table_ok_def items_tiles_def)
  then show ?thesis
    by (intro exI [of _ items]) (simp add: rtw_load_table_def rtw_parse_tbl_phy_cond_def parse_tiles_items)
qed

section \<open>The tables of the RTL8812A\<close>

lemma table_ok_mac: "table_ok rtw8812a_mac"
  by code_simp

lemma table_ok_agc: "table_ok rtw8812a_agc"
  by code_simp

lemma table_ok_agc_diff_lb: "table_ok rtw8812a_agc_diff_lb"
  by code_simp

lemma table_ok_agc_diff_hb: "table_ok rtw8812a_agc_diff_hb"
  by code_simp

lemma table_ok_bb: "table_ok rtw8812a_bb"
  by code_simp

lemma table_ok_rf_a: "table_ok rtw8812a_rf_a"
  by code_simp

lemma table_ok_rf_b: "table_ok rtw8812a_rf_b"
  by code_simp

lemmas table_ok_8812a = table_ok_mac table_ok_agc table_ok_agc_diff_lb table_ok_agc_diff_hb table_ok_bb table_ok_rf_a table_ok_rf_b

text \<open>
  All register tables of the RTL8812A are well formed: their choices are closed,
  not nested, and no entry is left outside the format.
\<close>

lemma tables_8812a_ok:
  "list_all (\<lambda>tbl. table_ok (tbl_data tbl))
     [rtw8812a_mac_tbl, rtw8812a_agc_tbl, rtw8812a_agc_diff_lb_tbl, rtw8812a_agc_diff_hb_tbl,
      rtw8812a_bb_tbl, rtw8812a_rf_a_tbl, rtw8812a_rf_b_tbl]"
  by (simp add: table_ok_8812a
    rtw8812a_mac_tbl_def rtw8812a_agc_tbl_def rtw8812a_agc_diff_lb_tbl_def rtw8812a_agc_diff_hb_tbl_def rtw8812a_bb_tbl_def rtw8812a_rf_a_tbl_def rtw8812a_rf_b_tbl_def)

lemma rtw_load_table_equivalence_witness:
  "\<exists>items. list_all item_ok items \<and> tiles_of rtw8812a_mac = concat (map encode_item items)
    \<and> (\<forall>s :: nat rtw_phy. run_state (rtw_load_table rtw8812a_mac_tbl) s =
         run_state (for_each (concat (map (select_item
             (check_positive (ci_id (chip s), hal_phy_cond (hal s), hal_phy_cond2 (hal s)))) items))
           (\<lambda>(a, d). rtw_phy_cfg_mac a d)) s)"
  using rtw_load_table_equivalence [of rtw8812a_mac_tbl] table_ok_mac
  by (simp add: rtw8812a_mac_tbl_def table_do_cfg_def)

end
