(* ===== verification/Xxa.thy ===== *)
theory Xxa
  imports Phy Efuse
begin

text \<open>
  Powering an RTL8812A or RTL8821A on and off (\<open>rtw88xxa.c\<close>): the reset of a chip that was
  left running, the link list of the transmit buffer, queue and page setup, the baseband and
  RF configuration and the switch between the bands. The operations of the host interface
  and of the coexistence code are parameters.
\<close>

section \<open>Reset\<close>

definition rtw88xxa_reset_8051 :: "('x, unit) dev" where
  "rtw88xxa_reset_8051 =
     do { c \<leftarrow> dev_get (\<lambda>s. ci_id (chip s));
          rtw_write8_clr REG_RSV_CTRL (BIT 1);
          rtw_write8_clr (REG_RSV_CTRL + 1) (if c = RTW_CHIP_TYPE_8812A then BIT 3 else BIT 0);
          val8 \<leftarrow> rtw_read8 (REG_SYS_FUNC_EN + 1);
          rtw_write8 (REG_SYS_FUNC_EN + 1) (val8 AND NOT (BIT 2));
          rtw_write8_clr REG_RSV_CTRL (BIT 1);
          rtw_write8_set (REG_RSV_CTRL + 1) (if c = RTW_CHIP_TYPE_8812A then BIT 3 else BIT 0);
          rtw_write8 (REG_SYS_FUNC_EN + 1) (val8 OR BIT 2) }"

text \<open>\<open>APS_FSMCO_MAC_OFF >> 8\<close> and \<open>APS_FSMCO_MAC_ENABLE >> 8\<close>.\<close>

definition APS_FSMCO_MAC_OFF_HI :: u8 where
  "APS_FSMCO_MAC_OFF_HI = ucast (drop_bit 8 (APS_FSMCO_MAC_OFF :: u32))"

definition APS_FSMCO_MAC_ENABLE_HI :: u8 where
  "APS_FSMCO_MAC_ENABLE_HI = ucast (drop_bit 8 (APS_FSMCO_MAC_ENABLE :: u32))"

definition rtw88xxau_hw_reset :: "('x, unit) dev" where
  "rtw88xxau_hw_reset =
     do { v \<leftarrow> rtw_read8 REG_MCUFW_CTRL;
          if v AND BIT_RAM_DL_SEL = 0 then skip
          else do {
            rtw88xxa_reset_8051;
            rtw_write8 REG_MCUFW_CTRL 0x00;
            rtw_write32_set REG_FPGA0_XCD_RF_PARA (BIT 6);
            rtw_write8_clr REG_SYS_FUNC_EN (BIT 0 OR BIT 1);
            rtw_write8 REG_RF_CTRL 0;
            rtw_write16 REG_CR 0;
            rtw_write8_set (REG_APS_FSMCO + 1) APS_FSMCO_MAC_OFF_HI;
            n \<leftarrow> dev_get (\<lambda>s. poll_max s 5000);
            (val8, _) \<leftarrow> read_poll8 n 1 (REG_APS_FSMCO + 1) (\<lambda>v. v AND APS_FSMCO_MAC_OFF_HI = 0);
            rtw_write8 (REG_APS_FSMCO + 1) (val8 OR APS_FSMCO_MAC_ENABLE_HI);
            rtw_write8_clr (REG_SYS_FUNC_EN + 1) (BIT 4 OR BIT 7);
            rtw_write8_set (REG_SYS_FUNC_EN + 1) (BIT 4 OR BIT 7) } }"

definition rtw88xxau_init_power_on :: "('x, int) dev" where
  "rtw88xxau_init_power_on =
     do { seq' \<leftarrow> dev_get (\<lambda>s. ci_pwr_on_seq (chip s));
          c \<leftarrow> dev_get (\<lambda>s. ci_id (chip s));
          ret \<leftarrow> rtw_pwr_seq_parser seq';
          if ret \<noteq> 0 then State_Monad.return ret
          else do {
            rtw_write16 REG_CR 0;
            rtw_write16_set REG_CR
              (BIT_HCI_TXDMA_EN OR BIT_HCI_RXDMA_EN OR BIT_TXDMA_EN OR BIT_RXDMA_EN OR
               BIT_PROTOCOL_EN OR BIT_SCHEDULE_EN OR BIT_MAC_SEC_EN OR BIT_32K_CAL_TMR_EN);
            when_do (c = RTW_CHIP_TYPE_8821A)
              (do { v \<leftarrow> rtw_read8 (REG_SYS_CFG1 + 3);
                    when_do (v AND BIT 0 \<noteq> 0) (rtw_write8_set REG_LDO_SWR_CTRL (BIT 6)) });
            State_Monad.return ret } }"

section \<open>The link list of the transmit buffer\<close>

text \<open>
  \<open>while (++count)\<close> with the test \<open>count > 20\<close> inside: 22 reads at most, \<open>count\<close> from 0 to 21.
\<close>

fun llt_poll :: "nat \<Rightarrow> ('x hw_scheme, int) state" where
  "llt_poll 0 = State_Monad.return (- EBUSY)"
| "llt_poll (Suc n) =
     do { v \<leftarrow> rtw_read32_mask REG_LLT_INIT (BIT 31 OR BIT 30);
          if v = 0 then State_Monad.return 0 else llt_poll n }"

definition rtw88xxa_llt_write :: "u32 \<Rightarrow> u32 \<Rightarrow> ('x hw_scheme, int) state" where
  "rtw88xxa_llt_write address dat =
     do { rtw_write32 REG_LLT_INIT (BIT_LLT_WRITE_ACCESS OR push_bit 8 address OR dat);
          llt_poll 22 }"

text \<open>A run of entries, each of which points to the next one.\<close>

fun llt_chain :: "u32 list \<Rightarrow> ('x, int) dev" where
  "llt_chain [] = State_Monad.return 0"
| "llt_chain (i # is) = then_do (rtw88xxa_llt_write i (i + 1)) (llt_chain is)"

definition rtw88xxa_llt_init :: "u32 \<Rightarrow> ('x, int) dev" where
  "rtw88xxa_llt_init boundary =
     then_do (llt_chain (map of_nat [0..<unat (boundary - 1)]))
       (then_do (rtw88xxa_llt_write (boundary - 1) 0xFF)
          (then_do (llt_chain (map of_nat [unat boundary..<255]))
             (rtw88xxa_llt_write 255 boundary)))"

section \<open>Pages and queues\<close>

text \<open>The page table row. \<open>None\<close> is the null pointer the switch leaves, which is read all the same.\<close>

definition rtw88xxau_init_queue_reserved_page :: "('x, unit option) dev" where
  "rtw88xxau_init_queue_reserved_page =
     do { row \<leftarrow> dev_get (\<lambda>s. hci_table_row (hci_type s) (hci_bulkout_num s));
          case row of None \<Rightarrow> State_Monad.return None
          | Some i \<Rightarrow>
              do { pg_tbl \<leftarrow> dev_get (\<lambda>s. ci_page_table (chip s) ! i);
                   acq \<leftarrow> dev_get (\<lambda>s. acq_pg_num (fifo s));
                   rtw_write32 REG_RQPN_NPQ (BIT_RQPN_NE (nq_num pg_tbl) (exq_num pg_tbl));
                   rtw_write32 REG_RQPN
                     (BIT_RQPN_HLP (hq_num pg_tbl) (lq_num pg_tbl)
                        (acq - hq_num pg_tbl - lq_num pg_tbl - nq_num pg_tbl - exq_num pg_tbl - gapq_num pg_tbl));
                   State_Monad.return (Some ()) } }"

definition rtw88xxau_init_tx_buffer_boundary :: "('x, unit) dev" where
  "rtw88xxau_init_tx_buffer_boundary =
     do { b \<leftarrow> dev_get (\<lambda>s. ucast (rsvd_boundary (fifo s)));
          rtw_write8 REG_BCNQ_BDNY b;
          rtw_write8 REG_MGQ_BDNY b;
          rtw_write8 REG_WMAC_LBK_BF_HD b;
          rtw_write8 REG_TRXFF_BNDY b;
          rtw_write8 (REG_DWBCN0_CTRL + 1) b }"

definition rtw88xxau_init_queue_priority :: "('x, int) dev" where
  "rtw88xxau_init_queue_priority =
     do { row \<leftarrow> dev_get (\<lambda>s. hci_table_row (hci_type s) (hci_bulkout_num s));
          case row of None \<Rightarrow> State_Monad.return (- EINVAL)
          | Some i \<Rightarrow>
              do { rqpn \<leftarrow> dev_get (\<lambda>s. ci_rqpn_table (chip s) ! i);
                   dev_upd (\<lambda>s. s\<lparr>fifo := (fifo s)\<lparr>fifo_rqpn := Some rqpn\<rparr>\<rparr>);
                   v \<leftarrow> rtw_read16 REG_TXDMA_PQ_MAP;
                   rtw_write16 REG_TXDMA_PQ_MAP ((v AND 0x7) OR txdma_pq_map_of rqpn);
                   usb4 \<leftarrow> dev_get (\<lambda>s. hci_type s = RTW_HCI_TYPE_USB \<and> hci_bulkout_num s = 4);
                   when_do usb4 (rtw_write8 REG_HIQ_NO_LMT_EN 0xff);
                   State_Monad.return 0 } }"

section \<open>MAC settings\<close>

definition rtw88xxa_init_wmac_setting :: "('e, 'x, unit) phy" where
  "rtw88xxa_init_wmac_setting =
     do { rtw_write16 REG_RXFLTMAP0 0xffff;
          hal_upd (\<lambda>h. h\<lparr>hal_rxfltmap1 := 0x0400\<rparr>);
          f \<leftarrow> dev_get (\<lambda>s. hal_rxfltmap1 (hal s));
          rtw_write16 REG_RXFLTMAP1 f;
          rtw_write16 REG_RXFLTMAP2 0xffff;
          rtw_write32 REG_MAR 0xffffffff;
          rtw_write32 (REG_MAR + 4) 0xffffffff }"

definition rtw88xxa_init_adaptive_ctrl :: "('x hw_scheme, unit) state" where
  "rtw88xxa_init_adaptive_ctrl =
     do { rtw_write32_mask REG_RRSR 0xfffff 0xffff1;
          rtw_write16 REG_RETRY_LIMIT 0x3030 }"

definition rtw88xxa_init_edca :: "('x hw_scheme, unit) state" where
  "rtw88xxa_init_edca =
     do { rtw_write16 REG_SPEC_SIFS 0x100a;
          rtw_write16 REG_MAC_SPEC_SIFS 0x100a;
          rtw_write16 REG_SIFS 0x100a;
          rtw_write16 (REG_SIFS + 2) 0x100a;
          rtw_write32 REG_EDCA_BE_PARAM 0x005EA42B;
          rtw_write32 REG_EDCA_BK_PARAM 0x0000A44F;
          rtw_write32 REG_EDCA_VI_PARAM 0x005EA324;
          rtw_write32 REG_EDCA_VO_PARAM 0x002FA226;
          rtw_write8 REG_USTIME_TSF 0x50;
          rtw_write8 REG_USTIME_EDCA 0x50 }"

definition rtw88xxau_tx_aggregation :: "('x, unit) dev" where
  "rtw88xxau_tx_aggregation =
     do { n \<leftarrow> dev_get (\<lambda>s. ci_usb_tx_agg_desc_num (chip s));
          c \<leftarrow> dev_get (\<lambda>s. ci_id (chip s));
          rtw_write32_mask REG_DWBCN0_CTRL 0xf0 (ucast n);
          when_do (c = RTW_CHIP_TYPE_8821A) (rtw_write8 REG_DWBCN1_CTRL (push_bit 1 n)) }"

definition rtw88xxa_init_beacon_parameters :: "('e, 'x, unit) phy" where
  "rtw88xxa_init_beacon_parameters =
     do { bt \<leftarrow> dev_get (\<lambda>s. ef_btcoex (efuse s));
          rtw_write16 REG_BCN_CTRL
            (push_bit 8 BIT_DIS_TSF_UDT OR BIT_DIS_TSF_UDT OR (if bt then BIT_EN_BCN_FUNCTION else 0));
          rtw_write32_mask REG_TBTT_PROHIBIT 0xfffff WLAN_TBTT_TIME;
          rtw_write8 REG_DRVERLYINT 0x05;
          rtw_write8 REG_BCNDMATIM WLAN_BCN_DMA_TIME;
          rtw_write16 REG_BCNTCFG 0x4413 }"

section \<open>Baseband and RF\<close>

definition rtw88xxa_phy_bb_config :: "('e, 'x, unit) phy" where
  "rtw88xxa_phy_bb_config =
     do { t \<leftarrow> dev_get hci_type;
          c \<leftarrow> dev_get (\<lambda>s. ci_id (chip s));
          v \<leftarrow> rtw_read8 REG_SYS_FUNC_EN;
          let v1 = (if t = RTW_HCI_TYPE_USB then v OR BIT_FEN_USBA
                    else if t = RTW_HCI_TYPE_PCIE then v OR BIT_FEN_PCIEA else v);
          rtw_write8 REG_SYS_FUNC_EN v1;
          rtw_write8 REG_SYS_FUNC_EN (v1 OR (BIT_FEN_BB_RSTB OR BIT_FEN_BB_GLB_RST));
          rtw_write8 REG_RF_CTRL (BIT_RF_EN OR BIT_RF_RSTB OR BIT_RF_SDM_RSTB);
          rtw_write8 REG_RF_B_CTRL (BIT_RF_EN OR BIT_RF_RSTB OR BIT_RF_SDM_RSTB);
          bb \<leftarrow> dev_get (\<lambda>s. cp_bb_tbl (chip_phy s));
          agc \<leftarrow> dev_get (\<lambda>s. cp_agc_tbl (chip_phy s));
          rtw_load_table bb;
          rtw_load_table agc;
          cap \<leftarrow> dev_get (\<lambda>s. ucast (ef_crystal_cap (efuse s) AND 0x3F) :: u32);
          rtw_write32_mask REG_AFE_CTRL3 (if c = RTW_CHIP_TYPE_8812A then 0x7FF80000 else 0x00FFF000)
            (cap OR push_bit 6 cap) }"

definition rtw88xxa_phy_rf_config :: "('e, 'x, unit) phy" where
  "rtw88xxa_phy_rf_config =
     for_paths (\<lambda>path. do { tbl \<leftarrow> dev_get (\<lambda>s. cp_rf_tbl (chip_phy s) ! path); rtw_load_table tbl })"

definition rtw8812a_config_1t :: "('x hw_scheme, unit) state" where
  "rtw8812a_config_1t =
     do { rtw_write32_mask REG_RXPSEL 0xff 0x11;
          rtw_write32_mask REG_TXPSEL MASKLWORD 0x1111;
          rtw_write32_mask REG_CCK_RX 0x0c000000 0x0;
          rtw_write32_mask REG_RX_MCS_LIMIT 0xc0000060 0x4;
          rtw_write32_mask REG_3WIRE_SWB 0xf 0x4;
          rtw_write32_mask REG_LSSI_WRITE_B MASKDWORD 0;
          rtw_write32_mask REG_AFE_PWR1_B MASKDWORD 0;
          rtw_write32_mask REG_AFE_PWR2_B MASKDWORD 0 }"

end
