(* ===== verification/XxaBand.thy ===== *)
theory XxaBand
  imports Xxa
begin

text \<open>
  The baseband swing, the front end and the switch between the 2.4 and 5 GHz bands
  (\<open>rtw88xxa.c\<close>).
\<close>

section \<open>Transmit scale\<close>

definition rtw88xxa_txscale_tbl :: "u32 list" where
  "rtw88xxa_txscale_tbl =
     [0x081, 0x088, 0x090, 0x099, 0x0a2, 0x0ac, 0x0b6, 0x0c0, 0x0cc, 0x0d8,
      0x0e5, 0x0f2, 0x101, 0x110, 0x120, 0x131, 0x143, 0x156, 0x16a, 0x180,
      0x197, 0x1af, 0x1c8, 0x1e3, 0x200, 0x21e, 0x23e, 0x261, 0x285, 0x2ab,
      0x2d3, 0x2fe, 0x32b, 0x35c, 0x38e, 0x3c4, 0x3fe]"

definition rtw88xxa_get_bb_swing :: "rtw_efuse \<Rightarrow> u8 \<Rightarrow> nat \<Rightarrow> u32" where
  "rtw88xxa_get_bb_swing e band path =
     (let tx_bb_swing = (if band = RTW_BAND_2G then ef_tx_bb_swing_setting_2g e
                         else ef_tx_bb_swing_setting_5g e);
          tx_bb_swing = (if path = RF_PATH_B then drop_bit 2 tx_bb_swing else tx_bb_swing)
      in [0x200, 0x16a, 0x101, 0x0b6] ! unat (tx_bb_swing AND 0x3))"

fun swing_index_from :: "u32 list \<Rightarrow> u32 \<Rightarrow> u8 \<Rightarrow> u8" where
  "swing_index_from [] swing i = 24"
| "swing_index_from (v # vs) swing i = (if swing = v then i else swing_index_from vs swing (i + 1))"

definition rtw88xxa_get_swing_index :: "rtw_efuse \<Rightarrow> rtw_hal \<Rightarrow> u8" where
  "rtw88xxa_get_swing_index e h =
     swing_index_from rtw88xxa_txscale_tbl (rtw88xxa_get_bb_swing e (hal_current_band_type h) RF_PATH_A) 0"

definition rtw88xxa_pwrtrack_init :: "('e, 'x, unit) phy" where
  "rtw88xxa_pwrtrack_init =
     do { e \<leftarrow> dev_get efuse;
          h \<leftarrow> dev_get hal;
          c \<leftarrow> dev_get (\<lambda>s. ci_id (chip s));
          e0 \<leftarrow> dev_get thermal_init;
          dm_upd (\<lambda>d. d\<lparr>dm_default_ofdm_index := rtw88xxa_get_swing_index e h,
            dm_default_cck_index := (if c = RTW_CHIP_TYPE_8821A then 0 else 24)\<rparr>);
          for_paths (\<lambda>path. dm_upd (\<lambda>d. d\<lparr>dm_avg_thermal := (dm_avg_thermal d)(path := e0),
            dm_delta_power_index := (dm_delta_power_index d)(path := 0),
            dm_delta_power_index_last := (dm_delta_power_index_last d)(path := 0)\<rparr>));
          dm_upd (\<lambda>d. d\<lparr>dm_pwr_trk_triggered := False, dm_pwr_trk_init_trigger := True,
            dm_thermal_meter_k := ef_thermal_meter_k e\<rparr>) }"

definition rtw88xxa_set_channel_bb_swing :: "u8 \<Rightarrow> ('e, 'x, unit) phy" where
  "rtw88xxa_set_channel_bb_swing band =
     do { e \<leftarrow> dev_get efuse;
          rtw_write32_mask REG_TXSCALE_A BB_SWING_MASK (rtw88xxa_get_bb_swing e band RF_PATH_A);
          rtw_write32_mask REG_TXSCALE_B BB_SWING_MASK (rtw88xxa_get_bb_swing e band RF_PATH_B);
          rtw88xxa_pwrtrack_init }"

section \<open>Front end of the RTL8821A\<close>

definition rtw8821a_set_ext_band_switch :: "u8 \<Rightarrow> ('x hw_scheme, unit) state" where
  "rtw8821a_set_ext_band_switch band =
     do { rtw_write32_mask REG_LED_CFG BIT_DPDT_SEL_EN 0;
          rtw_write32_mask REG_LED_CFG BIT_DPDT_WL_SEL 1;
          rtw_write32_mask REG_RFE_INV_A 0xf 7;
          rtw_write32_mask REG_RFE_INV_A 0xf0 7;
          rtw_write32_mask REG_RFE_INV_A (BIT 29 OR BIT 28) (if band = RTW_BAND_2G then 1 else 2) }"

definition rtw8821a_bypass_lna :: "('x hw_scheme, unit) state" where
  "rtw8821a_bypass_lna =
     do { rtw_write32_mask REG_RFE_INV_A (BIT 20) 0;
          rtw_write32_mask REG_RFE_INV_A (BIT 22) 0;
          rtw_write32_mask REG_RFE_PINMUX_A (GENMASK 2 0) 0x7;
          rtw_write32_mask REG_RFE_PINMUX_A (GENMASK 10 8) 0x7 }"

definition rtw8821a_phy_set_rfe_reg_24g :: "('e, 'x, unit) phy" where
  "rtw8821a_phy_set_rfe_reg_24g =
     do { lna \<leftarrow> dev_get (\<lambda>s. ef_ext_lna_2g (efuse s));
          rtw_write32_mask REG_RFE_PINMUX_A 0xF000 0x7;
          rtw_write32_mask REG_RFE_PINMUX_A 0xF0 0x7;
          if lna
          then do { rtw_write32_mask REG_RFE_INV_A (BIT 20) 1;
                    rtw_write32_mask REG_RFE_INV_A (BIT 22) 0;
                    rtw_write32_mask REG_RFE_PINMUX_A (GENMASK 2 0) 0x2;
                    rtw_write32_mask REG_RFE_PINMUX_A (GENMASK 10 8) 0x2 }
          else rtw8821a_bypass_lna }"

definition rtw8821a_phy_set_rfe_reg_5g :: "('x hw_scheme, unit) state" where
  "rtw8821a_phy_set_rfe_reg_5g =
     do { rtw_write32_mask REG_RFE_PINMUX_A 0xF000 0x5;
          rtw_write32_mask REG_RFE_PINMUX_A 0xF0 0x4;
          rtw8821a_bypass_lna }"

section \<open>Front end of the RTL8812A\<close>

text \<open>The four writes most of the cases are made of.\<close>

definition rfe_regs :: "u32 \<Rightarrow> u32 \<Rightarrow> ('x hw_scheme, unit) state" where
  "rfe_regs pinmux invr =
     do { rtw_write32 REG_RFE_PINMUX_A pinmux;
          rtw_write32 REG_RFE_PINMUX_B pinmux;
          rtw_write32_mask REG_RFE_INV_A RFE_INV_MASK invr;
          rtw_write32_mask REG_RFE_INV_B RFE_INV_MASK invr }"

definition rtw8812a_phy_set_rfe_reg_24g :: "('e, 'x, unit) phy" where
  "rtw8812a_phy_set_rfe_reg_24g =
     do { rfe \<leftarrow> dev_get (\<lambda>s. ef_rfe_option (efuse s));
          bt \<leftarrow> dev_get (\<lambda>s. ef_btcoex (efuse s));
          if rfe = 0 \<or> rfe = 2 then rfe_regs 0x77777777 0x000
          else if rfe = 1
          then if bt
               then do { rtw_write32_mask REG_RFE_PINMUX_A 0xffffff 0x777777;
                         rtw_write32 REG_RFE_PINMUX_B 0x77777777;
                         rtw_write32_mask REG_RFE_INV_A 0x33f00000 0x000;
                         rtw_write32_mask REG_RFE_INV_B RFE_INV_MASK 0x000 }
               else rfe_regs 0x77777777 0x000
          else if rfe = 3
          then do { rfe_regs 0x54337770 0x010;
                    rtw_write32_mask REG_ANTSEL_SW 0x00000303 0x1 }
          else if rfe = 4 then rfe_regs 0x77777777 0x001
          else if rfe = 5
          then do { rtw_write8 (REG_RFE_PINMUX_A + 2) 0x77;
                    rtw_write32 REG_RFE_PINMUX_B 0x77777777;
                    rtw_write8_clr (REG_RFE_INV_A + 3) (BIT 0);
                    rtw_write32_mask REG_RFE_INV_B RFE_INV_MASK 0x000 }
          else if rfe = 6
          then do { rtw_write32 REG_RFE_PINMUX_A 0x07772770;
                    rtw_write32 REG_RFE_PINMUX_B 0x07772770;
                    rtw_write32 REG_RFE_INV_A 0x00000077;
                    rtw_write32 REG_RFE_INV_B 0x00000077 }
          else skip }"

definition rtw8812a_phy_set_rfe_reg_5g :: "('e, 'x, unit) phy" where
  "rtw8812a_phy_set_rfe_reg_5g =
     do { rfe \<leftarrow> dev_get (\<lambda>s. ef_rfe_option (efuse s));
          bt \<leftarrow> dev_get (\<lambda>s. ef_btcoex (efuse s));
          if rfe = 0 then rfe_regs 0x77337717 0x010
          else if rfe = 1
          then if bt
               then do { rtw_write32_mask REG_RFE_PINMUX_A 0xffffff 0x337717;
                         rtw_write32 REG_RFE_PINMUX_B 0x77337717;
                         rtw_write32_mask REG_RFE_INV_A 0x33f00000 0x000;
                         rtw_write32_mask REG_RFE_INV_B RFE_INV_MASK 0x000 }
               else rfe_regs 0x77337717 0x000
          else if rfe = 2 \<or> rfe = 4 then rfe_regs 0x77337777 0x010
          else if rfe = 3
          then do { rfe_regs 0x54337717 0x010;
                    rtw_write32_mask REG_ANTSEL_SW 0x00000303 0x1 }
          else if rfe = 5
          then do { rtw_write8 (REG_RFE_PINMUX_A + 2) 0x33;
                    rtw_write32 REG_RFE_PINMUX_B 0x77337777;
                    rtw_write8_set (REG_RFE_INV_A + 3) (BIT 0);
                    rtw_write32_mask REG_RFE_INV_B RFE_INV_MASK 0x010 }
          else if rfe = 6
          then do { rtw_write32 REG_RFE_PINMUX_A 0x07737717;
                    rtw_write32 REG_RFE_PINMUX_B 0x07737717;
                    rtw_write32 REG_RFE_INV_A 0x00000077;
                    rtw_write32 REG_RFE_INV_B 0x00000077 }
          else skip }"

section \<open>Switching bands\<close>

text \<open>\<open>BIT(DESC_RATE1M) | ...\<close>: the basic rates of the two bands.\<close>

definition basic_rates_5g :: u32 where
  "basic_rates_5g = BIT 4 OR BIT 6 OR BIT 8"

definition basic_rates_2g :: u32 where
  "basic_rates_2g = BIT 0 OR BIT 1 OR BIT 2 OR BIT 3 OR basic_rates_5g"

definition rtw88xxa_switch_band :: "u8 \<Rightarrow> u8 \<Rightarrow> ('e, 'x, unit) phy" where
  "rtw88xxa_switch_band new_band width =
     do { c \<leftarrow> dev_get (\<lambda>s. ci_id (chip s));
          e \<leftarrow> dev_get efuse;
          rf_type \<leftarrow> dev_get (\<lambda>s. hal_rf_type (hal s));
          when_do (c = RTW_CHIP_TYPE_8821A \<and> \<not> ef_btcoex e \<and> ef_ant_div_cfg e = 0)
            (rtw8821a_set_ext_band_switch new_band);
          (if new_band = RTW_BAND_2G
           then do {
             rtw_write32_set REG_RXPSEL BIT_RX_PSEL_RST;
             (if c = RTW_CHIP_TYPE_8821A
              then do { rtw8821a_phy_set_rfe_reg_24g;
                        rtw_write32_mask REG_TXSCALE_A 0xf00 0 }
              else do { rtw_write32_mask REG_BWINDICATION 0x3 0x1;
                        rtw_write32_mask REG_PDMFTH (GENMASK 17 13) 0x17;
                        rtw_write32_mask REG_PDMFTH (GENMASK 3 1)
                          (if width = RTW_CHANNEL_WIDTH_20 \<and> rf_type = RF_1T1R \<and> \<not> ef_ext_lna_2g e
                           then 0x02 else 0x04);
                        rtw_write32_mask REG_CCASEL 0x3 0;
                        rtw8812a_phy_set_rfe_reg_24g });
             rtw_write32_mask REG_TXPSEL 0xf0 0x1;
             rtw_write32_mask REG_CCK_RX 0x0f000000 0x1;
             rtw_write32_mask REG_RRSR 0xfffff basic_rates_2g;
             rtw_write8_clr REG_CCK_CHECK BIT_CHECK_CCK_EN }
           else do {
             when_do (c = RTW_CHIP_TYPE_8821A) rtw8821a_phy_set_rfe_reg_5g;
             rtw_write8_set REG_CCK_CHECK BIT_CHECK_CCK_EN;
             n \<leftarrow> dev_get (\<lambda>s. poll_max s 2500);
             _ \<leftarrow> read_poll16 n 50 REG_TXPKT_EMPTY (\<lambda>v. v AND 0x30 = 0x30);
             rtw_write32_set REG_RXPSEL BIT_RX_PSEL_RST;
             (if c = RTW_CHIP_TYPE_8821A
              then rtw_write32_mask REG_TXSCALE_A 0xf00 1
              else do { rtw_write32_mask REG_BWINDICATION 0x3 0x2;
                        rtw_write32_mask REG_PDMFTH (GENMASK 17 13) 0x15;
                        rtw_write32_mask REG_PDMFTH (GENMASK 3 1) 0x04;
                        rtw_write32_mask REG_CCASEL 0x3 1;
                        rtw8812a_phy_set_rfe_reg_5g });
             rtw_write32_mask REG_TXPSEL 0xf0 0;
             rtw_write32_mask REG_CCK_RX 0x0f000000 0xf;
             rtw_write32_mask REG_RRSR 0xfffff basic_rates_5g });
          rtw88xxa_set_channel_bb_swing new_band }"

end
