(* ===== verification/XxaPower.thy ===== *)
theory XxaPower
  imports XxaBand
begin

text \<open>
  \<open>rtw88xxa_power_on\<close> and \<open>rtw88xxa_power_off\<close>, step by step. \<open>rtw_phy_init\<close> and the operations of
  the host interface and of the coexistence code are parameters.
\<close>

definition rtw88xxa_power_off ::
    "('e, 'x) rtw_phy_scheme rtw_hci_ops \<Rightarrow> rtw_pwr_seq_cmd list list \<Rightarrow> ('e, 'x, unit) phy" where
  "rtw88xxa_power_off ops enter_lps_flow =
     do { reg_cr \<leftarrow> rtw_read8 REG_CR;
          if reg_cr = 0 \<or> reg_cr = 0xEA then skip
          else do {
            op_stop ops;
            btcoex \<leftarrow> dev_get (\<lambda>s. ef_btcoex (efuse s));
            when_do (\<not> btcoex) (rtw_write16_clr REG_GPIO_MUXCFG BIT_EN_SIC);
            super \<leftarrow> dev_get (\<lambda>s. hci_type s = RTW_HCI_TYPE_USB \<and> usb_super_speed s);
            when_do super (rtw_write8_set REG_USB_MOD 0x18);
            rtw_write32 REG_HISR0 0xffffffff;
            rtw_write32 REG_HISR1 0xffffffff;
            rtw_write32 REG_HIMR0 0;
            rtw_write32 REG_HIMR1 0;
            when_do btcoex (op_coex_power_off ops);
            ori_fsmc0 \<leftarrow> rtw_read16 REG_APS_FSMCO;
            rtw_write16 REG_APS_FSMCO (ori_fsmc0 AND NOT APS_FSMCO_HW_POWERDOWN);
            rtw_write8_clr REG_TX_RPT_CTRL (BIT 1);
            rtw_write8 REG_CR 0;
            _ \<leftarrow> rtw_pwr_seq_parser enter_lps_flow;
            v \<leftarrow> rtw_read8 REG_MCUFW_CTRL;
            when_do (v AND BIT_RAM_DL_SEL \<noteq> 0) rtw88xxa_reset_8051;
            rtw_write8_clr (REG_SYS_FUNC_EN + 1) (BIT 2);
            rtw_write8 REG_MCUFW_CTRL 0;
            off \<leftarrow> dev_get (\<lambda>s. ci_pwr_off_seq (chip s));
            _ \<leftarrow> rtw_pwr_seq_parser off;
            when_do (ori_fsmc0 AND APS_FSMCO_HW_POWERDOWN \<noteq> 0)
              (rtw_write16_set REG_APS_FSMCO APS_FSMCO_HW_POWERDOWN);
            dev_upd (\<lambda>s. s\<lparr>flag_poweron := False\<rparr>) } }"

definition rtw8812a_power_off :: "('e, 'x) rtw_phy_scheme rtw_hci_ops \<Rightarrow> ('e, 'x, unit) phy" where
  "rtw8812a_power_off ops = rtw88xxa_power_off ops enter_lps_flow_8812a"

section \<open>Power on\<close>

text \<open>The part before the firmware: on an error here the chip is not switched off again.\<close>

definition power_on_mac :: "('e, 'x) rtw_phy_scheme rtw_hci_ops \<Rightarrow> ('e, 'x, int) phy" where
  "power_on_mac ops =
     do { c \<leftarrow> dev_get (\<lambda>s. ci_id (chip s));
          t \<leftarrow> dev_get hci_type;
          when_do (c = RTW_CHIP_TYPE_8821A)
            (do { v \<leftarrow> rtw_read32_mask REG_WL_BT_PWR_CTRL BIT_BT_FUNC_EN;
                  efuse_upd (\<lambda>e. e\<lparr>ef_btcoex := v \<noteq> 0\<rparr>) });
          when_do (c = RTW_CHIP_TYPE_8812A) (efuse_upd rtw8812a_read_amplifier_type);
          then_do (op_setup ops)
            (do { when_do (t = RTW_HCI_TYPE_USB \<and> c = RTW_CHIP_TYPE_8812A)
                    (do { rtw_write8 REG_RF_CTRL 5;
                          rtw_write8 REG_RF_CTRL 7;
                          rtw_write8 REG_RF_B_CTRL 5;
                          rtw_write8 REG_RF_B_CTRL 7 });
                  rtw88xxau_hw_reset;
                  then_do rtw88xxau_init_power_on
                    (then_do rtw_set_trx_fifo_info
                       (do { b \<leftarrow> dev_get (\<lambda>s. ucast (rsvd_boundary (fifo s)));
                             rtw88xxa_llt_init b })) }) }"

definition power_on_firmware :: "('e, 'x) rtw_phy_scheme rtw_hci_ops \<Rightarrow> ('e, 'x, int) phy" where
  "power_on_firmware ops =
     do { rtw_write32_set REG_TXDMA_OFFSET_CHK BIT_DROP_DATA_EN;
          ret \<leftarrow> dev_get fw_wait_ret;
          then_do (State_Monad.return ret)
            (do { fw \<leftarrow> dev_get fw_blob;
                  rtw_download_firmware (op_write_data_rsvd_page ops) (op_write_firmware_page ops)
                    (op_setup ops) (op_recover_bt ops) fw }) }"

definition power_on_queues :: "('e, 'x, unit option) phy" where
  "power_on_queues =
     do { rtw_write8 REG_HMETFR 0xf;
          mac_tbl \<leftarrow> dev_get (\<lambda>s. cp_mac_tbl (chip_phy s));
          rtw_load_table mac_tbl;
          r \<leftarrow> rtw88xxau_init_queue_reserved_page;
          case r of None \<Rightarrow> State_Monad.return None
          | Some _ \<Rightarrow>
              do { rtw88xxau_init_tx_buffer_boundary;
                   _ \<leftarrow> rtw88xxau_init_queue_priority;
                   State_Monad.return (Some ()) } }"

definition power_on_settings :: "('e, 'x) rtw_phy_scheme rtw_hci_ops \<Rightarrow> ('e, 'x, unit) phy" where
  "power_on_settings ops =
     do { c \<leftarrow> dev_get (\<lambda>s. ci_id (chip s));
          t \<leftarrow> dev_get hci_type;
          super \<leftarrow> dev_get usb_super_speed;
          rxff \<leftarrow> dev_get (\<lambda>s. ci_rxff_size (chip s));
          rtw_write16 (REG_TRXFF_BNDY + 2) (ucast (rxff - REPORT_BUF - 1));
          when_do (c = RTW_CHIP_TYPE_8812A)
            (rtw_write8 REG_PBP (encode_bits PBP_512 PBP_TX_MASK OR encode_bits PBP_64 PBP_RX_MASK));
          rtw_write8 REG_RX_DRVINFO_SZ PHY_STATUS_SIZE;
          rtw_write32 REG_HIMR0 0;
          rtw_write32 REG_HIMR1 0;
          rtw_write32_mask REG_CR 0x30000 0x2;
          rtw88xxa_init_wmac_setting;
          rtw88xxa_init_adaptive_ctrl;
          rtw88xxa_init_edca;
          rtw_write8_set REG_FWHW_TXQ_CTRL (BIT 7);
          rtw_write8 REG_ACKTO 0x80;
          when_do (t = RTW_HCI_TYPE_USB) rtw88xxau_tx_aggregation;
          rtw88xxa_init_beacon_parameters;
          rtw_write8 REG_BCN_MAX_ERR 0xff;
          op_interface_cfg ops;
          when_do (t = RTW_HCI_TYPE_USB) (rtw_write8 REG_USB3_RXITV 0x01);
          rtw_write16 REG_RXDMA_STATUS 0x7400;
          rtw_write8 (REG_RXDMA_STATUS + 1) 0xf5;
          rtw_write8 REG_AMPDU_MAX_TIME (if c = RTW_CHIP_TYPE_8821A then 0x5e else 0x70);
          rtw_write32 REG_AMPDU_MAX_LENGTH 0xffffffff;
          rtw_write8 REG_USTIME_TSF 0x50;
          rtw_write8 REG_USTIME_EDCA 0x50;
          when_do (t = RTW_HCI_TYPE_USB \<and> super) (rtw_write8_clr REG_USB_MOD (BIT 4 OR BIT 3));
          rtw_write8_set REG_SINGLE_AMPDU_CTRL BIT_EN_SINGLE_APMDU;
          rtw_write8 REG_RX_PKT_LIMIT 0x18;
          rtw_write8 REG_PIFS 0x00;
          (if c = RTW_CHIP_TYPE_8821A
           then do { rtw_write16 REG_MAX_AGGR_NUM 0x1f1f;
                     rtw_write8 REG_FWHW_TXQ_CTRL 0x80;
                     rtw_write32 REG_FAST_EDCA_CTRL 0x03087777 }
           else do { rtw_write16 REG_MAX_AGGR_NUM 0x1f1f;
                     rtw_write8_clr REG_FWHW_TXQ_CTRL (BIT 7) });
          rtw_write8_set REG_RSV_CTRL (BIT 5 OR BIT 6);
          rtw_write32 REG_ARFR0 0x00000010;
          rtw_write32 REG_ARFRH0 0xfffff000;
          rtw_write32 REG_ARFR1_V1 0x00000010;
          rtw_write32 REG_ARFRH1_V1 0x003ff000;
          rtw_write32 REG_ARFR2_V1 0x00000015;
          rtw_write32 REG_ARFRH2_V1 0x003ff000;
          rtw_write32 REG_ARFR3_V1 0x00000015;
          rtw_write32 REG_ARFRH3_V1 0xffcff000;
          rtw_write8_set REG_CR (BIT_MACTXEN OR BIT_MACRXEN) }"

definition power_on_phy :: "('e, 'x, unit) phy \<Rightarrow> ('e, 'x, unit) phy" where
  "power_on_phy phy_init =
     do { c \<leftarrow> dev_get (\<lambda>s. ci_id (chip s));
          t \<leftarrow> dev_get hci_type;
          rtw88xxa_phy_bb_config;
          rtw88xxa_phy_rf_config;
          n \<leftarrow> dev_get (\<lambda>s. hal_rf_path_num (hal s));
          when_do (c = RTW_CHIP_TYPE_8812A \<and> n = 1) rtw8812a_config_1t;
          rtw88xxa_switch_band RTW_BAND_2G RTW_CHANNEL_WIDTH_20;
          rtw_write32 RTW_SEC_CMD_REG (BIT 31 OR BIT 30);
          rtw_write8 REG_HWSEQ_CTRL 0xff;
          rtw_write32 REG_BAR_MODE_CTRL 0x0201ffff;
          rtw_write8 (REG_NAV_CTRL + 2) 0;
          when_do (t = RTW_HCI_TYPE_USB) (rtw_write8_clr REG_GPIO_MUXCFG BIT_BT_PTA_EN);
          phy_init;
          rtw88xxa_pwrtrack_init;
          rtw_write8_clr REG_QUEUE_CTRL (BIT 3);
          rtw_write8 (REG_FWHW_TXQ_CTRL + 1) 0x0f;
          rtw_write8 (REG_EARLY_MODE_CONTROL + 3) 0x01;
          rtw_write16 REG_TX_RPT_TIME 0x3df0;
          when_do (t = RTW_HCI_TYPE_USB)
            (do { rtw_write8 REG_SYS_SDIO_CTRL 0x0;
                  rtw_write8 REG_ACLK_MON 0x0;
                  rtw_write8 REG_USB_HRPWM 0 });
          rtw_write32_set REG_FWHW_TXQ_CTRL (BIT 12);
          v \<leftarrow> rtw_read32_mask REG_CCK_RPT_FORMAT BIT_CCK_RPT_FORMAT;
          hal_upd (\<lambda>h. h\<lparr>hal_cck_high_power := v \<noteq> 0\<rparr>) }"

text \<open>
  The whole routine; \<open>None\<close> is the null pointer dereference of \<open>rtw88xxau_init_queue_reserved_page\<close>.
\<close>

definition rtw88xxa_power_on ::
    "('e, 'x) rtw_phy_scheme rtw_hci_ops \<Rightarrow> ('e, 'x, unit) phy \<Rightarrow> ('e, 'x, unit) phy \<Rightarrow> ('e, 'x, int option) phy" where
  "rtw88xxa_power_on ops phy_init power_off =
     do { powered \<leftarrow> dev_get flag_poweron;
          if powered then State_Monad.return (Some 0)
          else do {
            ret \<leftarrow> power_on_mac ops;
            if ret \<noteq> 0 then State_Monad.return (Some ret)
            else do {
              ret \<leftarrow> power_on_firmware ops;
              if ret \<noteq> 0 then do { power_off; State_Monad.return (Some ret) }
              else do {
                r \<leftarrow> power_on_queues;
                case r of None \<Rightarrow> State_Monad.return None
                | Some _ \<Rightarrow>
                    do { power_on_settings ops;
                         power_on_phy phy_init;
                         ret \<leftarrow> op_start ops;
                         if ret \<noteq> 0 then do { power_off; State_Monad.return (Some ret) }
                         else do {
                           btcoex \<leftarrow> dev_get (\<lambda>s. ef_btcoex (efuse s));
                           when_do btcoex (op_coex_power_on ops);
                           dev_upd (\<lambda>s. s\<lparr>flag_poweron := True\<rparr>);
                           State_Monad.return (Some 0) } } } } } }"

end
