(* ===== verification/XxaChannel.thy ===== *)
theory XxaChannel
  imports XxaBand
begin

text \<open>Setting the channel of an RTL8812A or RTL8821A (\<open>rtw88xxa.c\<close>).\<close>

definition rtw8812a_phy_fix_spur :: "u8 \<Rightarrow> u8 \<Rightarrow> ('x, unit) dev" where
  "rtw8812a_phy_fix_spur channel width =
     do { cut' \<leftarrow> dev_get cut_version;
          if cut' = RTW_CHIP_VER_CUT_C
          then do {
            rtw_write32_mask REG_ADCCLK 0xC00
              (if width = RTW_CHANNEL_WIDTH_40 \<and> channel = 11 then 0x3 else 0x2);
            if width = RTW_CHANNEL_WIDTH_20 \<and> (channel = 13 \<or> channel = 14)
            then do { rtw_write32_mask REG_ADCCLK 0x300 0x3;
                      rtw_write32_mask REG_ADC160 (BIT 30) 1 }
            else if width = RTW_CHANNEL_WIDTH_40 \<and> channel = 11
            then rtw_write32_mask REG_ADC160 (BIT 30) 1
            else if width \<noteq> RTW_CHANNEL_WIDTH_80
            then do { rtw_write32_mask REG_ADCCLK 0x300 0x2;
                      rtw_write32_mask REG_ADC160 (BIT 30) 0 }
            else skip }
          else if width = RTW_CHANNEL_WIDTH_20 \<and> (channel = 13 \<or> channel = 14)
          then rtw_write32_mask REG_ADCCLK 0x300 0x3
          else if channel \<le> 14 then rtw_write32_mask REG_ADCCLK 0x300 0x2
          else skip }"

definition fc_area_of :: "u8 \<Rightarrow> u32" where
  "fc_area_of channel =
     (if 36 \<le> channel \<and> channel \<le> 48 then 0x494
      else if 50 \<le> channel \<and> channel \<le> 64 then 0x453
      else if 100 \<le> channel \<and> channel \<le> 116 then 0x452
      else if 118 \<le> channel then 0x412
      else 0x96a)"

definition rf_mod_ag_of :: "u8 \<Rightarrow> u32" where
  "rf_mod_ag_of channel =
     (if 36 \<le> channel \<and> channel \<le> 64 then 0x101
      else if 100 \<le> channel \<and> channel \<le> 140 then 0x301
      else if 140 < channel then 0x501
      else 0x000)"

definition rtw88xxa_switch_channel :: "u8 \<Rightarrow> u8 \<Rightarrow> ('e, 'x, unit) phy" where
  "rtw88xxa_switch_channel channel width =
     do { c \<leftarrow> dev_get (\<lambda>s. ci_id (chip s));
          rtw_write32_mask REG_CLKTRK 0x1ffe0000 (fc_area_of channel);
          for_paths (\<lambda>path.
            do { rtw_write_rf path RF_CFGCH (RF18_RFSI_MASK OR RF18_BAND_MASK) (rf_mod_ag_of channel);
                 when_do (c = RTW_CHIP_TYPE_8812A) (rtw8812a_phy_fix_spur channel width);
                 rtw_write_rf path RF_CFGCH RF18_CHANNEL_MASK (ucast channel) }) }"

definition rtw88xxa_set_reg_bw :: "u8 \<Rightarrow> ('x hw_scheme, unit) state" where
  "rtw88xxa_set_reg_bw width =
     do { v \<leftarrow> rtw_read16 REG_WMAC_TRXPTCL_CTL;
          let v1 = v AND NOT BIT_RFMOD;
          rtw_write16 REG_WMAC_TRXPTCL_CTL
            (if width = RTW_CHANNEL_WIDTH_80 then v1 OR BIT_RFMOD_80M
             else if width = RTW_CHANNEL_WIDTH_40 then v1 OR BIT_RFMOD_40M
             else v1) }"

definition txsc_of :: "u8 \<Rightarrow> u8 \<Rightarrow> u8" where
  "txsc_of width txsc20 =
     (txsc20 AND 0xf) OR push_bit 4
        ((if width = RTW_CHANNEL_WIDTH_80
          then if txsc20 = RTW_SC_20_UPPER \<or> txsc20 = RTW_SC_20_UPMOST then RTW_SC_40_UPPER
               else RTW_SC_40_LOWER
          else 0) AND 0xf)"

text \<open>The threshold \<open>l1pkval\<close>: \<open>lo\<close> with the \<open>BIT(2)\<close> of \<open>reg_837\<close>, else by the RF type.\<close>

definition l1pkval_of :: "u8 \<Rightarrow> u8 \<Rightarrow> u32 \<Rightarrow> u32" where
  "l1pkval_of reg_837 rf_type lo =
     (if reg_837 AND BIT 2 \<noteq> 0 then lo else if rf_type = RF_2T2R then lo + 1 else lo + 2)"

definition rtw88xxa_post_set_bw_mode :: "u8 \<Rightarrow> u8 \<Rightarrow> u8 \<Rightarrow> ('e, 'x, unit) phy" where
  "rtw88xxa_post_set_bw_mode channel width primary_chan_idx =
     do { rtw88xxa_set_reg_bw width;
          let txsc = txsc_of width primary_chan_idx;
          rtw_write8 REG_DATA_SC txsc;
          reg_837 \<leftarrow> rtw_read8 (REG_BWINDICATION + 3);
          rf_type \<leftarrow> dev_get (\<lambda>s. hal_rf_type (hal s));
          if width = RTW_CHANNEL_WIDTH_40
          then do { rtw_write32_mask REG_ADCCLK 0x003003C3 0x00300201;
                    rtw_write32_mask REG_ADC160 (BIT 30) 0;
                    rtw_write32_mask REG_ADCCLK 0x3C (ucast txsc);
                    rtw_write32_mask REG_CCA2ND 0xf0000000 (ucast txsc);
                    rtw_write32_mask REG_L1PKTH 0x03C00000 (l1pkval_of reg_837 rf_type 6);
                    if txsc = RTW_SC_20_UPPER then rtw_write32_set REG_RXSB (BIT 4)
                    else rtw_write32_clr REG_RXSB (BIT 4) }
          else if width = RTW_CHANNEL_WIDTH_80
          then do { rtw_write32_mask REG_ADCCLK 0x003003C3 0x00300202;
                    rtw_write32_mask REG_ADC160 (BIT 30) 1;
                    rtw_write32_mask REG_ADCCLK 0x3C (ucast txsc);
                    rtw_write32_mask REG_CCA2ND 0xf0000000 (ucast txsc);
                    rtw_write32_mask REG_L1PKTH 0x03C00000 (l1pkval_of reg_837 rf_type 5) }
          else do { rtw_write32_mask REG_ADCCLK 0x003003C3 0x00300200;
                    rtw_write32_mask REG_ADC160 (BIT 30) 0;
                    rtw_write32_mask REG_L1PKTH 0x03C00000 (if rf_type = RF_2T2R then 7 else 8) } }"

definition rf18_bw_of :: "u8 \<Rightarrow> u32" where
  "rf18_bw_of width =
     (if width = RTW_CHANNEL_WIDTH_40 then 1 else if width = RTW_CHANNEL_WIDTH_80 then 0 else 3)"

definition rtw88xxa_set_channel_rf :: "u8 \<Rightarrow> u8 \<Rightarrow> ('e, 'x, unit) phy" where
  "rtw88xxa_set_channel_rf channel width =
     for_paths (\<lambda>path. rtw_write_rf path RF_CFGCH RF18_BW_MASK (rf18_bw_of width))"

definition rtw88xxa_set_channel :: "u8 \<Rightarrow> u8 \<Rightarrow> u8 \<Rightarrow> ('e, 'x, unit) phy" where
  "rtw88xxa_set_channel channel width primary_chan_idx =
     do { v \<leftarrow> rtw_read8 REG_CCK_CHECK;
          c \<leftarrow> dev_get (\<lambda>s. ci_id (chip s));
          let old_band = (if v AND BIT_CHECK_CCK_EN \<noteq> 0 then RTW_BAND_5G else RTW_BAND_2G);
          let new_band = (if 14 < channel then RTW_BAND_5G else RTW_BAND_2G);
          when_do (new_band \<noteq> old_band) (rtw88xxa_switch_band new_band width);
          rtw88xxa_switch_channel channel width;
          rtw88xxa_post_set_bw_mode channel width primary_chan_idx;
          when_do (c = RTW_CHIP_TYPE_8812A) (rtw8812a_phy_fix_spur channel width);
          rtw88xxa_set_channel_rf channel width }"

end
