(* ===== verification/LltProps.thy ===== *)
theory LltProps
  imports Xxa Chip8812a
begin

text \<open>
  The link list of the transmit buffer: what \<open>rtw88xxa_llt_init\<close> leaves in the chip. The
  memory is read back from the write commands the routine sends to \<open>REG_LLT_INIT\<close>.
\<close>

section \<open>The memory behind the command register\<close>

text \<open>A write command holds the entry in bits 15 to 8 and its successor in bits 7 to 0.\<close>

definition llt_cmd :: "io \<Rightarrow> (nat \<times> nat) list" where
  "llt_cmd e =
     (case e of
        Wr w a v \<Rightarrow> (if w = 4 \<and> a = REG_LLT_INIT \<and> drop_bit 30 v = drop_bit 30 BIT_LLT_WRITE_ACCESS
                    then [(unat (take_bit 8 (drop_bit 8 v)), unat (take_bit 8 v))] else [])
      | _ \<Rightarrow> [])"

definition llt_cmds :: "io list \<Rightarrow> (nat \<times> nat) list" where
  "llt_cmds l = concat (map llt_cmd l)"

text \<open>The page after page \<open>i\<close> when the reserved pages begin at \<open>b\<close>.\<close>

definition llt_next :: "nat \<Rightarrow> nat \<Rightarrow> nat" where
  "llt_next b i = (if i = b - 1 then 255 else if i = 255 then b else i + 1)"

definition llt_image :: "nat \<Rightarrow> (nat \<times> nat) list" where
  "llt_image b = map (\<lambda>i. (i, llt_next b i)) [0..<256]"

lemma llt_cmds_append [simp]: "llt_cmds (l @ l') = llt_cmds l @ llt_cmds l'"
  by (simp add: llt_cmds_def)

lemma llt_cmds_Nil [simp]: "llt_cmds [] = []"
  by (simp add: llt_cmds_def)

section \<open>The routine as one list of entries\<close>

fun llt_seq :: "(u32 \<times> u32) list \<Rightarrow> ('x, int) dev" where
  "llt_seq [] = State_Monad.return 0"
| "llt_seq ((a, d) # ps) = then_do (rtw88xxa_llt_write a d) (llt_seq ps)"

lemma then_do_assoc: "then_do (then_do m k) j = then_do m (then_do k j)"
  by (rule state_eqI) (simp add: run_then_do split: prod.split)

lemma then_do_return0: "then_do (State_Monad.return 0) k = k" "then_do m (State_Monad.return 0) = m"
  by (rule state_eqI; simp add: run_then_do split: prod.split)+

lemma llt_seq_append: "llt_seq (ps @ qs) = then_do (llt_seq ps) (llt_seq qs)"
  by (induction ps rule: llt_seq.induct) (simp_all add: then_do_assoc then_do_return0)

lemma llt_chain_seq: "llt_chain is = llt_seq (map (\<lambda>i. (i, i + 1)) is)"
  by (induction "is") (simp_all add: then_do_return0)

lemma llt_init_seq:
  "rtw88xxa_llt_init b =
     llt_seq (map (\<lambda>i. (of_nat i, of_nat i + 1)) [0..<unat (b - 1)] @ [(b - 1, 0xFF)]
              @ map (\<lambda>i. (of_nat i, of_nat i + 1)) [unat b..<255] @ [(255, b)])"
  by (simp add: rtw88xxa_llt_init_def llt_seq_append llt_chain_seq then_do_return0 comp_def
      llt_seq_append [of "[_]" "_ # _", simplified])

section \<open>What one write and a list of writes do\<close>

lemma llt_poll_log:
  "run_state (llt_poll n) s = (r, s') \<Longrightarrow>
     \<exists>l. s' = s\<lparr>io_log := io_log s @ l\<rparr> \<and> llt_cmds l = [] \<and> length l \<le> n \<and> r \<in> {0, - EBUSY}"
proof (induction n arbitrary: s)
  case 0
  then show ?case by (auto intro: exI [of _ "[]"])
next
  case (Suc n)
  let ?v = "dev_read s (io_log s) 4 REG_LLT_INIT"
  let ?s = "s\<lparr>io_log := io_log s @ [Rd 4 REG_LLT_INIT ?v]\<rparr>"
  show ?case
  proof (cases "drop_bit (ffs (BIT 31 OR BIT 30 :: u32)) (?v AND (BIT 31 OR BIT 30)) = 0")
    case True
    with Suc.prems show ?thesis
      by (auto intro!: exI [of _ "[Rd 4 REG_LLT_INIT ?v]"] simp: llt_cmds_def llt_cmd_def)
  next
    case False
    with Suc.prems have "run_state (llt_poll n) ?s = (r, s')"
      by simp
    from Suc.IH [OF this] obtain l where
      "s' = ?s\<lparr>io_log := io_log ?s @ l\<rparr>" "llt_cmds l = []" "length l \<le> n" "r \<in> {0, - EBUSY}"
      by blast
    then show ?thesis
      by (intro exI [of _ "Rd 4 REG_LLT_INIT ?v # l"]) (simp add: llt_cmds_def llt_cmd_def)
  qed
qed

lemma u8_of_small: "(a :: u32) < 256 \<Longrightarrow> a = ucast (ucast a :: u8)"
  by (simp add: ucast8_ucast32 word_unat_eq_iff word_less_nat_alt unsigned_take_bit_eq take_bit_nat_eq_self)

lemma llt_word_fields:
  fixes x y :: u8
  defines "v \<equiv> BIT_LLT_WRITE_ACCESS OR push_bit 8 (ucast x) OR ucast y :: u32"
  shows "drop_bit 30 v = drop_bit 30 BIT_LLT_WRITE_ACCESS" and "take_bit 8 (drop_bit 8 v) = ucast x"
    and "take_bit 8 v = ucast y"
proof -
  have B: "(BIT_LLT_WRITE_ACCESS :: u32) = BIT 30"
    by (simp add: BIT_def)
  show "drop_bit 30 v = drop_bit 30 BIT_LLT_WRITE_ACCESS"
    unfolding v_def B by (rule bit_word_eqI) (auto simp: bit_simps dest: bit_u8_less)
  show "take_bit 8 (drop_bit 8 v) = ucast x"
    unfolding v_def B by (rule bit_word_eqI) (auto simp: bit_simps dest: bit_u8_less)
  show "take_bit 8 v = ucast y"
    unfolding v_def B by (rule bit_word_eqI) (auto simp: bit_simps dest: bit_u8_less)
qed

lemma llt_cmd_write:
  assumes "a < 256" and "d < 256"
  shows "llt_cmd (Wr 4 REG_LLT_INIT (BIT_LLT_WRITE_ACCESS OR push_bit 8 a OR d)) = [(unat a, unat d)]"
  using llt_word_fields [of "ucast a" "ucast d", folded u8_of_small [OF assms(1)] u8_of_small [OF assms(2)]]
  by (simp add: llt_cmd_def)

lemma llt_write_log:
  assumes "run_state (rtw88xxa_llt_write a d) s = (r, s')" and "a < 256" and "d < 256"
  obtains l where "s' = s\<lparr>io_log := io_log s @ l\<rparr>" and "llt_cmds l = [(unat a, unat d)]"
    and "r \<in> {0, - EBUSY}" and "length l \<le> 23"
proof -
  let ?e = "Wr 4 REG_LLT_INIT (BIT_LLT_WRITE_ACCESS OR push_bit 8 a OR d)"
  let ?s = "s\<lparr>io_log := io_log s @ [?e]\<rparr>"
  from assms(1) have "run_state (llt_poll 22) ?s = (r, s')"
    by (simp add: rtw88xxa_llt_write_def)
  from llt_poll_log [OF this] obtain l where
    "s' = ?s\<lparr>io_log := io_log ?s @ l\<rparr>" "llt_cmds l = []" "length l \<le> 22" "r \<in> {0, - EBUSY}"
    by blast
  with llt_cmd_write [OF assms(2,3)] show ?thesis
    by (intro that [of "?e # l"]) (simp_all add: llt_cmds_def)
qed

lemma llt_seq_log:
  assumes "run_state (llt_seq ps) s = (r, s')" and "\<And>a d. (a, d) \<in> set ps \<Longrightarrow> a < 256 \<and> d < 256"
  shows "\<exists>l n. s' = s\<lparr>io_log := io_log s @ l\<rparr> \<and> n \<le> length ps \<and> length l \<le> 23 * n
      \<and> llt_cmds l = take n (map (map_prod unat unat) ps) \<and> (r = 0 \<and> n = length ps \<or> r = - EBUSY \<and> 0 < n)"
  using assms
proof (induction ps arbitrary: s)
  case Nil
  then show ?case by (auto intro!: exI [of _ "[]"])
next
  case (Cons p ps)
  obtain a d where p: "p = (a, d)"
    by (cases p)
  obtain r1 s1 where w: "run_state (rtw88xxa_llt_write a d) s = (r1, s1)"
    by (rule prod.exhaust)
  from Cons.prems(2) [of a d] have "a < 256" "d < 256"
    by (simp_all add: p)
  from llt_write_log [OF w this] obtain l where
    l: "s1 = s\<lparr>io_log := io_log s @ l\<rparr>" "llt_cmds l = [(unat a, unat d)]" "r1 \<in> {0, - EBUSY}" "length l \<le> 23"
    by blast
  show ?case
  proof (cases "r1 = 0")
    case False
    with Cons.prems(1) w l have "s' = s1" "r = - EBUSY"
      by (auto simp: p run_then_do)
    with l show ?thesis
      by (intro exI [of _ l] exI [of _ 1]) (simp add: p)
  next
    case True
    with Cons.prems(1) w have "run_state (llt_seq ps) s1 = (r, s')"
      by (simp add: p run_then_do)
    from Cons.IH [OF this] Cons.prems(2) obtain l' n where
      "s' = s1\<lparr>io_log := io_log s1 @ l'\<rparr>" "n \<le> length ps" "length l' \<le> 23 * n"
      "llt_cmds l' = take n (map (map_prod unat unat) ps)" "r = 0 \<and> n = length ps \<or> r = - EBUSY \<and> 0 < n"
      by auto
    with l show ?thesis
      by (intro exI [of _ "l @ l'"] exI [of _ "Suc n"]) (auto simp: p)
  qed
qed

section \<open>The list that results\<close>

lemma llt_init_image:
  assumes "1 \<le> unat b" and "unat b \<le> 255"
  shows "map (map_prod unat unat)
     (map (\<lambda>i. (of_nat i, of_nat i + 1)) [0..<unat (b - 1)] @ [(b - 1, 0xFF)]
      @ map (\<lambda>i. (of_nat i, of_nat i + 1)) [unat b..<255] @ [(255, b)]) = llt_image (unat (b :: u32))"
proof -
  have b1: "unat (b - 1) = unat b - 1"
    using assms by (simp add: unat_sub word_le_nat_alt)
  have u: "unat (of_nat i :: u32) = i" "unat (of_nat i + 1 :: u32) = Suc i" if "i < 255" for i
    using that by (simp_all add: unat_of_nat unat_word_ariths)
  have split: "[0..<256] = [0..<unat b - 1] @ (unat b - 1) # [unat b..<255] @ [255]"
    using assms upt_add_eq_append [of 0 "unat b - 1" "257 - unat b"]
      upt_conv_Cons [of "unat b - 1" 256] upt_add_eq_append [of "unat b" 255 1]
    by simp
  show ?thesis
    unfolding llt_image_def split using assms
    by (auto simp: b1 u llt_next_def)
qed

text \<open>The memory the commands leave, and a walk of \<open>k\<close> steps through it.\<close>

definition llt_mem :: "io list \<Rightarrow> nat \<Rightarrow> nat option" where
  "llt_mem l = map_of (rev (llt_cmds l))"

fun llt_walk :: "io list \<Rightarrow> nat \<Rightarrow> nat \<Rightarrow> nat option" where
  "llt_walk l 0 i = Some i"
| "llt_walk l (Suc k) i = Option.bind (llt_walk l k i) (llt_mem l)"

lemma llt_mem_image:
  assumes "llt_cmds l = llt_image b" and "i < 256"
  shows "llt_mem l i = Some (llt_next b i)"
  unfolding llt_mem_def assms(1) using assms(2)
  by (intro map_of_is_SomeI) (auto simp: llt_image_def comp_def rev_map [symmetric])

lemma llt_walk_data:
  assumes "llt_cmds l = llt_image b" and "b \<le> 255"
  shows "k < b \<Longrightarrow> llt_walk l k 0 = Some k"
  by (induction k) (use assms in \<open>auto simp: llt_mem_image llt_next_def\<close>)

lemma llt_walk_ring:
  assumes "llt_cmds l = llt_image b" and "1 \<le> b" and "b \<le> 255"
  shows "llt_walk l k b = Some (b + k mod (256 - b))"
proof (induction k)
  case 0
  then show ?case by simp
next
  case (Suc k)
  let ?j = "k mod (256 - b)"
  have j: "?j < 256 - b"
    using assms(3) by simp
  have "llt_walk l (Suc k) b = Some (llt_next b (b + ?j))"
    using Suc j assms(1) by (simp add: llt_mem_image)
  also have "llt_next b (b + ?j) = b + Suc k mod (256 - b)"
    using j assms(2,3) by (auto simp: llt_next_def mod_Suc)
  finally show ?case .
qed

text \<open>
  Property C32. For every boundary from 1 to 255, \<open>rtw88xxa_llt_init\<close> touches nothing but the
  link list registers, with at most 23 accesses for each of the 256 pages, whatever the chip
  answers. If it succeeds, the list it leaves leads from page 0 through all data pages to page
  \<open>boundary - 1\<close>, which ends it, and the pages from the boundary on form one ring that returns
  to the boundary after \<open>256 - boundary\<close> steps; otherwise it returns \<open>-EBUSY\<close>.
\<close>

theorem rtw88xxa_llt_init_list:
  assumes "run_state (rtw88xxa_llt_init b) s = (r, s')" and "1 \<le> unat b" and "unat b \<le> 255"
  shows "\<exists>l. s' = s\<lparr>io_log := io_log s @ l\<rparr> \<and> length l \<le> 23 * 256 \<and> (r = 0 \<or> r = - EBUSY) \<and>
    (r = 0 \<longrightarrow> (\<forall>k < unat b. llt_walk l k 0 = Some k) \<and> llt_mem l (unat b - 1) = Some 255 \<and>
       (\<forall>k. llt_walk l k (unat b) = Some (unat b + k mod (256 - unat b))))"
proof -
  let ?ps = "map (\<lambda>i. (of_nat i, of_nat i + 1)) [0..<unat (b - 1)] @ [(b - 1, 0xFF)]
      @ map (\<lambda>i. (of_nat i, of_nat i + 1)) [unat b..<255] @ [(255, b)] :: (u32 \<times> u32) list"
  note image = llt_init_image [OF assms(2,3)]
  have small: "a < 256 \<and> d < 256" if "(a, d) \<in> set ?ps" for a d
  proof -
    from that have "map_prod unat unat (a, d) \<in> set (llt_image (unat b))"
      unfolding image [symmetric] set_map by (rule imageI)
    with assms(3) show ?thesis
      by (auto simp: llt_image_def llt_next_def word_less_nat_alt split: if_splits)
  qed
  from assms(1) have "run_state (llt_seq ?ps) s = (r, s')"
    by (simp only: llt_init_seq)
  from llt_seq_log [OF this small] obtain l n where
    l: "s' = s\<lparr>io_log := io_log s @ l\<rparr>" "n \<le> length ?ps" "length l \<le> 23 * n"
      "llt_cmds l = take n (llt_image (unat b))" "r = 0 \<and> n = length ?ps \<or> r = - EBUSY \<and> 0 < n"
    unfolding image by blast
  have len: "length ?ps = 256"
    using arg_cong [OF image, of length] by (simp add: llt_image_def)
  have "llt_cmds l = llt_image (unat b)" if "r = 0"
    using l(4,5) that len by (auto simp: llt_image_def)
  with l len assms(2,3) show ?thesis
    by (intro exI [of _ l]) (auto simp: llt_walk_data llt_walk_ring llt_mem_image llt_next_def)
qed

text \<open>The witness: a chip that takes every command at once, with the boundary of the RTL8812A.\<close>

lemma llt_write_ready:
  assumes "\<And>l. dev_read s l 4 REG_LLT_INIT = 0"
  obtains s1 where "run_state (rtw88xxa_llt_write a d) s = (0, s1)" "dev_read s1 = dev_read s"
proof -
  have poll: "\<exists>s1. run_state (llt_poll (Suc n)) s = (0, s1) \<and> dev_read s1 = dev_read s"
    if "\<And>l. dev_read s l 4 REG_LLT_INIT = 0" for n and s :: "'a hw_scheme"
    using that by simp
  let ?s = "s\<lparr>io_log := io_log s @ [Wr 4 REG_LLT_INIT (BIT_LLT_WRITE_ACCESS OR push_bit 8 a OR d)]\<rparr>"
  have n: "Suc 21 = 22" by simp
  have "\<exists>s1. run_state (llt_poll (Suc 21)) ?s = (0, s1) \<and> dev_read s1 = dev_read ?s"
    by (rule poll) (simp add: assms)
  then obtain s1 where "run_state (llt_poll 22) ?s = (0, s1)" "dev_read s1 = dev_read s"
    unfolding n by auto
  then show ?thesis
    by (intro that [of s1]) (simp_all add: rtw88xxa_llt_write_def)
qed

lemma llt_seq_ready:
  "(\<And>l. dev_read s l 4 REG_LLT_INIT = 0) \<Longrightarrow> fst (run_state (llt_seq ps) s) = 0"
proof (induction ps arbitrary: s)
  case Nil
  then show ?case by simp
next
  case (Cons p ps)
  obtain a d where p: "p = (a, d)"
    by (cases p)
  obtain s1 where "run_state (rtw88xxa_llt_write a d) s = (0, s1)" "dev_read s1 = dev_read s"
    using Cons.prems by (rule llt_write_ready)
  with Cons.IH [of s1] Cons.prems show ?case
    by (simp add: p run_then_do)
qed

lemma llt_init_ready: "fst (run_state (rtw88xxa_llt_init b) (usb_8812a n ready_regs)) = 0"
  unfolding llt_init_seq by (rule llt_seq_ready) (simp add: usb_8812a_def ready_regs_def)

lemma rtw88xxa_llt_init_list_witness:
  "\<exists>l. run_state (rtw88xxa_llt_init 0xF7) (usb_8812a 3 ready_regs) = (0, (usb_8812a 3 ready_regs)\<lparr>io_log := l\<rparr>)
     \<and> llt_walk l 246 0 = Some 246 \<and> llt_mem l 246 = Some 255 \<and> llt_walk l 9 247 = Some 247"
proof -
  let ?s = "usb_8812a 3 ready_regs"
  obtain r s' where run: "run_state (rtw88xxa_llt_init 0xF7) ?s = (r, s')"
    by (rule prod.exhaust)
  with llt_init_ready [of "0xF7" 3] have "r = 0"
    by simp
  have b: "unat (0xF7 :: u32) = 247" by simp
  from rtw88xxa_llt_init_list [OF run] obtain l where
    s': "s' = ?s\<lparr>io_log := io_log ?s @ l\<rparr>" and w: "\<forall>k < 247. llt_walk l k 0 = Some k" and m: "llt_mem l 246 = Some 255"
    and ring: "\<forall>k. llt_walk l k 247 = Some (247 + k mod 9)"
    unfolding b using \<open>r = 0\<close> by auto
  from s' have "s' = ?s\<lparr>io_log := l\<rparr>"
    by (simp add: usb_8812a_def)
  with run \<open>r = 0\<close> w [rule_format, of 246] m ring [rule_format, of 9] show ?thesis
    by (intro exI [of _ l]) (simp del: llt_walk.simps)
qed

end
