(* ===== verification/Iqk8812a.thy ===== *)
theory Iqk8812a
  imports Phy "HOL-Library.Signed_Division"
begin

text \<open>
  The LC and IQ calibrations of the RTL8812A (\<open>rtw8812a.c\<close>, with the helpers of
  \<open>rtw88xxa.c\<close>). Debug messages are left out except for the registers they read. An array of
  ten samples with its fill count is a list; a store behind the tenth is the outcome \<open>Oob\<close>.
  The two \<open>while (1)\<close> loops have fuel, and running out of it is the outcome \<open>Stuck\<close>.
\<close>

definition mdelay :: "int \<Rightarrow> ('x hw_scheme, unit) state" where
  "mdelay n = delay_us (1000 * n)"

section \<open>LC calibration\<close>

text \<open>\<open>REG_CCASEL\<close> bit 31 selects the register page.\<close>

definition page_c :: "('x hw_scheme, unit) state" where
  "page_c = rtw_write32_mask REG_CCASEL (BIT 31) 0x0"

definition page_c1 :: "('x hw_scheme, unit) state" where
  "page_c1 = rtw_write32_mask REG_CCASEL (BIT 31) 0x1"

fun lck_wait :: "nat \<Rightarrow> ('e, 'x, unit) phy" where
  "lck_wait 0 = skip"
| "lck_wait (Suc n) =
     do { v \<leftarrow> rtw_read_rf RF_PATH_A RF_CFGCH 0x08000;
          if v \<noteq> 1 then skip else do { mdelay 10; lck_wait n } }"

definition rtw8812a_do_lck :: "('e, 'x, unit) phy" where
  "rtw8812a_do_lck =
     do { cont_tx \<leftarrow> rtw_read32_mask REG_SINGLE_TONE_CONT_TX 0x70000;
          lc_cal \<leftarrow> rtw_read_rf RF_PATH_A RF_CFGCH RFREG_MASK;
          when_do (cont_tx = 0) (rtw_write8 REG_TXPAUSE 0xff);
          rtw_write_rf RF_PATH_A RF_LCK (BIT 14) 1;
          rtw_write_rf RF_PATH_A RF_CFGCH 0x08000 1;
          mdelay 150;
          lck_wait 5;
          rtw_write_rf RF_PATH_A RF_CFGCH RFREG_MASK lc_cal;
          rtw_write_rf RF_PATH_A RF_LCK (BIT 14) 0;
          when_do (cont_tx = 0) (rtw_write8 REG_TXPAUSE 0);
          rtw_write_rf RF_PATH_A RF_CFGCH RFREG_MASK lc_cal }"

section \<open>Saving and restoring registers\<close>

fun read_regs :: "u32 list \<Rightarrow> ('x hw_scheme, u32 list) state" where
  "read_regs [] = State_Monad.return []"
| "read_regs (a # as) = do { v \<leftarrow> rtw_read32 a; vs \<leftarrow> read_regs as; State_Monad.return (v # vs) }"

definition write_regs :: "u32 list \<Rightarrow> u32 list \<Rightarrow> ('x hw_scheme, unit) state" where
  "write_regs as vs = for_each (zip as vs) (\<lambda>(a, v). rtw_write32 a v)"

definition rtw88xxa_iqk_backup_mac_bb :: "u32 list \<Rightarrow> ('x hw_scheme, u32 list) state" where
  "rtw88xxa_iqk_backup_mac_bb regs = do { page_c; read_regs regs }"

definition rtw88xxa_iqk_backup_afe :: "u32 list \<Rightarrow> ('x hw_scheme, u32 list) state" where
  "rtw88xxa_iqk_backup_afe regs = do { page_c; read_regs regs }"

definition rtw88xxa_iqk_restore_mac_bb :: "u32 list \<Rightarrow> u32 list \<Rightarrow> ('x hw_scheme, unit) state" where
  "rtw88xxa_iqk_restore_mac_bb regs backup = do { page_c; write_regs regs backup }"

fun read_rf_regs :: "u32 list \<Rightarrow> ('e, 'x, u32 list \<times> u32 list) phy" where
  "read_rf_regs [] = State_Monad.return ([], [])"
| "read_rf_regs (r # rs) =
     do { a \<leftarrow> rtw_read_rf RF_PATH_A r MASKDWORD;
          b \<leftarrow> rtw_read_rf RF_PATH_B r MASKDWORD;
          (as, bs) \<leftarrow> read_rf_regs rs;
          State_Monad.return (a # as, b # bs) }"

definition rtw8812a_iqk_backup_rf :: "u32 list \<Rightarrow> ('e, 'x, u32 list \<times> u32 list) phy" where
  "rtw8812a_iqk_backup_rf regs = do { page_c; read_rf_regs regs }"

definition rtw8812a_iqk_restore_rf :: "nat \<Rightarrow> u32 list \<Rightarrow> u32 list \<Rightarrow> ('e, 'x, unit) phy" where
  "rtw8812a_iqk_restore_rf path regs backup =
     do { page_c;
          for_each (zip regs backup) (\<lambda>(r, v). rtw_write_rf path r RFREG_MASK v);
          rtw_write_rf path RF_LUTWE RFREG_MASK 0 }"

definition rtw8812a_iqk_restore_afe :: "u32 list \<Rightarrow> u32 list \<Rightarrow> ('x hw_scheme, unit) state" where
  "rtw8812a_iqk_restore_afe regs backup =
     do { page_c;
          write_regs regs backup;
          page_c1;
          rtw_write32 REG_OFDM0_XA_TX_IQ_IMBALANCE 0x0;
          rtw_write32 REG_OFDM0_A_TX_AFE 0x0;
          rtw_write32 REG_OFDM0_XB_TX_IQ_IMBALANCE 0x0;
          rtw_write32 REG_TSSI_TRK_SW 0x3c000000;
          rtw_write32_mask REG_LSSI_WRITE_A (BIT 7) 1;
          rtw_write32_mask REG_IQK_DPD_CFG (BIT 18) 1;
          rtw_write32_mask REG_IQK_DPD_CFG (BIT 29) 1;
          rtw_write32_mask REG_CFG_PMPD (BIT 29) 1;
          rtw_write32 REG_TXTONEB 0x0;
          rtw_write32 REG_RXTONEB 0x0;
          rtw_write32 REG_TXPITMB 0x0;
          rtw_write32 REG_RXPITMB 0x3c000000;
          rtw_write32_mask REG_LSSI_WRITE_B (BIT 7) 1;
          rtw_write32_mask REG_BPBDB (BIT 18) 1;
          rtw_write32_mask REG_BPBDB (BIT 29) 1;
          rtw_write32_mask REG_PHYTXONB (BIT 29) 1 }"

definition rtw88xxa_iqk_configure_mac :: "('x hw_scheme, unit) state" where
  "rtw88xxa_iqk_configure_mac =
     do { page_c;
          rtw_write8 REG_TXPAUSE 0x3f;
          rtw_write32_mask REG_BCN_CTRL (push_bit 8 BIT_EN_BCN_FUNCTION OR BIT_EN_BCN_FUNCTION) 0x0;
          rtw_write8 REG_RXPSEL 0x00;
          rtw_write32_mask REG_CCA2ND 0xf 0xc;
          rtw_write8 (REG_CCK_RX + 3) 0xf }"

section \<open>Two samples that agree\<close>

text \<open>A sample is an \<open>int\<close> with its eleven bits at the top: \<open>>> 21\<close> reads it with its sign.\<close>

definition iqk_value :: "u32 \<Rightarrow> int" where
  "iqk_value t = sint (signed_drop_bit 21 t)"

definition iqk_close :: "int \<Rightarrow> u32 \<times> u32 \<Rightarrow> u32 \<times> u32 \<Rightarrow> bool" where
  "iqk_close threshold a b \<longleftrightarrow>
     \<bar>iqk_value (fst a) - iqk_value (fst b)\<bar> < threshold \<and> \<bar>iqk_value (snd a) - iqk_value (snd b)\<bar> < threshold"

definition iqk_mean :: "u32 \<times> u32 \<Rightarrow> u32 \<times> u32 \<Rightarrow> int \<times> int" where
  "iqk_mean a b =
     ((iqk_value (fst a) + iqk_value (fst b)) sdiv 2, (iqk_value (snd a) + iqk_value (snd b)) sdiv 2)"

fun iqk_inner :: "int \<Rightarrow> bool \<Rightarrow> u32 \<times> u32 \<Rightarrow> (u32 \<times> u32) list \<Rightarrow> (int \<times> int) option \<Rightarrow> (int \<times> int) option" where
  "iqk_inner threshold break_inner a [] acc = acc"
| "iqk_inner threshold break_inner a (b # bs) acc =
     (if iqk_close threshold a b
      then if break_inner then Some (iqk_mean a b)
           else iqk_inner threshold break_inner a bs (Some (iqk_mean a b))
      else iqk_inner threshold break_inner a bs acc)"

fun iqk_outer :: "int \<Rightarrow> bool \<Rightarrow> bool \<Rightarrow> (u32 \<times> u32) list \<Rightarrow> (int \<times> int) option \<Rightarrow> (int \<times> int) option" where
  "iqk_outer threshold break_inner break_outer [] acc = acc"
| "iqk_outer threshold break_inner break_outer (a # as) acc =
     (let acc' = iqk_inner threshold break_inner a as acc
      in if acc' \<noteq> None \<and> break_outer then acc' else iqk_outer threshold break_inner break_outer as acc')"

text \<open>\<open>None\<close> is the result \<open>false\<close>, which leaves \<open>*x\<close> and \<open>*y\<close> alone.\<close>

definition rtw88xxa_iqk_finish :: "int \<Rightarrow> (u32 \<times> u32) list \<Rightarrow> bool \<Rightarrow> bool \<Rightarrow> (int \<times> int) option" where
  "rtw88xxa_iqk_finish threshold temp break_inner break_outer =
     iqk_outer threshold break_inner break_outer temp None"

section \<open>Writing the result to the chip\<close>

text \<open>The two cases of the switch over the path differ in the register only.\<close>

definition iqk_rx_fill_reg :: "u32 \<Rightarrow> u32 \<Rightarrow> u32 \<Rightarrow> ('x hw_scheme, unit) state" where
  "iqk_rx_fill_reg reg rx_x rx_y =
     do { page_c;
          (let x = drop_bit 1 rx_x; y = drop_bit 1 rx_y
           in if 0x112 \<le> x \<or> 0x12 \<le> y \<and> y \<le> 0x3ee
              then do { rtw_write32_mask reg 0x000003ff 0x100;
                        rtw_write32_mask reg 0x03ff0000 0 }
              else do { rtw_write32_mask reg 0x000003ff x;
                        rtw_write32_mask reg 0x03ff0000 y });
          _ \<leftarrow> rtw_read32 reg;
          skip }"

definition rtw8812a_iqk_rx_fill :: "nat \<Rightarrow> u32 \<Rightarrow> u32 \<Rightarrow> ('x hw_scheme, unit) state" where
  "rtw8812a_iqk_rx_fill path rx_x rx_y =
     (if path = RF_PATH_A then iqk_rx_fill_reg REG_RX_IQC_AB_A rx_x rx_y
      else if path = RF_PATH_B then iqk_rx_fill_reg REG_RX_IQC_AB_B rx_x rx_y
      else skip)"

definition iqk_tx_fill_regs :: "u32 \<Rightarrow> u32 \<Rightarrow> u32 \<Rightarrow> u32 \<Rightarrow> u32 \<Rightarrow> u32 \<Rightarrow> u32 \<Rightarrow> ('x hw_scheme, unit) state" where
  "iqk_tx_fill_regs predist dpd pmpd y_reg x_reg tx_x tx_y =
     do { page_c1;
          rtw_write32_mask predist (BIT 7) 0x1;
          rtw_write32_mask dpd (BIT 18) 0x1;
          rtw_write32_mask dpd (BIT 29) 0x1;
          rtw_write32_mask pmpd (BIT 29) 0x1;
          rtw_write32_mask y_reg 0x000007ff tx_y;
          rtw_write32_mask x_reg 0x000007ff tx_x;
          _ \<leftarrow> rtw_read32_mask x_reg 0x000007ff;
          _ \<leftarrow> rtw_read32_mask y_reg 0x000007ff;
          skip }"

definition rtw8812a_iqk_tx_fill :: "nat \<Rightarrow> u32 \<Rightarrow> u32 \<Rightarrow> ('x hw_scheme, unit) state" where
  "rtw8812a_iqk_tx_fill path tx_x tx_y =
     (if path = RF_PATH_A
      then iqk_tx_fill_regs REG_PREDISTA REG_IQK_DPD_CFG REG_CFG_PMPD REG_IQC_Y REG_IQC_X tx_x tx_y
      else if path = RF_PATH_B
      then iqk_tx_fill_regs REG_PREDISTB REG_BPBDB REG_PHYTXONB REG_IQKYB REG_IQKXB tx_x tx_y
      else skip)"

section \<open>One path of a calibration loop\<close>

text \<open>
  The locals of one path: \<open>cal_retry\<close>, \<open>avg\<close> with the sample arrays, \<open>iqk_ready\<close>,
  \<open>finish\<close>, and the result \<open>x\<close>, \<open>y\<close>.
\<close>

record iqk_path =
  iq_retry :: u8
  iq_avg :: u8
  iq_temp :: "(u32 \<times> u32) list"
  iq_ready :: bool
  iq_finish :: bool
  iq_x :: int
  iq_y :: int

datatype 'a loop_res = Go 'a | Brk 'a | Oob | Stuck

text \<open>\<open>for (delay_count = 0; delay_count < 20; delay_count++)\<close>; the flag is \<open>delay_count < 20\<close>.\<close>

fun iqk_wait :: "nat \<Rightarrow> bool \<Rightarrow> bool \<Rightarrow> iqk_path \<Rightarrow> iqk_path \<Rightarrow> ('x hw_scheme, bool \<times> iqk_path \<times> iqk_path) state" where
  "iqk_wait 0 poll0 poll1 p0 p1 = State_Monad.return (False, p0, p1)"
| "iqk_wait (Suc n) poll0 poll1 p0 p1 =
     do { r0 \<leftarrow> (if poll0 then do { v \<leftarrow> rtw_read32_mask REG_IQKA_END (BIT 10); State_Monad.return (v \<noteq> 0) }
                else State_Monad.return (iq_ready p0));
          r1 \<leftarrow> (if poll1 then do { v \<leftarrow> rtw_read32_mask REG_IQKB_END (BIT 10); State_Monad.return (v \<noteq> 0) }
                else State_Monad.return (iq_ready p1));
          let p0' = p0\<lparr>iq_ready := r0\<rparr>;
          let p1' = p1\<lparr>iq_ready := r1\<rparr>;
          if r0 \<and> r1 then State_Monad.return (True, p0', p1')
          else do { mdelay 1; iqk_wait n poll0 poll1 p0' p1' } }"

text \<open>Reading one sample: the two stores to the arrays at \<open>avg\<close>, and \<open>avg++\<close>.\<close>

definition iqk_sample :: "u32 \<Rightarrow> u32 \<Rightarrow> u32 \<Rightarrow> u32 \<Rightarrow> iqk_path \<Rightarrow> ('x hw_scheme, iqk_path loop_res) state" where
  "iqk_sample ctl end_reg cmd_x cmd_y p =
     do { rtw_write32 ctl cmd_x;
          x \<leftarrow> rtw_read32_mask end_reg 0x07ff0000;
          rtw_write32 ctl cmd_y;
          y \<leftarrow> rtw_read32_mask end_reg 0x07ff0000;
          State_Monad.return
            (if 10 \<le> iq_avg p then Oob
             else Go (p\<lparr>iq_avg := iq_avg p + 1, iq_temp := iq_temp p @ [(push_bit 21 x, push_bit 21 y)]\<rparr>)) }"

definition iqk_retry :: "iqk_path \<Rightarrow> iqk_path loop_res" where
  "iqk_retry p =
     (let p' = p\<lparr>iq_retry := iq_retry p + 1\<rparr> in if iq_retry p' = 10 then Brk p' else Go p')"

definition iqk_check_path :: "bool \<Rightarrow> u32 \<Rightarrow> u32 \<Rightarrow> u32 \<Rightarrow> u32 \<Rightarrow> iqk_path \<Rightarrow> ('x hw_scheme, iqk_path loop_res) state" where
  "iqk_check_path good ctl end_reg cmd_x cmd_y p =
     (if good then iqk_sample ctl end_reg cmd_x cmd_y p else State_Monad.return (iqk_retry p))"

text \<open>
  The body of either loop after the wait. \<open>fail_bit\<close> is bit 12 (TX) or 11 (RX), \<open>en0\<close> and \<open>en1\<close>
  say whether the path takes part (in the RX loop: whether its TX calibration succeeded).
\<close>

definition iqk_check ::
    "nat \<Rightarrow> u32 \<Rightarrow> u32 \<Rightarrow> bool \<Rightarrow> bool \<Rightarrow> bool \<Rightarrow> iqk_path \<Rightarrow> iqk_path
     \<Rightarrow> ('x hw_scheme, (iqk_path \<times> iqk_path) loop_res) state" where
  "iqk_check fail_bit cmd_x cmd_y en0 en1 got p0 p1 =
     (if got then
        do { f0 \<leftarrow> rtw_read32_mask REG_IQKA_END (BIT fail_bit);
             f1 \<leftarrow> rtw_read32_mask REG_IQKB_END (BIT fail_bit);
             r0 \<leftarrow> iqk_check_path (\<not> (f0 \<noteq> 0 \<or> iq_finish p0) \<and> en0) REG_RFECTL_A REG_IQKA_END cmd_x cmd_y p0;
             case r0 of
               Go p0' \<Rightarrow>
                 do { r1 \<leftarrow> iqk_check_path (\<not> (f1 \<noteq> 0 \<or> iq_finish p1) \<and> en1) REG_RFECTL_B REG_IQKB_END cmd_x cmd_y p1;
                      State_Monad.return
                        (case r1 of Go p1' \<Rightarrow> Go (p0', p1') | Brk p1' \<Rightarrow> Brk (p0', p1') | Oob \<Rightarrow> Oob | Stuck \<Rightarrow> Stuck) }
             | Brk p0' \<Rightarrow> State_Monad.return (Brk (p0', p1))
             | Oob \<Rightarrow> State_Monad.return Oob
             | Stuck \<Rightarrow> State_Monad.return Stuck }
      else State_Monad.return
        (let p0' = p0\<lparr>iq_retry := iq_retry p0 + 1\<rparr>; p1' = p1\<lparr>iq_retry := iq_retry p1 + 1\<rparr>
         in if iq_retry p0' = 10 then Brk (p0', p1') else Go (p0', p1')))"

definition iqk_conclude :: "bool \<Rightarrow> iqk_path \<Rightarrow> iqk_path" where
  "iqk_conclude break_inner p =
     (if 2 \<le> iq_avg p
      then case rtw88xxa_iqk_finish 4 (iq_temp p) break_inner False of
             Some (x, y) \<Rightarrow> p\<lparr>iq_finish := True, iq_x := x, iq_y := y\<rparr>
           | None \<Rightarrow> p\<lparr>iq_finish := False\<rparr>
      else p)"

section \<open>The two loops\<close>

definition iqk_path_init :: "bool \<Rightarrow> iqk_path" where
  "iqk_path_init ready =
     \<lparr>iq_retry = 0, iq_avg = 0, iq_temp = [], iq_ready = ready, iq_finish = False, iq_x = 0, iq_y = 0\<rparr>"

definition iqk_tx_shot :: "('x hw_scheme, unit) state" where
  "iqk_tx_shot =
     do { rtw_write32 REG_RFECTL_A 0x00100000;
          rtw_write32 REG_RFECTL_B 0x00100000;
          rtw_write32 REG_IQK_COM64 0xfa000000;
          rtw_write32 REG_IQK_COM64 0xf8000000;
          mdelay 10;
          rtw_write32 REG_RFECTL_A 0x00000000;
          rtw_write32 REG_RFECTL_B 0x00000000 }"

definition iqk_exhausted :: "iqk_path \<Rightarrow> bool" where
  "iqk_exhausted p \<longleftrightarrow> 10 \<le> unat (iq_retry p) + unat (iq_avg p)"

fun iqk_tx_loop :: "nat \<Rightarrow> iqk_path \<Rightarrow> iqk_path \<Rightarrow> ('x hw_scheme, (iqk_path \<times> iqk_path) loop_res) state" where
  "iqk_tx_loop 0 p0 p1 = State_Monad.return Stuck"
| "iqk_tx_loop (Suc n) p0 p1 =
     do { iqk_tx_shot;
          (got, q0, q1) \<leftarrow> iqk_wait 20 (\<not> iq_finish p0) (\<not> iq_finish p1) p0 p1;
          r \<leftarrow> iqk_check 12 0x02000000 0x04000000 True True got q0 q1;
          case r of
            Go (q0, q1) \<Rightarrow>
              (let q0 = iqk_conclude False q0; q1 = iqk_conclude False q1
               in if iq_finish q0 \<and> iq_finish q1 \<or> iqk_exhausted q0 \<or> iqk_exhausted q1
                  then State_Monad.return (Brk (q0, q1))
                  else iqk_tx_loop n q0 q1)
          | Brk qs \<Rightarrow> State_Monad.return (Brk qs)
          | Oob \<Rightarrow> State_Monad.return Oob
          | Stuck \<Rightarrow> State_Monad.return Stuck }"

text \<open>\<open>t0\<close> and \<open>t1\<close> are the two paths as the TX loop left them.\<close>

definition iqk_rx_shot :: "u8 \<Rightarrow> iqk_path \<Rightarrow> iqk_path \<Rightarrow> ('x hw_scheme, unit) state" where
  "iqk_rx_shot rfe t0 t1 =
     do { page_c;
          when_do (iq_finish t0)
            (do { rtw_write32_mask REG_IQK_COM00 0x03FF8000 (word_of_int (iq_x t0) AND 0x000007ff);
                  rtw_write32_mask REG_IQK_COM00 0x000007FF (word_of_int (iq_y t0) AND 0x000007ff);
                  page_c1;
                  rtw_write32 REG_TSSI_TRK_SW (if rfe = 1 then 0x28161500 else 0x28160cc0);
                  rtw_write32 REG_RFECTL_A 0x00300000;
                  rtw_write32 REG_RFECTL_A 0x00100000;
                  mdelay 5;
                  rtw_write32 REG_TSSI_TRK_SW 0x3c000000;
                  rtw_write32 REG_RFECTL_A 0x00000000 });
          when_do (iq_finish t1)
            (do { page_c;
                  rtw_write32_mask REG_IQK_COM00 0x03FF8000 (word_of_int (iq_x t1) AND 0x000007ff);
                  rtw_write32_mask REG_IQK_COM00 0x000007FF (word_of_int (iq_y t1) AND 0x000007ff);
                  page_c1;
                  rtw_write32 REG_RXPITMB (if rfe = 1 then 0x28161500 else 0x28160ca0);
                  rtw_write32 REG_RFECTL_B 0x00300000;
                  rtw_write32 REG_RFECTL_B 0x00100000;
                  mdelay 5;
                  rtw_write32 REG_RXPITMB 0x3c000000;
                  rtw_write32 REG_RFECTL_B 0x00000000 }) }"

fun iqk_rx_loop ::
    "nat \<Rightarrow> u8 \<Rightarrow> iqk_path \<Rightarrow> iqk_path \<Rightarrow> iqk_path \<Rightarrow> iqk_path
     \<Rightarrow> ('x hw_scheme, (iqk_path \<times> iqk_path) loop_res) state" where
  "iqk_rx_loop 0 rfe t0 t1 p0 p1 = State_Monad.return Stuck"
| "iqk_rx_loop (Suc n) rfe t0 t1 p0 p1 =
     do { iqk_rx_shot rfe t0 t1;
          (got, q0, q1) \<leftarrow> iqk_wait 20 (\<not> iq_finish p0 \<and> iq_finish t0) (\<not> iq_finish p1 \<and> iq_finish t1) p0 p1;
          r \<leftarrow> iqk_check 11 0x06000000 0x08000000 (iq_finish t0) (iq_finish t1) got q0 q1;
          case r of
            Go (q0, q1) \<Rightarrow>
              (let q0 = iqk_conclude True q0; q1 = iqk_conclude True q1
               in if (iq_finish q0 \<or> \<not> iq_finish t0) \<and> (iq_finish q1 \<or> \<not> iq_finish t1)
                     \<or> iqk_exhausted q0 \<or> iqk_exhausted q1 \<or> iq_avg q0 = 3 \<or> iq_avg q1 = 3
                  then State_Monad.return (Brk (q0, q1))
                  else iqk_rx_loop n rfe t0 t1 q0 q1)
          | Brk qs \<Rightarrow> State_Monad.return (Brk qs)
          | Oob \<Rightarrow> State_Monad.return Oob
          | Stuck \<Rightarrow> State_Monad.return Stuck }"

section \<open>The IQ calibration\<close>

definition iqk_rf_setup :: "nat \<Rightarrow> (u32 \<times> u32) list \<Rightarrow> ('e, 'x, unit) phy" where
  "iqk_rf_setup path settings = for_each settings (\<lambda>(r, v). rtw_write_rf path r RFREG_MASK v)"

definition iqk_tx_rf :: "(u32 \<times> u32) list" where
  "iqk_tx_rf =
     [(RF_LUTWE, 0x80002), (RF_MODE_TABLE_ADDR, 0x20000), (RF_MODE_TABLE_DATA0, 0x3fffd),
      (RF_MODE_TABLE_DATA1, 0xfe83f), (RF_TXA_PREPAD, 0x931d5), (RF_RXBB2, 0x8a001)]"

definition iqk_rx_rf :: "(u32 \<times> u32) list" where
  "iqk_rx_rf =
     [(RF_LUTWE, 0x80000), (RF_MODE_TABLE_ADDR, 0x30000), (RF_MODE_TABLE_DATA0, 0x3f7ff),
      (RF_MODE_TABLE_DATA1, 0xfe7bf), (RF_RXBB2, 0x88001), (RF_TXA_PREPAD, 0x931d1), (RF_LUTWE, 0x00000)]"

definition iqk_tx_setup :: "('e, 'x, unit) phy" where
  "iqk_tx_setup =
     do { e \<leftarrow> dev_get efuse;
          band \<leftarrow> dev_get (\<lambda>s. hal_current_band_type (hal s));
          page_c;
          rtw_write32 REG_AFE_PWR1_A 0x77777777;
          rtw_write32 REG_AFE_PWR2_A 0x77777777;
          rtw_write32 REG_AFE_PWR1_B 0x77777777;
          rtw_write32 REG_AFE_PWR2_B 0x77777777;
          rtw_write32 REG_RX_WAIT_CCA_TX_CCK_RFON_A 0x19791979;
          rtw_write32 REG_RX_WAIT_CCA_TX_CCK_RFON_B 0x19791979;
          rtw_write32_mask REG_3WIRE_SWA 0xf 0x4;
          rtw_write32_mask REG_3WIRE_SWB 0xf 0x4;
          rtw_write32_mask REG_CK_MONHA (GENMASK 26 24) 0x7;
          rtw_write32_mask REG_CK_MONHB (GENMASK 26 24) 0x7;
          page_c;
          iqk_rf_setup RF_PATH_A iqk_tx_rf;
          iqk_rf_setup RF_PATH_B iqk_tx_rf;
          rtw_write32 REG_DAC_RSTB 0x00008000;
          rtw_write32_mask REG_TXAGCIDX (BIT 0) 0x1;
          rtw_write32_mask REG_INIDLYB (BIT 0) 0x1;
          rtw_write32 REG_IQK_COM00 0x29002000;
          rtw_write32 REG_IQK_COM32 0xa9002000;
          rtw_write32 REG_IQK_COM96 0x00462910;
          page_c1;
          (let v = (if ef_ext_pa_5g e then if ef_rfe_option e = 1 then 0x821403e3 else 0x821403f7
                    else 0x821403f1)
           in do { rtw_write32 REG_OFDM0_XB_TX_IQ_IMBALANCE v; rtw_write32 REG_TXPITMB v });
          (if band = RTW_BAND_5G
           then do { rtw_write32 REG_TSSI_TRK_SW 0x68163e96; rtw_write32 REG_RXPITMB 0x68163e96 }
           else do { rtw_write32 REG_TSSI_TRK_SW 0x28163e96;
                     rtw_write32 REG_RXPITMB 0x28163e96;
                     when_do (ef_rfe_option e = 3)
                       (rtw_write32 REG_OFDM0_XB_TX_IQ_IMBALANCE
                          (if ef_ext_pa_2g e then 0x821403e3 else 0x821403f7)) });
          rtw_write32 REG_OFDM0_XA_TX_IQ_IMBALANCE 0x18008c10;
          rtw_write32 REG_OFDM0_A_TX_AFE 0x38008c10;
          rtw_write32 REG_INTPO_SETA 0x00000000;
          rtw_write32 REG_TXTONEB 0x18008c10;
          rtw_write32 REG_RXTONEB 0x38008c10;
          rtw_write32 REG_INTPO_SETB 0x00000000 }"

definition iqk_load_lok :: "nat \<Rightarrow> ('e, 'x, unit) phy" where
  "iqk_load_lok path =
     do { v \<leftarrow> rtw_read_rf path RF_DTXLOK 0xffc00; rtw_write_rf path RF_TXMOD 0x7fe00 v }"

definition iqk_rx_setup :: "iqk_path \<Rightarrow> iqk_path \<Rightarrow> ('e, 'x, unit) phy" where
  "iqk_rx_setup t0 t1 =
     do { rfe \<leftarrow> dev_get (\<lambda>s. ef_rfe_option (efuse s));
          t \<leftarrow> dev_get hci_type;
          page_c;
          iqk_load_lok RF_PATH_A;
          iqk_load_lok RF_PATH_B;
          page_c1;
          page_c;
          when_do (iq_finish t0) (iqk_rf_setup RF_PATH_A iqk_rx_rf);
          when_do (iq_finish t1) (iqk_rf_setup RF_PATH_B iqk_rx_rf);
          rtw_write32_mask REG_IQK_COM00 (BIT 31) 0x1;
          rtw_write32_mask REG_IQK_COM00 (BIT 31) 0x0;
          rtw_write32 REG_DAC_RSTB 0x00008000;
          rtw_write32 REG_IQK_COM96 (if t = RTW_HCI_TYPE_PCIE then 0x0046a911 else 0x0046a890);
          (let v = (if rfe = 1 then 0x00000077 else 0x02000077)
           in do { rtw_write32 REG_RFE_PINMUX_A 0x77777717;
                   rtw_write32 REG_RFE_INV_A v;
                   rtw_write32 REG_RFE_PINMUX_B 0x77777717;
                   rtw_write32 REG_RFE_INV_B v });
          page_c1;
          when_do (iq_finish t0)
            (do { rtw_write32 REG_OFDM0_XA_TX_IQ_IMBALANCE 0x38008c10;
                  rtw_write32 REG_OFDM0_A_TX_AFE 0x18008c10;
                  rtw_write32 REG_OFDM0_XB_TX_IQ_IMBALANCE 0x82140119 });
          when_do (iq_finish t1)
            (do { rtw_write32 REG_TXTONEB 0x38008c10;
                  rtw_write32 REG_RXTONEB 0x18008c10;
                  rtw_write32 REG_TXPITMB 0x82140119 }) }"

definition iqk_fill :: "nat \<Rightarrow> iqk_path \<Rightarrow> iqk_path \<Rightarrow> ('x hw_scheme, unit) state" where
  "iqk_fill path t r =
     do { (if iq_finish t then rtw8812a_iqk_tx_fill path (word_of_int (iq_x t)) (word_of_int (iq_y t))
           else rtw8812a_iqk_tx_fill path 0x200 0x0);
          (if iq_finish r then rtw8812a_iqk_rx_fill path (word_of_int (iq_x r)) (word_of_int (iq_y r))
           else rtw8812a_iqk_rx_fill path 0x200 0x0) }"

text \<open>\<open>None\<close> is a store behind an array or a loop that has not ended after \<open>fuel\<close> rounds.\<close>

definition loop_result :: "'a loop_res \<Rightarrow> 'a option" where
  "loop_result r = (case r of Brk x \<Rightarrow> Some x | _ \<Rightarrow> None)"

definition rtw8812a_iqk :: "nat \<Rightarrow> ('e, 'x, unit option) phy" where
  "rtw8812a_iqk fuel =
     do { rfe \<leftarrow> dev_get (\<lambda>s. ef_rfe_option (efuse s));
          iqk_tx_setup;
          t \<leftarrow> iqk_tx_loop fuel (iqk_path_init False) (iqk_path_init False);
          case loop_result t of None \<Rightarrow> State_Monad.return None
          | Some (t0, t1) \<Rightarrow>
              do { iqk_rx_setup t0 t1;
                   r \<leftarrow> iqk_rx_loop fuel rfe t0 t1 (iqk_path_init (iq_ready t0)) (iqk_path_init (iq_ready t1));
                   case loop_result r of None \<Rightarrow> State_Monad.return None
                   | Some (r0, r1) \<Rightarrow>
                       do { iqk_fill RF_PATH_A t0 r0;
                            iqk_fill RF_PATH_B t1 r1;
                            State_Monad.return (Some ()) } } }"

definition backup_macbb_reg :: "u32 list" where
  "backup_macbb_reg = [0x520, 0x550, 0x808, 0xa04, 0x90c, 0xc00, 0xe00, 0x838, 0x82c]"

definition backup_afe_reg :: "u32 list" where
  "backup_afe_reg = [0xc5c, 0xc60, 0xc64, 0xc68, 0xcb0, 0xcb4, 0xe5c, 0xe60, 0xe64, 0xe68, 0xeb0, 0xeb4]"

definition backup_rf_reg :: "u32 list" where
  "backup_rf_reg = [0x65, 0x8f, 0x0]"

definition iqk_backup :: "('e, 'x, u32 list \<times> u32 \<times> u32 \<times> u32 list \<times> u32 list \<times> u32 list) phy" where
  "iqk_backup =
     do { macbb \<leftarrow> rtw88xxa_iqk_backup_mac_bb backup_macbb_reg;
          rtw_write32_set REG_CCASEL (BIT 31);
          reg_cb8 \<leftarrow> rtw_read32 REG_RFECTL_A;
          reg_eb8 \<leftarrow> rtw_read32 REG_RFECTL_B;
          rtw_write32_clr REG_CCASEL (BIT 31);
          afe \<leftarrow> rtw88xxa_iqk_backup_afe backup_afe_reg;
          (rfa, rfb) \<leftarrow> rtw8812a_iqk_backup_rf backup_rf_reg;
          rtw88xxa_iqk_configure_mac;
          State_Monad.return (macbb, reg_cb8, reg_eb8, afe, rfa, rfb) }"

definition iqk_restore :: "u32 list \<times> u32 \<times> u32 \<times> u32 list \<times> u32 list \<times> u32 list \<Rightarrow> ('e, 'x, unit) phy" where
  "iqk_restore b =
     (case b of (macbb, reg_cb8, reg_eb8, afe, rfa, rfb) \<Rightarrow>
        do { rtw8812a_iqk_restore_rf RF_PATH_A backup_rf_reg rfa;
             rtw8812a_iqk_restore_rf RF_PATH_B backup_rf_reg rfb;
             rtw8812a_iqk_restore_afe backup_afe_reg afe;
             rtw_write32_set REG_CCASEL (BIT 31);
             rtw_write32 REG_RFECTL_A reg_cb8;
             rtw_write32 REG_RFECTL_B reg_eb8;
             rtw_write32_clr REG_CCASEL (BIT 31);
             rtw88xxa_iqk_restore_mac_bb backup_macbb_reg macbb })"

definition rtw8812a_do_iqk :: "('e, 'x, unit option) phy" where
  "rtw8812a_do_iqk =
     do { b \<leftarrow> iqk_backup;
          r \<leftarrow> rtw8812a_iqk 10;
          case r of None \<Rightarrow> State_Monad.return None
          | Some _ \<Rightarrow> do { iqk_restore b; State_Monad.return (Some ()) } }"

definition rtw8812a_led_set :: "bool \<Rightarrow> ('x hw_scheme, unit) state" where
  "rtw8812a_led_set off =
     do { ledcfg \<leftarrow> rtw_read8 REG_LED_CFG;
          let ledcfg = (ledcfg AND (BIT 6 OR BIT 4)) OR BIT 5;
          rtw_write8 REG_LED_CFG (if off then ledcfg OR BIT 3 else ledcfg) }"

end
