(* ===== verification/Calculus.thy ===== *)
theory Calculus
  imports Regio
begin

text \<open>
  Two small calculi for routines over the register bus, in the style of a Hoare logic: what a
  routine may return from any state (\<open>returns\<close>), and what it returns and adds to the log of
  accesses when it changes nothing else (\<open>emits\<close>).
\<close>

section \<open>Values a routine may return\<close>

definition returns :: "('a \<Rightarrow> bool) \<Rightarrow> ('s, 'a) state \<Rightarrow> bool" where
  "returns Q m \<longleftrightarrow> (\<forall>s. Q (fst (run_state m s)))"

named_theorems returns_rules

lemma returns_return [returns_rules]: "Q x \<Longrightarrow> returns Q (State_Monad.return x)"
  by (simp add: returns_def)

lemma returns_bind: "returns P m \<Longrightarrow> (\<And>x. P x \<Longrightarrow> returns Q (f x)) \<Longrightarrow> returns Q (State_Monad.bind m f)"
  by (simp add: returns_def split: prod.split) (metis fst_conv)

lemma returns_skip_bind [returns_rules]: "(\<And>x. returns Q (f x)) \<Longrightarrow> returns Q (State_Monad.bind m f)"
  by (rule returns_bind [of "\<lambda>_. True"]) (simp_all add: returns_def)

lemma returns_mono: "returns P m \<Longrightarrow> (\<And>x. P x \<Longrightarrow> Q x) \<Longrightarrow> returns Q m"
  by (simp add: returns_def)

section \<open>What a routine adds to the log\<close>

lemma quiet_run: "quiet m \<Longrightarrow> \<exists>r l. run_state m s = (r, s\<lparr>io_log := io_log s @ l\<rparr>)"
  using quietE [of m s] by (metis surj_pair)

text \<open>
  \<open>emits Q m\<close>: from every state \<open>m\<close> returns some \<open>r\<close>, adds some \<open>l\<close> to the log with \<open>Q r l\<close>,
  and changes nothing else.
\<close>

definition emits :: "('a \<Rightarrow> io list \<Rightarrow> bool) \<Rightarrow> ('x hw_scheme, 'a) state \<Rightarrow> bool" where
  "emits Q m \<longleftrightarrow> (\<forall>s. \<exists>r l. run_state m s = (r, s\<lparr>io_log := io_log s @ l\<rparr>) \<and> Q r l)"

lemma emitsE:
  assumes "emits Q m"
  obtains r l where "run_state m s = (r, s\<lparr>io_log := io_log s @ l\<rparr>)" and "Q r l"
  using assms unfolding emits_def by blast

lemma emits_return: "Q r [] \<Longrightarrow> emits Q (State_Monad.return r)"
  by (auto simp: emits_def intro!: exI [of _ "[]"])

lemma emits_bind:
  assumes "emits P m" and "\<And>r l. P r l \<Longrightarrow> emits (\<lambda>r' l'. Q r' (l @ l')) (f r)"
  shows "emits Q (State_Monad.bind m f)"
  unfolding emits_def
proof
  fix s
  obtain r l where m: "run_state m s = (r, s\<lparr>io_log := io_log s @ l\<rparr>)" and "P r l"
    using assms(1) unfolding emits_def by blast
  from assms(2) [OF this(2), unfolded emits_def, rule_format, of "s\<lparr>io_log := io_log s @ l\<rparr>"]
  obtain r' l' where
    "run_state (f r) (s\<lparr>io_log := io_log s @ l\<rparr>) = (r', s\<lparr>io_log := io_log s @ l @ l'\<rparr>)" "Q r' (l @ l')"
    by auto
  with m show "\<exists>r l. run_state (State_Monad.bind m f) s = (r, s\<lparr>io_log := io_log s @ l\<rparr>) \<and> Q r l"
    by auto
qed

lemma emits_quiet: "quiet m \<Longrightarrow> emits (\<lambda>_ _. True) m"
  using quiet_run unfolding emits_def by blast

lemma emits_quiet_bind:
  "quiet m \<Longrightarrow> (\<And>r l. emits (\<lambda>r' l'. Q r' (l @ l')) (f r)) \<Longrightarrow> emits Q (State_Monad.bind m f)"
  by (rule emits_bind [OF emits_quiet])

lemma emits_mono: "emits P m \<Longrightarrow> (\<And>r l. P r l \<Longrightarrow> Q r l) \<Longrightarrow> emits Q m"
  unfolding emits_def by blast

end
