(* ===== verification/IqkProps.thy ===== *)
theory IqkProps
  imports Iqk8812a Chip8812a Calculus
begin

text \<open>
  Correctness of the IQ calibration: two agreeing samples are what \<open>rtw88xxa_iqk_finish\<close>
  finds, both loops end within ten rounds without leaving the sample arrays, and the
  calibration puts back every MAC and baseband register it saved.
\<close>

section \<open>Agreeing samples\<close>

lemma iqk_inner_cases:
  "iqk_inner thr bi a bs acc =
     (if filter (iqk_close thr a) bs = [] then acc
      else Some (iqk_mean a ((if bi then hd else last) (filter (iqk_close thr a) bs))))"
  by (induction bs arbitrary: acc) auto

lemma iqk_outer_Some:
  "iqk_outer thr bi bo as acc = Some r \<Longrightarrow>
     acc = Some r \<or> (\<exists>i j. i < j \<and> j < length as \<and> iqk_close thr (as ! i) (as ! j) \<and> r = iqk_mean (as ! i) (as ! j))"
proof (induction "as" arbitrary: acc)
  case Nil
  then show ?case by simp
next
  case (Cons a as)
  let ?acc = "iqk_inner thr bi a as acc"
  have inner: "?acc = Some r \<Longrightarrow> acc = Some r \<or>
      (\<exists>i j. i < j \<and> j < length (a # as) \<and> iqk_close thr ((a # as) ! i) ((a # as) ! j)
         \<and> r = iqk_mean ((a # as) ! i) ((a # as) ! j))"
  proof (cases "filter (iqk_close thr a) as = []")
    case False
    let ?b = "(if bi then hd else last) (filter (iqk_close thr a) as)"
    assume "?acc = Some r"
    with False have r: "r = iqk_mean a ?b"
      by (simp add: iqk_inner_cases)
    from False have "?b \<in> set (filter (iqk_close thr a) as)"
      using hd_in_set [OF False] last_in_set [OF False] by (simp only: split: if_split) blast
    then obtain j where "j < length as" "as ! j = ?b" "iqk_close thr a ?b"
      by (auto simp only: in_set_conv_nth set_filter mem_Collect_eq)
    with r show ?thesis
      by (intro disjI2 exI [of _ 0] exI [of _ "Suc j"]) simp
  qed (simp add: iqk_inner_cases)
  show ?case
  proof (cases "?acc \<noteq> None \<and> bo")
    case True
    with Cons.prems have "?acc = Some r"
      by (auto simp: Let_def)
    then show ?thesis by (rule inner)
  next
    case False
    with Cons.prems have "iqk_outer thr bi bo as ?acc = Some r"
      by (auto simp: Let_def)
    from Cons.IH [OF this] show ?thesis
    proof
      assume "?acc = Some r"
      then show ?thesis by (rule inner)
    next
      assume "\<exists>i j. i < j \<and> j < length as \<and> iqk_close thr (as ! i) (as ! j) \<and> r = iqk_mean (as ! i) (as ! j)"
      then obtain i j where "i < j" "j < length as" "iqk_close thr (as ! i) (as ! j)" "r = iqk_mean (as ! i) (as ! j)"
        by blast
      then show ?thesis
        by (intro disjI2 exI [of _ "Suc i"] exI [of _ "Suc j"]) simp
    qed
  qed
qed

lemma iqk_outer_None:
  "iqk_outer thr bi bo as acc = None \<Longrightarrow> acc = None \<and> (\<forall>j < length as. \<forall>i < j. \<not> iqk_close thr (as ! i) (as ! j))"
proof (induction "as" arbitrary: acc)
  case Nil
  then show ?case by simp
next
  case (Cons a as)
  let ?acc = "iqk_inner thr bi a as acc"
  from Cons.prems have "iqk_outer thr bi bo as ?acc = None"
    by (simp add: Let_def split: if_splits)
  from Cons.IH [OF this] have "?acc = None" and
    tl: "\<forall>j < length as. \<forall>i < j. \<not> iqk_close thr (as ! i) (as ! j)"
    by blast+
  then have "acc = None" and hd: "\<forall>b \<in> set as. \<not> iqk_close thr a b"
    by (simp_all add: iqk_inner_cases filter_empty_conv split: if_splits)
  have "\<not> iqk_close thr ((a # as) ! i) ((a # as) ! j)" if "j < length (a # as)" "i < j" for i j
    using that hd tl by (cases j; cases i) auto
  with \<open>acc = None\<close> show ?case by blast
qed

lemma iqk_value_range: "- 1024 \<le> iqk_value v \<and> iqk_value v < 1024"
proof -
  have "sint (signed_drop_bit 21 v) = sint v div 2 ^ 21"
    by (simp add: sint_signed_drop_bit_eq drop_bit_eq_div)
  moreover have "- (2 ^ 31) \<le> sint v" "sint v < 2 ^ 31"
    using sint_range_size [of v] by (simp_all add: word_size)
  ultimately show ?thesis
    unfolding iqk_value_def by (simp add: div_int_pos_iff) linarith
qed

lemma sdiv2_bounds:
  assumes "-(2 * n) \<le> a" and "a < 2 * n"
  shows "- n \<le> a sdiv 2 \<and> a sdiv 2 < (n :: int)"
  using assms unfolding signed_divide_int_def
  by (cases "a = 0") (auto simp: sgn_if abs_if)

text \<open>
  \<open>rtw88xxa_iqk_finish\<close>, with either of its early exits, succeeds exactly if two of
  the samples agree within the threshold in both coordinates; its result is then the mean of two
  such samples, rounded towards zero, and fits the eleven bits of the registers.
\<close>

theorem rtw88xxa_iqk_finish_agrees:
  "case rtw88xxa_iqk_finish thr temp bi bo of
     None \<Rightarrow> \<not> (\<exists>i j. i < j \<and> j < length temp \<and> iqk_close thr (temp ! i) (temp ! j))
   | Some (x, y) \<Rightarrow>
       (\<exists>i j. i < j \<and> j < length temp \<and> iqk_close thr (temp ! i) (temp ! j) \<and> (x, y) = iqk_mean (temp ! i) (temp ! j))
       \<and> - 1024 \<le> x \<and> x < 1024 \<and> - 1024 \<le> y \<and> y < 1024"
proof (cases "rtw88xxa_iqk_finish thr temp bi bo")
  case None
  with iqk_outer_None [of thr bi bo temp None] show ?thesis
    by (auto simp: rtw88xxa_iqk_finish_def)
next
  case (Some r)
  obtain x y where r: "r = (x, y)"
    by (cases r)
  from iqk_outer_Some [of thr bi bo temp None r] Some obtain i j where
    ij: "i < j" "j < length temp" "iqk_close thr (temp ! i) (temp ! j)" "(x, y) = iqk_mean (temp ! i) (temp ! j)"
    by (auto simp: rtw88xxa_iqk_finish_def r)
  have "- 1024 \<le> (iqk_value u + iqk_value v) sdiv 2 \<and> (iqk_value u + iqk_value v) sdiv 2 < 1024" for u v
    using iqk_value_range [of u] iqk_value_range [of v] by (intro sdiv2_bounds) linarith+
  with ij show ?thesis
    unfolding Some r option.case prod.case iqk_mean_def by blast
qed

section \<open>The two loops end\<close>

text \<open>After \<open>k\<close> rounds each path has used up \<open>k\<close> of its attempts, on samples or on retries.\<close>

definition iqk_inv :: "nat \<Rightarrow> iqk_path \<Rightarrow> bool" where
  "iqk_inv k p \<longleftrightarrow> unat (iq_retry p) + unat (iq_avg p) = k \<and> length (iq_temp p) = unat (iq_avg p)"

lemma iqk_inv_ready [simp]: "iqk_inv k (p\<lparr>iq_ready := b\<rparr>) = iqk_inv k p"
  by (simp add: iqk_inv_def)

lemma iqk_inv_conclude [simp]: "iqk_inv k (iqk_conclude b p) = iqk_inv k p"
  by (simp add: iqk_conclude_def iqk_inv_def split: option.split)

lemma iqk_inv_init [simp]: "iqk_inv 0 (iqk_path_init b)"
  by (simp add: iqk_inv_def iqk_path_init_def)

lemma unat_add_1_u8: "unat (a :: u8) < 255 \<Longrightarrow> unat (a + 1) = unat a + 1"
  by (simp add: unat_word_ariths)

lemma iqk_inv_sample:
  "iqk_inv k p \<Longrightarrow> k < 10 \<Longrightarrow> iqk_inv (Suc k) (p\<lparr>iq_avg := iq_avg p + 1, iq_temp := iq_temp p @ [xy]\<rparr>)"
  by (simp add: iqk_inv_def unat_add_1_u8)

lemma iqk_inv_retry: "iqk_inv k p \<Longrightarrow> k < 10 \<Longrightarrow> iqk_inv (Suc k) (p\<lparr>iq_retry := iq_retry p + 1\<rparr>)"
  by (simp add: iqk_inv_def unat_add_1_u8)

lemma iqk_inv_avg: "iqk_inv k p \<Longrightarrow> k < 10 \<Longrightarrow> iq_avg p < 10"
  by (simp add: iqk_inv_def word_less_nat_alt)

lemma iqk_inv_exhausted: "iqk_inv k p \<Longrightarrow> iqk_exhausted p \<longleftrightarrow> 10 \<le> k"
  by (simp add: iqk_inv_def iqk_exhausted_def)

text \<open>The outcomes a round may have.\<close>

definition step_ok :: "('a \<Rightarrow> bool) \<Rightarrow> 'a loop_res \<Rightarrow> bool" where
  "step_ok Q r \<longleftrightarrow> (case r of Go x \<Rightarrow> Q x | Brk x \<Rightarrow> True | _ \<Rightarrow> False)"

lemma step_ok_simps [simp]:
  "step_ok Q (Go x) = Q x" "step_ok Q (Brk x)" "\<not> step_ok Q Oob" "\<not> step_ok Q Stuck"
  by (simp_all add: step_ok_def)

lemma returns_wait:
  "returns (\<lambda>(got, q0, q1). iqk_inv k q0 = iqk_inv k p0 \<and> iqk_inv l q1 = iqk_inv l p1) (iqk_wait n b0 b1 p0 p1)"
proof (induction n arbitrary: p0 p1)
  case 0
  then show ?case by (simp add: returns_def)
next
  case (Suc n)
  note IH = Suc.IH [of "p0\<lparr>iq_ready := r0\<rparr>" "p1\<lparr>iq_ready := r1\<rparr>" for r0 r1, unfolded iqk_inv_ready]
  show ?case
    unfolding iqk_wait.simps Let_def
    by (rule returns_skip_bind)+ (auto simp: IH intro!: returns_rules split: if_split)
qed

lemma returns_check_path:
  assumes "iqk_inv k p" and "k < 10"
  shows "returns (step_ok (iqk_inv (Suc k))) (iqk_check_path good ctl e cx cy p)"
  unfolding iqk_check_path_def iqk_sample_def iqk_retry_def Let_def
  using iqk_inv_sample [OF assms] iqk_inv_retry [OF assms] iqk_inv_avg [OF assms]
  by (auto intro!: returns_rules simp: not_le)

lemma returns_check:
  assumes "iqk_inv k p0" and "iqk_inv k p1" and "k < 10"
  shows "returns (step_ok (\<lambda>(q0, q1). iqk_inv (Suc k) q0 \<and> iqk_inv (Suc k) q1)) (iqk_check fb cx cy e0 e1 got p0 p1)"
proof (cases got)
  case False
  with assms iqk_inv_retry show ?thesis
    by (auto simp: iqk_check_def Let_def intro!: returns_rules)
next
  case True
  show ?thesis
    unfolding iqk_check_def using True
    apply simp
    apply (rule returns_skip_bind, rule returns_skip_bind)
    apply (rule returns_bind [OF returns_check_path [OF assms(1,3)]])
    subgoal for f0 f1 r0
      apply (cases r0; simp add: returns_return)
      apply (rule returns_bind [OF returns_check_path [OF assms(2,3)]])
      subgoal for _ r1
        by (cases r1) (auto intro!: returns_rules)
      done
    done
qed

text \<open>The two loops share the argument: a body that keeps the invariant, and ten rounds.\<close>

definition ends :: "('a loop_res) \<Rightarrow> bool" where
  "ends r \<longleftrightarrow> (\<exists>x. r = Brk x)"

lemma ends_Brk [simp]: "ends (Brk x)"
  by (simp add: ends_def)

lemma ends_not_Stuck: "ends r \<Longrightarrow> r \<noteq> Stuck"
  by (auto simp: ends_def)

lemma returns_round:
  assumes "iqk_inv k p0" and "iqk_inv k p1" and "k < 10"
    and "\<And>q0 q1. iqk_inv (Suc k) q0 \<Longrightarrow> iqk_inv (Suc k) q1 \<Longrightarrow> returns ends (f q0 q1)"
  shows "returns ends
    (do { shot;
          (got, q0, q1) \<leftarrow> iqk_wait n b0 b1 p0 p1;
          r \<leftarrow> iqk_check fb cx cy e0 e1 got q0 q1;
          case r of Go (q0, q1) \<Rightarrow> f q0 q1
          | Brk qs \<Rightarrow> State_Monad.return (Brk qs)
          | Oob \<Rightarrow> State_Monad.return Oob
          | Stuck \<Rightarrow> State_Monad.return Stuck })"
proof (rule returns_skip_bind, rule returns_bind [OF returns_wait [of k p0 k p1]], clarify)
  fix got q0 q1
  assume "iqk_inv k q0 = iqk_inv k p0" "iqk_inv k q1 = iqk_inv k p1"
  with assms have inv: "iqk_inv k q0" "iqk_inv k q1"
    by blast+
  show "returns ends (do { r \<leftarrow> iqk_check fb cx cy e0 e1 got q0 q1;
          case r of Go (q0, q1) \<Rightarrow> f q0 q1
          | Brk qs \<Rightarrow> State_Monad.return (Brk qs)
          | Oob \<Rightarrow> State_Monad.return Oob
          | Stuck \<Rightarrow> State_Monad.return Stuck })"
    by (rule returns_bind [OF returns_check [OF inv assms(3)]])
      (auto simp: step_ok_def assms(4) split: loop_res.splits intro!: returns_return)
qed

lemma returns_tx_loop:
  "iqk_inv k p0 \<Longrightarrow> iqk_inv k p1 \<Longrightarrow> k < 10 \<Longrightarrow> 10 \<le> k + n \<Longrightarrow> returns ends (iqk_tx_loop n p0 p1)"
proof (induction n arbitrary: k p0 p1)
  case 0
  then show ?case by simp
next
  case (Suc n)
  show ?case
    unfolding iqk_tx_loop.simps Let_def
    by (rule returns_round [OF Suc.prems(1-3)])
      (use Suc.prems Suc.IH [of "Suc k"] iqk_inv_exhausted [of "Suc k"] in \<open>auto intro!: returns_return\<close>)
qed

lemma returns_rx_loop:
  "iqk_inv k p0 \<Longrightarrow> iqk_inv k p1 \<Longrightarrow> k < 10 \<Longrightarrow> 10 \<le> k + n \<Longrightarrow> returns ends (iqk_rx_loop n rfe t0 t1 p0 p1)"
proof (induction n arbitrary: k p0 p1)
  case 0
  then show ?case by simp
next
  case (Suc n)
  show ?case
    unfolding iqk_rx_loop.simps Let_def
    by (rule returns_round [OF Suc.prems(1-3)])
      (use Suc.prems Suc.IH [of "Suc k"] iqk_inv_exhausted [of "Suc k"] in \<open>auto intro!: returns_return\<close>)
qed

lemma rtw8812a_iqk_some: "10 \<le> fuel \<Longrightarrow> fst (run_state (rtw8812a_iqk fuel) s) = Some ()"
proof -
  assume fuel: "10 \<le> fuel"
  have loop: "returns (\<lambda>z. z \<noteq> None) (case loop_result r of None \<Rightarrow> State_Monad.return None | Some (q0, q1) \<Rightarrow> f q0 q1)"
    if "ends r" and "\<And>q0 q1. returns (\<lambda>z. z \<noteq> None) (f q0 q1)" for r :: "(iqk_path \<times> iqk_path) loop_res"
      and f :: "iqk_path \<Rightarrow> iqk_path \<Rightarrow> ('s, unit option) state"
    using that by (auto simp: ends_def loop_result_def)
  have "returns (\<lambda>z. z \<noteq> None) (rtw8812a_iqk fuel)"
    unfolding rtw8812a_iqk_def
    apply (rule returns_skip_bind, rule returns_skip_bind)
    apply (rule returns_bind [OF returns_tx_loop [of 0]], simp, simp, simp, use fuel in simp)
    apply (erule loop, rule returns_skip_bind)
    apply (rule returns_bind [OF returns_rx_loop [of 0]], simp, simp, simp, use fuel in simp)
    apply (erule loop, rule returns_skip_bind, rule returns_skip_bind)
    by (simp add: returns_return)
  then show ?thesis
    by (auto simp: returns_def)
qed

text \<open>More fuel than a loop needs makes no difference.\<close>

lemma iqk_tx_loop_fuel:
  "fst (run_state (iqk_tx_loop n p0 p1) s) \<noteq> Stuck \<Longrightarrow>
     run_state (iqk_tx_loop (n + k) p0 p1) s = run_state (iqk_tx_loop n p0 p1) s"
proof (induction n arbitrary: p0 p1 s)
  case 0
  then show ?case by simp
next
  case (Suc n)
  then show ?case
    by (auto simp: Let_def split: prod.splits loop_res.splits if_splits)
qed

lemma iqk_rx_loop_fuel:
  "fst (run_state (iqk_rx_loop n rfe t0 t1 p0 p1) s) \<noteq> Stuck \<Longrightarrow>
     run_state (iqk_rx_loop (n + k) rfe t0 t1 p0 p1) s = run_state (iqk_rx_loop n rfe t0 t1 p0 p1) s"
proof (induction n arbitrary: p0 p1 s)
  case 0
  then show ?case by simp
next
  case (Suc n)
  then show ?case
    by (auto simp: Let_def split: prod.splits loop_res.splits if_splits)
qed

text \<open>
  Property C33. The IQ calibration of the RTL8812A returns, whatever the chip answers: with ten
  rounds for each of its \<open>while (1)\<close> loops neither loop is left unfinished and no sample is
  stored behind the tenth entry of its array, and more rounds change nothing at all.
\<close>

theorem rtw8812a_iqk_returns:
  fixes s :: "('e, 'x) rtw_phy_scheme"
  assumes "10 \<le> fuel"
  shows "fst (run_state (rtw8812a_iqk fuel) s) = Some () \<and>
     run_state (rtw8812a_iqk fuel) s = run_state (rtw8812a_iqk 10) s"
proof -
  obtain k where k: "fuel = 10 + k"
    using assms le_Suc_ex by blast
  have ends: "fst (run_state (iqk_tx_loop 10 (iqk_path_init b0) (iqk_path_init b1)) s') \<noteq> Stuck"
      "fst (run_state (iqk_rx_loop 10 rfe t0 t1 (iqk_path_init b0) (iqk_path_init b1)) s') \<noteq> Stuck" for rfe t0 t1 b0 b1
      and s' :: "('e, 'x) rtw_phy_scheme"
    by (rule ends_not_Stuck, rule returns_tx_loop [of 0, unfolded returns_def, rule_format], simp_all)
      (rule ends_not_Stuck, rule returns_rx_loop [of 0, unfolded returns_def, rule_format], simp_all)
  have loops: "iqk_tx_loop fuel (iqk_path_init b0) (iqk_path_init b1)
        = (iqk_tx_loop 10 (iqk_path_init b0) (iqk_path_init b1) :: (('e, 'x) rtw_phy_scheme, _) state)"
      "iqk_rx_loop fuel rfe t0 t1 (iqk_path_init b0) (iqk_path_init b1)
        = (iqk_rx_loop 10 rfe t0 t1 (iqk_path_init b0) (iqk_path_init b1) :: (('e, 'x) rtw_phy_scheme, _) state)"
      for rfe t0 t1 b0 b1
    using iqk_tx_loop_fuel [OF ends(1)] iqk_rx_loop_fuel [OF ends(2)]
    by (auto simp: k intro!: state_eqI)
  have "rtw8812a_iqk fuel = (rtw8812a_iqk 10 :: ('e, 'x, unit option) phy)"
    unfolding rtw8812a_iqk_def loops by (rule refl)
  then have "run_state (rtw8812a_iqk fuel) s = run_state (rtw8812a_iqk 10) s"
    by simp
  then show ?thesis
    by (intro conjI rtw8812a_iqk_some [OF assms])
qed

text \<open>The witness: a hundred rounds, from every state of a device.\<close>

lemma rtw8812a_iqk_returns_witness:
  "\<forall>s :: unit rtw_phy. fst (run_state (rtw8812a_iqk 100) s) = Some () \<and>
     run_state (rtw8812a_iqk 100) s = run_state (rtw8812a_iqk 10) s"
  by (intro allI rtw8812a_iqk_returns) simp

section \<open>The calibration touches registers only\<close>

lemma quiet_rf [quiet_rules]: "quiet (rtw_read_rf path a m)" "quiet (rtw_write_rf path a m v)"
proof -
  have rd: "quiet (rtw88xxa_phy_read_rf path a m)" for path a m
    unfolding rtw88xxa_phy_read_rf_def Let_def by (intro quiet_rules)
  then show "quiet (rtw_read_rf path a m)"
    by (simp add: rtw_read_rf_def)
  show "quiet (rtw_write_rf path a m v)"
    unfolding rtw_write_rf_def rtw_phy_write_rf_reg_sipi_def Let_def
    by (intro quiet_rules rd)
qed

lemma quiet_delay [quiet_rules]: "quiet (mdelay n)"
  unfolding mdelay_def by (intro quiet_rules)

lemma quiet_page [quiet_rules]: "quiet page_c" "quiet page_c1"
  unfolding page_c_def page_c1_def by (intro quiet_rules)+

lemma quiet_loop_res [quiet_rules]:
  "(\<And>x. r = Go x \<Longrightarrow> quiet (f x)) \<Longrightarrow> (\<And>x. r = Brk x \<Longrightarrow> quiet (g x)) \<Longrightarrow> quiet h \<Longrightarrow> quiet h' \<Longrightarrow>
   quiet (case r of Go x \<Rightarrow> f x | Brk x \<Rightarrow> g x | Oob \<Rightarrow> h | Stuck \<Rightarrow> h')"
  by (cases r) simp_all

lemma quiet_iqk_wait [quiet_rules]: "quiet (iqk_wait n b0 b1 p0 p1)"
  by (induction n arbitrary: p0 p1) (auto simp: Let_def intro!: quiet_rules)

lemma quiet_iqk_check [quiet_rules]: "quiet (iqk_check fb cx cy e0 e1 got p0 p1)"
  unfolding iqk_check_def iqk_check_path_def iqk_sample_def by (intro quiet_rules)

lemma quiet_iqk_shots [quiet_rules]: "quiet iqk_tx_shot" "quiet (iqk_rx_shot rfe t0 t1)"
  unfolding iqk_tx_shot_def iqk_rx_shot_def by (intro quiet_rules)+

lemma quiet_iqk_loops [quiet_rules]: "quiet (iqk_tx_loop n p0 p1)" "quiet (iqk_rx_loop n rfe t0 t1 p0 p1)"
proof -
  show "quiet (iqk_tx_loop n p0 p1)"
    by (induction n arbitrary: p0 p1) (simp_all only: iqk_tx_loop.simps iqk_rx_loop.simps Let_def, (intro quiet_rules; simp)+)
  show "quiet (iqk_rx_loop n rfe t0 t1 p0 p1)"
    by (induction n arbitrary: p0 p1) (simp_all only: iqk_tx_loop.simps iqk_rx_loop.simps Let_def, (intro quiet_rules; simp)+)
qed

lemma quiet_rf_setup [quiet_rules]: "quiet (iqk_rf_setup path l)" "quiet (iqk_load_lok path)"
  unfolding iqk_rf_setup_def iqk_load_lok_def by (intro quiet_rules)+

lemma quiet_iqk_setup [quiet_rules]: "quiet iqk_tx_setup" "quiet (iqk_rx_setup t0 t1)"
  unfolding iqk_tx_setup_def iqk_rx_setup_def by (intro quiet_rules)+

lemma quiet_iqk_fill [quiet_rules]: "quiet (iqk_fill path t r)"
  unfolding iqk_fill_def rtw8812a_iqk_tx_fill_def rtw8812a_iqk_rx_fill_def iqk_tx_fill_regs_def
    iqk_rx_fill_reg_def
  by (intro quiet_rules)

lemma quiet_iqk [quiet_rules]: "quiet (rtw8812a_iqk fuel)"
  unfolding rtw8812a_iqk_def by (intro quiet_rules)

lemma quiet_write_regs [quiet_rules]: "quiet (write_regs as vs)"
  unfolding write_regs_def by (intro quiet_rules)

lemma quiet_read_rf_regs [quiet_rules]: "quiet (read_rf_regs rs)"
  by (induction rs) (simp_all only: read_rf_regs.simps, (intro quiet_rules; simp)+)

lemma quiet_iqk_save [quiet_rules]:
  "quiet (rtw8812a_iqk_backup_rf rs)" "quiet rtw88xxa_iqk_configure_mac"
  "quiet (rtw8812a_iqk_restore_rf path rs vs)" "quiet (rtw8812a_iqk_restore_afe rs vs)"
  unfolding rtw8812a_iqk_backup_rf_def rtw88xxa_iqk_configure_mac_def
    rtw8812a_iqk_restore_rf_def rtw8812a_iqk_restore_afe_def
  by (intro quiet_rules)+

section \<open>What is saved is put back\<close>

lemma run_read_regs:
  "\<exists>vs. run_state (read_regs as) s = (vs, s\<lparr>io_log := io_log s @ map2 (Rd 4) as vs\<rparr>) \<and> length vs = length as"
proof (induction "as" arbitrary: s)
  case Nil
  then show ?case by simp
next
  case (Cons a as)
  let ?v = "dev_read s (io_log s) 4 a"
  let ?s = "s\<lparr>io_log := io_log s @ [Rd 4 a ?v]\<rparr>"
  from Cons [of ?s] obtain vs where
    "run_state (read_regs as) ?s = (vs, ?s\<lparr>io_log := io_log ?s @ map2 (Rd 4) as vs\<rparr>)" "length vs = length as"
    by blast
  then show ?case
    by (intro exI [of _ "?v # vs"]) simp
qed

lemma run_write_regs: "run_state (write_regs as vs) s = ((), s\<lparr>io_log := io_log s @ map2 (Wr 4) as vs\<rparr>)"
proof -
  have "run_state (for_each ps (\<lambda>(a, v). rtw_write32 a v)) s = ((), s\<lparr>io_log := io_log s @ map (\<lambda>(a, v). Wr 4 a v) ps\<rparr>)"
    for ps and s :: "'a hw_scheme"
    by (induction ps arbitrary: s) (auto simp: split_beta)
  then show ?thesis
    by (simp add: write_regs_def)
qed

text \<open>The accesses of \<open>page_c\<close> when the register reads \<open>c\<close>.\<close>

definition page_c_log :: "u32 \<Rightarrow> io list" where
  "page_c_log c = [Rd 4 REG_CCASEL c, Wr 4 REG_CCASEL (c AND NOT (BIT 31))]"

lemma run_page_c: "\<exists>c. run_state page_c s = ((), s\<lparr>io_log := io_log s @ page_c_log c\<rparr>)"
  unfolding page_c_def rmw_defs page_c_log_def
  by (intro exI [of _ "dev_read s (io_log s) 4 REG_CCASEL"]) (simp add: mask_merge_def)

lemma emits_page_c: "emits (\<lambda>_ l. \<exists>c. l = page_c_log c) page_c"
  using run_page_c unfolding emits_def by blast

lemma emits_page_read:
  "emits (\<lambda>vs l. length vs = length as \<and> (\<exists>c. l = page_c_log c @ map2 (Rd 4) as vs)) (do { page_c; read_regs as })"
proof (rule emits_bind [OF emits_page_c], clarify)
  fix c
  show "emits (\<lambda>vs l. length vs = length as \<and> (\<exists>c'. page_c_log c @ l = page_c_log c' @ map2 (Rd 4) as vs)) (read_regs as)"
    using run_read_regs unfolding emits_def by blast
qed

lemma emits_write_regs: "emits (\<lambda>_ l. l = map2 (Wr 4) as vs) (write_regs as vs)"
  using run_write_regs unfolding emits_def by blast

lemma emits_page_write: "emits (\<lambda>_ l. \<exists>c. l = page_c_log c @ map2 (Wr 4) as vs) (do { page_c; write_regs as vs })"
proof (rule emits_bind [OF emits_page_c], clarify)
  fix c
  show "emits (\<lambda>_ l. \<exists>c'. page_c_log c @ l = page_c_log c' @ map2 (Wr 4) as vs) (write_regs as vs)"
    using run_write_regs unfolding emits_def by blast
qed

text \<open>The switch to page C1, and the two registers saved there.\<close>

definition page_c1_log :: "u32 \<Rightarrow> io list" where
  "page_c1_log c = [Rd 4 REG_CCASEL c, Wr 4 REG_CCASEL (c OR BIT 31)]"

lemma emits_ccasel:
  "emits (\<lambda>_ l. \<exists>c. l = page_c1_log c) (rtw_write32_set REG_CCASEL (BIT 31))"
  "emits (\<lambda>_ l. \<exists>c. l = page_c_log c) (rtw_write32_clr REG_CCASEL (BIT 31))"
  "emits (\<lambda>_ l. \<exists>c. l = page_c1_log c) page_c1"
proof -
  have "push_bit (ffs (BIT 31 :: u32)) 1 AND BIT 31 = (BIT 31 :: u32)"
    by code_simp
  moreover have "c AND NOT b OR b = c OR b" for c b :: u32
    by (rule bit_word_eqI) (auto simp: bit_simps)
  ultimately have one: "mask_merge c (BIT 31) 1 = c OR BIT 31" for c :: u32
    unfolding mask_merge_def by metis
  show "emits (\<lambda>_ l. \<exists>c. l = page_c1_log c) (rtw_write32_set REG_CCASEL (BIT 31))"
    "emits (\<lambda>_ l. \<exists>c. l = page_c_log c) (rtw_write32_clr REG_CCASEL (BIT 31))"
    "emits (\<lambda>_ l. \<exists>c. l = page_c1_log c) page_c1"
    unfolding emits_def page_c1_def rmw_defs page_c_log_def page_c1_log_def
    by (auto simp: one intro: exI [of _ "[Rd 4 REG_CCASEL c, Wr 4 REG_CCASEL (c OR BIT 31)]" for c])
qed

lemma emits_read32: "emits (\<lambda>v l. l = [Rd 4 a v]) (rtw_read32 a)"
  by (simp add: emits_def)

lemma emits_write32: "emits (\<lambda>_ l. l = [Wr 4 a v]) (rtw_write32 a v)"
  by (simp add: emits_def)

text \<open>Accesses that leave the page alone.\<close>

definition off_ccasel :: "io \<Rightarrow> bool" where
  "off_ccasel e \<longleftrightarrow> (case e of Wr n a v \<Rightarrow> a \<noteq> REG_CCASEL | _ \<Rightarrow> True)"

lemma stays_bind:
  assumes "emits (\<lambda>_. list_all off_ccasel) m" and "\<And>r. emits (\<lambda>_. list_all off_ccasel) (f r)"
  shows "emits (\<lambda>_. list_all off_ccasel) (State_Monad.bind m f)"
  by (rule emits_bind [OF assms(1)], rule emits_mono [OF assms(2)]) simp

lemma stays_write:
  assumes "a \<noteq> REG_CCASEL"
  shows "emits (\<lambda>_. list_all off_ccasel) (rtw_write32 a v)" "emits (\<lambda>_. list_all off_ccasel) (rtw_write32_mask a m v)"
  using assms by (auto simp: emits_def rmw_defs off_ccasel_def)

lemma length_backup: "length backup_macbb_reg = 9" "length backup_afe_reg = 12"
  by (simp_all add: backup_macbb_reg_def backup_afe_reg_def)

lemma emits_iqk_backup:
  "emits (\<lambda>(macbb, cb, eb, afe, rfa, rfb) l. length macbb = 9 \<and> length afe = 12 \<and>
      (\<exists>c c1 d1 d2 m. l = page_c_log c @ map2 (Rd 4) backup_macbb_reg macbb
        @ page_c1_log d1 @ [Rd 4 0xcb8 cb, Rd 4 0xeb8 eb] @ page_c_log d2
        @ page_c_log c1 @ map2 (Rd 4) backup_afe_reg afe @ m)) iqk_backup"
  unfolding iqk_backup_def rtw88xxa_iqk_backup_mac_bb_def rtw88xxa_iqk_backup_afe_def
  apply (rule emits_bind [OF emits_page_read], elim conjE exE)
  apply (rule emits_bind [OF emits_ccasel(1)], elim exE)
  apply (rule emits_bind [OF emits_read32], rule emits_bind [OF emits_read32])
  apply (rule emits_bind [OF emits_ccasel(2)], elim exE)
  apply (rule emits_bind [OF emits_page_read], elim conjE exE)
  apply (rule emits_quiet_bind [OF quiet_iqk_save(1)], clarify)
  apply (rule emits_quiet_bind [OF quiet_iqk_save(2)])
  apply (rule emits_return)
  apply (simp only: prod.case length_backup simp_thms append_assoc append_Cons append_Nil)
  apply (intro exI)
  apply (rule refl)
  done

lemma emits_restore_afe:
  "emits (\<lambda>_ l. \<exists>c d m. l = page_c_log c @ map2 (Wr 4) backup_afe_reg afe @ page_c1_log d @ m \<and> list_all off_ccasel m)
     (rtw8812a_iqk_restore_afe backup_afe_reg afe)"
  unfolding rtw8812a_iqk_restore_afe_def
  apply (rule emits_bind [OF emits_page_c], elim exE)
  apply (rule emits_bind [OF emits_write_regs])
  apply (rule emits_bind [OF emits_ccasel(3)], elim exE)
  apply (rule emits_mono [where P = "\<lambda>_. list_all off_ccasel"])
   apply (intro stays_bind stays_write; simp)
  apply (simp only: append_assoc)
  apply (intro exI conjI)
   apply (rule refl)
  apply assumption
  done

lemma emits_iqk_restore:
  "emits (\<lambda>_ l. \<exists>c c' d d1 d2 m0 m0' m. l = m0 @ m0' @ page_c_log c @ map2 (Wr 4) backup_afe_reg afe @ page_c1_log d @ m
        @ page_c1_log d1 @ [Wr 4 0xcb8 cb, Wr 4 0xeb8 eb] @ page_c_log d2
        @ page_c_log c' @ map2 (Wr 4) backup_macbb_reg macbb \<and> list_all off_ccasel m)
     (iqk_restore (macbb, cb, eb, afe, rfa, rfb))"
  unfolding iqk_restore_def prod.case rtw88xxa_iqk_restore_mac_bb_def
  apply (rule emits_quiet_bind [OF quiet_iqk_save(3)], rule emits_quiet_bind [OF quiet_iqk_save(3)])
  apply (rule emits_bind [OF emits_restore_afe], elim exE conjE)
  apply (rule emits_bind [OF emits_ccasel(1)], elim exE)
  apply (rule emits_bind [OF emits_write32], rule emits_bind [OF emits_write32])
  apply (rule emits_bind [OF emits_ccasel(2)], elim exE)
  apply (rule emits_mono [OF emits_page_write], elim exE)
  apply (simp only: append_assoc append_Cons append_Nil)
  apply (intro exI conjI)
   apply (rule refl)
  apply assumption
  done

text \<open>
  Property C34. The IQ calibration puts back every MAC, baseband and AFE register it saved. It first
  reads, on register page C, the nine MAC and baseband registers, on page C1 the two RF front end
  registers 0xcb8 and 0xeb8, and on page C the twelve AFE registers. At the end it writes exactly the
  values read: the AFE registers on page C, then, after some writes on page C1 only, the two front end
  registers on page C1, and last, on page C again, the MAC and baseband registers. Apart from register
  accesses it changes nothing. (What is saved of the radio goes through the serial interface and is
  not a part of this statement.)
\<close>

theorem rtw8812a_do_iqk_restores:
  "\<exists>macbb afe cb eb c1 c2 c3 c4 d1 d2 d3 d4 d5 m2 m3.
     run_state rtw8812a_do_iqk s = (Some (), s\<lparr>io_log := io_log s
       @ page_c_log c1 @ map2 (Rd 4) backup_macbb_reg macbb
       @ page_c1_log d1 @ [Rd 4 0xcb8 cb, Rd 4 0xeb8 eb] @ page_c_log d2
       @ page_c_log c2 @ map2 (Rd 4) backup_afe_reg afe
       @ m2
       @ page_c_log c3 @ map2 (Wr 4) backup_afe_reg afe
       @ page_c1_log d3 @ m3
       @ page_c1_log d4 @ [Wr 4 0xcb8 cb, Wr 4 0xeb8 eb] @ page_c_log d5
       @ page_c_log c4 @ map2 (Wr 4) backup_macbb_reg macbb\<rparr>)
     \<and> length macbb = 9 \<and> length afe = 12 \<and> list_all off_ccasel m3"
proof -
  let ?P = "\<lambda>l macbb afe cb eb c1 c2 c3 c4 d1 d2 d3 d4 d5 k1 k2 k3 k4 m3.
       l = page_c_log c1 @ map2 (Rd 4) backup_macbb_reg macbb
       @ page_c1_log d1 @ [Rd 4 0xcb8 cb, Rd 4 0xeb8 eb] @ page_c_log d2
       @ page_c_log c2 @ map2 (Rd 4) backup_afe_reg afe
       @ k1 @ k2 @ k3 @ k4
       @ page_c_log c3 @ map2 (Wr 4) backup_afe_reg afe
       @ page_c1_log d3 @ m3
       @ page_c1_log d4 @ [Wr 4 0xcb8 cb, Wr 4 0xeb8 eb] @ page_c_log d5
       @ page_c_log c4 @ map2 (Wr 4) backup_macbb_reg macbb
       \<and> length macbb = 9 \<and> length afe = 12 \<and> list_all off_ccasel m3"
  let ?Q = "\<lambda>r l. r = Some () \<and> (\<exists>macbb afe cb eb c1 c2 c3 c4 d1 d2 d3 d4 d5 k1 k2 k3 k4 m3.
       ?P l macbb afe cb eb c1 c2 c3 c4 d1 d2 d3 d4 d5 k1 k2 k3 k4 m3)"
  have iqk: "emits (\<lambda>r l. r = Some ()) (rtw8812a_iqk 10)"
    using quiet_run [OF quiet_iqk] rtw8812a_iqk_some unfolding emits_def by (metis fst_conv order_refl)
  have "emits ?Q rtw8812a_do_iqk"
    unfolding rtw8812a_do_iqk_def
    apply (rule emits_bind [OF emits_iqk_backup], clarify)
    apply (rule emits_bind [OF iqk], simp only: option.case)
    apply (rule emits_bind [OF emits_iqk_restore], elim exE conjE)
    apply (rule emits_return)
    apply (simp only: simp_thms append_assoc append_Cons append_Nil append_Nil2)
    apply (intro exI conjI)
       apply (rule refl)
      apply assumption+
    done
  then obtain r l where run: "run_state rtw8812a_do_iqk s = (r, s\<lparr>io_log := io_log s @ l\<rparr>)" and Q: "?Q r l"
    by (rule emitsE)
  from Q have r: "r = Some ()"
    by (rule conjunct1)
  from Q [THEN conjunct2] obtain macbb afe cb eb c1 c2 c3 c4 d1 d2 d3 d4 d5 k1 k2 k3 k4 m3 where
    P: "?P l macbb afe cb eb c1 c2 c3 c4 d1 d2 d3 d4 d5 k1 k2 k3 k4 m3"
    by (elim exE) (rule that)
  show ?thesis
    unfolding run r
    using P
    by - (rule exI [of _ macbb], rule exI [of _ afe], rule exI [of _ cb], rule exI [of _ eb], rule exI [of _ c1], rule exI [of _ c2], rule exI [of _ c3],
        rule exI [of _ c4], rule exI [of _ d1], rule exI [of _ d2], rule exI [of _ d3], rule exI [of _ d4], rule exI [of _ d5],
        rule exI [of _ "k1 @ k2 @ k3 @ k4"], rule exI [of _ m3], simp only: append_assoc simp_thms)
qed

end
