(* ===== verification/TxPower.thy ===== *)
theory TxPower
  imports Hal RxDesc
begin

text \<open>
  The transmit power tables (\<open>phy.c\<close>): rate sections, power by rate, regulatory limits and the
  power index of a rate. Rates, rate sections, paths, regulatory domains and channel indices are
  natural numbers (they are \<open>u8\<close> in the code and only compared and used as array indices); a
  power is an \<open>s8\<close>, kept as the byte with the same bits. An array of several dimensions is a
  function of its indices, as \<open>struct rtw_hal\<close> has them.
\<close>

section \<open>Rate sections\<close>

abbreviation (input) RTW_RATE_SECTION_CCK :: nat where "RTW_RATE_SECTION_CCK \<equiv> 0"
abbreviation (input) RTW_RATE_SECTION_OFDM :: nat where "RTW_RATE_SECTION_OFDM \<equiv> 1"
abbreviation (input) RTW_RATE_SECTION_HT_1S :: nat where "RTW_RATE_SECTION_HT_1S \<equiv> 2"
abbreviation (input) RTW_RATE_SECTION_HT_2S :: nat where "RTW_RATE_SECTION_HT_2S \<equiv> 3"
abbreviation (input) RTW_RATE_SECTION_VHT_1S :: nat where "RTW_RATE_SECTION_VHT_1S \<equiv> 4"
abbreviation (input) RTW_RATE_SECTION_VHT_2S :: nat where "RTW_RATE_SECTION_VHT_2S \<equiv> 5"
abbreviation (input) RTW_RATE_SECTION_HT_3S :: nat where "RTW_RATE_SECTION_HT_3S \<equiv> 6"
abbreviation (input) RTW_RATE_SECTION_HT_4S :: nat where "RTW_RATE_SECTION_HT_4S \<equiv> 7"
abbreviation (input) RTW_RATE_SECTION_VHT_3S :: nat where "RTW_RATE_SECTION_VHT_3S \<equiv> 8"
abbreviation (input) RTW_RATE_SECTION_VHT_4S :: nat where "RTW_RATE_SECTION_VHT_4S \<equiv> 9"
abbreviation (input) RTW_RATE_SECTION_NUM :: nat where "RTW_RATE_SECTION_NUM \<equiv> 10"

definition rtw_cck_rates :: "nat list" where "rtw_cck_rates = [0x00, 0x01, 0x02, 0x03]"

definition rtw_ofdm_rates :: "nat list" where
  "rtw_ofdm_rates = [0x04, 0x05, 0x06, 0x07, 0x08, 0x09, 0x0a, 0x0b]"

definition rtw_ht_1s_rates :: "nat list" where
  "rtw_ht_1s_rates = [0x0c, 0x0d, 0x0e, 0x0f, 0x10, 0x11, 0x12, 0x13]"

definition rtw_ht_2s_rates :: "nat list" where
  "rtw_ht_2s_rates = [0x14, 0x15, 0x16, 0x17, 0x18, 0x19, 0x1a, 0x1b]"

definition rtw_vht_1s_rates :: "nat list" where
  "rtw_vht_1s_rates = [0x2c, 0x2d, 0x2e, 0x2f, 0x30, 0x31, 0x32, 0x33, 0x34, 0x35]"

definition rtw_vht_2s_rates :: "nat list" where
  "rtw_vht_2s_rates = [0x36, 0x37, 0x38, 0x39, 0x3a, 0x3b, 0x3c, 0x3d, 0x3e, 0x3f]"

definition rtw_ht_3s_rates :: "nat list" where
  "rtw_ht_3s_rates = [0x1c, 0x1d, 0x1e, 0x1f, 0x20, 0x21, 0x22, 0x23]"

definition rtw_ht_4s_rates :: "nat list" where
  "rtw_ht_4s_rates = [0x24, 0x25, 0x26, 0x27, 0x28, 0x29, 0x2a, 0x2b]"

definition rtw_vht_3s_rates :: "nat list" where
  "rtw_vht_3s_rates = [0x40, 0x41, 0x42, 0x43, 0x44, 0x45, 0x46, 0x47, 0x48, 0x49]"

definition rtw_vht_4s_rates :: "nat list" where
  "rtw_vht_4s_rates = [0x4a, 0x4b, 0x4c, 0x4d, 0x4e, 0x4f, 0x50, 0x51, 0x52, 0x53]"

text \<open>\<open>rtw_rate_size\<close> is the length of a section here.\<close>

definition rtw_rate_section :: "nat list list" where
  "rtw_rate_section =
     [rtw_cck_rates, rtw_ofdm_rates, rtw_ht_1s_rates, rtw_ht_2s_rates, rtw_vht_1s_rates,
      rtw_vht_2s_rates, rtw_ht_3s_rates, rtw_ht_4s_rates, rtw_vht_3s_rates, rtw_vht_4s_rates]"

lemmas rtw_rates_defs = rtw_cck_rates_def rtw_ofdm_rates_def rtw_ht_1s_rates_def rtw_ht_2s_rates_def
  rtw_vht_1s_rates_def rtw_vht_2s_rates_def rtw_ht_3s_rates_def rtw_ht_4s_rates_def
  rtw_vht_3s_rates_def rtw_vht_4s_rates_def

definition rtw_phy_rate_to_rate_section :: "nat \<Rightarrow> nat" where
  "rtw_phy_rate_to_rate_section r =
     (if r \<le> DESC_RATE11M then RTW_RATE_SECTION_CCK
      else if DESC_RATE6M \<le> r \<and> r \<le> DESC_RATE54M then RTW_RATE_SECTION_OFDM
      else if DESC_RATEMCS0 \<le> r \<and> r \<le> DESC_RATEMCS7 then RTW_RATE_SECTION_HT_1S
      else if DESC_RATEMCS8 \<le> r \<and> r \<le> DESC_RATEMCS15 then RTW_RATE_SECTION_HT_2S
      else if DESC_RATEMCS16 \<le> r \<and> r \<le> DESC_RATEMCS23 then RTW_RATE_SECTION_HT_3S
      else if 0x24 \<le> r \<and> r \<le> DESC_RATEMCS31 then RTW_RATE_SECTION_HT_4S
      else if DESC_RATEVHT1SS_MCS0 \<le> r \<and> r \<le> DESC_RATEVHT1SS_MCS9 then RTW_RATE_SECTION_VHT_1S
      else if DESC_RATEVHT2SS_MCS0 \<le> r \<and> r \<le> DESC_RATEVHT2SS_MCS9 then RTW_RATE_SECTION_VHT_2S
      else if DESC_RATEVHT3SS_MCS0 \<le> r \<and> r \<le> DESC_RATEVHT3SS_MCS9 then RTW_RATE_SECTION_VHT_3S
      else if DESC_RATEVHT4SS_MCS0 \<le> r \<and> r \<le> DESC_RATEVHT4SS_MCS9 then RTW_RATE_SECTION_VHT_4S
      else RTW_RATE_SECTION_NUM)"

section \<open>State\<close>

text \<open>The power section of \<open>struct rtw_hal\<close>; \<open>sar_cfg\<close> is indexed by path, section and band.\<close>

datatype rtw_sar_sources = RTW_SAR_SOURCE_NONE | RTW_SAR_SOURCE_COMMON

record rtw_sar =
  sar_src :: rtw_sar_sources
  sar_cfg :: "nat \<Rightarrow> nat \<Rightarrow> nat \<Rightarrow> s8"

record rtw_txpwr =
  tx_pwr_by_rate_offset_2g :: "nat \<Rightarrow> nat \<Rightarrow> s8"
  tx_pwr_by_rate_offset_5g :: "nat \<Rightarrow> nat \<Rightarrow> s8"
  tx_pwr_by_rate_base_2g :: "nat \<Rightarrow> nat \<Rightarrow> s8"
  tx_pwr_by_rate_base_5g :: "nat \<Rightarrow> nat \<Rightarrow> s8"
  tx_pwr_limit_2g :: "nat \<Rightarrow> nat \<Rightarrow> nat \<Rightarrow> nat \<Rightarrow> s8"
  tx_pwr_limit_5g :: "nat \<Rightarrow> nat \<Rightarrow> nat \<Rightarrow> nat \<Rightarrow> s8"
  cch_by_bw :: "nat \<Rightarrow> u8"
  sar_band :: nat
  hal_sar :: rtw_sar

record rtw_pwr_chip =
  max_power_index :: u8
  txgi_factor :: u8
  is_pwr_by_rate_dec :: bool
  en_dis_dpd :: bool
  dpd_ratemask :: u32

abbreviation (input) RTW_RF_PATH_MAX :: nat where "RTW_RF_PATH_MAX \<equiv> 4"
abbreviation (input) RTW_CHANNEL_WIDTH_MAX :: nat where "RTW_CHANNEL_WIDTH_MAX \<equiv> 3"
abbreviation (input) RTW_MAX_CHANNEL_NUM_2G :: nat where "RTW_MAX_CHANNEL_NUM_2G \<equiv> 14"
abbreviation (input) RTW_MAX_CHANNEL_NUM_5G :: nat where "RTW_MAX_CHANNEL_NUM_5G \<equiv> 49"
abbreviation (input) RTW_REGD_WW :: nat where "RTW_REGD_WW \<equiv> 12"
abbreviation (input) RTW_REGD_MAX :: nat where "RTW_REGD_MAX \<equiv> 13"
abbreviation (input) PHY_BAND_2G :: nat where "PHY_BAND_2G \<equiv> 0"
abbreviation (input) PHY_BAND_5G :: nat where "PHY_BAND_5G \<equiv> 1"

record rtw_phy_pg_cfg_pair =
  pg_band :: u32
  pg_rf_path :: u32
  pg_tx_num :: u32
  pg_addr :: u32
  pg_bitmask :: u32
  pg_data :: u32

text \<open>
  The power tracking tables, by path: \<open>None\<close> is a null pointer. The 5 GHz tables have three settings.
\<close>

record rtw_pwr_track_tbl =
  pwrtrk_5g_n :: "nat \<Rightarrow> nat \<Rightarrow> (nat \<Rightarrow> u8) option"
  pwrtrk_5g_p :: "nat \<Rightarrow> nat \<Rightarrow> (nat \<Rightarrow> u8) option"
  pwrtrk_2g_n :: "nat \<Rightarrow> (nat \<Rightarrow> u8) option"
  pwrtrk_2g_p :: "nat \<Rightarrow> (nat \<Rightarrow> u8) option"
  pwrtrk_2g_cck_n :: "nat \<Rightarrow> (nat \<Rightarrow> u8) option"
  pwrtrk_2g_cck_p :: "nat \<Rightarrow> (nat \<Rightarrow> u8) option"

record rtw_txpwr_lmt_cfg_pair =
  lmt_regd :: nat
  lmt_band :: nat
  lmt_bw :: nat
  lmt_rs :: nat
  lmt_ch :: nat
  lmt_txpwr :: s8

record rtw_rfe_def =
  phy_pg_tbl :: "rtw_phy_pg_cfg_pair list"
  txpwr_lmt_tbl :: "rtw_txpwr_lmt_cfg_pair list"
  pwr_track_tbl :: rtw_pwr_track_tbl

text \<open>Signed minimum and maximum, and the write to an array of four dimensions.\<close>

definition min_s8 :: "s8 \<Rightarrow> s8 \<Rightarrow> s8" where
  "min_s8 a b = (if sint a < sint b then a else b)"

definition max_s8 :: "s8 \<Rightarrow> s8 \<Rightarrow> s8" where
  "max_s8 a b = (if sint b < sint a then a else b)"

definition upd2 :: "('a \<Rightarrow> 'b \<Rightarrow> 'v) \<Rightarrow> 'a \<Rightarrow> 'b \<Rightarrow> 'v \<Rightarrow> 'a \<Rightarrow> 'b \<Rightarrow> 'v" where
  "upd2 f a b v = f(a := (f a)(b := v))"

definition upd4 :: "('a \<Rightarrow> 'b \<Rightarrow> 'c \<Rightarrow> 'd \<Rightarrow> 'v) \<Rightarrow> 'a \<Rightarrow> 'b \<Rightarrow> 'c \<Rightarrow> 'd \<Rightarrow> 'v \<Rightarrow> 'a \<Rightarrow> 'b \<Rightarrow> 'c \<Rightarrow> 'd \<Rightarrow> 'v" where
  "upd4 f a b c d v = upd2 f a b (upd2 (f a b) c d v)"

section \<open>Power by rate\<close>

text \<open>\<open>bcd2bin\<close> of the kernel, on one byte.\<close>

definition bcd_to_dec_pwr_by_rate :: "u32 \<Rightarrow> nat \<Rightarrow> s8" where
  "bcd_to_dec_pwr_by_rate val i =
     (let b = ucast (drop_bit (i * 8) val) :: u8 in (b AND 0xf) + drop_bit 4 b * 10)"

definition tbl_to_dec_pwr_by_rate :: "bool \<Rightarrow> u32 \<Rightarrow> nat \<Rightarrow> s8" where
  "tbl_to_dec_pwr_by_rate dec hex i =
     (if dec then bcd_to_dec_pwr_by_rate hex i else ucast (drop_bit (i * 8) hex AND 0xff))"

text \<open>Rates and their powers; the length is \<open>rate_num\<close>, which is 0 for an unknown address.\<close>

definition rate_values :: "bool \<Rightarrow> nat \<Rightarrow> nat \<Rightarrow> nat \<Rightarrow> u32 \<Rightarrow> (nat \<times> s8) list" where
  "rate_values dec first n byte val = map (\<lambda>i. (first + i, tbl_to_dec_pwr_by_rate dec val (byte + i))) [0..<n]"

definition rtw_phy_get_rate_values_of_txpwr_by_rate :: "bool \<Rightarrow> u32 \<Rightarrow> u32 \<Rightarrow> u32 \<Rightarrow> (nat \<times> s8) list" where
  "rtw_phy_get_rate_values_of_txpwr_by_rate dec addr mask' val =
     (if addr \<in> set [0xE00, 0x830] then rate_values dec DESC_RATE6M 4 0 val
      else if addr \<in> set [0xE04, 0x834] then rate_values dec 0x08 4 0 val
      else if addr = 0xE08 then [(DESC_RATE1M, bcd_to_dec_pwr_by_rate val 1)]
      else if addr = 0x86C then
        if mask' = 0xffffff00 then rate_values dec 0x01 3 1 val
        else if mask' = 0x000000ff then [(DESC_RATE11M, bcd_to_dec_pwr_by_rate val 0)]
        else []
      else if addr \<in> set [0xE10, 0x83C] then rate_values dec DESC_RATEMCS0 4 0 val
      else if addr \<in> set [0xE14, 0x848] then rate_values dec 0x10 4 0 val
      else if addr \<in> set [0xE18, 0x84C] then rate_values dec DESC_RATEMCS8 4 0 val
      else if addr \<in> set [0xE1C, 0x868] then rate_values dec 0x18 4 0 val
      else if addr = 0x838 then rate_values dec DESC_RATE1M 3 1 val
      else if addr \<in> set [0xC20, 0xE20, 0x1820, 0x1A20] then rate_values dec DESC_RATE1M 4 0 val
      else if addr \<in> set [0xC24, 0xE24, 0x1824, 0x1A24] then rate_values dec DESC_RATE6M 4 0 val
      else if addr \<in> set [0xC28, 0xE28, 0x1828, 0x1A28] then rate_values dec 0x08 4 0 val
      else if addr \<in> set [0xC2C, 0xE2C, 0x182C, 0x1A2C] then rate_values dec DESC_RATEMCS0 4 0 val
      else if addr \<in> set [0xC30, 0xE30, 0x1830, 0x1A30] then rate_values dec 0x10 4 0 val
      else if addr \<in> set [0xC34, 0xE34, 0x1834, 0x1A34] then rate_values dec DESC_RATEMCS8 4 0 val
      else if addr \<in> set [0xC38, 0xE38, 0x1838, 0x1A38] then rate_values dec 0x18 4 0 val
      else if addr \<in> set [0xC3C, 0xE3C, 0x183C, 0x1A3C] then rate_values dec DESC_RATEVHT1SS_MCS0 4 0 val
      else if addr \<in> set [0xC40, 0xE40, 0x1840, 0x1A40] then rate_values dec 0x30 4 0 val
      else if addr \<in> set [0xC44, 0xE44, 0x1844, 0x1A44] then rate_values dec 0x34 4 0 val
      else if addr \<in> set [0xC48, 0xE48, 0x1848, 0x1A48] then rate_values dec 0x38 4 0 val
      else if addr \<in> set [0xC4C, 0xE4C, 0x184C, 0x1A4C] then rate_values dec 0x3c 4 0 val
      else if addr \<in> set [0xCD8, 0xED8, 0x18D8, 0x1AD8] then rate_values dec DESC_RATEMCS16 4 0 val
      else if addr \<in> set [0xCDC, 0xEDC, 0x18DC, 0x1ADC] then rate_values dec 0x20 4 0 val
      else if addr \<in> set [0xCE0, 0xEE0, 0x18E0, 0x1AE0] then rate_values dec DESC_RATEVHT3SS_MCS0 4 0 val
      else if addr \<in> set [0xCE4, 0xEE4, 0x18E4, 0x1AE4] then rate_values dec 0x44 4 0 val
      else if addr \<in> set [0xCE8, 0xEE8, 0x18E8, 0x1AE8] then rate_values dec 0x48 2 0 val
      else [])"

definition rtw_phy_store_tx_power_by_rate ::
    "bool \<Rightarrow> u32 \<Rightarrow> u32 \<Rightarrow> u32 \<Rightarrow> u32 \<Rightarrow> u32 \<Rightarrow> rtw_txpwr \<Rightarrow> rtw_txpwr" where
  "rtw_phy_store_tx_power_by_rate dec band rfpath regaddr bitmask data h =
     (let rates = rtw_phy_get_rate_values_of_txpwr_by_rate dec regaddr bitmask data
      in if RTW_RF_PATH_MAX \<le> unat rfpath \<or> band \<noteq> 0 \<and> band \<noteq> 1 \<or> RTW_RF_PATH_MAX < length rates then h
         else fold (\<lambda>(r, offset') h.
           if band = 0
           then h\<lparr>tx_pwr_by_rate_offset_2g := upd2 (tx_pwr_by_rate_offset_2g h) (unat rfpath) r offset'\<rparr>
           else h\<lparr>tx_pwr_by_rate_offset_5g := upd2 (tx_pwr_by_rate_offset_5g h) (unat rfpath) r offset'\<rparr>)
           rates h)"

text \<open>Powers by rate become differences from the power of the section's reference rate.\<close>

definition rate_config_step :: "nat \<Rightarrow> s8 \<Rightarrow> s8 \<Rightarrow> nat \<Rightarrow> rtw_txpwr \<Rightarrow> rtw_txpwr" where
  "rate_config_step path base_2g base_5g rate_idx h =
     h\<lparr>tx_pwr_by_rate_offset_2g := upd2 (tx_pwr_by_rate_offset_2g h) path rate_idx
         (tx_pwr_by_rate_offset_2g h path rate_idx - base_2g),
       tx_pwr_by_rate_offset_5g := upd2 (tx_pwr_by_rate_offset_5g h) path rate_idx
         (tx_pwr_by_rate_offset_5g h path rate_idx - base_5g)\<rparr>"

definition base_rate :: "nat list \<Rightarrow> nat" where
  "base_rate rates = (let size = length rates in if size = 10 then rates ! (size - 3) else rates ! (size - 1))"

definition rtw_phy_tx_power_by_rate_config_by_path :: "nat \<Rightarrow> nat \<Rightarrow> nat list \<Rightarrow> rtw_txpwr \<Rightarrow> rtw_txpwr" where
  "rtw_phy_tx_power_by_rate_config_by_path path rs rates h =
     (let base_2g = tx_pwr_by_rate_offset_2g h path (base_rate rates);
          base_5g = tx_pwr_by_rate_offset_5g h path (base_rate rates)
      in fold (rate_config_step path base_2g base_5g) rates
           (h\<lparr>tx_pwr_by_rate_base_2g := upd2 (tx_pwr_by_rate_base_2g h) path rs base_2g,
              tx_pwr_by_rate_base_5g := upd2 (tx_pwr_by_rate_base_5g h) path rs base_5g\<rparr>))"

definition rtw_phy_tx_power_by_rate_config :: "rtw_txpwr \<Rightarrow> rtw_txpwr" where
  "rtw_phy_tx_power_by_rate_config h =
     fold (\<lambda>path. fold (\<lambda>rs. rtw_phy_tx_power_by_rate_config_by_path path rs (rtw_rate_section ! rs))
       [0..<RTW_RATE_SECTION_NUM]) [0..<RTW_RF_PATH_MAX] h"

section \<open>Regulatory limits\<close>

definition rtw_channel_idx_5g :: "nat list" where
  "rtw_channel_idx_5g =
     [36, 38, 40, 42, 44, 46, 48,
      52, 54, 56, 58, 60, 62, 64,
      100, 102, 104, 106, 108, 110, 112,
      116, 118, 120, 122, 124, 126, 128,
      132, 134, 136, 138, 140, 142, 144,
      149, 151, 153, 155, 157, 159, 161,
      165, 167, 169, 171, 173, 175, 177]"

fun idx_of :: "nat list \<Rightarrow> nat \<Rightarrow> nat" where
  "idx_of [] ch = 0"
| "idx_of (c # cs) ch = (if c = ch then 0 else Suc (idx_of cs ch))"

definition rtw_channel_to_idx :: "nat \<Rightarrow> nat \<Rightarrow> int" where
  "rtw_channel_to_idx band ch =
     (if band = PHY_BAND_2G then let ch_idx = int ch - 1 in if ch_idx \<ge> int RTW_MAX_CHANNEL_NUM_2G then -1 else ch_idx
      else if band = PHY_BAND_5G then
        let ch_idx = idx_of rtw_channel_idx_5g ch in if ch_idx \<ge> RTW_MAX_CHANNEL_NUM_5G then -1 else int ch_idx
      else -1)"

definition rtw_phy_set_tx_power_limit ::
    "rtw_pwr_chip \<Rightarrow> nat \<Rightarrow> nat \<Rightarrow> nat \<Rightarrow> nat \<Rightarrow> nat \<Rightarrow> s8 \<Rightarrow> rtw_txpwr \<Rightarrow> rtw_txpwr" where
  "rtw_phy_set_tx_power_limit c regd band wd rs ch pwr_limit h =
     (let pwr_limit = min_s8 (max_s8 pwr_limit (- max_power_index c)) (max_power_index c);
          ch_idx = rtw_channel_to_idx band ch;
          i = nat ch_idx
      in if RTW_REGD_MAX \<le> regd \<or> RTW_CHANNEL_WIDTH_MAX \<le> wd \<or> RTW_RATE_SECTION_NUM \<le> rs \<or> ch_idx < 0 then h
         else if band = PHY_BAND_2G then
           let l = upd4 (tx_pwr_limit_2g h) regd wd rs i pwr_limit;
               ww = min_s8 (l RTW_REGD_WW wd rs i) pwr_limit
           in h\<lparr>tx_pwr_limit_2g := upd4 l RTW_REGD_WW wd rs i ww\<rparr>
         else if band = PHY_BAND_5G then
           let l = upd4 (tx_pwr_limit_5g h) regd wd rs i pwr_limit;
               ww = min_s8 (l RTW_REGD_WW wd rs i) pwr_limit
           in h\<lparr>tx_pwr_limit_5g := upd4 l RTW_REGD_WW wd rs i ww\<rparr>
         else h)"

text \<open>Limits of HT and VHT at 5 GHz, where only one of them is given, are taken from the other.\<close>

definition rtw_xref_5g_txpwr_lmt :: "rtw_pwr_chip \<Rightarrow> nat \<Rightarrow> nat \<Rightarrow> nat \<Rightarrow> nat \<Rightarrow> nat \<Rightarrow> rtw_txpwr \<Rightarrow> rtw_txpwr" where
  "rtw_xref_5g_txpwr_lmt c regd wd ch_idx rs_ht rs_vht h =
     (let lmt_ht = tx_pwr_limit_5g h regd wd rs_ht ch_idx;
          lmt_vht = tx_pwr_limit_5g h regd wd rs_vht ch_idx
      in if lmt_ht = lmt_vht then h
         else if sint lmt_ht = uint (max_power_index c)
         then h\<lparr>tx_pwr_limit_5g := upd4 (tx_pwr_limit_5g h) regd wd rs_ht ch_idx lmt_vht\<rparr>
         else if sint lmt_vht = uint (max_power_index c)
         then h\<lparr>tx_pwr_limit_5g := upd4 (tx_pwr_limit_5g h) regd wd rs_vht ch_idx lmt_ht\<rparr>
         else h)"

definition rs_cmp :: "(nat \<times> nat) list" where
  "rs_cmp = [(RTW_RATE_SECTION_HT_1S, RTW_RATE_SECTION_VHT_1S), (RTW_RATE_SECTION_HT_2S, RTW_RATE_SECTION_VHT_2S),
             (RTW_RATE_SECTION_HT_3S, RTW_RATE_SECTION_VHT_3S), (RTW_RATE_SECTION_HT_4S, RTW_RATE_SECTION_VHT_4S)]"

definition rtw_xref_txpwr_lmt_by_rs :: "rtw_pwr_chip \<Rightarrow> nat \<Rightarrow> nat \<Rightarrow> nat \<Rightarrow> rtw_txpwr \<Rightarrow> rtw_txpwr" where
  "rtw_xref_txpwr_lmt_by_rs c regd wd ch_idx =
     fold (\<lambda>(rs_ht, rs_vht). rtw_xref_5g_txpwr_lmt c regd wd ch_idx rs_ht rs_vht) rs_cmp"

definition rtw_xref_5g_txpwr_lmt_by_ch :: "rtw_pwr_chip \<Rightarrow> nat \<Rightarrow> nat \<Rightarrow> rtw_txpwr \<Rightarrow> rtw_txpwr" where
  "rtw_xref_5g_txpwr_lmt_by_ch c regd wd = fold (rtw_xref_txpwr_lmt_by_rs c regd wd) [0..<RTW_MAX_CHANNEL_NUM_5G]"

definition rtw_xref_txpwr_lmt_by_bw :: "rtw_pwr_chip \<Rightarrow> nat \<Rightarrow> rtw_txpwr \<Rightarrow> rtw_txpwr" where
  "rtw_xref_txpwr_lmt_by_bw c regd = fold (rtw_xref_5g_txpwr_lmt_by_ch c regd) [0, 1]"

definition rtw_xref_txpwr_lmt :: "rtw_pwr_chip \<Rightarrow> rtw_txpwr \<Rightarrow> rtw_txpwr" where
  "rtw_xref_txpwr_lmt c = fold (rtw_xref_txpwr_lmt_by_bw c) [0..<RTW_REGD_MAX]"

text \<open>A domain without limits takes those of its alternative (\<open>regd.c\<close>) or the worldwide ones.\<close>

definition rtw_regd_alt :: "nat \<Rightarrow> nat option" where
  "rtw_regd_alt regd =
     (if regd \<in> {3, 6, 8} then Some 0
      else if regd \<in> {4, 5, 7, 9, 10, 11} then Some 2
      else None)"

definition rtw_regd_has_alt :: "nat \<Rightarrow> nat option" where
  "rtw_regd_has_alt regd = rtw_regd_alt regd"

definition cfg_txpwr_lmt_by_alt :: "nat \<Rightarrow> nat \<Rightarrow> nat \<Rightarrow> nat \<Rightarrow> rtw_txpwr \<Rightarrow> rtw_txpwr" where
  "cfg_txpwr_lmt_by_alt regd regd_alt wd rs h =
     fold (\<lambda>ch h. h\<lparr>tx_pwr_limit_5g := upd4 (tx_pwr_limit_5g h) regd wd rs ch (tx_pwr_limit_5g h regd_alt wd rs ch)\<rparr>)
       [0..<RTW_MAX_CHANNEL_NUM_5G]
       (fold (\<lambda>ch h. h\<lparr>tx_pwr_limit_2g := upd4 (tx_pwr_limit_2g h) regd wd rs ch (tx_pwr_limit_2g h regd_alt wd rs ch)\<rparr>)
         [0..<RTW_MAX_CHANNEL_NUM_2G] h)"

definition rtw_cfg_txpwr_lmt_by_alt :: "nat \<Rightarrow> nat \<Rightarrow> rtw_txpwr \<Rightarrow> rtw_txpwr" where
  "rtw_cfg_txpwr_lmt_by_alt regd regd_alt =
     fold (\<lambda>wd. fold (cfg_txpwr_lmt_by_alt regd regd_alt wd) [0..<RTW_RATE_SECTION_NUM]) [0..<RTW_CHANNEL_WIDTH_MAX]"

definition set_limit_entry :: "rtw_pwr_chip \<Rightarrow> rtw_txpwr_lmt_cfg_pair \<Rightarrow> rtw_txpwr \<Rightarrow> rtw_txpwr" where
  "set_limit_entry c p = rtw_phy_set_tx_power_limit c (lmt_regd p) (lmt_band p) (lmt_bw p) (lmt_rs p) (lmt_ch p) (lmt_txpwr p)"

definition fill_regd :: "u32 \<Rightarrow> nat \<Rightarrow> rtw_txpwr \<Rightarrow> rtw_txpwr" where
  "fill_regd regd_cfg_flag i =
     (if i = RTW_REGD_WW then id
      else if bit regd_cfg_flag i then id
      else case rtw_regd_has_alt i of
        Some regd_alt \<Rightarrow> if bit regd_cfg_flag regd_alt then rtw_cfg_txpwr_lmt_by_alt i regd_alt
                        else rtw_cfg_txpwr_lmt_by_alt i RTW_REGD_WW
      | None \<Rightarrow> rtw_cfg_txpwr_lmt_by_alt i RTW_REGD_WW)"

definition rtw_parse_tbl_txpwr_lmt :: "rtw_pwr_chip \<Rightarrow> rtw_txpwr_lmt_cfg_pair list \<Rightarrow> rtw_txpwr \<Rightarrow> rtw_txpwr" where
  "rtw_parse_tbl_txpwr_lmt c tbl h =
     (let regd_cfg_flag = fold (\<lambda>p f. f OR BIT (lmt_regd p)) tbl 0
      in rtw_xref_txpwr_lmt c (fold (fill_regd regd_cfg_flag) [0..<RTW_REGD_MAX] (fold (set_limit_entry c) tbl h)))"

text \<open>The limits become relative to the base of the rate section on path A.\<close>

definition tx_power_limit_config :: "nat \<Rightarrow> nat \<Rightarrow> nat \<Rightarrow> rtw_txpwr \<Rightarrow> rtw_txpwr" where
  "tx_power_limit_config regd wd rs h =
     fold (\<lambda>ch h. h\<lparr>tx_pwr_limit_5g := upd4 (tx_pwr_limit_5g h) regd wd rs ch
             (tx_pwr_limit_5g h regd wd rs ch - tx_pwr_by_rate_base_5g h 0 rs)\<rparr>) [0..<RTW_MAX_CHANNEL_NUM_5G]
       (fold (\<lambda>ch h. h\<lparr>tx_pwr_limit_2g := upd4 (tx_pwr_limit_2g h) regd wd rs ch
             (tx_pwr_limit_2g h regd wd rs ch - tx_pwr_by_rate_base_2g h 0 rs)\<rparr>) [0..<RTW_MAX_CHANNEL_NUM_2G] h)"

definition for_limits :: "(nat \<Rightarrow> nat \<Rightarrow> nat \<Rightarrow> rtw_txpwr \<Rightarrow> rtw_txpwr) \<Rightarrow> rtw_txpwr \<Rightarrow> rtw_txpwr" where
  "for_limits f =
     fold (\<lambda>regd. fold (\<lambda>wd. fold (f regd wd) [0..<RTW_RATE_SECTION_NUM]) [0..<RTW_CHANNEL_WIDTH_MAX]) [0..<RTW_REGD_MAX]"

definition rtw_phy_tx_power_limit_config :: "rtw_txpwr \<Rightarrow> rtw_txpwr" where
  "rtw_phy_tx_power_limit_config h = for_limits tx_power_limit_config (h\<lparr>cch_by_bw := (cch_by_bw h)(0 := 1)\<rparr>)"

definition rtw_phy_init_tx_power_limit :: "rtw_pwr_chip \<Rightarrow> nat \<Rightarrow> nat \<Rightarrow> nat \<Rightarrow> rtw_txpwr \<Rightarrow> rtw_txpwr" where
  "rtw_phy_init_tx_power_limit c regd wd rs h =
     fold (\<lambda>ch h. h\<lparr>tx_pwr_limit_5g := upd4 (tx_pwr_limit_5g h) regd wd rs ch (max_power_index c)\<rparr>) [0..<RTW_MAX_CHANNEL_NUM_5G]
       (fold (\<lambda>ch h. h\<lparr>tx_pwr_limit_2g := upd4 (tx_pwr_limit_2g h) regd wd rs ch (max_power_index c)\<rparr>) [0..<RTW_MAX_CHANNEL_NUM_2G] h)"

definition rtw_phy_init_tx_power :: "rtw_pwr_chip \<Rightarrow> rtw_txpwr \<Rightarrow> rtw_txpwr" where
  "rtw_phy_init_tx_power c h =
     for_limits (rtw_phy_init_tx_power_limit c)
       (fold (\<lambda>path. fold (\<lambda>r h. h\<lparr>tx_pwr_by_rate_offset_2g := upd2 (tx_pwr_by_rate_offset_2g h) path r 0,
          tx_pwr_by_rate_offset_5g := upd2 (tx_pwr_by_rate_offset_5g h) path r 0\<rparr>) [0..<DESC_RATE_MAX]) [0..<RTW_RF_PATH_MAX] h)"

section \<open>The power index of a rate\<close>

definition rtw_get_channel_group :: "nat \<Rightarrow> nat \<Rightarrow> nat" where
  "rtw_get_channel_group channel r =
     (if channel \<in> set [1, 2, 36, 38, 40, 42] then 0
      else if channel \<in> set [3, 4, 5, 44, 46, 48, 50] then 1
      else if channel \<in> set [6, 7, 8, 52, 54, 56, 58] then 2
      else if channel \<in> set [9, 10, 11, 60, 62, 64] then 3
      else if channel \<in> set [12, 13, 100, 102, 104, 106] then 4
      else if channel = 14 then (if r \<le> DESC_RATE11M then 5 else 4)
      else if channel \<in> set [108, 110, 112, 114] then 5
      else if channel \<in> set [116, 118, 120, 122] then 6
      else if channel \<in> set [124, 126, 128, 130] then 7
      else if channel \<in> set [132, 134, 136, 138] then 8
      else if channel \<in> set [140, 142, 144] then 9
      else if channel \<in> set [149, 151, 153, 155] then 10
      else if channel \<in> set [157, 159, 161] then 11
      else if channel \<in> set [165, 167, 169, 171] then 12
      else if channel \<in> set [173, 175, 177] then 13
      else 0)"

text \<open>The rates whose predistortion can be switched off, with their bits in \<open>dpd_ratemask\<close>.\<close>

definition dpd_rates :: "(nat \<times> u32) list" where
  "dpd_rates = [(0x04, BIT 0), (0x05, BIT 1), (0x0c, BIT 2), (0x0d, BIT 3), (0x14, BIT 4), (0x15, BIT 5),
     (0x2c, BIT 6), (0x2d, BIT 7), (0x36, BIT 8), (0x37, BIT 9)]"

definition rtw_phy_get_dis_dpd_by_rate_diff :: "rtw_pwr_chip \<Rightarrow> nat \<Rightarrow> s8" where
  "rtw_phy_get_dis_dpd_by_rate_diff c r =
     (if \<not> en_dis_dpd c then 0
      else case map_of dpd_rates r of
        Some b \<Rightarrow> if b AND dpd_ratemask c \<noteq> 0 then - 6 * txgi_factor c else 0
      | None \<Rightarrow> 0)"

text \<open>
  The packed \<open>struct rtw_txpwr_idx\<close> of 42 bytes, little endian bit fields: a base power is a byte,
  a difference a signed nibble. The 5 GHz part starts at byte 18.
\<close>

definition diff_lo :: "u8 list \<Rightarrow> nat \<Rightarrow> u8" where
  "diff_lo e i = signed_take_bit 3 (e ! i)"

definition diff_hi :: "u8 list \<Rightarrow> nat \<Rightarrow> u8" where
  "diff_hi e i = signed_take_bit 3 (drop_bit 4 (e ! i))"

definition mcs_rate :: "nat \<Rightarrow> bool" where
  "mcs_rate r \<longleftrightarrow> DESC_RATEMCS0 \<le> r \<and> r \<le> DESC_RATEMCS31 \<or> DESC_RATEVHT1SS_MCS0 \<le> r \<and> r \<le> DESC_RATEVHT4SS_MCS9"

definition above_2ss :: "nat \<Rightarrow> bool" where
  "above_2ss r \<longleftrightarrow> DESC_RATEMCS8 \<le> r \<and> r \<le> DESC_RATEMCS31 \<or> DESC_RATEVHT2SS_MCS0 \<le> r"

definition above_3ss :: "nat \<Rightarrow> bool" where
  "above_3ss r \<longleftrightarrow> DESC_RATEMCS16 \<le> r \<and> r \<le> DESC_RATEMCS31 \<or> DESC_RATEVHT3SS_MCS0 \<le> r"

definition above_4ss :: "nat \<Rightarrow> bool" where
  "above_4ss r \<longleftrightarrow> 0x24 \<le> r \<and> r \<le> DESC_RATEMCS31 \<or> DESC_RATEVHT4SS_MCS0 \<le> r"

definition stream_diffs :: "nat \<Rightarrow> u8 \<Rightarrow> u8 \<Rightarrow> u8 \<Rightarrow> u8" where
  "stream_diffs r d2 d3 d4 =
     (if above_2ss r then d2 else 0) + (if above_3ss r then d3 else 0) + (if above_4ss r then d4 else 0)"

definition rtw_phy_get_2g_tx_power_index :: "u8 \<Rightarrow> u8 list \<Rightarrow> nat \<Rightarrow> nat \<Rightarrow> nat \<Rightarrow> u8" where
  "rtw_phy_get_2g_tx_power_index factor e wd r grp =
     (let tx_power = (if r \<le> DESC_RATE11M then e ! grp else e ! (6 + grp));
          tx_power = (if DESC_RATE6M \<le> r \<and> r \<le> DESC_RATE54M then tx_power + diff_lo e 11 * factor else tx_power)
      in if \<not> mcs_rate r then tx_power
         else if wd = 1
         then tx_power + stream_diffs r (diff_hi e 12 * factor) (diff_hi e 14 * factor) (diff_hi e 16 * factor)
         else tx_power + diff_hi e 11 * factor
           + stream_diffs r (diff_lo e 12 * factor) (diff_lo e 14 * factor) (diff_lo e 16 * factor))"

text \<open>At 80 MHz the base is the mean of two groups, computed as \<open>int\<close>.\<close>

definition rtw_phy_get_5g_tx_power_index :: "u8 \<Rightarrow> u8 list \<Rightarrow> nat \<Rightarrow> nat \<Rightarrow> nat \<Rightarrow> u8" where
  "rtw_phy_get_5g_tx_power_index factor e wd r grp =
     (let tx_power = e ! (18 + grp)
      in if \<not> mcs_rate r then tx_power + diff_lo e 32 * factor
         else if wd = 1
         then tx_power + stream_diffs r (diff_hi e 33 * factor) (diff_hi e 34 * factor) (diff_hi e 35 * factor)
         else if wd = 2
         then of_nat ((unat (e ! (18 + grp)) + unat (e ! (18 + grp + 1))) div 2) + diff_hi e 38 * factor
           + stream_diffs r (diff_hi e 39 * factor) (diff_hi e 40 * factor) (diff_hi e 41 * factor)
         else tx_power + diff_hi e 32 * factor
           + stream_diffs r (diff_lo e 33 * factor) (diff_lo e 34 * factor) (diff_lo e 35 * factor))"

text \<open>\<open>None\<close> is the jump to \<open>err\<close>: a center channel without an index.\<close>

fun min_limit :: "rtw_txpwr \<Rightarrow> nat \<Rightarrow> nat \<Rightarrow> nat \<Rightarrow> nat list \<Rightarrow> s8 \<Rightarrow> s8 option" where
  "min_limit h band regd rs [] power_limit = Some power_limit"
| "min_limit h band regd rs (cur_bw # bws) power_limit =
     (let cur_ch = unat (cch_by_bw h cur_bw); ch_idx = rtw_channel_to_idx band cur_ch
      in if ch_idx < 0 then None
         else let cur_lmt = (if cur_ch \<le> RTW_MAX_CHANNEL_NUM_2G then tx_pwr_limit_2g h regd cur_bw rs (nat ch_idx)
                             else tx_pwr_limit_5g h regd cur_bw rs (nat ch_idx))
              in min_limit h band regd rs bws (min_s8 cur_lmt power_limit))"

definition limit_bw :: "nat \<Rightarrow> nat \<Rightarrow> nat" where
  "limit_bw r wd =
     (let rs = rtw_phy_rate_to_rate_section r;
          wd = (if rs = RTW_RATE_SECTION_CCK \<or> rs = RTW_RATE_SECTION_OFDM then 0 else wd)
      in if DESC_RATEMCS0 \<le> r \<and> r \<le> DESC_RATEMCS31 then min wd 1 else wd)"

definition rtw_phy_get_tx_power_limit :: "rtw_pwr_chip \<Rightarrow> rtw_txpwr \<Rightarrow> nat \<Rightarrow> nat \<Rightarrow> nat \<Rightarrow> nat \<Rightarrow> s8" where
  "rtw_phy_get_tx_power_limit c h band wd r regd =
     (let rs = rtw_phy_rate_to_rate_section r
      in if RTW_REGD_WW < regd \<or> rs = RTW_RATE_SECTION_NUM then max_power_index c
         else case min_limit h band regd rs [0..<Suc (limit_bw r wd)] (max_power_index c) of
           Some l \<Rightarrow> l
         | None \<Rightarrow> max_power_index c)"

definition rtw_query_sar :: "rtw_pwr_chip \<Rightarrow> rtw_sar \<Rightarrow> nat \<Rightarrow> nat \<Rightarrow> nat \<Rightarrow> s8" where
  "rtw_query_sar c sar band path rs =
     (case sar_src sar of
        RTW_SAR_SOURCE_NONE \<Rightarrow> max_power_index c
      | RTW_SAR_SOURCE_COMMON \<Rightarrow> sar_cfg sar path rs band)"

definition rtw_phy_get_tx_power_sar :: "rtw_pwr_chip \<Rightarrow> rtw_txpwr \<Rightarrow> nat \<Rightarrow> nat \<Rightarrow> s8" where
  "rtw_phy_get_tx_power_sar c h path r =
     (let rs = rtw_phy_rate_to_rate_section r
      in if rs = RTW_RATE_SECTION_NUM then max_power_index c else rtw_query_sar c (hal_sar h) (sar_band h) path rs)"

record rtw_power_params =
  pwr_base :: u8
  pwr_offset :: s8
  pwr_limit :: s8
  pwr_remnant :: s8
  pwr_sar :: s8

definition rtw_get_tx_power_params ::
    "rtw_pwr_chip \<Rightarrow> rtw_efuse \<Rightarrow> 'e rtw_dm_info \<Rightarrow> rtw_txpwr \<Rightarrow> nat \<Rightarrow> nat \<Rightarrow> nat \<Rightarrow> nat \<Rightarrow> nat \<Rightarrow> rtw_power_params" where
  "rtw_get_tx_power_params c e d h path r wd ch regd =
     (let pwr_idx = ef_txpwr_idx_table e ! path;
          grp = rtw_get_channel_group ch r;
          is_2g = ch \<le> 14;
          band = (if is_2g then PHY_BAND_2G else PHY_BAND_5G)
      in \<lparr>pwr_base = (if is_2g then rtw_phy_get_2g_tx_power_index (txgi_factor c) pwr_idx wd r grp
                      else rtw_phy_get_5g_tx_power_index (txgi_factor c) pwr_idx wd r grp),
          pwr_offset = (if is_2g then tx_pwr_by_rate_offset_2g h path r else tx_pwr_by_rate_offset_5g h path r),
          pwr_limit = rtw_phy_get_tx_power_limit c h band wd r regd,
          pwr_remnant = (if r \<le> DESC_RATE11M then dm_txagc_remnant_cck d else dm_txagc_remnant_ofdm d path),
          pwr_sar = rtw_phy_get_tx_power_sar c h path r\<rparr>)"

definition min3_s8 :: "s8 \<Rightarrow> s8 \<Rightarrow> s8 \<Rightarrow> s8" where
  "min3_s8 a b d = min_s8 (min_s8 a b) d"

definition rtw_phy_get_tx_power_index ::
    "rtw_pwr_chip \<Rightarrow> rtw_efuse \<Rightarrow> 'e rtw_dm_info \<Rightarrow> rtw_txpwr \<Rightarrow> nat \<Rightarrow> nat \<Rightarrow> nat \<Rightarrow> nat \<Rightarrow> nat \<Rightarrow> u8" where
  "rtw_phy_get_tx_power_index c e d h path r wd ch regd =
     (let pp = rtw_get_tx_power_params c e d h path r wd ch regd;
          offset' = min3_s8 (pwr_offset pp) (pwr_limit pp) (pwr_sar pp);
          offset' = (if en_dis_dpd c then offset' + rtw_phy_get_dis_dpd_by_rate_diff c r else offset');
          tx_power = pwr_base pp + (offset' + pwr_remnant pp)
      in if max_power_index c < tx_power then max_power_index c else tx_power)"

section \<open>Specific absorption rate\<close>

abbreviation (input) RTW_COMMON_SAR_FCT :: nat where "RTW_COMMON_SAR_FCT \<equiv> 2"
abbreviation (input) RTW_SAR_BAND_NR :: nat where "RTW_SAR_BAND_NR \<equiv> 4"

text \<open>A power limit in quarters of a dBm, an \<open>s32\<close>, in units of the chip and relative to the base.\<close>

definition rtw_sar_to_phy :: "rtw_pwr_chip \<Rightarrow> rtw_txpwr \<Rightarrow> nat \<Rightarrow> int \<Rightarrow> nat \<Rightarrow> nat \<Rightarrow> nat \<Rightarrow> s8" where
  "rtw_sar_to_phy c h fct sar band path rs =
     (let txgi = unat (txgi_factor c); mx = uint (max_power_index c);
          tmp = (if txgi < fct then drop_bit (fct - txgi) sar else push_bit (txgi - fct) sar);
          base = (if band = 0 then tx_pwr_by_rate_base_2g h path rs else tx_pwr_by_rate_base_5g h path rs)
      in word_of_int (min (max tmp (- mx - 1)) mx) - base)"

fun sar_specs_loop :: "rtw_pwr_chip \<Rightarrow> rtw_txpwr \<Rightarrow> (nat \<times> int) list \<Rightarrow> rtw_sar \<Rightarrow> rtw_sar option" where
  "sar_specs_loop c h [] new = Some new"
| "sar_specs_loop c h ((idx, pw) # specs) new =
     (if RTW_SAR_BAND_NR \<le> idx then None
      else sar_specs_loop c h specs
        (fold (\<lambda>j. fold (\<lambda>k new. new\<lparr>sar_cfg := (sar_cfg new)(j := upd2 (sar_cfg new j) k idx
                (rtw_sar_to_phy c h RTW_COMMON_SAR_FCT pw idx j k))\<rparr>) [0..<RTW_RATE_SECTION_NUM]) [0..<RTW_RF_PATH_MAX] new))"

definition new_sar :: "rtw_pwr_chip \<Rightarrow> rtw_sar" where
  "new_sar c = \<lparr>sar_src = RTW_SAR_SOURCE_COMMON, sar_cfg = \<lambda>_ _ _. max_power_index c\<rparr>"

end
