(* ===== verification/PhyDm.thy ===== *)
theory PhyDm
  imports XxaBand TxPower "HOL-Library.Signed_Division"
begin

text \<open>
  The dynamic mechanism of the PHY (\<open>phy.c\<close>): statistics, initial gain (DIG), CCK packet
  detection, response rates, path diversity and temperature compensation, as the watchdog runs
  them every two seconds. The chip operations it calls are a record of function pointers, absent
  ones \<open>None\<close>; the firmware commands and \<open>rtw_update_sta_info\<close> are parameters in the same record.
\<close>

section \<open>State\<close>

datatype nl80211_dfs_regions = NL80211_DFS_UNSET | NL80211_DFS_FCC | NL80211_DFS_ETSI | NL80211_DFS_JP

record rtw_path_div =
  pd_current_tx_path :: u32
  pd_path_a_sum :: u32
  pd_path_b_sum :: u32
  pd_path_a_cnt :: u16
  pd_path_b_cnt :: u16

text \<open>
  What mac80211 says of a station (\<open>struct ieee80211_sta\<close>, its \<open>deflink\<close>): a capability word
  is as the peer announced it, \<open>sta_bandwidth\<close> the value of \<open>ieee80211_sta_rx_bandwidth\<close>.
\<close>

datatype sta_rx_bandwidth =
  IEEE80211_STA_RX_BW_20 | IEEE80211_STA_RX_BW_40 | IEEE80211_STA_RX_BW_80 | IEEE80211_STA_RX_BW_160

record ieee80211_sta =
  sta_addr :: "u8 list"
  sta_vht_supported :: bool
  sta_vht_cap :: u32
  sta_vht_rx_mcs_map :: u16
  sta_vht_tx_mcs_map :: u16
  sta_ht_supported :: bool
  sta_ht_cap :: u16
  sta_ht_rx_mask :: "u8 list"    \<comment> \<open>at least four bytes\<close>
  sta_ampdu_factor :: u8
  sta_ampdu_density :: u8
  sta_supp_rates_2g :: u32
  sta_supp_rates_5g :: u32
  sta_bandwidth :: sta_rx_bandwidth
  sta_tdls :: bool
  sta_max_rc_amsdu_len :: u16

record rate_info =
  ri_flags :: u16
  ri_legacy :: u16
  ri_mcs :: u8
  ri_nss :: u8
  ri_bw :: u8

record cfg80211_bitrate_mask =
  brm_legacy :: "nat \<Rightarrow> u32"
  brm_ht_mcs :: "nat \<Rightarrow> nat \<Rightarrow> u8"
  brm_vht_mcs :: "nat \<Rightarrow> nat \<Rightarrow> u16"

text \<open>\<open>si_avg_rssi\<close> is what \<open>ewma_rssi_read\<close> returns; \<open>si_mask\<close> is a pointer to a
  \<open>struct cfg80211_bitrate_mask\<close>, \<open>None\<close> for NULL.\<close>

record rtw_sta_info =
  si_mac_id :: u8
  si_avg_rssi :: u8
  si_rssi_level :: u8
  si_desc_rate :: u8
  si_rate_id :: u8
  si_bw_mode :: u8
  si_stbc_en :: u8      \<comment> \<open>two bits\<close>
  si_ldpc_en :: u8      \<comment> \<open>two bits\<close>
  si_sgi_enable :: bool
  si_vht_enable :: bool
  si_init_ra_lv :: u8
  si_ra_mask :: "64 word"
  si_bit_rate :: u32
  si_txrate :: rate_info
  si_tid_ba :: "nat set"
  si_use_cfg_mask :: bool
  si_mask :: "nat option"
  si_vif :: nat
  si_txq :: "nat list"      \<comment> \<open>the queues of its traffic identifiers\<close>
  si_sta :: ieee80211_sta

record rtw_pkt_count =
  num_bcn_pkt :: u16
  num_qry_pkt :: "u16 list"

record 'e rtw_core = "'e rtw_phy" +
  edcca_enabled :: bool
  dfs_region :: nl80211_dfs_regions
  l2h_th_ini_ad :: s8
  l2h_th_ini_cs :: s8
  path_div_supported :: bool
  default_1ss_tx_path :: u32
  path_div :: rtw_path_div
  stas :: "rtw_sta_info list"
  watch_dog_cnt :: u32
  cur_pkt_count :: rtw_pkt_count
  last_pkt_count :: rtw_pkt_count
  dig_cck :: "(u32 \<times> u32) option"
  pkg_type :: u8
  rfe_defs :: "rtw_rfe_def list"
  pwr_chip :: rtw_pwr_chip
  txpwr :: rtw_txpwr
  txpwr_regd_2g :: nat
  txpwr_regd_5g :: nat

type_synonym ('e, 'x, 'a) core = "(('e, 'x) rtw_core_scheme, 'a) state"

record 's rtw_dm_ops =
  do_false_alarm_statistics :: "('s, unit) state"
  do_cck_pd_set :: "(u8 \<Rightarrow> ('s, unit) state) option"
  do_pwr_track :: "('s, unit) state"
  do_adaptivity_init :: "('s, unit) state option"
  do_adaptivity :: "('s, unit) state option"
  do_cfo_init :: "('s, unit) state option"
  do_cfo_track :: "('s, unit) state option"
  do_dpk_track :: "('s, unit) state option"
  do_config_tx_path :: "u32 \<Rightarrow> u32 \<Rightarrow> u32 \<Rightarrow> bool \<Rightarrow> ('s, unit) state"
  do_fw_send_rssi_info :: "rtw_sta_info \<Rightarrow> ('s, unit) state"
  do_fw_update_wl_phy_info :: "('s, unit) state"
  do_fw_adaptivity :: "('s, unit) state"
  do_fw_feature_adaptivity :: bool
  do_update_sta_info :: "nat \<Rightarrow> ('s, unit) state"   \<comment> \<open>of a station by its place\<close>

definition call_op :: "('s, unit) state option \<Rightarrow> ('s, unit) state" where
  "call_op f = (case f of None \<Rightarrow> skip | Some m \<Rightarrow> m)"

section \<open>Initialisation\<close>

abbreviation (input) CCK_PD_LV0 :: u8 where "CCK_PD_LV0 \<equiv> 0"
abbreviation (input) CCK_PD_LV1 :: u8 where "CCK_PD_LV1 \<equiv> 1"
abbreviation (input) CCK_PD_LV2 :: u8 where "CCK_PD_LV2 \<equiv> 2"
abbreviation (input) CCK_PD_LV3 :: u8 where "CCK_PD_LV3 \<equiv> 3"
abbreviation (input) CCK_PD_LV4 :: u8 where "CCK_PD_LV4 \<equiv> 4"
abbreviation (input) CCK_PD_LV_MAX :: u8 where "CCK_PD_LV_MAX \<equiv> 5"
abbreviation (input) CCK_FA_AVG_RESET :: u32 where "CCK_FA_AVG_RESET \<equiv> 0xffffffff"

definition rtw_phy_cck_pd_init :: "'e rtw_dm_info \<Rightarrow> 'e rtw_dm_info" where
  "rtw_phy_cck_pd_init d = d\<lparr>
     dm_cck_pd_lv := (\<lambda>i j. if i \<le> 1 \<and> j < 4 then CCK_PD_LV0 else dm_cck_pd_lv d i j),
     dm_cck_fa_avg := CCK_FA_AVG_RESET\<rparr>"

definition rtw_phy_adaptivity_set_mode :: "('e, 'x, unit) core" where
  "rtw_phy_adaptivity_set_mode =
     do { on \<leftarrow> dev_get edcca_enabled;
          region \<leftarrow> dev_get dfs_region;
          ad \<leftarrow> dev_get l2h_th_ini_ad;
          cs \<leftarrow> dev_get l2h_th_ini_cs;
          if \<not> on then dm_upd (\<lambda>d. d\<lparr>dm_edcca_adaptivity := False\<rparr>)
          else case region of
            NL80211_DFS_ETSI \<Rightarrow> dm_upd (\<lambda>d. d\<lparr>dm_edcca_adaptivity := True, dm_l2h_th_ini := ad\<rparr>)
          | NL80211_DFS_JP \<Rightarrow> dm_upd (\<lambda>d. d\<lparr>dm_edcca_adaptivity := True, dm_l2h_th_ini := cs\<rparr>)
          | _ \<Rightarrow> dm_upd (\<lambda>d. d\<lparr>dm_edcca_adaptivity := False\<rparr>) }"

definition rtw_phy_adaptivity_init :: "('e, 'x) rtw_core_scheme rtw_dm_ops \<Rightarrow> ('e, 'x, unit) core" where
  "rtw_phy_adaptivity_init ops = do { rtw_phy_adaptivity_set_mode; call_op (do_adaptivity_init ops) }"

definition rtw_phy_adaptivity :: "'s rtw_dm_ops \<Rightarrow> ('s, unit) state" where
  "rtw_phy_adaptivity ops = call_op (do_adaptivity ops)"

definition rtw_phy_cfo_init :: "'s rtw_dm_ops \<Rightarrow> ('s, unit) state" where
  "rtw_phy_cfo_init ops = call_op (do_cfo_init ops)"

definition rtw_phy_tx_path_div_init :: "('e, 'x, unit) core" where
  "rtw_phy_tx_path_div_init =
     dev_upd (\<lambda>s. s\<lparr>path_div := \<lparr>pd_current_tx_path = default_1ss_tx_path s, pd_path_a_sum = 0,
       pd_path_b_sum = 0, pd_path_a_cnt = 0, pd_path_b_cnt = 0\<rparr>\<rparr>)"

definition rtw_phy_init :: "('e, 'x) rtw_core_scheme rtw_dm_ops \<Rightarrow> ('e, 'x, unit) core" where
  "rtw_phy_init ops =
     do { (addr, mask') \<leftarrow> dev_get (\<lambda>s. cp_dig (chip_phy s) ! 0);
          igi \<leftarrow> rtw_read32_mask addr mask';
          dm_upd (\<lambda>d. rtw_phy_cck_pd_init (d\<lparr>dm_fa_history := [0, 0, 0, 0], dm_igi_bitmap := 0,
            dm_igi_history := [ucast igi, 0, 0, 0]\<rparr>));
          dm_upd (\<lambda>d. d\<lparr>dm_iqk_done := False\<rparr>);
          rtw_phy_adaptivity_init ops;
          rtw_phy_cfo_init ops;
          rtw_phy_tx_path_div_init }"

section \<open>Statistics\<close>

definition RA_FLOOR_TABLE :: "u8 list" where
  "RA_FLOOR_TABLE = [20, 34, 38, 42, 46, 50, 100]"

definition RA_FLOOR_UP_GAP :: u8 where "RA_FLOOR_UP_GAP = 3"

definition ra_floor_table :: "u8 \<Rightarrow> u8 list" where
  "ra_floor_table old_level =
     map (\<lambda>i. RA_FLOOR_TABLE ! i + (if i \<ge> unat old_level then RA_FLOOR_UP_GAP else 0)) [0..<7]"

fun first_floor :: "u8 list \<Rightarrow> u8 \<Rightarrow> u8 \<Rightarrow> u8" where
  "first_floor [] i rssi = 0"
| "first_floor (t # ts) i rssi = (if rssi < t then i else first_floor ts (i + 1) rssi)"

definition rtw_phy_get_rssi_level :: "u8 \<Rightarrow> u8 \<Rightarrow> u8" where
  "rtw_phy_get_rssi_level old_level rssi = first_floor (ra_floor_table old_level) 0 rssi"

text \<open>The iteration over the stations; each is updated in place.\<close>

fun stat_rssi_iter :: "'s rtw_dm_ops \<Rightarrow> rtw_sta_info list \<Rightarrow> u8 \<Rightarrow> ('s, rtw_sta_info list \<times> u8) state" where
  "stat_rssi_iter ops [] m = State_Monad.return ([], m)"
| "stat_rssi_iter ops (si # sis) m =
     (let rssi = si_avg_rssi si;
          si' = si\<lparr>si_rssi_level := rtw_phy_get_rssi_level (si_rssi_level si) rssi\<rparr>
      in do { do_fw_send_rssi_info ops si';
              (sis', m') \<leftarrow> stat_rssi_iter ops sis (min rssi m);
              State_Monad.return (si' # sis', m') })"

definition rtw_phy_stat_rssi :: "('e, 'x) rtw_core_scheme rtw_dm_ops \<Rightarrow> ('e, 'x, unit) core" where
  "rtw_phy_stat_rssi ops =
     do { sis \<leftarrow> dev_get stas;
          (sis', min_rssi) \<leftarrow> stat_rssi_iter ops sis 0xff;
          dev_upd (\<lambda>s. s\<lparr>stas := sis'\<rparr>);
          dm_upd (\<lambda>d. d\<lparr>dm_pre_min_rssi := dm_min_rssi d, dm_min_rssi := min_rssi\<rparr>) }"

definition rtw_phy_stat_rate_cnt :: "('e, 'x, unit) core" where
  "rtw_phy_stat_rate_cnt =
     dev_upd (\<lambda>s. s\<lparr>last_pkt_count := cur_pkt_count s,
       cur_pkt_count := \<lparr>num_bcn_pkt = 0, num_qry_pkt = replicate (length (num_qry_pkt (cur_pkt_count s))) 0\<rparr>\<rparr>)"

definition rtw_phy_statistics :: "('e, 'x) rtw_core_scheme rtw_dm_ops \<Rightarrow> ('e, 'x, unit) core" where
  "rtw_phy_statistics ops =
     do { rtw_phy_stat_rssi ops; do_false_alarm_statistics ops; rtw_phy_stat_rate_cnt }"

section \<open>Initial gain\<close>

abbreviation (input) DIG_PERF_FA_TH_LOW :: u16 where "DIG_PERF_FA_TH_LOW \<equiv> 250"
abbreviation (input) DIG_PERF_FA_TH_HIGH :: u16 where "DIG_PERF_FA_TH_HIGH \<equiv> 500"
abbreviation (input) DIG_PERF_FA_TH_EXTRA_HIGH :: u16 where "DIG_PERF_FA_TH_EXTRA_HIGH \<equiv> 750"
abbreviation (input) DIG_PERF_MAX :: u8 where "DIG_PERF_MAX \<equiv> 0x5a"
abbreviation (input) DIG_PERF_MID :: u8 where "DIG_PERF_MID \<equiv> 0x40"
abbreviation (input) DIG_CVRG_FA_TH_LOW :: u16 where "DIG_CVRG_FA_TH_LOW \<equiv> 2000"
abbreviation (input) DIG_CVRG_FA_TH_HIGH :: u16 where "DIG_CVRG_FA_TH_HIGH \<equiv> 4000"
abbreviation (input) DIG_CVRG_FA_TH_EXTRA_HIGH :: u16 where "DIG_CVRG_FA_TH_EXTRA_HIGH \<equiv> 5000"
abbreviation (input) DIG_CVRG_MAX :: u8 where "DIG_CVRG_MAX \<equiv> 0x2a"
abbreviation (input) DIG_CVRG_MID :: u8 where "DIG_CVRG_MID \<equiv> 0x26"
abbreviation (input) DIG_CVRG_MIN :: u8 where "DIG_CVRG_MIN \<equiv> 0x1c"
abbreviation (input) DIG_RSSI_GAIN_OFFSET :: u8 where "DIG_RSSI_GAIN_OFFSET \<equiv> 15"

text \<open>\<open>clamp_t(u8, v, lo, hi)\<close> is \<open>min(max(v, lo), hi)\<close>.\<close>

definition clamp_u8 :: "u8 \<Rightarrow> u8 \<Rightarrow> u8 \<Rightarrow> u8" where
  "clamp_u8 v lo hi = min (max v lo) hi"

definition rtw_phy_dig_write :: "u8 \<Rightarrow> ('e, 'x, unit) core" where
  "rtw_phy_dig_write igi =
     do { cck \<leftarrow> dev_get dig_cck;
          (case cck of None \<Rightarrow> skip | Some (addr, mask') \<Rightarrow> rtw_write32_mask addr mask' (ucast (drop_bit 1 igi)));
          for_paths (\<lambda>path. do { (addr, mask') \<leftarrow> dev_get (\<lambda>s. cp_dig (chip_phy s) ! path);
                                 rtw_write32_mask addr mask' (ucast igi) }) }"

definition rtw_phy_dig_set_max_coverage :: "('e, 'x, unit) core" where
  "rtw_phy_dig_set_max_coverage = rtw_phy_dig_write DIG_CVRG_MIN"

definition rtw_phy_dig_reset :: "('e, 'x, unit) core" where
  "rtw_phy_dig_reset = do { igi \<leftarrow> dev_get (\<lambda>s. dm_igi_history (dm_info s) ! 0); rtw_phy_dig_write igi }"

text \<open>The pattern that starts the damping; the history is newest first.\<close>

definition damping_pattern :: "u8 \<Rightarrow> u8 list \<Rightarrow> u16 list \<Rightarrow> bool" where
  "damping_pattern bitmap igi fa =
     (let fa_lo = DIG_PERF_FA_TH_LOW; fa_hi = DIG_PERF_FA_TH_HIGH
      in if bitmap = 5 then
           igi ! 1 < igi ! 0 \<and> igi ! 3 < igi ! 2 \<and> igi ! 0 - igi ! 1 \<ge> 2 \<and> igi ! 2 - igi ! 3 \<ge> 2 \<and>
           fa_hi < fa ! 0 \<and> fa ! 1 < fa_lo \<and> fa_hi < fa ! 2 \<and> fa ! 3 < fa_lo
         else if bitmap = 9 then
           igi ! 1 < igi ! 0 \<and> igi ! 2 < igi ! 3 \<and> igi ! 0 - igi ! 1 \<ge> 4 \<and> igi ! 3 - igi ! 2 \<ge> 2 \<and>
           fa_hi < fa ! 0 \<and> fa ! 1 < fa_lo \<and> fa ! 2 < fa_lo \<and> fa_hi < fa ! 3
         else False)"

definition rtw_phy_dig_check_damping :: "'e rtw_dm_info \<Rightarrow> bool \<times> 'e rtw_dm_info" where
  "rtw_phy_dig_check_damping d =
     (let min_rssi = dm_min_rssi d
      in if dm_damping d then
           (let r = dm_damping_rssi d; diff = (if r < min_rssi then min_rssi - r else r - min_rssi)
            in if 3 < diff then (False, d\<lparr>dm_damping := False\<rparr>)
               else let cnt = dm_damping_cnt d; d' = d\<lparr>dm_damping_cnt := cnt + 1\<rparr>
                    in if 20 < cnt then (False, d'\<lparr>dm_damping := False\<rparr>) else (True, d'))
         else if damping_pattern (dm_igi_bitmap d AND 0xf) (dm_igi_history d) (dm_fa_history d)
         then (True, d\<lparr>dm_damping := True, dm_damping_cnt := 0, dm_damping_rssi := min_rssi\<rparr>)
         else (False, d))"

text \<open>The result is \<open>(upper, lower)\<close>.\<close>

definition rtw_phy_dig_get_boundary :: "u8 \<Rightarrow> 'e rtw_dm_info \<Rightarrow> bool \<Rightarrow> u8 \<times> u8" where
  "rtw_phy_dig_get_boundary chip_dig_min d linked =
     (let (dig_max, dig_mid, dig_min, min_rssi) =
            (if linked then (DIG_PERF_MAX, DIG_PERF_MID, chip_dig_min, max (dm_min_rssi d) chip_dig_min)
             else (DIG_CVRG_MAX, DIG_CVRG_MID, DIG_CVRG_MIN, DIG_CVRG_MIN));
          dig_max = min dig_max (min_rssi + DIG_RSSI_GAIN_OFFSET);
          lower = clamp_u8 min_rssi dig_min dig_mid
      in (clamp_u8 (lower + DIG_RSSI_GAIN_OFFSET) dig_min dig_max, lower))"

definition rtw_phy_dig_get_threshold :: "'e rtw_dm_info \<Rightarrow> bool \<Rightarrow> (u16 \<times> u8) list" where
  "rtw_phy_dig_get_threshold d linked =
     (let step = (if linked \<and> dm_min_rssi d < dm_pre_min_rssi d then [6, 4, 2] else [4, 3, 2]);
          fa_th = (if linked then [DIG_PERF_FA_TH_EXTRA_HIGH, DIG_PERF_FA_TH_HIGH, DIG_PERF_FA_TH_LOW]
                   else [DIG_CVRG_FA_TH_EXTRA_HIGH, DIG_CVRG_FA_TH_HIGH, DIG_CVRG_FA_TH_LOW])
      in zip fa_th step)"

definition rtw_phy_dig_recorder :: "u8 \<Rightarrow> u16 \<Rightarrow> 'e rtw_dm_info \<Rightarrow> 'e rtw_dm_info" where
  "rtw_phy_dig_recorder igi fa d =
     (let ih = dm_igi_history d; fh = dm_fa_history d
      in d\<lparr>dm_igi_bitmap := (push_bit 1 (dm_igi_bitmap d) AND 0xfe) OR of_bool_w (ih ! 0 < igi),
           dm_igi_history := [igi, ih ! 0, ih ! 1, ih ! 2],
           dm_fa_history := [fa, fh ! 0, fh ! 1, fh ! 2]\<rparr>)"

text \<open>The step the false alarm count calls for: the first threshold exceeded.\<close>

fun dig_step :: "(u16 \<times> u8) list \<Rightarrow> u16 \<Rightarrow> u8" where
  "dig_step [] fa = 0"
| "dig_step ((th, step) # ts) fa = (if th < fa then step else dig_step ts fa)"

text \<open>The new gain before the beacon loss exception; \<open>fa_cnt\<close> has the low 16 bits of \<open>total_fa_cnt\<close>.\<close>

definition dig_new_igi :: "u8 \<Rightarrow> 'e rtw_dm_info \<Rightarrow> bool \<Rightarrow> u8" where
  "dig_new_igi chip_dig_min d linked =
     (let fa_cnt = ucast (dm_total_fa_cnt d) :: u16;
          cur_igi = dm_igi_history d ! 0 + dig_step (rtw_phy_dig_get_threshold d linked) fa_cnt - 2;
          (upper, lower) = rtw_phy_dig_get_boundary chip_dig_min d linked
      in clamp_u8 cur_igi lower upper)"

definition rtw_phy_dig :: "('e, 'x, unit) core" where
  "rtw_phy_dig =
     do { disabled \<leftarrow> dev_get flag_dig_disable;
          if disabled then skip
          else do {
            (damping, d0) \<leftarrow> dev_get (\<lambda>s. rtw_phy_dig_check_damping (dm_info s));
            dm_upd (\<lambda>_. d0);
            if damping then skip
            else do {
              linked \<leftarrow> dev_get (\<lambda>s. sta_cnt s \<noteq> 0);
              dmin \<leftarrow> dev_get (\<lambda>s. cp_dig_min (chip_phy s));
              c \<leftarrow> dev_get (\<lambda>s. ci_id (chip s));
              loss \<leftarrow> dev_get beacon_loss;
              let pre_igi = dm_igi_history d0 ! 0;
              let cur_igi = dig_new_igi dmin d0 linked;
              dm_upd (rtw_phy_dig_recorder cur_igi (ucast (dm_total_fa_cnt d0)));
              let cur_igi = (if (c = RTW_CHIP_TYPE_8812A \<or> c = RTW_CHIP_TYPE_8814A) \<and> loss \<and> linked \<and>
                                dm_total_fa_cnt d0 < ucast DIG_PERF_FA_TH_EXTRA_HIGH
                             then DIG_CVRG_MIN else cur_igi);
              when_do (cur_igi \<noteq> pre_igi) (rtw_phy_dig_write cur_igi) } } }"

section \<open>CCK packet detection\<close>

definition rtw_phy_cck_pd_lv_unlink :: "u32 \<Rightarrow> u8" where
  "rtw_phy_cck_pd_lv_unlink cck_fa_avg =
     (if 1000 < cck_fa_avg then CCK_PD_LV1 else if cck_fa_avg < 500 then CCK_PD_LV0 else CCK_PD_LV_MAX)"

definition rtw_phy_cck_pd_lv_link :: "'e rtw_dm_info \<Rightarrow> u8" where
  "rtw_phy_cck_pd_lv_link d =
     (let igi = dm_igi_history d ! 0; rssi = dm_min_rssi d; cck_fa_avg = dm_cck_fa_avg d
      in if 0x38 < igi \<and> 32 < rssi then CCK_PD_LV4
         else if 0x2a < igi \<and> 32 < rssi then CCK_PD_LV3
         else if 0x24 < igi \<or> 24 < rssi then CCK_PD_LV2
         else if 1000 < cck_fa_avg then CCK_PD_LV1
         else if cck_fa_avg < 500 then CCK_PD_LV0
         else CCK_PD_LV_MAX)"

definition rtw_phy_cck_pd_lv :: "bool \<Rightarrow> 'e rtw_dm_info \<Rightarrow> u8" where
  "rtw_phy_cck_pd_lv assoc d =
     (if \<not> assoc then rtw_phy_cck_pd_lv_unlink (dm_cck_fa_avg d) else rtw_phy_cck_pd_lv_link d)"

definition rtw_phy_cck_pd :: "('e, 'x) rtw_core_scheme rtw_dm_ops \<Rightarrow> ('e, 'x, unit) core" where
  "rtw_phy_cck_pd ops =
     do { band \<leftarrow> dev_get (\<lambda>s. hal_current_band_type (hal s));
          if band \<noteq> RTW_BAND_2G then skip
          else do {
            dm_upd (\<lambda>d. d\<lparr>dm_cck_fa_avg :=
              (if dm_cck_fa_avg d = CCK_FA_AVG_RESET then dm_cck_fa_cnt d
               else drop_bit 2 (dm_cck_fa_avg d * 3 + dm_cck_fa_cnt d))\<rparr>);
            level \<leftarrow> dev_get (\<lambda>s. rtw_phy_cck_pd_lv (is_assoc s) (dm_info s));
            if CCK_PD_LV_MAX \<le> level then skip
            else case do_cck_pd_set ops of None \<Rightarrow> skip | Some f \<Rightarrow> f level } }"

section \<open>Response rates and rate adaptation\<close>

abbreviation (input) RRSR_RATE_ORDER_MAX :: u32 where "RRSR_RATE_ORDER_MAX \<equiv> 0xfffff"
abbreviation (input) RRSR_RATE_ORDER_CCK_LEN :: nat where "RRSR_RATE_ORDER_CCK_LEN \<equiv> 4"

text \<open>The order of a rate within its section; the sections start at the rates listed.\<close>

definition rate_order_of :: "u8 \<Rightarrow> u8" where
  "rate_order_of rate_idx =
     (let order = rate_idx -
        (if 0x4a \<le> rate_idx then 0x4a else if 0x40 \<le> rate_idx then 0x40
         else if 0x36 \<le> rate_idx then 0x36 else if 0x2c \<le> rate_idx then 0x2c
         else if 0x24 \<le> rate_idx then 0x24 else if 0x1c \<le> rate_idx then 0x1c
         else if 0x14 \<le> rate_idx then 0x14 else if 0x0c \<le> rate_idx then 0x0c
         else if 0x04 \<le> rate_idx then 0x04 else 0x00)
      in if 0x0c \<le> rate_idx \<or> order = 0 then order + 1 else order)"

definition rtw_phy_get_rrsr_mask :: "u8 \<Rightarrow> u32" where
  "rtw_phy_get_rrsr_mask rate_idx = GENMASK (unat (rate_order_of rate_idx) + RRSR_RATE_ORDER_CCK_LEN - 1) 0"

definition rtw_phy_rrsr_mask_min_iter :: "rtw_sta_info \<Rightarrow> u32 \<Rightarrow> u32" where
  "rtw_phy_rrsr_mask_min_iter si m = min (rtw_phy_get_rrsr_mask (si_desc_rate si)) m"

definition rtw_phy_rrsr_update :: "('e, 'x, unit) core" where
  "rtw_phy_rrsr_update =
     do { sis \<leftarrow> dev_get stas;
          dm_upd (\<lambda>d. d\<lparr>dm_rrsr_mask_min := fold rtw_phy_rrsr_mask_min_iter sis RRSR_RATE_ORDER_MAX\<rparr>);
          d \<leftarrow> dev_get dm_info;
          rtw_write32 REG_RRSR (dm_rrsr_val_init d AND dm_rrsr_mask_min d) }"

definition rtw_phy_ra_info_update :: "('e, 'x) rtw_core_scheme rtw_dm_ops \<Rightarrow> ('e, 'x, unit) core" where
  "rtw_phy_ra_info_update ops =
     do { cnt \<leftarrow> dev_get watch_dog_cnt;
          sis \<leftarrow> dev_get stas;
          when_do (cnt AND 0x3 = 0) (for_each [0..<length sis] (do_update_sta_info ops)) }"

definition rtw_phy_ra_track :: "('e, 'x) rtw_core_scheme rtw_dm_ops \<Rightarrow> ('e, 'x, unit) core" where
  "rtw_phy_ra_track ops =
     do { do_fw_update_wl_phy_info ops; rtw_phy_ra_info_update ops; rtw_phy_rrsr_update }"

section \<open>Transmit path diversity\<close>

definition path_rssi :: "u32 \<Rightarrow> u16 \<Rightarrow> int" where
  "path_rssi acc cnt = (if cnt \<noteq> 0 then sint (acc div ucast cnt) else 0)"

definition rtw_phy_set_tx_path_by_reg :: "('e, 'x) rtw_core_scheme rtw_dm_ops \<Rightarrow> u32 \<Rightarrow> ('e, 'x, unit) core" where
  "rtw_phy_set_tx_path_by_reg ops sel =
     do { pd \<leftarrow> dev_get path_div;
          if sel = pd_current_tx_path pd then skip
          else do { dev_upd (\<lambda>s. s\<lparr>path_div := (path_div s)\<lparr>pd_current_tx_path := sel\<rparr>\<rparr>);
                    ant \<leftarrow> dev_get (\<lambda>s. hal_antenna_tx (hal s));
                    do_config_tx_path ops ant sel sel False } }"

definition rtw_phy_tx_path_div_select :: "('e, 'x) rtw_core_scheme rtw_dm_ops \<Rightarrow> ('e, 'x, unit) core" where
  "rtw_phy_tx_path_div_select ops =
     do { pd \<leftarrow> dev_get path_div;
          let rssi_a = path_rssi (pd_path_a_sum pd) (pd_path_a_cnt pd);
          let rssi_b = path_rssi (pd_path_b_sum pd) (pd_path_b_cnt pd);
          let path = (if rssi_a \<noteq> rssi_b then if rssi_b < rssi_a then BB_PATH_A else BB_PATH_B
                      else pd_current_tx_path pd);
          dev_upd (\<lambda>s. s\<lparr>path_div := (path_div s)\<lparr>pd_path_a_sum := 0, pd_path_b_sum := 0,
            pd_path_a_cnt := 0, pd_path_b_cnt := 0\<rparr>\<rparr>);
          rtw_phy_set_tx_path_by_reg ops path }"

definition rtw_phy_tx_path_diversity_2ss :: "('e, 'x) rtw_core_scheme rtw_dm_ops \<Rightarrow> ('e, 'x, unit) core" where
  "rtw_phy_tx_path_diversity_2ss ops =
     do { rx \<leftarrow> dev_get (\<lambda>s. hal_antenna_rx (hal s));
          n \<leftarrow> dev_get sta_cnt;
          if rx \<noteq> BB_PATH_AB \<or> n = 0 then skip else rtw_phy_tx_path_div_select ops }"

definition rtw_phy_tx_path_diversity :: "('e, 'x) rtw_core_scheme rtw_dm_ops \<Rightarrow> ('e, 'x, unit) core" where
  "rtw_phy_tx_path_diversity ops =
     do { b \<leftarrow> dev_get path_div_supported; if b then rtw_phy_tx_path_diversity_2ss ops else skip }"

section \<open>The watchdog's turn\<close>

definition rtw_phy_cfo_track :: "'s rtw_dm_ops \<Rightarrow> ('s, unit) state" where
  "rtw_phy_cfo_track ops = call_op (do_cfo_track ops)"

definition rtw_phy_dpk_track :: "'s rtw_dm_ops \<Rightarrow> ('s, unit) state" where
  "rtw_phy_dpk_track ops = call_op (do_dpk_track ops)"

definition rtw_phy_dynamic_mechanism :: "('e, 'x) rtw_core_scheme rtw_dm_ops \<Rightarrow> ('e, 'x, unit) core" where
  "rtw_phy_dynamic_mechanism ops =
     do { rtw_phy_statistics ops;
          rtw_phy_dig;
          rtw_phy_cck_pd ops;
          rtw_phy_ra_track ops;
          rtw_phy_tx_path_diversity ops;
          rtw_phy_cfo_track ops;
          rtw_phy_dpk_track ops;
          do_pwr_track ops;
          if do_fw_feature_adaptivity ops then do_fw_adaptivity ops else rtw_phy_adaptivity ops }"

section \<open>Temperature compensation\<close>

abbreviation (input) RTW_PWR_TRK_TBL_SZ :: nat where "RTW_PWR_TRK_TBL_SZ \<equiv> 30"

definition rtw_phy_pwrtrack_avg :: "u8 \<Rightarrow> nat \<Rightarrow> ('e, 'x, unit) phy" where
  "rtw_phy_pwrtrack_avg thermal path =
     dev_upd (\<lambda>s. let e = thermal_add s (dm_avg_thermal (dm_info s) path) thermal
        in s\<lparr>dm_info := (dm_info s)\<lparr>dm_avg_thermal := (dm_avg_thermal (dm_info s))(path := e),
               dm_thermal_avg := (dm_thermal_avg (dm_info s))(path := thermal_read s e)\<rparr>\<rparr>)"

definition rtw_phy_pwrtrack_thermal_changed :: "('e, 'x) rtw_phy_scheme \<Rightarrow> u8 \<Rightarrow> nat \<Rightarrow> bool" where
  "rtw_phy_pwrtrack_thermal_changed s thermal path \<longleftrightarrow>
     thermal_read s (dm_avg_thermal (dm_info s) path) \<noteq> thermal"

text \<open>\<open>abs\<close> of a difference of two bytes, which is computed as \<open>int\<close>.\<close>

definition abs_diff_u8 :: "u8 \<Rightarrow> u8 \<Rightarrow> u8" where
  "abs_diff_u8 a b = (if b < a then a - b else b - a)"

definition rtw_phy_pwrtrack_get_delta :: "('e, 'x) rtw_phy_scheme \<Rightarrow> nat \<Rightarrow> u8" where
  "rtw_phy_pwrtrack_get_delta s path =
     min (abs_diff_u8 (dm_thermal_avg (dm_info s) path) (ef_thermal_meter (efuse s) path))
         (of_nat (RTW_PWR_TRK_TBL_SZ - 1))"

definition rtw_phy_pwrtrack_get_pwridx ::
    "('e, 'x) rtw_phy_scheme \<Rightarrow> rtw_swing_table option \<Rightarrow> nat \<Rightarrow> nat \<Rightarrow> u8 \<Rightarrow> s8" where
  "rtw_phy_pwrtrack_get_pwridx s swing tbl_path therm_path delta =
     (if RTW_PWR_TRK_TBL_SZ \<le> unat delta then 0
      else case swing of None \<Rightarrow> 0
      | Some t \<Rightarrow>
          (case (swing_p t tbl_path, swing_n t tbl_path) of
             (Some p, Some n) \<Rightarrow>
               if ef_thermal_meter (efuse s) therm_path < dm_thermal_avg (dm_info s) therm_path
               then p (unat delta) else - n (unat delta)
           | _ \<Rightarrow> 0))"

definition rtw_phy_pwrtrack_need_lck :: "('e, 'x, bool) phy" where
  "rtw_phy_pwrtrack_need_lck =
     do { avg \<leftarrow> dev_get (\<lambda>s. dm_thermal_avg (dm_info s) 0);
          old \<leftarrow> dev_get (\<lambda>s. dm_thermal_meter_lck (dm_info s));
          th \<leftarrow> dev_get (\<lambda>s. cp_lck_threshold (chip_phy s));
          if th \<le> abs_diff_u8 avg old
          then do { dm_upd (\<lambda>d. d\<lparr>dm_thermal_meter_lck := avg\<rparr>); State_Monad.return True }
          else State_Monad.return False }"

definition rtw_phy_pwrtrack_need_iqk :: "('e, 'x, bool) phy" where
  "rtw_phy_pwrtrack_need_iqk =
     do { avg \<leftarrow> dev_get (\<lambda>s. dm_thermal_avg (dm_info s) 0);
          old \<leftarrow> dev_get (\<lambda>s. dm_thermal_meter_k (dm_info s));
          th \<leftarrow> dev_get (\<lambda>s. cp_iqk_threshold (chip_phy s));
          if th \<le> abs_diff_u8 avg old
          then do { dm_upd (\<lambda>d. d\<lparr>dm_thermal_meter_k := avg\<rparr>); State_Monad.return True }
          else State_Monad.return False }"

end
