(* ===== verification/PhyDmProps.thy ===== *)
theory PhyDmProps
  imports PhyDm Calculus
begin

text \<open>
  What the dynamic mechanism guarantees: the bounds of the initial gain, the hysteresis of the
  RSSI level, the minimum over the stations, and the range of the temperature index.
\<close>

section \<open>The bounds of the initial gain\<close>

lemma clamp_u8_nat: "unat (clamp_u8 v lo hi) = min (max (unat v) (unat lo)) (unat hi)"
  unfolding clamp_u8_def by (auto simp: min_def max_def word_le_nat_alt)

lemma max_u8_nat: "unat (max a (b :: u8)) = max (unat a) (unat b)"
  and min_u8_nat: "unat (min a (b :: u8)) = min (unat a) (unat b)"
  by (auto simp: min_def max_def word_le_nat_alt)

lemma add_u8_nat: "unat a + unat b < 256 \<Longrightarrow> unat (a + (b :: u8)) = unat a + unat b"
  by (simp add: unat_add_lem [THEN iffD1])

text \<open>Where a station is heard, the gain has fifteen steps above the weakest station's level.\<close>

lemma dig_boundary_linked:
  assumes "unat dmin \<le> 0x40" and "unat (dm_min_rssi d) \<le> 240"
    and "rtw_phy_dig_get_boundary dmin d True = (upper, lower)"
  shows "unat lower = min (max (unat (dm_min_rssi d)) (unat dmin)) 0x40" and "unat upper = unat lower + 15"
proof -
  let ?m = "max (dm_min_rssi d) dmin"
  have lower: "lower = clamp_u8 ?m dmin 0x40"
    and upper: "upper = clamp_u8 (lower + 15) dmin (min 0x5a (?m + 15))"
    using assms(3) by (auto simp: rtw_phy_dig_get_boundary_def Let_def)
  show l: "unat lower = min (max (unat (dm_min_rssi d)) (unat dmin)) 0x40"
    by (simp add: lower clamp_u8_nat max_u8_nat)
  have m: "unat (?m + 15) = unat ?m + 15"
    using assms by (subst add_u8_nat) (simp_all add: max_u8_nat)
  have s: "unat (lower + 15) = unat lower + 15"
    using l by (subst add_u8_nat) simp_all
  show "unat upper = unat lower + 15"
    using l assms by (simp add: upper clamp_u8_nat min_u8_nat m s max_u8_nat)
qed

lemma dig_boundary_unlinked:
  "rtw_phy_dig_get_boundary dmin d False = (DIG_CVRG_MAX, DIG_CVRG_MIN)"
  by (simp add: rtw_phy_dig_get_boundary_def clamp_u8_def)

lemma dig_boundary_range:
  assumes "unat dmin \<le> 0x40" and "\<not> linked \<or> unat (dm_min_rssi d) \<le> 240"
    and "rtw_phy_dig_get_boundary dmin d linked = (upper, lower)"
  shows "(if linked then unat lower = min (max (unat (dm_min_rssi d)) (unat dmin)) 0x40 \<and> unat upper = unat lower + 15
          else lower = DIG_CVRG_MIN \<and> upper = DIG_CVRG_MAX)"
  using assms dig_boundary_linked [of dmin d upper lower] by (cases linked) (simp_all add: dig_boundary_unlinked)

lemma dig_new_igi_bounds:
  assumes "unat dmin \<le> 0x40" and "\<not> linked \<or> unat (dm_min_rssi d) \<le> 240"
    and "rtw_phy_dig_get_boundary dmin d linked = (upper, lower)"
  shows "lower \<le> dig_new_igi dmin d linked \<and> dig_new_igi dmin d linked \<le> upper"
proof -
  have "unat lower \<le> unat upper"
    using dig_boundary_range [OF assms] by (cases linked) simp_all
  then show ?thesis
    using assms(3) by (simp add: dig_new_igi_def Let_def word_le_nat_alt clamp_u8_nat)
qed

section \<open>One turn of the initial gain\<close>

lemma quiet_dig_write [quiet_rules]: "quiet (rtw_phy_dig_write igi)"
  unfolding rtw_phy_dig_write_def by (intro quiet_rules)

lemma check_damping_keeps:
  "rtw_phy_dig_check_damping d = (b, d') \<Longrightarrow>
     dm_igi_history d' = dm_igi_history d \<and> dm_min_rssi d' = dm_min_rssi d \<and> dm_total_fa_cnt d' = dm_total_fa_cnt d \<and>
     dm_pre_min_rssi d' = dm_pre_min_rssi d \<and> dm_fa_history d' = dm_fa_history d"
  by (auto simp: rtw_phy_dig_check_damping_def Let_def split: if_splits)

lemma dig_new_igi_cong:
  "dm_igi_history d' = dm_igi_history d \<Longrightarrow> dm_min_rssi d' = dm_min_rssi d \<Longrightarrow>
   dm_total_fa_cnt d' = dm_total_fa_cnt d \<Longrightarrow> dm_pre_min_rssi d' = dm_pre_min_rssi d \<Longrightarrow>
   dig_new_igi dmin d' linked = dig_new_igi dmin d linked"
  by (simp add: dig_new_igi_def rtw_phy_dig_get_threshold_def rtw_phy_dig_get_boundary_def)

subsection \<open>When the gain is held\<close>

text \<open>
  The gain is held while it swings with the false alarms: the last four gains (newest first) went up
  and down by two, or up by four after a move down, with many false alarms at the high gains and few
  at the low ones. It is held until the weakest station's level has moved by more than three, or for
  twenty-one turns.
\<close>

definition gain_swings :: "'e rtw_dm_info \<Rightarrow> bool" where
  "gain_swings d \<longleftrightarrow>
     (let g = (\<lambda>k. int (unat (dm_igi_history d ! k))); many = (\<lambda>k. dm_fa_history d ! k > 500); few = (\<lambda>k. dm_fa_history d ! k < 250);
          moves = dm_igi_bitmap d AND 0xf
      in moves = 5 \<and> g 0 - g 1 \<ge> 2 \<and> g 2 - g 3 \<ge> 2 \<and> many 0 \<and> few 1 \<and> many 2 \<and> few 3
       \<or> moves = 9 \<and> g 0 - g 1 \<ge> 4 \<and> g 3 - g 2 \<ge> 2 \<and> many 0 \<and> few 1 \<and> few 2 \<and> many 3)"

definition gain_held :: "'e rtw_dm_info \<Rightarrow> bool" where
  "gain_held d \<longleftrightarrow>
     (if dm_damping d
      then \<bar>int (unat (dm_min_rssi d)) - int (unat (dm_damping_rssi d))\<bar> \<le> 3 \<and> dm_damping_cnt d \<le> 20
      else gain_swings d)"

lemma nat_above: "0 < n \<Longrightarrow> x < y \<and> n \<le> y - x \<longleftrightarrow> int y - int x \<ge> int n"
  by auto

lemma u8_minus: "a \<le> b \<Longrightarrow> unat (b - a) = unat b - unat (a :: u8)"
  by (rule unat_sub)

lemma u8_above: "a < b \<and> n \<le> b - a \<longleftrightarrow> int (unat (b :: u8)) - int (unat a) \<ge> int (unat n)" if "0 < unat n"
proof (cases "a < b")
  case True
  then have "unat (b - a) = unat b - unat a"
    by (intro u8_minus less_imp_le)
  then show ?thesis
    by (simp only: word_less_nat_alt word_le_nat_alt nat_above [OF that])
next
  case False
  then have "\<not> unat a < unat b"
    by (simp only: word_less_nat_alt not_False_eq_True)
  with nat_above [OF that, of "unat a" "unat b"] show ?thesis
    by (simp only: word_less_nat_alt simp_thms)
qed

lemma damping_pattern_swings:
  "damping_pattern (dm_igi_bitmap d AND 0xf) (dm_igi_history d) (dm_fa_history d) \<longleftrightarrow> gain_swings d"
  unfolding damping_pattern_def gain_swings_def Let_def
  using u8_above [of 2] u8_above [of 4] by auto

lemma u8_diff: "(if r < m then m - r else r - m) > 3 \<longleftrightarrow> \<not> \<bar>int (unat (m :: u8)) - int (unat r)\<bar> \<le> 3"
proof (cases "r < m")
  case True
  then have lt: "unat r < unat m" and "unat (m - r) = unat m - unat r"
    by (simp add: word_less_nat_alt) (rule u8_minus [OF less_imp_le [OF True]])
  then have "3 < m - r \<longleftrightarrow> 3 < unat m - unat r"
    by (simp add: word_less_nat_alt)
  with True lt show ?thesis
    by (simp only: if_True) arith
next
  case False
  then have "m \<le> r"
    by (simp only: not_less)
  then have le: "unat m \<le> unat r" and "unat (r - m) = unat r - unat m"
    by (simp add: word_le_nat_alt) (rule u8_minus [OF \<open>m \<le> r\<close>])
  then have "3 < r - m \<longleftrightarrow> 3 < unat r - unat m"
    by (simp add: word_less_nat_alt)
  with False le show ?thesis
    by (simp only: if_False) arith
qed

lemma check_damping_held: "fst (rtw_phy_dig_check_damping d) \<longleftrightarrow> gain_held d"
  unfolding rtw_phy_dig_check_damping_def gain_held_def Let_def u8_diff
  by (auto simp: damping_pattern_swings not_less)

subsection \<open>One turn\<close>

text \<open>The gain written may be the one of the beacon loss exception, which is not recorded.\<close>

definition gain_written :: "('e, 'x) rtw_core_scheme \<Rightarrow> u8 \<Rightarrow> u8" where
  "gain_written s g =
     (if (ci_id (chip s) = RTW_CHIP_TYPE_8812A \<or> ci_id (chip s) = RTW_CHIP_TYPE_8814A) \<and> beacon_loss s \<and>
         sta_cnt s \<noteq> 0 \<and> dm_total_fa_cnt (dm_info s) < 750 then 0x1c else g)"

lemma run_rtw_phy_dig:
  assumes "run_state rtw_phy_dig s = (r, s')"
  obtains (off) "flag_dig_disable s" and "s' = s"
  | (held) d0 where "\<not> flag_dig_disable s" and "rtw_phy_dig_check_damping (dm_info s) = (True, d0)"
      and "s' = s\<lparr>dm_info := d0\<rparr>"
  | (turn) d0 g where "\<not> flag_dig_disable s" and "rtw_phy_dig_check_damping (dm_info s) = (False, d0)"
      and "g = dig_new_igi (cp_dig_min (chip_phy s)) (dm_info s) (sta_cnt s \<noteq> 0)"
      and "dm_info s' = rtw_phy_dig_recorder g (ucast (dm_total_fa_cnt (dm_info s))) d0"
      and "s' = snd (run_state (when_do (gain_written s g \<noteq> dm_igi_history (dm_info s) ! 0) (rtw_phy_dig_write (gain_written s g)))
             (s\<lparr>dm_info := dm_info s'\<rparr>))"
proof -
  obtain held d0 where d0: "rtw_phy_dig_check_damping (dm_info s) = (held, d0)"
    by fastforce
  consider "flag_dig_disable s" | "\<not> flag_dig_disable s" "held" | "\<not> flag_dig_disable s" "\<not> held"
    by blast
  then show ?thesis
  proof cases
    case 1
    with assms show ?thesis by (intro off) (auto simp: rtw_phy_dig_def)
  next
    case 2
    with assms d0 show ?thesis by (intro held [of d0]) (auto simp: rtw_phy_dig_def)
  next
    case 3
    let ?g = "dig_new_igi (cp_dig_min (chip_phy s)) (dm_info s) (sta_cnt s \<noteq> 0)"
    let ?s1 = "s\<lparr>dm_info := rtw_phy_dig_recorder ?g (ucast (dm_total_fa_cnt (dm_info s))) d0\<rparr>"
    let ?m = "when_do (gain_written s ?g \<noteq> dm_igi_history (dm_info s) ! 0) (rtw_phy_dig_write (gain_written s ?g)) :: ('a, 'b, unit) core"
    have d: "rtw_phy_dig_check_damping (dm_info s) = (False, d0)"
      using 3 d0 by simp
    have g: "dig_new_igi dmin d0 b = dig_new_igi dmin (dm_info s) b" for dmin b
      using check_damping_keeps [OF d] by (auto intro: dig_new_igi_cong)
    have run: "run_state rtw_phy_dig s = run_state ?m ?s1"
      using 3 check_damping_keeps [OF d] unfolding rtw_phy_dig_def gain_written_def by (auto simp: d g Let_def)
    have "quiet ?m"
      by (intro quiet_rules)
    from quiet_run [OF this, of ?s1] have "dm_info s' = dm_info ?s1"
      using assms run by auto
    then show ?thesis
      using 3 d assms run by (intro turn [of d0 ?g]) simp_all
  qed
qed

text \<open>The step for a number of false alarms: larger while the weakest station's level falls.\<close>

definition gain_step :: "bool \<Rightarrow> bool \<Rightarrow> nat \<Rightarrow> nat" where
  "gain_step linked falls fa =
     (if linked
      then (if fa > 750 then if falls then 6 else 4 else if fa > 500 then if falls then 4 else 3 else if fa > 250 then 2 else 0)
      else (if fa > 5000 then 4 else if fa > 4000 then 3 else if fa > 2000 then 2 else 0))"

lemma dig_step_gain:
  "unat (dig_step (rtw_phy_dig_get_threshold d linked) fa) = gain_step linked (dm_min_rssi d < dm_pre_min_rssi d) (unat fa)"
  by (simp add: rtw_phy_dig_get_threshold_def Let_def gain_step_def word_less_nat_alt)

lemma u8_step: "unat (h + st - 2 :: u8) = (unat h + unat st + 254) mod 256"
proof -
  have "h + st - 2 = h + st + 254"
    by simp
  then show ?thesis
    by (simp only: unat_word_ariths) (simp add: mod_add_left_eq)
qed

text \<open>
  Property C35. One turn of the initial gain control. Switched off, it does nothing. While the gain is
  held because it swings (\<open>gain_held\<close>), only the record of the holding moves, and no register is
  accessed. Otherwise, and only then, it records a new gain, which follows from the last one by the
  step of the highest false alarm threshold exceeded less two (as a byte), kept within the bounds:
  with a station these are the level of the weakest station (at least the chip's minimum, at most
  0x40) and fifteen above it, without one they are 0x1c and 0x2a; and it writes the new gain, or 0x1c
  when beacons are lost, to the hardware when it differs from the last one. The levels of stations are
  at most 240 (without a station the recorded level is 255, and is not used).
\<close>

theorem rtw_phy_dig_gain:
  assumes "run_state rtw_phy_dig s = (r, s')"
    and "unat (cp_dig_min (chip_phy s)) \<le> 0x40" and "sta_cnt s = 0 \<or> unat (dm_min_rssi (dm_info s)) \<le> 240"
  shows "if flag_dig_disable s then s' = s
    else if gain_held (dm_info s)
    then s' = s\<lparr>dm_info := dm_info s'\<rparr> \<and> dm_damping (dm_info s') \<and>
      dm_igi_history (dm_info s') = dm_igi_history (dm_info s) \<and> dm_fa_history (dm_info s') = dm_fa_history (dm_info s)
    else \<exists>g lower upper.
      dm_igi_history (dm_info s') = g # map ((!) (dm_igi_history (dm_info s))) [0, 1, 2] \<and>
      \<not> dm_damping (dm_info s') \<and>
      unat g = min (max ((unat (dm_igi_history (dm_info s) ! 0)
          + gain_step (sta_cnt s \<noteq> 0) (dm_min_rssi (dm_info s) < dm_pre_min_rssi (dm_info s)) (unat (dm_total_fa_cnt (dm_info s)) mod 65536)
          + 254) mod 256) lower) upper \<and> lower \<le> unat g \<and> unat g \<le> upper \<and>
      (if sta_cnt s = 0 then lower = 0x1c \<and> upper = 0x2a
       else lower = min (max (unat (dm_min_rssi (dm_info s))) (unat (cp_dig_min (chip_phy s)))) 0x40
            \<and> upper = lower + 15) \<and>
      s' = snd (run_state (when_do (gain_written s g \<noteq> dm_igi_history (dm_info s) ! 0) (rtw_phy_dig_write (gain_written s g)))
             (s\<lparr>dm_info := dm_info s'\<rparr>))"
  using assms(1)
proof (cases rule: run_rtw_phy_dig)
  case off
  then show ?thesis by simp
next
  case (held d0)
  then have "dm_damping d0"
    by (auto simp: rtw_phy_dig_check_damping_def Let_def split: if_splits)
  with held check_damping_keeps [OF held(2)] check_damping_held [of "dm_info s"] show ?thesis
    by simp
next
  case (turn d0 g)
  have linked: "\<not> sta_cnt s \<noteq> 0 \<or> unat (dm_min_rssi (dm_info s)) \<le> 240"
    using assms(3) by simp
  obtain upper lower where b:
    "rtw_phy_dig_get_boundary (cp_dig_min (chip_phy s)) (dm_info s) (sta_cnt s \<noteq> 0) = (upper, lower)"
    by fastforce
  have fa: "unat (ucast (dm_total_fa_cnt (dm_info s)) :: u16) = unat (dm_total_fa_cnt (dm_info s)) mod 65536"
    by (simp add: unsigned_ucast_eq take_bit_eq_mod)
  have "\<not> dm_damping d0"
    using turn(2) by (auto simp: rtw_phy_dig_check_damping_def Let_def split: if_splits)
  then have "dm_igi_history (dm_info s') = g # map ((!) (dm_igi_history (dm_info s))) [0, 1, 2] \<and> \<not> dm_damping (dm_info s')"
    using check_damping_keeps [OF turn(2)] by (simp add: turn(4) rtw_phy_dig_recorder_def Let_def)
  moreover have "unat g = min (max ((unat (dm_igi_history (dm_info s) ! 0)
      + gain_step (sta_cnt s \<noteq> 0) (dm_min_rssi (dm_info s) < dm_pre_min_rssi (dm_info s)) (unat (dm_total_fa_cnt (dm_info s)) mod 65536)
      + 254) mod 256) (unat lower)) (unat upper)"
    unfolding turn(3) by (simp only: dig_new_igi_def Let_def b prod.case clamp_u8_nat u8_step dig_step_gain fa)
  moreover have "unat lower \<le> unat g \<and> unat g \<le> unat upper"
    using dig_new_igi_bounds [OF assms(2) linked b] by (simp add: turn(3) word_le_nat_alt)
  moreover have "if sta_cnt s = 0 then unat lower = 0x1c \<and> unat upper = 0x2a
      else unat lower = min (max (unat (dm_min_rssi (dm_info s))) (unat (cp_dig_min (chip_phy s)))) 0x40
           \<and> unat upper = unat lower + 15"
    using dig_boundary_range [OF assms(2) linked b] by (cases "sta_cnt s = 0") auto
  moreover note turn(5)
  moreover have "\<not> gain_held (dm_info s)"
    using check_damping_held [of "dm_info s"] turn(2) by simp
  moreover note turn(1)
  ultimately show ?thesis
    by (simp only: if_False) (rule exI [of _ g], rule exI [of _ "unat lower"], rule exI [of _ "unat upper"], simp only: simp_thms)
qed

text \<open>No station, gain 0x20 and no false alarms: the gain falls by two, to 0x1e.\<close>

lemma rtw_phy_dig_gain_witness:
  "\<forall>s :: (unit, unit) rtw_core_scheme.
     let t = s\<lparr>chip_phy := (chip_phy s)\<lparr>cp_dig_min := 0x20\<rparr>, flag_dig_disable := False, sta_cnt := 0,
           dm_info := (dm_info s)\<lparr>dm_min_rssi := 255, dm_damping := False, dm_igi_bitmap := 0,
             dm_igi_history := [0x20, 0x22, 0x24, 0x26], dm_total_fa_cnt := 0\<rparr>\<rparr>
     in dm_igi_history (dm_info (snd (run_state rtw_phy_dig t))) = [0x1e, 0x20, 0x22, 0x24]"
proof
  fix s :: "(unit, unit) rtw_core_scheme"
  let ?t = "s\<lparr>chip_phy := (chip_phy s)\<lparr>cp_dig_min := 0x20\<rparr>, flag_dig_disable := False, sta_cnt := 0,
           dm_info := (dm_info s)\<lparr>dm_min_rssi := 255, dm_damping := False, dm_igi_bitmap := 0,
             dm_igi_history := [0x20, 0x22, 0x24, 0x26], dm_total_fa_cnt := 0\<rparr>\<rparr>"
  have "\<not> gain_held (dm_info ?t)"
    by (simp add: gain_held_def gain_swings_def)
  with rtw_phy_dig_gain [OF prod.collapse [symmetric], of ?t] obtain g where
    "dm_igi_history (dm_info (snd (run_state rtw_phy_dig ?t))) = [g, 0x20, 0x22, 0x24]" "unat g = 30"
    by (auto simp: gain_step_def Let_def)
  then show "let t = ?t in dm_igi_history (dm_info (snd (run_state rtw_phy_dig t))) = [0x1e, 0x20, 0x22, 0x24]"
    by (simp add: Let_def word_unat_eq_iff)
qed

section \<open>The level of a station\<close>

lemma word8_le6_cases:
  "unat (x :: u8) \<le> 6 \<Longrightarrow> x = 0 \<or> x = 1 \<or> x = 2 \<or> x = 3 \<or> x = 4 \<or> x = 5 \<or> x = 6"
  by (simp add: word_unat_eq_iff) arith

lemma rssi_level_cases:
  assumes "unat old \<le> 6"
  shows "rtw_phy_get_rssi_level old rssi = (if rssi < RA_FLOOR_TABLE ! 0 + (if 0 < unat old then 0 else 3) then 0
    else if rssi < RA_FLOOR_TABLE ! 1 + (if 1 < unat old then 0 else 3) then 1
    else if rssi < RA_FLOOR_TABLE ! 2 + (if 2 < unat old then 0 else 3) then 2
    else if rssi < RA_FLOOR_TABLE ! 3 + (if 3 < unat old then 0 else 3) then 3
    else if rssi < RA_FLOOR_TABLE ! 4 + (if 4 < unat old then 0 else 3) then 4
    else if rssi < RA_FLOOR_TABLE ! 5 + (if 5 < unat old then 0 else 3) then 5
    else if rssi < RA_FLOOR_TABLE ! 6 + 3 then 6 else 0)"
  using word8_le6_cases [OF assms]
  by (elim disjE) (simp_all add: rtw_phy_get_rssi_level_def ra_floor_table_def RA_FLOOR_TABLE_def RA_FLOOR_UP_GAP_def upt_rec)

lemma rssi_level_range: "unat old \<le> 6 \<Longrightarrow> unat (rtw_phy_get_rssi_level old rssi) \<le> 6"
  by (simp add: rssi_level_cases)

text \<open>
  The levels have a hysteresis: with an unchanged RSSI the level is stable after one turn, and a
  station moves to another level only if its RSSI leaves the band of the present one by the gap.
\<close>

lemma rssi_level_stable:
  assumes "unat old \<le> 6"
  shows "rtw_phy_get_rssi_level (rtw_phy_get_rssi_level old rssi) rssi = rtw_phy_get_rssi_level old rssi"
proof -
  obtain new where new: "rtw_phy_get_rssi_level old rssi = new"
    by simp
  have "unat new \<le> 6"
    using rssi_level_range [OF assms] new by auto
  show ?thesis
    using word8_le6_cases [OF assms] word8_le6_cases [OF \<open>unat new \<le> 6\<close>] new [unfolded rssi_level_cases [OF assms]]
    unfolding new rssi_level_cases [OF \<open>unat new \<le> 6\<close>]
    by (elim disjE) (simp_all add: RA_FLOOR_TABLE_def word_less_nat_alt split: if_splits)
qed

end
