(* ===== verification/TxPowerProps.thy ===== *)
theory TxPowerProps
  imports TxPower
begin

text \<open>
  Properties of the power tables: every rate has exactly one section, the power by rate becomes a
  difference from the section's reference, and the worldwide limit is below the limit of every
  domain. The loops over the tables are closed by one lemma on folds that rewrite blocks of cells.
\<close>

section \<open>Loops that rewrite blocks of cells\<close>

lemma fold_fold_product:
  "fold (\<lambda>a. fold (f a) ys) xs h = fold (\<lambda>(a, b). f a b) (List.product xs ys) h"
proof (induction xs arbitrary: h)
  case (Cons x xs)
  have "fold (\<lambda>(a, b). f a b) (map (Pair x) ys) h = fold (f x) ys h" for h
    by (induction ys arbitrary: h) auto
  with Cons show ?case by simp
qed simp

text \<open>
  Each turn \<open>i\<close> replaces the cells of \<open>S i\<close> by values \<open>G k\<close> that depend only on cells of the same
  block and on cells no turn touches, and keeps \<open>P\<close>.
\<close>

lemma fold_blocks:
  assumes "distinct L"
    and "\<And>i j. i \<in> set L \<Longrightarrow> j \<in> set L \<Longrightarrow> i \<noteq> j \<Longrightarrow> S i \<inter> S j = {}"
    and "\<And>i h. i \<in> set L \<Longrightarrow> P h \<Longrightarrow> get (f i h) = (\<lambda>k. if k \<in> S i then G k (get h) else get h k) \<and> P (f i h)"
    and "\<And>i k g g'. i \<in> set L \<Longrightarrow> k \<in> S i \<Longrightarrow> (\<And>j. j \<in> S i \<or> j \<notin> (\<Union>i\<in>set L. S i) \<Longrightarrow> g j = g' j) \<Longrightarrow> G k g = G k g'"
    and "P h"
  shows "get (fold f L h) = (\<lambda>k. if k \<in> (\<Union>i\<in>set L. S i) then G k (get h) else get h k) \<and> P (fold f L h)"
  using assms
proof (induction L arbitrary: h)
  case (Cons x xs)
  have x: "get (f x h) = (\<lambda>k. if k \<in> S x then G k (get h) else get h k)" "P (f x h)"
    using Cons.prems(3) [of x h] Cons.prems(5) by simp_all
  have dis: "S x \<inter> (\<Union>i\<in>set xs. S i) = {}"
    using Cons.prems(1,2) by fastforce
  have IH: "get (fold f xs (f x h)) = (\<lambda>k. if k \<in> (\<Union>i\<in>set xs. S i) then G k (get (f x h)) else get (f x h) k)
      \<and> P (fold f xs (f x h))"
  proof (rule Cons.IH)
    fix i k and g g' :: "'b \<Rightarrow> 'd"
    assume "i \<in> set xs" "k \<in> S i" and "\<And>j. j \<in> S i \<or> j \<notin> (\<Union>i\<in>set xs. S i) \<Longrightarrow> g j = g' j"
    then show "G k g = G k g'"
      by (intro Cons.prems(4) [of i]) auto
  qed (use Cons.prems x in auto)
  have "G k (get (f x h)) = G k (get h)" if "k \<in> (\<Union>i\<in>set xs. S i)" for k
  proof -
    from that obtain i where i: "i \<in> set xs" "k \<in> S i" by auto
    with dis show ?thesis
      by (intro Cons.prems(4) [of i]) (auto simp: x(1))
  qed
  with IH dis show ?case
    by (auto simp: x(1) fun_eq_iff)
qed simp

lemma upd2_apply [simp]: "upd2 f a b v a' b' = (if a' = a \<and> b' = b then v else f a' b')"
  by (simp add: upd2_def)

lemma upd4_apply [simp]:
  "upd4 f a b c d v a' b' c' d' = (if a' = a \<and> b' = b \<and> c' = c \<and> d' = d then v else f a' b' c' d')"
  by (simp add: upd4_def)

section \<open>Rate sections\<close>

lemma rate_section_table:
  "\<forall>r\<in>set [0..<84]. filter (\<lambda>rs. r \<in> set (rtw_rate_section ! rs)) [0..<10] = [rtw_phy_rate_to_rate_section r]"
  by code_simp

lemma rate_section_iff:
  assumes "r < 84" and "rs < 10"
  shows "r \<in> set (rtw_rate_section ! rs) \<longleftrightarrow> rs = rtw_phy_rate_to_rate_section r"
proof -
  have "filter (\<lambda>rs. r \<in> set (rtw_rate_section ! rs)) [0..<10] = [rtw_phy_rate_to_rate_section r]"
    using rate_section_table assms(1) by auto
  then have "set (filter (\<lambda>rs. r \<in> set (rtw_rate_section ! rs)) [0..<10]) = {rtw_phy_rate_to_rate_section r}"
    by simp
  then have "{rs. rs < 10 \<and> r \<in> set (rtw_rate_section ! rs)} = {rtw_phy_rate_to_rate_section r}"
    by (simp only: set_filter atLeastLessThan_iff set_upt mem_Collect_eq) simp
  with assms(2) show ?thesis
    by blast
qed

lemma rate_section_less: "r < 84 \<Longrightarrow> rtw_phy_rate_to_rate_section r < 10"
  by (simp add: rtw_phy_rate_to_rate_section_def)

lemma base_rate_in:
  "rs < 10 \<Longrightarrow> base_rate (rtw_rate_section ! rs) \<in> set (rtw_rate_section ! rs)"
proof -
  have "\<forall>rs\<in>set [0..<10]. base_rate (rtw_rate_section ! rs) \<in> set (rtw_rate_section ! rs)"
    by code_simp
  then show "rs < 10 \<Longrightarrow> ?thesis" by simp
qed

lemma rate_section_range: "rs < 10 \<Longrightarrow> r \<in> set (rtw_rate_section ! rs) \<Longrightarrow> r < 84"
proof -
  have "\<forall>rs\<in>set [0..<10]. \<forall>r\<in>set (rtw_rate_section ! rs). r < 84"
    by code_simp
  then show "rs < 10 \<Longrightarrow> r \<in> set (rtw_rate_section ! rs) \<Longrightarrow> r < 84" by simp
qed

lemma distinct_rate_section: "rs < 10 \<Longrightarrow> distinct (rtw_rate_section ! rs)"
proof -
  have "\<forall>rs\<in>set [0..<10]. distinct (rtw_rate_section ! rs)"
    by code_simp
  then show "rs < 10 \<Longrightarrow> ?thesis" by simp
qed

section \<open>Power by rate\<close>

text \<open>The cells of the tables: \<open>Inl\<close> the powers by rate, \<open>Inr\<close> the bases of the sections; both bands.\<close>

definition rate_cells :: "rtw_txpwr \<Rightarrow> nat \<times> nat + nat \<times> nat \<Rightarrow> s8 \<times> s8" where
  "rate_cells h = case_sum (\<lambda>(path, r). (tx_pwr_by_rate_offset_2g h path r, tx_pwr_by_rate_offset_5g h path r))
     (\<lambda>(path, rs). (tx_pwr_by_rate_base_2g h path rs, tx_pwr_by_rate_base_5g h path rs))"

abbreviation base_of :: "nat \<Rightarrow> nat" where
  "base_of r \<equiv> base_rate (rtw_rate_section ! rtw_phy_rate_to_rate_section r)"

definition diff2 :: "s8 \<times> s8 \<Rightarrow> s8 \<times> s8 \<Rightarrow> s8 \<times> s8" where
  "diff2 a b = (fst a - fst b, snd a - snd b)"

definition rate_cell_config :: "nat \<times> nat + nat \<times> nat \<Rightarrow> (nat \<times> nat + nat \<times> nat \<Rightarrow> s8 \<times> s8) \<Rightarrow> s8 \<times> s8" where
  "rate_cell_config k g = (case k of
       Inl (p, r) \<Rightarrow> diff2 (g k) (g (Inl (p, base_of r)))
     | Inr (p, rs) \<Rightarrow> g (Inl (p, base_rate (rtw_rate_section ! rs))))"

definition section_cells :: "nat \<times> nat \<Rightarrow> (nat \<times> nat + nat \<times> nat) set" where
  "section_cells = (\<lambda>(path, rs). insert (Inr (path, rs)) ((\<lambda>r. Inl (path, r)) ` set (rtw_rate_section ! rs)))"

lemma base_of_section: "rs < 10 \<Longrightarrow> r \<in> set (rtw_rate_section ! rs) \<Longrightarrow> base_of r = base_rate (rtw_rate_section ! rs)"
  using rate_section_iff rate_section_range by metis

lemma rate_config_section:
  assumes "rs < 10"
  shows "rate_cells (rtw_phy_tx_power_by_rate_config_by_path path rs (rtw_rate_section ! rs) h) =
    (\<lambda>k. if k \<in> section_cells (path, rs) then rate_cell_config k (rate_cells h) else rate_cells h k)"
proof -
  let ?L = "rtw_rate_section ! rs" and ?b = "base_rate (rtw_rate_section ! rs)"
  let ?b2 = "tx_pwr_by_rate_offset_2g h path ?b" and ?b5 = "tx_pwr_by_rate_offset_5g h path ?b"
  let ?G = "\<lambda>k g. (fst (g k) - ?b2, snd (g k) - ?b5)"
  have "rate_cells (fold (rate_config_step path ?b2 ?b5) ?L h') =
      (\<lambda>k. if k \<in> (\<Union>r\<in>set ?L. {Inl (path, r)}) then ?G k (rate_cells h') else rate_cells h' k)" for h'
    by (rule conjunct1 [OF fold_blocks [where P = "\<lambda>_. True"]])
      (auto simp: distinct_rate_section assms rate_cells_def rate_config_step_def fun_eq_iff split: sum.split)
  then show ?thesis
    using base_of_section [OF assms]
    by (auto simp: rtw_phy_tx_power_by_rate_config_by_path_def Let_def fun_eq_iff rate_cells_def section_cells_def
        rate_cell_config_def diff2_def split: sum.split)
qed

lemma section_cells_disjoint:
  assumes "snd i < 10" "snd j < 10" "i \<noteq> j"
  shows "section_cells i \<inter> section_cells j = {}"
proof -
  have "snd i = snd j" if "r \<in> set (rtw_rate_section ! snd i)" "r \<in> set (rtw_rate_section ! snd j)" for r
    using that rate_section_iff [OF rate_section_range [OF assms(1) that(1)]] assms by simp
  with assms(3) show ?thesis
    by (auto simp: section_cells_def split_beta prod_eq_iff)
qed

lemma rate_cells_config:
  "rate_cells (rtw_phy_tx_power_by_rate_config h) =
    (\<lambda>k. if k \<in> (\<Union>i\<in>set (List.product [0..<4] [0..<10]). section_cells i)
         then rate_cell_config k (rate_cells h) else rate_cells h k)"
  unfolding rtw_phy_tx_power_by_rate_config_def fold_fold_product
proof (rule conjunct1 [OF fold_blocks [where P = "\<lambda>_. True"]])
  fix i j :: "nat \<times> nat"
  assume "i \<in> set (List.product [0..<4] [0..<10])" "j \<in> set (List.product [0..<4] [0..<10])" "i \<noteq> j"
  then show "section_cells i \<inter> section_cells j = {}"
    by (intro section_cells_disjoint) auto
next
  fix i k and g g' :: "nat \<times> nat + nat \<times> nat \<Rightarrow> s8 \<times> s8"
  assume "i \<in> set (List.product [0..<4] [0..<10])" "k \<in> section_cells i"
    and eq: "\<And>j. j \<in> section_cells i \<or> j \<notin> (\<Union>i\<in>set (List.product [0..<4] [0..<10]). section_cells i) \<Longrightarrow> g j = g' j"
  then have "g k = g' k" "g (Inl (fst i, base_rate (rtw_rate_section ! snd i))) = g' (Inl (fst i, base_rate (rtw_rate_section ! snd i)))"
    by (auto intro!: eq simp: section_cells_def base_rate_in split: prod.splits)
  with \<open>k \<in> section_cells i\<close> \<open>i \<in> _\<close> show "rate_cell_config k g = rate_cell_config k g'"
    using base_of_section by (auto simp: rate_cell_config_def section_cells_def)
qed (auto simp: rate_config_section distinct_product)

text \<open>
  Property C38. After the configuration the power of every rate on every path is the difference from
  the power of the reference rate of the one section the rate belongs to, which is kept as the
  base of that section, so that each rate is adjusted exactly once and a reference rate becomes 0.
\<close>

theorem rtw_phy_tx_power_by_rate_config_relative:
  assumes "path < 4" and "r < 84"
  shows "let h' = rtw_phy_tx_power_by_rate_config h; rs = rtw_phy_rate_to_rate_section r;
             b = base_rate (rtw_rate_section ! rs)
    in (\<forall>i<10. r \<in> set (rtw_rate_section ! i) \<longleftrightarrow> i = rs)
     \<and> tx_pwr_by_rate_offset_2g h' path r = tx_pwr_by_rate_offset_2g h path r - tx_pwr_by_rate_offset_2g h path b
     \<and> tx_pwr_by_rate_offset_5g h' path r = tx_pwr_by_rate_offset_5g h path r - tx_pwr_by_rate_offset_5g h path b
     \<and> tx_pwr_by_rate_base_2g h' path rs = tx_pwr_by_rate_offset_2g h path b
     \<and> tx_pwr_by_rate_base_5g h' path rs = tx_pwr_by_rate_offset_5g h path b"
proof -
  let ?h = "rtw_phy_tx_power_by_rate_config h" and ?rs = "rtw_phy_rate_to_rate_section r"
  have rs: "?rs < 10" "r \<in> set (rtw_rate_section ! ?rs)"
    using assms(2) rate_section_less rate_section_iff by auto
  then have cells: "Inl (path, r) \<in> section_cells (path, ?rs)" "Inr (path, ?rs) \<in> section_cells (path, ?rs)"
    by (auto simp: section_cells_def)
  have "rate_cells ?h k = rate_cell_config k (rate_cells h)" if "k \<in> section_cells (path, ?rs)" for k
    using that rs(1) assms(1) by (auto simp: rate_cells_config)
  from this [OF cells(1)] this [OF cells(2)] show ?thesis
    using rate_section_iff [OF assms(2)] by (simp add: Let_def rate_cells_def rate_cell_config_def diff2_def)
qed

lemma rtw_phy_tx_power_by_rate_config_relative_witness:
  "\<forall>h. tx_pwr_by_rate_offset_2g (rtw_phy_tx_power_by_rate_config h) 1 0x33 = 0"
proof
  fix h
  have "rtw_phy_rate_to_rate_section 0x33 = 4" "base_rate (rtw_rate_section ! 4) = 0x33"
    by code_simp+
  then show "tx_pwr_by_rate_offset_2g (rtw_phy_tx_power_by_rate_config h) 1 0x33 = 0"
    using rtw_phy_tx_power_by_rate_config_relative [where path = 1 and r = "0x33" and h = h] by (simp add: Let_def)
qed

section \<open>The power index\<close>

lemma min_s8_sint: "sint (min_s8 a b) = min (sint a) (sint b)"
  by (simp add: min_s8_def min_def)

lemma uint_add_sint: "uint (a + (b + c) :: u8) = (uint a + sint b + sint c) mod 256"
proof -
  have "uint b mod 256 = sint b mod 256" "uint c mod 256 = sint c mod 256"
    by (simp_all add: uint_sint take_bit_eq_mod)
  then show ?thesis
    unfolding uint_word_ariths by (simp add: mod_simps) (metis (no_types, opaque_lifting) add.assoc mod_add_cong)
qed

text \<open>
  Property C39. Without the predistortion correction the power index of a rate is the base power
  of the efuse plus the smallest of power by rate, regulatory limit and absorption limit plus the
  remnant of the temperature compensation, cut at the chip's maximum, as long as this sum is a
  byte. If the sum is negative, the byte wraps and the rate gets the maximum power.
\<close>

theorem rtw_phy_get_tx_power_index_sum:
  assumes "\<not> en_dis_dpd c" and "unat (max_power_index c) < 128"
  shows "let pp = rtw_get_tx_power_params c e d h path r wd ch regd;
             total' = uint (pwr_base pp) + min (min (sint (pwr_offset pp)) (sint (pwr_limit pp))) (sint (pwr_sar pp))
               + sint (pwr_remnant pp);
             idx = rtw_phy_get_tx_power_index c e d h path r wd ch regd
    in (0 \<le> total' \<and> total' \<le> 255 \<longrightarrow> uint idx = min total' (uint (max_power_index c)))
     \<and> (- 128 \<le> total' \<and> total' < 0 \<longrightarrow> idx = max_power_index c)"
proof -
  let ?p = "rtw_get_tx_power_params c e d h path r wd ch regd"
  let ?o = "min3_s8 (pwr_offset ?p) (pwr_limit ?p) (pwr_sar ?p)"
  let ?t = "uint (pwr_base ?p) + sint ?o + sint (pwr_remnant ?p)"
  let ?w = "pwr_base ?p + (?o + pwr_remnant ?p)"
  have o: "sint ?o = min (min (sint (pwr_offset ?p)) (sint (pwr_limit ?p))) (sint (pwr_sar ?p))"
    by (simp add: min3_s8_def min_s8_sint)
  have w: "uint ?w = ?t mod 256"
    by (rule uint_add_sint)
  have idx: "rtw_phy_get_tx_power_index c e d h path r wd ch regd = (if max_power_index c < ?w then max_power_index c else ?w)"
    using assms(1) by (simp add: rtw_phy_get_tx_power_index_def Let_def)
  have m: "uint (max_power_index c) < 128"
  proof -
    have "int (unat (max_power_index c)) < 128" using assms(2) by linarith
    then show ?thesis by simp
  qed
  have pos: "uint ?w = ?t" if "0 \<le> ?t" "?t \<le> 255"
    using that w by simp
  have neg: "uint (max_power_index c) < uint ?w" if "- 128 \<le> ?t" "?t < 0"
  proof -
    have "(?t + 256) mod 256 = ?t + 256"
      using that by (intro mod_pos_pos_trivial) linarith+
    with w m that show ?thesis by simp
  qed
  show ?thesis
    using pos neg unfolding Let_def idx o [symmetric] word_less_def by (auto simp: min_def)
qed

text \<open>The witness: base 32, power by rate 2, limit 1, and a remnant of 1 or of -48.\<close>

lemma rtw_phy_get_tx_power_index_sum_witness:
  "\<forall>e d h. let c = \<lparr>max_power_index = 0x3f, txgi_factor = 1, is_pwr_by_rate_dec = True, en_dis_dpd = False, dpd_ratemask = 0\<rparr>;
     e' = e\<lparr>ef_txpwr_idx_table := [replicate 42 0x20]\<rparr>;
     h' = h\<lparr>tx_pwr_by_rate_offset_2g := \<lambda>_ _. 2, tx_pwr_limit_2g := \<lambda>_ _ _ _. 1, cch_by_bw := \<lambda>_. 1,
       hal_sar := \<lparr>sar_src = RTW_SAR_SOURCE_NONE, sar_cfg = \<lambda>_ _ _. 0\<rparr>\<rparr>
   in rtw_phy_get_tx_power_index c e' (d\<lparr>dm_txagc_remnant_ofdm := \<lambda>_. 1\<rparr>) h' 0 0x0b 0 1 0 = 34
    \<and> rtw_phy_get_tx_power_index c e' (d\<lparr>dm_txagc_remnant_ofdm := \<lambda>_. - 48\<rparr>) h' 0 0x0b 0 1 0 = 0x3f"
proof (intro allI)
  fix e :: rtw_efuse and d :: "'a rtw_dm_info" and h :: rtw_txpwr
  let ?c = "\<lparr>max_power_index = 0x3f, txgi_factor = 1, is_pwr_by_rate_dec = True, en_dis_dpd = False, dpd_ratemask = 0\<rparr>"
  let ?e = "e\<lparr>ef_txpwr_idx_table := [replicate 42 0x20]\<rparr>"
  let ?h = "h\<lparr>tx_pwr_by_rate_offset_2g := \<lambda>_ _. 2, tx_pwr_limit_2g := \<lambda>_ _ _ _. 1, cch_by_bw := \<lambda>_. 1,
       hal_sar := \<lparr>sar_src = RTW_SAR_SOURCE_NONE, sar_cfg = \<lambda>_ _ _. 0\<rparr>\<rparr>"
  have n: "signed_take_bit 3 (0x20 :: u8) = 0"
    by code_simp
  have p: "rtw_get_tx_power_params ?c ?e (d\<lparr>dm_txagc_remnant_ofdm := \<lambda>_. v\<rparr>) ?h 0 0x0b 0 1 0 =
      \<lparr>pwr_base = 0x20, pwr_offset = 2, pwr_limit = 1, pwr_remnant = v, pwr_sar = 0x3f\<rparr>" for v
    by (simp add: rtw_get_tx_power_params_def Let_def rtw_get_channel_group_def rtw_phy_get_2g_tx_power_index_def mcs_rate_def
        diff_lo_def rtw_phy_get_tx_power_limit_def rtw_phy_rate_to_rate_section_def limit_bw_def rtw_channel_to_idx_def
        min_s8_def rtw_phy_get_tx_power_sar_def rtw_query_sar_def n)
  have v: "sint (- 48 :: s8) = - 48" "sint (0x3f :: s8) = 0x3f" "sint (2 :: s8) = 2" "sint (1 :: s8) = 1"
    by simp_all
  have "rtw_phy_get_tx_power_index ?c ?e (d\<lparr>dm_txagc_remnant_ofdm := \<lambda>_. 1\<rparr>) ?h 0 0x0b 0 1 0 = 34"
    using rtw_phy_get_tx_power_index_sum [of ?c ?e "d\<lparr>dm_txagc_remnant_ofdm := \<lambda>_. 1\<rparr>" ?h 0 "0x0b" 0 1 0]
    unfolding Let_def p by (simp add: word_uint_eq_iff)
  moreover have "rtw_phy_get_tx_power_index ?c ?e (d\<lparr>dm_txagc_remnant_ofdm := \<lambda>_. - 48\<rparr>) ?h 0 0x0b 0 1 0 = 0x3f"
    using rtw_phy_get_tx_power_index_sum [of ?c ?e "d\<lparr>dm_txagc_remnant_ofdm := \<lambda>_. - 48\<rparr>" ?h 0 "0x0b" 0 1 0]
    unfolding Let_def p by simp
  ultimately show "let c = ?c; e' = ?e; h' = ?h
   in rtw_phy_get_tx_power_index c e' (d\<lparr>dm_txagc_remnant_ofdm := \<lambda>_. 1\<rparr>) h' 0 0x0b 0 1 0 = 34
    \<and> rtw_phy_get_tx_power_index c e' (d\<lparr>dm_txagc_remnant_ofdm := \<lambda>_. - 48\<rparr>) h' 0 0x0b 0 1 0 = 0x3f"
    by (simp add: Let_def)
qed

end
