(* ===== verification/TxTables8812a.thy ===== *)
theory TxTables8812a
  imports TxPower
begin

text \<open>
  The power tables of the RTL8812A (\<open>rtw8812a_table.c\<close>): power by rate in two variants, the
  regulatory limits and the tables of the temperature compensation.
\<close>

definition pg :: "u32 \<times> u32 \<times> u32 \<times> u32 \<times> u32 \<times> u32 \<Rightarrow> rtw_phy_pg_cfg_pair" where
  "pg = (\<lambda>(band, path, num, addr, mask', data).
     \<lparr>pg_band = band, pg_rf_path = path, pg_tx_num = num, pg_addr = addr, pg_bitmask = mask', pg_data = data\<rparr>)"

definition lmt :: "nat \<times> nat \<times> nat \<times> nat \<times> nat \<times> s8 \<Rightarrow> rtw_txpwr_lmt_cfg_pair" where
  "lmt = (\<lambda>(regd, band, wd, rs, ch, v).
     \<lparr>lmt_regd = regd, lmt_band = band, lmt_bw = wd, lmt_rs = rs, lmt_ch = ch, lmt_txpwr = v\<rparr>)"

definition rtw8812a_bb_pg :: "rtw_phy_pg_cfg_pair list" where
  "rtw8812a_bb_pg = map pg
    [(0, 0, 0, 0x00000c20, 0xffffffff, 0x34363840), (0, 0, 0, 0x00000c24, 0xffffffff, 0x42424444),
     (0, 0, 0, 0x00000c28, 0xffffffff, 0x30323638), (0, 0, 0, 0x00000c2c, 0xffffffff, 0x40424444),
     (0, 0, 0, 0x00000c30, 0xffffffff, 0x28303236), (0, 0, 1, 0x00000c34, 0xffffffff, 0x38404242),
     (0, 0, 1, 0x00000c38, 0xffffffff, 0x26283034), (0, 0, 0, 0x00000c3c, 0xffffffff, 0x40424444),
     (0, 0, 0, 0x00000c40, 0xffffffff, 0x28303236), (0, 0, 0, 0x00000c44, 0xffffffff, 0x42422426),
     (0, 0, 1, 0x00000c48, 0xffffffff, 0x30343840), (0, 0, 1, 0x00000c4c, 0xffffffff, 0x22242628),
     (0, 1, 0, 0x00000e20, 0xffffffff, 0x34363840), (0, 1, 0, 0x00000e24, 0xffffffff, 0x42424444),
     (0, 1, 0, 0x00000e28, 0xffffffff, 0x30323638), (0, 1, 0, 0x00000e2c, 0xffffffff, 0x40424444),
     (0, 1, 0, 0x00000e30, 0xffffffff, 0x28303236), (0, 1, 1, 0x00000e34, 0xffffffff, 0x38404242),
     (0, 1, 1, 0x00000e38, 0xffffffff, 0x26283034), (0, 1, 0, 0x00000e3c, 0xffffffff, 0x40424444),
     (0, 1, 0, 0x00000e40, 0xffffffff, 0x28303236), (0, 1, 0, 0x00000e44, 0xffffffff, 0x42422426),
     (0, 1, 1, 0x00000e48, 0xffffffff, 0x30343840), (0, 1, 1, 0x00000e4c, 0xffffffff, 0x22242628),
     (1, 0, 0, 0x00000c24, 0xffffffff, 0x42424444), (1, 0, 0, 0x00000c28, 0xffffffff, 0x30323640),
     (1, 0, 0, 0x00000c2c, 0xffffffff, 0x40424444), (1, 0, 0, 0x00000c30, 0xffffffff, 0x28303236),
     (1, 0, 1, 0x00000c34, 0xffffffff, 0x38404242), (1, 0, 1, 0x00000c38, 0xffffffff, 0x26283034),
     (1, 0, 0, 0x00000c3c, 0xffffffff, 0x40424444), (1, 0, 0, 0x00000c40, 0xffffffff, 0x28303236),
     (1, 0, 0, 0x00000c44, 0xffffffff, 0x42422426), (1, 0, 1, 0x00000c48, 0xffffffff, 0x30343840),
     (1, 0, 1, 0x00000c4c, 0xffffffff, 0x22242628), (1, 1, 0, 0x00000e24, 0xffffffff, 0x42424444),
     (1, 1, 0, 0x00000e28, 0xffffffff, 0x30323640), (1, 1, 0, 0x00000e2c, 0xffffffff, 0x40424444),
     (1, 1, 0, 0x00000e30, 0xffffffff, 0x28303236), (1, 1, 1, 0x00000e34, 0xffffffff, 0x38404242),
     (1, 1, 1, 0x00000e38, 0xffffffff, 0x26283034), (1, 1, 0, 0x00000e3c, 0xffffffff, 0x40424444),
     (1, 1, 0, 0x00000e40, 0xffffffff, 0x28303236), (1, 1, 0, 0x00000e44, 0xffffffff, 0x42422426),
     (1, 1, 1, 0x00000e48, 0xffffffff, 0x30343840), (1, 1, 1, 0x00000e4c, 0xffffffff, 0x22242628)]"

definition rtw8812a_bb_pg_rfe3 :: "rtw_phy_pg_cfg_pair list" where
  "rtw8812a_bb_pg_rfe3 = map pg
    [(0, 0, 0, 0x00000c20, 0xffffffff, 0x34343434), (0, 0, 0, 0x00000c24, 0xffffffff, 0x32323232),
     (0, 0, 0, 0x00000c28, 0xffffffff, 0x28303232), (0, 0, 0, 0x00000c2c, 0xffffffff, 0x32323232),
     (0, 0, 0, 0x00000c30, 0xffffffff, 0x28303232), (0, 0, 1, 0x00000c34, 0xffffffff, 0x32323232),
     (0, 0, 1, 0x00000c38, 0xffffffff, 0x26283032), (0, 0, 0, 0x00000c3c, 0xffffffff, 0x32323232),
     (0, 0, 0, 0x00000c40, 0xffffffff, 0x28303232), (0, 0, 0, 0x00000c44, 0xffffffff, 0x32322426),
     (0, 0, 1, 0x00000c48, 0xffffffff, 0x32323232), (0, 0, 1, 0x00000c4c, 0xffffffff, 0x24262830),
     (0, 1, 0, 0x00000e20, 0xffffffff, 0x34343434), (0, 1, 0, 0x00000e24, 0xffffffff, 0x32323232),
     (0, 1, 0, 0x00000e28, 0xffffffff, 0x28303232), (0, 1, 0, 0x00000e2c, 0xffffffff, 0x32323232),
     (0, 1, 0, 0x00000e30, 0xffffffff, 0x28303232), (0, 1, 1, 0x00000e34, 0xffffffff, 0x32323232),
     (0, 1, 1, 0x00000e38, 0xffffffff, 0x26283032), (0, 1, 0, 0x00000e3c, 0xffffffff, 0x32323232),
     (0, 1, 0, 0x00000e40, 0xffffffff, 0x28303232), (0, 1, 0, 0x00000e44, 0xffffffff, 0x32322426),
     (0, 1, 1, 0x00000e48, 0xffffffff, 0x32323232), (0, 1, 1, 0x00000e4c, 0xffffffff, 0x24262830),
     (1, 0, 0, 0x00000c24, 0xffffffff, 0x32323232), (1, 0, 0, 0x00000c28, 0xffffffff, 0x28303232),
     (1, 0, 0, 0x00000c2c, 0xffffffff, 0x32323232), (1, 0, 0, 0x00000c30, 0xffffffff, 0x24262830),
     (1, 0, 1, 0x00000c34, 0xffffffff, 0x32323232), (1, 0, 1, 0x00000c38, 0xffffffff, 0x24262830),
     (1, 0, 0, 0x00000c3c, 0xffffffff, 0x32323232), (1, 0, 0, 0x00000c40, 0xffffffff, 0x24262830),
     (1, 0, 0, 0x00000c44, 0xffffffff, 0x32322222), (1, 0, 1, 0x00000c48, 0xffffffff, 0x28303232),
     (1, 0, 1, 0x00000c4c, 0xffffffff, 0x22222426), (1, 1, 0, 0x00000e24, 0xffffffff, 0x32323232),
     (1, 1, 0, 0x00000e28, 0xffffffff, 0x28303232), (1, 1, 0, 0x00000e2c, 0xffffffff, 0x32323232),
     (1, 1, 0, 0x00000e30, 0xffffffff, 0x24262830), (1, 1, 1, 0x00000e34, 0xffffffff, 0x32323232),
     (1, 1, 1, 0x00000e38, 0xffffffff, 0x24262830), (1, 1, 0, 0x00000e3c, 0xffffffff, 0x32323232),
     (1, 1, 0, 0x00000e40, 0xffffffff, 0x24262830), (1, 1, 0, 0x00000e44, 0xffffffff, 0x32322222),
     (1, 1, 1, 0x00000e48, 0xffffffff, 0x28303232), (1, 1, 1, 0x00000e4c, 0xffffffff, 0x22222426)]"

definition rtw8812a_txpwr_lmt :: "rtw_txpwr_lmt_cfg_pair list" where
  "rtw8812a_txpwr_lmt = map lmt
    [(0, 0, 0, 0, 1, 36), (2, 0, 0, 0, 1, 32), (1, 0, 0, 0, 1, 32), (0, 0, 0, 0, 2, 36),
     (2, 0, 0, 0, 2, 32), (1, 0, 0, 0, 2, 32), (0, 0, 0, 0, 3, 36), (2, 0, 0, 0, 3, 32),
     (1, 0, 0, 0, 3, 32), (0, 0, 0, 0, 4, 36), (2, 0, 0, 0, 4, 32), (1, 0, 0, 0, 4, 32),
     (0, 0, 0, 0, 5, 36), (2, 0, 0, 0, 5, 32), (1, 0, 0, 0, 5, 32), (0, 0, 0, 0, 6, 36),
     (2, 0, 0, 0, 6, 32), (1, 0, 0, 0, 6, 32), (0, 0, 0, 0, 7, 36), (2, 0, 0, 0, 7, 32),
     (1, 0, 0, 0, 7, 32), (0, 0, 0, 0, 8, 36), (2, 0, 0, 0, 8, 32), (1, 0, 0, 0, 8, 32),
     (0, 0, 0, 0, 9, 36), (2, 0, 0, 0, 9, 32), (1, 0, 0, 0, 9, 32), (0, 0, 0, 0, 10, 36),
     (2, 0, 0, 0, 10, 32), (1, 0, 0, 0, 10, 32), (0, 0, 0, 0, 11, 36), (2, 0, 0, 0, 11, 32),
     (1, 0, 0, 0, 11, 32), (0, 0, 0, 0, 12, 63), (2, 0, 0, 0, 12, 32), (1, 0, 0, 0, 12, 32),
     (0, 0, 0, 0, 13, 63), (2, 0, 0, 0, 13, 32), (1, 0, 0, 0, 13, 32), (0, 0, 0, 0, 14, 63),
     (2, 0, 0, 0, 14, 63), (1, 0, 0, 0, 14, 32), (0, 0, 0, 1, 1, 34), (2, 0, 0, 1, 1, 32),
     (1, 0, 0, 1, 1, 32), (0, 0, 0, 1, 2, 36), (2, 0, 0, 1, 2, 32), (1, 0, 0, 1, 2, 32),
     (0, 0, 0, 1, 3, 36), (2, 0, 0, 1, 3, 32), (1, 0, 0, 1, 3, 32), (0, 0, 0, 1, 4, 36),
     (2, 0, 0, 1, 4, 32), (1, 0, 0, 1, 4, 32), (0, 0, 0, 1, 5, 36), (2, 0, 0, 1, 5, 32),
     (1, 0, 0, 1, 5, 32), (0, 0, 0, 1, 6, 36), (2, 0, 0, 1, 6, 32), (1, 0, 0, 1, 6, 32),
     (0, 0, 0, 1, 7, 36), (2, 0, 0, 1, 7, 32), (1, 0, 0, 1, 7, 32), (0, 0, 0, 1, 8, 36),
     (2, 0, 0, 1, 8, 32), (1, 0, 0, 1, 8, 32), (0, 0, 0, 1, 9, 36), (2, 0, 0, 1, 9, 32),
     (1, 0, 0, 1, 9, 32), (0, 0, 0, 1, 10, 36), (2, 0, 0, 1, 10, 32), (1, 0, 0, 1, 10, 32),
     (0, 0, 0, 1, 11, 32), (2, 0, 0, 1, 11, 32), (1, 0, 0, 1, 11, 32), (0, 0, 0, 1, 12, 63),
     (2, 0, 0, 1, 12, 32), (1, 0, 0, 1, 12, 32), (0, 0, 0, 1, 13, 63), (2, 0, 0, 1, 13, 32),
     (1, 0, 0, 1, 13, 32), (0, 0, 0, 1, 14, 63), (2, 0, 0, 1, 14, 63), (1, 0, 0, 1, 14, 63),
     (0, 0, 0, 2, 1, 34), (2, 0, 0, 2, 1, 32), (1, 0, 0, 2, 1, 32), (0, 0, 0, 2, 2, 36),
     (2, 0, 0, 2, 2, 32), (1, 0, 0, 2, 2, 32), (0, 0, 0, 2, 3, 36), (2, 0, 0, 2, 3, 32),
     (1, 0, 0, 2, 3, 32), (0, 0, 0, 2, 4, 36), (2, 0, 0, 2, 4, 32), (1, 0, 0, 2, 4, 32),
     (0, 0, 0, 2, 5, 36), (2, 0, 0, 2, 5, 32), (1, 0, 0, 2, 5, 32), (0, 0, 0, 2, 6, 36),
     (2, 0, 0, 2, 6, 32), (1, 0, 0, 2, 6, 32), (0, 0, 0, 2, 7, 36), (2, 0, 0, 2, 7, 32),
     (1, 0, 0, 2, 7, 32), (0, 0, 0, 2, 8, 36), (2, 0, 0, 2, 8, 32), (1, 0, 0, 2, 8, 32),
     (0, 0, 0, 2, 9, 36), (2, 0, 0, 2, 9, 32), (1, 0, 0, 2, 9, 32), (0, 0, 0, 2, 10, 36),
     (2, 0, 0, 2, 10, 32), (1, 0, 0, 2, 10, 32), (0, 0, 0, 2, 11, 32), (2, 0, 0, 2, 11, 32),
     (1, 0, 0, 2, 11, 32), (0, 0, 0, 2, 12, 63), (2, 0, 0, 2, 12, 32), (1, 0, 0, 2, 12, 32),
     (0, 0, 0, 2, 13, 63), (2, 0, 0, 2, 13, 32), (1, 0, 0, 2, 13, 32), (0, 0, 0, 2, 14, 63),
     (2, 0, 0, 2, 14, 63), (1, 0, 0, 2, 14, 63), (0, 0, 0, 3, 1, 32), (2, 0, 0, 3, 1, 32),
     (1, 0, 0, 3, 1, 32), (0, 0, 0, 3, 2, 34), (2, 0, 0, 3, 2, 32), (1, 0, 0, 3, 2, 32),
     (0, 0, 0, 3, 3, 34), (2, 0, 0, 3, 3, 32), (1, 0, 0, 3, 3, 32), (0, 0, 0, 3, 4, 34),
     (2, 0, 0, 3, 4, 32), (1, 0, 0, 3, 4, 32), (0, 0, 0, 3, 5, 34), (2, 0, 0, 3, 5, 32),
     (1, 0, 0, 3, 5, 32), (0, 0, 0, 3, 6, 34), (2, 0, 0, 3, 6, 32), (1, 0, 0, 3, 6, 32),
     (0, 0, 0, 3, 7, 34), (2, 0, 0, 3, 7, 32), (1, 0, 0, 3, 7, 32), (0, 0, 0, 3, 8, 34),
     (2, 0, 0, 3, 8, 32), (1, 0, 0, 3, 8, 32), (0, 0, 0, 3, 9, 34), (2, 0, 0, 3, 9, 32),
     (1, 0, 0, 3, 9, 32), (0, 0, 0, 3, 10, 34), (2, 0, 0, 3, 10, 32), (1, 0, 0, 3, 10, 32),
     (0, 0, 0, 3, 11, 30), (2, 0, 0, 3, 11, 32), (1, 0, 0, 3, 11, 32), (0, 0, 0, 3, 12, 63),
     (2, 0, 0, 3, 12, 32), (1, 0, 0, 3, 12, 32), (0, 0, 0, 3, 13, 63), (2, 0, 0, 3, 13, 32),
     (1, 0, 0, 3, 13, 32), (0, 0, 0, 3, 14, 63), (2, 0, 0, 3, 14, 63), (1, 0, 0, 3, 14, 63),
     (0, 0, 1, 2, 1, 63), (2, 0, 1, 2, 1, 63), (1, 0, 1, 2, 1, 63), (0, 0, 1, 2, 2, 63),
     (2, 0, 1, 2, 2, 63), (1, 0, 1, 2, 2, 63), (0, 0, 1, 2, 3, 32), (2, 0, 1, 2, 3, 32),
     (1, 0, 1, 2, 3, 32), (0, 0, 1, 2, 4, 36), (2, 0, 1, 2, 4, 32), (1, 0, 1, 2, 4, 32),
     (0, 0, 1, 2, 5, 36), (2, 0, 1, 2, 5, 32), (1, 0, 1, 2, 5, 32), (0, 0, 1, 2, 6, 36),
     (2, 0, 1, 2, 6, 32), (1, 0, 1, 2, 6, 32), (0, 0, 1, 2, 7, 36), (2, 0, 1, 2, 7, 32),
     (1, 0, 1, 2, 7, 32), (0, 0, 1, 2, 8, 36), (2, 0, 1, 2, 8, 32), (1, 0, 1, 2, 8, 32),
     (0, 0, 1, 2, 9, 36), (2, 0, 1, 2, 9, 32), (1, 0, 1, 2, 9, 32), (0, 0, 1, 2, 10, 36),
     (2, 0, 1, 2, 10, 32), (1, 0, 1, 2, 10, 32), (0, 0, 1, 2, 11, 32), (2, 0, 1, 2, 11, 32),
     (1, 0, 1, 2, 11, 32), (0, 0, 1, 2, 12, 63), (2, 0, 1, 2, 12, 32), (1, 0, 1, 2, 12, 32),
     (0, 0, 1, 2, 13, 63), (2, 0, 1, 2, 13, 32), (1, 0, 1, 2, 13, 32), (0, 0, 1, 2, 14, 63),
     (2, 0, 1, 2, 14, 63), (1, 0, 1, 2, 14, 63), (0, 0, 1, 3, 1, 63), (2, 0, 1, 3, 1, 63),
     (1, 0, 1, 3, 1, 63), (0, 0, 1, 3, 2, 63), (2, 0, 1, 3, 2, 63), (1, 0, 1, 3, 2, 63),
     (0, 0, 1, 3, 3, 30), (2, 0, 1, 3, 3, 30), (1, 0, 1, 3, 3, 30), (0, 0, 1, 3, 4, 34),
     (2, 0, 1, 3, 4, 30), (1, 0, 1, 3, 4, 30), (0, 0, 1, 3, 5, 34), (2, 0, 1, 3, 5, 30),
     (1, 0, 1, 3, 5, 30), (0, 0, 1, 3, 6, 34), (2, 0, 1, 3, 6, 30), (1, 0, 1, 3, 6, 30),
     (0, 0, 1, 3, 7, 34), (2, 0, 1, 3, 7, 30), (1, 0, 1, 3, 7, 30), (0, 0, 1, 3, 8, 34),
     (2, 0, 1, 3, 8, 30), (1, 0, 1, 3, 8, 30), (0, 0, 1, 3, 9, 34), (2, 0, 1, 3, 9, 30),
     (1, 0, 1, 3, 9, 30), (0, 0, 1, 3, 10, 34), (2, 0, 1, 3, 10, 30), (1, 0, 1, 3, 10, 30),
     (0, 0, 1, 3, 11, 30), (2, 0, 1, 3, 11, 30), (1, 0, 1, 3, 11, 30), (0, 0, 1, 3, 12, 63),
     (2, 0, 1, 3, 12, 32), (1, 0, 1, 3, 12, 32), (0, 0, 1, 3, 13, 63), (2, 0, 1, 3, 13, 32),
     (1, 0, 1, 3, 13, 32), (0, 0, 1, 3, 14, 63), (2, 0, 1, 3, 14, 63), (1, 0, 1, 3, 14, 63),
     (0, 1, 0, 1, 36, 30), (2, 1, 0, 1, 36, 32), (1, 1, 0, 1, 36, 32), (0, 1, 0, 1, 40, 30),
     (2, 1, 0, 1, 40, 32), (1, 1, 0, 1, 40, 32), (0, 1, 0, 1, 44, 30), (2, 1, 0, 1, 44, 32),
     (1, 1, 0, 1, 44, 32), (0, 1, 0, 1, 48, 30), (2, 1, 0, 1, 48, 32), (1, 1, 0, 1, 48, 32),
     (0, 1, 0, 1, 52, 36), (2, 1, 0, 1, 52, 32), (1, 1, 0, 1, 52, 32), (0, 1, 0, 1, 56, 34),
     (2, 1, 0, 1, 56, 32), (1, 1, 0, 1, 56, 32), (0, 1, 0, 1, 60, 32), (2, 1, 0, 1, 60, 32),
     (1, 1, 0, 1, 60, 32), (0, 1, 0, 1, 64, 28), (2, 1, 0, 1, 64, 32), (1, 1, 0, 1, 64, 32),
     (0, 1, 0, 1, 100, 30), (2, 1, 0, 1, 100, 32), (1, 1, 0, 1, 100, 32), (0, 1, 0, 1, 104, 30),
     (2, 1, 0, 1, 104, 32), (1, 1, 0, 1, 104, 32), (0, 1, 0, 1, 108, 32), (2, 1, 0, 1, 108, 32),
     (1, 1, 0, 1, 108, 32), (0, 1, 0, 1, 112, 34), (2, 1, 0, 1, 112, 32), (1, 1, 0, 1, 112, 32),
     (0, 1, 0, 1, 116, 34), (2, 1, 0, 1, 116, 32), (1, 1, 0, 1, 116, 32), (0, 1, 0, 1, 120, 36),
     (2, 1, 0, 1, 120, 32), (1, 1, 0, 1, 120, 32), (0, 1, 0, 1, 124, 34), (2, 1, 0, 1, 124, 32),
     (1, 1, 0, 1, 124, 32), (0, 1, 0, 1, 128, 32), (2, 1, 0, 1, 128, 32), (1, 1, 0, 1, 128, 32),
     (0, 1, 0, 1, 132, 30), (2, 1, 0, 1, 132, 32), (1, 1, 0, 1, 132, 32), (0, 1, 0, 1, 136, 30),
     (2, 1, 0, 1, 136, 32), (1, 1, 0, 1, 136, 32), (0, 1, 0, 1, 140, 28), (2, 1, 0, 1, 140, 32),
     (1, 1, 0, 1, 140, 32), (0, 1, 0, 1, 149, 36), (2, 1, 0, 1, 149, 32), (1, 1, 0, 1, 149, 63),
     (0, 1, 0, 1, 153, 36), (2, 1, 0, 1, 153, 32), (1, 1, 0, 1, 153, 63), (0, 1, 0, 1, 157, 36),
     (2, 1, 0, 1, 157, 32), (1, 1, 0, 1, 157, 63), (0, 1, 0, 1, 161, 36), (2, 1, 0, 1, 161, 32),
     (1, 1, 0, 1, 161, 63), (0, 1, 0, 1, 165, 36), (2, 1, 0, 1, 165, 32), (1, 1, 0, 1, 165, 63),
     (0, 1, 0, 2, 36, 30), (2, 1, 0, 2, 36, 32), (1, 1, 0, 2, 36, 32), (0, 1, 0, 2, 40, 30),
     (2, 1, 0, 2, 40, 32), (1, 1, 0, 2, 40, 32), (0, 1, 0, 2, 44, 30), (2, 1, 0, 2, 44, 32),
     (1, 1, 0, 2, 44, 32), (0, 1, 0, 2, 48, 30), (2, 1, 0, 2, 48, 32), (1, 1, 0, 2, 48, 32),
     (0, 1, 0, 2, 52, 36), (2, 1, 0, 2, 52, 32), (1, 1, 0, 2, 52, 32), (0, 1, 0, 2, 56, 34),
     (2, 1, 0, 2, 56, 32), (1, 1, 0, 2, 56, 32), (0, 1, 0, 2, 60, 32), (2, 1, 0, 2, 60, 32),
     (1, 1, 0, 2, 60, 32), (0, 1, 0, 2, 64, 28), (2, 1, 0, 2, 64, 32), (1, 1, 0, 2, 64, 32),
     (0, 1, 0, 2, 100, 30), (2, 1, 0, 2, 100, 32), (1, 1, 0, 2, 100, 32), (0, 1, 0, 2, 104, 30),
     (2, 1, 0, 2, 104, 32), (1, 1, 0, 2, 104, 32), (0, 1, 0, 2, 108, 32), (2, 1, 0, 2, 108, 32),
     (1, 1, 0, 2, 108, 32), (0, 1, 0, 2, 112, 34), (2, 1, 0, 2, 112, 32), (1, 1, 0, 2, 112, 32),
     (0, 1, 0, 2, 116, 34), (2, 1, 0, 2, 116, 32), (1, 1, 0, 2, 116, 32), (0, 1, 0, 2, 120, 36),
     (2, 1, 0, 2, 120, 32), (1, 1, 0, 2, 120, 32), (0, 1, 0, 2, 124, 34), (2, 1, 0, 2, 124, 32),
     (1, 1, 0, 2, 124, 32), (0, 1, 0, 2, 128, 32), (2, 1, 0, 2, 128, 32), (1, 1, 0, 2, 128, 32),
     (0, 1, 0, 2, 132, 30), (2, 1, 0, 2, 132, 32), (1, 1, 0, 2, 132, 32), (0, 1, 0, 2, 136, 30),
     (2, 1, 0, 2, 136, 32), (1, 1, 0, 2, 136, 32), (0, 1, 0, 2, 140, 28), (2, 1, 0, 2, 140, 32),
     (1, 1, 0, 2, 140, 32), (0, 1, 0, 2, 149, 36), (2, 1, 0, 2, 149, 32), (1, 1, 0, 2, 149, 63),
     (0, 1, 0, 2, 153, 36), (2, 1, 0, 2, 153, 32), (1, 1, 0, 2, 153, 63), (0, 1, 0, 2, 157, 36),
     (2, 1, 0, 2, 157, 32), (1, 1, 0, 2, 157, 63), (0, 1, 0, 2, 161, 36), (2, 1, 0, 2, 161, 32),
     (1, 1, 0, 2, 161, 63), (0, 1, 0, 2, 165, 36), (2, 1, 0, 2, 165, 32), (1, 1, 0, 2, 165, 63),
     (0, 1, 0, 3, 36, 28), (2, 1, 0, 3, 36, 30), (1, 1, 0, 3, 36, 30), (0, 1, 0, 3, 40, 28),
     (2, 1, 0, 3, 40, 30), (1, 1, 0, 3, 40, 30), (0, 1, 0, 3, 44, 28), (2, 1, 0, 3, 44, 30),
     (1, 1, 0, 3, 44, 30), (0, 1, 0, 3, 48, 28), (2, 1, 0, 3, 48, 30), (1, 1, 0, 3, 48, 30),
     (0, 1, 0, 3, 52, 34), (2, 1, 0, 3, 52, 30), (1, 1, 0, 3, 52, 30), (0, 1, 0, 3, 56, 32),
     (2, 1, 0, 3, 56, 30), (1, 1, 0, 3, 56, 30), (0, 1, 0, 3, 60, 30), (2, 1, 0, 3, 60, 30),
     (1, 1, 0, 3, 60, 30), (0, 1, 0, 3, 64, 26), (2, 1, 0, 3, 64, 30), (1, 1, 0, 3, 64, 30),
     (0, 1, 0, 3, 100, 28), (2, 1, 0, 3, 100, 30), (1, 1, 0, 3, 100, 30), (0, 1, 0, 3, 104, 28),
     (2, 1, 0, 3, 104, 30), (1, 1, 0, 3, 104, 30), (0, 1, 0, 3, 108, 30), (2, 1, 0, 3, 108, 30),
     (1, 1, 0, 3, 108, 30), (0, 1, 0, 3, 112, 32), (2, 1, 0, 3, 112, 30), (1, 1, 0, 3, 112, 30),
     (0, 1, 0, 3, 116, 32), (2, 1, 0, 3, 116, 30), (1, 1, 0, 3, 116, 30), (0, 1, 0, 3, 120, 34),
     (2, 1, 0, 3, 120, 30), (1, 1, 0, 3, 120, 30), (0, 1, 0, 3, 124, 32), (2, 1, 0, 3, 124, 30),
     (1, 1, 0, 3, 124, 30), (0, 1, 0, 3, 128, 30), (2, 1, 0, 3, 128, 30), (1, 1, 0, 3, 128, 30),
     (0, 1, 0, 3, 132, 28), (2, 1, 0, 3, 132, 30), (1, 1, 0, 3, 132, 30), (0, 1, 0, 3, 136, 28),
     (2, 1, 0, 3, 136, 30), (1, 1, 0, 3, 136, 30), (0, 1, 0, 3, 140, 26), (2, 1, 0, 3, 140, 30),
     (1, 1, 0, 3, 140, 30), (0, 1, 0, 3, 149, 34), (2, 1, 0, 3, 149, 30), (1, 1, 0, 3, 149, 63),
     (0, 1, 0, 3, 153, 34), (2, 1, 0, 3, 153, 30), (1, 1, 0, 3, 153, 63), (0, 1, 0, 3, 157, 34),
     (2, 1, 0, 3, 157, 30), (1, 1, 0, 3, 157, 63), (0, 1, 0, 3, 161, 34), (2, 1, 0, 3, 161, 30),
     (1, 1, 0, 3, 161, 63), (0, 1, 0, 3, 165, 34), (2, 1, 0, 3, 165, 30), (1, 1, 0, 3, 165, 63),
     (0, 1, 1, 2, 38, 30), (2, 1, 1, 2, 38, 32), (1, 1, 1, 2, 38, 32), (0, 1, 1, 2, 46, 30),
     (2, 1, 1, 2, 46, 32), (1, 1, 1, 2, 46, 32), (0, 1, 1, 2, 54, 32), (2, 1, 1, 2, 54, 32),
     (1, 1, 1, 2, 54, 32), (0, 1, 1, 2, 62, 32), (2, 1, 1, 2, 62, 32), (1, 1, 1, 2, 62, 32),
     (0, 1, 1, 2, 102, 28), (2, 1, 1, 2, 102, 32), (1, 1, 1, 2, 102, 32), (0, 1, 1, 2, 110, 32),
     (2, 1, 1, 2, 110, 32), (1, 1, 1, 2, 110, 32), (0, 1, 1, 2, 118, 36), (2, 1, 1, 2, 118, 32),
     (1, 1, 1, 2, 118, 32), (0, 1, 1, 2, 126, 34), (2, 1, 1, 2, 126, 32), (1, 1, 1, 2, 126, 32),
     (0, 1, 1, 2, 134, 32), (2, 1, 1, 2, 134, 32), (1, 1, 1, 2, 134, 32), (0, 1, 1, 2, 151, 36),
     (2, 1, 1, 2, 151, 32), (1, 1, 1, 2, 151, 63), (0, 1, 1, 2, 159, 36), (2, 1, 1, 2, 159, 32),
     (1, 1, 1, 2, 159, 63), (0, 1, 1, 3, 38, 28), (2, 1, 1, 3, 38, 30), (1, 1, 1, 3, 38, 30),
     (0, 1, 1, 3, 46, 28), (2, 1, 1, 3, 46, 30), (1, 1, 1, 3, 46, 30), (0, 1, 1, 3, 54, 30),
     (2, 1, 1, 3, 54, 30), (1, 1, 1, 3, 54, 30), (0, 1, 1, 3, 62, 30), (2, 1, 1, 3, 62, 30),
     (1, 1, 1, 3, 62, 30), (0, 1, 1, 3, 102, 26), (2, 1, 1, 3, 102, 30), (1, 1, 1, 3, 102, 30),
     (0, 1, 1, 3, 110, 30), (2, 1, 1, 3, 110, 30), (1, 1, 1, 3, 110, 30), (0, 1, 1, 3, 118, 34),
     (2, 1, 1, 3, 118, 30), (1, 1, 1, 3, 118, 30), (0, 1, 1, 3, 126, 32), (2, 1, 1, 3, 126, 30),
     (1, 1, 1, 3, 126, 30), (0, 1, 1, 3, 134, 30), (2, 1, 1, 3, 134, 30), (1, 1, 1, 3, 134, 30),
     (0, 1, 1, 3, 151, 34), (2, 1, 1, 3, 151, 30), (1, 1, 1, 3, 151, 63), (0, 1, 1, 3, 159, 34),
     (2, 1, 1, 3, 159, 30), (1, 1, 1, 3, 159, 63), (0, 1, 2, 4, 42, 30), (2, 1, 2, 4, 42, 32),
     (1, 1, 2, 4, 42, 32), (0, 1, 2, 4, 58, 28), (2, 1, 2, 4, 58, 32), (1, 1, 2, 4, 58, 32),
     (0, 1, 2, 4, 106, 30), (2, 1, 2, 4, 106, 32), (1, 1, 2, 4, 106, 32), (0, 1, 2, 4, 122, 34),
     (2, 1, 2, 4, 122, 32), (1, 1, 2, 4, 122, 32), (0, 1, 2, 4, 155, 36), (2, 1, 2, 4, 155, 32),
     (1, 1, 2, 4, 155, 63), (0, 1, 2, 5, 42, 28), (2, 1, 2, 5, 42, 30), (1, 1, 2, 5, 42, 30),
     (0, 1, 2, 5, 58, 26), (2, 1, 2, 5, 58, 30), (1, 1, 2, 5, 58, 30), (0, 1, 2, 5, 106, 28),
     (2, 1, 2, 5, 106, 30), (1, 1, 2, 5, 106, 30), (0, 1, 2, 5, 122, 32), (2, 1, 2, 5, 122, 30),
     (1, 1, 2, 5, 122, 30), (0, 1, 2, 5, 155, 34), (2, 1, 2, 5, 155, 30), (1, 1, 2, 5, 155, 63)]"

definition rtw8812a_pwr_chip :: rtw_pwr_chip where
  "rtw8812a_pwr_chip =
     \<lparr>max_power_index = 0x3f, txgi_factor = 1, is_pwr_by_rate_dec = True, en_dis_dpd = False, dpd_ratemask = 0\<rparr>"

section \<open>Power tracking\<close>

definition rtw8812a_pwrtrk_5gb_n :: "u8 list list" where
  "rtw8812a_pwrtrk_5gb_n =
    [[0, 1, 1, 2, 2, 3, 4, 5, 6, 6, 7, 7, 8, 8, 9, 9, 10, 10, 11, 11,
      12, 12, 13, 13, 14, 14, 14, 14, 14, 14],
     [0, 1, 1, 2, 2, 3, 4, 4, 6, 6, 7, 7, 8, 8, 9, 9, 10, 10, 11, 11,
      12, 12, 13, 13, 14, 14, 14, 14, 14, 14],
     [0, 1, 1, 2, 2, 3, 4, 5, 6, 6, 7, 8, 8, 9, 10, 10, 11, 11, 12, 12,
      13, 13, 14, 14, 15, 16, 16, 16, 16, 16]]"

definition rtw8812a_pwrtrk_5gb_p :: "u8 list list" where
  "rtw8812a_pwrtrk_5gb_p =
    [[0, 1, 1, 2, 2, 3, 3, 4, 5, 6, 7, 7, 8, 8, 9, 9, 10, 10, 11, 11,
      11, 11, 11, 11, 11, 11, 11, 11, 11, 11],
     [0, 1, 1, 2, 3, 3, 4, 5, 5, 6, 7, 7, 8, 8, 9, 9, 10, 10, 11, 11,
      11, 11, 11, 11, 11, 11, 11, 11, 11, 11],
     [0, 1, 1, 2, 3, 3, 4, 5, 6, 7, 7, 8, 8, 9, 9, 10, 11, 11, 11, 11,
      11, 11, 11, 11, 11, 11, 11, 11, 11, 11]]"

definition rtw8812a_pwrtrk_5ga_n :: "u8 list list" where
  "rtw8812a_pwrtrk_5ga_n =
    [[0, 1, 1, 2, 2, 3, 4, 5, 6, 6, 7, 7, 8, 8, 9, 9, 10, 10, 11, 11,
      12, 12, 13, 13, 14, 15, 15, 15, 15, 15],
     [0, 1, 1, 2, 2, 3, 4, 5, 6, 6, 7, 7, 8, 8, 9, 9, 10, 10, 11, 11,
      12, 12, 13, 13, 14, 15, 15, 15, 15, 15],
     [0, 1, 1, 2, 2, 3, 4, 5, 6, 6, 7, 7, 8, 8, 9, 9, 10, 10, 11, 11,
      12, 12, 13, 13, 14, 15, 15, 15, 15, 15]]"

definition rtw8812a_pwrtrk_5ga_p :: "u8 list list" where
  "rtw8812a_pwrtrk_5ga_p =
    [[0, 1, 1, 2, 2, 3, 4, 5, 6, 7, 7, 8, 8, 9, 10, 11, 11, 11, 11, 11,
      11, 11, 11, 11, 11, 11, 11, 11, 11, 11],
     [0, 1, 1, 2, 3, 3, 4, 5, 6, 7, 7, 8, 8, 9, 10, 11, 11, 11, 11, 11,
      11, 11, 11, 11, 11, 11, 11, 11, 11, 11],
     [0, 1, 1, 2, 3, 3, 4, 5, 6, 7, 7, 8, 8, 9, 10, 11, 11, 12, 12, 11,
      11, 11, 11, 11, 11, 11, 11, 11, 11, 11]]"

definition rtw8812a_pwrtrk_2gb_n :: "u8 list" where
  "rtw8812a_pwrtrk_2gb_n =
    [0, 1, 1, 2, 2, 2, 3, 3, 3, 4, 4, 5, 5, 5, 6, 6, 7, 7, 8, 8, 9, 9, 10, 10, 11, 11, 11, 11, 11, 11]"

definition rtw8812a_pwrtrk_2gb_p :: "u8 list" where
  "rtw8812a_pwrtrk_2gb_p =
    [0, 1, 1, 2, 2, 2, 3, 3, 3, 4, 4, 4, 5, 5, 5, 6, 6, 7, 7, 7, 7, 7, 7, 7, 7, 7, 7, 7, 7, 7]"

definition rtw8812a_pwrtrk_2ga_n :: "u8 list" where
  "rtw8812a_pwrtrk_2ga_n =
    [0, 1, 1, 2, 2, 2, 3, 3, 3, 4, 4, 4, 5, 5, 5, 6, 6, 6, 7, 7, 7, 8, 8, 9, 10, 10, 10, 10, 10, 10]"

definition rtw8812a_pwrtrk_2ga_p :: "u8 list" where
  "rtw8812a_pwrtrk_2ga_p =
    [0, 1, 1, 2, 2, 2, 3, 3, 3, 4, 4, 4, 5, 5, 5, 6, 6, 6, 7, 7, 7, 7, 7, 7, 7, 7, 7, 7, 7, 7]"

definition rtw8812a_pwrtrk_2g_cck_b_n :: "u8 list" where
  "rtw8812a_pwrtrk_2g_cck_b_n =
    [0, 1, 1, 2, 2, 2, 3, 3, 3, 4, 4, 5, 5, 5, 6, 6, 7, 7, 8, 8, 9, 9, 10, 10, 11, 11, 11, 11, 11, 11]"

definition rtw8812a_pwrtrk_2g_cck_b_p :: "u8 list" where
  "rtw8812a_pwrtrk_2g_cck_b_p =
    [0, 1, 1, 2, 2, 2, 3, 3, 3, 4, 4, 4, 5, 5, 5, 6, 6, 7, 7, 7, 7, 7, 7, 7, 7, 7, 7, 7, 7, 7]"

definition rtw8812a_pwrtrk_2g_cck_a_n :: "u8 list" where
  "rtw8812a_pwrtrk_2g_cck_a_n =
    [0, 1, 1, 2, 2, 2, 3, 3, 3, 4, 4, 4, 5, 5, 5, 6, 6, 6, 7, 7, 7, 8, 8, 9, 10, 10, 10, 10, 10, 10]"

definition rtw8812a_pwrtrk_2g_cck_a_p :: "u8 list" where
  "rtw8812a_pwrtrk_2g_cck_a_p =
    [0, 1, 1, 2, 2, 2, 3, 3, 3, 4, 4, 4, 5, 5, 5, 6, 6, 6, 7, 7, 7, 7, 7, 7, 7, 7, 7, 7, 7, 7]"

definition rtw8812a_pwrtrk_rfe3_5gb_n :: "u8 list list" where
  "rtw8812a_pwrtrk_rfe3_5gb_n =
    [[0, 1, 1, 2, 3, 3, 4, 5, 5, 6, 7, 7, 8, 8, 9, 9, 10, 10, 11, 12,
      13, 13, 14, 15, 16, 16, 17, 17, 18, 18],
     [0, 1, 1, 2, 2, 3, 3, 4, 4, 5, 6, 7, 8, 8, 9, 9, 10, 10, 11, 11,
      11, 12, 14, 13, 13, 14, 14, 14, 15, 15],
     [0, 1, 1, 2, 2, 3, 4, 5, 6, 6, 7, 7, 8, 8, 9, 9, 10, 10, 11, 11,
      12, 12, 13, 13, 14, 14, 15, 15, 16, 16]]"

definition rtw8812a_pwrtrk_rfe3_5gb_p :: "u8 list list" where
  "rtw8812a_pwrtrk_rfe3_5gb_p =
    [[0, 1, 1, 2, 3, 3, 4, 5, 6, 7, 7, 8, 9, 9, 10, 10, 11, 11, 11, 11,
      11, 11, 11, 11, 11, 11, 11, 11, 11, 11],
     [0, 1, 1, 2, 2, 3, 3, 4, 4, 5, 6, 7, 8, 8, 9, 9, 10, 10, 11, 11,
      11, 11, 11, 11, 11, 11, 11, 11, 11, 11],
     [0, 1, 1, 2, 2, 3, 3, 4, 4, 5, 6, 6, 7, 7, 8, 9, 10, 10, 11, 11,
      11, 11, 11, 11, 11, 11, 11, 11, 11, 11]]"

definition rtw8812a_pwrtrk_rfe3_5ga_n :: "u8 list list" where
  "rtw8812a_pwrtrk_rfe3_5ga_n =
    [[0, 1, 1, 2, 3, 3, 4, 5, 5, 6, 7, 7, 8, 8, 9, 9, 10, 10, 11, 11,
      12, 13, 14, 15, 16, 16, 17, 17, 18, 18],
     [0, 1, 1, 2, 3, 3, 4, 4, 5, 6, 6, 7, 7, 8, 9, 9, 10, 10, 11, 11,
      12, 12, 13, 13, 14, 15, 16, 16, 17, 17],
     [0, 1, 1, 2, 3, 3, 4, 4, 5, 6, 7, 7, 8, 8, 9, 9, 10, 10, 11, 12,
      13, 13, 14, 14, 15, 15, 16, 17, 18, 18]]"

definition rtw8812a_pwrtrk_rfe3_5ga_p :: "u8 list list" where
  "rtw8812a_pwrtrk_rfe3_5ga_p =
    [[0, 1, 1, 2, 2, 3, 4, 5, 6, 7, 7, 8, 9, 9, 10, 10, 11, 11, 11, 11,
      11, 11, 11, 11, 11, 11, 11, 11, 11, 11],
     [0, 1, 2, 3, 4, 4, 5, 5, 6, 7, 7, 8, 9, 9, 10, 11, 11, 11, 11, 11,
      11, 11, 11, 11, 11, 11, 11, 11, 11, 11],
     [0, 1, 2, 3, 4, 4, 5, 5, 6, 7, 7, 8, 9, 9, 10, 11, 11, 11, 11, 11,
      11, 11, 11, 11, 11, 11, 11, 11, 11, 11]]"

definition rtw8812a_pwrtrk_rfe3_2gb_n :: "u8 list" where
  "rtw8812a_pwrtrk_rfe3_2gb_n =
    [0, 1, 1, 2, 2, 3, 3, 4, 4, 4, 5, 5, 6, 6, 6, 7, 7, 7, 8, 8, 9, 9, 10, 11, 12, 12, 13, 14, 15, 15]"

definition rtw8812a_pwrtrk_rfe3_2gb_p :: "u8 list" where
  "rtw8812a_pwrtrk_rfe3_2gb_p =
    [0, 1, 1, 2, 2, 2, 2, 3, 3, 3, 4, 4, 5, 5, 5, 6, 6, 7, 7, 8, 9, 10, 10, 10, 10, 11, 11, 11, 11, 11]"

definition rtw8812a_pwrtrk_rfe3_2ga_n :: "u8 list" where
  "rtw8812a_pwrtrk_rfe3_2ga_n =
    [0, 1, 1, 2, 2, 3, 4, 5, 6, 6, 6, 7, 7, 8, 8, 9, 10, 10, 11, 11, 12, 12, 13, 13, 13, 13, 14, 14, 15, 15]"

definition rtw8812a_pwrtrk_rfe3_2ga_p :: "u8 list" where
  "rtw8812a_pwrtrk_rfe3_2ga_p =
    [0, 0, 1, 1, 1, 2, 2, 3, 3, 4, 4, 4, 5, 5, 5, 6, 6, 7, 7, 8, 8, 9, 9, 10, 10, 11, 11, 11, 11, 11]"

definition rtw8812a_pwrtrk_rfe3_2g_cck_b_n :: "u8 list" where
  "rtw8812a_pwrtrk_rfe3_2g_cck_b_n =
    [0, 1, 1, 2, 2, 3, 3, 4, 4, 4, 5, 5, 6, 6, 6, 7, 7, 7, 8, 8, 9, 9, 10, 11, 12, 12, 13, 14, 15, 15]"

definition rtw8812a_pwrtrk_rfe3_2g_cck_b_p :: "u8 list" where
  "rtw8812a_pwrtrk_rfe3_2g_cck_b_p =
    [0, 1, 1, 2, 2, 2, 2, 3, 3, 3, 4, 4, 5, 5, 5, 6, 6, 7, 7, 8, 9, 10, 10, 10, 10, 11, 11, 11, 11, 11]"

definition rtw8812a_pwrtrk_rfe3_2g_cck_a_n :: "u8 list" where
  "rtw8812a_pwrtrk_rfe3_2g_cck_a_n =
    [0, 1, 1, 2, 2, 3, 4, 5, 6, 6, 6, 7, 7, 8, 8, 9, 10, 10, 11, 11, 12, 12, 13, 13, 13, 13, 14, 14, 15, 15]"

definition rtw8812a_pwrtrk_rfe3_2g_cck_a_p :: "u8 list" where
  "rtw8812a_pwrtrk_rfe3_2g_cck_a_p =
    [0, 0, 1, 1, 1, 2, 2, 3, 3, 4, 4, 4, 5, 5, 5, 6, 6, 7, 7, 8, 8, 9, 9, 10, 10, 11, 11, 11, 11, 11]"

text \<open>An entry of the table's pointer arrays, by path; the paths C and D have none.\<close>

definition by_path :: "'a \<Rightarrow> 'a \<Rightarrow> nat \<Rightarrow> 'a option" where
  "by_path a b path = (if path = RF_PATH_A then Some a else if path = RF_PATH_B then Some b else None)"

definition by_path_5g :: "u8 list list \<Rightarrow> u8 list list \<Rightarrow> nat \<Rightarrow> nat \<Rightarrow> (nat \<Rightarrow> u8) option" where
  "by_path_5g a b path i = map_option (\<lambda>t. (!) (t ! i)) (by_path a b path)"

definition by_path_2g :: "u8 list \<Rightarrow> u8 list \<Rightarrow> nat \<Rightarrow> (nat \<Rightarrow> u8) option" where
  "by_path_2g a b path = map_option (!) (by_path a b path)"

definition rtw8812a_rtw_pwr_track_tbl :: rtw_pwr_track_tbl where
  "rtw8812a_rtw_pwr_track_tbl =
     \<lparr>pwrtrk_5g_n = by_path_5g rtw8812a_pwrtrk_5ga_n rtw8812a_pwrtrk_5gb_n,
      pwrtrk_5g_p = by_path_5g rtw8812a_pwrtrk_5ga_p rtw8812a_pwrtrk_5gb_p,
      pwrtrk_2g_n = by_path_2g rtw8812a_pwrtrk_2ga_n rtw8812a_pwrtrk_2gb_n,
      pwrtrk_2g_p = by_path_2g rtw8812a_pwrtrk_2ga_p rtw8812a_pwrtrk_2gb_p,
      pwrtrk_2g_cck_n = by_path_2g rtw8812a_pwrtrk_2g_cck_a_n rtw8812a_pwrtrk_2g_cck_b_n,
      pwrtrk_2g_cck_p = by_path_2g rtw8812a_pwrtrk_2g_cck_a_p rtw8812a_pwrtrk_2g_cck_b_p\<rparr>"

definition rtw8812a_rtw_pwr_track_rfe3_tbl :: rtw_pwr_track_tbl where
  "rtw8812a_rtw_pwr_track_rfe3_tbl =
     \<lparr>pwrtrk_5g_n = by_path_5g rtw8812a_pwrtrk_rfe3_5ga_n rtw8812a_pwrtrk_rfe3_5gb_n,
      pwrtrk_5g_p = by_path_5g rtw8812a_pwrtrk_rfe3_5ga_p rtw8812a_pwrtrk_rfe3_5gb_p,
      pwrtrk_2g_n = by_path_2g rtw8812a_pwrtrk_rfe3_2ga_n rtw8812a_pwrtrk_rfe3_2gb_n,
      pwrtrk_2g_p = by_path_2g rtw8812a_pwrtrk_rfe3_2ga_p rtw8812a_pwrtrk_rfe3_2gb_p,
      pwrtrk_2g_cck_n = by_path_2g rtw8812a_pwrtrk_rfe3_2g_cck_a_n rtw8812a_pwrtrk_rfe3_2g_cck_b_n,
      pwrtrk_2g_cck_p = by_path_2g rtw8812a_pwrtrk_rfe3_2g_cck_a_p rtw8812a_pwrtrk_rfe3_2g_cck_b_p\<rparr>"

definition rtw8812a_rfe_defs :: "rtw_rfe_def list" where
  "rtw8812a_rfe_defs =
     (let d = \<lparr>phy_pg_tbl = rtw8812a_bb_pg, txpwr_lmt_tbl = rtw8812a_txpwr_lmt, pwr_track_tbl = rtw8812a_rtw_pwr_track_tbl\<rparr>
      in [d, d, d,
          \<lparr>phy_pg_tbl = rtw8812a_bb_pg_rfe3, txpwr_lmt_tbl = rtw8812a_txpwr_lmt, pwr_track_tbl = rtw8812a_rtw_pwr_track_rfe3_tbl\<rparr>])"

text \<open>Every tracking table has the thirty entries that the bounded temperature difference selects from.\<close>

lemma pwrtrk_lengths:
  "list_all (\<lambda>t. length t = 3 \<and> list_all (\<lambda>r. length r = 30) t)
     [rtw8812a_pwrtrk_5gb_n,
      rtw8812a_pwrtrk_5gb_p,
      rtw8812a_pwrtrk_5ga_n,
      rtw8812a_pwrtrk_5ga_p,
      rtw8812a_pwrtrk_rfe3_5gb_n,
      rtw8812a_pwrtrk_rfe3_5gb_p,
      rtw8812a_pwrtrk_rfe3_5ga_n,
      rtw8812a_pwrtrk_rfe3_5ga_p]"
  "list_all (\<lambda>t. length t = 30)
     [rtw8812a_pwrtrk_2gb_n,
      rtw8812a_pwrtrk_2gb_p,
      rtw8812a_pwrtrk_2ga_n,
      rtw8812a_pwrtrk_2ga_p,
      rtw8812a_pwrtrk_2g_cck_b_n,
      rtw8812a_pwrtrk_2g_cck_b_p,
      rtw8812a_pwrtrk_2g_cck_a_n,
      rtw8812a_pwrtrk_2g_cck_a_p,
      rtw8812a_pwrtrk_rfe3_2gb_n,
      rtw8812a_pwrtrk_rfe3_2gb_p,
      rtw8812a_pwrtrk_rfe3_2ga_n,
      rtw8812a_pwrtrk_rfe3_2ga_p,
      rtw8812a_pwrtrk_rfe3_2g_cck_b_n,
      rtw8812a_pwrtrk_rfe3_2g_cck_b_p,
      rtw8812a_pwrtrk_rfe3_2g_cck_a_n,
      rtw8812a_pwrtrk_rfe3_2g_cck_a_p]"
  by code_simp+

end
