(* ===== verification/TxLimitProps.thy ===== *)
theory TxLimitProps
  imports TxPowerProps TxTables8812a
begin

text \<open>
  The regulatory limits: closed forms of the loops over the limit tables, and the worldwide limit,
  which is below the limit of every domain once a table of limits is parsed.
\<close>

section \<open>Cells of the limit tables\<close>

text \<open>A cell is named by the band (true for 5 GHz), domain, width, rate section and channel index.\<close>

type_synonym limit_key = "bool \<times> nat \<times> nat \<times> nat \<times> nat"

definition limit_cells :: "rtw_txpwr \<Rightarrow> limit_key \<Rightarrow> s8" where
  "limit_cells h = (\<lambda>(b, regd, wd, rs, ch).
     if b then tx_pwr_limit_5g h regd wd rs ch else tx_pwr_limit_2g h regd wd rs ch)"

definition channels :: "bool \<Rightarrow> nat" where
  "channels b = (if b then RTW_MAX_CHANNEL_NUM_5G else RTW_MAX_CHANNEL_NUM_2G)"

definition limit_block :: "nat \<Rightarrow> nat \<times> nat \<Rightarrow> limit_key set" where
  "limit_block regd = (\<lambda>(wd, rs). {(b, regd, wd, rs, ch) |b ch. ch < channels b})"

definition limit_region :: "limit_key set" where
  "limit_region = {(b, regd, wd, rs, ch) |b regd wd rs ch. regd < 13 \<and> wd < 3 \<and> rs < 10 \<and> ch < channels b}"

lemma limit_cells_upd [simp]:
  "limit_cells (h\<lparr>tx_pwr_limit_5g := upd4 (tx_pwr_limit_5g h) regd wd rs ch v\<rparr>) =
     (limit_cells h)((True, regd, wd, rs, ch) := v)"
  "limit_cells (h\<lparr>tx_pwr_limit_2g := upd4 (tx_pwr_limit_2g h) regd wd rs ch v\<rparr>) =
     (limit_cells h)((False, regd, wd, rs, ch) := v)"
  by (auto simp: limit_cells_def fun_eq_iff)

lemma fold_both:
  "fold (\<lambda>(b, ch). if b then f5 ch else f2 ch) (map (Pair False) xs @ map (Pair True) ys) h = fold f5 ys (fold f2 xs h)"
  by (simp add: fold_map comp_def)

lemma fold3_product:
  "fold (\<lambda>a. fold (\<lambda>b. fold (f a b) zs) ys) xs h = fold (\<lambda>(a, b, c). f a b c) (List.product xs (List.product ys zs)) h"
proof -
  have "fold (\<lambda>b. fold (f a b) zs) ys = fold (\<lambda>(b, c). f a b c) (List.product ys zs)" for a
    by (simp add: fun_eq_iff fold_fold_product)
  then show ?thesis
    by (simp add: fold_fold_product [of "\<lambda>a (b, c). f a b c"])
qed

text \<open>The two loops over the channels of one block.\<close>

lemma fold_both_bands:
  assumes f2: "\<And>ch h. P h \<Longrightarrow> ch < channels False \<Longrightarrow> limit_cells (f2 ch h) = (limit_cells h)((False, regd, wd, rs, ch) := G (False, regd, wd, rs, ch) (limit_cells h)) \<and> P (f2 ch h)"
    and f5: "\<And>ch h. P h \<Longrightarrow> ch < channels True \<Longrightarrow> limit_cells (f5 ch h) = (limit_cells h)((True, regd, wd, rs, ch) := G (True, regd, wd, rs, ch) (limit_cells h)) \<and> P (f5 ch h)"
    and cong: "\<And>k g g'. k \<in> limit_block regd (wd, rs) \<Longrightarrow>
      (\<And>j. j = k \<or> j \<notin> limit_block regd (wd, rs) \<Longrightarrow> g j = g' j) \<Longrightarrow> G k g = G k g'"
    and "P h"
  shows "limit_cells (fold f5 [0..<channels True] (fold f2 [0..<channels False] h)) =
      (\<lambda>k. if k \<in> limit_block regd (wd, rs) then G k (limit_cells h) else limit_cells h k)
    \<and> P (fold f5 [0..<channels True] (fold f2 [0..<channels False] h))"
proof -
  let ?L = "map (Pair False) [0..<channels False] @ map (Pair True) [0..<channels True]"
  let ?f = "\<lambda>(b, ch). if b then f5 ch else f2 ch"
  let ?S = "\<lambda>(b, ch). {(b, regd, wd, rs, ch)}"
  have un: "(\<Union>i\<in>set ?L. ?S i) = limit_block regd (wd, rs)"
    by (auto simp: limit_block_def split: prod.splits) (metis (full_types) atLeastLessThan_iff image_eqI le0 set_upt)
  have f: "fold ?f ?L h = fold f5 [0..<channels True] (fold f2 [0..<channels False] h)"
    by (rule fold_both)
  have "limit_cells (fold ?f ?L h) = (\<lambda>k. if k \<in> (\<Union>i\<in>set ?L. ?S i) then G k (limit_cells h) else limit_cells h k)
    \<and> P (fold ?f ?L h)"
  proof (rule fold_blocks [where P = P])
    show "distinct ?L"
      by (auto simp: distinct_map inj_on_def)
  next
    fix i k and g g' :: "limit_key \<Rightarrow> s8"
    assume "i \<in> set ?L" "k \<in> ?S i" and "\<And>j. j \<in> ?S i \<or> j \<notin> (\<Union>i\<in>set ?L. ?S i) \<Longrightarrow> g j = g' j"
    then show "G k g = G k g'"
      unfolding un by (intro cong) (auto simp: limit_block_def)
  next
    fix i h
    assume "i \<in> set ?L" "P h"
    have "i = (fst i, snd i)" "snd i < channels (fst i)"
      using \<open>i \<in> set ?L\<close> by auto
    then obtain b ch where i: "i = (b, ch)" "ch < channels b"
      by blast
    show "limit_cells (?f i h) = (\<lambda>k. if k \<in> ?S i then G k (limit_cells h) else limit_cells h k) \<and> P (?f i h)"
      using f2 [OF \<open>P h\<close>, of ch] f5 [OF \<open>P h\<close>, of ch] i(2) by (cases b) (auto simp: i(1) fun_upd_def)
  qed (use assms(4) in auto)
  then show ?thesis
    unfolding f un .
qed

lemma limit_block_disjoint: "(regd, i) \<noteq> (regd', j) \<Longrightarrow> limit_block regd i \<inter> limit_block regd' j = {}"
  by (auto simp: limit_block_def split: prod.splits)

text \<open>The three loops around them, over a list of domains.\<close>

lemma fold_limits:
  assumes f: "\<And>regd wd rs h. regd \<in> set rds \<Longrightarrow> P h \<Longrightarrow> limit_cells (f regd wd rs h) =
      (\<lambda>k. if k \<in> limit_block regd (wd, rs) then G k (limit_cells h) else limit_cells h k) \<and> P (f regd wd rs h)"
    and cong: "\<And>regd wd rs k g g'. regd \<in> set rds \<Longrightarrow> k \<in> limit_block regd (wd, rs) \<Longrightarrow>
      (\<And>j. j = k \<or> fst (snd j) \<notin> set rds \<Longrightarrow> g j = g' j) \<Longrightarrow> G k g = G k g'"
    and "P h" and "distinct rds"
  shows "limit_cells (fold (\<lambda>regd. fold (\<lambda>wd. fold (f regd wd) [0..<10]) [0..<3]) rds h) =
      (\<lambda>k. if fst (snd k) \<in> set rds \<and> k \<in> (\<Union>i\<in>{..<3} \<times> {..<10}. limit_block (fst (snd k)) i) then G k (limit_cells h) else limit_cells h k)
    \<and> P (fold (\<lambda>regd. fold (\<lambda>wd. fold (f regd wd) [0..<10]) [0..<3]) rds h)"
proof -
  let ?L = "List.product rds (List.product [0..<3] [0..<10])"
  let ?f = "\<lambda>(regd, wd, rs). f regd wd rs"
  let ?S = "\<lambda>(regd, i). limit_block regd i"
  have fl: "fold (\<lambda>regd. fold (\<lambda>wd. fold (f regd wd) [0..<10]) [0..<3]) rds h = fold ?f ?L h"
    by (rule fold3_product)
  have un: "k \<in> (\<Union>i\<in>set ?L. ?S i) \<longleftrightarrow> fst (snd k) \<in> set rds \<and> k \<in> (\<Union>i\<in>{..<3} \<times> {..<10}. limit_block (fst (snd k)) i)" for k
    by (cases k) (auto simp: limit_block_def)
  have out: "fst (snd j) \<notin> set rds \<Longrightarrow> j \<notin> (\<Union>i\<in>set ?L. ?S i)" for j
    unfolding un by simp
  have "limit_cells (fold ?f ?L h) = (\<lambda>k. if k \<in> (\<Union>i\<in>set ?L. ?S i) then G k (limit_cells h) else limit_cells h k)
    \<and> P (fold ?f ?L h)"
  proof (rule fold_blocks [where P = P])
    show "distinct ?L"
      using assms(4) by (simp add: distinct_product)
  next
    fix i j :: "nat \<times> nat \<times> nat"
    assume "i \<noteq> j"
    then show "?S i \<inter> ?S j = {}"
      using limit_block_disjoint by (cases i, cases j) simp
  next
    fix i k and g g' :: "limit_key \<Rightarrow> s8"
    assume i: "i \<in> set ?L" "k \<in> ?S i" and "\<And>j. j \<in> ?S i \<or> j \<notin> (\<Union>i\<in>set ?L. ?S i) \<Longrightarrow> g j = g' j"
    then show "G k g = G k g'"
      using out by (intro cong [of "fst i" k "fst (snd i)" "snd (snd i)"]) (auto split: prod.splits)
  next
    fix i h
    assume "i \<in> set ?L" "P h"
    then show "limit_cells (?f i h) = (\<lambda>k. if k \<in> ?S i then G k (limit_cells h) else limit_cells h k) \<and> P (?f i h)"
      using f by auto
  qed (use assms in auto)
  then show ?thesis
    unfolding fl un .
qed

lemma limit_region_iff:
  "k \<in> limit_region \<longleftrightarrow> fst (snd k) \<in> set [0..<13] \<and> k \<in> (\<Union>i\<in>{..<3} \<times> {..<10}. limit_block (fst (snd k)) i)"
  by (cases k) (auto simp: limit_region_def limit_block_def)

lemma channels_eq: "channels True = 49" "channels False = 14"
  by (simp_all add: channels_def)

lemmas fold_both_bands' = fold_both_bands [unfolded channels_eq]

section \<open>Closed forms\<close>

lemma limit_cells_init:
  assumes "k \<in> limit_region"
  shows "limit_cells (rtw_phy_init_tx_power c h) k = max_power_index c"
proof -
  have step: "limit_cells (rtw_phy_init_tx_power_limit c regd wd rs h) =
      (\<lambda>k. if k \<in> limit_block regd (wd, rs) then max_power_index c else limit_cells h k) \<and> True" for regd wd rs h
    unfolding rtw_phy_init_tx_power_limit_def
    by (rule fold_both_bands' [where P = "\<lambda>_. True" and G = "\<lambda>_ _. max_power_index c"]) simp_all
  have "limit_cells (for_limits (rtw_phy_init_tx_power_limit c) h) k = max_power_index c" for h
    using assms unfolding for_limits_def limit_region_iff
    by (subst fold_limits [where P = "\<lambda>_. True" and G = "\<lambda>_ _. max_power_index c", THEN conjunct1])
      (use step in \<open>simp_all del: set_upt upt_rec_numeral\<close>)
  then show ?thesis
    unfolding rtw_phy_init_tx_power_def .
qed

text \<open>Copying one domain into another, and the step to values relative to the bases.\<close>

definition to_regd :: "nat \<Rightarrow> limit_key \<Rightarrow> limit_key" where
  "to_regd regd = (\<lambda>(b, _, i). (b, regd, i))"

lemma limit_cells_alt:
  assumes "regd \<noteq> alt"
  shows "limit_cells (rtw_cfg_txpwr_lmt_by_alt regd alt h) =
    (\<lambda>k. if fst (snd k) = regd \<and> k \<in> (\<Union>i\<in>{..<3} \<times> {..<10}. limit_block regd i)
         then limit_cells h (to_regd alt k) else limit_cells h k)"
proof -
  have step: "limit_cells (cfg_txpwr_lmt_by_alt regd alt wd rs h) =
      (\<lambda>k. if k \<in> limit_block regd (wd, rs) then limit_cells h (to_regd alt k) else limit_cells h k) \<and> True" for wd rs h
    unfolding cfg_txpwr_lmt_by_alt_def
    by (rule fold_both_bands' [where P = "\<lambda>_. True" and G = "\<lambda>k g. g (to_regd alt k)"])
      (use assms in \<open>auto simp: to_regd_def limit_cells_def limit_block_def\<close>)
  have "rtw_cfg_txpwr_lmt_by_alt regd alt h = fold (\<lambda>r. fold (\<lambda>wd. fold (cfg_txpwr_lmt_by_alt r alt wd) [0..<10]) [0..<3]) [regd] h"
    unfolding rtw_cfg_txpwr_lmt_by_alt_def by (simp del: upt_rec_numeral)
  also have "limit_cells \<dots> = (\<lambda>k. if fst (snd k) \<in> set [regd] \<and> k \<in> (\<Union>i\<in>{..<3} \<times> {..<10}. limit_block (fst (snd k)) i)
         then limit_cells h (to_regd alt k) else limit_cells h k)"
    by (rule fold_limits [where P = "\<lambda>_. True" and G = "\<lambda>k g. g (to_regd alt k)", THEN conjunct1])
      (use step assms in \<open>auto simp: to_regd_def split: prod.splits\<close>)
  finally show ?thesis
    by (auto simp: fun_eq_iff)
qed

section \<open>The worldwide limit\<close>

text \<open>
  \<open>ww_below\<close>: in every cell the worldwide limit is at most that of the domain, and all limits are
  within the power range; \<open>vht_open\<close>: no VHT limit is set at 5 GHz for 20 and 40 MHz.
\<close>

definition ww_below :: "rtw_pwr_chip \<Rightarrow> (limit_key \<Rightarrow> s8) \<Rightarrow> bool" where
  "ww_below c g \<longleftrightarrow> (\<forall>k\<in>limit_region. sint (g (to_regd RTW_REGD_WW k)) \<le> sint (g k)
     \<and> \<bar>sint (g k)\<bar> \<le> uint (max_power_index c))"

definition vht_sections :: "nat set" where "vht_sections = {4, 5, 8, 9}"

definition vht_open :: "rtw_pwr_chip \<Rightarrow> (limit_key \<Rightarrow> s8) \<Rightarrow> bool" where
  "vht_open c g \<longleftrightarrow> (\<forall>regd<13. \<forall>wd\<le>1. \<forall>rs\<in>vht_sections. \<forall>ch<49. g (True, regd, wd, rs, ch) = max_power_index c)"

lemma to_regd_region: "k \<in> limit_region \<Longrightarrow> r < 13 \<Longrightarrow> to_regd r k \<in> limit_region"
  by (auto simp: limit_region_def to_regd_def)

lemma min_s8_le: "sint (min_s8 a b) \<le> sint a" "sint (min_s8 a b) \<le> sint b" "min_s8 a b = a \<or> min_s8 a b = b"
  by (simp_all add: min_s8_def)

lemma uint_range: "0 \<le> uint (m :: s8)"
  by simp

lemma uint_small: "unat (m :: s8) < 128 \<Longrightarrow> uint m < 128"
proof -
  assume "unat m < 128"
  then have "int (unat m) < 128" by linarith
  then show ?thesis by simp
qed

lemma sint_small:
  assumes "unat (m :: s8) < 128"
  shows "sint m = uint m"
proof -
  have "- 128 \<le> uint m"
    using uint_range [of m] by linarith
  with uint_small [OF assms] show ?thesis
    by (simp only: sint_uint) (rule signed_take_bit_int_eq_self, simp_all)
qed

lemma sint_neg_small:
  assumes "unat (m :: s8) < 128"
  shows "sint (- m) = - uint m"
proof -
  have "- uint m < 128"
    using uint_range [of m] by linarith
  moreover have "- m = word_of_int (- uint m)" by simp
  ultimately show ?thesis
    using uint_small [OF assms] by (simp only: sint_sbintrunc') (rule signed_take_bit_int_eq_self, simp_all)
qed

lemma clamp_s8_range:
  assumes "unat m < 128"
  shows "\<bar>sint (min_s8 (max_s8 p (- m)) m)\<bar> \<le> uint m"
  using sint_small [OF assms] sint_neg_small [OF assms] by (auto simp: min_s8_def max_s8_def)

lemma idx_of_le: "idx_of cs ch \<le> length cs"
  by (induction cs) auto

lemma channel_idx_range:
  "0 \<le> rtw_channel_to_idx band ch \<Longrightarrow> nat (rtw_channel_to_idx band ch) < channels (band = 1)"
  by (auto simp: rtw_channel_to_idx_def Let_def channels_def split: if_splits)

lemma limit_cells_upd_ww:
  "limit_cells (h\<lparr>tx_pwr_limit_5g := upd4 (upd4 (tx_pwr_limit_5g h) r wd rs i v) r' wd rs i v'\<rparr>) =
     (limit_cells h)((True, r, wd, rs, i) := v, (True, r', wd, rs, i) := v')"
  "limit_cells (h\<lparr>tx_pwr_limit_2g := upd4 (upd4 (tx_pwr_limit_2g h) r wd rs i v) r' wd rs i v'\<rparr>) =
     (limit_cells h)((False, r, wd, rs, i) := v, (False, r', wd, rs, i) := v')"
  by (auto simp: limit_cells_def fun_eq_iff)

lemma limit_cells_apply:
  "limit_cells h (True, r, wd, rs, i) = tx_pwr_limit_5g h r wd rs i"
  "limit_cells h (False, r, wd, rs, i) = tx_pwr_limit_2g h r wd rs i"
  by (simp_all add: limit_cells_def)

text \<open>One entry sets one cell and lowers the worldwide one to it, or is refused.\<close>

lemma limit_cells_entry:
  assumes "lmt_regd p \<noteq> RTW_REGD_WW" and "unat (max_power_index c) < 128"
  shows "limit_cells (set_limit_entry c p h) = limit_cells h \<or>
    (\<exists>b i v. lmt_band p = (if b then 1 else 0) \<and> lmt_regd p < 13 \<and> lmt_bw p < 3 \<and> lmt_rs p < 10 \<and> i < channels b
       \<and> \<bar>sint v\<bar> \<le> uint (max_power_index c)
       \<and> limit_cells (set_limit_entry c p h) = (limit_cells h)
           ((b, lmt_regd p, lmt_bw p, lmt_rs p, i) := v,
            (b, RTW_REGD_WW, lmt_bw p, lmt_rs p, i) := min_s8 (limit_cells h (b, RTW_REGD_WW, lmt_bw p, lmt_rs p, i)) v))"
proof (cases "RTW_REGD_MAX \<le> lmt_regd p \<or> RTW_CHANNEL_WIDTH_MAX \<le> lmt_bw p \<or> RTW_RATE_SECTION_NUM \<le> lmt_rs p \<or>
    rtw_channel_to_idx (lmt_band p) (lmt_ch p) < 0 \<or> lmt_band p \<notin> {0, 1}")
  case True
  then have "set_limit_entry c p h = h"
    unfolding set_limit_entry_def rtw_phy_set_tx_power_limit_def Let_def by (elim disjE) simp_all
  then show ?thesis by simp
next
  case False
  define b where "b = (lmt_band p = 1)"
  define i where "i = nat (rtw_channel_to_idx (lmt_band p) (lmt_ch p))"
  let ?v = "min_s8 (max_s8 (lmt_txpwr p) (- max_power_index c)) (max_power_index c)"
  have ok: "\<not> RTW_REGD_MAX \<le> lmt_regd p" "\<not> RTW_CHANNEL_WIDTH_MAX \<le> lmt_bw p" "\<not> RTW_RATE_SECTION_NUM \<le> lmt_rs p"
      "\<not> rtw_channel_to_idx (lmt_band p) (lmt_ch p) < 0" "lmt_band p = (if b then 1 else 0)"
    using False by (auto simp: b_def)
  have "limit_cells (set_limit_entry c p h) = (limit_cells h)
           ((b, lmt_regd p, lmt_bw p, lmt_rs p, i) := ?v,
            (b, RTW_REGD_WW, lmt_bw p, lmt_rs p, i) := min_s8 (limit_cells h (b, RTW_REGD_WW, lmt_bw p, lmt_rs p, i)) ?v)"
    unfolding set_limit_entry_def rtw_phy_set_tx_power_limit_def Let_def i_def [symmetric]
    using ok assms(1) by (cases b) (simp_all add: limit_cells_upd_ww limit_cells_apply)
  moreover have "i < channels b" "\<bar>sint ?v\<bar> \<le> uint (max_power_index c)"
    using ok(4) channel_idx_range [of "lmt_band p" "lmt_ch p"] clamp_s8_range [OF assms(2), of "lmt_txpwr p"]
    unfolding i_def b_def by simp_all
  ultimately show ?thesis
    using ok by (intro disjI2 exI [of _ b] exI [of _ i] exI [of _ ?v]) simp
qed

lemma ww_below_entry:
  assumes "lmt_regd p \<noteq> RTW_REGD_WW" and "unat (max_power_index c) < 128" and "ww_below c (limit_cells h)"
  shows "ww_below c (limit_cells (set_limit_entry c p h))"
  using limit_cells_entry [OF assms(1,2), of h]
proof (elim disjE exE conjE)
  fix b :: bool and i :: nat and v
  let ?k = "(b, lmt_regd p, lmt_bw p, lmt_rs p, i)" and ?w = "(b, RTW_REGD_WW, lmt_bw p, lmt_rs p, i)"
  assume r: "lmt_regd p < 13" "lmt_bw p < 3" "lmt_rs p < 10" "i < channels b" and v: "\<bar>sint v\<bar> \<le> uint (max_power_index c)"
    and eq: "limit_cells (set_limit_entry c p h) = (limit_cells h)(?k := v, ?w := min_s8 (limit_cells h ?w) v)"
  have w: "?w \<in> limit_region"
    using r by (auto simp: limit_region_def)
  show ?thesis
    unfolding ww_below_def
  proof
    fix k
    assume k: "k \<in> limit_region"
    show "sint (limit_cells (set_limit_entry c p h) (to_regd RTW_REGD_WW k)) \<le> sint (limit_cells (set_limit_entry c p h) k)
      \<and> \<bar>sint (limit_cells (set_limit_entry c p h) k)\<bar> \<le> uint (max_power_index c)"
      using assms(3) [unfolded ww_below_def, rule_format, OF k] assms(3) [unfolded ww_below_def, rule_format, OF w]
        v assms(1) min_s8_le [of "limit_cells h ?w" v]
      unfolding eq by (cases k) (auto simp: to_regd_def)
  qed
qed (use assms(3) in simp)

lemma vht_open_entry:
  assumes "lmt_regd p \<noteq> RTW_REGD_WW" and "unat (max_power_index c) < 128" and "vht_open c (limit_cells h)"
    and "lmt_band p = 1 \<and> lmt_bw p \<le> 1 \<longrightarrow> lmt_rs p \<notin> vht_sections"
  shows "vht_open c (limit_cells (set_limit_entry c p h))"
  using limit_cells_entry [OF assms(1,2), of h]
proof (elim disjE exE conjE)
  fix b :: bool and i :: nat and v
  assume "lmt_band p = (if b then 1 else 0)"
    and eq: "limit_cells (set_limit_entry c p h) = (limit_cells h)
           ((b, lmt_regd p, lmt_bw p, lmt_rs p, i) := v,
            (b, RTW_REGD_WW, lmt_bw p, lmt_rs p, i) := min_s8 (limit_cells h (b, RTW_REGD_WW, lmt_bw p, lmt_rs p, i)) v)"
  then show ?thesis
    using assms(3,4) unfolding eq by (auto simp: vht_open_def)
qed (use assms(3) in simp)

lemma fold_entries:
  assumes "\<forall>p\<in>set tbl. lmt_regd p \<noteq> RTW_REGD_WW \<and> (lmt_band p = 1 \<and> lmt_bw p \<le> 1 \<longrightarrow> lmt_rs p \<notin> vht_sections)"
    and "unat (max_power_index c) < 128" and "ww_below c (limit_cells h)" and "vht_open c (limit_cells h)"
  shows "ww_below c (limit_cells (fold (set_limit_entry c) tbl h)) \<and> vht_open c (limit_cells (fold (set_limit_entry c) tbl h))"
  using assms
proof (induction tbl arbitrary: h)
  case (Cons p tbl)
  then show ?case
    by (simp add: ww_below_entry vht_open_entry)
qed simp

lemma limit_region_mem:
  "(b, r, wd, rs, ch) \<in> limit_region \<longleftrightarrow> r < 13 \<and> wd < 3 \<and> rs < 10 \<and> ch < channels b"
  by (auto simp: limit_region_def)

lemma vht_sections_less: "rs \<in> vht_sections \<Longrightarrow> rs < 10"
  by (auto simp: vht_sections_def)

text \<open>A domain filled from another one, or from the worldwide limits, keeps both.\<close>

lemma alt_keeps:
  assumes "regd \<noteq> alt" and "regd \<noteq> RTW_REGD_WW" and "alt < 13"
    and "ww_below c (limit_cells h)" and "vht_open c (limit_cells h)"
  shows "ww_below c (limit_cells (rtw_cfg_txpwr_lmt_by_alt regd alt h))
    \<and> vht_open c (limit_cells (rtw_cfg_txpwr_lmt_by_alt regd alt h))"
proof
  let ?g = "limit_cells (rtw_cfg_txpwr_lmt_by_alt regd alt h)"
  have g: "?g k = (if fst (snd k) = regd then limit_cells h (to_regd alt k) else limit_cells h k)" if "k \<in> limit_region" for k
    using that [unfolded limit_region_iff] unfolding limit_cells_alt [OF assms(1)] by auto
  show "ww_below c ?g"
    unfolding ww_below_def
  proof
    fix k assume k: "k \<in> limit_region"
    have ww: "?g (to_regd RTW_REGD_WW k) = limit_cells h (to_regd RTW_REGD_WW k)"
      using g [OF to_regd_region [OF k, of RTW_REGD_WW]] assms(2) by (cases k) (simp add: to_regd_def)
    have "to_regd RTW_REGD_WW (to_regd alt k) = to_regd RTW_REGD_WW k"
      by (cases k) (simp add: to_regd_def)
    with assms(4) [unfolded ww_below_def, rule_format, OF k]
      assms(4) [unfolded ww_below_def, rule_format, OF to_regd_region [OF k assms(3)]]
    show "sint (?g (to_regd RTW_REGD_WW k)) \<le> sint (?g k) \<and> \<bar>sint (?g k)\<bar> \<le> uint (max_power_index c)"
      unfolding ww g [OF k] by simp
  qed
  show "vht_open c ?g"
    unfolding vht_open_def
  proof (intro allI ballI impI)
    fix r wd rs ch :: nat
    assume "r < 13" "wd \<le> 1" "rs \<in> vht_sections" "ch < 49"
    then have "(True, r, wd, rs, ch) \<in> limit_region"
      using vht_sections_less by (simp add: limit_region_mem channels_eq)
    with \<open>r < 13\<close> \<open>wd \<le> 1\<close> \<open>rs \<in> vht_sections\<close> \<open>ch < 49\<close> assms(3,5)
    show "?g (True, r, wd, rs, ch) = max_power_index c"
      by (simp add: g to_regd_def vht_open_def)
  qed
qed

lemma fill_regd_keeps:
  assumes "ww_below c (limit_cells h)" and "vht_open c (limit_cells h)"
  shows "ww_below c (limit_cells (fill_regd flag i h)) \<and> vht_open c (limit_cells (fill_regd flag i h))"
proof -
  have "a \<noteq> i \<and> a < 13" if "rtw_regd_has_alt i = Some a" for a
    using that by (auto simp: rtw_regd_has_alt_def rtw_regd_alt_def split: if_splits)
  then show ?thesis
    using assms alt_keeps [of i _ c h] by (auto simp: fill_regd_def split: option.splits)
qed

lemma fold_fill_keeps:
  assumes "ww_below c (limit_cells h)" and "vht_open c (limit_cells h)"
  shows "ww_below c (limit_cells (fold (fill_regd flag) is h)) \<and> vht_open c (limit_cells (fold (fill_regd flag) is h))"
  using assms by (induction "is" arbitrary: h) (simp_all add: fill_regd_keeps)

section \<open>The cross reference of HT and VHT\<close>

definition ht_of :: "nat \<Rightarrow> nat" where
  "ht_of rs = (if rs = 4 then 2 else if rs = 5 then 3 else if rs = 8 then 6 else 7)"

lemma rs_cmp_iff: "(ht, vht) \<in> set rs_cmp \<longleftrightarrow> vht \<in> vht_sections \<and> ht = ht_of vht"
  by (auto simp: rs_cmp_def vht_sections_def ht_of_def)

lemma ht_of_not_vht: "rs \<in> vht_sections \<Longrightarrow> ht_of rs \<notin> vht_sections \<and> ht_of rs < 10"
  by (auto simp: vht_sections_def ht_of_def)

text \<open>Every VHT limit is either free or already the HT one.\<close>

definition vht_free :: "rtw_pwr_chip \<Rightarrow> (limit_key \<Rightarrow> s8) \<Rightarrow> bool" where
  "vht_free c g \<longleftrightarrow> (\<forall>regd<13. \<forall>wd\<le>1. \<forall>rs\<in>vht_sections. \<forall>ch<49.
     g (True, regd, wd, rs, ch) \<in> {max_power_index c, g (True, regd, wd, ht_of rs, ch)})"

lemma xref_cell:
  assumes "unat (max_power_index c) < 128" and "vht_free c (limit_cells h)"
    and "regd < 13" "wd \<le> 1" "vht \<in> vht_sections" "ch < 49"
  shows "limit_cells (rtw_xref_5g_txpwr_lmt c regd wd ch (ht_of vht) vht h) =
    (limit_cells h)((True, regd, wd, vht, ch) := limit_cells h (True, regd, wd, ht_of vht, ch))"
proof -
  have "limit_cells h (True, regd, wd, vht, ch) \<in> {max_power_index c, limit_cells h (True, regd, wd, ht_of vht, ch)}"
    using assms by (simp add: vht_free_def)
  then have free: "tx_pwr_limit_5g h regd wd vht ch \<in> {max_power_index c, tx_pwr_limit_5g h regd wd (ht_of vht) ch}"
    by (simp add: limit_cells_apply)
  have mx: "sint l = uint (max_power_index c) \<longleftrightarrow> l = max_power_index c" for l :: s8
    using sint_small [OF assms(1)] by (metis signed_word_eqI)
  show ?thesis
    using free unfolding rtw_xref_5g_txpwr_lmt_def Let_def mx
    by (auto simp: limit_cells_apply fun_upd_idem)
qed

lemma xref_keeps_free:
  assumes "vht_free c g" "vht \<in> vht_sections"
  shows "vht_free c (g((True, regd, wd, vht, ch) := g (True, regd, wd, ht_of vht, ch)))"
  using assms ht_of_not_vht unfolding vht_free_def by (auto split: if_splits)

lemma fold_product_eq:
  assumes "\<And>a. F a = fold (f a) ys"
  shows "fold F xs = fold (\<lambda>(a, b). f a b) (List.product xs ys)"
proof -
  have "F = (\<lambda>a. fold (f a) ys)"
    by (rule ext) (rule assms)
  then show ?thesis
    by (intro ext) (simp only: fold_fold_product)
qed

lemma xref_limits:
  assumes "unat (max_power_index c) < 128" and "vht_free c (limit_cells h)"
  shows "limit_cells (rtw_xref_txpwr_lmt c h) = (\<lambda>k. case k of (b, regd, wd, rs, ch) \<Rightarrow>
    if b \<and> regd < 13 \<and> wd \<le> 1 \<and> rs \<in> vht_sections \<and> ch < 49 then limit_cells h (b, regd, wd, ht_of rs, ch) else limit_cells h k)"
proof -
  let ?L = "List.product [0..<13] (List.product [0, 1 :: nat] (List.product [0..<49] rs_cmp))"
  let ?f = "\<lambda>(regd, wd, ch, ht, vht). rtw_xref_5g_txpwr_lmt c regd wd ch ht vht"
  let ?S = "\<lambda>(regd, wd, ch, ht, vht). {(True, regd, wd, vht, ch)}"
  let ?G = "\<lambda>(b, regd, wd, rs, ch) g. g (b, regd, wd, ht_of rs, ch)"
  have fl: "rtw_xref_txpwr_lmt c h = fold ?f ?L h"
  proof -
    have ch: "rtw_xref_5g_txpwr_lmt_by_ch c regd wd =
        fold (\<lambda>(ch, ht, vht). rtw_xref_5g_txpwr_lmt c regd wd ch ht vht) (List.product [0..<49] rs_cmp)" for regd wd
      unfolding rtw_xref_5g_txpwr_lmt_by_ch_def
      by (rule fold_product_eq [of _ "\<lambda>ch (ht, vht). rtw_xref_5g_txpwr_lmt c regd wd ch ht vht"])
        (rule rtw_xref_txpwr_lmt_by_rs_def)
    have bwl: "rtw_xref_txpwr_lmt_by_bw c regd = fold (\<lambda>(wd, ch, ht, vht). rtw_xref_5g_txpwr_lmt c regd wd ch ht vht)
        (List.product [0, 1] (List.product [0..<49] rs_cmp))" for regd
      unfolding rtw_xref_txpwr_lmt_by_bw_def
      by (rule fold_product_eq [of _ "\<lambda>wd (ch, ht, vht). rtw_xref_5g_txpwr_lmt c regd wd ch ht vht"]) (rule ch)
    show ?thesis
      unfolding rtw_xref_txpwr_lmt_def
      by (rule fun_cong [OF fold_product_eq [of _ "\<lambda>regd (wd, ch, ht, vht). rtw_xref_5g_txpwr_lmt c regd wd ch ht vht"]])
        (rule bwl)
  qed
  have L: "i \<in> set ?L \<longleftrightarrow> (case i of (regd, wd, ch, ht, vht) \<Rightarrow> regd < 13 \<and> wd \<le> 1 \<and> ch < 49 \<and> vht \<in> vht_sections \<and> ht = ht_of vht)" for i
    by (auto simp: rs_cmp_iff image_iff le_Suc_eq simp del: upt_rec_numeral)
  have un: "k \<in> (\<Union>i\<in>set ?L. ?S i) \<longleftrightarrow> (case k of (b, regd, wd, rs, ch) \<Rightarrow> b \<and> regd < 13 \<and> wd \<le> 1 \<and> rs \<in> vht_sections \<and> ch < 49)" for k
    unfolding UN_iff Bex_def L by (cases k) auto
  have "limit_cells (fold ?f ?L h) = (\<lambda>k. if k \<in> (\<Union>i\<in>set ?L. ?S i) then ?G k (limit_cells h) else limit_cells h k)
    \<and> vht_free c (limit_cells (fold ?f ?L h))"
  proof (rule fold_blocks [where P = "\<lambda>h. vht_free c (limit_cells h)"])
    have "distinct rs_cmp" by (simp add: rs_cmp_def)
    then show "distinct ?L"
      by (intro distinct_product distinct_upt) simp_all
  next
    fix i j assume "i \<in> set ?L" "j \<in> set ?L" "i \<noteq> j"
    then show "?S i \<inter> ?S j = {}"
      unfolding L by auto
  next
    fix i k and g g' :: "limit_key \<Rightarrow> s8"
    assume i: "i \<in> set ?L" "k \<in> ?S i" and eq: "\<And>j. j \<in> ?S i \<or> j \<notin> (\<Union>i\<in>set ?L. ?S i) \<Longrightarrow> g j = g' j"
    obtain regd wd rs ch where k: "k = (True, regd, wd, rs, ch)" "rs \<in> vht_sections"
      using i unfolding L by auto
    have "g (True, regd, wd, ht_of rs, ch) = g' (True, regd, wd, ht_of rs, ch)"
      using ht_of_not_vht [OF k(2)] by (intro eq disjI2) (simp only: un prod.case simp_thms)
    then show "?G k g = ?G k g'"
      by (simp add: k)
  next
    fix i h' assume i: "i \<in> set ?L" and P: "vht_free c (limit_cells h')"
    obtain regd wd ch vht where ii: "i = (regd, wd, ch, ht_of vht, vht)" "regd < 13" "wd \<le> 1" "ch < 49" "vht \<in> vht_sections"
      using i unfolding L by auto
    show "limit_cells (?f i h') = (\<lambda>k. if k \<in> ?S i then ?G k (limit_cells h') else limit_cells h' k) \<and> vht_free c (limit_cells (?f i h'))"
      unfolding ii(1) prod.case xref_cell [OF assms(1) P ii(2,3,5,4)]
      using xref_keeps_free [OF P ii(5)] by (auto simp: fun_upd_def fun_eq_iff)
  qed (use assms in auto)
  then show ?thesis
    unfolding fl by (auto simp only: un fun_eq_iff split: prod.split)
qed

section \<open>The limits after parsing\<close>

lemma init_ok:
  assumes "unat (max_power_index c) < 128"
  shows "ww_below c (limit_cells (rtw_phy_init_tx_power c h))" and "vht_open c (limit_cells (rtw_phy_init_tx_power c h))"
proof -
  show "ww_below c (limit_cells (rtw_phy_init_tx_power c h))"
    using to_regd_region sint_small [OF assms] by (simp add: ww_below_def limit_cells_init)
  show "vht_open c (limit_cells (rtw_phy_init_tx_power c h))"
    using vht_sections_less by (simp add: vht_open_def limit_cells_init limit_region_mem channels_eq)
qed

lemma xref_ok:
  assumes "unat (max_power_index c) < 128" and "ww_below c (limit_cells h)" and "vht_open c (limit_cells h)"
    and "(b, regd, wd, rs, ch) \<in> limit_region"
  shows "sint (limit_cells (rtw_xref_txpwr_lmt c h) (b, RTW_REGD_WW, wd, rs, ch)) \<le> sint (limit_cells (rtw_xref_txpwr_lmt c h) (b, regd, wd, rs, ch))"
    and "\<bar>sint (limit_cells (rtw_xref_txpwr_lmt c h) (b, regd, wd, rs, ch))\<bar> \<le> uint (max_power_index c)"
    and "b \<Longrightarrow> wd \<le> 1 \<Longrightarrow> rs \<in> vht_sections \<Longrightarrow>
      limit_cells (rtw_xref_txpwr_lmt c h) (b, regd, wd, rs, ch) = limit_cells (rtw_xref_txpwr_lmt c h) (b, regd, wd, ht_of rs, ch)"
proof -
  have free: "vht_free c (limit_cells h)"
    using assms(3) by (simp add: vht_open_def vht_free_def)
  have bound: "sint (limit_cells h (b, RTW_REGD_WW, wd, i, ch)) \<le> sint (limit_cells h (b, regd, wd, i, ch))"
      "\<bar>sint (limit_cells h (b, regd, wd, i, ch))\<bar> \<le> uint (max_power_index c)" if "i < 10" for i
    using assms(2) [unfolded ww_below_def, rule_format, of "(b, regd, wd, i, ch)"] assms(4) that
    by (simp_all add: limit_region_mem to_regd_def)
  note r = assms(4) [unfolded limit_region_mem]
  show "sint (limit_cells (rtw_xref_txpwr_lmt c h) (b, RTW_REGD_WW, wd, rs, ch)) \<le> sint (limit_cells (rtw_xref_txpwr_lmt c h) (b, regd, wd, rs, ch))"
    and "\<bar>sint (limit_cells (rtw_xref_txpwr_lmt c h) (b, regd, wd, rs, ch))\<bar> \<le> uint (max_power_index c)"
    using bound [of rs] bound [of "ht_of rs"] r ht_of_not_vht by (auto simp: xref_limits [OF assms(1) free])
  assume "b" "wd \<le> 1" "rs \<in> vht_sections"
  then show "limit_cells (rtw_xref_txpwr_lmt c h) (b, regd, wd, rs, ch) = limit_cells (rtw_xref_txpwr_lmt c h) (b, regd, wd, ht_of rs, ch)"
    using r ht_of_not_vht by (simp add: xref_limits [OF assms(1) free] channels_eq)
qed

text \<open>
  Property C36. When a table of limits that names no worldwide limit and no VHT limit for 20 and 40
  MHz at 5 GHz is parsed on initialised limits, then in every cell the worldwide limit is at most
  that of each regulatory domain, also of the domains that the table does not name, every limit is
  within the power range, and at 5 GHz, for 20 and 40 MHz, the VHT sections of one and of two streams
  have the limits of the HT sections. The table of the RTL8812A is such a table
  (\<open>rtw8812a_txpwr_lmt_ok\<close>).
\<close>

theorem rtw_parse_tbl_txpwr_lmt_worldwide:
  assumes "\<forall>p\<in>set tbl. lmt_regd p \<noteq> RTW_REGD_WW \<and> \<not> (lmt_band p = 1 \<and> lmt_bw p \<le> 1 \<and> lmt_rs p \<in> {4, 5, 8, 9})"
    and "unat (max_power_index c) < 128" and "regd < 13" "wd < 3" "rs < 10"
  shows "let h' = rtw_parse_tbl_txpwr_lmt c tbl (rtw_phy_init_tx_power c h) in
    (\<forall>ch<14. sint (tx_pwr_limit_2g h' RTW_REGD_WW wd rs ch) \<le> sint (tx_pwr_limit_2g h' regd wd rs ch)
       \<and> \<bar>sint (tx_pwr_limit_2g h' regd wd rs ch)\<bar> \<le> uint (max_power_index c)) \<and>
    (\<forall>ch<49. sint (tx_pwr_limit_5g h' RTW_REGD_WW wd rs ch) \<le> sint (tx_pwr_limit_5g h' regd wd rs ch)
       \<and> \<bar>sint (tx_pwr_limit_5g h' regd wd rs ch)\<bar> \<le> uint (max_power_index c)
       \<and> (wd \<le> 1 \<longrightarrow> tx_pwr_limit_5g h' regd wd 4 ch = tx_pwr_limit_5g h' regd wd 2 ch
            \<and> tx_pwr_limit_5g h' regd wd 5 ch = tx_pwr_limit_5g h' regd wd 3 ch))"
proof -
  define h2 where "h2 = fold (fill_regd (fold (\<lambda>p f. f OR BIT (lmt_regd p)) tbl 0)) [0..<RTW_REGD_MAX]
    (fold (set_limit_entry c) tbl (rtw_phy_init_tx_power c h))"
  have parse: "rtw_parse_tbl_txpwr_lmt c tbl (rtw_phy_init_tx_power c h) = rtw_xref_txpwr_lmt c h2"
    by (simp only: rtw_parse_tbl_txpwr_lmt_def Let_def h2_def)
  have "\<forall>p\<in>set tbl. lmt_regd p \<noteq> RTW_REGD_WW \<and> (lmt_band p = 1 \<and> lmt_bw p \<le> 1 \<longrightarrow> lmt_rs p \<notin> vht_sections)"
    using assms(1) by (auto simp: vht_sections_def)
  then have ok: "ww_below c (limit_cells h2)" "vht_open c (limit_cells h2)"
    unfolding h2_def using assms(2) by (simp_all add: fold_fill_keeps fold_entries init_ok del: upt_rec_numeral)
  have reg: "(b, regd, wd, i, ch) \<in> limit_region \<longleftrightarrow> i < 10 \<and> ch < channels b" for b i ch
    using assms(3,4) by (simp add: limit_region_mem)
  note x = xref_ok [OF assms(2) ok, where regd = regd and wd = wd, unfolded reg]
  have "(wd \<le> 1 \<longrightarrow> tx_pwr_limit_5g (rtw_xref_txpwr_lmt c h2) regd wd 4 ch = tx_pwr_limit_5g (rtw_xref_txpwr_lmt c h2) regd wd 2 ch
            \<and> tx_pwr_limit_5g (rtw_xref_txpwr_lmt c h2) regd wd 5 ch = tx_pwr_limit_5g (rtw_xref_txpwr_lmt c h2) regd wd 3 ch)" if "ch < 49" for ch
    using that x(3) [where b = True and rs = 4 and ch = ch] x(3) [where b = True and rs = 5 and ch = ch] by (simp add: limit_cells_apply channels_eq vht_sections_def ht_of_def)
  then show ?thesis
    using assms(5) x(1,2) [where b = False and rs = rs] x(1,2) [where b = True and rs = rs]
    unfolding Let_def parse by (simp add: limit_cells_apply channels_eq)
qed

text \<open>The witness: the chip's own table, whose worldwide limit is below the one of Mexico (8).\<close>

lemma rtw8812a_txpwr_lmt_ok:
  "\<forall>p\<in>set rtw8812a_txpwr_lmt. lmt_regd p \<noteq> RTW_REGD_WW \<and> \<not> (lmt_band p = 1 \<and> lmt_bw p \<le> 1 \<and> lmt_rs p \<in> {4, 5, 8, 9})"
  by code_simp

lemma rtw_parse_tbl_txpwr_lmt_worldwide_witness:
  "\<forall>h. let h' = rtw_parse_tbl_txpwr_lmt rtw8812a_pwr_chip rtw8812a_txpwr_lmt (rtw_phy_init_tx_power rtw8812a_pwr_chip h) in
     \<forall>ch\<in>{..<14}. sint (tx_pwr_limit_2g h' RTW_REGD_WW 0 1 ch) \<le> sint (tx_pwr_limit_2g h' 8 0 1 ch)"
proof
  fix h
  show "let h' = rtw_parse_tbl_txpwr_lmt rtw8812a_pwr_chip rtw8812a_txpwr_lmt (rtw_phy_init_tx_power rtw8812a_pwr_chip h) in
     \<forall>ch\<in>{..<14}. sint (tx_pwr_limit_2g h' RTW_REGD_WW 0 1 ch) \<le> sint (tx_pwr_limit_2g h' 8 0 1 ch)"
    using rtw_parse_tbl_txpwr_lmt_worldwide [OF rtw8812a_txpwr_lmt_ok, of rtw8812a_pwr_chip 8 0 1 h]
    by (simp add: Let_def rtw8812a_pwr_chip_def)
qed

end
