(* ===== verification/PhyPower.thy ===== *)
theory PhyPower
  imports PhyDm Phy
begin

text \<open>
  Transmit power on the device (\<open>phy.c\<close>, \<open>sar.c\<close>, \<open>regd.c\<close>, \<open>main.c\<close>): loading the tables when the
  board is set up, the power level of a channel, limits for the specific absorption rate, and the
  choice of a power tracking table.
\<close>

definition tp_upd :: "(rtw_txpwr \<Rightarrow> rtw_txpwr) \<Rightarrow> ('e, 'x, unit) core" where
  "tp_upd f = dev_upd (\<lambda>s. s\<lparr>txpwr := f (txpwr s)\<rparr>)"

section \<open>Board setup\<close>

definition rtw_get_rfe_def :: "('e, 'x) rtw_core_scheme \<Rightarrow> rtw_rfe_def option" where
  "rtw_get_rfe_def s =
     (if rfe_defs s = [] then None
      else if unat (ef_rfe_option (efuse s)) < length (rfe_defs s) then Some (rfe_defs s ! unat (ef_rfe_option (efuse s)))
      else None)"

definition rtw_check_supported_rfe :: "('e, 'x) rtw_core_scheme \<Rightarrow> int" where
  "rtw_check_supported_rfe s = (case rtw_get_rfe_def s of None \<Rightarrow> - ENODEV | Some _ \<Rightarrow> 0)"

definition rtw_parse_tbl_bb_pg :: "rtw_phy_pg_cfg_pair list \<Rightarrow> ('e, 'x, unit) core" where
  "rtw_parse_tbl_bb_pg tbl =
     do { c \<leftarrow> dev_get pwr_chip;
          for_each tbl (\<lambda>p.
            if pg_addr p = 0xfe \<or> pg_addr p = 0xffe then delay_us 50000
            else tp_upd (rtw_phy_store_tx_power_by_rate (is_pwr_by_rate_dec c) (pg_band p) (pg_rf_path p)
                   (pg_addr p) (pg_bitmask p) (pg_data p))) }"

definition rtw_chip_board_info_setup :: "('e, 'x, int) core" where
  "rtw_chip_board_info_setup =
     do { r \<leftarrow> dev_get rtw_get_rfe_def;
          case r of None \<Rightarrow> State_Monad.return (- ENODEV)
          | Some rfe_def \<Rightarrow>
              do { pkg \<leftarrow> dev_get pkg_type;
                   c \<leftarrow> dev_get pwr_chip;
                   rtw_phy_setup_phy_cond (ucast pkg);
                   tp_upd (rtw_phy_init_tx_power c);
                   rtw_parse_tbl_bb_pg (phy_pg_tbl rfe_def);
                   tp_upd (rtw_parse_tbl_txpwr_lmt c (txpwr_lmt_tbl rfe_def));
                   tp_upd rtw_phy_tx_power_by_rate_config;
                   tp_upd rtw_phy_tx_power_limit_config;
                   State_Monad.return 0 } }"

section \<open>The power level of a channel\<close>

definition rtw_regd_get :: "('e, 'x) rtw_core_scheme \<Rightarrow> nat" where
  "rtw_regd_get s = (if hal_current_band_type (hal s) = RTW_BAND_2G then txpwr_regd_2g s else txpwr_regd_5g s)"

definition rtw_phy_set_tx_power_index_by_rs :: "nat \<Rightarrow> nat \<Rightarrow> nat \<Rightarrow> ('e, 'x, unit) core" where
  "rtw_phy_set_tx_power_index_by_rs ch path rs =
     do { regd \<leftarrow> dev_get rtw_regd_get;
          wd \<leftarrow> dev_get (\<lambda>s. unat (hal_current_band_width (hal s)));
          if RTW_RATE_SECTION_NUM \<le> rs then skip
          else for_each (rtw_rate_section ! rs) (\<lambda>r.
            do { pwr_idx \<leftarrow> dev_get (\<lambda>s. rtw_phy_get_tx_power_index (pwr_chip s) (efuse s) (dm_info s) (txpwr s) path r wd ch regd);
                 hal_upd (\<lambda>h. h\<lparr>hal_tx_pwr_tbl := upd2 (hal_tx_pwr_tbl h) path r pwr_idx\<rparr>) }) }"

definition rtw_phy_set_tx_power_level_by_path :: "nat \<Rightarrow> nat \<Rightarrow> ('e, 'x, unit) core" where
  "rtw_phy_set_tx_power_level_by_path ch path =
     do { band \<leftarrow> dev_get (\<lambda>s. hal_current_band_type (hal s));
          for_each [(if band = RTW_BAND_2G then RTW_RATE_SECTION_CCK else RTW_RATE_SECTION_OFDM)..<RTW_RATE_SECTION_NUM]
            (rtw_phy_set_tx_power_index_by_rs ch path) }"

text \<open>\<open>set_tx_power_index\<close> is the operation of the chip.\<close>

definition rtw_phy_set_tx_power_level :: "('e, 'x, unit) core \<Rightarrow> u8 \<Rightarrow> ('e, 'x, unit) core" where
  "rtw_phy_set_tx_power_level set_tx_power_index channel =
     do { for_paths (rtw_phy_set_tx_power_level_by_path (unat channel)); set_tx_power_index }"

section \<open>Specific absorption rate\<close>

definition rtw_apply_sar :: "('e, 'x, unit) core \<Rightarrow> rtw_sar \<Rightarrow> ('e, 'x, int) core" where
  "rtw_apply_sar set_tx_power_index new =
     do { sar \<leftarrow> dev_get (\<lambda>s. hal_sar (txpwr s));
          if sar_src sar \<noteq> RTW_SAR_SOURCE_NONE \<and> sar_src new \<noteq> sar_src sar then State_Monad.return (- EBUSY)
          else do { tp_upd (\<lambda>h. h\<lparr>hal_sar := new\<rparr>);
                    ch \<leftarrow> dev_get (\<lambda>s. hal_current_channel (hal s));
                    rtw_phy_set_tx_power_level set_tx_power_index ch;
                    State_Monad.return 0 } }"

text \<open>A specification is its type (true for a power) and a list of frequency ranges and powers.\<close>

definition rtw_set_sar_specs :: "('e, 'x, unit) core \<Rightarrow> bool \<Rightarrow> (nat \<times> int) list \<Rightarrow> ('e, 'x, int) core" where
  "rtw_set_sar_specs set_tx_power_index type_power specs =
     (if \<not> type_power then State_Monad.return (- EINVAL)
      else do { c \<leftarrow> dev_get pwr_chip;
                h \<leftarrow> dev_get txpwr;
                case sar_specs_loop c h specs (new_sar c) of
                  None \<Rightarrow> State_Monad.return (- EINVAL)
                | Some new \<Rightarrow> rtw_apply_sar set_tx_power_index new })"

section \<open>The power tracking table\<close>

definition trk_5g :: "rtw_pwr_track_tbl \<Rightarrow> nat \<Rightarrow> rtw_swing_table" where
  "trk_5g t i = \<lparr>swing_p = (\<lambda>path. pwrtrk_5g_p t path i), swing_n = (\<lambda>path. pwrtrk_5g_n t path i)\<rparr>"

definition rtw_phy_config_swing_table :: "rtw_pwr_track_tbl \<Rightarrow> u8 \<Rightarrow> u8 \<Rightarrow> rtw_swing_table" where
  "rtw_phy_config_swing_table t channel tx_rate =
     (if channel \<le> 14 then
        (if unat tx_rate \<le> DESC_RATE11M then \<lparr>swing_p = pwrtrk_2g_cck_p t, swing_n = pwrtrk_2g_cck_n t\<rparr>
         else \<lparr>swing_p = pwrtrk_2g_p t, swing_n = pwrtrk_2g_n t\<rparr>)
      else if 36 \<le> channel \<and> channel \<le> 48 \<or> 52 \<le> channel \<and> channel \<le> 64 then trk_5g t 0
      else if 100 \<le> channel \<and> channel \<le> 144 then trk_5g t 1
      else if 149 \<le> channel \<and> channel \<le> 177 then trk_5g t 2
      else \<lparr>swing_p = pwrtrk_2g_p t, swing_n = pwrtrk_2g_n t\<rparr>)"

end
