(* ===== verification/XxaDm.thy ===== *)
theory XxaDm
  imports PhyPower Iqk8812a Tables8812a TxTables8812a
begin

text \<open>
  The chip's part of the dynamic mechanism (\<open>rtw88xxa.c\<close>, \<open>rtw8812a.c\<close>): the transmit power
  registers, false alarm counters, temperature compensation, CCK packet detection and calibration,
  and the record of operations the watchdog calls.
\<close>

section \<open>Transmit power registers\<close>

definition offset_txagc :: "nat \<Rightarrow> u32" where
  "offset_txagc path = [REG_TX_AGC_A_CCK_11_CCK_1, REG_TX_AGC_B_CCK_11_CCK_1] ! path"

text \<open>Four powers are collected into one register; what is collected is carried from section to section.\<close>

fun set_power_rates :: "rtw_hal \<Rightarrow> nat \<Rightarrow> nat list \<Rightarrow> u32 \<Rightarrow> ('e, 'x, u32) phy" where
  "set_power_rates h path [] phy_pwr_idx = State_Monad.return phy_pwr_idx"
| "set_power_rates h path (r # rs) phy_pwr_idx =
     (let pwr_index = hal_tx_pwr_tbl h path r;
          shift = r mod 4;
          phy_pwr_idx = phy_pwr_idx OR push_bit (shift * 8) (ucast pwr_index);
          write_1ss_mcs9 = r = DESC_RATEVHT1SS_MCS9 \<and> hal_rf_path_num h = 1;
          mask' = (if write_1ss_mcs9 then MASKLWORD else MASKDWORD)
      in if shift = 3 \<or> write_1ss_mcs9
         then let rate_idx = r - shift;
                  rate_idx = (if DESC_RATEVHT1SS_MCS0 \<le> r then rate_idx - 0x10 else rate_idx)
              in do { rtw_write32_mask (offset_txagc path + of_nat rate_idx) mask' phy_pwr_idx;
                      set_power_rates h path rs 0 }
         else set_power_rates h path rs phy_pwr_idx)"

definition rtw88xxa_set_tx_power_index_by_rate :: "nat \<Rightarrow> nat \<Rightarrow> u32 \<Rightarrow> ('e, 'x, u32) phy" where
  "rtw88xxa_set_tx_power_index_by_rate path rs phy_pwr_idx =
     do { h \<leftarrow> dev_get hal; set_power_rates h path (rtw_rate_section ! rs) phy_pwr_idx }"

text \<open>The level is an \<open>s8\<close> made a \<open>u32\<close>, and the three offsets add up.\<close>

definition tx_power_training_data :: "s8 \<Rightarrow> u32" where
  "tx_power_training_data level =
     (let p0 = scast level - 10; p1 = p0 - 8; p2 = p1 - 6
      in max p0 2 OR push_bit 8 (max p1 2) OR push_bit 16 (max p2 2))"

definition rtw88xxa_tx_power_training :: "nat \<Rightarrow> ('e, 'x, unit) phy" where
  "rtw88xxa_tx_power_training path =
     do { level \<leftarrow> dev_get (\<lambda>s. hal_tx_pwr_tbl (hal s) path DESC_RATEMCS7);
          rtw_write32_mask ([REG_TX_PWR_TRAINING_A, REG_TX_PWR_TRAINING_B] ! path) 0xffffff (tx_power_training_data level) }"

definition skip_section :: "rtw_hal \<Rightarrow> bool \<Rightarrow> nat \<Rightarrow> bool" where
  "skip_section h scanning rs \<longleftrightarrow>
     hal_rf_path_num h = 1 \<and> (rs = RTW_RATE_SECTION_HT_2S \<or> rs = RTW_RATE_SECTION_VHT_2S) \<or>
     scanning \<and> RTW_RATE_SECTION_OFDM < rs \<or>
     hal_current_band_type h = RTW_BAND_5G \<and> rs = RTW_RATE_SECTION_CCK"

fun set_power_sections :: "nat \<Rightarrow> nat list \<Rightarrow> u32 \<Rightarrow> ('e, 'x, u32) phy" where
  "set_power_sections path [] phy_pwr_idx = State_Monad.return phy_pwr_idx"
| "set_power_sections path (rs # rss) phy_pwr_idx =
     do { h \<leftarrow> dev_get hal;
          scanning \<leftarrow> dev_get rtw_phy.flag_scanning;
          if skip_section h scanning rs then set_power_sections path rss phy_pwr_idx
          else do { phy_pwr_idx \<leftarrow> rtw88xxa_set_tx_power_index_by_rate path rs phy_pwr_idx;
                    set_power_sections path rss phy_pwr_idx } }"

fun set_power_paths :: "nat list \<Rightarrow> u32 \<Rightarrow> ('e, 'x, unit) phy" where
  "set_power_paths [] phy_pwr_idx = skip"
| "set_power_paths (path # paths) phy_pwr_idx =
     do { phy_pwr_idx \<leftarrow> set_power_sections path [0..<6] phy_pwr_idx;
          rtw88xxa_tx_power_training path;
          set_power_paths paths phy_pwr_idx }"

definition rtw88xxa_set_tx_power_index :: "('e, 'x, unit) phy" where
  "rtw88xxa_set_tx_power_index =
     do { n \<leftarrow> dev_get (\<lambda>s. unat (hal_rf_path_num (hal s))); set_power_paths [0..<n] 0 }"

section \<open>False alarms\<close>

definition lo_word :: "u32 \<Rightarrow> u32" where "lo_word w = w AND 0xffff"

definition hi_word :: "u32 \<Rightarrow> u32" where "hi_word w = drop_bit 16 w"

definition rtw88xxa_false_alarm_statistics :: "('e, 'x, unit) phy" where
  "rtw88xxa_false_alarm_statistics =
     do { rxpsel \<leftarrow> rtw_read32 REG_RXPSEL;
          let cck_enable = (rxpsel AND BIT 28 \<noteq> 0);
          cck_fa \<leftarrow> rtw_read16 REG_FA_CCK;
          ofdm_fa \<leftarrow> rtw_read16 REG_FA_OFDM;
          dm_upd (\<lambda>d. d\<lparr>dm_cck_fa_cnt := ucast cck_fa, dm_ofdm_fa_cnt := ucast ofdm_fa,
            dm_total_fa_cnt := ucast ofdm_fa + (if cck_enable then ucast cck_fa else 0)\<rparr>);
          v \<leftarrow> rtw_read32 REG_CRC_CCK;
          dm_upd (\<lambda>d. d\<lparr>dm_cck_ok_cnt := lo_word v, dm_cck_err_cnt := hi_word v\<rparr>);
          v \<leftarrow> rtw_read32 REG_CRC_OFDM;
          dm_upd (\<lambda>d. d\<lparr>dm_ofdm_ok_cnt := lo_word v, dm_ofdm_err_cnt := hi_word v\<rparr>);
          v \<leftarrow> rtw_read32 REG_CRC_HT;
          dm_upd (\<lambda>d. d\<lparr>dm_ht_ok_cnt := lo_word v, dm_ht_err_cnt := hi_word v\<rparr>);
          v \<leftarrow> rtw_read32 REG_CRC_VHT;
          dm_upd (\<lambda>d. d\<lparr>dm_vht_ok_cnt := lo_word v, dm_vht_err_cnt := hi_word v\<rparr>);
          v \<leftarrow> rtw_read32 REG_CCA_OFDM;
          dm_upd (\<lambda>d. d\<lparr>dm_ofdm_cca_cnt := hi_word v, dm_total_cca_cnt := hi_word v\<rparr>);
          (if cck_enable
           then do { v \<leftarrow> rtw_read32 REG_CCA_CCK;
                     dm_upd (\<lambda>d. d\<lparr>dm_cck_cca_cnt := lo_word v, dm_total_cca_cnt := dm_total_cca_cnt d + lo_word v\<rparr>) }
           else skip);
          rtw_write32_set REG_FAS (BIT 17);
          rtw_write32_clr REG_FAS (BIT 17);
          rtw_write32_clr REG_CCK0_FAREPORT (BIT 15);
          rtw_write32_set REG_CCK0_FAREPORT (BIT 15);
          rtw_write32_set REG_CNTRST (BIT 0);
          rtw_write32_clr REG_CNTRST (BIT 0) }"

section \<open>Temperature compensation\<close>

definition pwr_tracking_limit :: "u8 \<Rightarrow> u8" where
  "pwr_tracking_limit tx_rate =
     (let r = unat tx_rate
      in if r \<le> DESC_RATE11M then 32
         else if 0x04 \<le> r \<and> r \<le> 0x0a \<or> 0x0f \<le> r \<and> r \<le> 0x10 \<or> 0x17 \<le> r \<and> r \<le> 0x18 \<or>
                 0x2f \<le> r \<and> r \<le> 0x30 \<or> 0x39 \<le> r \<and> r \<le> 0x3a then 30
         else if r = 0x0b \<or> 0x11 \<le> r \<and> r \<le> 0x13 \<or> 0x19 \<le> r \<and> r \<le> 0x1b \<or>
                 0x31 \<le> r \<and> r \<le> 0x32 \<or> 0x3b \<le> r \<and> r \<le> 0x3c then 28
         else if 0x0c \<le> r \<and> r \<le> 0x0e \<or> 0x14 \<le> r \<and> r \<le> 0x16 \<or>
                 0x2c \<le> r \<and> r \<le> 0x2e \<or> 0x36 \<le> r \<and> r \<le> 0x38 then 34
         else if r = 0x33 \<or> r = 0x3d then 26
         else if r = 0x35 \<or> r = 0x3f then 22
         else 24)"

definition set_remnant :: "nat \<Rightarrow> s8 \<Rightarrow> s8 \<Rightarrow> 'e rtw_dm_info \<Rightarrow> 'e rtw_dm_info" where
  "set_remnant path cck ofdm' d =
     d\<lparr>dm_txagc_remnant_cck := (if path = RF_PATH_A then cck else dm_txagc_remnant_cck d),
       dm_txagc_remnant_ofdm := (dm_txagc_remnant_ofdm d)(path := ofdm')\<rparr>"

text \<open>The two swing indices are bytes; the result is the index used and the new remnants.\<close>

definition pwrtrack_split :: "u8 \<Rightarrow> nat \<Rightarrow> 'e rtw_dm_info \<Rightarrow> u8 \<times> 'e rtw_dm_info" where
  "pwrtrack_split tx_rate path d =
     (let limit = pwr_tracking_limit tx_rate;
          cck_swing_idx = dm_delta_power_index d path + dm_default_cck_index d;
          ofdm_swing_idx = dm_delta_power_index d path + dm_default_ofdm_index d
      in if limit < ofdm_swing_idx then (limit, set_remnant path (cck_swing_idx - limit) (ofdm_swing_idx - limit) d)
         else if ofdm_swing_idx = 0 then (ofdm_swing_idx, set_remnant path cck_swing_idx ofdm_swing_idx d)
         else (ofdm_swing_idx, set_remnant path 0 0 d))"

definition rtw88xxa_pwrtrack_set :: "u8 \<Rightarrow> nat \<Rightarrow> ('e, 'x, unit) phy" where
  "rtw88xxa_pwrtrack_set tx_rate path =
     do { (idx, d) \<leftarrow> dev_get (\<lambda>s. pwrtrack_split tx_rate path (dm_info s));
          dm_upd (\<lambda>_. d);
          rtw_write32_mask ([REG_TXSCALE_A, REG_TXSCALE_B] ! path) (GENMASK 31 21) (rtw88xxa_txscale_tbl ! unat idx) }"

text \<open>The loop over the paths; the old remnants are collected.\<close>

fun pwrtrack_paths :: "rtw_swing_table \<Rightarrow> u8 \<Rightarrow> nat list \<Rightarrow> ('e, 'x, (nat \<times> s8) list) phy" where
  "pwrtrack_paths swing delta [] = State_Monad.return []"
| "pwrtrack_paths swing delta (path # paths) =
     do { pre \<leftarrow> dev_get (\<lambda>s. dm_txagc_remnant_ofdm (dm_info s) path);
          idx \<leftarrow> dev_get (\<lambda>s. rtw_phy_pwrtrack_get_pwridx s (Some swing) path RF_PATH_A delta);
          dm_upd (\<lambda>d. d\<lparr>dm_delta_power_index := (dm_delta_power_index d)(path := idx)\<rparr>);
          d \<leftarrow> dev_get dm_info;
          when_do (idx \<noteq> dm_delta_power_index_last d path)
            (do { dm_upd (\<lambda>d. d\<lparr>dm_delta_power_index_last := (dm_delta_power_index_last d)(path := idx)\<rparr>);
                  rtw88xxa_pwrtrack_set (dm_tx_rate d) path });
          rest \<leftarrow> pwrtrack_paths swing delta paths;
          State_Monad.return ((path, pre) # rest) }"

text \<open>\<open>None\<close> is an out-of-bounds store of the calibration.\<close>

definition pwrtrack_iqk :: "bool \<Rightarrow> ('e, 'x, unit option) core \<Rightarrow> ('e, 'x, unit option) core" where
  "pwrtrack_iqk need_iqk do_iqk = (if need_iqk then do_iqk else State_Monad.return (Some ()))"

definition rtw88xxa_phy_pwrtrack ::
    "rtw_pwr_track_tbl \<Rightarrow> ('e, 'x, unit) core option \<Rightarrow> ('e, 'x, unit option) core \<Rightarrow> ('e, 'x, unit option) core" where
  "rtw88xxa_phy_pwrtrack trk do_lck do_iqk =
     do { ch \<leftarrow> dev_get (\<lambda>s. hal_current_channel (hal s));
          tx_rate \<leftarrow> dev_get (\<lambda>s. dm_tx_rate (dm_info s));
          let swing = rtw_phy_config_swing_table trk ch tx_rate;
          meter \<leftarrow> dev_get (\<lambda>s. ef_thermal_meter (efuse s) 0);
          if meter = 0xff then State_Monad.return (Some ())
          else do {
            v \<leftarrow> rtw_read_rf RF_PATH_A RF_T_METER 0xfc00;
            let thermal_value = ucast v;
            rtw_phy_pwrtrack_avg thermal_value RF_PATH_A;
            need_iqk \<leftarrow> rtw_phy_pwrtrack_need_iqk;
            when_do need_iqk (call_op do_lck);
            init \<leftarrow> dev_get (\<lambda>s. dm_pwr_trk_init_trigger (dm_info s));
            changed \<leftarrow> dev_get (\<lambda>s. rtw_phy_pwrtrack_thermal_changed s thermal_value RF_PATH_A);
            when_do init (dm_upd (\<lambda>d. d\<lparr>dm_pwr_trk_init_trigger := False\<rparr>));
            if \<not> init \<and> \<not> changed then pwrtrack_iqk need_iqk do_iqk
            else do {
              delta \<leftarrow> dev_get (\<lambda>s. rtw_phy_pwrtrack_get_delta s RF_PATH_A);
              n \<leftarrow> dev_get (\<lambda>s. unat (hal_rf_path_num (hal s)));
              pres \<leftarrow> pwrtrack_paths swing delta [0..<n];
              d \<leftarrow> dev_get dm_info;
              when_do (list_ex (\<lambda>(path, pre). pre \<noteq> dm_txagc_remnant_ofdm d path) pres)
                (rtw_phy_set_tx_power_level rtw88xxa_set_tx_power_index ch);
              pwrtrack_iqk need_iqk do_iqk } } }"

definition rtw8812a_pwr_track :: "rtw_pwr_track_tbl \<Rightarrow> ('e, 'x, unit option) core" where
  "rtw8812a_pwr_track trk =
     do { triggered \<leftarrow> dev_get (\<lambda>s. dm_pwr_trk_triggered (dm_info s));
          if \<not> triggered
          then do { rtw_write_rf RF_PATH_A RF_T_METER (GENMASK 17 16) 0x03;
                    dm_upd (\<lambda>d. d\<lparr>dm_pwr_trk_triggered := True\<rparr>);
                    State_Monad.return (Some ()) }
          else do { r \<leftarrow> rtw88xxa_phy_pwrtrack trk (Some rtw8812a_do_lck) rtw8812a_do_iqk;
                    (case r of None \<Rightarrow> State_Monad.return None
                     | Some _ \<Rightarrow> do { dm_upd (\<lambda>d. d\<lparr>dm_pwr_trk_triggered := False\<rparr>);
                                      State_Monad.return (Some ()) }) } }"

section \<open>CCK packet detection\<close>

text \<open>\<open>None\<close> leaves the level alone.\<close>

definition cck_pd_level :: "bool \<Rightarrow> 'e rtw_dm_info \<Rightarrow> u8 \<Rightarrow> u8 option" where
  "cck_pd_level assoc d new_lvl =
     (if \<not> assoc then Some new_lvl
      else if 60 < dm_min_rssi d then Some CCK_PD_LV3
      else if 35 < dm_min_rssi d then Some CCK_PD_LV2
      else if 20 < dm_min_rssi d then
        (if 500 < dm_cck_fa_avg d then Some CCK_PD_LV2
         else if dm_cck_fa_avg d < 250 then Some CCK_PD_LV1 else None)
      else Some CCK_PD_LV1)"

definition cck_pd_thresholds :: "u8 list" where
  "cck_pd_thresholds = [0x40, 0x83, 0xcd, 0xdd, 0xed]"

definition rtw88xxa_phy_cck_pd_set :: "u8 \<Rightarrow> ('e, 'x, unit) phy" where
  "rtw88xxa_phy_cck_pd_set new_lvl =
     do { l \<leftarrow> dev_get (\<lambda>s. cck_pd_level (is_assoc s) (dm_info s) new_lvl);
          old \<leftarrow> dev_get (\<lambda>s. dm_cck_pd_lv (dm_info s) 0 RF_PATH_A);
          (case l of None \<Rightarrow> skip
           | Some lvl \<Rightarrow>
               if old = lvl then skip
               else do { dm_upd (\<lambda>d. d\<lparr>dm_cck_fa_avg := CCK_FA_AVG_RESET,
                           dm_cck_pd_lv := upd2 (dm_cck_pd_lv d) 0 RF_PATH_A lvl\<rparr>);
                         rtw_write8 REG_CCK_PD_TH (cck_pd_thresholds ! unat lvl) }) }"

section \<open>Calibration after a channel change\<close>

definition rtw8812a_phy_calibration :: "('e, 'x, unit option) phy" where
  "rtw8812a_phy_calibration =
     do { channel \<leftarrow> dev_get (\<lambda>s. hal_current_channel (hal s));
          r \<leftarrow> rtw8812a_do_iqk;
          (if 36 \<le> channel \<and> channel \<le> 64 then rtw_load_table rtw8812a_agc_diff_lb_tbl
           else if 100 \<le> channel then rtw_load_table rtw8812a_agc_diff_hb_tbl
           else skip);
          State_Monad.return r }"

end
