(* ===== verification/XxaDmProps.thy ===== *)
theory XxaDmProps
  imports XxaDm Calculus
begin

text \<open>
  The transmit power registers get every rate's power exactly once, and the temperature
  compensation is split between the baseband swing and the transmit gain without loss.
\<close>

section \<open>Temperature compensation\<close>

lemma uint_add_signed: "uint (a + b :: s8) = (sint a + uint b) mod 256"
proof -
  have "uint a = sint a mod 256"
    by (simp add: uint_sint take_bit_eq_mod)
  then show ?thesis
    by (simp add: uint_word_ariths mod_add_left_eq)
qed

lemma pwr_tracking_limit_cases: "pwr_tracking_limit r \<in> {22, 24, 26, 28, 30, 32, 34}"
  by (simp add: pwr_tracking_limit_def Let_def)

lemma sint_diff_small:
  assumes "uint (b :: s8) \<le> uint a" and "uint a \<le> 127"
  shows "sint (a - b) = uint a - uint b"
proof -
  have "0 \<le> uint a - uint b" "uint a - uint b \<le> 127"
    using assms uint_ge_0 [of b] by linarith+
  moreover from this have "uint (a - b) = uint a - uint b"
    by (simp add: uint_word_ariths)
  ultimately show ?thesis
    by (simp only: sint_uint) (rule signed_take_bit_int_eq_self, simp_all)
qed

lemma sint_of_le: "uint (w :: s8) \<le> 127 \<Longrightarrow> sint w = uint w"
  using sint_diff_small [of 0 w] by simp

text \<open>
  The change of power that the temperature asks for, the sum of the default swing
  index and the power index of the tables, is split between the index written to the baseband,
  which stays within the limit of the rate and so within the table of scales, and the remnant left
  for the transmit gain: for a sum from 0 to 127 nothing is lost or counted twice. A negative sum
  wraps to a large byte, which gives the limit, the strongest setting.
\<close>

theorem pwrtrack_split_conserves:
  "let total' = sint (dm_delta_power_index d path) + uint (dm_default_ofdm_index d);
       (idx, d') = pwrtrack_split tx_rate path d
   in idx \<le> pwr_tracking_limit tx_rate \<and> unat idx < length rtw88xxa_txscale_tbl
    \<and> (0 \<le> total' \<and> total' \<le> 127 \<longrightarrow> uint idx + sint (dm_txagc_remnant_ofdm d' path) = total')
    \<and> (total' < 0 \<longrightarrow> idx = pwr_tracking_limit tx_rate)"
proof -
  let ?l = "pwr_tracking_limit tx_rate"
  let ?w = "dm_delta_power_index d path + dm_default_ofdm_index d"
  let ?t = "sint (dm_delta_power_index d path) + uint (dm_default_ofdm_index d)"
  have l: "uint ?l \<le> 34" "0 < uint ?l"
    using pwr_tracking_limit_cases [of tx_rate] by auto
  have ul: "unat ?l < 37"
    using pwr_tracking_limit_cases [of tx_rate] by auto
  have len: "length rtw88xxa_txscale_tbl = 37"
    by (simp add: rtw88xxa_txscale_tbl_def)
  have "- 128 \<le> sint (dm_delta_power_index d path)"
    using sint_greater_eq [of "dm_delta_power_index d path"] by simp
  then have t: "- 128 \<le> ?t"
    using uint_ge_0 [of "dm_default_ofdm_index d"] by linarith
  have w: "uint ?w = ?t mod 256"
    by (rule uint_add_signed)
  have pos: "uint ?w = ?t" if "0 \<le> ?t" "?t \<le> 127"
    using that w by simp
  have neg: "uint ?l < uint ?w" if "?t < 0"
  proof -
    have "(?t + 256) mod 256 = ?t + 256"
      using that t by (intro mod_pos_pos_trivial) linarith+
    with w l that t show ?thesis by simp
  qed
  show ?thesis
  proof (cases "?l < ?w")
    case True
    then have lt: "uint ?l < uint ?w"
      by (simp add: word_less_def)
    have "uint ?l + sint (?w - ?l) = ?t" if "0 \<le> ?t" "?t \<le> 127"
      using sint_diff_small [of ?l ?w] pos that lt by linarith
    with True ul len show ?thesis
      by (auto simp: pwrtrack_split_def Let_def set_remnant_def)
  next
    case False
    then have "\<not> uint ?l < uint ?w" "uint ?w \<le> uint ?l"
      by (simp_all add: word_less_def)
    moreover from False ul have "unat ?w < 37"
      by (simp add: word_less_nat_alt)
    ultimately show ?thesis
      using False len neg pos by (auto simp: pwrtrack_split_def Let_def set_remnant_def)
  qed
qed

lemma pwrtrack_split_conserves_witness:
  "\<forall>d. let d1 = d\<lparr>dm_delta_power_index := \<lambda>_. 6, dm_default_ofdm_index := 30\<rparr>;
         d2 = d\<lparr>dm_delta_power_index := \<lambda>_. - 12, dm_default_ofdm_index := 6\<rparr>
     in uint (fst (pwrtrack_split 0x0b 0 d1)) + sint (dm_txagc_remnant_ofdm (snd (pwrtrack_split 0x0b 0 d1)) 0) = 36
      \<and> fst (pwrtrack_split 0x0b 0 d2) = 28"
proof
  fix d :: "'a rtw_dm_info"
  let ?d1 = "d\<lparr>dm_delta_power_index := \<lambda>_. 6, dm_default_ofdm_index := 30\<rparr>"
  let ?d2 = "d\<lparr>dm_delta_power_index := \<lambda>_. - 12, dm_default_ofdm_index := 6\<rparr>"
  have v: "sint (6 :: s8) = 6" "sint (- 12 :: s8) = - 12" "pwr_tracking_limit 0x0b = 28"
    by (simp_all add: pwr_tracking_limit_def)
  have "uint (fst (pwrtrack_split 0x0b 0 ?d1)) + sint (dm_txagc_remnant_ofdm (snd (pwrtrack_split 0x0b 0 ?d1)) 0) = 36"
    using pwrtrack_split_conserves [of ?d1 0 "0x0b"] by (simp add: Let_def v split_beta)
  moreover have "fst (pwrtrack_split 0x0b 0 ?d2) = 28"
    using pwrtrack_split_conserves [of ?d2 0 "0x0b"] by (simp add: Let_def v split_beta)
  ultimately show "let d1 = ?d1; d2 = ?d2
     in uint (fst (pwrtrack_split 0x0b 0 d1)) + sint (dm_txagc_remnant_ofdm (snd (pwrtrack_split 0x0b 0 d1)) 0) = 36
      \<and> fst (pwrtrack_split 0x0b 0 d2) = 28"
    by (simp add: Let_def)
qed

section \<open>Transmit power registers\<close>

text \<open>
  The reference: a register holds the powers of \<open>n\<close> consecutive rates, and there is one for each
  group of rates, in the order of the registers.
\<close>

definition agc_word :: "(nat \<Rightarrow> s8) \<Rightarrow> nat \<Rightarrow> nat \<Rightarrow> u32" where
  "agc_word pwr r n = fold (\<lambda>i w. w OR push_bit (i * 8) (ucast (pwr (r + i)))) [0..<n] 0"

definition agc_groups :: "bool \<Rightarrow> bool \<Rightarrow> bool \<Rightarrow> (nat \<times> nat) list" where
  "agc_groups one_path scanning is_5g =
     (if is_5g then [] else [(0x00, 4)]) @ [(0x04, 4), (0x08, 4)] @
     (if scanning then []
      else [(0x0c, 4), (0x10, 4)] @
        (if one_path then [(0x2c, 4), (0x30, 4), (0x34, 2)]
         else [(0x14, 4), (0x18, 4), (0x2c, 4), (0x30, 4), (0x34, 4), (0x38, 4), (0x3c, 4)]))"

definition agc_write :: "(nat \<Rightarrow> s8) \<Rightarrow> nat \<Rightarrow> nat \<times> nat \<Rightarrow> ('x hw_scheme, unit) state" where
  "agc_write pwr path = (\<lambda>(r, n). rtw_write32_mask
     (offset_txagc path + of_nat (if 0x2c \<le> r then r - 0x10 else r)) (if n = 4 then MASKDWORD else MASKLWORD) (agc_word pwr r n))"

definition set_power_reference :: "rtw_hal \<Rightarrow> bool \<Rightarrow> nat \<Rightarrow> ('e, 'x, unit) phy" where
  "set_power_reference h scanning path =
     do { for_each (agc_groups (hal_rf_path_num h = 1) scanning (hal_current_band_type h = RTW_BAND_5G))
            (agc_write (hal_tx_pwr_tbl h path) path);
          rtw_write32_mask ([REG_TX_PWR_TRAINING_A, REG_TX_PWR_TRAINING_B] ! path) 0xffffff
            (tx_power_training_data (hal_tx_pwr_tbl h path DESC_RATEMCS7)) }"

lemma quiet_set_power_rates [quiet_rules]: "quiet (set_power_rates h path rs acc)"
  by (induction h path rs acc rule: set_power_rates.induct) (auto simp: Let_def intro!: quiet_rules)

text \<open>The sections with the device's state read once.\<close>

fun power_sections :: "rtw_hal \<Rightarrow> bool \<Rightarrow> nat \<Rightarrow> nat list \<Rightarrow> u32 \<Rightarrow> ('e, 'x, u32) phy" where
  "power_sections h scanning path [] acc = State_Monad.return acc"
| "power_sections h scanning path (rs # rss) acc =
     (if skip_section h scanning rs then power_sections h scanning path rss acc
      else do { acc \<leftarrow> set_power_rates h path (rtw_rate_section ! rs) acc; power_sections h scanning path rss acc })"

lemma run_set_power_sections:
  fixes s :: "('e, 'x) rtw_phy_scheme"
  shows "run_state (set_power_sections path rss acc) s =
    run_state (power_sections (hal s) (rtw_phy.flag_scanning s) path rss acc) s"
proof (induction rss arbitrary: acc s)
  case (Cons rs rss)
  obtain r l where m: "run_state (set_power_rates (hal s) path (rtw_rate_section ! rs) acc) s = (r, s\<lparr>io_log := io_log s @ l\<rparr>)"
    using quiet_run [OF quiet_set_power_rates] by blast
  show ?case
    using Cons [of acc s] Cons [of r "s\<lparr>io_log := io_log s @ l\<rparr>"]
    by (simp add: rtw88xxa_set_tx_power_index_by_rate_def m)
qed simp

lemma upt4: "[0..<4] = [0, 1, 2, 3]" "[0..<2] = [0, 1]" "[0..<6] = [0, 1, 2, 3, 4, 5]"
  by (simp_all add: upt_rec)

text \<open>Four rates from an aligned one fill a register.\<close>

lemmas agc_simps = Let_def agc_write_def agc_word_def upt4

lemma set_power_sections:
  "set_power_rates h path rtw_cck_rates 0 =
    do { agc_write (hal_tx_pwr_tbl h path) path (0x00, 4); State_Monad.return 0 }"
  "set_power_rates h path rtw_ofdm_rates 0 =
    do { agc_write (hal_tx_pwr_tbl h path) path (0x04, 4); agc_write (hal_tx_pwr_tbl h path) path (0x08, 4); State_Monad.return 0 }"
  "set_power_rates h path rtw_ht_1s_rates 0 =
    do { agc_write (hal_tx_pwr_tbl h path) path (0x0c, 4); agc_write (hal_tx_pwr_tbl h path) path (0x10, 4); State_Monad.return 0 }"
  "set_power_rates h path rtw_ht_2s_rates 0 =
    do { agc_write (hal_tx_pwr_tbl h path) path (0x14, 4); agc_write (hal_tx_pwr_tbl h path) path (0x18, 4); State_Monad.return 0 }"
  unfolding rtw_rates_defs by (simp_all add: agc_simps)

lemma set_power_vht_one:
  assumes "hal_rf_path_num h = 1"
  shows "set_power_rates h path rtw_vht_1s_rates 0 =
    do { agc_write (hal_tx_pwr_tbl h path) path (0x2c, 4); agc_write (hal_tx_pwr_tbl h path) path (0x30, 4);
         agc_write (hal_tx_pwr_tbl h path) path (0x34, 2); State_Monad.return 0 }"
  using assms unfolding rtw_rates_defs
  by (simp add: agc_simps)

text \<open>With two paths the last two rates of the first section share a register with the next section.\<close>

definition vht_carry :: "rtw_hal \<Rightarrow> nat \<Rightarrow> u32" where
  "vht_carry h path = ucast (hal_tx_pwr_tbl h path 0x34) OR push_bit 8 (ucast (hal_tx_pwr_tbl h path 0x35))"

lemma set_power_vht_first:
  assumes "hal_rf_path_num h = 2"
  shows "set_power_rates h path rtw_vht_1s_rates 0 =
    do { agc_write (hal_tx_pwr_tbl h path) path (0x2c, 4); agc_write (hal_tx_pwr_tbl h path) path (0x30, 4);
         State_Monad.return (vht_carry h path) }"
  using assms unfolding rtw_rates_defs vht_carry_def by (simp add: agc_simps)

lemma set_power_vht_second:
  assumes "hal_rf_path_num h = 2"
  shows "set_power_rates h path rtw_vht_2s_rates (vht_carry h path) =
    do { agc_write (hal_tx_pwr_tbl h path) path (0x34, 4); agc_write (hal_tx_pwr_tbl h path) path (0x38, 4);
         agc_write (hal_tx_pwr_tbl h path) path (0x3c, 4); State_Monad.return 0 }"
  using assms unfolding rtw_rates_defs vht_carry_def by (simp add: agc_simps)

lemma section_nth:
  "rtw_rate_section ! 0 = rtw_cck_rates" "rtw_rate_section ! Suc 0 = rtw_ofdm_rates" "rtw_rate_section ! 2 = rtw_ht_1s_rates"
  "rtw_rate_section ! 3 = rtw_ht_2s_rates" "rtw_rate_section ! 4 = rtw_vht_1s_rates" "rtw_rate_section ! 5 = rtw_vht_2s_rates"
  by (simp_all add: rtw_rate_section_def)

lemmas power_section_simps = section_nth set_power_sections set_power_vht_one set_power_vht_first set_power_vht_second

lemma skip_bind: "State_Monad.bind skip f = f ()"
  by (simp add: skip_def)

lemma power_sections_words:
  assumes "hal_rf_path_num h = 1 \<or> hal_rf_path_num h = 2"
  shows "power_sections h scanning path [0..<6] 0 =
    do { for_each (agc_groups (hal_rf_path_num h = 1) scanning (hal_current_band_type h = RTW_BAND_5G))
           (agc_write (hal_tx_pwr_tbl h path) path);
         State_Monad.return 0 }"
proof -
  note simps = skip_section_def agc_groups_def power_section_simps skip_bind
  from assms show ?thesis
    unfolding upt4
  proof
    assume n: "hal_rf_path_num h = 1"
    then show "power_sections h scanning path [0, 1, 2, 3, 4, 5] 0 =
      do { for_each (agc_groups (hal_rf_path_num h = 1) scanning (hal_current_band_type h = RTW_BAND_5G))
             (agc_write (hal_tx_pwr_tbl h path) path);
           State_Monad.return 0 }"
      by (cases scanning; cases "hal_current_band_type h = RTW_BAND_5G") (simp_all add: simps)
  next
    assume n: "hal_rf_path_num h = 2"
    then show "power_sections h scanning path [0, 1, 2, 3, 4, 5] 0 =
      do { for_each (agc_groups (hal_rf_path_num h = 1) scanning (hal_current_band_type h = RTW_BAND_5G))
             (agc_write (hal_tx_pwr_tbl h path) path);
           State_Monad.return 0 }"
      by (cases scanning; cases "hal_current_band_type h = RTW_BAND_5G") (simp_all add: simps)
  qed
qed

text \<open>The training register follows, and nothing collected is left for the next path.\<close>

lemma quiet_agc [quiet_rules]: "quiet (agc_write p path g)"
  by (cases g) (auto simp: agc_write_def intro!: quiet_rules)

lemma quiet_set_power_reference [quiet_rules]: "quiet (set_power_reference h scanning path)"
  unfolding set_power_reference_def by (intro quiet_rules)

lemma run_set_power_paths:
  fixes s :: "('e, 'x) rtw_phy_scheme"
  assumes "hal_rf_path_num (hal s) = 1 \<or> hal_rf_path_num (hal s) = 2"
  shows "run_state (set_power_paths paths 0) s = run_state (for_each paths (set_power_reference (hal s) (rtw_phy.flag_scanning s))) s"
  using assms
proof (induction paths arbitrary: s)
  case (Cons path paths)
  let ?agc = "for_each (agc_groups (hal_rf_path_num (hal s) = 1) (rtw_phy.flag_scanning s) (hal_current_band_type (hal s) = RTW_BAND_5G))
    (agc_write (hal_tx_pwr_tbl (hal s) path) path) :: ('e, 'x, unit) phy"
  have "quiet ?agc"
    by (intro quiet_rules)
  then obtain l where agc: "run_state ?agc s = ((), s\<lparr>io_log := io_log s @ l\<rparr>)"
    using quiet_run [of ?agc s] by auto
  let ?s = "s\<lparr>io_log := io_log s @ l\<rparr>"
  let ?train = "rtw_write32_mask ([REG_TX_PWR_TRAINING_A, REG_TX_PWR_TRAINING_B] ! path) 0xffffff
    (tx_power_training_data (hal_tx_pwr_tbl (hal s) path DESC_RATEMCS7)) :: ('e, 'x, unit) phy"
  have "quiet ?train"
    by (intro quiet_rules)
  then obtain l' where train: "run_state ?train ?s = ((), ?s\<lparr>io_log := io_log ?s @ l'\<rparr>)"
    using quiet_run [of ?train ?s] by auto
  have sec: "run_state (set_power_sections path [0..<6] 0) s = (0, ?s)"
    by (simp add: run_set_power_sections power_sections_words [OF Cons.prems] agc del: upt_rec_numeral)
  show ?case
    using Cons.IH [of "?s\<lparr>io_log := io_log ?s @ l'\<rparr>"] Cons.prems
    by (simp add: sec rtw88xxa_tx_power_training_def set_power_reference_def agc train del: upt_rec_numeral)
qed simp

text \<open>
  Property C37. The routine that sets the transmit powers writes, for every path, exactly one word
  per group of four rates, made of the powers of these rates in the order of the registers, and
  then the training register: the powers it collects across the rate sections never end in a
  wrong register and are never left for the next path. On one path the rates of the second stream
  are left out and the last register gets two rates; while scanning only the legacy rates are
  written, and at 5 GHz no CCK rates.
\<close>

theorem rtw88xxa_set_tx_power_index_words:
  assumes "hal_rf_path_num (hal s) = 1 \<or> hal_rf_path_num (hal s) = 2"
  shows "run_state rtw88xxa_set_tx_power_index s =
    run_state (for_each [0..<unat (hal_rf_path_num (hal s))] (set_power_reference (hal s) (rtw_phy.flag_scanning s))) s"
  by (simp add: rtw88xxa_set_tx_power_index_def run_set_power_paths [OF assms])

lemma rtw88xxa_set_tx_power_index_words_witness:
  "\<forall>s :: (unit, unit) rtw_phy_scheme. let t = s\<lparr>hal := (hal s)\<lparr>hal_rf_path_num := 2\<rparr>\<rparr> in
     run_state rtw88xxa_set_tx_power_index t = run_state (for_each [0, 1] (set_power_reference (hal t) (rtw_phy.flag_scanning t))) t"
proof
  fix s :: "(unit, unit) rtw_phy_scheme"
  show "let t = s\<lparr>hal := (hal s)\<lparr>hal_rf_path_num := 2\<rparr>\<rparr> in
     run_state rtw88xxa_set_tx_power_index t = run_state (for_each [0, 1] (set_power_reference (hal t) (rtw_phy.flag_scanning t))) t"
    using rtw88xxa_set_tx_power_index_words [of "s\<lparr>hal := (hal s)\<lparr>hal_rf_path_num := 2\<rparr>\<rparr>"] by (simp add: Let_def upt4)
qed

end
