(* ===== verification/FwMsg.thy ===== *)
theory FwMsg
  imports Frames Bitfield
begin

text \<open>
  The messages between driver and firmware (\<open>fw.h\<close>): command numbers and the macros that put a
  value into a field of a message. A field is a contiguous group of bits of one little-endian word
  (or byte) of the message; a message is its list of bytes.
\<close>

section \<open>Words of a message\<close>

definition le32p_replace_bits :: "nat \<Rightarrow> u32 \<Rightarrow> u32 \<Rightarrow> u8 list \<Rightarrow> u8 list" where
  "le32p_replace_bits i value field p =
     take (4 * i) p @ le_bytes 4 (replace_bits (word_at i p) value field) @ drop (4 * i + 4) p"

definition u8p_replace_bits :: "nat \<Rightarrow> u8 \<Rightarrow> u8 \<Rightarrow> u8 list \<Rightarrow> u8 list" where
  "u8p_replace_bits i value field p = p[i := replace_bits (p ! i) value field]"

text \<open>A message starts as zeros; the macros are applied to it in turn.\<close>

definition set_fields :: "(u8 list \<Rightarrow> u8 list) list \<Rightarrow> u8 list \<Rightarrow> u8 list" where
  "set_fields fs p = fold (\<lambda>f. f) fs p"

section \<open>Numbers\<close>

abbreviation (input) H2C_PKT_SIZE :: "'a::len word" where "H2C_PKT_SIZE \<equiv> 32"
abbreviation (input) H2C_PKT_HDR_SIZE :: "'a::len word" where "H2C_PKT_HDR_SIZE \<equiv> 8"
abbreviation (input) BCN_LOSS_CNT :: "'a::len word" where "BCN_LOSS_CNT \<equiv> 10"
abbreviation (input) BCN_FILTER_NOTIFY_SIGNAL_CHANGE :: "'a::len word" where "BCN_FILTER_NOTIFY_SIGNAL_CHANGE \<equiv> 0"
abbreviation (input) BCN_FILTER_CONNECTION_LOSS :: "'a::len word" where "BCN_FILTER_CONNECTION_LOSS \<equiv> 1"
abbreviation (input) BCN_FILTER_CONNECTED :: "'a::len word" where "BCN_FILTER_CONNECTED \<equiv> 2"
abbreviation (input) BCN_FILTER_NOTIFY_BEACON_LOSS :: "'a::len word" where "BCN_FILTER_NOTIFY_BEACON_LOSS \<equiv> 3"
abbreviation (input) RTW_DEFAULT_CQM_HYST :: "'a::len word" where "RTW_DEFAULT_CQM_HYST \<equiv> 4"
abbreviation (input) RTW_CHANNEL_TIME :: "'a::len word" where "RTW_CHANNEL_TIME \<equiv> 45"
abbreviation (input) RTW_OFF_CHAN_TIME :: "'a::len word" where "RTW_OFF_CHAN_TIME \<equiv> 100"
abbreviation (input) RTW_PASS_CHAN_TIME :: "'a::len word" where "RTW_PASS_CHAN_TIME \<equiv> 105"
abbreviation (input) RTW_DFS_CHAN_TIME :: "'a::len word" where "RTW_DFS_CHAN_TIME \<equiv> 20"
abbreviation (input) RTW_CH_INFO_SIZE :: "'a::len word" where "RTW_CH_INFO_SIZE \<equiv> 4"
abbreviation (input) RTW_EX_CH_INFO_SIZE :: "'a::len word" where "RTW_EX_CH_INFO_SIZE \<equiv> 3"
abbreviation (input) RTW_EX_CH_INFO_HDR_SIZE :: "'a::len word" where "RTW_EX_CH_INFO_HDR_SIZE \<equiv> 2"
abbreviation (input) RTW_SCAN_WIDTH :: "'a::len word" where "RTW_SCAN_WIDTH \<equiv> 0"
abbreviation (input) RTW_PRI_CH_IDX :: "'a::len word" where "RTW_PRI_CH_IDX \<equiv> 1"
abbreviation (input) RTW_OLD_PROBE_PG_CNT :: "'a::len word" where "RTW_OLD_PROBE_PG_CNT \<equiv> 2"
abbreviation (input) RTW_PROBE_PG_CNT :: "'a::len word" where "RTW_PROBE_PG_CNT \<equiv> 4"
abbreviation (input) H2C_PKT_CMD_ID :: "'a::len word" where "H2C_PKT_CMD_ID \<equiv> 0xFF"
abbreviation (input) H2C_PKT_CATEGORY :: "'a::len word" where "H2C_PKT_CATEGORY \<equiv> 0x01"
abbreviation (input) H2C_PKT_GENERAL_INFO :: "'a::len word" where "H2C_PKT_GENERAL_INFO \<equiv> 0x0D"
abbreviation (input) H2C_PKT_PHYDM_INFO :: "'a::len word" where "H2C_PKT_PHYDM_INFO \<equiv> 0x11"
abbreviation (input) H2C_PKT_IQK :: "'a::len word" where "H2C_PKT_IQK \<equiv> 0x0E"
abbreviation (input) H2C_PKT_CH_SWITCH :: "'a::len word" where "H2C_PKT_CH_SWITCH \<equiv> 0x02"
abbreviation (input) H2C_PKT_UPDATE_PKT :: "'a::len word" where "H2C_PKT_UPDATE_PKT \<equiv> 0x0C"
abbreviation (input) H2C_PKT_SCAN_OFFLOAD :: "'a::len word" where "H2C_PKT_SCAN_OFFLOAD \<equiv> 0x19"
abbreviation (input) H2C_PKT_CH_SWITCH_LEN :: "'a::len word" where "H2C_PKT_CH_SWITCH_LEN \<equiv> 0x20"
abbreviation (input) H2C_PKT_UPDATE_PKT_LEN :: "'a::len word" where "H2C_PKT_UPDATE_PKT_LEN \<equiv> 0x4"
abbreviation (input) H2C_CMD_RSVD_PAGE :: "'a::len word" where "H2C_CMD_RSVD_PAGE \<equiv> 0x0"
abbreviation (input) H2C_CMD_MEDIA_STATUS_RPT :: "'a::len word" where "H2C_CMD_MEDIA_STATUS_RPT \<equiv> 0x01"
abbreviation (input) H2C_CMD_SET_PWR_MODE :: "'a::len word" where "H2C_CMD_SET_PWR_MODE \<equiv> 0x20"
abbreviation (input) H2C_CMD_LPS_PG_INFO :: "'a::len word" where "H2C_CMD_LPS_PG_INFO \<equiv> 0x2b"
abbreviation (input) H2C_CMD_DEFAULT_PORT :: "'a::len word" where "H2C_CMD_DEFAULT_PORT \<equiv> 0x2c"
abbreviation (input) H2C_CMD_RA_INFO :: "'a::len word" where "H2C_CMD_RA_INFO \<equiv> 0x40"
abbreviation (input) H2C_CMD_RSSI_MONITOR :: "'a::len word" where "H2C_CMD_RSSI_MONITOR \<equiv> 0x42"
abbreviation (input) H2C_CMD_RA_INFO_HI :: "'a::len word" where "H2C_CMD_RA_INFO_HI \<equiv> 0x46"
abbreviation (input) H2C_CMD_BCN_FILTER_OFFLOAD_P0 :: "'a::len word" where "H2C_CMD_BCN_FILTER_OFFLOAD_P0 \<equiv> 0x56"
abbreviation (input) H2C_CMD_BCN_FILTER_OFFLOAD_P1 :: "'a::len word" where "H2C_CMD_BCN_FILTER_OFFLOAD_P1 \<equiv> 0x57"
abbreviation (input) H2C_CMD_WL_PHY_INFO :: "'a::len word" where "H2C_CMD_WL_PHY_INFO \<equiv> 0x58"
abbreviation (input) H2C_CMD_SCAN :: "'a::len word" where "H2C_CMD_SCAN \<equiv> 0x59"
abbreviation (input) H2C_CMD_ADAPTIVITY :: "'a::len word" where "H2C_CMD_ADAPTIVITY \<equiv> 0x5A"
abbreviation (input) H2C_CMD_COEX_TDMA_TYPE :: "'a::len word" where "H2C_CMD_COEX_TDMA_TYPE \<equiv> 0x60"
abbreviation (input) H2C_CMD_QUERY_BT_INFO :: "'a::len word" where "H2C_CMD_QUERY_BT_INFO \<equiv> 0x61"
abbreviation (input) H2C_CMD_FORCE_BT_TX_POWER :: "'a::len word" where "H2C_CMD_FORCE_BT_TX_POWER \<equiv> 0x62"
abbreviation (input) H2C_CMD_IGNORE_WLAN_ACTION :: "'a::len word" where "H2C_CMD_IGNORE_WLAN_ACTION \<equiv> 0x63"
abbreviation (input) H2C_CMD_WL_CH_INFO :: "'a::len word" where "H2C_CMD_WL_CH_INFO \<equiv> 0x66"
abbreviation (input) H2C_CMD_QUERY_BT_MP_INFO :: "'a::len word" where "H2C_CMD_QUERY_BT_MP_INFO \<equiv> 0x67"
abbreviation (input) H2C_CMD_BT_WIFI_CONTROL :: "'a::len word" where "H2C_CMD_BT_WIFI_CONTROL \<equiv> 0x69"
abbreviation (input) H2C_CMD_WIFI_CALIBRATION :: "'a::len word" where "H2C_CMD_WIFI_CALIBRATION \<equiv> 0x6d"
abbreviation (input) H2C_CMD_QUERY_BT_HID_INFO :: "'a::len word" where "H2C_CMD_QUERY_BT_HID_INFO \<equiv> 0x73"
abbreviation (input) H2C_CMD_KEEP_ALIVE :: "'a::len word" where "H2C_CMD_KEEP_ALIVE \<equiv> 0x03"
abbreviation (input) H2C_CMD_DISCONNECT_DECISION :: "'a::len word" where "H2C_CMD_DISCONNECT_DECISION \<equiv> 0x04"
abbreviation (input) H2C_CMD_WOWLAN :: "'a::len word" where "H2C_CMD_WOWLAN \<equiv> 0x80"
abbreviation (input) H2C_CMD_REMOTE_WAKE_CTRL :: "'a::len word" where "H2C_CMD_REMOTE_WAKE_CTRL \<equiv> 0x81"
abbreviation (input) H2C_CMD_AOAC_GLOBAL_INFO :: "'a::len word" where "H2C_CMD_AOAC_GLOBAL_INFO \<equiv> 0x82"
abbreviation (input) H2C_CMD_NLO_INFO :: "'a::len word" where "H2C_CMD_NLO_INFO \<equiv> 0x8C"
abbreviation (input) H2C_CMD_RECOVER_BT_DEV :: "'a::len word" where "H2C_CMD_RECOVER_BT_DEV \<equiv> 0xD1"

section \<open>Fields\<close>

definition SET_PKT_H2C_CATEGORY :: "u32 \<Rightarrow> u8 list \<Rightarrow> u8 list" where
  "SET_PKT_H2C_CATEGORY value p = le32p_replace_bits 0 value (GENMASK 6 0) p"

definition SET_PKT_H2C_CMD_ID :: "u32 \<Rightarrow> u8 list \<Rightarrow> u8 list" where
  "SET_PKT_H2C_CMD_ID value p = le32p_replace_bits 0 value (GENMASK 15 8) p"

definition SET_PKT_H2C_SUB_CMD_ID :: "u32 \<Rightarrow> u8 list \<Rightarrow> u8 list" where
  "SET_PKT_H2C_SUB_CMD_ID value p = le32p_replace_bits 0 value (GENMASK 31 16) p"

definition SET_PKT_H2C_TOTAL_LEN :: "u32 \<Rightarrow> u8 list \<Rightarrow> u8 list" where
  "SET_PKT_H2C_TOTAL_LEN value p = le32p_replace_bits 1 value (GENMASK 15 0) p"

definition FW_OFFLOAD_H2C_SET_SEQ_NUM :: "u32 \<Rightarrow> u8 list \<Rightarrow> u8 list" where
  "FW_OFFLOAD_H2C_SET_SEQ_NUM value p = le32p_replace_bits 1 value (GENMASK 31 16) p"

definition GENERAL_INFO_SET_FW_TX_BOUNDARY :: "u32 \<Rightarrow> u8 list \<Rightarrow> u8 list" where
  "GENERAL_INFO_SET_FW_TX_BOUNDARY value p = le32p_replace_bits 2 value (GENMASK 23 16) p"

definition PHYDM_INFO_SET_REF_TYPE :: "u32 \<Rightarrow> u8 list \<Rightarrow> u8 list" where
  "PHYDM_INFO_SET_REF_TYPE value p = le32p_replace_bits 2 value (GENMASK 7 0) p"

definition PHYDM_INFO_SET_RF_TYPE :: "u32 \<Rightarrow> u8 list \<Rightarrow> u8 list" where
  "PHYDM_INFO_SET_RF_TYPE value p = le32p_replace_bits 2 value (GENMASK 15 8) p"

definition PHYDM_INFO_SET_CUT_VER :: "u32 \<Rightarrow> u8 list \<Rightarrow> u8 list" where
  "PHYDM_INFO_SET_CUT_VER value p = le32p_replace_bits 2 value (GENMASK 23 16) p"

definition PHYDM_INFO_SET_RX_ANT_STATUS :: "u32 \<Rightarrow> u8 list \<Rightarrow> u8 list" where
  "PHYDM_INFO_SET_RX_ANT_STATUS value p = le32p_replace_bits 2 value (GENMASK 27 24) p"

definition PHYDM_INFO_SET_TX_ANT_STATUS :: "u32 \<Rightarrow> u8 list \<Rightarrow> u8 list" where
  "PHYDM_INFO_SET_TX_ANT_STATUS value p = le32p_replace_bits 2 value (GENMASK 31 28) p"

definition IQK_SET_CLEAR :: "u32 \<Rightarrow> u8 list \<Rightarrow> u8 list" where
  "IQK_SET_CLEAR value p = le32p_replace_bits 2 value (BIT 0) p"

definition IQK_SET_SEGMENT_IQK :: "u32 \<Rightarrow> u8 list \<Rightarrow> u8 list" where
  "IQK_SET_SEGMENT_IQK value p = le32p_replace_bits 2 value (BIT 1) p"

definition CHSW_INFO_SET_CH :: "u32 \<Rightarrow> u8 list \<Rightarrow> u8 list" where
  "CHSW_INFO_SET_CH value p = le32p_replace_bits 0 value (GENMASK 7 0) p"

definition CHSW_INFO_SET_PRI_CH_IDX :: "u32 \<Rightarrow> u8 list \<Rightarrow> u8 list" where
  "CHSW_INFO_SET_PRI_CH_IDX value p = le32p_replace_bits 0 value (GENMASK 11 8) p"

definition CHSW_INFO_SET_BW :: "u32 \<Rightarrow> u8 list \<Rightarrow> u8 list" where
  "CHSW_INFO_SET_BW value p = le32p_replace_bits 0 value (GENMASK 15 12) p"

definition CHSW_INFO_SET_TIMEOUT :: "u32 \<Rightarrow> u8 list \<Rightarrow> u8 list" where
  "CHSW_INFO_SET_TIMEOUT value p = le32p_replace_bits 0 value (GENMASK 23 16) p"

definition CHSW_INFO_SET_ACTION_ID :: "u32 \<Rightarrow> u8 list \<Rightarrow> u8 list" where
  "CHSW_INFO_SET_ACTION_ID value p = le32p_replace_bits 0 value (GENMASK 30 24) p"

definition CHSW_INFO_SET_EXTRA_INFO :: "u32 \<Rightarrow> u8 list \<Rightarrow> u8 list" where
  "CHSW_INFO_SET_EXTRA_INFO value p = le32p_replace_bits 0 value (BIT 31) p"

definition CH_INFO_SET_CH :: "u8 \<Rightarrow> u8 list \<Rightarrow> u8 list" where
  "CH_INFO_SET_CH value p = u8p_replace_bits 0 value (GENMASK 7 0) p"

definition CH_INFO_SET_PRI_CH_IDX :: "u8 \<Rightarrow> u8 list \<Rightarrow> u8 list" where
  "CH_INFO_SET_PRI_CH_IDX value p = u8p_replace_bits 1 value (GENMASK 3 0) p"

definition CH_INFO_SET_BW :: "u8 \<Rightarrow> u8 list \<Rightarrow> u8 list" where
  "CH_INFO_SET_BW value p = u8p_replace_bits 1 value (GENMASK 7 4) p"

definition CH_INFO_SET_TIMEOUT :: "u8 \<Rightarrow> u8 list \<Rightarrow> u8 list" where
  "CH_INFO_SET_TIMEOUT value p = u8p_replace_bits 2 value (GENMASK 7 0) p"

definition CH_INFO_SET_ACTION_ID :: "u8 \<Rightarrow> u8 list \<Rightarrow> u8 list" where
  "CH_INFO_SET_ACTION_ID value p = u8p_replace_bits 3 value (GENMASK 6 0) p"

definition CH_INFO_SET_EXTRA_INFO :: "u8 \<Rightarrow> u8 list \<Rightarrow> u8 list" where
  "CH_INFO_SET_EXTRA_INFO value p = u8p_replace_bits 3 value (BIT 7) p"

definition EXTRA_CH_INFO_SET_ID :: "u8 \<Rightarrow> u8 list \<Rightarrow> u8 list" where
  "EXTRA_CH_INFO_SET_ID value p = u8p_replace_bits 4 value (GENMASK 6 0) p"

definition EXTRA_CH_INFO_SET_INFO :: "u8 \<Rightarrow> u8 list \<Rightarrow> u8 list" where
  "EXTRA_CH_INFO_SET_INFO value p = u8p_replace_bits 4 value (BIT 7) p"

definition EXTRA_CH_INFO_SET_SIZE :: "u8 \<Rightarrow> u8 list \<Rightarrow> u8 list" where
  "EXTRA_CH_INFO_SET_SIZE value p = u8p_replace_bits 5 value (GENMASK 7 0) p"

definition EXTRA_CH_INFO_SET_DFS_EXT_TIME :: "u8 \<Rightarrow> u8 list \<Rightarrow> u8 list" where
  "EXTRA_CH_INFO_SET_DFS_EXT_TIME value p = u8p_replace_bits 6 value (GENMASK 7 0) p"

definition UPDATE_PKT_SET_SIZE :: "u32 \<Rightarrow> u8 list \<Rightarrow> u8 list" where
  "UPDATE_PKT_SET_SIZE value p = le32p_replace_bits 2 value (GENMASK 15 0) p"

definition UPDATE_PKT_SET_PKT_ID :: "u32 \<Rightarrow> u8 list \<Rightarrow> u8 list" where
  "UPDATE_PKT_SET_PKT_ID value p = le32p_replace_bits 2 value (GENMASK 23 16) p"

definition UPDATE_PKT_SET_LOCATION :: "u32 \<Rightarrow> u8 list \<Rightarrow> u8 list" where
  "UPDATE_PKT_SET_LOCATION value p = le32p_replace_bits 2 value (GENMASK 31 24) p"

definition CH_SWITCH_SET_START :: "u32 \<Rightarrow> u8 list \<Rightarrow> u8 list" where
  "CH_SWITCH_SET_START value p = le32p_replace_bits 2 value (BIT 0) p"

definition CH_SWITCH_SET_DEST_CH_EN :: "u32 \<Rightarrow> u8 list \<Rightarrow> u8 list" where
  "CH_SWITCH_SET_DEST_CH_EN value p = le32p_replace_bits 2 value (BIT 1) p"

definition CH_SWITCH_SET_ABSOLUTE_TIME :: "u32 \<Rightarrow> u8 list \<Rightarrow> u8 list" where
  "CH_SWITCH_SET_ABSOLUTE_TIME value p = le32p_replace_bits 2 value (BIT 2) p"

definition CH_SWITCH_SET_PERIODIC_OPT :: "u32 \<Rightarrow> u8 list \<Rightarrow> u8 list" where
  "CH_SWITCH_SET_PERIODIC_OPT value p = le32p_replace_bits 2 value (GENMASK 4 3) p"

definition CH_SWITCH_SET_SCAN_MODE :: "u32 \<Rightarrow> u8 list \<Rightarrow> u8 list" where
  "CH_SWITCH_SET_SCAN_MODE value p = le32p_replace_bits 2 value (BIT 5) p"

definition CH_SWITCH_SET_BACK_OP_EN :: "u32 \<Rightarrow> u8 list \<Rightarrow> u8 list" where
  "CH_SWITCH_SET_BACK_OP_EN value p = le32p_replace_bits 2 value (BIT 6) p"

definition CH_SWITCH_SET_INFO_LOC :: "u32 \<Rightarrow> u8 list \<Rightarrow> u8 list" where
  "CH_SWITCH_SET_INFO_LOC value p = le32p_replace_bits 2 value (GENMASK 15 8) p"

definition CH_SWITCH_SET_CH_NUM :: "u32 \<Rightarrow> u8 list \<Rightarrow> u8 list" where
  "CH_SWITCH_SET_CH_NUM value p = le32p_replace_bits 2 value (GENMASK 23 16) p"

definition CH_SWITCH_SET_PRI_CH_IDX :: "u32 \<Rightarrow> u8 list \<Rightarrow> u8 list" where
  "CH_SWITCH_SET_PRI_CH_IDX value p = le32p_replace_bits 2 value (GENMASK 27 24) p"

definition CH_SWITCH_SET_DEST_BW :: "u32 \<Rightarrow> u8 list \<Rightarrow> u8 list" where
  "CH_SWITCH_SET_DEST_BW value p = le32p_replace_bits 2 value (GENMASK 31 28) p"

definition CH_SWITCH_SET_DEST_CH :: "u32 \<Rightarrow> u8 list \<Rightarrow> u8 list" where
  "CH_SWITCH_SET_DEST_CH value p = le32p_replace_bits 3 value (GENMASK 7 0) p"

definition CH_SWITCH_SET_NORMAL_PERIOD :: "u32 \<Rightarrow> u8 list \<Rightarrow> u8 list" where
  "CH_SWITCH_SET_NORMAL_PERIOD value p = le32p_replace_bits 3 value (GENMASK 13 8) p"

definition CH_SWITCH_SET_NORMAL_PERIOD_SEL :: "u32 \<Rightarrow> u8 list \<Rightarrow> u8 list" where
  "CH_SWITCH_SET_NORMAL_PERIOD_SEL value p = le32p_replace_bits 3 value (GENMASK 15 14) p"

definition CH_SWITCH_SET_SLOW_PERIOD :: "u32 \<Rightarrow> u8 list \<Rightarrow> u8 list" where
  "CH_SWITCH_SET_SLOW_PERIOD value p = le32p_replace_bits 3 value (GENMASK 21 16) p"

definition CH_SWITCH_SET_SLOW_PERIOD_SEL :: "u32 \<Rightarrow> u8 list \<Rightarrow> u8 list" where
  "CH_SWITCH_SET_SLOW_PERIOD_SEL value p = le32p_replace_bits 3 value (GENMASK 23 22) p"

definition CH_SWITCH_SET_NORMAL_CYCLE :: "u32 \<Rightarrow> u8 list \<Rightarrow> u8 list" where
  "CH_SWITCH_SET_NORMAL_CYCLE value p = le32p_replace_bits 3 value (GENMASK 31 24) p"

definition CH_SWITCH_SET_TSF_HIGH :: "u32 \<Rightarrow> u8 list \<Rightarrow> u8 list" where
  "CH_SWITCH_SET_TSF_HIGH value p = le32p_replace_bits 4 value (GENMASK 31 0) p"

definition CH_SWITCH_SET_TSF_LOW :: "u32 \<Rightarrow> u8 list \<Rightarrow> u8 list" where
  "CH_SWITCH_SET_TSF_LOW value p = le32p_replace_bits 5 value (GENMASK 31 0) p"

definition CH_SWITCH_SET_INFO_SIZE :: "u32 \<Rightarrow> u8 list \<Rightarrow> u8 list" where
  "CH_SWITCH_SET_INFO_SIZE value p = le32p_replace_bits 6 value (GENMASK 15 0) p"

definition SCAN_OFFLOAD_SET_START :: "u32 \<Rightarrow> u8 list \<Rightarrow> u8 list" where
  "SCAN_OFFLOAD_SET_START value p = le32p_replace_bits 2 value (BIT 0) p"

definition SCAN_OFFLOAD_SET_BACK_OP_EN :: "u32 \<Rightarrow> u8 list \<Rightarrow> u8 list" where
  "SCAN_OFFLOAD_SET_BACK_OP_EN value p = le32p_replace_bits 2 value (BIT 1) p"

definition SCAN_OFFLOAD_SET_RANDOM_SEQ_EN :: "u32 \<Rightarrow> u8 list \<Rightarrow> u8 list" where
  "SCAN_OFFLOAD_SET_RANDOM_SEQ_EN value p = le32p_replace_bits 2 value (BIT 2) p"

definition SCAN_OFFLOAD_SET_NO_CCK_EN :: "u32 \<Rightarrow> u8 list \<Rightarrow> u8 list" where
  "SCAN_OFFLOAD_SET_NO_CCK_EN value p = le32p_replace_bits 2 value (BIT 3) p"

definition SCAN_OFFLOAD_SET_VERBOSE :: "u32 \<Rightarrow> u8 list \<Rightarrow> u8 list" where
  "SCAN_OFFLOAD_SET_VERBOSE value p = le32p_replace_bits 2 value (BIT 4) p"

definition SCAN_OFFLOAD_SET_CH_NUM :: "u32 \<Rightarrow> u8 list \<Rightarrow> u8 list" where
  "SCAN_OFFLOAD_SET_CH_NUM value p = le32p_replace_bits 2 value (GENMASK 15 8) p"

definition SCAN_OFFLOAD_SET_CH_INFO_SIZE :: "u32 \<Rightarrow> u8 list \<Rightarrow> u8 list" where
  "SCAN_OFFLOAD_SET_CH_INFO_SIZE value p = le32p_replace_bits 2 value (GENMASK 31 16) p"

definition SCAN_OFFLOAD_SET_CH_INFO_LOC :: "u32 \<Rightarrow> u8 list \<Rightarrow> u8 list" where
  "SCAN_OFFLOAD_SET_CH_INFO_LOC value p = le32p_replace_bits 3 value (GENMASK 7 0) p"

definition SCAN_OFFLOAD_SET_OP_CH :: "u32 \<Rightarrow> u8 list \<Rightarrow> u8 list" where
  "SCAN_OFFLOAD_SET_OP_CH value p = le32p_replace_bits 3 value (GENMASK 15 8) p"

definition SCAN_OFFLOAD_SET_OP_PRI_CH_IDX :: "u32 \<Rightarrow> u8 list \<Rightarrow> u8 list" where
  "SCAN_OFFLOAD_SET_OP_PRI_CH_IDX value p = le32p_replace_bits 3 value (GENMASK 19 16) p"

definition SCAN_OFFLOAD_SET_OP_BW :: "u32 \<Rightarrow> u8 list \<Rightarrow> u8 list" where
  "SCAN_OFFLOAD_SET_OP_BW value p = le32p_replace_bits 3 value (GENMASK 23 20) p"

definition SCAN_OFFLOAD_SET_OP_PORT_ID :: "u32 \<Rightarrow> u8 list \<Rightarrow> u8 list" where
  "SCAN_OFFLOAD_SET_OP_PORT_ID value p = le32p_replace_bits 3 value (GENMASK 26 24) p"

definition SCAN_OFFLOAD_SET_OP_DWELL_TIME :: "u32 \<Rightarrow> u8 list \<Rightarrow> u8 list" where
  "SCAN_OFFLOAD_SET_OP_DWELL_TIME value p = le32p_replace_bits 4 value (GENMASK 15 0) p"

definition SCAN_OFFLOAD_SET_OP_GAP_TIME :: "u32 \<Rightarrow> u8 list \<Rightarrow> u8 list" where
  "SCAN_OFFLOAD_SET_OP_GAP_TIME value p = le32p_replace_bits 4 value (GENMASK 31 16) p"

definition SCAN_OFFLOAD_SET_MODE :: "u32 \<Rightarrow> u8 list \<Rightarrow> u8 list" where
  "SCAN_OFFLOAD_SET_MODE value p = le32p_replace_bits 5 value (GENMASK 3 0) p"

definition SCAN_OFFLOAD_SET_SSID_NUM :: "u32 \<Rightarrow> u8 list \<Rightarrow> u8 list" where
  "SCAN_OFFLOAD_SET_SSID_NUM value p = le32p_replace_bits 5 value (GENMASK 7 4) p"

definition SCAN_OFFLOAD_SET_PKT_LOC :: "u32 \<Rightarrow> u8 list \<Rightarrow> u8 list" where
  "SCAN_OFFLOAD_SET_PKT_LOC value p = le32p_replace_bits 5 value (GENMASK 15 8) p"

definition SET_H2C_CMD_ID_CLASS :: "u32 \<Rightarrow> u8 list \<Rightarrow> u8 list" where
  "SET_H2C_CMD_ID_CLASS value p = le32p_replace_bits 0 value (GENMASK 7 0) p"

definition MEDIA_STATUS_RPT_SET_OP_MODE :: "u32 \<Rightarrow> u8 list \<Rightarrow> u8 list" where
  "MEDIA_STATUS_RPT_SET_OP_MODE value p = le32p_replace_bits 0 value (BIT 8) p"

definition MEDIA_STATUS_RPT_SET_MACID :: "u32 \<Rightarrow> u8 list \<Rightarrow> u8 list" where
  "MEDIA_STATUS_RPT_SET_MACID value p = le32p_replace_bits 0 value (GENMASK 23 16) p"

definition SET_WL_PHY_INFO_TX_TP :: "u32 \<Rightarrow> u8 list \<Rightarrow> u8 list" where
  "SET_WL_PHY_INFO_TX_TP value p = le32p_replace_bits 0 value (GENMASK 17 8) p"

definition SET_WL_PHY_INFO_RX_TP :: "u32 \<Rightarrow> u8 list \<Rightarrow> u8 list" where
  "SET_WL_PHY_INFO_RX_TP value p = le32p_replace_bits 0 value (GENMASK 27 18) p"

definition SET_WL_PHY_INFO_TX_RATE_DESC :: "u32 \<Rightarrow> u8 list \<Rightarrow> u8 list" where
  "SET_WL_PHY_INFO_TX_RATE_DESC value p = le32p_replace_bits 1 value (GENMASK 7 0) p"

definition SET_WL_PHY_INFO_RX_RATE_DESC :: "u32 \<Rightarrow> u8 list \<Rightarrow> u8 list" where
  "SET_WL_PHY_INFO_RX_RATE_DESC value p = le32p_replace_bits 1 value (GENMASK 15 8) p"

definition SET_WL_PHY_INFO_RX_EVM :: "u32 \<Rightarrow> u8 list \<Rightarrow> u8 list" where
  "SET_WL_PHY_INFO_RX_EVM value p = le32p_replace_bits 1 value (GENMASK 23 16) p"

definition SET_BCN_FILTER_OFFLOAD_P1_MACID :: "u32 \<Rightarrow> u8 list \<Rightarrow> u8 list" where
  "SET_BCN_FILTER_OFFLOAD_P1_MACID value p = le32p_replace_bits 0 value (GENMASK 15 8) p"

definition SET_BCN_FILTER_OFFLOAD_P1_ENABLE :: "u32 \<Rightarrow> u8 list \<Rightarrow> u8 list" where
  "SET_BCN_FILTER_OFFLOAD_P1_ENABLE value p = le32p_replace_bits 0 value (BIT 16) p"

definition SET_BCN_FILTER_OFFLOAD_P1_HYST :: "u32 \<Rightarrow> u8 list \<Rightarrow> u8 list" where
  "SET_BCN_FILTER_OFFLOAD_P1_HYST value p = le32p_replace_bits 0 value (GENMASK 20 17) p"

definition SET_BCN_FILTER_OFFLOAD_P1_OFFLOAD_MODE :: "u32 \<Rightarrow> u8 list \<Rightarrow> u8 list" where
  "SET_BCN_FILTER_OFFLOAD_P1_OFFLOAD_MODE value p = le32p_replace_bits 0 value (GENMASK 23 21) p"

definition SET_BCN_FILTER_OFFLOAD_P1_THRESHOLD :: "u32 \<Rightarrow> u8 list \<Rightarrow> u8 list" where
  "SET_BCN_FILTER_OFFLOAD_P1_THRESHOLD value p = le32p_replace_bits 0 value (GENMASK 31 24) p"

definition SET_BCN_FILTER_OFFLOAD_P1_BCN_LOSS_CNT :: "u32 \<Rightarrow> u8 list \<Rightarrow> u8 list" where
  "SET_BCN_FILTER_OFFLOAD_P1_BCN_LOSS_CNT value p = le32p_replace_bits 1 value (GENMASK 3 0) p"

definition SET_BCN_FILTER_OFFLOAD_P1_BCN_INTERVAL :: "u32 \<Rightarrow> u8 list \<Rightarrow> u8 list" where
  "SET_BCN_FILTER_OFFLOAD_P1_BCN_INTERVAL value p = le32p_replace_bits 1 value (GENMASK 13 4) p"

definition SET_SCAN_START :: "u32 \<Rightarrow> u8 list \<Rightarrow> u8 list" where
  "SET_SCAN_START value p = le32p_replace_bits 0 value (BIT 8) p"

definition SET_ADAPTIVITY_MODE :: "u32 \<Rightarrow> u8 list \<Rightarrow> u8 list" where
  "SET_ADAPTIVITY_MODE value p = le32p_replace_bits 0 value (GENMASK 11 8) p"

definition SET_ADAPTIVITY_OPTION :: "u32 \<Rightarrow> u8 list \<Rightarrow> u8 list" where
  "SET_ADAPTIVITY_OPTION value p = le32p_replace_bits 0 value (GENMASK 15 12) p"

definition SET_ADAPTIVITY_IGI :: "u32 \<Rightarrow> u8 list \<Rightarrow> u8 list" where
  "SET_ADAPTIVITY_IGI value p = le32p_replace_bits 0 value (GENMASK 23 16) p"

definition SET_ADAPTIVITY_L2H :: "u32 \<Rightarrow> u8 list \<Rightarrow> u8 list" where
  "SET_ADAPTIVITY_L2H value p = le32p_replace_bits 0 value (GENMASK 31 24) p"

definition SET_ADAPTIVITY_DENSITY :: "u32 \<Rightarrow> u8 list \<Rightarrow> u8 list" where
  "SET_ADAPTIVITY_DENSITY value p = le32p_replace_bits 1 value (GENMASK 7 0) p"

definition SET_PWR_MODE_SET_MODE :: "u32 \<Rightarrow> u8 list \<Rightarrow> u8 list" where
  "SET_PWR_MODE_SET_MODE value p = le32p_replace_bits 0 value (GENMASK 14 8) p"

definition SET_PWR_MODE_SET_RLBM :: "u32 \<Rightarrow> u8 list \<Rightarrow> u8 list" where
  "SET_PWR_MODE_SET_RLBM value p = le32p_replace_bits 0 value (GENMASK 19 16) p"

definition SET_PWR_MODE_SET_SMART_PS :: "u32 \<Rightarrow> u8 list \<Rightarrow> u8 list" where
  "SET_PWR_MODE_SET_SMART_PS value p = le32p_replace_bits 0 value (GENMASK 23 20) p"

definition SET_PWR_MODE_SET_AWAKE_INTERVAL :: "u32 \<Rightarrow> u8 list \<Rightarrow> u8 list" where
  "SET_PWR_MODE_SET_AWAKE_INTERVAL value p = le32p_replace_bits 0 value (GENMASK 31 24) p"

definition SET_PWR_MODE_SET_PORT_ID :: "u32 \<Rightarrow> u8 list \<Rightarrow> u8 list" where
  "SET_PWR_MODE_SET_PORT_ID value p = le32p_replace_bits 1 value (GENMASK 7 5) p"

definition SET_PWR_MODE_SET_PWR_STATE :: "u32 \<Rightarrow> u8 list \<Rightarrow> u8 list" where
  "SET_PWR_MODE_SET_PWR_STATE value p = le32p_replace_bits 1 value (GENMASK 15 8) p"

definition LPS_PG_INFO_LOC :: "u32 \<Rightarrow> u8 list \<Rightarrow> u8 list" where
  "LPS_PG_INFO_LOC value p = le32p_replace_bits 0 value (GENMASK 23 16) p"

definition LPS_PG_DPK_LOC :: "u32 \<Rightarrow> u8 list \<Rightarrow> u8 list" where
  "LPS_PG_DPK_LOC value p = le32p_replace_bits 0 value (GENMASK 31 24) p"

definition LPS_PG_SEC_CAM_EN :: "u32 \<Rightarrow> u8 list \<Rightarrow> u8 list" where
  "LPS_PG_SEC_CAM_EN value p = le32p_replace_bits 0 value (BIT 8) p"

definition LPS_PG_PATTERN_CAM_EN :: "u32 \<Rightarrow> u8 list \<Rightarrow> u8 list" where
  "LPS_PG_PATTERN_CAM_EN value p = le32p_replace_bits 0 value (BIT 10) p"

definition SET_RSSI_INFO_MACID :: "u32 \<Rightarrow> u8 list \<Rightarrow> u8 list" where
  "SET_RSSI_INFO_MACID value p = le32p_replace_bits 0 value (GENMASK 15 8) p"

definition SET_RSSI_INFO_RSSI :: "u32 \<Rightarrow> u8 list \<Rightarrow> u8 list" where
  "SET_RSSI_INFO_RSSI value p = le32p_replace_bits 0 value (GENMASK 31 24) p"

definition SET_RSSI_INFO_STBC :: "u32 \<Rightarrow> u8 list \<Rightarrow> u8 list" where
  "SET_RSSI_INFO_STBC value p = le32p_replace_bits 1 value (BIT 1) p"

definition SET_RA_INFO_MACID :: "u32 \<Rightarrow> u8 list \<Rightarrow> u8 list" where
  "SET_RA_INFO_MACID value p = le32p_replace_bits 0 value (GENMASK 15 8) p"

definition SET_RA_INFO_RATE_ID :: "u32 \<Rightarrow> u8 list \<Rightarrow> u8 list" where
  "SET_RA_INFO_RATE_ID value p = le32p_replace_bits 0 value (GENMASK 20 16) p"

definition SET_RA_INFO_INIT_RA_LVL :: "u32 \<Rightarrow> u8 list \<Rightarrow> u8 list" where
  "SET_RA_INFO_INIT_RA_LVL value p = le32p_replace_bits 0 value (GENMASK 22 21) p"

definition SET_RA_INFO_SGI_EN :: "u32 \<Rightarrow> u8 list \<Rightarrow> u8 list" where
  "SET_RA_INFO_SGI_EN value p = le32p_replace_bits 0 value (BIT 23) p"

definition SET_RA_INFO_BW_MODE :: "u32 \<Rightarrow> u8 list \<Rightarrow> u8 list" where
  "SET_RA_INFO_BW_MODE value p = le32p_replace_bits 0 value (GENMASK 25 24) p"

definition SET_RA_INFO_LDPC :: "u32 \<Rightarrow> u8 list \<Rightarrow> u8 list" where
  "SET_RA_INFO_LDPC value p = le32p_replace_bits 0 value (BIT 26) p"

definition SET_RA_INFO_NO_UPDATE :: "u32 \<Rightarrow> u8 list \<Rightarrow> u8 list" where
  "SET_RA_INFO_NO_UPDATE value p = le32p_replace_bits 0 value (BIT 27) p"

definition SET_RA_INFO_VHT_EN :: "u32 \<Rightarrow> u8 list \<Rightarrow> u8 list" where
  "SET_RA_INFO_VHT_EN value p = le32p_replace_bits 0 value (GENMASK 29 28) p"

definition SET_RA_INFO_DIS_PT :: "u32 \<Rightarrow> u8 list \<Rightarrow> u8 list" where
  "SET_RA_INFO_DIS_PT value p = le32p_replace_bits 0 value (BIT 30) p"

definition SET_RA_INFO_RA_MASK0 :: "u32 \<Rightarrow> u8 list \<Rightarrow> u8 list" where
  "SET_RA_INFO_RA_MASK0 value p = le32p_replace_bits 1 value (GENMASK 7 0) p"

definition SET_RA_INFO_RA_MASK1 :: "u32 \<Rightarrow> u8 list \<Rightarrow> u8 list" where
  "SET_RA_INFO_RA_MASK1 value p = le32p_replace_bits 1 value (GENMASK 15 8) p"

definition SET_RA_INFO_RA_MASK2 :: "u32 \<Rightarrow> u8 list \<Rightarrow> u8 list" where
  "SET_RA_INFO_RA_MASK2 value p = le32p_replace_bits 1 value (GENMASK 23 16) p"

definition SET_RA_INFO_RA_MASK3 :: "u32 \<Rightarrow> u8 list \<Rightarrow> u8 list" where
  "SET_RA_INFO_RA_MASK3 value p = le32p_replace_bits 1 value (GENMASK 31 24) p"

definition SET_QUERY_BT_INFO :: "u32 \<Rightarrow> u8 list \<Rightarrow> u8 list" where
  "SET_QUERY_BT_INFO value p = le32p_replace_bits 0 value (BIT 8) p"

definition SET_WL_CH_INFO_LINK :: "u32 \<Rightarrow> u8 list \<Rightarrow> u8 list" where
  "SET_WL_CH_INFO_LINK value p = le32p_replace_bits 0 value (GENMASK 15 8) p"

definition SET_WL_CH_INFO_CHNL :: "u32 \<Rightarrow> u8 list \<Rightarrow> u8 list" where
  "SET_WL_CH_INFO_CHNL value p = le32p_replace_bits 0 value (GENMASK 23 16) p"

definition SET_WL_CH_INFO_BW :: "u32 \<Rightarrow> u8 list \<Rightarrow> u8 list" where
  "SET_WL_CH_INFO_BW value p = le32p_replace_bits 0 value (GENMASK 31 24) p"

definition SET_BT_MP_INFO_SEQ :: "u32 \<Rightarrow> u8 list \<Rightarrow> u8 list" where
  "SET_BT_MP_INFO_SEQ value p = le32p_replace_bits 0 value (GENMASK 15 12) p"

definition SET_BT_MP_INFO_OP_CODE :: "u32 \<Rightarrow> u8 list \<Rightarrow> u8 list" where
  "SET_BT_MP_INFO_OP_CODE value p = le32p_replace_bits 0 value (GENMASK 23 16) p"

definition SET_BT_MP_INFO_PARA1 :: "u32 \<Rightarrow> u8 list \<Rightarrow> u8 list" where
  "SET_BT_MP_INFO_PARA1 value p = le32p_replace_bits 0 value (GENMASK 31 24) p"

definition SET_BT_MP_INFO_PARA2 :: "u32 \<Rightarrow> u8 list \<Rightarrow> u8 list" where
  "SET_BT_MP_INFO_PARA2 value p = le32p_replace_bits 1 value (GENMASK 7 0) p"

definition SET_BT_MP_INFO_PARA3 :: "u32 \<Rightarrow> u8 list \<Rightarrow> u8 list" where
  "SET_BT_MP_INFO_PARA3 value p = le32p_replace_bits 1 value (GENMASK 15 8) p"

definition SET_BT_TX_POWER_INDEX :: "u32 \<Rightarrow> u8 list \<Rightarrow> u8 list" where
  "SET_BT_TX_POWER_INDEX value p = le32p_replace_bits 0 value (GENMASK 15 8) p"

definition SET_IGNORE_WLAN_ACTION_EN :: "u32 \<Rightarrow> u8 list \<Rightarrow> u8 list" where
  "SET_IGNORE_WLAN_ACTION_EN value p = le32p_replace_bits 0 value (BIT 8) p"

definition SET_COEX_TDMA_TYPE_PARA1 :: "u32 \<Rightarrow> u8 list \<Rightarrow> u8 list" where
  "SET_COEX_TDMA_TYPE_PARA1 value p = le32p_replace_bits 0 value (GENMASK 15 8) p"

definition SET_COEX_TDMA_TYPE_PARA2 :: "u32 \<Rightarrow> u8 list \<Rightarrow> u8 list" where
  "SET_COEX_TDMA_TYPE_PARA2 value p = le32p_replace_bits 0 value (GENMASK 23 16) p"

definition SET_COEX_TDMA_TYPE_PARA3 :: "u32 \<Rightarrow> u8 list \<Rightarrow> u8 list" where
  "SET_COEX_TDMA_TYPE_PARA3 value p = le32p_replace_bits 0 value (GENMASK 31 24) p"

definition SET_COEX_TDMA_TYPE_PARA4 :: "u32 \<Rightarrow> u8 list \<Rightarrow> u8 list" where
  "SET_COEX_TDMA_TYPE_PARA4 value p = le32p_replace_bits 1 value (GENMASK 7 0) p"

definition SET_COEX_TDMA_TYPE_PARA5 :: "u32 \<Rightarrow> u8 list \<Rightarrow> u8 list" where
  "SET_COEX_TDMA_TYPE_PARA5 value p = le32p_replace_bits 1 value (GENMASK 15 8) p"

definition SET_BT_WIFI_CONTROL_OP_CODE :: "u32 \<Rightarrow> u8 list \<Rightarrow> u8 list" where
  "SET_BT_WIFI_CONTROL_OP_CODE value p = le32p_replace_bits 0 value (GENMASK 15 8) p"

definition SET_BT_WIFI_CONTROL_DATA1 :: "u32 \<Rightarrow> u8 list \<Rightarrow> u8 list" where
  "SET_BT_WIFI_CONTROL_DATA1 value p = le32p_replace_bits 0 value (GENMASK 23 16) p"

definition SET_BT_WIFI_CONTROL_DATA2 :: "u32 \<Rightarrow> u8 list \<Rightarrow> u8 list" where
  "SET_BT_WIFI_CONTROL_DATA2 value p = le32p_replace_bits 0 value (GENMASK 31 24) p"

definition SET_BT_WIFI_CONTROL_DATA3 :: "u32 \<Rightarrow> u8 list \<Rightarrow> u8 list" where
  "SET_BT_WIFI_CONTROL_DATA3 value p = le32p_replace_bits 1 value (GENMASK 7 0) p"

definition SET_BT_WIFI_CONTROL_DATA4 :: "u32 \<Rightarrow> u8 list \<Rightarrow> u8 list" where
  "SET_BT_WIFI_CONTROL_DATA4 value p = le32p_replace_bits 1 value (GENMASK 15 8) p"

definition SET_BT_WIFI_CONTROL_DATA5 :: "u32 \<Rightarrow> u8 list \<Rightarrow> u8 list" where
  "SET_BT_WIFI_CONTROL_DATA5 value p = le32p_replace_bits 1 value (GENMASK 23 16) p"

definition SET_COEX_QUERY_HID_INFO_SUBID :: "u32 \<Rightarrow> u8 list \<Rightarrow> u8 list" where
  "SET_COEX_QUERY_HID_INFO_SUBID value p = le32p_replace_bits 0 value (GENMASK 15 8) p"

definition SET_COEX_QUERY_HID_INFO_DATA1 :: "u32 \<Rightarrow> u8 list \<Rightarrow> u8 list" where
  "SET_COEX_QUERY_HID_INFO_DATA1 value p = le32p_replace_bits 0 value (GENMASK 23 16) p"

definition SET_KEEP_ALIVE_ENABLE :: "u32 \<Rightarrow> u8 list \<Rightarrow> u8 list" where
  "SET_KEEP_ALIVE_ENABLE value p = le32p_replace_bits 0 value (BIT 8) p"

definition SET_KEEP_ALIVE_ADOPT :: "u32 \<Rightarrow> u8 list \<Rightarrow> u8 list" where
  "SET_KEEP_ALIVE_ADOPT value p = le32p_replace_bits 0 value (BIT 9) p"

definition SET_KEEP_ALIVE_PKT_TYPE :: "u32 \<Rightarrow> u8 list \<Rightarrow> u8 list" where
  "SET_KEEP_ALIVE_PKT_TYPE value p = le32p_replace_bits 0 value (BIT 10) p"

definition SET_KEEP_ALIVE_CHECK_PERIOD :: "u32 \<Rightarrow> u8 list \<Rightarrow> u8 list" where
  "SET_KEEP_ALIVE_CHECK_PERIOD value p = le32p_replace_bits 0 value (GENMASK 23 16) p"

definition SET_DISCONNECT_DECISION_ENABLE :: "u32 \<Rightarrow> u8 list \<Rightarrow> u8 list" where
  "SET_DISCONNECT_DECISION_ENABLE value p = le32p_replace_bits 0 value (BIT 8) p"

definition SET_DISCONNECT_DECISION_ADOPT :: "u32 \<Rightarrow> u8 list \<Rightarrow> u8 list" where
  "SET_DISCONNECT_DECISION_ADOPT value p = le32p_replace_bits 0 value (BIT 9) p"

definition SET_DISCONNECT_DECISION_CHECK_PERIOD :: "u32 \<Rightarrow> u8 list \<Rightarrow> u8 list" where
  "SET_DISCONNECT_DECISION_CHECK_PERIOD value p = le32p_replace_bits 0 value (GENMASK 23 16) p"

definition SET_DISCONNECT_DECISION_TRY_PKT_NUM :: "u32 \<Rightarrow> u8 list \<Rightarrow> u8 list" where
  "SET_DISCONNECT_DECISION_TRY_PKT_NUM value p = le32p_replace_bits 0 value (GENMASK 31 24) p"

definition SET_WOWLAN_FUNC_ENABLE :: "u32 \<Rightarrow> u8 list \<Rightarrow> u8 list" where
  "SET_WOWLAN_FUNC_ENABLE value p = le32p_replace_bits 0 value (BIT 8) p"

definition SET_WOWLAN_PATTERN_MATCH_ENABLE :: "u32 \<Rightarrow> u8 list \<Rightarrow> u8 list" where
  "SET_WOWLAN_PATTERN_MATCH_ENABLE value p = le32p_replace_bits 0 value (BIT 9) p"

definition SET_WOWLAN_MAGIC_PKT_ENABLE :: "u32 \<Rightarrow> u8 list \<Rightarrow> u8 list" where
  "SET_WOWLAN_MAGIC_PKT_ENABLE value p = le32p_replace_bits 0 value (BIT 10) p"

definition SET_WOWLAN_UNICAST_PKT_ENABLE :: "u32 \<Rightarrow> u8 list \<Rightarrow> u8 list" where
  "SET_WOWLAN_UNICAST_PKT_ENABLE value p = le32p_replace_bits 0 value (BIT 11) p"

definition SET_WOWLAN_REKEY_WAKEUP_ENABLE :: "u32 \<Rightarrow> u8 list \<Rightarrow> u8 list" where
  "SET_WOWLAN_REKEY_WAKEUP_ENABLE value p = le32p_replace_bits 0 value (BIT 14) p"

definition SET_WOWLAN_DEAUTH_WAKEUP_ENABLE :: "u32 \<Rightarrow> u8 list \<Rightarrow> u8 list" where
  "SET_WOWLAN_DEAUTH_WAKEUP_ENABLE value p = le32p_replace_bits 0 value (BIT 15) p"

definition SET_REMOTE_WAKECTRL_ENABLE :: "u32 \<Rightarrow> u8 list \<Rightarrow> u8 list" where
  "SET_REMOTE_WAKECTRL_ENABLE value p = le32p_replace_bits 0 value (BIT 8) p"

definition SET_REMOTE_WAKE_CTRL_NLO_OFFLOAD_EN :: "u32 \<Rightarrow> u8 list \<Rightarrow> u8 list" where
  "SET_REMOTE_WAKE_CTRL_NLO_OFFLOAD_EN value p = le32p_replace_bits 0 value (BIT 12) p"

definition SET_AOAC_GLOBAL_INFO_PAIRWISE_ENC_ALG :: "u32 \<Rightarrow> u8 list \<Rightarrow> u8 list" where
  "SET_AOAC_GLOBAL_INFO_PAIRWISE_ENC_ALG value p = le32p_replace_bits 0 value (GENMASK 15 8) p"

definition SET_AOAC_GLOBAL_INFO_GROUP_ENC_ALG :: "u32 \<Rightarrow> u8 list \<Rightarrow> u8 list" where
  "SET_AOAC_GLOBAL_INFO_GROUP_ENC_ALG value p = le32p_replace_bits 0 value (GENMASK 23 16) p"

definition SET_NLO_FUN_EN :: "u32 \<Rightarrow> u8 list \<Rightarrow> u8 list" where
  "SET_NLO_FUN_EN value p = le32p_replace_bits 0 value (BIT 8) p"

definition SET_NLO_PS_32K :: "u32 \<Rightarrow> u8 list \<Rightarrow> u8 list" where
  "SET_NLO_PS_32K value p = le32p_replace_bits 0 value (BIT 9) p"

definition SET_NLO_IGNORE_SECURITY :: "u32 \<Rightarrow> u8 list \<Rightarrow> u8 list" where
  "SET_NLO_IGNORE_SECURITY value p = le32p_replace_bits 0 value (BIT 10) p"

definition SET_NLO_LOC_NLO_INFO :: "u32 \<Rightarrow> u8 list \<Rightarrow> u8 list" where
  "SET_NLO_LOC_NLO_INFO value p = le32p_replace_bits 0 value (GENMASK 23 16) p"

definition SET_RECOVER_BT_DEV_EN :: "u32 \<Rightarrow> u8 list \<Rightarrow> u8 list" where
  "SET_RECOVER_BT_DEV_EN value p = le32p_replace_bits 0 value (BIT 8) p"

definition RFK_SET_INFORM_START :: "u32 \<Rightarrow> u8 list \<Rightarrow> u8 list" where
  "RFK_SET_INFORM_START value p = le32p_replace_bits 0 value (BIT 8) p"

lemmas le32_field_defs =
  SET_PKT_H2C_CATEGORY_def SET_PKT_H2C_CMD_ID_def SET_PKT_H2C_SUB_CMD_ID_def
  SET_PKT_H2C_TOTAL_LEN_def FW_OFFLOAD_H2C_SET_SEQ_NUM_def GENERAL_INFO_SET_FW_TX_BOUNDARY_def
  PHYDM_INFO_SET_REF_TYPE_def PHYDM_INFO_SET_RF_TYPE_def PHYDM_INFO_SET_CUT_VER_def
  PHYDM_INFO_SET_RX_ANT_STATUS_def PHYDM_INFO_SET_TX_ANT_STATUS_def IQK_SET_CLEAR_def
  IQK_SET_SEGMENT_IQK_def CHSW_INFO_SET_CH_def CHSW_INFO_SET_PRI_CH_IDX_def
  CHSW_INFO_SET_BW_def CHSW_INFO_SET_TIMEOUT_def CHSW_INFO_SET_ACTION_ID_def
  CHSW_INFO_SET_EXTRA_INFO_def UPDATE_PKT_SET_SIZE_def UPDATE_PKT_SET_PKT_ID_def
  UPDATE_PKT_SET_LOCATION_def CH_SWITCH_SET_START_def CH_SWITCH_SET_DEST_CH_EN_def
  CH_SWITCH_SET_ABSOLUTE_TIME_def CH_SWITCH_SET_PERIODIC_OPT_def CH_SWITCH_SET_SCAN_MODE_def
  CH_SWITCH_SET_BACK_OP_EN_def CH_SWITCH_SET_INFO_LOC_def CH_SWITCH_SET_CH_NUM_def
  CH_SWITCH_SET_PRI_CH_IDX_def CH_SWITCH_SET_DEST_BW_def CH_SWITCH_SET_DEST_CH_def
  CH_SWITCH_SET_NORMAL_PERIOD_def CH_SWITCH_SET_NORMAL_PERIOD_SEL_def CH_SWITCH_SET_SLOW_PERIOD_def
  CH_SWITCH_SET_SLOW_PERIOD_SEL_def CH_SWITCH_SET_NORMAL_CYCLE_def CH_SWITCH_SET_TSF_HIGH_def
  CH_SWITCH_SET_TSF_LOW_def CH_SWITCH_SET_INFO_SIZE_def SCAN_OFFLOAD_SET_START_def
  SCAN_OFFLOAD_SET_BACK_OP_EN_def SCAN_OFFLOAD_SET_RANDOM_SEQ_EN_def SCAN_OFFLOAD_SET_NO_CCK_EN_def
  SCAN_OFFLOAD_SET_VERBOSE_def SCAN_OFFLOAD_SET_CH_NUM_def SCAN_OFFLOAD_SET_CH_INFO_SIZE_def
  SCAN_OFFLOAD_SET_CH_INFO_LOC_def SCAN_OFFLOAD_SET_OP_CH_def SCAN_OFFLOAD_SET_OP_PRI_CH_IDX_def
  SCAN_OFFLOAD_SET_OP_BW_def SCAN_OFFLOAD_SET_OP_PORT_ID_def SCAN_OFFLOAD_SET_OP_DWELL_TIME_def
  SCAN_OFFLOAD_SET_OP_GAP_TIME_def SCAN_OFFLOAD_SET_MODE_def SCAN_OFFLOAD_SET_SSID_NUM_def
  SCAN_OFFLOAD_SET_PKT_LOC_def SET_H2C_CMD_ID_CLASS_def MEDIA_STATUS_RPT_SET_OP_MODE_def
  MEDIA_STATUS_RPT_SET_MACID_def SET_WL_PHY_INFO_TX_TP_def SET_WL_PHY_INFO_RX_TP_def
  SET_WL_PHY_INFO_TX_RATE_DESC_def SET_WL_PHY_INFO_RX_RATE_DESC_def SET_WL_PHY_INFO_RX_EVM_def
  SET_BCN_FILTER_OFFLOAD_P1_MACID_def SET_BCN_FILTER_OFFLOAD_P1_ENABLE_def SET_BCN_FILTER_OFFLOAD_P1_HYST_def
  SET_BCN_FILTER_OFFLOAD_P1_OFFLOAD_MODE_def SET_BCN_FILTER_OFFLOAD_P1_THRESHOLD_def SET_BCN_FILTER_OFFLOAD_P1_BCN_LOSS_CNT_def
  SET_BCN_FILTER_OFFLOAD_P1_BCN_INTERVAL_def SET_SCAN_START_def SET_ADAPTIVITY_MODE_def
  SET_ADAPTIVITY_OPTION_def SET_ADAPTIVITY_IGI_def SET_ADAPTIVITY_L2H_def
  SET_ADAPTIVITY_DENSITY_def SET_PWR_MODE_SET_MODE_def SET_PWR_MODE_SET_RLBM_def
  SET_PWR_MODE_SET_SMART_PS_def SET_PWR_MODE_SET_AWAKE_INTERVAL_def SET_PWR_MODE_SET_PORT_ID_def
  SET_PWR_MODE_SET_PWR_STATE_def LPS_PG_INFO_LOC_def LPS_PG_DPK_LOC_def
  LPS_PG_SEC_CAM_EN_def LPS_PG_PATTERN_CAM_EN_def SET_RSSI_INFO_MACID_def
  SET_RSSI_INFO_RSSI_def SET_RSSI_INFO_STBC_def SET_RA_INFO_MACID_def
  SET_RA_INFO_RATE_ID_def SET_RA_INFO_INIT_RA_LVL_def SET_RA_INFO_SGI_EN_def
  SET_RA_INFO_BW_MODE_def SET_RA_INFO_LDPC_def SET_RA_INFO_NO_UPDATE_def
  SET_RA_INFO_VHT_EN_def SET_RA_INFO_DIS_PT_def SET_RA_INFO_RA_MASK0_def
  SET_RA_INFO_RA_MASK1_def SET_RA_INFO_RA_MASK2_def SET_RA_INFO_RA_MASK3_def
  SET_QUERY_BT_INFO_def SET_WL_CH_INFO_LINK_def SET_WL_CH_INFO_CHNL_def
  SET_WL_CH_INFO_BW_def SET_BT_MP_INFO_SEQ_def SET_BT_MP_INFO_OP_CODE_def
  SET_BT_MP_INFO_PARA1_def SET_BT_MP_INFO_PARA2_def SET_BT_MP_INFO_PARA3_def
  SET_BT_TX_POWER_INDEX_def SET_IGNORE_WLAN_ACTION_EN_def SET_COEX_TDMA_TYPE_PARA1_def
  SET_COEX_TDMA_TYPE_PARA2_def SET_COEX_TDMA_TYPE_PARA3_def SET_COEX_TDMA_TYPE_PARA4_def
  SET_COEX_TDMA_TYPE_PARA5_def SET_BT_WIFI_CONTROL_OP_CODE_def SET_BT_WIFI_CONTROL_DATA1_def
  SET_BT_WIFI_CONTROL_DATA2_def SET_BT_WIFI_CONTROL_DATA3_def SET_BT_WIFI_CONTROL_DATA4_def
  SET_BT_WIFI_CONTROL_DATA5_def SET_COEX_QUERY_HID_INFO_SUBID_def SET_COEX_QUERY_HID_INFO_DATA1_def
  SET_KEEP_ALIVE_ENABLE_def SET_KEEP_ALIVE_ADOPT_def SET_KEEP_ALIVE_PKT_TYPE_def
  SET_KEEP_ALIVE_CHECK_PERIOD_def SET_DISCONNECT_DECISION_ENABLE_def SET_DISCONNECT_DECISION_ADOPT_def
  SET_DISCONNECT_DECISION_CHECK_PERIOD_def SET_DISCONNECT_DECISION_TRY_PKT_NUM_def SET_WOWLAN_FUNC_ENABLE_def
  SET_WOWLAN_PATTERN_MATCH_ENABLE_def SET_WOWLAN_MAGIC_PKT_ENABLE_def SET_WOWLAN_UNICAST_PKT_ENABLE_def
  SET_WOWLAN_REKEY_WAKEUP_ENABLE_def SET_WOWLAN_DEAUTH_WAKEUP_ENABLE_def SET_REMOTE_WAKECTRL_ENABLE_def
  SET_REMOTE_WAKE_CTRL_NLO_OFFLOAD_EN_def SET_AOAC_GLOBAL_INFO_PAIRWISE_ENC_ALG_def SET_AOAC_GLOBAL_INFO_GROUP_ENC_ALG_def
  SET_NLO_FUN_EN_def SET_NLO_PS_32K_def SET_NLO_IGNORE_SECURITY_def
  SET_NLO_LOC_NLO_INFO_def SET_RECOVER_BT_DEV_EN_def RFK_SET_INFORM_START_def

lemmas u8_field_defs =
  CH_INFO_SET_CH_def CH_INFO_SET_PRI_CH_IDX_def CH_INFO_SET_BW_def
  CH_INFO_SET_TIMEOUT_def CH_INFO_SET_ACTION_ID_def CH_INFO_SET_EXTRA_INFO_def
  EXTRA_CH_INFO_SET_ID_def EXTRA_CH_INFO_SET_INFO_def EXTRA_CH_INFO_SET_SIZE_def
  EXTRA_CH_INFO_SET_DFS_EXT_TIME_def

section \<open>Reading a field back\<close>

lemma length_le32p [simp]: "4 * i + 4 \<le> length p \<Longrightarrow> length (le32p_replace_bits i v f p) = length p"
  by (simp add: le32p_replace_bits_def)

lemma length_u8p [simp]: "length (u8p_replace_bits i v f p) = length p"
  by (simp add: u8p_replace_bits_def)

lemma word_at_le32p:
  assumes "4 * i + 4 \<le> length p"
  shows "word_at j (le32p_replace_bits i v f p) = (if i = j then replace_bits (word_at i p) v f else word_at j p)"
proof -
  consider "i = j" | "i < j" | "j < i" by linarith
  then show ?thesis
  proof cases
    case 1
    with assms show ?thesis
      by (simp add: word_at_def le32p_replace_bits_def take_bit_word_eq_self)
  next
    case 2
    then have "4 * j = 4 * i + 4 + (4 * j - (4 * i + 4))" by linarith
    with 2 assms show ?thesis
      by (simp add: word_at_def le32p_replace_bits_def)
  next
    case 3
    then have "4 * j + 4 \<le> 4 * i" by linarith
    with 3 assms show ?thesis
      by (simp add: word_at_def le32p_replace_bits_def drop_take [symmetric] take_drop)
  qed
qed

lemma word_at_zeros [simp]: "word_at i (replicate n 0) = 0"
proof -
  have "le_word (replicate k 0) = (0 :: u32)" for k
    by (induction k) simp_all
  then show ?thesis
    by (simp add: word_at_def)
qed

end
