(* ===== verification/Drv.thy ===== *)
theory Drv
  imports PhyDm FwMsg
begin

text \<open>
  The state of the driver core above the PHY (\<open>struct rtw_dev\<close> and what it points to, \<open>main.h\<close>):
  interfaces, power saving, wake on WLAN, reserved pages, hardware scan, key table and statistics,
  as a record that extends the PHY's; and the record of what the core calls outside itself: host
  interface, mac80211 and the coexistence code.
\<close>

section \<open>Interfaces\<close>

datatype rtw_net_type = RTW_NET_NO_LINK | RTW_NET_AD_HOC | RTW_NET_MGD_LINKED | RTW_NET_AP_MODE

definition net_type_val :: "rtw_net_type \<Rightarrow> u32" where
  "net_type_val t = (case t of RTW_NET_NO_LINK \<Rightarrow> 0 | RTW_NET_AD_HOC \<Rightarrow> 1 | RTW_NET_MGD_LINKED \<Rightarrow> 2 | RTW_NET_AP_MODE \<Rightarrow> 3)"

record rtw_vif_port =
  vp_mac_addr :: u32
  vp_bssid :: u32
  vp_net_type :: "u32 \<times> u32"   \<comment> \<open>address and mask\<close>
  vp_aid :: "u32 \<times> u32"
  vp_bcn_ctrl :: "u32 \<times> u8"

record rtw_traffic_stats =
  ts_tx_unicast :: "64 word"
  ts_rx_unicast :: "64 word"
  ts_tx_cnt :: "64 word"
  ts_rx_cnt :: "64 word"
  ts_tx_ewma_tp :: "u32 list"   \<comment> \<open>the samples an average has been given\<close>
  ts_rx_ewma_tp :: "u32 list"
  ts_tx_throughput :: u32
  ts_rx_throughput :: u32

record ieee80211_tx_queue_params =
  tq_txop :: u16
  tq_cw_min :: u16
  tq_cw_max :: u16
  tq_aifs :: u8

type_synonym cfg80211_ssid = "u8 list"

text \<open>A channel of mac80211: its number and whether it is subject to radar or must not be initiated on.\<close>

record ieee80211_channel =
  ch_hw_value :: u16
  ch_radar :: bool
  ch_no_ir :: bool

text \<open>
  A scan request of mac80211 with its information elements; \<open>sr_random_addr\<close> is the address
  \<open>get_random_mask_addr\<close> draws when the request asks for a random one.
\<close>

record cfg80211_scan_request =
  sr_channels :: "ieee80211_channel list"
  sr_ssids :: "cfg80211_ssid list"
  sr_duration :: u16
  sr_duration_mandatory :: bool
  sr_no_cck :: bool
  sr_random_sn :: bool
  sr_random_addr :: "u8 list option"
  sr_ie_len :: nat
  sr_band_ies :: "nat \<Rightarrow> u8 list"
  sr_common_ies :: "u8 list"

datatype rtw_bfee_role = RTW_BFEE_NONE | RTW_BFEE_SU | RTW_BFEE_MU

text \<open>
  \<open>rv_type\<close> to \<open>rv_dtim_period\<close> are of mac80211's \<open>struct ieee80211_vif\<close>, the rest is the
  driver's \<open>struct rtw_vif\<close> in its \<open>drv_priv\<close>; \<open>rv_peer\<close> is the station \<open>ieee80211_find_sta\<close> finds
  for the BSSID, by its place among the stations.
\<close>

record rtw_vif =
  rv_type :: nl80211_iftype
  rv_addr :: "u8 list"
  rv_p2p :: bool
  rv_beacon_filter :: bool   \<comment> \<open>\<open>driver_flags\<close>: beacon filter and signal strength events\<close>
  rv_assoc :: bool
  rv_ps :: bool
  rv_cfg_aid :: u16
  rv_peer :: "nat option"
  rv_bss_bssid :: "u8 list"
  rv_beacon_int :: u16
  rv_cqm_rssi_thold :: "32 word"
  rv_cqm_rssi_hyst :: u32
  rv_basic_rates :: u32
  rv_use_short_slot :: bool
  rv_enable_beacon :: bool
  rv_dtim_period :: u8
  rv_net_type :: rtw_net_type
  rv_aid :: u16
  rv_mac_id :: u8
  rv_mac_addr :: "u8 list"
  rv_bssid :: "u8 list"
  rv_port :: nat
  rv_conf :: rtw_vif_port
  rv_bcn_ctrl :: u8
  rv_rsvd_pages :: "nat list"
  rv_stats :: rtw_traffic_stats
  rv_tx_params :: "nat \<Rightarrow> ieee80211_tx_queue_params"
  rv_scan_req :: "cfg80211_scan_request option"
  rv_txq :: "nat option"
  rv_bfee_role :: rtw_bfee_role

section \<open>Power saving and wake on WLAN\<close>

datatype rtw_lps_deep_mode = LPS_DEEP_MODE_NONE | LPS_DEEP_MODE_LCLK | LPS_DEEP_MODE_PG

abbreviation (input) RTW_MODE_ACTIVE :: u8 where "RTW_MODE_ACTIVE \<equiv> 0"
abbreviation (input) RTW_MODE_LPS :: u8 where "RTW_MODE_LPS \<equiv> 1"
abbreviation (input) RTW_RF_OFF :: u8 where "RTW_RF_OFF \<equiv> 0"
abbreviation (input) RTW_ALL_ON :: u8 where "RTW_ALL_ON \<equiv> 0xc"

record rtw_lps_conf =
  lps_mode :: u8
  lps_deep_mode :: rtw_lps_deep_mode
  lps_wow_deep_mode :: rtw_lps_deep_mode
  lps_state :: u8
  lps_awake_interval :: u8
  lps_rlbm :: u8
  lps_smart_ps :: u8
  lps_port_id :: u8
  lps_sec_cam_backup :: bool
  lps_pattern_cam_backup :: bool

record rtw_pno_request =
  pno_inited :: bool
  pno_match_sets :: "cfg80211_ssid list"
  pno_channels :: "ieee80211_channel list"

record rtw_wow_param =
  wow_vif :: nat
  wow_en_magic_pkt :: bool
  wow_en_rekey_pkt :: bool
  wow_en_disconnect :: bool
  wow_pattern_cnt :: u8
  wow_pno_req :: rtw_pno_request

section \<open>Reserved pages\<close>

datatype rtw_rsvd_packet_type =
  RSVD_BEACON | RSVD_DUMMY | RSVD_PS_POLL | RSVD_PROBE_RESP | RSVD_NULL | RSVD_QOS_NULL
  | RSVD_LPS_PG_DPK | RSVD_LPS_PG_INFO | RSVD_PROBE_REQ | RSVD_NLO_INFO | RSVD_CH_INFO

text \<open>A page is an object that an interface's list and the build list may both hold: they hold its number.\<close>

record rtw_rsvd_page =
  rp_vif :: "nat option"
  rp_type :: rtw_rsvd_packet_type
  rp_page :: u8
  rp_tim_offset :: u16
  rp_add_txdesc :: bool
  rp_ssid :: "cfg80211_ssid option"
  rp_probe_req_size :: u16
  rp_skb :: "u8 list option"

section \<open>Scan and keys\<close>

record rtw_hw_scan_info =
  si_scanning_vif :: "nat option"
  si_probe_pg_size :: u8
  si_op_pri_ch_idx :: u8
  si_op_pri_ch :: u8
  si_op_chan :: u8
  si_op_bw :: u8

record ieee80211_key_conf =
  key_id :: nat
  key_cipher :: u32
  key_keyidx :: u8
  key_hw_key_idx :: u8
  key_pairwise :: bool
  key_generate_mmic :: bool
  key_sw_mgmt_tx :: bool
  key_generate_iv :: bool
  key_bytes :: "u8 list"
  key_past :: "nat \<Rightarrow> u8"      \<comment> \<open>the memory behind those bytes\<close>

record rtw_cam_entry =
  cam_valid :: bool
  cam_group :: bool
  cam_addr :: "u8 list"
  cam_hw_key_type :: u8
  cam_key :: "nat option"

text \<open>\<open>cam_map\<close> is the bitmap of the used entries.\<close>

record rtw_sec_desc =
  default_key_search :: bool
  total_cam_num :: u32
  cam_table :: "nat \<Rightarrow> rtw_cam_entry"
  cam_map :: "nat \<Rightarrow> bool"

section \<open>What the core asks of its surroundings\<close>

text \<open>Calls of mac80211 and of the kernel's work queues and completions, in the order they are made.\<close>

datatype kcall =
  KCqmRssi nat bool u8 | KConnectionLoss nat | KStopQueues | KWakeQueues | KScanCompleted bool
  | KLpsLeaveCheck | KScanDensity | KReinitLpsLeave | KReinitScanDensity | KWaitLpsLeave | KWaitScanDensity
  | KQueueC2hWork | KQueueFwRecovery | KQueueWatchDog | KQueueIpsWork | KQueueUpdateBeacon | KQueueRcWork nat
  | KCancelWorks | KCancelRcWork nat | KCancelIpsWork | KRestartHw | KRequestSmps nat bool | KCoredump
  | KTxStatus nat bool | KFreeTxSkb nat | KQueueBaWork | KQueueTxWork
  | KStartTxBa nat nat | KStopTxBaCb nat nat | KDtimWakeup bool | KModPurgeTimer

text \<open>The frames mac80211 builds for the driver; it may fail to.\<close>

datatype kframe =
  FrBeacon nat | FrPspoll nat | FrProbeResp nat | FrNullfunc nat bool
  | FrProbeReq "u8 list" "cfg80211_ssid option" nat

record rtw_chip_drv =
  cd_c2h_ra_report_size :: nat
  cd_old_datarate_fb_limit :: bool
  cd_fw_fifo_addr :: "u16 list"
  cd_edcca_th :: "(u32 \<times> u32) list"
  cd_band_2g :: bool
  cd_band_5g :: bool
  cd_ht_supported :: bool
  cd_vht_supported :: bool
  cd_ampdu_density :: u8
  cd_lps_deep_mode_supported :: u8
  cd_hw_feature_report :: bool
  cd_wow_fw_name :: bool
  cd_fix_rf_phy_num :: u8
  cd_max_scan_ie_len :: u16
  cd_fw_rxff_size :: u32

text \<open>\<open>struct cfg80211_chan_def\<close>: width, primary channel, and the two frequencies in MHz.\<close>

datatype nl80211_chan_width =
  NL80211_CHAN_WIDTH_20_NOHT | NL80211_CHAN_WIDTH_20 | NL80211_CHAN_WIDTH_40 | NL80211_CHAN_WIDTH_80
  | NL80211_CHAN_WIDTH_OTHER

record cfg80211_chan_def =
  cdf_width :: nl80211_chan_width
  cdf_hw_value :: u16
  cdf_center_freq :: u32
  cdf_center_freq1 :: u32

text \<open>The digital predistortion results that deep power save keeps (\<open>struct rtw_dpk_info\<close>).\<close>

record rtw_dpk_info =
  dpk_ch :: u8
  dpk_path_ok0 :: u8
  dpk_txagc :: "u8 list"
  dpk_gs :: "u8 list"
  dpk_coef :: "u8 list"

record 'e rtw_drv = "'e rtw_core" +
  chip_drv :: rtw_chip_drv
  cpwm_addr :: u32
  flag_running :: bool
  flag_leisure_ps :: bool
  flag_leisure_ps_deep :: bool
  flag_wowlan :: bool
  flag_busy_traffic :: bool
  flag_restarting :: bool
  flag_restart_triggering :: bool
  disable_lps_deep_mode :: bool   \<comment> \<open>the module's parameters\<close>
  bf_support :: bool
  dbg_fw :: bool
  fw_feature :: u32
  fw_feature_ext :: u32
  wow_fw_feature :: u32
  lps_conf :: rtw_lps_conf
  wow :: rtw_wow_param
  stats :: rtw_traffic_stats
  curr_rx_rate :: u8
  rx_evm_dbm_a :: u8
  scan_density :: u8
  fix_rate :: u8
  vif_tbl :: "nat \<Rightarrow> rtw_vif"
  active_vifs :: "nat list"
  rsvd_heap :: "nat \<Rightarrow> rtw_rsvd_page option"
  rsvd_page_list :: "nat list"
  rsvd_next :: nat
  ap_active :: bool
  ps_enabled :: bool
  scan_info :: rtw_hw_scan_info
  sec :: rtw_sec_desc
  hw_port :: "nat \<Rightarrow> bool"
  mac_id_map :: "nat \<Rightarrow> bool"
  hal_rcr :: u32
  hal_primary_channel_index :: u8
  hal_primary_channel :: u8
  hal_txrx_1ss :: bool
  dpk_info :: rtw_dpk_info
  bf_cur_csi_rpt_rate :: u8
  keys :: "ieee80211_key_conf list"
  channel_to_freq :: "bool \<Rightarrow> u8 \<Rightarrow> u32"   \<comment> \<open>of a channel on 5 GHz or on 2.4 GHz\<close>
  need_rfk :: bool
  hal_mp_chip :: bool
  hal_bfee_sts_cap :: u8
  chandef :: cfg80211_chan_def
  conf_idle :: bool
  rts_threshold :: u32
  flag_force_lowest_rate :: bool
  txqs :: "nat list"                       \<comment> \<open>the transmit queues with frames, by number\<close>
  txq_ampdu :: "nat \<Rightarrow> bool"
  txq_block_ba :: "nat \<Rightarrow> bool"
  tx_report_sn :: u32
  tx_report_queue :: "(nat \<times> u8) list"   \<comment> \<open>frames that wait for a report, with their number\<close>
  c2h_queue :: "(nat \<times> u8 list) list"    \<comment> \<open>messages with the offset of their payload\<close>
  wl_force_lps_ctrl :: bool
  wl_beacon_interval :: u16
  mask_heap :: "nat \<Rightarrow> cfg80211_bitrate_mask option"
  mask_next :: nat
  alloc_ok :: "nat \<Rightarrow> bool"
  alloc_cnt :: nat
  frame_of :: "nat \<Rightarrow> kframe \<Rightarrow> (u8 list \<times> u16) option"
  wait_done :: "nat \<Rightarrow> bool"
  kcalls :: "kcall list"
  fault :: bool

type_synonym ('e, 'x, 'a) drv = "(('e, 'x) rtw_drv_scheme, 'a) state"

text \<open>What the coexistence code is told.\<close>

datatype coex_band = COEX_SWITCH_TO_5G | COEX_SWITCH_TO_24G | COEX_SWITCH_TO_24G_NOFORSCAN

datatype coex_event =
  CoexIps bool | CoexLps bool | CoexScan bool | CoexConnect bool | CoexMediaStatus bool | CoexSwitchband coex_band
  | CoexWlStatusChange | CoexWlStatusCheck | CoexQueryBtHidList | CoexActiveQueryBtInfo
  | CoexBtInfo "u8 list" | CoexBtHidInfo "u8 list" | CoexWlFwdbg "u8 list" | CoexInfoResponse "u8 list"

text \<open>
  The operations of the host interface and of the chip the core calls through pointers, and the
  coexistence and beamforming code. \<open>do_write_data_rsvd_page\<close> and \<open>do_write_data_h2c\<close> return an
  error code.
\<close>

record 's rtw_drv_ops =
  do_write_data_h2c :: "u8 list \<Rightarrow> ('s, int) state"
  do_write_data_rsvd_page :: "u8 list \<Rightarrow> ('s, int) state"
  do_deep_ps :: "bool \<Rightarrow> ('s, unit) state"
  do_link_ps :: "bool \<Rightarrow> ('s, unit) state"
  do_flush_queues :: "u32 \<Rightarrow> bool \<Rightarrow> ('s, unit) state"
  do_dynamic_rx_agg :: "bool \<Rightarrow> ('s, unit) state"
  do_power_on :: "('s, int) state"
  do_power_off :: "('s, unit) state"
  do_set_channel :: "u8 \<Rightarrow> u8 \<Rightarrow> u8 \<Rightarrow> ('s, unit) state"
  do_set_tx_power_index :: "('s, unit) state"
  do_phy_calibration :: "('s, unit) state"
  do_config_txrx_mode :: "(u32 \<Rightarrow> u32 \<Rightarrow> bool \<Rightarrow> ('s, unit) state) option"
  do_coex :: "coex_event \<Rightarrow> ('s, unit) state"
  do_bf_assoc :: "nat \<Rightarrow> ('s, unit) state"
  do_bf_disassoc :: "nat \<Rightarrow> ('s, unit) state"
  do_cfg_csi_rate :: "(u8 \<Rightarrow> u8 \<Rightarrow> bool \<Rightarrow> ('s, u8) state) option"
  do_set_ampdu_factor :: "(u8 \<Rightarrow> ('s, unit) state) option"
  do_set_antenna :: "(u32 \<Rightarrow> u32 \<Rightarrow> ('s, int) state) option"
  do_set_gid_table :: "nat \<Rightarrow> ('s, unit) state"

text \<open>
  An access to freed memory, a division by zero or a store out of bounds is undefined: the model
  records it in \<open>fault\<close> and goes on.
\<close>

definition set_fault :: "('e, 'x, unit) drv" where
  "set_fault = dev_upd (\<lambda>s. s\<lparr>fault := True\<rparr>)"

definition kcall :: "kcall \<Rightarrow> ('e, 'x, unit) drv" where
  "kcall c = dev_upd (\<lambda>s. s\<lparr>kcalls := kcalls s @ [c]\<rparr>)"

text \<open>Whether the next allocation succeeds.\<close>

definition try_alloc :: "('e, 'x, bool) drv" where
  "try_alloc = do { ok \<leftarrow> dev_get (\<lambda>s. alloc_ok s (alloc_cnt s));
                    dev_upd (\<lambda>s. s\<lparr>alloc_cnt := Suc (alloc_cnt s)\<rparr>);
                    State_Monad.return ok }"

text \<open>A frame of mac80211 (data and offset of the TIM element), if it can build it.\<close>

definition get_frame :: "kframe \<Rightarrow> ('e, 'x, (u8 list \<times> u16) option) drv" where
  "get_frame fr = do { r \<leftarrow> dev_get (\<lambda>s. frame_of s (alloc_cnt s) fr);
                       dev_upd (\<lambda>s. s\<lparr>alloc_cnt := Suc (alloc_cnt s)\<rparr>);
                       State_Monad.return r }"

text \<open>\<open>wait_for_completion_timeout\<close>: whether the completion came in time.\<close>

definition wait_completion :: "kcall \<Rightarrow> ('e, 'x, bool) drv" where
  "wait_completion c = do { ok \<leftarrow> dev_get (\<lambda>s. wait_done s (length (kcalls s))); kcall c; State_Monad.return ok }"

definition lps_upd :: "(rtw_lps_conf \<Rightarrow> rtw_lps_conf) \<Rightarrow> ('e, 'x, unit) drv" where
  "lps_upd f = dev_upd (\<lambda>s. s\<lparr>lps_conf := f (lps_conf s)\<rparr>)"

definition vif_upd :: "nat \<Rightarrow> (rtw_vif \<Rightarrow> rtw_vif) \<Rightarrow> ('e, 'x, unit) drv" where
  "vif_upd i f = dev_upd (\<lambda>s. s\<lparr>vif_tbl := (vif_tbl s)(i := f (vif_tbl s i))\<rparr>)"

definition sta_upd :: "nat \<Rightarrow> (rtw_sta_info \<Rightarrow> rtw_sta_info) \<Rightarrow> ('e, 'x, unit) drv" where
  "sta_upd i f = dev_upd (\<lambda>s. s\<lparr>stas := (stas s)[i := f (stas s ! i)]\<rparr>)"

section \<open>Firmware features\<close>

abbreviation (input) FW_FEATURE_LPS_C2H :: u32 where "FW_FEATURE_LPS_C2H \<equiv> BIT 1"
abbreviation (input) FW_FEATURE_TX_WAKE :: u32 where "FW_FEATURE_TX_WAKE \<equiv> BIT 4"
abbreviation (input) FW_FEATURE_BCN_FILTER :: u32 where "FW_FEATURE_BCN_FILTER \<equiv> BIT 5"
abbreviation (input) FW_FEATURE_NOTIFY_SCAN :: u32 where "FW_FEATURE_NOTIFY_SCAN \<equiv> BIT 6"
abbreviation (input) FW_FEATURE_SCAN_OFFLOAD :: u32 where "FW_FEATURE_SCAN_OFFLOAD \<equiv> BIT 8"
abbreviation (input) FW_FEATURE_EXT_OLD_PAGE_NUM :: u32 where "FW_FEATURE_EXT_OLD_PAGE_NUM \<equiv> BIT 0"

definition rtw_fw_feature_check :: "u32 \<Rightarrow> u32 \<Rightarrow> bool" where
  "rtw_fw_feature_check features f \<longleftrightarrow> features AND f \<noteq> 0"

definition rtw_get_lps_deep_mode :: "('e, 'x) rtw_drv_scheme \<Rightarrow> rtw_lps_deep_mode" where
  "rtw_get_lps_deep_mode s = (if flag_wowlan s then lps_wow_deep_mode (lps_conf s) else lps_deep_mode (lps_conf s))"

definition rtw_wow_mgd_linked :: "('e, 'x) rtw_drv_scheme \<Rightarrow> bool" where
  "rtw_wow_mgd_linked s \<longleftrightarrow> rv_net_type (vif_tbl s (wow_vif (wow s))) = RTW_NET_MGD_LINKED"

definition rtw_wow_no_link :: "('e, 'x) rtw_drv_scheme \<Rightarrow> bool" where
  "rtw_wow_no_link s \<longleftrightarrow> rv_net_type (vif_tbl s (wow_vif (wow s))) = RTW_NET_NO_LINK"

section \<open>Lemmas\<close>

lemma run_kcall [simp]: "run_state (kcall c) s = ((), s\<lparr>kcalls := kcalls s @ [c]\<rparr>)"
  by (simp add: kcall_def)

lemma run_try_alloc [simp]: "run_state try_alloc s = (alloc_ok s (alloc_cnt s), s\<lparr>alloc_cnt := Suc (alloc_cnt s)\<rparr>)"
  by (simp add: try_alloc_def)

lemma run_drv_asks [simp]:
  "run_state set_fault s = ((), s\<lparr>fault := True\<rparr>)"
  "run_state (get_frame fr) s = (frame_of s (alloc_cnt s) fr, s\<lparr>alloc_cnt := Suc (alloc_cnt s)\<rparr>)"
  "run_state (wait_completion c) s = (wait_done s (length (kcalls s)), s\<lparr>kcalls := kcalls s @ [c]\<rparr>)"
  by (simp_all add: set_fault_def get_frame_def wait_completion_def)

lemma run_drv_upds [simp]:
  "run_state (lps_upd f) s = ((), s\<lparr>lps_conf := f (lps_conf s)\<rparr>)"
  "run_state (vif_upd i g) s = ((), s\<lparr>vif_tbl := (vif_tbl s)(i := g (vif_tbl s i))\<rparr>)"
  "run_state (sta_upd i h) s = ((), s\<lparr>stas := (stas s)[i := h (stas s ! i)]\<rparr>)"
  by (simp_all add: lps_upd_def vif_upd_def sta_upd_def)

lemma acts_drv [acts_rules]:
  "acts P (kcall c)" "acts P try_alloc" "acts P (lps_upd f)" "acts P (vif_upd i g)" "acts P (sta_upd i h)"
  "acts P set_fault" "acts P (get_frame fr)" "acts P (wait_completion c)"
  by (auto simp: kcall_def try_alloc_def lps_upd_def vif_upd_def sta_upd_def set_fault_def get_frame_def
      wait_completion_def intro!: acts_rules)

end
