(* ===== verification/FwCmd.thy ===== *)
theory FwCmd
  imports Drv
begin

text \<open>
  Commands to the firmware (\<open>fw.c\<close>): the four mailboxes of the register interface, the packets of
  the queue interface, and the routines that build the messages.
\<close>

section \<open>Debug dump\<close>

definition fw_h2c_regs :: "(u32 \<times> u32) list" where
  "fw_h2c_regs = [
     (REG_FWIMR, MASKDWORD), (REG_FWIMR, BIT_FS_H2CCMD_INT_EN), (REG_FWISR, MASKDWORD), (REG_FWISR, BIT_FS_H2CCMD_INT),
     (REG_HMETFR, BIT_INT_BOX_ALL), (REG_HMEBOX0, MASKDWORD), (REG_HMEBOX0_EX, MASKDWORD),
     (REG_HMEBOX1, MASKDWORD), (REG_HMEBOX1_EX, MASKDWORD), (REG_HMEBOX2, MASKDWORD), (REG_HMEBOX2_EX, MASKDWORD),
     (REG_HMEBOX3, MASKDWORD), (REG_HMEBOX3_EX, MASKDWORD), (REG_FT1IMR, MASKDWORD),
     (REG_FT1IMR, BIT_FS_H2C_CMD_OK_INT_EN), (REG_FT1ISR, MASKDWORD), (REG_FT1ISR, BIT_FS_H2C_CMD_OK_INT)]"

definition fw_c2h_regs :: "(u32 \<times> u32) list" where
  "fw_c2h_regs = [
     (REG_FWIMR, MASKDWORD), (REG_FWIMR, BIT_FS_H2CCMD_INT_EN), (REG_FWIMR, BIT_FS_HRCV_INT_EN),
     (REG_FWISR, MASKDWORD), (REG_FWISR, BIT_FS_H2CCMD_INT), (REG_FWISR, BIT_FS_HRCV_INT), (REG_CPWM, MASKDWORD)]"

definition fw_core_regs :: "(u32 \<times> u32) list" where
  "fw_core_regs = [
     (REG_ARFR2_V1, MASKDWORD), (REG_ARFRH2_V1, MASKDWORD), (REG_ARFR3_V1, MASKDWORD), (REG_ARFR3_V1, BIT_EXC_CODE),
     (REG_ARFRH3_V1, MASKDWORD), (REG_ARFR4, MASKDWORD), (REG_ARFRH4, MASKDWORD), (REG_FW_DBG6, MASKDWORD), (REG_FW_DBG7, MASKDWORD)]"

definition dump_dbg_regs :: "(u32 \<times> u32) list \<Rightarrow> ('x hw_scheme, unit) state" where
  "dump_dbg_regs regs = for_each regs (\<lambda>(addr, mask'). do { rtw_read32_mask addr mask'; skip })"

definition rtw_fw_dump_dbg_info :: "('e, 'x, unit) drv" where
  "rtw_fw_dump_dbg_info =
     do { on \<leftarrow> dev_get dbg_fw;
          if \<not> on then skip
          else do { dump_dbg_regs fw_h2c_regs;
                    dump_dbg_regs fw_c2h_regs;
                    for_each [0..<10] (\<lambda>i. dump_dbg_regs fw_core_regs) } }"

section \<open>Mailboxes and packets\<close>

definition h2c_box_regs :: "u8 \<Rightarrow> (u32 \<times> u32) option" where
  "h2c_box_regs box =
     (if box = 0 then Some (REG_HMEBOX0, REG_HMEBOX0_EX)
      else if box = 1 then Some (REG_HMEBOX1, REG_HMEBOX1_EX)
      else if box = 2 then Some (REG_HMEBOX2, REG_HMEBOX2_EX)
      else if box = 3 then Some (REG_HMEBOX3, REG_HMEBOX3_EX)
      else None)"

definition box_free :: "u8 \<Rightarrow> u8 \<Rightarrow> bool" where
  "box_free box box_state \<longleftrightarrow> drop_bit (unat box) box_state AND 1 = 0"

text \<open>The common part of the two routines: \<open>on_fail\<close> is what they do when the box stays busy.\<close>

definition h2c_to_box :: "('e, 'x, unit) drv \<Rightarrow> u32 \<Rightarrow> u32 \<Rightarrow> ('e, 'x, unit) drv" where
  "h2c_to_box on_fail msg msg_ext =
     do { box \<leftarrow> dev_get h2c_last_box_num;
          case h2c_box_regs box of
            None \<Rightarrow> skip
          | Some (box_reg, box_ex_reg) \<Rightarrow>
              do { n \<leftarrow> dev_get (\<lambda>s. poll_max s 3000);
                   (box_state, ok) \<leftarrow> read_poll8 n 100 REG_HMETFR (box_free box);
                   if \<not> ok then on_fail
                   else do { rtw_write32 box_ex_reg msg_ext;
                             rtw_write32 box_reg msg;
                             dev_upd (\<lambda>s. s\<lparr>h2c_last_box_num :=
                               (if 4 \<le> h2c_last_box_num s + 1 then 0 else h2c_last_box_num s + 1)\<rparr>) } } }"

definition rtw_fw_send_h2c_command_register :: "u32 \<times> u32 \<Rightarrow> ('e, 'x, unit) drv" where
  "rtw_fw_send_h2c_command_register h2c = h2c_to_box rtw_fw_dump_dbg_info (fst h2c) (snd h2c)"

definition rtw_fw_send_h2c_command :: "u8 list \<Rightarrow> ('e, 'x, unit) drv" where
  "rtw_fw_send_h2c_command h2c = h2c_to_box skip (word_at 0 h2c) (word_at 1 h2c)"

definition rtw_fw_send_h2c_packet :: "('e, 'x) rtw_drv_scheme rtw_drv_ops \<Rightarrow> u8 list \<Rightarrow> ('e, 'x, unit) drv" where
  "rtw_fw_send_h2c_packet ops h2c_pkt =
     do { sn_h2c \<leftarrow> dev_get h2c_seq;
          ret \<leftarrow> do_write_data_h2c ops (FW_OFFLOAD_H2C_SET_SEQ_NUM (ucast sn_h2c) h2c_pkt);
          dev_upd (\<lambda>s. s\<lparr>h2c_seq := h2c_seq s + 1\<rparr>) }"

abbreviation (input) h2c_zero :: "u8 list" where "h2c_zero \<equiv> replicate 32 0"

definition rtw_h2c_pkt_set_header :: "u8 \<Rightarrow> u8 list \<Rightarrow> u8 list" where
  "rtw_h2c_pkt_set_header sub_id = set_fields
     [SET_PKT_H2C_CATEGORY 0x01, SET_PKT_H2C_CMD_ID 0xff, SET_PKT_H2C_SUB_CMD_ID (ucast sub_id)]"

section \<open>Packets\<close>

definition general_info_pkt :: "rtw_fifo_conf \<Rightarrow> u8 list" where
  "general_info_pkt f = set_fields
     [rtw_h2c_pkt_set_header H2C_PKT_GENERAL_INFO, SET_PKT_H2C_TOTAL_LEN (8 + 4),
      GENERAL_INFO_SET_FW_TX_BOUNDARY (ucast (rsvd_fw_txbuf_addr f) - ucast (rsvd_boundary f))] h2c_zero"

definition rtw_fw_send_general_info :: "('e, 'x) rtw_drv_scheme rtw_drv_ops \<Rightarrow> ('e, 'x, unit) drv" where
  "rtw_fw_send_general_info ops =
     do { old \<leftarrow> dev_get (\<lambda>s. rtw_chip_wcpu_8051 s);
          f \<leftarrow> dev_get fifo;
          if old then skip else rtw_fw_send_h2c_packet ops (general_info_pkt f) }"

definition fw_rf_type :: "u8 \<Rightarrow> u32" where
  "fw_rf_type rf_type = (if rf_type = RF_1T1R then 4 else if rf_type = RF_2T2R then 2 else 0)"

text \<open>The receive field is filled from the transmit antennas and the other way round.\<close>

definition phydm_info_pkt :: "u8 \<Rightarrow> u8 \<Rightarrow> rtw_hal \<Rightarrow> u8 list" where
  "phydm_info_pkt rfe cut_ver h = set_fields
     [rtw_h2c_pkt_set_header H2C_PKT_PHYDM_INFO, SET_PKT_H2C_TOTAL_LEN (8 + 8),
      PHYDM_INFO_SET_REF_TYPE (ucast rfe), PHYDM_INFO_SET_RF_TYPE (fw_rf_type (hal_rf_type h)),
      PHYDM_INFO_SET_CUT_VER (ucast cut_ver), PHYDM_INFO_SET_RX_ANT_STATUS (hal_antenna_tx h),
      PHYDM_INFO_SET_TX_ANT_STATUS (hal_antenna_rx h)] h2c_zero"

definition rtw_fw_send_phydm_info :: "('e, 'x) rtw_drv_scheme rtw_drv_ops \<Rightarrow> ('e, 'x, unit) drv" where
  "rtw_fw_send_phydm_info ops =
     do { old \<leftarrow> dev_get (\<lambda>s. rtw_chip_wcpu_8051 s);
          pkt \<leftarrow> dev_get (\<lambda>s. phydm_info_pkt (ef_rfe_option (efuse s)) (cut_version s) (hal s));
          if old then skip else rtw_fw_send_h2c_packet ops pkt }"

definition rtw_fw_do_iqk :: "('e, 'x) rtw_drv_scheme rtw_drv_ops \<Rightarrow> u8 \<Rightarrow> u8 \<Rightarrow> ('e, 'x, unit) drv" where
  "rtw_fw_do_iqk ops clear segment_iqk = rtw_fw_send_h2c_packet ops (set_fields
     [rtw_h2c_pkt_set_header H2C_PKT_IQK, SET_PKT_H2C_TOTAL_LEN (8 + 1),
      IQK_SET_CLEAR (ucast clear), IQK_SET_SEGMENT_IQK (ucast segment_iqk)] h2c_zero)"

definition update_pkt_pkt :: "u16 \<Rightarrow> u8 \<Rightarrow> u16 \<Rightarrow> u8 \<Rightarrow> u8 list" where
  "update_pkt_pkt desc_sz pkt_id pkt_size loc = set_fields
     [rtw_h2c_pkt_set_header H2C_PKT_UPDATE_PKT, SET_PKT_H2C_TOTAL_LEN (8 + 4),
      UPDATE_PKT_SET_PKT_ID (ucast pkt_id), UPDATE_PKT_SET_LOCATION (ucast loc),
      UPDATE_PKT_SET_SIZE (ucast (pkt_size + desc_sz))] h2c_zero"

definition fw_update_pkt :: "('e, 'x) rtw_drv_scheme rtw_drv_ops \<Rightarrow> u8 \<Rightarrow> u16 \<Rightarrow> u8 \<Rightarrow> ('e, 'x, unit) drv" where
  "fw_update_pkt ops pkt_id pkt_size loc =
     do { sz \<leftarrow> dev_get (\<lambda>s. ucast (ci_tx_pkt_desc_sz (chip s)));
          rtw_fw_send_h2c_packet ops (update_pkt_pkt sz pkt_id pkt_size loc) }"

section \<open>Commands\<close>

definition rtw_fw_inform_rfk_status :: "bool \<Rightarrow> ('e, 'x, unit) drv" where
  "rtw_fw_inform_rfk_status start = rtw_fw_send_h2c_command (set_fields
     [SET_H2C_CMD_ID_CLASS H2C_CMD_WIFI_CALIBRATION, RFK_SET_INFORM_START (of_bool_w start)] h2c_zero)"

definition rtw_fw_query_bt_info :: "('e, 'x, unit) drv" where
  "rtw_fw_query_bt_info = rtw_fw_send_h2c_command (set_fields
     [SET_H2C_CMD_ID_CLASS H2C_CMD_QUERY_BT_INFO, SET_QUERY_BT_INFO 1] h2c_zero)"

definition default_port_words :: "rtw_vif \<Rightarrow> u32 \<times> u32" where
  "default_port_words rv =
     (encode_bits H2C_CMD_DEFAULT_PORT (GENMASK 7 0) OR encode_bits (of_nat (rv_port rv)) (GENMASK 15 8) OR
      encode_bits (ucast (rv_mac_id rv)) (GENMASK 23 16), 0)"

text \<open>\<open>rtw_leave_lps\<close> is defined with the power saving (\<open>Ps\<close>) and passed in.\<close>

definition rtw_fw_default_port :: "('e, 'x, unit) drv \<Rightarrow> nat \<Rightarrow> ('e, 'x, unit) drv" where
  "rtw_fw_default_port leave_lps vif =
     do { rv \<leftarrow> dev_get (\<lambda>s. vif_tbl s vif);
          if rv_net_type rv \<noteq> RTW_NET_MGD_LINKED then skip
          else do { leave_lps; rtw_fw_send_h2c_command_register (default_port_words rv) } }"

definition rtw_fw_wl_ch_info :: "u8 \<Rightarrow> u8 \<Rightarrow> u8 \<Rightarrow> ('e, 'x, unit) drv" where
  "rtw_fw_wl_ch_info link ch bw' = rtw_fw_send_h2c_command (set_fields
     [SET_H2C_CMD_ID_CLASS H2C_CMD_WL_CH_INFO, SET_WL_CH_INFO_LINK (ucast link), SET_WL_CH_INFO_CHNL (ucast ch),
      SET_WL_CH_INFO_BW (ucast bw')] h2c_zero)"

record rtw_coex_info_req =
  req_seq :: u8
  req_op_code :: u8
  req_para1 :: u8
  req_para2 :: u8
  req_para3 :: u8

definition rtw_fw_query_bt_mp_info :: "rtw_coex_info_req \<Rightarrow> ('e, 'x, unit) drv" where
  "rtw_fw_query_bt_mp_info req = rtw_fw_send_h2c_command (set_fields
     [SET_H2C_CMD_ID_CLASS H2C_CMD_QUERY_BT_MP_INFO, SET_BT_MP_INFO_SEQ (ucast (req_seq req)),
      SET_BT_MP_INFO_OP_CODE (ucast (req_op_code req)), SET_BT_MP_INFO_PARA1 (ucast (req_para1 req)),
      SET_BT_MP_INFO_PARA2 (ucast (req_para2 req)), SET_BT_MP_INFO_PARA3 (ucast (req_para3 req))] h2c_zero)"

definition rtw_fw_force_bt_tx_power :: "u8 \<Rightarrow> ('e, 'x, unit) drv" where
  "rtw_fw_force_bt_tx_power bt_pwr_dec_lvl = (let index = 0 - bt_pwr_dec_lvl in rtw_fw_send_h2c_command (set_fields
     [SET_H2C_CMD_ID_CLASS H2C_CMD_FORCE_BT_TX_POWER, SET_BT_TX_POWER_INDEX (ucast index)] h2c_zero))"

definition rtw_fw_bt_ignore_wlan_action :: "bool \<Rightarrow> ('e, 'x, unit) drv" where
  "rtw_fw_bt_ignore_wlan_action enable = rtw_fw_send_h2c_command (set_fields
     [SET_H2C_CMD_ID_CLASS H2C_CMD_IGNORE_WLAN_ACTION, SET_IGNORE_WLAN_ACTION_EN (of_bool_w enable)] h2c_zero)"

definition rtw_fw_coex_tdma_type :: "u8 \<Rightarrow> u8 \<Rightarrow> u8 \<Rightarrow> u8 \<Rightarrow> u8 \<Rightarrow> ('e, 'x, unit) drv" where
  "rtw_fw_coex_tdma_type para1 para2 para3 para4 para5 = rtw_fw_send_h2c_command (set_fields
     [SET_H2C_CMD_ID_CLASS H2C_CMD_COEX_TDMA_TYPE, SET_COEX_TDMA_TYPE_PARA1 (ucast para1),
      SET_COEX_TDMA_TYPE_PARA2 (ucast para2), SET_COEX_TDMA_TYPE_PARA3 (ucast para3),
      SET_COEX_TDMA_TYPE_PARA4 (ucast para4), SET_COEX_TDMA_TYPE_PARA5 (ucast para5)] h2c_zero)"

definition rtw_fw_coex_query_hid_info :: "u8 \<Rightarrow> u8 \<Rightarrow> ('e, 'x, unit) drv" where
  "rtw_fw_coex_query_hid_info sub_id d = rtw_fw_send_h2c_command (set_fields
     [SET_H2C_CMD_ID_CLASS H2C_CMD_QUERY_BT_HID_INFO, SET_COEX_QUERY_HID_INFO_SUBID (ucast sub_id),
      SET_COEX_QUERY_HID_INFO_DATA1 (ucast d)] h2c_zero)"

text \<open>The caller's buffer holds at least five bytes.\<close>

definition rtw_fw_bt_wifi_control :: "u8 \<Rightarrow> u8 list \<Rightarrow> ('e, 'x, unit) drv" where
  "rtw_fw_bt_wifi_control op_code d = rtw_fw_send_h2c_command (set_fields
     [SET_H2C_CMD_ID_CLASS H2C_CMD_BT_WIFI_CONTROL, SET_BT_WIFI_CONTROL_OP_CODE (ucast op_code),
      SET_BT_WIFI_CONTROL_DATA1 (ucast (d ! 0)), SET_BT_WIFI_CONTROL_DATA2 (ucast (d ! 1)),
      SET_BT_WIFI_CONTROL_DATA3 (ucast (d ! 2)), SET_BT_WIFI_CONTROL_DATA4 (ucast (d ! 3)),
      SET_BT_WIFI_CONTROL_DATA5 (ucast (d ! 4))] h2c_zero)"

definition rssi_info_pkt :: "rtw_sta_info \<Rightarrow> u8 list" where
  "rssi_info_pkt si = set_fields
     [SET_H2C_CMD_ID_CLASS H2C_CMD_RSSI_MONITOR, SET_RSSI_INFO_MACID (ucast (si_mac_id si)),
      SET_RSSI_INFO_RSSI (ucast (si_avg_rssi si)), SET_RSSI_INFO_STBC (of_bool_w (si_stbc_en si \<noteq> 0))] h2c_zero"

definition rtw_fw_send_rssi_info :: "rtw_sta_info \<Rightarrow> ('e, 'x, unit) drv" where
  "rtw_fw_send_rssi_info si = rtw_fw_send_h2c_command (rssi_info_pkt si)"

definition set_ra_mask :: "64 word \<Rightarrow> (u8 list \<Rightarrow> u8 list) list" where
  "set_ra_mask m =
     [SET_RA_INFO_RA_MASK0 (ucast (m AND 0xff)), SET_RA_INFO_RA_MASK1 (ucast (drop_bit 8 (m AND 0xff00))),
      SET_RA_INFO_RA_MASK2 (ucast (drop_bit 16 (m AND 0xff0000))),
      SET_RA_INFO_RA_MASK3 (ucast (drop_bit 24 (m AND 0xff000000)))]"

definition ra_info_pkt :: "rtw_sta_info \<Rightarrow> bool \<Rightarrow> u8 list" where
  "ra_info_pkt si reset_ra_mask = set_fields
     ([SET_H2C_CMD_ID_CLASS H2C_CMD_RA_INFO, SET_RA_INFO_MACID (ucast (si_mac_id si)),
       SET_RA_INFO_RATE_ID (ucast (si_rate_id si)), SET_RA_INFO_INIT_RA_LVL (ucast (si_init_ra_lv si)),
       SET_RA_INFO_SGI_EN (of_bool_w (si_sgi_enable si)), SET_RA_INFO_BW_MODE (ucast (si_bw_mode si)),
       SET_RA_INFO_LDPC (of_bool_w (si_ldpc_en si \<noteq> 0)), SET_RA_INFO_NO_UPDATE (of_bool_w (\<not> reset_ra_mask)),
       SET_RA_INFO_VHT_EN (of_bool_w (si_vht_enable si)), SET_RA_INFO_DIS_PT 1] @ set_ra_mask (si_ra_mask si)) h2c_zero"

text \<open>The second message, of chips with four streams, is written over the first.\<close>

definition ra_info_hi_pkt :: "rtw_sta_info \<Rightarrow> bool \<Rightarrow> u8 list" where
  "ra_info_hi_pkt si reset_ra_mask = set_fields
     (SET_H2C_CMD_ID_CLASS H2C_CMD_RA_INFO_HI # set_ra_mask (drop_bit 32 (si_ra_mask si))) (ra_info_pkt si reset_ra_mask)"

definition rtw_fw_send_ra_info :: "nat \<Rightarrow> bool \<Rightarrow> ('e, 'x, unit) drv" where
  "rtw_fw_send_ra_info i reset_ra_mask =
     do { si \<leftarrow> dev_get (\<lambda>s. stas s ! i);
          sta_upd i (\<lambda>si. si\<lparr>si_init_ra_lv := 0\<rparr>);
          rtw_fw_send_h2c_command (ra_info_pkt si reset_ra_mask);
          chip_id \<leftarrow> dev_get (\<lambda>s. ci_id (chip s));
          if chip_id \<noteq> RTW_CHIP_TYPE_8814A then skip
          else rtw_fw_send_h2c_command (ra_info_hi_pkt si reset_ra_mask) }"

definition media_status_pkt :: "u8 \<Rightarrow> bool \<Rightarrow> u8 list" where
  "media_status_pkt macid connect = set_fields
     [SET_H2C_CMD_ID_CLASS H2C_CMD_MEDIA_STATUS_RPT, MEDIA_STATUS_RPT_SET_OP_MODE (of_bool_w connect),
      MEDIA_STATUS_RPT_SET_MACID (ucast macid)] h2c_zero"

definition rtw_fw_media_status_report :: "u8 \<Rightarrow> bool \<Rightarrow> ('e, 'x, unit) drv" where
  "rtw_fw_media_status_report macid connect = rtw_fw_send_h2c_command (media_status_pkt macid connect)"

definition rtw_fw_update_wl_phy_info :: "('e, 'x, unit) drv" where
  "rtw_fw_update_wl_phy_info =
     do { s \<leftarrow> dev_get (\<lambda>s. s);
          rtw_fw_send_h2c_command (set_fields
            [SET_H2C_CMD_ID_CLASS H2C_CMD_WL_PHY_INFO, SET_WL_PHY_INFO_TX_TP (ts_tx_throughput (stats s)),
             SET_WL_PHY_INFO_RX_TP (ts_rx_throughput (stats s)), SET_WL_PHY_INFO_TX_RATE_DESC (ucast (dm_tx_rate (dm_info s))),
             SET_WL_PHY_INFO_RX_RATE_DESC (ucast (curr_rx_rate s)), SET_WL_PHY_INFO_RX_EVM (ucast (rx_evm_dbm_a s))] h2c_zero) }"

text \<open>The threshold is a signed level; the firmware takes it 100 higher and between 0 and 100.\<close>

definition bcn_filter_thold :: "32 word \<Rightarrow> u32" where
  "bcn_filter_thold cqm =
     (let thold = (if cqm \<noteq> 0 then sint cqm else -70)
      in word_of_int (min (max (sint (word_of_int (thold + 100) :: 32 word)) 0) 100))"

definition bcn_filter_p0_pkt :: "u8 list \<Rightarrow> u8 list" where
  "bcn_filter_p0_pkt bssid =
     (let p = SET_H2C_CMD_ID_CLASS H2C_CMD_BCN_FILTER_OFFLOAD_P0 h2c_zero in take 1 p @ bssid @ drop 7 p)"

definition bcn_filter_p1_pkt :: "rtw_vif \<Rightarrow> u8 \<Rightarrow> u8 list" where
  "bcn_filter_p1_pkt rv macid = set_fields
     [SET_H2C_CMD_ID_CLASS H2C_CMD_BCN_FILTER_OFFLOAD_P1, SET_BCN_FILTER_OFFLOAD_P1_ENABLE 1,
      SET_BCN_FILTER_OFFLOAD_P1_OFFLOAD_MODE 0,
      SET_BCN_FILTER_OFFLOAD_P1_THRESHOLD (bcn_filter_thold (rv_cqm_rssi_thold rv)),
      SET_BCN_FILTER_OFFLOAD_P1_BCN_LOSS_CNT BCN_LOSS_CNT, SET_BCN_FILTER_OFFLOAD_P1_MACID (ucast macid),
      SET_BCN_FILTER_OFFLOAD_P1_HYST (if rv_cqm_rssi_hyst rv \<noteq> 0 then rv_cqm_rssi_hyst rv else RTW_DEFAULT_CQM_HYST),
      SET_BCN_FILTER_OFFLOAD_P1_BCN_INTERVAL (ucast (rv_beacon_int rv))] h2c_zero"

definition rtw_fw_beacon_filter_config :: "bool \<Rightarrow> nat \<Rightarrow> ('e, 'x, unit) drv" where
  "rtw_fw_beacon_filter_config connect vif =
     do { s \<leftarrow> dev_get (\<lambda>s. s);
          let rv = vif_tbl s vif;
          if \<not> rtw_fw_feature_check (fw_feature s) FW_FEATURE_BCN_FILTER then skip
          else if \<not> connect then rtw_fw_send_h2c_command (set_fields
            [SET_H2C_CMD_ID_CLASS H2C_CMD_BCN_FILTER_OFFLOAD_P1, SET_BCN_FILTER_OFFLOAD_P1_ENABLE 0] h2c_zero)
          else case rv_peer rv of
            None \<Rightarrow> skip
          | Some i \<Rightarrow> do { rtw_fw_send_h2c_command (bcn_filter_p0_pkt (rv_bss_bssid rv));
                           rtw_fw_send_h2c_command (bcn_filter_p1_pkt rv (si_mac_id (stas s ! i))) } }"

definition set_pwr_mode_pkt :: "rtw_lps_conf \<Rightarrow> u8 list" where
  "set_pwr_mode_pkt c = set_fields
     [SET_H2C_CMD_ID_CLASS H2C_CMD_SET_PWR_MODE, SET_PWR_MODE_SET_MODE (ucast (lps_mode c)),
      SET_PWR_MODE_SET_RLBM (ucast (lps_rlbm c)), SET_PWR_MODE_SET_SMART_PS (ucast (lps_smart_ps c)),
      SET_PWR_MODE_SET_AWAKE_INTERVAL (ucast (lps_awake_interval c)), SET_PWR_MODE_SET_PORT_ID (ucast (lps_port_id c)),
      SET_PWR_MODE_SET_PWR_STATE (ucast (lps_state c))] h2c_zero"

definition rtw_fw_set_pwr_mode :: "('e, 'x, unit) drv" where
  "rtw_fw_set_pwr_mode = do { conf \<leftarrow> dev_get lps_conf; rtw_fw_send_h2c_command (set_pwr_mode_pkt conf) }"

definition rtw_fw_set_keep_alive_cmd :: "bool \<Rightarrow> ('e, 'x, unit) drv" where
  "rtw_fw_set_keep_alive_cmd enable = rtw_fw_send_h2c_command (set_fields
     [SET_H2C_CMD_ID_CLASS H2C_CMD_KEEP_ALIVE, SET_KEEP_ALIVE_ENABLE (of_bool_w enable), SET_KEEP_ALIVE_ADOPT 1,
      SET_KEEP_ALIVE_PKT_TYPE 0, SET_KEEP_ALIVE_CHECK_PERIOD 5] h2c_zero)"

definition disconnect_decision_pkt :: "bool \<Rightarrow> bool \<Rightarrow> u8 list" where
  "disconnect_decision_pkt flag enable = set_fields
     (SET_H2C_CMD_ID_CLASS H2C_CMD_DISCONNECT_DECISION #
      (if flag then [SET_DISCONNECT_DECISION_ENABLE (of_bool_w enable), SET_DISCONNECT_DECISION_ADOPT 1,
         SET_DISCONNECT_DECISION_CHECK_PERIOD 30, SET_DISCONNECT_DECISION_TRY_PKT_NUM 5] else [])) h2c_zero"

definition rtw_fw_set_disconnect_decision_cmd :: "bool \<Rightarrow> ('e, 'x, unit) drv" where
  "rtw_fw_set_disconnect_decision_cmd enable =
     do { flag \<leftarrow> dev_get (\<lambda>s. wow_en_disconnect (wow s));
          rtw_fw_send_h2c_command (disconnect_decision_pkt flag enable) }"

definition wowlan_ctrl_pkt :: "rtw_wow_param \<Rightarrow> bool \<Rightarrow> bool \<Rightarrow> u8 list" where
  "wowlan_ctrl_pkt w linked enable = set_fields
     ([SET_H2C_CMD_ID_CLASS H2C_CMD_WOWLAN, SET_WOWLAN_FUNC_ENABLE (of_bool_w enable)] @
      (if linked then
         (if wow_en_magic_pkt w then [SET_WOWLAN_MAGIC_PKT_ENABLE (of_bool_w enable)] else []) @
         (if wow_en_disconnect w then [SET_WOWLAN_DEAUTH_WAKEUP_ENABLE (of_bool_w enable)] else []) @
         (if wow_en_rekey_pkt w then [SET_WOWLAN_REKEY_WAKEUP_ENABLE (of_bool_w enable)] else []) @
         (if wow_pattern_cnt w \<noteq> 0 then [SET_WOWLAN_PATTERN_MATCH_ENABLE (of_bool_w enable)] else [])
       else [])) h2c_zero"

definition rtw_fw_set_wowlan_ctrl_cmd :: "bool \<Rightarrow> ('e, 'x, unit) drv" where
  "rtw_fw_set_wowlan_ctrl_cmd enable =
     do { s \<leftarrow> dev_get (\<lambda>s. s); rtw_fw_send_h2c_command (wowlan_ctrl_pkt (wow s) (rtw_wow_mgd_linked s) enable) }"

definition rtw_fw_set_aoac_global_info_cmd :: "u8 \<Rightarrow> u8 \<Rightarrow> ('e, 'x, unit) drv" where
  "rtw_fw_set_aoac_global_info_cmd pairwise_key_enc group_key_enc = rtw_fw_send_h2c_command (set_fields
     [SET_H2C_CMD_ID_CLASS H2C_CMD_AOAC_GLOBAL_INFO, SET_AOAC_GLOBAL_INFO_PAIRWISE_ENC_ALG (ucast pairwise_key_enc),
      SET_AOAC_GLOBAL_INFO_GROUP_ENC_ALG (ucast group_key_enc)] h2c_zero)"

definition rtw_fw_set_remote_wake_ctrl_cmd :: "bool \<Rightarrow> ('e, 'x, unit) drv" where
  "rtw_fw_set_remote_wake_ctrl_cmd enable =
     do { no_link \<leftarrow> dev_get (\<lambda>s. rtw_wow_no_link s);
          rtw_fw_send_h2c_command (set_fields
            ([SET_H2C_CMD_ID_CLASS H2C_CMD_REMOTE_WAKE_CTRL, SET_REMOTE_WAKECTRL_ENABLE (of_bool_w enable)] @
             (if no_link then [SET_REMOTE_WAKE_CTRL_NLO_OFFLOAD_EN (of_bool_w enable)] else [])) h2c_zero) }"

section \<open>Commands about reserved pages\<close>

text \<open>The location of the last page of a type on the build list, 0 when there is none.\<close>

definition build_list :: "('e, 'x) rtw_drv_scheme \<Rightarrow> rtw_rsvd_page list" where
  "build_list s = map (\<lambda>i. the (rsvd_heap s i)) (rsvd_page_list s)"

definition rtw_get_rsvd_page_location :: "rtw_rsvd_packet_type \<Rightarrow> rtw_rsvd_page list \<Rightarrow> u8" where
  "rtw_get_rsvd_page_location t pages = fold (\<lambda>p location. if t = rp_type p then rp_page p else location) pages 0"

text \<open>\<open>cfg80211_ssid_eq\<close>: no pointer is NULL and the lengths and bytes agree.\<close>

definition cfg80211_ssid_eq :: "cfg80211_ssid option \<Rightarrow> cfg80211_ssid option \<Rightarrow> bool" where
  "cfg80211_ssid_eq a b \<longleftrightarrow> a \<noteq> None \<and> a = b"

definition probe_req_matches :: "cfg80211_ssid option \<Rightarrow> rtw_rsvd_page \<Rightarrow> bool" where
  "probe_req_matches ssid p \<longleftrightarrow>
     rp_type p = RSVD_PROBE_REQ \<and> (ssid = None \<and> rp_ssid p = None \<or> cfg80211_ssid_eq (rp_ssid p) ssid)"

definition rtw_get_rsvd_page_probe_req_location :: "cfg80211_ssid option \<Rightarrow> rtw_rsvd_page list \<Rightarrow> u8" where
  "rtw_get_rsvd_page_probe_req_location ssid pages =
     fold (\<lambda>p location. if probe_req_matches ssid p then rp_page p else location) pages 0"

definition rtw_get_rsvd_page_probe_req_size :: "cfg80211_ssid option \<Rightarrow> rtw_rsvd_page list \<Rightarrow> u16" where
  "rtw_get_rsvd_page_probe_req_size ssid pages =
     fold (\<lambda>p n. if probe_req_matches ssid p then rp_probe_req_size p else n) pages 0"

definition nlo_info_pkt :: "rtw_lps_deep_mode \<Rightarrow> bool \<Rightarrow> u8 \<Rightarrow> u8 list" where
  "nlo_info_pkt deep enable loc_nlo = set_fields
     ([SET_H2C_CMD_ID_CLASS H2C_CMD_NLO_INFO, SET_NLO_FUN_EN (of_bool_w enable)] @
      (if enable then
         (if deep \<noteq> LPS_DEEP_MODE_NONE then [SET_NLO_PS_32K (of_bool_w enable)] else []) @
         [SET_NLO_IGNORE_SECURITY (of_bool_w enable), SET_NLO_LOC_NLO_INFO (ucast loc_nlo)]
       else [])) h2c_zero"

definition rtw_fw_set_nlo_info :: "bool \<Rightarrow> ('e, 'x, unit) drv" where
  "rtw_fw_set_nlo_info enable =
     do { s \<leftarrow> dev_get (\<lambda>s. s);
          let loc_nlo = rtw_get_rsvd_page_location RSVD_NLO_INFO (build_list s);
          rtw_fw_send_h2c_command (nlo_info_pkt (rtw_get_lps_deep_mode s) enable loc_nlo) }"

definition rtw_fw_set_recover_bt_device :: "('e, 'x, unit) drv" where
  "rtw_fw_set_recover_bt_device = rtw_fw_send_h2c_command (set_fields
     [SET_H2C_CMD_ID_CLASS H2C_CMD_RECOVER_BT_DEV, SET_RECOVER_BT_DEV_EN 1] h2c_zero)"

definition pg_info_pkt :: "rtw_lps_conf \<Rightarrow> u8 \<Rightarrow> u8 \<Rightarrow> u8 list" where
  "pg_info_pkt conf loc_pg loc_dpk = set_fields
     [SET_H2C_CMD_ID_CLASS H2C_CMD_LPS_PG_INFO, LPS_PG_INFO_LOC (ucast loc_pg), LPS_PG_DPK_LOC (ucast loc_dpk),
      LPS_PG_SEC_CAM_EN (of_bool_w (lps_sec_cam_backup conf)),
      LPS_PG_PATTERN_CAM_EN (of_bool_w (lps_pattern_cam_backup conf))] h2c_zero"

definition rtw_fw_set_pg_info :: "('e, 'x, unit) drv" where
  "rtw_fw_set_pg_info =
     do { s \<leftarrow> dev_get (\<lambda>s. s);
          rtw_fw_send_h2c_command (pg_info_pkt (lps_conf s) (rtw_get_rsvd_page_location RSVD_LPS_PG_INFO (build_list s))
            (rtw_get_rsvd_page_location RSVD_LPS_PG_DPK (build_list s))) }"

definition rsvd_page_h2c_pkt :: "rtw_rsvd_page list \<Rightarrow> u8 list" where
  "rsvd_page_h2c_pkt pages =
     (let p = SET_H2C_CMD_ID_CLASS H2C_CMD_RSVD_PAGE h2c_zero
      in p[1 := rtw_get_rsvd_page_location RSVD_PROBE_RESP pages, 2 := rtw_get_rsvd_page_location RSVD_PS_POLL pages,
           3 := rtw_get_rsvd_page_location RSVD_NULL pages, 4 := rtw_get_rsvd_page_location RSVD_QOS_NULL pages])"

definition rtw_send_rsvd_page_h2c :: "('e, 'x, unit) drv" where
  "rtw_send_rsvd_page_h2c = do { s \<leftarrow> dev_get (\<lambda>s. s); rtw_fw_send_h2c_command (rsvd_page_h2c_pkt (build_list s)) }"

definition rtw_fw_update_pkt_probe_req :: "('e, 'x) rtw_drv_scheme rtw_drv_ops \<Rightarrow> cfg80211_ssid option \<Rightarrow> ('e, 'x, unit) drv" where
  "rtw_fw_update_pkt_probe_req ops ssid =
     do { s \<leftarrow> dev_get (\<lambda>s. s);
          let loc = rtw_get_rsvd_page_probe_req_location ssid (build_list s);
          let sz = rtw_get_rsvd_page_probe_req_size ssid (build_list s);
          if loc = 0 \<or> sz = 0 then skip else fw_update_pkt ops 0 sz loc }"

definition channel_switch_pkt :: "bool \<Rightarrow> u8 \<Rightarrow> u8 \<Rightarrow> u8 list" where
  "channel_switch_pkt enable channel_cnt loc_ch_info = set_fields
     [rtw_h2c_pkt_set_header H2C_PKT_CH_SWITCH, SET_PKT_H2C_TOTAL_LEN (8 + H2C_PKT_CH_SWITCH_LEN),
      CH_SWITCH_SET_START (of_bool_w enable), CH_SWITCH_SET_DEST_CH_EN 1, CH_SWITCH_SET_DEST_CH 1,
      CH_SWITCH_SET_NORMAL_PERIOD 5, CH_SWITCH_SET_NORMAL_PERIOD_SEL 0, CH_SWITCH_SET_SLOW_PERIOD 1,
      CH_SWITCH_SET_SLOW_PERIOD_SEL 1, CH_SWITCH_SET_NORMAL_CYCLE 10, CH_SWITCH_SET_PERIODIC_OPT 2,
      CH_SWITCH_SET_CH_NUM (ucast channel_cnt), CH_SWITCH_SET_INFO_SIZE (ucast channel_cnt * 4),
      CH_SWITCH_SET_INFO_LOC (ucast loc_ch_info)] h2c_zero"

definition rtw_fw_channel_switch :: "('e, 'x) rtw_drv_scheme rtw_drv_ops \<Rightarrow> bool \<Rightarrow> ('e, 'x, unit) drv" where
  "rtw_fw_channel_switch ops enable =
     do { s \<leftarrow> dev_get (\<lambda>s. s);
          rtw_fw_send_h2c_packet ops (channel_switch_pkt enable (of_nat (length (pno_channels (wow_pno_req (wow s)))))
            (rtw_get_rsvd_page_location RSVD_CH_INFO (build_list s))) }"

definition rtw_fw_adaptivity :: "('e, 'x, unit) drv" where
  "rtw_fw_adaptivity =
     do { on \<leftarrow> dev_get edcca_enabled;
          when_do (\<not> on) (dm_upd (\<lambda>d. d\<lparr>dm_edcca_adaptivity := False\<rparr>));
          s \<leftarrow> dev_get (\<lambda>s. s);
          rtw_fw_send_h2c_command (set_fields
            [SET_H2C_CMD_ID_CLASS H2C_CMD_ADAPTIVITY, SET_ADAPTIVITY_MODE (of_bool_w (dm_edcca_adaptivity (dm_info s))),
             SET_ADAPTIVITY_OPTION 1, SET_ADAPTIVITY_IGI (ucast (dm_igi_history (dm_info s) ! 0)),
             SET_ADAPTIVITY_L2H (scast (dm_l2h_th_ini (dm_info s))), SET_ADAPTIVITY_DENSITY (ucast (scan_density s))] h2c_zero) }"

definition rtw_fw_scan_notify :: "bool \<Rightarrow> ('e, 'x, unit) drv" where
  "rtw_fw_scan_notify start = rtw_fw_send_h2c_command (set_fields
     [SET_H2C_CMD_ID_CLASS H2C_CMD_SCAN, SET_SCAN_START (of_bool_w start)] h2c_zero)"

end
