(* ===== verification/FwProps.thy ===== *)
theory FwProps
  imports FwCmd "HOL-Library.Sublist"
begin

text \<open>
  The mailbox protocol as the firmware sees it: it watches the register accesses, and takes a
  message when its box is written. The theorem on a sequence of commands says in which boxes the
  messages arrive, that none is overwritten, and that none is altered. The second part decodes the
  messages about a station.
\<close>

section \<open>The firmware's side\<close>

record h2c_fw =
  hf_status :: "u8 option"               \<comment> \<open>what the driver has last read from the box bitmap\<close>
  hf_ex :: "nat \<Rightarrow> u32"                  \<comment> \<open>the upper half of each box\<close>
  hf_got :: "(nat \<times> u8 list) list"       \<comment> \<open>the messages taken, with their boxes\<close>
  hf_overrun :: bool                      \<comment> \<open>a box was written that was not seen free\<close>

definition box_index :: "u32 \<Rightarrow> nat option" where
  "box_index a = (if a = REG_HMEBOX0 then Some 0 else if a = REG_HMEBOX1 then Some 1
                  else if a = REG_HMEBOX2 then Some 2 else if a = REG_HMEBOX3 then Some 3 else None)"

definition box_ex_index :: "u32 \<Rightarrow> nat option" where
  "box_ex_index a = (if a = REG_HMEBOX0_EX then Some 0 else if a = REG_HMEBOX1_EX then Some 1
                     else if a = REG_HMEBOX2_EX then Some 2 else if a = REG_HMEBOX3_EX then Some 3 else None)"

definition seen_free :: "nat \<Rightarrow> u8 option \<Rightarrow> bool" where
  "seen_free b st \<longleftrightarrow> (case st of None \<Rightarrow> False | Some v \<Rightarrow> \<not> bit v b)"

text \<open>A box bitmap is good for one message.\<close>

fun h2c_observe :: "io \<Rightarrow> h2c_fw \<Rightarrow> h2c_fw" where
  "h2c_observe (Rd n a v) f = (if a = REG_HMETFR then f\<lparr>hf_status := Some (ucast v)\<rparr> else f)"
| "h2c_observe (Delay t) f = f"
| "h2c_observe (Wr n a v) f =
     (case box_ex_index a of
        Some b \<Rightarrow> f\<lparr>hf_ex := (hf_ex f)(b := v), hf_overrun := hf_overrun f \<or> \<not> seen_free b (hf_status f)\<rparr>
      | None \<Rightarrow>
          (case box_index a of
             Some b \<Rightarrow> f\<lparr>hf_got := hf_got f @ [(b, le_bytes 4 v @ le_bytes 4 (hf_ex f b))], hf_status := None,
                         hf_overrun := hf_overrun f \<or> \<not> seen_free b (hf_status f)\<rparr>
           | None \<Rightarrow> f))"

definition h2c_fw_init :: h2c_fw where
  "h2c_fw_init = \<lparr>hf_status = None, hf_ex = \<lambda>_. 0, hf_got = [], hf_overrun = False\<rparr>"

definition h2c_watch :: "io list \<Rightarrow> h2c_fw \<Rightarrow> h2c_fw" where
  "h2c_watch l f = fold h2c_observe l f"

lemma h2c_watch_simps [simp]:
  "h2c_watch [] f = f"
  "h2c_watch (e # l) f = h2c_watch l (h2c_observe e f)"
  "h2c_watch (l @ l') f = h2c_watch l' (h2c_watch l f)"
  by (simp_all add: h2c_watch_def)

section \<open>One command\<close>

lemma box_free_bit: "box_free box st \<longleftrightarrow> \<not> bit st (unat box)"
  by (simp add: box_free_def and_one_eq bit_iff_odd_drop_bit mod_2_eq_odd)

lemma h2c_watch_poll:
  assumes "\<forall>e \<in> set l. (\<exists>v :: u8. \<not> c v \<and> e = Rd 1 REG_HMETFR (ucast v)) \<or> e = Delay us"
  shows "\<exists>st. h2c_watch l f = f\<lparr>hf_status := st\<rparr>"
  using assms
proof (induction l arbitrary: f)
  case Nil
  then show ?case by (auto intro: exI [of _ "hf_status f"])
next
  case (Cons e l)
  then obtain st where "h2c_watch l (h2c_observe e f) = (h2c_observe e f)\<lparr>hf_status := st\<rparr>"
    by fastforce
  with Cons.prems show ?case
    by (auto intro!: exI [of _ st])
qed

lemma box_cases:
  assumes "box < (4 :: u8)"
  shows "box = 0 \<or> box = 1 \<or> box = 2 \<or> box = 3"
  using assms by (simp add: word_unat_eq_iff word_less_nat_alt) arith

lemma h2c_boxes:
  assumes "box < 4"
  obtains reg ex where "h2c_box_regs box = Some (reg, ex)" "box_index reg = Some (unat box)"
    "box_ex_index ex = Some (unat box)" "box_ex_index reg = None"
proof -
  show ?thesis
    using box_cases [OF assms] that by (auto simp: h2c_box_regs_def box_index_def box_ex_index_def)
qed

lemma next_box:
  assumes "box < (4 :: u8)"
  shows "(if 4 \<le> box + 1 then 0 else box + 1) = (box + 1) mod 4" "(box + 1) mod 4 < 4"
    "unat ((box + 1) mod 4) = (unat box + 1) mod 4"
  using box_cases [OF assms] by (auto simp: word_le_nat_alt word_less_nat_alt)

text \<open>
  A poll that gives up has read the bitmap once more than its budget, \<open>100\<close> microseconds apart,
  and every time the box was in use.
\<close>

definition box_kept_busy :: "nat \<Rightarrow> nat \<Rightarrow> io list \<Rightarrow> bool" where
  "box_kept_busy n b l \<longleftrightarrow>
     (\<exists>(vs :: u8 list) v. length vs = n \<and> list_all (\<lambda>v. bit v b) (v # vs) \<and>
        l = concat (map (\<lambda>v. [Rd 1 REG_HMETFR (ucast v), Delay 100]) vs) @ [Rd 1 REG_HMETFR (ucast v)])"

lemma read_poll8_fails:
  "run_state (read_poll8 n us addr c) s = ((v, False), s') \<Longrightarrow>
     \<exists>vs. length vs = n \<and> list_all (\<lambda>v. \<not> c v) (v # vs) \<and>
       s' = s\<lparr>io_log := io_log s @ concat (map (\<lambda>v. [Rd 1 addr (ucast v), Delay us]) vs) @ [Rd 1 addr (ucast v)]\<rparr>"
proof (induction n arbitrary: s)
  case 0
  then show ?case
    by (auto simp: ucast8_ucast32)
next
  case (Suc n)
  let ?v = "dev_read s (io_log s) 1 addr"
  let ?s = "s\<lparr>io_log := io_log s @ [Rd 1 addr (take_bit 8 ?v)] @ [Delay us]\<rparr>"
  have c: "\<not> c (ucast ?v)"
    using Suc.prems by auto
  with Suc.prems have "run_state (read_poll8 n us addr c) ?s = ((v, False), s')"
    by simp
  from Suc.IH [OF this] obtain vs where "length vs = n" "list_all (\<lambda>v. \<not> c v) (v # vs)"
    "s' = ?s\<lparr>io_log := io_log ?s @ concat (map (\<lambda>v. [Rd 1 addr (ucast v), Delay us]) vs) @ [Rd 1 addr (ucast v)]\<rparr>"
    by blast
  with c show ?case
    by (intro exI [of _ "ucast ?v # vs"]) (simp add: ucast8_ucast32)
qed

lemma kept_busy_no_write: "box_kept_busy n b l \<Longrightarrow> Wr k a v \<notin> set l"
  by (auto simp: box_kept_busy_def)

lemma kept_busy_read: "box_kept_busy n b l \<Longrightarrow> \<exists>v :: u8. Rd 1 REG_HMETFR (ucast v) \<in> set l \<and> bit v b"
  by (auto simp: box_kept_busy_def)

lemma kept_busy_watch: "box_kept_busy n b l \<Longrightarrow> \<exists>st. h2c_watch l f = f\<lparr>hf_status := st\<rparr>"
proof -
  assume "box_kept_busy n b l"
  then obtain vs v where l: "l = concat (map (\<lambda>v :: u8. [Rd 1 REG_HMETFR (ucast v), Delay 100]) vs) @ [Rd 1 REG_HMETFR (ucast v)]"
    and "list_all (\<lambda>v. bit v b) (v # vs)"
    by (auto simp: box_kept_busy_def)
  then have "\<forall>e \<in> set l. (\<exists>v :: u8. \<not> \<not> bit v b \<and> e = Rd 1 REG_HMETFR (ucast v)) \<or> e = Delay 100"
    by (auto simp: list_all_iff)
  from h2c_watch_poll [OF this] show ?thesis .
qed

text \<open>
  The accesses of a sequence of commands, one segment per command: a command is lost exactly when its
  box was in use at every read of its poll, and then the next command tries the same box.
\<close>

fun h2c_delivery :: "nat \<Rightarrow> nat \<Rightarrow> 'a list \<Rightarrow> io list list \<Rightarrow> 'a list \<Rightarrow> bool" where
  "h2c_delivery n b [] segs sent \<longleftrightarrow> segs = [] \<and> sent = []"
| "h2c_delivery n b (m # ms) segs sent \<longleftrightarrow>
     (case segs of
        [] \<Rightarrow> False
      | l # segs' \<Rightarrow>
          if box_kept_busy n b l then h2c_delivery n b ms segs' sent
          else sent \<noteq> [] \<and> hd sent = m \<and> h2c_delivery n ((b + 1) mod 4) ms segs' (tl sent))"

text \<open>What one command does, as the firmware sees it: it is delivered into the current box, or dropped.\<close>

lemma h2c_command_watch:
  fixes s :: "('e, 'x) rtw_drv_scheme"
  assumes box: "h2c_last_box_num s < 4"
  obtains (sent) l where
      "run_state (h2c_to_box skip msg ext) s = ((), s\<lparr>io_log := io_log s @ l,
         h2c_last_box_num := (h2c_last_box_num s + 1) mod 4\<rparr>)"
      "\<not> box_kept_busy (poll_max s 3000) (unat (h2c_last_box_num s)) l"
      "\<And>f. \<exists>ex. h2c_watch l f = f\<lparr>hf_ex := ex,
         hf_got := hf_got f @ [(unat (h2c_last_box_num s), le_bytes 4 msg @ le_bytes 4 ext)], hf_status := None\<rparr>"
    | (dropped) l where
      "run_state (h2c_to_box skip msg ext) s = ((), s\<lparr>io_log := io_log s @ l\<rparr>)"
      "box_kept_busy (poll_max s 3000) (unat (h2c_last_box_num s)) l"
proof -
  obtain reg ex where r: "h2c_box_regs (h2c_last_box_num s) = Some (reg, ex)"
    "box_index reg = Some (unat (h2c_last_box_num s))" "box_ex_index ex = Some (unat (h2c_last_box_num s))"
    "box_ex_index reg = None"
    using h2c_boxes [OF box] .
  let ?n = "poll_max s 3000"
  let ?poll = "read_poll8 ?n 100 REG_HMETFR (box_free (h2c_last_box_num s))"
  obtain x s1 where p: "run_state ?poll s = (x, s1)" by fastforce
  from read_poll8_log [OF p] obtain l v where l: "s1 = s\<lparr>io_log := io_log s @ l @ [Rd 1 REG_HMETFR (ucast v)]\<rparr>"
    "x = (v, box_free (h2c_last_box_num s) v)"
    "\<forall>e \<in> set l. (\<exists>v. \<not> box_free (h2c_last_box_num s) v \<and> e = Rd 1 REG_HMETFR (ucast v)) \<or> e = Delay 100"
    by blast
  have w: "\<exists>st. h2c_watch l f = f\<lparr>hf_status := st\<rparr>" for f
    by (rule h2c_watch_poll [OF l(3)])
  show thesis
  proof (cases "box_free (h2c_last_box_num s) v")
    case True
    let ?l = "l @ [Rd 1 REG_HMETFR (ucast v), Wr 4 ex ext, Wr 4 reg msg]"
    show thesis
    proof (rule sent)
      show "run_state (h2c_to_box skip msg ext) s = ((), s\<lparr>io_log := io_log s @ ?l,
         h2c_last_box_num := (h2c_last_box_num s + 1) mod 4\<rparr>)"
        using True p l r next_box(1) [OF box, symmetric] by (simp add: h2c_to_box_def)
      show "\<not> box_kept_busy ?n (unat (h2c_last_box_num s)) ?l"
        using kept_busy_no_write [of ?n _ ?l 4 ex ext] by auto
      show "\<exists>ex'. h2c_watch ?l f = f\<lparr>hf_ex := ex',
         hf_got := hf_got f @ [(unat (h2c_last_box_num s), le_bytes 4 msg @ le_bytes 4 ext)], hf_status := None\<rparr>" for f
        using True w [of f] r by (auto simp: seen_free_def box_free_bit)
    qed
  next
    case False
    with p l(2) have "run_state ?poll s = ((v, False), s1)" by simp
    from read_poll8_fails [OF this] obtain vs where
      vs: "length vs = ?n" "list_all (\<lambda>v. \<not> box_free (h2c_last_box_num s) v) (v # vs)"
        "s1 = s\<lparr>io_log := io_log s @ (concat (map (\<lambda>v. [Rd 1 REG_HMETFR (ucast v), Delay 100]) vs)
           @ [Rd 1 REG_HMETFR (ucast v)])\<rparr>"
      by auto
    show thesis
    proof (rule dropped)
      show "run_state (h2c_to_box skip msg ext) s = ((), s\<lparr>io_log := io_log s
          @ (concat (map (\<lambda>v. [Rd 1 REG_HMETFR (ucast v), Delay 100]) vs) @ [Rd 1 REG_HMETFR (ucast v)])\<rparr>)"
        using False p l(2) vs(3) r(1) by (simp add: h2c_to_box_def)
      show "box_kept_busy ?n (unat (h2c_last_box_num s))
          (concat (map (\<lambda>v. [Rd 1 REG_HMETFR (ucast v), Delay 100]) vs) @ [Rd 1 REG_HMETFR (ucast v)])"
        using vs(1,2) by (auto simp: box_kept_busy_def box_free_bit)
    qed
  qed
qed

section \<open>A sequence of commands\<close>

lemma word_mod_4_add: "((x :: u8) mod 4 + y) mod 4 = (x + y) mod 4"
proof -
  have "n mod 256 mod 4 = n mod 4" for n :: nat
    by (rule mod_mod_cancel) simp
  then show ?thesis
    by (simp add: word_unat_eq_iff unat_mod unat_word_ariths mod_add_left_eq)
qed

lemma message_bytes:
  assumes "8 \<le> length m"
  shows "le_bytes 4 (word_at 0 m) @ le_bytes 4 (word_at 1 m) = take 8 m"
proof -
  have "le_bytes 4 (le_word bs :: u32) = bs" if "length bs = 4" for bs :: "u8 list"
    using le_bytes_le_word [of bs, where 'a = 32] that by simp
  then have "le_bytes 4 (word_at 0 m) @ le_bytes 4 (word_at 1 m) = take 4 m @ take 4 (drop 4 m)"
    using assms by (simp add: word_at_def)
  also have "\<dots> = take 8 m"
    by (simp add: take_add [of 4 4, symmetric])
  finally show ?thesis .
qed

definition round_robin :: "nat \<Rightarrow> 'a list \<Rightarrow> (nat \<times> 'a) list" where
  "round_robin b ms = zip (map (\<lambda>i. (b + i) mod 4) [0..<length ms]) ms"

lemma round_robin_Nil: "round_robin b [] = []"
  by (simp add: round_robin_def)

lemma round_robin_Cons:
  assumes "b < 4"
  shows "round_robin b (m # ms) = (b, m) # round_robin ((b + 1) mod 4) ms"
proof -
  have "map (\<lambda>i. (b + i) mod 4) [0..<Suc n] = b # map (\<lambda>i. ((b + 1) mod 4 + i) mod 4) [0..<n]" for n
    using assms by (simp add: upt_conv_Cons map_Suc_upt [symmetric] mod_add_left_eq del: upt_Suc map_Suc_upt)
  then show ?thesis
    by (simp add: round_robin_def del: upt_Suc)
qed

definition no_box_busy :: "io list \<Rightarrow> bool" where
  "no_box_busy l \<longleftrightarrow> (\<forall>v :: u8. Rd 1 REG_HMETFR (ucast v) \<in> set l \<longrightarrow> v AND 0xf = 0)"

lemma busy_box: "bit (v :: u8) b \<Longrightarrow> b < 4 \<Longrightarrow> v AND 0xf \<noteq> 0"
proof
  assume b: "bit v b" "b < 4" and "v AND 0xf = 0"
  have "(0xf :: u8) = mask 4" by (simp add: mask_eq_exp_minus_1)
  with b have "bit (v AND 0xf) b" by (simp add: bit_simps)
  with \<open>v AND 0xf = 0\<close> show False by simp
qed

lemma h2c_commands_segments:
  assumes "h2c_last_box_num s < 4" and "\<forall>m \<in> set msgs. 8 \<le> length m"
  shows "\<exists>l segs sent. run_state (for_each msgs rtw_fw_send_h2c_command) s = ((), s\<lparr>io_log := io_log s @ l,
       h2c_last_box_num := (h2c_last_box_num s + of_nat (length sent)) mod 4\<rparr>) \<and> subseq sent msgs \<and>
     l = concat segs \<and> h2c_delivery (poll_max s 3000) (unat (h2c_last_box_num s)) msgs segs sent \<and>
     (\<forall>f. \<exists>ex st. h2c_watch l f = f\<lparr>hf_ex := ex,
        hf_got := hf_got f @ round_robin (unat (h2c_last_box_num s)) (map (take 8) sent), hf_status := st\<rparr>) \<and>
     (no_box_busy l \<longrightarrow> sent = msgs)"
  using assms
proof (induction msgs arbitrary: s)
  case Nil
  have "h2c_last_box_num s mod 4 = h2c_last_box_num s"
    using Nil(1) by (simp add: word_arith_nat_mod unat_of_nat word_less_nat_alt)
  moreover have "\<exists>ex st. f = f\<lparr>hf_ex := ex, hf_status := st\<rparr>" for f :: h2c_fw
    by (rule exI [of _ "hf_ex f"], rule exI [of _ "hf_status f"]) simp
  ultimately show ?case
    by (intro exI [of _ "[]"]) (auto simp: round_robin_Nil no_box_busy_def)
next
  case (Cons m msgs)
  let ?b = "h2c_last_box_num s"
  have m: "8 \<le> length m" using Cons.prems by simp
  show ?case
  proof (rule h2c_command_watch [where s = s and msg = "word_at 0 m" and ext = "word_at 1 m"])
    show "?b < 4" using Cons.prems by simp
  next
    fix l
    assume run: "run_state (h2c_to_box skip (word_at 0 m) (word_at 1 m)) s =
        ((), s\<lparr>io_log := io_log s @ l, h2c_last_box_num := (?b + 1) mod 4\<rparr>)"
      and free: "\<not> box_kept_busy (poll_max s 3000) (unat ?b) l"
      and w: "\<And>f. \<exists>ex. h2c_watch l f = f\<lparr>hf_ex := ex, hf_got := hf_got f @
         [(unat ?b, le_bytes 4 (word_at 0 m) @ le_bytes 4 (word_at 1 m))], hf_status := None\<rparr>"
    let ?s = "s\<lparr>io_log := io_log s @ l, h2c_last_box_num := (?b + 1) mod 4\<rparr>"
    note nb = next_box [OF Cons.prems(1)]
    from Cons.IH [of ?s] nb(2) Cons.prems obtain l' segs sent where
      i: "run_state (for_each msgs rtw_fw_send_h2c_command) ?s = ((), ?s\<lparr>io_log := io_log ?s @ l',
            h2c_last_box_num := (h2c_last_box_num ?s + of_nat (length sent)) mod 4\<rparr>)" "subseq sent msgs"
         "\<And>f. \<exists>ex st. h2c_watch l' f = f\<lparr>hf_ex := ex,
            hf_got := hf_got f @ round_robin (unat (h2c_last_box_num ?s)) (map (take 8) sent), hf_status := st\<rparr>"
         "no_box_busy l' \<longrightarrow> sent = msgs" "l' = concat segs"
         "h2c_delivery (poll_max s 3000) (unat (h2c_last_box_num ?s)) msgs segs sent"
      by auto
    have k: "((?b + 1) mod 4 + of_nat (length sent)) mod 4 = (?b + of_nat (length (m # sent))) mod 4"
      by (simp add: word_mod_4_add add.assoc)
    show ?thesis
    proof (rule exI [of _ "l @ l'"], rule exI [of _ "l # segs"], rule exI [of _ "m # sent"], intro conjI allI)
      show "run_state (for_each (m # msgs) rtw_fw_send_h2c_command) s = ((), s\<lparr>io_log := io_log s @ (l @ l'),
          h2c_last_box_num := (?b + of_nat (length (m # sent))) mod 4\<rparr>)"
        using run i(1) k by (simp add: rtw_fw_send_h2c_command_def)
      show "subseq (m # sent) (m # msgs)" using i(2) by simp
      show "l @ l' = concat (l # segs)" using i(5) by simp
      show "h2c_delivery (poll_max s 3000) (unat ?b) (m # msgs) (l # segs) (m # sent)"
        using free i(6) nb(3) by simp
      show "no_box_busy (l @ l') \<longrightarrow> m # sent = m # msgs"
        using i(4) by (auto simp: no_box_busy_def)
      fix f
      show "\<exists>ex st. h2c_watch (l @ l') f = f\<lparr>hf_ex := ex, hf_got := hf_got f @
          round_robin (unat ?b) (map (take 8) (m # sent)), hf_status := st\<rparr>"
      proof -
        obtain ex where e: "h2c_watch l f = f\<lparr>hf_ex := ex, hf_got := hf_got f @ [(unat ?b, take 8 m)], hf_status := None\<rparr>"
          using w [of f] message_bytes [OF m] by auto
        obtain ex' st' where "h2c_watch l' (h2c_watch l f) = (h2c_watch l f)\<lparr>hf_ex := ex', hf_got := hf_got (h2c_watch l f) @
            round_robin (unat (h2c_last_box_num ?s)) (map (take 8) sent), hf_status := st'\<rparr>"
          using i(3) by blast
        then have "h2c_watch (l @ l') f = f\<lparr>hf_ex := ex', hf_got := hf_got f @
            round_robin (unat ?b) (map (take 8) (m # sent)), hf_status := st'\<rparr>"
          using e Cons.prems(1) nb(3) by (simp add: round_robin_Cons word_less_nat_alt)
        then show ?thesis by blast
      qed
    qed
  next
    fix l
    assume run: "run_state (h2c_to_box skip (word_at 0 m) (word_at 1 m)) s = ((), s\<lparr>io_log := io_log s @ l\<rparr>)"
      and lost: "box_kept_busy (poll_max s 3000) (unat ?b) l"
    have w: "\<exists>st. h2c_watch l f = f\<lparr>hf_status := st\<rparr>" for f
      by (rule kept_busy_watch [OF lost])
    from kept_busy_read [OF lost] obtain v :: u8 where
      busy: "Rd 1 REG_HMETFR (ucast v) \<in> set l" "bit v (unat ?b)"
      by blast
    let ?s = "s\<lparr>io_log := io_log s @ l\<rparr>"
    from Cons.IH [of ?s] Cons.prems obtain l' segs sent where
      i: "run_state (for_each msgs rtw_fw_send_h2c_command) ?s = ((), ?s\<lparr>io_log := io_log ?s @ l',
            h2c_last_box_num := (h2c_last_box_num ?s + of_nat (length sent)) mod 4\<rparr>)" "subseq sent msgs"
         "\<And>f. \<exists>ex st. h2c_watch l' f = f\<lparr>hf_ex := ex,
            hf_got := hf_got f @ round_robin (unat (h2c_last_box_num ?s)) (map (take 8) sent), hf_status := st\<rparr>"
         "l' = concat segs" "h2c_delivery (poll_max s 3000) (unat ?b) msgs segs sent"
      by auto
    have "\<not> no_box_busy (l @ l')"
      using busy busy_box [OF busy(2)] Cons.prems(1) by (auto simp: no_box_busy_def word_less_nat_alt)
    show ?thesis
    proof (rule exI [of _ "l @ l'"], rule exI [of _ "l # segs"], rule exI [of _ sent], intro conjI allI)
      show "run_state (for_each (m # msgs) rtw_fw_send_h2c_command) s = ((), s\<lparr>io_log := io_log s @ (l @ l'),
          h2c_last_box_num := (?b + of_nat (length sent)) mod 4\<rparr>)"
        using run i(1) by (simp add: rtw_fw_send_h2c_command_def)
      show "subseq sent (m # msgs)" using i(2) by blast
      show "l @ l' = concat (l # segs)" using i(4) by simp
      show "h2c_delivery (poll_max s 3000) (unat ?b) (m # msgs) (l # segs) sent"
        using lost i(5) by simp
      show "no_box_busy (l @ l') \<longrightarrow> sent = m # msgs" using \<open>\<not> no_box_busy (l @ l')\<close> by blast
      fix f
      show "\<exists>ex st. h2c_watch (l @ l') f = f\<lparr>hf_ex := ex, hf_got := hf_got f @
          round_robin (unat ?b) (map (take 8) sent), hf_status := st\<rparr>"
      proof -
        obtain st where "h2c_watch l f = f\<lparr>hf_status := st\<rparr>"
          using w [of f] by blast
        with i(3) [of "h2c_watch l f"] show ?thesis by simp
      qed
    qed
  qed
qed

lemma h2c_commands_watch:
  assumes "h2c_last_box_num s < 4" and "\<forall>m \<in> set msgs. 8 \<le> length m"
  shows "\<exists>l sent. run_state (for_each msgs rtw_fw_send_h2c_command) s = ((), s\<lparr>io_log := io_log s @ l,
       h2c_last_box_num := (h2c_last_box_num s + of_nat (length sent)) mod 4\<rparr>) \<and> subseq sent msgs \<and>
     (\<forall>f. \<exists>ex st. h2c_watch l f = f\<lparr>hf_ex := ex,
        hf_got := hf_got f @ round_robin (unat (h2c_last_box_num s)) (map (take 8) sent), hf_status := st\<rparr>) \<and>
     (no_box_busy l \<longrightarrow> sent = msgs)"
  using h2c_commands_segments [OF assms] by blast

text \<open>
  Property C14. Commands sent one after the other reach the firmware in order, in the mailboxes 0 to 3
  taken in turn, each with all its eight bytes; no box is written that the driver has not just seen
  free. A command is lost exactly when its box was in use at every read of the poll, one read more
  than the poll's budget (\<open>h2c_delivery\<close>), and the next command then tries the same box; so none is lost
  when no read shows a box in use.
\<close>

theorem h2c_commands_delivered:
  assumes "h2c_last_box_num s < 4" and "\<forall>m \<in> set msgs. 8 \<le> length m"
  shows "\<exists>l segs sent. run_state (for_each msgs rtw_fw_send_h2c_command) s = ((), s\<lparr>io_log := io_log s @ l,
       h2c_last_box_num := (h2c_last_box_num s + of_nat (length sent)) mod 4\<rparr>) \<and>
     subseq sent msgs \<and>
     hf_got (h2c_watch l h2c_fw_init) = round_robin (unat (h2c_last_box_num s)) (map (take 8) sent) \<and>
     \<not> hf_overrun (h2c_watch l h2c_fw_init) \<and>
     l = concat segs \<and> h2c_delivery (poll_max s 3000) (unat (h2c_last_box_num s)) msgs segs sent \<and>
     (no_box_busy l \<longrightarrow> sent = msgs)"
proof -
  from h2c_commands_segments [OF assms] obtain l segs sent where
    r: "run_state (for_each msgs rtw_fw_send_h2c_command) s = ((), s\<lparr>io_log := io_log s @ l,
       h2c_last_box_num := (h2c_last_box_num s + of_nat (length sent)) mod 4\<rparr>)" "subseq sent msgs"
      "l = concat segs" "h2c_delivery (poll_max s 3000) (unat (h2c_last_box_num s)) msgs segs sent"
      "no_box_busy l \<longrightarrow> sent = msgs"
    and "\<exists>ex st. h2c_watch l h2c_fw_init = h2c_fw_init\<lparr>hf_ex := ex,
        hf_got := hf_got h2c_fw_init @ round_robin (unat (h2c_last_box_num s)) (map (take 8) sent), hf_status := st\<rparr>"
    by metis
  then show ?thesis
    by (intro exI [of _ l] exI [of _ segs] exI [of _ sent]) (auto simp: h2c_fw_init_def)
qed

text \<open>Two commands from the last box on.\<close>

lemma h2c_commands_delivered_witness:
  "\<forall>s :: (unit, unit) rtw_drv_scheme. \<exists>l. snd (run_state
       (for_each [media_status_pkt 5 True, media_status_pkt 6 False] rtw_fw_send_h2c_command) (s\<lparr>h2c_last_box_num := 3\<rparr>))
     = s\<lparr>io_log := io_log s @ l, h2c_last_box_num := (3 + of_nat (length (hf_got (h2c_watch l h2c_fw_init)))) mod 4\<rparr>
     \<and> map fst (hf_got (h2c_watch l h2c_fw_init)) \<in> {[], [3], [3, 0]}"
proof
  fix s :: "(unit, unit) rtw_drv_scheme"
  let ?ms = "[media_status_pkt 5 True, media_status_pkt 6 False]"
  have "\<forall>m \<in> set ?ms. 8 \<le> length m"
    by (simp add: media_status_pkt_def set_fields_def le32_field_defs)
  with h2c_commands_delivered [of "s\<lparr>h2c_last_box_num := 3\<rparr>" ?ms] obtain l segs sent where
    r: "run_state (for_each ?ms rtw_fw_send_h2c_command) (s\<lparr>h2c_last_box_num := 3\<rparr>) =
      ((), s\<lparr>io_log := io_log s @ l, h2c_last_box_num := (3 + of_nat (length sent)) mod 4\<rparr>)"
      "subseq sent ?ms" "hf_got (h2c_watch l h2c_fw_init) = round_robin 3 (map (take 8) sent)"
    by (auto simp: del: for_each.simps)
  from list_emb_length [OF r(2)] have "length sent = 0 \<or> length sent = 1 \<or> length sent = 2"
    by (simp add: numeral_2_eq_2 del: length_0_conv) linarith
  then have "map fst (round_robin 3 (map (take 8) sent)) \<in> {[], [3], [3, 0]}"
    by (auto simp: round_robin_def numeral_2_eq_2)
  moreover have "length (round_robin 3 (map (take 8) sent)) = length sent"
    by (simp add: round_robin_def)
  ultimately show "\<exists>l. snd (run_state (for_each ?ms rtw_fw_send_h2c_command) (s\<lparr>h2c_last_box_num := 3\<rparr>))
     = s\<lparr>io_log := io_log s @ l, h2c_last_box_num := (3 + of_nat (length (hf_got (h2c_watch l h2c_fw_init)))) mod 4\<rparr>
     \<and> map fst (hf_got (h2c_watch l h2c_fw_init)) \<in> {[], [3], [3, 0]}"
    using r(1,3) by (intro exI [of _ l]) simp
qed

section \<open>Messages about a station\<close>

lemma bit_byte: "bit (v :: u8) k \<Longrightarrow> k < 8"
  by (drule bit_imp_le_length) simp

lemma take_bit_small:
  assumes "uint v < 2 ^ n"
  shows "take_bit n (ucast (v :: u8) :: u32) = ucast v"
proof -
  have "take_bit n (uint v) = uint v"
    using assms by (simp add: take_bit_int_eq_self)
  then have "take_bit n v = v"
    by (metis unsigned_take_bit_eq word_uint_eq_iff)
  then show ?thesis
    by (simp add: bit_eq_iff bit_simps) (blast dest: bit_byte)
qed

lemma take_bit_flag: "0 < n \<Longrightarrow> take_bit n (of_bool_w b :: u32) = of_bool_w b"
  by (cases n) (auto simp: of_bool_w_def take_bit_Suc)

definition msg_field :: "nat \<Rightarrow> nat \<Rightarrow> nat \<Rightarrow> u8 list \<Rightarrow> u32" where
  "msg_field i h l p = get_bits (word_at i p) (GENMASK h l)"

definition ra_mask_word :: "64 word \<Rightarrow> u32 \<Rightarrow> u32" where
  "ra_mask_word m old = replace_bits (replace_bits (replace_bits (replace_bits old
     (ucast (m AND 0xff)) (GENMASK 7 0)) (ucast (drop_bit 8 (m AND 0xff00))) (GENMASK 15 8))
     (ucast (drop_bit 16 (m AND 0xff0000))) (GENMASK 23 16)) (ucast (drop_bit 24 (m AND 0xff000000))) (GENMASK 31 24)"

lemma byte_masks:
  "(0xff :: 64 word) = GENMASK 7 0" "(0xff00 :: 64 word) = GENMASK 15 8"
  "(0xff0000 :: 64 word) = GENMASK 23 16" "(0xff000000 :: 64 word) = GENMASK 31 24"
  by (simp_all add: GENMASK_def mask_eq_exp_minus_1)

lemma bit_byte_mask:
  "bit (0xff :: 64 word) k \<longleftrightarrow> k < 8" "bit (0xff00 :: 64 word) k \<longleftrightarrow> 8 \<le> k \<and> k < 16"
  "bit (0xff0000 :: 64 word) k \<longleftrightarrow> 16 \<le> k \<and> k < 24" "bit (0xff000000 :: 64 word) k \<longleftrightarrow> 24 \<le> k \<and> k < 32"
  by (simp_all only: byte_masks) (auto simp: bit_simps)

lemma ra_mask_word_eq: "ra_mask_word m old = ucast m"
proof (rule bit_word_eqI)
  fix k assume k: "k < LENGTH(32)"
  then consider "k < 8" | "8 \<le> k" "k < 16" | "16 \<le> k" "k < 24" | "24 \<le> k" "k < 32" by fastforce
  then show "bit (ra_mask_word m old) k = bit (ucast m :: u32) k"
    by cases (auto simp: ra_mask_word_def replace_bits_def field_bits bit_byte_mask bit_simps)
qed

lemma ra_mask_halves: "(m :: 64 word) = ucast (ucast m :: u32) OR push_bit 32 (ucast (ucast (drop_bit 32 m) :: u32))"
  by (rule bit_word_eqI) (auto simp: bit_simps)

lemma word_at_set:
  assumes "length p = 32" and "i < 8"
  shows "word_at j (le32p_replace_bits i v f p) = (if i = j then replace_bits (word_at i p) v f else word_at j p)"
    and "length (le32p_replace_bits i v f p) = 32"
  using assms by (simp_all add: word_at_le32p)

lemmas msg_eval = fold_simps fold_append comp_apply append_Cons append_Nil id_apply word_at_set length_replicate
  if_True if_False word_at_zeros zero_less_numeral one_less_numeral_iff semiring_norm(76) zero_neq_one one_neq_zero refl

definition ra_word :: "rtw_sta_info \<Rightarrow> bool \<Rightarrow> u32" where
  "ra_word si r = replace_bits (replace_bits (replace_bits (replace_bits (replace_bits (replace_bits (replace_bits
     (replace_bits (replace_bits (replace_bits 0 0x40 (GENMASK 7 0)) (ucast (si_mac_id si)) (GENMASK 15 8))
     (ucast (si_rate_id si)) (GENMASK 20 16)) (ucast (si_init_ra_lv si)) (GENMASK 22 21)) (of_bool_w (si_sgi_enable si)) (BIT 23))
     (ucast (si_bw_mode si)) (GENMASK 25 24)) (of_bool_w (si_ldpc_en si \<noteq> 0)) (BIT 26)) (of_bool_w (\<not> r)) (BIT 27))
     (of_bool_w (si_vht_enable si)) (GENMASK 29 28)) 1 (BIT 30)"

lemma ra_info_words:
  "word_at 0 (ra_info_pkt si r) = ra_word si r" "word_at 1 (ra_info_pkt si r) = ra_mask_word (si_ra_mask si) 0"
  "length (ra_info_pkt si r) = 32"
  by (simp_all only: ra_word_def ra_mask_word_def ra_info_pkt_def set_fields_def set_ra_mask_def msg_eval,
    simp_all only: le32_field_defs msg_eval)

lemma ra_info_hi_words:
  "word_at 0 (ra_info_hi_pkt si r) = replace_bits (ra_word si r) 0x46 (GENMASK 7 0)"
  "word_at 1 (ra_info_hi_pkt si r) = ra_mask_word (drop_bit 32 (si_ra_mask si)) (word_at 1 (ra_info_pkt si r))"
  by (simp_all only: ra_mask_word_def ra_info_hi_pkt_def set_fields_def set_ra_mask_def msg_eval,
    simp_all only: le32_field_defs msg_eval ra_info_words)

lemma ra_info_fields:
  fixes r :: bool
  assumes "si_rate_id si < 32" "si_init_ra_lv si < 4" "si_bw_mode si < 4"
  defines "p \<equiv> ra_info_pkt si r" and "q \<equiv> ra_info_hi_pkt si r"
  shows "msg_field 0 7 0 p = 0x40" "msg_field 0 7 0 q = 0x46"
    "msg_field 0 15 8 p = ucast (si_mac_id si)" "msg_field 0 15 8 q = ucast (si_mac_id si)"
    "msg_field 0 20 16 p = ucast (si_rate_id si)" "msg_field 0 22 21 p = ucast (si_init_ra_lv si)"
    "msg_field 0 25 24 p = ucast (si_bw_mode si)"
    "msg_field 0 23 23 p = of_bool_w (si_sgi_enable si)" "msg_field 0 26 26 p = of_bool_w (si_ldpc_en si \<noteq> 0)"
    "msg_field 0 27 27 p = of_bool_w (\<not> r)" "msg_field 0 29 28 p = of_bool_w (si_vht_enable si)"
  using assms(1-3) [unfolded word_less_def]
  by (simp_all add: p_def q_def msg_field_def ra_info_words ra_info_hi_words ra_word_def BIT_eq_GENMASK
    replace_bits_other replace_bits_same take_bit_flag take_bit_small)

text \<open>
  Property C15. The firmware reads a station's parameters back from the rate adaptation messages: its
  identifier, rate table, bandwidth, flags, and, from the two messages of a four-stream chip
  together, all 64 bits of the rate mask.
\<close>

theorem ra_info_roundtrip:
  fixes reset_ra_mask :: bool
  assumes "si_rate_id si < 32" "si_init_ra_lv si < 4" "si_bw_mode si < 4"
  shows "let p = ra_info_pkt si reset_ra_mask; q = ra_info_hi_pkt si reset_ra_mask in
    msg_field 0 7 0 p = 0x40 \<and> msg_field 0 7 0 q = 0x46 \<and>
    msg_field 0 15 8 p = ucast (si_mac_id si) \<and> msg_field 0 15 8 q = ucast (si_mac_id si) \<and>
    msg_field 0 20 16 p = ucast (si_rate_id si) \<and> msg_field 0 22 21 p = ucast (si_init_ra_lv si) \<and>
    msg_field 0 25 24 p = ucast (si_bw_mode si) \<and>
    msg_field 0 23 23 p = of_bool_w (si_sgi_enable si) \<and> msg_field 0 26 26 p = of_bool_w (si_ldpc_en si \<noteq> 0) \<and>
    msg_field 0 27 27 p = of_bool_w (\<not> reset_ra_mask) \<and> msg_field 0 29 28 p = of_bool_w (si_vht_enable si) \<and>
    si_ra_mask si = ucast (word_at 1 p) OR push_bit 32 (ucast (word_at 1 q))"
proof -
  let ?p = "ra_info_pkt si reset_ra_mask" and ?q = "ra_info_hi_pkt si reset_ra_mask"
  have "si_ra_mask si = ucast (word_at 1 ?p) OR push_bit 32 (ucast (word_at 1 ?q))"
    by (simp only: ra_info_words ra_info_hi_words ra_mask_word_eq ra_mask_halves [symmetric])
  then show ?thesis
    using assms by (simp only: Let_def ra_info_fields simp_thms)
qed

text \<open>A station that uses short guard intervals on 80 MHz.\<close>

lemma ra_info_roundtrip_witness:
  "\<forall>si0. let si = si0\<lparr>si_rate_id := 10, si_init_ra_lv := 1, si_bw_mode := 2, si_sgi_enable := True\<rparr> in
     msg_field 0 20 16 (ra_info_pkt si False) = 10 \<and> msg_field 0 27 27 (ra_info_pkt si False) = 1"
  using ra_info_roundtrip [of "si0\<lparr>si_rate_id := 10, si_init_ra_lv := 1, si_bw_mode := 2, si_sgi_enable := True\<rparr>" False for si0]
  by (simp add: Let_def of_bool_w_def)

end
