(* ===== verification/DrvFrame.thy ===== *)
theory DrvFrame
  imports FwCmd Calculus
begin

text \<open>
  Frames of the routines of the driver core: which part of the state a routine leaves alone
  (\<open>same\<close>), and routines that only talk to the adapter and move to another mailbox (\<open>mailbox\<close>).
\<close>

section \<open>Parts of the state that stay the same\<close>

definition same :: "('s \<Rightarrow> 'b) \<Rightarrow> ('s, 'a) state \<Rightarrow> bool" where
  "same g m \<longleftrightarrow> (\<forall>s. g (snd (run_state m s)) = g s)"

lemma same_frame: "step_frame (\<lambda>s s'. g s' = g s)"
  by unfold_locales simp_all

interpretation same: step_frame "\<lambda>s s'. g s' = g s"
  rewrites "step_frame.keeps (\<lambda>s s'. g s' = g s) = same g" for g :: "'s \<Rightarrow> 'b"
  by (rule same_frame) (simp add: fun_eq_iff same_def step_frame.keeps_def [OF same_frame])

named_theorems same_rules

lemmas same_struct [same_rules] = same.keeps_struct

lemma sameD: "same g m \<Longrightarrow> run_state m s = (r, s') \<Longrightarrow> g s' = g s"
  by (rule same.keepsD)

lemma same_snd: "same g m \<Longrightarrow> g (snd (run_state m s)) = g s"
  by (simp add: same_def)

lemma same_dev_get [same_rules]: "same g (dev_get f)"
  by (simp add: same_def)

lemma same_dev_upd [same_rules]: "(\<And>s. g (f s) = g s) \<Longrightarrow> same g (dev_upd f)"
  by (simp add: same_def)

lemma same_skip [same_rules]: "same g skip"
  by (simp add: same_def)

lemma same_when_do [same_rules]: "(b \<Longrightarrow> same g m) \<Longrightarrow> same g (when_do b m)"
  by (simp add: same_def)

lemma same_then_do [same_rules]: "same g m \<Longrightarrow> same g k \<Longrightarrow> same g (then_do m k)"
  unfolding then_do_def by (intro same_rules)

lemma same_for_each [same_rules]: "(\<And>x. x \<in> set xs \<Longrightarrow> same g (f x)) \<Longrightarrow> same g (for_each xs f)"
  by (induction xs) (auto intro!: same_rules)

lemma same_quiet:
  assumes "quiet m" and "\<And>s l. g (s\<lparr>io_log := l\<rparr>) = g s"
  shows "same g m"
  unfolding same_def
proof
  fix s
  obtain r l where "run_state m s = (r, s\<lparr>io_log := io_log s @ l\<rparr>)"
    using quiet_run [OF assms(1)] by blast
  then show "g (snd (run_state m s)) = g s"
    by (simp add: assms(2))
qed

text \<open>A part of the state that is neither the log of accesses nor the place in the mailboxes.\<close>

definition off_log :: "('x hw_scheme \<Rightarrow> 'b) \<Rightarrow> bool" where
  "off_log g \<longleftrightarrow> (\<forall>s l. g (s\<lparr>io_log := l\<rparr>) = g s)"

definition off_box :: "('x rtw_dev_scheme \<Rightarrow> 'b) \<Rightarrow> bool" where
  "off_box g \<longleftrightarrow> (\<forall>s b. g (s\<lparr>h2c_last_box_num := b\<rparr>) = g s)"

lemma same_off_log: "quiet m \<Longrightarrow> off_log g \<Longrightarrow> same g m"
  by (rule same_quiet) (simp_all add: off_log_def)

lemmas same_accesses [same_rules] = quiet_access [THEN same_off_log] quiet_rmw [THEN same_off_log]
  quiet_masked_read [THEN same_off_log] quiet_read_poll8 [THEN same_off_log] quiet_check_hw_ready [THEN same_off_log]

lemma same_drv_upds [same_rules]:
  "(\<And>s. g (s\<lparr>lps_conf := f (lps_conf s)\<rparr>) = g s) \<Longrightarrow> same g (lps_upd f)"
  "(\<And>s. g (s\<lparr>vif_tbl := (vif_tbl s)(i := v (vif_tbl s i))\<rparr>) = g s) \<Longrightarrow> same g (vif_upd i v)"
  "(\<And>s. g (s\<lparr>stas := (stas s)[i := h (stas s ! i)]\<rparr>) = g s) \<Longrightarrow> same g (sta_upd i h)"
  "(\<And>s ks. g (s\<lparr>kcalls := ks\<rparr>) = g s) \<Longrightarrow> same g (kcall c)"
  "(\<And>s ks. g (s\<lparr>kcalls := ks\<rparr>) = g s) \<Longrightarrow> same g (wait_completion c)"
  "(\<And>s n. g (s\<lparr>alloc_cnt := n\<rparr>) = g s) \<Longrightarrow> same g try_alloc"
  "(\<And>s n. g (s\<lparr>alloc_cnt := n\<rparr>) = g s) \<Longrightarrow> same g (get_frame fr)"
  "(\<And>s. g (s\<lparr>fault := True\<rparr>) = g s) \<Longrightarrow> same g set_fault"
  by (simp_all add: same_def)

section \<open>Commands\<close>

definition mailbox_rel :: "'x rtw_dev_scheme \<Rightarrow> 'x rtw_dev_scheme \<Rightarrow> bool" where
  "mailbox_rel s s' \<longleftrightarrow> (\<exists>l b. s' = s\<lparr>io_log := io_log s @ l, h2c_last_box_num := b\<rparr>)"

definition mailbox :: "('x rtw_dev_scheme, 'a) state \<Rightarrow> bool" where
  "mailbox m \<longleftrightarrow> (\<forall>s. mailbox_rel s (snd (run_state m s)))"

lemma mailbox_frame: "step_frame (mailbox_rel :: 'x rtw_dev_scheme \<Rightarrow> _)"
proof
  fix s :: "'x rtw_dev_scheme"
  show "mailbox_rel s s"
    unfolding mailbox_rel_def by (rule exI [of _ "[]"], rule exI [of _ "h2c_last_box_num s"]) simp
next
  fix s s' s'' :: "'x rtw_dev_scheme"
  assume "mailbox_rel s s'" "mailbox_rel s' s''"
  then show "mailbox_rel s s''"
    unfolding mailbox_rel_def by (elim exE, simp) (intro exI, rule refl)
qed

interpretation mailbox: step_frame "mailbox_rel :: 'x rtw_dev_scheme \<Rightarrow> _"
  rewrites "step_frame.keeps mailbox_rel = mailbox"
  by (rule mailbox_frame) (simp add: fun_eq_iff mailbox_def step_frame.keeps_def [OF mailbox_frame])

named_theorems mailbox_rules

lemmas mailbox_struct [mailbox_rules] = mailbox.keeps_struct

lemma mailbox_quiet:
  assumes "quiet m"
  shows "mailbox m"
  unfolding mailbox_def
proof
  fix s
  obtain r l where "run_state m s = (r, s\<lparr>io_log := io_log s @ l\<rparr>)"
    using quiet_run [OF assms] by blast
  then show "mailbox_rel s (snd (run_state m s))"
    unfolding mailbox_rel_def by (intro exI [of _ l] exI [of _ "h2c_last_box_num s"]) simp
qed

lemma mailbox_dev_get [mailbox_rules]: "mailbox (dev_get f)"
  by (rule mailbox_quiet) (intro quiet_rules)

lemma mailbox_skip [mailbox_rules]: "mailbox skip"
  by (rule mailbox_quiet) (intro quiet_rules)

lemma mailbox_box: "mailbox (dev_upd (\<lambda>s. s\<lparr>h2c_last_box_num := f s\<rparr>))"
  by (simp add: mailbox_def mailbox_rel_def) (intro allI exI [of _ "[]"] exI [of _ "f _"], simp)

lemma quiet_dump [quiet_rules]: "quiet rtw_fw_dump_dbg_info"
  unfolding rtw_fw_dump_dbg_info_def dump_dbg_regs_def rtw_read32_mask_def
  by (intro quiet_rules)

lemma mailbox_h2c_to_box:
  assumes "mailbox on_fail"
  shows "mailbox (h2c_to_box on_fail msg ext)"
  unfolding h2c_to_box_def
  by (intro mailbox_rules mailbox_box assms) (intro mailbox_quiet quiet_rules)+

lemma mailbox_commands [mailbox_rules]: "mailbox (rtw_fw_send_h2c_command p)" "mailbox (rtw_fw_send_h2c_command_register w)"
  unfolding rtw_fw_send_h2c_command_def rtw_fw_send_h2c_command_register_def
  by (intro mailbox_h2c_to_box mailbox_skip mailbox_quiet [OF quiet_dump])+

lemma mailbox_run:
  assumes "mailbox m"
  obtains r l b where "run_state m s = (r, s\<lparr>io_log := io_log s @ l, h2c_last_box_num := b\<rparr>)"
  using assms unfolding mailbox_def mailbox_rel_def by (metis prod.collapse)

lemma same_mailbox:
  assumes "mailbox m" and "\<And>s l b. g (s\<lparr>io_log := l, h2c_last_box_num := b\<rparr>) = g s"
  shows "same g m"
  unfolding same_def
proof
  fix s
  from mailbox_run [OF assms(1)] obtain r l b where
    "run_state m s = (r, s\<lparr>io_log := io_log s @ l, h2c_last_box_num := b\<rparr>)" .
  then show "g (snd (run_state m s)) = g s"
    by (simp add: assms(2))
qed

lemma same_commands [same_rules]:
  assumes "off_log g" and "off_box g"
  shows "same g (rtw_fw_send_h2c_command p)" "same g (rtw_fw_send_h2c_command_register w)"
proof -
  have "g (s\<lparr>io_log := l, h2c_last_box_num := b\<rparr>) = g s" for s l b
    using assms by (simp add: off_log_def off_box_def)
  then show "same g (rtw_fw_send_h2c_command p)" "same g (rtw_fw_send_h2c_command_register w)"
    by (intro same_mailbox mailbox_commands; simp)+
qed

lemma same_dump [same_rules]: "off_log g \<Longrightarrow> same g rtw_fw_dump_dbg_info"
  by (rule same_off_log [OF quiet_dump])

end
