(* ===== verification/StaRate.thy ===== *)
theory StaRate
  imports DrvFrame
begin

text \<open>
  The rates the firmware may use for a station (\<open>main.c\<close>): the mask of the rates the peer announced,
  cut down by the antennas, the band, the signal strength and the mask the user configured, and the
  table of rates that goes with it. The configured mask is an object of its own that a station
  points to (\<open>mac80211.c\<close> allocates and frees it).
\<close>

section \<open>Announced rates\<close>

fun vht_ra_mask_loop :: "nat \<Rightarrow> u16 \<Rightarrow> nat \<Rightarrow> 64 word" where
  "vht_ra_mask_loop 0 mcs_map nss = 0"
| "vht_ra_mask_loop (Suc i) mcs_map nss =
     (let vht_mcs_cap = mcs_map AND 3
      in if vht_mcs_cap = 2 then push_bit nss 0x3ff
         else if vht_mcs_cap = 1 then push_bit nss 0x1ff
         else if vht_mcs_cap = 0 then push_bit nss 0xff else 0) OR
     vht_ra_mask_loop i (drop_bit 2 mcs_map) (nss + 10)"

definition get_vht_ra_mask :: "ieee80211_sta \<Rightarrow> 64 word" where
  "get_vht_ra_mask sta = vht_ra_mask_loop 4 (sta_vht_rx_mcs_map sta) 12"

definition ht_ra_mask :: "ieee80211_sta \<Rightarrow> 64 word" where
  "ht_ra_mask sta =
     push_bit 36 (ucast (sta_ht_rx_mask sta ! 3)) OR push_bit 28 (ucast (sta_ht_rx_mask sta ! 2)) OR
     push_bit 20 (ucast (sta_ht_rx_mask sta ! 1)) OR push_bit 12 (ucast (sta_ht_rx_mask sta ! 0))"

abbreviation (input) WIRELESS_CCK :: u8 where "WIRELESS_CCK \<equiv> 1"
abbreviation (input) WIRELESS_OFDM :: u8 where "WIRELESS_OFDM \<equiv> 2"
abbreviation (input) WIRELESS_HT :: u8 where "WIRELESS_HT \<equiv> 4"
abbreviation (input) WIRELESS_VHT :: u8 where "WIRELESS_VHT \<equiv> 8"

section \<open>The table of rates\<close>

definition RTW_RATEID_BGN_40M_2SS :: u8 where "RTW_RATEID_BGN_40M_2SS = 0"
definition RTW_RATEID_BGN_40M_1SS :: u8 where "RTW_RATEID_BGN_40M_1SS = 1"
definition RTW_RATEID_BGN_20M_2SS :: u8 where "RTW_RATEID_BGN_20M_2SS = 2"
definition RTW_RATEID_BGN_20M_1SS :: u8 where "RTW_RATEID_BGN_20M_1SS = 3"
definition RTW_RATEID_GN_N2SS :: u8 where "RTW_RATEID_GN_N2SS = 4"
definition RTW_RATEID_GN_N1SS :: u8 where "RTW_RATEID_GN_N1SS = 5"
definition RTW_RATEID_BG :: u8 where "RTW_RATEID_BG = 6"
definition RTW_RATEID_G :: u8 where "RTW_RATEID_G = 7"
definition RTW_RATEID_B_20M :: u8 where "RTW_RATEID_B_20M = 8"
definition RTW_RATEID_ARFR0_AC_2SS :: u8 where "RTW_RATEID_ARFR0_AC_2SS = 9"
definition RTW_RATEID_ARFR1_AC_1SS :: u8 where "RTW_RATEID_ARFR1_AC_1SS = 10"
definition RTW_RATEID_ARFR2_AC_2G_1SS :: u8 where "RTW_RATEID_ARFR2_AC_2G_1SS = 11"
definition RTW_RATEID_ARFR3_AC_2G_2SS :: u8 where "RTW_RATEID_ARFR3_AC_2G_2SS = 12"
definition RTW_RATEID_ARFR4_AC_3SS :: u8 where "RTW_RATEID_ARFR4_AC_3SS = 13"
definition RTW_RATEID_ARFR5_N_3SS :: u8 where "RTW_RATEID_ARFR5_N_3SS = 14"
definition RTW_RATEID_ARFR7_N_4SS :: u8 where "RTW_RATEID_ARFR7_N_4SS = 15"
definition RTW_RATEID_ARFR6_AC_4SS :: u8 where "RTW_RATEID_ARFR6_AC_4SS = 16"

lemmas rate_id_defs =
  RTW_RATEID_BGN_40M_2SS_def RTW_RATEID_BGN_40M_1SS_def RTW_RATEID_BGN_20M_2SS_def RTW_RATEID_BGN_20M_1SS_def
  RTW_RATEID_GN_N2SS_def RTW_RATEID_GN_N1SS_def RTW_RATEID_BG_def RTW_RATEID_G_def RTW_RATEID_B_20M_def
  RTW_RATEID_ARFR0_AC_2SS_def RTW_RATEID_ARFR1_AC_1SS_def RTW_RATEID_ARFR2_AC_2G_1SS_def
  RTW_RATEID_ARFR3_AC_2G_2SS_def RTW_RATEID_ARFR4_AC_3SS_def RTW_RATEID_ARFR5_N_3SS_def
  RTW_RATEID_ARFR7_N_4SS_def RTW_RATEID_ARFR6_AC_4SS_def

text \<open>The four tables of a row by the number of streams; \<open>0\<close> when the switch has no case for it.\<close>

definition by_streams :: "u8 \<Rightarrow> u8 \<Rightarrow> u8 \<Rightarrow> u8 \<Rightarrow> u8 \<Rightarrow> u8" where
  "by_streams tx_num ss1 ss2 ss3 ss4 =
     (if tx_num = 1 then ss1 else if tx_num = 2 then ss2 else if tx_num = 3 then ss3
      else if tx_num = 4 then ss4 else 0)"

definition get_rate_id :: "u8 \<Rightarrow> u8 \<Rightarrow> u8 \<Rightarrow> u8" where
  "get_rate_id wireless_set bw_mode tx_num =
     (if wireless_set = WIRELESS_CCK then RTW_RATEID_B_20M
      else if wireless_set = WIRELESS_OFDM then RTW_RATEID_G
      else if wireless_set = WIRELESS_CCK OR WIRELESS_OFDM then RTW_RATEID_BG
      else if wireless_set = WIRELESS_OFDM OR WIRELESS_HT then
        by_streams tx_num RTW_RATEID_GN_N1SS RTW_RATEID_GN_N2SS RTW_RATEID_ARFR5_N_3SS 0
      else if wireless_set = WIRELESS_CCK OR WIRELESS_OFDM OR WIRELESS_HT then
        if bw_mode = Hal.RTW_CHANNEL_WIDTH_40
        then by_streams tx_num RTW_RATEID_BGN_40M_1SS RTW_RATEID_BGN_40M_2SS RTW_RATEID_ARFR5_N_3SS RTW_RATEID_ARFR7_N_4SS
        else by_streams tx_num RTW_RATEID_BGN_20M_1SS RTW_RATEID_BGN_20M_2SS RTW_RATEID_ARFR5_N_3SS RTW_RATEID_ARFR7_N_4SS
      else if wireless_set = WIRELESS_OFDM OR WIRELESS_VHT then
        by_streams tx_num RTW_RATEID_ARFR1_AC_1SS RTW_RATEID_ARFR0_AC_2SS RTW_RATEID_ARFR4_AC_3SS RTW_RATEID_ARFR6_AC_4SS
      else if wireless_set = WIRELESS_CCK OR WIRELESS_OFDM OR WIRELESS_VHT then
        if bw_mode \<ge> Hal.RTW_CHANNEL_WIDTH_80
        then by_streams tx_num RTW_RATEID_ARFR1_AC_1SS RTW_RATEID_ARFR0_AC_2SS RTW_RATEID_ARFR4_AC_3SS RTW_RATEID_ARFR6_AC_4SS
        else by_streams tx_num RTW_RATEID_ARFR2_AC_2G_1SS RTW_RATEID_ARFR3_AC_2G_2SS RTW_RATEID_ARFR4_AC_3SS RTW_RATEID_ARFR6_AC_4SS
      else 0)"

section \<open>Cutting the mask down\<close>

definition RA_MASK_CCK_RATES :: "64 word" where "RA_MASK_CCK_RATES = 0xf"
definition RA_MASK_OFDM_RATES :: "64 word" where "RA_MASK_OFDM_RATES = 0xff0"
definition RA_MASK_HT_RATES_1SS :: "64 word" where "RA_MASK_HT_RATES_1SS = 0xff000"
definition RA_MASK_HT_RATES_2SS :: "64 word" where "RA_MASK_HT_RATES_2SS = push_bit 8 0xff000"
definition RA_MASK_HT_RATES_3SS :: "64 word" where "RA_MASK_HT_RATES_3SS = push_bit 16 0xff000"
definition RA_MASK_HT_RATES :: "64 word" where
  "RA_MASK_HT_RATES = RA_MASK_HT_RATES_1SS OR RA_MASK_HT_RATES_2SS OR RA_MASK_HT_RATES_3SS"
definition RA_MASK_VHT_RATES_1SS :: "64 word" where "RA_MASK_VHT_RATES_1SS = 0x3ff000"
definition RA_MASK_VHT_RATES_2SS :: "64 word" where "RA_MASK_VHT_RATES_2SS = push_bit 10 0x3ff000"
definition RA_MASK_VHT_RATES_3SS :: "64 word" where "RA_MASK_VHT_RATES_3SS = push_bit 20 0x3ff000"
definition RA_MASK_VHT_RATES :: "64 word" where
  "RA_MASK_VHT_RATES = RA_MASK_VHT_RATES_1SS OR RA_MASK_VHT_RATES_2SS OR RA_MASK_VHT_RATES_3SS"
definition RA_MASK_CCK_IN_BG :: "64 word" where "RA_MASK_CCK_IN_BG = 5"
definition RA_MASK_CCK_IN_HT :: "64 word" where "RA_MASK_CCK_IN_HT = 5"
definition RA_MASK_CCK_IN_VHT :: "64 word" where "RA_MASK_CCK_IN_VHT = 5"
definition RA_MASK_OFDM_IN_VHT :: "64 word" where "RA_MASK_OFDM_IN_VHT = 0x10"
definition RA_MASK_OFDM_IN_HT_2G :: "64 word" where "RA_MASK_OFDM_IN_HT_2G = 0x10"
definition RA_MASK_OFDM_IN_HT_5G :: "64 word" where "RA_MASK_OFDM_IN_HT_5G = 0x30"

definition rtw_rate_mask_rssi :: "u8 \<Rightarrow> u8 \<Rightarrow> 64 word" where
  "rtw_rate_mask_rssi rssi_level wireless_set =
     (if wireless_set = WIRELESS_CCK then 0xffffffffffffffff
      else if rssi_level = 0 then 0xffffffffffffffff
      else if rssi_level = 1 then 0xfffffffffffffff0
      else if rssi_level = 2 then 0xffffffffffffefe0
      else if rssi_level = 3 then 0xffffffffffffcfc0
      else if rssi_level = 4 then 0xffffffffffff8f80
      else 0xffffffffffff0f00)"

definition rtw_rate_mask_recover :: "64 word \<Rightarrow> 64 word \<Rightarrow> 64 word" where
  "rtw_rate_mask_recover ra_mask0 ra_mask_bak =
     (let legacy = RA_MASK_CCK_RATES OR RA_MASK_OFDM_RATES;
          ra_mask = (if ra_mask0 AND NOT legacy = 0 then ra_mask0 OR (ra_mask_bak AND NOT legacy) else ra_mask0)
      in if ra_mask = 0 then ra_mask OR (ra_mask_bak AND legacy) else ra_mask)"

definition cfg_mask_of :: "cfg80211_bitrate_mask \<Rightarrow> u8 \<Rightarrow> 64 word \<Rightarrow> bool \<Rightarrow> 64 word" where
  "cfg_mask_of mask' band_type ra_mask is_vht_enable =
     (let band = (if band_type = RTW_BAND_2G then 0 else if band_type = RTW_BAND_5G then 1 else unat band_type);
          base = (if band_type = RTW_BAND_2G then ucast (brm_legacy mask' band)
                  else if band_type = RTW_BAND_5G then encode_bits (ucast (brm_legacy mask' band)) RA_MASK_OFDM_RATES
                  else - 1);
          part = (\<lambda>field v. if ra_mask AND field \<noteq> 0 then encode_bits v field else 0)
      in base OR
         (if \<not> is_vht_enable
          then part RA_MASK_HT_RATES_1SS (ucast (brm_ht_mcs mask' band 0)) OR
               part RA_MASK_HT_RATES_2SS (ucast (brm_ht_mcs mask' band 1))
          else part RA_MASK_VHT_RATES_1SS (ucast (brm_vht_mcs mask' band 0)) OR
               part RA_MASK_VHT_RATES_2SS (ucast (brm_vht_mcs mask' band 1))))"

text \<open>Reading the configured mask through the station's pointer.\<close>

definition rtw_rate_mask_cfg :: "rtw_sta_info \<Rightarrow> 64 word \<Rightarrow> bool \<Rightarrow> ('e, 'x, 64 word) drv" where
  "rtw_rate_mask_cfg si ra_mask is_vht_enable =
     (if \<not> si_use_cfg_mask si then State_Monad.return ra_mask
      else do { band \<leftarrow> dev_get (\<lambda>s. hal_current_band_type (hal s));
                heap \<leftarrow> dev_get mask_heap;
                case Option.bind (si_mask si) heap of
                  None \<Rightarrow> do { set_fault; State_Monad.return ra_mask }
                | Some mask' \<Rightarrow> State_Monad.return (ra_mask AND cfg_mask_of mask' band ra_mask is_vht_enable) })"

section \<open>Updating a station\<close>

abbreviation (input) IEEE80211_VHT_CAP_RXSTBC_MASK :: u32 where "IEEE80211_VHT_CAP_RXSTBC_MASK \<equiv> 0x700"
abbreviation (input) IEEE80211_VHT_CAP_RXLDPC :: u32 where "IEEE80211_VHT_CAP_RXLDPC \<equiv> 0x10"
abbreviation (input) IEEE80211_VHT_CAP_SHORT_GI_80 :: u32 where "IEEE80211_VHT_CAP_SHORT_GI_80 \<equiv> 0x20"
abbreviation (input) IEEE80211_HT_CAP_RX_STBC :: u16 where "IEEE80211_HT_CAP_RX_STBC \<equiv> 0x300"
abbreviation (input) IEEE80211_HT_CAP_LDPC_CODING :: u16 where "IEEE80211_HT_CAP_LDPC_CODING \<equiv> 1"
abbreviation (input) IEEE80211_HT_CAP_SGI_20 :: u16 where "IEEE80211_HT_CAP_SGI_20 \<equiv> 0x20"
abbreviation (input) IEEE80211_HT_CAP_SGI_40 :: u16 where "IEEE80211_HT_CAP_SGI_40 \<equiv> 0x40"

text \<open>The rates of the peer's VHT or HT capability, and its STBC, LDPC and VHT flags.\<close>

definition sta_capability :: "ieee80211_sta \<Rightarrow> 64 word \<times> u8 \<times> u8 \<times> bool" where
  "sta_capability sta =
     (if sta_vht_supported sta then
        (get_vht_ra_mask sta,
         if sta_vht_cap sta AND IEEE80211_VHT_CAP_RXSTBC_MASK \<noteq> 0 then BIT 1 else 0,
         if sta_vht_cap sta AND IEEE80211_VHT_CAP_RXLDPC \<noteq> 0 then BIT 1 else 0, True)
      else if sta_ht_supported sta then
        (ht_ra_mask sta,
         if sta_ht_cap sta AND IEEE80211_HT_CAP_RX_STBC \<noteq> 0 then BIT 0 else 0,
         if sta_ht_cap sta AND IEEE80211_HT_CAP_LDPC_CODING \<noteq> 0 then BIT 0 else 0, False)
      else (0, 0, 0, False))"

definition limit_streams :: "u8 \<Rightarrow> bool \<Rightarrow> 64 word \<Rightarrow> 64 word" where
  "limit_streams nss txrx_1ss ra_mask =
     (if nss = 1 \<or> txrx_1ss then ra_mask AND (RA_MASK_VHT_RATES_1SS OR RA_MASK_HT_RATES_1SS)
      else if nss = 2 then ra_mask AND (RA_MASK_VHT_RATES_2SS OR RA_MASK_HT_RATES_2SS OR
        RA_MASK_VHT_RATES_1SS OR RA_MASK_HT_RATES_1SS)
      else ra_mask)"

text \<open>The rates of the band added: the mask, the backup of all rates, and the wireless set.\<close>

definition band_rates :: "u8 \<Rightarrow> ieee80211_sta \<Rightarrow> 64 word \<Rightarrow> 64 word \<times> 64 word \<times> u8" where
  "band_rates band_type sta ra_mask =
     (if band_type = RTW_BAND_5G then
        let ra_mask_bak = ra_mask OR push_bit 4 (ucast (sta_supp_rates_5g sta))
        in if sta_vht_supported sta then
             (ra_mask_bak AND (RA_MASK_VHT_RATES OR RA_MASK_OFDM_IN_VHT), ra_mask_bak, WIRELESS_OFDM OR WIRELESS_VHT)
           else if sta_ht_supported sta then
             (ra_mask_bak AND (RA_MASK_HT_RATES OR RA_MASK_OFDM_IN_HT_5G), ra_mask_bak, WIRELESS_OFDM OR WIRELESS_HT)
           else (ra_mask_bak, ra_mask_bak, WIRELESS_OFDM)
      else if band_type = RTW_BAND_2G then
        let ra_mask_bak = ra_mask OR ucast (sta_supp_rates_2g sta)
        in if sta_vht_supported sta then
             (ra_mask_bak AND (RA_MASK_VHT_RATES OR RA_MASK_CCK_IN_VHT OR RA_MASK_OFDM_IN_VHT), ra_mask_bak,
              WIRELESS_CCK OR WIRELESS_OFDM OR WIRELESS_HT OR WIRELESS_VHT)
           else if sta_ht_supported sta then
             (ra_mask_bak AND (RA_MASK_HT_RATES OR RA_MASK_CCK_IN_HT OR RA_MASK_OFDM_IN_HT_2G), ra_mask_bak,
              WIRELESS_CCK OR WIRELESS_OFDM OR WIRELESS_HT)
           else if sta_supp_rates_2g sta \<le> 0xf then (ra_mask_bak, ra_mask_bak, WIRELESS_CCK)
           else (ra_mask_bak AND (RA_MASK_OFDM_RATES OR RA_MASK_CCK_IN_BG), ra_mask_bak, WIRELESS_CCK OR WIRELESS_OFDM)
      else (ra_mask, ra_mask, 0))"

definition sta_bandwidth_sgi :: "ieee80211_sta \<Rightarrow> u8 \<times> bool" where
  "sta_bandwidth_sgi sta = (case sta_bandwidth sta of
       IEEE80211_STA_RX_BW_80 \<Rightarrow> (Hal.RTW_CHANNEL_WIDTH_80,
         sta_vht_supported sta \<and> sta_vht_cap sta AND IEEE80211_VHT_CAP_SHORT_GI_80 \<noteq> 0)
     | IEEE80211_STA_RX_BW_40 \<Rightarrow> (Hal.RTW_CHANNEL_WIDTH_40,
         sta_ht_supported sta \<and> sta_ht_cap sta AND IEEE80211_HT_CAP_SGI_40 \<noteq> 0)
     | _ \<Rightarrow> (Hal.RTW_CHANNEL_WIDTH_20, sta_ht_supported sta \<and> sta_ht_cap sta AND IEEE80211_HT_CAP_SGI_20 \<noteq> 0))"

definition rrsr_of_band :: "u8 \<Rightarrow> u32 \<Rightarrow> u32" where
  "rrsr_of_band band_type old =
     (if band_type = RTW_BAND_5G then 0x150 else if band_type = RTW_BAND_2G then 0x15f else old)"

definition rtw_update_sta_info :: "nat \<Rightarrow> bool \<Rightarrow> ('e, 'x, unit) drv" where
  "rtw_update_sta_info i reset_ra_mask =
     do { si \<leftarrow> dev_get (\<lambda>s. stas s ! i);
          nss \<leftarrow> dev_get (\<lambda>s. ef_hw_cap_nss (efuse s));
          one \<leftarrow> dev_get hal_txrx_1ss;
          band_type \<leftarrow> dev_get (\<lambda>s. hal_current_band_type (hal s));
          let sta = si_sta si;
              (ra_mask1, stbc_en, ldpc_en, is_vht_enable) = sta_capability sta;
              (ra_mask2, ra_mask_bak, wireless_set) = band_rates band_type sta (limit_streams nss one ra_mask1);
              (bw_mode, is_support_sgi) = sta_bandwidth_sgi sta;
              tx_num = (if sta_vht_supported sta \<or> sta_ht_supported sta then nss else 1);
              rate_id = get_rate_id wireless_set bw_mode tx_num;
              ra_mask3 = rtw_rate_mask_recover (ra_mask2 AND rtw_rate_mask_rssi (si_rssi_level si) wireless_set) ra_mask_bak
          in do { dm_upd (\<lambda>d. d\<lparr>dm_rrsr_val_init := rrsr_of_band band_type (dm_rrsr_val_init d)\<rparr>);
                  ra_mask \<leftarrow> rtw_rate_mask_cfg si ra_mask3 is_vht_enable;
                  sta_upd i (\<lambda>si. si\<lparr>si_bw_mode := bw_mode, si_stbc_en := stbc_en, si_ldpc_en := ldpc_en,
                    si_sgi_enable := is_support_sgi, si_vht_enable := is_vht_enable, si_ra_mask := ra_mask,
                    si_rate_id := rate_id\<rparr>);
                  rtw_fw_send_ra_info i reset_ra_mask } }"

section \<open>The configured mask\<close>

text \<open>\<open>kfree\<close> of a mask: freeing it twice, or what is not one, is undefined; freeing NULL does nothing.\<close>

definition mask_free :: "nat option \<Rightarrow> ('e, 'x, unit) drv" where
  "mask_free p = (case p of None \<Rightarrow> skip
     | Some a \<Rightarrow> do { heap \<leftarrow> dev_get mask_heap;
                      if heap a = None then set_fault
                      else dev_upd (\<lambda>s. s\<lparr>mask_heap := (mask_heap s)(a := None)\<rparr>) })"

definition mask_dup :: "cfg80211_bitrate_mask \<Rightarrow> ('e, 'x, nat option) drv" where
  "mask_dup m =
     do { ok \<leftarrow> try_alloc;
          if \<not> ok then State_Monad.return None
          else do { a \<leftarrow> dev_get mask_next;
                    dev_upd (\<lambda>s. s\<lparr>mask_heap := (mask_heap s)(a \<mapsto> m), mask_next := Suc a\<rparr>);
                    State_Monad.return (Some a) } }"

definition rtw_ra_mask_info_update_iter :: "nat \<Rightarrow> cfg80211_bitrate_mask \<Rightarrow> nat \<Rightarrow> ('e, 'x, unit) drv" where
  "rtw_ra_mask_info_update_iter vif mask' i =
     do { si \<leftarrow> dev_get (\<lambda>s. stas s ! i);
          if si_vif si \<noteq> vif then skip
          else do { mask_free (si_mask si);
                    p \<leftarrow> mask_dup mask';
                    sta_upd i (\<lambda>si. si\<lparr>si_mask := p\<rparr>);
                    if p = None then sta_upd i (\<lambda>si. si\<lparr>si_use_cfg_mask := False\<rparr>)
                    else do { sta_upd i (\<lambda>si. si\<lparr>si_use_cfg_mask := True\<rparr>);
                              rtw_update_sta_info i True } } }"

definition rtw_ra_mask_info_update :: "nat \<Rightarrow> cfg80211_bitrate_mask \<Rightarrow> ('e, 'x, unit) drv" where
  "rtw_ra_mask_info_update vif mask' =
     do { n \<leftarrow> dev_get (\<lambda>s. length (stas s));
          for_each [0..<n] (rtw_ra_mask_info_update_iter vif mask') }"

definition rtw_ops_set_bitrate_mask :: "nat \<Rightarrow> cfg80211_bitrate_mask \<Rightarrow> ('e, 'x, int) drv" where
  "rtw_ops_set_bitrate_mask vif mask' = do { rtw_ra_mask_info_update vif mask'; State_Monad.return 0 }"

section \<open>The rates that remain\<close>

text \<open>Bit \<open>k\<close> of the mask of a VHT peer: the rates of stream \<open>i\<close> are at \<open>12 + 10 i\<close>.\<close>

definition vht_rates_of :: "u16 \<Rightarrow> nat" where
  "vht_rates_of c = (if c = 2 then 10 else if c = 1 then 9 else if c = 0 then 8 else 0)"

lemma bit_push_mask: "bit (push_bit n (mask m) :: 'a::len word) k \<longleftrightarrow> n \<le> k \<and> k < n + m \<and> k < LENGTH('a)"
  by (auto simp: bit_simps)

lemma vht_ra_mask_loop_bits:
  "k < 64 \<Longrightarrow> bit (vht_ra_mask_loop i m nss) k \<longleftrightarrow>
     (\<exists>j < i. nss + 10 * j \<le> k \<and> k < nss + 10 * j + vht_rates_of (drop_bit (2 * j) m AND 3))"
proof (induction i m nss rule: vht_ra_mask_loop.induct)
  case (2 i m nss)
  have masks: "(0x3ff :: 64 word) = mask 10" "(0x1ff :: 64 word) = mask 9" "(0xff :: 64 word) = mask 8"
    by (simp_all add: mask_eq_exp_minus_1)
  have "bit (vht_ra_mask_loop (Suc i) m nss) k \<longleftrightarrow>
      (nss \<le> k \<and> k < nss + vht_rates_of (m AND 3)) \<or> bit (vht_ra_mask_loop i (drop_bit 2 m) (nss + 10)) k"
    using 2(2) by (auto simp: Let_def bit_or_iff bit_push_mask vht_rates_of_def masks simp del: push_bit_of_1)
  also have "\<dots> \<longleftrightarrow> (\<exists>j < Suc i. nss + 10 * j \<le> k \<and> k < nss + 10 * j + vht_rates_of (drop_bit (2 * j) m AND 3))"
    using 2 by (simp add: Ex_less_Suc2 drop_bit_drop_bit algebra_simps)
  finally show ?case .
qed simp

text \<open>What is announced: the capability and the rates of the band.\<close>

definition announced :: "u8 \<Rightarrow> ieee80211_sta \<Rightarrow> 64 word \<Rightarrow> 64 word" where
  "announced band_type sta high =
     (if band_type = RTW_BAND_5G then high OR push_bit 4 (ucast (sta_supp_rates_5g sta))
      else if band_type = RTW_BAND_2G then high OR ucast (sta_supp_rates_2g sta) else high)"

definition legacy_rates :: "64 word" where "legacy_rates = RA_MASK_CCK_RATES OR RA_MASK_OFDM_RATES"

lemma band_rates_bak: "band_rates b sta high = (m, bak, w) \<Longrightarrow> bak = announced b sta high \<and> m AND NOT bak = 0"
  unfolding band_rates_def announced_def
  by (auto simp: Let_def split: if_splits) (auto intro!: bit_word_eqI simp: bit_simps)

lemma and_not_mono: "(m :: 'a::len word) AND NOT b = 0 \<Longrightarrow> (m AND x) AND NOT b = 0"
  by (metis and.assoc and.commute bit.conj_zero_left)

lemma recover_subset:
  assumes "m AND NOT bak = 0"
  shows "rtw_rate_mask_recover m bak AND NOT bak = 0"
proof -
  have "m AND bak = m"
    using assms by (auto intro!: bit_word_eqI simp: bit_eq_iff bit_simps)
  then show ?thesis
    by (auto simp: rtw_rate_mask_recover_def Let_def bit_eq_iff bit_simps assms)
qed

lemma recover_high:
  assumes "bak AND NOT legacy_rates \<noteq> 0"
  shows "rtw_rate_mask_recover m bak AND NOT legacy_rates \<noteq> 0"
  using assms unfolding rtw_rate_mask_recover_def Let_def legacy_rates_def [symmetric]
  by (auto simp: bit_eq_iff bit_simps)

lemma recover_nonzero:
  assumes "bak \<noteq> 0"
  shows "rtw_rate_mask_recover m bak \<noteq> 0"
  using assms unfolding rtw_rate_mask_recover_def Let_def
  by (auto simp: bit_eq_iff bit_simps)

lemma limit_streams_bits:
  assumes "nss = 1 \<or> nss = 2" and "k < 64"
  shows "bit (limit_streams nss False m) k \<longleftrightarrow> bit m k \<and> 12 \<le> k \<and> k < 12 + 10 * unat nss"
proof -
  have m1: "(0x3ff000 :: 64 word) = push_bit 12 (mask 10)" and m2: "(0xff000 :: 64 word) = push_bit 12 (mask 8)"
    by (simp_all add: mask_eq_exp_minus_1 push_bit_eq_mult)
  show ?thesis
    using assms by (auto simp: limit_streams_def RA_MASK_VHT_RATES_1SS_def RA_MASK_HT_RATES_1SS_def
      RA_MASK_VHT_RATES_2SS_def RA_MASK_HT_RATES_2SS_def m1 m2 bit_and_iff bit_or_iff bit_push_bit_iff bit_mask_iff)
qed

text \<open>How many streams the rate of a bit has: ten rates per VHT stream, eight per HT stream.\<close>

definition rate_streams :: "bool \<Rightarrow> nat \<Rightarrow> nat" where
  "rate_streams vht k = (k - 12) div (if vht then 10 else 8) + 1"

lemma two_streams_bits:
  assumes "12 \<le> k"
  shows "k < 32 \<longleftrightarrow> rate_streams vht k \<le> 2 \<or> \<not> vht \<and> 28 \<le> k \<and> k < 32"
  using assms by (auto simp: rate_streams_def)

lemma limit_streams_subset: "limit_streams nss one m AND NOT m = 0"
  by (auto simp: limit_streams_def bit_eq_iff bit_simps)

section \<open>What an update leaves in the station\<close>

lemma run_send_ra_info:
  obtains l b where "run_state (rtw_fw_send_ra_info i r) s = ((), s\<lparr>io_log := io_log s @ l, h2c_last_box_num := b,
     stas := (stas s)[i := (stas s ! i)\<lparr>si_init_ra_lv := 0\<rparr>]\<rparr>)"
proof -
  let ?m = "do { rtw_fw_send_h2c_command (ra_info_pkt (stas s ! i) r);
                 chip_id \<leftarrow> dev_get (\<lambda>s. ci_id (chip s));
                 if chip_id \<noteq> RTW_CHIP_TYPE_8814A then skip
                 else rtw_fw_send_h2c_command (ra_info_hi_pkt (stas s ! i) r) }"
  have "mailbox ?m"
    by (intro mailbox_rules)
  from mailbox_run [OF this, of "s\<lparr>stas := (stas s)[i := (stas s ! i)\<lparr>si_init_ra_lv := 0\<rparr>]\<rparr>"]
  obtain u l b where "run_state ?m (s\<lparr>stas := (stas s)[i := (stas s ! i)\<lparr>si_init_ra_lv := 0\<rparr>]\<rparr>) =
      (u, (s\<lparr>stas := (stas s)[i := (stas s ! i)\<lparr>si_init_ra_lv := 0\<rparr>]\<rparr>)\<lparr>io_log := io_log (s\<lparr>stas := (stas s)[i := (stas s ! i)\<lparr>si_init_ra_lv := 0\<rparr>]\<rparr>) @ l, h2c_last_box_num := b\<rparr>)"
    by blast
  then have "run_state (rtw_fw_send_ra_info i r) s =
      (u, (s\<lparr>stas := (stas s)[i := (stas s ! i)\<lparr>si_init_ra_lv := 0\<rparr>]\<rparr>)\<lparr>io_log := io_log s @ l, h2c_last_box_num := b\<rparr>)"
    by (simp add: rtw_fw_send_ra_info_def)
  then show thesis
    by (intro that [of b l]) simp
qed

text \<open>The mask before the configured one is applied.\<close>

definition ra_mask_of :: "u8 \<Rightarrow> bool \<Rightarrow> u8 \<Rightarrow> rtw_sta_info \<Rightarrow> 64 word" where
  "ra_mask_of nss one band_type si =
     (case band_rates band_type (si_sta si) (limit_streams nss one (fst (sta_capability (si_sta si)))) of
        (m, bak, w) \<Rightarrow> rtw_rate_mask_recover (m AND rtw_rate_mask_rssi (si_rssi_level si) w) bak)"

lemma run_rate_mask_cfg:
  "run_state (rtw_rate_mask_cfg si m v) s =
     (if \<not> si_use_cfg_mask si then (m, s)
      else case Option.bind (si_mask si) (mask_heap s) of None \<Rightarrow> (m, s\<lparr>fault := True\<rparr>)
           | Some k \<Rightarrow> (m AND cfg_mask_of k (hal_current_band_type (hal s)) m v, s))"
  by (simp add: rtw_rate_mask_cfg_def split: option.split)

lemma run_update_sta_info:
  fixes s :: "('e, 'x) rtw_drv_scheme" and r :: bool
  assumes "i < length (stas s)"
  defines "si \<equiv> stas s ! i" and "s' \<equiv> snd (run_state (rtw_update_sta_info i r) s)"
  defines "m \<equiv> ra_mask_of (ef_hw_cap_nss (efuse s)) (hal_txrx_1ss s) (hal_current_band_type (hal s)) si"
  shows "si_ra_mask (stas s' ! i) =
       fst (run_state (rtw_rate_mask_cfg si m (snd (snd (snd (sta_capability (si_sta si)))))) s) \<and>
     (fault s' \<longleftrightarrow> fault s \<or> si_use_cfg_mask si \<and> Option.bind (si_mask si) (mask_heap s) = None)"
proof -
  obtain m1 stbc ldpc vht where c: "sta_capability (si_sta si) = (m1, stbc, ldpc, vht)"
    by (metis surj_pair)
  obtain m2 bak w where b: "band_rates (hal_current_band_type (hal s)) (si_sta si)
      (limit_streams (ef_hw_cap_nss (efuse s)) (hal_txrx_1ss s) m1) = (m2, bak, w)"
    by (metis surj_pair)
  obtain bwm sgi where g: "sta_bandwidth_sgi (si_sta si) = (bwm, sgi)"
    by fastforce
  have m: "m = rtw_rate_mask_recover (m2 AND rtw_rate_mask_rssi (si_rssi_level si) w) bak"
    by (simp add: m_def ra_mask_of_def c b)
  define s0 where "s0 = s\<lparr>dm_info := (dm_info s)\<lparr>dm_rrsr_val_init :=
    rrsr_of_band (hal_current_band_type (hal s)) (dm_rrsr_val_init (dm_info s))\<rparr>\<rparr>"
  define f where "f = (\<lambda>mm si :: rtw_sta_info. si\<lparr>si_bw_mode := bwm, si_stbc_en := stbc, si_ldpc_en := ldpc,
    si_sgi_enable := sgi, si_vht_enable := vht, si_ra_mask := mm,
    si_rate_id := get_rate_id w bwm (if sta_vht_supported (si_sta si) \<or> sta_ht_supported (si_sta si) then ef_hw_cap_nss (efuse s) else 1)\<rparr>)"
  obtain mm s1 where cfg: "run_state (rtw_rate_mask_cfg si m vht) s0 = (mm, s1)" by fastforce
  have s1: "mm = fst (run_state (rtw_rate_mask_cfg si m vht) s)" "stas s1 = stas s"
    "fault s1 \<longleftrightarrow> fault s \<or> si_use_cfg_mask si \<and> Option.bind (si_mask si) (mask_heap s) = None"
    using cfg by (auto simp: run_rate_mask_cfg s0_def split: if_splits option.splits)
  have "s' = snd (run_state (rtw_fw_send_ra_info i r) (s1\<lparr>stas := (stas s1)[i := f mm (stas s1 ! i)]\<rparr>))"
    using cfg unfolding s'_def rtw_update_sta_info_def
    by (simp add: c b g m f_def s0_def Let_def si_def [symmetric] s1(2))
  moreover obtain l b where "run_state (rtw_fw_send_ra_info i r) (s1\<lparr>stas := (stas s1)[i := f mm (stas s1 ! i)]\<rparr>) =
      ((), s1\<lparr>io_log := io_log s1 @ l, h2c_last_box_num := b,
        stas := (stas s1)[i := (f mm (stas s1 ! i))\<lparr>si_init_ra_lv := 0\<rparr>]\<rparr>)"
    by (rule run_send_ra_info [of i r "s1\<lparr>stas := (stas s1)[i := f mm (stas s1 ! i)]\<rparr>"])
      (use assms(1) in \<open>simp add: s1(2)\<close>)
  ultimately show ?thesis
    using assms(1) by (simp add: s1 c f_def)
qed

lemma ra_mask_facts:
  assumes "ra_mask_of nss one b si = m"
  defines "high \<equiv> fst (sta_capability (si_sta si))"
  shows "m AND NOT (announced b (si_sta si) (limit_streams nss one high)) = 0"
    and "announced b (si_sta si) (limit_streams nss one high) \<noteq> 0 \<Longrightarrow> m \<noteq> 0"
    and "limit_streams nss one high AND NOT legacy_rates \<noteq> 0 \<Longrightarrow> m AND NOT legacy_rates \<noteq> 0"
proof -
  obtain m2 bak w where r: "band_rates b (si_sta si) (limit_streams nss one high) = (m2, bak, w)"
    by (metis surj_pair)
  then have m: "m = rtw_rate_mask_recover (m2 AND rtw_rate_mask_rssi (si_rssi_level si) w) bak"
    using assms(1) by (simp add: ra_mask_of_def high_def)
  from band_rates_bak [OF r] have bak: "bak = announced b (si_sta si) (limit_streams nss one high)" "m2 AND NOT bak = 0"
    by blast+
  show "m AND NOT (announced b (si_sta si) (limit_streams nss one high)) = 0"
    unfolding m bak(1) [symmetric] by (intro recover_subset and_not_mono bak)
  show "announced b (si_sta si) (limit_streams nss one high) \<noteq> 0 \<Longrightarrow> m \<noteq> 0"
    unfolding m bak(1) [symmetric] by (rule recover_nonzero)
  assume "limit_streams nss one high AND NOT legacy_rates \<noteq> 0"
  then have "bak AND NOT legacy_rates \<noteq> 0"
    unfolding bak(1) announced_def by (auto simp: bit_eq_iff bit_simps)
  then show "m AND NOT legacy_rates \<noteq> 0"
    unfolding m by (rule recover_high)
qed


text \<open>A peer with three HT streams: the firmware may use a rate of the third stream.\<close>

definition ht_three_streams :: ieee80211_sta where
  "ht_three_streams = \<lparr>sta_addr = [], sta_vht_supported = False, sta_vht_cap = 0, sta_vht_rx_mcs_map = 0,
     sta_vht_tx_mcs_map = 0, sta_ht_supported = True, sta_ht_cap = 0, sta_ht_rx_mask = [0xff, 0xff, 0xff, 0],
     sta_ampdu_factor = 0, sta_ampdu_density = 0, sta_supp_rates_2g = 0xfff, sta_supp_rates_5g = 0xff,
     sta_bandwidth = IEEE80211_STA_RX_BW_20, sta_tdls = False, sta_max_rc_amsdu_len = 0\<rparr>"

lemma third_stream_kept: "bit (ra_mask_of 2 False RTW_BAND_2G (si\<lparr>si_sta := ht_three_streams, si_rssi_level := 0\<rparr>)) 28"
  by (simp add: ra_mask_of_def ht_three_streams_def sta_capability_def ht_ra_mask_def limit_streams_def
      RA_MASK_VHT_RATES_1SS_def RA_MASK_HT_RATES_1SS_def RA_MASK_VHT_RATES_2SS_def RA_MASK_HT_RATES_2SS_def
      band_rates_def RA_MASK_HT_RATES_def RA_MASK_HT_RATES_3SS_def RA_MASK_CCK_IN_HT_def RA_MASK_OFDM_IN_HT_2G_def
      rtw_rate_mask_rssi_def rtw_rate_mask_recover_def RA_MASK_CCK_RATES_def RA_MASK_OFDM_RATES_def)


text \<open>
  A VHT peer on 2.4 GHz: its wireless set is no case of \<open>get_rate_id\<close>, so that the table is that of
  HT with two streams and 40 MHz, whatever the bandwidth and the antennas.
\<close>

lemma vht_2g_rate_id:
  "band_rates RTW_BAND_2G sta m = (m', bak, w) \<Longrightarrow> sta_vht_supported sta \<Longrightarrow> get_rate_id w bw_mode tx_num = RTW_RATEID_BGN_40M_2SS"
  by (auto simp: band_rates_def Let_def get_rate_id_def RTW_RATEID_BGN_40M_2SS_def)

text \<open>A VHT peer with three streams, on 5 GHz: nothing of its third stream is left, but high rates are.\<close>

definition vht_three_streams :: ieee80211_sta where
  "vht_three_streams = ht_three_streams\<lparr>sta_vht_supported := True, sta_vht_rx_mcs_map := 0xffea\<rparr>"


end
