(* ===== verification/Ps.thy ===== *)
theory Ps
  imports DrvFrame FwProps
begin

text \<open>
  Power saving (\<open>ps.c\<close>): requests to the power state machine of the chip, and entering and leaving
  the leisure power save mode (LPS) and its deep variant.
\<close>

section \<open>The request for a power mode\<close>

abbreviation (input) POWER_MODE_ACK :: u8 where "POWER_MODE_ACK \<equiv> BIT 6"
abbreviation (input) POWER_MODE_PG :: u8 where "POWER_MODE_PG \<equiv> BIT 4"
abbreviation (input) POWER_TX_WAKE :: u8 where "POWER_TX_WAKE \<equiv> BIT 1"
abbreviation (input) POWER_MODE_LCLK :: u8 where "POWER_MODE_LCLK \<equiv> BIT 0"
abbreviation (input) BIT_RPWM_TOGGLE :: u8 where "BIT_RPWM_TOGGLE \<equiv> BIT 7"

definition rpwm_request :: "u8 \<Rightarrow> bool \<Rightarrow> rtw_lps_deep_mode \<Rightarrow> bool \<Rightarrow> u8" where
  "rpwm_request request0 enter deep tx_wake =
     (request0 XOR (request0 OR BIT_RPWM_TOGGLE)) OR
     (if enter then POWER_MODE_LCLK OR (if deep = LPS_DEEP_MODE_PG then POWER_MODE_PG else 0) else 0) OR
     POWER_MODE_ACK OR (if tx_wake then POWER_TX_WAKE else 0)"

definition rtw_power_mode_change :: "bool \<Rightarrow> ('e, 'x, unit) drv" where
  "rtw_power_mode_change enter =
     do { rpwm \<leftarrow> dev_get rpwm_addr;
          cpwm \<leftarrow> dev_get cpwm_addr;
          request \<leftarrow> rtw_read8 rpwm;
          confirm \<leftarrow> rtw_read8 cpwm;
          deep \<leftarrow> dev_get rtw_get_lps_deep_mode;
          tx_wake \<leftarrow> dev_get (\<lambda>s. rtw_fw_feature_check (fw_feature s) FW_FEATURE_TX_WAKE);
          rtw_write8 rpwm (rpwm_request request enter deep tx_wake);
          n \<leftarrow> dev_get (\<lambda>s. poll_max s 15000);
          delay_us 100;
          (polling, ok) \<leftarrow> read_poll8 n 100 cpwm (\<lambda>polling. (polling XOR confirm) AND BIT_RPWM_TOGGLE \<noteq> 0);
          when_do (\<not> ok) rtw_fw_dump_dbg_info }"

section \<open>Leaving LPS\<close>

abbreviation (input) LEAVE_LPS_TRY_CNT :: nat where "LEAVE_LPS_TRY_CNT \<equiv> 5"

definition lps_deep_leave :: "('e, 'x) rtw_drv_scheme rtw_drv_ops \<Rightarrow> ('e, 'x, unit) drv" where
  "lps_deep_leave ops = do_deep_ps ops False"

fun fw_leave_lps_check_reg :: "nat \<Rightarrow> ('x hw_scheme, int) state" where
  "fw_leave_lps_check_reg 0 = State_Monad.return (- EBUSY)"
| "fw_leave_lps_check_reg (Suc i) =
     do { v \<leftarrow> rtw_read32_mask REG_TCR BIT_PWRMGT_HWDATA_EN;
          if v = 0 then State_Monad.return 0
          else do { delay_us 20000; fw_leave_lps_check_reg i } }"

definition fw_leave_lps_check_c2h :: "('e, 'x, int) drv" where
  "fw_leave_lps_check_c2h =
     do { ok \<leftarrow> wait_completion KWaitLpsLeave; State_Monad.return (if ok then 0 else - EBUSY) }"

definition current_fw_feature :: "('e, 'x) rtw_drv_scheme \<Rightarrow> u32" where
  "current_fw_feature s = (if flag_wowlan s then wow_fw_feature s else fw_feature s)"

definition rtw_fw_leave_lps_check :: "('e, 'x, unit) drv" where
  "rtw_fw_leave_lps_check =
     do { feature \<leftarrow> dev_get current_fw_feature;
          ret \<leftarrow> (if rtw_fw_feature_check feature FW_FEATURE_LPS_C2H then fw_leave_lps_check_c2h
                 else fw_leave_lps_check_reg LEAVE_LPS_TRY_CNT);
          if ret = 0 then skip
          else do { rtw_write32_clr REG_TCR BIT_PWRMGT_HWDATA_EN; rtw_fw_dump_dbg_info } }"

definition rtw_fw_leave_lps_check_prepare :: "('e, 'x, unit) drv" where
  "rtw_fw_leave_lps_check_prepare =
     do { feature \<leftarrow> dev_get current_fw_feature;
          when_do (rtw_fw_feature_check feature FW_FEATURE_LPS_C2H) (kcall KReinitLpsLeave) }"

definition rtw_leave_lps_core :: "('e, 'x) rtw_drv_scheme rtw_drv_ops \<Rightarrow> ('e, 'x, unit) drv" where
  "rtw_leave_lps_core ops =
     do { lps_upd (\<lambda>c. c\<lparr>lps_state := RTW_ALL_ON, lps_awake_interval := 1, lps_rlbm := 0, lps_smart_ps := 0\<rparr>);
          do_link_ps ops False;
          rtw_fw_leave_lps_check_prepare;
          rtw_fw_set_pwr_mode;
          rtw_fw_leave_lps_check;
          dev_upd (\<lambda>s. s\<lparr>flag_leisure_ps := False\<rparr>);
          do_coex ops (CoexLps False) }"

section \<open>Entering LPS\<close>

definition lps_deep_enter :: "('e, 'x) rtw_drv_scheme rtw_drv_ops \<Rightarrow> ('e, 'x, unit) drv" where
  "lps_deep_enter ops =
     do { deep \<leftarrow> dev_get rtw_get_lps_deep_mode;
          lps \<leftarrow> dev_get flag_leisure_ps;
          if deep = LPS_DEEP_MODE_NONE \<or> \<not> lps then skip
          else do { when_do (deep = LPS_DEEP_MODE_PG) rtw_fw_set_pg_info;
                    do_deep_ps ops True } }"

definition rtw_enter_lps_core :: "('e, 'x) rtw_drv_scheme rtw_drv_ops \<Rightarrow> ('e, 'x, unit) drv" where
  "rtw_enter_lps_core ops =
     do { lps_upd (\<lambda>c. c\<lparr>lps_state := RTW_RF_OFF, lps_awake_interval := 1, lps_rlbm := 1, lps_smart_ps := 2\<rparr>);
          do_coex ops (CoexLps True);
          rtw_fw_set_pwr_mode;
          do_link_ps ops True;
          dev_upd (\<lambda>s. s\<lparr>flag_leisure_ps := True\<rparr>) }"

definition lps_enter :: "('e, 'x) rtw_drv_scheme rtw_drv_ops \<Rightarrow> u8 \<Rightarrow> ('e, 'x, unit) drv" where
  "lps_enter ops port_id =
     do { lps \<leftarrow> dev_get flag_leisure_ps;
          if lps then skip
          else do { lps_upd (\<lambda>c. c\<lparr>lps_mode := RTW_MODE_LPS, lps_port_id := port_id\<rparr>);
                    rtw_enter_lps_core ops } }"

definition lps_leave :: "('e, 'x) rtw_drv_scheme rtw_drv_ops \<Rightarrow> ('e, 'x, unit) drv" where
  "lps_leave ops =
     do { deep \<leftarrow> dev_get flag_leisure_ps_deep;
          when_do deep (do { dev_upd (\<lambda>s. s\<lparr>flag_leisure_ps_deep := False\<rparr>); lps_deep_leave ops });
          lps \<leftarrow> dev_get flag_leisure_ps;
          if \<not> lps then skip
          else do { lps_upd (\<lambda>c. c\<lparr>lps_mode := RTW_MODE_ACTIVE\<rparr>);
                    rtw_leave_lps_core ops } }"

definition rtw_enter_lps :: "('e, 'x) rtw_drv_scheme rtw_drv_ops \<Rightarrow> u8 \<Rightarrow> ('e, 'x, unit) drv" where
  "rtw_enter_lps ops port_id =
     do { force \<leftarrow> dev_get wl_force_lps_ctrl;
          if force then skip
          else do { lps_enter ops port_id; lps_deep_enter ops } }"

definition rtw_leave_lps :: "('e, 'x) rtw_drv_scheme rtw_drv_ops \<Rightarrow> ('e, 'x, unit) drv" where
  "rtw_leave_lps ops = do { lps_deep_leave ops; lps_leave ops }"

definition rtw_leave_lps_deep :: "('e, 'x) rtw_drv_scheme rtw_drv_ops \<Rightarrow> ('e, 'x, unit) drv" where
  "rtw_leave_lps_deep ops = lps_deep_leave ops"

section \<open>Which interface decides\<close>

text \<open>The number of interfaces, or \<open>- 1\<close> once one is no station; the last station seen.\<close>

fun recalc_lps_iter :: "rtw_vif list \<Rightarrow> int \<Rightarrow> rtw_vif option \<Rightarrow> int \<times> rtw_vif option" where
  "recalc_lps_iter [] cnt found = (cnt, found)"
| "recalc_lps_iter (vif # vifs) cnt found =
     (if cnt < 0 then recalc_lps_iter vifs cnt found
      else if rv_type vif \<noteq> NL80211_IFTYPE_STATION then recalc_lps_iter vifs (- 1) found
      else recalc_lps_iter vifs (cnt + 1) (Some vif))"

definition rtw_recalc_lps :: "('e, 'x) rtw_drv_scheme rtw_drv_ops \<Rightarrow> nat option \<Rightarrow> ('e, 'x, unit) drv" where
  "rtw_recalc_lps ops new_vif =
     do { vifs \<leftarrow> dev_get (\<lambda>s. map (vif_tbl s) ((case new_vif of None \<Rightarrow> [] | Some v \<Rightarrow> [v]) @ active_vifs s));
          let (cnt, found) = recalc_lps_iter vifs 0 None
          in if cnt = 1 \<and> (case found of None \<Rightarrow> False | Some v \<Rightarrow> rv_ps v)
             then dev_upd (\<lambda>s. s\<lparr>ps_enabled := True\<rparr>)
             else do { dev_upd (\<lambda>s. s\<lparr>ps_enabled := False\<rparr>); rtw_leave_lps ops } }"

lemma recalc_lps_iter_neg: "c < 0 \<Longrightarrow> recalc_lps_iter vifs c f = (c, f)"
  by (induction vifs) simp_all

lemma recalc_lps_iter_eq:
  "0 \<le> c \<Longrightarrow> fst (recalc_lps_iter vifs c f) =
     (if list_all (\<lambda>v. rv_type v = NL80211_IFTYPE_STATION) vifs then c + int (length vifs) else - 1)"
  by (induction vifs arbitrary: c f) (auto simp: recalc_lps_iter_neg)

section \<open>What the firmware is told\<close>

text \<open>
  \<open>told l ms\<close>: from the accesses \<open>l\<close> the firmware takes exactly the messages \<open>ms\<close>, whatever it has
  seen before. The power mode it works in is that of the last power mode command.
\<close>

definition told :: "io list \<Rightarrow> (nat \<times> u8 list) list \<Rightarrow> bool" where
  "told l ms \<longleftrightarrow> (\<forall>f. hf_got (h2c_watch l f) = hf_got f @ ms)"

lemma told_Nil: "told [] []"
  by (simp add: told_def)

lemma told_append: "told l ms \<Longrightarrow> told l' ms' \<Longrightarrow> told (l @ l') (ms @ ms')"
  by (simp add: told_def)

definition is_box_write :: "io \<Rightarrow> bool" where
  "is_box_write e = (case e of Wr n a v \<Rightarrow> box_index a \<noteq> None | _ \<Rightarrow> False)"

definition is_box_status :: "io \<Rightarrow> bool" where
  "is_box_status e = (case e of Rd n a v \<Rightarrow> a = REG_HMETFR | _ \<Rightarrow> False)"

lemma told_silent: "list_all (\<lambda>e. \<not> is_box_write e) l \<Longrightarrow> told l []"
proof (induction l)
  case (Cons e l)
  then have "told [e] []"
    by (cases e) (auto simp: told_def is_box_write_def split: option.splits)
  with Cons show ?case
    using told_append [of "[e]" "[]" l "[]"] by simp
qed (simp add: told_def)

definition fw_power_mode :: "(nat \<times> u8 list) list \<Rightarrow> bool \<Rightarrow> bool" where
  "fw_power_mode ms c = fold (\<lambda>(b, m) c.
     if msg_field 0 7 0 m = H2C_CMD_SET_PWR_MODE then msg_field 0 14 8 m \<noteq> 0 else c) ms c"

lemma fw_power_mode_simps [simp]:
  "fw_power_mode [] c = c" "fw_power_mode (ms @ ms') c = fw_power_mode ms' (fw_power_mode ms c)"
  by (simp_all add: fw_power_mode_def)

section \<open>The abstract machine\<close>

text \<open>
  The driver's mode, its flag and whether LPS is ruled out, and the mode of the firmware. A routine implements an abstract step if
  it moves the driver's part along and, unless a mailbox stays busy, the firmware's as well.
\<close>

type_synonym lps_view = "u8 \<times> bool \<times> bool"

definition lps_view :: "('e, 'x) rtw_drv_scheme \<Rightarrow> lps_view" where
  "lps_view s = (lps_mode (lps_conf s), flag_leisure_ps s, wl_force_lps_ctrl s)"

definition lps_impl :: "(lps_view \<times> bool \<Rightarrow> lps_view \<times> bool) \<Rightarrow> ('e, 'x, 'a) drv \<Rightarrow> ('e, 'x) rtw_drv_scheme \<Rightarrow> bool" where
  "lps_impl A m s \<longleftrightarrow> h2c_last_box_num s < 4 \<longrightarrow>
     (\<exists>r s' l ms. run_state m s = (r, s') \<and> io_log s' = io_log s @ l \<and> h2c_last_box_num s' < 4 \<and> told l ms \<and>
        (\<forall>c. fst (A (lps_view s, c)) = lps_view s') \<and>
        (no_box_busy l \<longrightarrow> (\<forall>c. snd (A (lps_view s, c)) = fw_power_mode ms c)))"

lemma no_box_busy_append: "no_box_busy (l @ l') \<longleftrightarrow> no_box_busy l \<and> no_box_busy l'"
  by (auto simp: no_box_busy_def)

lemma lps_impl_bind:
  assumes "lps_impl A m s" and "\<And>r s'. run_state m s = (r, s') \<Longrightarrow> lps_impl B (f r) s'"
  shows "lps_impl (B \<circ> A) (State_Monad.bind m f) s"
  unfolding lps_impl_def
proof
  assume box: "h2c_last_box_num s < 4"
  with assms(1) obtain r s1 l ms where 1: "run_state m s = (r, s1)" "io_log s1 = io_log s @ l"
    "h2c_last_box_num s1 < 4" "told l ms" "\<forall>c. fst (A (lps_view s, c)) = lps_view s1"
    "no_box_busy l \<longrightarrow> (\<forall>c. snd (A (lps_view s, c)) = fw_power_mode ms c)"
    unfolding lps_impl_def by blast
  with assms(2) [OF 1(1)] obtain r' s2 l' ms' where 2: "run_state (f r) s1 = (r', s2)" "io_log s2 = io_log s1 @ l'"
    "h2c_last_box_num s2 < 4" "told l' ms'" "\<forall>c. fst (B (lps_view s1, c)) = lps_view s2"
    "no_box_busy l' \<longrightarrow> (\<forall>c. snd (B (lps_view s1, c)) = fw_power_mode ms' c)"
    unfolding lps_impl_def by blast
  have "A (lps_view s, c) = (lps_view s1, snd (A (lps_view s, c)))" for c
    using 1(5) by (metis prod.collapse)
  then have "fst ((B \<circ> A) (lps_view s, c)) = lps_view s2"
      "no_box_busy l' \<longrightarrow> snd ((B \<circ> A) (lps_view s, c)) = fw_power_mode ms' (snd (A (lps_view s, c)))" for c
    using 2(5,6) by (metis comp_apply)+
  with 1 2(1-4) told_append [OF 1(4) 2(4)] show "\<exists>r s' l ms. run_state (State_Monad.bind m f) s = (r, s') \<and> io_log s' = io_log s @ l \<and>
        h2c_last_box_num s' < 4 \<and> told l ms \<and> (\<forall>c. fst ((B \<circ> A) (lps_view s, c)) = lps_view s') \<and>
        (no_box_busy l \<longrightarrow> (\<forall>c. snd ((B \<circ> A) (lps_view s, c)) = fw_power_mode ms c))"
    by (intro exI [of _ r'] exI [of _ s2] exI [of _ "l @ l'"] exI [of _ "ms @ ms'"])
      (simp add: no_box_busy_append)
qed

lemma lps_impl_get: "lps_impl A (f (g s)) s \<Longrightarrow> lps_impl A (State_Monad.bind (dev_get g) f) s"
  by (simp add: lps_impl_def)

lemma lps_impl_upd:
  assumes "\<And>s. io_log (f s) = io_log s" "\<And>s. h2c_last_box_num (f s) = h2c_last_box_num s" "\<And>s. lps_view (f s) = F (lps_view s)"
  shows "lps_impl (\<lambda>(v, c). (F v, c)) (dev_upd f) s"
  using assms by (auto simp: lps_impl_def intro!: exI [of _ "[]"] told_Nil)

lemma lps_impl_cong:
  "(\<And>c. A (lps_view s, c) = A' (lps_view s, c)) \<Longrightarrow> lps_impl A m s = lps_impl A' m s"
  by (simp add: lps_impl_def)

lemma lps_impl_eq:
  "lps_impl A m s \<Longrightarrow> (\<And>c. A (lps_view s, c) = A' (lps_view s, c)) \<Longrightarrow> lps_impl A' m s"
  by (simp add: lps_impl_def)

lemma lps_impl_command:
  assumes "8 \<le> length p"
  shows "lps_impl (\<lambda>(v, c). (v, if msg_field 0 7 0 p = H2C_CMD_SET_PWR_MODE then msg_field 0 14 8 p \<noteq> 0 else c))
     (rtw_fw_send_h2c_command p) s"
  unfolding lps_impl_def
proof
  assume box: "h2c_last_box_num s < 4"
  have "word_at 0 (take 8 p) = word_at 0 p"
    using assms by (simp add: word_at_def min_absorb2)
  moreover from h2c_commands_watch [of s "[p]"] assms box obtain l sent where
      r: "run_state (rtw_fw_send_h2c_command p) s = ((), s\<lparr>io_log := io_log s @ l,
       h2c_last_box_num := (h2c_last_box_num s + of_nat (length sent)) mod 4\<rparr>)" "subseq sent [p]"
     "\<forall>f. \<exists>ex st. h2c_watch l f = f\<lparr>hf_ex := ex,
        hf_got := hf_got f @ round_robin (unat (h2c_last_box_num s)) (map (take 8) sent), hf_status := st\<rparr>"
     "no_box_busy l \<longrightarrow> sent = [p]"
    by auto
  moreover have "told l (round_robin (unat (h2c_last_box_num s)) (map (take 8) sent))"
    unfolding told_def
  proof
    fix f
    obtain ex st where "h2c_watch l f = f\<lparr>hf_ex := ex,
        hf_got := hf_got f @ round_robin (unat (h2c_last_box_num s)) (map (take 8) sent), hf_status := st\<rparr>"
      using r(3) by blast
    then show "hf_got (h2c_watch l f) = hf_got f @ round_robin (unat (h2c_last_box_num s)) (map (take 8) sent)"
      by simp
  qed
  moreover have "(x :: u8) mod 4 < 4" for x
    by (simp add: word_less_nat_alt unat_mod)
  ultimately show "\<exists>r s' l ms. run_state (rtw_fw_send_h2c_command p) s = (r, s') \<and> io_log s' = io_log s @ l \<and>
        h2c_last_box_num s' < 4 \<and> told l ms \<and> (\<forall>c. fst ((\<lambda>(v, c). (v, if msg_field 0 7 0 p = H2C_CMD_SET_PWR_MODE then
        msg_field 0 14 8 p \<noteq> 0 else c)) (lps_view s, c)) = lps_view s') \<and> (no_box_busy l \<longrightarrow> (\<forall>c. snd ((\<lambda>(v, c). (v,
        if msg_field 0 7 0 p = H2C_CMD_SET_PWR_MODE then msg_field 0 14 8 p \<noteq> 0 else c)) (lps_view s, c)) = fw_power_mode ms c))"
    by (intro exI [of _ "()"] exI [of _ l] exI [of _ "round_robin (unat (h2c_last_box_num s)) (map (take 8) sent)"] exI)
      (auto simp: lps_view_def fw_power_mode_def round_robin_def msg_field_def)
qed

text \<open>A routine that keeps the view and writes no mailbox.\<close>

definition lps_silent :: "('e, 'x, 'a) drv \<Rightarrow> bool" where
  "lps_silent m \<longleftrightarrow> acts (\<lambda>e. \<not> is_box_write e) m \<and> same lps_view m \<and> same h2c_last_box_num m"

lemma lps_impl_silent:
  assumes "lps_silent m"
  shows "lps_impl id m s"
  unfolding lps_impl_def
proof
  assume box: "h2c_last_box_num s < 4"
  obtain r s' where run: "run_state m s = (r, s')" by fastforce
  from assms have a: "acts (\<lambda>e. \<not> is_box_write e) m" "lps_view s' = lps_view s" "h2c_last_box_num s' = h2c_last_box_num s"
    using sameD [OF _ run] by (auto simp: lps_silent_def)
  from actsE [OF a(1) run] obtain l where l: "io_log s' = io_log s @ l" "list_all (\<lambda>e. \<not> is_box_write e) l"
    by metis
  then show "\<exists>r s' l ms. run_state m s = (r, s') \<and> io_log s' = io_log s @ l \<and> h2c_last_box_num s' < 4 \<and> told l ms \<and>
        (\<forall>c. fst (id (lps_view s, c)) = lps_view s') \<and>
        (no_box_busy l \<longrightarrow> (\<forall>c. snd (id (lps_view s, c)) = fw_power_mode ms c))"
    using run a box told_silent [OF l(2)] by (intro exI [of _ r] exI [of _ s'] exI [of _ l] exI [of _ "[]"]) simp
qed

lemma length_set_pwr_mode_pkt: "length (set_pwr_mode_pkt c) = 32"
  by (simp only: set_pwr_mode_pkt_def set_fields_def msg_eval) (simp only: le32_field_defs msg_eval)

lemma set_pwr_mode_fields:
  "msg_field 0 7 0 (set_pwr_mode_pkt c) = H2C_CMD_SET_PWR_MODE"
  "msg_field 0 14 8 (set_pwr_mode_pkt c) = take_bit 7 (ucast (lps_mode c))"
proof -
  have "word_at 0 (set_pwr_mode_pkt c) = replace_bits (replace_bits (replace_bits (replace_bits (replace_bits 0
     H2C_CMD_SET_PWR_MODE (GENMASK 7 0)) (ucast (lps_mode c)) (GENMASK 14 8)) (ucast (lps_rlbm c)) (GENMASK 19 16))
     (ucast (lps_smart_ps c)) (GENMASK 23 20)) (ucast (lps_awake_interval c)) (GENMASK 31 24)"
    by (simp only: set_pwr_mode_pkt_def set_fields_def msg_eval) (simp only: le32_field_defs msg_eval)
  then show "msg_field 0 7 0 (set_pwr_mode_pkt c) = H2C_CMD_SET_PWR_MODE"
    "msg_field 0 14 8 (set_pwr_mode_pkt c) = take_bit 7 (ucast (lps_mode c))"
    by (simp_all add: msg_field_def replace_bits_other replace_bits_same)
qed

lemma pg_info_fields: "msg_field 0 7 0 (pg_info_pkt c a b) = H2C_CMD_LPS_PG_INFO" "length (pg_info_pkt c a b) = 32"
proof -
  have "word_at 0 (pg_info_pkt c a b) = replace_bits (replace_bits (replace_bits (replace_bits (replace_bits 0
      H2C_CMD_LPS_PG_INFO (GENMASK 7 0)) (ucast a) (GENMASK 23 16)) (ucast b) (GENMASK 31 24))
      (of_bool_w (lps_sec_cam_backup c)) (BIT 8)) (of_bool_w (lps_pattern_cam_backup c)) (BIT 10)"
    by (simp only: pg_info_pkt_def set_fields_def msg_eval) (simp only: le32_field_defs msg_eval)
  then show "msg_field 0 7 0 (pg_info_pkt c a b) = H2C_CMD_LPS_PG_INFO"
    by (simp add: msg_field_def replace_bits_other replace_bits_same BIT_eq_GENMASK)
  show "length (pg_info_pkt c a b) = 32"
    by (simp only: pg_info_pkt_def set_fields_def msg_eval) (simp only: le32_field_defs msg_eval)
qed

definition a_set_mode :: "lps_view \<times> bool \<Rightarrow> lps_view \<times> bool" where
  "a_set_mode a = (case a of ((m, on, force), c) \<Rightarrow> ((m, on, force), take_bit 7 m \<noteq> 0))"

lemma lps_impl_set_pwr_mode: "lps_impl a_set_mode rtw_fw_set_pwr_mode s"
proof -
  have "take_bit 7 (ucast m :: u32) = 0 \<longleftrightarrow> take_bit 7 (m :: u8) = 0" for m
    by (auto simp: bit_eq_iff bit_simps)
  then have "lps_impl a_set_mode (rtw_fw_send_h2c_command (set_pwr_mode_pkt (lps_conf s))) s"
    using lps_impl_command [of "set_pwr_mode_pkt (lps_conf s)" s]
    by (subst lps_impl_cong) (auto simp: length_set_pwr_mode_pkt set_pwr_mode_fields lps_view_def a_set_mode_def)
  then show ?thesis
    unfolding rtw_fw_set_pwr_mode_def by (rule lps_impl_get)
qed

lemma lps_impl_pg_info: "lps_impl id rtw_fw_set_pg_info s"
proof -
  have "lps_impl id (rtw_fw_send_h2c_command (pg_info_pkt c a b)) s" for c a b
    using lps_impl_command [of "pg_info_pkt c a b" s] by (simp add: pg_info_fields id_def case_prod_unfold)
  then show ?thesis
    unfolding rtw_fw_set_pg_info_def by (intro lps_impl_get)
qed

lemma not_box_write [simp]:
  "\<not> is_box_write (Rd n a v)" "\<not> is_box_write (Delay t)"
  "is_box_write (Wr n a v) \<longleftrightarrow> box_index a \<noteq> None"
  by (simp_all add: is_box_write_def)

lemma lps_silent_skip: "lps_silent skip"
  unfolding lps_silent_def by (intro conjI acts_rules same_rules)

lemma acts_dump [acts_rules]: "(\<And>n a v. P (Rd n a v)) \<Longrightarrow> acts P rtw_fw_dump_dbg_info"
  unfolding rtw_fw_dump_dbg_info_def dump_dbg_regs_def rtw_read32_mask_def
  by (intro acts_rules)

lemma lps_silent_leave_check: "lps_silent rtw_fw_leave_lps_check"
proof -
  have a: "acts (\<lambda>e. \<not> is_box_write e) (fw_leave_lps_check_reg n)" for n
    by (induction n) (auto intro!: acts_rules simp: rtw_read32_mask_def)
  have q: "quiet (fw_leave_lps_check_reg n)" for n
    by (induction n) (auto intro!: quiet_rules simp: rtw_read32_mask_def)
  show ?thesis
    unfolding lps_silent_def rtw_fw_leave_lps_check_def fw_leave_lps_check_c2h_def rtw_write32_clr_def
    by (intro conjI)
      ((intro acts_rules a; simp add: box_index_def),
       (intro same_rules same_quiet quiet_rules q; simp add: lps_view_def),
       (intro same_rules same_quiet quiet_rules q; simp))
qed

lemma lps_silent_prepare: "lps_silent rtw_fw_leave_lps_check_prepare"
  unfolding lps_silent_def rtw_fw_leave_lps_check_prepare_def
  by (intro conjI) ((intro acts_rules), (intro same_rules; simp add: lps_view_def)+)

lemma lps_impl_updates:
  "(\<And>c. lps_mode (f c) = g (lps_mode c)) \<Longrightarrow> lps_impl (\<lambda>((m, r), c). ((g m, r), c)) (lps_upd f) s"
  "lps_impl (\<lambda>((m, on, force), c). ((m, b, force), c)) (dev_upd (\<lambda>s. s\<lparr>flag_leisure_ps := b\<rparr>)) s"
  "lps_impl id (dev_upd (\<lambda>s. s\<lparr>flag_leisure_ps_deep := b\<rparr>)) s"
  by (auto simp: lps_impl_def lps_view_def intro!: exI [of _ "[]"] told_Nil)

lemma lps_impl_skip: "lps_impl id skip s"
  by (rule lps_impl_silent [OF lps_silent_skip])

section \<open>The host's part\<close>

text \<open>
  What power saving asks of the host interface and of the coexistence code: their operations write
  no mailbox and leave mode and flags alone.
\<close>

definition a_enter :: "lps_view \<times> bool \<Rightarrow> lps_view \<times> bool" where
  "a_enter a = (case a of ((m, on, force), c) \<Rightarrow> if on \<or> force then a else ((RTW_MODE_LPS, True, force), True))"

definition a_leave :: "lps_view \<times> bool \<Rightarrow> lps_view \<times> bool" where
  "a_leave a = (case a of ((m, on, force), c) \<Rightarrow> if on then ((RTW_MODE_ACTIVE, False, force), False) else a)"

locale lps_host =
  fixes ops :: "('e, 'x) rtw_drv_scheme rtw_drv_ops"
  assumes deep_silent: "lps_silent (do_deep_ps ops b)"
    and link_silent: "lps_silent (do_link_ps ops b)"
    and coex_silent: "lps_silent (do_coex ops (CoexLps b))"
begin

lemmas host_silent = deep_silent [THEN lps_impl_silent] link_silent [THEN lps_impl_silent]
  coex_silent [THEN lps_impl_silent]

lemma enter_core: "lps_impl (\<lambda>((m, on, force), c). ((m, True, force), take_bit 7 m \<noteq> 0)) (rtw_enter_lps_core ops) s"
proof -
  have "lps_impl (((((\<lambda>((m, on, force), c). ((m, True, force), c)) \<circ> id) \<circ> a_set_mode) \<circ> id) \<circ> (\<lambda>((m, r), c). ((m, r), c)))
      (rtw_enter_lps_core ops) s"
    unfolding rtw_enter_lps_core_def
    by (intro lps_impl_bind host_silent lps_impl_set_pwr_mode lps_impl_updates) simp
  then show ?thesis
    by (rule lps_impl_eq) (simp add: a_set_mode_def lps_view_def)
qed

lemma leave_core: "lps_impl (\<lambda>((m, on, force), c). ((m, False, force), take_bit 7 m \<noteq> 0)) (rtw_leave_lps_core ops) s"
proof -
  have "lps_impl ((((((id \<circ> (\<lambda>((m, on, force), c). ((m, False, force), c))) \<circ> id) \<circ> a_set_mode) \<circ> id) \<circ> id) \<circ>
      (\<lambda>((m, r), c). ((m, r), c))) (rtw_leave_lps_core ops) s"
    unfolding rtw_leave_lps_core_def
    by (intro lps_impl_bind host_silent lps_impl_set_pwr_mode lps_impl_updates lps_impl_silent [OF lps_silent_leave_check]
        lps_impl_silent [OF lps_silent_prepare]) simp
  then show ?thesis
    by (rule lps_impl_eq) (simp add: a_set_mode_def lps_view_def)
qed

lemma enter_deep: "lps_impl id (lps_deep_enter ops) s"
proof -
  have "lps_impl (id \<circ> id) (do { when_do b rtw_fw_set_pg_info; do_deep_ps ops True }) s'" for b s'
    by (intro lps_impl_bind host_silent) (simp add: when_do_def lps_impl_pg_info lps_impl_skip)
  then show ?thesis
    unfolding lps_deep_enter_def by (intro lps_impl_get) (simp add: lps_impl_skip)
qed

lemma enter: "lps_impl a_enter (rtw_enter_lps ops port) s"
proof -
  have "lps_impl ((\<lambda>((m, on, force), c). ((m, True, force), take_bit 7 m \<noteq> 0)) \<circ> (\<lambda>((m, r), c). ((RTW_MODE_LPS, r), c)))
      (do { lps_upd (\<lambda>c. c\<lparr>lps_mode := RTW_MODE_LPS, lps_port_id := port\<rparr>); rtw_enter_lps_core ops }) s" for s
    by (intro lps_impl_bind enter_core lps_impl_updates) simp
  note core = this
  have e: "lps_impl (\<lambda>((m, on, force), c). if on then ((m, on, force), c) else ((RTW_MODE_LPS, True, force), True))
      (lps_enter ops port) s" for s
    unfolding lps_enter_def
    by (rule lps_impl_get, cases "flag_leisure_ps s")
      (auto intro!: lps_impl_eq [OF core] lps_impl_eq [OF lps_impl_skip] simp: lps_view_def)
  have "lps_impl (id \<circ> (\<lambda>((m, on, force), c). if on then ((m, on, force), c) else ((RTW_MODE_LPS, True, force), True)))
      (do { lps_enter ops port; lps_deep_enter ops }) s"
    by (intro lps_impl_bind e enter_deep)
  then show ?thesis
    unfolding rtw_enter_lps_def
    by (intro lps_impl_get, cases "wl_force_lps_ctrl s")
      (auto elim!: lps_impl_eq intro!: lps_impl_eq [OF lps_impl_skip] simp: lps_view_def a_enter_def)
qed

lemma leave: "lps_impl a_leave (rtw_leave_lps ops) s"
proof -
  have core: "lps_impl ((\<lambda>((m, on, force), c). ((m, False, force), take_bit 7 m \<noteq> 0)) \<circ> (\<lambda>((m, r), c). ((RTW_MODE_ACTIVE, r), c)))
      (do { lps_upd (\<lambda>c. c\<lparr>lps_mode := RTW_MODE_ACTIVE\<rparr>); rtw_leave_lps_core ops }) s" for s
    by (intro lps_impl_bind leave_core lps_impl_updates) simp
  have "lps_impl (id \<circ> id) (do { dev_upd (\<lambda>s. s\<lparr>flag_leisure_ps_deep := False\<rparr>); lps_deep_leave ops }) s" for s
    unfolding lps_deep_leave_def by (intro lps_impl_bind host_silent lps_impl_updates)
  then have deep: "lps_impl id (when_do b (do { dev_upd (\<lambda>s. s\<lparr>flag_leisure_ps_deep := False\<rparr>); lps_deep_leave ops })) s" for b s
    by (simp add: when_do_def lps_impl_skip)
  have tail: "lps_impl a_leave (do { lps \<leftarrow> dev_get flag_leisure_ps; if \<not> lps then skip
          else do { lps_upd (\<lambda>c. c\<lparr>lps_mode := RTW_MODE_ACTIVE\<rparr>); rtw_leave_lps_core ops } }) s" for s
    by (rule lps_impl_get, cases "flag_leisure_ps s")
      (auto intro!: lps_impl_eq [OF core] lps_impl_eq [OF lps_impl_skip] simp: lps_view_def a_leave_def)
  have "lps_impl (a_leave \<circ> id) (lps_leave ops) s" for s
    unfolding lps_leave_def by (rule lps_impl_get, rule lps_impl_bind, rule deep, rule tail)
  then have "lps_impl (a_leave \<circ> id) (rtw_leave_lps ops) s"
    unfolding rtw_leave_lps_def lps_deep_leave_def by (intro lps_impl_bind host_silent) simp
  then show ?thesis by simp
qed

lemma leave_deep: "lps_impl id (rtw_leave_lps_deep ops) s"
  unfolding rtw_leave_lps_deep_def lps_deep_leave_def by (rule host_silent)

end

section \<open>Sequences of calls\<close>

datatype lps_call = CallEnter u8 | CallLeave | CallLeaveDeep

fun lps_do :: "('e, 'x) rtw_drv_scheme rtw_drv_ops \<Rightarrow> lps_call \<Rightarrow> ('e, 'x, unit) drv" where
  "lps_do ops (CallEnter port) = rtw_enter_lps ops port"
| "lps_do ops CallLeave = rtw_leave_lps ops"
| "lps_do ops CallLeaveDeep = rtw_leave_lps_deep ops"

text \<open>The mode that results: the last call to enter or to leave decides.\<close>

fun lps_after :: "bool \<Rightarrow> lps_call \<Rightarrow> bool \<Rightarrow> bool" where
  "lps_after force (CallEnter port) on = (on \<or> \<not> force)"
| "lps_after force CallLeave on = False"
| "lps_after force CallLeaveDeep on = on"

definition lps_consistent :: "bool \<Rightarrow> bool \<Rightarrow> lps_view" where
  "lps_consistent force on = ((if on then RTW_MODE_LPS else RTW_MODE_ACTIVE), on, force)"

fun a_do :: "lps_call \<Rightarrow> lps_view \<times> bool \<Rightarrow> lps_view \<times> bool" where
  "a_do (CallEnter port) = a_enter"
| "a_do CallLeave = a_leave"
| "a_do CallLeaveDeep = id"

lemma a_do_consistent:
  "fold a_do calls (lps_consistent force on, on) =
     (lps_consistent force (fold (lps_after force) calls on), fold (lps_after force) calls on)"
proof (induction calls arbitrary: on)
  case (Cons c calls)
  have "a_do c (lps_consistent force on, on) = (lps_consistent force (lps_after force c on), lps_after force c on)"
    by (cases c) (auto simp: lps_consistent_def a_enter_def a_leave_def)
  with Cons.IH [of "lps_after force c on"] show ?case by simp
qed simp

context lps_host
begin

lemma calls: "lps_impl (fold a_do cs) (for_each cs (lps_do ops)) s"
proof (induction cs arbitrary: s)
  case (Cons c cs)
  have "lps_impl (a_do c) (lps_do ops c) s"
    by (cases c) (auto intro: enter leave leave_deep)
  with Cons.IH have "lps_impl (fold a_do cs \<circ> a_do c) (do { lps_do ops c; for_each cs (lps_do ops) }) s"
    by (intro lps_impl_bind)
  then show ?case by (simp add: comp_def)
qed (simp add: lps_impl_skip)

end

section \<open>On USB\<close>

definition rtw_usb_deep_ps :: "bool \<Rightarrow> ('s, unit) state" where
  "rtw_usb_deep_ps enter = skip"

definition rtw_usb_link_ps :: "bool \<Rightarrow> ('s, unit) state" where
  "rtw_usb_link_ps enter = skip"

text \<open>
  The coexistence code is told about LPS in \<open>rtw_coex_lps_notify\<close> (\<open>coex.c\<close>), which returns at once
  under manual control and when \<open>stop_dm\<close> is set; the part behind this guard is the parameter \<open>rest\<close>.
\<close>

definition rtw_coex_lps_notify :: "bool \<Rightarrow> bool \<Rightarrow> ('s, unit) state \<Rightarrow> ('s, unit) state" where
  "rtw_coex_lps_notify manual_control stop_dm rest = (if manual_control \<or> stop_dm then skip else rest)"

text \<open>
  The operations on a USB adapter without Bluetooth: \<open>rtw_coex_power_on_setting\<close> sets \<open>stop_dm\<close>, and
  the initialisation, which \<open>rtw_power_on\<close> calls with \<open>wifi_only\<close> then, leaves it set; so the guard
  holds. With Bluetooth it need not, and the interpretation does not cover that case: there the part
  behind the guard writes scoreboard registers and may send messages of its own.
\<close>

definition usb_ps_ops :: "'s rtw_drv_ops \<Rightarrow> 's rtw_drv_ops" where
  "usb_ps_ops ops = ops\<lparr>do_deep_ps := rtw_usb_deep_ps, do_link_ps := rtw_usb_link_ps,
     do_coex := \<lambda>e. case e of CoexLps b \<Rightarrow> rtw_coex_lps_notify False True (do_coex ops e) | _ \<Rightarrow> do_coex ops e\<rparr>"

interpretation usb_lps: lps_host "usb_ps_ops ops" for ops
  by unfold_locales (simp_all add: usb_ps_ops_def rtw_usb_deep_ps_def rtw_usb_link_ps_def rtw_coex_lps_notify_def lps_silent_skip)



text \<open>
  The power saving of the stations is on exactly when the only interface is a station that allows
  it; otherwise LPS is left.
\<close>

lemma usb_ps_ops_simps [simp]:
  "do_deep_ps (usb_ps_ops ops) b = skip" "do_link_ps (usb_ps_ops ops) b = skip" "do_coex (usb_ps_ops ops) (CoexLps b) = skip"
  by (simp_all add: usb_ps_ops_def rtw_usb_deep_ps_def rtw_usb_link_ps_def rtw_coex_lps_notify_def)

lemma same_leave_lps: "same ps_enabled (rtw_leave_lps (usb_ps_ops ops))"
proof -
  have o: "off_log (ps_enabled :: ('e, 'x) rtw_drv_scheme \<Rightarrow> _)" "off_box (ps_enabled :: ('e, 'x) rtw_drv_scheme \<Rightarrow> _)"
    by (simp_all add: off_log_def off_box_def)
  have r: "same (ps_enabled :: ('e, 'x) rtw_drv_scheme \<Rightarrow> _) (fw_leave_lps_check_reg n)" for n
    by (induction n) (auto intro!: same_rules o)
  have "same (ps_enabled :: ('e, 'x) rtw_drv_scheme \<Rightarrow> _) rtw_fw_leave_lps_check"
    unfolding rtw_fw_leave_lps_check_def fw_leave_lps_check_c2h_def by (intro same_rules o r) simp_all
  moreover have "same (ps_enabled :: ('e, 'x) rtw_drv_scheme \<Rightarrow> _) rtw_fw_leave_lps_check_prepare"
    unfolding rtw_fw_leave_lps_check_prepare_def by (intro same_rules) simp
  moreover have "same (ps_enabled :: ('e, 'x) rtw_drv_scheme \<Rightarrow> _) rtw_fw_set_pwr_mode"
    unfolding rtw_fw_set_pwr_mode_def by (intro same_rules o)
  ultimately show ?thesis
    unfolding rtw_leave_lps_def lps_deep_leave_def lps_leave_def rtw_leave_lps_core_def usb_ps_ops_simps
    by (intro same_rules) simp_all
qed

lemma rtw_recalc_lps_enabled:
  defines "vs \<equiv> \<lambda>s new_vif. map (vif_tbl s) ((case new_vif of None \<Rightarrow> [] | Some v \<Rightarrow> [v]) @ active_vifs s)"
  shows "ps_enabled (snd (run_state (rtw_recalc_lps (usb_ps_ops ops) new_vif) s)) \<longleftrightarrow>
     (\<exists>v. vs s new_vif = [v] \<and> rv_type v = NL80211_IFTYPE_STATION \<and> rv_ps v)"
proof (cases "recalc_lps_iter (vs s new_vif) 0 None")
  case (Pair cnt found)
  from recalc_lps_iter_eq [of 0 "vs s new_vif" None] Pair have
    "cnt = (if list_all (\<lambda>v. rv_type v = NL80211_IFTYPE_STATION) (vs s new_vif) then int (length (vs s new_vif)) else - 1)"
    by simp
  with Pair have *: "cnt = 1 \<and> (case found of None \<Rightarrow> False | Some v \<Rightarrow> rv_ps v) \<longleftrightarrow>
      (\<exists>v. vs s new_vif = [v] \<and> rv_type v = NL80211_IFTYPE_STATION \<and> rv_ps v)"
    by (auto simp: length_Suc_conv split: if_splits)
  have "ps_enabled (snd (run_state (rtw_recalc_lps (usb_ps_ops ops) new_vif) s)) \<longleftrightarrow>
      cnt = 1 \<and> (case found of None \<Rightarrow> False | Some v \<Rightarrow> rv_ps v)"
    using same_snd [OF same_leave_lps, of ops "s\<lparr>ps_enabled := False\<rparr>"] Pair
    by (simp add: rtw_recalc_lps_def vs_def)
  with * show ?thesis by simp
qed

end
