(* ===== verification/Sec.thy ===== *)
theory Sec
  imports DrvFrame "HOL-Library.More_List"
begin

text \<open>
  The key table of the security engine (\<open>sec.c\<close>): free entries, writing and clearing an entry, the
  entries saved over deep power save, and switching the engine on. The engine's memory, as the
  command registers fill it, is the abstract state; the theorems relate it to the driver's table.
\<close>

section \<open>Entries\<close>

abbreviation (input) RTW_MAX_SEC_CAM_NUM :: nat where "RTW_MAX_SEC_CAM_NUM \<equiv> 32"
abbreviation (input) MAX_PG_CAM_BACKUP_NUM :: nat where "MAX_PG_CAM_BACKUP_NUM \<equiv> 8"

text \<open>The first four entries (\<open>RTW_SEC_DEFAULT_KEY_NUM\<close>) are the default keys. \<open>find_next_zero_bit\<close> and \<open>find_next_bit\<close>: the size when there is none.\<close>

definition find_next :: "(nat \<Rightarrow> bool) \<Rightarrow> nat \<Rightarrow> nat \<Rightarrow> nat" where
  "find_next p n start = (case find p [start..<n] of None \<Rightarrow> n | Some k \<Rightarrow> k)"

definition rtw_sec_get_free_cam :: "rtw_sec_desc \<Rightarrow> nat" where
  "rtw_sec_get_free_cam d =
     (if default_key_search d
      then find_next (\<lambda>k. \<not> cam_map d k) RTW_MAX_SEC_CAM_NUM 4
      else find_next (\<lambda>k. \<not> cam_map d k) RTW_MAX_SEC_CAM_NUM 0)"

text \<open>The word of a byte at a position: \<open>b << n\<close>.\<close>

definition byte_at :: "nat \<Rightarrow> u8 \<Rightarrow> u32" where
  "byte_at n b = push_bit n (ucast b)"

definition key_byte :: "ieee80211_key_conf \<Rightarrow> nat \<Rightarrow> u8" where
  "key_byte key j = (if j < length (key_bytes key) then key_bytes key ! j else key_past key (j - length (key_bytes key)))"

definition cam_content :: "ieee80211_key_conf \<Rightarrow> rtw_cam_entry \<Rightarrow> nat \<Rightarrow> u32" where
  "cam_content key cam i =
     (let a = (\<lambda>k. nth_default 0 (cam_addr cam) k); b = key_byte key in
      if i = 0 then (ucast (key_keyidx key) AND 0x3) OR push_bit 2 (ucast (cam_hw_key_type cam) AND 0x7) OR
        push_bit 6 (of_bool_w (cam_group cam)) OR push_bit 15 (of_bool_w (cam_valid cam)) OR byte_at 16 (a 0) OR byte_at 24 (a 1)
      else if i = 1 then byte_at 0 (a 2) OR byte_at 8 (a 3) OR byte_at 16 (a 4) OR byte_at 24 (a 5)
      else if i = 6 \<or> i = 7 then 0
      else let j = (i - 2) * 4
           in byte_at 0 (b j) OR byte_at 8 (b (j + 1)) OR byte_at 16 (b (j + 2)) OR byte_at 24 (b (j + 3)))"

definition eth_broadcast :: "u8 list" where
  "eth_broadcast = replicate 6 0xff"

definition cam_command :: "u8 \<Rightarrow> nat \<Rightarrow> u32" where
  "cam_command hw_key_idx i =
     RTW_SEC_CMD_WRITE_ENABLE OR RTW_SEC_CMD_POLLING OR (push_bit 3 (ucast hw_key_idx) + of_nat i)"

text \<open>
  Sixteen bytes of key are read whatever its length: a shorter key (WEP) is read past its end, which
  is a fault here, and what lies behind it is a part of the key (\<open>key_past\<close>). The
  index selects one of the 32 entries of the table.
\<close>

definition rtw_sec_write_cam ::
  "u8 list option \<Rightarrow> ieee80211_key_conf \<Rightarrow> u8 \<Rightarrow> u8 \<Rightarrow> ('e, 'x, unit) drv" where
  "rtw_sec_write_cam peer key hw_key_type hw_key_idx =
     (let k = unat hw_key_idx;
          cam = \<lparr>cam_valid = True, cam_group = \<not> key_pairwise key,
                 cam_addr = (case peer of Some a \<Rightarrow> a | None \<Rightarrow> eth_broadcast),
                 cam_hw_key_type = hw_key_type, cam_key = Some (key_id key)\<rparr>
      in do { when_do (RTW_MAX_SEC_CAM_NUM \<le> k \<or> length (key_bytes key) < 16) set_fault;
              dev_upd (\<lambda>s. s\<lparr>sec := (sec s)\<lparr>cam_map := (cam_map (sec s))(k := True),
                                            cam_table := (cam_table (sec s))(k := cam)\<rparr>\<rparr>);
              for_each (rev [0..<8]) (\<lambda>i.
                do { rtw_write32 RTW_SEC_WRITE_REG (cam_content key cam i);
                     rtw_write32 RTW_SEC_CMD_REG (cam_command hw_key_idx i) }) })"

definition rtw_sec_clear_cam :: "u8 \<Rightarrow> ('e, 'x, unit) drv" where
  "rtw_sec_clear_cam hw_key_idx =
     (let k = unat hw_key_idx in
      do { when_do (RTW_MAX_SEC_CAM_NUM \<le> k) set_fault;
           dev_upd (\<lambda>s. s\<lparr>sec := (sec s)\<lparr>cam_map := (cam_map (sec s))(k := False),
             cam_table := (cam_table (sec s))(k := (cam_table (sec s) k)\<lparr>cam_valid := False, cam_key := None,
               cam_addr := replicate 6 0\<rparr>)\<rparr>\<rparr>);
           rtw_write32 RTW_SEC_WRITE_REG 0;
           rtw_write32 RTW_SEC_CMD_REG (cam_command hw_key_idx 0) })"

text \<open>The used entries in order, at most as many as there is room for.\<close>

fun cam_pg_backup_loop :: "(nat \<Rightarrow> bool) \<Rightarrow> nat \<Rightarrow> nat \<Rightarrow> nat list" where
  "cam_pg_backup_loop m 0 start = []"
| "cam_pg_backup_loop m (Suc left) start =
     (let n = find_next m RTW_MAX_SEC_CAM_NUM start
      in if n = RTW_MAX_SEC_CAM_NUM then [] else n # cam_pg_backup_loop m left (n + 1))"

definition rtw_sec_cam_pg_backup :: "rtw_sec_desc \<Rightarrow> nat list" where
  "rtw_sec_cam_pg_backup d = cam_pg_backup_loop (cam_map d) MAX_PG_CAM_BACKUP_NUM 0"

definition rtw_sec_enable_sec_engine :: "('e, 'x, unit) drv" where
  "rtw_sec_enable_sec_engine =
     do { dev_upd (\<lambda>s. s\<lparr>sec := (sec s)\<lparr>default_key_search := True\<rparr>\<rparr>);
          ctrl_reg \<leftarrow> rtw_read16 REG_CR;
          rtw_write16 REG_CR (ctrl_reg OR RTW_SEC_ENGINE_EN);
          sec_config \<leftarrow> rtw_read16 RTW_SEC_CONFIG;
          search \<leftarrow> dev_get (\<lambda>s. default_key_search (sec s));
          rtw_write16 RTW_SEC_CONFIG (sec_config OR RTW_SEC_TX_DEC_EN OR RTW_SEC_RX_DEC_EN OR
            (if search then RTW_SEC_TX_UNI_USE_DK OR RTW_SEC_RX_UNI_USE_DK OR
               RTW_SEC_TX_BC_USE_DK OR RTW_SEC_RX_BC_USE_DK else 0)) }"

section \<open>Free and used entries\<close>

lemma find_next_spec:
  "find_next p n start = n \<or> start \<le> find_next p n start \<and> find_next p n start < n \<and> p (find_next p n start)"
  by (auto simp: find_next_def find_Some_iff split: option.split)

lemma find_next_first:
  "start \<le> k \<Longrightarrow> k < find_next p n start \<Longrightarrow> k < n \<Longrightarrow> \<not> p k"
proof (cases "find p [start..<n]")
  case (Some m)
  assume k: "start \<le> k" "k < find_next p n start"
  from Some obtain i where i: "i < n - start" "m = start + i" "\<forall>j<i. \<not> p (start + j)"
    by (auto simp: find_Some_iff)
  with k Some have "k - start < i" by (simp add: find_next_def)
  with i(3) k(1) show ?thesis by (metis le_add_diff_inverse)
qed (auto simp: find_None_iff)

lemma find_next_le: "start \<le> n \<Longrightarrow> find_next p n start \<le> n"
  using find_next_spec [of p n start] by auto

text \<open>A pairwise key never takes an entry that is in use, nor one of the default keys.\<close>

lemma free_cam_unused:
  assumes "rtw_sec_get_free_cam d < 32"
  shows "\<not> cam_map d (rtw_sec_get_free_cam d) \<and> (default_key_search d \<longrightarrow> 4 \<le> rtw_sec_get_free_cam d)"
  using assms find_next_spec [of "\<lambda>k. \<not> cam_map d k" 32 4] find_next_spec [of "\<lambda>k. \<not> cam_map d k" 32 0]
  by (auto simp: rtw_sec_get_free_cam_def)

lemma cam_pg_backup_loop_eq:
  assumes "start \<le> 32"
  shows "cam_pg_backup_loop m n start = take n (filter m [start..<32])"
  using assms
proof (induction n arbitrary: start)
  case (Suc n)
  define k where "k = find_next m 32 start"
  have k: "k \<le> 32" "k = 32 \<or> start \<le> k \<and> m k" "\<And>j. start \<le> j \<Longrightarrow> j < k \<Longrightarrow> \<not> m j"
    using find_next_le [OF Suc.prems, of m] find_next_spec [of m 32 start] find_next_first [of start _ m 32]
    by (auto simp: k_def)
  have "start \<le> k"
    using k(2) Suc.prems by auto
  then have split: "filter m [start..<32] = filter m [k..<32]"
    using k(1,3) upt_add_eq_append [of start k "32 - k"] by (simp add: filter_empty_conv)
  show ?case
  proof (cases "k = 32")
    case False
    then have "[k..<32] = k # [Suc k..<32]"
      using k(1) by (simp add: upt_conv_Cons)
    with False k split Suc.IH [of "Suc k"] show ?thesis
      by (simp add: k_def [symmetric] Let_def)
  qed (use split in \<open>simp add: k_def [symmetric]\<close>)
qed simp

lemma rtw_sec_cam_pg_backup_eq: "rtw_sec_cam_pg_backup d = take 8 (filter (cam_map d) [0..<32])"
  by (simp add: rtw_sec_cam_pg_backup_def cam_pg_backup_loop_eq)

section \<open>The memory of the security engine\<close>

text \<open>
  The engine stores the word of \<open>RTW_SEC_WRITE_REG\<close> at the address of a command whose write and
  polling bits are set.
\<close>

fun cam_step :: "io \<Rightarrow> u32 \<times> (nat \<Rightarrow> u32) \<Rightarrow> u32 \<times> (nat \<Rightarrow> u32)" where
  "cam_step (Wr w a v) (data, mem) =
     (if a = RTW_SEC_WRITE_REG then (v, mem)
      else if a = RTW_SEC_CMD_REG \<and> bit v 16 \<and> bit v 31 then (data, mem(unat (take_bit 16 v) := data))
      else (data, mem))"
| "cam_step _ m = m"

definition cam_run :: "io list \<Rightarrow> u32 \<times> (nat \<Rightarrow> u32) \<Rightarrow> u32 \<times> (nat \<Rightarrow> u32)" where
  "cam_run l m = fold cam_step l m"

lemma cam_run_append [simp]: "cam_run (l @ l') m = cam_run l' (cam_run l m)"
  by (simp add: cam_run_def)

lemma cam_run_Nil [simp]: "cam_run [] m = m"
  by (simp add: cam_run_def)

lemma cam_run_Cons [simp]: "cam_run (e # l) m = cam_run l (cam_step e m)"
  by (simp add: cam_run_def)

lemma cam_command_word:
  assumes "idx < 32" and "i < 8"
  shows "cam_command idx i = 0x80010000 OR of_nat (8 * unat idx + i)"
    "bit (cam_command idx i) 16" "bit (cam_command idx i) 31" "unat (take_bit 16 (cam_command idx i)) = 8 * unat idx + i"
proof -
  have u: "unat idx < 32"
    using assms(1) by (simp add: word_less_nat_alt)
  have e: "push_bit 3 (ucast idx :: u32) + of_nat i = of_nat (8 * unat idx + i)"
    by (simp add: push_bit_eq_mult of_nat_unat)
  have "(0x10000 :: u32) OR 0x80000000 = 0x80010000"
    by simp
  with e show eq: "cam_command idx i = 0x80010000 OR of_nat (8 * unat idx + i)"
    by (simp only: cam_command_def or.assoc [symmetric])
  have "8 * unat idx + i < 2 ^ 16"
    using u assms(2) by simp
  then have t: "take_bit 16 (of_nat (8 * unat idx + i) :: u32) = of_nat (8 * unat idx + i)"
    by (simp only: take_bit_of_nat take_bit_nat_eq_self)
  show "bit (cam_command idx i) 16" "bit (cam_command idx i) 31"
    by (simp_all add: eq bit_or_iff)
  have "take_bit 16 (0x80010000 :: u32) = 0"
    by simp
  then have "take_bit 16 (cam_command idx i) = of_nat (8 * unat idx + i)"
    by (simp only: eq take_bit_or t) simp
  moreover have "unat (of_nat (8 * unat idx + i) :: u32) = 8 * unat idx + i"
    using u assms(2) by (simp only: unat_of_nat) simp
  ultimately show "unat (take_bit 16 (cam_command idx i)) = 8 * unat idx + i"
    by simp
qed

section \<open>Keys in the engine\<close>

text \<open>The accesses that write words \<open>is\<close> of an entry, and what they leave in the engine.\<close>

definition cam_writes :: "u8 \<Rightarrow> (nat \<Rightarrow> u32) \<Rightarrow> nat list \<Rightarrow> io list" where
  "cam_writes idx w is = concat (map (\<lambda>i. [Wr 4 RTW_SEC_WRITE_REG (w i), Wr 4 RTW_SEC_CMD_REG (cam_command idx i)]) is)"

lemma run_cam_writes:
  "run_state (for_each is (\<lambda>i. do { rtw_write32 RTW_SEC_WRITE_REG (w i); rtw_write32 RTW_SEC_CMD_REG (cam_command idx i) })) s =
     ((), s\<lparr>io_log := io_log s @ cam_writes idx w is\<rparr>)"
  by (induction "is" arbitrary: s) (simp_all add: cam_writes_def)

lemma cam_run_writes:
  assumes "idx < 32" and "\<forall>i \<in> set is. i < 8"
  shows "snd (cam_run (cam_writes idx w is) m) =
     (\<lambda>a. if a div 8 = unat idx \<and> a mod 8 \<in> set is then w (a mod 8) else snd m a)"
  using assms(2)
proof (induction "is" arbitrary: m)
  case (Cons i "is")
  obtain d mem where m: "m = (d, mem)" by (cases m)
  note c = cam_command_word [OF assms(1), of i]
  have at: "a = 8 * unat idx + i \<longleftrightarrow> a div 8 = unat idx \<and> a mod 8 = i" for a
  proof
    show "a = 8 * unat idx + i" if "a div 8 = unat idx \<and> a mod 8 = i"
      using that mult_div_mod_eq [of 8 a] by metis
  qed (use Cons.prems in auto)
  have "cam_run (cam_writes idx w (i # is)) m =
      cam_run (cam_writes idx w is) (w i, mem(8 * unat idx + i := w i))"
    using c Cons.prems by (simp add: cam_writes_def m)
  then show ?case
    using Cons.IH [of "(w i, mem(8 * unat idx + i := w i))"] Cons.prems by (auto simp: fun_eq_iff at m)
qed (simp add: cam_writes_def)

datatype cam_op = CamWrite "u8 list option" ieee80211_key_conf u8 u8 | CamClear u8

fun cam_do :: "cam_op \<Rightarrow> ('e, 'x, unit) drv" where
  "cam_do (CamWrite peer key ty idx) = rtw_sec_write_cam peer key ty idx"
| "cam_do (CamClear idx) = rtw_sec_clear_cam idx"

fun cam_op_ok :: "cam_op \<Rightarrow> bool" where
  "cam_op_ok (CamWrite peer key ty idx) \<longleftrightarrow> idx < 32"
| "cam_op_ok (CamClear idx) \<longleftrightarrow> idx < 32"

text \<open>The operations that read past the end of a key: those that install a WEP key.\<close>

fun cam_op_short :: "cam_op \<Rightarrow> bool" where
  "cam_op_short (CamWrite peer key ty idx) \<longleftrightarrow> length (key_bytes key) < 16"
| "cam_op_short (CamClear idx) \<longleftrightarrow> False"

text \<open>The abstract key table: which key an entry holds.\<close>

type_synonym key_table = "nat \<Rightarrow> (u8 list \<times> ieee80211_key_conf \<times> u8) option"

fun table_after :: "cam_op \<Rightarrow> key_table \<Rightarrow> key_table" where
  "table_after (CamWrite peer key ty idx) t = t(unat idx \<mapsto> (case peer of Some a \<Rightarrow> a | None \<Rightarrow> eth_broadcast, key, ty))"
| "table_after (CamClear idx) t = t(unat idx := None)"

definition entry_of :: "u8 list \<times> ieee80211_key_conf \<times> u8 \<Rightarrow> rtw_cam_entry" where
  "entry_of = (\<lambda>(a, key, ty). \<lparr>cam_valid = True, cam_group = \<not> key_pairwise key, cam_addr = a,
     cam_hw_key_type = ty, cam_key = Some (key_id key)\<rparr>)"

text \<open>
  The driver's bitmap and table and the engine's memory hold the same keys: a used entry has all
  its words, of an unused one the valid bit is clear.
\<close>

definition holds_keys :: "key_table \<Rightarrow> rtw_sec_desc \<Rightarrow> (nat \<Rightarrow> u32) \<Rightarrow> bool" where
  "holds_keys t d mem \<longleftrightarrow> (\<forall>k < 32. (cam_map d k \<longleftrightarrow> t k \<noteq> None) \<and>
     (case t k of
        None \<Rightarrow> \<not> cam_valid (cam_table d k) \<and> \<not> bit (mem (8 * k)) 15
      | Some e \<Rightarrow> cam_table d k = entry_of e \<and> (\<forall>i < 8. mem (8 * k + i) = cam_content (fst (snd e)) (entry_of e) i)))"

lemma holds_keys_step:
  fixes s :: "('e, 'x) rtw_drv_scheme"
  assumes "cam_op_ok c" and "holds_keys t (sec s) (snd m)"
  obtains s' l where "run_state (cam_do c) s = ((), s')" and "io_log s' = io_log s @ l"
    and "holds_keys (table_after c t) (sec s') (snd (cam_run l m))" and "fault s' \<longleftrightarrow> fault s \<or> cam_op_short c"
proof (cases c)
  case (CamWrite peer key ty idx)
  let ?e = "(case peer of Some a \<Rightarrow> a | None \<Rightarrow> eth_broadcast, key, ty)"
  have i: "idx < 32" "\<not> 32 \<le> unat idx"
    using assms(1) CamWrite by (auto simp: word_less_nat_alt)
  let ?d = "(sec s)\<lparr>cam_map := (cam_map (sec s))(unat idx := True), cam_table := (cam_table (sec s))(unat idx := entry_of ?e)\<rparr>"
  let ?l = "cam_writes idx (cam_content key (entry_of ?e)) (rev [0..<8])"
  have r: "run_state (cam_do c) s = ((), s\<lparr>fault := (fault s \<or> cam_op_short c), sec := ?d, io_log := io_log s @ ?l\<rparr>)"
    using i(2) by (simp add: CamWrite rtw_sec_write_cam_def Let_def entry_of_def run_cam_writes del: for_each.simps upt.simps)
  have mem: "snd (cam_run ?l m) = (\<lambda>a. if a div 8 = unat idx then cam_content key (entry_of ?e) (a mod 8) else snd m a)"
    by (subst cam_run_writes [OF i(1)]) (auto simp: fun_eq_iff)
  have "holds_keys (table_after c t) ?d (snd (cam_run ?l m))"
    using assms(2) unfolding mem holds_keys_def CamWrite by (auto simp: div_mult_self3 split: option.splits)
  with r that show ?thesis by simp
next
  case (CamClear idx)
  have i: "idx < 32" "\<not> 32 \<le> unat idx"
    using assms(1) CamClear by (auto simp: word_less_nat_alt)
  let ?d = "(sec s)\<lparr>cam_map := (cam_map (sec s))(unat idx := False), cam_table := (cam_table (sec s))(unat idx :=
     (cam_table (sec s) (unat idx))\<lparr>cam_valid := False, cam_key := None, cam_addr := replicate 6 0\<rparr>)\<rparr>"
  let ?l = "cam_writes idx (\<lambda>_. 0) [0]"
  have r: "run_state (cam_do c) s = ((), s\<lparr>sec := ?d, io_log := io_log s @ ?l\<rparr>)"
    using i(2) by (simp add: CamClear rtw_sec_clear_cam_def Let_def cam_writes_def)
  have mem: "snd (cam_run ?l m) = (\<lambda>a. if a = 8 * unat idx then 0 else snd m a)"
    by (subst cam_run_writes [OF i(1)]) (auto simp: fun_eq_iff)
  have "holds_keys (table_after c t) ?d (snd (cam_run ?l m))"
    using assms(2) unfolding mem holds_keys_def CamClear by (auto split: option.splits)
  with r that show ?thesis by (simp add: CamClear)
qed

lemma cam_ops_keys:
  fixes s :: "('e, 'x) rtw_drv_scheme"
  assumes "list_all cam_op_ok cs" and "holds_keys t (sec s) (snd m)"
  obtains s' l where "run_state (for_each cs cam_do) s = ((), s')" and "io_log s' = io_log s @ l"
    and "holds_keys (fold table_after cs t) (sec s') (snd (cam_run l m))" and "fault s' \<longleftrightarrow> fault s \<or> list_ex cam_op_short cs"
  using assms
proof (induction cs arbitrary: s t m thesis)
  case (Cons c cs)
  from Cons.prems(2) have "cam_op_ok c" by simp
  then obtain s1 l1 where 1: "run_state (cam_do c) s = ((), s1)" "io_log s1 = io_log s @ l1"
    "holds_keys (table_after c t) (sec s1) (snd (cam_run l1 m))" "fault s1 \<longleftrightarrow> fault s \<or> cam_op_short c"
    by (rule holds_keys_step [OF _ Cons.prems(3)])
  from Cons.prems(2) have "list_all cam_op_ok cs" by simp
  from Cons.IH [OF _ this 1(3)] obtain s' l where "run_state (for_each cs cam_do) s1 = ((), s')" "io_log s' = io_log s1 @ l"
    "holds_keys (fold table_after cs (table_after c t)) (sec s') (snd (cam_run l (cam_run l1 m)))" "fault s' \<longleftrightarrow> fault s1 \<or> list_ex cam_op_short cs"
    by blast
  with 1 show ?case
    by (intro Cons.prems(1) [of s' "l1 @ l"]) (simp_all add: disj_assoc)
next
  case Nil
  from Nil.prems(1) [of s "[]"] Nil.prems(3) show ?case by simp
qed

text \<open>Byte \<open>j\<close> of the key, where the engine finds it, and byte \<open>j\<close> of the address.\<close>

definition engine_key :: "(nat \<Rightarrow> u32) \<Rightarrow> nat \<Rightarrow> nat \<Rightarrow> u8" where
  "engine_key mem k j = ucast (drop_bit (8 * (j mod 4)) (mem (8 * k + (2 + j div 4))))"

definition engine_addr :: "(nat \<Rightarrow> u32) \<Rightarrow> nat \<Rightarrow> nat \<Rightarrow> u8" where
  "engine_addr mem k j = ucast (drop_bit (8 * ((j + 2) mod 4)) (mem (8 * k + (j + 2) div 4)))"

lemma byte_of_word:
  "ucast (byte_at 0 a OR byte_at 8 b OR byte_at 16 c OR byte_at 24 d) = (a :: u8)"
  "ucast (drop_bit 8 (byte_at 0 a OR byte_at 8 b OR byte_at 16 c OR byte_at 24 d)) = b"
  "ucast (drop_bit 16 (byte_at 0 a OR byte_at 8 b OR byte_at 16 c OR byte_at 24 d)) = c"
  "ucast (drop_bit 24 (byte_at 0 a OR byte_at 8 b OR byte_at 16 c OR byte_at 24 d)) = d"
  by (rule bit_word_eqI, simp add: byte_at_def bit_simps, auto dest: bit_imp_le_length)+

lemma upto_cases: "j < (6 :: nat) \<Longrightarrow> j = 0 \<or> j = 1 \<or> j = 2 \<or> j = 3 \<or> j = 4 \<or> j = 5"
  by auto

lemma cam_content_key:
  assumes "j < 16" and "j < length (key_bytes key)"
  shows "ucast (drop_bit (8 * (j mod 4)) (cam_content key e (2 + j div 4))) = key_bytes key ! j"
proof -
  define n where "n = j div 4 * 4"
  have d: "2 + j div 4 \<noteq> 0" "2 + j div 4 \<noteq> 1" "2 + j div 4 \<noteq> 6" "2 + j div 4 \<noteq> 7" "2 + j div 4 - 2 = j div 4"
    using assms(1) by auto
  let ?b = "key_byte key"
  have c: "cam_content key e (2 + j div 4) = byte_at 0 (?b n) OR byte_at 8 (?b (n + 1)) OR byte_at 16 (?b (n + 2)) OR byte_at 24 (?b (n + 3))"
    unfolding cam_content_def Let_def n_def using d by presburger
  have j: "j = n + j mod 4"
    by (simp add: n_def)
  have "j mod 4 < 4" by simp
  then have "j mod 4 = 0 \<or> j mod 4 = 1 \<or> j mod 4 = 2 \<or> j mod 4 = 3"
    by linarith
  then have "ucast (drop_bit (8 * (j mod 4)) (cam_content key e (2 + j div 4))) = ?b j"
    unfolding c
  proof (elim disjE)
    assume m: "j mod 4 = 0"
    with j have "j = n" by simp
    with m show "ucast (drop_bit (8 * (j mod 4)) (byte_at 0 (?b n) OR byte_at 8 (?b (n + 1)) OR byte_at 16 (?b (n + 2)) OR byte_at 24 (?b (n + 3)))) = ?b j"
      by (simp only: byte_of_word mult_0_right drop_bit_0 id_apply)
  next
    assume m: "j mod 4 = 1"
    with j have "j = n + 1" by simp
    with m show "ucast (drop_bit (8 * (j mod 4)) (byte_at 0 (?b n) OR byte_at 8 (?b (n + 1)) OR byte_at 16 (?b (n + 2)) OR byte_at 24 (?b (n + 3)))) = ?b j"
      by (simp only: byte_of_word mult_1_right)
  next
    assume m: "j mod 4 = 2"
    with j have "j = n + 2" by simp
    with m show "ucast (drop_bit (8 * (j mod 4)) (byte_at 0 (?b n) OR byte_at 8 (?b (n + 1)) OR byte_at 16 (?b (n + 2)) OR byte_at 24 (?b (n + 3)))) = ?b j"
      using byte_of_word(3) by simp
  next
    assume m: "j mod 4 = 3"
    with j have "j = n + 3" by simp
    with m show "ucast (drop_bit (8 * (j mod 4)) (byte_at 0 (?b n) OR byte_at 8 (?b (n + 1)) OR byte_at 16 (?b (n + 2)) OR byte_at 24 (?b (n + 3)))) = ?b j"
      using byte_of_word(4) by simp
  qed
  with assms(2) show ?thesis
    by (simp add: key_byte_def)
qed

text \<open>
  Property C21. Under any sequence of installing keys of any length and removing keys the driver's
  bitmap, its table and the memory of the security engine hold the same keys: an entry is valid in the
  engine exactly when it is in use, and the engine reads back every byte of its key (sixteen at most,
  the size of an entry). Memory that is not the key's is read exactly when a key of less than sixteen
  bytes, a WEP key, is installed.
\<close>

theorem cam_keys_refine:
  fixes s :: "('e, 'x) rtw_drv_scheme"
  assumes "list_all cam_op_ok cs" and "holds_keys t (sec s) (snd m)"
  defines "t' \<equiv> fold table_after cs t"
  shows "\<exists>s' l mem. run_state (for_each cs cam_do) s = ((), s') \<and> io_log s' = io_log s @ l \<and> mem = snd (cam_run l m) \<and>
     (fault s' \<longleftrightarrow> fault s \<or> list_ex cam_op_short cs) \<and> holds_keys t' (sec s') mem \<and>
     (\<forall>k < 32. (cam_map (sec s') k \<longleftrightarrow> t' k \<noteq> None) \<and>
        (\<forall>a key ty. t' k = Some (a, key, ty) \<longrightarrow>
           (\<forall>j < 16. j < length (key_bytes key) \<longrightarrow> engine_key mem k j = key_bytes key ! j)))"
proof -
  obtain s' l where r: "run_state (for_each cs cam_do) s = ((), s')" "io_log s' = io_log s @ l"
    "holds_keys t' (sec s') (snd (cam_run l m))" "fault s' \<longleftrightarrow> fault s \<or> list_ex cam_op_short cs"
    unfolding t'_def by (rule cam_ops_keys [OF assms(1,2)])
  have "engine_key (snd (cam_run l m)) k j = key_bytes key ! j"
    if "k < 32" "t' k = Some (a, key, ty)" "j < 16" "j < length (key_bytes key)" for k a key ty j
  proof -
    have "\<forall>i < 8. snd (cam_run l m) (8 * k + i) = cam_content key (entry_of (a, key, ty)) i"
      using r(3) that(1,2) by (auto simp: holds_keys_def)
    moreover have "2 + j div 4 < 8"
      using that(3) by simp
    ultimately show ?thesis
      using cam_content_key [OF that(3,4)] unfolding engine_key_def by presburger
  qed
  with r show ?thesis
    by (auto simp: holds_keys_def)
qed

text \<open>A pairwise key of 16 bytes in entry 4, a WEP key of five in entry 0, and entry 1 cleared.\<close>

definition demo_key :: "u8 list \<Rightarrow> ieee80211_key_conf" where
  "demo_key bs = \<lparr>key_id = 7, key_cipher = 0xfac04, key_keyidx = 0, key_hw_key_idx = 4, key_pairwise = True,
     key_generate_mmic = False, key_sw_mgmt_tx = True, key_generate_iv = True, key_bytes = bs, key_past = \<lambda>_. 0xee\<rparr>"

lemma cam_keys_refine_witness:
  "\<forall>(s :: (unit, unit) rtw_drv_scheme) d. \<exists>s' l.
     run_state (for_each [CamWrite None (demo_key (replicate 16 3)) 4 4, CamWrite None (demo_key [1, 2, 3, 4, 5]) 1 0, CamClear 1] cam_do)
       (s\<lparr>sec := d\<lparr>cam_map := \<lambda>_. False, cam_table := \<lambda>k. (cam_table d k)\<lparr>cam_valid := False\<rparr>\<rparr>\<rparr>) = ((), s') \<and>
     io_log s' = io_log s @ l \<and> fault s' \<and> cam_map (sec s') 4 \<and> \<not> cam_map (sec s') 1 \<and>
     map (engine_key (snd (cam_run l (0, \<lambda>_. 0))) 0) [0, 1, 2, 3, 4] = [1, 2, 3, 4, 5]"
proof (intro allI)
  fix s :: "(unit, unit) rtw_drv_scheme" and d
  let ?s = "s\<lparr>sec := d\<lparr>cam_map := \<lambda>_. False, cam_table := \<lambda>k. (cam_table d k)\<lparr>cam_valid := False\<rparr>\<rparr>\<rparr>"
  let ?cs = "[CamWrite None (demo_key (replicate 16 3)) 4 4, CamWrite None (demo_key [1, 2, 3, 4, 5]) 1 0, CamClear 1]"
  let ?t = "fold table_after ?cs (\<lambda>_. None)"
  have "holds_keys (\<lambda>_. None) (sec ?s) (snd (0, \<lambda>_. 0))"
    by (simp add: holds_keys_def)
  moreover have "list_all cam_op_ok ?cs"
    by simp
  ultimately obtain s' l where r: "run_state (for_each ?cs cam_do) ?s = ((), s')" "io_log s' = io_log ?s @ l"
      "fault s' \<longleftrightarrow> fault ?s \<or> list_ex cam_op_short ?cs"
    and k: "\<And>k. k < 32 \<Longrightarrow> cam_map (sec s') k \<longleftrightarrow> ?t k \<noteq> None"
      "\<And>k a key ty j. k < 32 \<Longrightarrow> ?t k = Some (a, key, ty) \<Longrightarrow> j < 16 \<Longrightarrow> j < length (key_bytes key) \<Longrightarrow>
         engine_key (snd (cam_run l (0, \<lambda>_. 0))) k j = key_bytes key ! j"
    using cam_keys_refine [of ?cs "\<lambda>_. None" ?s "(0, \<lambda>_. 0)"] by blast
  have t0: "?t 0 = Some (eth_broadcast, demo_key [1, 2, 3, 4, 5], 1)" and t4: "?t 4 \<noteq> None" and t1: "?t 1 = None"
    by simp_all
  have short: "fault s'"
    using r(3) by (simp add: demo_key_def)
  have "map (engine_key (snd (cam_run l (0, \<lambda>_. 0))) 0) [0, 1, 2, 3, 4] = [1, 2, 3, 4, 5]"
    using k(2) [OF _ t0] by (simp add: demo_key_def)
  with r(1,2) short k(1) [of 4] k(1) [of 1] t1 t4 show "\<exists>s' l. run_state (for_each ?cs cam_do) ?s = ((), s') \<and>
     io_log s' = io_log s @ l \<and> fault s' \<and> cam_map (sec s') 4 \<and> \<not> cam_map (sec s') 1 \<and>
     map (engine_key (snd (cam_run l (0, \<lambda>_. 0))) 0) [0, 1, 2, 3, 4] = [1, 2, 3, 4, 5]"
    by (intro exI [of _ s'] exI [of _ l]) simp
qed

end
