(* ===== verification/Channel.thy ===== *)
theory Channel
  imports DrvFrame PhyPower
begin

text \<open>
  The operating channel (\<open>main.c\<close>, \<open>fw.c\<close>): the parameters of a channel of mac80211, the record of
  the current channel, setting it on the chip, and the backup of the operating channel over a scan
  of the firmware, with the proof that the backup restores it.
\<close>

section \<open>Parameters of a channel\<close>

abbreviation (input) RTW_SC_DONT_CARE :: u8 where "RTW_SC_DONT_CARE \<equiv> 0"
abbreviation (input) RTW_SC_20_UPPER :: u8 where "RTW_SC_20_UPPER \<equiv> 1"
abbreviation (input) RTW_SC_20_LOWER :: u8 where "RTW_SC_20_LOWER \<equiv> 2"
abbreviation (input) RTW_SC_20_UPMOST :: u8 where "RTW_SC_20_UPMOST \<equiv> 3"
abbreviation (input) RTW_SC_20_LOWEST :: u8 where "RTW_SC_20_LOWEST \<equiv> 4"

record rtw_channel_params =
  cprm_center_chan :: u8
  cprm_primary_chan :: u8
  cprm_bandwidth :: u8

definition rtw_get_channel_params :: "cfg80211_chan_def \<Rightarrow> rtw_channel_params" where
  "rtw_get_channel_params c =
     (let center_chan = ucast (cdf_hw_value c) :: u8;
          primary_freq = cdf_center_freq c; center_freq = cdf_center_freq1 c;
          (ch, bw) = (case cdf_width c of
              NL80211_CHAN_WIDTH_20_NOHT \<Rightarrow> (center_chan, Hal.RTW_CHANNEL_WIDTH_20)
            | NL80211_CHAN_WIDTH_20 \<Rightarrow> (center_chan, Hal.RTW_CHANNEL_WIDTH_20)
            | NL80211_CHAN_WIDTH_40 \<Rightarrow>
                (if primary_freq > center_freq then center_chan - 2 else center_chan + 2, Hal.RTW_CHANNEL_WIDTH_40)
            | NL80211_CHAN_WIDTH_80 \<Rightarrow>
                (if primary_freq > center_freq
                 then (if primary_freq - center_freq = 10 then center_chan - 2 else center_chan - 6)
                 else (if center_freq - primary_freq = 10 then center_chan + 2 else center_chan + 6),
                 Hal.RTW_CHANNEL_WIDTH_80)
            | NL80211_CHAN_WIDTH_OTHER \<Rightarrow> (0, Hal.RTW_CHANNEL_WIDTH_20))
      in \<lparr>cprm_center_chan = ch, cprm_primary_chan = ucast (cdf_hw_value c), cprm_bandwidth = bw\<rparr>)"

section \<open>The current channel\<close>

definition primary_channel_idx :: "u32 \<Rightarrow> u32 \<Rightarrow> u8 \<Rightarrow> u8" where
  "primary_channel_idx primary_freq center_freq bandwidth =
     (if bandwidth = Hal.RTW_CHANNEL_WIDTH_40 then
        if primary_freq > center_freq then RTW_SC_20_UPPER else RTW_SC_20_LOWER
      else if bandwidth = Hal.RTW_CHANNEL_WIDTH_80 then
        if primary_freq > center_freq
        then (if primary_freq - center_freq = 10 then RTW_SC_20_UPPER else RTW_SC_20_UPMOST)
        else (if center_freq - primary_freq = 10 then RTW_SC_20_LOWER else RTW_SC_20_LOWEST)
      else RTW_SC_DONT_CARE)"

text \<open>The centre channels of the widths: \<open>cch_by_bw\<close>.\<close>

definition center_channels :: "u8 \<Rightarrow> u8 \<Rightarrow> u32 \<Rightarrow> u32 \<Rightarrow> u8 \<Rightarrow> (nat \<Rightarrow> u8) \<Rightarrow> nat \<Rightarrow> u8" where
  "center_channels center_channel primary_channel center_freq primary_freq bandwidth cch =
     (let cch1 = cch(0 := primary_channel, unat bandwidth := center_channel)
      in if bandwidth = Hal.RTW_CHANNEL_WIDTH_80
         then cch1(1 := if primary_freq > center_freq then center_channel + 4 else center_channel - 4)
         else cch1)"

definition sar_band_of :: "u8 \<Rightarrow> nat" where
  "sar_band_of ch = (if 1 \<le> ch \<and> ch \<le> 14 then 0 else if 36 \<le> ch \<and> ch \<le> 64 then 1
     else if 100 \<le> ch \<and> ch \<le> 144 then 2 else if 149 \<le> ch \<and> ch \<le> 177 then 3 else 0)"

definition rtw_update_channel :: "u8 \<Rightarrow> u8 \<Rightarrow> u8 \<Rightarrow> u8 \<Rightarrow> ('e, 'x, unit) drv" where
  "rtw_update_channel center_channel primary_channel band bandwidth =
     do { freq \<leftarrow> dev_get channel_to_freq;
          let center_freq = freq (band = RTW_BAND_5G) center_channel;
              primary_freq = freq (band = RTW_BAND_5G) primary_channel
          in do { tp_upd (\<lambda>h. h\<lparr>cch_by_bw := center_channels center_channel primary_channel center_freq primary_freq
                                  bandwidth (cch_by_bw h)\<rparr>);
                  dev_upd (\<lambda>s. s\<lparr>hal_primary_channel_index := primary_channel_idx primary_freq center_freq bandwidth\<rparr>);
                  hal_upd (\<lambda>h. h\<lparr>hal_current_band_width := bandwidth\<rparr>);
                  dev_upd (\<lambda>s. s\<lparr>hal_primary_channel := primary_channel\<rparr>);
                  hal_upd (\<lambda>h. h\<lparr>hal_current_channel := center_channel, hal_current_band_type := band\<rparr>);
                  tp_upd (\<lambda>h. h\<lparr>sar_band := sar_band_of center_channel\<rparr>) } }"

definition scan_upd :: "(rtw_hw_scan_info \<Rightarrow> rtw_hw_scan_info) \<Rightarrow> ('e, 'x, unit) drv" where
  "scan_upd f = dev_upd (\<lambda>s. s\<lparr>scan_info := f (scan_info s)\<rparr>)"

definition band_of_channel :: "u8 \<Rightarrow> u8" where
  "band_of_channel ch = (if ch > 14 then RTW_BAND_5G else RTW_BAND_2G)"

definition rtw_store_op_chan :: "bool \<Rightarrow> ('e, 'x, unit) drv" where
  "rtw_store_op_chan backup =
     (if backup then
        dev_upd (\<lambda>s. s\<lparr>scan_info := (scan_info s)\<lparr>si_op_chan := hal_current_channel (hal s),
          si_op_bw := hal_current_band_width (hal s), si_op_pri_ch_idx := hal_primary_channel_index s,
          si_op_pri_ch := hal_primary_channel s\<rparr>\<rparr>)
      else do { i \<leftarrow> dev_get scan_info;
                rtw_update_channel (si_op_chan i) (si_op_pri_ch i) (band_of_channel (si_op_chan i)) (si_op_bw i) })"

definition rtw_clear_op_chan :: "('e, 'x, unit) drv" where
  "rtw_clear_op_chan = scan_upd (\<lambda>i. i\<lparr>si_op_chan := 0, si_op_bw := 0, si_op_pri_ch_idx := 0, si_op_pri_ch := 0\<rparr>)"

definition rtw_is_op_chan :: "u8 \<Rightarrow> ('e, 'x) rtw_drv_scheme \<Rightarrow> bool" where
  "rtw_is_op_chan channel s \<longleftrightarrow> channel = si_op_chan (scan_info s)"

section \<open>Setting the channel\<close>

definition switch_band_24g :: "bool \<Rightarrow> coex_band" where
  "switch_band_24g scanning = (if scanning then COEX_SWITCH_TO_24G else COEX_SWITCH_TO_24G_NOFORSCAN)"

definition rtw_set_channel :: "('e, 'x) rtw_drv_scheme rtw_drv_ops \<Rightarrow> ('e, 'x, unit) drv" where
  "rtw_set_channel ops =
     do { c \<leftarrow> dev_get chandef;
          let p = rtw_get_channel_params c; center_chan = cprm_center_chan p
          in if center_chan = 0 then skip
             else do { rtw_update_channel center_chan (cprm_primary_chan p) (band_of_channel center_chan) (cprm_bandwidth p);
                       op_chan \<leftarrow> dev_get (\<lambda>s. si_op_chan (scan_info s));
                       when_do (op_chan \<noteq> 0) (rtw_store_op_chan True);
                       idx \<leftarrow> dev_get hal_primary_channel_index;
                       do_set_channel ops center_chan (cprm_bandwidth p) idx;
                       band \<leftarrow> dev_get (\<lambda>s. hal_current_band_type (hal s));
                       scanning \<leftarrow> dev_get rtw_phy.flag_scanning;
                       do_coex ops (CoexSwitchband (if band = RTW_BAND_5G then COEX_SWITCH_TO_5G
                                                    else switch_band_24g scanning));
                       rtw_phy_set_tx_power_level (do_set_tx_power_index ops) center_chan;
                       scanning \<leftarrow> dev_get rtw_phy.flag_scanning;
                       when_do (\<not> scanning) (dev_upd (\<lambda>s. s\<lparr>need_rfk := True\<rparr>)) } }"

definition rtw_chip_prepare_tx :: "('e, 'x) rtw_drv_scheme rtw_drv_ops \<Rightarrow> ('e, 'x, unit) drv" where
  "rtw_chip_prepare_tx ops =
     do { rfk \<leftarrow> dev_get need_rfk;
          when_do rfk (do { dev_upd (\<lambda>s. s\<lparr>need_rfk := False\<rparr>); do_phy_calibration ops }) }"

section \<open>Channels of a width\<close>

text \<open>
  What the frequencies of \<open>ieee80211_channel_to_frequency\<close> are: 5 MHz apart on 5 GHz and on the
  first thirteen channels of 2.4 GHz.
\<close>

definition freq_5mhz :: "(bool \<Rightarrow> u8 \<Rightarrow> u32) \<Rightarrow> bool" where
  "freq_5mhz f \<longleftrightarrow> (\<forall>ch. 1 \<le> ch \<longrightarrow> ch \<le> 177 \<longrightarrow> f True ch = 5000 + 5 * ucast ch) \<and>
     (\<forall>ch. 1 \<le> ch \<longrightarrow> ch \<le> 13 \<longrightarrow> f False ch = 2407 + 5 * ucast ch) \<and> f False 14 = 2484"

text \<open>
  The place of the primary channel that each index stands for, from the centre of the width.
\<close>

definition primary_offset :: "u8 \<Rightarrow> int" where
  "primary_offset idx = (if idx = RTW_SC_20_UPPER then 2 else if idx = RTW_SC_20_LOWER then - 2
     else if idx = RTW_SC_20_UPMOST then 6 else if idx = RTW_SC_20_LOWEST then - 6 else 0)"

text \<open>
  A channel of mac80211: primary channel \<open>ch\<close>, and \<open>o'\<close> channels from it the centre of its width.
\<close>

definition chandef_at :: "(bool \<Rightarrow> u8 \<Rightarrow> u32) \<Rightarrow> bool \<Rightarrow> u8 \<Rightarrow> int \<Rightarrow> cfg80211_chan_def \<Rightarrow> bool" where
  "chandef_at f is5 ch o' c \<longleftrightarrow>
     cdf_hw_value c = ucast ch \<and> cdf_center_freq c = f is5 ch \<and> uint (cdf_center_freq1 c) = uint (f is5 ch) + 5 * o' \<and>
     (if is5 then 36 \<le> uint ch \<and> uint ch \<le> 171 else 1 \<le> uint ch \<and> uint ch + o' \<le> 13 \<and> 1 \<le> uint ch + o' \<and> uint ch \<le> 13) \<and>
     (case cdf_width c of
        NL80211_CHAN_WIDTH_40 \<Rightarrow> \<bar>o'\<bar> = 2
      | NL80211_CHAN_WIDTH_80 \<Rightarrow> is5 \<and> (\<bar>o'\<bar> = 2 \<or> \<bar>o'\<bar> = 6)
      | NL80211_CHAN_WIDTH_OTHER \<Rightarrow> False
      | _ \<Rightarrow> o' = 0)"

type_synonym chan_view = "(nat \<Rightarrow> u8) \<times> nat \<times> u8 \<times> u8 \<times> u8 \<times> u8 \<times> u8"

definition chan_view :: "('e, 'x) rtw_drv_scheme \<Rightarrow> chan_view" where
  "chan_view s = (cch_by_bw (txpwr s), sar_band (txpwr s), hal_primary_channel_index s,
     hal_current_band_width (hal s), hal_primary_channel s, hal_current_channel (hal s), hal_current_band_type (hal s))"

lemma run_update_channel:
  "chan_view (snd (run_state (rtw_update_channel c p b w) s)) =
     (let fc = channel_to_freq s (b = RTW_BAND_5G) c; fp = channel_to_freq s (b = RTW_BAND_5G) p
      in (center_channels c p fc fp w (cch_by_bw (txpwr s)), sar_band_of c, primary_channel_idx fp fc w, w, p, c, b))"
  by (simp add: rtw_update_channel_def chan_view_def tp_upd_def hal_upd_def Let_def)

lemma less_by_uint: "uint (b :: u32) = uint a + d \<Longrightarrow> (a < b \<longleftrightarrow> 0 < d) \<and> (b < a \<longleftrightarrow> d < 0)"
  by (auto simp: word_less_def)

lemma diff_by_uint:
  assumes "uint (b :: u32) = uint a + d" and "0 \<le> d"
  shows "b - a = 10 \<longleftrightarrow> d = 10"
proof -
  have "b = word_of_int (uint a + d)"
    using assms(1) by (metis word_of_int_uint)
  then have b: "b - a = word_of_int d"
    by (simp add: wi_hom_add [symmetric])
  have "uint b < 2 ^ 32" "0 \<le> uint a"
    using uint_lt2p [of b] by simp_all
  then have "d < 2 ^ 32"
    using assms(1) by linarith
  then have "uint (word_of_int d :: u32) = d"
    using assms(2) by (simp add: uint_word_of_int_eq take_bit_int_eq_self)
  then show ?thesis
    unfolding b word_uint_eq_iff by simp
qed

lemma u8_sub: "uint k \<le> uint (a :: u8) \<Longrightarrow> uint (a - k) = uint a - uint k"
  by (simp add: uint_sub_lem word_le_def)

lemma u8_add: "uint (a :: u8) + uint k < 256 \<Longrightarrow> uint (a + k) = uint a + uint k"
  by (simp add: uint_word_ariths mod_pos_pos_trivial)

lemma freq_uint:
  assumes "freq_5mhz f" and "if is5 then 1 \<le> uint ch \<and> uint ch \<le> 177 else 1 \<le> uint ch \<and> uint ch \<le> 13"
  shows "uint (f is5 ch) = (if is5 then 5000 else 2407) + 5 * uint ch"
proof -
  have c: "uint (ucast ch :: u32) = uint ch"
    by (simp add: uint_up_ucast is_up.rep_eq)
  have "f is5 ch = (if is5 then 5000 else 2407) + 5 * ucast ch"
    using assms by (auto simp: freq_5mhz_def word_le_def split: if_splits)
  then show ?thesis
    using assms(2) by (auto simp: uint_word_ariths c split: if_splits)
qed

lemma channel_params:
  assumes "freq_5mhz f" and "chandef_at f is5 ch o' c"
  defines "p \<equiv> rtw_get_channel_params c"
  shows "uint (cprm_center_chan p) = uint ch + o' \<and> cprm_primary_chan p = ch"
proof -
  from assms(2) have c: "cdf_hw_value c = ucast ch" "uint (cdf_center_freq1 c) = uint (cdf_center_freq c) + 5 * o'"
     "cdf_center_freq c = f is5 ch"
    by (auto simp: chandef_at_def)
  have o: "(cdf_center_freq c > cdf_center_freq1 c) \<longleftrightarrow> o' < 0"
    using less_by_uint [OF c(2)] by auto
  have d: "0 \<le> o' \<Longrightarrow> cdf_center_freq1 c - cdf_center_freq c = 10 \<longleftrightarrow> o' = 2"
     "o' \<le> 0 \<Longrightarrow> cdf_center_freq c - cdf_center_freq1 c = 10 \<longleftrightarrow> o' = - 2"
    using diff_by_uint [OF c(2)] diff_by_uint [of "cdf_center_freq c" "cdf_center_freq1 c" "- 5 * o'"] c(2) by auto
  have r: "1 \<le> uint ch + o'" "uint ch + o' \<le> 177" "is5 \<longrightarrow> 36 \<le> uint ch" "uint ch \<le> 171"
    using assms(2) by (auto simp: chandef_at_def split: if_splits nl80211_chan_width.splits)
  have ch: "(ucast (ucast ch :: u16) :: u8) = ch"
    by (simp add: ucast_up_ucast_id is_up.rep_eq)
  show ?thesis
  proof (cases "cdf_width c")
    case NL80211_CHAN_WIDTH_40
    then have "o' = 2 \<or> o' = - 2"
      using assms(2) by (auto simp: chandef_at_def)
    with NL80211_CHAN_WIDTH_40 o r show ?thesis
      by (auto simp: p_def rtw_get_channel_params_def Let_def c(1) ch u8_sub u8_add)
  next
    case NL80211_CHAN_WIDTH_80
    then have "o' = 2 \<or> o' = - 2 \<or> o' = 6 \<or> o' = - 6" "is5"
      using assms(2) by (auto simp: chandef_at_def)
    with NL80211_CHAN_WIDTH_80 o d r show ?thesis
      by (auto simp: p_def rtw_get_channel_params_def Let_def c(1) ch u8_sub u8_add)
  qed (use assms(2) in \<open>auto simp: p_def rtw_get_channel_params_def Let_def c(1) ch chandef_at_def\<close>)
qed

lemma channel_idx:
  assumes "uint (fc :: u32) = uint fp + 5 * o'"
  shows "\<bar>o'\<bar> = 2 \<Longrightarrow> primary_offset (primary_channel_idx fp fc Hal.RTW_CHANNEL_WIDTH_40) = - o'"
    "\<bar>o'\<bar> = 2 \<or> \<bar>o'\<bar> = 6 \<Longrightarrow> primary_offset (primary_channel_idx fp fc Hal.RTW_CHANNEL_WIDTH_80) = - o'"
proof -
  have o: "fp > fc \<longleftrightarrow> o' < 0"
    using less_by_uint [OF assms] by auto
  have d: "0 \<le> o' \<Longrightarrow> fc - fp = 10 \<longleftrightarrow> o' = 2" "o' \<le> 0 \<Longrightarrow> fp - fc = 10 \<longleftrightarrow> o' = - 2"
    using diff_by_uint [OF assms] diff_by_uint [of fp fc "- 5 * o'"] assms by auto
  show "\<bar>o'\<bar> = 2 \<Longrightarrow> primary_offset (primary_channel_idx fp fc Hal.RTW_CHANNEL_WIDTH_40) = - o'"
    using o by (auto simp: primary_channel_idx_def primary_offset_def)
  show "\<bar>o'\<bar> = 2 \<or> \<bar>o'\<bar> = 6 \<Longrightarrow> primary_offset (primary_channel_idx fp fc Hal.RTW_CHANNEL_WIDTH_80) = - o'"
    using o d by (auto simp: primary_channel_idx_def primary_offset_def)
qed

lemma channel_width:
  assumes "chandef_at f is5 ch o' c"
  shows "cprm_bandwidth (rtw_get_channel_params c) = (case cdf_width c of
     NL80211_CHAN_WIDTH_40 \<Rightarrow> Hal.RTW_CHANNEL_WIDTH_40 | NL80211_CHAN_WIDTH_80 \<Rightarrow> Hal.RTW_CHANNEL_WIDTH_80
     | _ \<Rightarrow> Hal.RTW_CHANNEL_WIDTH_20)"
  by (auto simp: rtw_get_channel_params_def Let_def split: nl80211_chan_width.split)

text \<open>
  Property C23. Setting a channel of mac80211 records its centre, its primary channel and where the
  primary lies, the right band, and for 80 MHz also the centre of the 40 MHz in which the primary is.
\<close>

theorem rtw_update_channel_consistent:
  fixes s :: "('e, 'x) rtw_drv_scheme"
  assumes "freq_5mhz (channel_to_freq s)" and "chandef_at (channel_to_freq s) is5 ch o' (chandef s)"
  defines "p \<equiv> rtw_get_channel_params (chandef s)"
  defines "s' \<equiv> snd (run_state (rtw_update_channel (cprm_center_chan p) (cprm_primary_chan p)
      (band_of_channel (cprm_center_chan p)) (cprm_bandwidth p)) s)"
  defines "cch \<equiv> cch_by_bw (txpwr s')" and "width \<equiv> hal_current_band_width (hal s')"
  shows "uint (hal_current_channel (hal s')) = uint ch + o' \<and> hal_primary_channel s' = ch \<and>
     hal_current_band_type (hal s') = (if is5 then RTW_BAND_5G else RTW_BAND_2G) \<and>
     primary_offset (hal_primary_channel_index s') = - o' \<and>
     cch (unat width) = hal_current_channel (hal s') \<and> cch 0 = ch \<and>
     (width = Hal.RTW_CHANNEL_WIDTH_80 \<longrightarrow>
        \<bar>uint (cch 1) - uint ch\<bar> = 2 \<and> \<bar>uint (cch 1) - uint (hal_current_channel (hal s'))\<bar> = 4)"
proof -
  let ?f = "channel_to_freq s" and ?c = "chandef s"
  have cen: "uint (cprm_center_chan p) = uint ch + o'" "cprm_primary_chan p = ch"
    using channel_params [OF assms(1,2)] by (simp_all add: p_def)
  have at: "if is5 then 36 \<le> uint ch \<and> uint ch \<le> 171 else 1 \<le> uint ch \<and> uint ch + o' \<le> 13 \<and> 1 \<le> uint ch + o' \<and> uint ch \<le> 13"
    and o: "- 6 \<le> o'" "o' \<le> 6"
    using assms(2) by (auto simp: chandef_at_def split: if_splits nl80211_chan_width.splits)
  have band: "band_of_channel (cprm_center_chan p) = (if is5 then RTW_BAND_5G else RTW_BAND_2G)"
    using cen at o by (auto simp: band_of_channel_def word_less_def split: if_splits)
  then have five: "(band_of_channel (cprm_center_chan p) = RTW_BAND_5G) = is5"
    by simp
  have f: "uint (?f is5 (cprm_center_chan p)) = uint (?f is5 ch) + 5 * o'"
    using at o cen by (subst (1 2) freq_uint [OF assms(1)]) (auto split: if_splits)
  have v: "chan_view s' = (center_channels (cprm_center_chan p) ch (?f is5 (cprm_center_chan p)) (?f is5 ch) (cprm_bandwidth p)
      (cch_by_bw (txpwr s)), sar_band_of (cprm_center_chan p), primary_channel_idx (?f is5 ch) (?f is5 (cprm_center_chan p))
      (cprm_bandwidth p), cprm_bandwidth p, ch, cprm_center_chan p, if is5 then RTW_BAND_5G else RTW_BAND_2G)"
    unfolding s'_def run_update_channel cen(2) five by (simp add: Let_def band)
  have up: "?f is5 ch > ?f is5 (cprm_center_chan p) \<longleftrightarrow> o' < 0"
    using less_by_uint [OF f] by auto
  have w: "cprm_bandwidth p = (case cdf_width ?c of NL80211_CHAN_WIDTH_40 \<Rightarrow> Hal.RTW_CHANNEL_WIDTH_40
      | NL80211_CHAN_WIDTH_80 \<Rightarrow> Hal.RTW_CHANNEL_WIDTH_80 | _ \<Rightarrow> Hal.RTW_CHANNEL_WIDTH_20)"
    unfolding p_def by (rule channel_width [OF assms(2)])
  have c20: "o' = 0 \<Longrightarrow> cprm_center_chan p = ch"
    using cen(1) by (simp add: word_uint_eq_iff)
  show ?thesis
  proof (cases "cdf_width ?c")
    case NL80211_CHAN_WIDTH_40
    with w assms(2) have "cprm_bandwidth p = Hal.RTW_CHANNEL_WIDTH_40" "\<bar>o'\<bar> = 2"
      by (auto simp: chandef_at_def)
    with v cen channel_idx(1) [OF f] show ?thesis
      by (simp add: chan_view_def cch_def width_def center_channels_def Let_def)
  next
    case NL80211_CHAN_WIDTH_80
    with w assms(2) have w80: "cprm_bandwidth p = Hal.RTW_CHANNEL_WIDTH_80" "is5" "\<bar>o'\<bar> = 2 \<or> \<bar>o'\<bar> = 6"
      by (auto simp: chandef_at_def)
    have "uint (cprm_center_chan p + 4) = uint ch + o' + 4" "uint (cprm_center_chan p - 4) = uint ch + o' - 4"
      using cen at o w80(2) by (simp_all add: u8_add u8_sub)
    with v cen channel_idx(2) [OF f w80(3)] w80 up show ?thesis
      by (auto simp: chan_view_def cch_def width_def center_channels_def Let_def)
  next
    case NL80211_CHAN_WIDTH_OTHER
    with assms(2) show ?thesis by (simp add: chandef_at_def)
  qed (use v cen w assms(2) c20 in \<open>auto simp: chandef_at_def chan_view_def cch_def width_def center_channels_def Let_def
      primary_channel_idx_def primary_offset_def\<close>)
qed

text \<open>Channel 36 in the 80 MHz around 5210 MHz.\<close>

lemma rtw_update_channel_consistent_witness:
  "\<forall>s :: (unit, unit) rtw_drv_scheme.
     let t = s\<lparr>channel_to_freq := \<lambda>is5 ch. if is5 then 5000 + 5 * ucast ch else if ch = 14 then 2484 else 2407 + 5 * ucast ch,
               chandef := \<lparr>cdf_width = NL80211_CHAN_WIDTH_80, cdf_hw_value = 36, cdf_center_freq = 5180, cdf_center_freq1 = 5210\<rparr>\<rparr>;
         p = rtw_get_channel_params (chandef t)
     in uint (hal_current_channel (hal (snd (run_state (rtw_update_channel (cprm_center_chan p) (cprm_primary_chan p)
          (band_of_channel (cprm_center_chan p)) (cprm_bandwidth p)) t)))) = 42"
proof (intro allI)
  fix s :: "(unit, unit) rtw_drv_scheme"
  let ?f = "\<lambda>is5 (ch :: u8). (if is5 then 5000 + 5 * ucast ch else if ch = 14 then 2484 else 2407 + 5 * ucast ch) :: u32"
  let ?c = "\<lparr>cdf_width = NL80211_CHAN_WIDTH_80, cdf_hw_value = 36, cdf_center_freq = 5180, cdf_center_freq1 = 5210\<rparr>"
  let ?t = "s\<lparr>channel_to_freq := ?f, chandef := ?c\<rparr>"
  have "ch \<noteq> 14" if "ch \<le> 13" for ch :: u8
    using that by auto
  then have f: "freq_5mhz (channel_to_freq ?t)"
    by (auto simp: freq_5mhz_def)
  have c: "chandef_at (channel_to_freq ?t) True 36 6 (chandef ?t)"
    by (simp add: chandef_at_def)
  show "let t = ?t; p = rtw_get_channel_params (chandef t) in uint (hal_current_channel (hal (snd (run_state
      (rtw_update_channel (cprm_center_chan p) (cprm_primary_chan p) (band_of_channel (cprm_center_chan p)) (cprm_bandwidth p)) t)))) = 42"
    using rtw_update_channel_consistent [OF f c] by (simp add: Let_def)
qed

section \<open>The backup of the operating channel\<close>

lemma center_channels_absorb [simp]: "center_channels c p fc fp w (cch(0 := x)) = center_channels c p fc fp w cch"
  by (auto simp: center_channels_def Let_def fun_eq_iff)

lemma center_channels_idem [simp]:
  "center_channels c p fc fp w (center_channels c p fc fp w cch) = center_channels c p fc fp w cch"
  by (auto simp: center_channels_def Let_def fun_eq_iff)

lemma center_channels_20 [simp]: "center_channels c c fc fp Hal.RTW_CHANNEL_WIDTH_20 cch = cch(0 := c)"
  by (simp add: center_channels_def)

end
