(* ===== verification/Core.thy ===== *)
theory Core
  imports Sec Channel StaRate Ps
begin

text \<open>
  The core of the driver (\<open>main.c\<close>, \<open>main.h\<close>, \<open>ps.c\<close>): ports of the interfaces, starting and
  stopping, idle power save, scans, stations, the watchdog and the recovery from a firmware crash.
\<close>

section \<open>Ports\<close>

abbreviation (input) PORT_SET_MAC_ADDR :: u32 where "PORT_SET_MAC_ADDR \<equiv> BIT 0"
abbreviation (input) PORT_SET_BSSID :: u32 where "PORT_SET_BSSID \<equiv> BIT 1"
abbreviation (input) PORT_SET_NET_TYPE :: u32 where "PORT_SET_NET_TYPE \<equiv> BIT 2"
abbreviation (input) PORT_SET_AID :: u32 where "PORT_SET_AID \<equiv> BIT 3"
abbreviation (input) PORT_SET_BCN_CTRL :: u32 where "PORT_SET_BCN_CTRL \<equiv> BIT 4"

definition rtw_set_dtim_period :: "u8 \<Rightarrow> ('x hw_scheme, unit) state" where
  "rtw_set_dtim_period dtim_period =
     do { rtw_write32_set REG_TCR BIT_TCR_UPDATE_TIMIE;
          rtw_write8 REG_DTIM_COUNTER_ROOT (if dtim_period \<noteq> 0 then dtim_period - 1 else 0) }"

definition rtw_vif_write_addr :: "u32 \<Rightarrow> u8 list \<Rightarrow> ('x hw_scheme, unit) state" where
  "rtw_vif_write_addr start addr = for_each [0..<6] (\<lambda>i. rtw_write8 (start + of_nat i) (addr ! i))"

definition rtw_vif_port_config :: "nat \<Rightarrow> u32 \<Rightarrow> ('e, 'x, unit) drv" where
  "rtw_vif_port_config v config =
     do { vif \<leftarrow> dev_get (\<lambda>s. vif_tbl s v);
          let conf = rv_conf vif
          in do { when_do (config AND PORT_SET_MAC_ADDR \<noteq> 0) (rtw_vif_write_addr (vp_mac_addr conf) (rv_mac_addr vif));
                  when_do (config AND PORT_SET_BSSID \<noteq> 0) (rtw_vif_write_addr (vp_bssid conf) (rv_bssid vif));
                  when_do (config AND PORT_SET_NET_TYPE \<noteq> 0)
                    (rtw_write32_mask (fst (vp_net_type conf)) (snd (vp_net_type conf)) (net_type_val (rv_net_type vif)));
                  when_do (config AND PORT_SET_AID \<noteq> 0)
                    (rtw_write32_mask (fst (vp_aid conf)) (snd (vp_aid conf)) (ucast (rv_aid vif)));
                  when_do (config AND PORT_SET_BCN_CTRL \<noteq> 0)
                    (rtw_write8_mask (fst (vp_bcn_ctrl conf)) (ucast (snd (vp_bcn_ctrl conf))) (rv_bcn_ctrl vif)) } }"

definition rtw_swap_reg_nbytes :: "u32 \<Rightarrow> u32 \<Rightarrow> nat \<Rightarrow> ('x hw_scheme, unit) state" where
  "rtw_swap_reg_nbytes reg1 reg2 nbytes = for_each [0..<nbytes] (\<lambda>i.
     do { v1 \<leftarrow> rtw_read8 (reg1 + of_nat i);
          v2 \<leftarrow> rtw_read8 (reg2 + of_nat i);
          rtw_write8 (reg1 + of_nat i) v2;
          rtw_write8 (reg2 + of_nat i) v1 })"

definition rtw_swap_reg_mask :: "u32 \<times> u32 \<Rightarrow> u32 \<times> u32 \<Rightarrow> ('x hw_scheme, unit) state" where
  "rtw_swap_reg_mask reg1 reg2 =
     do { v1 \<leftarrow> rtw_read32_mask (fst reg1) (snd reg1);
          v2 \<leftarrow> rtw_read32_mask (fst reg2) (snd reg2);
          rtw_write32_mask (fst reg2) (snd reg2) v1;
          rtw_write32_mask (fst reg1) (snd reg1) v2 }"

definition rtw_port_switch_iter :: "('e, 'x) rtw_drv_scheme rtw_drv_ops \<Rightarrow> nat \<Rightarrow> nat \<Rightarrow> ('e, 'x, unit) drv" where
  "rtw_port_switch_iter ops ap target =
     do { t \<leftarrow> dev_get (\<lambda>s. vif_tbl s target);
          if rv_port t \<noteq> 0 then skip
          else do { rtw_leave_lps ops;
                    a \<leftarrow> dev_get (\<lambda>s. vif_tbl s ap);
                    t \<leftarrow> dev_get (\<lambda>s. vif_tbl s target);
                    let ca = rv_conf a; ct = rv_conf t
                    in do { rtw_swap_reg_mask (vp_net_type ca) (vp_net_type ct);
                            rtw_swap_reg_nbytes (vp_mac_addr ca) (vp_mac_addr ct) 6;
                            rtw_swap_reg_nbytes (vp_bssid ca) (vp_bssid ct) 6;
                            rtw_swap_reg_nbytes (fst (vp_bcn_ctrl ca)) (fst (vp_bcn_ctrl ct)) 1;
                            vif_upd target (\<lambda>v. v\<lparr>rv_port := rv_port a, rv_conf := ca\<rparr>);
                            vif_upd ap (\<lambda>v. v\<lparr>rv_port := rv_port t, rv_conf := ct\<rparr>);
                            rtw_fw_default_port (rtw_leave_lps ops) target } } }"

definition rtw_core_port_switch :: "('e, 'x) rtw_drv_scheme rtw_drv_ops \<Rightarrow> nat \<Rightarrow> ('e, 'x, unit) drv" where
  "rtw_core_port_switch ops v =
     do { vif \<leftarrow> dev_get (\<lambda>s. vif_tbl s v);
          if rv_type vif \<noteq> NL80211_IFTYPE_AP \<or> rv_port vif = 0 then skip
          else do { vs \<leftarrow> dev_get active_vifs; for_each vs (rtw_port_switch_iter ops v) } }"

section \<open>Starting and stopping\<close>

definition rtw_update_lps_deep_mode :: "u32 \<Rightarrow> ('e, 'x) rtw_drv_scheme \<Rightarrow> rtw_lps_deep_mode" where
  "rtw_update_lps_deep_mode feature s =
     (let supported = cd_lps_deep_mode_supported (chip_drv s) in
      if disable_lps_deep_mode s \<or> supported = 0 \<or> feature = 0 then LPS_DEEP_MODE_NONE
      else if supported AND BIT 2 \<noteq> 0 \<and> rtw_fw_feature_check feature (BIT 3) then LPS_DEEP_MODE_PG
      else if supported AND BIT 1 \<noteq> 0 \<and> rtw_fw_feature_check feature (BIT 2) then LPS_DEEP_MODE_LCLK
      else LPS_DEEP_MODE_NONE)"

definition rtw_core_start :: "('e, 'x) rtw_drv_scheme rtw_drv_ops \<Rightarrow> ('e, 'x, int) drv" where
  "rtw_core_start ops =
     do { ret \<leftarrow> do_power_on ops;
          if ret \<noteq> 0 then State_Monad.return ret
          else do { rtw_sec_enable_sec_engine;
                    deep \<leftarrow> dev_get (\<lambda>s. rtw_update_lps_deep_mode (fw_feature s) s);
                    lps_upd (\<lambda>c. c\<lparr>lps_deep_mode := deep\<rparr>);
                    wow_deep \<leftarrow> dev_get (\<lambda>s. rtw_update_lps_deep_mode (wow_fw_feature s) s);
                    lps_upd (\<lambda>c. c\<lparr>lps_wow_deep_mode := wow_deep\<rparr>);
                    rcr \<leftarrow> dev_get hal_rcr;
                    rtw_write32 REG_RCR rcr;
                    kcall KQueueWatchDog;
                    dev_upd (\<lambda>s. s\<lparr>flag_running := True\<rparr>);
                    State_Monad.return 0 } }"

definition rtw_core_stop :: "('e, 'x) rtw_drv_scheme rtw_drv_ops \<Rightarrow> ('e, 'x, unit) drv" where
  "rtw_core_stop ops =
     do { dev_upd (\<lambda>s. s\<lparr>flag_running := False\<rparr>);
          dev_upd (\<lambda>s. s\<lparr>flag_fw_running := False\<rparr>);
          kcall KCancelWorks;
          do_power_off ops }"

definition rtw_ips_pwr_up :: "('e, 'x) rtw_drv_scheme rtw_drv_ops \<Rightarrow> ('e, 'x, int) drv" where
  "rtw_ips_pwr_up ops =
     do { ret \<leftarrow> rtw_core_start ops;
          do_coex ops (CoexIps False);
          rtw_set_channel ops;
          State_Monad.return ret }"

definition rtw_enter_ips :: "('e, 'x) rtw_drv_scheme rtw_drv_ops \<Rightarrow> ('e, 'x, int) drv" where
  "rtw_enter_ips ops =
     do { on \<leftarrow> dev_get flag_poweron;
          if \<not> on then State_Monad.return 0
          else do { do_coex ops (CoexIps True);
                    rtw_core_stop ops;
                    do_link_ps ops True;
                    State_Monad.return 0 } }"

definition rtw_leave_ips :: "('e, 'x) rtw_drv_scheme rtw_drv_ops \<Rightarrow> ('e, 'x, int) drv" where
  "rtw_leave_ips ops =
     do { on \<leftarrow> dev_get flag_poweron;
          if on then State_Monad.return 0
          else do { do_link_ps ops False;
                    ret \<leftarrow> rtw_ips_pwr_up ops;
                    if ret \<noteq> 0 then State_Monad.return ret
                    else do { vs \<leftarrow> dev_get active_vifs;
                              for_each vs (\<lambda>v. rtw_vif_port_config v (NOT 0));
                              State_Monad.return 0 } } }"

definition rtw_ips_work :: "('e, 'x) rtw_drv_scheme rtw_drv_ops \<Rightarrow> ('e, 'x, unit) drv" where
  "rtw_ips_work ops =
     do { idle \<leftarrow> dev_get conf_idle;
          when_do idle (do { _ \<leftarrow> rtw_enter_ips ops; skip }) }"

section \<open>Scans\<close>

definition rtw_core_fw_scan_notify :: "bool \<Rightarrow> ('e, 'x, unit) drv" where
  "rtw_core_fw_scan_notify start =
     do { feature \<leftarrow> dev_get fw_feature;
          if \<not> rtw_fw_feature_check feature FW_FEATURE_NOTIFY_SCAN then skip
          else if start then rtw_fw_scan_notify True
          else do { kcall KReinitScanDensity;
                    rtw_fw_scan_notify False;
                    _ \<leftarrow> wait_completion KWaitScanDensity;
                    skip } }"

definition rtw_core_scan_start ::
  "('e, 'x) rtw_drv_scheme rtw_drv_ops \<Rightarrow> nat \<Rightarrow> u8 list \<Rightarrow> bool \<Rightarrow> ('e, 'x, unit) drv" where
  "rtw_core_scan_start ops v mac_addr hw_scan =
     do { rtw_leave_lps ops;
          idle \<leftarrow> dev_get conf_idle;
          ret \<leftarrow> (if hw_scan \<and> idle then rtw_leave_ips ops else State_Monad.return 0);
          if ret \<noteq> 0 then skip
          else do { vif_upd v (\<lambda>r. r\<lparr>rv_mac_addr := mac_addr\<rparr>);
                    rtw_vif_port_config v PORT_SET_MAC_ADDR;
                    do_coex ops (CoexScan True);
                    rtw_core_fw_scan_notify True;
                    dev_upd (\<lambda>s. s\<lparr>flag_dig_disable := True\<rparr>);
                    dev_upd (\<lambda>s. s\<lparr>rtw_phy.flag_scanning := True\<rparr>);
                    rtw_phy_dig_set_max_coverage } }"

definition rtw_core_scan_complete ::
  "('e, 'x) rtw_drv_scheme rtw_drv_ops \<Rightarrow> nat option \<Rightarrow> bool \<Rightarrow> ('e, 'x, unit) drv" where
  "rtw_core_scan_complete ops vif hw_scan = (case vif of None \<Rightarrow> skip
     | Some v \<Rightarrow>
         do { rtw_phy_dig_reset;
              dev_upd (\<lambda>s. s\<lparr>rtw_phy.flag_scanning := False\<rparr>);
              dev_upd (\<lambda>s. s\<lparr>flag_dig_disable := False\<rparr>);
              rtw_core_fw_scan_notify False;
              vif_upd v (\<lambda>r. r\<lparr>rv_mac_addr := rv_addr r\<rparr>);
              rtw_vif_port_config v PORT_SET_MAC_ADDR;
              do_coex ops (CoexScan False);
              idle \<leftarrow> dev_get conf_idle;
              when_do (hw_scan \<and> idle) (kcall KQueueIpsWork) })"

section \<open>Transmit queues and stations\<close>

text \<open>\<open>INIT_LIST_HEAD\<close> on a node that is still on the list would corrupt it.\<close>

definition rtw_txq_init :: "nat \<Rightarrow> ('e, 'x, unit) drv" where
  "rtw_txq_init q = do { qs \<leftarrow> dev_get txqs; when_do (q \<in> set qs) set_fault }"

definition rtw_txq_cleanup :: "nat \<Rightarrow> ('e, 'x, unit) drv" where
  "rtw_txq_cleanup q = dev_upd (\<lambda>s. s\<lparr>txqs := removeAll q (txqs s)\<rparr>)"

abbreviation (input) RTW_MAX_MAC_ID_NUM :: nat where "RTW_MAX_MAC_ID_NUM \<equiv> 32"
abbreviation (input) RTW_PORT_NUM :: nat where "RTW_PORT_NUM \<equiv> 5"

definition rtw_acquire_macid :: "('e, 'x, u8) drv" where
  "rtw_acquire_macid =
     do { m \<leftarrow> dev_get mac_id_map;
          let i = find_next (\<lambda>k. \<not> m k) RTW_MAX_MAC_ID_NUM 0
          in do { when_do (i < RTW_MAX_MAC_ID_NUM) (dev_upd (\<lambda>s. s\<lparr>mac_id_map := (mac_id_map s)(i := True)\<rparr>));
                  State_Monad.return (of_nat i) } }"

definition rtw_release_macid :: "u8 \<Rightarrow> ('e, 'x, unit) drv" where
  "rtw_release_macid i = dev_upd (\<lambda>s. s\<lparr>mac_id_map := (mac_id_map s)(unat i := False)\<rparr>)"

text \<open>
  Station \<open>i\<close> is already in the list: mac80211 has its record, zeroed when it is new, as the last
  time left it when it is restored after a restart.
\<close>

definition rtw_sta_add :: "nat \<Rightarrow> nat \<Rightarrow> ('e, 'x, int) drv" where
  "rtw_sta_add v i =
     do { si \<leftarrow> dev_get (\<lambda>s. stas s ! i);
          vif \<leftarrow> dev_get (\<lambda>s. vif_tbl s v);
          id \<leftarrow> (if rv_type vif = NL80211_IFTYPE_STATION \<and> \<not> sta_tdls (si_sta si) then State_Monad.return (rv_mac_id vif)
                else rtw_acquire_macid);
          sta_upd i (\<lambda>si. si\<lparr>si_mac_id := id\<rparr>);
          if \<not> (rv_type vif = NL80211_IFTYPE_STATION \<and> \<not> sta_tdls (si_sta si)) \<and> RTW_MAX_MAC_ID_NUM \<le> unat id
          then State_Monad.return (- ENOSPC)
          else do { sta_upd i (\<lambda>si. si\<lparr>si_vif := v, si_init_ra_lv := 1, si_avg_rssi := 0\<rparr>);
                    for_each (si_txq si) rtw_txq_init;
                    rtw_update_sta_info i True;
                    rtw_fw_media_status_report id True;
                    dev_upd (\<lambda>s. s\<lparr>sta_cnt := (sta_cnt s + 1) mod 256, beacon_loss := False\<rparr>);
                    State_Monad.return 0 } }"

definition rtw_sta_remove :: "nat \<Rightarrow> bool \<Rightarrow> ('e, 'x, unit) drv" where
  "rtw_sta_remove i fw_exist =
     do { kcall (KCancelRcWork i);
          si \<leftarrow> dev_get (\<lambda>s. stas s ! i);
          vif \<leftarrow> dev_get (\<lambda>s. vif_tbl s (si_vif si));
          when_do (rv_type vif \<noteq> NL80211_IFTYPE_STATION \<or> sta_tdls (si_sta si)) (rtw_release_macid (si_mac_id si));
          when_do fw_exist (rtw_fw_media_status_report (si_mac_id si) False);
          for_each (si_txq si) rtw_txq_cleanup;
          mask_free (si_mask si);
          dev_upd (\<lambda>s. s\<lparr>sta_cnt := (sta_cnt s + 255) mod 256\<rparr>) }"

definition rtw_sta_rc_work :: "nat \<Rightarrow> ('e, 'x, unit) drv" where
  "rtw_sta_rc_work i = rtw_update_sta_info i True"

text \<open>\<open>ba_session\<close> is \<open>ieee80211_start_tx_ba_session\<close> for a station and a traffic class.\<close>

definition rtw_txq_ba_iter :: "(nat \<Rightarrow> nat \<Rightarrow> int) \<Rightarrow> nat \<Rightarrow> ('e, 'x, unit) drv" where
  "rtw_txq_ba_iter ba_session i =
     do { si \<leftarrow> dev_get (\<lambda>s. stas s ! i);
          for_each (filter (\<lambda>tid. tid \<in> si_tid_ba si) [0..<16]) (\<lambda>tid.
            do { sta_upd i (\<lambda>si. si\<lparr>si_tid_ba := si_tid_ba si - {tid}\<rparr>);
                 kcall (KStartTxBa i tid);
                 when_do (ba_session i tid = - EINVAL)
                   (dev_upd (\<lambda>s. s\<lparr>txq_block_ba := (txq_block_ba s)(si_txq si ! tid := True)\<rparr>)) }) }"

definition rtw_txq_ba_work :: "(nat \<Rightarrow> nat \<Rightarrow> int) \<Rightarrow> ('e, 'x, unit) drv" where
  "rtw_txq_ba_work ba_session =
     do { n \<leftarrow> dev_get (\<lambda>s. length (stas s)); for_each [0..<n] (rtw_txq_ba_iter ba_session) }"

section \<open>Interfaces\<close>

text \<open>\<open>conf\<close> tells whether a BSS configuration is given.\<close>

definition rtw_vif_assoc_changed :: "nat \<Rightarrow> bool \<Rightarrow> ('e, 'x, unit) drv" where
  "rtw_vif_assoc_changed v conf = vif_upd v (\<lambda>r.
     if conf \<and> rv_assoc r then r\<lparr>rv_aid := rv_cfg_aid r, rv_net_type := RTW_NET_MGD_LINKED\<rparr>
     else r\<lparr>rv_aid := 0, rv_net_type := RTW_NET_NO_LINK\<rparr>)"

fun check_sta_active_iter :: "rtw_vif list \<Rightarrow> bool \<Rightarrow> bool" where
  "check_sta_active_iter [] active = active"
| "check_sta_active_iter (r # rs) active = check_sta_active_iter rs
     (if active then True else if rv_type r \<noteq> NL80211_IFTYPE_STATION then False
      else rv_assoc r \<or> \<not> list_all (\<lambda>b. b = 0) (rv_bssid r))"

definition rtw_core_check_sta_active :: "('e, 'x) rtw_drv_scheme \<Rightarrow> bool" where
  "rtw_core_check_sta_active s \<longleftrightarrow> ap_active s \<or> check_sta_active_iter (map (vif_tbl s) (active_vifs s)) False"

definition rtw_core_enable_beacon :: "bool \<Rightarrow> ('e, 'x, unit) drv" where
  "rtw_core_enable_beacon enable =
     do { ap \<leftarrow> dev_get ap_active;
          if \<not> ap then skip
          else if enable then do { rtw_write32_set REG_BCN_CTRL BIT_EN_BCN_FUNCTION; rtw_write8_clr REG_TXPAUSE BIT_HIGH_QUEUE }
          else do { rtw_write32_clr REG_BCN_CTRL BIT_EN_BCN_FUNCTION; rtw_write8_set REG_TXPAUSE BIT_HIGH_QUEUE } }"

definition rtw_set_ampdu_factor :: "('e, 'x) rtw_drv_scheme rtw_drv_ops \<Rightarrow> nat \<Rightarrow> ('e, 'x, unit) drv" where
  "rtw_set_ampdu_factor ops v = (case do_set_ampdu_factor ops of None \<Rightarrow> skip
     | Some set_factor \<Rightarrow>
         do { peer \<leftarrow> dev_get (\<lambda>s. map_option (\<lambda>i. si_sta (stas s ! i)) (rv_peer (vif_tbl s v)));
              case peer of None \<Rightarrow> skip
              | Some sta \<Rightarrow>
                  let factor = (if sta_vht_supported sta then ucast (get_bits (sta_vht_cap sta) (GENMASK 25 23))
                                else if sta_ht_supported sta then sta_ampdu_factor sta else 0xff)
                  in when_do (factor \<noteq> 0xff) (set_factor factor) })"

definition rtw_vif_smps_iter :: "nat \<Rightarrow> ('e, 'x, unit) drv" where
  "rtw_vif_smps_iter v =
     do { r \<leftarrow> dev_get (\<lambda>s. vif_tbl s v);
          one \<leftarrow> dev_get hal_txrx_1ss;
          when_do (rv_type r = NL80211_IFTYPE_STATION \<and> rv_assoc r) (kcall (KRequestSmps v one)) }"

definition rtw_set_txrx_1ss :: "('e, 'x) rtw_drv_scheme rtw_drv_ops \<Rightarrow> bool \<Rightarrow> ('e, 'x, unit) drv" where
  "rtw_set_txrx_1ss ops txrx_1ss =
     do { old \<leftarrow> dev_get hal_txrx_1ss;
          case do_config_txrx_mode ops of None \<Rightarrow> skip
          | Some config \<Rightarrow>
              if old = txrx_1ss then skip
              else do { dev_upd (\<lambda>s. s\<lparr>hal_txrx_1ss := txrx_1ss\<rparr>);
                        tx \<leftarrow> dev_get (\<lambda>s. hal_antenna_tx (hal s));
                        rx \<leftarrow> dev_get (\<lambda>s. hal_antenna_rx (hal s));
                        (if txrx_1ss then config BB_PATH_A BB_PATH_A False else config tx rx False);
                        vs \<leftarrow> dev_get active_vifs;
                        for_each vs rtw_vif_smps_iter } }"

section \<open>The watchdog\<close>

definition rtw_dynamic_csi_rate :: "('e, 'x) rtw_drv_scheme rtw_drv_ops \<Rightarrow> nat \<Rightarrow> ('e, 'x, unit) drv" where
  "rtw_dynamic_csi_rate ops v =
     do { role \<leftarrow> dev_get (\<lambda>s. rv_bfee_role (vif_tbl s v));
          if role \<noteq> RTW_BFEE_SU \<and> role \<noteq> RTW_BFEE_MU then skip
          else do { rssi \<leftarrow> dev_get (\<lambda>s. dm_min_rssi (dm_info s));
                    cur \<leftarrow> dev_get bf_cur_csi_rpt_rate;
                    case do_cfg_csi_rate ops of None \<Rightarrow> set_fault   \<comment> \<open>the result is not initialised\<close>
                    | Some cfg \<Rightarrow> do { new \<leftarrow> cfg rssi cur False;
                                      when_do (new \<noteq> cur) (dev_upd (\<lambda>s. s\<lparr>bf_cur_csi_rpt_rate := new\<rparr>)) } } }"

definition stats_reset :: "rtw_traffic_stats \<Rightarrow> rtw_traffic_stats" where
  "stats_reset t = t\<lparr>ts_tx_unicast := 0, ts_rx_unicast := 0, ts_tx_cnt := 0, ts_rx_cnt := 0\<rparr>"

definition rtw_vif_watch_dog_iter :: "('e, 'x) rtw_drv_scheme rtw_drv_ops \<Rightarrow> nat \<Rightarrow> ('e, 'x, unit) drv" where
  "rtw_vif_watch_dog_iter ops v =
     do { rtw_dynamic_csi_rate ops v; vif_upd v (\<lambda>r. r\<lparr>rv_stats := stats_reset (rv_stats r)\<rparr>) }"

text \<open>The last associated station the iteration meets.\<close>

definition watch_dog_vif :: "('e, 'x) rtw_drv_scheme \<Rightarrow> nat option" where
  "watch_dog_vif s = fold (\<lambda>v found. if rv_type (vif_tbl s v) = NL80211_IFTYPE_STATION \<and> rv_assoc (vif_tbl s v)
     then Some v else found) (active_vifs s) None"

definition expected_beacons :: "u16 \<Rightarrow> int" where
  "expected_beacons beacon_int = (1953 + uint beacon_int - 1) div uint beacon_int"

definition rtw_sw_beacon_loss_check :: "nat option \<Rightarrow> u16 \<Rightarrow> ('e, 'x, unit) drv" where
  "rtw_sw_beacon_loss_check vif received_beacons =
     do { feature \<leftarrow> dev_get fw_feature;
          case vif of None \<Rightarrow> skip
          | Some v \<Rightarrow>
              if rtw_fw_feature_check feature FW_FEATURE_BCN_FILTER then skip
              else do { b \<leftarrow> dev_get (\<lambda>s. rv_beacon_int (vif_tbl s v));
                        if b = 0 then set_fault
                        else dev_upd (\<lambda>s. s\<lparr>beacon_loss := uint received_beacons < expected_beacons b div 2\<rparr>) } }"

abbreviation (input) RTW_LPS_THRESHOLD :: "64 word" where "RTW_LPS_THRESHOLD \<equiv> 50"

text \<open>\<open>tp_read\<close> is \<open>ewma_tp_read\<close> over the samples added so far.\<close>

definition watch_dog_stats :: "(u32 list \<Rightarrow> u32) \<Rightarrow> u32 \<Rightarrow> u32 \<Rightarrow> rtw_traffic_stats \<Rightarrow> rtw_traffic_stats" where
  "watch_dog_stats tp_read tx rx t =
     stats_reset (t\<lparr>ts_tx_ewma_tp := ts_tx_ewma_tp t @ [tx], ts_rx_ewma_tp := ts_rx_ewma_tp t @ [rx],
       ts_tx_throughput := tp_read (ts_tx_ewma_tp t @ [tx]), ts_rx_throughput := tp_read (ts_rx_ewma_tp t @ [rx])\<rparr>)"

definition rtw_watch_dog_work ::
  "('e, 'x) rtw_drv_scheme rtw_drv_ops \<Rightarrow> ('e, 'x) rtw_drv_scheme rtw_dm_ops \<Rightarrow> (u32 list \<Rightarrow> u32) \<Rightarrow> ('e, 'x, unit) drv" where
  "rtw_watch_dog_work ops dmops tp_read =
     do { busy_traffic \<leftarrow> dev_get flag_busy_traffic;
          received_beacons \<leftarrow> dev_get (\<lambda>s. num_bcn_pkt (cur_pkt_count s));
          running \<leftarrow> dev_get flag_running;
          if \<not> running then skip
          else do { kcall KQueueWatchDog;
                    st \<leftarrow> dev_get stats;
                    dev_upd (\<lambda>s. s\<lparr>flag_busy_traffic := ts_tx_cnt st > 100 \<or> ts_rx_cnt st > 100\<rparr>);
                    when_do (busy_traffic \<noteq> (ts_tx_cnt st > 100 \<or> ts_rx_cnt st > 100)) (do_coex ops CoexWlStatusChange);
                    let ps_active = ts_tx_cnt st > RTW_LPS_THRESHOLD \<or> ts_rx_cnt st > RTW_LPS_THRESHOLD;
                        tx_unicast_mbps = ucast (drop_bit 18 (ts_tx_unicast st)) :: u32;
                        rx_unicast_mbps = ucast (drop_bit 18 (ts_rx_unicast st)) :: u32
                    in do { dev_upd (\<lambda>s. s\<lparr>stats := watch_dog_stats tp_read tx_unicast_mbps rx_unicast_mbps (stats s)\<rparr>);
                            scanning \<leftarrow> dev_get rtw_phy.flag_scanning;
                            if scanning then skip
                            else do { rtw_leave_lps ops;
                                      do_coex ops CoexWlStatusCheck;
                                      do_coex ops CoexQueryBtHidList;
                                      do_coex ops CoexActiveQueryBtInfo;
                                      rtw_phy_dynamic_mechanism dmops;
                                      do_dynamic_rx_agg ops (tx_unicast_mbps \<ge> 1 \<or> rx_unicast_mbps \<ge> 1);
                                      vif \<leftarrow> dev_get watch_dog_vif;
                                      vs \<leftarrow> dev_get active_vifs;
                                      for_each vs (rtw_vif_watch_dog_iter ops);
                                      rtw_sw_beacon_loss_check vif received_beacons;
                                      ps \<leftarrow> dev_get ps_enabled;
                                      loss \<leftarrow> dev_get beacon_loss;
                                      ap \<leftarrow> dev_get ap_active;
                                      (case vif of None \<Rightarrow> skip
                                       | Some v \<Rightarrow> when_do (ps \<and> \<not> ps_active \<and> \<not> loss \<and> \<not> ap)
                                           (do { port \<leftarrow> dev_get (\<lambda>s. rv_port (vif_tbl s v)); rtw_enter_lps ops (of_nat port) }));
                                      dev_upd (\<lambda>s. s\<lparr>watch_dog_cnt := watch_dog_cnt s + 1\<rparr>) } } } }"

section \<open>Recovery from a firmware crash\<close>

definition rtw_fw_recovery :: "('e, 'x, unit) drv" where
  "rtw_fw_recovery = do { r \<leftarrow> dev_get flag_restarting; when_do (\<not> r) (kcall KQueueFwRecovery) }"

definition rtw_reset_sta_iter :: "nat \<Rightarrow> ('e, 'x, unit) drv" where
  "rtw_reset_sta_iter i = do { n \<leftarrow> dev_get sta_cnt; if n = 0 then skip else rtw_sta_remove i False }"

definition rtw_reset_vif_iter :: "('e, 'x) rtw_drv_scheme rtw_drv_ops \<Rightarrow> nat \<Rightarrow> ('e, 'x, unit) drv" where
  "rtw_reset_vif_iter ops v =
     do { do_bf_disassoc ops v;
          rtw_vif_assoc_changed v False;
          r \<leftarrow> dev_get (\<lambda>s. vif_tbl s v);
          (case rv_txq r of None \<Rightarrow> skip | Some q \<Rightarrow> rtw_txq_cleanup q);
          rtw_release_macid (rv_mac_id r) }"

text \<open>\<open>crash_dump\<close> collects the memories of the chip for the kernel's core dump; it has no other effect.\<close>

definition fw_recovery_work :: "('e, 'x) rtw_drv_scheme rtw_drv_ops \<Rightarrow> ('e, 'x, unit) drv \<Rightarrow> ('e, 'x, unit) drv" where
  "fw_recovery_work ops crash_dump =
     do { dev_upd (\<lambda>s. s\<lparr>flag_restarting := True\<rparr>);
          dev_upd (\<lambda>s. s\<lparr>flag_restart_triggering := False\<rparr>);
          crash_dump;
          rtw_write8 REG_MCU_TST_CFG 0;
          ks \<leftarrow> dev_get keys;
          for_each ks (\<lambda>k. rtw_sec_clear_cam (key_hw_key_idx k));
          n \<leftarrow> dev_get (\<lambda>s. length (stas s));
          for_each [0..<n] rtw_reset_sta_iter;
          vs \<leftarrow> dev_get active_vifs;
          for_each vs (rtw_reset_vif_iter ops);
          dev_upd (\<lambda>s. s\<lparr>hw_port := \<lambda>_. False\<rparr>);
          _ \<leftarrow> rtw_enter_ips ops;
          skip }"

definition rtw_fw_recovery_work :: "('e, 'x) rtw_drv_scheme rtw_drv_ops \<Rightarrow> ('e, 'x, unit) drv \<Rightarrow> ('e, 'x, unit) drv" where
  "rtw_fw_recovery_work ops crash_dump = do { fw_recovery_work ops crash_dump; kcall KRestartHw }"

end
