(* ===== verification/Tx.thy ===== *)
theory Tx
  imports Sec StaRate TxDesc "HOL-Library.More_List"
begin

text \<open>
  Transmit (\<open>tx.c\<close>): the parameters of the descriptor of a frame, transmit reports, and the queues of
  mac80211. The host interface and mac80211's queues are a record of operations.
\<close>

section \<open>Frames\<close>

text \<open>
  A socket buffer of mac80211 with its \<open>struct ieee80211_tx_info\<close>; \<open>tf_id\<close> names the buffer,
  \<open>tf_ac\<close> is its queue mapping.
\<close>

record tx_frame =
  tf_id :: nat
  tf_data :: "u8 list"
  tf_vif :: "nat option"
  tf_hw_key :: "ieee80211_key_conf option"
  tf_ampdu :: bool
  tf_use_rts :: bool
  tf_req_status :: bool
  tf_priority :: u8
  tf_ac :: nat
  tf_pae :: bool

definition fr_byte :: "u8 list \<Rightarrow> nat \<Rightarrow> u8" where
  "fr_byte d i = nth_default 0 d i"

definition ieee80211_is_mgmt :: "u8 list \<Rightarrow> bool" where
  "ieee80211_is_mgmt d \<longleftrightarrow> fr_byte d 0 AND 0x0c = 0"

definition ieee80211_is_data :: "u8 list \<Rightarrow> bool" where
  "ieee80211_is_data d \<longleftrightarrow> fr_byte d 0 AND 0x0c = 0x08"

definition ieee80211_is_any_nullfunc :: "u8 list \<Rightarrow> bool" where
  "ieee80211_is_any_nullfunc d \<longleftrightarrow> fr_byte d 0 AND 0xfc = 0x48 \<or> fr_byte d 0 AND 0xfc = 0xc8"

text \<open>Broadcast is multicast too: the lowest bit of the first byte of \<open>addr1\<close>.\<close>

definition is_bmc :: "u8 list \<Rightarrow> bool" where
  "is_bmc d \<longleftrightarrow> bit (fr_byte d 4) 0"

section \<open>Rates and security\<close>

definition get_tx_ampdu_factor :: "ieee80211_sta \<Rightarrow> u8" where
  "get_tx_ampdu_factor sta = push_bit (unat (sta_ampdu_factor sta)) (BIT 2) - 1"

definition get_tx_ampdu_density :: "ieee80211_sta \<Rightarrow> u8" where
  "get_tx_ampdu_density sta = sta_ampdu_density sta"

definition get_highest_ht_tx_rate :: "u8 \<Rightarrow> ieee80211_sta \<Rightarrow> u8" where
  "get_highest_ht_tx_rate rf_type sta = (if rf_type = RF_2T2R \<and> sta_ht_rx_mask sta ! 1 \<noteq> 0 then 0x1b else 0x13)"

definition get_highest_vht_tx_rate :: "u8 \<Rightarrow> ieee80211_sta \<Rightarrow> u8" where
  "get_highest_vht_tx_rate nss sta =
     (let tx_mcs_map = sta_vht_tx_mcs_map sta in
      if nss = 1 then
        (if tx_mcs_map AND 0x3 = 0 then 0x33 else if tx_mcs_map AND 0x3 = 1 then 0x34 else 0x35)
      else if nss \<ge> 2 then
        (if drop_bit 2 (tx_mcs_map AND 0xc) = 0 then 0x3d else if drop_bit 2 (tx_mcs_map AND 0xc) = 1 then 0x3e else 0x3f)
      else 0x35)"

definition rtw_get_mgmt_rate :: "tx_frame \<Rightarrow> u8 \<Rightarrow> bool \<Rightarrow> ('e, 'x) rtw_drv_scheme \<Rightarrow> u8" where
  "rtw_get_mgmt_rate f lowest_rate ignore_rate s =
     (case tf_vif f of None \<Rightarrow> lowest_rate
      | Some v \<Rightarrow> if rv_basic_rates (vif_tbl s v) = 0 \<or> ignore_rate \<or> flag_force_lowest_rate s then lowest_rate
                  else of_nat (ffs (rv_basic_rates (vif_tbl s v))) + lowest_rate)"

definition rtw_tx_pkt_info_update_rate ::
  "('e, 'x) rtw_drv_scheme \<Rightarrow> tx_frame \<Rightarrow> bool \<Rightarrow> rtw_tx_pkt_info \<Rightarrow> rtw_tx_pkt_info" where
  "rtw_tx_pkt_info_update_rate s f ignore_rate p =
     (let q = (if hal_current_band_type (hal s) = RTW_BAND_2G
               then p\<lparr>rate_id := RTW_RATEID_B_20M, rate := rtw_get_mgmt_rate f 0 ignore_rate s\<rparr>
               else p\<lparr>rate_id := RTW_RATEID_G, rate := rtw_get_mgmt_rate f 4 ignore_rate s\<rparr>)
      in q\<lparr>use_rate := True, dis_rate_fallback := True\<rparr>)"

abbreviation (input) WLAN_CIPHER_SUITE_WEP40 :: u32 where "WLAN_CIPHER_SUITE_WEP40 \<equiv> 0xfac01"
abbreviation (input) WLAN_CIPHER_SUITE_TKIP :: u32 where "WLAN_CIPHER_SUITE_TKIP \<equiv> 0xfac02"
abbreviation (input) WLAN_CIPHER_SUITE_CCMP :: u32 where "WLAN_CIPHER_SUITE_CCMP \<equiv> 0xfac04"
abbreviation (input) WLAN_CIPHER_SUITE_WEP104 :: u32 where "WLAN_CIPHER_SUITE_WEP104 \<equiv> 0xfac05"

definition rtw_tx_pkt_info_update_sec :: "tx_frame \<Rightarrow> rtw_tx_pkt_info \<Rightarrow> rtw_tx_pkt_info" where
  "rtw_tx_pkt_info_update_sec f p = p\<lparr>sec_type := (case tf_hw_key f of None \<Rightarrow> 0
     | Some key \<Rightarrow> if key_cipher key \<in> {WLAN_CIPHER_SUITE_WEP40, WLAN_CIPHER_SUITE_WEP104, WLAN_CIPHER_SUITE_TKIP} then 1
                   else if key_cipher key = WLAN_CIPHER_SUITE_CCMP then 3 else 0)\<rparr>"

definition rtw_tx_mgmt_pkt_info_update :: "('e, 'x) rtw_drv_scheme \<Rightarrow> tx_frame \<Rightarrow> rtw_tx_pkt_info \<Rightarrow> rtw_tx_pkt_info" where
  "rtw_tx_mgmt_pkt_info_update s f p =
     (rtw_tx_pkt_info_update_rate s f False p)\<lparr>dis_qselseq := True, en_hwseq := True, hw_ssn_sel := 0\<rparr>"

section \<open>Data frames\<close>

definition sta_highest_rate :: "('e, 'x) rtw_drv_scheme \<Rightarrow> ieee80211_sta \<Rightarrow> u8" where
  "sta_highest_rate s sta =
     (if sta_vht_supported sta then get_highest_vht_tx_rate (ef_hw_cap_nss (efuse s)) sta
      else if sta_ht_supported sta then get_highest_ht_tx_rate (hal_rf_type (hal s)) sta
      else if sta_supp_rates_2g sta \<le> 0xf then 0x03 else 0x0b)"

definition seq_of_frame :: "u8 list \<Rightarrow> u16" where
  "seq_of_frame d = drop_bit 4 ((push_bit 8 (ucast (fr_byte d 23)) OR ucast (fr_byte d 22)) AND 0xfff0)"

definition rtw_tx_data_pkt_info_update ::
  "('e, 'x) rtw_drv_scheme \<Rightarrow> rtw_sta_info option \<Rightarrow> tx_frame \<Rightarrow> rtw_tx_pkt_info \<Rightarrow> rtw_tx_pkt_info" where
  "rtw_tx_data_pkt_info_update s peer f p =
     (let p1 = (case peer of
             None \<Rightarrow> p\<lparr>seq := seq_of_frame (tf_data f), ampdu_factor := 0, ampdu_density := 0, ampdu_en := False,
                      rate := 0x04, rate_id := 6, bw := Hal.RTW_CHANNEL_WIDTH_20, stbc := False, ldpc := False\<rparr>
           | Some si \<Rightarrow>
               let sta = si_sta si;
                   p0 = (if tf_use_rts f \<or> rts_threshold s < of_nat (length (tf_data f)) then p\<lparr>rts := True\<rparr> else p)
               in p0\<lparr>seq := seq_of_frame (tf_data f),
                     ampdu_factor := (if tf_ampdu f then get_tx_ampdu_factor sta else 0),
                     ampdu_density := (if tf_ampdu f then get_tx_ampdu_density sta else 0),
                     ampdu_en := tf_ampdu f, rate := sta_highest_rate s sta, rate_id := si_rate_id si, bw := si_bw_mode si,
                     stbc := (if hal_txrx_1ss s then False else si_stbc_en si \<noteq> 0), ldpc := si_ldpc_en si \<noteq> 0\<rparr>);
          p2 = (if tf_pae f then rtw_tx_pkt_info_update_rate s f True p1 else p1)
      in if fix_rate s < 0x54 then p2\<lparr>rate := fix_rate s, dis_rate_fallback := True, use_rate := True\<rparr> else p2)"

section \<open>The parameters of a frame\<close>

definition rtw_tx_stats :: "nat option \<Rightarrow> tx_frame \<Rightarrow> ('e, 'x, unit) drv" where
  "rtw_tx_stats vif f =
     (let n = of_nat (length (tf_data f));
          add = (\<lambda>t. t\<lparr>ts_tx_unicast := ts_tx_unicast t + n, ts_tx_cnt := ts_tx_cnt t + 1\<rparr>)
      in if \<not> ieee80211_is_data (tf_data f) \<or> is_bmc (tf_data f) then skip
         else do { dev_upd (\<lambda>s. s\<lparr>stats := add (stats s)\<rparr>);
                   case vif of None \<Rightarrow> skip | Some v \<Rightarrow> vif_upd v (\<lambda>r. r\<lparr>rv_stats := add (rv_stats r)\<rparr>) })"

text \<open>The number of a report: six bits, shifted by two.\<close>

definition report_sn :: "u32 \<Rightarrow> u8" where
  "report_sn n = ucast (push_bit 2 n) AND 0xfc"

definition rtw_tx_report_enable :: "rtw_tx_pkt_info \<Rightarrow> ('e, 'x, rtw_tx_pkt_info) drv" where
  "rtw_tx_report_enable p =
     do { dev_upd (\<lambda>s. s\<lparr>tx_report_sn := tx_report_sn s + 1\<rparr>);
          n \<leftarrow> dev_get tx_report_sn;
          State_Monad.return (p\<lparr>sn := report_sn n, report := True\<rparr>) }"

definition rtw_tx_pkt_info_update :: "nat option \<Rightarrow> tx_frame \<Rightarrow> ('e, 'x, rtw_tx_pkt_info) drv" where
  "rtw_tx_pkt_info_update sta f =
     do { s \<leftarrow> dev_get (\<lambda>s. s);
          let d = tf_data f; p = pkt_info_zero;
              p1 = (case sta of Some i \<Rightarrow> p\<lparr>mac_id := si_mac_id (stas s ! i)\<rparr>
                    | None \<Rightarrow> (case tf_vif f of Some v \<Rightarrow> p\<lparr>mac_id := rv_mac_id (vif_tbl s v)\<rparr> | None \<Rightarrow> p));
              p2 = (if ieee80211_is_mgmt d \<or> ieee80211_is_any_nullfunc d then rtw_tx_mgmt_pkt_info_update s f p1
                    else if ieee80211_is_data d
                    then rtw_tx_data_pkt_info_update s (map_option (\<lambda>i. stas s ! i) sta) f p1 else p1)
          in do { p3 \<leftarrow> (if tf_req_status f then rtw_tx_report_enable p2 else State_Monad.return p2);
                  let p4 = (rtw_tx_pkt_info_update_sec f (p3\<lparr>bmc := is_bmc d\<rparr>))\<lparr>
                      tx_pkt_size := of_nat (length d), offset := ucast (ci_tx_pkt_desc_sz (chip s)), qsel := tf_priority f, ls := True\<rparr>
                  in do { rtw_tx_stats (tf_vif f) f; State_Monad.return p4 } } }"

section \<open>Reserved pages\<close>

text \<open>The first reserved page gives the position of the TIM element of a beacon.\<close>

definition rtw_tx_rsvd_page_pkt_info_update ::
  "('e, 'x) rtw_drv_scheme \<Rightarrow> tx_frame \<Rightarrow> rtw_rsvd_packet_type \<Rightarrow> rtw_tx_pkt_info" where
  "rtw_tx_rsvd_page_pkt_info_update s f type =
     (let d = tf_data f;
          p1 = (if type \<noteq> RSVD_BEACON \<and> type \<noteq> RSVD_DUMMY then pkt_info_zero\<lparr>qsel := TX_DESC_QSEL_MGMT\<rparr> else pkt_info_zero);
          p2 = (rtw_tx_pkt_info_update_rate s f True p1)\<lparr>bmc := is_bmc d, tx_pkt_size := of_nat (length d),
                  offset := ucast (ci_tx_pkt_desc_sz (chip s)), ls := True\<rparr>;
          p3 = (if type = RSVD_PS_POLL then p2\<lparr>nav_use_hdr := True\<rparr>
                else p2\<lparr>dis_qselseq := True, en_hwseq := True, hw_ssn_sel := 0\<rparr>);
          p4 = (if type = RSVD_QOS_NULL then p3\<lparr>bt_null := True\<rparr> else p3);
          p5 = (if type = RSVD_BEACON then
                  (case rsvd_page_list s of
                     [] \<Rightarrow> p4
                   | i # _ \<Rightarrow> (let o' = rp_tim_offset (the (rsvd_heap s i))
                              in if o' \<noteq> 0 then p4\<lparr>tim_offset := ucast (o' - 24)\<rparr> else p4))
                else p4)
      in rtw_tx_pkt_info_update_sec f p5)"

section \<open>Reports\<close>

definition rtw_tx_report_enqueue :: "nat \<Rightarrow> u8 \<Rightarrow> ('e, 'x, unit) drv" where
  "rtw_tx_report_enqueue fid n =
     do { dev_upd (\<lambda>s. s\<lparr>tx_report_queue := tx_report_queue s @ [(fid, n)]\<rparr>); kcall KModPurgeTimer }"

definition rtw_tx_report_purge_timer :: "('e, 'x, unit) drv" where
  "rtw_tx_report_purge_timer =
     do { q \<leftarrow> dev_get tx_report_queue;
          if q = [] then skip
          else do { for_each q (\<lambda>(fid, _). kcall (KFreeTxSkb fid)); dev_upd (\<lambda>s. s\<lparr>tx_report_queue := []\<rparr>) } }"

text \<open>A byte of a message; reading past its end is recorded as a fault.\<close>

definition payload_byte :: "u8 list \<Rightarrow> nat \<Rightarrow> ('e, 'x, u8) drv" where
  "payload_byte payload i =
     do { when_do (length payload \<le> i) set_fault; State_Monad.return (nth_default 0 payload i) }"

text \<open>\<open>ccx\<close> tells the two formats of a report apart: \<open>C2H_CCX_TX_RPT\<close> and \<open>C2H_CCX_RPT\<close>.\<close>

definition report_fields :: "bool \<Rightarrow> u8 list \<Rightarrow> ('e, 'x, u8 \<times> u8) drv" where
  "report_fields ccx payload =
     do { n \<leftarrow> payload_byte payload (if ccx then 6 else 8);
          st \<leftarrow> payload_byte payload (if ccx then 0 else 9);
          State_Monad.return (n AND 0xfc, st AND 0xc0) }"

fun take_report :: "u8 \<Rightarrow> (nat \<times> u8) list \<Rightarrow> (nat option \<times> (nat \<times> u8) list)" where
  "take_report n [] = (None, [])"
| "take_report n ((fid, m) # q) =
     (if m = n then (Some fid, q) else (case take_report n q of (r, q') \<Rightarrow> (r, (fid, m) # q')))"

definition rtw_tx_report_handle :: "bool \<Rightarrow> u8 list \<Rightarrow> ('e, 'x, unit) drv" where
  "rtw_tx_report_handle ccx payload =
     do { (n, st) \<leftarrow> report_fields ccx payload;
          q \<leftarrow> dev_get tx_report_queue;
          case take_report n q of
            (None, _) \<Rightarrow> skip
          | (Some fid, q') \<Rightarrow> do { dev_upd (\<lambda>s. s\<lparr>tx_report_queue := q'\<rparr>); kcall (KTxStatus fid (st = 0)) } }"

section \<open>Sending\<close>

text \<open>
  What sending uses of its surroundings: \<open>te_write\<close> and \<open>te_kick_off\<close> are of the host interface,
  \<open>te_dequeue\<close> and \<open>te_depth\<close> of mac80211's queues; \<open>te_txq\<close> tells the station and the traffic
  class of a queue.
\<close>

record 's rtw_tx_env =
  te_write :: "rtw_tx_pkt_info \<Rightarrow> tx_frame \<Rightarrow> ('s, int) state"
  te_kick_off :: "('s, unit) state"
  te_dequeue :: "nat \<Rightarrow> ('s, tx_frame option) state"
  te_depth :: "nat \<Rightarrow> ('s, nat) state"
  te_txq :: "nat \<Rightarrow> nat option \<times> nat"

definition rtw_tx :: "('e, 'x) rtw_drv_scheme rtw_tx_env \<Rightarrow> nat option \<Rightarrow> tx_frame \<Rightarrow> ('e, 'x, unit) drv" where
  "rtw_tx env sta f =
     do { p \<leftarrow> rtw_tx_pkt_info_update sta f;
          ret \<leftarrow> te_write env p f;
          if ret \<noteq> 0 then kcall (KFreeTxSkb (tf_id f)) else te_kick_off env }"

definition rtw_txq_check_agg :: "('e, 'x) rtw_drv_scheme rtw_tx_env \<Rightarrow> nat \<Rightarrow> tx_frame \<Rightarrow> ('e, 'x, tx_frame) drv" where
  "rtw_txq_check_agg env q f =
     do { s \<leftarrow> dev_get (\<lambda>s. s);
          if txq_ampdu s q then State_Monad.return (f\<lparr>tf_ampdu := True\<rparr>)
          else if tf_ac f = 0 \<or> txq_block_ba s q \<or> tf_pae f then State_Monad.return f
          else (case fst (te_txq env q) of
                  None \<Rightarrow> State_Monad.return f
                | Some i \<Rightarrow> do { sta_upd i (\<lambda>si. si\<lparr>si_tid_ba := insert (snd (te_txq env q)) (si_tid_ba si)\<rparr>);
                                 kcall KQueueBaWork;
                                 State_Monad.return f }) }"

definition rtw_txq_push_skb :: "('e, 'x) rtw_drv_scheme rtw_tx_env \<Rightarrow> nat \<Rightarrow> tx_frame \<Rightarrow> ('e, 'x, int) drv" where
  "rtw_txq_push_skb env q f =
     do { f' \<leftarrow> rtw_txq_check_agg env q f;
          p \<leftarrow> rtw_tx_pkt_info_update (fst (te_txq env q)) f';
          te_write env p f' }"

fun rtw_txq_push :: "('e, 'x) rtw_drv_scheme rtw_tx_env \<Rightarrow> nat \<Rightarrow> nat \<Rightarrow> ('e, 'x, unit) drv" where
  "rtw_txq_push env q 0 = skip"
| "rtw_txq_push env q (Suc n) =
     do { r \<leftarrow> te_dequeue env q;
          case r of None \<Rightarrow> skip
          | Some f \<Rightarrow> do { ret \<leftarrow> rtw_txq_push_skb env q f;
                           if ret \<noteq> 0 then skip else rtw_txq_push env q n } }"

definition rtw_tx_work :: "('e, 'x) rtw_drv_scheme rtw_tx_env \<Rightarrow> ('e, 'x, unit) drv" where
  "rtw_tx_work env =
     do { qs \<leftarrow> dev_get txqs;
          for_each qs (\<lambda>q. do { n \<leftarrow> te_depth env q;
                               rtw_txq_push env q n;
                               dev_upd (\<lambda>s. s\<lparr>txqs := removeAll q (txqs s)\<rparr>) });
          te_kick_off env }"

section \<open>Which frame a report settles\<close>

lemma bit_report_sn: "bit (report_sn m) i \<longleftrightarrow> 2 \<le> i \<and> i < 8 \<and> bit m (i - 2)"
proof -
  have "(0xfc :: u8) = push_bit 2 (mask 6)" by (simp add: mask_eq_exp_minus_1)
  then have "report_sn m = ucast (push_bit 2 m) AND push_bit 2 (mask 6)" by (simp add: report_sn_def)
  then show ?thesis by (auto simp: bit_simps simp del: push_bit_mask_eq push_bit_numeral dest: bit_imp_le_length)
qed

lemma report_sn_iff: "report_sn m = report_sn n \<longleftrightarrow> take_bit 6 m = take_bit 6 n"
proof
  assume "report_sn m = report_sn n"
  then have "bit m i = bit n i" if "i < 6" for i
    using bit_report_sn [of m "i + 2"] bit_report_sn [of n "i + 2"] that by simp
  then show "take_bit 6 m = take_bit 6 n" by (auto intro!: bit_word_eqI simp: bit_simps)
next
  assume eq: "take_bit 6 m = take_bit 6 n"
  have "bit m i = bit n i" if "i < 6" for i
    using that arg_cong [OF eq, of "\<lambda>w. bit w i"] by (simp add: bit_take_bit_iff)
  then show "report_sn m = report_sn n" by (auto intro!: bit_word_eqI simp: bit_report_sn)
qed

lemma take_bit_word_arith:
  fixes a a' b b' :: u32
  assumes "take_bit 6 a = take_bit 6 a'" and "take_bit 6 b = take_bit 6 b'"
  shows "take_bit 6 (a - b) = take_bit 6 (a' - b')" and "take_bit 6 (a + b) = take_bit 6 (a' + b')"
proof -
  have eq: "uint x mod 64 = uint y mod 64 \<longleftrightarrow> take_bit 6 x = take_bit 6 y" for x y :: u32
    by (simp add: word_uint_eq_iff unsigned_take_bit_eq take_bit_eq_mod [of _ "_ :: int"])
  have m: "uint (x - y) mod 64 = (uint x mod 64 - uint y mod 64) mod 64"
    "uint (x + y) mod 64 = (uint x mod 64 + uint y mod 64) mod 64" for x y :: u32
    by (simp_all add: uint_word_ariths mod_mod_cancel mod_diff_eq mod_add_eq)
  have ab: "uint a mod 64 = uint a' mod 64" "uint b mod 64 = uint b' mod 64"
    using assms by (simp_all only: eq)
  show "take_bit 6 (a - b) = take_bit 6 (a' - b')" "take_bit 6 (a + b) = take_bit 6 (a' + b')"
    by (simp_all only: eq [symmetric] m ab)
qed

lemma report_window:
  assumes "unat (n - k :: u32) < 64" and "unat (n - k') < 64" and "report_sn k = report_sn k'"
  shows "k = k'"
proof -
  have "take_bit 6 (n - k) = take_bit 6 (n - k')"
    using assms(3) unfolding report_sn_iff by (intro take_bit_word_arith(1)) simp_all
  moreover have "take_bit 6 (n - k) = n - k" "take_bit 6 (n - k') = n - k'"
    using assms(1,2) by (simp_all add: word_unat_eq_iff unsigned_take_bit_eq take_bit_nat_eq_self)
  ultimately show ?thesis by simp
qed

lemma take_report_map:
  assumes "distinct (map g ps)" and "(fid, k) \<in> set ps"
    and "\<And>p. p \<in> set ps \<Longrightarrow> report_sn (snd p) = report_sn k \<longleftrightarrow> p = (fid, k)"
  shows "take_report (report_sn k) (map (\<lambda>(i, n). (i, report_sn n)) ps) =
     (Some fid, map (\<lambda>(i, n). (i, report_sn n)) (remove1 (fid, k) ps))"
  using assms(2,3)
proof (induction ps)
  case (Cons p ps)
  obtain i n where p: "p = (i, n)" by (cases p)
  show ?case
  proof (cases "p = (fid, k)")
    case False
    with Cons.prems(2) [of p] p have ne: "report_sn n \<noteq> report_sn k" by simp
    from False Cons.prems have "(fid, k) \<in> set ps" by auto
    with Cons.IH Cons.prems(2) have "take_report (report_sn k) (map (\<lambda>(i, n). (i, report_sn n)) ps) =
        (Some fid, map (\<lambda>(i, n). (i, report_sn n)) (remove1 (fid, k) ps))" by simp
    with ne False show ?thesis unfolding p by auto
  qed (simp add: p)
qed simp

text \<open>
  Property C22. A report settles the frame it is about: when the frames that wait for one are among
  the last 64 that asked for it, the report with the number of one of them gives the status of that
  frame to mac80211 and leaves the others waiting.
\<close>

theorem tx_report_settles:
  fixes s :: "('e, 'x) rtw_drv_scheme"
  assumes "tx_report_queue s = map (\<lambda>(i, n). (i, report_sn n)) ps" and "distinct (map snd ps)"
    and "\<forall>(i, n) \<in> set ps. unat (tx_report_sn s - n) < 64" and "(fid, k) \<in> set ps"
    and "10 \<le> length payload" and "payload ! (if ccx then 6 else 8) AND 0xfc = report_sn k"
  defines "ok \<equiv> payload ! (if ccx then 0 else 9) AND 0xc0 = 0"
  shows "run_state (rtw_tx_report_handle ccx payload) s =
     ((), s\<lparr>tx_report_queue := map (\<lambda>(i, n). (i, report_sn n)) (remove1 (fid, k) ps),
            kcalls := kcalls s @ [KTxStatus fid ok]\<rparr>)"
proof -
  have "report_sn (snd p) = report_sn k \<longleftrightarrow> p = (fid, k)" if "p \<in> set ps" for p
  proof
    assume "report_sn (snd p) = report_sn k"
    with that assms(3,4) have "snd p = k"
      by (intro report_window [of "tx_report_sn s"]) auto
    with that assms(2,4) show "p = (fid, k)"
      by (metis distinct_map inj_onD snd_conv)
  qed simp
  from take_report_map [OF assms(2,4) this]
  have "take_report (report_sn k) (tx_report_queue s) = (Some fid, map (\<lambda>(i, n). (i, report_sn n)) (remove1 (fid, k) ps))"
    unfolding assms(1) by blast
  with assms(5,6) show ?thesis
    by (auto simp: rtw_tx_report_handle_def report_fields_def payload_byte_def nth_default_nth ok_def)
qed

text \<open>Two frames wait; the report of the second, which was not received, comes first.\<close>

lemma tx_report_settles_witness:
  "\<forall>s :: (unit, unit) rtw_drv_scheme.
     kcalls (snd (run_state (rtw_tx_report_handle True [0, 0, 0, 0, 0, 0, 0x08, 0, 0, 0])
       (s\<lparr>tx_report_sn := 2, tx_report_queue := [(5, 4), (6, 8)], kcalls := []\<rparr>))) = [KTxStatus 6 True]"
proof
  fix s :: "(unit, unit) rtw_drv_scheme"
  have sn: "report_sn 1 = 4" "report_sn 2 = 8" by (simp_all add: report_sn_def)
  show "kcalls (snd (run_state (rtw_tx_report_handle True [0, 0, 0, 0, 0, 0, 0x08, 0, 0, 0])
       (s\<lparr>tx_report_sn := 2, tx_report_queue := [(5, 4), (6, 8)], kcalls := []\<rparr>))) = [KTxStatus 6 True]"
    by (subst tx_report_settles [where ps = "[(5, 1), (6, 2)]" and fid = 6 and k = 2]) (simp_all add: sn)
qed

text \<open>
  A frame whose report is lost stays in the queue as long as other frames keep the timer from
  expiring; the report of the frame 64 reports later then settles the lost one instead.
\<close>

lemma tx_report_stale:
  "take_report (report_sn (k + 64)) [(old, report_sn k), (new, report_sn (k + 64))] = (Some old, [(new, report_sn (k + 64))])"
proof -
  have "take_bit 6 (k + 64) = take_bit 6 k"
    using take_bit_word_arith(2) [of k k 64 0] by simp
  then have "report_sn k = report_sn (k + 64)" by (simp add: report_sn_iff)
  then show ?thesis by simp
qed

end
