(* ===== verification/Rsvd.thy ===== *)
theory Rsvd
  imports Core Tx
begin

text \<open>
  Reserved pages (\<open>fw.c\<close>): packets the firmware sends by itself (beacon, null data, probe requests) or
  reads as data. Each interface has a list of the packets it needs; building gathers them in one
  buffer that is downloaded to the end of the chip's transmit buffer, a packet per page or more.
\<close>

section \<open>Objects\<close>

text \<open>
  A packet is an object on the list of its interface and perhaps on the build list. Touching one
  that has been freed, or linking one in twice, is recorded as a fault.
\<close>

definition rp_get :: "nat \<Rightarrow> ('e, 'x, rtw_rsvd_page) drv" where
  "rp_get i = do { h \<leftarrow> dev_get rsvd_heap; when_do (h i = None) set_fault; State_Monad.return (the (h i)) }"

definition rp_upd :: "nat \<Rightarrow> (rtw_rsvd_page \<Rightarrow> rtw_rsvd_page) \<Rightarrow> ('e, 'x, unit) drv" where
  "rp_upd i f = do { p \<leftarrow> rp_get i; dev_upd (\<lambda>s. s\<lparr>rsvd_heap := (rsvd_heap s)(i \<mapsto> f p)\<rparr>) }"

definition rp_free :: "nat \<Rightarrow> ('e, 'x, unit) drv" where
  "rp_free i = do { _ \<leftarrow> rp_get i; dev_upd (\<lambda>s. s\<lparr>rsvd_heap := (rsvd_heap s)(i := None)\<rparr>) }"

definition rtw_alloc_rsvd_page :: "rtw_rsvd_packet_type \<Rightarrow> bool \<Rightarrow> ('e, 'x, nat option) drv" where
  "rtw_alloc_rsvd_page type txdesc =
     do { ok \<leftarrow> try_alloc;
          if \<not> ok then State_Monad.return None
          else do { i \<leftarrow> dev_get rsvd_next;
                    dev_upd (\<lambda>s. s\<lparr>rsvd_heap := (rsvd_heap s)(i \<mapsto>
                        \<lparr>rp_vif = None, rp_type = type, rp_page = 0, rp_tim_offset = 0, rp_add_txdesc = txdesc,
                         rp_ssid = None, rp_probe_req_size = 0, rp_skb = None\<rparr>), rsvd_next := Suc i\<rparr>);
                    State_Monad.return (Some i) } }"

definition rtw_insert_rsvd_page :: "nat \<Rightarrow> nat \<Rightarrow> ('e, 'x, unit) drv" where
  "rtw_insert_rsvd_page v i = vif_upd v (\<lambda>r. r\<lparr>rv_rsvd_pages := rv_rsvd_pages r @ [i]\<rparr>)"

definition rtw_add_rsvd_page :: "nat \<Rightarrow> rtw_rsvd_packet_type \<Rightarrow> bool \<Rightarrow> ('e, 'x, unit) drv" where
  "rtw_add_rsvd_page v type txdesc =
     do { r \<leftarrow> rtw_alloc_rsvd_page type txdesc;
          case r of None \<Rightarrow> skip
          | Some i \<Rightarrow> do { rp_upd i (\<lambda>p. p\<lparr>rp_vif := Some v\<rparr>); rtw_insert_rsvd_page v i } }"

definition rtw_add_rsvd_page_probe_req :: "nat \<Rightarrow> cfg80211_ssid option \<Rightarrow> ('e, 'x, unit) drv" where
  "rtw_add_rsvd_page_probe_req v ssid =
     do { r \<leftarrow> rtw_alloc_rsvd_page RSVD_PROBE_REQ True;
          case r of None \<Rightarrow> skip
          | Some i \<Rightarrow> do { rp_upd i (\<lambda>p. p\<lparr>rp_vif := Some v, rp_ssid := ssid\<rparr>); rtw_insert_rsvd_page v i } }"

definition rtw_remove_rsvd_page :: "nat \<Rightarrow> ('e, 'x, unit) drv" where
  "rtw_remove_rsvd_page v =
     do { is \<leftarrow> dev_get (\<lambda>s. rv_rsvd_pages (vif_tbl s v));
          for_each is (\<lambda>i.
            do { vif_upd v (\<lambda>r. r\<lparr>rv_rsvd_pages := remove1 i (rv_rsvd_pages r)\<rparr>);
                 dev_upd (\<lambda>s. s\<lparr>rsvd_page_list := remove1 i (rsvd_page_list s)\<rparr>);
                 rp_free i }) }"

definition rtw_add_rsvd_page_bcn :: "nat \<Rightarrow> ('e, 'x, unit) drv" where
  "rtw_add_rsvd_page_bcn v =
     do { t \<leftarrow> dev_get (\<lambda>s. rv_type (vif_tbl s v));
          if t \<noteq> NL80211_IFTYPE_AP \<and> t \<noteq> NL80211_IFTYPE_ADHOC \<and> t \<noteq> NL80211_IFTYPE_MESH_POINT then skip
          else rtw_add_rsvd_page v RSVD_BEACON False }"

definition rtw_add_rsvd_page_pno :: "nat \<Rightarrow> ('e, 'x, unit) drv" where
  "rtw_add_rsvd_page_pno v =
     do { t \<leftarrow> dev_get (\<lambda>s. rv_type (vif_tbl s v));
          if t \<noteq> NL80211_IFTYPE_STATION then skip
          else do { sets \<leftarrow> dev_get (\<lambda>s. pno_match_sets (wow_pno_req (wow s)));
                    for_each sets (\<lambda>ssid. rtw_add_rsvd_page_probe_req v (Some ssid));
                    rtw_add_rsvd_page_probe_req v None;
                    rtw_add_rsvd_page v RSVD_NLO_INFO False;
                    rtw_add_rsvd_page v RSVD_CH_INFO True } }"

definition rtw_add_rsvd_page_sta :: "nat \<Rightarrow> ('e, 'x, unit) drv" where
  "rtw_add_rsvd_page_sta v =
     do { t \<leftarrow> dev_get (\<lambda>s. rv_type (vif_tbl s v));
          if t \<noteq> NL80211_IFTYPE_STATION then skip
          else do { rtw_add_rsvd_page v RSVD_PS_POLL True;
                    rtw_add_rsvd_page v RSVD_QOS_NULL True;
                    rtw_add_rsvd_page v RSVD_NULL True;
                    rtw_add_rsvd_page v RSVD_LPS_PG_DPK True;
                    rtw_add_rsvd_page v RSVD_LPS_PG_INFO True } }"

section \<open>Contents\<close>

definition bytes_of :: "nat \<Rightarrow> u8 list \<Rightarrow> u8 list" where
  "bytes_of n b = take n (b @ replicate n 0)"

text \<open>\<open>struct rtw_nlo_info_hdr\<close> has room for the locations of eight networks.\<close>

definition nlo_info_hdr :: "cfg80211_ssid list \<Rightarrow> u8 list \<Rightarrow> u8 list" where
  "nlo_info_hdr sets locs =
     [of_nat (length sets), of_nat (length sets), 0, 0] @ replicate 4 0xA5 @ replicate 8 0 @
     bytes_of 16 (map (\<lambda>ssid. of_nat (length ssid)) sets) @ replicate 16 0 @ replicate 16 0 @ bytes_of 8 locs"

definition rtw_nlo_info_get :: "('e, 'x, u8 list option) drv" where
  "rtw_nlo_info_get =
     do { s \<leftarrow> dev_get (\<lambda>s. s);
          let req = wow_pno_req (wow s); sets = pno_match_sets req;
              locs = map (\<lambda>ssid. rtw_get_rsvd_page_probe_req_location (Some ssid) (build_list s)) sets
          in if \<not> pno_inited req \<or> sets = [] then State_Monad.return None
             else do { ok \<leftarrow> try_alloc;
                       if \<not> ok then State_Monad.return None
                       else do { when_do (8 < length sets) set_fault;
                                 State_Monad.return (if 0 \<in> set locs then None
                                   else Some (nlo_info_hdr sets locs @ concat (map (bytes_of 32) sets))) } } }"

definition cs_channel_info :: "ieee80211_channel \<Rightarrow> u8 list" where
  "cs_channel_info c = set_fields
     [CHSW_INFO_SET_CH (ucast (ch_hw_value c)), CHSW_INFO_SET_ACTION_ID (if ch_radar c then 0 else 1),
      CHSW_INFO_SET_TIMEOUT 1, CHSW_INFO_SET_PRI_CH_IDX 1, CHSW_INFO_SET_BW 0] (replicate 4 0)"

definition rtw_cs_channel_info_get :: "('e, 'x, u8 list option) drv" where
  "rtw_cs_channel_info_get =
     do { channels \<leftarrow> dev_get (\<lambda>s. pno_channels (wow_pno_req (wow s)));
          ok \<leftarrow> try_alloc;
          State_Monad.return (if ok then Some (concat (map cs_channel_info channels)) else None) }"

definition rtw_lps_pg_dpk_get :: "('e, 'x, u8 list option) drv" where
  "rtw_lps_pg_dpk_get =
     do { d \<leftarrow> dev_get dpk_info;
          ok \<leftarrow> try_alloc;
          State_Monad.return (if ok
            then Some ([dpk_path_ok0 d, 0] @ bytes_of 2 (dpk_txagc d) @ bytes_of 4 (dpk_gs d) @
                       bytes_of 160 (dpk_coef d) @ [dpk_ch d])
            else None) }"

definition rtw_lps_pg_info_get :: "('e, 'x, u8 list option) drv" where
  "rtw_lps_pg_info_get =
     do { ok \<leftarrow> try_alloc;
          if \<not> ok then State_Monad.return None
          else do { s \<leftarrow> dev_get (\<lambda>s. s);
                    let cams = rtw_sec_cam_pg_backup (sec s); patterns = wow_pattern_cnt (wow s)
                    in do { lps_upd (\<lambda>c. c\<lparr>lps_sec_cam_backup := cams \<noteq> [], lps_pattern_cam_backup := patterns \<noteq> 0\<rparr>);
                            State_Monad.return (Some
                              ([of_nat (find_next (mac_id_map s) RTW_MAX_MAC_ID_NUM 0), 0, patterns, 0,
                                of_nat (length cams), ucast (rsvd_drv_pg_num (fifo s)), 0, 0] @
                               bytes_of 8 (map of_nat cams))) } } }"

text \<open>The byte of a dummy packet is not initialised; it is 0 here.\<close>

definition rtw_get_rsvd_page_skb :: "nat \<Rightarrow> ('e, 'x, u8 list option) drv" where
  "rtw_get_rsvd_page_skb i =
     do { p \<leftarrow> rp_get i;
          if rp_type p = RSVD_DUMMY
          then do { ok \<leftarrow> try_alloc; State_Monad.return (if ok then Some [0] else None) }
          else (case rp_vif p of None \<Rightarrow> State_Monad.return None
            | Some v \<Rightarrow> (case rp_type p of
                RSVD_BEACON \<Rightarrow> do { r \<leftarrow> get_frame (FrBeacon v);
                  rp_upd i (\<lambda>p. p\<lparr>rp_tim_offset := (case r of None \<Rightarrow> 0 | Some (_, t) \<Rightarrow> t)\<rparr>);
                  State_Monad.return (map_option fst r) }
              | RSVD_PS_POLL \<Rightarrow> do { r \<leftarrow> get_frame (FrPspoll v); State_Monad.return (map_option fst r) }
              | RSVD_PROBE_RESP \<Rightarrow> do { r \<leftarrow> get_frame (FrProbeResp v); State_Monad.return (map_option fst r) }
              | RSVD_NULL \<Rightarrow> do { r \<leftarrow> get_frame (FrNullfunc v False); State_Monad.return (map_option fst r) }
              | RSVD_QOS_NULL \<Rightarrow> do { r \<leftarrow> get_frame (FrNullfunc v True); State_Monad.return (map_option fst r) }
              | RSVD_LPS_PG_DPK \<Rightarrow> rtw_lps_pg_dpk_get
              | RSVD_LPS_PG_INFO \<Rightarrow> rtw_lps_pg_info_get
              | RSVD_PROBE_REQ \<Rightarrow> do { addr \<leftarrow> dev_get (\<lambda>s. rv_addr (vif_tbl s v));
                  r \<leftarrow> get_frame (FrProbeReq addr (rp_ssid p) 0);
                  (case r of None \<Rightarrow> skip
                   | Some (d, _) \<Rightarrow> rp_upd i (\<lambda>p. p\<lparr>rp_probe_req_size := of_nat (length d)\<rparr>));
                  State_Monad.return (map_option fst r) }
              | RSVD_NLO_INFO \<Rightarrow> rtw_nlo_info_get
              | RSVD_CH_INFO \<Rightarrow> rtw_cs_channel_info_get
              | RSVD_DUMMY \<Rightarrow> State_Monad.return None)) }"

text \<open>The frames that get a descriptor carry no information of mac80211: their \<open>cb\<close> is zero.\<close>

definition plain_frame :: "u8 list \<Rightarrow> tx_frame" where
  "plain_frame d = \<lparr>tf_id = 0, tf_data = d, tf_vif = None, tf_hw_key = None, tf_ampdu = False, tf_use_rts = False,
     tf_req_status = False, tf_priority = 0, tf_ac = 0, tf_pae = False\<rparr>"

definition rtw_fill_rsvd_page_desc :: "('e, 'x) rtw_drv_scheme \<Rightarrow> u8 list \<Rightarrow> rtw_rsvd_packet_type \<Rightarrow> u8 list" where
  "rtw_fill_rsvd_page_desc s d type =
     bytes_of (unat (ci_tx_pkt_desc_sz (chip s)))
       (concat (map (le_bytes 4) (desc_words (rtw_tx_fill_tx_desc (cd_old_datarate_fb_limit (chip_drv s))
          (rtw_tx_rsvd_page_pkt_info_update s (plain_frame d) type) tx_desc_zero)))) @ d"

section \<open>Building\<close>

definition rtw_len_to_page :: "nat \<Rightarrow> u16 \<Rightarrow> u8" where
  "rtw_len_to_page len' page_size = of_nat ((len' + unat page_size - 1) div unat page_size)"

definition build_rsvd_page_reset :: "('e, 'x, unit) drv" where
  "build_rsvd_page_reset =
     do { is \<leftarrow> dev_get rsvd_page_list;
          for_each is (\<lambda>i. do { p \<leftarrow> rp_get i;
                                dev_upd (\<lambda>s. s\<lparr>rsvd_page_list := remove1 i (rsvd_page_list s)\<rparr>);
                                when_do (rp_type p = RSVD_DUMMY) (rp_free i) }) }"

definition rtw_build_rsvd_page_iter :: "nat \<Rightarrow> ('e, 'x, unit) drv" where
  "rtw_build_rsvd_page_iter v =
     do { r \<leftarrow> dev_get (\<lambda>s. vif_tbl s v);
          ap \<leftarrow> dev_get ap_active;
          if rv_type r = NL80211_IFTYPE_AP \<and> \<not> ap then skip
          else for_each (rv_rsvd_pages r) (\<lambda>i.
            do { p \<leftarrow> rp_get i;
                 is \<leftarrow> dev_get rsvd_page_list;
                 when_do (i \<in> set is) set_fault;
                 dev_upd (\<lambda>s. s\<lparr>rsvd_page_list := (if rp_type p = RSVD_BEACON then i # rsvd_page_list s
                                                  else rsvd_page_list s @ [i])\<rparr>) }) }"

definition build_rsvd_page_from_vifs :: "('e, 'x, int) drv" where
  "build_rsvd_page_from_vifs =
     do { build_rsvd_page_reset;
          vs \<leftarrow> dev_get active_vifs;
          for_each vs rtw_build_rsvd_page_iter;
          is \<leftarrow> dev_get rsvd_page_list;
          case is of [] \<Rightarrow> State_Monad.return (- EINVAL)
          | i # _ \<Rightarrow>
              do { p \<leftarrow> rp_get i;
                   if rp_type p = RSVD_BEACON then State_Monad.return 0
                   else do { r \<leftarrow> rtw_alloc_rsvd_page RSVD_DUMMY False;
                             case r of None \<Rightarrow> State_Monad.return (- ENOMEM)
                             | Some j \<Rightarrow> do { dev_upd (\<lambda>s. s\<lparr>rsvd_page_list := j # rsvd_page_list s\<rparr>);
                                             State_Monad.return 0 } } } }"

text \<open>The first loop gets the packets and numbers their pages; no result means \<open>goto release_skb\<close>.\<close>

fun rsvd_fetch :: "nat list \<Rightarrow> u8 \<Rightarrow> ('e, 'x, u8 option) drv" where
  "rsvd_fetch [] total_page = State_Monad.return (Some total_page)"
| "rsvd_fetch (i # is) total_page =
     do { r \<leftarrow> rtw_get_rsvd_page_skb i;
          case r of None \<Rightarrow> State_Monad.return None
          | Some d \<Rightarrow>
              do { p \<leftarrow> rp_get i;
                   s \<leftarrow> dev_get (\<lambda>s. s);
                   let iter = (if rp_add_txdesc p then rtw_fill_rsvd_page_desc s d (rp_type p) else d);
                       extra = (if total_page = 0 then unat (ci_tx_pkt_desc_sz (chip s)) else 0)
                   in do { rp_upd i (\<lambda>p. p\<lparr>rp_skb := Some iter, rp_page := total_page\<rparr>);
                           if total_page = 0 \<and> rp_type p \<noteq> RSVD_BEACON \<and> rp_type p \<noteq> RSVD_DUMMY
                           then State_Monad.return None
                           else rsvd_fetch is (total_page + rtw_len_to_page (length iter + extra) (ci_page_size (chip s))) } } }"

definition list_store :: "nat \<Rightarrow> 'a list \<Rightarrow> 'a list \<Rightarrow> 'a list" where
  "list_store off d buf = take off buf @ d @ drop (off + length d) buf"

definition rtw_rsvd_page_list_to_buf :: "u16 \<Rightarrow> u16 \<Rightarrow> u32 \<Rightarrow> u8 list \<Rightarrow> nat \<Rightarrow> ('e, 'x, u8 list) drv" where
  "rtw_rsvd_page_list_to_buf page_size page_margin page buf i =
     do { p \<leftarrow> rp_get i;
          let d = the (rp_skb p);
              off = (if page \<ge> 1 then unat page_margin + unat page_size * unat (page - 1) else 0)
          in do { when_do (rp_skb p = None \<or> length buf < off + length d) set_fault;
                  State_Monad.return (list_store off d buf) } }"

fun rsvd_copy :: "u16 \<Rightarrow> u16 \<Rightarrow> nat list \<Rightarrow> u32 \<Rightarrow> u8 list \<Rightarrow> ('e, 'x, u8 list) drv" where
  "rsvd_copy page_size tx_desc_sz [] page buf = State_Monad.return buf"
| "rsvd_copy page_size tx_desc_sz (i # is) page buf =
     do { buf' \<leftarrow> rtw_rsvd_page_list_to_buf page_size (page_size - tx_desc_sz) page buf i;
          p \<leftarrow> rp_get i;
          rp_upd i (\<lambda>p. p\<lparr>rp_skb := None\<rparr>);
          rsvd_copy page_size tx_desc_sz is
            (page + ucast (rtw_len_to_page (length (the (rp_skb p)) + (if page = 0 then unat tx_desc_sz else 0)) page_size)) buf' }"

definition release_skbs :: "('e, 'x, unit) drv" where
  "release_skbs = do { is \<leftarrow> dev_get rsvd_page_list; for_each is (\<lambda>i. rp_upd i (\<lambda>p. p\<lparr>rp_skb := None\<rparr>)) }"

definition rtw_build_rsvd_page :: "('e, 'x, u8 list option) drv" where
  "rtw_build_rsvd_page =
     do { page_size \<leftarrow> dev_get (\<lambda>s. ci_page_size (chip s));
          tx_desc_sz \<leftarrow> dev_get (\<lambda>s. ucast (ci_tx_pkt_desc_sz (chip s)) :: u16);
          ret \<leftarrow> build_rsvd_page_from_vifs;
          if ret \<noteq> 0 then State_Monad.return None
          else do { is \<leftarrow> dev_get rsvd_page_list;
                    r \<leftarrow> rsvd_fetch is 0;
                    limit \<leftarrow> dev_get (\<lambda>s. rsvd_drv_pg_num (fifo s));
                    case r of None \<Rightarrow> do { release_skbs; State_Monad.return None }
                    | Some total_page \<Rightarrow>
                        if limit < ucast total_page then do { release_skbs; State_Monad.return None }
                        else do { ok \<leftarrow> try_alloc;
                                  if \<not> ok then do { release_skbs; State_Monad.return None }
                                  else let sz = (ucast total_page - 1) * ucast page_size + ucast (page_size - tx_desc_sz) :: u32
                                       in do { buf \<leftarrow> rsvd_copy page_size tx_desc_sz is 0 (replicate (unat sz) 0);
                                               State_Monad.return (Some buf) } } } }"

section \<open>Downloading\<close>

definition rtw_download_drv_rsvd_page :: "('e, 'x) rtw_drv_scheme rtw_drv_ops \<Rightarrow> u8 list \<Rightarrow> ('e, 'x, int) drv" where
  "rtw_download_drv_rsvd_page ops buf =
     do { s \<leftarrow> dev_get (\<lambda>s. s);
          let sz = of_nat (length buf) :: u32; pg_size = ucast (ci_page_size (chip s)) :: u32;
              pg_num = sz div pg_size + (if sz AND (pg_size - 1) \<noteq> 0 then 1 else 0)
          in if pg_num > ucast (rsvd_drv_pg_num (fifo s)) then State_Monad.return (- ENOMEM)
             else rtw_fw_write_data_rsvd_page (do_write_data_rsvd_page ops) (rsvd_drv_addr (fifo s)) buf }"

definition rtw_download_beacon :: "('e, 'x) rtw_drv_scheme rtw_drv_ops \<Rightarrow> ('e, 'x, int) drv" where
  "rtw_download_beacon ops =
     do { is \<leftarrow> dev_get rsvd_page_list;
          case is of [] \<Rightarrow> State_Monad.return (- ENOENT)
          | i # _ \<Rightarrow>
              do { p \<leftarrow> rp_get i;
                   if rp_type p \<noteq> RSVD_BEACON \<and> rp_type p \<noteq> RSVD_DUMMY then State_Monad.return (- EINVAL)
                   else do { r \<leftarrow> rtw_get_rsvd_page_skb i;
                             case r of None \<Rightarrow> State_Monad.return (- ENOMEM)
                             | Some d \<Rightarrow> rtw_download_drv_rsvd_page ops d } } }"

definition rtw_fw_download_rsvd_page :: "('e, 'x) rtw_drv_scheme rtw_drv_ops \<Rightarrow> ('e, 'x, int) drv" where
  "rtw_fw_download_rsvd_page ops =
     do { r \<leftarrow> rtw_build_rsvd_page;
          case r of None \<Rightarrow> State_Monad.return (- ENOMEM)
          | Some buf \<Rightarrow>
              do { ret \<leftarrow> rtw_download_drv_rsvd_page ops buf;
                   if ret \<noteq> 0 then State_Monad.return ret else rtw_download_beacon ops } }"

definition rtw_fw_update_beacon_work :: "('e, 'x) rtw_drv_scheme rtw_drv_ops \<Rightarrow> ('e, 'x, unit) drv" where
  "rtw_fw_update_beacon_work ops = do { _ \<leftarrow> rtw_fw_download_rsvd_page ops; rtw_send_rsvd_page_h2c }"

end
