(* ===== verification/RsvdProps.thy ===== *)
theory RsvdProps
  imports Rsvd
begin

text \<open>
  Reserved pages: no packet is used after it is freed, none is leaked, and every packet of a build lies where the
  driver tells the firmware it does.
\<close>

section \<open>Who holds a packet\<close>

text \<open>
  Each packet of an interface is alive, names it and is on its list once; the build list holds live
  packets, each once; numbers of packets are not reused.
\<close>

definition rsvd_inv :: "('e, 'x) rtw_drv_scheme \<Rightarrow> bool" where
  "rsvd_inv s \<longleftrightarrow> (\<forall>v. distinct (rv_rsvd_pages (vif_tbl s v)))
     \<and> (\<forall>v. \<forall>i \<in> set (rv_rsvd_pages (vif_tbl s v)).
          \<exists>p. rsvd_heap s i = Some p \<and> rp_vif p = Some v \<and> rp_type p \<noteq> RSVD_DUMMY)
     \<and> distinct (rsvd_page_list s) \<and> set (rsvd_page_list s) \<subseteq> dom (rsvd_heap s)
     \<and> (\<forall>i \<in> dom (rsvd_heap s). i < rsvd_next s) \<and> distinct (active_vifs s)"

definition rsvd_ok :: "('e, 'x) rtw_drv_scheme \<Rightarrow> bool" where
  "rsvd_ok s \<longleftrightarrow> rsvd_inv s \<and> \<not> fault s"

text \<open>
  And the other way round, nothing is leaked: a live packet that names an interface is on the list of
  that interface (from which its removal frees it), and any other is a dummy on the build list (from
  which the next build frees it).
\<close>

definition rsvd_owned :: "('e, 'x) rtw_drv_scheme \<Rightarrow> bool" where
  "rsvd_owned s \<longleftrightarrow> (\<forall>i p. rsvd_heap s i = Some p \<longrightarrow>
     (\<forall>v. rp_vif p = Some v \<longrightarrow> i \<in> set (rv_rsvd_pages (vif_tbl s v)))
     \<and> (rp_vif p = None \<longrightarrow> rp_type p = RSVD_DUMMY \<and> i \<in> set (rsvd_page_list s)))"

definition rsvd_sound :: "('e, 'x) rtw_drv_scheme \<Rightarrow> bool" where
  "rsvd_sound s \<longleftrightarrow> rsvd_ok s \<and> rsvd_owned s"

lemma rsvd_ownedE:
  assumes "rsvd_owned s" and "rsvd_heap s i = Some p"
  obtains (vif) v where "rp_vif p = Some v" "i \<in> set (rv_rsvd_pages (vif_tbl s v))"
    | (dummy) "rp_vif p = None" "rp_type p = RSVD_DUMMY" "i \<in> set (rsvd_page_list s)"
  using assms by (cases "rp_vif p") (auto simp: rsvd_owned_def)

lemma run_rp:
  assumes "rsvd_heap s i = Some p"
  shows "run_state (rp_get i) s = (p, s)"
    and "run_state (rp_upd i f) s = ((), s\<lparr>rsvd_heap := (rsvd_heap s)(i \<mapsto> f p)\<rparr>)"
    and "run_state (rp_free i) s = ((), s\<lparr>rsvd_heap := (rsvd_heap s)(i := None)\<rparr>)"
  using assms by (simp_all add: rp_get_def rp_upd_def rp_free_def)

lemma run_rtw_alloc_rsvd_page:
  "run_state (rtw_alloc_rsvd_page type txdesc) s =
     (if alloc_ok s (alloc_cnt s)
      then (Some (rsvd_next s), s\<lparr>alloc_cnt := Suc (alloc_cnt s), rsvd_heap := (rsvd_heap s)(rsvd_next s \<mapsto>
              \<lparr>rp_vif = None, rp_type = type, rp_page = 0, rp_tim_offset = 0, rp_add_txdesc = txdesc,
               rp_ssid = None, rp_probe_req_size = 0, rp_skb = None\<rparr>), rsvd_next := Suc (rsvd_next s)\<rparr>)
      else (None, s\<lparr>alloc_cnt := Suc (alloc_cnt s)\<rparr>))"
  by (simp add: rtw_alloc_rsvd_page_def)

lemma rsvd_ok_alloc_cnt [simp]: "rsvd_ok (s\<lparr>alloc_cnt := n\<rparr>) = rsvd_ok s"
  by (simp add: rsvd_ok_def rsvd_inv_def)

lemma rsvd_owned_alloc_cnt [simp]: "rsvd_owned (s\<lparr>alloc_cnt := n\<rparr>) = rsvd_owned s"
  by (simp add: rsvd_owned_def)

text \<open>A new packet of an interface.\<close>

lemma rsvd_ok_add:
  assumes ok: "rsvd_ok s" and p: "rp_vif p = Some v" "rp_type p \<noteq> RSVD_DUMMY"
  shows "rsvd_ok (s\<lparr>rsvd_next := Suc (rsvd_next s), rsvd_heap := (rsvd_heap s)(rsvd_next s \<mapsto> p),
      vif_tbl := (vif_tbl s)(v := (vif_tbl s v)\<lparr>rv_rsvd_pages := rv_rsvd_pages (vif_tbl s v) @ [rsvd_next s]\<rparr>)\<rparr>)"
proof -
  have new: "rsvd_heap s (rsvd_next s) = None"
    using ok by (auto simp: rsvd_ok_def rsvd_inv_def dom_def)
  have "rsvd_next s \<notin> set (rv_rsvd_pages (vif_tbl s w))" for w
    using ok new by (force simp: rsvd_ok_def rsvd_inv_def)
  with ok new p show ?thesis
    unfolding rsvd_ok_def rsvd_inv_def by (auto simp: less_Suc_eq)
qed

lemma rsvd_owned_add:
  assumes "rsvd_owned s" and "rp_vif p = Some v"
  shows "rsvd_owned (s\<lparr>rsvd_next := Suc (rsvd_next s), rsvd_heap := (rsvd_heap s)(rsvd_next s \<mapsto> p),
      vif_tbl := (vif_tbl s)(v := (vif_tbl s v)\<lparr>rv_rsvd_pages := rv_rsvd_pages (vif_tbl s v) @ [rsvd_next s]\<rparr>)\<rparr>)"
  using assms by (auto simp: rsvd_owned_def)

lemma rsvd_sound_add_pages:
  assumes "rsvd_sound s"
  shows "type \<noteq> RSVD_DUMMY \<Longrightarrow> rsvd_sound (snd (run_state (rtw_add_rsvd_page v type txdesc) s))"
    and "rsvd_sound (snd (run_state (rtw_add_rsvd_page_probe_req v ssid) s))"
  using assms rsvd_ok_add [where s = "s\<lparr>alloc_cnt := Suc (alloc_cnt s)\<rparr>" and v = v]
    rsvd_owned_add [where s = "s\<lparr>alloc_cnt := Suc (alloc_cnt s)\<rparr>" and v = v]
  by (auto simp: rsvd_sound_def rtw_add_rsvd_page_def rtw_add_rsvd_page_probe_req_def run_rtw_alloc_rsvd_page run_rp
      rtw_insert_rsvd_page_def)

text \<open>What a routine needs and keeps: \<open>rsvd_sound\<close> as a frame of its own.\<close>

definition keeps_rsvd :: "(('e, 'x) rtw_drv_scheme, 'a) state \<Rightarrow> bool" where
  "keeps_rsvd m \<longleftrightarrow> (\<forall>s. rsvd_sound s \<longrightarrow> rsvd_sound (snd (run_state m s)))"

lemma keeps_rsvd_frame: "step_frame (\<lambda>s s' :: ('e, 'x) rtw_drv_scheme. rsvd_sound s \<longrightarrow> rsvd_sound s')"
  by unfold_locales simp_all

interpretation keeps_rsvd: step_frame "\<lambda>s s' :: ('e, 'x) rtw_drv_scheme. rsvd_sound s \<longrightarrow> rsvd_sound s'"
  rewrites "step_frame.keeps (\<lambda>s s' :: ('e, 'x) rtw_drv_scheme. rsvd_sound s \<longrightarrow> rsvd_sound s') = keeps_rsvd"
  by (rule keeps_rsvd_frame) (simp add: fun_eq_iff keeps_rsvd_def step_frame.keeps_def [OF keeps_rsvd_frame])

lemma keeps_rsvd_basic:
  "keeps_rsvd (dev_get f)" "keeps_rsvd skip"
  "type \<noteq> RSVD_DUMMY \<Longrightarrow> keeps_rsvd (rtw_add_rsvd_page v type txdesc)" "keeps_rsvd (rtw_add_rsvd_page_probe_req v ssid)"
  by (auto simp: keeps_rsvd_def rsvd_sound_add_pages)

lemma keeps_rsvd_for_each: "(\<And>x. keeps_rsvd (f x)) \<Longrightarrow> keeps_rsvd (for_each xs f)"
  by (induction xs) (auto intro!: keeps_rsvd.keeps_struct keeps_rsvd_basic)

lemma keeps_rsvd_adds:
  "keeps_rsvd (rtw_add_rsvd_page_bcn v)" "keeps_rsvd (rtw_add_rsvd_page_sta v)" "keeps_rsvd (rtw_add_rsvd_page_pno v)"
  unfolding rtw_add_rsvd_page_bcn_def rtw_add_rsvd_page_sta_def rtw_add_rsvd_page_pno_def
  by (intro keeps_rsvd.keeps_struct keeps_rsvd_basic keeps_rsvd_for_each; simp)+

subsection \<open>Removing an interface's packets\<close>

lemma rsvd_ok_remove:
  assumes "rsvd_ok s" and "rv_rsvd_pages (vif_tbl s v) = i # is"
  shows "rsvd_ok (s\<lparr>vif_tbl := (vif_tbl s)(v := (vif_tbl s v)\<lparr>rv_rsvd_pages := is\<rparr>),
      rsvd_page_list := remove1 i (rsvd_page_list s), rsvd_heap := (rsvd_heap s)(i := None)\<rparr>)"
proof -
  obtain p where p: "rsvd_heap s i = Some p" "rp_vif p = Some v" and d: "distinct (i # is)"
    using assms unfolding rsvd_ok_def rsvd_inv_def by (metis list.set_intros(1))
  have other: "i \<notin> set (rv_rsvd_pages (vif_tbl s w))" if "w \<noteq> v" for w
    using assms(1) p that by (force simp: rsvd_ok_def rsvd_inv_def)
  have "\<exists>q. rsvd_heap s j = Some q \<and> rp_vif q = Some v \<and> rp_type q \<noteq> RSVD_DUMMY" if "j \<in> set is" for j
    using assms that unfolding rsvd_ok_def rsvd_inv_def by (metis list.set_intros(2))
  with assms(1) d other show ?thesis
    unfolding rsvd_ok_def rsvd_inv_def by (auto simp: dom_def dest: notin_set_remove1)
qed

lemma rsvd_owned_remove:
  assumes "rsvd_owned s" and "rv_rsvd_pages (vif_tbl s v) = i # is"
  shows "rsvd_owned (s\<lparr>vif_tbl := (vif_tbl s)(v := (vif_tbl s v)\<lparr>rv_rsvd_pages := is\<rparr>),
      rsvd_page_list := remove1 i (rsvd_page_list s), rsvd_heap := (rsvd_heap s)(i := None)\<rparr>)"
  using assms unfolding rsvd_owned_def by (auto simp: in_set_remove1) (metis set_ConsD)

lemma keeps_rsvd_remove: "keeps_rsvd (rtw_remove_rsvd_page v :: ('e, 'x, unit) drv)"
proof -
  have "rsvd_sound s \<Longrightarrow> rv_rsvd_pages (vif_tbl s v) = is \<Longrightarrow> rsvd_sound (snd (run_state (for_each is (\<lambda>i.
            do { vif_upd v (\<lambda>r. r\<lparr>rv_rsvd_pages := remove1 i (rv_rsvd_pages r)\<rparr>);
                 dev_upd (\<lambda>s. s\<lparr>rsvd_page_list := remove1 i (rsvd_page_list s)\<rparr>);
                 rp_free i })) s))" for s :: "('e, 'x) rtw_drv_scheme" and "is"
  proof (induction "is" arbitrary: s)
    case (Cons i "is")
    then obtain p where "rsvd_heap s i = Some p"
      unfolding rsvd_sound_def rsvd_ok_def rsvd_inv_def by (metis list.set_intros(1))
    with Cons rsvd_ok_remove [of s v i "is"] rsvd_owned_remove [of s v i "is"] show ?case by (simp add: rsvd_sound_def run_rp)
  qed simp
  from this [OF _ refl] show ?thesis by (simp add: keeps_rsvd_def rtw_remove_rsvd_page_def)
qed

subsection \<open>Gathering\<close>

lemma rsvd_ok_unbuild:
  assumes "rsvd_ok s" and "rsvd_page_list s = i # is" and "rsvd_heap s i = Some p"
  shows "rsvd_ok (s\<lparr>rsvd_page_list := is\<rparr>)"
    and "rp_type p = RSVD_DUMMY \<Longrightarrow> rsvd_ok (s\<lparr>rsvd_page_list := is, rsvd_heap := (rsvd_heap s)(i := None)\<rparr>)"
  using assms unfolding rsvd_ok_def rsvd_inv_def by (auto simp: subset_iff dom_def) force

lemma rsvd_owned_unbuild:
  assumes "rsvd_owned s" and "rsvd_page_list s = i # is" and "rsvd_heap s i = Some p"
  shows "rp_type p \<noteq> RSVD_DUMMY \<Longrightarrow> rsvd_owned (s\<lparr>rsvd_page_list := is\<rparr>)"
    and "rsvd_owned (s\<lparr>rsvd_page_list := is, rsvd_heap := (rsvd_heap s)(i := None)\<rparr>)"
  using assms by (fastforce simp: rsvd_owned_def)+

lemma build_rsvd_page_reset_ok:
  fixes s :: "('e, 'x) rtw_drv_scheme"
  assumes "rsvd_ok s"
  shows "rsvd_ok (snd (run_state build_rsvd_page_reset s)) \<and> rsvd_page_list (snd (run_state build_rsvd_page_reset s)) = []
    \<and> (rsvd_owned s \<longrightarrow> rsvd_owned (snd (run_state build_rsvd_page_reset s)))"
proof -
  define m :: "nat \<Rightarrow> ('e, 'x, unit) drv" where "m i = do { p \<leftarrow> rp_get i;
        dev_upd (\<lambda>s. s\<lparr>rsvd_page_list := remove1 i (rsvd_page_list s)\<rparr>);
        when_do (rp_type p = RSVD_DUMMY) (rp_free i) }" for i
  have "rsvd_ok s \<Longrightarrow> rsvd_page_list s = is \<Longrightarrow> rsvd_ok (snd (run_state (for_each is m) s))
      \<and> rsvd_page_list (snd (run_state (for_each is m) s)) = []
      \<and> (rsvd_owned s \<longrightarrow> rsvd_owned (snd (run_state (for_each is m) s)))" for s and "is"
  proof (induction "is" arbitrary: s)
    case (Cons i "is")
    then obtain p where p: "rsvd_heap s i = Some p"
      unfolding rsvd_ok_def rsvd_inv_def by (metis domD list.set_intros(1) subsetD)
    let ?s = "snd (run_state (m i) s)"
    have "rsvd_ok ?s \<and> rsvd_page_list ?s = is \<and> (rsvd_owned s \<longrightarrow> rsvd_owned ?s)"
      using rsvd_ok_unbuild [OF Cons.prems p] rsvd_owned_unbuild [OF _ Cons.prems(2) p] Cons.prems(2)
      by (cases "rp_type p = RSVD_DUMMY") (simp_all add: m_def run_rp p)
    with Cons.IH [of ?s] show ?case by (simp add: split_def)
  qed simp
  from this [OF assms refl] show ?thesis
    by (simp add: build_rsvd_page_reset_def m_def [abs_def])
qed

text \<open>Gathering the packets of one interface, none of which is on the list yet.\<close>

lemma gather_pages:
  assumes "distinct is" and "set is \<inter> set (rsvd_page_list s) = {}" and "distinct (rsvd_page_list s)"
    and "set is \<subseteq> dom (rsvd_heap s)"
  shows "\<exists>l. run_state (for_each is (\<lambda>i.
            do { p \<leftarrow> rp_get i;
                 is \<leftarrow> dev_get rsvd_page_list;
                 when_do (i \<in> set is) set_fault;
                 dev_upd (\<lambda>s. s\<lparr>rsvd_page_list := (if rp_type p = RSVD_BEACON then i # rsvd_page_list s
                                                  else rsvd_page_list s @ [i])\<rparr>) })) s = ((), s\<lparr>rsvd_page_list := l\<rparr>)
     \<and> distinct l \<and> set l = set (rsvd_page_list s) \<union> set is"
  using assms
proof (induction "is" arbitrary: s)
  case (Cons i "is")
  from Cons.prems obtain p where p: "rsvd_heap s i = Some p" by auto
  let ?s = "s\<lparr>rsvd_page_list := (if rp_type p = RSVD_BEACON then i # rsvd_page_list s else rsvd_page_list s @ [i])\<rparr>"
  have "distinct is" "set is \<inter> set (rsvd_page_list ?s) = {}" "distinct (rsvd_page_list ?s)"
    "set is \<subseteq> dom (rsvd_heap ?s)" using Cons.prems by auto
  from Cons.IH [OF this] obtain l where "run_state (for_each is (\<lambda>i.
            do { p \<leftarrow> rp_get i;
                 is \<leftarrow> dev_get rsvd_page_list;
                 when_do (i \<in> set is) set_fault;
                 dev_upd (\<lambda>s. s\<lparr>rsvd_page_list := (if rp_type p = RSVD_BEACON then i # rsvd_page_list s
                                                  else rsvd_page_list s @ [i])\<rparr>) })) ?s = ((), ?s\<lparr>rsvd_page_list := l\<rparr>)"
    and l: "distinct l" "set l = set (rsvd_page_list ?s) \<union> set is" by blast
  moreover have "i \<notin> set (rsvd_page_list s)" using Cons.prems(2) by simp
  ultimately show ?case by (intro exI [of _ l]) (simp add: run_rp [OF p])
next
  case Nil
  then show ?case by (intro exI [of _ "rsvd_page_list s"]) simp
qed

text \<open>Packets of different interfaces are different packets.\<close>

lemma rsvd_invE:
  assumes "rsvd_inv s" and "i \<in> set (rv_rsvd_pages (vif_tbl s v))"
  obtains p where "rsvd_heap s i = Some p" and "rp_vif p = Some v" and "rp_type p \<noteq> RSVD_DUMMY"
  using assms unfolding rsvd_inv_def by blast

lemma rsvd_pages_live: "rsvd_inv s \<Longrightarrow> set (rv_rsvd_pages (vif_tbl s v)) \<subseteq> dom (rsvd_heap s)"
  by (auto elim: rsvd_invE)

lemma rsvd_pages_disjoint:
  assumes "rsvd_inv s" and "v \<noteq> w"
  shows "set (rv_rsvd_pages (vif_tbl s v)) \<inter> set (rv_rsvd_pages (vif_tbl s w)) = {}"
  by (auto elim!: rsvd_invE [OF assms(1)] simp: assms(2))

lemma rsvd_ok_list:
  assumes "rsvd_ok s" and "distinct l" and "set l \<subseteq> dom (rsvd_heap s)"
  shows "rsvd_ok (s\<lparr>rsvd_page_list := l\<rparr>)"
  using assms by (auto simp: rsvd_ok_def rsvd_inv_def)

lemma rsvd_owned_list:
  assumes "rsvd_owned s" and "set (rsvd_page_list s) \<subseteq> set l"
  shows "rsvd_owned (s\<lparr>rsvd_page_list := l\<rparr>)"
  using assms by (auto simp: rsvd_owned_def)

lemma gather_vifs:
  assumes "rsvd_ok s" and "distinct vs"
    and "\<forall>v \<in> set vs. set (rv_rsvd_pages (vif_tbl s v)) \<inter> set (rsvd_page_list s) = {}"
  shows "\<exists>l. run_state (for_each vs rtw_build_rsvd_page_iter) s = ((), s\<lparr>rsvd_page_list := l\<rparr>)
     \<and> rsvd_ok (s\<lparr>rsvd_page_list := l\<rparr>) \<and> set (rsvd_page_list s) \<subseteq> set l"
  using assms
proof (induction vs arbitrary: s)
  case (Cons v vs)
  have pages: "distinct (rv_rsvd_pages (vif_tbl s v))" "distinct (rsvd_page_list s)"
    "set (rv_rsvd_pages (vif_tbl s v)) \<subseteq> dom (rsvd_heap s)"
    using Cons.prems(1) rsvd_pages_live [of s v] by (simp_all add: rsvd_ok_def) (simp_all add: rsvd_inv_def)
  obtain l where run: "run_state (rtw_build_rsvd_page_iter v) s = ((), s\<lparr>rsvd_page_list := l\<rparr>)"
    and l: "distinct l" "set l \<subseteq> set (rsvd_page_list s) \<union> set (rv_rsvd_pages (vif_tbl s v))"
      "set (rsvd_page_list s) \<subseteq> set l"
  proof (cases "rv_type (vif_tbl s v) = NL80211_IFTYPE_AP \<and> \<not> ap_active s")
    case True
    then show ?thesis by (intro that [of "rsvd_page_list s"]) (simp_all add: rtw_build_rsvd_page_iter_def pages)
  next
    case False
    from gather_pages [of "rv_rsvd_pages (vif_tbl s v)" s] Cons.prems(3) pages obtain l where
      "run_state (rtw_build_rsvd_page_iter v) s = ((), s\<lparr>rsvd_page_list := l\<rparr>)" "distinct l"
      "set l = set (rsvd_page_list s) \<union> set (rv_rsvd_pages (vif_tbl s v))"
      by (auto simp: rtw_build_rsvd_page_iter_def False)
    then show ?thesis by (intro that [of l]) simp_all
  qed
  let ?s = "s\<lparr>rsvd_page_list := l\<rparr>"
  have "set l \<subseteq> dom (rsvd_heap s)"
    using l(2) pages(3) Cons.prems(1) by (auto simp: rsvd_ok_def rsvd_inv_def)
  with Cons.prems(1) l have ok: "rsvd_ok ?s" by (intro rsvd_ok_list)
  have "\<forall>w \<in> set vs. set (rv_rsvd_pages (vif_tbl ?s w)) \<inter> set (rsvd_page_list ?s) = {}"
    using Cons.prems l(2) rsvd_pages_disjoint [of s v] by (fastforce simp: rsvd_ok_def)
  from Cons.IH [OF ok _ this] Cons.prems(2) obtain l' where
    "run_state (for_each vs rtw_build_rsvd_page_iter) ?s = ((), ?s\<lparr>rsvd_page_list := l'\<rparr>)"
    "rsvd_ok (?s\<lparr>rsvd_page_list := l'\<rparr>)" "set l \<subseteq> set l'" by auto
  with l(3) show ?case by (intro exI [of _ l']) (auto simp: run)
next
  case Nil
  then show ?case by (intro exI [of _ "rsvd_page_list s"]) simp
qed

text \<open>A dummy in front of the list.\<close>

lemma rsvd_ok_dummy:
  assumes "rsvd_ok s"
  shows "rsvd_ok (s\<lparr>alloc_cnt := n, rsvd_heap := (rsvd_heap s)(rsvd_next s \<mapsto> p), rsvd_next := Suc (rsvd_next s),
      rsvd_page_list := rsvd_next s # rsvd_page_list s\<rparr>)"
proof -
  have new: "rsvd_heap s (rsvd_next s) = None"
    using assms by (auto simp: rsvd_ok_def rsvd_inv_def dom_def)
  have "rsvd_next s \<notin> set (rv_rsvd_pages (vif_tbl s w))" for w
    using assms new rsvd_pages_live [of s w] by (auto simp: rsvd_ok_def dom_def)
  with assms new show ?thesis
    unfolding rsvd_ok_def rsvd_inv_def by (auto simp: less_Suc_eq)
qed

lemma rsvd_owned_dummy:
  assumes "rsvd_owned s" and "rp_vif p = None" and "rp_type p = RSVD_DUMMY"
  shows "rsvd_owned (s\<lparr>alloc_cnt := n, rsvd_heap := (rsvd_heap s)(rsvd_next s \<mapsto> p), rsvd_next := Suc (rsvd_next s),
      rsvd_page_list := rsvd_next s # rsvd_page_list s\<rparr>)"
  using assms by (auto simp: rsvd_owned_def)

lemma build_rsvd_page_from_vifs_ok:
  assumes "rsvd_ok s"
  obtains ret s' where "run_state build_rsvd_page_from_vifs s = (ret, s')" and "rsvd_ok s'"
    and "ret = 0 \<Longrightarrow> \<exists>i is p. rsvd_page_list s' = i # is \<and> rsvd_heap s' i = Some p
           \<and> (rp_type p = RSVD_BEACON \<or> rp_type p = RSVD_DUMMY)"
    and "rsvd_owned s \<Longrightarrow> rsvd_owned s'"
proof -
  define s1 where "s1 = snd (run_state build_rsvd_page_reset s)"
  have run1: "run_state build_rsvd_page_reset s = ((), s1)" by (simp add: s1_def prod_eq_iff)
  from build_rsvd_page_reset_ok [OF assms] have ok1: "rsvd_ok s1" and empty: "rsvd_page_list s1 = []"
    and own1: "rsvd_owned s \<Longrightarrow> rsvd_owned s1"
    by (simp_all add: s1_def)
  from ok1 have "distinct (active_vifs s1)" by (simp add: rsvd_ok_def rsvd_inv_def)
  with gather_vifs [OF ok1] empty obtain l where
    run2: "run_state (for_each (active_vifs s1) rtw_build_rsvd_page_iter) s1 = ((), s1\<lparr>rsvd_page_list := l\<rparr>)"
    and ok2: "rsvd_ok (s1\<lparr>rsvd_page_list := l\<rparr>)" by auto
  have own2: "rsvd_owned s \<Longrightarrow> rsvd_owned (s1\<lparr>rsvd_page_list := l\<rparr>)"
    using own1 empty by (intro rsvd_owned_list) simp_all
  show ?thesis
  proof (cases l)
    case Nil
    with run1 run2 ok2 own2 show ?thesis by (intro that [of "- EINVAL" "s1\<lparr>rsvd_page_list := l\<rparr>"])
        (simp_all add: build_rsvd_page_from_vifs_def)
  next
    case (Cons i "is")
    with ok2 obtain p where p: "rsvd_heap s1 i = Some p" by (auto simp: rsvd_ok_def rsvd_inv_def)
    consider (beacon) "rp_type p = RSVD_BEACON" | (fail) "rp_type p \<noteq> RSVD_BEACON" "\<not> alloc_ok s1 (alloc_cnt s1)"
      | (dummy) "rp_type p \<noteq> RSVD_BEACON" "alloc_ok s1 (alloc_cnt s1)" by blast
    then show ?thesis
    proof cases
      case beacon
      with run1 run2 ok2 own2 Cons p show ?thesis by (intro that [of 0 "s1\<lparr>rsvd_page_list := l\<rparr>"])
          (auto simp: build_rsvd_page_from_vifs_def run_rp)
    next
      case fail
      with run1 run2 ok2 own2 Cons p show ?thesis by (intro that [of "- ENOMEM" "s1\<lparr>rsvd_page_list := l, alloc_cnt := Suc (alloc_cnt s1)\<rparr>"])
          (auto simp: build_rsvd_page_from_vifs_def run_rp run_rtw_alloc_rsvd_page)
    next
      case dummy
      with run1 run2 Cons p show ?thesis
        using rsvd_ok_dummy [OF ok2] rsvd_owned_dummy [OF own2]
        by (intro that [of 0 "s1\<lparr>alloc_cnt := Suc (alloc_cnt s1), rsvd_heap := (rsvd_heap s1)(rsvd_next s1 \<mapsto>
              \<lparr>rp_vif = None, rp_type = RSVD_DUMMY, rp_page = 0, rp_tim_offset = 0, rp_add_txdesc = False,
               rp_ssid = None, rp_probe_req_size = 0, rp_skb = None\<rparr>), rsvd_next := Suc (rsvd_next s1),
               rsvd_page_list := rsvd_next s1 # l\<rparr>"]) (auto simp: build_rsvd_page_from_vifs_def run_rp run_rtw_alloc_rsvd_page)
    qed
  qed
qed

lemma keeps_rsvd_gather: "keeps_rsvd build_rsvd_page_from_vifs"
  unfolding keeps_rsvd_def rsvd_sound_def by (metis build_rsvd_page_from_vifs_ok snd_conv)

section \<open>Where the packets end up\<close>

lemma same_rp_get [same_rules]: "(\<And>s. g (s\<lparr>fault := True\<rparr>) = g s) \<Longrightarrow> same g (rp_get i)"
  unfolding rp_get_def by (intro same_rules; simp)

lemma same_rp_upd [same_rules]:
  "(\<And>s. g (s\<lparr>fault := True\<rparr>) = g s) \<Longrightarrow> (\<And>s h. (\<And>j. j \<noteq> i \<Longrightarrow> h j = rsvd_heap s j) \<Longrightarrow> g (s\<lparr>rsvd_heap := h\<rparr>) = g s) \<Longrightarrow>
   same g (rp_upd i f)"
  unfolding rp_upd_def by (intro same_rules; simp)

lemma same_packet_type [same_rules]:
  assumes "same g a" "same g b" "same g c" "same g d" "same g e" "same g f" "same g h" "same g i" "same g j" "same g k" "same g l"
  shows "same g (case t of RSVD_BEACON \<Rightarrow> a | RSVD_DUMMY \<Rightarrow> b | RSVD_PS_POLL \<Rightarrow> c | RSVD_PROBE_RESP \<Rightarrow> d | RSVD_NULL \<Rightarrow> e
     | RSVD_QOS_NULL \<Rightarrow> f | RSVD_LPS_PG_DPK \<Rightarrow> h | RSVD_LPS_PG_INFO \<Rightarrow> i | RSVD_PROBE_REQ \<Rightarrow> j | RSVD_NLO_INFO \<Rightarrow> k
     | RSVD_CH_INFO \<Rightarrow> l)"
  using assms by (cases t) simp_all

text \<open>What getting a packet leaves alone.\<close>

definition off_packets :: "(('e, 'x) rtw_drv_scheme \<Rightarrow> 'b) \<Rightarrow> nat set \<Rightarrow> bool" where
  "off_packets g is \<longleftrightarrow> (\<forall>s. g (s\<lparr>fault := True\<rparr>) = g s) \<and> (\<forall>s n. g (s\<lparr>alloc_cnt := n\<rparr>) = g s)
     \<and> (\<forall>s c. g (s\<lparr>lps_conf := c\<rparr>) = g s)
     \<and> (\<forall>s h. (\<forall>j. j \<notin> is \<longrightarrow> h j = rsvd_heap s j) \<longrightarrow> g (s\<lparr>rsvd_heap := h\<rparr>) = g s)"

lemma same_get_skb:
  assumes "off_packets g is" and "i \<in> is"
  shows "same g (rtw_get_rsvd_page_skb i)" and "same g (rp_upd i f)" and "same g (rp_get i)"
proof -
  note g = assms(1) [unfolded off_packets_def]
  have heap: "g (s\<lparr>rsvd_heap := h\<rparr>) = g s" if "\<And>j. j \<noteq> i \<Longrightarrow> h j = rsvd_heap s j" for s h
    using g that assms(2) by (metis (full_types))
  show upd: "same g (rp_upd i f)" for f by (intro same_rules; simp add: g heap)
  show get: "same g (rp_get i)" by (intro same_rules; simp add: g)
  show "same g (rtw_get_rsvd_page_skb i)"
    unfolding rtw_get_rsvd_page_skb_def rtw_lps_pg_dpk_get_def rtw_lps_pg_info_get_def rtw_nlo_info_get_def
      rtw_cs_channel_info_get_def Let_def
    by (intro same_rules get upd; simp add: g)
qed

lemma off_packets_subset: "off_packets g A \<Longrightarrow> B \<subseteq> A \<Longrightarrow> off_packets g B"
  unfolding off_packets_def by blast

lemma off_packets_fields [simp]:
  "off_packets chip A" "off_packets fifo A" "off_packets rsvd_page_list A" "i \<notin> A \<Longrightarrow> off_packets (\<lambda>s. rsvd_heap s i) A"
  "off_packets vif_tbl A"
  by (simp_all add: off_packets_def)

lemma same_rsvd_fetch: "off_packets g (set is) \<Longrightarrow> same g (rsvd_fetch is t)"
proof (induction "is" arbitrary: t)
  case (Cons i "is")
  then have "same g (rsvd_fetch is t)" for t
    by (meson off_packets_subset set_subset_Cons)
  moreover note get = same_get_skb [OF Cons.prems, of i]
  ultimately show ?case
    unfolding rsvd_fetch.simps by (intro same_struct same_dev_get get) simp_all
qed (simp add: same_rules)

text \<open>The packets of a list after the first loop: where each starts, by its page.\<close>

fun fetched :: "('e, 'x) rtw_drv_scheme \<Rightarrow> nat list \<Rightarrow> u8 \<Rightarrow> u8 \<Rightarrow> bool" where
  "fetched s [] t tot \<longleftrightarrow> tot = t"
| "fetched s (i # is) t tot \<longleftrightarrow> (\<exists>p d. rsvd_heap s i = Some p \<and> rp_skb p = Some d \<and> rp_page p = t \<and>
     fetched s is (t + rtw_len_to_page (length d + (if t = 0 then unat (ci_tx_pkt_desc_sz (chip s)) else 0))
       (ci_page_size (chip s))) tot)"

lemma fetched_cong:
  "(\<And>i. i \<in> set is \<Longrightarrow> rsvd_heap s' i = rsvd_heap s i) \<Longrightarrow> chip s' = chip s \<Longrightarrow> fetched s' is t tot = fetched s is t tot"
  by (induction "is" arbitrary: t) auto

lemma run_rp_upd_heap: "\<exists>p fl. run_state (rp_upd i f) s = ((), s\<lparr>rsvd_heap := (rsvd_heap s)(i \<mapsto> f p), fault := fl\<rparr>)"
proof (cases "rsvd_heap s i")
  case None
  then show ?thesis by (intro exI [of _ "the None"] exI [of _ True]) (simp add: rp_upd_def rp_get_def)
next
  case (Some p)
  then show ?thesis by (intro exI [of _ p] exI [of _ "fault s"]) (simp add: run_rp)
qed

lemma rsvd_fetch_fetched:
  assumes "distinct is" and "run_state (rsvd_fetch is t) s = (Some tot, s')"
  shows "fetched s' is t tot"
  using assms
proof (induction "is" arbitrary: t s)
  case (Cons i "is")
  obtain r s1 where get: "run_state (rtw_get_rsvd_page_skb i) s = (r, s1)" by (cases "run_state (rtw_get_rsvd_page_skb i) s")
  with Cons.prems(2) obtain d where d: "r = Some d" by (cases r) simp_all
  obtain p s2 where p: "run_state (rp_get i) s1 = (p, s2)" by (cases "run_state (rp_get i) s1")
  define iter where "iter = (if rp_add_txdesc p then rtw_fill_rsvd_page_desc s2 d (rp_type p) else d)"
  obtain q fl where upd: "run_state (rp_upd i (\<lambda>p. p\<lparr>rp_skb := Some iter, rp_page := t\<rparr>)) s2 =
      ((), s2\<lparr>rsvd_heap := (rsvd_heap s2)(i \<mapsto> q\<lparr>rp_skb := Some iter, rp_page := t\<rparr>), fault := fl\<rparr>)"
    using run_rp_upd_heap by blast
  define s3 where "s3 = s2\<lparr>rsvd_heap := (rsvd_heap s2)(i \<mapsto> q\<lparr>rp_skb := Some iter, rp_page := t\<rparr>), fault := fl\<rparr>"
  let ?t = "t + rtw_len_to_page (length iter + (if t = 0 then unat (ci_tx_pkt_desc_sz (chip s2)) else 0)) (ci_page_size (chip s2))"
  have rest: "run_state (rsvd_fetch is ?t) s3 = (Some tot, s')"
    using Cons.prems(2) unfolding rsvd_fetch.simps
    by (simp add: get d p Let_def iter_def [symmetric] upd s3_def [symmetric] split del: if_split)
      (auto simp: iter_def split: if_splits)
  have "rsvd_heap s' i = rsvd_heap s3 i" "chip s' = chip s3"
    using Cons.prems(1) by (simp_all add: sameD [OF same_rsvd_fetch rest, of "\<lambda>s. rsvd_heap s i"] sameD [OF same_rsvd_fetch rest, of chip])
  then have "rsvd_heap s' i = Some (q\<lparr>rp_skb := Some iter, rp_page := t\<rparr>)" "chip s' = chip s2" by (simp_all add: s3_def)
  with Cons.IH [OF _ rest] Cons.prems(1) show ?case by (auto split: if_splits)
qed simp

subsection \<open>The layout of the buffer\<close>

definition page_count :: "nat \<Rightarrow> nat \<Rightarrow> nat" where
  "page_count ps n = (n + ps - 1) div ps"

fun end_page :: "nat \<Rightarrow> nat \<Rightarrow> nat \<Rightarrow> u8 list list \<Rightarrow> nat" where
  "end_page ps dsz k [] = k"
| "end_page ps dsz k (d # ds) = end_page ps dsz (k + page_count ps (length d + (if k = 0 then dsz else 0))) ds"

text \<open>Page \<open>k\<close> of the chip, counted from the descriptor in front of the buffer; the first packet follows it.\<close>

definition slot :: "nat \<Rightarrow> nat \<Rightarrow> nat \<Rightarrow> nat" where
  "slot ps dsz k = (if k = 0 then dsz else ps * k)"

fun place :: "nat \<Rightarrow> nat \<Rightarrow> nat \<Rightarrow> u8 list list \<Rightarrow> u8 list \<Rightarrow> u8 list" where
  "place ps dsz k [] buf = buf"
| "place ps dsz k (d # ds) buf = place ps dsz (k + page_count ps (length d + (if k = 0 then dsz else 0))) ds
     (list_store (slot ps dsz k - dsz) d buf)"

lemma page_count_bound: "0 < ps \<Longrightarrow> n \<le> ps * page_count ps n"
proof -
  assume "0 < ps"
  then have "(n + ps - 1) mod ps < ps" "ps * ((n + ps - 1) div ps) + (n + ps - 1) mod ps = n + ps - 1" by simp_all
  then show ?thesis unfolding page_count_def by linarith
qed

lemma end_page_mono: "k \<le> end_page ps dsz k ds"
  by (induction ds arbitrary: k) (auto intro: order_trans le_add1)

lemma length_list_store: "off + length d \<le> length buf \<Longrightarrow> length (list_store off d buf) = length buf"
  by (simp add: list_store_def)

text \<open>A packet ends before the page the next one starts at.\<close>

lemma slot_fits:
  assumes "0 < dsz" and "dsz \<le> ps"
  shows "slot ps dsz k + length d \<le> ps * (k + page_count ps (length d + (if k = 0 then dsz else 0)))"
    and "0 < k + page_count ps (length d + (if k = 0 then dsz else 0))"
proof -
  have ps: "0 < ps" using assms by simp
  show le: "slot ps dsz k + length d \<le> ps * (k + page_count ps (length d + (if k = 0 then dsz else 0)))"
    using page_count_bound [OF ps, of "length d + dsz"] page_count_bound [OF ps, of "length d"]
    by (simp add: slot_def distrib_left)
  have "0 < slot ps dsz k" using assms by (simp add: slot_def)
  with le show "0 < k + page_count ps (length d + (if k = 0 then dsz else 0))"
    by (cases "k = 0") (auto intro: gr0I)
qed

lemma slot_in_buf:
  assumes "0 < dsz" and "dsz \<le> ps" and "ps * end_page ps dsz k (d # ds) - dsz \<le> n"
  shows "slot ps dsz k - dsz + length d \<le> n" and "dsz \<le> slot ps dsz k"
proof -
  let ?k = "k + page_count ps (length d + (if k = 0 then dsz else 0))"
  have le: "ps * ?k \<le> ps * end_page ps dsz ?k ds" by (intro mult_le_mono end_page_mono) simp
  show dsz: "dsz \<le> slot ps dsz k" using assms(2) by (cases k) (auto simp: slot_def)
  show "slot ps dsz k - dsz + length d \<le> n"
    using slot_fits(1) [OF assms(1,2), of k d] le dsz assms(3) unfolding end_page.simps by linarith
qed

lemma length_place:
  assumes "0 < dsz" and "dsz \<le> ps" and "ps * end_page ps dsz k ds - dsz \<le> length buf"
  shows "length (place ps dsz k ds buf) = length buf"
  using assms(3)
proof (induction ds arbitrary: k buf)
  case (Cons d ds)
  let ?k = "k + page_count ps (length d + (if k = 0 then dsz else 0))"
  note fits = slot_in_buf(1) [OF assms(1,2) Cons.prems]
  with Cons.IH [of ?k "list_store (slot ps dsz k - dsz) d buf"] Cons.prems fits show ?case
    by (simp add: length_list_store)
qed simp

text \<open>Placing packets from page \<open>k\<close> on leaves the pages before alone.\<close>

lemma place_before:
  assumes "0 < dsz" and "dsz \<le> ps" and "0 < k" and "n \<le> ps * k - dsz"
    and "ps * end_page ps dsz k ds - dsz \<le> length buf"
  shows "take n (place ps dsz k ds buf) = take n buf"
  using assms(3-5)
proof (induction ds arbitrary: k buf)
  case (Cons d ds)
  let ?k = "k + page_count ps (length d)"
  let ?buf = "list_store (slot ps dsz k - dsz) d buf"
  have pos: "slot ps dsz k = ps * k" "slot ps dsz k + length d \<le> ps * ?k"
    using slot_fits(1) [OF assms(1,2), of k d] Cons.prems by (simp_all add: slot_def)
  from slot_in_buf(1) [OF assms(1,2) Cons.prems(3)] pos have fits: "ps * k - dsz + length d \<le> length buf" by simp
  have "ps * k \<le> ps * ?k" by (intro mult_le_mono) simp_all
  with Cons.prems have "n \<le> ps * ?k - dsz" by linarith
  with Cons.IH [of ?k ?buf] Cons.prems fits pos have "take n (place ps dsz ?k ds ?buf) = take n ?buf"
    by (simp add: length_list_store)
  also have "take n ?buf = take n buf"
    using Cons.prems fits pos by (simp add: list_store_def min_def)
  finally show ?case using Cons.prems by simp
qed simp

lemma take_drop_agree: "take n xs = take n ys \<Longrightarrow> s + m \<le> n \<Longrightarrow> take m (drop s xs) = take m (drop s ys)"
proof -
  assume eq: "take n xs = take n ys" and le: "s + m \<le> n"
  have "take (s + m) (take n xs) = take (s + m) (take n ys)" by (simp only: eq)
  then have "take (s + m) xs = take (s + m) ys" using le by (simp add: min_def)
  then have "drop s (take (s + m) xs) = drop s (take (s + m) ys)" by simp
  then show ?thesis by (simp add: drop_take)
qed

text \<open>The first packet is where it was put, whatever follows.\<close>

lemma place_first:
  assumes "0 < dsz" and "dsz \<le> ps" and "ps * end_page ps dsz k (d # ds) - dsz \<le> length buf"
  shows "take (length d) (drop (slot ps dsz k - dsz) (place ps dsz k (d # ds) buf)) = d"
proof -
  let ?k = "k + page_count ps (length d + (if k = 0 then dsz else 0))"
  let ?buf = "list_store (slot ps dsz k - dsz) d buf"
  note fit = slot_fits [OF assms(1,2), of k d] and in_buf = slot_in_buf(1) [OF assms] and dsz = slot_in_buf(2) [OF assms]
  have "take (ps * ?k - dsz) (place ps dsz ?k ds ?buf) = take (ps * ?k - dsz) ?buf"
    using assms in_buf by (intro place_before fit(2)) (simp_all add: length_list_store)
  then have "take (length d) (drop (slot ps dsz k - dsz) (place ps dsz ?k ds ?buf)) =
      take (length d) (drop (slot ps dsz k - dsz) ?buf)"
    using fit(1) dsz by (elim take_drop_agree) linarith
  with in_buf show ?thesis by (simp add: list_store_def)
qed

subsection \<open>The loops compute the layout\<close>

definition skbs :: "('e, 'x) rtw_drv_scheme \<Rightarrow> nat list \<Rightarrow> u8 list list" where
  "skbs s is = map (\<lambda>i. the (rp_skb (the (rsvd_heap s i)))) is"

lemma unat_rtw_len_to_page: "page_count (unat ps) n < 256 \<Longrightarrow> unat (rtw_len_to_page n ps) = page_count (unat ps) n"
  by (simp add: rtw_len_to_page_def page_count_def unat_of_nat)

lemma unat_plus_u8: "unat (a :: u8) + unat b < 256 \<Longrightarrow> unat (a + b) = unat a + unat b"
  by (simp add: unat_word_ariths)

lemma unat_u8_u32: "unat (ucast (x :: u8) :: u32) = unat x"
proof -
  have "unat x < 2 ^ 32" by (rule order_less_le_trans [OF unsigned_less]) simp
  then show ?thesis by (simp add: unsigned_ucast_eq take_bit_nat_eq_self)
qed

text \<open>The page counter, as long as it does not wrap.\<close>

lemma next_page:
  assumes "end_page (unat ps) dsz (unat t) (d # ds) < 256"
  shows "unat (t + rtw_len_to_page (length d + (if t = 0 then dsz else 0)) ps) =
    unat t + page_count (unat ps) (length d + (if unat t = 0 then dsz else 0))"
proof -
  have t0: "unat t = 0 \<longleftrightarrow> t = 0" by (simp add: unat_eq_zero)
  have le: "unat t + page_count (unat ps) (length d + (if unat t = 0 then dsz else 0)) < 256"
    using assms end_page_mono [of "unat t + page_count (unat ps) (length d + (if unat t = 0 then dsz else 0))" "unat ps" dsz ds]
    by simp
  with t0 show ?thesis by (simp add: unat_rtw_len_to_page unat_plus_u8 del: unat_eq_zero)
qed

lemma placed_packets:
  assumes "fetched s is t tot" and dsz: "dsz = unat (ci_tx_pkt_desc_sz (chip s))" and ps: "ps = unat (ci_page_size (chip s))"
    and b: "0 < dsz" "dsz \<le> ps" and "end_page ps dsz (unat t) (skbs s is) < 256"
    and "ps * end_page ps dsz (unat t) (skbs s is) - dsz \<le> length buf"
  shows "unat tot = end_page ps dsz (unat t) (skbs s is) \<and> (\<forall>i \<in> set is. \<exists>p d. rsvd_heap s i = Some p \<and> rp_skb p = Some d \<and>
     take (length d) (drop (slot ps dsz (unat (rp_page p)) - dsz) (place ps dsz (unat t) (skbs s is) buf)) = d)"
  using assms(1,6,7)
proof (induction "is" arbitrary: t buf)
  case (Cons i "is")
  from Cons.prems(1) obtain p d where p: "rsvd_heap s i = Some p" "rp_skb p = Some d" "rp_page p = t"
    and rest: "fetched s is (t + rtw_len_to_page (length d + (if t = 0 then dsz else 0)) (ci_page_size (chip s))) tot"
    unfolding fetched.simps dsz by blast
  have skbs: "skbs s (i # is) = d # skbs s is" by (simp add: skbs_def p)
  let ?t = "t + rtw_len_to_page (length d + (if t = 0 then dsz else 0)) (ci_page_size (chip s))"
  let ?k = "unat t + page_count ps (length d + (if unat t = 0 then dsz else 0))"
  let ?buf = "list_store (slot ps dsz (unat t) - dsz) d buf"
  from Cons.prems(2) skbs ps have t: "unat ?t = ?k" by (simp only: next_page)
  have fits: "slot ps dsz (unat t) - dsz + length d \<le> length buf"
    using Cons.prems(3) unfolding skbs by (rule slot_in_buf(1) [OF b])
  have "end_page ps dsz (unat ?t) (skbs s is) < 256" "ps * end_page ps dsz (unat ?t) (skbs s is) - dsz \<le> length ?buf"
    using Cons.prems(2,3) skbs fits unfolding t by (simp_all add: length_list_store)
  from Cons.IH [OF rest this] have IH: "unat tot = end_page ps dsz ?k (skbs s is)"
    "\<forall>i \<in> set is. \<exists>p d. rsvd_heap s i = Some p \<and> rp_skb p = Some d \<and>
     take (length d) (drop (slot ps dsz (unat (rp_page p)) - dsz) (place ps dsz ?k (skbs s is) ?buf)) = d"
    unfolding t by blast+
  have "take (length d) (drop (slot ps dsz (unat t) - dsz) (place ps dsz (unat t) (d # skbs s is) buf)) = d"
    using Cons.prems(3) unfolding skbs by (rule place_first [OF b])
  with IH p show ?case unfolding skbs by simp
qed (simp add: skbs_def)

lemma copy_offset:
  fixes page :: u32
  assumes "0 < dsz" and "dsz \<le> unat ps" and "unat page = k" and "unat (desc :: u16) = dsz"
  shows "(if page \<ge> 1 then unat (ps - desc) + unat ps * unat (page - 1) else 0) = slot (unat ps) dsz k - dsz"
proof (cases "page = 0")
  case False
  then have pos: "0 < unat page" by (simp add: unat_gt_0)
  then have le: "1 \<le> page" by (simp add: word_le_nat_alt)
  with pos assms(3) have k: "0 < k" "unat (page - 1) = k - 1" "1 \<le> page"
    by (simp_all add: unat_sub)
  have "unat (ps - desc) = unat ps - dsz"
    using assms(2,4) by (simp add: unat_sub word_le_nat_alt)
  moreover have "unat ps * (k - 1) + unat ps = unat ps * k"
    using k(1) by (cases k) simp_all
  ultimately show ?thesis using k assms(2) by (simp add: slot_def)
qed (use assms(3) in \<open>simp add: slot_def\<close>)

lemma run_rsvd_copy:
  assumes "fetched s is t tot" and dsz: "dsz = unat (ci_tx_pkt_desc_sz (chip s))" "unat desc = dsz"
    and ps: "pg = ci_page_size (chip s)" and b: "0 < dsz" "dsz \<le> unat pg" and "distinct is"
    and "end_page (unat pg) dsz (unat t) (skbs s is) < 256" and "unat page = unat t"
    and "unat pg * end_page (unat pg) dsz (unat t) (skbs s is) - dsz \<le> length buf"
  shows "run_state (rsvd_copy pg desc is page buf) s = (place (unat pg) dsz (unat t) (skbs s is) buf,
     s\<lparr>rsvd_heap := \<lambda>i. if i \<in> set is then map_option (\<lambda>p. p\<lparr>rp_skb := None\<rparr>) (rsvd_heap s i) else rsvd_heap s i\<rparr>)"
  using assms
proof (induction "is" arbitrary: s t page buf)
  case (Cons i "is")
  from Cons.prems(1) obtain p d where p: "rsvd_heap s i = Some p" "rp_skb p = Some d" "rp_page p = t"
    and rest: "fetched s is (t + rtw_len_to_page (length d + (if t = 0 then dsz else 0)) pg) tot"
    unfolding fetched.simps Cons.prems(2,4) by blast
  have skbs: "skbs s (i # is) = d # skbs s is" by (simp add: skbs_def p)
  let ?t = "t + rtw_len_to_page (length d + (if t = 0 then dsz else 0)) pg"
  let ?k = "unat t + page_count (unat pg) (length d + (if unat t = 0 then dsz else 0))"
  let ?page = "page + ucast (rtw_len_to_page (length d + (if page = 0 then dsz else 0)) pg)"
  let ?buf = "list_store (slot (unat pg) dsz (unat t) - dsz) d buf"
  let ?s = "s\<lparr>rsvd_heap := (rsvd_heap s)(i \<mapsto> p\<lparr>rp_skb := None\<rparr>)\<rparr>"
  have in_buf: "slot (unat pg) dsz (unat t) - dsz + length d \<le> length buf"
    using Cons.prems(10) unfolding skbs by (rule slot_in_buf(1) [OF b])
  have t: "unat ?t = ?k" using Cons.prems(8) unfolding skbs by (rule next_page)
  have page0: "page = 0 \<longleftrightarrow> t = 0" using Cons.prems(9) by (metis unat_0 unat_eq_zero)
  have page: "unat ?page = unat ?t"
  proof -
    have lt: "?k < 256" using Cons.prems(8) end_page_mono [of ?k "unat pg" dsz "skbs s is"] unfolding skbs by simp
    let ?n = "rtw_len_to_page (length d + (if t = 0 then dsz else 0)) pg"
    have "unat ?n = page_count (unat pg) (length d + (if t = 0 then dsz else 0))"
      using lt by (intro unat_rtw_len_to_page) (simp add: unat_eq_zero)
    moreover have "unat (ucast ?n :: u32) = unat ?n" by (rule unat_u8_u32)
    ultimately have "unat (ucast ?n :: u32) = page_count (unat pg) (length d + (if t = 0 then dsz else 0))" by simp
    with lt Cons.prems(9) show ?thesis unfolding t page0
      by (subst unat_add_lem [THEN iffD1]) (simp_all add: unat_eq_zero)
  qed
  have kept: "skbs ?s is = skbs s is" using Cons.prems(7) by (auto simp: skbs_def)
  have f: "fetched ?s is ?t tot" using rest Cons.prems(7) by (subst fetched_cong) auto
  have chip: "dsz = unat (ci_tx_pkt_desc_sz (chip ?s))" "pg = ci_page_size (chip ?s)" using Cons.prems(2,4) by simp_all
  have e: "end_page (unat pg) dsz (unat ?t) (skbs ?s is) < 256"
    "unat pg * end_page (unat pg) dsz (unat ?t) (skbs ?s is) - dsz \<le> length ?buf"
    using Cons.prems(8,10) in_buf unfolding skbs kept t end_page.simps by (simp_all only: length_list_store)
  from Cons.prems(7) have "distinct is" by simp
  from Cons.IH [OF f chip(1) Cons.prems(3) chip(2) b this e(1) page e(2)]
  have IH: "run_state (rsvd_copy pg desc is ?page ?buf) ?s = (place (unat pg) dsz ?k (skbs s is) ?buf,
     ?s\<lparr>rsvd_heap := \<lambda>i. if i \<in> set is then map_option (\<lambda>p. p\<lparr>rp_skb := None\<rparr>) (rsvd_heap ?s i) else rsvd_heap ?s i\<rparr>)"
    unfolding kept t .
  have "run_state (rtw_rsvd_page_list_to_buf pg (pg - desc) page buf i) s = (?buf, s)"
    using copy_offset [OF b Cons.prems(9,3)] in_buf
    by (simp add: rtw_rsvd_page_list_to_buf_def run_rp [OF p(1)] p(2) Let_def del: unat_eq_zero)
  moreover have "(\<lambda>j. if j \<in> set is then map_option (\<lambda>p. p\<lparr>rp_skb := None\<rparr>) (rsvd_heap ?s j) else rsvd_heap ?s j) =
      (\<lambda>j. if j \<in> set (i # is) then map_option (\<lambda>p. p\<lparr>rp_skb := None\<rparr>) (rsvd_heap s j) else rsvd_heap s j)"
    using p Cons.prems(7) by (auto simp: fun_eq_iff)
  ultimately show ?case
    unfolding skbs rsvd_copy.simps place.simps
    by (simp add: run_rp [OF p(1)] p(2) Cons.prems(3) IH split del: if_split cong: if_cong)
qed (simp add: skbs_def)

lemma buf_size:
  fixes tot :: u8 and pg desc :: u16
  assumes "0 < unat tot" and "unat desc \<le> unat pg"
  shows "unat ((ucast tot - 1) * ucast pg + ucast (pg - desc) :: u32) = unat pg * unat tot - unat desc"
proof -
  have pg: "unat (ucast pg :: u32) = unat pg" "unat (ucast (pg - desc) :: u32) = unat pg - unat desc"
  proof -
    have u: "unat (ucast x :: u32) = unat x" for x :: u16
    proof -
      have "unat x < 2 ^ 32" by (rule order_less_le_trans [OF unsigned_less]) simp
      then show ?thesis by (simp add: unsigned_ucast_eq take_bit_nat_eq_self)
    qed
    then show "unat (ucast pg :: u32) = unat pg" "unat (ucast (pg - desc) :: u32) = unat pg - unat desc"
      using assms(2) by (simp_all add: unat_sub word_le_nat_alt)
  qed
  have "1 \<le> (ucast tot :: u32)" using assms(1) by (simp add: word_le_nat_alt unat_u8_u32)
  then have t: "unat (ucast tot - 1 :: u32) = unat tot - 1" by (simp add: unat_sub unat_u8_u32)
  have p16: "unat pg \<le> 2 ^ 16" by (rule less_imp_le, rule order_less_le_trans [OF unsigned_less]) simp
  have t8: "unat tot - 1 \<le> 2 ^ 8" by (rule order_trans [of _ "unat tot"], simp, rule less_imp_le, rule order_less_le_trans [OF unsigned_less]) simp
  have "(unat tot - 1) * unat pg \<le> 2 ^ 8 * 2 ^ 16" by (intro mult_le_mono t8 p16)
  with p16 have "(unat tot - 1) * unat pg + (unat pg - unat desc) < 2 ^ 32" by simp
  then have "unat ((ucast tot - 1) * ucast pg + ucast (pg - desc) :: u32) = (unat tot - 1) * unat pg + (unat pg - unat desc)"
    by (simp add: unat_word_ariths pg t)
  with assms show ?thesis by (cases "unat tot") (simp_all add: mult.commute add.commute)
qed

lemma same_build_from_vifs: "same chip build_rsvd_page_from_vifs" "same fifo build_rsvd_page_from_vifs"
  unfolding build_rsvd_page_from_vifs_def build_rsvd_page_reset_def rtw_build_rsvd_page_iter_def rp_free_def
    rtw_alloc_rsvd_page_def
  by (intro same_rules; (simp split: list.split)?; (intro conjI allI impI same_rules; simp)?)+

lemma unat_desc_sz: "unat sz \<le> unat (pg :: u16) \<Longrightarrow> unat (ucast (sz :: u32) :: u16) = unat sz"
proof -
  assume "unat sz \<le> unat pg"
  moreover have "unat pg < 2 ^ 16" by (rule order_less_le_trans [OF unsigned_less]) simp
  ultimately show ?thesis by (simp add: unsigned_ucast_eq take_bit_nat_eq_self)
qed

lemma rtw_build_rsvd_page_cases:
  assumes gather: "run_state build_rsvd_page_from_vifs s = (0, s1)"
    and fetch: "run_state (rsvd_fetch (rsvd_page_list s1) 0) s1 = (Some tot, s2)"
    and build: "run_state rtw_build_rsvd_page s = (Some buf, s3)"
  shows "unat tot \<le> unat (rsvd_drv_pg_num (fifo s2))"
    and "run_state (rsvd_copy (ci_page_size (chip s)) (ucast (ci_tx_pkt_desc_sz (chip s))) (rsvd_page_list s1) 0
      (replicate (unat ((ucast tot - 1) * ucast (ci_page_size (chip s)) +
        ucast (ci_page_size (chip s) - ucast (ci_tx_pkt_desc_sz (chip s))) :: u32)) 0)) (s2\<lparr>alloc_cnt := Suc (alloc_cnt s2)\<rparr>) = (buf, s3)"
proof -
  have "\<not> rsvd_drv_pg_num (fifo s2) < ucast tot"
    using build by (auto simp: rtw_build_rsvd_page_def gather fetch release_skbs_def split: prod.splits)
  moreover have "unat (ucast tot :: u16) = unat tot"
  proof -
    have "unat tot < 2 ^ 16" by (rule order_less_le_trans [OF unsigned_less]) simp
    then show ?thesis by (simp add: unsigned_ucast_eq take_bit_nat_eq_self)
  qed
  ultimately show "unat tot \<le> unat (rsvd_drv_pg_num (fifo s2))" by (simp add: word_less_nat_alt)
  have "alloc_ok s2 (alloc_cnt s2)"
    using build by (auto simp: rtw_build_rsvd_page_def gather fetch release_skbs_def split: prod.splits if_splits)
  then show "run_state (rsvd_copy (ci_page_size (chip s)) (ucast (ci_tx_pkt_desc_sz (chip s))) (rsvd_page_list s1) 0
      (replicate (unat ((ucast tot - 1) * ucast (ci_page_size (chip s)) +
        ucast (ci_page_size (chip s) - ucast (ci_tx_pkt_desc_sz (chip s))) :: u32)) 0)) (s2\<lparr>alloc_cnt := Suc (alloc_cnt s2)\<rparr>) = (buf, s3)"
    using build \<open>\<not> rsvd_drv_pg_num (fifo s2) < ucast tot\<close>
    by (simp add: rtw_build_rsvd_page_def gather fetch Let_def split: prod.splits)
qed

section \<open>Properties\<close>

datatype rsvd_op = RsvdBcn nat | RsvdSta nat | RsvdPno nat | RsvdRemove nat | RsvdGather

fun rsvd_do :: "rsvd_op \<Rightarrow> ('e, 'x, unit) drv" where
  "rsvd_do (RsvdBcn v) = rtw_add_rsvd_page_bcn v"
| "rsvd_do (RsvdSta v) = rtw_add_rsvd_page_sta v"
| "rsvd_do (RsvdPno v) = rtw_add_rsvd_page_pno v"
| "rsvd_do (RsvdRemove v) = rtw_remove_rsvd_page v"
| "rsvd_do RsvdGather = do { _ \<leftarrow> build_rsvd_page_from_vifs; skip }"

text \<open>
  Property C18. However packets are added to interfaces, removed with them and gathered on the build
  list, no routine touches a freed packet or links one in twice, every packet on a list is alive, and
  nothing is leaked: every packet that is allocated is on the list of the one interface it names, or
  is the dummy on the build list. (Outside these operations, after a firmware recovery the
  interfaces are added again without having been removed, and \<open>rtw_ops_add_interface\<close> empties their
  lists by \<open>INIT_LIST_HEAD\<close> without a free.)
\<close>

theorem rsvd_pages_sound:
  fixes s :: "('e, 'x) rtw_drv_scheme"
  assumes "rsvd_sound s"
  shows "rsvd_sound (snd (run_state (for_each ops rsvd_do) s))"
proof -
  have step: "keeps_rsvd (rsvd_do op :: ('e, 'x, unit) drv)" for op
    by (cases op) (simp_all add: keeps_rsvd_adds keeps_rsvd_remove keeps_rsvd.keeps_struct keeps_rsvd_gather keeps_rsvd_basic)
  have "keeps_rsvd (for_each ops rsvd_do :: ('e, 'x, unit) drv)" by (rule keeps_rsvd_for_each) (rule step)
  with assms show ?thesis by (simp add: keeps_rsvd_def)
qed

text \<open>A device without packets; two interfaces come, one goes while its packets are on the build list.\<close>

lemma rsvd_pages_sound_witness:
  "\<forall>s :: (unit, unit) rtw_drv_scheme.
     rsvd_sound (snd (run_state (for_each [RsvdSta 0, RsvdBcn 1, RsvdGather, RsvdRemove 0, RsvdGather] rsvd_do)
       (s\<lparr>rsvd_heap := \<lambda>_. None, rsvd_page_list := [], active_vifs := [0, 1], fault := False,
          vif_tbl := \<lambda>v. (vif_tbl s v)\<lparr>rv_rsvd_pages := []\<rparr>\<rparr>)))"
  by (intro allI rsvd_pages_sound) (simp add: rsvd_sound_def rsvd_owned_def rsvd_ok_def rsvd_inv_def)

text \<open>
  Property C17. Every packet lies where the driver tells the firmware it does: after a successful
  build whose page numbers fit a byte, the downloaded image (descriptor and buffer) fills whole
  pages, not more than the chip reserves, and holds each packet of the build list, unharmed by the
  others, at the start of the page recorded for it (the first one behind the descriptor).
\<close>

theorem rsvd_packets_where_reported:
  fixes s :: "('e, 'x) rtw_drv_scheme"
  assumes ok: "rsvd_ok s"
    and gather: "run_state build_rsvd_page_from_vifs s = (0, s1)"
    and fetch: "run_state (rsvd_fetch (rsvd_page_list s1) 0) s1 = (Some tot, s2)"
    and build: "run_state rtw_build_rsvd_page s = (Some buf, s3)"
    and ps: "ps = unat (ci_page_size (chip s))" and dsz: "dsz = unat (ci_tx_pkt_desc_sz (chip s))" "0 < dsz" "dsz \<le> ps"
    and fit: "end_page ps dsz 0 (skbs s2 (rsvd_page_list s1)) < 256" and desc: "length desc = dsz"
  shows "length (desc @ buf) = ps * unat tot \<and> unat tot \<le> unat (rsvd_drv_pg_num (fifo s)) \<and>
     rsvd_page_list s3 = rsvd_page_list s1 \<and> (\<forall>i \<in> set (rsvd_page_list s3). \<exists>p d. rsvd_heap s3 i = Some p \<and> rp_skb (the (rsvd_heap s2 i)) = Some d \<and>
        rp_page p = rp_page (the (rsvd_heap s2 i)) \<and> take (length d) (drop (slot ps dsz (unat (rp_page p))) (desc @ buf)) = d)"
proof -
  have ok1: "rsvd_ok s1" and nonempty: "\<exists>i is. rsvd_page_list s1 = i # is"
    by (rule build_rsvd_page_from_vifs_ok [OF ok], use gather in auto)+
  then obtain i "is" where l: "rsvd_page_list s1 = i # is" and dist: "distinct (rsvd_page_list s1)"
    by (auto simp: rsvd_ok_def rsvd_inv_def)
  have s2: "chip s2 = chip s" "fifo s2 = fifo s" "rsvd_page_list s2 = rsvd_page_list s1"
    using sameD [OF same_build_from_vifs(1) gather] sameD [OF same_build_from_vifs(2) gather]
      sameD [OF same_rsvd_fetch fetch, of chip] sameD [OF same_rsvd_fetch fetch, of fifo]
      sameD [OF same_rsvd_fetch fetch, of rsvd_page_list] by simp_all
  let ?pkts = "skbs s2 (rsvd_page_list s1)"
  let ?buf0 = "replicate (ps * end_page ps dsz 0 ?pkts - dsz) (0 :: u8)"
  let ?s2 = "s2\<lparr>alloc_cnt := Suc (alloc_cnt s2)\<rparr>"
  have f: "fetched s2 (rsvd_page_list s1) 0 tot" by (rule rsvd_fetch_fetched [OF dist fetch])
  from placed_packets [OF f _ _ dsz(2,3), of ?buf0] fit have tot: "unat tot = end_page ps dsz 0 ?pkts"
    and placed: "\<forall>i \<in> set (rsvd_page_list s1). \<exists>p d. rsvd_heap s2 i = Some p \<and> rp_skb p = Some d \<and>
     take (length d) (drop (slot ps dsz (unat (rp_page p)) - dsz) (place ps dsz 0 ?pkts ?buf0)) = d"
    by (simp_all add: s2 ps dsz)
  have desc16: "unat (ucast (ci_tx_pkt_desc_sz (chip s)) :: u16) = dsz"
    using dsz(3) unfolding dsz(1) ps by (rule unat_desc_sz)
  have "0 < unat tot"
    unfolding tot l using slot_fits(2) [OF dsz(2,3), of 0] end_page_mono [of _ ps dsz]
    by (auto simp: skbs_def intro: less_le_trans)
  with desc16 dsz(3) have sz: "unat ((ucast tot - 1) * ucast (ci_page_size (chip s)) +
        ucast (ci_page_size (chip s) - ucast (ci_tx_pkt_desc_sz (chip s))) :: u32) = ps * end_page ps dsz 0 ?pkts - dsz"
    by (subst buf_size) (simp_all add: ps tot)
  have f': "fetched ?s2 (rsvd_page_list s1) 0 tot" using f fetched_cong [of "rsvd_page_list s1" ?s2 s2 0 tot] by simp
  have "skbs ?s2 (rsvd_page_list s1) = ?pkts" by (simp add: skbs_def)
  with rtw_build_rsvd_page_cases(2) [OF gather fetch build, unfolded sz]
    run_rsvd_copy [OF f' _ desc16 _ dsz(2), of "ci_page_size (chip s)" 0 ?buf0] dist fit dsz(3)
  have buf: "buf = place ps dsz 0 ?pkts ?buf0" and s3: "s3 = ?s2\<lparr>rsvd_heap := \<lambda>i. if i \<in> set (rsvd_page_list s1)
      then map_option (\<lambda>p. p\<lparr>rp_skb := None\<rparr>) (rsvd_heap s2 i) else rsvd_heap s2 i\<rparr>"
    by (simp_all add: s2 ps [symmetric] dsz(1) [symmetric] cong: if_cong)
  have "dsz \<le> ps * unat tot" using \<open>0 < unat tot\<close> dsz(3) by (cases "unat tot") simp_all
  then have len: "length (desc @ buf) = ps * unat tot"
    unfolding buf tot by (simp add: length_place [OF dsz(2,3)] desc)
  have at: "drop (slot ps dsz k) (desc @ buf) = drop (slot ps dsz k - dsz) buf" for k
    using dsz(3) desc by (cases k) (simp_all add: slot_def)
  have "\<exists>p d. rsvd_heap s3 i = Some p \<and> rp_skb (the (rsvd_heap s2 i)) = Some d \<and>
      rp_page p = rp_page (the (rsvd_heap s2 i)) \<and> take (length d) (drop (slot ps dsz (unat (rp_page p))) (desc @ buf)) = d" if i: "i \<in> set (rsvd_page_list s3)" for i
  proof -
    from i s2(3) have i1: "i \<in> set (rsvd_page_list s1)" by (simp add: s3)
    with placed obtain p d where p: "rsvd_heap s2 i = Some p" "rp_skb p = Some d"
      "take (length d) (drop (slot ps dsz (unat (rp_page p)) - dsz) buf) = d" unfolding buf by blast
    then show ?thesis unfolding at using i1 by (intro exI [of _ "p\<lparr>rp_skb := None\<rparr>"] exI [of _ d]) (simp add: s3)
  qed
  with rtw_build_rsvd_page_cases(1) [OF gather fetch build] len s2(3) show ?thesis by (simp add: s2(2)) (simp add: s3)
qed

text \<open>A station with one packet of three bytes; a dummy is put in front of it.\<close>

definition rsvd_example :: "(unit, unit) rtw_drv_scheme \<Rightarrow> (unit, unit) rtw_drv_scheme" where
  "rsvd_example s = s\<lparr>
     rsvd_heap := [0 \<mapsto> \<lparr>rp_vif = Some 0, rp_type = RSVD_PS_POLL, rp_page = 0, rp_tim_offset = 0, rp_add_txdesc = False,
                     rp_ssid = None, rp_probe_req_size = 0, rp_skb = None\<rparr>],
     rsvd_page_list := [], rsvd_next := 1, active_vifs := [0], fault := False, alloc_ok := \<lambda>_. True,
     frame_of := \<lambda>_ _. Some ([1, 2, 3], 0),
     vif_tbl := \<lambda>v. (vif_tbl s v)\<lparr>rv_type := NL80211_IFTYPE_STATION, rv_rsvd_pages := if v = 0 then [0] else []\<rparr>,
     chip := (chip s)\<lparr>ci_page_size := 128, ci_tx_pkt_desc_sz := 40\<rparr>, fifo := (fifo s)\<lparr>rsvd_drv_pg_num := 9\<rparr>\<rparr>"

lemma rsvd_packets_where_reported_witness:
  "\<forall>s. \<exists>buf. fst (run_state rtw_build_rsvd_page (rsvd_example s)) = Some buf \<and>
     take 3 (drop 128 (replicate 40 0 @ buf)) = [1, 2, 3]"
proof
  fix s
  let ?s = "rsvd_example s"
  have ok: "rsvd_ok ?s" by (auto simp: rsvd_ok_def rsvd_inv_def rsvd_example_def)
  obtain s1 where gather: "run_state build_rsvd_page_from_vifs ?s = (0, s1)" and l: "rsvd_page_list s1 = [1, 0]"
    and s1: "s1 = ?s\<lparr>rsvd_page_list := [1, 0], alloc_cnt := Suc (alloc_cnt ?s), rsvd_next := 2,
      rsvd_heap := (rsvd_heap ?s)(1 \<mapsto> \<lparr>rp_vif = None, rp_type = RSVD_DUMMY, rp_page = 0, rp_tim_offset = 0,
         rp_add_txdesc = False, rp_ssid = None, rp_probe_req_size = 0, rp_skb = None\<rparr>)\<rparr>"
    by (simp add: build_rsvd_page_from_vifs_def build_rsvd_page_reset_def rtw_build_rsvd_page_iter_def
        run_rtw_alloc_rsvd_page rsvd_example_def rp_get_def)
  obtain s2 where fetch: "run_state (rsvd_fetch (rsvd_page_list s1) 0) s1 = (Some 2, s2)"
    and sk: "skbs s2 (rsvd_page_list s1) = [[0], [1, 2, 3]]" and p: "rsvd_heap s2 0 \<noteq> None" "rp_page (the (rsvd_heap s2 0)) = 1"
    and lim: "rsvd_drv_pg_num (fifo s2) = 9" and al: "alloc_ok s2 = (\<lambda>_. True)"
    by (simp add: l s1 rsvd_example_def rtw_get_rsvd_page_skb_def rp_get_def rp_upd_def Let_def rtw_len_to_page_def skbs_def)
  have chip: "ci_page_size (chip ?s) = 128" "ci_tx_pkt_desc_sz (chip ?s) = 40" by (simp_all add: rsvd_example_def)
  obtain buf s3 where copy: "run_state (rsvd_copy 128 40 [Suc 0, 0] 0 (replicate 216 0)) (s2\<lparr>alloc_cnt := Suc (alloc_cnt s2)\<rparr>) = (buf, s3)"
    by (meson surj_pair)
  have build: "run_state rtw_build_rsvd_page ?s = (Some buf, s3)"
    using fetch unfolding l
    by (simp add: rtw_build_rsvd_page_def gather l chip lim al copy del: rsvd_copy.simps rsvd_fetch.simps)
  have "rsvd_page_list s3 = rsvd_page_list s1 \<and> (\<forall>i \<in> set (rsvd_page_list s3). \<exists>p d. rsvd_heap s3 i = Some p \<and> rp_skb (the (rsvd_heap s2 i)) = Some d \<and>
        rp_page p = rp_page (the (rsvd_heap s2 i)) \<and>
        take (length d) (drop (slot 128 40 (unat (rp_page p))) (replicate 40 0 @ buf)) = d)"
    using rsvd_packets_where_reported [OF ok gather fetch build, of 128 40 "replicate 40 0"]
    by (simp add: chip sk page_count_def)
  with l obtain d where "rp_skb (the (rsvd_heap s2 0)) = Some d"
    "take (length d) (drop 128 (replicate 40 0 @ buf)) = d" using p(2) by (force simp: slot_def)
  moreover from this sk l have "d = [1, 2, 3]" by (simp add: skbs_def)
  ultimately show "\<exists>buf. fst (run_state rtw_build_rsvd_page (rsvd_example s)) = Some buf \<and>
     take 3 (drop 128 (replicate 40 0 @ buf)) = [1, 2, 3]"
    using build by (simp add: eval_nat_numeral)
qed

end
