(* ===== verification/Scan.thy ===== *)
theory Scan
  imports RsvdProps
begin

text \<open>
  The scan the firmware does (\<open>fw.c\<close>): its probe requests and channel list in the reserved pages,
  starting, finishing and aborting it, and the messages about its progress.
\<close>

section \<open>Flushing all queues\<close>

definition rtw_hci_flush_all_queues :: "('e, 'x) rtw_drv_scheme rtw_drv_ops \<Rightarrow> bool \<Rightarrow> ('e, 'x, unit) drv" where
  "rtw_hci_flush_all_queues ops drop' = do { all \<leftarrow> dev_get (\<lambda>s. BIT (hw_queues s) - 1); do_flush_queues ops all drop' }"

definition rtw_mac_flush_all_queues :: "('e, 'x, unit) drv" where
  "rtw_mac_flush_all_queues = do { all \<leftarrow> dev_get (\<lambda>s. BIT (hw_queues s) - 1); rtw_mac_flush_queues all }"

section \<open>Probe requests\<close>

abbreviation (input) RTW_PROBE_PG_CNT :: u8 where "RTW_PROBE_PG_CNT \<equiv> 4"
abbreviation (input) RTW_OLD_PROBE_PG_CNT :: u8 where "RTW_OLD_PROBE_PG_CNT \<equiv> 2"
abbreviation (input) RTW_PACKET_PROBE_REQ :: u8 where "RTW_PACKET_PROBE_REQ \<equiv> 0"

text \<open>
  A copy of the request for each band of the chip, with the information elements of the band and the
  common ones; the list of frames and the count of bands grow along. No list means \<open>-ENOMEM\<close>.
\<close>

fun rtw_append_probe_req_ie ::
  "nat list \<Rightarrow> cfg80211_scan_request \<Rightarrow> u8 list \<Rightarrow> u8 list list \<Rightarrow> u8 \<Rightarrow> ('e, 'x, (u8 list list \<times> u8) option) drv" where
  "rtw_append_probe_req_ie [] req skb frames bands = State_Monad.return (Some (frames, bands))"
| "rtw_append_probe_req_ie (idx # is) req skb frames bands =
     do { ok \<leftarrow> try_alloc;
          if \<not> ok then State_Monad.return None
          else rtw_append_probe_req_ie is req skb (frames @ [skb @ sr_band_ies req idx @ sr_common_ies req]) (bands + 1) }"

definition chip_bands :: "rtw_chip_drv \<Rightarrow> nat list" where
  "chip_bands c = (if cd_band_2g c then [0] else []) @ (if cd_band_5g c then [1] else [])"

text \<open>
  One frame after the other goes into its pages of the buffer, and the firmware is told where. The
  result is the buffer and how far it is filled, or an error.
\<close>

fun probe_req_to_buf ::
  "('e, 'x) rtw_drv_scheme rtw_drv_ops \<Rightarrow> u8 \<Rightarrow> u16 \<Rightarrow> u8 list list \<Rightarrow> u8 list \<Rightarrow> u16 \<Rightarrow> u8 \<Rightarrow>
   ('e, 'x, int + u8 list \<times> u16 \<times> u8) drv" where
  "probe_req_to_buf ops page_cnt pgaddr [] buf buf_offset page_offset = State_Monad.return (Inr (buf, buf_offset, page_offset))"
| "probe_req_to_buf ops page_cnt pgaddr (d # ds) buf buf_offset page_offset =
     do { s \<leftarrow> dev_get (\<lambda>s. s);
          let page_size = ci_page_size (chip s); skb = rtw_fill_rsvd_page_desc s d RSVD_PROBE_REQ;
              pkt_len = length skb - unat (ci_tx_pkt_desc_sz (chip s));
              loc = pgaddr - rsvd_boundary (fifo s) + ucast page_offset
          in if unat page_size * unat page_cnt < length skb then State_Monad.return (Inl (- EINVAL))
             else do { when_do (length buf < unat buf_offset + length skb) set_fault;
                       fw_update_pkt ops RTW_PACKET_PROBE_REQ (of_nat pkt_len) (ucast loc);
                       probe_req_to_buf ops page_cnt pgaddr ds (list_store (unat buf_offset) skb buf)
                         (buf_offset + ucast page_cnt * page_size) (page_offset + page_cnt) } }"

definition scan_update_probe_req ::
  "('e, 'x) rtw_drv_scheme rtw_drv_ops \<Rightarrow> u8 \<Rightarrow> u8 list list \<Rightarrow> ('e, 'x, int) drv" where
  "scan_update_probe_req ops num_probes frames =
     do { s \<leftarrow> dev_get (\<lambda>s. s);
          let pgaddr = rsvd_h2c_info_addr (fifo s); page_size = ci_page_size (chip s);
              page_cnt = (if fw_feature_ext s AND FW_FEATURE_EXT_OLD_PAGE_NUM \<noteq> 0 then RTW_OLD_PROBE_PG_CNT else RTW_PROBE_PG_CNT);
              pages = 1 + num_probes * page_cnt
          in do { ok \<leftarrow> try_alloc;
                  if \<not> ok then State_Monad.return (- ENOMEM)
                  else do { r \<leftarrow> probe_req_to_buf ops page_cnt pgaddr frames (replicate (unat page_size * unat pages) 0)
                              (page_size - ucast (ci_tx_pkt_desc_sz (chip s))) 1;
                            case r of Inl ret \<Rightarrow> State_Monad.return ret
                            | Inr (buf, buf_offset, page_offset) \<Rightarrow>
                                do { when_do (length buf < unat buf_offset) set_fault;
                                     ret \<leftarrow> rtw_fw_write_data_rsvd_page (do_write_data_rsvd_page ops) pgaddr
                                       (take (unat buf_offset) buf);
                                     when_do (ret = 0) (scan_upd (\<lambda>i. i\<lparr>si_probe_pg_size := page_offset\<rparr>));
                                     State_Monad.return ret } } } }"

text \<open>The frames of all networks; \<open>bands\<close> counts on from network to network.\<close>

fun probe_reqs_of :: "u8 list \<Rightarrow> cfg80211_scan_request \<Rightarrow> cfg80211_ssid list \<Rightarrow> u8 list list \<Rightarrow> u8 \<Rightarrow>
  ('e, 'x, (u8 list list \<times> u8) option) drv" where
  "probe_reqs_of mac_addr req [] frames bands = State_Monad.return (Some (frames, bands))"
| "probe_reqs_of mac_addr req (ssid # ssids) frames bands =
     do { r \<leftarrow> get_frame (FrProbeReq mac_addr (Some ssid) (sr_ie_len req));
          case r of None \<Rightarrow> State_Monad.return None
          | Some (skb, _) \<Rightarrow>
              do { bs \<leftarrow> dev_get (\<lambda>s. chip_bands (chip_drv s));
                   r \<leftarrow> rtw_append_probe_req_ie bs req skb frames bands;
                   case r of None \<Rightarrow> State_Monad.return None
                   | Some (frames', bands') \<Rightarrow> probe_reqs_of mac_addr req ssids frames' bands' } }"

definition rtw_hw_scan_update_probe_req ::
  "('e, 'x) rtw_drv_scheme rtw_drv_ops \<Rightarrow> nat \<Rightarrow> cfg80211_scan_request \<Rightarrow> ('e, 'x, int) drv" where
  "rtw_hw_scan_update_probe_req ops v req =
     do { mac_addr \<leftarrow> dev_get (\<lambda>s. rv_mac_addr (vif_tbl s v));
          let num = of_nat (length (sr_ssids req)) :: u8
          in do { r \<leftarrow> probe_reqs_of mac_addr req (take (unat num) (sr_ssids req)) [] 0;
                  case r of None \<Rightarrow> State_Monad.return (- ENOMEM)
                  | Some (frames, bands) \<Rightarrow> scan_update_probe_req ops (num * bands) frames } }"

section \<open>The channel list\<close>

abbreviation (input) RTW_CH_INFO_SIZE :: nat where "RTW_CH_INFO_SIZE \<equiv> 4"
abbreviation (input) RTW_EX_CH_INFO_SIZE :: nat where "RTW_EX_CH_INFO_SIZE \<equiv> 3"
abbreviation (input) RTW_CHANNEL_TIME :: u16 where "RTW_CHANNEL_TIME \<equiv> 45"
abbreviation (input) RTW_PASS_CHAN_TIME :: u16 where "RTW_PASS_CHAN_TIME \<equiv> 105"
abbreviation (input) RTW_CHANNEL_ACTIVE :: u8 where "RTW_CHANNEL_ACTIVE \<equiv> 1"
abbreviation (input) RTW_CHANNEL_RADAR :: u8 where "RTW_CHANNEL_RADAR \<equiv> 2"
abbreviation (input) RTW_OFF_CHAN_TIME :: u32 where "RTW_OFF_CHAN_TIME \<equiv> 100"

record rtw_chan_info =
  chi_pri_ch_idx :: u8
  chi_action_id :: u8
  chi_bw :: u8
  chi_extra_info :: u8
  chi_channel :: u8
  chi_timeout :: u16

record rtw_chan_list =
  chl_buf_size :: nat
  chl_ch_num :: nat
  chl_size :: nat
  chl_addr :: u16

text \<open>
  The bytes of an entry: every bit of them is written. \<open>old\<close> is what the buffer, which \<open>kmalloc\<close>
  does not clear, held before.
\<close>

definition chan_entry :: "rtw_chan_info \<Rightarrow> u8 list \<Rightarrow> u8 list" where
  "chan_entry info old = set_fields
     ([CH_INFO_SET_CH (chi_channel info), CH_INFO_SET_PRI_CH_IDX (chi_pri_ch_idx info), CH_INFO_SET_BW (chi_bw info),
       CH_INFO_SET_TIMEOUT (ucast (chi_timeout info)), CH_INFO_SET_ACTION_ID (chi_action_id info),
       CH_INFO_SET_EXTRA_INFO (chi_extra_info info)] @
      (if chi_extra_info info \<noteq> 0
       then [EXTRA_CH_INFO_SET_ID 0, EXTRA_CH_INFO_SET_INFO 0, EXTRA_CH_INFO_SET_SIZE 1, EXTRA_CH_INFO_SET_DFS_EXT_TIME 20]
       else [])) old"

definition chan_entry_size :: "rtw_chan_info \<Rightarrow> nat" where
  "chan_entry_size info = RTW_CH_INFO_SIZE + (if chi_extra_info info \<noteq> 0 then RTW_EX_CH_INFO_SIZE else 0)"

definition rtw_add_chan_info :: "rtw_chan_info \<Rightarrow> rtw_chan_list \<Rightarrow> u8 list \<Rightarrow> ('e, 'x, (rtw_chan_list \<times> u8 list) option) drv" where
  "rtw_add_chan_info info l buf =
     (let off = chl_size l; n = chan_entry_size info in
      if chl_buf_size l < off then State_Monad.return None
      else do { when_do (length buf < off + n) set_fault;
                State_Monad.return (Some (l\<lparr>chl_size := off + n, chl_ch_num := Suc (chl_ch_num l)\<rparr>,
                  list_store off (chan_entry info (take n (drop off buf))) buf)) })"

definition scan_chan_info :: "cfg80211_scan_request \<Rightarrow> ieee80211_channel \<Rightarrow> rtw_chan_info" where
  "scan_chan_info req c =
     (let timeout = (if sr_duration_mandatory req then sr_duration req else RTW_CHANNEL_TIME);
          passive = ch_radar c \<or> ch_no_ir c
      in \<lparr>chi_pri_ch_idx = 1, chi_action_id = (if passive then RTW_CHANNEL_RADAR else RTW_CHANNEL_ACTIVE), chi_bw = 0, chi_extra_info = (if passive then 1 else 0),
          chi_channel = ucast (ch_hw_value c),
          chi_timeout = (if passive then if timeout > RTW_PASS_CHAN_TIME then timeout else RTW_PASS_CHAN_TIME else timeout)\<rparr>)"

fun add_chan_infos :: "cfg80211_scan_request \<Rightarrow> ieee80211_channel list \<Rightarrow> rtw_chan_list \<Rightarrow> u8 list \<Rightarrow>
  ('e, 'x, (rtw_chan_list \<times> u8 list) option) drv" where
  "add_chan_infos req [] l buf = State_Monad.return (Some (l, buf))"
| "add_chan_infos req (c # cs) l buf =
     do { r \<leftarrow> rtw_add_chan_info (scan_chan_info req c) l buf;
          case r of None \<Rightarrow> State_Monad.return None | Some (l', buf') \<Rightarrow> add_chan_infos req cs l' buf' }"

definition rtw_add_chan_list ::
  "('e, 'x) rtw_drv_scheme rtw_drv_ops \<Rightarrow> cfg80211_scan_request \<Rightarrow> rtw_chan_list \<Rightarrow> u8 list \<Rightarrow> ('e, 'x, int \<times> rtw_chan_list) drv" where
  "rtw_add_chan_list ops req l buf =
     do { r \<leftarrow> add_chan_infos req (sr_channels req) l buf;
          case r of None \<Rightarrow> State_Monad.return (- ENOMEM, l)
          | Some (l', buf') \<Rightarrow>
              do { f \<leftarrow> dev_get fifo;
                   i \<leftarrow> dev_get scan_info;
                   if unat (rsvd_pg_num f) * 128 < chl_size l' then State_Monad.return (- EINVAL, l')
                   else let addr = rsvd_h2c_info_addr f + ucast (si_probe_pg_size i)
                        in do { ret \<leftarrow> rtw_fw_write_data_rsvd_page (do_write_data_rsvd_page ops) addr (take (chl_size l') buf');
                                State_Monad.return (ret, l'\<lparr>chl_addr := addr\<rparr>) } } }"

text \<open>\<open>junk\<close> is what the allocated memory holds.\<close>

definition rtw_hw_scan_prehandle ::
  "('e, 'x) rtw_drv_scheme rtw_drv_ops \<Rightarrow> (nat \<Rightarrow> u8 list) \<Rightarrow> nat \<Rightarrow> cfg80211_scan_request \<Rightarrow> ('e, 'x, int \<times> rtw_chan_list) drv" where
  "rtw_hw_scan_prehandle ops junk v req =
     (let l0 = \<lparr>chl_buf_size = 0, chl_ch_num = 0, chl_size = 0, chl_addr = 0\<rparr>;
          sz = length (sr_channels req) * (RTW_CH_INFO_SIZE + RTW_EX_CH_INFO_SIZE)
      in do { ok \<leftarrow> try_alloc;
              if \<not> ok then State_Monad.return (- ENOMEM, l0)
              else do { ret \<leftarrow> rtw_hw_scan_update_probe_req ops v req;
                        if ret \<noteq> 0 then State_Monad.return (ret, l0)
                        else rtw_add_chan_list ops req (l0\<lparr>chl_buf_size := sz\<rparr>) (junk sz) } })"

section \<open>The scan\<close>

definition scan_offload_pkt ::
  "bool \<Rightarrow> bool \<Rightarrow> cfg80211_scan_request \<Rightarrow> rtw_chan_list \<Rightarrow> rtw_hw_scan_info \<Rightarrow> rtw_fifo_conf \<Rightarrow> nat \<Rightarrow> u8 list" where
  "scan_offload_pkt enable back_op_en req l i f port = set_fields
     [rtw_h2c_pkt_set_header 0x19, SET_PKT_H2C_TOTAL_LEN H2C_PKT_CH_SWITCH_LEN,
      SCAN_OFFLOAD_SET_START (of_bool_w enable), SCAN_OFFLOAD_SET_BACK_OP_EN (of_bool_w back_op_en),
      SCAN_OFFLOAD_SET_RANDOM_SEQ_EN (of_bool_w (sr_random_sn req)), SCAN_OFFLOAD_SET_NO_CCK_EN (of_bool_w (sr_no_cck req)),
      SCAN_OFFLOAD_SET_CH_NUM (of_nat (chl_ch_num l)), SCAN_OFFLOAD_SET_CH_INFO_SIZE (of_nat (chl_size l)),
      SCAN_OFFLOAD_SET_CH_INFO_LOC (ucast (chl_addr l) - ucast (rsvd_boundary f)),
      SCAN_OFFLOAD_SET_OP_CH (ucast (si_op_chan i)), SCAN_OFFLOAD_SET_OP_PRI_CH_IDX (ucast (si_op_pri_ch_idx i)),
      SCAN_OFFLOAD_SET_OP_BW (ucast (si_op_bw i)), SCAN_OFFLOAD_SET_OP_PORT_ID (of_nat port),
      SCAN_OFFLOAD_SET_OP_DWELL_TIME (ucast (if sr_duration_mandatory req then sr_duration req else RTW_CHANNEL_TIME)),
      SCAN_OFFLOAD_SET_OP_GAP_TIME RTW_OFF_CHAN_TIME, SCAN_OFFLOAD_SET_SSID_NUM (of_nat (length (sr_ssids req))),
      SCAN_OFFLOAD_SET_PKT_LOC (ucast (ucast (rsvd_h2c_info_addr f - rsvd_boundary f + 1) :: u8))] h2c_zero"

text \<open>The request is that of the interface; without one the code would read a null pointer.\<close>

definition rtw_fw_set_scan_offload ::
  "('e, 'x) rtw_drv_scheme rtw_drv_ops \<Rightarrow> bool \<Rightarrow> bool \<Rightarrow> nat \<Rightarrow> rtw_chan_list \<Rightarrow> ('e, 'x, unit) drv" where
  "rtw_fw_set_scan_offload ops enable back_op_en v l =
     do { s \<leftarrow> dev_get (\<lambda>s. s);
          case rv_scan_req (vif_tbl s v) of None \<Rightarrow> set_fault
          | Some req \<Rightarrow> rtw_fw_send_h2c_packet ops (scan_offload_pkt enable back_op_en req l (scan_info s) (fifo s) (rv_port (vif_tbl s v))) }"

definition rtw_hw_scan_start ::
  "('e, 'x) rtw_drv_scheme rtw_drv_ops \<Rightarrow> nat \<Rightarrow> cfg80211_scan_request \<Rightarrow> ('e, 'x, unit) drv" where
  "rtw_hw_scan_start ops v req =
     do { scan_upd (\<lambda>i. i\<lparr>si_scanning_vif := Some v\<rparr>);
          vif_upd v (\<lambda>r. r\<lparr>rv_scan_req := Some req\<rparr>);
          kcall KStopQueues;
          rtw_leave_lps_deep ops;
          rtw_hci_flush_all_queues ops False;
          rtw_mac_flush_all_queues;
          addr \<leftarrow> dev_get (\<lambda>s. rv_addr (vif_tbl s v));
          rtw_core_scan_start ops v (case sr_random_addr req of Some a \<Rightarrow> a | None \<Rightarrow> addr) True;
          dev_upd (\<lambda>s. s\<lparr>hal_rcr := hal_rcr s AND NOT BIT_CBSSID_BCN\<rparr>);
          rcr \<leftarrow> dev_get hal_rcr;
          rtw_write32 REG_RCR rcr }"

definition rtw_hw_scan_complete ::
  "('e, 'x) rtw_drv_scheme rtw_drv_ops \<Rightarrow> nat option \<Rightarrow> bool \<Rightarrow> ('e, 'x, unit) drv" where
  "rtw_hw_scan_complete ops vif aborted =
     do { chan \<leftarrow> dev_get (\<lambda>s. si_op_chan (scan_info s));
          case vif of None \<Rightarrow> skip
          | Some v \<Rightarrow>
              do { dev_upd (\<lambda>s. s\<lparr>hal_rcr := hal_rcr s OR BIT_CBSSID_BCN\<rparr>);
                   rcr \<leftarrow> dev_get hal_rcr;
                   rtw_write32 REG_RCR rcr;
                   rtw_core_scan_complete ops (Some v) True;
                   when_do (chan \<noteq> 0) (rtw_store_op_chan False);
                   cur \<leftarrow> dev_get (\<lambda>s. hal_current_channel (hal s));
                   rtw_phy_set_tx_power_level (do_set_tx_power_index ops) cur;
                   kcall KWakeQueues;
                   kcall (KScanCompleted aborted);
                   vif_upd v (\<lambda>r. r\<lparr>rv_scan_req := None\<rparr>);
                   scan_upd (\<lambda>i. i\<lparr>si_scanning_vif := None\<rparr>) } }"

definition rtw_hw_scan_offload ::
  "('e, 'x) rtw_drv_scheme rtw_drv_ops \<Rightarrow> (nat \<Rightarrow> u8 list) \<Rightarrow> nat option \<Rightarrow> bool \<Rightarrow> ('e, 'x, int) drv" where
  "rtw_hw_scan_offload ops junk vif enable = (case vif of None \<Rightarrow> State_Monad.return (- EINVAL)
     | Some v \<Rightarrow>
         do { back_op_en \<leftarrow> dev_get (\<lambda>s. si_op_chan (scan_info s) \<noteq> 0);
              req \<leftarrow> dev_get (\<lambda>s. rv_scan_req (vif_tbl s v));
              ret \<leftarrow> (if enable
                     then (case req of None \<Rightarrow> do { set_fault; State_Monad.return 0 }
                           | Some r \<Rightarrow> do { (ret, l) \<leftarrow> rtw_hw_scan_prehandle ops junk v r;
                                           when_do (ret = 0) (rtw_fw_set_scan_offload ops enable back_op_en v l);
                                           State_Monad.return ret })
                     else do { rtw_fw_set_scan_offload ops enable back_op_en v
                                 \<lparr>chl_buf_size = 0, chl_ch_num = 0, chl_size = 0, chl_addr = 0\<rparr>;
                               State_Monad.return 0 });
              ap \<leftarrow> dev_get ap_active;
              if ap then rtw_download_beacon ops else State_Monad.return ret })"

definition rtw_hw_scan_abort :: "('e, 'x) rtw_drv_scheme rtw_drv_ops \<Rightarrow> (nat \<Rightarrow> u8 list) \<Rightarrow> ('e, 'x, unit) drv" where
  "rtw_hw_scan_abort ops junk =
     do { vif \<leftarrow> dev_get (\<lambda>s. si_scanning_vif (scan_info s));
          feature \<leftarrow> dev_get fw_feature;
          if \<not> rtw_fw_feature_check feature FW_FEATURE_SCAN_OFFLOAD then skip
          else do { _ \<leftarrow> rtw_hw_scan_offload ops junk vif False; rtw_hw_scan_complete ops vif True } }"

section \<open>Messages about the scan\<close>

definition rtw_hw_scan_status_report :: "('e, 'x) rtw_drv_scheme rtw_drv_ops \<Rightarrow> u8 list \<Rightarrow> ('e, 'x, unit) drv" where
  "rtw_hw_scan_status_report ops payload =
     do { vif \<leftarrow> dev_get (\<lambda>s. si_scanning_vif (scan_info s));
          scanning \<leftarrow> dev_get rtw_phy.flag_scanning;
          if \<not> scanning then skip
          else do { rc \<leftarrow> payload_byte payload 2; rtw_hw_scan_complete ops vif (rc \<noteq> 0) } }"

definition rtw_hw_scan_chan_switch :: "('e, 'x) rtw_drv_scheme rtw_drv_ops \<Rightarrow> u8 list \<Rightarrow> ('e, 'x, unit) drv" where
  "rtw_hw_scan_chan_switch ops payload =
     do { scanning \<leftarrow> dev_get rtw_phy.flag_scanning;
          if \<not> scanning then skip
          else do { chan \<leftarrow> payload_byte payload 2;
                    id \<leftarrow> payload_byte payload 3;
                    _ \<leftarrow> payload_byte payload 4;
                    if id = 1 then
                      do { rtw_update_channel chan chan (band_of_channel chan) Hal.RTW_CHANNEL_WIDTH_20;
                           op \<leftarrow> dev_get (rtw_is_op_chan chan);
                           when_do op (do { rtw_store_op_chan False; kcall KWakeQueues; rtw_core_enable_beacon True }) }
                    else if id = 0 then
                      do { (if IS_CH_5G_BAND (unat chan) then do_coex ops (CoexSwitchband COEX_SWITCH_TO_5G)
                            else if IS_CH_2G_BAND (unat chan) then do_coex ops (CoexSwitchband (switch_band_24g scanning))
                            else skip);
                           op \<leftarrow> dev_get (rtw_is_op_chan chan);
                           cur_op \<leftarrow> dev_get (\<lambda>s. rtw_is_op_chan (hal_current_channel (hal s)) s);
                           when_do (\<not> op \<and> cur_op) (do { rtw_core_enable_beacon False; kcall KStopQueues }) }
                    else skip } }"

section \<open>The channel list the firmware reads\<close>

definition chan_bytes :: "rtw_chan_info \<Rightarrow> u8 list" where
  "chan_bytes info = [chi_channel info, 1, ucast (chi_timeout info), if chi_extra_info info \<noteq> 0 then 0x82 else 1]
     @ (if chi_extra_info info \<noteq> 0 then [0, 1, 20] else [])"

text \<open>Two fields that share a byte replace all of it.\<close>

lemma replace_both:
  assumes "0 < l" and "l \<le> 7"
  shows "replace_bits (replace_bits (w :: u8) a (GENMASK (l - 1) 0)) b (GENMASK 7 l) = take_bit l a OR push_bit l b"
  using assms by (intro bit_word_eqI) (auto simp: replace_bits_def field_bits bit_simps dest: bit_imp_le_length)

lemma replace_all: "replace_bits (w :: u8) v (GENMASK 7 0) = v"
  by (rule bit_word_eqI) (auto simp: replace_bits_def field_bits bit_simps dest: bit_imp_le_length)

lemmas replace_bytes = replace_both [of 4, simplified] replace_both [of 7, simplified] replace_all

lemma chan_entry_bytes:
  assumes "length old = chan_entry_size (scan_chan_info req c)"
  shows "chan_entry (scan_chan_info req c) old = chan_bytes (scan_chan_info req c)"
proof (cases "ch_radar c \<or> ch_no_ir c")
  case True
  with assms have "length old = 7" by (simp add: scan_chan_info_def chan_entry_size_def Let_def)
  then obtain a b d e f g h where "old = [a, b, d, e, f, g, h]"
    by (auto simp: length_Suc_conv eval_nat_numeral)
  with True show ?thesis
    by (simp add: chan_entry_def chan_bytes_def scan_chan_info_def Let_def set_fields_def u8p_replace_bits_def
        CH_INFO_SET_CH_def CH_INFO_SET_PRI_CH_IDX_def CH_INFO_SET_BW_def CH_INFO_SET_TIMEOUT_def CH_INFO_SET_ACTION_ID_def
        CH_INFO_SET_EXTRA_INFO_def EXTRA_CH_INFO_SET_ID_def EXTRA_CH_INFO_SET_INFO_def EXTRA_CH_INFO_SET_SIZE_def
        EXTRA_CH_INFO_SET_DFS_EXT_TIME_def BIT_eq_GENMASK replace_bytes)
next
  case False
  with assms have "length old = 4" by (simp add: scan_chan_info_def chan_entry_size_def Let_def)
  then obtain a b d e where "old = [a, b, d, e]"
    by (auto simp: length_Suc_conv eval_nat_numeral)
  with False show ?thesis
    by (simp add: chan_entry_def chan_bytes_def scan_chan_info_def Let_def set_fields_def u8p_replace_bits_def
        CH_INFO_SET_CH_def CH_INFO_SET_PRI_CH_IDX_def CH_INFO_SET_BW_def CH_INFO_SET_TIMEOUT_def CH_INFO_SET_ACTION_ID_def
        CH_INFO_SET_EXTRA_INFO_def BIT_eq_GENMASK replace_bytes)
qed

text \<open>
  How the firmware reads the list. An entry is a channel, the index of its primary channel and its
  width, the time to stay, what to do there, and, when the mark in front of it says so, the extra
  information: its identifier and action, its length and the time to stay on a radar channel.
\<close>

record scan_entry =
  se_channel :: u8
  se_pri_ch_idx :: u8
  se_bw :: u8
  se_dwell :: u8
  se_action :: u8
  se_extra :: "(u8 \<times> bool \<times> u8 \<times> u8) option"

fun parse_chan_list :: "u8 list \<Rightarrow> scan_entry list" where
  "parse_chan_list (ch # b # t # a # rest) =
     (let e = (\<lambda>x. \<lparr>se_channel = ch, se_pri_ch_idx = take_bit 4 b, se_bw = drop_bit 4 b, se_dwell = t,
                   se_action = take_bit 7 a, se_extra = x\<rparr>)
      in if bit a 7
         then (case rest of
                 x # n # dfs # rest' \<Rightarrow> e (Some (take_bit 7 x, bit x 7, n, dfs)) # parse_chan_list rest'
               | _ \<Rightarrow> [])
         else e None # parse_chan_list rest)"
| "parse_chan_list _ = []"

text \<open>
  What was asked for, of one channel: 20 MHz wide; where the regulations forbid transmitting first,
  the driver listens (action 2), for at least 105 ms and with the extra radar entry, elsewhere it
  probes (action 1); the time is the request's or 45 ms, and only its low eight bits.
\<close>

definition requested_entry :: "cfg80211_scan_request \<Rightarrow> ieee80211_channel \<Rightarrow> scan_entry" where
  "requested_entry req c =
     (let ms = (if sr_duration_mandatory req then unat (sr_duration req) else 45);
          listen = ch_radar c \<or> ch_no_ir c
      in \<lparr>se_channel = ucast (ch_hw_value c), se_pri_ch_idx = 1, se_bw = 0,
          se_dwell = of_nat ((if listen then max ms 105 else ms) mod 256),
          se_action = (if listen then 2 else 1), se_extra = (if listen then Some (0, False, 1, 20) else None)\<rparr>)"

lemma ucast_u16_u8: "(ucast (w :: u16) :: u8) = of_nat (unat w mod 256)"
proof -
  have "unat w mod 256 mod 256 = unat w mod 256"
    by (rule mod_mod_trivial)
  then show ?thesis
    by (simp add: word_unat_eq_iff unsigned_ucast_eq unat_of_nat take_bit_nat_def)
qed

lemma parse_chan_bytes:
  "parse_chan_list (chan_bytes (scan_chan_info req c) @ rest) = requested_entry req c # parse_chan_list rest"
proof -
  have max: "unat (if t > RTW_PASS_CHAN_TIME then t else RTW_PASS_CHAN_TIME) = max (unat t) 105" for t :: u16
    by (simp add: word_less_nat_alt max_def)
  have bits: "bit (0x82 :: u8) 7" "take_bit 7 (0x82 :: u8) = 2" "\<not> bit (1 :: u8) 7" "take_bit 7 (1 :: u8) = 1"
    "take_bit 4 (1 :: u8) = 1" "drop_bit 4 (1 :: u8) = 0"
    by code_simp+
  define t where "t = (if sr_duration_mandatory req then sr_duration req else RTW_CHANNEL_TIME)"
  have "unat t = (if sr_duration_mandatory req then unat (sr_duration req) else 45)"
    by (simp add: t_def)
  then show ?thesis
    using max [of t] bits
    by (simp add: chan_bytes_def scan_chan_info_def requested_entry_def Let_def t_def [symmetric] ucast_u16_u8)
qed

lemma parse_chan_list_concat:
  "parse_chan_list (concat (map (\<lambda>c. chan_bytes (scan_chan_info req c)) cs)) = map (requested_entry req) cs"
  by (induction cs) (simp_all add: parse_chan_bytes)

lemma take_list_store:
  assumes "off + length d \<le> length buf"
  shows "take (off + length d) (list_store off d buf) = take off buf @ d"
  using assms by (simp add: list_store_def)

lemma run_add_chan_infos:
  assumes "chl_size l + 7 * length cs \<le> length buf" and "chl_buf_size l = length buf"
  shows "\<exists>l' buf'. run_state (add_chan_infos req cs l buf) s = (Some (l', buf'), s) \<and> chl_size l' \<le> length buf \<and>
     chl_ch_num l' = chl_ch_num l + length cs \<and>
     take (chl_size l') buf' = take (chl_size l) buf @ concat (map (\<lambda>c. chan_bytes (scan_chan_info req c)) cs)"
  using assms
proof (induction cs arbitrary: l buf)
  case (Cons c cs)
  define info where "info = scan_chan_info req c"
  define d where "d = chan_entry info (take (chan_entry_size info) (drop (chl_size l) buf))"
  have n: "chan_entry_size info \<le> 7" by (simp add: chan_entry_size_def)
  with Cons.prems(1) have fits: "chl_size l + chan_entry_size info \<le> length buf" by simp
  then have d: "d = chan_bytes info" unfolding d_def info_def by (intro chan_entry_bytes) simp
  have len: "length d = chan_entry_size info" unfolding d by (simp add: chan_bytes_def chan_entry_size_def)
  let ?l = "l\<lparr>chl_size := chl_size l + chan_entry_size info, chl_ch_num := Suc (chl_ch_num l)\<rparr>"
  let ?buf = "list_store (chl_size l) d buf"
  have buf: "length ?buf = length buf" using fits by (intro length_list_store) (simp add: len)
  have one: "run_state (rtw_add_chan_info info l buf) s = (Some (?l, ?buf), s)"
    using fits Cons.prems(2) by (simp add: rtw_add_chan_info_def Let_def d_def)
  have "chl_size ?l + 7 * length cs \<le> length ?buf" "chl_buf_size ?l = length ?buf"
    using Cons.prems n unfolding buf by simp_all
  from Cons.IH [OF this] obtain l' buf' where rest: "run_state (add_chan_infos req cs ?l ?buf) s = (Some (l', buf'), s)"
    "chl_size l' \<le> length buf" "chl_ch_num l' = Suc (chl_ch_num l) + length cs"
    "take (chl_size l') buf' = take (chl_size l + chan_entry_size info) ?buf @ concat (map (\<lambda>c. chan_bytes (scan_chan_info req c)) cs)"
    unfolding buf by fastforce
  have "take (chl_size l + chan_entry_size info) ?buf = take (chl_size l) buf @ chan_bytes info"
    using take_list_store [of "chl_size l" d buf] fits by (simp add: len) (simp add: d)
  with rest one show ?case by (intro exI [of _ l'] exI [of _ buf']) (simp add: info_def [symmetric])
qed simp

text \<open>
  Property C19. The list of channels the firmware gets is the request's: for a buffer of the size the
  code allocates, whatever it held, building the list succeeds without leaving the buffer, and
  reading it back gives, for every channel in order, its number, the low eight bits of the time to
  stay there (the request's or 45 ms, at least 105 ms where the driver must only listen), whether to
  probe or to listen, and the extra radar entry exactly where it listens.
\<close>

theorem scan_channel_list_roundtrip:
  assumes "length buf = length cs * (RTW_CH_INFO_SIZE + RTW_EX_CH_INFO_SIZE)"
  defines "l0 \<equiv> \<lparr>chl_buf_size = length buf, chl_ch_num = 0, chl_size = 0, chl_addr = 0\<rparr>"
  shows "\<exists>l buf'. run_state (add_chan_infos req cs l0 buf) s = (Some (l, buf'), s) \<and> chl_size l \<le> length buf \<and>
     chl_ch_num l = length cs \<and> parse_chan_list (take (chl_size l) buf') = map (requested_entry req) cs"
proof -
  have "chl_size l0 + 7 * length cs \<le> length buf" "chl_buf_size l0 = length buf"
    using assms(1) by (simp_all add: l0_def)
  from run_add_chan_infos [OF this, of req s] obtain l buf' where
    "run_state (add_chan_infos req cs l0 buf) s = (Some (l, buf'), s)" "chl_size l \<le> length buf" "chl_ch_num l = length cs"
    "take (chl_size l) buf' = concat (map (\<lambda>c. chan_bytes (scan_chan_info req c)) cs)"
    by (auto simp: l0_def)
  then show ?thesis
    by (intro exI [of _ l] exI [of _ buf']) (simp add: parse_chan_list_concat)
qed

text \<open>Channel 1, active, and channel 52, passive, for a requested time of 300 ms, of which 44 are left.\<close>

lemma scan_channel_list_roundtrip_witness:
  "\<forall>(req :: cfg80211_scan_request) (s :: (unit, unit) rtw_drv_scheme).
     \<exists>l buf'. fst (run_state (add_chan_infos (req\<lparr>sr_duration_mandatory := True, sr_duration := 300\<rparr>)
          [\<lparr>ch_hw_value = 1, ch_radar = False, ch_no_ir = False\<rparr>, \<lparr>ch_hw_value = 52, ch_radar = True, ch_no_ir = False\<rparr>]
        \<lparr>chl_buf_size = length (replicate 14 (0xff :: u8)), chl_ch_num = 0, chl_size = 0, chl_addr = 0\<rparr> (replicate 14 0xff)) s) = Some (l, buf') \<and>
      parse_chan_list (take (chl_size l) buf') =
        [\<lparr>se_channel = 1, se_pri_ch_idx = 1, se_bw = 0, se_dwell = 44, se_action = 1, se_extra = None\<rparr>,
         \<lparr>se_channel = 52, se_pri_ch_idx = 1, se_bw = 0, se_dwell = 44, se_action = 2, se_extra = Some (0, False, 1, 20)\<rparr>]"
proof (intro allI)
  fix req :: cfg80211_scan_request and s :: "(unit, unit) rtw_drv_scheme"
  let ?req = "req\<lparr>sr_duration_mandatory := True, sr_duration := 300\<rparr>"
  let ?cs = "[\<lparr>ch_hw_value = 1, ch_radar = False, ch_no_ir = False\<rparr>, \<lparr>ch_hw_value = 52, ch_radar = True, ch_no_ir = False\<rparr>]"
  let ?l0 = "\<lparr>chl_buf_size = length (replicate 14 (0xff :: u8)), chl_ch_num = 0, chl_size = 0, chl_addr = 0\<rparr>"
  have "length (replicate 14 (0xff :: u8)) = length ?cs * (RTW_CH_INFO_SIZE + RTW_EX_CH_INFO_SIZE)" by simp
  from scan_channel_list_roundtrip [OF this, of ?req s] obtain l buf' where
    "run_state (add_chan_infos ?req ?cs ?l0 (replicate 14 0xff)) s = (Some (l, buf'), s)"
    "parse_chan_list (take (chl_size l) buf') = map (requested_entry ?req) ?cs"
    by blast
  then show "\<exists>l buf'. fst (run_state (add_chan_infos ?req ?cs ?l0 (replicate 14 0xff)) s) = Some (l, buf') \<and>
      parse_chan_list (take (chl_size l) buf') =
        [\<lparr>se_channel = 1, se_pri_ch_idx = 1, se_bw = 0, se_dwell = 44, se_action = 1, se_extra = None\<rparr>,
         \<lparr>se_channel = 52, se_pri_ch_idx = 1, se_bw = 0, se_dwell = 44, se_action = 2, se_extra = Some (0, False, 1, 20)\<rparr>]"
    by (intro exI [of _ l] exI [of _ buf']) (simp add: requested_entry_def)
qed

section \<open>Back on the operating channel\<close>

text \<open>The channel as recorded, and what its restoration reads.\<close>

definition op_view :: "('e, 'x) rtw_drv_scheme \<Rightarrow> chan_view \<times> (bool \<Rightarrow> u8 \<Rightarrow> u32) \<times> u8 \<times> u8 \<times> u8" where
  "op_view s = (chan_view s, channel_to_freq s, si_op_chan (scan_info s), si_op_pri_ch (scan_info s), si_op_bw (scan_info s))"

definition view_of :: "(bool \<Rightarrow> u8 \<Rightarrow> u32) \<Rightarrow> u8 \<Rightarrow> u8 \<Rightarrow> u8 \<Rightarrow> (nat \<Rightarrow> u8) \<Rightarrow> chan_view" where
  "view_of f c p w cch = (let b = band_of_channel c; fc = f (b = RTW_BAND_5G) c; fp = f (b = RTW_BAND_5G) p
     in (center_channels c p fc fp w cch, sar_band_of c, primary_channel_idx fp fc w, w, p, c, b))"

lemma chan_view_update: "chan_view (snd (run_state (rtw_update_channel c p (band_of_channel c) w) s)) =
    view_of (channel_to_freq s) c p w (cch_by_bw (txpwr s))"
  unfolding run_update_channel view_of_def Let_def by simp

lemma op_view_update: "op_view (snd (run_state (rtw_update_channel c p b w) s)) =
    (chan_view (snd (run_state (rtw_update_channel c p b w) s)), channel_to_freq s,
     si_op_chan (scan_info s), si_op_pri_ch (scan_info s), si_op_bw (scan_info s))"
  by (simp add: op_view_def rtw_update_channel_def tp_upd_def hal_upd_def Let_def)

text \<open>Wherever the scan is, the backup leads back to the channel \<open>v\<close>: only the primary's entry has changed.\<close>

definition leads_back :: "chan_view \<Rightarrow> ('e, 'x) rtw_drv_scheme \<Rightarrow> bool" where
  "leads_back v s \<longleftrightarrow> si_op_chan (scan_info s) \<noteq> 0 \<and> (\<exists>x. view_of (channel_to_freq s) (si_op_chan (scan_info s)) (si_op_pri_ch (scan_info s))
      (si_op_bw (scan_info s)) (cch_by_bw (txpwr s)) = v \<and> cch_by_bw (txpwr s) = (fst v)(0 := x))"

lemma leads_back_cong: "op_view s' = op_view s \<Longrightarrow> leads_back v s' = leads_back v s"
  by (simp add: op_view_def chan_view_def leads_back_def)

lemma view_of_absorb: "view_of f c p w (cch(0 := x)) = view_of f c p w cch"
  "view_of f c p w (fst (view_of f c p w cch)) = view_of f c p w cch"
  by (simp_all add: view_of_def Let_def)

lemma leads_back_restore:
  assumes "leads_back v s"
  shows "chan_view (snd (run_state (rtw_store_op_chan False) s)) = v"
    and "leads_back v (snd (run_state (rtw_store_op_chan False) s))"
proof -
  let ?i = "scan_info s" and ?s' = "snd (run_state (rtw_store_op_chan False) s)"
  have run: "?s' = snd (run_state (rtw_update_channel (si_op_chan ?i) (si_op_pri_ch ?i) (band_of_channel (si_op_chan ?i)) (si_op_bw ?i)) s)"
    by (simp add: rtw_store_op_chan_def)
  have v: "view_of (channel_to_freq s) (si_op_chan ?i) (si_op_pri_ch ?i) (si_op_bw ?i) (cch_by_bw (txpwr s)) = v"
    using assms by (auto simp: leads_back_def)
  show cv: "chan_view ?s' = v" unfolding run chan_view_update by (rule v)
  have "op_view ?s' = (v, channel_to_freq s, si_op_chan ?i, si_op_pri_ch ?i, si_op_bw ?i)"
    unfolding run op_view_update by (simp add: chan_view_update v)
  then have f: "channel_to_freq ?s' = channel_to_freq s" "si_op_chan (scan_info ?s') = si_op_chan ?i"
    "si_op_pri_ch (scan_info ?s') = si_op_pri_ch ?i" "si_op_bw (scan_info ?s') = si_op_bw ?i" by (simp_all add: op_view_def)
  have cch: "cch_by_bw (txpwr ?s') = fst v" using cv by (auto simp: chan_view_def)
  have "view_of (channel_to_freq s) (si_op_chan ?i) (si_op_pri_ch ?i) (si_op_bw ?i) (fst v) = v"
    unfolding v [symmetric] by (rule view_of_absorb(2))
  then show "leads_back v ?s'" using assms unfolding leads_back_def f cch by (intro conjI exI [of _ "fst v 0"]) simp_all
qed

lemma leads_back_visit:
  assumes "leads_back v s"
  shows "leads_back v (snd (run_state (rtw_update_channel ch ch b Hal.RTW_CHANNEL_WIDTH_20) s))" (is "leads_back v ?s'")
proof -
  have cch: "cch_by_bw (txpwr ?s') = (cch_by_bw (txpwr s))(0 := ch)"
    using run_update_channel [of ch ch b "Hal.RTW_CHANNEL_WIDTH_20" s] by (simp add: chan_view_def Let_def)
  have f: "channel_to_freq ?s' = channel_to_freq s" "scan_info ?s' = scan_info s"
    by (simp_all add: rtw_update_channel_def tp_upd_def hal_upd_def Let_def)
  from assms obtain x where x: "cch_by_bw (txpwr s) = (fst v)(0 := x)"
    and v: "view_of (channel_to_freq s) (si_op_chan (scan_info s)) (si_op_pri_ch (scan_info s)) (si_op_bw (scan_info s))
      (cch_by_bw (txpwr s)) = v" and "si_op_chan (scan_info s) \<noteq> 0"
    unfolding leads_back_def by blast
  moreover have "(cch_by_bw (txpwr s))(0 := ch) = (fst v)(0 := ch)" unfolding x by simp
  ultimately show ?thesis unfolding leads_back_def f cch view_of_absorb(1) by blast
qed

definition channel_kept :: "('e, 'x) rtw_drv_scheme rtw_drv_ops \<Rightarrow> bool" where
  "channel_kept ops \<longleftrightarrow> (\<forall>e. same op_view (do_coex ops e)) \<and> same op_view (do_set_tx_power_index ops)"

lemma op_view_off [simp]: "off_log op_view" "off_box op_view"
  by (simp_all add: off_log_def off_box_def op_view_def chan_view_def)

lemma op_view_upds [simp]:
  "op_view (s\<lparr>kcalls := ks\<rparr>) = op_view s" "op_view (s\<lparr>fault := fl\<rparr>) = op_view s" "op_view (s\<lparr>vif_tbl := vt\<rparr>) = op_view s"
  "op_view (s\<lparr>hal_rcr := r\<rparr>) = op_view s" "op_view (s\<lparr>rtw_phy.flag_scanning := b\<rparr>) = op_view s"
  "op_view (s\<lparr>flag_dig_disable := b\<rparr>) = op_view s" "op_view (s\<lparr>scan_info := (scan_info s)\<lparr>si_scanning_vif := sv\<rparr>\<rparr>) = op_view s"
  "op_view (s\<lparr>hal := (hal s)\<lparr>hal_tx_pwr_tbl := tb\<rparr>\<rparr>) = op_view s"
  by (simp_all add: op_view_def chan_view_def)

lemma same_for_paths [same_rules]: "(\<And>p. same g (f p)) \<Longrightarrow> same g (for_paths f)"
  unfolding for_paths_def by (intro same_rules)

lemma same_payload_byte: "same op_view (payload_byte payload i)"
  unfolding payload_byte_def by (intro same_rules; simp)

lemma same_enable_beacon: "same op_view (rtw_core_enable_beacon e)"
  unfolding rtw_core_enable_beacon_def by (intro same_rules; simp)

lemma same_scan_complete_core:
  assumes "channel_kept ops"
  shows "same op_view (rtw_core_scan_complete ops vif hw)"
proof -
  have coex: "same op_view (do_coex ops e)" for e using assms by (simp add: channel_kept_def)
  have dig: "same op_view rtw_phy_dig_reset"
    unfolding rtw_phy_dig_reset_def rtw_phy_dig_write_def by (intro same_rules; simp)
  have port: "same op_view (rtw_vif_port_config v config)" for v config
    unfolding rtw_vif_port_config_def rtw_vif_write_addr_def by (intro same_rules; simp)
  have notify: "same op_view (rtw_core_fw_scan_notify st)" for st
    unfolding rtw_core_fw_scan_notify_def rtw_fw_scan_notify_def by (intro same_rules; simp)
  show ?thesis
    unfolding rtw_core_scan_complete_def by (intro same_rules coex dig port notify; simp)
qed

lemma same_tx_power_level:
  assumes "channel_kept ops"
  shows "same op_view (rtw_phy_set_tx_power_level (do_set_tx_power_index ops) ch)"
proof -
  have "same op_view (do_set_tx_power_index ops)" using assms by (simp add: channel_kept_def)
  then show ?thesis
    unfolding rtw_phy_set_tx_power_level_def rtw_phy_set_tx_power_level_by_path_def rtw_phy_set_tx_power_index_by_rs_def
      hal_upd_def
    by (intro same_rules; simp)
qed

lemma leads_back_same: "same op_view m \<Longrightarrow> leads_back v s \<Longrightarrow> leads_back v (snd (run_state m s))"
  by (metis leads_back_cong same_snd)

definition keeps_way :: "chan_view \<Rightarrow> (('e, 'x) rtw_drv_scheme, 'a) state \<Rightarrow> bool" where
  "keeps_way v m \<longleftrightarrow> (\<forall>s. leads_back v s \<longrightarrow> leads_back v (snd (run_state m s)))"

lemma keeps_way_frame: "step_frame (\<lambda>s s' :: ('e, 'x) rtw_drv_scheme. leads_back v s \<longrightarrow> leads_back v s')"
  by unfold_locales simp_all

interpretation keeps_way: step_frame "\<lambda>s s' :: ('e, 'x) rtw_drv_scheme. leads_back v s \<longrightarrow> leads_back v s'"
  rewrites "step_frame.keeps (\<lambda>s s' :: ('e, 'x) rtw_drv_scheme. leads_back v s \<longrightarrow> leads_back v s') = keeps_way v" for v
  by (rule keeps_way_frame) (simp add: fun_eq_iff keeps_way_def step_frame.keeps_def [OF keeps_way_frame])

lemma keeps_way_same: "same op_view m \<Longrightarrow> keeps_way v m"
  by (simp add: keeps_way_def leads_back_same)

lemma keeps_way_for_each: "(\<And>x. keeps_way v (f x)) \<Longrightarrow> keeps_way v (for_each xs f)"
  by (induction xs) (simp_all add: keeps_way_same same_skip keeps_way.keeps_bind)

lemma keeps_way_when: "keeps_way v m \<Longrightarrow> keeps_way v (when_do b m)"
  by (simp add: keeps_way_def)

lemma keeps_way_dev_get: "keeps_way v (dev_get f)"
  by (simp add: keeps_way_def)

lemma chan_switch_keeps_way:
  assumes "channel_kept ops"
  shows "keeps_way v (rtw_hw_scan_chan_switch ops payload)"
proof -
  have coex: "keeps_way v (do_coex ops e)" for e
    using assms by (intro keeps_way_same) (simp add: channel_kept_def)
  have kc: "keeps_way v (kcall c :: ('e, 'x, unit) drv)" for c
    by (intro keeps_way_same same_rules) simp
  have store: "keeps_way v (rtw_store_op_chan False :: ('e, 'x, unit) drv)"
    by (simp add: keeps_way_def leads_back_restore(2))
  have visit: "keeps_way v (rtw_update_channel ch ch b Hal.RTW_CHANNEL_WIDTH_20 :: ('e, 'x, unit) drv)" for ch b
    by (simp add: keeps_way_def leads_back_visit)
  have others: "keeps_way v (skip :: ('e, 'x, unit) drv)" "keeps_way v (payload_byte payload i :: ('e, 'x, u8) drv)"
    "keeps_way v (rtw_core_enable_beacon e :: ('e, 'x, unit) drv)" for i e
    by (intro keeps_way_same same_rules same_payload_byte same_enable_beacon)+
  show ?thesis
    unfolding rtw_hw_scan_chan_switch_def
    by (intro keeps_way.keeps_struct keeps_way_when coex kc store visit others keeps_way_dev_get)
qed

text \<open>
  Property C20. A scan ends on the channel it left: when the operating channel has been set and
  stored, whatever messages about channel switches the firmware sends, completing the scan records
  again that channel, its width, its band, the index of the primary and the centres of all widths.
\<close>

theorem scan_returns_to_op_channel:
  fixes s :: "('e, 'x) rtw_drv_scheme" and p w :: u8
  assumes "channel_kept ops" and "c \<noteq> 0"
  defines "s1 \<equiv> snd (run_state (do { rtw_update_channel c p (band_of_channel c) w; rtw_store_op_chan True }) s)"
  shows "chan_view (snd (run_state (do { for_each msgs (rtw_hw_scan_chan_switch ops);
      rtw_hw_scan_complete ops (Some v) aborted }) s1)) = chan_view s1"
proof -
  let ?t = "snd (run_state (rtw_update_channel c p (band_of_channel c) w) s)"
  have t: "hal_current_channel (hal ?t) = c" "hal_current_band_width (hal ?t) = w" "hal_primary_channel ?t = p"
    using chan_view_update [of c p w s] by (simp_all add: view_of_def Let_def chan_view_def)
  have run1: "s1 = ?t\<lparr>scan_info := (scan_info ?t)\<lparr>si_op_chan := c, si_op_bw := w,
      si_op_pri_ch_idx := hal_primary_channel_index ?t, si_op_pri_ch := p\<rparr>\<rparr>"
    using t by (simp add: s1_def rtw_store_op_chan_def split_def)
  have v: "chan_view s1 = view_of (channel_to_freq s) c p w (cch_by_bw (txpwr s))"
    unfolding run1 chan_view_update [symmetric] by (simp add: chan_view_def)
  have f1: "channel_to_freq s1 = channel_to_freq s"
    using op_view_update [of c p "band_of_channel c" w s] unfolding run1 by (simp add: op_view_def)
  have cch1: "cch_by_bw (txpwr s1) = fst (chan_view s1)" by (simp add: chan_view_def)
  have info: "si_op_chan (scan_info s1) = c" "si_op_pri_ch (scan_info s1) = p" "si_op_bw (scan_info s1) = w"
    unfolding run1 by simp_all
  have "view_of (channel_to_freq s) c p w (fst (chan_view s1)) = chan_view s1"
    unfolding v by (rule view_of_absorb(2))
  with assms(2) have "leads_back (chan_view s1) s1"
    unfolding leads_back_def info f1 cch1 by (intro conjI exI [of _ "fst (chan_view s1) 0"]) simp_all
  moreover have "keeps_way (chan_view s1) (for_each msgs (rtw_hw_scan_chan_switch ops))"
    by (intro keeps_way_for_each chan_switch_keeps_way assms(1))
  ultimately have lb: "leads_back (chan_view s1) (snd (run_state (for_each msgs (rtw_hw_scan_chan_switch ops)) s1))"
    (is "leads_back _ ?s2") by (simp add: keeps_way_def)
  define pre :: "('e, 'x, unit) drv" where "pre = do { dev_upd (\<lambda>s. s\<lparr>hal_rcr := hal_rcr s OR BIT_CBSSID_BCN\<rparr>);
      rcr \<leftarrow> dev_get hal_rcr; rtw_write32 REG_RCR rcr; rtw_core_scan_complete ops (Some v) True }"
  define post :: "('e, 'x, unit) drv" where "post = do { cur \<leftarrow> dev_get (\<lambda>s. hal_current_channel (hal s));
      rtw_phy_set_tx_power_level (do_set_tx_power_index ops) cur; kcall KWakeQueues; kcall (KScanCompleted aborted);
      vif_upd v (\<lambda>r. r\<lparr>rv_scan_req := None\<rparr>); scan_upd (\<lambda>i. i\<lparr>si_scanning_vif := None\<rparr>) }"
  have pre: "same op_view pre" unfolding pre_def by (intro same_rules same_scan_complete_core assms(1); simp)
  have post: "same op_view post" unfolding post_def scan_upd_def by (intro same_rules same_tx_power_level assms(1); simp)
  let ?s3 = "snd (run_state pre ?s2)"
  have "chan_view (snd (run_state (rtw_store_op_chan False) ?s3)) = chan_view s1"
    by (intro leads_back_restore(1) leads_back_same pre lb)
  moreover have "chan_view (snd (run_state post s')) = chan_view s'" for s'
    using same_snd [OF post, of s'] by (simp add: op_view_def)
  moreover have "snd (run_state (rtw_hw_scan_complete ops (Some v) aborted) ?s2) =
      snd (run_state post (snd (run_state (rtw_store_op_chan False) ?s3)))"
    using lb by (simp add: rtw_hw_scan_complete_def pre_def post_def leads_back_def split_def)
  ultimately show ?thesis by (simp add: split_def)
qed

text \<open>A scan the firmware reports as: on channel 1, back on 42, about to leave for 149.\<close>

lemma scan_returns_to_op_channel_witness:
  "\<forall>(ops :: (unit, unit) rtw_drv_scheme rtw_drv_ops) (s :: (unit, unit) rtw_drv_scheme).
     chan_view (snd (run_state (do {
       for_each [[0, 0, 1, 1, 0], [0, 0, 42, 1, 0], [0, 0, 149, 0, 0]]
         (rtw_hw_scan_chan_switch (ops\<lparr>do_coex := \<lambda>_. skip, do_set_tx_power_index := skip\<rparr>));
       rtw_hw_scan_complete (ops\<lparr>do_coex := \<lambda>_. skip, do_set_tx_power_index := skip\<rparr>) (Some 0) False })
       (snd (run_state (do { rtw_update_channel 42 36 (band_of_channel 42) 2; rtw_store_op_chan True }) s)))) =
     chan_view (snd (run_state (do { rtw_update_channel 42 36 (band_of_channel 42) 2; rtw_store_op_chan True }) s))"
proof (intro allI)
  fix ops :: "(unit, unit) rtw_drv_scheme rtw_drv_ops" and s :: "(unit, unit) rtw_drv_scheme"
  have "channel_kept (ops\<lparr>do_coex := \<lambda>_. skip, do_set_tx_power_index := skip\<rparr>)"
    by (simp add: channel_kept_def same_skip)
  then show
    "chan_view (snd (run_state (do {
       for_each [[0, 0, 1, 1, 0], [0, 0, 42, 1, 0], [0, 0, 149, 0, 0]]
         (rtw_hw_scan_chan_switch (ops\<lparr>do_coex := \<lambda>_. skip, do_set_tx_power_index := skip\<rparr>));
       rtw_hw_scan_complete (ops\<lparr>do_coex := \<lambda>_. skip, do_set_tx_power_index := skip\<rparr>) (Some 0) False })
       (snd (run_state (do { rtw_update_channel 42 36 (band_of_channel 42) 2; rtw_store_op_chan True }) s)))) =
     chan_view (snd (run_state (do { rtw_update_channel 42 36 (band_of_channel 42) 2; rtw_store_op_chan True }) s))"
    by (rule scan_returns_to_op_channel) simp
qed

end
