(* ===== verification/C2h.thy ===== *)
theory C2h
  imports Scan
begin

text \<open>
  Messages from the firmware (\<open>fw.c\<close>, C2H): which handler a message goes to, at once in the
  receive path or later in the work item, the reports of the rate adaptation and of the beacon
  filter; and reading the chip's packet memory for a dump.
\<close>

section \<open>Rate reports\<close>

definition rtw_ratetable :: "u16 list" where
  "rtw_ratetable = [10, 20, 55, 110, 60, 90, 120, 180, 240, 360, 480, 540]"

definition rtw_desc_to_bitrate :: "u8 \<Rightarrow> u16" where
  "rtw_desc_to_bitrate desc_rate =
     (if length rtw_ratetable \<le> unat desc_rate then 0 else rtw_ratetable ! unat desc_rate)"

definition get_max_amsdu_len :: "u32 \<Rightarrow> u16" where
  "get_max_amsdu_len bit_rate =
     (if bit_rate < 550 then 1
      else if bit_rate < 1800 then 1200
      else if bit_rate < 4000 then 2600
      else if bit_rate < 7000 then 3500
      else 0)"

abbreviation (input) RATE_INFO_FLAGS_MCS :: u16 where "RATE_INFO_FLAGS_MCS \<equiv> 1"
abbreviation (input) RATE_INFO_FLAGS_VHT_MCS :: u16 where "RATE_INFO_FLAGS_VHT_MCS \<equiv> 2"
abbreviation (input) RATE_INFO_FLAGS_SHORT_GI :: u16 where "RATE_INFO_FLAGS_SHORT_GI \<equiv> 4"
abbreviation (input) RATE_INFO_BW_20 :: u8 where "RATE_INFO_BW_20 \<equiv> 0"
abbreviation (input) RATE_INFO_BW_40 :: u8 where "RATE_INFO_BW_40 \<equiv> 3"
abbreviation (input) RATE_INFO_BW_80 :: u8 where "RATE_INFO_BW_80 \<equiv> 4"

text \<open>
  The reported rate, over the last one: a legacy rate leaves the other members as they are. \<open>junk\<close>
  stands for the two variables \<open>rtw_desc_to_mcsrate\<close> does not set for a rate it does not know.
\<close>

definition ra_report_txrate :: "u8 \<times> u8 \<Rightarrow> u8 \<Rightarrow> bool \<Rightarrow> u8 \<Rightarrow> rate_info \<Rightarrow> rate_info" where
  "ra_report_txrate junk r sgi width old =
     (if unat r < DESC_RATEMCS0 then old\<lparr>ri_flags := 0, ri_legacy := rtw_desc_to_bitrate r\<rparr>
      else let (mcs, nss) = rtw_desc_to_mcsrate (unat r) (unat (fst junk), unat (snd junk)) in
        old\<lparr>ri_flags := (if DESC_RATEVHT1SS_MCS0 \<le> unat r then RATE_INFO_FLAGS_VHT_MCS else RATE_INFO_FLAGS_MCS) OR
                         (if sgi then RATE_INFO_FLAGS_SHORT_GI else 0),
            ri_mcs := of_nat mcs, ri_nss := of_nat nss,
            ri_bw := (if width = 2 then RATE_INFO_BW_80 else if width = 1 then RATE_INFO_BW_40 else RATE_INFO_BW_20)\<rparr>)"

text \<open>
  \<open>calc\<close> is \<open>cfg80211_calculate_bitrate\<close>. The record of a report has seven bytes; a report
  without the last one is about the width the station is set to.
\<close>

definition rtw_fw_ra_report_iter :: "(rate_info \<Rightarrow> u32) \<Rightarrow> u8 \<times> u8 \<Rightarrow> u8 list \<Rightarrow> u8 \<Rightarrow> nat \<Rightarrow> ('e, 'x, unit) drv" where
  "rtw_fw_ra_report_iter calc junk payload len i =
     do { id \<leftarrow> payload_byte payload 1;
          rate_sgi \<leftarrow> payload_byte payload 0;
          si \<leftarrow> dev_get (\<lambda>s. stas s ! i);
          if si_mac_id si \<noteq> id then skip
          else do { width \<leftarrow> (if 7 \<le> unat len then payload_byte payload 6 else State_Monad.return (si_bw_mode si));
                    let r = rate_sgi AND GENMASK 6 0;
                        txrate = ra_report_txrate junk r (rate_sgi AND BIT 7 \<noteq> 0) width (si_txrate si);
                        bit_rate = calc txrate
                    in sta_upd i (\<lambda>si. si\<lparr>si_txrate := txrate, si_desc_rate := r, si_bit_rate := bit_rate,
                         si_sta := (si_sta si)\<lparr>sta_max_rc_amsdu_len := get_max_amsdu_len bit_rate\<rparr>\<rparr>) } }"

definition rtw_fw_ra_report_handle :: "(rate_info \<Rightarrow> u32) \<Rightarrow> u8 \<times> u8 \<Rightarrow> u8 list \<Rightarrow> u8 \<Rightarrow> ('e, 'x, unit) drv" where
  "rtw_fw_ra_report_handle calc junk payload len =
     do { sz \<leftarrow> dev_get (\<lambda>s. cd_c2h_ra_report_size (chip_drv s));
          if unat len < sz then skip
          else do { rate_sgi \<leftarrow> payload_byte payload 0;
                    dm_upd (\<lambda>d. d\<lparr>dm_tx_rate := rate_sgi AND GENMASK 6 0\<rparr>);
                    n \<leftarrow> dev_get (\<lambda>s. length (stas s));
                    for_each [0..<n] (rtw_fw_ra_report_iter calc junk payload len) } }"

section \<open>Other reports\<close>

definition rtw_fw_bcn_filter_notify_vif_iter :: "('e, 'x) rtw_drv_scheme rtw_drv_ops \<Rightarrow> u8 list \<Rightarrow> nat \<Rightarrow> ('e, 'x, unit) drv" where
  "rtw_fw_bcn_filter_notify_vif_iter ops payload v =
     do { b \<leftarrow> payload_byte payload 1;
          sig \<leftarrow> payload_byte payload 2;
          let type = b AND 0xf; event = b AND 0x10
          in if type = BCN_FILTER_NOTIFY_SIGNAL_CHANGE then kcall (KCqmRssi v (event \<noteq> 0) (sig - 100))
             else if type = BCN_FILTER_CONNECTION_LOSS then kcall (KConnectionLoss v)
             else if type = BCN_FILTER_CONNECTED then dev_upd (\<lambda>s. s\<lparr>beacon_loss := False\<rparr>)
             else if type = BCN_FILTER_NOTIFY_BEACON_LOSS
             then do { dev_upd (\<lambda>s. s\<lparr>beacon_loss := True\<rparr>); rtw_leave_lps ops }
             else skip }"

definition rtw_fw_bcn_filter_notify :: "('e, 'x) rtw_drv_scheme rtw_drv_ops \<Rightarrow> u8 list \<Rightarrow> ('e, 'x, unit) drv" where
  "rtw_fw_bcn_filter_notify ops payload =
     do { vs \<leftarrow> dev_get active_vifs; for_each vs (rtw_fw_bcn_filter_notify_vif_iter ops payload) }"

definition rtw_fw_scan_result :: "u8 list \<Rightarrow> ('e, 'x, unit) drv" where
  "rtw_fw_scan_result payload =
     do { d \<leftarrow> payload_byte payload 0; dev_upd (\<lambda>s. s\<lparr>scan_density := d\<rparr>) }"

text \<open>
  The values go to the debug log, but the registers are read in any case, with the two thresholds
  through a pointer of the chip.
\<close>

definition rtw_fw_adaptivity_result :: "u8 list \<Rightarrow> ('e, 'x, unit) drv" where
  "rtw_fw_adaptivity_result payload =
     do { for_each [0..<6] (\<lambda>i. do { _ \<leftarrow> payload_byte payload i; skip });
          th \<leftarrow> dev_get (\<lambda>s. cd_edcca_th (chip_drv s));
          when_do (length th < 2) set_fault;
          for_each (take 2 th) (\<lambda>(addr, mask'). do { _ \<leftarrow> rtw_read32_mask addr mask'; skip });
          _ \<leftarrow> rtw_read32_mask REG_EDCCA_REPORT BIT_EDCCA_FLAG;
          skip }"

section \<open>Dispatch\<close>

text \<open>A message: identifier, sequence number and payload, behind an offset in the received data.\<close>

definition rtw_fw_c2h_cmd_handle_ext :: "('e, 'x) rtw_drv_scheme rtw_drv_ops \<Rightarrow> u8 list \<Rightarrow> ('e, 'x, unit) drv" where
  "rtw_fw_c2h_cmd_handle_ext ops payload =
     do { sub_cmd_id \<leftarrow> payload_byte payload 0;
          if sub_cmd_id = 0x0f then rtw_tx_report_handle False payload
          else if sub_cmd_id = 0x03 then rtw_hw_scan_status_report ops payload
          else if sub_cmd_id = 0x22 then rtw_hw_scan_chan_switch ops payload
          else skip }"

definition rtw_fw_c2h_cmd_handle ::
  "('e, 'x) rtw_drv_scheme rtw_drv_ops \<Rightarrow> (rate_info \<Rightarrow> u32) \<Rightarrow> u8 \<times> u8 \<Rightarrow> nat \<times> u8 list \<Rightarrow> ('e, 'x, unit) drv" where
  "rtw_fw_c2h_cmd_handle ops calc junk m =
     (let c2h = drop (fst m) (snd m); payload = drop 2 c2h; len = of_nat (length (snd m)) - of_nat (fst m) - 2 :: u8
      in do { running \<leftarrow> dev_get flag_running;
              if \<not> running then skip
              else do { id \<leftarrow> payload_byte c2h 0;
                        if id = 0x03 then rtw_tx_report_handle True payload
                        else if id = 0x09 then do_coex ops (CoexBtInfo (take (unat len) payload))
                        else if id = 0x45 then do_coex ops (CoexBtHidInfo (take (unat len) payload))
                        else if id = 0x27 then do_coex ops (CoexWlFwdbg (take (unat len) payload))
                        else if id = 0x36 then rtw_fw_bcn_filter_notify ops payload
                        else if id = 0xff then rtw_fw_c2h_cmd_handle_ext ops payload
                        else if id = 0x0c then rtw_fw_ra_report_handle calc junk payload len
                        else if id = 0x37 then rtw_fw_adaptivity_result payload
                        else skip } })"

text \<open>In the receive path: completions are signalled at once, most messages wait for the work item.\<close>

definition rtw_fw_c2h_cmd_rx_irqsafe :: "('e, 'x) rtw_drv_scheme rtw_drv_ops \<Rightarrow> nat \<Rightarrow> u8 list \<Rightarrow> ('e, 'x, unit) drv" where
  "rtw_fw_c2h_cmd_rx_irqsafe ops poff skb =
     (let c2h = drop poff skb
      in do { id \<leftarrow> payload_byte c2h 0;
              if id = 0x0b then do_coex ops (CoexInfoResponse c2h)
              else if id = 0x32 then kcall KLpsLeaveCheck
              else if id = 0x38 then do { kcall KScanDensity; rtw_fw_scan_result (drop 2 c2h) }
              else do { dev_upd (\<lambda>s. s\<lparr>c2h_queue := c2h_queue s @ [(poff, skb)]\<rparr>); kcall KQueueC2hWork } })"

definition rtw_fw_c2h_cmd_isr :: "('e, 'x, unit) drv" where
  "rtw_fw_c2h_cmd_isr =
     do { v \<leftarrow> rtw_read8 REG_MCU_TST_CFG; when_do (v = 1) rtw_fw_recovery }"

definition rtw_c2h_work :: "('e, 'x) rtw_drv_scheme rtw_drv_ops \<Rightarrow> (rate_info \<Rightarrow> u32) \<Rightarrow> u8 \<times> u8 \<Rightarrow> ('e, 'x, unit) drv" where
  "rtw_c2h_work ops calc junk =
     do { q \<leftarrow> dev_get c2h_queue;
          for_each q (\<lambda>m. do { dev_upd (\<lambda>s. s\<lparr>c2h_queue := remove1 m (c2h_queue s)\<rparr>);
                                rtw_fw_c2h_cmd_handle ops calc junk m }) }"

section \<open>Reading the packet memory\<close>

abbreviation (input) FIFO_DUMP_ADDR :: u32 where "FIFO_DUMP_ADDR \<equiv> 0x8000"
abbreviation (input) FIFO_PAGE_SIZE :: u32 where "FIFO_PAGE_SIZE \<equiv> 4096"

text \<open>
  The words of one page from address \<open>i\<close> on, and the size left.
\<close>

fun fifo_page_words :: "nat \<Rightarrow> u32 \<Rightarrow> u32 \<Rightarrow> ('x hw_scheme, u32 list \<times> u32) state" where
  "fifo_page_words 0 i sz = State_Monad.return ([], sz)"
| "fifo_page_words (Suc n) i sz =
     do { v \<leftarrow> rtw_read32 i;
          if sz - 4 = 0 then State_Monad.return ([v], 0)
          else do { (vs, sz') \<leftarrow> fifo_page_words n (i + 4) (sz - 4); State_Monad.return (v # vs, sz') } }"

text \<open>\<open>fuel\<close> bounds the pages: a size that is not a multiple of four would never get to zero.\<close>

fun fifo_pages :: "nat \<Rightarrow> u16 \<Rightarrow> u16 \<Rightarrow> u32 \<Rightarrow> u32 \<Rightarrow> ('x hw_scheme, u32 list option) state" where
  "fifo_pages 0 ctl start_pg residue sz = State_Monad.return None"
| "fifo_pages (Suc fuel) ctl start_pg residue sz =
     do { rtw_write16 REG_PKTBUF_DBG_CTRL (start_pg OR ctl);
          (vs, sz') \<leftarrow> fifo_page_words (unat ((FIFO_PAGE_SIZE - residue + 3) div 4)) (FIFO_DUMP_ADDR + residue) sz;
          if sz' = 0 then State_Monad.return (Some vs)
          else do { r \<leftarrow> fifo_pages fuel ctl (start_pg + 1) 0 sz'; State_Monad.return (map_option ((@) vs) r) } }"

text \<open>The index into the buffer has 16 bits, so that it starts again after 65536 words.\<close>

definition fifo_store :: "u32 list \<Rightarrow> u32 list \<Rightarrow> u32 list" where
  "fifo_store vs buf = fold (\<lambda>(i, v) b. b[unat (of_nat i :: u16) := v]) (zip [0..<length vs] vs) buf"

text \<open>The buffer afterwards; no result means that the fuel ran out.\<close>

definition rtw_fw_read_fifo_page :: "nat \<Rightarrow> u32 \<Rightarrow> u32 list \<Rightarrow> u32 \<Rightarrow> u16 \<Rightarrow> ('x hw_scheme, u32 list option) state" where
  "rtw_fw_read_fifo_page fuel sz buf residue start_pg =
     do { ctl \<leftarrow> rtw_read16 REG_PKTBUF_DBG_CTRL;
          rtw_write32_set REG_RCR BIT_DISGCLK;
          r \<leftarrow> fifo_pages fuel (ctl AND 0xf000) start_pg residue sz;
          rtw_write16 REG_PKTBUF_DBG_CTRL (ctl AND 0xf000);
          rtw_write32_clr REG_RCR BIT_DISGCLK;
          State_Monad.return (map_option (\<lambda>vs. fifo_store vs buf) r) }"

text \<open>The memories: transmit, receive, reserved pages, report, link list, firmware receive buffer.\<close>

definition rtw_fw_read_fifo :: "nat \<Rightarrow> nat \<Rightarrow> u32 \<Rightarrow> u32 \<Rightarrow> u32 list \<Rightarrow> ('e, 'x, u32 list option) drv" where
  "rtw_fw_read_fifo fuel sel addr sz buf =
     do { s \<leftarrow> dev_get (\<lambda>s. s);
          let addr' = (if sel = 2 then addr + push_bit 7 (ucast (rsvd_boundary (fifo s))) else addr)
          in if 6 \<le> sel then State_Monad.return (Some buf)
             else rtw_fw_read_fifo_page fuel sz buf (addr' AND (FIFO_PAGE_SIZE - 1))
               (ucast (drop_bit 12 addr') + nth_default 0 (cd_fw_fifo_addr (chip_drv s)) sel) }"

definition rtw_fw_dump_check_size :: "nat \<Rightarrow> u32 \<Rightarrow> u32 \<Rightarrow> rtw_chip_drv \<Rightarrow> bool" where
  "rtw_fw_dump_check_size sel start_addr sz c \<longleftrightarrow>
     \<not> (sel < 2 \<and> ucast (nth_default 0 (cd_fw_fifo_addr c) sel) < start_addr + sz)"

abbreviation (input) ENOTSUPP :: int where "ENOTSUPP \<equiv> 524"

definition rtw_fw_dump_fifo :: "nat \<Rightarrow> u8 \<Rightarrow> u32 \<Rightarrow> u32 \<Rightarrow> u32 list \<Rightarrow> ('e, 'x, int \<times> u32 list option) drv" where
  "rtw_fw_dump_fifo fuel fifo_sel addr sz buf =
     do { c \<leftarrow> dev_get chip_drv;
          if nth_default 0 (cd_fw_fifo_addr c) 0 = 0 then State_Monad.return (- ENOTSUPP, Some buf)
          else if sz = 0 \<or> sz AND 3 \<noteq> 0 \<or> \<not> rtw_fw_dump_check_size (unat fifo_sel) addr sz c
          then State_Monad.return (- EINVAL, Some buf)
          else do { r \<leftarrow> rtw_fw_read_fifo fuel (unat fifo_sel) addr sz buf; State_Monad.return (0, r) } }"

section \<open>What the reports do\<close>

lemma run_payload_byte: "i < length payload \<Longrightarrow> run_state (payload_byte payload i) s = (payload ! i, s)"
  by (simp add: payload_byte_def nth_default_def)

text \<open>The station a report is about, after it.\<close>

definition ra_reported :: "(rate_info \<Rightarrow> u32) \<Rightarrow> u8 \<times> u8 \<Rightarrow> u8 list \<Rightarrow> rtw_sta_info \<Rightarrow> rtw_sta_info" where
  "ra_reported calc junk payload si =
     (if si_mac_id si \<noteq> payload ! 1 then si
      else let r = payload ! 0 AND GENMASK 6 0;
               txrate = ra_report_txrate junk r (payload ! 0 AND BIT 7 \<noteq> 0)
                 (if 7 \<le> length payload then payload ! 6 else si_bw_mode si) (si_txrate si)
           in si\<lparr>si_txrate := txrate, si_desc_rate := r, si_bit_rate := calc txrate,
                si_sta := (si_sta si)\<lparr>sta_max_rc_amsdu_len := get_max_amsdu_len (calc txrate)\<rparr>\<rparr>)"

lemma ra_report_iter:
  assumes "2 \<le> length payload" and "length payload < 256" and "i < length (stas s)"
  shows "run_state (rtw_fw_ra_report_iter calc junk payload (of_nat (length payload)) i) s =
    ((), s\<lparr>stas := (stas s)[i := ra_reported calc junk payload (stas s ! i)]\<rparr>)"
proof -
  have "unat (of_nat (length payload) :: u8) = length payload" using assms(2) by (simp add: unat_of_nat)
  then show ?thesis using assms
    by (cases payload; cases "tl payload")
      (simp_all add: rtw_fw_ra_report_iter_def run_payload_byte ra_reported_def Let_def split_def)
qed

lemma ra_report_all:
  assumes "2 \<le> length payload" and "length payload < 256" and "n \<le> length (stas s)"
  shows "run_state (for_each [0..<n] (rtw_fw_ra_report_iter calc junk payload (of_nat (length payload)))) s =
    ((), s\<lparr>stas := map (ra_reported calc junk payload) (take n (stas s)) @ drop n (stas s)\<rparr>)"
  using assms(3)
proof (induction n)
  case (Suc n)
  have d: "drop n (stas s) = stas s ! n # drop (Suc n) (stas s)" using Suc.prems by (simp add: Cons_nth_drop_Suc)
  show ?case
    using Suc assms by (simp add: run_for_each_append ra_report_iter d nth_append take_Suc_conv_app_nth list_update_append)
qed simp

text \<open>A report reaches the station it names and no other.\<close>

lemma ra_report_reaches_station:
  assumes "2 \<le> length payload" and "length payload < 256" and "cd_c2h_ra_report_size (chip_drv s) \<le> length payload"
  shows "stas (snd (run_state (rtw_fw_ra_report_handle calc junk payload (of_nat (length payload))) s)) =
    map (ra_reported calc junk payload) (stas s)"
proof -
  have "unat (of_nat (length payload) :: u8) = length payload" "payload \<noteq> []" using assms(1,2) by (auto simp: unat_of_nat)
  then show ?thesis using assms
    by (simp add: rtw_fw_ra_report_handle_def run_payload_byte dm_upd_def ra_report_all)
qed

section \<open>A dump ends\<close>

lemma fifo_page_words_left:
  assumes "run_state (fifo_page_words n i sz) s = ((vs, sz'), s')" and "unat sz = 4 * m" and "0 < m"
  shows "unat sz' = 4 * (m - n)"
  using assms
proof (induction n arbitrary: i sz m s vs sz' s')
  case (Suc n)
  have u: "unat (sz - 4) = 4 * (m - 1)"
    using Suc.prems(2,3) by (subst unat_sub) (simp_all add: word_le_nat_alt)
  show ?case
  proof (cases "m = 1")
    case True
    then have "sz - 4 = 0" using u by (simp add: unat_eq_zero)
    then show ?thesis using Suc.prems(1) True by (simp add: split_def)
  next
    case False
    then have "sz - 4 \<noteq> 0" "0 < m - 1" using u Suc.prems(3) by auto
    with Suc.prems(1) Suc.IH [OF _ u] show ?thesis by (auto simp: split_def prod_eq_iff)
  qed
qed simp

text \<open>The size of a dump is a multiple of four, so a page for every word is fuel enough.\<close>

lemma fifo_pages_enough:
  assumes "unat sz = 4 * m" and "0 < m" and "m \<le> fuel" and "unat residue < 4096"
  shows "fst (run_state (fifo_pages fuel ctl start_pg residue sz) s) \<noteq> None"
  using assms
proof (induction fuel arbitrary: start_pg residue sz m s)
  case (Suc fuel)
  let ?n = "unat ((FIFO_PAGE_SIZE - residue + 3) div 4)"
  obtain vs sz' s' where w: "run_state (fifo_page_words ?n (FIFO_DUMP_ADDR + residue) sz)
      (snd (run_state (rtw_write16 REG_PKTBUF_DBG_CTRL (start_pg OR ctl)) s)) = ((vs, sz'), s')"
    by (metis surj_pair)
  have left: "unat sz' = 4 * (m - ?n)" by (rule fifo_page_words_left [OF w Suc.prems(1,2)])
  have "unat (FIFO_PAGE_SIZE - residue + 3) = 4096 - unat residue + 3"
    using Suc.prems(4) by (simp add: unat_sub word_le_nat_alt unat_plus_if_size word_size)
  then have n: "0 < ?n" using Suc.prems(4) by (simp add: unat_div)
  show ?case
  proof (cases "sz' = 0")
    case False
    then have m: "0 < m - ?n" using left by (metis mult_0_right neq0_conv unat_eq_zero)
    moreover have "m - ?n \<le> fuel" using Suc.prems(3) n m by linarith
    ultimately have "fst (run_state (fifo_pages fuel ctl (start_pg + 1) 0 sz') s') \<noteq> None"
      by (intro Suc.IH [OF left]) simp_all
    then show ?thesis using w False by (auto simp: split_def)
  qed (use w in \<open>simp add: split_def\<close>)
qed simp

end
