(* ===== verification/MacOps.thy ===== *)
theory MacOps
  imports C2h
begin

text \<open>
  The callbacks of mac80211 (\<open>mac80211.c\<close>), without suspend and resume. mac80211 writes what it
  knows of an interface (\<open>rv_type\<close> to \<open>rv_dtim_period\<close>) before it calls; taking and releasing the
  driver's mutex is left out.
\<close>

section \<open>Sending, starting, channel\<close>

definition rtw_ops_tx :: "('e, 'x) rtw_drv_scheme rtw_tx_env \<Rightarrow> nat option \<Rightarrow> tx_frame \<Rightarrow> ('e, 'x, unit) drv" where
  "rtw_ops_tx env sta f =
     do { running \<leftarrow> dev_get flag_running;
          if \<not> running then kcall (KFreeTxSkb (tf_id f)) else rtw_tx env sta f }"

definition rtw_ops_wake_tx_queue :: "('e, 'x) rtw_drv_scheme rtw_tx_env \<Rightarrow> nat \<Rightarrow> nat \<Rightarrow> ('e, 'x, unit) drv" where
  "rtw_ops_wake_tx_queue env q ac =
     do { running \<leftarrow> dev_get flag_running;
          if \<not> running then skip
          else do { dev_upd (\<lambda>s. s\<lparr>txqs := (if q \<in> set (txqs s) then txqs s else txqs s @ [q])\<rparr>);
                    if ac = IEEE80211_AC_VO then rtw_tx_work env else kcall KQueueTxWork } }"

definition rtw_ops_start :: "('e, 'x) rtw_drv_scheme rtw_drv_ops \<Rightarrow> ('e, 'x, int) drv" where
  "rtw_ops_start ops = rtw_core_start ops"

definition rtw_ops_stop :: "('e, 'x) rtw_drv_scheme rtw_drv_ops \<Rightarrow> ('e, 'x, unit) drv" where
  "rtw_ops_stop ops = rtw_core_stop ops"

definition rtw_ops_config :: "('e, 'x) rtw_drv_scheme rtw_drv_ops \<Rightarrow> bool \<Rightarrow> bool \<Rightarrow> ('e, 'x, int) drv" where
  "rtw_ops_config ops changed_idle changed_channel =
     do { kcall KCancelIpsWork;
          rtw_leave_lps_deep ops;
          idle \<leftarrow> dev_get conf_idle;
          ret \<leftarrow> (if changed_idle \<and> \<not> idle then rtw_leave_ips ops else State_Monad.return 0);
          if ret \<noteq> 0 then State_Monad.return ret
          else do { when_do changed_channel (rtw_set_channel ops);
                    scanning \<leftarrow> dev_get rtw_phy.flag_scanning;
                    when_do (changed_idle \<and> idle \<and> \<not> scanning) (do { _ \<leftarrow> rtw_enter_ips ops; skip });
                    State_Monad.return 0 } }"

section \<open>Interfaces\<close>

definition rtw_vif_ports :: "rtw_vif_port list" where
  "rtw_vif_ports =
     [\<lparr>vp_mac_addr = 0x0610, vp_bssid = 0x0618, vp_net_type = (0x0100, 0x30000), vp_aid = (0x06a8, 0x7ff), vp_bcn_ctrl = (0x0550, 0xff)\<rparr>,
      \<lparr>vp_mac_addr = 0x0700, vp_bssid = 0x0708, vp_net_type = (0x0100, 0xc0000), vp_aid = (0x0710, 0x7ff), vp_bcn_ctrl = (0x0551, 0xff)\<rparr>,
      \<lparr>vp_mac_addr = 0x1620, vp_bssid = 0x1628, vp_net_type = (0x1100, 0x3), vp_aid = (0x1600, 0x7ff), vp_bcn_ctrl = (0x0578, 0xff)\<rparr>,
      \<lparr>vp_mac_addr = 0x1630, vp_bssid = 0x1638, vp_net_type = (0x1100, 0xc), vp_aid = (0x1604, 0x7ff), vp_bcn_ctrl = (0x0579, 0xff)\<rparr>,
      \<lparr>vp_mac_addr = 0x1640, vp_bssid = 0x1648, vp_net_type = (0x1100, 0x30), vp_aid = (0x1608, 0x7ff), vp_bcn_ctrl = (0x057a, 0xff)\<rparr>]"

text \<open>What the type of an interface decides; other types are refused.\<close>

definition vif_setup :: "nl80211_iftype \<Rightarrow> nat \<Rightarrow> (('e, 'x, unit) drv \<times> rtw_net_type \<times> u8) option" where
  "vif_setup t v =
     (if t = NL80211_IFTYPE_AP \<or> t = NL80211_IFTYPE_MESH_POINT
      then Some (rtw_add_rsvd_page_bcn v, RTW_NET_AP_MODE, BIT_EN_BCN_FUNCTION OR BIT_DIS_TSF_UDT)
      else if t = NL80211_IFTYPE_ADHOC
      then Some (rtw_add_rsvd_page_bcn v, RTW_NET_AD_HOC, BIT_EN_BCN_FUNCTION OR BIT_DIS_TSF_UDT)
      else if t = NL80211_IFTYPE_STATION
      then Some (rtw_add_rsvd_page_sta v, RTW_NET_NO_LINK, BIT_EN_BCN_FUNCTION)
      else None)"

definition rtw_ops_add_interface :: "('e, 'x) rtw_drv_scheme rtw_drv_ops \<Rightarrow> nat \<Rightarrow> ('e, 'x, int) drv" where
  "rtw_ops_add_interface ops v =
     do { feature \<leftarrow> dev_get fw_feature;
          when_do (rtw_fw_feature_check feature FW_FEATURE_BCN_FILTER) (vif_upd v (\<lambda>r. r\<lparr>rv_beacon_filter := True\<rparr>));
          vif_upd v (\<lambda>r. r\<lparr>rv_stats := (rv_stats r)\<lparr>ts_tx_unicast := 0, ts_rx_unicast := 0, ts_tx_cnt := 0, ts_rx_cnt := 0\<rparr>,
                           rv_scan_req := None, rv_bfee_role := RTW_BFEE_NONE\<rparr>);
          q \<leftarrow> dev_get (\<lambda>s. rv_txq (vif_tbl s v));
          (case q of None \<Rightarrow> skip | Some q \<Rightarrow> rtw_txq_init q);
          vif_upd v (\<lambda>r. r\<lparr>rv_rsvd_pages := []\<rparr>);
          id \<leftarrow> rtw_acquire_macid;
          vif_upd v (\<lambda>r. r\<lparr>rv_mac_id := id\<rparr>);
          if RTW_MAX_MAC_ID_NUM \<le> unat id then State_Monad.return (- ENOSPC)
          else do {
            ports \<leftarrow> dev_get hw_port;
            let port = find_next (\<lambda>k. \<not> ports k) RTW_PORT_NUM 0
            in if RTW_PORT_NUM \<le> port then State_Monad.return (- EINVAL)
               else do { dev_upd (\<lambda>s. s\<lparr>hw_port := (hw_port s)(port := True)\<rparr>);
                         vif_upd v (\<lambda>r. r\<lparr>rv_port := port, rv_conf := rtw_vif_ports ! port\<rparr>);
                         rtw_leave_lps_deep ops;
                         t \<leftarrow> dev_get (\<lambda>s. rv_type (vif_tbl s v));
                         case vif_setup t v of
                           None \<Rightarrow> do { dev_upd (\<lambda>s. s\<lparr>hw_port := (hw_port s)(rv_port (vif_tbl s v) := False)\<rparr>);
                                        State_Monad.return (- EINVAL) }
                         | Some (add_pages, net_type, bcn_ctrl) \<Rightarrow>
                             do { add_pages;
                                  vif_upd v (\<lambda>r. r\<lparr>rv_mac_addr := rv_addr r, rv_net_type := net_type, rv_bcn_ctrl := bcn_ctrl\<rparr>);
                                  rtw_vif_port_config v (PORT_SET_MAC_ADDR OR PORT_SET_NET_TYPE OR PORT_SET_BCN_CTRL);
                                  rtw_core_port_switch ops v;
                                  rtw_recalc_lps ops (Some v);
                                  State_Monad.return 0 } } } }"

definition rtw_ops_remove_interface :: "('e, 'x) rtw_drv_scheme rtw_drv_ops \<Rightarrow> nat \<Rightarrow> ('e, 'x, unit) drv" where
  "rtw_ops_remove_interface ops v =
     do { rtw_leave_lps_deep ops;
          q \<leftarrow> dev_get (\<lambda>s. rv_txq (vif_tbl s v));
          (case q of None \<Rightarrow> skip | Some q \<Rightarrow> rtw_txq_cleanup q);
          rtw_remove_rsvd_page v;
          vif_upd v (\<lambda>r. r\<lparr>rv_mac_addr := replicate 6 0, rv_net_type := RTW_NET_NO_LINK, rv_bcn_ctrl := 0\<rparr>);
          rtw_vif_port_config v (PORT_SET_MAC_ADDR OR PORT_SET_NET_TYPE OR PORT_SET_BCN_CTRL);
          dev_upd (\<lambda>s. s\<lparr>hw_port := (hw_port s)(rv_port (vif_tbl s v) := False)\<rparr>);
          id \<leftarrow> dev_get (\<lambda>s. rv_mac_id (vif_tbl s v));
          rtw_release_macid id;
          rtw_recalc_lps ops None }"

definition rtw_ops_change_interface ::
  "('e, 'x) rtw_drv_scheme rtw_drv_ops \<Rightarrow> nat \<Rightarrow> nl80211_iftype \<Rightarrow> bool \<Rightarrow> ('e, 'x, int) drv" where
  "rtw_ops_change_interface ops v t p2p =
     do { rtw_ops_remove_interface ops v;
          vif_upd v (\<lambda>r. r\<lparr>rv_type := t, rv_p2p := p2p\<rparr>);
          rtw_ops_add_interface ops v }"

section \<open>Receive filter and transmit parameters\<close>

abbreviation (input) FIF_ALLMULTI :: u32 where "FIF_ALLMULTI \<equiv> BIT 1"
abbreviation (input) FIF_FCSFAIL :: u32 where "FIF_FCSFAIL \<equiv> BIT 2"
abbreviation (input) FIF_BCN_PRBRESP_PROMISC :: u32 where "FIF_BCN_PRBRESP_PROMISC \<equiv> BIT 4"
abbreviation (input) FIF_CONTROL :: u32 where "FIF_CONTROL \<equiv> BIT 5"
abbreviation (input) FIF_OTHER_BSS :: u32 where "FIF_OTHER_BSS \<equiv> BIT 6"

definition rcr_bit :: "u32 \<Rightarrow> bool \<Rightarrow> u32 \<Rightarrow> u32" where
  "rcr_bit b on rcr = (if on then rcr OR b else rcr AND NOT b)"

definition filter_rcr :: "u32 \<Rightarrow> u32 \<Rightarrow> u32 \<Rightarrow> u32" where
  "filter_rcr changed new rcr0 =
     (let rcr1 = (if changed AND FIF_ALLMULTI \<noteq> 0 then rcr_bit BIT_AM (new AND FIF_ALLMULTI \<noteq> 0) rcr0 else rcr0);
          rcr2 = (if changed AND FIF_FCSFAIL \<noteq> 0 then rcr_bit BIT_ACRC32 (new AND FIF_FCSFAIL \<noteq> 0) rcr1 else rcr1);
          rcr3 = (if changed AND FIF_OTHER_BSS \<noteq> 0 then rcr_bit BIT_AAP (new AND FIF_OTHER_BSS \<noteq> 0) rcr2 else rcr2)
      in if changed AND (FIF_OTHER_BSS OR FIF_BCN_PRBRESP_PROMISC) \<noteq> 0
         then (if new AND (FIF_OTHER_BSS OR FIF_BCN_PRBRESP_PROMISC) \<noteq> 0
               then rcr3 AND NOT (BIT_CBSSID_BCN OR BIT_CBSSID_DATA) else rcr3 OR BIT_CBSSID_BCN)
         else rcr3)"

text \<open>The result is what is left of the flags.\<close>

definition rtw_ops_configure_filter :: "('e, 'x) rtw_drv_scheme rtw_drv_ops \<Rightarrow> u32 \<Rightarrow> u32 \<Rightarrow> ('e, 'x, u32) drv" where
  "rtw_ops_configure_filter ops changed_flags new_flags =
     (let new = new_flags AND (FIF_ALLMULTI OR FIF_OTHER_BSS OR FIF_FCSFAIL OR FIF_BCN_PRBRESP_PROMISC OR FIF_CONTROL)
      in do { rtw_leave_lps_deep ops;
              fltmap \<leftarrow> dev_get (\<lambda>s. hal_rxfltmap1 (hal s));
              when_do (changed_flags AND FIF_CONTROL \<noteq> 0)
                (rtw_write16 REG_RXFLTMAP1 (if new AND FIF_CONTROL \<noteq> 0 then 0xffff else fltmap));
              dev_upd (\<lambda>s. s\<lparr>hal_rcr := filter_rcr changed_flags new (hal_rcr s)\<rparr>);
              rcr \<leftarrow> dev_get hal_rcr;
              rtw_write32 REG_RCR rcr;
              State_Monad.return new })"

definition ac_to_edca_param :: "nat \<Rightarrow> u32" where
  "ac_to_edca_param ac = [REG_EDCA_VO_PARAM, REG_EDCA_VI_PARAM, REG_EDCA_BE_PARAM, REG_EDCA_BK_PARAM] ! ac"

definition rtw_aifsn_to_aifs :: "nat \<Rightarrow> u8 \<Rightarrow> ('e, 'x) rtw_drv_scheme \<Rightarrow> u8" where
  "rtw_aifsn_to_aifs v aifsn s =
     (let slot_time = (if rv_use_short_slot (vif_tbl s v) then 9 else 20);
          sifs = (if hal_current_band_type (hal s) = RTW_BAND_5G then 16 else 10)
      in aifsn * slot_time + sifs)"

text \<open>The position of the highest bit; the numbers here are at least one.\<close>

fun ilog2 :: "nat \<Rightarrow> nat" where
  "ilog2 n = (if n < 2 then 0 else Suc (ilog2 (n div 2)))"

declare ilog2.simps [simp del]

text \<open>A contention window is one less than a power of two, and its exponent brings it back.\<close>

lemma ilog2_power: "ilog2 (2 ^ k) = k"
  by (induction k) (simp_all add: ilog2.simps)

definition conf_tx :: "nat \<Rightarrow> nat \<Rightarrow> ('e, 'x, unit) drv" where
  "conf_tx v ac =
     do { s \<leftarrow> dev_get (\<lambda>s. s);
          let params = rv_tx_params (vif_tbl s v) ac; edca_param = ac_to_edca_param ac;
              ecw_max = of_nat (ilog2 (unat (tq_cw_max params) + 1)) :: u8;
              ecw_min = of_nat (ilog2 (unat (tq_cw_min params) + 1)) :: u8;
              aifs = rtw_aifsn_to_aifs v (tq_aifs params) s
          in do { rtw_write32_mask edca_param BIT_MASK_TXOP_LMT (ucast (tq_txop params));
                  rtw_write32_mask edca_param BIT_MASK_CWMAX (ucast ecw_max);
                  rtw_write32_mask edca_param BIT_MASK_CWMIN (ucast ecw_min);
                  rtw_write32_mask edca_param BIT_MASK_AIFS (ucast aifs) } }"

definition rtw_conf_tx :: "nat \<Rightarrow> ('e, 'x, unit) drv" where
  "rtw_conf_tx v = for_each [0..<4] (conf_tx v)"

definition rtw_ops_conf_tx ::
  "('e, 'x) rtw_drv_scheme rtw_drv_ops \<Rightarrow> nat \<Rightarrow> nat \<Rightarrow> ieee80211_tx_queue_params \<Rightarrow> ('e, 'x, int) drv" where
  "rtw_ops_conf_tx ops v ac params =
     do { rtw_leave_lps_deep ops;
          vif_upd v (\<lambda>r. r\<lparr>rv_tx_params := (rv_tx_params r)(ac := params)\<rparr>);
          conf_tx v ac;
          State_Monad.return 0 }"

section \<open>The BSS\<close>

datatype bss_change =
  BSS_CHANGED_ASSOC | BSS_CHANGED_BSSID | BSS_CHANGED_BEACON_INT | BSS_CHANGED_BEACON | BSS_CHANGED_BEACON_ENABLED
  | BSS_CHANGED_CQM | BSS_CHANGED_MU_GROUPS | BSS_CHANGED_ERP_SLOT | BSS_CHANGED_PS

text \<open>The pages for the firmware and their places.\<close>

definition refresh_rsvd_pages :: "('e, 'x) rtw_drv_scheme rtw_drv_ops \<Rightarrow> ('e, 'x, unit) drv" where
  "refresh_rsvd_pages ops = do { _ \<leftarrow> rtw_fw_download_rsvd_page ops; rtw_send_rsvd_page_h2c }"

text \<open>\<open>CoexConnect True\<close> is the start of an association, \<open>CoexConnect False\<close> its end.\<close>

definition bss_assoc_changed ::
  "('e, 'x) rtw_drv_scheme rtw_drv_ops \<Rightarrow> (nat \<Rightarrow> u8 list) \<Rightarrow> nat \<Rightarrow> ('e, 'x, unit) drv" where
  "bss_assoc_changed ops junk v =
     do { rtw_vif_assoc_changed v True;
          assoc \<leftarrow> dev_get (\<lambda>s. rv_assoc (vif_tbl s v));
          if assoc then
            do { do_coex ops (CoexConnect False);
                 refresh_rsvd_pages ops;
                 rtw_fw_default_port (rtw_leave_lps ops) v;
                 do_coex ops (CoexMediaStatus True);
                 bf \<leftarrow> dev_get bf_support;
                 when_do bf (do_bf_assoc ops v);
                 rtw_set_ampdu_factor ops v;
                 rtw_fw_beacon_filter_config True v }
          else
            do { rtw_leave_lps ops;
                 do_bf_disassoc ops v;
                 scanning \<leftarrow> dev_get rtw_phy.flag_scanning;
                 when_do scanning (rtw_hw_scan_abort ops junk) } }"

definition rtw_ops_bss_info_changed ::
  "('e, 'x) rtw_drv_scheme rtw_drv_ops \<Rightarrow> (nat \<Rightarrow> u8 list) \<Rightarrow> nat \<Rightarrow> bss_change set \<Rightarrow> ('e, 'x, unit) drv" where
  "rtw_ops_bss_info_changed ops junk v changed =
     do { rtw_leave_lps_deep ops;
          when_do (BSS_CHANGED_ASSOC \<in> changed) (bss_assoc_changed ops junk v);
          when_do (BSS_CHANGED_BSSID \<in> changed)
            (do { vif_upd v (\<lambda>r. r\<lparr>rv_bssid := rv_bss_bssid r\<rparr>);
                  active \<leftarrow> dev_get rtw_core_check_sta_active;
                  if \<not> active then rtw_clear_op_chan else rtw_store_op_chan True });
          when_do (BSS_CHANGED_BEACON_INT \<in> changed)
            (dev_upd (\<lambda>s. if rv_type (vif_tbl s v) = NL80211_IFTYPE_STATION \<and> \<not> rv_p2p (vif_tbl s v)
                          then s\<lparr>wl_beacon_interval := rv_beacon_int (vif_tbl s v)\<rparr> else s));
          when_do (BSS_CHANGED_BEACON \<in> changed)
            (do { dtim \<leftarrow> dev_get (\<lambda>s. rv_dtim_period (vif_tbl s v)); rtw_set_dtim_period dtim; refresh_rsvd_pages ops });
          when_do (BSS_CHANGED_BEACON_ENABLED \<in> changed)
            (do { on \<leftarrow> dev_get (\<lambda>s. rv_enable_beacon (vif_tbl s v));
                  if on then rtw_write32_set REG_FWHW_TXQ_CTRL BIT_EN_BCNQ_DL
                  else rtw_write32_clr REG_FWHW_TXQ_CTRL BIT_EN_BCNQ_DL });
          when_do (BSS_CHANGED_CQM \<in> changed) (rtw_fw_beacon_filter_config True v);
          when_do (BSS_CHANGED_MU_GROUPS \<in> changed) (do_set_gid_table ops v);
          when_do (BSS_CHANGED_ERP_SLOT \<in> changed) (rtw_conf_tx v);
          when_do (BSS_CHANGED_PS \<in> changed) (rtw_recalc_lps ops None);
          rtw_vif_port_config v ((if BSS_CHANGED_ASSOC \<in> changed then PORT_SET_NET_TYPE OR PORT_SET_AID else 0) OR
                                 (if BSS_CHANGED_BSSID \<in> changed then PORT_SET_BSSID else 0)) }"

definition rtw_ops_start_ap :: "('e, 'x) rtw_drv_scheme rtw_drv_ops \<Rightarrow> ('e, 'x, int) drv" where
  "rtw_ops_start_ap ops =
     do { rtw_write32_set REG_TCR BIT_TCR_UPDATE_HGQMD;
          dev_upd (\<lambda>s. s\<lparr>ap_active := True\<rparr>);
          rtw_store_op_chan True;
          do_phy_calibration ops;
          State_Monad.return 0 }"

definition rtw_ops_stop_ap :: "('e, 'x, unit) drv" where
  "rtw_ops_stop_ap =
     do { rtw_write32_clr REG_TCR BIT_TCR_UPDATE_HGQMD;
          dev_upd (\<lambda>s. s\<lparr>ap_active := False\<rparr>);
          active \<leftarrow> dev_get rtw_core_check_sta_active;
          when_do (\<not> active) rtw_clear_op_chan }"

section \<open>Stations and keys\<close>

definition rtw_ops_sta_add :: "nat \<Rightarrow> nat \<Rightarrow> ('e, 'x, int) drv" where
  "rtw_ops_sta_add v i = rtw_sta_add v i"

definition rtw_ops_sta_remove :: "nat \<Rightarrow> nat \<Rightarrow> ('e, 'x, int) drv" where
  "rtw_ops_sta_remove v i =
     do { rtw_fw_beacon_filter_config False v; rtw_sta_remove i True; State_Monad.return 0 }"

definition rtw_ops_set_tim :: "('e, 'x, int) drv" where
  "rtw_ops_set_tim = do { kcall KQueueUpdateBeacon; State_Monad.return 0 }"

datatype set_key_cmd = SET_KEY | DISABLE_KEY

text \<open>
  What a cipher suite means: the type for the engine and what the key is marked with; \<open>Inl\<close> is the
  error for suites the engine does not know.
\<close>

definition key_cipher_type :: "ieee80211_key_conf \<Rightarrow> int + u8 \<times> ieee80211_key_conf" where
  "key_cipher_type key =
     (if key_cipher key = 0x000FAC01 then Inr (1, key)
      else if key_cipher key = 0x000FAC05 then Inr (5, key)
      else if key_cipher key = 0x000FAC02 then Inr (2, key\<lparr>key_generate_mmic := True\<rparr>)
      else if key_cipher key = 0x000FAC04 then Inr (4, key\<lparr>key_sw_mgmt_tx := True\<rparr>)
      else if key_cipher key \<in> {0x000FAC06, 0x000FAC0D, 0x000FAC0B, 0x000FAC0C, 0x000FAC0A, 0x000FAC08, 0x000FAC09}
      then Inl (- EOPNOTSUPP)
      else Inl (- ENOTSUPP))"

text \<open>The result is the error code and mac80211's key, which the driver marks.\<close>

definition rtw_ops_set_key ::
  "('e, 'x) rtw_drv_scheme rtw_drv_ops \<Rightarrow> set_key_cmd \<Rightarrow> nat \<Rightarrow> u8 list option \<Rightarrow> ieee80211_key_conf \<Rightarrow>
   ('e, 'x, int \<times> ieee80211_key_conf) drv" where
  "rtw_ops_set_key ops cmd v sta key =
     do { t \<leftarrow> dev_get (\<lambda>s. rv_type (vif_tbl s v));
          if t = NL80211_IFTYPE_MESH_POINT then State_Monad.return (if cmd = SET_KEY then - EOPNOTSUPP else 0, key)
          else (case key_cipher_type key of
            Inl err \<Rightarrow> State_Monad.return (err, key)
          | Inr (hw_key_type, key) \<Rightarrow>
              do { rtw_leave_lps_deep ops;
                   d \<leftarrow> dev_get sec;
                   let hw_key_idx = (if key_pairwise key then of_nat (rtw_sec_get_free_cam d) else key_keyidx key) :: u8
                   in if total_cam_num d \<le> ucast hw_key_idx then State_Monad.return (- ENOSPC, key)
                      else do { key' \<leftarrow> (case cmd of
                                  SET_KEY \<Rightarrow>
                                    (let key' = key\<lparr>key_generate_iv := True, key_hw_key_idx := hw_key_idx\<rparr>
                                     in do { rtw_sec_write_cam sta key' hw_key_type hw_key_idx; State_Monad.return key' })
                                | DISABLE_KEY \<Rightarrow>
                                    do { rtw_hci_flush_all_queues ops False;
                                         rtw_mac_flush_all_queues;
                                         rtw_sec_clear_cam (key_hw_key_idx key);
                                         State_Monad.return key });
                                deep \<leftarrow> dev_get rtw_get_lps_deep_mode;
                                when_do (deep = LPS_DEEP_MODE_PG) (do { _ \<leftarrow> rtw_fw_download_rsvd_page ops; skip });
                                State_Monad.return (0, key') } }) }"

datatype ampdu_action =
  IEEE80211_AMPDU_RX_START | IEEE80211_AMPDU_RX_STOP | IEEE80211_AMPDU_TX_START | IEEE80211_AMPDU_TX_STOP_CONT
  | IEEE80211_AMPDU_TX_STOP_FLUSH | IEEE80211_AMPDU_TX_STOP_FLUSH_CONT | IEEE80211_AMPDU_TX_OPERATIONAL

abbreviation (input) IEEE80211_AMPDU_TX_START_IMMEDIATE :: int where "IEEE80211_AMPDU_TX_START_IMMEDIATE \<equiv> 1"

definition rtw_ops_ampdu_action :: "nat \<Rightarrow> nat \<Rightarrow> ampdu_action \<Rightarrow> ('e, 'x, int) drv" where
  "rtw_ops_ampdu_action i tid action =
     do { q \<leftarrow> dev_get (\<lambda>s. si_txq (stas s ! i) ! tid);
          case action of
            IEEE80211_AMPDU_TX_START \<Rightarrow> State_Monad.return IEEE80211_AMPDU_TX_START_IMMEDIATE
          | IEEE80211_AMPDU_TX_OPERATIONAL \<Rightarrow>
              do { dev_upd (\<lambda>s. s\<lparr>txq_ampdu := (txq_ampdu s)(q := True)\<rparr>); State_Monad.return 0 }
          | IEEE80211_AMPDU_RX_START \<Rightarrow> State_Monad.return 0
          | IEEE80211_AMPDU_RX_STOP \<Rightarrow> State_Monad.return 0
          | _ \<Rightarrow> do { dev_upd (\<lambda>s. s\<lparr>txq_ampdu := (txq_ampdu s)(q := False)\<rparr>);
                      kcall (KStopTxBaCb i tid);
                      State_Monad.return 0 } }"

definition rtw_ops_can_aggregate_in_amsdu :: "('e, 'x) rtw_drv_scheme \<Rightarrow> bool" where
  "rtw_ops_can_aggregate_in_amsdu s \<longleftrightarrow> hal_current_band_type (hal s) \<noteq> RTW_BAND_2G"

definition rtw_ops_sta_rc_update :: "nat \<Rightarrow> bool \<Rightarrow> ('e, 'x, unit) drv" where
  "rtw_ops_sta_rc_update i bw_changed = when_do bw_changed (kcall (KQueueRcWork i))"

definition rtw_ops_sta_statistics :: "nat \<Rightarrow> ('e, 'x) rtw_drv_scheme \<Rightarrow> rate_info" where
  "rtw_ops_sta_statistics i s = si_txrate (stas s ! i)"

section \<open>Scans and the rest\<close>

definition rtw_ops_sw_scan_start :: "('e, 'x) rtw_drv_scheme rtw_drv_ops \<Rightarrow> nat \<Rightarrow> u8 list \<Rightarrow> ('e, 'x, unit) drv" where
  "rtw_ops_sw_scan_start ops v mac_addr = rtw_core_scan_start ops v mac_addr False"

definition rtw_ops_sw_scan_complete :: "('e, 'x) rtw_drv_scheme rtw_drv_ops \<Rightarrow> nat option \<Rightarrow> ('e, 'x, unit) drv" where
  "rtw_ops_sw_scan_complete ops vif = rtw_core_scan_complete ops vif False"

definition rtw_ops_hw_scan ::
  "('e, 'x) rtw_drv_scheme rtw_drv_ops \<Rightarrow> (nat \<Rightarrow> u8 list) \<Rightarrow> nat \<Rightarrow> cfg80211_scan_request \<Rightarrow> ('e, 'x, int) drv" where
  "rtw_ops_hw_scan ops junk v req =
     do { feature \<leftarrow> dev_get fw_feature;
          scanning \<leftarrow> dev_get rtw_phy.flag_scanning;
          if \<not> rtw_fw_feature_check feature FW_FEATURE_SCAN_OFFLOAD then State_Monad.return 1
          else if scanning then State_Monad.return (- EBUSY)
          else do { rtw_hw_scan_start ops v req;
                    ret \<leftarrow> rtw_hw_scan_offload ops junk (Some v) True;
                    when_do (ret \<noteq> 0) (rtw_hw_scan_abort ops junk);
                    State_Monad.return ret } }"

definition rtw_ops_cancel_hw_scan :: "('e, 'x) rtw_drv_scheme rtw_drv_ops \<Rightarrow> (nat \<Rightarrow> u8 list) \<Rightarrow> ('e, 'x, unit) drv" where
  "rtw_ops_cancel_hw_scan ops junk =
     do { feature \<leftarrow> dev_get fw_feature;
          scanning \<leftarrow> dev_get rtw_phy.flag_scanning;
          if \<not> rtw_fw_feature_check feature FW_FEATURE_SCAN_OFFLOAD \<or> \<not> scanning then skip
          else rtw_hw_scan_abort ops junk }"

definition rtw_ops_mgd_prepare_tx :: "('e, 'x) rtw_drv_scheme rtw_drv_ops \<Rightarrow> ('e, 'x, unit) drv" where
  "rtw_ops_mgd_prepare_tx ops =
     do { rtw_leave_lps_deep ops; do_coex ops (CoexConnect True); rtw_chip_prepare_tx ops }"

definition rtw_ops_set_rts_threshold :: "u32 \<Rightarrow> ('e, 'x, int) drv" where
  "rtw_ops_set_rts_threshold value = do { dev_upd (\<lambda>s. s\<lparr>rts_threshold := value\<rparr>); State_Monad.return 0 }"

definition rtw_ops_flush :: "('e, 'x) rtw_drv_scheme rtw_drv_ops \<Rightarrow> u32 \<Rightarrow> bool \<Rightarrow> ('e, 'x, unit) drv" where
  "rtw_ops_flush ops queues drop' =
     do { rtw_leave_lps_deep ops; do_flush_queues ops queues drop'; rtw_mac_flush_queues queues }"

definition rtw_ops_set_antenna :: "('e, 'x) rtw_drv_scheme rtw_drv_ops \<Rightarrow> u32 \<Rightarrow> u32 \<Rightarrow> ('e, 'x, int) drv" where
  "rtw_ops_set_antenna ops tx_antenna rx_antenna = (case do_set_antenna ops of
     None \<Rightarrow> State_Monad.return (- EOPNOTSUPP)
   | Some set_antenna \<Rightarrow> set_antenna tx_antenna rx_antenna)"

definition rtw_ops_get_antenna :: "('e, 'x) rtw_drv_scheme \<Rightarrow> u32 \<times> u32" where
  "rtw_ops_get_antenna s = (hal_antenna_tx (hal s), hal_antenna_rx (hal s))"

definition rtw_reconfig_complete :: "bool \<Rightarrow> ('e, 'x, unit) drv" where
  "rtw_reconfig_complete restart = when_do restart (dev_upd (\<lambda>s. s\<lparr>flag_restarting := False\<rparr>))"

text \<open>The error of \<open>rtw_set_sar_specs\<close> is not handed on.\<close>

definition rtw_ops_set_sar_specs :: "('e, 'x) rtw_drv_scheme rtw_drv_ops \<Rightarrow> bool \<Rightarrow> (nat \<times> int) list \<Rightarrow> ('e, 'x, int) drv" where
  "rtw_ops_set_sar_specs ops type_power specs =
     do { _ \<leftarrow> rtw_set_sar_specs (do_set_tx_power_index ops) type_power specs; State_Monad.return 0 }"

end
