(* ===== verification/MacOpsProps.thy ===== *)
theory MacOpsProps
  imports MacOps
begin

text \<open>
  Interfaces come and go in any order: each has a port and a firmware identifier of its own. The
  proof follows the code with triples over the part of the state that holds ports and identifiers.
\<close>

section \<open>Triples\<close>

definition triple :: "('s \<Rightarrow> bool) \<Rightarrow> ('s, 'a) state \<Rightarrow> ('a \<Rightarrow> 's \<Rightarrow> bool) \<Rightarrow> bool" where
  "triple P m Q \<longleftrightarrow> (\<forall>s. P s \<longrightarrow> Q (fst (run_state m s)) (snd (run_state m s)))"

lemma triple_bind: "triple P m R \<Longrightarrow> (\<And>x. triple (R x) (f x) Q) \<Longrightarrow> triple P (State_Monad.bind m f) Q"
  unfolding triple_def by (simp add: split_def)

lemma triple_return: "(\<And>s. P s \<Longrightarrow> Q x s) \<Longrightarrow> triple P (State_Monad.return x) Q"
  by (simp add: triple_def)

lemma triple_get: "(\<And>s. P s \<Longrightarrow> Q (f s) s) \<Longrightarrow> triple P (dev_get f) Q"
  by (simp add: triple_def)

lemma triple_upd: "(\<And>s. P s \<Longrightarrow> Q () (f s)) \<Longrightarrow> triple P (dev_upd f) Q"
  by (simp add: triple_def)

lemma triple_if: "(b \<Longrightarrow> triple P m Q) \<Longrightarrow> (\<not> b \<Longrightarrow> triple P k Q) \<Longrightarrow> triple P (if b then m else k) Q"
  by simp

lemma triple_same: "same g m \<Longrightarrow> triple (\<lambda>s. p (g s)) m (\<lambda>_ s. p (g s))"
  by (simp add: triple_def same_def)

lemma triple_conseq: "triple P' m Q' \<Longrightarrow> (\<And>s. P s \<Longrightarrow> P' s) \<Longrightarrow> (\<And>r s. Q' r s \<Longrightarrow> Q r s) \<Longrightarrow> triple P m Q"
  by (simp add: triple_def)

lemma triple_for_each:
  assumes "\<And>x. x \<in> set xs \<Longrightarrow> triple P (f x) (\<lambda>_. P)"
  shows "triple P (for_each xs f) (\<lambda>_. P)"
  using assms
proof (induction xs)
  case Nil
  then show ?case by (simp add: triple_def)
next
  case (Cons x xs)
  then show ?case by (auto intro!: triple_bind [where R = "\<lambda>_. P"])
qed

lemma triple_pull: "(b \<Longrightarrow> triple P m Q) \<Longrightarrow> triple (\<lambda>s. b \<and> P s) m Q"
  by (auto simp: triple_def)

section \<open>Ports and identifiers\<close>

type_synonym iface_ids =
  "(nat \<Rightarrow> nat \<times> rtw_vif_port \<times> u8) \<times> (nat \<Rightarrow> bool) \<times> (nat \<Rightarrow> bool) \<times> nat list \<times> (nat \<Rightarrow> nl80211_iftype)"

definition iface_ids :: "('e, 'x) rtw_drv_scheme \<Rightarrow> iface_ids" where
  "iface_ids s = (\<lambda>v. (rv_port (vif_tbl s v), rv_conf (vif_tbl s v), rv_mac_id (vif_tbl s v)), hw_port s, mac_id_map s,
     active_vifs s, \<lambda>v. rv_type (vif_tbl s v))"

text \<open>
  The interfaces of \<open>A\<close> have ports of their own, the registers of their port, and identifiers of
  their own; a port is taken exactly when one of them has it.
\<close>

fun iface_ok :: "nat set \<Rightarrow> iface_ids \<Rightarrow> bool" where
  "iface_ok A (e, ports, ids, act) \<longleftrightarrow>
     (\<forall>v \<in> A. fst (e v) < RTW_PORT_NUM \<and> fst (snd (e v)) = rtw_vif_ports ! fst (e v) \<and>
        unat (snd (snd (e v))) < RTW_MAX_MAC_ID_NUM \<and> ids (unat (snd (snd (e v))))) \<and>
     inj_on (\<lambda>v. fst (e v)) A \<and> inj_on (\<lambda>v. snd (snd (e v))) A \<and> (\<forall>k. ports k \<longleftrightarrow> k \<in> (\<lambda>v. fst (e v)) ` A)"

definition iface_at :: "nat set \<Rightarrow> nat list \<Rightarrow> iface_ids \<Rightarrow> bool" where
  "iface_at A act ids \<longleftrightarrow> iface_ok A ids \<and> fst (snd (snd (snd ids))) = act"

definition ids_kept :: "('e, 'x) rtw_drv_scheme rtw_drv_ops \<Rightarrow> bool" where
  "ids_kept ops \<longleftrightarrow> (\<forall>on. same iface_ids (do_deep_ps ops on)) \<and> (\<forall>on. same iface_ids (do_link_ps ops on)) \<and>
     (\<forall>e. same iface_ids (do_coex ops e))"

lemma ids_off: "off_log iface_ids" "off_box iface_ids"
  by (simp_all add: off_log_def off_box_def iface_ids_def)

lemma iface_ids_upds [simp]:
  "iface_ids (s\<lparr>kcalls := ks\<rparr>) = iface_ids s" "iface_ids (s\<lparr>fault := fl\<rparr>) = iface_ids s"
  "iface_ids (s\<lparr>txqs := qs\<rparr>) = iface_ids s" "iface_ids (s\<lparr>rsvd_heap := h\<rparr>) = iface_ids s"
  "iface_ids (s\<lparr>rsvd_next := n\<rparr>) = iface_ids s" "iface_ids (s\<lparr>rsvd_page_list := l\<rparr>) = iface_ids s"
  "iface_ids (s\<lparr>alloc_cnt := n\<rparr>) = iface_ids s" "iface_ids (s\<lparr>ps_enabled := b\<rparr>) = iface_ids s"
  "iface_ids (s\<lparr>flag_leisure_ps := b\<rparr>) = iface_ids s" "iface_ids (s\<lparr>flag_leisure_ps_deep := b\<rparr>) = iface_ids s"
  "iface_ids (s\<lparr>lps_conf := c\<rparr>) = iface_ids s"
  by (simp_all add: iface_ids_def)

lemma iface_ids_vif_upd:
  assumes "\<And>r. rv_port (f r) = rv_port r \<and> rv_conf (f r) = rv_conf r \<and> rv_mac_id (f r) = rv_mac_id r \<and> rv_type (f r) = rv_type r"
  shows "same iface_ids (vif_upd v f)"
  using assms by (intro same_rules) (auto simp: iface_ids_def fun_eq_iff)

lemma same_ids_leave_lps:
  assumes "ids_kept ops"
  shows "same iface_ids (rtw_leave_lps_deep ops)" "same iface_ids (rtw_leave_lps ops)"
proof -
  have o: "same iface_ids (do_deep_ps ops b)" "same iface_ids (do_link_ps ops b)" "same iface_ids (do_coex ops e)" for b e
    using assms by (simp_all add: ids_kept_def)
  have r: "same iface_ids (fw_leave_lps_check_reg n :: ('a, 'b, int) drv)" for n
    by (induction n) (auto intro!: same_rules ids_off)
  have "same iface_ids (rtw_fw_leave_lps_check :: ('a, 'b, unit) drv)"
    unfolding rtw_fw_leave_lps_check_def fw_leave_lps_check_c2h_def by (intro same_rules ids_off r) simp_all
  moreover have "same iface_ids (rtw_fw_leave_lps_check_prepare :: ('a, 'b, unit) drv)"
    unfolding rtw_fw_leave_lps_check_prepare_def by (intro same_rules) simp
  moreover have "same iface_ids (rtw_fw_set_pwr_mode :: ('a, 'b, unit) drv)"
    unfolding rtw_fw_set_pwr_mode_def by (intro same_rules ids_off)
  ultimately show "same iface_ids (rtw_leave_lps_deep ops)" "same iface_ids (rtw_leave_lps ops)"
    unfolding rtw_leave_lps_deep_def rtw_leave_lps_def lps_deep_leave_def lps_leave_def rtw_leave_lps_core_def
    by (intro same_rules o; simp)+
qed

lemma same_ids_recalc_lps: "ids_kept ops \<Longrightarrow> same iface_ids (rtw_recalc_lps ops w)"
  unfolding rtw_recalc_lps_def by (intro same_rules same_ids_leave_lps; simp)

lemma same_ids_pages:
  "same iface_ids (rtw_add_rsvd_page_bcn v)" "same iface_ids (rtw_add_rsvd_page_sta v)" "same iface_ids (rtw_remove_rsvd_page v)"
  unfolding rtw_add_rsvd_page_bcn_def rtw_add_rsvd_page_sta_def rtw_add_rsvd_page_def rtw_insert_rsvd_page_def
    rtw_alloc_rsvd_page_def rtw_remove_rsvd_page_def rp_free_def
  by (intro same_rules iface_ids_vif_upd; simp)+

lemma same_ids_port_config: "same iface_ids (rtw_vif_port_config v config)"
  unfolding rtw_vif_port_config_def rtw_vif_write_addr_def by (intro same_rules ids_off; simp)

lemma same_ids_txq: "same iface_ids (rtw_txq_init q)" "same iface_ids (rtw_txq_cleanup q)"
  unfolding rtw_txq_init_def rtw_txq_cleanup_def by (intro same_rules; simp)+

lemma same_ids_swap: "same iface_ids (rtw_swap_reg_mask r1 r2)" "same iface_ids (rtw_swap_reg_nbytes a b n)"
  unfolding rtw_swap_reg_mask_def rtw_swap_reg_nbytes_def by (intro same_rules ids_off; simp)+

lemma same_ids_default_port: "ids_kept ops \<Longrightarrow> same iface_ids (rtw_fw_default_port (rtw_leave_lps ops) v)"
  unfolding rtw_fw_default_port_def by (intro same_rules ids_off same_ids_leave_lps)

section \<open>Following the code\<close>

definition on_ids :: "(iface_ids \<Rightarrow> bool) \<Rightarrow> ('e, 'x) rtw_drv_scheme \<Rightarrow> bool" where
  "on_ids p s \<longleftrightarrow> p (iface_ids s)"

lemma triple_ids: "same iface_ids m \<Longrightarrow> triple (on_ids p) m (\<lambda>_. on_ids p)"
  by (simp add: triple_def same_def on_ids_def)

lemma bind_ids: "same iface_ids m \<Longrightarrow> (\<And>x. triple (on_ids p) (f x) Q) \<Longrightarrow> triple (on_ids p) (State_Monad.bind m f) Q"
  by (rule triple_bind [OF triple_ids])

lemma iface_at_swap:
  assumes "iface_at A act ids" "v \<in> A" "t \<in> A" and "ids = (e, ports, idm, vs, ty)"
  shows "iface_at A act ((e(t := (fst (e v), fst (snd (e v)), snd (snd (e t)))))(v := (fst (e t), fst (snd (e t)), snd (snd (e v)))),
    ports, idm, vs, ty)"
proof (cases "v = t")
  case True
  then show ?thesis using assms by simp
next
  case False
  let ?e = "(e(t := (fst (e v), fst (snd (e v)), snd (snd (e t)))))(v := (fst (e t), fst (snd (e t)), snd (snd (e v))))"
  let ?sw = "\<lambda>x. if x = v then t else if x = t then v else x"
  have port: "(\<lambda>x. fst (?e x)) = (\<lambda>x. fst (e x)) \<circ> ?sw" and conf: "fst (snd (?e x)) = fst (snd (e (?sw x)))"
    and id: "snd (snd (?e x)) = snd (snd (e x))" for x using False by (auto simp: fun_eq_iff)
  have sw: "?sw ` A = A" "inj_on ?sw A" using assms(2,3) by (auto simp: inj_on_def image_iff)
  have mem: "x \<in> A \<Longrightarrow> ?sw x \<in> A" for x using assms(2,3) by simp
  have ok: "iface_ok A (e, ports, idm, vs, ty)" "vs = act" using assms(1,4) by (simp_all add: iface_at_def)
  have inj: "inj_on (\<lambda>x. fst (?e x)) A" unfolding port using ok sw by (intro comp_inj_on) simp_all
  have img: "(\<lambda>x. fst (?e x)) ` A = (\<lambda>x. fst (e x)) ` A" unfolding port image_comp [symmetric] sw(1) ..
  show ?thesis unfolding iface_at_def iface_ok.simps id conf img using ok mem inj fun_cong [OF port] by simp
qed

lemma port_switch_iter_ok:
  fixes ops :: "('e, 'x) rtw_drv_scheme rtw_drv_ops"
  assumes "ids_kept ops" "v \<in> A" "t \<in> A"
  shows "triple (on_ids (iface_at A act)) (rtw_port_switch_iter ops v t) (\<lambda>_. on_ids (iface_at A act))"
proof -
  have pair: "triple (on_ids (\<lambda>ids. iface_at A act ids \<and> fst ids v = (rv_port a, rv_conf a, rv_mac_id a) \<and>
       fst ids t = (rv_port b, rv_conf b, rv_mac_id b)))
     (do { vif_upd t (\<lambda>r. r\<lparr>rv_port := rv_port a, rv_conf := rv_conf a\<rparr>);
           vif_upd v (\<lambda>r. r\<lparr>rv_port := rv_port b, rv_conf := rv_conf b\<rparr>);
           rtw_fw_default_port (rtw_leave_lps ops) t }) (\<lambda>_. on_ids (iface_at A act))" for a b
    unfolding triple_def
  proof (intro allI impI)
    fix s :: "('e, 'x) rtw_drv_scheme"
    assume s: "on_ids (\<lambda>ids. iface_at A act ids \<and> fst ids v = (rv_port a, rv_conf a, rv_mac_id a) \<and>
       fst ids t = (rv_port b, rv_conf b, rv_mac_id b)) s"
    let ?s2 = "snd (run_state (vif_upd v (\<lambda>r. r\<lparr>rv_port := rv_port b, rv_conf := rv_conf b\<rparr>))
      (snd (run_state (vif_upd t (\<lambda>r. r\<lparr>rv_port := rv_port a, rv_conf := rv_conf a\<rparr>)) s)))"
    obtain e ports idm vs ty where ids: "iface_ids s = (e, ports, idm, vs, ty)" by (metis surj_pair)
    then have e: "e = (\<lambda>v. (rv_port (vif_tbl s v), rv_conf (vif_tbl s v), rv_mac_id (vif_tbl s v)))"
      and ty: "ty = (\<lambda>v. rv_type (vif_tbl s v))" by (simp_all add: iface_ids_def)
    from s ids have ev: "e v = (rv_port a, rv_conf a, rv_mac_id a)" "e t = (rv_port b, rv_conf b, rv_mac_id b)"
      by (simp_all add: on_ids_def)
    then have mac: "rv_mac_id (vif_tbl s v) = rv_mac_id a" "rv_mac_id (vif_tbl s t) = rv_mac_id b" by (simp_all add: e)
    have "iface_ids ?s2 = ((e(t := (fst (e v), fst (snd (e v)), snd (snd (e t)))))(v := (fst (e t), fst (snd (e t)), snd (snd (e v)))),
        ports, idm, vs, ty)"
      using ids mac unfolding ev by (auto simp: iface_ids_def e ty fun_eq_iff)
    then have "iface_at A act (iface_ids ?s2)"
      using iface_at_swap [OF _ assms(2,3) ids] s by (simp add: on_ids_def)
    then show "on_ids (iface_at A act) (snd (run_state (do { vif_upd t (\<lambda>r. r\<lparr>rv_port := rv_port a, rv_conf := rv_conf a\<rparr>);
           vif_upd v (\<lambda>r. r\<lparr>rv_port := rv_port b, rv_conf := rv_conf b\<rparr>);
           rtw_fw_default_port (rtw_leave_lps ops) t }) s))"
      using same_snd [OF same_ids_default_port [OF assms(1)], of t ?s2] by (simp add: on_ids_def)
  qed
  show ?thesis
    unfolding rtw_port_switch_iter_def Let_def
    apply (rule bind_ids [OF same_dev_get])
    apply (rule triple_if)
     apply (rule triple_ids [OF same_skip])
    apply (rule bind_ids [OF same_ids_leave_lps(2) [OF assms(1)]])
    apply (rule triple_bind [where R = "\<lambda>a. on_ids (\<lambda>ids. iface_at A act ids \<and> fst ids v = (rv_port a, rv_conf a, rv_mac_id a))"])
     apply (rule triple_get, simp add: on_ids_def iface_ids_def)
    apply (rule_tac triple_bind [where R = "\<lambda>b. on_ids (\<lambda>ids. iface_at A act ids \<and>
         fst ids v = (rv_port x, rv_conf x, rv_mac_id x) \<and> fst ids t = (rv_port b, rv_conf b, rv_mac_id b))" for x])
     apply (rule triple_get, simp add: on_ids_def iface_ids_def)
    apply (rule bind_ids [OF same_ids_swap(1)] bind_ids [OF same_ids_swap(2)])+
    apply (rule pair)
    done
qed

lemma port_switch_ok:
  assumes "ids_kept ops" "v \<in> A" "set act \<subseteq> A"
  shows "triple (on_ids (iface_at A act)) (rtw_core_port_switch ops v) (\<lambda>_. on_ids (iface_at A act))"
proof -
  have each: "triple (on_ids (iface_at A act)) (for_each act (rtw_port_switch_iter ops v)) (\<lambda>_. on_ids (iface_at A act))"
    using assms by (intro triple_for_each port_switch_iter_ok) auto
  have get: "triple (on_ids (iface_at A act)) (dev_get active_vifs)
      (\<lambda>vs s. vs = act \<and> on_ids (iface_at A act) s)"
    by (rule triple_get) (simp add: on_ids_def iface_ids_def iface_at_def)
  show ?thesis
    unfolding rtw_core_port_switch_def
    by (rule bind_ids [OF same_dev_get], rule triple_if, rule triple_ids [OF same_skip])
      (rule triple_bind [OF get], rule triple_pull, simp add: each)
qed

section \<open>Adding\<close>

lemma acquire_ok:
  "triple (on_ids (iface_at A act)) rtw_acquire_macid (\<lambda>id. on_ids (\<lambda>ids. iface_at A act ids \<and>
     (unat id < RTW_MAX_MAC_ID_NUM \<longrightarrow> fst (snd (snd ids)) (unat id) \<and> (\<forall>w \<in> A. snd (snd (fst ids w)) \<noteq> id))))"
  unfolding triple_def
proof (intro allI impI)
  fix s assume s: "on_ids (iface_at A act) s"
  let ?i = "find_next (\<lambda>k. \<not> mac_id_map s k) 32 0"
  have le: "?i \<le> 32" by (rule find_next_le) simp
  then have u: "unat (of_nat ?i :: u8) = ?i" by (simp add: unat_of_nat)
  have "?i = 32 \<or> \<not> mac_id_map s ?i" using find_next_spec [of "\<lambda>k. \<not> mac_id_map s k" 32 0] by blast
  with s le show "on_ids (\<lambda>ids. iface_at A act ids \<and> (unat (fst (run_state rtw_acquire_macid s)) < RTW_MAX_MAC_ID_NUM \<longrightarrow>
      fst (snd (snd ids)) (unat (fst (run_state rtw_acquire_macid s))) \<and>
      (\<forall>w \<in> A. snd (snd (fst ids w)) \<noteq> fst (run_state rtw_acquire_macid s)))) (snd (run_state rtw_acquire_macid s))"
    by (auto simp: rtw_acquire_macid_def Let_def u on_ids_def iface_ids_def iface_at_def)
qed

text \<open>The port taken, and the interface with it.\<close>

lemma port_taken_ok:
  assumes "v \<notin> A" and "port = find_next (\<lambda>k. \<not> ports k) RTW_PORT_NUM 0" and "port < RTW_PORT_NUM"
    and "unat mid < RTW_MAX_MAC_ID_NUM"
  shows "triple (on_ids (\<lambda>ids. iface_at A act ids \<and> fst (snd ids) = ports \<and> snd (snd (fst ids v)) = mid \<and>
       fst (snd (snd ids)) (unat mid) \<and> (\<forall>w \<in> A. snd (snd (fst ids w)) \<noteq> mid)))
     (do { dev_upd (\<lambda>s. s\<lparr>hw_port := (hw_port s)(port := True)\<rparr>);
           vif_upd v (\<lambda>r. r\<lparr>rv_port := port, rv_conf := rtw_vif_ports ! port\<rparr>) })
     (\<lambda>_. on_ids (iface_at (insert v A) act))"
  unfolding triple_def
proof (intro allI impI)
  fix s assume s: "on_ids (\<lambda>ids. iface_at A act ids \<and> fst (snd ids) = ports \<and> snd (snd (fst ids v)) = mid \<and>
       fst (snd (snd ids)) (unat mid) \<and> (\<forall>w \<in> A. snd (snd (fst ids w)) \<noteq> mid)) s"
  have "\<not> ports port" using find_next_spec [of "\<lambda>k. \<not> ports k" RTW_PORT_NUM 0] assms(2,3) by auto
  with s have free: "port \<notin> (\<lambda>v. rv_port (vif_tbl s v)) ` A"
    by (auto simp: on_ids_def iface_ids_def iface_at_def)
  have A: "w \<in> A \<Longrightarrow> w \<noteq> v" for w using assms(1) by auto
  let ?s' = "s\<lparr>hw_port := (hw_port s)(port := True), vif_tbl := (vif_tbl s)(v := (vif_tbl s v)\<lparr>rv_port := port, rv_conf := rtw_vif_ports ! port\<rparr>)\<rparr>"
  have same: "(\<lambda>w. rv_port (vif_tbl ?s' w)) ` A = (\<lambda>w. rv_port (vif_tbl s w)) ` A"
    using A by (intro image_cong) auto
  from s have inj: "inj_on (\<lambda>w. rv_port (vif_tbl ?s' w)) A" "inj_on (\<lambda>w. rv_mac_id (vif_tbl ?s' w)) A"
    using A by (auto simp: on_ids_def iface_ids_def iface_at_def inj_on_def)
  have "iface_at (insert v A) act (iface_ids ?s')"
    using s free assms(1,3,4) inj same A
    by (auto simp: on_ids_def iface_ids_def iface_at_def)
  then show "on_ids (iface_at (insert v A) act) (snd (run_state (do { dev_upd (\<lambda>s. s\<lparr>hw_port := (hw_port s)(port := True)\<rparr>);
           vif_upd v (\<lambda>r. r\<lparr>rv_port := port, rv_conf := rtw_vif_ports ! port\<rparr>) }) s))"
    by (simp add: on_ids_def)
qed

lemma iface_at_drop:
  assumes "iface_at (insert v A) act (e, ports, mids, vs, ty)" and "v \<notin> A"
  shows "iface_at A act (e, ports(fst (e v) := False), mids, vs, ty)"
proof -
  have "fst (e v) \<notin> (\<lambda>w. fst (e w)) ` A" using assms by (auto simp: iface_at_def inj_on_def)
  then show ?thesis using assms by (auto simp: iface_at_def)
qed

lemma add_supported_ok:
  assumes "ids_kept ops" "set act \<subseteq> insert v A" and "vif_setup t v = Some (add_pages, nt, bc)"
  shows "triple (on_ids (iface_at (insert v A) act))
    (do { add_pages;
          vif_upd v (\<lambda>r. r\<lparr>rv_mac_addr := rv_addr r, rv_net_type := nt, rv_bcn_ctrl := bc\<rparr>);
          rtw_vif_port_config v config; rtw_core_port_switch ops v; rtw_recalc_lps ops (Some v);
          State_Monad.return (0 :: int) }) (\<lambda>r s. r = 0 \<and> on_ids (iface_at (insert v A) act) s)"
proof -
  have pages: "same iface_ids add_pages"
    using assms(3) by (auto simp: vif_setup_def same_ids_pages split: if_splits)
  show ?thesis
    by (rule bind_ids [OF pages], rule bind_ids [OF iface_ids_vif_upd], simp, rule bind_ids [OF same_ids_port_config],
        rule triple_bind [OF port_switch_ok [OF assms(1) _ assms(2)]], simp, rule bind_ids [OF same_ids_recalc_lps [OF assms(1)]],
        rule triple_return, simp)
qed

lemma triple_regroup: "triple P (State_Monad.bind (State_Monad.bind m (\<lambda>_. k)) f) Q \<Longrightarrow>
    triple P (State_Monad.bind m (\<lambda>_. State_Monad.bind k f)) Q"
  by (simp add: triple_def split_def)

lemma add_interface_ok:
  fixes ops :: "('e, 'x) rtw_drv_scheme rtw_drv_ops"
  assumes "ids_kept ops" "set act \<subseteq> insert v A" "v \<notin> A"
  shows "triple (on_ids (iface_at A act)) (rtw_ops_add_interface ops v)
    (\<lambda>ret. on_ids (iface_at (if ret = 0 then insert v A else A) act))"
proof -
  let ?mine = "\<lambda>mid ids. iface_at A act ids \<and> snd (snd (fst ids v)) = mid \<and> fst (snd (snd ids)) (unat mid) \<and>
    (\<forall>w \<in> A. snd (snd (fst ids w)) \<noteq> mid)"
  have set_id: "triple (on_ids (\<lambda>ids. iface_at A act ids \<and> (unat mid < RTW_MAX_MAC_ID_NUM \<longrightarrow> fst (snd (snd ids)) (unat mid) \<and>
       (\<forall>w \<in> A. snd (snd (fst ids w)) \<noteq> mid))))
     (vif_upd v (\<lambda>r. r\<lparr>rv_mac_id := mid\<rparr>) :: ('e, 'x, unit) drv)
     (\<lambda>_ s. on_ids (iface_at A act) s \<and> (unat mid < RTW_MAX_MAC_ID_NUM \<longrightarrow> on_ids (?mine mid) s))" for mid
    unfolding triple_def
  proof (intro allI impI)
    fix s :: "('e, 'x) rtw_drv_scheme"
    assume s: "on_ids (\<lambda>ids. iface_at A act ids \<and> (unat mid < RTW_MAX_MAC_ID_NUM \<longrightarrow> fst (snd (snd ids)) (unat mid) \<and>
       (\<forall>w \<in> A. snd (snd (fst ids w)) \<noteq> mid))) s"
    let ?s' = "s\<lparr>vif_tbl := (vif_tbl s)(v := (vif_tbl s v)\<lparr>rv_mac_id := mid\<rparr>)\<rparr>"
    have A: "w \<in> A \<Longrightarrow> w \<noteq> v" for w using assms(3) by auto
    have img: "(\<lambda>w. rv_port (vif_tbl ?s' w)) ` A = (\<lambda>w. rv_port (vif_tbl s w)) ` A" using A by (intro image_cong) auto
    have inj: "inj_on (\<lambda>w. rv_port (vif_tbl ?s' w)) A" "inj_on (\<lambda>w. rv_mac_id (vif_tbl ?s' w)) A"
      using s A by (auto simp: on_ids_def iface_ids_def iface_at_def inj_on_def)
    have "iface_at A act (iface_ids ?s')"
      using s A inj img by (auto simp: on_ids_def iface_ids_def iface_at_def)
    with s A show "on_ids (iface_at A act) (snd (run_state (vif_upd v (\<lambda>r. r\<lparr>rv_mac_id := mid\<rparr>)) s)) \<and>
       (unat mid < RTW_MAX_MAC_ID_NUM \<longrightarrow> on_ids (?mine mid) (snd (run_state (vif_upd v (\<lambda>r. r\<lparr>rv_mac_id := mid\<rparr>)) s)))"
      by (auto simp: on_ids_def iface_ids_def)
  qed
  have get_ports: "triple (\<lambda>s. on_ids (iface_at A act) s \<and> (unat mid < RTW_MAX_MAC_ID_NUM \<longrightarrow> on_ids (?mine mid) s))
      (dev_get hw_port :: ('e, 'x, _) drv) (\<lambda>ports. on_ids (\<lambda>ids. iface_at A act ids \<and> fst (snd ids) = ports \<and>
         snd (snd (fst ids v)) = mid \<and> fst (snd (snd ids)) (unat mid) \<and> (\<forall>w \<in> A. snd (snd (fst ids w)) \<noteq> mid)))"
    if "\<not> RTW_MAX_MAC_ID_NUM \<le> unat mid" for mid
    using that by (intro triple_get) (simp add: on_ids_def iface_ids_def)
  have refuse: "triple (on_ids (iface_at (insert v A) act) :: ('e, 'x) rtw_drv_scheme \<Rightarrow> bool)
      (do { dev_upd (\<lambda>s. s\<lparr>hw_port := (hw_port s)(rv_port (vif_tbl s v) := False)\<rparr>); State_Monad.return (- EINVAL) })
      (\<lambda>ret. on_ids (iface_at (if ret = 0 then insert v A else A) act))"
    by (rule triple_bind [where R = "\<lambda>_. on_ids (iface_at A act)"], rule triple_upd)
      (auto simp: on_ids_def iface_ids_def dest: iface_at_drop [OF _ assms(3)] intro: triple_return)
  have by_type: "triple (on_ids (iface_at (insert v A) act))
      (case vif_setup t v of
         None \<Rightarrow> do { dev_upd (\<lambda>s. s\<lparr>hw_port := (hw_port s)(rv_port (vif_tbl s v) := False)\<rparr>); State_Monad.return (- EINVAL) }
       | Some (add_pages, net_type, bcn_ctrl) \<Rightarrow>
           do { add_pages;
                vif_upd v (\<lambda>r. r\<lparr>rv_mac_addr := rv_addr r, rv_net_type := net_type, rv_bcn_ctrl := bcn_ctrl\<rparr>);
                rtw_vif_port_config v (PORT_SET_MAC_ADDR OR PORT_SET_NET_TYPE OR PORT_SET_BCN_CTRL);
                rtw_core_port_switch ops v; rtw_recalc_lps ops (Some v); State_Monad.return 0 })
      (\<lambda>ret. on_ids (iface_at (if ret = 0 then insert v A else A) act))" for t
  proof (cases "vif_setup t v :: (('e, 'x, unit) drv \<times> rtw_net_type \<times> u8) option")
    case (Some x)
    then show ?thesis
      by (cases x) (auto intro: triple_conseq [OF add_supported_ok [OF assms(1,2)]])
  qed (simp add: refuse)
  show ?thesis
    unfolding rtw_ops_add_interface_def Let_def
    apply (rule bind_ids [OF same_dev_get])
    apply (rule bind_ids [OF same_when_do [OF iface_ids_vif_upd]], simp)
    apply (rule bind_ids [OF iface_ids_vif_upd], simp)
    apply (rule bind_ids [OF same_dev_get])
    apply (rule bind_ids, intro same_rules same_ids_txq)
    apply (rule bind_ids [OF iface_ids_vif_upd], simp)
    apply (rule triple_bind [OF acquire_ok])
    apply (rule triple_bind [OF set_id])
    apply (rule triple_if)
     apply (rule triple_return, simp)
    apply (rule triple_bind [OF get_ports], assumption)
    apply (rule triple_if)
     apply (rule triple_return, simp add: on_ids_def)
    apply (rule triple_regroup, rule triple_bind [OF port_taken_ok [OF assms(3) refl]], simp, simp)
    apply (rule bind_ids [OF same_ids_leave_lps(1) [OF assms(1)]])
    apply (rule bind_ids [OF same_dev_get])
    apply (rule by_type)
    done
qed

lemma tripleD: "triple P m Q \<Longrightarrow> P s \<Longrightarrow> Q (fst (run_state m s)) (snd (run_state m s))"
  by (simp add: triple_def)

section \<open>Removing and changing\<close>

lemma remove_interface_ok:
  fixes ops :: "('e, 'x) rtw_drv_scheme rtw_drv_ops"
  assumes "ids_kept ops" "v \<in> A"
  shows "triple (on_ids (\<lambda>ids. iface_at A act ids \<and> snd (snd (snd (snd ids))) v = t)) (rtw_ops_remove_interface ops v)
    (\<lambda>_. on_ids (\<lambda>ids. iface_at (A - {v}) act ids \<and> (\<exists>k < RTW_PORT_NUM. \<not> fst (snd ids) k) \<and>
       (\<exists>k < RTW_MAX_MAC_ID_NUM. \<not> fst (snd (snd ids)) k) \<and> snd (snd (snd (snd ids))) v = t))"
proof -
  let ?P = "\<lambda>ids. iface_at A act ids \<and> snd (snd (snd (snd ids))) v = t"
  let ?Q = "\<lambda>ids. iface_at (A - {v}) act ids \<and> (\<exists>k < RTW_PORT_NUM. \<not> fst (snd ids) k) \<and>
       (\<exists>k < RTW_MAX_MAC_ID_NUM. \<not> fst (snd (snd ids)) k) \<and> snd (snd (snd (snd ids))) v = t"
  have give_back: "triple (on_ids ?P) (do { dev_upd (\<lambda>s. s\<lparr>hw_port := (hw_port s)(rv_port (vif_tbl s v) := False)\<rparr>);
      id \<leftarrow> dev_get (\<lambda>s. rv_mac_id (vif_tbl s v)); rtw_release_macid id; rtw_recalc_lps ops None }) (\<lambda>_. on_ids ?Q)"
    unfolding triple_def
  proof (intro allI impI)
    fix s :: "('e, 'x) rtw_drv_scheme"
    assume s: "on_ids ?P s"
    let ?s' = "s\<lparr>hw_port := (hw_port s)(rv_port (vif_tbl s v) := False),
      mac_id_map := (mac_id_map s)(unat (rv_mac_id (vif_tbl s v)) := False)\<rparr>"
    from s have ok: "iface_at A act (iface_ids s)" by (simp add: on_ids_def)
    have "rv_port (vif_tbl s v) < 5" "unat (rv_mac_id (vif_tbl s v)) < 32"
      using ok assms(2) by (auto simp: iface_at_def iface_ids_def)
    moreover have "iface_at (A - {v}) act (iface_ids ?s')"
      using ok assms(2) by (auto simp: iface_at_def iface_ids_def inj_on_def dest: word_unat_eq_iff [THEN iffD2])
    ultimately have "?Q (iface_ids ?s')" using s by (auto simp: on_ids_def iface_ids_def)
    then show "on_ids ?Q (snd (run_state (do { dev_upd (\<lambda>s. s\<lparr>hw_port := (hw_port s)(rv_port (vif_tbl s v) := False)\<rparr>);
      id \<leftarrow> dev_get (\<lambda>s. rv_mac_id (vif_tbl s v)); rtw_release_macid id; rtw_recalc_lps ops None }) s))"
      using same_snd [OF same_ids_recalc_lps [OF assms(1)], of None ?s'] by (simp add: on_ids_def rtw_release_macid_def)
  qed
  show ?thesis
    unfolding rtw_ops_remove_interface_def
    apply (rule bind_ids [OF same_ids_leave_lps(1) [OF assms(1)]])
    apply (rule bind_ids [OF same_dev_get])
    apply (rule bind_ids, intro same_rules same_ids_txq)
    apply (rule bind_ids [OF same_ids_pages(3)])
    apply (rule bind_ids [OF iface_ids_vif_upd], simp)
    apply (rule bind_ids [OF same_ids_port_config])
    apply (rule give_back)
    done
qed

text \<open>With a free port and a free identifier a supported interface is not refused.\<close>

abbreviation iface_type_ok :: "nl80211_iftype \<Rightarrow> bool" where
  "iface_type_ok t \<equiv> t \<in> {NL80211_IFTYPE_AP, NL80211_IFTYPE_MESH_POINT, NL80211_IFTYPE_ADHOC, NL80211_IFTYPE_STATION}"

lemma triple_top: "triple P m (\<lambda>_ _. True)"
  by (simp add: triple_def)

lemma add_interface_succeeds:
  fixes ops :: "('e, 'x) rtw_drv_scheme rtw_drv_ops"
  assumes "ids_kept ops" and "iface_type_ok t"
  shows "triple (on_ids (\<lambda>ids. (\<exists>k < RTW_PORT_NUM. \<not> fst (snd ids) k) \<and> (\<exists>k < RTW_MAX_MAC_ID_NUM. \<not> fst (snd (snd ids)) k) \<and>
      snd (snd (snd (snd ids))) v = t)) (rtw_ops_add_interface ops v) (\<lambda>ret _. ret = 0)"
proof -
  let ?P = "\<lambda>ids :: iface_ids. (\<exists>k < RTW_PORT_NUM. \<not> fst (snd ids) k) \<and> snd (snd (snd (snd ids))) v = t"
  have acquire: "triple (on_ids (\<lambda>ids. (\<exists>k < RTW_PORT_NUM. \<not> fst (snd ids) k) \<and> (\<exists>k < RTW_MAX_MAC_ID_NUM. \<not> fst (snd (snd ids)) k) \<and>
      snd (snd (snd (snd ids))) v = t)) (rtw_acquire_macid :: ('e, 'x, u8) drv) (\<lambda>mid s. unat mid < RTW_MAX_MAC_ID_NUM \<and> on_ids ?P s)"
    unfolding triple_def
  proof (intro allI impI)
    fix s :: "('e, 'x) rtw_drv_scheme"
    let ?i = "find_next (\<lambda>k. \<not> mac_id_map s k) 32 0"
    assume s: "on_ids (\<lambda>ids. (\<exists>k < RTW_PORT_NUM. \<not> fst (snd ids) k) \<and> (\<exists>k < RTW_MAX_MAC_ID_NUM. \<not> fst (snd (snd ids)) k) \<and>
      snd (snd (snd (snd ids))) v = t) s"
    then obtain k where "k < 32" "\<not> mac_id_map s k" by (auto simp: on_ids_def iface_ids_def)
    then have "?i \<le> k" using find_next_first [of 0 k "\<lambda>k. \<not> mac_id_map s k" 32] by (metis le0 not_le)
    with \<open>k < 32\<close> have "?i < 32" "unat (of_nat ?i :: u8) = ?i" by (simp_all add: unat_of_nat)
    with s show "unat (fst (run_state rtw_acquire_macid s)) < RTW_MAX_MAC_ID_NUM \<and> on_ids ?P (snd (run_state rtw_acquire_macid s))"
      by (simp add: rtw_acquire_macid_def Let_def on_ids_def iface_ids_def)
  qed
  have mid: "triple (on_ids ?P) (vif_upd v (\<lambda>r. r\<lparr>rv_mac_id := i\<rparr>) :: ('e, 'x, unit) drv) (\<lambda>_. on_ids ?P)" for i
    by (auto simp: triple_def on_ids_def iface_ids_def)
  have ports: "triple (on_ids ?P) (dev_get hw_port :: ('e, 'x, _) drv) (\<lambda>ports s. find_next (\<lambda>k. \<not> ports k) RTW_PORT_NUM 0 < RTW_PORT_NUM \<and>
      on_ids (\<lambda>ids. snd (snd (snd (snd ids))) v = t) s)"
  proof (rule triple_get)
    fix s :: "('e, 'x) rtw_drv_scheme"
    assume s: "on_ids ?P s"
    then obtain k where "k < 5" "\<not> hw_port s k" by (auto simp: on_ids_def iface_ids_def)
    then have "find_next (\<lambda>k. \<not> hw_port s k) 5 0 \<le> k"
      using find_next_first [of 0 k "\<lambda>k. \<not> hw_port s k" 5] by (metis le0 not_le)
    with s \<open>k < 5\<close> show "find_next (\<lambda>k. \<not> hw_port s k) RTW_PORT_NUM 0 < RTW_PORT_NUM \<and> on_ids (\<lambda>ids. snd (snd (snd (snd ids))) v = t) s"
      by (simp add: on_ids_def)
  qed
  have take: "triple (on_ids (\<lambda>ids. snd (snd (snd (snd ids))) v = t))
     (do { dev_upd (\<lambda>s. s\<lparr>hw_port := (hw_port s)(port := True)\<rparr>);
           vif_upd v (\<lambda>r. r\<lparr>rv_port := port, rv_conf := c\<rparr>) } :: ('e, 'x, unit) drv) (\<lambda>_. on_ids (\<lambda>ids. snd (snd (snd (snd ids))) v = t))" for port c
    by (auto simp: triple_def on_ids_def iface_ids_def)
  have type: "triple (on_ids (\<lambda>ids. snd (snd (snd (snd ids))) v = t)) (dev_get (\<lambda>s. rv_type (vif_tbl s v)) :: ('e, 'x, _) drv) (\<lambda>t' _. t' = t)"
    by (rule triple_get) (simp add: on_ids_def iface_ids_def)
  have known: "vif_setup t v \<noteq> (None :: (('e, 'x, unit) drv \<times> rtw_net_type \<times> u8) option)"
    using assms(2) by (auto simp: vif_setup_def)
  show ?thesis
    unfolding rtw_ops_add_interface_def Let_def
    apply (rule bind_ids [OF same_dev_get])
    apply (rule bind_ids [OF same_when_do [OF iface_ids_vif_upd]], simp)
    apply (rule bind_ids [OF iface_ids_vif_upd], simp)
    apply (rule bind_ids [OF same_dev_get])
    apply (rule bind_ids, intro same_rules same_ids_txq)
    apply (rule bind_ids [OF iface_ids_vif_upd], simp)
    apply (rule triple_bind [OF acquire], rule triple_pull)
    apply (rule triple_bind [OF mid])
    apply (rule triple_if, simp)
    apply (rule triple_bind [OF ports], rule triple_pull)
    apply (rule triple_if, simp)
    apply (rule triple_regroup, rule triple_bind [OF take])
    apply (rule bind_ids [OF same_ids_leave_lps(1) [OF assms(1)]])
    apply (rule triple_bind [OF type])
    using known apply (auto simp: triple_def split_def split: option.split)
    done
qed

lemma change_interface_ok:
  fixes ops :: "('e, 'x) rtw_drv_scheme rtw_drv_ops"
  assumes "ids_kept ops" "v \<in> A" "set act \<subseteq> A" "iface_type_ok t"
  shows "triple (on_ids (iface_at A act)) (rtw_ops_change_interface ops v t p2p) (\<lambda>ret s. ret = 0 \<and> on_ids (iface_at A act) s)"
proof -
  let ?R = "\<lambda>ids. iface_at (A - {v}) act ids \<and> (\<exists>k < RTW_PORT_NUM. \<not> fst (snd ids) k) \<and> (\<exists>k < RTW_MAX_MAC_ID_NUM. \<not> fst (snd (snd ids)) k)"
  have "triple (on_ids (iface_at A act)) (rtw_ops_remove_interface ops v) (\<lambda>_. on_ids ?R)"
    using remove_interface_ok [OF assms(1,2), of act] by (auto simp: triple_def on_ids_def)
  moreover have "triple (on_ids ?R) (vif_upd v (\<lambda>r. r\<lparr>rv_type := t, rv_p2p := p2p\<rparr>) :: ('e, 'x, unit) drv)
      (\<lambda>_. on_ids (\<lambda>ids. ?R ids \<and> snd (snd (snd (snd ids))) v = t))"
    unfolding triple_def
  proof (intro allI impI)
    fix s :: "('e, 'x) rtw_drv_scheme"
    assume s: "on_ids ?R s"
    let ?s' = "s\<lparr>vif_tbl := (vif_tbl s)(v := (vif_tbl s v)\<lparr>rv_type := t, rv_p2p := p2p\<rparr>)\<rparr>"
    have e: "fst (iface_ids ?s') = fst (iface_ids s)" by (auto simp: iface_ids_def fun_eq_iff)
    obtain e ports mids vs ty where ids: "iface_ids s = (e, ports, mids, vs, ty)" by (metis surj_pair)
    then have "iface_ids ?s' = (e, ports, mids, vs, ty(v := t))"
      using e by (auto simp: iface_ids_def fun_eq_iff)
    then show "on_ids (\<lambda>ids. ?R ids \<and> snd (snd (snd (snd ids))) v = t) (snd (run_state (vif_upd v (\<lambda>r. r\<lparr>rv_type := t, rv_p2p := p2p\<rparr>)) s))"
      using s ids by (auto simp: on_ids_def iface_at_def)
  qed
  moreover have "triple (on_ids (\<lambda>ids. ?R ids \<and> snd (snd (snd (snd ids))) v = t)) (rtw_ops_add_interface ops v)
      (\<lambda>ret s. ret = 0 \<and> on_ids (iface_at A act) s)"
    unfolding triple_def
  proof (intro allI impI)
    fix s :: "('e, 'x) rtw_drv_scheme"
    let ?r = "run_state (rtw_ops_add_interface ops v) s"
    assume s: "on_ids (\<lambda>ids. ?R ids \<and> snd (snd (snd (snd ids))) v = t) s"
    then have "fst ?r = 0"
      using add_interface_succeeds [OF assms(1,4), of v] by (auto simp: triple_def on_ids_def)
    moreover from s have "on_ids (iface_at (if fst ?r = 0 then insert v (A - {v}) else A - {v}) act) (snd ?r)"
      using assms(2,3) by (intro tripleD [OF add_interface_ok [OF assms(1)]]) (auto simp: on_ids_def)
    moreover have "insert v (A - {v}) = A" using assms(2) by auto
    ultimately show "fst ?r = 0 \<and> on_ids (iface_at A act) (snd ?r)" by simp
  qed
  ultimately show ?thesis
    unfolding rtw_ops_change_interface_def by (intro triple_bind)
qed

section \<open>Any sequence\<close>

text \<open>
  What mac80211 asks for: an interface is added when it is not there, and changed or removed when
  it is; a change is to a type the driver announces.
\<close>

datatype iface_op = IfAdd nat nl80211_iftype bool | IfRemove nat | IfChange nat nl80211_iftype bool

fun iface_do :: "('e, 'x) rtw_drv_scheme rtw_drv_ops \<Rightarrow> iface_op \<Rightarrow> ('e, 'x, unit) drv" where
  "iface_do ops (IfAdd v t p2p) =
     do { vs \<leftarrow> dev_get active_vifs;
          when_do (v \<notin> set vs)
            (do { vif_upd v (\<lambda>r. r\<lparr>rv_type := t, rv_p2p := p2p\<rparr>);
                  ret \<leftarrow> rtw_ops_add_interface ops v;
                  when_do (ret = 0) (dev_upd (\<lambda>s. s\<lparr>active_vifs := vs @ [v]\<rparr>)) }) }"
| "iface_do ops (IfRemove v) =
     do { vs \<leftarrow> dev_get active_vifs;
          when_do (v \<in> set vs)
            (do { dev_upd (\<lambda>s. s\<lparr>active_vifs := remove1 v vs\<rparr>); rtw_ops_remove_interface ops v }) }"
| "iface_do ops (IfChange v t p2p) =
     do { vs \<leftarrow> dev_get active_vifs;
          when_do (v \<in> set vs \<and> iface_type_ok t) (do { _ \<leftarrow> rtw_ops_change_interface ops v t p2p; skip }) }"

definition iface_inv :: "('e, 'x) rtw_drv_scheme \<Rightarrow> bool" where
  "iface_inv s \<longleftrightarrow> (\<exists>vs. distinct vs \<and> on_ids (iface_at (set vs) vs) s)"

lemma iface_invI: "distinct vs \<Longrightarrow> on_ids (iface_at (set vs) vs) s \<Longrightarrow> iface_inv s"
  by (auto simp: iface_inv_def)

lemma iface_inv_active: "iface_inv s \<Longrightarrow> distinct (active_vifs s) \<and> on_ids (iface_at (set (active_vifs s)) (active_vifs s)) s"
  by (auto simp: iface_inv_def on_ids_def iface_at_def iface_ids_def)

lemma iface_at_types: "on_ids (iface_at A act) s \<Longrightarrow> on_ids (iface_at A act) (s\<lparr>vif_tbl := (vif_tbl s)(v := (vif_tbl s v)\<lparr>rv_type := t, rv_p2p := p\<rparr>)\<rparr>)"
proof -
  let ?s' = "s\<lparr>vif_tbl := (vif_tbl s)(v := (vif_tbl s v)\<lparr>rv_type := t, rv_p2p := p\<rparr>)\<rparr>"
  assume s: "on_ids (iface_at A act) s"
  obtain e ports mids vs ty where ids: "iface_ids s = (e, ports, mids, vs, ty)" by (metis surj_pair)
  then have "iface_ids ?s' = (e, ports, mids, vs, ty(v := t))" by (auto simp: iface_ids_def fun_eq_iff)
  then show ?thesis using s ids by (simp add: on_ids_def iface_at_def)
qed

lemma iface_at_active: "on_ids (iface_at A act) s \<Longrightarrow> on_ids (iface_at A vs) (s\<lparr>active_vifs := vs\<rparr>)"
  by (simp add: on_ids_def iface_at_def iface_ids_def)

lemma iface_do_inv:
  assumes "ids_kept ops" "iface_inv s"
  shows "iface_inv (snd (run_state (iface_do ops e) s))"
proof -
  let ?vs = "active_vifs s"
  from assms(2) have d: "distinct ?vs" and s: "on_ids (iface_at (set ?vs) ?vs) s" by (auto dest: iface_inv_active)
  show ?thesis
  proof (cases e)
    case (IfAdd v t p2p)
    show ?thesis
    proof (cases "v \<in> set ?vs")
      case False
      let ?s1 = "s\<lparr>vif_tbl := (vif_tbl s)(v := (vif_tbl s v)\<lparr>rv_type := t, rv_p2p := p2p\<rparr>)\<rparr>"
      let ?r = "run_state (rtw_ops_add_interface ops v) ?s1"
      have "on_ids (iface_at (if fst ?r = 0 then insert v (set ?vs) else set ?vs) ?vs) (snd ?r)"
        by (intro tripleD [OF add_interface_ok [OF assms(1) _ False]] iface_at_types [OF s]) auto
      then have "if fst ?r = 0 then iface_inv ((snd ?r)\<lparr>active_vifs := ?vs @ [v]\<rparr>) else iface_inv (snd ?r)"
        using False d iface_at_active [of "insert v (set ?vs)" ?vs "snd ?r" "?vs @ [v]"]
          iface_invI [of "?vs @ [v]"] iface_invI [of ?vs] by auto
      then show ?thesis
        using False IfAdd by (simp add: split_def split: if_splits)
    qed (use assms(2) IfAdd in simp)
  next
    case (IfRemove v)
    show ?thesis
    proof (cases "v \<in> set ?vs")
      case True
      let ?vs' = "remove1 v ?vs"
      have "on_ids (iface_at (set ?vs) ?vs') (s\<lparr>active_vifs := ?vs'\<rparr>)" by (rule iface_at_active [OF s])
      then have "on_ids (iface_at (set ?vs - {v}) ?vs') (snd (run_state (rtw_ops_remove_interface ops v) (s\<lparr>active_vifs := ?vs'\<rparr>)))"
        using remove_interface_ok [OF assms(1) True, of ?vs'] by (auto simp: triple_def on_ids_def)
      then show ?thesis using True d IfRemove by (auto simp: iface_inv_def split_def intro!: exI [of _ ?vs'])
    qed (use assms(2) IfRemove in simp)
  next
    case (IfChange v t p2p)
    show ?thesis
    proof (cases "v \<in> set ?vs \<and> iface_type_ok t")
      case True
      then have "on_ids (iface_at (set ?vs) ?vs) (snd (run_state (rtw_ops_change_interface ops v t p2p) s))"
        using change_interface_ok [OF assms(1), of v "set ?vs" ?vs t p2p] s by (auto simp: triple_def)
      then show ?thesis using True d IfChange by (auto simp: iface_inv_def split_def)
    qed (use assms(2) IfChange in auto)
  qed
qed

text \<open>
  Property C16. Interfaces come, change and go in any order: every active one has a port and a
  firmware identifier of its own, and the registers of its port; a port is marked as used exactly
  when an active interface has it. And in every state so reached, changing the type of an active
  interface to a supported one succeeds (returns 0): the port and the identifier it gives back are
  there to be taken again.
\<close>

theorem iface_ports_distinct:
  fixes es :: "iface_op list"
  assumes "ids_kept ops" and "active_vifs s = []" and "\<forall>k. \<not> hw_port s k"
  defines "s' \<equiv> snd (run_state (for_each es (iface_do ops)) s)"
  shows "distinct (map (\<lambda>v. rv_port (vif_tbl s' v)) (active_vifs s')) \<and>
    distinct (map (\<lambda>v. rv_mac_id (vif_tbl s' v)) (active_vifs s')) \<and>
    (\<forall>v \<in> set (active_vifs s'). rv_port (vif_tbl s' v) < 5 \<and> rv_conf (vif_tbl s' v) = rtw_vif_ports ! rv_port (vif_tbl s' v) \<and>
       unat (rv_mac_id (vif_tbl s' v)) < 32 \<and> mac_id_map s' (unat (rv_mac_id (vif_tbl s' v)))) \<and>
    (\<forall>k. hw_port s' k \<longleftrightarrow> (\<exists>v \<in> set (active_vifs s'). rv_port (vif_tbl s' v) = k)) \<and>
    (\<forall>v \<in> set (active_vifs s'). \<forall>t p2p. iface_type_ok t \<longrightarrow>
       fst (run_state (rtw_ops_change_interface ops v t p2p) s') = 0)"
proof -
  have "iface_inv (snd (run_state (for_each es (iface_do ops)) t))" if "iface_inv t" for t
    using that
  proof (induction es arbitrary: t)
    case (Cons e es)
    then show ?case using iface_do_inv [OF assms(1) Cons.prems, of e] by (auto simp: split_def)
  qed simp
  moreover have "iface_inv s"
    using assms(2,3) by (auto simp: iface_inv_def on_ids_def iface_at_def iface_ids_def intro!: exI [of _ "[]"])
  ultimately have inv: "iface_inv s'" by (simp add: s'_def)
  then have "fst (run_state (rtw_ops_change_interface ops v t p2p) s') = 0"
    if "v \<in> set (active_vifs s')" "iface_type_ok t" for v t p2p
    using tripleD [OF change_interface_ok [OF assms(1) that(1) subset_refl that(2)]] iface_inv_active [OF inv]
    by blast
  moreover from inv have "distinct (map (\<lambda>v. rv_port (vif_tbl s' v)) (active_vifs s')) \<and>
    distinct (map (\<lambda>v. rv_mac_id (vif_tbl s' v)) (active_vifs s')) \<and>
    (\<forall>v \<in> set (active_vifs s'). rv_port (vif_tbl s' v) < 5 \<and> rv_conf (vif_tbl s' v) = rtw_vif_ports ! rv_port (vif_tbl s' v) \<and>
       unat (rv_mac_id (vif_tbl s' v)) < 32 \<and> mac_id_map s' (unat (rv_mac_id (vif_tbl s' v)))) \<and>
    (\<forall>k. hw_port s' k \<longleftrightarrow> (\<exists>v \<in> set (active_vifs s'). rv_port (vif_tbl s' v) = k))"
    by (auto simp: distinct_map on_ids_def iface_at_def iface_ids_def dest!: iface_inv_active)
  ultimately show ?thesis by blast
qed

text \<open>A station joined by an access point, which then becomes a mesh point.\<close>

lemma iface_ports_distinct_witness:
  "\<forall>(ops :: (unit, unit) rtw_drv_scheme rtw_drv_ops) (s :: (unit, unit) rtw_drv_scheme).
     distinct (map (\<lambda>v. rv_port (vif_tbl (snd (run_state (for_each
         [IfAdd 0 NL80211_IFTYPE_STATION False, IfAdd 1 NL80211_IFTYPE_AP False, IfChange 1 NL80211_IFTYPE_MESH_POINT False, IfRemove 0]
         (iface_do (ops\<lparr>do_deep_ps := \<lambda>_. skip, do_link_ps := \<lambda>_. skip, do_coex := \<lambda>_. skip\<rparr>)))
         (s\<lparr>active_vifs := [], hw_port := \<lambda>_. False\<rparr>))) v))
       (active_vifs (snd (run_state (for_each
         [IfAdd 0 NL80211_IFTYPE_STATION False, IfAdd 1 NL80211_IFTYPE_AP False, IfChange 1 NL80211_IFTYPE_MESH_POINT False, IfRemove 0]
         (iface_do (ops\<lparr>do_deep_ps := \<lambda>_. skip, do_link_ps := \<lambda>_. skip, do_coex := \<lambda>_. skip\<rparr>)))
         (s\<lparr>active_vifs := [], hw_port := \<lambda>_. False\<rparr>)))))"
  by (intro allI conjunct1 [OF iface_ports_distinct]) (simp_all add: ids_kept_def same_skip)

end
