(* ===== verification/Spec2Isabelle.thy ===== *)
theory Spec2Isabelle
  imports UsbTxProps UsbRxProps UsbLifecycle FwImage EfuseProps PhyTable XxaPower XxaChannel LltProps
    IqkProps PhyDmProps TxLimitProps XxaDmProps FwProps StaRate Ps
    Core Tx MacOpsProps
begin

text \<open>
  A model of the RTL8812AU driver (a fork of rtw88) and the theorems that make its core correct.

  \<^bold>\<open>The program.\<close> A USB bus module (\<open>usb.c\<close>) carries register accesses as control transfers
  and frames as bulk transfers; the MAC layer (\<open>mac.c\<close>) switches the chip on, lays out its buffer
  and downloads the firmware; the chip code (\<open>rtw88xxa.c\<close>, \<open>rtw8812a.c\<close>) sets up and calibrates
  baseband and RF with the help of \<open>phy.c\<close>, from tables (\<open>rtw8812a_table.c\<close>) and the efuse
  (\<open>efuse.c\<close>); \<open>rx.c\<close> and \<open>tx.c\<close> translate between frames and descriptors.

  \<^bold>\<open>How the code is modelled.\<close> A structure is a record, an integer a word of its width, an
  \<open>int\<close> return code a HOL integer. A routine that touches registers is a state transformer over
  a record that extends \<open>Regio.hw\<close>: the adapter is a function from the history of accesses to
  the next answer, so every theorem holds for every behaviour of the hardware, and the effect of a
  routine is the list of accesses it appends. Allocation and submission outcomes, the clock of a
  polling loop, the firmware file and the kernel's averages are parameters. Undefined behaviour of
  C (a store or read out of bounds, a null pointer) is a result of its own (\<open>COob\<close>, \<open>Oob\<close>,
  \<open>None\<close>), and a \<open>while (1)\<close> loop has fuel, with a theorem that the fuel is enough.

  \<^bold>\<open>Theories.\<close>
  \<^item> \<open>Prelude\<close>, \<open>Bitfield\<close> (\<open>bitfield.h\<close>), \<open>Regio\<close> (\<open>hci.h\<close>: the register interface, its contract as
    the locale \<open>reg_bus\<close>, the frame calculus \<open>acts\<close>/\<open>quiet\<close>), \<open>Calculus\<close> (\<open>returns\<close>, \<open>emits\<close>),
    \<open>Regs\<close> (addresses and masks).
  \<^item> \<open>UsbCtrl\<close>: control transfers with retries, and the proof that they implement \<open>reg_bus\<close>; a read as
    the list of its transfers (\<open>read_attempts\<close>), of which only the last one's bytes are returned.
  \<^item> \<open>TxDesc\<close>, \<open>UsbTx\<close>, \<open>UsbTxProps\<close>: descriptor, queues, aggregation, completion; conservation and
    routing of frames over all event sequences.
  \<^item> \<open>RxDesc\<close>, \<open>Frames\<close>, \<open>Rssi\<close>, \<open>UsbRx\<close>, \<open>UsbRxProps\<close>: receive descriptor and status, statistics,
    the receive buffers with their retry work; ownership in every interleaving, and recovery by the retry work after any
    failures, if its own calls succeed.
  \<^item> \<open>UsbLifecycle\<close>: bring-up, USB 3 switch, probe and disconnect with their error paths.
  \<^item> \<open>Mac\<close>, \<open>MacPower\<close>, \<open>MacFifo\<close>, \<open>MacFw\<close>, \<open>Chip8812a\<close>, \<open>FwImage\<close>: power sequences and their
    specification, buffer pages, both firmware downloads, the image they leave in the chip.
  \<^item> \<open>Hal\<close>, \<open>Efuse\<close>, \<open>EfuseProps\<close>: the device as the chip code sees it; the efuse map and its
    decoder, with a round trip and bounds for every protected size: the code reads up to one byte behind
    the physical map when none is protected, as on the RTL8812A.
  \<^item> \<open>Phy\<close>, \<open>Tables8812a\<close>, \<open>PhyTable\<close>: RF registers, the interpreter of conditional tables, and its
    equivalence with the selection of one arm per group; the chip's seven tables are well-formed.
  \<^item> \<open>Xxa\<close>, \<open>XxaBand\<close>, \<open>XxaPower\<close>, \<open>XxaChannel\<close>, \<open>LltProps\<close>: switching the chip on and off, bands,
    channels, and the link list of the transmit buffer.
  \<^item> \<open>Iqk8812a\<close>, \<open>IqkProps\<close>: LC and IQ calibration; termination, array bounds, and the registers
    written back on their pages, those of the RF front end included.
  \<^item> \<open>TxPower\<close>, \<open>TxTables8812a\<close>, \<open>TxPowerProps\<close>, \<open>TxLimitProps\<close>, \<open>PhyPower\<close>: power by rate,
    regulatory limits and the power index of a rate, closed forms of the loops over the tables, the
    worldwide limit; loading the tables and setting the level of a channel.
  \<^item> \<open>PhyDm\<close>, \<open>PhyDmProps\<close>, \<open>XxaDm\<close>, \<open>XxaDmProps\<close>: what the watchdog does every two seconds:
    statistics, initial gain, packet detection, response rates, temperature compensation; when
    the gain is held (\<open>gain_held\<close>) and what it is otherwise, the split of the compensation, the words of the power registers.
  \<^item> \<open>Drv\<close>: the state of the driver core above the PHY (\<open>main.h\<close>). \<open>FwMsg\<close>, \<open>FwCmd\<close>, \<open>FwProps\<close>: the
    fields of the firmware messages, every command of \<open>fw.c\<close>, the mailbox protocol as the firmware
    sees it, with the exact condition for the loss of a command (\<open>h2c_delivery\<close>), and the decoding of the rate adaptation messages. \<open>DrvFrame\<close>: frames of the core's routines.
  \<^item> \<open>StaRate\<close>: the rates of a station (\<open>main.c\<close>) and the configured mask (\<open>mac80211.c\<close>). \<open>Ps\<close>: leisure
    power save (\<open>ps.c\<close>), a switch under any sequence of calls, over the locale \<open>lps_host\<close>, interpreted for
    USB adapters without Bluetooth, where \<open>rtw_coex_lps_notify\<close> returns at its guard.
  \<^item> \<open>Sec\<close>: the key table, and the memory of the cipher engine it is written to (\<open>sec.c\<close>), for keys of
    any length (\<open>key_past\<close> is what lies behind a short one). \<open>Channel\<close>:
    the operating channel. \<open>Core\<close>: ports, stations, idle power save, watchdog and recovery (\<open>main.c\<close>).
    \<open>Tx\<close>: the parameters of a frame, the queues, and which frame a report settles (\<open>tx.c\<close>).
  \<^item> \<open>Rsvd\<close>, \<open>RsvdProps\<close>: the reserved pages (\<open>fw.c\<close>), their packets as heap objects with owners (\<open>rsvd_sound\<close>: each is on the list of its owner, none
    is leaked), and where
    they lie in the downloaded image. \<open>Scan\<close>: the scan the firmware does, its channel list read back field by field,
    and the return to the operating channel. \<open>C2h\<close>: messages from the firmware and their handlers.
  \<^item> \<open>MacOps\<close>, \<open>MacOpsProps\<close>: the callbacks of \<open>mac80211.c\<close>; ports and identifiers of the interfaces
    over any sequence of additions, changes and removals.

  \<^bold>\<open>Bounds and fuel.\<close> A register read has at most two retries; a poll of the link list at most 22
  reads, of an efuse cell 1000000, of the hardware ready bit 1000: the constants of the code. A
  timeout in time (\<open>read_poll_timeout\<close>) becomes a number of polls, a parameter (\<open>poll_max\<close>). The two
  calibration loops have ten rounds, and \<open>rtw8812a_iqk_returns\<close> shows that more change nothing.

  \<^bold>\<open>Interleavings.\<close> The transmit and receive paths are event systems: each handler is one step.
  \<open>rtw_usb_setup_rx\<close> is one step although completions can already arrive while it submits.

  \<^bold>\<open>Not modelled.\<close> Registration and core dumps (\<open>main.c\<close>), beamforming, suspend and resume with wake on
  wireless LAN, and Bluetooth coexistence, which the RTL8812AU does not use. The debug file system, LEDs and module registration have no logic of
  their own. The patch series under \<open>patches\<close> are copies of upstream files.
\<close>

end
